(* ===== verification/Prelude.thy ===== *)
theory Prelude
  imports Complex_Main "HOL-Library.Multiset" "HOL-Library.Product_Lexorder" "HOL-Library.List_Lexorder" "HOL-Library.Char_ord"
begin

text \<open>
  The shared base of the development: the result type of the service functions (a Python
  function either raises or returns, so a call is a value of \<open>exn + 'a\<close>), the sequencing
  combinators \<open>bindE\<close>, \<open>raise_if\<close> and \<open>foldE\<close> with their automation, Python truthiness of the
  optional values the services test, and generic lemmas on lists that several components use.
\<close>

section \<open>Fact collections\<close>

named_theorems sample_eval "definitions that evaluate an operation on a concrete state"

section \<open>Basic types of the schema\<close>

text \<open>A timestamp counts microseconds, a calendar date counts days; only their order is used.\<close>

type_synonym datetime = int
type_synonym date = int

text \<open>\<open>Decimal\<close> values are exact rationals (the columns hold at most 20 digits, which is below
  the 28 digits of Python's default decimal context).\<close>

type_synonym decimal = rat

section \<open>Results of calls that may raise\<close>

definition bindE :: "'e + 'a \<Rightarrow> ('a \<Rightarrow> 'e + 'b) \<Rightarrow> 'e + 'b" where
  "bindE m f = (case m of Inl e \<Rightarrow> Inl e | Inr x \<Rightarrow> f x)"

definition raise_if :: "bool \<Rightarrow> 'e \<Rightarrow> 'e + unit" where
  "raise_if b e = (if b then Inl e else Inr ())"

definition of_option :: "'e \<Rightarrow> 'a option \<Rightarrow> 'e + 'a" where
  "of_option e m = (case m of None \<Rightarrow> Inl e | Some x \<Rightarrow> Inr x)"

text \<open>A \<open>for\<close> loop that threads a state and stops at the first exception.\<close>

fun foldE :: "('x \<Rightarrow> 's \<Rightarrow> 'e + 's) \<Rightarrow> 'x list \<Rightarrow> 's \<Rightarrow> 'e + 's" where
  "foldE f [] s = Inr s"
| "foldE f (x # xs) s = bindE (f x s) (foldE f xs)"

lemma bindE_simps [simp]:
  "bindE (Inl e) f = Inl e"
  "bindE (Inr x) f = f x"
  by (simp_all add: bindE_def)

lemma bindE_eq_Inr [simp]: "bindE m f = Inr y \<longleftrightarrow> (\<exists>x. m = Inr x \<and> f x = Inr y)"
  by (cases m) auto

lemma bindE_eq_Inl: "bindE m f = Inl e \<longleftrightarrow> m = Inl e \<or> (\<exists>x. m = Inr x \<and> f x = Inl e)"
  by (cases m) auto

lemma bindE_assoc: "bindE (bindE m f) g = bindE m (\<lambda>x. bindE (f x) g)"
  by (cases m) auto

lemma raise_if_eq_Inr [simp]: "raise_if b e = Inr u \<longleftrightarrow> \<not> b"
  by (simp add: raise_if_def)

lemma raise_if_eq_Inl [simp]: "raise_if b e = Inl e' \<longleftrightarrow> b \<and> e = e'"
  by (auto simp: raise_if_def)

lemma raise_if_simps [simp]:
  "raise_if True e = Inl e"
  "raise_if False e = Inr ()"
  by (simp_all add: raise_if_def)

lemma of_option_eq_Inr [simp]: "of_option e m = Inr x \<longleftrightarrow> m = Some x"
  by (cases m) (auto simp: of_option_def)

lemma of_option_eq_Inl [simp]: "of_option e m = Inl e' \<longleftrightarrow> m = None \<and> e = e'"
  by (cases m) (auto simp: of_option_def)

lemma of_option_simps [simp]:
  "of_option e None = Inl e"
  "of_option e (Some x) = Inr x"
  by (simp_all add: of_option_def)

lemma foldE_append: "foldE f (xs @ ys) s = bindE (foldE f xs s) (foldE f ys)"
proof (induction xs arbitrary: s)
  case (Cons x xs)
  then show ?case by (cases "f x s") auto
qed simp

text \<open>The invariant rule of such a loop.\<close>

lemma foldE_invariant:
  assumes "foldE f xs s = Inr t" "I s"
    and "\<And>x u v. x \<in> set xs \<Longrightarrow> I u \<Longrightarrow> f x u = Inr v \<Longrightarrow> I v"
  shows "I t"
  using assms by (induction xs arbitrary: s) auto

lemma foldE_total:
  assumes "\<And>x u. x \<in> set xs \<Longrightarrow> \<exists>v. f x u = Inr v"
  shows "\<exists>t. foldE f xs s = Inr t"
  using assms
proof (induction xs arbitrary: s)
  case (Cons x xs)
  from Cons.prems obtain v where "f x s = Inr v" by fastforce
  with Cons show ?case by auto
qed simp

section \<open>Python truthiness and \<open>or\<close>\<close>

text \<open>\<open>if x:\<close> on an optional string: absent, \<open>None\<close> and the empty string are all false.\<close>

definition truthy :: "string option \<Rightarrow> bool" where
  "truthy s = (s \<noteq> None \<and> s \<noteq> Some [])"

lemma truthy_simps [simp]:
  "\<not> truthy None"
  "\<not> truthy (Some [])"
  "truthy (Some (c # cs))"
  by (simp_all add: truthy_def)

text \<open>\<open>x or y\<close> on optional values where the empty string is false.\<close>

definition or_str :: "string option \<Rightarrow> string option \<Rightarrow> string option" where
  "or_str x y = (if truthy x then x else y)"

text \<open>\<open>data.get(k, d)\<close> where the key may be absent.\<close>

definition get_default :: "'a \<Rightarrow> 'a option \<Rightarrow> 'a" where
  "get_default d m = (case m of None \<Rightarrow> d | Some x \<Rightarrow> x)"

lemma get_default_simps [simp]:
  "get_default d None = d"
  "get_default d (Some x) = x"
  by (simp_all add: get_default_def)

section \<open>Lists\<close>

lemma filter_unique_key:
  assumes "distinct (map k xs)" "x \<in> set xs"
  shows "filter (\<lambda>y. k y = k x) xs = [x]"
  using assms
proof (induction xs)
  case (Cons y ys)
  show ?case
  proof (cases "y = x")
    case True
    with Cons.prems have "k x \<notin> k ` set ys" by simp
    then have "filter (\<lambda>z. k z = k x) ys = []" by (metis (mono_tags, lifting) filter_False image_eqI)
    with True show ?thesis by simp
  next
    case False
    with Cons.prems have "x \<in> set ys" "k y \<noteq> k x" by auto
    with Cons show ?thesis by simp
  qed
qed simp

lemma sort_key_const:
  assumes "\<And>x y. x \<in> set xs \<Longrightarrow> y \<in> set xs \<Longrightarrow> k x = k y"
  shows "sort_key k xs = xs"
  using assms
proof (induction xs)
  case (Cons x xs)
  then have "sort_key k xs = xs" by (metis list.set_intros(2))
  moreover have "insort_key k x xs = x # xs"
  proof (cases xs)
    case eq: (Cons a as)
    then have "k x = k a" using Cons.prems by simp
    with eq show ?thesis by simp
  qed simp
  ultimately show ?case by simp
qed simp

lemma sum_list_sort_key: "sum_list (map f (sort_key k xs)) = (sum_list (map f xs) :: rat)"
  by (metis mset_map mset_sort sum_mset_sum_list)

lemma sum_list_pos_member:
  assumes "\<forall>x\<in>set xs. 0 \<le> (f x :: rat)" "y \<in> set xs"
  shows "f y \<le> sum_list (map f xs)"
  using assms
proof (induction xs)
  case (Cons x xs)
  have "0 \<le> sum_list (map f xs)" using Cons.prems(1) by (intro sum_list_nonneg) auto
  with Cons show ?case by (auto intro: add_increasing)
qed simp

section \<open>Text\<close>

text \<open>\<open>str(n)\<close> of a natural number, zero padding (\<open>:04d\<close>), \<open>str.upper()\<close>, \<open>sep.join\<close> and a string in quotes (\<open>repr\<close>).\<close>

fun digits_of :: "nat \<Rightarrow> nat list" where
  "digits_of n = (if n < 10 then [n] else digits_of (n div 10) @ [n mod 10])"

declare digits_of.simps [simp del]

definition show_nat :: "nat \<Rightarrow> string" where
  "show_nat n = map (\<lambda>k. char_of (48 + k)) (digits_of n)"

definition zero_pad :: "nat \<Rightarrow> string \<Rightarrow> string" where
  "zero_pad w s = replicate (w - length s) (CHR ''0'') @ s"

definition upper :: "string \<Rightarrow> string" where
  "upper s = map (\<lambda>ch. let c = of_char ch :: nat in if 97 \<le> c \<and> c \<le> 122 then char_of (c - 32) else ch) s"

fun join :: "string \<Rightarrow> string list \<Rightarrow> string" where
  "join sep [] = []"
| "join sep [x] = x"
| "join sep (x # y # xs) = x @ sep @ join sep (y # xs)"

definition quoted :: "string \<Rightarrow> string" where
  "quoted s = [CHR 0x27] @ s @ [CHR 0x27]"

lemma digits_of_value: "foldl (\<lambda>a k. 10 * a + k) 0 (digits_of n) = n"
proof (induction n rule: digits_of.induct)
  case (1 n)
  then show ?case by (subst digits_of.simps) simp
qed

lemma digits_of_less_10: "k \<in> set (digits_of n) \<Longrightarrow> k < 10"
proof (induction n rule: digits_of.induct)
  case (1 n)
  then show ?case by (subst (asm) (2) digits_of.simps) (auto split: if_splits)
qed

lemma digit_char_inj:
  assumes "a < (10::nat)" "b < 10" "(char_of (48 + a) :: char) = char_of (48 + b)"
  shows "a = b"
proof -
  from assms(3) have "(of_char (char_of (48 + a) :: char) :: nat) = of_char (char_of (48 + b) :: char)" by simp
  with assms(1,2) show ?thesis by simp
qed

lemma show_nat_inj [simp]: "show_nat m = show_nat n \<longleftrightarrow> m = n"
proof
  assume eq: "show_nat m = show_nat n"
  have "inj_on (\<lambda>k. char_of (48 + k) :: char) {k::nat. k < 10}"
    by (rule inj_onI) (use digit_char_inj in auto)
  then have "digits_of m = digits_of n"
    using eq digits_of_less_10 unfolding show_nat_def
    by (intro map_inj_on[where f = "\<lambda>k. char_of (48 + k) :: char"]) (auto elim!: inj_on_subset)
  then show "m = n" using digits_of_value by metis
qed simp

end
