(* ===== verification/Exceptions.thy ===== *)
theory Exceptions
  imports Prelude
begin

text \<open>
  The exceptions of \<open>src/core/exceptions.py\<close> (application errors with a code, an HTTP status and
  a message), the built-in and library exceptions the services can let escape, and the mapping a
  router applies (\<open>404 if isinstance(e, NotFoundException) else 422\<close>; everything else is 500).
\<close>

section \<open>Exceptions\<close>

datatype exn =
    NotFoundException string
  | ValidationException string "string option"
  | AuthException string
  | PermissionDeniedException string
  | RateLimitException string
  | HTTPException nat string
  | ValueError
  | TypeError
  | KeyError string
  | IndexError
  | AttributeError
  | LookupError
  | InvalidOperation
  | IntegrityError
  | DataError
  | MultipleResultsFound
  | MissingGreenlet
  | InvalidRequestError
  | PendingRollbackError
  | ImportError
  | NotificationDeliveryError string

abbreviation validation :: "string \<Rightarrow> exn" where
  "validation m \<equiv> ValidationException m None"

type_synonym 'a result = "exn + 'a"

text \<open>The fields that the constructors of the exception classes pass to \<open>AppException\<close>.\<close>

fun exn_code :: "exn \<Rightarrow> string option" where
  "exn_code (NotFoundException m) = Some ''NOT_FOUND''"
| "exn_code (ValidationException m d) = Some ''VALIDATION_ERROR''"
| "exn_code (AuthException m) = Some ''AUTH_FAILED''"
| "exn_code (PermissionDeniedException m) = Some ''PERMISSION_DENIED''"
| "exn_code (RateLimitException m) = Some ''RATE_LIMIT_EXCEEDED''"
| "exn_code _ = None"

fun exn_status_code :: "exn \<Rightarrow> nat option" where
  "exn_status_code (NotFoundException m) = Some 404"
| "exn_status_code (ValidationException m d) = Some 422"
| "exn_status_code (AuthException m) = Some 401"
| "exn_status_code (PermissionDeniedException m) = Some 403"
| "exn_status_code (RateLimitException m) = Some 429"
| "exn_status_code (HTTPException c m) = Some c"
| "exn_status_code _ = None"

fun exn_message :: "exn \<Rightarrow> string" where
  "exn_message (NotFoundException m) = m"
| "exn_message (ValidationException m d) = m"
| "exn_message (AuthException m) = m"
| "exn_message (PermissionDeniedException m) = m"
| "exn_message (RateLimitException m) = m"
| "exn_message (HTTPException c m) = m"
| "exn_message _ = []"

definition app_exception_str :: "exn \<Rightarrow> string" where
  "app_exception_str e = ''Error '' @ get_default [] (exn_code e) @ '': '' @ exn_message e"

text \<open>
  The router wrapper \<open>except (NotFoundException, ValidationException) as e\<close> that turns a service
  exception into the HTTP response code; any other exception escapes it (status 500).
\<close>

fun router_status :: "exn \<Rightarrow> nat" where
  "router_status (NotFoundException m) = 404"
| "router_status (ValidationException m d) = 422"
| "router_status (HTTPException c m) = c"
| "router_status _ = 500"

definition is_not_found :: "exn \<Rightarrow> bool" where
  "is_not_found e = (case e of NotFoundException _ \<Rightarrow> True | _ \<Rightarrow> False)"

definition is_validation :: "exn \<Rightarrow> bool" where
  "is_validation e = (case e of ValidationException _ _ \<Rightarrow> True | _ \<Rightarrow> False)"

lemma is_not_found_simps [simp]: "is_not_found (NotFoundException m)"
  by (simp add: is_not_found_def)

lemma is_validation_simps [simp]: "is_validation (ValidationException m d)"
  by (simp add: is_validation_def)

lemma router_status_app:
  "is_not_found e \<Longrightarrow> exn_status_code e = Some (router_status e)"
  "is_validation e \<Longrightarrow> exn_status_code e = Some (router_status e)"
  by (cases e; simp add: is_not_found_def is_validation_def)+

end
