(* ===== verification/Uuid.thy ===== *)
theory Uuid
  imports Exceptions "HOL-Library.Word"
begin

text \<open>
  Identifiers. Every table is keyed by a 128-bit UUID; the API passes them as strings. This theory
  models \<open>str(uuid)\<close>, the parser \<open>uuid.UUID(string)\<close> with everything it accepts (\<open>urn:\<close> and
  \<open>uuid:\<close> prefixes, braces, hyphens anywhere, and what \<open>int(s, 16)\<close> accepts), and the services'
  converters \<open>_to_uuid\<close> (raises \<open>ValueError\<close>) and \<open>_safe_uuid\<close> (gives \<open>None\<close>). The main
  lemma is the round trip: parsing a printed identifier gives it back.
\<close>

type_synonym uuid = "128 word"

section \<open>Printing\<close>

definition hex_char :: "nat \<Rightarrow> char" where
  "hex_char d = (if d < 10 then char_of (48 + d) else char_of (87 + d))"

fun hex_digits :: "nat \<Rightarrow> nat \<Rightarrow> string" where
  "hex_digits 0 n = []"
| "hex_digits (Suc k) n = hex_digits k (n div 16) @ [hex_char (n mod 16)]"

definition uuid_hex :: "uuid \<Rightarrow> string" where
  "uuid_hex u = hex_digits 32 (unat u)"

definition show_uuid :: "uuid \<Rightarrow> string" where
  "show_uuid u =
     (let h = uuid_hex u in
      take 8 h @ ''-'' @ take 4 (drop 8 h) @ ''-'' @ take 4 (drop 12 h) @ ''-'' @
      take 4 (drop 16 h) @ ''-'' @ drop 20 h)"

section \<open>Parsing\<close>

definition hex_val :: "char \<Rightarrow> nat option" where
  "hex_val ch =
     (let c = of_char ch :: nat in
      if 48 \<le> c \<and> c \<le> 57 then Some (c - 48)
      else if 97 \<le> c \<and> c \<le> 102 then Some (c - 87)
      else if 65 \<le> c \<and> c \<le> 70 then Some (c - 55)
      else None)"

text \<open>Digits of \<open>int(s, 16)\<close>: a single underscore is allowed between two digits.\<close>

fun hex_value :: "bool \<Rightarrow> nat \<Rightarrow> string \<Rightarrow> nat option" where
  "hex_value prev acc [] = (if prev then Some acc else None)"
| "hex_value prev acc (c # cs) =
     (if c = CHR ''_'' then (if prev then hex_value False acc cs else None)
      else case hex_val c of None \<Rightarrow> None | Some d \<Rightarrow> hex_value True (16 * acc + d) cs)"

text \<open>White space among the code points below 256.\<close>

definition py_space :: "char \<Rightarrow> bool" where
  "py_space ch = (let c = of_char ch :: nat in (9 \<le> c \<and> c \<le> 13) \<or> (28 \<le> c \<and> c \<le> 32) \<or> c = 133 \<or> c = 160)"

definition strip_by :: "(char \<Rightarrow> bool) \<Rightarrow> string \<Rightarrow> string" where
  "strip_by p s = rev (dropWhile p (rev (dropWhile p s)))"

definition drop_0x :: "string \<Rightarrow> string" where
  "drop_0x s =
     (case s of
        a # b # r \<Rightarrow>
          (if a = CHR ''0'' \<and> (b = CHR ''x'' \<or> b = CHR ''X'')
           then (case r of c # r' \<Rightarrow> if c = CHR ''_'' then r' else r | [] \<Rightarrow> r) else s)
      | _ \<Rightarrow> s)"

definition int_of_hex :: "string \<Rightarrow> int option" where
  "int_of_hex s =
     (case strip_by py_space s of
        [] \<Rightarrow> None
      | c # r \<Rightarrow>
          if c = CHR ''-'' then map_option (\<lambda>n. - int n) (hex_value False 0 (drop_0x r))
          else if c = CHR ''+'' then map_option int (hex_value False 0 (drop_0x r))
          else map_option int (hex_value False 0 (drop_0x (c # r))))"

text \<open>\<open>s.replace(p, '')\<close> for a non-empty \<open>p\<close>.\<close>

function remove_sub :: "string \<Rightarrow> string \<Rightarrow> string" where
  "remove_sub p s =
     (case s of
        [] \<Rightarrow> []
      | c # cs \<Rightarrow> if p \<noteq> [] \<and> take (length p) s = p then remove_sub p (drop (length p) s)
                  else c # remove_sub p cs)"
  by pat_completeness auto
termination
  by (relation "measure (\<lambda>(p, s). length s)") auto

declare remove_sub.simps [simp del]

definition parse_uuid :: "string \<Rightarrow> uuid option" where
  "parse_uuid s =
     (let h = filter (\<lambda>c. c \<noteq> CHR ''-'')
               (strip_by (\<lambda>c. c = CHR ''{'' \<or> c = CHR ''}'') (remove_sub ''uuid:'' (remove_sub ''urn:'' s)))
      in if length h \<noteq> 32 then None
         else case int_of_hex h of
                None \<Rightarrow> None
              | Some i \<Rightarrow> if 0 \<le> i \<and> i < 2 ^ 128 then Some (word_of_int i) else None)"

section \<open>The converters of the services\<close>

text \<open>\<open>_to_uuid(val)\<close> on a string, and on an optional string.\<close>

definition to_uuid :: "string \<Rightarrow> uuid result" where
  "to_uuid s = of_option ValueError (parse_uuid s)"

definition to_uuid_opt :: "string option \<Rightarrow> uuid option result" where
  "to_uuid_opt v = (case v of None \<Rightarrow> Inr None | Some s \<Rightarrow> bindE (to_uuid s) (\<lambda>u. Inr (Some u)))"

text \<open>\<open>_safe_uuid(val)\<close>: malformed input is \<open>None\<close>.\<close>

definition safe_uuid :: "string \<Rightarrow> uuid option" where
  "safe_uuid s = (case to_uuid s of Inl e \<Rightarrow> None | Inr u \<Rightarrow> Some u)"

text \<open>\<open>_to_uuid(x) if x else None\<close>, the idiom of the create functions.\<close>

definition uuid_if_truthy :: "string option \<Rightarrow> uuid option result" where
  "uuid_if_truthy v = (if truthy v then to_uuid_opt v else Inr None)"

section \<open>The round trip\<close>

lemma length_hex_digits [simp]: "length (hex_digits k n) = k"
  by (induction k arbitrary: n) auto

lemma length_uuid_hex [simp]: "length (uuid_hex u) = 32"
  by (simp add: uuid_hex_def)

lemma of_char_hex_char: "d < 16 \<Longrightarrow> (of_char (hex_char d) :: nat) = (if d < 10 then 48 + d else 87 + d)"
  by (simp add: hex_char_def)

lemma hex_char_less_16:
  assumes "d < 16"
  shows "hex_val (hex_char d) = Some d"
    and "hex_char d \<notin> {CHR ''-'', CHR ''_'', CHR ''u'', CHR ''x'', CHR ''X'', CHR ''{'', CHR ''}'', CHR ''+''}"
    and "\<not> py_space (hex_char d)"
proof -
  note v = of_char_hex_char[OF assms]
  show "hex_val (hex_char d) = Some d"
    using assms by (simp add: hex_val_def Let_def v)
  show "\<not> py_space (hex_char d)"
    using assms by (simp add: py_space_def Let_def v)
  have "hex_char d \<noteq> c" if "(of_char c :: nat) \<in> {43, 45, 88, 95, 117, 120, 123, 125}" for c
    using that assms v by (auto split: if_splits)
  then show "hex_char d \<notin> {CHR ''-'', CHR ''_'', CHR ''u'', CHR ''x'', CHR ''X'', CHR ''{'', CHR ''}'', CHR ''+''}"
    by simp
qed

definition hex_string :: "string \<Rightarrow> bool" where
  "hex_string s = (\<forall>c\<in>set s. \<exists>d<16. c = hex_char d)"

lemma hex_string_digits: "hex_string (hex_digits k n)"
proof (induction k arbitrary: n)
  case (Suc k)
  have "\<exists>d<16. hex_char (n mod 16) = hex_char d" by (rule exI [of _ "n mod 16"]) simp
  with Suc show ?case by (auto simp: hex_string_def)
qed (simp add: hex_string_def)

lemma hex_string_not_in:
  assumes "hex_string s"
  shows "CHR ''-'' \<notin> set s" "CHR ''u'' \<notin> set s" "CHR ''x'' \<notin> set s" "CHR ''X'' \<notin> set s"
    "CHR ''{'' \<notin> set s" "CHR ''}'' \<notin> set s" "CHR ''+'' \<notin> set s"
  using assms hex_char_less_16(2) by (fastforce simp: hex_string_def)+

lemma hex_value_append:
  assumes "hex_string s"
  shows "hex_value p a (s @ t) =
    hex_value (s \<noteq> [] \<or> p) (foldl (\<lambda>a c. 16 * a + the (hex_val c)) a s) t"
  using assms
proof (induction s arbitrary: a p)
  case (Cons c s)
  from Cons.prems obtain d where d: "d < 16" "c = hex_char d" by (auto simp: hex_string_def)
  from Cons.prems have "hex_string s" by (simp add: hex_string_def)
  with Cons.IH d hex_char_less_16[OF d(1)] show ?case by simp
qed simp

lemma foldl_hex_digits:
  "foldl (\<lambda>a c. 16 * a + the (hex_val c)) a (hex_digits k n) = 16 ^ k * a + n mod 16 ^ k"
proof (induction k arbitrary: n)
  case (Suc k)
  have "n mod 16 ^ Suc k = 16 * (n div 16 mod 16 ^ k) + n mod 16"
    by (simp add: mod_mult2_eq)
  with Suc show ?case by (simp add: hex_char_less_16 algebra_simps)
qed simp

lemma dropWhile_hex:
  assumes "\<forall>c\<in>set s. \<not> p c"
  shows "dropWhile p s = s"
  using assms by (cases s) auto

lemma strip_by_none:
  assumes "\<forall>c\<in>set s. \<not> p c"
  shows "strip_by p s = s"
  using assms by (simp add: strip_by_def dropWhile_hex)

lemma remove_sub_absent:
  assumes "c \<notin> set s"
  shows "remove_sub (c # p) s = s"
  using assms
proof (induction s)
  case Nil
  then show ?case by (simp add: remove_sub.simps)
next
  case (Cons d s)
  then show ?case by (auto simp: remove_sub.simps [of "c # p" "d # s"])
qed

lemma int_of_hex_digits:
  assumes "k \<noteq> 0"
  shows "int_of_hex (hex_digits k n) = Some (int (n mod 16 ^ k))"
proof -
  let ?s = "hex_digits k n"
  have hs: "hex_string ?s" by (rule hex_string_digits)
  then have "\<forall>c\<in>set ?s. \<not> py_space c"
    using hex_char_less_16(3) by (auto simp: hex_string_def)
  then have strip: "strip_by py_space ?s = ?s" by (rule strip_by_none)
  obtain c r where cr: "?s = c # r" using assms by (metis length_hex_digits length_0_conv list.exhaust)
  have drop: "drop_0x ?s = ?s"
    using hex_string_not_in[OF hs] by (auto simp: drop_0x_def split: list.splits)
  have "hex_value False 0 ?s = Some (n mod 16 ^ k)"
    using hex_value_append[OF hs, of False 0 "[]"] foldl_hex_digits[of 0 k n] cr by simp
  then show ?thesis
    using strip drop hex_string_not_in[OF hs] cr by (auto simp: int_of_hex_def)
qed

theorem parse_show_uuid [simp]: "parse_uuid (show_uuid u) = Some u"
proof -
  let ?h = "uuid_hex u"
  have hs: "hex_string ?h" by (simp add: uuid_hex_def hex_string_digits)
  note no = hex_string_not_in[OF hs]
  have sub: "set (take n (drop m ?h)) \<subseteq> set ?h" for n m
    by (meson set_drop_subset set_take_subset subset_trans)
  have chars: "set (show_uuid u) \<subseteq> insert (CHR ''-'') (set ?h)"
    using sub[of 8 0] sub[of 4 8] sub[of 4 12] sub[of 4 16] set_drop_subset[of 20 ?h]
    by (auto simp: show_uuid_def Let_def)
  have f: "filter (\<lambda>c. c \<noteq> CHR ''-'') (take n (drop m ?h)) = take n (drop m ?h)" for n m
    using sub[of n m] no(1) by (auto simp: filter_id_conv)
  have f': "filter (\<lambda>c. c \<noteq> CHR ''-'') (drop m ?h) = drop m ?h" for m
    using set_drop_subset[of m ?h] no(1) by (auto simp: filter_id_conv)
  have flt: "filter (\<lambda>c. c \<noteq> CHR ''-'') (show_uuid u) = ?h"
  proof -
    have "?h = take 8 ?h @ take 4 (drop 8 ?h) @ take 4 (drop 12 ?h) @ take 4 (drop 16 ?h) @ drop 20 ?h"
      using append_take_drop_id[of 8 ?h] append_take_drop_id[of 4 "drop 8 ?h"]
        append_take_drop_id[of 4 "drop 12 ?h"] append_take_drop_id[of 4 "drop 16 ?h"] by simp
    then show ?thesis using f[of 8 0] f f' by (simp add: show_uuid_def Let_def)
  qed
  have "CHR ''u'' \<notin> set (show_uuid u)" using chars no(2) by auto
  moreover have "\<forall>c\<in>set (show_uuid u). \<not> (c = CHR ''{'' \<or> c = CHR ''}'')" using chars no(5,6) by auto
  ultimately have "filter (\<lambda>c. c \<noteq> CHR ''-'')
      (strip_by (\<lambda>c. c = CHR ''{'' \<or> c = CHR ''}'') (remove_sub ''uuid:'' (remove_sub ''urn:'' (show_uuid u)))) = ?h"
    by (simp add: remove_sub_absent strip_by_none flt)
  moreover have "int_of_hex ?h = Some (int (unat u))"
  proof -
    have "unat u < 16 ^ 32" using unsigned_less[of u] by simp
    then show ?thesis using int_of_hex_digits[of 32 "unat u"] by (simp add: uuid_hex_def)
  qed
  moreover have "int (unat u) < 2 ^ 128" using unsigned_less[of u] by simp
  ultimately show ?thesis by (simp add: parse_uuid_def)
qed

lemma show_uuid_inj: "show_uuid u = show_uuid v \<longleftrightarrow> u = v"
  by (metis parse_show_uuid option.inject)

lemma to_uuid_show [simp]: "to_uuid (show_uuid u) = Inr u"
  by (simp add: to_uuid_def)

lemma safe_uuid_show [simp]: "safe_uuid (show_uuid u) = Some u"
  by (simp add: safe_uuid_def)

lemma to_uuid_opt_simps [simp]:
  "to_uuid_opt None = Inr None"
  "to_uuid_opt (Some (show_uuid u)) = Inr (Some u)"
  by (simp_all add: to_uuid_opt_def)

lemma to_uuid_eq_Inl: "to_uuid s = Inl e \<longleftrightarrow> parse_uuid s = None \<and> e = ValueError"
  by (auto simp: to_uuid_def)

lemma safe_uuid_eq: "safe_uuid s = parse_uuid s"
  by (cases "parse_uuid s") (simp_all add: safe_uuid_def to_uuid_def)

end
