(* ===== verification/Tables.thy ===== *)
theory Tables
  imports Uuid
begin

text \<open>
  Database tables and the statements the services issue through SQLAlchemy. A table is the list of
  its rows in insertion order; \<open>select\<close> keeps that order, \<open>order_by\<close> is a stable sort. Rows share
  the columns of the mixins of \<open>src/models/base.py\<close>. The locale \<open>repository\<close> states what a table
  gives its clients; its lemmas about primary keys are proved once and interpreted for every table
  of the model.
\<close>

section \<open>The mixin columns\<close>

text \<open>\<open>UUIDMixin\<close> with \<open>TimestampMixin\<close>, and the same with \<open>SoftDeleteMixin\<close>.\<close>

record base_row =
  pk :: uuid
  created_at :: datetime
  updated_at :: datetime

record soft_row = base_row +
  is_deleted :: bool
  deleted_at :: "datetime option"

section \<open>Statements\<close>

definition select_where :: "('r \<Rightarrow> bool) \<Rightarrow> 'r list \<Rightarrow> 'r list" where
  "select_where p t = filter p t"

text \<open>\<open>Result.scalar_one_or_none()\<close>\<close>

definition scalar_one_or_none :: "'r list \<Rightarrow> 'r option result" where
  "scalar_one_or_none rs = (case rs of [] \<Rightarrow> Inr None | [r] \<Rightarrow> Inr (Some r) | _ \<Rightarrow> Inl MultipleResultsFound)"

text \<open>\<open>execute(select(T).where(p)).scalar_one_or_none()\<close>, and the guard \<open>if not row: raise e\<close>.\<close>

definition find_one :: "('r \<Rightarrow> bool) \<Rightarrow> 'r list \<Rightarrow> 'r option result" where
  "find_one p t = scalar_one_or_none (select_where p t)"

definition find_or_raise :: "exn \<Rightarrow> ('r \<Rightarrow> bool) \<Rightarrow> 'r list \<Rightarrow> 'r result" where
  "find_or_raise e p t = bindE (find_one p t) (of_option e)"

definition insert_row :: "'r \<Rightarrow> 'r list \<Rightarrow> 'r list" where
  "insert_row r t = t @ [r]"

text \<open>An insert into a table with a unique column.\<close>

definition insert_unique :: "('r \<Rightarrow> 'k) \<Rightarrow> 'r \<Rightarrow> 'r list \<Rightarrow> 'r list result" where
  "insert_unique k r t = (if k r \<in> k ` set t then Inl IntegrityError else Inr (insert_row r t))"

definition update_where :: "('r \<Rightarrow> bool) \<Rightarrow> ('r \<Rightarrow> 'r) \<Rightarrow> 'r list \<Rightarrow> 'r list" where
  "update_where p f t = map (\<lambda>r. if p r then f r else r) t"

definition row_count :: "('r \<Rightarrow> bool) \<Rightarrow> 'r list \<Rightarrow> nat" where
  "row_count p t = length (filter p t)"

definition delete_where :: "('r \<Rightarrow> bool) \<Rightarrow> 'r list \<Rightarrow> 'r list" where
  "delete_where p t = filter (\<lambda>r. \<not> p r) t"

definition order_by :: "('r \<Rightarrow> 'k::linorder) \<Rightarrow> 'r list \<Rightarrow> 'r list" where
  "order_by k t = sort_key k t"

definition order_by_desc :: "('r \<Rightarrow> int) \<Rightarrow> 'r list \<Rightarrow> 'r list" where
  "order_by_desc k t = sort_key (\<lambda>r. - k r) t"

text \<open>\<open>ORDER BY c ASC NULLS LAST\<close>\<close>

definition nulls_last :: "'k::zero option \<Rightarrow> bool \<times> 'k" where
  "nulls_last v = (case v of None \<Rightarrow> (True, 0) | Some x \<Rightarrow> (False, x))"

definition offset_limit :: "int \<Rightarrow> int \<Rightarrow> 'r list \<Rightarrow> 'r list" where
  "offset_limit off n t = take (nat n) (drop (nat off) t)"

text \<open>\<open>db.get(T, id)\<close>, and reading the dictionary \<open>{r.id: r for r in rows}\<close>: the row with a primary key.\<close>

definition db_get :: "uuid \<Rightarrow> 'a base_row_scheme list \<Rightarrow> 'a base_row_scheme option" where
  "db_get u t = find (\<lambda>r. pk r = u) t"

section \<open>Facts about statements\<close>

lemma db_get_pk:
  assumes "distinct (map pk t)" "r \<in> set t"
  shows "db_get (pk r) t = Some r"
  using assms by (induction t) (auto simp: db_get_def)

lemma db_get_SomeD: "db_get u t = Some r \<Longrightarrow> r \<in> set t \<and> pk r = u"
  by (auto simp: db_get_def find_Some_iff)

lemma db_get_append:
  "db_get u (t @ t') = (case db_get u t of None \<Rightarrow> db_get u t' | Some r \<Rightarrow> Some r)"
  by (induction t) (auto simp: db_get_def)

lemma db_get_absent: "u \<notin> pk ` set t \<Longrightarrow> db_get u t = None"
  by (auto simp: db_get_def find_None_iff)

lemma set_insert_row [simp]: "set (insert_row r t) = insert r (set t)"
  by (auto simp: insert_row_def)

lemma set_select_where [simp]: "set (select_where p t) = {r \<in> set t. p r}"
  by (simp add: select_where_def)

lemma set_delete_where [simp]: "set (delete_where p t) = {r \<in> set t. \<not> p r}"
  by (simp add: delete_where_def)

lemma set_update_where: "set (update_where p f t) = (\<lambda>r. if p r then f r else r) ` set t"
  by (simp add: update_where_def)

lemma set_order_by [simp]: "set (order_by k t) = set t" "set (order_by_desc k' t) = set t"
  by (simp_all add: order_by_def order_by_desc_def)

lemma mset_order_by [simp]: "mset (order_by k t) = mset t" "mset (order_by_desc k' t) = mset t"
  by (simp_all add: order_by_def order_by_desc_def)

lemma length_update_where [simp]: "length (update_where p f t) = length t"
  by (simp add: update_where_def)

lemma map_update_where [simp]:
  assumes "\<And>r. k (f r) = k r"
  shows "map k (update_where p f t) = map k t"
  using assms by (simp add: update_where_def)

lemma scalar_one_or_none_eq:
  "scalar_one_or_none rs = Inr None \<longleftrightarrow> rs = []"
  "scalar_one_or_none rs = Inr (Some r) \<longleftrightarrow> rs = [r]"
  by (auto simp: scalar_one_or_none_def split: list.splits)

lemma find_one_None: "find_one p t = Inr None \<longleftrightarrow> (\<forall>r\<in>set t. \<not> p r)"
  by (auto simp: find_one_def scalar_one_or_none_eq select_where_def filter_empty_conv)

lemma find_one_Some_iff: "find_one p t = Inr (Some r) \<longleftrightarrow> filter p t = [r]"
  by (simp add: find_one_def scalar_one_or_none_eq select_where_def)

lemma find_one_SomeD:
  assumes "find_one p t = Inr (Some r)"
  shows "r \<in> set t" "p r" "\<And>r'. r' \<in> set t \<Longrightarrow> p r' \<Longrightarrow> r' = r"
proof -
  from assms have f: "filter p t = [r]" by (simp add: find_one_Some_iff)
  then have "set (filter p t) = {r}" by simp
  then show "r \<in> set t" "p r" "\<And>r'. r' \<in> set t \<Longrightarrow> p r' \<Longrightarrow> r' = r" by auto
qed

lemma find_one_pk:
  assumes "distinct (map k t)" "r \<in> set t" "\<And>x. p x \<longleftrightarrow> k x = k r"
  shows "find_one p t = Inr (Some r)"
proof -
  have "p = (\<lambda>x. k x = k r)" using assms(3) by auto
  with filter_unique_key[OF assms(1,2)] show ?thesis by (simp add: find_one_Some_iff)
qed

lemma find_one_find:
  assumes "distinct (map k t)"
  shows "find_one (\<lambda>x. k x = v) t = Inr (find (\<lambda>x. k x = v) t)"
proof (cases "find (\<lambda>x. k x = v) t")
  case None
  then have "find_one (\<lambda>x. k x = v) t = Inr None" by (auto simp: find_one_None find_None_iff)
  with None show ?thesis by simp
next
  case (Some r)
  then have "r \<in> set t" "k r = v" by (auto simp: find_Some_iff)
  then show ?thesis using find_one_pk[OF assms, of r "\<lambda>x. k x = v"] Some by simp
qed

lemma find_one_distinct_total:
  assumes "distinct (map k t)" "\<And>x. p x \<Longrightarrow> k x = v"
  obtains "find_one p t = Inr None" | r where "find_one p t = Inr (Some r)" "r \<in> set t" "p r"
proof (cases "\<exists>r\<in>set t. p r")
  case True
  then obtain r where r: "r \<in> set t" "p r" by blast
  have "filter p t = [r]"
  proof -
    have "filter p t = filter p (filter (\<lambda>x. k x = k r) t)"
      using assms(2) r(2) by (auto intro!: filter_cong)
    with filter_unique_key[OF assms(1) r(1)] r(2) show ?thesis by simp
  qed
  with r that(2) show ?thesis by (simp add: find_one_Some_iff)
next
  case False
  with that(1) show ?thesis by (simp add: find_one_None)
qed

lemma find_or_raise_eq_Inr [simp]: "find_or_raise e p t = Inr r \<longleftrightarrow> find_one p t = Inr (Some r)"
  by (auto simp: find_or_raise_def)

lemma find_or_raise_None:
  assumes "\<forall>r\<in>set t. \<not> p r"
  shows "find_or_raise e p t = Inl e"
  using assms find_one_None[of p t] by (simp add: find_or_raise_def)

lemma insert_unique_eq_Inr [simp]:
  "insert_unique k r t = Inr t' \<longleftrightarrow> k r \<notin> k ` set t \<and> t' = insert_row r t"
  by (auto simp: insert_unique_def)

lemma sorted_order_by: "sorted (map k (order_by k t))"
  by (simp add: order_by_def)

lemma sorted_order_by_desc: "sorted (map (\<lambda>r. - k r) (order_by_desc k t))"
  by (simp add: order_by_desc_def)

lemma filter_update_where_other:
  assumes "\<And>r. p r \<Longrightarrow> q (f r) = q r" "\<And>r. p r \<Longrightarrow> \<not> q r"
  shows "filter q (update_where p f t) = filter q t"
  using assms by (induction t) (auto simp: update_where_def)

lemma filter_update_where_same:
  assumes "\<And>r. p (f r) = p r"
  shows "filter p (update_where p f t) = map f (filter p t)"
  using assms by (induction t) (auto simp: update_where_def)

lemma find_one_update_where:
  assumes "find_one p t = Inr (Some r)" "\<And>x. p (f x) = p x"
  shows "find_one p (update_where p f t) = Inr (Some (f r))"
  using assms by (simp add: find_one_Some_iff filter_update_where_same)

lemma all_updated:
  assumes "t' = update_where p f t" "\<And>x. x \<in> set t \<Longrightarrow> p x \<Longrightarrow> Q (f x)" "\<And>x. x \<in> set t \<Longrightarrow> \<not> p x \<Longrightarrow> Q x"
  shows "\<forall>r\<in>set t'. Q r"
  using assms by (auto simp: update_where_def)

lemmas update_where_all = all_updated[OF refl]

lemma update_where_id: "(\<And>r. r \<in> set t \<Longrightarrow> \<not> p r) \<Longrightarrow> update_where p f t = t"
  by (induction t) (auto simp: update_where_def)

section \<open>The interface of a table\<close>

text \<open>
  A repository is a component \<open>rows\<close> of the database with a setter \<open>put\<close>; \<open>key\<close> reads the
  primary key. The laws are those of the generated record update functions.
\<close>

locale repository =
  fixes rows :: "'db \<Rightarrow> 'r list"
    and put :: "'r list \<Rightarrow> 'db \<Rightarrow> 'db"
    and key :: "'r \<Rightarrow> uuid"
  assumes rows_put [simp]: "rows (put t d) = t"
    and put_put: "put t (put u d) = put t d"
    and put_rows: "put (rows d) d = d"
begin

definition keys_unique :: "'db \<Rightarrow> bool" where
  "keys_unique d = distinct (map key (rows d))"

lemma keys_unique_insert:
  assumes "keys_unique d" "key r \<notin> key ` set (rows d)"
  shows "keys_unique (put (insert_row r (rows d)) d)"
  using assms by (simp add: keys_unique_def insert_row_def)

lemma keys_unique_update:
  assumes "keys_unique d" "\<And>r. key (f r) = key r"
  shows "keys_unique (put (update_where p f (rows d)) d)"
  using assms by (simp add: keys_unique_def)

lemma keys_unique_delete:
  assumes "keys_unique d"
  shows "keys_unique (put (delete_where p (rows d)) d)"
  using assms by (simp add: keys_unique_def delete_where_def distinct_map_filter)

lemma lookup_inserted:
  assumes "keys_unique d" "key r \<notin> key ` set (rows d)"
  shows "find_one (\<lambda>x. key x = key r) (rows (put (insert_row r (rows d)) d)) = Inr (Some r)"
  using keys_unique_insert[OF assms] by (intro find_one_pk[where k = key]) (auto simp: keys_unique_def)

lemma lookup_updated:
  assumes "find_one (\<lambda>x. key x = u) (rows d) = Inr (Some r)" "\<And>x. key (f x) = key x"
  shows "find_one (\<lambda>x. key x = u) (rows (put (update_where (\<lambda>x. key x = u) f (rows d)) d)) = Inr (Some (f r))"
  using assms by (simp add: find_one_update_where)

lemma lookup_deleted:
  "find_one (\<lambda>x. key x = u) (rows (put (delete_where (\<lambda>x. key x = u) (rows d)) d)) = Inr None"
  by (simp add: find_one_None)

lemma lookup_other_updated:
  assumes "u \<noteq> v" "\<And>x. key (f x) = key x"
  shows "find_one (\<lambda>x. key x = v) (rows (put (update_where (\<lambda>x. key x = u) f (rows d)) d)) =
    find_one (\<lambda>x. key x = v) (rows d)"
  using assms by (simp add: find_one_def select_where_def filter_update_where_other)

end

section \<open>Request environment\<close>

text \<open>
  What a request reads besides the database: the clock (\<open>datetime.now(UTC)\<close>, and the same instant
  rendered by \<open>strftime('%Y%m%d')\<close>) and the source of random identifiers, \<open>uuid4 env i\<close> being the
  i-th identifier drawn.
\<close>

record env =
  now :: datetime
  ymd :: string
  uuid4 :: "nat \<Rightarrow> uuid"

end
