(* ===== verification/Catalog.thy ===== *)
theory Catalog
  imports Tables
begin

text \<open>
  The tables every subsystem shares (\<open>skus\<close>, the outbox, webhooks, notifications), the product
  lookup \<open>_get_or_create_sku\<close> that OMS and WMS both have, and \<open>src/core/pagination.py\<close>.
  The tables of the subsystems extend this record: the deployment has one database.
\<close>

section \<open>Values stored as JSON\<close>

datatype json =
    JNull
  | JBool bool
  | JNum rat
  | JStr string
  | JList "json list"
  | JObj "(string \<times> json) list"

section \<open>Rows\<close>

record sku = soft_row +
  sku_code :: string
  sku_gtin :: "string option"
  sku_name :: "string option"
  sku_description :: "string option"
  sku_category :: "string option"
  sku_manufacturer :: "string option"
  sku_weight_kg :: "decimal option"
  sku_volume_m3 :: "decimal option"
  sku_hs_code :: "string option"
  sku_unit_of_measure :: "string option"

datatype outbox_status = OutboxEventStatus_PENDING | OutboxEventStatus_DISPATCHED | OutboxEventStatus_FAILED

record outbox_event =
  ob_id :: uuid
  ob_aggregate_type :: string
  ob_aggregate_id :: uuid
  ob_event_type :: string
  ob_payload :: json
  ob_status :: outbox_status
  ob_retry_count :: int
  ob_error_message :: "string option"
  ob_scheduled_at :: "datetime option"
  ob_dispatched_at :: "datetime option"
  ob_created_at :: datetime

datatype webhook_event = ORDER_CREATED | ORDER_STATUS_CHANGED | ORDER_CANCELLED | INVENTORY_LOW_STOCK
  | TRANSPORT_STATUS_CHANGED | DELIVERY_CONFIRMED

datatype webhook_status = WebhookStatus_ACTIVE | WebhookStatus_PAUSED | WebhookStatus_DISABLED

datatype delivery_status = DeliveryStatus_PENDING | DeliveryStatus_SUCCESS | DeliveryStatus_FAILED

text \<open>\<open>wt_events\<close> is the parsed JSON array of event names, \<open>None\<close> when the text is not JSON.\<close>

record webhook_target =
  wt_id :: int
  wt_name :: string
  wt_url :: string
  wt_secret :: "string option"
  wt_events :: "string list option"
  wt_status :: webhook_status

record webhook_delivery_log =
  wl_target_id :: int
  wl_event :: string
  wl_payload :: json
  wl_status :: delivery_status
  wl_status_code :: "int option"

datatype notification_channel = EMAIL | WEBSOCKET | PUSH

datatype notification_type = ORDER_STATUS_CHANGE | NOTIFY_ORDER_CREATED | LOW_STOCK_ALERT
  | TRANSPORT_STATUS_CHANGE | NOTIFY_DELIVERY_CONFIRMED | EXCEPTION_OCCURRED | SYSTEM_ALERT

record notification =
  nt_user_id :: string
  nt_type :: notification_type
  nt_channel :: notification_channel
  nt_title :: string
  nt_body :: string
  nt_data :: "json option"
  nt_is_read :: bool

record notification_preference =
  np_user_id :: string
  np_notification_type :: notification_type
  np_channel :: notification_channel
  np_enabled :: bool

text \<open>
  Columns for times: \<open>DateTime\<close> without a zone or \<open>DateTime(timezone=True)\<close>. The database of the
  settings is reached with the driver \<open>postgresql+asyncpg\<close> (\<open>src/config.py\<close>), which refuses to
  bind a time that knows its zone, such as \<open>datetime.now(UTC)\<close>, to a column without one and raises
  \<open>DataError\<close> when the statement is sent; it takes such a time for a column with a zone.
\<close>

datatype time_column = Naive | Zoned

definition bind_aware :: "time_column \<Rightarrow> unit result" where
  "bind_aware c = (case c of Naive \<Rightarrow> Inl DataError | Zoned \<Rightarrow> Inr ())"

definition notification_read_at :: time_column where
  "notification_read_at = Naive"

definition notification_created_at :: time_column where
  "notification_created_at = Naive"

definition target_created_at :: time_column where
  "target_created_at = Naive"

definition target_updated_at :: time_column where
  "target_updated_at = Naive"

definition mutation_created_at :: time_column where
  "mutation_created_at = Naive"

definition mutation_synced_at :: time_column where
  "mutation_synced_at = Naive"

lemma naive_columns [simp]:
  "bind_aware notification_read_at = Inl DataError"
  "bind_aware notification_created_at = Inl DataError"
  "bind_aware target_created_at = Inl DataError"
  "bind_aware target_updated_at = Inl DataError"
  "bind_aware mutation_created_at = Inl DataError"
  "bind_aware mutation_synced_at = Inl DataError"
  by (simp_all add: bind_aware_def notification_read_at_def notification_created_at_def target_created_at_def
      target_updated_at_def mutation_created_at_def mutation_synced_at_def)

text \<open>\<open>drawn\<close> counts the identifiers drawn from \<open>uuid4\<close>.\<close>

record core_db =
  drawn :: nat
  skus :: "sku list"
  outbox_events :: "outbox_event list"
  webhook_targets :: "webhook_target list"
  webhook_delivery_logs :: "webhook_delivery_log list"
  notifications :: "notification list"
  notification_preferences :: "notification_preference list"

definition new_uuid :: "env \<Rightarrow> 'a core_db_scheme \<Rightarrow> uuid" where
  "new_uuid env d = uuid4 env (drawn d)"

definition tick :: "'a core_db_scheme \<Rightarrow> 'a core_db_scheme" where
  "tick d = d\<lparr>drawn := Suc (drawn d)\<rparr>"

interpretation sku_rows: repository skus "\<lambda>t d. d\<lparr>skus := t\<rparr>" pk
  by unfold_locales simp_all

section \<open>Look up or create\<close>

text \<open>
  The contract of the \<open>_get_or_create\<close> helpers: a row with the given name is returned as it is, and
  a missing one is appended.
\<close>

locale get_or_create =
  fixes table :: "'db \<Rightarrow> 'r list"
    and nm :: "'r \<Rightarrow> string"
    and goc :: "env \<Rightarrow> string \<Rightarrow> 'db \<Rightarrow> ('db \<times> 'r) result"
  assumes goc_found: "find_one (\<lambda>r. nm r = s) (table d) = Inr (Some r) \<Longrightarrow> goc env s d = Inr (d, r)"
    and goc_new: "find_one (\<lambda>r. nm r = s) (table d) = Inr None \<Longrightarrow>
      \<exists>d' r. goc env s d = Inr (d', r) \<and> nm r = s \<and> table d' = insert_row r (table d)"
    and goc_raise: "find_one (\<lambda>r. nm r = s) (table d) = Inl e \<Longrightarrow> goc env s d = Inl e"
begin

lemma goc_cases:
  assumes "goc env s d = Inr (d', r)"
  obtains (found) "d' = d" "find_one (\<lambda>r. nm r = s) (table d) = Inr (Some r)"
  | (new) "find_one (\<lambda>r. nm r = s) (table d) = Inr None" "nm r = s" "table d' = insert_row r (table d)"
proof (cases "find_one (\<lambda>r. nm r = s) (table d)")
  case (Inl e)
  with goc_raise[of s d e env] assms show thesis by simp
next
  case (Inr o')
  show thesis
  proof (cases o')
    case None
    with goc_new[of s d env] Inr assms new show thesis by auto
  next
    case (Some x)
    with goc_found[of s d x env] Inr assms found show thesis by auto
  qed
qed

lemma goc_lookup:
  assumes "goc env s d = Inr (d', r)"
  shows "find_one (\<lambda>r. nm r = s) (table d') = Inr (Some r)"
  using assms
proof (cases rule: goc_cases)
  case new
  then have "filter (\<lambda>r. nm r = s) (table d) = []" by (simp add: find_one_None filter_empty_conv)
  with new show ?thesis by (simp add: find_one_Some_iff insert_row_def)
qed simp

lemma goc_again:
  assumes "goc env s d = Inr (d', r)"
  shows "goc env' s d' = Inr (d', r)"
  using goc_found[OF goc_lookup[OF assms]] .

lemma goc_name: "goc env s d = Inr (d', r) \<Longrightarrow> nm r = s"
  by (erule goc_cases) (auto dest: find_one_SomeD)

lemma goc_extends: "goc env s d = Inr (d', r) \<Longrightarrow> \<exists>rs. table d' = table d @ rs"
  by (erule goc_cases) (auto simp: insert_row_def)

lemma goc_names_distinct:
  assumes "goc env s d = Inr (d', r)" "distinct (map nm (table d))"
  shows "distinct (map nm (table d'))"
  using assms(1)
proof (cases rule: goc_cases)
  case new
  then have "\<forall>x\<in>set (table d). nm x \<noteq> s" by (simp add: find_one_None)
  with new assms(2) show ?thesis by (auto simp: insert_row_def)
qed (use assms in simp)

lemma goc_total:
  assumes "distinct (map nm (table d))"
  shows "\<exists>d' r. goc env s d = Inr (d', r)"
  using find_one_distinct_total[of nm "table d" "\<lambda>r. nm r = s" s, OF assms]
    goc_found[of s d] goc_new[of s d] by metis

end

definition new_sku :: "env \<Rightarrow> uuid \<Rightarrow> string \<Rightarrow> sku" where
  "new_sku env u s =
     \<lparr>pk = u, created_at = now env, updated_at = now env, is_deleted = False, deleted_at = None,
      sku_code = s, sku_gtin = None, sku_name = Some s, sku_description = None, sku_category = None,
      sku_manufacturer = None, sku_weight_kg = None, sku_volume_m3 = None, sku_hs_code = None,
      sku_unit_of_measure = None\<rparr>"

definition get_or_create_sku ::
  "env \<Rightarrow> string \<Rightarrow> 'a core_db_scheme \<Rightarrow> ('a core_db_scheme \<times> sku) result" where
  "get_or_create_sku env sku_str d =
     bindE (find_one (\<lambda>r. sku_code r = sku_str) (skus d)) (\<lambda>found.
       case found of
         Some r \<Rightarrow> Inr (d, r)
       | None \<Rightarrow>
           let r = new_sku env (new_uuid env d) sku_str in
           bindE (insert_unique sku_code r (skus d)) (\<lambda>t. Inr ((tick d)\<lparr>skus := t\<rparr>, r)))"

lemma new_sku_simps [simp]:
  "sku_code (new_sku env u s) = s"
  "pk (new_sku env u s) = u"
  "is_deleted (new_sku env u s) = False"
  by (simp_all add: new_sku_def)

lemma get_or_create_sku_new:
  assumes "find_one (\<lambda>r. sku_code r = s) (skus d) = Inr None"
  shows "get_or_create_sku env s d =
    Inr ((tick d)\<lparr>skus := insert_row (new_sku env (new_uuid env d) s) (skus d)\<rparr>, new_sku env (new_uuid env d) s)"
proof -
  from assms have "s \<notin> sku_code ` set (skus d)" by (auto simp: find_one_None)
  with assms show ?thesis by (simp add: get_or_create_sku_def Let_def insert_unique_def)
qed

interpretation sku_goc: get_or_create skus sku_code get_or_create_sku
proof unfold_locales
  fix s :: string and d :: "'a core_db_scheme" and env e r
  show "find_one (\<lambda>r. sku_code r = s) (skus d) = Inr (Some r) \<Longrightarrow> get_or_create_sku env s d = Inr (d, r)"
    by (simp add: get_or_create_sku_def)
  show "find_one (\<lambda>r. sku_code r = s) (skus d) = Inl e \<Longrightarrow> get_or_create_sku env s d = Inl e"
    by (simp add: get_or_create_sku_def)
  show "find_one (\<lambda>r. sku_code r = s) (skus d) = Inr None \<Longrightarrow>
      \<exists>d' r. get_or_create_sku env s d = Inr (d', r) \<and> sku_code r = s \<and> skus d' = insert_row r (skus d)"
    by (simp add: get_or_create_sku_new)
qed

text \<open>What the helper leaves alone, and what it keeps of the table's keys when identifiers are fresh.\<close>

lemma get_or_create_sku_frame:
  assumes "get_or_create_sku env s d = Inr (d', r)"
  shows "\<exists>n t. d' = d\<lparr>drawn := n, skus := t\<rparr>"
proof -
  have "d' = d \<or> (\<exists>n t. d' = d\<lparr>drawn := n, skus := t\<rparr>)"
    using assms by (auto simp: get_or_create_sku_def Let_def tick_def split: option.splits)
  moreover have "\<exists>n t. d = d\<lparr>drawn := n, skus := t\<rparr>"
    by (rule exI [of _ "drawn d"], rule exI [of _ "skus d"]) simp
  ultimately show ?thesis by blast
qed

text \<open>
  The first \<open>cap\<close> identifiers of \<open>uuid4\<close> are different, and those from the \<open>n\<close>-th on are in none of
  the given tables. (There are only \<open>2 ^ 128\<close> identifiers, so the bound cannot be dropped.)
\<close>

definition fresh_ids :: "env \<Rightarrow> nat \<Rightarrow> nat \<Rightarrow> uuid set \<Rightarrow> bool" where
  "fresh_ids env cap n U \<longleftrightarrow> inj_on (uuid4 env) {..<cap} \<and> (\<forall>i<cap. n \<le> i \<longrightarrow> uuid4 env i \<notin> U)"

lemma fresh_ids_mono: "fresh_ids env cap n U \<Longrightarrow> n \<le> m \<Longrightarrow> V \<subseteq> U \<Longrightarrow> fresh_ids env cap m V"
  by (auto simp: fresh_ids_def)

lemma fresh_ids_draw:
  assumes "fresh_ids env cap n U" "n < cap" "n < m"
  shows "fresh_ids env cap m (insert (uuid4 env n) U)"
proof -
  have "uuid4 env i \<noteq> uuid4 env n" if "i < cap" "m \<le> i" for i
    using that assms inj_onD[of "uuid4 env" "{..<cap}" i n] by (auto simp: fresh_ids_def)
  with assms show ?thesis by (auto simp: fresh_ids_def)
qed

lemma fresh_ids_notin: "fresh_ids env cap n U \<Longrightarrow> n \<le> i \<Longrightarrow> i < cap \<Longrightarrow> uuid4 env i \<notin> U"
  by (simp add: fresh_ids_def)

definition skus_ok :: "env \<Rightarrow> nat \<Rightarrow> 'a core_db_scheme \<Rightarrow> bool" where
  "skus_ok env cap d \<longleftrightarrow> distinct (map pk (skus d)) \<and> distinct (map sku_code (skus d)) \<and>
     fresh_ids env cap (drawn d) (pk ` set (skus d))"

lemma get_or_create_sku_drawn:
  assumes "get_or_create_sku env s d = Inr (d', r)"
  shows "drawn d \<le> drawn d'"
  using assms by (auto simp: get_or_create_sku_def Let_def tick_def split: option.splits)

lemma get_or_create_sku_ok:
  assumes "get_or_create_sku env s d = Inr (d', r)" "skus_ok env cap d" "drawn d' \<le> cap"
  shows "skus_ok env cap d'" "r \<in> set (skus d')"
proof -
  have "skus_ok env cap d' \<and> r \<in> set (skus d')"
  proof (cases "find_one (\<lambda>r. sku_code r = s) (skus d)")
    case (Inl e)
    with assms(1) show ?thesis by (simp add: get_or_create_sku_def)
  next
    case (Inr f)
    show ?thesis
    proof (cases f)
      case (Some x)
      with Inr assms show ?thesis by (auto simp: get_or_create_sku_def dest: find_one_SomeD)
    next
      case None
      with Inr have n: "find_one (\<lambda>r. sku_code r = s) (skus d) = Inr None" by simp
      have d': "d' = (tick d)\<lparr>skus := insert_row (new_sku env (new_uuid env d) s) (skus d)\<rparr>"
        "r = new_sku env (new_uuid env d) s"
        using get_or_create_sku_new[OF n, of env] assms(1) by simp_all
      have dr: "drawn d' = Suc (drawn d)" and sk: "skus d' = skus d @ [r]"
        and r: "pk r = uuid4 env (drawn d)" "sku_code r = s"
        unfolding d' by (simp_all add: tick_def insert_row_def new_uuid_def)
      have f: "fresh_ids env cap (drawn d) (pk ` set (skus d))" using assms(2) by (simp add: skus_ok_def)
      have "uuid4 env (drawn d) \<notin> pk ` set (skus d)" using fresh_ids_notin[OF f] dr assms(3) by simp
      then have "distinct (map pk (skus d'))" "distinct (map sku_code (skus d'))"
        using assms(2) n by (auto simp: skus_ok_def sk r find_one_None)
      moreover have "fresh_ids env cap (drawn d') (pk ` set (skus d'))"
        using fresh_ids_draw[OF f] dr assms(3) by (simp add: sk r)
      ultimately show ?thesis by (simp add: skus_ok_def sk)
    qed
  qed
  then show "skus_ok env cap d'" "r \<in> set (skus d')" by auto
qed

section \<open>Pagination\<close>

record 'r paginated_response =
  pr_items :: "'r list"
  pr_total :: int
  pr_page :: int
  pr_page_size :: int
  pr_total_pages :: int

text \<open>The database refuses a negative \<open>OFFSET\<close> or \<open>LIMIT\<close>.\<close>

definition paginate :: "'r list \<Rightarrow> int \<Rightarrow> int \<Rightarrow> 'r paginated_response result" where
  "paginate stmt page page_size =
     (let total = int (length stmt); off = (page - 1) * page_size in
      bindE (raise_if (off < 0 \<or> page_size < 0) DataError) (\<lambda>_.
      Inr \<lparr>pr_items = offset_limit off page_size stmt, pr_total = total, pr_page = page,
           pr_page_size = page_size,
           pr_total_pages = (if 0 < page_size \<and> 0 < total
                             then \<lceil>(of_int total :: rat) / of_int page_size\<rceil> else 0)\<rparr>))"

definition page_items :: "'r list \<Rightarrow> int \<Rightarrow> int \<Rightarrow> 'r list" where
  "page_items stmt page page_size =
     (case paginate stmt page page_size of Inl e \<Rightarrow> [] | Inr p \<Rightarrow> pr_items p)"

lemma page_items_eq:
  assumes "0 < n" "0 < p"
  shows "page_items t p n = take (nat n) (drop (nat ((p - 1) * n)) t)"
  using assms by (auto simp: page_items_def paginate_def offset_limit_def Let_def raise_if_def mult_less_0_iff)

lemma concat_chunks:
  "concat (map (\<lambda>i. take m (drop (i * m) t)) [0..<k]) = take (k * m) t"
proof (induction k)
  case (Suc k)
  then show ?case by (simp add: take_add [symmetric] add.commute)
qed simp

lemma concat_pages:
  assumes "0 < n"
  shows "concat (map (\<lambda>i. page_items t (int i + 1) n) [0..<k]) = take (k * nat n) t"
proof -
  have "page_items t (int i + 1) n = take (nat n) (drop (i * nat n) t)" for i
    using assms by (simp add: page_items_eq nat_mult_distrib)
  then show ?thesis by (simp add: concat_chunks)
qed

lemma total_pages_cover:
  assumes "0 < n" "paginate t p n = Inr r"
  shows "length t \<le> nat (pr_total_pages r) * nat n"
proof (cases t)
  case (Cons x xs)
  let ?q = "of_int (int (length t)) / of_int n :: rat"
  have q: "pr_total_pages r = \<lceil>?q\<rceil>" using assms Cons by (auto simp: paginate_def Let_def)
  have "?q * of_int n \<le> of_int \<lceil>?q\<rceil> * of_int n" using assms(1) by (intro mult_right_mono) simp_all
  then have "of_int (int (length t)) \<le> (of_int (\<lceil>?q\<rceil> * n) :: rat)" using assms(1) by simp
  then have "int (length t) \<le> \<lceil>?q\<rceil> * n" using of_int_le_iff by blast
  moreover have "0 \<le> \<lceil>?q\<rceil>"
    using ceiling_mono[of 0 ?q] assms(1) by simp
  ultimately show ?thesis using assms(1) q by (metis nat_mult_distrib nat_mono nat_int)
qed simp

end
