(* ===== verification/Outbox.thy ===== *)
theory Outbox
  imports Catalog
begin

text \<open>
  \<open>src/core/outbox.py\<close> and the worker \<open>src/tasks/outbox.py\<close>: events are appended in the caller's
  transaction; the worker is to poll pending events that are due, post them (\<open>post\<close>: \<open>None\<close> for
  success, the exception text otherwise) and mark them. The three functions of the worker open a session
  of their own with \<open>async with _get_session() as session\<close>, and \<open>_get_session\<close> returns the session
  factory without calling it: a function is no context manager, so each of them raises before its
  body. The bodies are here all the same, as what they would do in a session.
\<close>

definition append_event ::
  "env \<Rightarrow> string \<Rightarrow> uuid \<Rightarrow> string \<Rightarrow> json \<Rightarrow> 'a core_db_scheme \<Rightarrow> 'a core_db_scheme" where
  "append_event env aggregate_type aggregate_id event_type payload d =
     (let event = \<lparr>ob_id = new_uuid env d, ob_aggregate_type = aggregate_type,
                   ob_aggregate_id = aggregate_id, ob_event_type = event_type, ob_payload = payload,
                   ob_status = OutboxEventStatus_PENDING, ob_retry_count = 0, ob_error_message = None,
                   ob_scheduled_at = None, ob_dispatched_at = None, ob_created_at = now env\<rparr>
      in (tick d)\<lparr>outbox_events := insert_row event (outbox_events d)\<rparr>)"

definition is_due :: "env \<Rightarrow> outbox_event \<Rightarrow> bool" where
  "is_due env e \<longleftrightarrow> ob_status e = OutboxEventStatus_PENDING \<and>
     (case ob_scheduled_at e of None \<Rightarrow> True | Some t \<Rightarrow> t \<le> now env)"

text \<open>What \<open>_get_session\<close> can hand to \<open>async with\<close>: the factory itself, or the session that it opens when called.\<close>

datatype session_source = SessionFactory | OpenedSession

definition get_session_source :: session_source where
  "get_session_source = SessionFactory"

definition async_with :: "session_source \<Rightarrow> 'b result \<Rightarrow> 'b result" where
  "async_with src body = (case src of SessionFactory \<Rightarrow> Inl TypeError | OpenedSession \<Rightarrow> body)"

definition select_due :: "env \<Rightarrow> nat \<Rightarrow> 'a core_db_scheme \<Rightarrow> outbox_event list" where
  "select_due env batch_size d =
     take batch_size (order_by ob_created_at (select_where (is_due env) (outbox_events d)))"

definition dispatch_pending_events :: "env \<Rightarrow> nat \<Rightarrow> 'a core_db_scheme \<Rightarrow> outbox_event list result" where
  "dispatch_pending_events env batch_size d =
     async_with get_session_source (Inr (select_due env batch_size d))"

definition mark_dispatched :: "env \<Rightarrow> uuid list \<Rightarrow> 'a core_db_scheme \<Rightarrow> ('a core_db_scheme \<times> nat) result" where
  "mark_dispatched env event_ids d =
     async_with get_session_source (Inr (
       d\<lparr>outbox_events := update_where (\<lambda>e. ob_id e \<in> set event_ids)
          (\<lambda>e. e\<lparr>ob_status := OutboxEventStatus_DISPATCHED, ob_dispatched_at := Some (now env)\<rparr>)
          (outbox_events d)\<rparr>,
       row_count (\<lambda>e. ob_id e \<in> set event_ids) (outbox_events d)))"

text \<open>The body of \<open>mark_failed\<close>: sixty seconds are 60,000,000 microseconds.\<close>

definition fail_event ::
  "env \<Rightarrow> uuid \<Rightarrow> string \<Rightarrow> 'a core_db_scheme \<Rightarrow> 'a core_db_scheme result" where
  "fail_event env event_id error_message d =
     (let p = (\<lambda>e. ob_id e = event_id \<and> ob_status e = OutboxEventStatus_DISPATCHED \<and> ob_retry_count e < 5);
          d1 = d\<lparr>outbox_events := update_where p
                  (\<lambda>e. e\<lparr>ob_status := OutboxEventStatus_FAILED,
                         ob_error_message := Some (take 500 error_message),
                         ob_retry_count := ob_retry_count e + 1,
                         ob_scheduled_at := Some (now env + 60000000)\<rparr>) (outbox_events d)\<rparr>
      in if row_count p (outbox_events d) \<noteq> 0 then Inr d1
         else bindE (find_one (\<lambda>e. ob_id e = event_id \<and> ob_status e = OutboxEventStatus_DISPATCHED) (outbox_events d)) (\<lambda>check.
           case check of
             None \<Rightarrow> Inr d
           | Some c \<Rightarrow>
               if 5 \<le> ob_retry_count c
               then Inr (d\<lparr>outbox_events := update_where (\<lambda>e. ob_id e = event_id)
                       (\<lambda>e. e\<lparr>ob_status := OutboxEventStatus_FAILED,
                              ob_error_message := Some (''Max retries exceeded ('' @ show_nat (nat (ob_retry_count c)) @ '' attempts): '' @ take 400 error_message)\<rparr>)
                       (outbox_events d)\<rparr>)
               else Inr d))"

definition mark_failed ::
  "env \<Rightarrow> uuid \<Rightarrow> string \<Rightarrow> 'a core_db_scheme \<Rightarrow> 'a core_db_scheme result" where
  "mark_failed env event_id error_message d = async_with get_session_source (fail_event env event_id error_message d)"

text \<open>The loop of the worker over one batch, with the identifiers delivered and the failure count.\<close>

fun dispatch_loop ::
  "env \<Rightarrow> (outbox_event \<Rightarrow> string option) \<Rightarrow> outbox_event list \<Rightarrow> 'a core_db_scheme \<Rightarrow> uuid list \<Rightarrow> nat \<Rightarrow>
   ('a core_db_scheme \<times> uuid list \<times> nat) result" where
  "dispatch_loop env post [] d ids failed = Inr (d, ids, failed)"
| "dispatch_loop env post (e # es) d ids failed =
     (case post e of
        None \<Rightarrow> dispatch_loop env post es d (ids @ [ob_id e]) failed
      | Some exc \<Rightarrow> bindE (mark_failed env (ob_id e) exc d) (\<lambda>d'. dispatch_loop env post es d' ids (Suc failed)))"

definition dispatch_outbox_events ::
  "env \<Rightarrow> (outbox_event \<Rightarrow> string option) \<Rightarrow> 'a core_db_scheme \<Rightarrow> ('a core_db_scheme \<times> nat \<times> nat) result" where
  "dispatch_outbox_events env post d =
     bindE (dispatch_pending_events env 100 d) (\<lambda>events.
     if events = [] then Inr (d, 0, 0)
     else bindE (dispatch_loop env post events d [] 0) (\<lambda>(d1, ids, failed).
       bindE (if ids = [] then Inr d1 else bindE (mark_dispatched env ids d1) (\<lambda>(d2, n). Inr d2)) (\<lambda>d2.
       Inr (d2, length ids, failed))))"

section \<open>Facts\<close>

lemma append_event_simps [simp]:
  "core_db.more (append_event env a i t p d) = core_db.more d"
  "skus (append_event env a i t p d) = skus d"
  "drawn (append_event env a i t p d) = Suc (drawn d)"
  "webhook_targets (append_event env a i t p d) = webhook_targets d"
  by (simp_all add: append_event_def Let_def tick_def)

lemma outbox_append_event:
  "\<exists>e. outbox_events (append_event env a i t p d) = outbox_events d @ [e] \<and>
       ob_event_type e = t \<and> ob_aggregate_id e = i \<and> ob_payload e = p \<and>
       ob_status e = OutboxEventStatus_PENDING"
  by (simp add: append_event_def Let_def tick_def insert_row_def)

text \<open>No run of the worker gets past the opening of its session.\<close>

lemma async_with_factory [simp]: "async_with get_session_source body = Inl TypeError"
  by (simp add: async_with_def get_session_source_def)

lemma worker_raises [simp]: "dispatch_outbox_events env post d = Inl TypeError"
  by (simp add: dispatch_outbox_events_def dispatch_pending_events_def)

text \<open>A pending event cannot be marked failed even in an open session: the update asks for status \<open>dispatched\<close>.\<close>

lemma fail_event_pending:
  assumes "\<forall>e\<in>set (outbox_events d). ob_id e = i \<longrightarrow> ob_status e \<noteq> OutboxEventStatus_DISPATCHED"
  shows "fail_event env i m d = Inr d"
proof -
  have "row_count (\<lambda>e. ob_id e = i \<and> ob_status e = OutboxEventStatus_DISPATCHED \<and> ob_retry_count e < 5)
      (outbox_events d) = 0"
    using assms by (auto simp: row_count_def filter_empty_conv)
  moreover have "find_one (\<lambda>e. ob_id e = i \<and> ob_status e = OutboxEventStatus_DISPATCHED) (outbox_events d) = Inr None"
    using assms by (auto simp: find_one_None)
  ultimately show ?thesis by (simp add: fail_event_def Let_def)
qed

end
