(* ===== verification/Webhooks.thy ===== *)
theory Webhooks
  imports Outbox
begin

text \<open>
  \<open>src/webhooks/service.py\<close>: an event goes to every active target subscribed to it; a delivery log
  per target records the outcome and an outbox event is appended for the asynchronous worker. The
  HTTP call is a parameter: \<open>http url payload\<close> is \<open>None\<close> when it raises, otherwise the status code
  and \<open>is_success\<close>. The signature headers, durations and response bodies are not kept. No request can store a
  target with the configured driver (see \<open>target_created_at\<close>), so an event reaches one only where the
  table was filled by other means; the log row that would then be flushed first is taken as accepted.
\<close>

fun event_value :: "webhook_event \<Rightarrow> string" where
  "event_value ORDER_CREATED = ''order.created''"
| "event_value ORDER_STATUS_CHANGED = ''order.status_changed''"
| "event_value ORDER_CANCELLED = ''order.cancelled''"
| "event_value INVENTORY_LOW_STOCK = ''inventory.low_stock''"
| "event_value TRANSPORT_STATUS_CHANGED = ''transport.status_changed''"
| "event_value DELIVERY_CONFIRMED = ''delivery.confirmed''"

definition matching_targets :: "webhook_event \<Rightarrow> 'a core_db_scheme \<Rightarrow> webhook_target list" where
  "matching_targets event d =
     filter (\<lambda>t. case wt_events t of None \<Rightarrow> False | Some es \<Rightarrow> event_value event \<in> set es)
       (select_where (\<lambda>t. wt_status t = WebhookStatus_ACTIVE) (webhook_targets d))"

text \<open>\<open>_deliver\<close> fills in the log row of one target.\<close>

definition deliver ::
  "(string \<Rightarrow> json \<Rightarrow> (int \<times> bool) option) \<Rightarrow> webhook_event \<Rightarrow> json \<Rightarrow> webhook_target \<Rightarrow> webhook_delivery_log" where
  "deliver http event payload t =
     (case http (wt_url t) payload of
        Some (status, is_success) \<Rightarrow>
          \<lparr>wl_target_id = wt_id t, wl_event = event_value event, wl_payload = payload,
           wl_status = (if is_success then DeliveryStatus_SUCCESS else DeliveryStatus_FAILED),
           wl_status_code = Some status\<rparr>
      | None \<Rightarrow>
          \<lparr>wl_target_id = wt_id t, wl_event = event_value event, wl_payload = payload,
           wl_status = DeliveryStatus_FAILED, wl_status_code = None\<rparr>)"

definition do_dispatch ::
  "env \<Rightarrow> (string \<Rightarrow> json \<Rightarrow> (int \<times> bool) option) \<Rightarrow> webhook_event \<Rightarrow> json \<Rightarrow> 'a core_db_scheme \<Rightarrow>
   'a core_db_scheme \<times> webhook_delivery_log list" where
  "do_dispatch env http event payload d =
     (let matching = matching_targets event d in
      if matching = [] then (d, [])
      else
        let outbox_payload = JObj [(''event_type'', JStr (event_value event)), (''payload'', payload),
                                   (''target_ids'', JList (map (\<lambda>t. JNum (of_int (wt_id t))) matching))];
            logs = map (deliver http event payload) matching;
            d1 = d\<lparr>webhook_delivery_logs := webhook_delivery_logs d @ logs\<rparr>;
            aggregate_id = new_uuid env d1
        in (append_event env ''Webhook'' aggregate_id ''webhook.dispatch'' outbox_payload (tick d1), logs))"

definition dispatch_event ::
  "env \<Rightarrow> (string \<Rightarrow> json \<Rightarrow> (int \<times> bool) option) \<Rightarrow> webhook_event \<Rightarrow> json \<Rightarrow> 'a core_db_scheme \<Rightarrow> 'a core_db_scheme" where
  "dispatch_event env http event payload d = fst (do_dispatch env http event payload d)"

section \<open>Facts\<close>

lemma dispatch_event_simps [simp]:
  "core_db.more (dispatch_event env http ev p d) = core_db.more d"
  "skus (dispatch_event env http ev p d) = skus d"
  "webhook_targets (dispatch_event env http ev p d) = webhook_targets d"
  by (simp_all add: dispatch_event_def do_dispatch_def Let_def tick_def)

lemma dispatch_event_logs:
  "webhook_delivery_logs (dispatch_event env http ev p d) =
     webhook_delivery_logs d @ map (deliver http ev p) (matching_targets ev d)"
  by (simp add: dispatch_event_def do_dispatch_def Let_def append_event_def tick_def)

text \<open>Without a stored target an event is dropped.\<close>

lemma dispatch_event_no_targets: "webhook_targets d = [] \<Longrightarrow> dispatch_event env http ev p d = d"
  by (simp add: dispatch_event_def do_dispatch_def matching_targets_def select_where_def)

lemma dispatch_event_drawn_mono: "drawn d \<le> drawn (dispatch_event env http ev p d)"
  by (simp add: dispatch_event_def do_dispatch_def Let_def tick_def)

lemma matching_targets_cong [simp]:
  "matching_targets ev (dispatch_event env http ev' p d) = matching_targets ev d"
  by (simp add: matching_targets_def)

lemma deliver_failed_iff:
  "wl_status (deliver http ev p t) = DeliveryStatus_SUCCESS \<longleftrightarrow> (\<exists>c. http (wt_url t) p = Some (c, True))"
  by (auto simp: deliver_def split: option.splits prod.splits)

end
