(* ===== verification/Notification.thy ===== *)
theory Notification
  imports Catalog
begin

text \<open>
  \<open>src/notification/service.py\<close>: preferences, delivery of one notification, and the two callers.
  The websocket push and the e-mail service are outside the database: a websocket error is logged
  and swallowed, an e-mail error aborts the notification, so \<open>send_email\<close> is a parameter telling
  whether the mail to an address goes out.
\<close>

text \<open>Text outside ASCII, as its UTF-8 bytes.\<close>

definition utf8 :: "nat list \<Rightarrow> string" where
  "utf8 = map char_of"

definition check_enabled ::
  "notification_preference list \<Rightarrow> notification_type \<Rightarrow> notification_channel \<Rightarrow> bool" where
  "check_enabled prefs ntype channel =
     (case filter (\<lambda>p. np_notification_type p = ntype \<and> np_channel p = channel) prefs of
        [] \<Rightarrow> True
      | p # _ \<Rightarrow> np_enabled p)"

definition get_preferences :: "string \<Rightarrow> 'a core_db_scheme \<Rightarrow> notification_preference list" where
  "get_preferences user_id d = select_where (\<lambda>p. np_user_id p = user_id) (notification_preferences d)"

text \<open>
  \<open>_do_send\<close>: the notification row is committed in a session of its own, after the push and the mail.
  Its creation time knows its zone and the column does not, so the commit is refused; every exception
  of the commit comes out as a failed delivery.
\<close>

definition do_send ::
  "(string \<Rightarrow> bool) \<Rightarrow> string \<Rightarrow> notification_type \<Rightarrow> notification_channel \<Rightarrow> string \<Rightarrow> string \<Rightarrow>
   json option \<Rightarrow> string option \<Rightarrow> 'a core_db_scheme \<Rightarrow> ('a core_db_scheme \<times> bool) result" where
  "do_send send_email user_id ntype channel title body data user_email d =
     (if \<not> check_enabled (get_preferences user_id d) ntype channel then Inr (d, False)
      else
        let row = \<lparr>nt_user_id = user_id, nt_type = ntype, nt_channel = channel, nt_title = title,
                   nt_body = body, nt_data = data, nt_is_read = False\<rparr> in
        if channel = EMAIL \<and> truthy user_email \<and> \<not> send_email (get_default [] user_email)
        then Inl (NotificationDeliveryError ''Email send failed'')
        else case bind_aware notification_created_at of
               Inl e \<Rightarrow> Inl (NotificationDeliveryError ''Notification delivery failed'')
             | Inr _ \<Rightarrow> Inr (d\<lparr>notifications := insert_row row (notifications d)\<rparr>, True))"

definition order_status_label :: "string \<Rightarrow> string" where
  "order_status_label status =
  (if status = ''pending'' then utf8 [229,190,133,229,164,132,231,144,134]
   else if status = ''confirmed'' then utf8 [229,183,178,231,161,174,232,174,164]
   else if status = ''processing'' then utf8 [229,164,132,231,144,134,228,184,173]
   else if status = ''shipped'' then utf8 [229,183,178,229,143,145,232,180,167]
   else if status = ''delivered'' then utf8 [229,183,178,231,173,190,230,148,182]
   else if status = ''cancelled'' then utf8 [229,183,178,229,143,150,230,182,136]
   else status)"

text \<open>A failed delivery is logged and swallowed, so this returns a database in every case.\<close>

definition notify_order_status_change ::
  "uuid \<Rightarrow> string \<Rightarrow> string \<Rightarrow> string \<Rightarrow> 'a core_db_scheme \<Rightarrow> 'a core_db_scheme" where
  "notify_order_status_change order_id user_id status order_no d =
     (case do_send (\<lambda>_. True) user_id ORDER_STATUS_CHANGE WEBSOCKET
             (utf8 [232,174,162,229,141,149,32] @ order_no @ utf8 [32,231,138,182,230,128,129,230,155,180,230,150,176])
             (utf8 [232,174,162,229,141,149,32] @ order_no @ utf8 [32,231,138,182,230,128,129,229,143,152,230,155,180,228,184,186,239,188,154] @ order_status_label status)
             (Some (JObj [(''order_id'', JStr (show_uuid order_id)), (''order_no'', JStr order_no),
                          (''status'', JStr status)]))
             None d of
        Inl e \<Rightarrow> d
      | Inr (d', sent) \<Rightarrow> d')"

text \<open>
  \<open>notify_low_stock\<close>: \<open>users\<close> is the result of the query for active users (id and e-mail); at most
  500 of them get the mail, and a failed mail does not stop the rest. The result counts the mails
  that raised nothing and the failures.
\<close>

fun low_stock_loop ::
  "(string \<Rightarrow> bool) \<Rightarrow> json \<Rightarrow> string \<Rightarrow> (uuid \<times> string option) list \<Rightarrow> 'a core_db_scheme \<Rightarrow>
   'a core_db_scheme \<times> nat \<times> nat" where
  "low_stock_loop send_email data body [] d = (d, 0, 0)"
| "low_stock_loop send_email data body ((uid, email) # us) d =
     (case do_send send_email (show_uuid uid) LOW_STOCK_ALERT EMAIL (utf8 [229,186,147,229,173,152,233,162,132,232,173,166]) body (Some data) email d of
        Inl e \<Rightarrow> (case low_stock_loop send_email data body us d of (d2, s, f) \<Rightarrow> (d2, s, Suc f))
      | Inr (d1, sent) \<Rightarrow> (case low_stock_loop send_email data body us d1 of (d2, s, f) \<Rightarrow> (d2, Suc s, f)))"

definition notify_low_stock ::
  "(string \<Rightarrow> bool) \<Rightarrow> string \<Rightarrow> string \<Rightarrow> int \<Rightarrow> string \<Rightarrow> (uuid \<times> string option) list \<Rightarrow>
   'a core_db_scheme \<Rightarrow> 'a core_db_scheme \<times> nat \<times> nat" where
  "notify_low_stock send_email warehouse_id sku_str current_qty body users d =
     low_stock_loop send_email
       (JObj [(''warehouse_id'', JStr warehouse_id), (''sku'', JStr sku_str), (''current_qty'', JNum (of_int current_qty))])
       body (take 500 users) d"

section \<open>Facts\<close>

text \<open>Nothing is ever stored: a delivery is skipped by a preference or fails.\<close>

lemma do_send_cases:
  "do_send se u ty ch ti bo da em d =
     (if \<not> check_enabled (get_preferences u d) ty ch then Inr (d, False)
      else Inl (NotificationDeliveryError
        (if ch = EMAIL \<and> truthy em \<and> \<not> se (get_default [] em) then ''Email send failed'' else ''Notification delivery failed'')))"
  by (simp add: do_send_def)

lemma notify_order_frame [simp]: "notify_order_status_change i u s n d = d"
  by (simp add: notify_order_status_change_def do_send_cases)

lemma low_stock_frame: "fst (low_stock_loop se da bo us d) = d"
  by (induction us) (auto simp: do_send_cases split: prod.splits)

lemma notify_low_stock_frame [simp]: "fst (notify_low_stock se w s q bo us d) = d"
  by (simp add: notify_low_stock_def low_stock_frame)

lemma low_stock_loop_counts:
  "case low_stock_loop se da bo us d of (d', s, f) \<Rightarrow> s + f = length us"
proof (induction us arbitrary: d)
  case (Cons u us)
  obtain uid email where u: "u = (uid, email)" by force
  show ?case
  proof (cases "do_send se (show_uuid uid) LOW_STOCK_ALERT EMAIL (utf8 [229,186,147,229,173,152,233,162,132,232,173,166]) bo (Some da) email d")
    case (Inl e)
    with u Cons[of d] show ?thesis by (auto split: prod.splits)
  next
    case (Inr p)
    with u Cons[of "fst p"] show ?thesis by (auto split: prod.splits)
  qed
qed simp

end
