(* ===== verification/Lifecycle.thy ===== *)
theory Lifecycle
  imports Exceptions
begin

text \<open>
  Status fields. Orders, waves, purchase orders, stock documents, transport orders, segments and
  returns each have a table of allowed changes and an operation that either moves to an allowed
  target or refuses. The locale \<open>status_machine\<close> states that contract; \<open>ranked_status_machine\<close> adds
  a rank that every allowed change decreases (an acyclic lifecycle), which bounds the number of
  changes. Every lifecycle of the model interprets one of them.
\<close>

text \<open>A sequence of changes each of which the table allows.\<close>

fun allowed_path :: "('s \<Rightarrow> 's list) \<Rightarrow> 's \<Rightarrow> 's list \<Rightarrow> bool" where
  "allowed_path al s [] = True"
| "allowed_path al s (t # ts) = (t \<in> set (al s) \<and> allowed_path al t ts)"

text \<open>Requesting a sequence of changes: a refused request leaves the status as it is.\<close>

fun request_all :: "('s \<Rightarrow> 's \<Rightarrow> 's result) \<Rightarrow> 's \<Rightarrow> 's list \<Rightarrow> 's" where
  "request_all ch s [] = s"
| "request_all ch s (t # ts) = (case ch s t of Inl e \<Rightarrow> request_all ch s ts | Inr s' \<Rightarrow> request_all ch s' ts)"

fun accepted :: "('s \<Rightarrow> 's \<Rightarrow> 's result) \<Rightarrow> 's \<Rightarrow> 's list \<Rightarrow> 's list" where
  "accepted ch s [] = []"
| "accepted ch s (t # ts) = (case ch s t of Inl e \<Rightarrow> accepted ch s ts | Inr s' \<Rightarrow> s' # accepted ch s' ts)"

lemma allowed_path_append:
  "allowed_path al s (xs @ ys) \<longleftrightarrow> allowed_path al s xs \<and> allowed_path al (if xs = [] then s else last xs) ys"
  by (induction al s xs rule: allowed_path.induct) auto

locale status_machine =
  fixes allowed :: "'s \<Rightarrow> 's list"
    and change :: "'s \<Rightarrow> 's \<Rightarrow> 's result"
  assumes change_allowed: "t \<in> set (allowed s) \<Longrightarrow> change s t = Inr t"
    and change_refused: "t \<notin> set (allowed s) \<Longrightarrow> \<exists>e. change s t = Inl e"
begin

lemma change_eq_Inr: "change s t = Inr u \<longleftrightarrow> t \<in> set (allowed s) \<and> u = t"
  using change_allowed[of t s] change_refused[of t s] by (cases "t \<in> set (allowed s)") auto

lemma terminal_refuses:
  assumes "allowed s = []"
  shows "\<exists>e. change s t = Inl e"
  using assms change_refused by simp

lemma terminal_stays:
  assumes "allowed s = []"
  shows "request_all change s ts = s"
proof (induction ts)
  case (Cons t ts)
  then show ?case using terminal_refuses[OF assms, of t] by auto
qed simp

lemma accepted_path: "allowed_path allowed s (accepted change s ts)"
proof (induction ts arbitrary: s)
  case (Cons t ts)
  show ?case
  proof (cases "change s t")
    case (Inr u)
    then have "t \<in> set (allowed s)" "u = t" using change_eq_Inr by blast+
    with Inr Cons show ?thesis by simp
  qed (use Cons in simp)
qed simp

lemma request_all_last:
  "request_all change s ts = (if accepted change s ts = [] then s else last (accepted change s ts))"
proof (induction ts arbitrary: s)
  case (Cons t ts)
  then show ?case by (cases "change s t") auto
qed simp

end

locale ranked_status_machine = status_machine +
  fixes rank :: "'a \<Rightarrow> nat"
  assumes rank_decreases: "t \<in> set (allowed s) \<Longrightarrow> rank t < rank s"
begin

lemma path_rank: "allowed_path allowed s ts \<Longrightarrow> t \<in> set ts \<Longrightarrow> rank t < rank s"
  using rank_decreases by (induction ts arbitrary: s) (auto intro: less_trans)

lemma path_length: "allowed_path allowed s ts \<Longrightarrow> length ts \<le> rank s"
proof (induction ts arbitrary: s)
  case (Cons t ts)
  then show ?case using rank_decreases[of t s] by fastforce
qed simp

lemma path_distinct: "allowed_path allowed s ts \<Longrightarrow> distinct (s # ts)"
proof (induction ts arbitrary: s)
  case (Cons t ts)
  then have "distinct (t # ts)" by (metis allowed_path.simps(2))
  moreover have "s \<notin> set (t # ts)" using path_rank[OF Cons.prems, of s] by blast
  ultimately show ?case by simp
qed simp

lemma accepted_bounded: "length (accepted change s ts) \<le> rank s"
  using path_length[OF accepted_path] .

lemma never_returns: "s \<notin> set (accepted change s ts)"
  using path_distinct[OF accepted_path, of s ts] by simp

end

end
