(* ===== verification/Oms_Model.thy ===== *)
theory Oms_Model
  imports Webhooks Notification Lifecycle
begin

text \<open>
  The tables of order management (\<open>src/oms/models.py\<close>, \<open>src/models/shared_models.py\<close>), the request
  bodies of \<open>src/oms/schemas.py\<close> with the constraints the API puts on them, and the views the
  services return. Columns that every writer fills are plain fields; nullable ones are options.
\<close>

section \<open>Rows\<close>

datatype order_status = OrderStatus_PENDING | OrderStatus_CONFIRMED | OrderStatus_PROCESSING
  | OrderStatus_PICKING | OrderStatus_COMPLETED | OrderStatus_CANCELLED | OrderStatus_FAILED

datatype order_priority = OrderPriority_LOW | OrderPriority_MEDIUM | OrderPriority_HIGH | OrderPriority_URGENT

record customer = soft_row +
  cu_code :: string
  cu_name :: string
  cu_contact :: string
  cu_phone :: string
  cu_address :: json

record order = soft_row +
  ord_order_no :: string
  ord_status :: order_status
  ord_customer_id :: uuid
  ord_warehouse_id :: "uuid option"
  ord_items :: json
  ord_total_amount :: decimal
  ord_priority :: order_priority
  ord_version :: int
  ord_notes :: string

record order_item = soft_row +
  oi_order_id :: uuid
  oi_sku_id :: "uuid option"
  oi_gtin :: string
  oi_name :: string
  oi_quantity :: int
  oi_picked_qty :: int
  oi_unit_price :: decimal
  oi_batch_no :: "string option"
  oi_status :: string

record order_status_log = base_row +
  osl_order_id :: uuid
  osl_from_status :: string
  osl_to_status :: string
  osl_operator_id :: "uuid option"
  osl_remark :: "string option"

record merge_group = base_row +
  mg_code :: string
  mg_warehouse_id :: "uuid option"
  mg_status :: string
  mg_total_items :: int
  mg_total_amount :: decimal
  mg_notes :: string

record split_child_order = soft_row +
  sco_parent_order_id :: "uuid option"
  sco_child_order_id :: uuid
  sco_merge_group_id :: "uuid option"
  sco_split_reason :: string

record oms_db = core_db +
  customers :: "customer list"
  orders :: "order list"
  order_items :: "order_item list"
  order_status_logs :: "order_status_log list"
  merge_groups :: "merge_group list"
  split_child_orders :: "split_child_order list"

interpretation customer_rows: repository customers "\<lambda>t d. d\<lparr>customers := t\<rparr>" pk
  by unfold_locales simp_all

interpretation order_rows: repository orders "\<lambda>t d. d\<lparr>orders := t\<rparr>" pk
  by unfold_locales simp_all

section \<open>Requests\<close>

text \<open>The keys of a request body; \<open>None\<close> is an absent key.\<close>

record order_item_req =
  rq_gtin :: "string option"
  rq_sku :: "string option"
  rq_product_name :: "string option"
  rq_quantity :: "int option"
  rq_unit_price :: "decimal option"

record order_create =
  rq_customer_id :: string
  rq_items :: "order_item_req list"
  rq_priority :: "string option"
  rq_notes :: "string option"

text \<open>A decimal with at most \<open>m\<close> digits of which at most \<open>p\<close> are decimal places.\<close>

definition decimal_fits :: "nat \<Rightarrow> nat \<Rightarrow> decimal \<Rightarrow> bool" where
  "decimal_fits m p x \<longleftrightarrow> of_int \<lfloor>x * 10 ^ p\<rfloor> = x * 10 ^ p \<and> \<bar>x\<bar> < 10 ^ (m - p)"

definition order_item_schema_ok :: "order_item_req \<Rightarrow> bool" where
  "order_item_schema_ok it \<longleftrightarrow>
     (case rq_gtin it of None \<Rightarrow> False | Some g \<Rightarrow> 8 \<le> length g \<and> length g \<le> 14) \<and>
     (case rq_sku it of None \<Rightarrow> False | Some s \<Rightarrow> 1 \<le> length s \<and> length s \<le> 50) \<and>
     length (get_default [] (rq_product_name it)) \<le> 200 \<and>
     (case rq_quantity it of None \<Rightarrow> False | Some q \<Rightarrow> 0 < q \<and> q \<le> 99999) \<and>
     (case rq_unit_price it of None \<Rightarrow> False | Some p \<Rightarrow> 0 \<le> p \<and> decimal_fits 18 2 p)"

definition order_create_schema_ok :: "order_create \<Rightarrow> bool" where
  "order_create_schema_ok r \<longleftrightarrow>
     1 \<le> length (rq_customer_id r) \<and> 1 \<le> length (rq_items r) \<and> list_all order_item_schema_ok (rq_items r) \<and>
     get_default ''medium'' (rq_priority r) \<in> {''low'', ''medium'', ''high'', ''urgent''} \<and>
     length (get_default [] (rq_notes r)) \<le> 2000"

definition order_status_update_schema_ok :: "string \<Rightarrow> bool" where
  "order_status_update_schema_ok s \<longleftrightarrow>
     s \<in> {''confirmed'', ''processing'', ''picking'', ''completed'', ''cancelled''}"

section \<open>Views\<close>

record item_view =
  iv_gtin :: string
  iv_sku :: string
  iv_product_name :: string
  iv_quantity :: int
  iv_unit_price :: decimal
  iv_subtotal :: decimal

record order_view =
  ov_id :: string
  ov_order_no :: string
  ov_status :: string
  ov_customer_id :: string
  ov_items :: "item_view list"
  ov_total_amount :: decimal
  ov_priority :: string
  ov_notes :: string
  ov_created_at :: datetime
  ov_updated_at :: datetime

record history_view =
  hv_id :: string
  hv_order_id :: string
  hv_from_status :: string
  hv_to_status :: string
  hv_operator :: string
  hv_remark :: string
  hv_created_at :: datetime

record merge_view =
  mv_id :: string
  mv_code :: string
  mv_status :: string
  mv_total_items :: int
  mv_total_amount :: decimal
  mv_notes :: string
  mv_order_ids :: "string list"
  mv_created_at :: datetime

end
