(* ===== verification/Oms_Service.thy ===== *)
theory Oms_Service
  imports Oms_Model
begin

text \<open>
  \<open>src/oms/service.py\<close>: the order state machine, creation, reading, listing, status changes, soft
  deletion and history of orders.
\<close>

section \<open>State machine\<close>

text \<open>\<open>ORDER_STATES.get(current, set())\<close>\<close>

definition order_states :: "string \<Rightarrow> string list" where
  "order_states current =
     (if current = ''draft'' then [''confirmed'', ''cancelled'']
      else if current = ''confirmed'' then [''processing'', ''cancelled'']
      else if current = ''processing'' then [''picking'', ''cancelled'']
      else if current = ''picking'' then [''completed'', ''cancelled'']
      else [])"

definition status_map :: "string \<Rightarrow> order_status option" where
  "status_map s =
     (if s = ''draft'' then Some OrderStatus_PENDING
      else if s = ''confirmed'' then Some OrderStatus_CONFIRMED
      else if s = ''processing'' then Some OrderStatus_PROCESSING
      else if s = ''picking'' then Some OrderStatus_PICKING
      else if s = ''completed'' then Some OrderStatus_COMPLETED
      else if s = ''cancelled'' then Some OrderStatus_CANCELLED
      else if s = ''failed'' then Some OrderStatus_FAILED
      else None)"

fun status_reverse :: "order_status \<Rightarrow> string" where
  "status_reverse OrderStatus_PENDING = ''draft''"
| "status_reverse OrderStatus_CONFIRMED = ''confirmed''"
| "status_reverse OrderStatus_PROCESSING = ''processing''"
| "status_reverse OrderStatus_PICKING = ''picking''"
| "status_reverse OrderStatus_COMPLETED = ''completed''"
| "status_reverse OrderStatus_CANCELLED = ''cancelled''"
| "status_reverse OrderStatus_FAILED = ''failed''"

definition priority_map :: "string \<Rightarrow> order_priority option" where
  "priority_map s =
     (if s = ''low'' then Some OrderPriority_LOW
      else if s = ''medium'' then Some OrderPriority_MEDIUM
      else if s = ''high'' then Some OrderPriority_HIGH
      else if s = ''urgent'' then Some OrderPriority_URGENT
      else None)"

fun priority_reverse :: "order_priority \<Rightarrow> string" where
  "priority_reverse OrderPriority_LOW = ''low''"
| "priority_reverse OrderPriority_MEDIUM = ''medium''"
| "priority_reverse OrderPriority_HIGH = ''high''"
| "priority_reverse OrderPriority_URGENT = ''urgent''"

definition validate_transition :: "string \<Rightarrow> string \<Rightarrow> unit result" where
  "validate_transition current target =
     (let allowed = order_states current;
          transitions = (if allowed \<noteq> [] then join '', '' (sort allowed) else ''none (terminal state)'')
      in raise_if (target \<notin> set allowed)
           (ValidationException (''Cannot transition from '' @ [CHR 0x27] @ current @ [CHR 0x27] @ '' to '' @ [CHR 0x27] @ target @ [CHR 0x27])
              (Some (''Allowed transitions from '' @ [CHR 0x27] @ current @ [CHR 0x27] @ '': '' @ transitions))))"

section \<open>Helpers\<close>

definition new_customer :: "env \<Rightarrow> uuid \<Rightarrow> string \<Rightarrow> customer" where
  "new_customer env u customer_code =
     \<lparr>pk = u, created_at = now env, updated_at = now env, is_deleted = False, deleted_at = None,
      cu_code = customer_code, cu_name = customer_code, cu_contact = [], cu_phone = [], cu_address = JObj []\<rparr>"

definition get_or_create_customer ::
  "env \<Rightarrow> string \<Rightarrow> 'a oms_db_scheme \<Rightarrow> ('a oms_db_scheme \<times> customer) result" where
  "get_or_create_customer env customer_code d =
     bindE (find_one (\<lambda>r. cu_code r = customer_code) (customers d)) (\<lambda>found.
       case found of
         Some r \<Rightarrow> Inr (d, r)
       | None \<Rightarrow>
           let r = new_customer env (new_uuid env d) customer_code in
           bindE (insert_unique cu_code r (customers d)) (\<lambda>t. Inr ((tick d)\<lparr>customers := t\<rparr>, r)))"

text \<open>\<open>_order_to_dict\<close>; the two guards \<open>if oi.unit_price\<close> and \<open>if order.total_amount\<close> print zero as
  \<open>0\<close>, so they do not change the value.\<close>

definition item_to_dict :: "'a oms_db_scheme \<Rightarrow> order_item \<Rightarrow> item_view" where
  "item_to_dict d oi =
     \<lparr>iv_gtin = oi_gtin oi,
      iv_sku = (case oi_sku_id oi of None \<Rightarrow> []
                | Some u \<Rightarrow> (case db_get u (skus d) of None \<Rightarrow> [] | Some s \<Rightarrow> sku_code s)),
      iv_product_name = oi_name oi,
      iv_quantity = oi_quantity oi,
      iv_unit_price = oi_unit_price oi,
      iv_subtotal = oi_unit_price oi * of_int (oi_quantity oi)\<rparr>"

definition order_to_dict :: "'a oms_db_scheme \<Rightarrow> order \<Rightarrow> customer option \<Rightarrow> order_view" where
  "order_to_dict d order customer =
     (let customer = (case customer of None \<Rightarrow> db_get (ord_customer_id order) (customers d) | Some c \<Rightarrow> Some c);
          customer_code = (case customer of Some c \<Rightarrow> cu_code c | None \<Rightarrow> show_uuid (ord_customer_id order));
          order_items = order_by created_at (select_where (\<lambda>oi. oi_order_id oi = pk order) (order_items d))
      in \<lparr>ov_id = show_uuid (pk order), ov_order_no = ord_order_no order,
          ov_status = status_reverse (ord_status order), ov_customer_id = customer_code,
          ov_items = map (item_to_dict d) order_items, ov_total_amount = ord_total_amount order,
          ov_priority = priority_reverse (ord_priority order), ov_notes = ord_notes order,
          ov_created_at = created_at order, ov_updated_at = updated_at order\<rparr>)"

section \<open>Service functions\<close>

definition req_total :: "order_item_req list \<Rightarrow> decimal" where
  "req_total items =
     sum_list (map (\<lambda>it. get_default 0 (rq_unit_price it) * of_int (get_default 0 (rq_quantity it))) items)"

definition new_order_item :: "env \<Rightarrow> uuid \<Rightarrow> uuid \<Rightarrow> uuid option \<Rightarrow> order_item_req \<Rightarrow> order_item" where
  "new_order_item env u oid sid it =
     \<lparr>pk = u, created_at = now env, updated_at = now env, is_deleted = False, deleted_at = None,
      oi_order_id = oid, oi_sku_id = sid, oi_gtin = get_default [] (rq_gtin it),
      oi_name = get_default [] (rq_product_name it), oi_quantity = get_default 0 (rq_quantity it),
      oi_picked_qty = 0, oi_unit_price = get_default 0 (rq_unit_price it), oi_batch_no = None,
      oi_status = ''pending''\<rparr>"

text \<open>One round of the loop that creates the item rows.\<close>

definition add_order_item ::
  "env \<Rightarrow> uuid \<Rightarrow> order_item_req \<Rightarrow> 'a oms_db_scheme \<Rightarrow> 'a oms_db_scheme result" where
  "add_order_item env oid it d =
     (let sku_str = get_default [] (rq_sku it) in
      bindE (if sku_str \<noteq> []
             then bindE (get_or_create_sku env sku_str d) (\<lambda>(d1, s). Inr (d1, Some (pk s)))
             else Inr (d, None)) (\<lambda>(d1, sid).
      Inr ((tick d1)\<lparr>order_items :=
             insert_row (new_order_item env (new_uuid env d1) oid sid it) (order_items d1)\<rparr>)))"

definition add_status_log ::
  "env \<Rightarrow> uuid \<Rightarrow> string \<Rightarrow> string \<Rightarrow> string \<Rightarrow> 'a oms_db_scheme \<Rightarrow> 'a oms_db_scheme" where
  "add_status_log env oid from_status to_status remark d =
     (tick d)\<lparr>order_status_logs := insert_row
        \<lparr>pk = new_uuid env d, created_at = now env, updated_at = now env, osl_order_id = oid,
         osl_from_status = from_status, osl_to_status = to_status, osl_operator_id = None,
         osl_remark = Some remark\<rparr> (order_status_logs d)\<rparr>"

definition create_order ::
  "env \<Rightarrow> order_create \<Rightarrow> 'a oms_db_scheme \<Rightarrow> ('a oms_db_scheme \<times> order_view) result" where
  "create_order env data d =
     bindE (get_or_create_customer env (rq_customer_id data) d) (\<lambda>(d1, customer).
     let order_no = ''ORD-'' @ ymd env @ ''-'' @ upper (take 8 (uuid_hex (new_uuid env d1)));
         d2 = tick d1;
         items = rq_items data;
         total = req_total items;
         order = \<lparr>pk = new_uuid env d2, created_at = now env, updated_at = now env,
                  is_deleted = False, deleted_at = None, ord_order_no = order_no,
                  ord_status = OrderStatus_PENDING, ord_customer_id = pk customer,
                  ord_warehouse_id = None, ord_items = JObj [], ord_total_amount = total,
                  ord_priority = get_default OrderPriority_MEDIUM (priority_map (get_default ''medium'' (rq_priority data))),
                  ord_version = 0, ord_notes = get_default [] (rq_notes data)\<rparr>
     in bindE (insert_unique ord_order_no order (orders d2)) (\<lambda>t.
        bindE (foldE (add_order_item env (pk order)) items ((tick d2)\<lparr>orders := t\<rparr>)) (\<lambda>d3.
        let d4 = add_status_log env (pk order) [] ''pending'' ''Order created'' d3;
            d5 = append_event env ''Order'' (pk order) ''order.created''
                   (JObj [(''order_id'', JStr (show_uuid (pk order))), (''order_no'', JStr order_no),
                          (''total_amount'', JNum total), (''customer_id'', JStr (rq_customer_id data))]) d4
        in Inr (d5, order_to_dict d5 order None))))"

definition get_order :: "string \<Rightarrow> 'a oms_db_scheme \<Rightarrow> order_view result" where
  "get_order order_id d =
     bindE (to_uuid order_id) (\<lambda>oid.
     bindE (find_or_raise (NotFoundException (''Order '' @ order_id @ '' not found''))
              (\<lambda>o'. pk o' = oid \<and> \<not> is_deleted o') (orders d)) (\<lambda>order.
     Inr (order_to_dict d order None)))"

definition list_orders ::
  "int \<Rightarrow> int \<Rightarrow> string option \<Rightarrow> string option \<Rightarrow> 'a oms_db_scheme \<Rightarrow> (order_view list \<times> int) result" where
  "list_orders page page_size status customer_id d =
     bindE (uuid_if_truthy customer_id) (\<lambda>cid.
     let by_status = (if truthy status then status_map (get_default [] status) else None);
         stmt = order_by_desc created_at
                  (select_where (\<lambda>o'. (case by_status of None \<Rightarrow> True | Some s \<Rightarrow> ord_status o' = s) \<and>
                                      (case cid of None \<Rightarrow> True | Some c \<Rightarrow> ord_customer_id o' = c)) (orders d));
         total = int (length stmt);
         off = (page - 1) * page_size
     in bindE (raise_if (off < 0 \<or> page_size < 0) DataError) (\<lambda>_.
        let rows = offset_limit off page_size stmt
        in Inr (map (\<lambda>o'. order_to_dict d o' (db_get (ord_customer_id o') (customers d))) rows, total)))"

text \<open>
  The status change is committed first; the notification and the webhooks then run on the new state,
  and their failures do not reach the caller.
\<close>

definition update_order_status ::
  "env \<Rightarrow> (string \<Rightarrow> json \<Rightarrow> (int \<times> bool) option) \<Rightarrow> string \<Rightarrow> string \<Rightarrow> string \<Rightarrow> 'a oms_db_scheme \<Rightarrow>
   ('a oms_db_scheme \<times> order_view) result" where
  "update_order_status env http order_id target operator d =
     bindE (to_uuid order_id) (\<lambda>oid.
     bindE (find_or_raise (NotFoundException (''Order '' @ order_id @ '' not found''))
              (\<lambda>o'. pk o' = oid) (orders d)) (\<lambda>order.
     let current = status_reverse (ord_status order) in
     bindE (validate_transition current target) (\<lambda>_.
     let f = (\<lambda>o'. o'\<lparr>ord_status := get_default OrderStatus_PENDING (status_map target), updated_at := now env\<rparr>);
         order = f order;
         d1 = add_status_log env (pk order) current target (''Status changed to '' @ target)
                (d\<lparr>orders := update_where (\<lambda>o'. pk o' = oid) f (orders d)\<rparr>);
         d2 = notify_order_status_change (pk order) operator target (ord_order_no order) d1;
         d3 = dispatch_event env http ORDER_STATUS_CHANGED
                (JObj [(''order_id'', JStr (show_uuid (pk order))), (''order_no'', JStr (ord_order_no order)),
                       (''from'', JStr current), (''to'', JStr target)]) d2;
         d4 = dispatch_event env http (if target = ''cancelled'' then ORDER_CANCELLED else ORDER_CREATED)
                (JObj [(''order_id'', JStr (show_uuid (pk order))), (''order_no'', JStr (ord_order_no order)),
                       (''status'', JStr target)]) d3
     in Inr (d4, order_to_dict d4 order None))))"

text \<open>\<open>OrderStatusLog\<close> has no \<open>is_deleted\<close> column, so the loop over the logs stores nothing.\<close>

definition delete_order :: "env \<Rightarrow> string \<Rightarrow> 'a oms_db_scheme \<Rightarrow> ('a oms_db_scheme \<times> unit) result" where
  "delete_order env order_id d =
     bindE (to_uuid order_id) (\<lambda>oid.
     bindE (find_or_raise (NotFoundException (''Order '' @ order_id @ '' not found''))
              (\<lambda>o'. pk o' = oid) (orders d)) (\<lambda>order.
     let current = status_reverse (ord_status order) in
     bindE (raise_if (current \<in> {''completed'', ''cancelled'', ''failed''})
              (validation (''Cannot delete order in '' @ [CHR 0x27] @ current @ [CHR 0x27] @ '' state''))) (\<lambda>_.
     let cascade_ts = now env in
     Inr (d\<lparr>orders := update_where (\<lambda>o'. pk o' = oid)
              (\<lambda>o'. o'\<lparr>is_deleted := True, deleted_at := Some cascade_ts, updated_at := now env\<rparr>) (orders d),
            order_items := update_where (\<lambda>i. oi_order_id i = oid)
              (\<lambda>i. i\<lparr>is_deleted := True, deleted_at := Some cascade_ts, updated_at := now env\<rparr>) (order_items d)\<rparr>, ()))))"

definition log_to_history :: "order_status_log \<Rightarrow> history_view" where
  "log_to_history l =
     \<lparr>hv_id = show_uuid (pk l), hv_order_id = show_uuid (osl_order_id l),
      hv_from_status = osl_from_status l, hv_to_status = osl_to_status l,
      hv_operator = (case osl_operator_id l of Some u \<Rightarrow> show_uuid u | None \<Rightarrow> ''system''),
      hv_remark = get_default [] (osl_remark l), hv_created_at = created_at l\<rparr>"

definition get_order_history :: "string \<Rightarrow> 'a oms_db_scheme \<Rightarrow> history_view list result" where
  "get_order_history order_id d =
     bindE (to_uuid order_id) (\<lambda>oid.
     bindE (find_or_raise (NotFoundException (''Order '' @ order_id @ '' not found''))
              (\<lambda>o'. pk o' = oid) (orders d)) (\<lambda>_.
     Inr (map log_to_history
            (order_by created_at (select_where (\<lambda>l. osl_order_id l = oid) (order_status_logs d))))))"

section \<open>Look up or create a customer\<close>

interpretation customer_goc: get_or_create customers cu_code get_or_create_customer
proof unfold_locales
  fix s :: string and d :: "'a oms_db_scheme" and env e r
  show "find_one (\<lambda>r. cu_code r = s) (customers d) = Inr (Some r) \<Longrightarrow> get_or_create_customer env s d = Inr (d, r)"
    by (simp add: get_or_create_customer_def)
  show "find_one (\<lambda>r. cu_code r = s) (customers d) = Inl e \<Longrightarrow> get_or_create_customer env s d = Inl e"
    by (simp add: get_or_create_customer_def)
  assume n: "find_one (\<lambda>r. cu_code r = s) (customers d) = Inr None"
  then have "s \<notin> cu_code ` set (customers d)" by (auto simp: find_one_None)
  with n show "\<exists>d' r. get_or_create_customer env s d = Inr (d', r) \<and> cu_code r = s \<and>
      customers d' = insert_row r (customers d)"
    by (simp add: get_or_create_customer_def insert_unique_def new_customer_def Let_def)
qed
lemma get_or_create_customer_frame:
  assumes "get_or_create_customer env s d = Inr (d', r)"
  shows "d' = d \<or> d' = d\<lparr>drawn := Suc (drawn d), customers := customers d'\<rparr>"
  using assms by (auto simp: get_or_create_customer_def Let_def tick_def split: option.splits)

section \<open>The state machine\<close>

definition change_status :: "string \<Rightarrow> string \<Rightarrow> string result" where
  "change_status current target = bindE (validate_transition current target) (\<lambda>_. Inr target)"

definition order_rank :: "string \<Rightarrow> nat" where
  "order_rank s =
     (if s = ''draft'' then 4 else if s = ''confirmed'' then 3 else if s = ''processing'' then 2
      else if s = ''picking'' then 1 else 0)"

lemma validate_transition_ok [simp]: "validate_transition s t = Inr u \<longleftrightarrow> t \<in> set (order_states s)"
  by (simp add: validate_transition_def Let_def)

interpretation order_lifecycle: ranked_status_machine order_states change_status order_rank
proof unfold_locales
  fix s t :: string
  show "t \<in> set (order_states s) \<Longrightarrow> change_status s t = Inr t"
    by (simp add: change_status_def)
  show "t \<notin> set (order_states s) \<Longrightarrow> \<exists>e. change_status s t = Inl e"
    by (simp add: change_status_def validate_transition_def Let_def)
  show "t \<in> set (order_states s) \<Longrightarrow> order_rank t < order_rank s"
    by (auto simp: order_states_def order_rank_def split: if_splits)
qed

lemma status_map_reverse [simp]: "status_map (status_reverse s) = Some s"
  by (cases s) (simp_all add: status_map_def)

lemma status_reverse_map: "status_map t = Some s \<longleftrightarrow> t = status_reverse s"
  by (cases s) (auto simp: status_map_def)

lemma order_states_mapped: "t \<in> set (order_states s) \<Longrightarrow> \<exists>x. status_map t = Some x"
  by (auto simp: order_states_def status_map_def split: if_splits)

section \<open>Creation\<close>

lemma add_order_item_cases:
  assumes "add_order_item env oid it d = Inr d'"
  obtains d1 sid where "d' = (tick d1)\<lparr>order_items := insert_row (new_order_item env (new_uuid env d1) oid sid it) (order_items d)\<rparr>"
    "\<exists>n t. d1 = d\<lparr>drawn := n, skus := t\<rparr>"
    "get_default [] (rq_sku it) = [] \<and> sid = None \<and> d1 = d \<or>
     (\<exists>s. get_or_create_sku env (get_default [] (rq_sku it)) d = Inr (d1, s) \<and> sid = Some (pk s))"
proof (cases "get_default [] (rq_sku it) = []")
  case True
  moreover have "\<exists>n t. d = d\<lparr>drawn := n, skus := t\<rparr>"
    by (rule exI [of _ "drawn d"], rule exI [of _ "skus d"]) simp
  ultimately show thesis using assms that[of d None] by (auto simp: add_order_item_def Let_def)
next
  case False
  with assms obtain d1 s where g: "get_or_create_sku env (get_default [] (rq_sku it)) d = Inr (d1, s)"
    and d': "d' = (tick d1)\<lparr>order_items := insert_row (new_order_item env (new_uuid env d1) oid (Some (pk s)) it) (order_items d1)\<rparr>"
    by (auto simp: add_order_item_def Let_def)
  from get_or_create_sku_frame[OF g] obtain n t where d1: "d1 = d\<lparr>drawn := n, skus := t\<rparr>" by blast
  then have "order_items d1 = order_items d" by simp
  with d' g d1 show thesis by (intro that[of d1 "Some (pk s)"]) auto
qed

text \<open>The view of an item as the request describes it.\<close>

definition requested_view :: "order_item_req \<Rightarrow> item_view" where
  "requested_view it =
     \<lparr>iv_gtin = get_default [] (rq_gtin it), iv_sku = get_default [] (rq_sku it),
      iv_product_name = get_default [] (rq_product_name it), iv_quantity = get_default 0 (rq_quantity it),
      iv_unit_price = get_default 0 (rq_unit_price it),
      iv_subtotal = get_default 0 (rq_unit_price it) * of_int (get_default 0 (rq_quantity it))\<rparr>"

lemma item_to_dict_cong:
  assumes "skus d' = skus d"
  shows "item_to_dict d' oi = item_to_dict d oi"
  using assms by (simp add: item_to_dict_def split: option.splits)

lemma get_or_create_sku_lookup:
  assumes "get_or_create_sku env s d = Inr (d', r)" "skus_ok env cap d" "drawn d' \<le> cap"
  shows "db_get (pk r) (skus d') = Some r" "sku_code r = s"
    "\<And>u x. db_get u (skus d) = Some x \<Longrightarrow> db_get u (skus d') = Some x"
proof -
  from get_or_create_sku_ok[OF assms] show "db_get (pk r) (skus d') = Some r"
    by (intro db_get_pk) (auto simp: skus_ok_def)
  show "sku_code r = s" using sku_goc.goc_name[OF assms(1)] .
  from sku_goc.goc_extends[OF assms(1)] show "db_get u (skus d') = Some x" if "db_get u (skus d) = Some x" for u x
    using that by (auto simp: db_get_append)
qed

text \<open>One item: exactly one row is appended, it shows what was requested, and rows already there keep
  their views.\<close>

definition shows_skus :: "'a oms_db_scheme \<Rightarrow> order_item \<Rightarrow> bool" where
  "shows_skus d oi \<longleftrightarrow> (case oi_sku_id oi of None \<Rightarrow> True | Some u \<Rightarrow> db_get u (skus d) \<noteq> None)"

lemma add_order_item_step:
  assumes "add_order_item env oid it d = Inr d'" "skus_ok env cap d" "drawn d' \<le> cap"
  shows "skus_ok env cap d'"
    "\<exists>oi. order_items d' = order_items d @ [oi] \<and> item_to_dict d' oi = requested_view it \<and>
       oi_order_id oi = oid \<and> created_at oi = now env \<and> shows_skus d' oi"
    "\<And>oi. shows_skus d oi \<Longrightarrow> item_to_dict d' oi = item_to_dict d oi \<and> shows_skus d' oi"
    "\<exists>n t i. d' = d\<lparr>drawn := n, skus := t, order_items := i\<rparr>"
proof -
  from assms(1) obtain d1 sid where d': "d' = (tick d1)\<lparr>order_items := insert_row (new_order_item env (new_uuid env d1) oid sid it) (order_items d)\<rparr>"
    and fr: "\<exists>n t. d1 = d\<lparr>drawn := n, skus := t\<rparr>"
    and c: "get_default [] (rq_sku it) = [] \<and> sid = None \<and> d1 = d \<or>
     (\<exists>s. get_or_create_sku env (get_default [] (rq_sku it)) d = Inr (d1, s) \<and> sid = Some (pk s))"
    by (rule add_order_item_cases)
  have sk: "skus d' = skus d1" and dr: "drawn d' = Suc (drawn d1)" by (simp_all add: d' tick_def)
  have le: "drawn d1 \<le> cap" using assms(3) dr by simp
  have ok1: "skus_ok env cap d1" using c get_or_create_sku_ok(1)[OF _ assms(2) le] assms(2) by blast
  then show "skus_ok env cap d'" by (auto simp: skus_ok_def sk dr intro: fresh_ids_mono)
  let ?oi = "new_order_item env (new_uuid env d1) oid sid it"
  have "item_to_dict d' ?oi = requested_view it \<and> shows_skus d' ?oi"
    using c
  proof
    assume "get_default [] (rq_sku it) = [] \<and> sid = None \<and> d1 = d"
    then show ?thesis by (simp add: item_to_dict_def requested_view_def new_order_item_def shows_skus_def)
  next
    assume "\<exists>s. get_or_create_sku env (get_default [] (rq_sku it)) d = Inr (d1, s) \<and> sid = Some (pk s)"
    then obtain s where g: "get_or_create_sku env (get_default [] (rq_sku it)) d = Inr (d1, s)" and s: "sid = Some (pk s)" by blast
    show ?thesis using get_or_create_sku_lookup(1,2)[OF g assms(2) le] s
      by (simp add: item_to_dict_def requested_view_def new_order_item_def shows_skus_def sk)
  qed
  then show "\<exists>oi. order_items d' = order_items d @ [oi] \<and> item_to_dict d' oi = requested_view it \<and>
       oi_order_id oi = oid \<and> created_at oi = now env \<and> shows_skus d' oi"
    by (intro exI [of _ ?oi]) (auto simp: d' insert_row_def new_order_item_def)
  show "item_to_dict d' oi = item_to_dict d oi \<and> shows_skus d' oi" if "shows_skus d oi" for oi
    using that c get_or_create_sku_lookup(3)[OF _ assms(2) le]
    by (fastforce simp: item_to_dict_def shows_skus_def sk split: option.splits)
  from fr obtain n t where "d1 = d\<lparr>drawn := n, skus := t\<rparr>" by blast
  then have "d' = d\<lparr>drawn := Suc n, skus := t, order_items := order_items d'\<rparr>"
    by (simp add: d' tick_def)
  then show "\<exists>n t i. d' = d\<lparr>drawn := n, skus := t, order_items := i\<rparr>" by blast
qed

lemma add_order_item_drawn:
  assumes "add_order_item env oid it d = Inr d'"
  shows "drawn d < drawn d'"
  using assms
proof (rule add_order_item_cases)
  fix d1 sid
  assume d': "d' = (tick d1)\<lparr>order_items := insert_row (new_order_item env (new_uuid env d1) oid sid it) (order_items d)\<rparr>"
    and "get_default [] (rq_sku it) = [] \<and> sid = None \<and> d1 = d \<or>
     (\<exists>s. get_or_create_sku env (get_default [] (rq_sku it)) d = Inr (d1, s) \<and> sid = Some (pk s))"
  then have "drawn d \<le> drawn d1" using get_or_create_sku_drawn by blast
  with d' show ?thesis by (simp add: tick_def)
qed

lemma add_order_items_drawn:
  assumes "foldE (add_order_item env oid) items d = Inr d'"
  shows "drawn d \<le> drawn d'"
  using assms
  by (rule foldE_invariant[where I = "\<lambda>x. drawn d \<le> drawn x"]) (auto dest: add_order_item_drawn)

lemma add_order_items_loop:
  assumes "foldE (add_order_item env oid) items d = Inr d'" "skus_ok env cap d" "drawn d' \<le> cap"
  shows "\<exists>rows. order_items d' = order_items d @ rows \<and> map (item_to_dict d') rows = map requested_view items \<and>
      (\<forall>r\<in>set rows. oi_order_id r = oid \<and> created_at r = now env \<and> shows_skus d' r)"
    "skus_ok env cap d'" "\<exists>n t i. d' = d\<lparr>drawn := n, skus := t, order_items := i\<rparr>"
    "\<And>oi. shows_skus d oi \<Longrightarrow> item_to_dict d' oi = item_to_dict d oi \<and> shows_skus d' oi"
proof -
  have "(\<exists>rows. order_items d' = order_items d @ rows \<and> map (item_to_dict d') rows = map requested_view items \<and>
      (\<forall>r\<in>set rows. oi_order_id r = oid \<and> created_at r = now env \<and> shows_skus d' r)) \<and> skus_ok env cap d' \<and>
      (\<exists>n t i. d' = d\<lparr>drawn := n, skus := t, order_items := i\<rparr>) \<and>
      (\<forall>oi. shows_skus d oi \<longrightarrow> item_to_dict d' oi = item_to_dict d oi \<and> shows_skus d' oi)"
    using assms
  proof (induction items arbitrary: d)
    case Nil
    have "\<exists>n t i. d = d\<lparr>drawn := n, skus := t, order_items := i\<rparr>"
      by (rule exI [of _ "drawn d"], rule exI [of _ "skus d"], rule exI [of _ "order_items d"]) simp
    with Nil show ?case by auto
  next
    case (Cons it items)
    then obtain d1 where s: "add_order_item env oid it d = Inr d1"
      and l: "foldE (add_order_item env oid) items d1 = Inr d'" by auto
    have le: "drawn d1 \<le> cap" using add_order_items_drawn[OF l] Cons.prems(3) by simp
    note st = add_order_item_step[OF s Cons.prems(2) le]
    from st(2) obtain oi where oi: "order_items d1 = order_items d @ [oi]" "item_to_dict d1 oi = requested_view it"
      "oi_order_id oi = oid" "created_at oi = now env" "shows_skus d1 oi" by blast
    from Cons.IH[OF l st(1) Cons.prems(3)] obtain rows where rows: "order_items d' = order_items d1 @ rows"
      "map (item_to_dict d') rows = map requested_view items"
      "\<forall>r\<in>set rows. oi_order_id r = oid \<and> created_at r = now env \<and> shows_skus d' r"
      and rest: "skus_ok env cap d'" "\<exists>n t i. d' = d1\<lparr>drawn := n, skus := t, order_items := i\<rparr>"
      "\<forall>oi. shows_skus d1 oi \<longrightarrow> item_to_dict d' oi = item_to_dict d1 oi \<and> shows_skus d' oi" by blast
    have "order_items d' = order_items d @ (oi # rows)" using oi rows by simp
    moreover have "map (item_to_dict d') (oi # rows) = map requested_view (it # items)"
      using rest(3) oi(2,5) rows(2) by simp
    moreover have "\<forall>r\<in>set (oi # rows). oi_order_id r = oid \<and> created_at r = now env \<and> shows_skus d' r"
      using rest(3) oi rows(3) by simp
    moreover have "\<exists>n t i. d' = d\<lparr>drawn := n, skus := t, order_items := i\<rparr>"
    proof -
      from st(4) rest(2) obtain n t i n' t' i' where "d1 = d\<lparr>drawn := n, skus := t, order_items := i\<rparr>"
        "d' = d1\<lparr>drawn := n', skus := t', order_items := i'\<rparr>" by blast
      then have "d' = d\<lparr>drawn := n', skus := t', order_items := i'\<rparr>" by simp
      then show ?thesis by blast
    qed
    moreover have "\<forall>oi. shows_skus d oi \<longrightarrow> item_to_dict d' oi = item_to_dict d oi \<and> shows_skus d' oi"
      using st(3) rest(3) by metis
    ultimately show ?case using rest(1) by blast
  qed
  then show "\<exists>rows. order_items d' = order_items d @ rows \<and> map (item_to_dict d') rows = map requested_view items \<and>
      (\<forall>r\<in>set rows. oi_order_id r = oid \<and> created_at r = now env \<and> shows_skus d' r)"
    "skus_ok env cap d'" "\<exists>n t i. d' = d\<lparr>drawn := n, skus := t, order_items := i\<rparr>"
    "\<And>oi. shows_skus d oi \<Longrightarrow> item_to_dict d' oi = item_to_dict d oi \<and> shows_skus d' oi" by blast+
qed

section \<open>Invariant of the order tables\<close>

text \<open>
  Primary keys and codes are unique, items belong to an order, and identifiers still to be drawn are
  used nowhere.
\<close>

definition oms_ok :: "env \<Rightarrow> nat \<Rightarrow> 'a oms_db_scheme \<Rightarrow> bool" where
  "oms_ok env cap d \<longleftrightarrow> skus_ok env cap d \<and>
     distinct (map pk (customers d)) \<and> distinct (map cu_code (customers d)) \<and>
     distinct (map pk (orders d)) \<and> oi_order_id ` set (order_items d) \<subseteq> pk ` set (orders d) \<and>
     fresh_ids env cap (drawn d) (pk ` set (customers d)) \<and> fresh_ids env cap (drawn d) (pk ` set (orders d))"

lemma get_or_create_customer_ok:
  assumes "get_or_create_customer env s d = Inr (d', c)" "oms_ok env cap d" "drawn d' \<le> cap"
  shows "oms_ok env cap d'" "c \<in> set (customers d')" "cu_code c = s" "drawn d \<le> drawn d'"
    "orders d' = orders d" "order_items d' = order_items d" "outbox_events d' = outbox_events d"
    "skus d' = skus d" "order_status_logs d' = order_status_logs d"
proof -
  have fr: "d' = d \<or> d' = d\<lparr>drawn := Suc (drawn d), customers := customers d'\<rparr>"
    by (rule get_or_create_customer_frame[OF assms(1)])
  show rest: "drawn d \<le> drawn d'" "orders d' = orders d" "order_items d' = order_items d"
    "outbox_events d' = outbox_events d" "skus d' = skus d" "order_status_logs d' = order_status_logs d"
    using fr by (auto dest: arg_cong[where f = drawn] arg_cong[where f = orders] arg_cong[where f = skus]
        arg_cong[where f = order_items] arg_cong[where f = outbox_events] arg_cong[where f = order_status_logs])
  show "cu_code c = s" using customer_goc.goc_name[OF assms(1)] .
  have "c \<in> set (customers d') \<and> distinct (map pk (customers d')) \<and> fresh_ids env cap (drawn d') (pk ` set (customers d'))"
    using assms(1)
  proof (cases rule: customer_goc.goc_cases)
    case found
    then show ?thesis using assms(2) by (auto simp: oms_ok_def dest: find_one_SomeD)
  next
    case new
    have c: "d' = (tick d)\<lparr>customers := insert_row c (customers d)\<rparr>" "c = new_customer env (new_uuid env d) s"
      using assms(1) new by (auto simp: get_or_create_customer_def Let_def)
    have f: "fresh_ids env cap (drawn d) (pk ` set (customers d))" using assms(2) by (simp add: oms_ok_def)
    have dr: "drawn d' = Suc (drawn d)" and p: "pk c = uuid4 env (drawn d)" and cs: "customers d' = customers d @ [c]"
      using c by (simp_all add: tick_def new_customer_def new_uuid_def insert_row_def)
    have "pk c \<notin> pk ` set (customers d)" using fresh_ids_notin[OF f] p dr assms(3) by simp
    then show ?thesis using assms(2,3) fresh_ids_draw[OF f] p dr by (auto simp: cs oms_ok_def)
  qed
  moreover have "distinct (map cu_code (customers d'))"
    using customer_goc.goc_names_distinct[OF assms(1)] assms(2) by (simp add: oms_ok_def)
  ultimately show "c \<in> set (customers d')" "oms_ok env cap d'"
    using assms(2) rest by (auto simp: oms_ok_def skus_ok_def intro: fresh_ids_mono)
qed


text \<open>The steps of a successful creation.\<close>

lemma create_orderE:
  assumes "create_order env data d = Inr (d', v)"
  obtains d1 customer order d3 where
    "get_or_create_customer env (rq_customer_id data) d = Inr (d1, customer)"
    "order = \<lparr>pk = uuid4 env (Suc (drawn d1)), created_at = now env, updated_at = now env,
       is_deleted = False, deleted_at = None,
       ord_order_no = ''ORD-'' @ ymd env @ ''-'' @ upper (take 8 (uuid_hex (uuid4 env (drawn d1)))),
       ord_status = OrderStatus_PENDING, ord_customer_id = pk customer, ord_warehouse_id = None,
       ord_items = JObj [], ord_total_amount = req_total (rq_items data),
       ord_priority = get_default OrderPriority_MEDIUM (priority_map (get_default ''medium'' (rq_priority data))),
       ord_version = 0, ord_notes = get_default [] (rq_notes data)\<rparr>"
    "ord_order_no order \<notin> ord_order_no ` set (orders d1)"
    "foldE (add_order_item env (pk order)) (rq_items data)
       (d1\<lparr>drawn := Suc (Suc (drawn d1)), orders := insert_row order (orders d1)\<rparr>) = Inr d3"
    "d' = append_event env ''Order'' (pk order) ''order.created''
           (JObj [(''order_id'', JStr (show_uuid (pk order))), (''order_no'', JStr (ord_order_no order)),
                  (''total_amount'', JNum (ord_total_amount order)), (''customer_id'', JStr (rq_customer_id data))])
           (add_status_log env (pk order) [] ''pending'' ''Order created'' d3)"
    "v = order_to_dict d' order None"
proof -
  from assms obtain d1 customer where c: "get_or_create_customer env (rq_customer_id data) d = Inr (d1, customer)"
    unfolding create_order_def by auto
  define order where "order = \<lparr>pk = uuid4 env (Suc (drawn d1)), created_at = now env, updated_at = now env,
       is_deleted = False, deleted_at = None,
       ord_order_no = ''ORD-'' @ ymd env @ ''-'' @ upper (take 8 (uuid_hex (uuid4 env (drawn d1)))),
       ord_status = OrderStatus_PENDING, ord_customer_id = pk customer, ord_warehouse_id = None,
       ord_items = JObj [], ord_total_amount = req_total (rq_items data),
       ord_priority = get_default OrderPriority_MEDIUM (priority_map (get_default ''medium'' (rq_priority data))),
       ord_version = 0, ord_notes = get_default [] (rq_notes data)\<rparr>"
  have "\<exists>d3. ord_order_no order \<notin> ord_order_no ` set (orders d1) \<and>
    foldE (add_order_item env (pk order)) (rq_items data)
       (d1\<lparr>drawn := Suc (Suc (drawn d1)), orders := insert_row order (orders d1)\<rparr>) = Inr d3 \<and>
    d' = append_event env ''Order'' (pk order) ''order.created''
           (JObj [(''order_id'', JStr (show_uuid (pk order))), (''order_no'', JStr (ord_order_no order)),
                  (''total_amount'', JNum (ord_total_amount order)), (''customer_id'', JStr (rq_customer_id data))])
           (add_status_log env (pk order) [] ''pending'' ''Order created'' d3) \<and>
    v = order_to_dict d' order None"
    using assms c unfolding create_order_def Let_def order_def
    by (simp add: tick_def new_uuid_def) blast
  with c order_def that show thesis by blast
qed

lemma order_to_dict_fields [simp]:
  "ov_id (order_to_dict d order c) = show_uuid (pk order)"
  "ov_order_no (order_to_dict d order c) = ord_order_no order"
  "ov_status (order_to_dict d order c) = status_reverse (ord_status order)"
  "ov_total_amount (order_to_dict d order c) = ord_total_amount order"
  "ov_priority (order_to_dict d order c) = priority_reverse (ord_priority order)"
  "ov_notes (order_to_dict d order c) = ord_notes order"
  by (simp_all add: order_to_dict_def Let_def)

lemma oms_more_cong:
  assumes "core_db.more d' = core_db.more (d :: 'a oms_db_scheme)"
  shows "customers d' = customers d" "orders d' = orders d" "order_items d' = order_items d"
    "order_status_logs d' = order_status_logs d" "merge_groups d' = merge_groups d"
    "split_child_orders d' = split_child_orders d" "oms_db.more d' = oms_db.more d"
  using assms by (cases d; cases d'; simp)+

lemmas oms_events_frame [simp] =
  oms_more_cong[OF append_event_simps(1)] oms_more_cong[OF dispatch_event_simps(1)]

lemma order_to_dict_cong:
  assumes "customers d' = customers d" "order_items d' = order_items d" "skus d' = skus d"
  shows "order_to_dict d' order c = order_to_dict d order c"
  using assms by (cases c) (simp_all add: order_to_dict_def Let_def item_to_dict_cong[of d' d] cong: map_cong)

lemma add_status_log_frame [simp]:
  "orders (add_status_log e i a b c d) = orders d" "customers (add_status_log e i a b c d) = customers d"
  "order_items (add_status_log e i a b c d) = order_items d" "skus (add_status_log e i a b c d) = skus d"
  "outbox_events (add_status_log e i a b c d) = outbox_events d" "drawn (add_status_log e i a b c d) = Suc (drawn d)"
  by (simp_all add: add_status_log_def tick_def)

text \<open>What the request asks for is what is stored and shown, and nothing else changes in the order tables.\<close>

lemma create_order_effect:
  assumes "create_order env data d = Inr (d', v)" "oms_ok env cap d" "drawn d' \<le> cap"
  shows "oms_ok env cap d'" "\<exists>order. orders d' = orders d @ [order] \<and> v = order_to_dict d' order None \<and>
      \<not> is_deleted order \<and> ord_status order = OrderStatus_PENDING \<and>
      ord_total_amount order = req_total (rq_items data) \<and> pk order \<notin> pk ` set (orders d) \<and>
      (\<exists>l. order_status_logs d' = order_status_logs d @ [l] \<and> osl_order_id l = pk order \<and> osl_from_status l = [])"
    "ov_items v = map requested_view (rq_items data)" "ov_customer_id v = rq_customer_id data"
    "\<exists>rows. order_items d' = order_items d @ rows \<and> length rows = length (rq_items data)"
proof -
  from assms(1) obtain d1 customer order d3 where
    c: "get_or_create_customer env (rq_customer_id data) d = Inr (d1, customer)"
    and o': "order = \<lparr>pk = uuid4 env (Suc (drawn d1)), created_at = now env, updated_at = now env,
       is_deleted = False, deleted_at = None,
       ord_order_no = ''ORD-'' @ ymd env @ ''-'' @ upper (take 8 (uuid_hex (uuid4 env (drawn d1)))),
       ord_status = OrderStatus_PENDING, ord_customer_id = pk customer, ord_warehouse_id = None,
       ord_items = JObj [], ord_total_amount = req_total (rq_items data),
       ord_priority = get_default OrderPriority_MEDIUM (priority_map (get_default ''medium'' (rq_priority data))),
       ord_version = 0, ord_notes = get_default [] (rq_notes data)\<rparr>"
    and loop: "foldE (add_order_item env (pk order)) (rq_items data)
       (d1\<lparr>drawn := Suc (Suc (drawn d1)), orders := insert_row order (orders d1)\<rparr>) = Inr d3"
    and d': "d' = append_event env ''Order'' (pk order) ''order.created''
           (JObj [(''order_id'', JStr (show_uuid (pk order))), (''order_no'', JStr (ord_order_no order)),
                  (''total_amount'', JNum (ord_total_amount order)), (''customer_id'', JStr (rq_customer_id data))])
           (add_status_log env (pk order) [] ''pending'' ''Order created'' d3)"
    and v: "v = order_to_dict d' order None"
    by (rule create_orderE)
  let ?d2 = "d1\<lparr>drawn := Suc (Suc (drawn d1)), orders := insert_row order (orders d1)\<rparr>"
  have dr': "drawn d' = Suc (Suc (drawn d3))" by (simp add: d')
  have le3: "drawn d3 \<le> cap" using dr' assms(3) by simp
  have le2: "Suc (Suc (drawn d1)) \<le> drawn d3" using add_order_items_drawn[OF loop] by simp
  then have le1: "drawn d1 \<le> cap" using le3 by simp
  note cu = get_or_create_customer_ok[OF c assms(2) le1]
  have o1: "oms_ok env cap d1" by (rule cu(1))
  have sk2: "skus_ok env cap ?d2" using o1 by (auto simp: oms_ok_def skus_ok_def intro: fresh_ids_mono)
  note items = add_order_items_loop[OF loop sk2 le3]
  from items(3) obtain n t i where d3: "d3 = ?d2\<lparr>drawn := n, skus := t, order_items := i\<rparr>" by blast
  have tabs: "customers d' = customers d1" "orders d' = orders d @ [order]" "order_items d' = order_items d3"
    "skus d' = skus d3"
    using cu(5) by (simp_all add: d' d3 insert_row_def)
  have pko: "pk order = uuid4 env (Suc (drawn d1))" by (simp add: o')
  have new: "pk order \<notin> pk ` set (orders d)"
    using fresh_ids_notin[of env cap "drawn d1" "pk ` set (orders d1)" "Suc (drawn d1)"] o1 le2 le3 cu(5)
    by (simp add: oms_ok_def pko)
  have logs: "\<exists>l. order_status_logs d' = order_status_logs d @ [l] \<and> osl_order_id l = pk order \<and> osl_from_status l = []"
    using cu(9) by (simp add: d' d3 add_status_log_def tick_def insert_row_def)
  from items(1) obtain rows where rows: "order_items d3 = order_items ?d2 @ rows"
    "map (item_to_dict d3) rows = map requested_view (rq_items data)"
    "\<forall>r\<in>set rows. oi_order_id r = pk order \<and> created_at r = now env \<and> shows_skus d3 r" by blast
  have rows': "order_items d' = order_items d @ rows" using rows(1) tabs(3) cu(6) by simp
  have old: "oi_order_id r \<noteq> pk order" if "r \<in> set (order_items d)" for r
  proof -
    have "oi_order_id r \<in> pk ` set (orders d)" using that assms(2) by (auto simp: oms_ok_def)
    with new show ?thesis by metis
  qed
  have mine: "filter (\<lambda>oi. oi_order_id oi = pk order) (order_items d') = rows"
    using old rows(3) by (simp add: rows' filter_empty_conv)
  have "order_by created_at rows = rows" unfolding order_by_def using rows(3) by (intro sort_key_const) auto
  then have "ov_items v = map (item_to_dict d') rows"
    using mine by (simp add: v order_to_dict_def Let_def select_where_def)
  also have "\<dots> = map (item_to_dict d3) rows"
    using item_to_dict_cong[OF tabs(4)] by (intro map_cong) simp_all
  finally show "ov_items v = map requested_view (rq_items data)" using rows(2) by simp
  have "length rows = length (rq_items data)" using arg_cong[OF rows(2), of length] by simp
  with rows' show "\<exists>rows. order_items d' = order_items d @ rows \<and> length rows = length (rq_items data)" by blast
  have "db_get (pk customer) (customers d') = Some customer"
    using o1 cu(2) by (intro db_get_pk) (auto simp: tabs oms_ok_def)
  then show "ov_customer_id v = rq_customer_id data"
    using cu(3) by (simp add: v order_to_dict_def Let_def o')
  show "\<exists>order. orders d' = orders d @ [order] \<and> v = order_to_dict d' order None \<and>
      \<not> is_deleted order \<and> ord_status order = OrderStatus_PENDING \<and>
      ord_total_amount order = req_total (rq_items data) \<and> pk order \<notin> pk ` set (orders d) \<and>
      (\<exists>l. order_status_logs d' = order_status_logs d @ [l] \<and> osl_order_id l = pk order \<and> osl_from_status l = [])"
    using tabs(2) v new logs by (intro exI [of _ order]) (simp add: o')
  have fo: "fresh_ids env cap (drawn d') (pk ` set (orders d'))"
  proof -
    have "fresh_ids env cap (Suc (drawn d1)) (pk ` set (orders d))"
      using o1 cu(5) by (auto simp: oms_ok_def intro: fresh_ids_mono)
    from fresh_ids_draw[OF this, of "drawn d'"] le2 le3 dr' show ?thesis by (simp add: tabs pko)
  qed
  have "skus_ok env cap d'" using items(2) dr' by (auto simp: skus_ok_def tabs intro: fresh_ids_mono)
  moreover have "distinct (map pk (orders d'))" using new assms(2) by (simp add: tabs oms_ok_def)
  moreover have "oi_order_id ` set (order_items d') \<subseteq> pk ` set (orders d')"
    using rows(3) assms(2) by (auto simp: rows' tabs oms_ok_def)
  moreover have "fresh_ids env cap (drawn d') (pk ` set (customers d'))"
    using o1 le2 dr' by (auto simp: oms_ok_def tabs intro: fresh_ids_mono)
  ultimately show "oms_ok env cap d'" using o1 fo by (simp add: oms_ok_def tabs)
qed

lemma create_order_get:
  assumes "create_order env data d = Inr (d', v)" "oms_ok env cap d" "drawn d' \<le> cap"
  shows "get_order (ov_id v) d' = Inr v"
proof -
  from create_order_effect(1,2)[OF assms] obtain order where
    o': "orders d' = orders d @ [order]" "v = order_to_dict d' order None" "\<not> is_deleted order"
    and k: "distinct (map pk (orders d'))" by (auto simp: oms_ok_def)
  have "find_one (\<lambda>x. pk x = pk order \<and> \<not> is_deleted x) (orders d') = Inr (Some order)"
  proof -
    have "filter (\<lambda>x. pk x = pk order \<and> \<not> is_deleted x) (orders d') = filter (\<lambda>x. \<not> is_deleted x) [order]"
      using filter_unique_key[OF k, of order] o'(1) by (simp flip: filter_filter)
    with o'(3) show ?thesis by (simp add: find_one_Some_iff)
  qed
  then show ?thesis by (simp add: get_order_def o'(2))
qed

end
