(* ===== verification/Oms_Merge.thy ===== *)
theory Oms_Merge
  imports Oms_Service
begin

text \<open>
  \<open>src/oms/merge.py\<close>: splitting an order into child orders and merging orders into a group, and the
  reachable states of order management under all its operations.
\<close>

section \<open>Split\<close>

record split_item_req =
  sr_sku :: "string option"
  sr_quantity :: "int option"
  sr_product_name :: "string option"

record split_req =
  sp_items :: "split_item_req list"
  sp_note :: "string option"

text \<open>\<open>str(oi.sku_id)\<close>, which is \<open>None\<close> for an item without a SKU.\<close>

definition str_opt_uuid :: "uuid option \<Rightarrow> string" where
  "str_opt_uuid u = (case u of None \<Rightarrow> ''None'' | Some x \<Rightarrow> show_uuid x)"

text \<open>One item of a child order: its row and its amount.\<close>

definition split_item ::
  "env \<Rightarrow> uuid \<Rightarrow> order_item list \<Rightarrow> split_item_req \<Rightarrow> 'a oms_db_scheme \<times> decimal \<Rightarrow> 'a oms_db_scheme \<times> decimal" where
  "split_item env child_id items_list item_req = (\<lambda>(d, total).
     let sku_str = get_default [] (sr_sku item_req);
         qty = get_default 0 (sr_quantity item_req);
         orig = find (\<lambda>oi. str_opt_uuid (oi_sku_id oi) = sku_str) items_list;
         unit_price = (case orig of None \<Rightarrow> 0 | Some oi \<Rightarrow> oi_unit_price oi);
         oi = \<lparr>pk = new_uuid env d, created_at = now env, updated_at = now env, is_deleted = False,
               deleted_at = None, oi_order_id = child_id,
               oi_sku_id = (case orig of None \<Rightarrow> None | Some oi \<Rightarrow> oi_sku_id oi),
               oi_gtin = (case orig of None \<Rightarrow> [] | Some oi \<Rightarrow> oi_gtin oi),
               oi_name = get_default (case orig of None \<Rightarrow> [] | Some oi \<Rightarrow> oi_name oi) (sr_product_name item_req),
               oi_quantity = qty, oi_picked_qty = 0, oi_unit_price = unit_price, oi_batch_no = None,
               oi_status = ''pending''\<rparr>
     in ((tick d)\<lparr>order_items := insert_row oi (order_items d)\<rparr>, total + unit_price * of_int qty))"

text \<open>One child order; \<open>idx\<close> counts from zero.\<close>

definition split_child ::
  "env \<Rightarrow> order \<Rightarrow> order_item list \<Rightarrow> string \<Rightarrow> nat \<times> split_req \<Rightarrow> 'a oms_db_scheme \<times> order_view list \<Rightarrow>
   ('a oms_db_scheme \<times> order_view list) result" where
  "split_child env order items_list reason = (\<lambda>(idx, split) (d, child_orders).
     let child = \<lparr>pk = new_uuid env d, created_at = now env, updated_at = now env, is_deleted = False,
                  deleted_at = None, ord_order_no = ord_order_no order @ ''-SP'' @ show_nat (idx + 1),
                  ord_status = OrderStatus_PENDING, ord_customer_id = ord_customer_id order,
                  ord_warehouse_id = ord_warehouse_id order, ord_items = JObj [], ord_total_amount = 0,
                  ord_priority = ord_priority order, ord_version = 0,
                  ord_notes = get_default (''Split from '' @ ord_order_no order) (sp_note split)\<rparr>
     in bindE (insert_unique ord_order_no child (orders d)) (\<lambda>t.
        let (d1, total) = fold (split_item env (pk child) items_list) (sp_items split) ((tick d)\<lparr>orders := t\<rparr>, 0);
            link = \<lparr>pk = new_uuid env d1, created_at = now env, updated_at = now env, is_deleted = False,
                    deleted_at = None, sco_parent_order_id = Some (pk order), sco_child_order_id = pk child,
                    sco_merge_group_id = None,
                    sco_split_reason = (if reason \<noteq> [] then reason else ''Manual split ('' @ show_nat (idx + 1) @ '')'')\<rparr>;
            child' = child\<lparr>ord_total_amount := total\<rparr>;
            d2 = (tick d1)\<lparr>split_child_orders := insert_row link (split_child_orders d1),
                           orders := update_where (\<lambda>o'. pk o' = pk child)
                             (\<lambda>o'. o'\<lparr>ord_total_amount := total, updated_at := now env\<rparr>) (orders d1)\<rparr>
        in Inr (d2, child_orders @ [order_to_dict d2 child' None])))"

definition split_order ::
  "env \<Rightarrow> string \<Rightarrow> split_req list \<Rightarrow> string \<Rightarrow> 'a oms_db_scheme \<Rightarrow> ('a oms_db_scheme \<times> order_view list) result" where
  "split_order env order_id splits reason d =
     bindE (to_uuid order_id) (\<lambda>oid.
     bindE (find_or_raise (NotFoundException (''Order '' @ order_id @ '' not found''))
              (\<lambda>o'. pk o' = oid) (orders d)) (\<lambda>order.
     foldE (split_child env order (select_where (\<lambda>oi. oi_order_id oi = oid) (order_items d)) reason)
       (enumerate 0 splits) (d, [])))"

section \<open>Merge\<close>

definition terminal_order :: "order \<Rightarrow> bool" where
  "terminal_order order \<longleftrightarrow>
     ord_status order \<in> {OrderStatus_COMPLETED, OrderStatus_CANCELLED, OrderStatus_FAILED}"

definition collect_order ::
  "'a oms_db_scheme \<Rightarrow> string \<Rightarrow> order list \<times> decimal \<times> int \<Rightarrow> (order list \<times> decimal \<times> int) result" where
  "collect_order d oid = (\<lambda>(orders', total_amount, total_items).
     bindE (to_uuid oid) (\<lambda>u.
     bindE (find_or_raise (NotFoundException (''Order '' @ oid @ '' not found'')) (\<lambda>o'. pk o' = u) (orders d)) (\<lambda>order.
     bindE (raise_if (terminal_order order)
              (validation (''Cannot merge order '' @ oid @ '': already in terminal state''))) (\<lambda>_.
     Inr (orders' @ [order], total_amount + ord_total_amount order,
          total_items + int (row_count (\<lambda>oi. oi_order_id oi = u) (order_items d)))))))"

definition next_merge_code :: "'a oms_db_scheme \<Rightarrow> string" where
  "next_merge_code d = ''MG-'' @ zero_pad 4 (show_nat (length (merge_groups d) + 1))"

text \<open>
  The retry loop. What a statement does in a session whose flush has failed is SQLAlchemy's:
  \<open>after_failed_flush = Some e\<close> says that it raises \<open>e\<close> (the library documents
  \<open>PendingRollbackError\<close> until the caller rolls back), \<open>None\<close> that the session goes on.
\<close>

fun merge_attempts ::
  "env \<Rightarrow> exn option \<Rightarrow> string option \<Rightarrow> string \<Rightarrow> int \<Rightarrow> decimal \<Rightarrow> nat \<Rightarrow> string \<Rightarrow> 'a oms_db_scheme \<Rightarrow>
   ('a oms_db_scheme \<times> merge_group) result" where
  "merge_attempts env after_failed_flush warehouse_id note total_items total_amount 0 merge_code d =
     Inl (validation ''Could not create merge group'')"
| "merge_attempts env after_failed_flush warehouse_id note total_items total_amount (Suc n) merge_code d =
     bindE (uuid_if_truthy warehouse_id) (\<lambda>wid.
     let grp = \<lparr>pk = new_uuid env d, created_at = now env, updated_at = now env, mg_code = merge_code,
                  mg_warehouse_id = wid, mg_status = ''active'', mg_total_items = total_items,
                  mg_total_amount = total_amount, mg_notes = note\<rparr>
     in case insert_unique mg_code grp (merge_groups d) of
          Inr t \<Rightarrow> Inr ((tick d)\<lparr>merge_groups := t\<rparr>, grp)
        | Inl _ \<Rightarrow>
            if n = 0 then Inl (validation (''Could not generate unique merge code '' @ map char_of [226::nat, 128, 148] @ '' try again''))
            else (case after_failed_flush of
                    Some e \<Rightarrow> Inl e
                  | None \<Rightarrow> merge_attempts env after_failed_flush warehouse_id note total_items total_amount n
                              (next_merge_code d) (tick d)))"

definition add_merge_link :: "env \<Rightarrow> uuid \<Rightarrow> order \<Rightarrow> 'a oms_db_scheme \<Rightarrow> 'a oms_db_scheme" where
  "add_merge_link env gid order d =
     (tick d)\<lparr>split_child_orders := insert_row
        \<lparr>pk = new_uuid env d, created_at = now env, updated_at = now env, is_deleted = False,
         deleted_at = None, sco_parent_order_id = None, sco_child_order_id = pk order,
         sco_merge_group_id = Some gid, sco_split_reason = ''merged''\<rparr> (split_child_orders d)\<rparr>"

definition group_to_dict :: "merge_group \<Rightarrow> uuid list \<Rightarrow> merge_view" where
  "group_to_dict grp ids =
     \<lparr>mv_id = show_uuid (pk grp), mv_code = mg_code grp, mv_status = mg_status grp,
      mv_total_items = mg_total_items grp, mv_total_amount = mg_total_amount grp,
      mv_notes = mg_notes grp, mv_order_ids = map show_uuid ids, mv_created_at = created_at grp\<rparr>"

definition merge_orders ::
  "env \<Rightarrow> exn option \<Rightarrow> string list \<Rightarrow> string option \<Rightarrow> string option \<Rightarrow> string \<Rightarrow> 'a oms_db_scheme \<Rightarrow>
   ('a oms_db_scheme \<times> merge_view) result" where
  "merge_orders env after_failed_flush order_ids given_code warehouse_id note d =
     bindE (raise_if (length order_ids < 2) (validation ''Need at least 2 orders to merge'')) (\<lambda>_.
     bindE (foldE (collect_order d) order_ids ([], 0, 0)) (\<lambda>(orders', total_amount, total_items).
     let merge_code = (if truthy given_code then get_default [] given_code else next_merge_code d) in
     bindE (merge_attempts env after_failed_flush warehouse_id note total_items total_amount 3 merge_code d) (\<lambda>(d1, grp).
     let d2 = fold (add_merge_link env (pk grp)) orders' d1
     in Inr (d2, group_to_dict grp (map pk orders')))))"

definition get_merge_group :: "string \<Rightarrow> 'a oms_db_scheme \<Rightarrow> merge_view option result" where
  "get_merge_group group_id d =
     bindE (to_uuid group_id) (\<lambda>gid.
     bindE (find_one (\<lambda>g. pk g = gid) (merge_groups d)) (\<lambda>found.
     case found of
       None \<Rightarrow> Inr None
     | Some grp \<Rightarrow>
         Inr (Some (group_to_dict grp
           (map sco_child_order_id
             (select_where (\<lambda>l. sco_merge_group_id l = Some gid \<and> \<not> is_deleted l) (split_child_orders d)))))))"

section \<open>Effects of the operations\<close>

lemma update_order_statusE:
  assumes "update_order_status env http order_id target operator d = Inr (d', v)"
  obtains oid order where "to_uuid order_id = Inr oid" "find_one (\<lambda>o'. pk o' = oid) (orders d) = Inr (Some order)"
    "target \<in> set (order_states (status_reverse (ord_status order)))"
    "orders d' = update_where (\<lambda>o'. pk o' = oid)
       (\<lambda>o'. o'\<lparr>ord_status := get_default OrderStatus_PENDING (status_map target), updated_at := now env\<rparr>) (orders d)"
    "\<exists>l. order_status_logs d' = order_status_logs d @ [l] \<and> osl_order_id l = oid \<and> osl_to_status l = target \<and>
       osl_from_status l = status_reverse (ord_status order)"
    "v = order_to_dict d' (order\<lparr>ord_status := get_default OrderStatus_PENDING (status_map target), updated_at := now env\<rparr>) None"
    "order_items d' = order_items d" "customers d' = customers d" "skus d' = skus d" "drawn d \<le> drawn d'"
proof -
  from assms obtain oid order where *: "to_uuid order_id = Inr oid"
    "find_one (\<lambda>o'. pk o' = oid) (orders d) = Inr (Some order)"
    "target \<in> set (order_states (status_reverse (ord_status order)))"
    unfolding update_order_status_def Let_def by auto
  let ?f = "\<lambda>o'. o'\<lparr>ord_status := get_default OrderStatus_PENDING (status_map target), updated_at := now env\<rparr>"
  obtain ev1 p1 ev2 p2 where d': "d' = dispatch_event env http ev2 p2 (dispatch_event env http ev1 p1
      (notify_order_status_change (pk order) operator target (ord_order_no order)
        (add_status_log env (pk order) (status_reverse (ord_status order)) target (''Status changed to '' @ target)
          (d\<lparr>orders := update_where (\<lambda>o'. pk o' = oid) ?f (orders d)\<rparr>))))"
    and v: "v = order_to_dict d' (?f order) None"
    using assms * unfolding update_order_status_def Let_def by auto
  have "pk order = oid" using find_one_SomeD(2)[OF *(2)] .
  then show thesis
    using * v dispatch_event_drawn_mono dispatch_event_drawn_mono[THEN order_trans]
    by (intro that[of oid order]) (auto simp: d' add_status_log_def tick_def insert_row_def
        intro!: order_trans[OF _ dispatch_event_drawn_mono])
qed

lemma validate_transition_refused:
  assumes "t \<notin> set (order_states s)"
  obtains m dt where "validate_transition s t = Inl (ValidationException m dt)"
  using assms by (simp add: validate_transition_def Let_def raise_if_def)

lemma update_order_status_refused:
  assumes "to_uuid order_id = Inr oid" "find_one (\<lambda>o'. pk o' = oid) (orders d) = Inr (Some order)"
    "target \<notin> set (order_states (status_reverse (ord_status order)))"
  shows "\<exists>m dt. update_order_status env http order_id target operator d = Inl (ValidationException m dt)"
proof -
  from validate_transition_refused[OF assms(3)] obtain m dt where
    v: "validate_transition (status_reverse (ord_status order)) target = Inl (ValidationException m dt)" by blast
  then show ?thesis by (simp add: update_order_status_def Let_def find_or_raise_def assms(1,2))
qed

lemma delete_orderE:
  assumes "delete_order env order_id d = Inr (d', u)"
  obtains oid order where "to_uuid order_id = Inr oid" "find_one (\<lambda>o'. pk o' = oid) (orders d) = Inr (Some order)"
    "order_states (status_reverse (ord_status order)) \<noteq> []"
    "d' = d\<lparr>orders := update_where (\<lambda>o'. pk o' = oid)
              (\<lambda>o'. o'\<lparr>is_deleted := True, deleted_at := Some (now env), updated_at := now env\<rparr>) (orders d),
            order_items := update_where (\<lambda>i. oi_order_id i = oid)
              (\<lambda>i. i\<lparr>is_deleted := True, deleted_at := Some (now env), updated_at := now env\<rparr>) (order_items d)\<rparr>"
proof -
  from assms obtain oid order where *: "to_uuid order_id = Inr oid"
    "find_one (\<lambda>o'. pk o' = oid) (orders d) = Inr (Some order)"
    "\<not> status_reverse (ord_status order) \<in> {''completed'', ''cancelled'', ''failed''}"
    "d' = d\<lparr>orders := update_where (\<lambda>o'. pk o' = oid)
              (\<lambda>o'. o'\<lparr>is_deleted := True, deleted_at := Some (now env), updated_at := now env\<rparr>) (orders d),
            order_items := update_where (\<lambda>i. oi_order_id i = oid)
              (\<lambda>i. i\<lparr>is_deleted := True, deleted_at := Some (now env), updated_at := now env\<rparr>) (order_items d)\<rparr>"
    unfolding delete_order_def Let_def by auto
  moreover from *(3) have "order_states (status_reverse (ord_status order)) \<noteq> []"
    by (cases "ord_status order") (simp_all add: order_states_def)
  ultimately show thesis using that by blast
qed

lemma deleted_order_hidden:
  assumes "delete_order env order_id d = Inr (d', u)"
  shows "get_order order_id d' = Inl (NotFoundException (''Order '' @ order_id @ '' not found''))"
  using assms
proof (rule delete_orderE)
  fix oid order
  assume *: "to_uuid order_id = Inr oid" and
    d': "d' = d\<lparr>orders := update_where (\<lambda>o'. pk o' = oid)
              (\<lambda>o'. o'\<lparr>is_deleted := True, deleted_at := Some (now env), updated_at := now env\<rparr>) (orders d),
            order_items := update_where (\<lambda>i. oi_order_id i = oid)
              (\<lambda>i. i\<lparr>is_deleted := True, deleted_at := Some (now env), updated_at := now env\<rparr>) (order_items d)\<rparr>"
  have "orders d' = update_where (\<lambda>o'. pk o' = oid)
      (\<lambda>o'. o'\<lparr>is_deleted := True, deleted_at := Some (now env), updated_at := now env\<rparr>) (orders d)"
    unfolding d' by simp
  moreover have "\<forall>r\<in>set (update_where (\<lambda>o'. pk o' = oid)
      (\<lambda>o'. o'\<lparr>is_deleted := True, deleted_at := Some (now env), updated_at := now env\<rparr>) (orders d)).
      \<not> (pk r = oid \<and> \<not> is_deleted r)"
    by (rule update_where_all) simp_all
  ultimately have "find_or_raise e (\<lambda>r. pk r = oid \<and> \<not> is_deleted r) (orders d') = Inl e" for e
    by (intro find_or_raise_None) simp
  then show ?thesis by (simp add: get_order_def *)
qed

section \<open>The recorded history\<close>

text \<open>The status changes recorded for an order (creation logs have an empty \<open>from_status\<close>).\<close>

definition transitions :: "'a oms_db_scheme \<Rightarrow> uuid \<Rightarrow> string list" where
  "transitions d oid =
     map osl_to_status (filter (\<lambda>l. osl_order_id l = oid \<and> osl_from_status l \<noteq> []) (order_status_logs d))"

definition history_ok :: "'a oms_db_scheme \<Rightarrow> bool" where
  "history_ok d \<longleftrightarrow> (\<forall>o'\<in>set (orders d).
     allowed_path order_states ''draft'' (transitions d (pk o')) \<and>
     status_reverse (ord_status o') = last (''draft'' # transitions d (pk o')))"

definition oms_inv :: "env \<Rightarrow> nat \<Rightarrow> 'a oms_db_scheme \<Rightarrow> bool" where
  "oms_inv env cap d \<longleftrightarrow> oms_ok env cap d \<and>
     osl_order_id ` set (order_status_logs d) \<subseteq> pk ` set (orders d) \<and> history_ok d"

lemma oms_inv_create:
  assumes "create_order env data d = Inr (d', v)" "oms_inv env cap d" "drawn d' \<le> cap"
  shows "oms_inv env cap d'"
proof -
  have ok: "oms_ok env cap d" using assms(2) by (simp add: oms_inv_def)
  note e = create_order_effect[OF assms(1) ok assms(3)]
  from e(2) obtain order l where o': "orders d' = orders d @ [order]" "ord_status order = OrderStatus_PENDING"
    "pk order \<notin> pk ` set (orders d)" and l: "order_status_logs d' = order_status_logs d @ [l]"
    "osl_order_id l = pk order" "osl_from_status l = []" by blast
  have t: "transitions d' i = transitions d i" for i by (simp add: transitions_def l)
  have "filter (\<lambda>l. osl_order_id l = pk order \<and> osl_from_status l \<noteq> []) (order_status_logs d) = []"
  proof -
    have "osl_order_id l \<noteq> pk order" if "l \<in> set (order_status_logs d)" for l
    proof -
      have "osl_order_id l \<in> pk ` set (orders d)" using that assms(2) by (auto simp: oms_inv_def)
      with o'(3) show ?thesis by metis
    qed
    then show ?thesis by (simp add: filter_empty_conv)
  qed
  then have "transitions d (pk order) = []" by (simp add: transitions_def)
  then have "history_ok d'" using assms(2) by (auto simp: history_ok_def t o' oms_inv_def)
  then show ?thesis using e(1) assms(2) by (auto simp: oms_inv_def o' l)
qed

text \<open>An allowed change of one order that is stored and logged keeps the invariant.\<close>

lemma oms_inv_change:
  assumes f: "find_one (\<lambda>o'. pk o' = oid) (orders d) = Inr (Some order)"
    and al: "target \<in> set (order_states (status_reverse (ord_status order)))"
    and os: "orders d' = update_where (\<lambda>o'. pk o' = oid) (\<lambda>o'. o'\<lparr>ord_status := st, updated_at := ts\<rparr>) (orders d)"
    and s: "status_reverse st = target"
    and l: "order_status_logs d' = order_status_logs d @ [l]" "osl_order_id l = oid" "osl_to_status l = target"
      "osl_from_status l \<noteq> []"
    and same: "order_items d' = order_items d" "customers d' = customers d" "skus d' = skus d" "drawn d \<le> drawn d'"
    and i: "oms_inv env cap d"
  shows "oms_inv env cap d'"
proof -
  let ?f = "\<lambda>o'. o'\<lparr>ord_status := st, updated_at := ts\<rparr> :: order"
  note fo = find_one_SomeD[OF f]
  have t: "transitions d' i = (if i = oid then transitions d i @ [target] else transitions d i)" for i
    using l by (simp add: transitions_def)
  have pks: "map pk (orders d') = map pk (orders d)" by (simp add: os)
  have pkset: "pk ` set (orders d') = pk ` set (orders d)" by (metis pks list.set_map)
  have h: "history_ok d" using i by (simp add: oms_inv_def)
  have "history_ok d'"
    unfolding history_ok_def
  proof
    fix x assume "x \<in> set (orders d')"
    then obtain y where y: "y \<in> set (orders d)" "x = (if pk y = oid then ?f y else y)"
      by (auto simp: os set_update_where)
    have hy: "allowed_path order_states ''draft'' (transitions d (pk y))"
      "status_reverse (ord_status y) = last (''draft'' # transitions d (pk y))"
      using h y(1) by (auto simp: history_ok_def)
    show "allowed_path order_states ''draft'' (transitions d' (pk x)) \<and>
      status_reverse (ord_status x) = last (''draft'' # transitions d' (pk x))"
    proof (cases "pk y = oid")
      case True
      then have "y = order" using fo(3) y(1) by blast
      then show ?thesis using y(2) True hy al s by (auto simp: t allowed_path_append)
    next
      case False
      then show ?thesis using y(2) hy by (simp add: t)
    qed
  qed
  moreover have "oms_ok env cap d'"
    using i pks same pkset
    by (auto simp: oms_inv_def oms_ok_def skus_ok_def intro: fresh_ids_mono)
  moreover have "osl_order_id ` set (order_status_logs d') \<subseteq> pk ` set (orders d')"
    using i pkset l fo(1) by (auto simp: oms_inv_def fo(2)[symmetric])
  ultimately show ?thesis by (simp add: oms_inv_def)
qed

lemma oms_inv_update:
  assumes "update_order_status env http order_id target operator d = Inr (d', v)" "oms_inv env cap d"
  shows "oms_inv env cap d'"
  using assms(1)
proof (rule update_order_statusE)
  fix oid order
  assume f: "find_one (\<lambda>o'. pk o' = oid) (orders d) = Inr (Some order)"
    and al: "target \<in> set (order_states (status_reverse (ord_status order)))"
    and os: "orders d' = update_where (\<lambda>o'. pk o' = oid)
      (\<lambda>o'. o'\<lparr>ord_status := get_default OrderStatus_PENDING (status_map target), updated_at := now env\<rparr>) (orders d)"
    and "\<exists>l. order_status_logs d' = order_status_logs d @ [l] \<and> osl_order_id l = oid \<and> osl_to_status l = target \<and>
       osl_from_status l = status_reverse (ord_status order)"
    and same: "order_items d' = order_items d" "customers d' = customers d" "skus d' = skus d" "drawn d \<le> drawn d'"
  then obtain l where l: "order_status_logs d' = order_status_logs d @ [l]" "osl_order_id l = oid"
    "osl_to_status l = target" "osl_from_status l = status_reverse (ord_status order)" by blast
  have "osl_from_status l \<noteq> []" unfolding l(4) by (cases "ord_status order") auto
  moreover have "status_reverse (get_default OrderStatus_PENDING (status_map target)) = target"
    using order_states_mapped[OF al] by (auto simp: status_reverse_map)
  ultimately show ?thesis using oms_inv_change[OF f al os _ l(1-3) _ same assms(2)] by blast
qed

lemma oms_inv_delete:
  assumes "delete_order env order_id d = Inr (d', u)" "oms_inv env cap d"
  shows "oms_inv env cap d'"
  using assms(1)
proof (rule delete_orderE)
  fix oid order
  assume d': "d' = d\<lparr>orders := update_where (\<lambda>o'. pk o' = oid)
              (\<lambda>o'. o'\<lparr>is_deleted := True, deleted_at := Some (now env), updated_at := now env\<rparr>) (orders d),
            order_items := update_where (\<lambda>i. oi_order_id i = oid)
              (\<lambda>i. i\<lparr>is_deleted := True, deleted_at := Some (now env), updated_at := now env\<rparr>) (order_items d)\<rparr>"
  have pks: "map pk (orders d') = map pk (orders d)" "map oi_order_id (order_items d') = map oi_order_id (order_items d)"
    by (simp_all add: d')
  have pkset: "pk ` set (orders d') = pk ` set (orders d)"
    "oi_order_id ` set (order_items d') = oi_order_id ` set (order_items d)"
    by (metis pks list.set_map)+
  have same: "transitions d' = transitions d" "skus d' = skus d" "customers d' = customers d" "drawn d' = drawn d"
    "order_status_logs d' = order_status_logs d"
    by (simp_all add: d' transitions_def fun_eq_iff)
  have os: "orders d' = update_where (\<lambda>o'. pk o' = oid)
      (\<lambda>o'. o'\<lparr>is_deleted := True, deleted_at := Some (now env), updated_at := now env\<rparr>) (orders d)"
    unfolding d' by simp
  have "history_ok d'"
    using assms(2) unfolding history_ok_def os same
    by (intro update_where_all) (auto simp: oms_inv_def history_ok_def)
  then show ?thesis
    using assms(2) pks same pkset
    by (auto simp: oms_inv_def oms_ok_def skus_ok_def)
qed

lemma split_items_loop:
  assumes "fold (split_item env cid il) its (d, t) = (d1, t1)"
  shows "\<exists>n rows. d1 = d\<lparr>drawn := n, order_items := order_items d @ rows\<rparr> \<and> drawn d \<le> n \<and>
     length rows = length its \<and> (\<forall>r\<in>set rows. oi_order_id r = cid) \<and>
     t1 = t + sum_list (map (\<lambda>r. oi_unit_price r * of_int (oi_quantity r)) rows)"
  using assms
proof (induction its arbitrary: d t)
  case Nil
  have "d = d\<lparr>drawn := drawn d, order_items := order_items d @ []\<rparr>" by simp
  with Nil show ?case by (intro exI [of _ "drawn d"] exI [of _ "[]"]) auto
next
  case (Cons it its)
  obtain d0 t0 where s: "split_item env cid il it (d, t) = (d0, t0)" by force
  then obtain oi where oi: "d0 = d\<lparr>drawn := Suc (drawn d), order_items := order_items d @ [oi]\<rparr>"
    "oi_order_id oi = cid" "t0 = t + oi_unit_price oi * of_int (oi_quantity oi)"
    by (simp add: split_item_def Let_def tick_def insert_row_def) force
  from Cons.IH[of d0 t0] Cons.prems s obtain n rows where
    r: "d1 = d0\<lparr>drawn := n, order_items := order_items d0 @ rows\<rparr>" "drawn d0 \<le> n" "length rows = length its"
      "\<forall>r\<in>set rows. oi_order_id r = cid"
      "t1 = t0 + sum_list (map (\<lambda>r. oi_unit_price r * of_int (oi_quantity r)) rows)" by auto
  have "d1 = d\<lparr>drawn := n, order_items := order_items d @ (oi # rows)\<rparr>" using r(1) oi(1) by simp
  moreover have "t1 = t + sum_list (map (\<lambda>r. oi_unit_price r * of_int (oi_quantity r)) (oi # rows))"
    using r(5) oi(3) by simp
  ultimately show ?case using r(2-4) oi(1,2) by (intro exI [of _ n] exI [of _ "oi # rows"]) simp
qed

lemma split_childE:
  assumes "split_child env parent il reason (i, sp) (d, vs) = Inr (d', vs')"
  obtains n rows child link total where
    "pk child = uuid4 env (drawn d)" "ord_status child = OrderStatus_PENDING" "Suc (drawn d) \<le> n"
    "ord_order_no child = ord_order_no parent @ ''-SP'' @ show_nat (i + 1)"
    "ord_order_no child \<notin> ord_order_no ` set (orders d)"
    "d' = d\<lparr>drawn := Suc n, order_items := order_items d @ rows,
        split_child_orders := split_child_orders d @ [link],
        orders := update_where (\<lambda>o'. pk o' = pk child)
           (\<lambda>o'. o'\<lparr>ord_total_amount := total, updated_at := now env\<rparr>) (orders d @ [child])\<rparr>"
    "\<forall>r\<in>set rows. oi_order_id r = pk child" "length rows = length (sp_items sp)"
    "total = sum_list (map (\<lambda>r. oi_unit_price r * of_int (oi_quantity r)) rows)"
    "sco_parent_order_id link = Some (pk parent)" "sco_child_order_id link = pk child"
    "vs' = vs @ [order_to_dict d' (child\<lparr>ord_total_amount := total\<rparr>) None]"
proof -
  define child where "child = \<lparr>pk = new_uuid env d, created_at = now env, updated_at = now env, is_deleted = False,
                  deleted_at = None, ord_order_no = ord_order_no parent @ ''-SP'' @ show_nat (i + 1),
                  ord_status = OrderStatus_PENDING, ord_customer_id = ord_customer_id parent,
                  ord_warehouse_id = ord_warehouse_id parent, ord_items = JObj [], ord_total_amount = 0,
                  ord_priority = ord_priority parent, ord_version = 0,
                  ord_notes = get_default (''Split from '' @ ord_order_no parent) (sp_note sp)\<rparr>"
  obtain d1 total where f: "fold (split_item env (pk child) il) (sp_items sp)
      ((tick d)\<lparr>orders := insert_row child (orders d)\<rparr>, 0) = (d1, total)" by force
  define link where "link = \<lparr>pk = new_uuid env d1, created_at = now env, updated_at = now env, is_deleted = False,
                    deleted_at = None, sco_parent_order_id = Some (pk parent), sco_child_order_id = pk child,
                    sco_merge_group_id = None,
                    sco_split_reason = (if reason \<noteq> [] then reason else ''Manual split ('' @ show_nat (i + 1) @ '')'')\<rparr>"
  have link: "sco_parent_order_id link = Some (pk parent)" "sco_child_order_id link = pk child"
    by (simp_all add: link_def)
  from assms f have no: "ord_order_no child \<notin> ord_order_no ` set (orders d)"
    and d': "d' = (tick d1)\<lparr>split_child_orders := insert_row link (split_child_orders d1),
                           orders := update_where (\<lambda>o'. pk o' = pk child)
                             (\<lambda>o'. o'\<lparr>ord_total_amount := total, updated_at := now env\<rparr>) (orders d1)\<rparr>"
    and vs: "vs' = vs @ [order_to_dict d' (child\<lparr>ord_total_amount := total\<rparr>) None]"
    unfolding split_child_def Let_def prod.case child_def[symmetric] link_def by auto
  from split_items_loop[OF f] obtain n rows where r:
    "d1 = (tick d)\<lparr>orders := insert_row child (orders d), drawn := n, order_items := order_items d @ rows\<rparr>"
    "drawn (tick d) \<le> n" "length rows = length (sp_items sp)" "\<forall>r\<in>set rows. oi_order_id r = pk child"
    "total = sum_list (map (\<lambda>r. oi_unit_price r * of_int (oi_quantity r)) rows)"
    by (auto simp: tick_def)
  have "d' = d\<lparr>drawn := Suc n, order_items := order_items d @ rows,
        split_child_orders := split_child_orders d @ [link],
        orders := update_where (\<lambda>o'. pk o' = pk child)
           (\<lambda>o'. o'\<lparr>ord_total_amount := total, updated_at := now env\<rparr>) (orders d @ [child])\<rparr>"
    by (simp add: d' r(1) tick_def insert_row_def)
  then show thesis using r no link vs
    by (intro that[where child = child and n = n and total = total and link = link and rows = rows])
      (simp_all add: child_def new_uuid_def tick_def)
qed

lemma transitions_absent:
  assumes "oms_inv env cap d" "u \<notin> pk ` set (orders d)"
  shows "transitions d u = []"
proof -
  have "osl_order_id l \<noteq> u" if "l \<in> set (order_status_logs d)" for l
  proof -
    have "osl_order_id l \<in> pk ` set (orders d)" using that assms(1) by (auto simp: oms_inv_def)
    with assms(2) show ?thesis by metis
  qed
  then show ?thesis by (simp add: transitions_def filter_empty_conv)
qed

lemma split_child_inv:
  assumes "split_child env parent il reason (i, sp) (d, vs) = Inr (d', vs')" "oms_inv env cap d" "drawn d' \<le> cap"
  shows "oms_inv env cap d'" "drawn d \<le> drawn d'"
proof -
  from assms(1) obtain n rows child link total where
    c: "pk child = uuid4 env (drawn d)" "ord_status child = OrderStatus_PENDING" and n: "Suc (drawn d) \<le> n"
    and d': "d' = d\<lparr>drawn := Suc n, order_items := order_items d @ rows,
        split_child_orders := split_child_orders d @ [link],
        orders := update_where (\<lambda>o'. pk o' = pk child)
           (\<lambda>o'. o'\<lparr>ord_total_amount := total, updated_at := now env\<rparr>) (orders d @ [child])\<rparr>"
    and rows: "\<forall>r\<in>set rows. oi_order_id r = pk child" by (rule split_childE) blast
  show "drawn d \<le> drawn d'" using n by (simp add: d')
  let ?t = "orders d @ [child]" and ?f = "\<lambda>o'. o'\<lparr>ord_total_amount := total, updated_at := now env\<rparr> :: order"
  have ok: "oms_ok env cap d" and lg: "osl_order_id ` set (order_status_logs d) \<subseteq> pk ` set (orders d)"
    and h: "history_ok d" using assms(2) by (auto simp: oms_inv_def)
  have le: "drawn d < cap" using n assms(3) by (simp add: d')
  have new: "pk child \<notin> pk ` set (orders d)"
    using fresh_ids_notin[of env cap "drawn d" "pk ` set (orders d)" "drawn d"] ok le by (simp add: oms_ok_def c(1))
  have same: "customers d' = customers d" "skus d' = skus d" "order_status_logs d' = order_status_logs d"
    "order_items d' = order_items d @ rows" "drawn d' = Suc n" "orders d' = update_where (\<lambda>o'. pk o' = pk child) ?f ?t"
    by (simp_all add: d')
  have pks: "map pk (orders d') = map pk (orders d) @ [pk child]" by (simp add: same)
  then have pkset: "pk ` set (orders d') = insert (pk child) (pk ` set (orders d))"
    by (metis list.set_map set_append list.set(1,2) Un_insert_right sup_bot.right_neutral)
  have t: "transitions d' = transitions d" by (simp add: transitions_def same fun_eq_iff)
  have "history_ok d'"
    unfolding history_ok_def t same
  proof (rule update_where_all)
    fix x assume "x \<in> set ?t" "pk x = pk child"
    then have "x = child" using new by (fastforce simp: image_iff)
    then show "allowed_path order_states ''draft'' (transitions d (pk (?f x))) \<and>
         status_reverse (ord_status (?f x)) = last (''draft'' # transitions d (pk (?f x)))"
      using transitions_absent[OF assms(2) new] c(2) by simp
  next
    fix x assume "x \<in> set ?t" "pk x \<noteq> pk child"
    then show "allowed_path order_states ''draft'' (transitions d (pk x)) \<and>
         status_reverse (ord_status x) = last (''draft'' # transitions d (pk x))"
      using h by (auto simp: history_ok_def)
  qed
  moreover have "fresh_ids env cap (drawn d') (pk ` set (orders d'))"
    using fresh_ids_draw[of env cap "drawn d" "pk ` set (orders d)" "Suc n"] ok le n
    unfolding pkset same(5) c(1) by (simp add: oms_ok_def)
  moreover have "skus_ok env cap d'" "fresh_ids env cap (drawn d') (pk ` set (customers d'))"
    using ok n by (auto simp: oms_ok_def skus_ok_def same intro: fresh_ids_mono)
  moreover have "distinct (map pk (orders d'))" using ok new by (simp add: pks oms_ok_def)
  moreover have "oi_order_id ` set (order_items d') \<subseteq> pk ` set (orders d')"
    using ok rows by (auto simp: pkset same(4) oms_ok_def)
  moreover have "osl_order_id ` set (order_status_logs d') \<subseteq> pk ` set (orders d')"
    using lg pkset same by auto
  ultimately show "oms_inv env cap d'" using ok by (simp add: oms_inv_def oms_ok_def same)
qed

lemma split_child_drawn:
  assumes "split_child env parent il reason (i, sp) (d, vs) = Inr (d', vs')"
  shows "drawn d \<le> drawn d'"
  using assms
proof (rule split_childE)
  fix n rows child link total
  assume "Suc (drawn d) \<le> n" and d': "d' = d\<lparr>drawn := Suc n, order_items := order_items d @ rows,
        split_child_orders := split_child_orders d @ [link],
        orders := update_where (\<lambda>o'. pk o' = pk child)
           (\<lambda>o'. o'\<lparr>ord_total_amount := total, updated_at := now env\<rparr>) (orders d @ [child])\<rparr>"
  then show ?thesis unfolding d' by simp
qed

lemma split_children_drawn:
  assumes "foldE (split_child env parent il reason) xs (d, vs) = Inr (d', vs')"
  shows "drawn d \<le> drawn d'"
  using assms
proof (induction xs arbitrary: d vs)
  case (Cons x xs)
  obtain i sp where x: "x = (i, sp)" by force
  from Cons.prems obtain d1 vs1 where s: "split_child env parent il reason (i, sp) (d, vs) = Inr (d1, vs1)"
    and l: "foldE (split_child env parent il reason) xs (d1, vs1) = Inr (d', vs')" by (auto simp: x)
  from split_child_drawn[OF s] Cons.IH[OF l] show ?case by simp
qed simp

lemma split_children_inv:
  assumes "foldE (split_child env parent il reason) xs (d, vs) = Inr (d', vs')" "oms_inv env cap d" "drawn d' \<le> cap"
  shows "oms_inv env cap d'"
  using assms
proof (induction xs arbitrary: d vs)
  case (Cons x xs)
  obtain i sp where x: "x = (i, sp)" by force
  from Cons.prems obtain d1 vs1 where s: "split_child env parent il reason (i, sp) (d, vs) = Inr (d1, vs1)"
    and l: "foldE (split_child env parent il reason) xs (d1, vs1) = Inr (d', vs')" by (auto simp: x)
  have "drawn d1 \<le> cap" using split_children_drawn[OF l] Cons.prems(3) by simp
  from Cons.IH[OF l split_child_inv(1)[OF s Cons.prems(2) this] Cons.prems(3)] show ?case .
qed simp

lemma oms_inv_split:
  assumes "split_order env order_id splits reason d = Inr (d', vs)" "oms_inv env cap d" "drawn d' \<le> cap"
  shows "oms_inv env cap d'"
  using assms split_children_inv[OF _ assms(2,3)] by (auto simp: split_order_def)

lemma merge_attempts_frame:
  assumes "merge_attempts env af wid nt ti ta n mc d = Inr (d', g)"
  shows "d' = d\<lparr>drawn := drawn d', merge_groups := merge_groups d'\<rparr> \<and> drawn d \<le> drawn d'"
  using assms
proof (induction env af wid nt ti ta n mc d rule: merge_attempts.induct)
  case (2 env af wid nt ti ta n mc d)
  from "2.prems" obtain w where w: "uuid_if_truthy wid = Inr w" by auto
  let ?g = "\<lparr>pk = new_uuid env d, created_at = now env, updated_at = now env, mg_code = mc,
                  mg_warehouse_id = w, mg_status = ''active'', mg_total_items = ti,
                  mg_total_amount = ta, mg_notes = nt\<rparr>"
  show ?case
  proof (cases "insert_unique mg_code ?g (merge_groups d)")
    case (Inr t)
    with "2.prems" w have "d' = (tick d)\<lparr>merge_groups := t\<rparr>" by (simp add: Let_def)
    then show ?thesis by (simp add: tick_def)
  next
    case (Inl e)
    with "2.prems" w have n: "n \<noteq> 0" and af: "af = None"
      and m: "merge_attempts env af wid nt ti ta n (next_merge_code d) (tick d) = Inr (d', g)"
      by (auto simp: Let_def split: if_splits option.splits)
    from "2.IH"[OF refl Inl n af m] show ?thesis by (simp add: tick_def)
  qed
qed simp

lemma add_merge_links_frame:
  "fold (add_merge_link env gid) os d =
     d\<lparr>drawn := drawn (fold (add_merge_link env gid) os d),
       split_child_orders := split_child_orders (fold (add_merge_link env gid) os d)\<rparr> \<and>
   drawn d \<le> drawn (fold (add_merge_link env gid) os d)"
proof (induction os arbitrary: d)
  case (Cons o' os)
  let ?d0 = "add_merge_link env gid o' d"
  have 0: "?d0 = d\<lparr>drawn := drawn ?d0, split_child_orders := split_child_orders ?d0\<rparr>" "drawn d \<le> drawn ?d0"
    by (simp_all add: add_merge_link_def tick_def)
  let ?f = "fold (add_merge_link env gid) os ?d0"
  note ih = Cons[of ?d0]
  have "?f = d\<lparr>drawn := drawn ?f, split_child_orders := split_child_orders ?f\<rparr>"
    by (rule trans[OF conjunct1[OF ih]], subst 0(1)) simp
  then show ?case using 0(2) conjunct2[OF ih] by simp
qed simp

lemma oms_inv_merge:
  assumes "merge_orders env af ids mc wid nt d = Inr (d', v)" "oms_inv env cap d"
  shows "oms_inv env cap d'"
proof -
  from assms(1) obtain ti ta c d1 g os where
    m: "merge_attempts env af wid nt ti ta 3 c d = Inr (d1, g)"
    and d': "d' = fold (add_merge_link env (pk g)) os d1"
    unfolding merge_orders_def Let_def by (auto split: prod.splits simp del: merge_attempts.simps)
  note f1 = merge_attempts_frame[OF m] and f2 = add_merge_links_frame[of env "pk g" os d1, folded d']
  have "orders d' = orders d1" "order_items d' = order_items d1" "customers d' = customers d1" "skus d' = skus d1"
    "order_status_logs d' = order_status_logs d1"
    by (subst conjunct1[OF f2], simp)+
  moreover have "orders d1 = orders d" "order_items d1 = order_items d" "customers d1 = customers d" "skus d1 = skus d"
    "order_status_logs d1 = order_status_logs d"
    by (subst conjunct1[OF f1], simp)+
  moreover have "drawn d \<le> drawn d'" using f1 f2 by simp
  ultimately show ?thesis using assms(2)
    by (auto simp: oms_inv_def oms_ok_def skus_ok_def history_ok_def transitions_def intro: fresh_ids_mono)
qed

section \<open>Reachable states\<close>

text \<open>
  One request against order management. Requests see different clocks and HTTP outcomes; they share
  the stream of identifiers \<open>u\<close>, of which at most \<open>cap\<close> are drawn.
\<close>

inductive oms_step :: "(nat \<Rightarrow> uuid) \<Rightarrow> nat \<Rightarrow> 'a oms_db_scheme \<Rightarrow> 'a oms_db_scheme \<Rightarrow> bool" for u cap where
  step_create: "create_order env data d = Inr (d', v) \<Longrightarrow> uuid4 env = u \<Longrightarrow> drawn d' \<le> cap \<Longrightarrow> oms_step u cap d d'"
| step_update: "update_order_status env http oid target op d = Inr (d', v) \<Longrightarrow> uuid4 env = u \<Longrightarrow> oms_step u cap d d'"
| step_delete: "delete_order env oid d = Inr (d', x) \<Longrightarrow> uuid4 env = u \<Longrightarrow> oms_step u cap d d'"
| step_split: "split_order env oid splits reason d = Inr (d', vs) \<Longrightarrow> uuid4 env = u \<Longrightarrow> drawn d' \<le> cap \<Longrightarrow> oms_step u cap d d'"
| step_merge: "merge_orders env af ids mc wid nt d = Inr (d', m) \<Longrightarrow> uuid4 env = u \<Longrightarrow> oms_step u cap d d'"

inductive oms_reachable :: "(nat \<Rightarrow> uuid) \<Rightarrow> nat \<Rightarrow> 'a oms_db_scheme \<Rightarrow> 'a oms_db_scheme \<Rightarrow> bool" for u cap where
  reach_refl: "oms_reachable u cap d d"
| reach_step: "oms_reachable u cap d d' \<Longrightarrow> oms_step u cap d' d'' \<Longrightarrow> oms_reachable u cap d d''"

lemma oms_inv_cong: "uuid4 env = uuid4 env' \<Longrightarrow> oms_inv env cap d = oms_inv env' cap d"
  by (simp add: oms_inv_def oms_ok_def skus_ok_def fresh_ids_def)

lemma oms_step_inv:
  assumes "oms_step u cap d d'" "oms_inv env cap d" "uuid4 env = u"
  shows "oms_inv env cap d'"
  using assms(1)
proof cases
  case (step_create env' data v)
  then show ?thesis using oms_inv_create[of env' data d d' v cap] oms_inv_cong[of env env'] assms(2,3) by blast
next
  case (step_update env' http oid target op v)
  then show ?thesis using oms_inv_update[of env' http oid target op d d' v cap] oms_inv_cong[of env env'] assms(2,3) by blast
next
  case (step_delete env' oid x)
  then show ?thesis using oms_inv_delete[of env' oid d d' x cap] oms_inv_cong[of env env'] assms(2,3) by blast
next
  case (step_split env' oid splits reason vs)
  then show ?thesis using oms_inv_split[of env' oid splits reason d d' vs cap] oms_inv_cong[of env env'] assms(2,3) by blast
next
  case (step_merge env' af ids mc wid nt m)
  then show ?thesis using oms_inv_merge[of env' af ids mc wid nt d d' m cap] oms_inv_cong[of env env'] assms(2,3) by blast
qed

lemma oms_reachable_inv:
  assumes "oms_reachable u cap d d'" "oms_inv env cap d" "uuid4 env = u"
  shows "oms_inv env cap d'"
  using assms by (induction rule: oms_reachable.induct) (auto intro: oms_step_inv)

end
