(* ===== verification/Wms_Model.thy ===== *)
theory Wms_Model
  imports Oms_Merge
begin

text \<open>
  The tables of warehouse management: \<open>src/wms/models.py\<close> and the stock documents of
  \<open>src/models/wms.py\<close>. A foreign key to a warehouse is an option where deleting the warehouse through
  the ORM clears it (\<open>Warehouse.locations\<close>, \<open>inventory\<close>, \<open>stock_movements\<close>, \<open>picking_waves\<close>).
  \<open>model_to_dict\<close> of a row is the row.
\<close>

section \<open>Enumerations\<close>

datatype warehouse_type = WarehouseType_CENTER | WarehouseType_REGIONAL | WarehouseType_FRONT

datatype warehouse_status = WarehouseStatus_ACTIVE | WarehouseStatus_MAINTENANCE | WarehouseStatus_CLOSED

datatype location_type = LocationType_STORAGE | LocationType_PICKING | LocationType_RECEIVING
  | LocationType_SHIPPING | LocationType_QUARANTINE

datatype location_status = LocationStatus_ACTIVE | LocationStatus_RESERVED | LocationStatus_MAINTENANCE
  | LocationStatus_CLOSED

datatype inventory_change_type = INBOUND | OUTBOUND | ADJUSTMENT | TRANSFER_IN | TRANSFER_OUT | PICKING | RETURNED

datatype stock_movement_type = StockMovementType_TRANSFER | StockMovementType_REPLENISHMENT
  | StockMovementType_RETURN

datatype picking_wave_type = ORDER_BASED | TIME_BASED | LOCATION_BASED | MIXED

datatype picking_wave_priority = PickingWavePriority_LOW | PickingWavePriority_MEDIUM
  | PickingWavePriority_HIGH | PickingWavePriority_URGENT

datatype transfer_status = TransferStatus_DRAFT | TransferStatus_CONFIRMED | TransferStatus_IN_TRANSIT
  | TransferStatus_DELIVERED | TransferStatus_CANCELLED

datatype transfer_item_type = TransferItemType_SKU | TransferItemType_LOCATION | TransferItemType_WAREHOUSE

datatype shipment_status = ShipmentStatus_PENDING | ShipmentStatus_PICKED | ShipmentStatus_PACKED
  | ShipmentStatus_SHIPPED | ShipmentStatus_DELIVERED | ShipmentStatus_CANCELLED

text \<open>\<open>WarehouseType(value)\<close> and \<open>LocationType(value)\<close>: the member with that value, if any.\<close>

definition warehouse_type_of :: "string \<Rightarrow> warehouse_type option" where
  "warehouse_type_of s =
     (if s = ''center'' then Some WarehouseType_CENTER
      else if s = ''regional'' then Some WarehouseType_REGIONAL
      else if s = ''front'' then Some WarehouseType_FRONT else None)"

definition location_type_of :: "string \<Rightarrow> location_type option" where
  "location_type_of s =
     (if s = ''storage'' then Some LocationType_STORAGE
      else if s = ''picking'' then Some LocationType_PICKING
      else if s = ''receiving'' then Some LocationType_RECEIVING
      else if s = ''shipping'' then Some LocationType_SHIPPING
      else if s = ''quarantine'' then Some LocationType_QUARANTINE else None)"

section \<open>Storage\<close>

record warehouse = soft_row +
  wh_code :: string
  wh_name :: string
  wh_warehouse_type :: warehouse_type
  wh_status :: warehouse_status
  wh_address :: json
  wh_contact :: "string option"
  wh_phone :: "string option"
  wh_config :: "json option"

record location = soft_row +
  loc_warehouse_id :: "uuid option"
  loc_code :: string
  loc_zone :: string
  loc_aisle :: string
  loc_shelf :: string
  loc_level :: string
  loc_position :: string
  loc_location_type :: location_type
  loc_status :: location_status

record inventory = soft_row +
  inv_warehouse_id :: "uuid option"
  inv_location_id :: "uuid option"
  inv_sku_id :: uuid
  inv_gtin :: string
  inv_batch_no :: string
  inv_quantity :: decimal
  inv_locked_qty :: decimal
  inv_min_qty :: decimal
  inv_max_qty :: decimal
  inv_version :: int
  inv_expiry_date :: "date option"
  inv_manufacturing_date :: "date option"
  inv_received_at :: "datetime option"

record inventory_log = soft_row +
  il_inventory_id :: uuid
  il_change_type :: inventory_change_type
  il_quantity_change :: decimal
  il_quantity_before :: decimal
  il_quantity_after :: decimal
  il_reference_type :: "string option"
  il_reference_id :: "uuid option"
  il_operator_id :: "uuid option"
  il_remark :: "string option"

record stock_movement = soft_row +
  sm_source_warehouse_id :: "uuid option"
  sm_target_warehouse_id :: "uuid option"
  sm_source_location_id :: "uuid option"
  sm_target_location_id :: "uuid option"
  sm_sku_id :: uuid
  sm_gtin :: string
  sm_quantity :: decimal
  sm_movement_type :: stock_movement_type
  sm_status :: string

section \<open>Outbound work\<close>

record picking_wave = soft_row +
  pw_warehouse_id :: "uuid option"
  pw_code :: string
  pw_status :: string
  pw_wave_type :: picking_wave_type
  pw_priority :: picking_wave_priority
  pw_total_items :: int
  pw_completed_items :: int
  pw_assignee_id :: "uuid option"

record packing_record = base_row +
  pr_picking_wave_id :: uuid
  pr_packed_by :: string
  pr_box_count :: int
  pr_notes :: string

record shipment = base_row +
  sh_order_id :: uuid
  sh_warehouse_id :: uuid
  sh_packing_record_id :: "uuid option"
  sh_tracking_number :: string
  sh_carrier :: string
  sh_status :: shipment_status
  sh_shipped_at :: "datetime option"
  sh_delivered_at :: "datetime option"
  sh_notes :: string

section \<open>Procurement and billing\<close>

record vendor = soft_row +
  vd_code :: string
  vd_name :: "string option"
  vd_email :: "string option"
  vd_phone :: "string option"
  vd_is_active :: bool

record address = base_row +
  ad_entity_type :: string
  ad_entity_id :: "uuid option"
  ad_address_type :: string
  ad_contact_name :: "string option"
  ad_phone :: "string option"
  ad_email :: "string option"
  ad_address_line_1 :: "string option"
  ad_address_line_2 :: "string option"
  ad_city :: "string option"
  ad_state :: "string option"
  ad_postal_code :: "string option"
  ad_country :: string

record purchase_order = soft_row +
  po_po_number :: string
  po_vendor_id :: "uuid option"
  po_status :: string
  po_expected_date :: "date option"
  po_notes :: "string option"
  po_total_amount :: decimal

record purchase_order_line =
  pol_id :: uuid
  pol_purchase_order_id :: uuid
  pol_sku_id :: "uuid option"
  pol_description :: string
  pol_quantity :: decimal
  pol_unit_price :: decimal

record invoice = soft_row +
  iv_invoice_number :: string
  iv_entity_type :: string
  iv_entity_id :: "uuid option"
  iv_status :: string
  iv_issue_date :: "date option"
  iv_due_date :: "date option"
  iv_total_amount :: decimal
  iv_paid_amount :: decimal
  iv_reference_number :: "string option"
  iv_notes :: "string option"

record invoice_line =
  ivl_id :: uuid
  ivl_invoice_id :: uuid
  ivl_description :: string
  ivl_quantity :: decimal
  ivl_unit_price :: decimal

record credit_memo = soft_row +
  cm_credit_memo_number :: string
  cm_invoice_id :: "uuid option"
  cm_entity_type :: string
  cm_entity_id :: "uuid option"
  cm_status :: string
  cm_issue_date :: "date option"
  cm_total_amount :: decimal
  cm_reason :: string
  cm_notes :: "string option"

record credit_memo_line =
  cml_id :: uuid
  cml_credit_memo_id :: uuid
  cml_description :: string
  cml_quantity :: decimal
  cml_unit_price :: decimal

section \<open>Transfers and stock documents\<close>

record transfer_order = soft_row +
  to_code :: string
  to_source_warehouse_id :: "uuid option"
  to_target_warehouse_id :: uuid
  to_type :: transfer_item_type
  to_status :: transfer_status
  to_total_weight_kg :: decimal
  to_total_volume_m3 :: decimal
  to_total_pieces :: int
  to_ref_no :: "string option"
  to_ref_type :: "string option"
  to_remarks :: "string option"

record transfer_order_line =
  tol_id :: uuid
  tol_transfer_order_id :: uuid
  tol_item_type :: "transfer_item_type option"
  tol_sku_id :: "uuid option"
  tol_location_from_id :: "uuid option"
  tol_location_to_id :: "uuid option"
  tol_warehouse_id :: "uuid option"
  tol_quantity :: decimal
  tol_available_qty :: decimal
  tol_picked_qty :: decimal
  tol_shipped_qty :: decimal
  tol_received_qty :: decimal

text \<open>A receipt and an issue have the same columns (\<open>supplier_id\<close> is the receipt's).\<close>

record stock_doc =
  sd_id :: uuid
  sd_warehouse_id :: uuid
  sd_type :: string
  sd_reference_type :: "string option"
  sd_ref_no :: "string option"
  sd_supplier_id :: "uuid option"
  sd_total_qty :: decimal
  sd_status :: string
  sd_created_at :: datetime

record stock_doc_line =
  sdl_id :: uuid
  sdl_doc_id :: uuid
  sdl_sku :: "string option"
  sdl_qty :: decimal
  sdl_batch_no :: "string option"
  sdl_lot_no :: "string option"
  sdl_expiry_date :: "datetime option"

record stock_inventory_log =
  sil_id :: uuid
  sil_warehouse_id :: uuid
  sil_sku :: string
  sil_type :: string
  sil_reference_type :: "string option"
  sil_reference_id :: "uuid option"
  sil_quantity_change :: decimal
  sil_operator_id :: "uuid option"
  sil_reason :: "string option"
  sil_remark :: "string option"
  sil_created_at :: datetime

section \<open>The database\<close>

record wms_db = oms_db +
  warehouses :: "warehouse list"
  locations :: "location list"
  inventory_rows :: "inventory list"
  inventory_logs :: "inventory_log list"
  stock_movements :: "stock_movement list"
  picking_waves :: "picking_wave list"
  packing_records :: "packing_record list"
  shipments :: "shipment list"
  vendors :: "vendor list"
  addresses :: "address list"
  purchase_orders :: "purchase_order list"
  purchase_order_lines :: "purchase_order_line list"
  invoices :: "invoice list"
  invoice_lines :: "invoice_line list"
  credit_memos :: "credit_memo list"
  credit_memo_lines :: "credit_memo_line list"
  transfer_orders :: "transfer_order list"
  transfer_order_lines :: "transfer_order_line list"
  stock_ins :: "stock_doc list"
  stock_in_lines :: "stock_doc_line list"
  stock_outs :: "stock_doc list"
  stock_out_lines :: "stock_doc_line list"
  stock_inventory_logs :: "stock_inventory_log list"

interpretation warehouse_rows: repository warehouses "\<lambda>t d. d\<lparr>warehouses := t\<rparr>" pk
  by unfold_locales simp_all

interpretation location_rows: repository locations "\<lambda>t d. d\<lparr>locations := t\<rparr>" pk
  by unfold_locales simp_all

interpretation inventory_tab: repository inventory_rows "\<lambda>t d. d\<lparr>inventory_rows := t\<rparr>" pk
  by unfold_locales simp_all

interpretation wave_rows: repository picking_waves "\<lambda>t d. d\<lparr>picking_waves := t\<rparr>" pk
  by unfold_locales simp_all

interpretation purchase_order_rows: repository purchase_orders "\<lambda>t d. d\<lparr>purchase_orders := t\<rparr>" pk
  by unfold_locales simp_all

end
