(* ===== verification/Wms_Warehouse.thy ===== *)
theory Wms_Warehouse
  imports Wms_Model
begin

text \<open>
  Warehouses and locations (\<open>src/wms/service.py\<close>): creation with their codes, listing with and without
  pages, updates, and deletion. \<open>db.delete\<close> removes the row and clears the foreign keys of the
  relationships; no \<open>deleted_at\<close> is written.
\<close>

section \<open>Warehouses\<close>

record warehouse_create =
  wc_code :: string
  wc_name :: string
  wc_address :: "json option"
  wc_type :: "string option"

text \<open>The view adds \<open>is_active\<close> to the columns (\<open>warehouse_type\<close> is renamed \<open>type\<close>).\<close>

record warehouse_view =
  wv_row :: warehouse
  wv_is_active :: bool

definition warehouse_to_dict :: "warehouse \<Rightarrow> warehouse_view" where
  "warehouse_to_dict wh = \<lparr>wv_row = wh, wv_is_active = (wh_status wh = WarehouseStatus_ACTIVE)\<rparr>"

definition create_warehouse ::
  "env \<Rightarrow> warehouse_create \<Rightarrow> 'a wms_db_scheme \<Rightarrow> ('a wms_db_scheme \<times> warehouse_view) result" where
  "create_warehouse env data d =
     bindE (find_one (\<lambda>w. wh_code w = wc_code data) (warehouses d)) (\<lambda>existing.
     bindE (raise_if (existing \<noteq> None)
              (validation (''Warehouse code '' @ quoted (wc_code data) @ '' already exists''))) (\<lambda>_.
     let wh = \<lparr>pk = new_uuid env d, created_at = now env, updated_at = now env, is_deleted = False,
               deleted_at = None, wh_code = wc_code data, wh_name = wc_name data,
               wh_warehouse_type =
                 (case wc_type data of
                    None \<Rightarrow> WarehouseType_CENTER
                  | Some t \<Rightarrow> (case warehouse_type_of t of Some ty \<Rightarrow> ty | None \<Rightarrow> WarehouseType_CENTER)),
               wh_status = WarehouseStatus_ACTIVE, wh_address = get_default (JStr []) (wc_address data),
               wh_contact = None, wh_phone = None, wh_config = None\<rparr>
     in bindE (insert_unique wh_code wh (warehouses d)) (\<lambda>t.
        Inr ((tick d)\<lparr>warehouses := t\<rparr>, warehouse_to_dict wh))))"

definition get_warehouse :: "string \<Rightarrow> 'a wms_db_scheme \<Rightarrow> warehouse_view result" where
  "get_warehouse wh_id d =
     bindE (to_uuid wh_id) (\<lambda>wid.
     bindE (find_or_raise (NotFoundException (''Warehouse '' @ wh_id @ '' not found''))
              (\<lambda>w. pk w = wid) (warehouses d)) (\<lambda>wh.
     Inr (warehouse_to_dict wh)))"

text \<open>
  The list functions return a plain list, or a page when both \<open>page\<close> and \<open>page_size\<close> are given;
  \<open>list_or_page\<close> is that shape, shared by every listing of the module.
\<close>

definition list_or_page ::
  "('r \<Rightarrow> 'v) \<Rightarrow> 'r list \<Rightarrow> int option \<Rightarrow> int option \<Rightarrow> ('v list + 'v paginated_response) result" where
  "list_or_page view stmt page page_size =
     (case (page, page_size) of
        (Some p, Some n) \<Rightarrow>
          bindE (paginate stmt p n) (\<lambda>result.
          Inr (Inr \<lparr>pr_items = map view (pr_items result), pr_total = pr_total result,
                    pr_page = pr_page result, pr_page_size = pr_page_size result,
                    pr_total_pages = pr_total_pages result\<rparr>))
      | _ \<Rightarrow> Inr (Inl (map view stmt)))"

definition list_warehouses ::
  "int option \<Rightarrow> int option \<Rightarrow> 'a wms_db_scheme \<Rightarrow> (warehouse_view list + warehouse_view paginated_response) result" where
  "list_warehouses page page_size d =
     list_or_page warehouse_to_dict (order_by_desc created_at (warehouses d)) page page_size"

text \<open>\<open>update_warehouse\<close> sets whatever attributes the caller names: a list of assignments to the row.\<close>

definition update_warehouse ::
  "env \<Rightarrow> string \<Rightarrow> (warehouse \<Rightarrow> warehouse) list \<Rightarrow> 'a wms_db_scheme \<Rightarrow> ('a wms_db_scheme \<times> warehouse) result" where
  "update_warehouse env wh_id data d =
     bindE (to_uuid wh_id) (\<lambda>wid.
     bindE (find_or_raise (NotFoundException (''Warehouse '' @ wh_id @ '' not found''))
              (\<lambda>w. pk w = wid) (warehouses d)) (\<lambda>wh.
     let f = (\<lambda>w. let w' = fold (\<lambda>setattr. setattr) data w
                   in if w' = w then w else w'\<lparr>updated_at := now env\<rparr>)
     in Inr (d\<lparr>warehouses := update_where (\<lambda>w. pk w = wid) f (warehouses d)\<rparr>, f wh)))"

definition delete_warehouse :: "env \<Rightarrow> string \<Rightarrow> 'a wms_db_scheme \<Rightarrow> ('a wms_db_scheme \<times> warehouse_view) result" where
  "delete_warehouse env wh_id d =
     bindE (to_uuid wh_id) (\<lambda>wid.
     bindE (find_or_raise (NotFoundException (''Warehouse '' @ wh_id @ '' not found''))
              (\<lambda>w. pk w = wid) (warehouses d)) (\<lambda>wh.
     Inr (d\<lparr>warehouses := delete_where (\<lambda>w. pk w = wid) (warehouses d),
            locations := update_where (\<lambda>l. loc_warehouse_id l = Some wid)
              (\<lambda>l. l\<lparr>loc_warehouse_id := None, updated_at := now env\<rparr>) (locations d),
            inventory_rows := update_where (\<lambda>i. inv_warehouse_id i = Some wid)
              (\<lambda>i. i\<lparr>inv_warehouse_id := None, updated_at := now env\<rparr>) (inventory_rows d),
            stock_movements := update_where (\<lambda>m. sm_source_warehouse_id m = Some wid)
              (\<lambda>m. m\<lparr>sm_source_warehouse_id := None, updated_at := now env\<rparr>) (stock_movements d),
            picking_waves := update_where (\<lambda>w. pw_warehouse_id w = Some wid)
              (\<lambda>w. w\<lparr>pw_warehouse_id := None, updated_at := now env\<rparr>) (picking_waves d)\<rparr>,
          \<lparr>wv_row = wh, wv_is_active = False\<rparr>)))"

section \<open>Locations\<close>

record location_data =
  ld_zone :: "string option"
  ld_aisle :: "string option"
  ld_shelf :: "string option"
  ld_bin :: "string option"
  ld_level :: "string option"
  ld_type :: "string option"

text \<open>\<open>LocationType(v)\<close>, which raises \<open>ValueError\<close> for an unknown value.\<close>

definition to_location_type :: "string \<Rightarrow> location_type result" where
  "to_location_type s = of_option ValueError (location_type_of s)"

definition location_code :: "string \<Rightarrow> location_data \<Rightarrow> string" where
  "location_code wh_id data =
     take 4 wh_id @ ''-'' @ get_default [] (ld_zone data) @ ''-'' @ get_default [] (ld_aisle data) @ ''-'' @
     get_default [] (ld_bin data)"

text \<open>The view adds the constant \<open>is_occupied = False\<close> and renames columns; it is the row.\<close>

definition create_location ::
  "env \<Rightarrow> string \<Rightarrow> location_data \<Rightarrow> 'a wms_db_scheme \<Rightarrow> ('a wms_db_scheme \<times> location) result" where
  "create_location env wh_id data d =
     bindE (to_uuid wh_id) (\<lambda>wid.
     bindE (find_or_raise (NotFoundException (''Warehouse '' @ wh_id @ '' not found''))
              (\<lambda>w. pk w = wid) (warehouses d)) (\<lambda>_.
     bindE (to_location_type (get_default ''storage'' (ld_type data))) (\<lambda>ty.
     let bin_val = get_default [] (ld_bin data);
         loc = \<lparr>pk = new_uuid env d, created_at = now env, updated_at = now env, is_deleted = False,
                deleted_at = None, loc_warehouse_id = Some wid, loc_code = location_code wh_id data,
                loc_zone = get_default [] (ld_zone data), loc_aisle = get_default [] (ld_aisle data),
                loc_shelf = get_default [] (ld_shelf data), loc_level = bin_val, loc_position = bin_val,
                loc_location_type = ty, loc_status = LocationStatus_ACTIVE\<rparr>
     in bindE (insert_unique loc_code loc (locations d)) (\<lambda>t.
        Inr ((tick d)\<lparr>locations := t\<rparr>, loc)))))"

definition list_locations ::
  "string option \<Rightarrow> int option \<Rightarrow> int option \<Rightarrow> 'a wms_db_scheme \<Rightarrow> (location list + location paginated_response) result" where
  "list_locations wh_id page page_size d =
     bindE (uuid_if_truthy wh_id) (\<lambda>wid.
     list_or_page (\<lambda>l. l)
       (order_by_desc created_at
          (select_where (\<lambda>l. case wid of None \<Rightarrow> True | Some w \<Rightarrow> loc_warehouse_id l = Some w) (locations d)))
       page page_size)"

definition get_location :: "string \<Rightarrow> 'a wms_db_scheme \<Rightarrow> location result" where
  "get_location loc_id d =
     bindE (to_uuid loc_id) (\<lambda>lid.
     find_or_raise (NotFoundException (''Location '' @ loc_id @ '' not found'')) (\<lambda>l. pk l = lid) (locations d))"

definition find_location_in :: "string \<Rightarrow> string \<Rightarrow> 'a wms_db_scheme \<Rightarrow> location result" where
  "find_location_in wh_id loc_id d =
     bindE (to_uuid loc_id) (\<lambda>lid.
     bindE (to_uuid wh_id) (\<lambda>wid.
     find_or_raise (NotFoundException (''Location '' @ loc_id @ '' not found in warehouse '' @ wh_id))
       (\<lambda>l. pk l = lid \<and> loc_warehouse_id l = Some wid) (locations d)))"

definition update_location ::
  "env \<Rightarrow> string \<Rightarrow> string \<Rightarrow> location_data \<Rightarrow> 'a wms_db_scheme \<Rightarrow> ('a wms_db_scheme \<times> location) result" where
  "update_location env wh_id loc_id data d =
     bindE (find_location_in wh_id loc_id d) (\<lambda>loc.
     bindE (case ld_type data of
              None \<Rightarrow> Inr (loc_location_type loc)
            | Some t \<Rightarrow> to_location_type t) (\<lambda>ty.
     let level = or_str (ld_bin data) (ld_level data);
         loc' = loc\<lparr>loc_zone := get_default (loc_zone loc) (ld_zone data),
                    loc_aisle := get_default (loc_aisle loc) (ld_aisle data),
                    loc_shelf := get_default (loc_shelf loc) (ld_shelf data),
                    loc_level := get_default (loc_level loc) level,
                    loc_location_type := ty\<rparr>;
         loc'' = (if loc' = loc then loc else loc'\<lparr>updated_at := now env\<rparr>)
     in Inr (d\<lparr>locations := update_where (\<lambda>l. pk l = pk loc) (\<lambda>_. loc'') (locations d)\<rparr>, loc'')))"

definition delete_location ::
  "env \<Rightarrow> string \<Rightarrow> string \<Rightarrow> 'a wms_db_scheme \<Rightarrow> ('a wms_db_scheme \<times> unit) result" where
  "delete_location env wh_id loc_id d =
     bindE (find_location_in wh_id loc_id d) (\<lambda>loc.
     Inr (d\<lparr>locations := delete_where (\<lambda>l. pk l = pk loc) (locations d),
            inventory_rows := update_where (\<lambda>i. inv_location_id i = Some (pk loc))
              (\<lambda>i. i\<lparr>inv_location_id := None, updated_at := now env\<rparr>) (inventory_rows d)\<rparr>, ()))"

section \<open>Facts\<close>

text \<open>A fresh warehouse: what the caller reads back, and the code stays unique.\<close>

lemma create_warehouseE:
  assumes "create_warehouse env data d = Inr (d', v)"
  obtains wh where "d' = (tick d)\<lparr>warehouses := insert_row wh (warehouses d)\<rparr>" "v = warehouse_to_dict wh"
    "pk wh = new_uuid env d" "wh_code wh = wc_code data" "wh_status wh = WarehouseStatus_ACTIVE"
    "wc_code data \<notin> wh_code ` set (warehouses d)"
  using assms by (auto simp: create_warehouse_def Let_def)

lemma create_warehouse_get:
  assumes "create_warehouse env data d = Inr (d', v)" "warehouse_rows.keys_unique d"
    "new_uuid env d \<notin> pk ` set (warehouses d)"
  shows "get_warehouse (show_uuid (pk (wv_row v))) d' = Inr v" "wv_is_active v"
  using assms(1)
proof (atomize(full), rule create_warehouseE)
  fix wh assume wh: "d' = (tick d)\<lparr>warehouses := insert_row wh (warehouses d)\<rparr>" "v = warehouse_to_dict wh"
    "pk wh = new_uuid env d" "wh_status wh = WarehouseStatus_ACTIVE"
  have "find_one (\<lambda>x. pk x = pk wh) (warehouses d') = Inr (Some wh)"
    using warehouse_rows.lookup_inserted[OF assms(2), of wh] assms(3) wh by (simp add: tick_def)
  then show "get_warehouse (show_uuid (pk (wv_row v))) d' = Inr v \<and> wv_is_active v"
    using wh by (simp add: get_warehouse_def warehouse_to_dict_def)
qed

lemma create_warehouse_codes:
  assumes "create_warehouse env data d = Inr (d', v)" "distinct (map wh_code (warehouses d))"
  shows "distinct (map wh_code (warehouses d'))"
  using assms(1)
proof (rule create_warehouseE)
  fix wh assume wh: "d' = (tick d)\<lparr>warehouses := insert_row wh (warehouses d)\<rparr>"
    "wh_code wh = wc_code data" "wc_code data \<notin> wh_code ` set (warehouses d)"
  then have "warehouses d' = warehouses d @ [wh]" by (simp add: insert_row_def tick_def)
  with wh(2,3) assms(2) show ?thesis by auto
qed

text \<open>Deletion leaves nothing that refers to the warehouse.\<close>

lemma delete_warehouse_clean:
  assumes "delete_warehouse env wh_id d = Inr (d', v)" "to_uuid wh_id = Inr w"
  shows "\<forall>x\<in>set (warehouses d'). pk x \<noteq> w" "\<forall>l\<in>set (locations d'). loc_warehouse_id l \<noteq> Some w"
    "\<forall>i\<in>set (inventory_rows d'). inv_warehouse_id i \<noteq> Some w"
    "\<forall>m\<in>set (stock_movements d'). sm_source_warehouse_id m \<noteq> Some w"
    "\<forall>p\<in>set (picking_waves d'). pw_warehouse_id p \<noteq> Some w"
    "get_warehouse wh_id d' = Inl (NotFoundException (''Warehouse '' @ wh_id @ '' not found''))"
    "\<not> wv_is_active v"
proof -
  from assms have d': "d' = d\<lparr>warehouses := delete_where (\<lambda>x. pk x = w) (warehouses d),
            locations := update_where (\<lambda>l. loc_warehouse_id l = Some w)
              (\<lambda>l. l\<lparr>loc_warehouse_id := None, updated_at := now env\<rparr>) (locations d),
            inventory_rows := update_where (\<lambda>i. inv_warehouse_id i = Some w)
              (\<lambda>i. i\<lparr>inv_warehouse_id := None, updated_at := now env\<rparr>) (inventory_rows d),
            stock_movements := update_where (\<lambda>m. sm_source_warehouse_id m = Some w)
              (\<lambda>m. m\<lparr>sm_source_warehouse_id := None, updated_at := now env\<rparr>) (stock_movements d),
            picking_waves := update_where (\<lambda>p. pw_warehouse_id p = Some w)
              (\<lambda>p. p\<lparr>pw_warehouse_id := None, updated_at := now env\<rparr>) (picking_waves d)\<rparr>"
    and v: "\<not> wv_is_active v"
    by (auto simp: delete_warehouse_def)
  show gone: "\<forall>x\<in>set (warehouses d'). pk x \<noteq> w" by (simp add: d')
  have "locations d' = update_where (\<lambda>l. loc_warehouse_id l = Some w)
      (\<lambda>l. l\<lparr>loc_warehouse_id := None, updated_at := now env\<rparr>) (locations d)" by (simp add: d')
  then show "\<forall>l\<in>set (locations d'). loc_warehouse_id l \<noteq> Some w" by (rule all_updated) simp_all
  have "inventory_rows d' = update_where (\<lambda>i. inv_warehouse_id i = Some w)
      (\<lambda>i. i\<lparr>inv_warehouse_id := None, updated_at := now env\<rparr>) (inventory_rows d)" by (simp add: d')
  then show "\<forall>i\<in>set (inventory_rows d'). inv_warehouse_id i \<noteq> Some w" by (rule all_updated) simp_all
  have "stock_movements d' = update_where (\<lambda>m. sm_source_warehouse_id m = Some w)
      (\<lambda>m. m\<lparr>sm_source_warehouse_id := None, updated_at := now env\<rparr>) (stock_movements d)" by (simp add: d')
  then show "\<forall>m\<in>set (stock_movements d'). sm_source_warehouse_id m \<noteq> Some w" by (rule all_updated) simp_all
  have "picking_waves d' = update_where (\<lambda>p. pw_warehouse_id p = Some w)
      (\<lambda>p. p\<lparr>pw_warehouse_id := None, updated_at := now env\<rparr>) (picking_waves d)" by (simp add: d')
  then show "\<forall>p\<in>set (picking_waves d'). pw_warehouse_id p \<noteq> Some w" by (rule all_updated) simp_all
  show "get_warehouse wh_id d' = Inl (NotFoundException (''Warehouse '' @ wh_id @ '' not found''))"
    using gone assms(2) find_or_raise_None[of "warehouses d'" "\<lambda>x. pk x = w"] by (simp add: get_warehouse_def)
  show "\<not> wv_is_active v" by (rule v)
qed

text \<open>
  The code of a location is built from four characters of the warehouse identifier, zone, aisle and
  bin: two locations that differ in nothing else have the same code, so the second insert fails.
\<close>

lemma create_location_collision:
  assumes "create_location env wh_id data d = Inr (d', loc)"
    "location_code wh_id2 data2 = location_code wh_id data"
    "to_uuid wh_id2 = Inr w2" "find_one (\<lambda>w. pk w = w2) (warehouses d') = Inr (Some wh2)"
    "to_location_type (get_default ''storage'' (ld_type data2)) = Inr ty2"
  shows "create_location env2 wh_id2 data2 d' = Inl IntegrityError"
proof -
  from assms(1) have "loc \<in> set (locations d')" "loc_code loc = location_code wh_id data"
    by (auto simp: create_location_def Let_def tick_def insert_row_def)
  then have "location_code wh_id2 data2 \<in> loc_code ` set (locations d')" using assms(2) by force
  then show ?thesis using assms(3-5)
    by (simp add: create_location_def Let_def insert_unique_def find_or_raise_def)
qed

end
