(* ===== verification/Wms_Procure.thy ===== *)
theory Wms_Procure
  imports Wms_Warehouse
begin

text \<open>
  Vendors, addresses, purchase orders, invoices and credit memos (\<open>src/wms/service.py\<close>). The three
  documents are created the same way, header, lines and a total that is the sum of the lines; the
  locale \<open>billed_document\<close> states that contract. \<open>fromisoformat\<close> of the standard library is the
  parameter \<open>parse_iso\<close> (\<open>None\<close> when it raises \<open>ValueError\<close>).
\<close>

section \<open>Vendors and addresses\<close>

record vendor_req =
  vr_code :: string
  vr_name :: "string option"
  vr_email :: "string option"
  vr_phone :: "string option"

definition create_vendor :: "env \<Rightarrow> vendor_req \<Rightarrow> 'a wms_db_scheme \<Rightarrow> ('a wms_db_scheme \<times> vendor) result" where
  "create_vendor env data d =
     bindE (find_one (\<lambda>v. vd_code v = vr_code data) (vendors d)) (\<lambda>found.
     bindE (raise_if (found \<noteq> None) (validation (''Vendor code '' @ vr_code data @ '' already exists''))) (\<lambda>_.
     let v = \<lparr>pk = new_uuid env d, created_at = now env, updated_at = now env, is_deleted = False,
              deleted_at = None, vd_code = vr_code data, vd_name = vr_name data, vd_email = vr_email data,
              vd_phone = vr_phone data, vd_is_active = True\<rparr>
     in bindE (raise_if (vr_name data = None) IntegrityError) (\<lambda>_.
        bindE (insert_unique vd_code v (vendors d)) (\<lambda>t.
        Inr ((tick d)\<lparr>vendors := t\<rparr>, v)))))"

definition get_vendor :: "string \<Rightarrow> 'a wms_db_scheme \<Rightarrow> vendor result" where
  "get_vendor vendor_id d =
     bindE (to_uuid vendor_id) (\<lambda>u.
     find_or_raise (NotFoundException (''Vendor '' @ vendor_id @ '' not found'')) (\<lambda>v. pk v = u) (vendors d))"

definition list_vendors ::
  "int option \<Rightarrow> int option \<Rightarrow> 'a wms_db_scheme \<Rightarrow> (vendor list + vendor paginated_response) result" where
  "list_vendors page page_size d =
     list_or_page (\<lambda>v. v) (order_by_desc created_at (vendors d)) page page_size"

record address_req =
  ar_entity_type :: "string option"
  ar_entity_id :: "string option"
  ar_address_type :: "string option"
  ar_contact_name :: "string option"
  ar_phone :: "string option"
  ar_email :: "string option"
  ar_address_line_1 :: "string option"
  ar_address_line_2 :: "string option"
  ar_city :: "string option"
  ar_state :: "string option"
  ar_postal_code :: "string option"
  ar_country :: "string option"

text \<open>\<open>if data.get(k): kwargs[k] = data[k]\<close>\<close>

definition if_truthy :: "string option \<Rightarrow> string option" where
  "if_truthy s = (if truthy s then s else None)"

definition create_address :: "env \<Rightarrow> address_req \<Rightarrow> 'a wms_db_scheme \<Rightarrow> ('a wms_db_scheme \<times> address) result" where
  "create_address env data d =
     bindE (uuid_if_truthy (ar_entity_id data)) (\<lambda>eid.
     bindE (raise_if (\<not> truthy (ar_entity_type data) \<or> \<not> truthy (ar_address_type data)) IntegrityError) (\<lambda>_.
     let a = \<lparr>pk = new_uuid env d, created_at = now env, updated_at = now env,
              ad_entity_type = get_default [] (ar_entity_type data), ad_entity_id = eid,
              ad_address_type = get_default [] (ar_address_type data),
              ad_contact_name = if_truthy (ar_contact_name data), ad_phone = if_truthy (ar_phone data),
              ad_email = if_truthy (ar_email data), ad_address_line_1 = if_truthy (ar_address_line_1 data),
              ad_address_line_2 = if_truthy (ar_address_line_2 data), ad_city = if_truthy (ar_city data),
              ad_state = if_truthy (ar_state data), ad_postal_code = if_truthy (ar_postal_code data),
              ad_country = get_default (utf8 [228, 184, 173, 229, 155, 189]) (if_truthy (ar_country data))\<rparr>
     in Inr ((tick d)\<lparr>addresses := insert_row a (addresses d)\<rparr>, a)))"

definition list_addresses :: "string option \<Rightarrow> string option \<Rightarrow> 'a wms_db_scheme \<Rightarrow> address list result" where
  "list_addresses entity_type entity_id d =
     bindE (uuid_if_truthy entity_id) (\<lambda>eid.
     Inr (order_by_desc created_at
            (select_where (\<lambda>a. (truthy entity_type \<longrightarrow> Some (ad_entity_type a) = entity_type) \<and>
                               (case eid of None \<Rightarrow> True | Some u \<Rightarrow> ad_entity_id a = Some u)) (addresses d))))"

section \<open>Documents with lines\<close>

record line_req =
  lr_sku_id :: "string option"
  lr_description :: "string option"
  lr_quantity :: "decimal option"
  lr_unit_price :: "decimal option"

definition line_quantity :: "line_req \<Rightarrow> decimal" where
  "line_quantity l = get_default 1 (lr_quantity l)"

definition line_price :: "line_req \<Rightarrow> decimal" where
  "line_price l = get_default 0 (lr_unit_price l)"

text \<open>\<open>datetime.fromisoformat(v).date() if v else None\<close>\<close>

definition iso_date :: "(string \<Rightarrow> date option) \<Rightarrow> string option \<Rightarrow> date option result" where
  "iso_date parse_iso v =
     (if truthy v then bindE (of_option ValueError (parse_iso (get_default [] v))) (\<lambda>x. Inr (Some x)) else Inr None)"

text \<open>
  What the three creations promise: \<open>total\<close> of the document is the sum over the lines it stores, and
  there is one stored line per requested one.
\<close>

locale billed_document =
  fixes create :: "'req \<Rightarrow> 'db \<Rightarrow> ('db \<times> 'doc) result"
    and requested :: "'req \<Rightarrow> line_req list"
    and lines_of :: "'doc \<Rightarrow> 'db \<Rightarrow> (decimal \<times> decimal) list"
    and total :: "'doc \<Rightarrow> decimal"
    and ready :: "'db \<Rightarrow> 'db \<Rightarrow> bool"
  assumes stored_lines: "create r d = Inr (d', doc) \<Longrightarrow> ready d d' \<Longrightarrow>
      lines_of doc d' = map (\<lambda>l. (line_quantity l, line_price l)) (requested r)"
    and total_requested: "create r d = Inr (d', doc) \<Longrightarrow>
      total doc = sum_list (map (\<lambda>l. line_quantity l * line_price l) (requested r))"
begin

lemma total_is_sum_of_lines:
  assumes "create r d = Inr (d', doc)" "ready d d'"
  shows "total doc = sum_list (map (\<lambda>(q, p). q * p) (lines_of doc d'))"
  using stored_lines[OF assms] total_requested[OF assms(1)] by (simp add: comp_def)

lemma total_nonneg:
  assumes "create r d = Inr (d', doc)" "\<forall>l\<in>set (requested r). 0 \<le> line_quantity l \<and> 0 \<le> line_price l"
  shows "0 \<le> total doc"
  using total_requested[OF assms(1)] assms(2) by (auto intro!: sum_list_nonneg)

lemma total_empty: "create r d = Inr (d', doc) \<Longrightarrow> requested r = [] \<Longrightarrow> total doc = 0"
  using total_requested by simp

end

subsection \<open>Purchase orders\<close>

record po_req =
  por_po_number :: string
  por_vendor_id :: "string option"
  por_expected_date :: "string option"
  por_notes :: "string option"
  por_lines :: "line_req list"

fun add_po_line ::
  "env \<Rightarrow> uuid \<Rightarrow> line_req \<Rightarrow> 'a wms_db_scheme \<times> decimal \<Rightarrow> ('a wms_db_scheme \<times> decimal) result" where
  "add_po_line env po_id l (d, running) = (
     bindE (uuid_if_truthy (lr_sku_id l)) (\<lambda>sid.
     let line = \<lparr>pol_id = new_uuid env d, pol_purchase_order_id = po_id, pol_sku_id = sid,
                 pol_description = get_default [] (lr_description l), pol_quantity = line_quantity l,
                 pol_unit_price = line_price l\<rparr>
     in Inr ((tick d)\<lparr>purchase_order_lines := insert_row line (purchase_order_lines d)\<rparr>,
             running + line_quantity l * line_price l)))"

definition create_purchase_order ::
  "(string \<Rightarrow> date option) \<Rightarrow> env \<Rightarrow> po_req \<Rightarrow> 'a wms_db_scheme \<Rightarrow> ('a wms_db_scheme \<times> purchase_order) result" where
  "create_purchase_order parse_iso env data d =
     bindE (uuid_if_truthy (por_vendor_id data)) (\<lambda>vid.
     bindE (iso_date parse_iso (por_expected_date data)) (\<lambda>ed.
     let po = \<lparr>pk = new_uuid env d, created_at = now env, updated_at = now env, is_deleted = False,
               deleted_at = None, po_po_number = por_po_number data, po_vendor_id = vid, po_status = ''draft'',
               po_expected_date = ed, po_notes = Some (get_default [] (por_notes data)), po_total_amount = 0\<rparr>
     in bindE (insert_unique po_po_number po (purchase_orders d)) (\<lambda>_.
        bindE (foldE (add_po_line env (pk po)) (por_lines data) (tick d, 0)) (\<lambda>(d1, total).
        let po = po\<lparr>po_total_amount := total\<rparr>
        in Inr (d1\<lparr>purchase_orders := insert_row po (purchase_orders d)\<rparr>, po)))))"

definition find_po :: "string \<Rightarrow> 'a wms_db_scheme \<Rightarrow> purchase_order result" where
  "find_po po_id d =
     bindE (to_uuid po_id) (\<lambda>u.
     find_or_raise (NotFoundException (''PurchaseOrder '' @ po_id @ '' not found'')) (\<lambda>p. pk p = u) (purchase_orders d))"

definition list_purchase_orders ::
  "int option \<Rightarrow> int option \<Rightarrow> 'a wms_db_scheme \<Rightarrow> (purchase_order list + purchase_order paginated_response) result" where
  "list_purchase_orders page page_size d =
     list_or_page (\<lambda>p. p) (order_by_desc created_at (purchase_orders d)) page page_size"

text \<open>The guards of approval and receipt, with the status they move to.\<close>

definition approve_status :: "string \<Rightarrow> string result" where
  "approve_status s =
     bindE (raise_if (s \<noteq> ''draft'') (validation (''Cannot approve PO in '' @ quoted s @ '' state''))) (\<lambda>_. Inr ''approved'')"

definition receive_status :: "string \<Rightarrow> string result" where
  "receive_status s =
     bindE (raise_if (s \<notin> {''approved'', ''partial''})
              (validation (''Cannot receive goods for PO in '' @ quoted s @ '' state''))) (\<lambda>_. Inr ''received'')"

definition set_po_status :: "env \<Rightarrow> purchase_order \<Rightarrow> string \<Rightarrow> 'a wms_db_scheme \<Rightarrow> 'a wms_db_scheme \<times> purchase_order" where
  "set_po_status env po st d =
     (let f = (\<lambda>p. p\<lparr>po_status := st, updated_at := now env\<rparr>)
      in (d\<lparr>purchase_orders := update_where (\<lambda>p. pk p = pk po) f (purchase_orders d)\<rparr>, f po))"

definition approve_purchase_order ::
  "env \<Rightarrow> string \<Rightarrow> 'a wms_db_scheme \<Rightarrow> ('a wms_db_scheme \<times> purchase_order) result" where
  "approve_purchase_order env po_id d =
     bindE (find_po po_id d) (\<lambda>po.
     bindE (approve_status (po_status po)) (\<lambda>st.
     Inr (set_po_status env po st d)))"

definition receive_goods ::
  "env \<Rightarrow> string \<Rightarrow> 'a wms_db_scheme \<Rightarrow> ('a wms_db_scheme \<times> purchase_order) result" where
  "receive_goods env po_id d =
     bindE (find_po po_id d) (\<lambda>po.
     bindE (receive_status (po_status po)) (\<lambda>st.
     Inr (set_po_status env po st d)))"

subsection \<open>Invoices\<close>

record invoice_req =
  iq_invoice_number :: string
  iq_entity_type :: string
  iq_entity_id :: "string option"
  iq_issue_date :: "string option"
  iq_due_date :: "string option"
  iq_notes :: "string option"
  iq_lines :: "line_req list"

fun add_invoice_line ::
  "env \<Rightarrow> uuid \<Rightarrow> line_req \<Rightarrow> 'a wms_db_scheme \<times> decimal \<Rightarrow> ('a wms_db_scheme \<times> decimal) result" where
  "add_invoice_line env invoice_id l (d, running) = (
     let line = \<lparr>ivl_id = new_uuid env d, ivl_invoice_id = invoice_id,
                 ivl_description = get_default [] (lr_description l), ivl_quantity = line_quantity l,
                 ivl_unit_price = line_price l\<rparr>
     in Inr ((tick d)\<lparr>invoice_lines := insert_row line (invoice_lines d)\<rparr>, running + line_quantity l * line_price l))"

definition create_invoice ::
  "(string \<Rightarrow> date option) \<Rightarrow> env \<Rightarrow> invoice_req \<Rightarrow> 'a wms_db_scheme \<Rightarrow> ('a wms_db_scheme \<times> invoice) result" where
  "create_invoice parse_iso env data d =
     bindE (uuid_if_truthy (iq_entity_id data)) (\<lambda>eid.
     bindE (iso_date parse_iso (iq_issue_date data)) (\<lambda>idate.
     bindE (iso_date parse_iso (iq_due_date data)) (\<lambda>ddate.
     let iv = \<lparr>pk = new_uuid env d, created_at = now env, updated_at = now env, is_deleted = False,
               deleted_at = None, iv_invoice_number = iq_invoice_number data, iv_entity_type = iq_entity_type data,
               iv_entity_id = eid, iv_status = ''draft'', iv_issue_date = idate, iv_due_date = ddate,
               iv_total_amount = 0, iv_paid_amount = 0, iv_reference_number = None,
               iv_notes = Some (get_default [] (iq_notes data))\<rparr>
     in bindE (insert_unique iv_invoice_number iv (invoices d)) (\<lambda>_.
        bindE (foldE (add_invoice_line env (pk iv)) (iq_lines data) (tick d, 0)) (\<lambda>(d1, total).
        let iv = iv\<lparr>iv_total_amount := total\<rparr>
        in Inr (d1\<lparr>invoices := insert_row iv (invoices d)\<rparr>, iv))))))"

definition get_invoice :: "string \<Rightarrow> 'a wms_db_scheme \<Rightarrow> invoice result" where
  "get_invoice invoice_id d =
     bindE (to_uuid invoice_id) (\<lambda>u.
     find_or_raise (NotFoundException (''Invoice '' @ invoice_id @ '' not found'')) (\<lambda>i. pk i = u) (invoices d))"

definition list_invoices :: "'a wms_db_scheme \<Rightarrow> invoice list" where
  "list_invoices d = order_by_desc created_at (invoices d)"

subsection \<open>Credit memos\<close>

record memo_req =
  mq_credit_memo_number :: string
  mq_invoice_id :: "string option"
  mq_entity_type :: string
  mq_entity_id :: "string option"
  mq_issue_date :: "string option"
  mq_reason :: "string option"
  mq_notes :: "string option"
  mq_lines :: "line_req list"

fun add_memo_line ::
  "env \<Rightarrow> uuid \<Rightarrow> line_req \<Rightarrow> 'a wms_db_scheme \<times> decimal \<Rightarrow> ('a wms_db_scheme \<times> decimal) result" where
  "add_memo_line env memo_id l (d, running) = (
     let line = \<lparr>cml_id = new_uuid env d, cml_credit_memo_id = memo_id,
                 cml_description = get_default [] (lr_description l), cml_quantity = line_quantity l,
                 cml_unit_price = line_price l\<rparr>
     in Inr ((tick d)\<lparr>credit_memo_lines := insert_row line (credit_memo_lines d)\<rparr>, running + line_quantity l * line_price l))"

definition create_credit_memo ::
  "(string \<Rightarrow> date option) \<Rightarrow> env \<Rightarrow> memo_req \<Rightarrow> 'a wms_db_scheme \<Rightarrow> ('a wms_db_scheme \<times> credit_memo) result" where
  "create_credit_memo parse_iso env data d =
     bindE (uuid_if_truthy (mq_invoice_id data)) (\<lambda>iid.
     bindE (uuid_if_truthy (mq_entity_id data)) (\<lambda>eid.
     bindE (iso_date parse_iso (mq_issue_date data)) (\<lambda>idate.
     let cm = \<lparr>pk = new_uuid env d, created_at = now env, updated_at = now env, is_deleted = False,
               deleted_at = None, cm_credit_memo_number = mq_credit_memo_number data, cm_invoice_id = iid,
               cm_entity_type = mq_entity_type data, cm_entity_id = eid, cm_status = ''draft'',
               cm_issue_date = idate, cm_total_amount = 0, cm_reason = get_default [] (mq_reason data),
               cm_notes = Some (get_default [] (mq_notes data))\<rparr>
     in bindE (insert_unique cm_credit_memo_number cm (credit_memos d)) (\<lambda>_.
        bindE (foldE (add_memo_line env (pk cm)) (mq_lines data) (tick d, 0)) (\<lambda>(d1, total).
        let cm = cm\<lparr>cm_total_amount := total\<rparr>
        in Inr (d1\<lparr>credit_memos := insert_row cm (credit_memos d)\<rparr>, cm))))))"

definition get_credit_memo :: "string \<Rightarrow> 'a wms_db_scheme \<Rightarrow> credit_memo result" where
  "get_credit_memo cm_id d =
     bindE (to_uuid cm_id) (\<lambda>u.
     find_or_raise (NotFoundException (''CreditMemo '' @ cm_id @ '' not found'')) (\<lambda>c. pk c = u) (credit_memos d))"

definition list_credit_memos :: "'a wms_db_scheme \<Rightarrow> credit_memo list" where
  "list_credit_memos d = order_by_desc created_at (credit_memos d)"

section \<open>Facts\<close>

text \<open>The three line loops: one row per request, and the running total.\<close>

lemma po_lines_loop:
  assumes "foldE (add_po_line env u) ls (d, t) = Inr (d', t')"
  shows "\<exists>n rows. d' = d\<lparr>drawn := n, purchase_order_lines := purchase_order_lines d @ rows\<rparr> \<and>
     map (\<lambda>r. (pol_quantity r, pol_unit_price r)) rows = map (\<lambda>l. (line_quantity l, line_price l)) ls \<and>
     (\<forall>r\<in>set rows. pol_purchase_order_id r = u) \<and> t' = t + sum_list (map (\<lambda>l. line_quantity l * line_price l) ls)"
  using assms
proof (induction ls arbitrary: d t)
  case Nil
  then show ?case by (intro exI [of _ "drawn d"] exI [of _ "[]"]) auto
next
  case (Cons l ls)
  then obtain r where r: "foldE (add_po_line env u) ls ((tick d)\<lparr>purchase_order_lines := purchase_order_lines d @ [r]\<rparr>,
       t + line_quantity l * line_price l) = Inr (d', t')"
    "pol_quantity r = line_quantity l" "pol_unit_price r = line_price l" "pol_purchase_order_id r = u"
    by (auto simp: Let_def insert_row_def)
  from Cons.IH[OF r(1)] obtain n rows where
    i: "d' = d\<lparr>drawn := n, purchase_order_lines := purchase_order_lines d @ (r # rows)\<rparr>"
     "map (\<lambda>r. (pol_quantity r, pol_unit_price r)) rows = map (\<lambda>l. (line_quantity l, line_price l)) ls"
     "\<forall>r\<in>set rows. pol_purchase_order_id r = u"
     "t' = t + line_quantity l * line_price l + sum_list (map (\<lambda>l. line_quantity l * line_price l) ls)"
    by (auto simp: tick_def)
  then show ?case using r by (intro exI [of _ n] exI [of _ "r # rows"]) simp
qed

lemma invoice_lines_loop:
  assumes "foldE (add_invoice_line env u) ls (d, t) = Inr (d', t')"
  shows "\<exists>n rows. d' = d\<lparr>drawn := n, invoice_lines := invoice_lines d @ rows\<rparr> \<and>
     map (\<lambda>r. (ivl_quantity r, ivl_unit_price r)) rows = map (\<lambda>l. (line_quantity l, line_price l)) ls \<and>
     (\<forall>r\<in>set rows. ivl_invoice_id r = u) \<and> t' = t + sum_list (map (\<lambda>l. line_quantity l * line_price l) ls)"
  using assms
proof (induction ls arbitrary: d t)
  case Nil
  then show ?case by (intro exI [of _ "drawn d"] exI [of _ "[]"]) auto
next
  case (Cons l ls)
  then obtain r where r: "foldE (add_invoice_line env u) ls ((tick d)\<lparr>invoice_lines := invoice_lines d @ [r]\<rparr>,
       t + line_quantity l * line_price l) = Inr (d', t')"
    "ivl_quantity r = line_quantity l" "ivl_unit_price r = line_price l" "ivl_invoice_id r = u"
    by (auto simp: Let_def insert_row_def)
  from Cons.IH[OF r(1)] obtain n rows where
    i: "d' = d\<lparr>drawn := n, invoice_lines := invoice_lines d @ (r # rows)\<rparr>"
     "map (\<lambda>r. (ivl_quantity r, ivl_unit_price r)) rows = map (\<lambda>l. (line_quantity l, line_price l)) ls"
     "\<forall>r\<in>set rows. ivl_invoice_id r = u"
     "t' = t + line_quantity l * line_price l + sum_list (map (\<lambda>l. line_quantity l * line_price l) ls)"
    by (auto simp: tick_def)
  then show ?case using r by (intro exI [of _ n] exI [of _ "r # rows"]) simp
qed

lemma memo_lines_loop:
  assumes "foldE (add_memo_line env u) ls (d, t) = Inr (d', t')"
  shows "\<exists>n rows. d' = d\<lparr>drawn := n, credit_memo_lines := credit_memo_lines d @ rows\<rparr> \<and>
     map (\<lambda>r. (cml_quantity r, cml_unit_price r)) rows = map (\<lambda>l. (line_quantity l, line_price l)) ls \<and>
     (\<forall>r\<in>set rows. cml_credit_memo_id r = u) \<and> t' = t + sum_list (map (\<lambda>l. line_quantity l * line_price l) ls)"
  using assms
proof (induction ls arbitrary: d t)
  case Nil
  then show ?case by (intro exI [of _ "drawn d"] exI [of _ "[]"]) auto
next
  case (Cons l ls)
  then obtain r where r: "foldE (add_memo_line env u) ls ((tick d)\<lparr>credit_memo_lines := credit_memo_lines d @ [r]\<rparr>,
       t + line_quantity l * line_price l) = Inr (d', t')"
    "cml_quantity r = line_quantity l" "cml_unit_price r = line_price l" "cml_credit_memo_id r = u"
    by (auto simp: Let_def insert_row_def)
  from Cons.IH[OF r(1)] obtain n rows where
    i: "d' = d\<lparr>drawn := n, credit_memo_lines := credit_memo_lines d @ (r # rows)\<rparr>"
     "map (\<lambda>r. (cml_quantity r, cml_unit_price r)) rows = map (\<lambda>l. (line_quantity l, line_price l)) ls"
     "\<forall>r\<in>set rows. cml_credit_memo_id r = u"
     "t' = t + line_quantity l * line_price l + sum_list (map (\<lambda>l. line_quantity l * line_price l) ls)"
    by (auto simp: tick_def)
  then show ?case using r by (intro exI [of _ n] exI [of _ "r # rows"]) simp
qed

definition po_lines :: "purchase_order \<Rightarrow> 'a wms_db_scheme \<Rightarrow> (decimal \<times> decimal) list" where
  "po_lines po d = map (\<lambda>r. (pol_quantity r, pol_unit_price r))
     (select_where (\<lambda>r. pol_purchase_order_id r = pk po) (purchase_order_lines d))"

definition inv_lines :: "invoice \<Rightarrow> 'a wms_db_scheme \<Rightarrow> (decimal \<times> decimal) list" where
  "inv_lines iv d = map (\<lambda>r. (ivl_quantity r, ivl_unit_price r))
     (select_where (\<lambda>r. ivl_invoice_id r = pk iv) (invoice_lines d))"

definition memo_lines :: "credit_memo \<Rightarrow> 'a wms_db_scheme \<Rightarrow> (decimal \<times> decimal) list" where
  "memo_lines cm d = map (\<lambda>r. (cml_quantity r, cml_unit_price r))
     (select_where (\<lambda>r. cml_credit_memo_id r = pk cm) (credit_memo_lines d))"

text \<open>The identifier of the document is new: no line refers to it yet.\<close>

definition po_ready :: "env \<Rightarrow> 'a wms_db_scheme \<Rightarrow> 'a wms_db_scheme \<Rightarrow> bool" where
  "po_ready env d d' \<longleftrightarrow> new_uuid env d \<notin> pol_purchase_order_id ` set (purchase_order_lines d)"

definition inv_ready :: "env \<Rightarrow> 'a wms_db_scheme \<Rightarrow> 'a wms_db_scheme \<Rightarrow> bool" where
  "inv_ready env d d' \<longleftrightarrow> new_uuid env d \<notin> ivl_invoice_id ` set (invoice_lines d)"

definition memo_ready :: "env \<Rightarrow> 'a wms_db_scheme \<Rightarrow> 'a wms_db_scheme \<Rightarrow> bool" where
  "memo_ready env d d' \<longleftrightarrow> new_uuid env d \<notin> cml_credit_memo_id ` set (credit_memo_lines d)"

lemma filter_new_lines:
  assumes "u \<notin> k ` set t" "\<forall>r\<in>set rows. k r = u"
  shows "filter (\<lambda>r. k r = u) (t @ rows) = rows"
  using assms by (auto simp: filter_empty_conv filter_id_conv)

interpretation po_document: billed_document "create_purchase_order parse_iso env" por_lines po_lines po_total_amount "po_ready env"
proof unfold_locales
  fix r and d d' :: "'a wms_db_scheme" and doc
  assume c: "create_purchase_order parse_iso env r d = Inr (d', doc)"
  then obtain d1 t where l: "foldE (add_po_line env (new_uuid env d)) (por_lines r) (tick d, 0) = Inr (d1, t)"
    and e: "d' = d1\<lparr>purchase_orders := insert_row doc (purchase_orders d)\<rparr>" "pk doc = new_uuid env d" "po_total_amount doc = t"
    by (auto simp: create_purchase_order_def Let_def)
  from po_lines_loop[OF l] obtain n rows where
    r: "d1 = (tick d)\<lparr>drawn := n, purchase_order_lines := purchase_order_lines d @ rows\<rparr>"
     "map (\<lambda>r. (pol_quantity r, pol_unit_price r)) rows = map (\<lambda>l. (line_quantity l, line_price l)) (por_lines r)"
     "\<forall>r\<in>set rows. pol_purchase_order_id r = new_uuid env d"
     "t = sum_list (map (\<lambda>l. line_quantity l * line_price l) (por_lines r))" by (auto simp: tick_def)
  show "po_total_amount doc = sum_list (map (\<lambda>l. line_quantity l * line_price l) (por_lines r))" using r(4) e(3) by simp
  assume "po_ready env d d'"
  then show "po_lines doc d' = map (\<lambda>l. (line_quantity l, line_price l)) (por_lines r)"
    using r filter_new_lines[of "new_uuid env d" pol_purchase_order_id "purchase_order_lines d" rows]
    by (simp add: po_lines_def e(2) select_where_def po_ready_def e(1))
qed

interpretation invoice_document: billed_document "create_invoice parse_iso env" iq_lines inv_lines iv_total_amount "inv_ready env"
proof unfold_locales
  fix r and d d' :: "'a wms_db_scheme" and doc
  assume c: "create_invoice parse_iso env r d = Inr (d', doc)"
  then obtain d1 t where l: "foldE (add_invoice_line env (new_uuid env d)) (iq_lines r) (tick d, 0) = Inr (d1, t)"
    and e: "d' = d1\<lparr>invoices := insert_row doc (invoices d)\<rparr>" "pk doc = new_uuid env d" "iv_total_amount doc = t"
    by (auto simp: create_invoice_def Let_def)
  from invoice_lines_loop[OF l] obtain n rows where
    r: "d1 = (tick d)\<lparr>drawn := n, invoice_lines := invoice_lines d @ rows\<rparr>"
     "map (\<lambda>r. (ivl_quantity r, ivl_unit_price r)) rows = map (\<lambda>l. (line_quantity l, line_price l)) (iq_lines r)"
     "\<forall>r\<in>set rows. ivl_invoice_id r = new_uuid env d"
     "t = sum_list (map (\<lambda>l. line_quantity l * line_price l) (iq_lines r))" by (auto simp: tick_def)
  show "iv_total_amount doc = sum_list (map (\<lambda>l. line_quantity l * line_price l) (iq_lines r))" using r(4) e(3) by simp
  assume "inv_ready env d d'"
  then show "inv_lines doc d' = map (\<lambda>l. (line_quantity l, line_price l)) (iq_lines r)"
    using r filter_new_lines[of "new_uuid env d" ivl_invoice_id "invoice_lines d" rows]
    by (simp add: inv_lines_def e(2) select_where_def inv_ready_def e(1))
qed

interpretation memo_document: billed_document "create_credit_memo parse_iso env" mq_lines memo_lines cm_total_amount "memo_ready env"
proof unfold_locales
  fix r and d d' :: "'a wms_db_scheme" and doc
  assume c: "create_credit_memo parse_iso env r d = Inr (d', doc)"
  then obtain d1 t where l: "foldE (add_memo_line env (new_uuid env d)) (mq_lines r) (tick d, 0) = Inr (d1, t)"
    and e: "d' = d1\<lparr>credit_memos := insert_row doc (credit_memos d)\<rparr>" "pk doc = new_uuid env d" "cm_total_amount doc = t"
    by (auto simp: create_credit_memo_def Let_def)
  from memo_lines_loop[OF l] obtain n rows where
    r: "d1 = (tick d)\<lparr>drawn := n, credit_memo_lines := credit_memo_lines d @ rows\<rparr>"
     "map (\<lambda>r. (cml_quantity r, cml_unit_price r)) rows = map (\<lambda>l. (line_quantity l, line_price l)) (mq_lines r)"
     "\<forall>r\<in>set rows. cml_credit_memo_id r = new_uuid env d"
     "t = sum_list (map (\<lambda>l. line_quantity l * line_price l) (mq_lines r))" by (auto simp: tick_def)
  show "cm_total_amount doc = sum_list (map (\<lambda>l. line_quantity l * line_price l) (mq_lines r))" using r(4) e(3) by simp
  assume "memo_ready env d d'"
  then show "memo_lines doc d' = map (\<lambda>l. (line_quantity l, line_price l)) (mq_lines r)"
    using r filter_new_lines[of "new_uuid env d" cml_credit_memo_id "credit_memo_lines d" rows]
    by (simp add: memo_lines_def e(2) select_where_def memo_ready_def e(1))
qed

section \<open>The life of a purchase order\<close>

definition po_allowed :: "string \<Rightarrow> string list" where
  "po_allowed s = (if s = ''draft'' then [''approved'']
                   else if s \<in> {''approved'', ''partial''} then [''received''] else [])"

definition po_change :: "string \<Rightarrow> string \<Rightarrow> string result" where
  "po_change s t =
     (if t = ''approved'' then approve_status s
      else if t = ''received'' then receive_status s
      else Inl (validation ''no operation''))"

definition po_rank :: "string \<Rightarrow> nat" where
  "po_rank s = (if s = ''draft'' then 2 else if s \<in> {''approved'', ''partial''} then 1 else 0)"

interpretation po_lifecycle: ranked_status_machine po_allowed po_change po_rank
proof unfold_locales
  fix s t :: string
  show "t \<in> set (po_allowed s) \<Longrightarrow> po_change s t = Inr t"
    by (auto simp: po_allowed_def po_change_def approve_status_def receive_status_def split: if_splits)
  show "t \<notin> set (po_allowed s) \<Longrightarrow> \<exists>e. po_change s t = Inl e"
    by (auto simp: po_allowed_def po_change_def approve_status_def receive_status_def raise_if_def split: if_splits)
  show "t \<in> set (po_allowed s) \<Longrightarrow> po_rank t < po_rank s"
    by (auto simp: po_allowed_def po_rank_def split: if_splits)
qed

text \<open>Goods are received once, after an approval: a second receipt is refused.\<close>

lemma receive_goodsE:
  assumes "receive_goods env po_id d = Inr (d', po')"
  obtains po where "find_po po_id d = Inr po" "po_status po \<in> {''approved'', ''partial''}"
    "find_po po_id d' = Inr po'" "po_status po' = ''received''" "po_total_amount po' = po_total_amount po"
proof -
  from assms obtain po where f: "find_po po_id d = Inr po" and s: "po_status po \<in> {''approved'', ''partial''}"
    and d': "(d', po') = set_po_status env po ''received'' d"
    by (auto simp: receive_goods_def receive_status_def)
  from f obtain u where u: "to_uuid po_id = Inr u" "find_one (\<lambda>p. pk p = u) (purchase_orders d) = Inr (Some po)" "pk po = u"
    by (auto simp: find_po_def dest: find_one_SomeD)
  let ?f = "\<lambda>p. p\<lparr>po_status := ''received'', updated_at := now env\<rparr> :: purchase_order"
  have "find_po po_id d' = Inr po'"
    using purchase_order_rows.lookup_updated[OF u(2), of ?f] u d' by (simp add: find_po_def set_po_status_def Let_def)
  then show thesis using that f s d' by (simp add: set_po_status_def Let_def)
qed

lemma receive_goods_once:
  assumes "receive_goods env po_id d = Inr (d', po')"
  shows "receive_goods env2 po_id d' =
    Inl (validation (''Cannot receive goods for PO in '' @ quoted ''received'' @ '' state''))"
  using assms by (rule receive_goodsE) (simp add: receive_goods_def receive_status_def)

end
