(* ===== verification/Wms_Inventory.thy ===== *)
theory Wms_Inventory
  imports Wms_Warehouse
begin

text \<open>
  Inventory (\<open>src/wms/service.py\<close>): batch selection, queries, adjustment under optimistic locking with
  concurrent writers, and stock counts. Adjustment runs against other transactions: \<open>others k\<close> is what
  they commit between the read and the write of attempt \<open>k\<close>.
\<close>

section \<open>Views and batch selection\<close>

record inventory_view =
  ivw_row :: inventory
  ivw_sku :: string
  ivw_available_qty :: decimal

definition inv_to_dict :: "inventory \<Rightarrow> string \<Rightarrow> inventory_view" where
  "inv_to_dict ir sku_str =
     \<lparr>ivw_row = ir, ivw_sku = sku_str, ivw_available_qty = inv_quantity ir - inv_locked_qty ir\<rparr>"

definition available :: "inventory \<Rightarrow> decimal" where
  "available ir = inv_quantity ir - inv_locked_qty ir"

text \<open>The \<open>ORDER BY\<close> of a strategy: first expiry, first receipt, or batch number; NULL sorts last.\<close>

definition order_batches :: "string \<Rightarrow> inventory list \<Rightarrow> inventory list" where
  "order_batches strategy rows =
     (if strategy = ''fefo''
      then order_by (\<lambda>i. (nulls_last (inv_expiry_date i), nulls_last (inv_received_at i))) rows
      else if strategy = ''fifo''
      then order_by (\<lambda>i. (nulls_last (inv_received_at i), inv_batch_no i)) rows
      else order_by inv_batch_no rows)"

definition pick_batches ::
  "uuid option \<Rightarrow> uuid option \<Rightarrow> uuid \<Rightarrow> string \<Rightarrow> 'a wms_db_scheme \<Rightarrow> (inventory \<times> decimal) list" where
  "pick_batches wh_id loc_id sku_id strategy d =
     (let rows = order_batches strategy
            (select_where (\<lambda>i. inv_warehouse_id i = wh_id \<and> inv_sku_id i = sku_id \<and> 0 < inv_quantity i \<and>
                (case loc_id of None \<Rightarrow> True | Some l \<Rightarrow> inv_location_id i = Some l)) (inventory_rows d))
      in map (\<lambda>i. (i, available i)) (filter (\<lambda>i. 0 < available i) rows))"

section \<open>Queries\<close>

text \<open>\<open>query_inventory\<close> calls \<open>_get_or_create_sku\<close>: asking for an unknown product creates it.\<close>

definition query_inventory ::
  "env \<Rightarrow> string option \<Rightarrow> string option \<Rightarrow> string option \<Rightarrow> 'a wms_db_scheme \<Rightarrow>
   ('a wms_db_scheme \<times> inventory_view list) result" where
  "query_inventory env wh_id location_id sku_str d =
     bindE (uuid_if_truthy wh_id) (\<lambda>w.
     bindE (uuid_if_truthy location_id) (\<lambda>l.
     bindE (if truthy sku_str
            then bindE (get_or_create_sku env (get_default [] sku_str) d) (\<lambda>(d1, s). Inr (d1, Some (pk s)))
            else Inr (d, None)) (\<lambda>(d1, sid).
     let rows = select_where (\<lambda>i. (case w of None \<Rightarrow> True | Some u \<Rightarrow> inv_warehouse_id i = Some u) \<and>
                   (case l of None \<Rightarrow> True | Some u \<Rightarrow> inv_location_id i = Some u) \<and>
                   (case sid of None \<Rightarrow> True | Some u \<Rightarrow> inv_sku_id i = u)) (inventory_rows d1)
     in Inr (d1, map (\<lambda>i. inv_to_dict i (case db_get (inv_sku_id i) (skus d1) of None \<Rightarrow> [] | Some s \<Rightarrow> sku_code s)) rows))))"

section \<open>Adjustment\<close>

record adjust_req =
  aj_warehouse_id :: string
  aj_location_id :: string
  aj_sku :: string
  aj_quantity :: decimal
  aj_batch_no :: "string option"
  aj_expiry_date :: "date option"
  aj_manufacturing_date :: "date option"
  aj_picking_strategy :: "string option"

text \<open>
  One attempt. \<open>Conflict\<close> is a \<open>continue\<close> after a rollback; \<open>Written\<close> is a transaction ready to commit.
\<close>

datatype 'd attempt = Conflict inventory | Written 'd inventory

definition add_adjust_movement ::
  "env \<Rightarrow> uuid \<Rightarrow> uuid \<Rightarrow> uuid \<Rightarrow> decimal \<Rightarrow> 'a wms_db_scheme \<Rightarrow> 'a wms_db_scheme" where
  "add_adjust_movement env wh_id loc_id sku_id qty d =
     (tick d)\<lparr>stock_movements := insert_row
        \<lparr>pk = new_uuid env d, created_at = now env, updated_at = now env, is_deleted = False, deleted_at = None,
         sm_source_warehouse_id = Some wh_id, sm_target_warehouse_id = None,
         sm_source_location_id = (if qty < 0 then Some loc_id else None),
         sm_target_location_id = (if 0 < qty then Some loc_id else None),
         sm_sku_id = sku_id, sm_gtin = [], sm_quantity = \<bar>qty\<bar>,
         sm_movement_type = StockMovementType_TRANSFER, sm_status = ''pending''\<rparr> (stock_movements d)\<rparr>"

text \<open>\<open>UPDATE inventory SET ... WHERE id = inv.id AND version = current_version\<close>\<close>

definition versioned_update ::
  "inventory \<Rightarrow> (inventory \<Rightarrow> inventory) \<Rightarrow> 'a wms_db_scheme \<Rightarrow> 'a wms_db_scheme \<times> nat" where
  "versioned_update ir f d =
     (let p = (\<lambda>i. pk i = pk ir \<and> inv_version i = inv_version ir) in
      (d\<lparr>inventory_rows := update_where p f (inventory_rows d)\<rparr>, row_count p (inventory_rows d)))"

definition adjust_attempt ::
  "env \<Rightarrow> ('a wms_db_scheme \<Rightarrow> 'a wms_db_scheme) \<Rightarrow> adjust_req \<Rightarrow> uuid \<Rightarrow> uuid \<Rightarrow> uuid \<Rightarrow> 'a wms_db_scheme \<Rightarrow>
   'a wms_db_scheme attempt result" where
  "adjust_attempt env other data wh_id loc_id sku_id d =
     (let qty = aj_quantity data;
          batch_no = get_default ''DEFAULT'' (aj_batch_no data);
          finish = (\<lambda>ir d1. Written (add_adjust_movement env wh_id loc_id sku_id qty d1) ir)
      in if 0 < qty then
           bindE (find_one (\<lambda>i. inv_warehouse_id i = Some wh_id \<and> inv_location_id i = Some loc_id \<and>
                               inv_sku_id i = sku_id \<and> inv_batch_no i = batch_no) (inventory_rows d)) (\<lambda>found.
           case found of
             Some ir \<Rightarrow>
               let f = (\<lambda>i. i\<lparr>inv_quantity := inv_quantity ir + qty, updated_at := now env,
                              inv_version := inv_version ir + 1,
                              inv_expiry_date := (if aj_expiry_date data \<noteq> None \<and> inv_expiry_date ir = None
                                                  then aj_expiry_date data else inv_expiry_date i),
                              inv_manufacturing_date :=
                                (if aj_manufacturing_date data \<noteq> None \<and> inv_manufacturing_date ir = None
                                 then aj_manufacturing_date data else inv_manufacturing_date i)\<rparr>);
                   (d1, rowcount) = versioned_update ir f (other d)
               in Inr (if rowcount = 0 then Conflict ir else finish ir d1)
           | None \<Rightarrow>
               let d0 = other d;
                   ir = \<lparr>pk = new_uuid env d0, created_at = now env, updated_at = now env, is_deleted = False,
                          deleted_at = None, inv_warehouse_id = Some wh_id, inv_location_id = Some loc_id,
                          inv_sku_id = sku_id, inv_gtin = [], inv_batch_no = batch_no, inv_quantity = qty,
                          inv_locked_qty = 0, inv_min_qty = 0, inv_max_qty = 0, inv_version = 0,
                          inv_expiry_date = aj_expiry_date data,
                          inv_manufacturing_date = aj_manufacturing_date data, inv_received_at = Some (now env)\<rparr>
               in Inr (finish ir ((tick d0)\<lparr>inventory_rows := insert_row ir (inventory_rows d0)\<rparr>)))
         else
           let need = \<bar>qty\<bar>;
               batches = pick_batches (Some wh_id) (Some loc_id) sku_id (get_default ''fefo'' (aj_picking_strategy data)) d
           in bindE (raise_if (batches = [] \<or> sum_list (map snd batches) < need) (validation ''Insufficient stock'')) (\<lambda>_.
              let ir = fst (hd batches) in
              if inv_quantity ir + qty < 0 then Inr (Conflict ir)
              else
                let f = (\<lambda>i. i\<lparr>inv_quantity := inv_quantity ir + qty, updated_at := now env,
                               inv_version := inv_version ir + 1\<rparr>);
                    (d1, rowcount) = versioned_update ir f (other d)
                in Inr (if rowcount = 0 then Conflict ir else finish ir d1)))"

text \<open>
  The retry loop. \<open>committing k\<close> is \<open>None\<close> when the commit of attempt \<open>k\<close> succeeds. After a rollback the
  rows loaded before are expired, and \<open>reload\<close> is what reading \<open>sku_obj.id\<close> of a stored product does then
  (the library documents \<open>MissingGreenlet\<close> under asyncio, \<open>Some MissingGreenlet\<close>; \<open>None\<close> is a
  successful reload). \<open>base\<close> is the database without this transaction's own changes.
\<close>

fun adjust_loop ::
  "env \<Rightarrow> (nat \<Rightarrow> 'a wms_db_scheme \<Rightarrow> 'a wms_db_scheme) \<Rightarrow> (nat \<Rightarrow> exn option) \<Rightarrow> exn option \<Rightarrow>
   adjust_req \<Rightarrow> uuid \<Rightarrow> uuid \<Rightarrow> uuid \<Rightarrow> nat \<Rightarrow> nat \<Rightarrow> 'a wms_db_scheme \<Rightarrow> 'a wms_db_scheme \<Rightarrow>
   ('a wms_db_scheme \<times> inventory) result" where
  "adjust_loop env others committing reload data wh_id loc_id sku_id k 0 base d = Inl AttributeError"
| "adjust_loop env others committing reload data wh_id loc_id sku_id k (Suc n) base d =
     bindE (adjust_attempt env (others k) data wh_id loc_id sku_id d) (\<lambda>outcome.
     let base' = others k base;
         retry = (\<lambda>ir. if n = 0 then Inr (base', ir)
                        else case reload of
                               Some e \<Rightarrow> Inl e
                             | None \<Rightarrow> adjust_loop env others committing reload data wh_id loc_id sku_id (Suc k) n base' base')
     in case outcome of
          Conflict ir \<Rightarrow> retry ir
        | Written d1 ir \<Rightarrow>
            (case committing k of
               None \<Rightarrow> Inr (d1, ir)
             | Some e \<Rightarrow> if n = 0 then Inl e else retry ir))"

definition adjust_inventory ::
  "env \<Rightarrow> (nat \<Rightarrow> 'a wms_db_scheme \<Rightarrow> 'a wms_db_scheme) \<Rightarrow> (nat \<Rightarrow> exn option) \<Rightarrow> exn option \<Rightarrow>
   adjust_req \<Rightarrow> 'a wms_db_scheme \<Rightarrow> ('a wms_db_scheme \<times> inventory_view) result" where
  "adjust_inventory env others committing reload data d =
     bindE (to_uuid (aj_warehouse_id data)) (\<lambda>wh_id.
     bindE (to_uuid (aj_location_id data)) (\<lambda>loc_id.
     bindE (find_or_raise (NotFoundException (''Warehouse '' @ show_uuid wh_id @ '' not found''))
              (\<lambda>w. pk w = wh_id) (warehouses d)) (\<lambda>_.
     bindE (find_or_raise (NotFoundException (''Location '' @ show_uuid loc_id @ '' not found''))
              (\<lambda>l. pk l = loc_id) (locations d)) (\<lambda>_.
     bindE (get_or_create_sku env (aj_sku data) d) (\<lambda>(d0, sku_obj).
     bindE (adjust_loop env others committing (if drawn d0 = drawn d then reload else None)
              data wh_id loc_id (pk sku_obj) 0 3 d d0) (\<lambda>(d1, ir).
     case db_get (pk ir) (inventory_rows d1) of
       None \<Rightarrow> Inl InvalidRequestError
     | Some row \<Rightarrow> Inr (d1, inv_to_dict row (aj_sku data))))))))"

section \<open>Stock count\<close>

record count_item =
  ci_sku :: string
  ci_actual_qty :: "decimal option"
  ci_actual_qty_count :: "decimal option"

record count_req =
  cq_warehouse_id :: "string option"
  cq_source_warehouse_code :: "string option"
  cq_location_id :: "string option"
  cq_target_location_id :: "string option"
  cq_count_results :: "count_item list"

text \<open>\<open>item.get("actual_qty") or item.get("actual_qty_count")\<close>: zero is false.\<close>

definition actual_qty_raw :: "count_item \<Rightarrow> decimal option" where
  "actual_qty_raw item =
     (case ci_actual_qty item of
        Some q \<Rightarrow> if q \<noteq> 0 then Some q else ci_actual_qty_count item
      | None \<Rightarrow> ci_actual_qty_count item)"

definition resolve_count_warehouse :: "count_req \<Rightarrow> 'a wms_db_scheme \<Rightarrow> uuid option result" where
  "resolve_count_warehouse data d =
     (if truthy (cq_warehouse_id data) then to_uuid_opt (cq_warehouse_id data)
      else if truthy (cq_source_warehouse_code data) then
        let c = get_default [] (cq_source_warehouse_code data) in
        bindE (find_or_raise (NotFoundException (''Warehouse '' @ c @ '' not found''))
                 (\<lambda>w. wh_code w = c) (warehouses d)) (\<lambda>w. Inr (Some (pk w)))
      else Inr None)"

text \<open>
  One counted item. The log row needs a warehouse; without one the next flush raises
  \<open>IntegrityError\<close>, which the flag \<open>bad\<close> records until then.
\<close>

definition count_step ::
  "env \<Rightarrow> uuid option \<Rightarrow> uuid \<Rightarrow> count_item \<Rightarrow> 'a wms_db_scheme \<times> bool \<Rightarrow> ('a wms_db_scheme \<times> bool) result" where
  "count_step env wh_id loc_id item = (\<lambda>(d, bad).
     bindE (of_option (validation (''Missing quantity field in count result for SKU '' @ ci_sku item))
              (actual_qty_raw item)) (\<lambda>actual_qty.
     bindE (raise_if bad IntegrityError) (\<lambda>_.
     bindE (get_or_create_sku env (ci_sku item) d) (\<lambda>(d1, sku_obj).
     bindE (find_one (\<lambda>i. inv_warehouse_id i = wh_id \<and> inv_location_id i = Some loc_id \<and>
                          inv_sku_id i = pk sku_obj) (inventory_rows d1)) (\<lambda>found.
     let system_qty = (case found of None \<Rightarrow> 0 | Some ir \<Rightarrow> inv_quantity ir);
         diff = actual_qty - system_qty
     in if \<bar>diff\<bar> < 1/1000 then Inr (d1, bad)
        else
          bindE (case found of
                   None \<Rightarrow> Inr ((tick d1)\<lparr>inventory_rows := insert_row
                     \<lparr>pk = new_uuid env d1, created_at = now env, updated_at = now env, is_deleted = False,
                      deleted_at = None, inv_warehouse_id = wh_id, inv_location_id = Some loc_id,
                      inv_sku_id = pk sku_obj, inv_gtin = [], inv_batch_no = ''COUNT'', inv_quantity = actual_qty,
                      inv_locked_qty = 0, inv_min_qty = 0, inv_max_qty = 0, inv_version = 0,
                      inv_expiry_date = None, inv_manufacturing_date = None, inv_received_at = Some (now env)\<rparr>
                     (inventory_rows d1)\<rparr>)
                 | Some ir \<Rightarrow>
                     bindE (raise_if (\<not> 0 < diff \<and> inv_quantity ir < \<bar>diff\<bar>)
                              (validation (''SKU '' @ ci_sku item @ '': actual qty exceeds available inventory''))) (\<lambda>_.
                     Inr (d1\<lparr>inventory_rows := update_where (\<lambda>i. pk i = pk ir)
                            (\<lambda>i. i\<lparr>inv_quantity := actual_qty, updated_at := now env\<rparr>) (inventory_rows d1)\<rparr>))) (\<lambda>d2.
          case wh_id of
            None \<Rightarrow> Inr (d2, True)
          | Some w \<Rightarrow>
              Inr ((tick d2)\<lparr>stock_inventory_logs := insert_row
                \<lparr>sil_id = new_uuid env d2, sil_warehouse_id = w, sil_sku = ci_sku item,
                 sil_type = (if 0 < diff then ''ADJUSTMENT_IN'' else ''ADJUSTMENT_OUT''),
                 sil_reference_type = Some ''stock_count'', sil_reference_id = None,
                 sil_quantity_change = \<bar>diff\<bar>, sil_operator_id = None, sil_reason = Some ''stock_count'',
                 sil_remark = None, sil_created_at = now env\<rparr> (stock_inventory_logs d2)\<rparr>, bad)))))))"

definition adjust_stock_count ::
  "env \<Rightarrow> count_req \<Rightarrow> 'a wms_db_scheme \<Rightarrow> ('a wms_db_scheme \<times> string) result" where
  "adjust_stock_count env data d =
     bindE (resolve_count_warehouse data d) (\<lambda>wh_id.
     let loc_id_str = get_default [] (or_str (cq_location_id data) (Some (get_default [] (cq_target_location_id data)))) in
     bindE (raise_if (loc_id_str = []) (validation ''Missing location_id in count request'')) (\<lambda>_.
     bindE (to_uuid loc_id_str) (\<lambda>loc_id.
     bindE (find_or_raise (NotFoundException (''Location '' @ show_uuid loc_id @ '' not found''))
              (\<lambda>l. pk l = loc_id) (locations d)) (\<lambda>_.
     bindE (raise_if (cq_count_results data = []) (validation ''No count results to process'')) (\<lambda>_.
     bindE (foldE (count_step env wh_id loc_id) (cq_count_results data) (d, False)) (\<lambda>(d1, bad).
     bindE (raise_if bad IntegrityError) (\<lambda>_.
     Inr (d1, ''Stock count processed: '' @ show_nat (length (cq_count_results data)) @ '' SKUs''))))))))"

section \<open>Movements\<close>

record movement_view =
  mw_row :: stock_movement
  mw_sku :: string
  mw_reference_no :: string

definition list_movements :: "string option \<Rightarrow> 'a wms_db_scheme \<Rightarrow> movement_view list result" where
  "list_movements wh_id d =
     bindE (uuid_if_truthy wh_id) (\<lambda>w.
     Inr (map (\<lambda>m. \<lparr>mw_row = m,
                    mw_sku = (case db_get (sm_sku_id m) (skus d) of None \<Rightarrow> [] | Some s \<Rightarrow> sku_code s),
                    mw_reference_no = upper (take 12 (uuid_hex (pk m)))\<rparr>)
            (order_by_desc created_at
               (select_where (\<lambda>m. case w of None \<Rightarrow> True | Some u \<Rightarrow> sm_source_warehouse_id m = Some u) (stock_movements d)))))"

section \<open>Batch selection\<close>

lemma mset_order_batches [simp]: "mset (order_batches s rows) = mset rows"
  by (simp add: order_batches_def)

lemma set_order_batches [simp]: "set (order_batches s rows) = set rows"
  by (metis mset_order_batches set_mset_mset)

text \<open>The sort key of the default strategy: expiring batches first, then by receipt.\<close>

definition fefo_key :: "inventory \<Rightarrow> (bool \<times> int) \<times> (bool \<times> int)" where
  "fefo_key i = (nulls_last (inv_expiry_date i), nulls_last (inv_received_at i))"

lemma order_batches_fefo: "sorted (map fefo_key (order_batches ''fefo'' rows))"
proof -
  have "fefo_key = (\<lambda>i. (nulls_last (inv_expiry_date i), nulls_last (inv_received_at i)))"
    by (simp add: fefo_key_def fun_eq_iff)
  then show ?thesis using sorted_order_by[of fefo_key rows] by (simp add: order_batches_def)
qed

lemma pick_batches_members:
  "(i, a) \<in> set (pick_batches w l s st d) \<longleftrightarrow> i \<in> set (inventory_rows d) \<and> inv_warehouse_id i = w \<and>
     inv_sku_id i = s \<and> 0 < inv_quantity i \<and> (\<forall>u. l = Some u \<longrightarrow> inv_location_id i = Some u) \<and>
     0 < available i \<and> a = available i"
  by (auto simp: pick_batches_def Let_def split: option.splits)

lemma pick_batches_sorted: "sorted (map (fefo_key \<circ> fst) (pick_batches w l s ''fefo'' d))"
proof -
  have "map (fefo_key \<circ> fst) (pick_batches w l s ''fefo'' d) =
      map fefo_key (filter (\<lambda>i. 0 < available i) (order_batches ''fefo''
        (select_where (\<lambda>i. inv_warehouse_id i = w \<and> inv_sku_id i = s \<and> 0 < inv_quantity i \<and>
                (case l of None \<Rightarrow> True | Some l \<Rightarrow> inv_location_id i = Some l)) (inventory_rows d))))"
    by (simp add: pick_batches_def Let_def)
  with sorted_filter[OF order_batches_fefo] show ?thesis by (simp only:)
qed

section \<open>Adjustment\<close>

definition total_stock :: "'a wms_db_scheme \<Rightarrow> decimal" where
  "total_stock d = sum_list (map inv_quantity (inventory_rows d))"

lemma sum_list_update_where:
  "sum_list (map q (update_where p f t)) = sum_list (map q t) + (sum_list (map (\<lambda>r. q (f r) - q r) (filter p t)) :: rat)"
  by (induction t) (auto simp: update_where_def)

text \<open>
  Writers that follow the protocol: a row that a concurrent transaction leaves at its version still has
  its quantity.
\<close>

definition respects_versions :: "'a wms_db_scheme \<Rightarrow> 'a wms_db_scheme \<Rightarrow> bool" where
  "respects_versions d d' \<longleftrightarrow> (\<forall>i\<in>set (inventory_rows d). \<forall>j\<in>set (inventory_rows d').
     pk j = pk i \<and> inv_version j = inv_version i \<longrightarrow> inv_quantity j = inv_quantity i)"

lemma versioned_update_total:
  assumes "versioned_update ir f d = (d', n)" "n \<noteq> 0" "distinct (map pk (inventory_rows d))"
    "\<And>j. j \<in> set (inventory_rows d) \<Longrightarrow> pk j = pk ir \<Longrightarrow> inv_version j = inv_version ir \<Longrightarrow> inv_quantity j = inv_quantity ir"
    "\<And>i. inv_quantity (f i) = inv_quantity ir + q"
  shows "total_stock d' = total_stock d + q"
proof -
  let ?p = "\<lambda>i. pk i = pk ir \<and> inv_version i = inv_version ir"
  from assms(1,2) have d': "d' = d\<lparr>inventory_rows := update_where ?p f (inventory_rows d)\<rparr>"
    and n: "filter ?p (inventory_rows d) \<noteq> []"
    by (auto simp: versioned_update_def Let_def row_count_def)
  then obtain j where j: "j \<in> set (inventory_rows d)" "?p j" by (metis (mono_tags, lifting) filter_False)
  have "filter ?p (inventory_rows d) = filter ?p (filter (\<lambda>x. pk x = pk j) (inventory_rows d))"
    using j(2) by (auto intro!: filter_cong)
  also have "\<dots> = [j]" using filter_unique_key[OF assms(3) j(1)] j(2) by simp
  finally have "filter ?p (inventory_rows d) = [j]" .
  then show ?thesis using assms(4)[of j] assms(5) j by (simp add: total_stock_def d' sum_list_update_where)
qed

lemma add_adjust_movement_simps [simp]:
  "inventory_rows (add_adjust_movement e w l s q d) = inventory_rows d"
  "total_stock (add_adjust_movement e w l s q d) = total_stock d"
  by (simp_all add: add_adjust_movement_def tick_def total_stock_def)

text \<open>
  A written attempt changes the stock by exactly the requested quantity, on top of whatever was
  committed in between: no concurrent change is lost.
\<close>

lemma adjust_attempt_written:
  assumes "adjust_attempt env other data w l s d = Inr (Written d' ir)"
    "respects_versions d (other d)" "distinct (map pk (inventory_rows (other d)))"
  shows "total_stock d' = total_stock (other d) + aj_quantity data"
proof (cases "0 < aj_quantity data")
  case True
  let ?q = "aj_quantity data" and ?b = "get_default ''DEFAULT'' (aj_batch_no data)"
  let ?find = "find_one (\<lambda>i. inv_warehouse_id i = Some w \<and> inv_location_id i = Some l \<and>
                               inv_sku_id i = s \<and> inv_batch_no i = ?b) (inventory_rows d)"
  obtain found where f: "?find = Inr found" using assms(1) True by (auto simp: adjust_attempt_def Let_def)
  show ?thesis
  proof (cases found)
    case None
    with assms(1) True f show ?thesis
      by (auto simp: adjust_attempt_def Let_def total_stock_def insert_row_def tick_def)
  next
    case (Some i0)
    note mem = find_one_SomeD(1)[OF f[unfolded Some]]
    from assms(1) True f Some obtain g d1 n where u: "versioned_update i0 g (other d) = (d1, n)" "n \<noteq> 0"
      and g: "\<And>i. inv_quantity (g i) = inv_quantity i0 + ?q"
      and d': "d' = add_adjust_movement env w l s ?q d1"
      by (auto simp: adjust_attempt_def Let_def split: prod.splits if_splits)
    show ?thesis using versioned_update_total[OF u assms(3) _ g] assms(2) mem
      by (auto simp: d' respects_versions_def)
  qed
next
  case False
  let ?q = "aj_quantity data" and ?bs = "pick_batches (Some w) (Some l) s (get_default ''fefo'' (aj_picking_strategy data)) d"
  have ne: "?bs \<noteq> []" using assms(1) False by (auto simp: adjust_attempt_def Let_def)
  define i0 where "i0 = fst (hd ?bs)"
  have mem: "i0 \<in> set (inventory_rows d)"
  proof -
    have "(i0, snd (hd ?bs)) \<in> set ?bs" using hd_in_set[OF ne] by (simp add: i0_def)
    then show ?thesis by (simp only: pick_batches_members)
  qed
  from assms(1) False obtain g d1 n where u: "versioned_update i0 g (other d) = (d1, n)" "n \<noteq> 0"
    and g: "\<And>i. inv_quantity (g i) = inv_quantity i0 + ?q"
    and d': "d' = add_adjust_movement env w l s ?q d1"
    by (auto simp: adjust_attempt_def Let_def i0_def split: prod.splits if_splits)
  show ?thesis using versioned_update_total[OF u assms(3) _ g] assms(2) mem
    by (auto simp: d' respects_versions_def)
qed

text \<open>The database after the first \<open>k\<close> interferences.\<close>

fun after_others :: "(nat \<Rightarrow> 'd \<Rightarrow> 'd) \<Rightarrow> nat \<Rightarrow> nat \<Rightarrow> 'd \<Rightarrow> 'd" where
  "after_others others k 0 d = d"
| "after_others others k (Suc n) d = after_others others (Suc k) n (others k d)"

lemma adjust_loop_result:
  assumes "adjust_loop env others committing reload data w l s k n d d = Inr (d', ir)"
    "\<And>j x. distinct (map pk (inventory_rows x)) \<Longrightarrow> respects_versions x (others j x)"
    "\<And>j x. distinct (map pk (inventory_rows x)) \<Longrightarrow> distinct (map pk (inventory_rows (others j x)))"
    "distinct (map pk (inventory_rows d))"
  shows "(\<exists>m. 0 < m \<and> m \<le> n \<and> total_stock d' = total_stock (after_others others k m d) + aj_quantity data) \<or>
    d' = after_others others k n d"
  using assms(1,4)
proof (induction n arbitrary: k d)
  case (Suc n)
  from Suc.prems(1) obtain out where o': "adjust_attempt env (others k) data w l s d = Inr out" by auto
  let ?retry = "\<lambda>ir'. if n = 0 then Inr (others k d, ir') else case reload of
      Some e \<Rightarrow> Inl e | None \<Rightarrow> adjust_loop env others committing reload data w l s (Suc k) n (others k d) (others k d)"
  have retry: ?case if r: "?retry ir' = Inr (d', ir)" for ir'
  proof (cases "n = 0")
    case True
    with r show ?thesis by auto
  next
    case False
    with r have "adjust_loop env others committing reload data w l s (Suc k) n (others k d) (others k d) = Inr (d', ir)"
      by (auto split: option.splits)
    from Suc.IH[OF this assms(3)[OF Suc.prems(2)]] show ?thesis
    proof
      assume "\<exists>m>0. m \<le> n \<and> total_stock d' = total_stock (after_others others (Suc k) m (others k d)) + aj_quantity data"
      then obtain m where "m > 0" "m \<le> n" "total_stock d' = total_stock (after_others others (Suc k) m (others k d)) + aj_quantity data" by blast
      then show ?thesis by (intro disjI1 exI [of _ "Suc m"]) simp
    qed simp
  qed
  show ?case
  proof (cases out)
    case (Conflict i)
    with Suc.prems(1) o' retry show ?thesis by (auto simp: Let_def)
  next
    case (Written d1 i)
    show ?thesis
    proof (cases "committing k")
      case None
      with Written Suc.prems(1) o' have "d' = d1" by (simp add: Let_def)
      with adjust_attempt_written[OF o'[unfolded Written] assms(2)[OF Suc.prems(2)] assms(3)[OF Suc.prems(2)]]
      show ?thesis by (intro disjI1 exI [of _ "1"]) simp
    next
      case (Some e)
      with Written Suc.prems(1) o' have "?retry i = Inr (d', ir)" by (simp add: Let_def split: if_splits)
      then show ?thesis by (rule retry)
    qed
  qed
qed simp

lemma adjust_inventory_total:
  assumes "adjust_inventory env others committing reload data d = Inr (d', v)"
    "\<And>j x. distinct (map pk (inventory_rows x)) \<Longrightarrow> respects_versions x (others j x)"
    "\<And>j x. distinct (map pk (inventory_rows x)) \<Longrightarrow> distinct (map pk (inventory_rows (others j x)))"
    "distinct (map pk (inventory_rows d))" "aj_sku data \<in> sku_code ` set (skus d)"
  shows "(\<exists>m. 0 < m \<and> m \<le> 3 \<and> total_stock d' = total_stock (after_others others 0 m d) + aj_quantity data) \<or>
    d' = after_others others 0 3 d"
proof -
  from assms(1) obtain wi li d0 so ir re where g: "get_or_create_sku env (aj_sku data) d = Inr (d0, so)"
    and loop: "adjust_loop env others committing re data wi li (pk so) 0 3 d d0 = Inr (d', ir)"
    by (auto simp: adjust_inventory_def simp del: adjust_loop.simps split: option.splits)
  from assms(5) obtain r where "r \<in> set (skus d)" "sku_code r = aj_sku data" by auto
  then have "find_one (\<lambda>r. sku_code r = aj_sku data) (skus d) \<noteq> Inr None" by (auto simp: find_one_None)
  with g have "d0 = d" by (auto simp: get_or_create_sku_def split: option.splits)
  with loop show ?thesis by (intro adjust_loop_result[OF _ assms(2-4)]) auto
qed

text \<open>
  When the first batch is too small for the whole quantity the loop only repeats itself: with
  reloading rows it reports success and has written nothing.
\<close>

lemma adjust_first_batch_short:
  assumes "aj_quantity data < 0"
    "pick_batches (Some w) (Some l) s (get_default ''fefo'' (aj_picking_strategy data)) d = (ir, a) # rest"
    "- aj_quantity data \<le> a + sum_list (map snd rest)" "inv_quantity ir < - aj_quantity data"
  shows "adjust_loop env (\<lambda>_ x. x) committing None data w l s 0 3 d d = Inr (d, ir)"
    "adjust_loop env (\<lambda>_ x. x) committing (Some e) data w l s 0 3 d d = Inl e"
proof -
  have a: "adjust_attempt env (\<lambda>x. x) data w l s d = Inr (Conflict ir)"
    using assms by (simp add: adjust_attempt_def Let_def)
  then show "adjust_loop env (\<lambda>_ x. x) committing None data w l s 0 3 d d = Inr (d, ir)"
    "adjust_loop env (\<lambda>_ x. x) committing (Some e) data w l s 0 3 d d = Inl e"
    by (simp_all add: eval_nat_numeral Let_def)
qed

section \<open>Stock counts\<close>

definition at_place :: "uuid option \<Rightarrow> uuid \<Rightarrow> sku \<Rightarrow> inventory \<Rightarrow> bool" where
  "at_place w l so i \<longleftrightarrow> inv_warehouse_id i = w \<and> inv_location_id i = Some l \<and> inv_sku_id i = pk so"

text \<open>The stored quantity of a product at a place, zero without a row.\<close>

definition stored_qty :: "uuid option \<Rightarrow> uuid \<Rightarrow> sku \<Rightarrow> 'a wms_db_scheme \<Rightarrow> decimal result" where
  "stored_qty w l so d =
     bindE (find_one (at_place w l so) (inventory_rows d)) (\<lambda>r.
     Inr (case r of None \<Rightarrow> 0 | Some i \<Rightarrow> inv_quantity i))"

definition counted :: "uuid option \<Rightarrow> uuid \<Rightarrow> count_item \<Rightarrow> 'a wms_db_scheme \<Rightarrow> bool" where
  "counted w l item d \<longleftrightarrow> (\<exists>so\<in>set (skus d). sku_code so = ci_sku item \<and>
     (\<exists>q s. actual_qty_raw item = Some q \<and> stored_qty w l so d = Inr s \<and> \<bar>q - s\<bar> < 1/1000))"

definition count_inv :: "env \<Rightarrow> nat \<Rightarrow> 'a wms_db_scheme \<Rightarrow> bool" where
  "count_inv env cap d \<longleftrightarrow> skus_ok env cap d \<and> distinct (map pk (inventory_rows d)) \<and>
     fresh_ids env cap (drawn d) (pk ` set (inventory_rows d))"

text \<open>The cases of one counted item.\<close>

lemma count_stepE:
  assumes "count_step env w l item (d, bad) = Inr (d', bad')"
  obtains q d1 so found d2 where "actual_qty_raw item = Some q" "\<not> bad"
    "get_or_create_sku env (ci_sku item) d = Inr (d1, so)"
    "find_one (at_place w l so) (inventory_rows d1) = Inr found"
    "(case found of None \<Rightarrow> \<bar>q\<bar> < 1/1000 | Some i \<Rightarrow> \<bar>q - inv_quantity i\<bar> < 1/1000) \<and> d' = d1 \<or>
     (\<exists>r. found = None \<and> pk r = uuid4 env (drawn d1) \<and> at_place w l so r \<and> inv_quantity r = q \<and>
        d2 = (tick d1)\<lparr>inventory_rows := inventory_rows d1 @ [r]\<rparr>) \<and> inventory_rows d' = inventory_rows d2 \<and>
        skus d' = skus d2 \<and> drawn d2 \<le> drawn d' \<or>
     (\<exists>i. found = Some i \<and> d2 = d1\<lparr>inventory_rows := update_where (\<lambda>x. pk x = pk i)
        (\<lambda>x. x\<lparr>inv_quantity := q, updated_at := now env\<rparr>) (inventory_rows d1)\<rparr>) \<and>
        inventory_rows d' = inventory_rows d2 \<and> skus d' = skus d2 \<and> drawn d2 \<le> drawn d'"
proof -
  have ap: "(\<lambda>i. inv_warehouse_id i = w \<and> inv_location_id i = Some l \<and> inv_sku_id i = pk so) = at_place w l so" for so
    by (simp add: at_place_def fun_eq_iff)
  from assms obtain q d1 so found where b: "actual_qty_raw item = Some q" "\<not> bad"
    "get_or_create_sku env (ci_sku item) d = Inr (d1, so)"
    "find_one (at_place w l so) (inventory_rows d1) = Inr found"
    by (auto simp: count_step_def ap)
  let ?diff = "q - (case found of None \<Rightarrow> 0 | Some i \<Rightarrow> inv_quantity i)"
  show thesis
  proof (cases "\<bar>?diff\<bar> < 1/1000")
    case True
    with assms b have "d' = d1" by (simp add: count_step_def ap)
    with True that[OF b] show thesis by (cases found) auto
  next
    case False
    show thesis
    proof (cases found)
      case None
      define r where "r = \<lparr>pk = new_uuid env d1, created_at = now env, updated_at = now env, is_deleted = False,
                      deleted_at = None, inv_warehouse_id = w, inv_location_id = Some l,
                      inv_sku_id = pk so, inv_gtin = [], inv_batch_no = ''COUNT'', inv_quantity = q,
                      inv_locked_qty = 0, inv_min_qty = 0, inv_max_qty = 0, inv_version = 0,
                      inv_expiry_date = None, inv_manufacturing_date = None, inv_received_at = Some (now env)\<rparr>"
      let ?d2 = "(tick d1)\<lparr>inventory_rows := inventory_rows d1 @ [r]\<rparr>"
      have "inventory_rows d' = inventory_rows ?d2 \<and> skus d' = skus ?d2 \<and> drawn ?d2 \<le> drawn d'"
        using assms b False None
        by (auto simp: count_step_def ap insert_row_def tick_def r_def Let_def split: option.splits)
      moreover have "pk r = uuid4 env (drawn d1) \<and> at_place w l so r \<and> inv_quantity r = q"
        by (simp add: r_def new_uuid_def at_place_def)
      ultimately show thesis using None by (intro that[OF b, of ?d2]) blast
    next
      case (Some i)
      let ?d2 = "d1\<lparr>inventory_rows := update_where (\<lambda>x. pk x = pk i)
        (\<lambda>x. x\<lparr>inv_quantity := q, updated_at := now env\<rparr>) (inventory_rows d1)\<rparr>"
      have "inventory_rows d' = inventory_rows ?d2 \<and> skus d' = skus ?d2 \<and> drawn ?d2 \<le> drawn d'"
        using assms b False Some
        by (auto simp: count_step_def ap tick_def Let_def split: option.splits if_splits)
      then show thesis using Some by (intro that[OF b, of ?d2]) blast
    qed
  qed
qed

lemma inv_rows_goc:
  assumes "get_or_create_sku env s (d :: 'a wms_db_scheme) = Inr (d1, so)"
  shows "inventory_rows d1 = inventory_rows d"
  using get_or_create_sku_frame[OF assms] by auto

lemma count_step_drawn:
  assumes "count_step env w l item (d, bad) = Inr (d', bad')"
  shows "drawn d \<le> drawn d'"
  using assms
proof (rule count_stepE)
  fix q d1 so found d2
  assume g: "get_or_create_sku env (ci_sku item) d = Inr (d1, so)"
  note m = get_or_create_sku_drawn[OF g]
  assume "(case found of None \<Rightarrow> \<bar>q\<bar> < 1/1000 | Some i \<Rightarrow> \<bar>q - inv_quantity i\<bar> < 1/1000) \<and> d' = d1 \<or>
     (\<exists>r. found = None \<and> pk r = uuid4 env (drawn d1) \<and> at_place w l so r \<and> inv_quantity r = q \<and>
        d2 = (tick d1)\<lparr>inventory_rows := inventory_rows d1 @ [r]\<rparr>) \<and> inventory_rows d' = inventory_rows d2 \<and>
        skus d' = skus d2 \<and> drawn d2 \<le> drawn d' \<or>
     (\<exists>i. found = Some i \<and> d2 = d1\<lparr>inventory_rows := update_where (\<lambda>x. pk x = pk i)
        (\<lambda>x. x\<lparr>inv_quantity := q, updated_at := now env\<rparr>) (inventory_rows d1)\<rparr>) \<and>
        inventory_rows d' = inventory_rows d2 \<and> skus d' = skus d2 \<and> drawn d2 \<le> drawn d'"
  then have "drawn d1 \<le> drawn d'" by (auto simp: tick_def)
  with m show ?thesis by simp
qed

text \<open>Rows of the same primary key stay together and rows of other products are untouched.\<close>

lemma filter_place_update:
  assumes "distinct (map pk t)" "x \<in> set t" "\<not> at_place w l so x" "\<And>y. at_place w l so (f y) = at_place w l so y"
  shows "filter (at_place w l so) (update_where (\<lambda>y. pk y = pk x) f t) = filter (at_place w l so) t"
proof -
  have "y = x" if "y \<in> set t" "pk y = pk x" for y using that assms(1,2) by (auto simp: distinct_map inj_on_def)
  then have "\<forall>y\<in>set t. pk y = pk x \<longrightarrow> \<not> at_place w l so y" using assms(3) by blast
  then show ?thesis using assms(4) by (induction t) (auto simp: update_where_def)
qed

lemma count_step_post:
  assumes "count_step env w l item (d, bad) = Inr (d', bad')" "count_inv env cap d" "drawn d' \<le> cap"
  shows "count_inv env cap d'" "counted w l item d'"
    "\<And>it. counted w l it d \<Longrightarrow> ci_sku it \<noteq> ci_sku item \<Longrightarrow> counted w l it d'"
proof -
  from assms(1) obtain q d1 so found d2 where q: "actual_qty_raw item = Some q"
    and g: "get_or_create_sku env (ci_sku item) d = Inr (d1, so)"
    and f: "find_one (at_place w l so) (inventory_rows d1) = Inr found"
    and c: "(case found of None \<Rightarrow> \<bar>q\<bar> < 1/1000 | Some i \<Rightarrow> \<bar>q - inv_quantity i\<bar> < 1/1000) \<and> d' = d1 \<or>
     (\<exists>r. found = None \<and> pk r = uuid4 env (drawn d1) \<and> at_place w l so r \<and> inv_quantity r = q \<and>
        d2 = (tick d1)\<lparr>inventory_rows := inventory_rows d1 @ [r]\<rparr>) \<and> inventory_rows d' = inventory_rows d2 \<and>
        skus d' = skus d2 \<and> drawn d2 \<le> drawn d' \<or>
     (\<exists>i. found = Some i \<and> d2 = d1\<lparr>inventory_rows := update_where (\<lambda>x. pk x = pk i)
        (\<lambda>x. x\<lparr>inv_quantity := q, updated_at := now env\<rparr>) (inventory_rows d1)\<rparr>) \<and>
        inventory_rows d' = inventory_rows d2 \<and> skus d' = skus d2 \<and> drawn d2 \<le> drawn d'"
    by (rule count_stepE) blast
  have le1: "drawn d1 \<le> drawn d'" using c by (auto simp: tick_def)
  have ok: "skus_ok env cap d" using assms(2) by (simp add: count_inv_def)
  have le1c: "drawn d1 \<le> cap" using le1 assms(3) by simp
  note s1 = get_or_create_sku_ok[OF g ok le1c]
  have code: "sku_code so = ci_sku item" using sku_goc.goc_name[OF g] .
  have rows1: "inventory_rows d1 = inventory_rows d" by (rule inv_rows_goc[OF g])
  have sk: "skus d' = skus d1" using c by (auto simp: tick_def)
  have pks: "distinct (map pk (inventory_rows d1))" using assms(2) rows1 by (simp add: count_inv_def)
  have fr1: "fresh_ids env cap (drawn d1) (pk ` set (inventory_rows d1))"
    using assms(2) get_or_create_sku_drawn[OF g] rows1 by (auto simp: count_inv_def intro: fresh_ids_mono)
  have sok: "skus_ok env cap d'" using s1(1) le1 sk by (auto simp: skus_ok_def intro: fresh_ids_mono)
  have tab: "distinct (map pk (inventory_rows d')) \<and> fresh_ids env cap (drawn d') (pk ` set (inventory_rows d')) \<and>
      (\<exists>s. stored_qty w l so d' = Inr s \<and> \<bar>q - s\<bar> < 1/1000) \<and>
      (\<forall>so'. pk so' \<noteq> pk so \<longrightarrow> filter (at_place w l so') (inventory_rows d') = filter (at_place w l so') (inventory_rows d1))"
    using c
  proof (elim disjE conjE exE)
    assume "case found of None \<Rightarrow> \<bar>q\<bar> < 1/1000 | Some i \<Rightarrow> \<bar>q - inv_quantity i\<bar> < 1/1000" "d' = d1"
    then show ?thesis using f pks fr1 by (auto simp: stored_qty_def split: option.splits)
  next
    fix r
    assume a: "found = None" "pk r = uuid4 env (drawn d1)" "at_place w l so r" "inv_quantity r = q"
      "d2 = (tick d1)\<lparr>inventory_rows := inventory_rows d1 @ [r]\<rparr>" "inventory_rows d' = inventory_rows d2"
      "drawn d2 \<le> drawn d'"
    have rows: "inventory_rows d' = inventory_rows d1 @ [r]" and dr: "drawn d1 < drawn d'"
      using a by (simp_all add: tick_def)
    have "drawn d1 < cap" using dr assms(3) by simp
    then have "pk r \<notin> pk ` set (inventory_rows d1)" using fresh_ids_notin[OF fr1, of "drawn d1"] a(2) by simp
    moreover have "filter (at_place w l so) (inventory_rows d1) = []"
      using f a(1) by (simp add: find_one_None filter_empty_conv)
    then have "stored_qty w l so d' = Inr q" using a(3,4) rows by (simp add: stored_qty_def find_one_Some_iff[THEN iffD2])
    moreover have "\<not> at_place w l so' r" if "pk so' \<noteq> pk so" for so' using that a(3) by (auto simp: at_place_def)
    ultimately show ?thesis using pks fresh_ids_draw[OF fr1 _ dr] \<open>drawn d1 < cap\<close> a(2) by (simp add: rows)
  next
    fix i
    assume a: "found = Some i" "d2 = d1\<lparr>inventory_rows := update_where (\<lambda>x. pk x = pk i)
        (\<lambda>x. x\<lparr>inv_quantity := q, updated_at := now env\<rparr>) (inventory_rows d1)\<rparr>"
        "inventory_rows d' = inventory_rows d2" "drawn d2 \<le> drawn d'"
    let ?f = "\<lambda>x. x\<lparr>inv_quantity := q, updated_at := now env\<rparr> :: inventory"
    have rows: "inventory_rows d' = update_where (\<lambda>x. pk x = pk i) ?f (inventory_rows d1)" using a by simp
    note fi = find_one_SomeD[OF f[unfolded a(1)]]
    have pkeq: "map pk (inventory_rows d') = map pk (inventory_rows d1)" by (simp add: rows)
    then have pkset: "pk ` set (inventory_rows d') = pk ` set (inventory_rows d1)" by (metis list.set_map)
    have "filter (at_place w l so) (inventory_rows d1) = [i]" using f a(1) by (simp add: find_one_Some_iff)
    then have "filter (at_place w l so) (inventory_rows d') = [?f i]"
    proof -
      have "filter (at_place w l so) (update_where (\<lambda>x. pk x = pk i) ?f t) =
          map (\<lambda>x. if pk x = pk i then ?f x else x) (filter (at_place w l so) t)" for t
        by (induction t) (auto simp: update_where_def at_place_def)
      then show ?thesis using \<open>filter _ _ = [i]\<close> by (simp add: rows)
    qed
    then have "stored_qty w l so d' = Inr q" by (simp add: stored_qty_def find_one_Some_iff[THEN iffD2])
    moreover have "filter (at_place w l so') (inventory_rows d') = filter (at_place w l so') (inventory_rows d1)"
      if "pk so' \<noteq> pk so" for so'
      unfolding rows
    proof (rule filter_place_update[OF pks fi(1)])
      show "\<not> at_place w l so' i" using that fi(2) by (auto simp: at_place_def)
      show "at_place w l so' (?f y) = at_place w l so' y" for y by (simp add: at_place_def)
    qed
    moreover have "drawn d1 \<le> drawn d'" using a by simp
    then have "fresh_ids env cap (drawn d') (pk ` set (inventory_rows d'))"
      using fr1 unfolding pkset by (auto intro: fresh_ids_mono)
    ultimately show ?thesis using pks pkeq by simp
  qed
  then show "count_inv env cap d'" using sok by (simp add: count_inv_def)
  show "counted w l item d'" using tab q s1(2) code sk by (auto simp: counted_def)
  fix it assume ct: "counted w l it d" and ne: "ci_sku it \<noteq> ci_sku item"
  from ct obtain so' q' s where so': "so' \<in> set (skus d)" "sku_code so' = ci_sku it"
    "actual_qty_raw it = Some q'" "stored_qty w l so' d = Inr s" "\<bar>q' - s\<bar> < 1/1000" by (auto simp: counted_def)
  from sku_goc.goc_extends[OF g] so'(1) have in1: "so' \<in> set (skus d1)" by auto
  have "pk so' \<noteq> pk so"
    using in1 s1 so'(2) code ne by (auto simp: skus_ok_def distinct_map inj_on_def)
  then have "find_one (at_place w l so') (inventory_rows d') = find_one (at_place w l so') (inventory_rows d)"
    using tab rows1 by (simp add: find_one_def select_where_def)
  then have "stored_qty w l so' d' = Inr s" using so'(4) by (simp add: stored_qty_def)
  then show "counted w l it d'" using so' in1 sk by (auto simp: counted_def)
qed

lemma count_loop_post:
  assumes "foldE (count_step env w l) items (d, bad) = Inr (d', bad')" "count_inv env cap d" "drawn d' \<le> cap"
    "distinct (map ci_sku items)"
  shows "count_inv env cap d' \<and> (\<forall>it\<in>set items. counted w l it d') \<and>
    (\<forall>it. counted w l it d \<longrightarrow> ci_sku it \<notin> ci_sku ` set items \<longrightarrow> counted w l it d') \<and> drawn d \<le> drawn d'"
  using assms
proof (induction items arbitrary: d bad)
  case (Cons it items)
  then obtain d1 b1 where s: "count_step env w l it (d, bad) = Inr (d1, b1)"
    and r: "foldE (count_step env w l) items (d1, b1) = Inr (d', bad')" by auto
  have "drawn d1 \<le> drawn d'"
  proof -
    have "case x of (x1, x2) \<Rightarrow> drawn d1 \<le> drawn x1" if "foldE (count_step env w l) items (d1, b1) = Inr x" for x
      using that
    proof (rule foldE_invariant)
      show "case (d1, b1) of (x1, x2) \<Rightarrow> drawn d1 \<le> drawn x1" by simp
      fix y u v assume "case u of (x1, x2) \<Rightarrow> drawn d1 \<le> drawn x1" "count_step env w l y u = Inr v"
      then show "case v of (x1, x2) \<Rightarrow> drawn d1 \<le> drawn x1"
        using count_step_drawn by (cases u; cases v) fastforce
    qed
    from this[OF r] show ?thesis by simp
  qed
  then have le: "drawn d1 \<le> cap" using Cons.prems(3) by simp
  note st = count_step_post[OF s Cons.prems(2) le]
  from Cons.IH[OF r st(1) Cons.prems(3)] Cons.prems(4)
  have ih: "count_inv env cap d'" "\<forall>it\<in>set items. counted w l it d'"
    "\<forall>it. counted w l it d1 \<longrightarrow> ci_sku it \<notin> ci_sku ` set items \<longrightarrow> counted w l it d'" "drawn d1 \<le> drawn d'" by auto
  have "counted w l it d'" using ih(3) st(2) Cons.prems(4) by auto
  moreover have "counted w l x d'" if "counted w l x d" "ci_sku x \<notin> ci_sku ` set (it # items)" for x
    using that st(3) ih(3) by auto
  ultimately show ?case using ih count_step_drawn[OF s] by auto
qed simp

lemma adjust_stock_count_post:
  assumes "adjust_stock_count env data d = Inr (d', m)" "count_inv env cap d" "drawn d' \<le> cap"
    "distinct (map ci_sku (cq_count_results data))" "resolve_count_warehouse data d = Inr w"
  shows "\<exists>l. to_uuid (get_default [] (or_str (cq_location_id data) (Some (get_default [] (cq_target_location_id data))))) = Inr l \<and>
    (\<forall>it\<in>set (cq_count_results data). counted w l it d')"
proof -
  from assms(1,5) obtain l bad where
    l: "to_uuid (get_default [] (or_str (cq_location_id data) (Some (get_default [] (cq_target_location_id data))))) = Inr l"
    and f: "foldE (count_step env w l) (cq_count_results data) (d, False) = Inr (d', bad)"
    by (auto simp: adjust_stock_count_def Let_def)
  from count_loop_post[OF f assms(2-4)] l show ?thesis by blast
qed

section \<open>Other writers between the read and the write of an adjustment\<close>

text \<open>
  Another deduction, run to its end in between, respects the versions. It is one of the transactions
  an adjustment is safe from.
\<close>

definition rival :: "env \<Rightarrow> adjust_req \<Rightarrow> 'a wms_db_scheme \<Rightarrow> 'a wms_db_scheme" where
  "rival env data x =
     (case adjust_inventory env (\<lambda>_ x. x) (\<lambda>_. None) None data x of Inl e \<Rightarrow> x | Inr (x', v) \<Rightarrow> x')"

lemma respects_itself: "distinct (map pk (inventory_rows x)) \<Longrightarrow> respects_versions x x"
  unfolding respects_versions_def by (metis distinct_map inj_onD)

lemma respects_same:
  assumes "distinct (map pk (inventory_rows x))" "inventory_rows y = inventory_rows x"
  shows "respects_versions x y"
  using respects_itself[OF assms(1)] unfolding respects_versions_def assms(2) .

lemma versioned_update_respects:
  assumes "versioned_update ir f d = (d', n)" "distinct (map pk (inventory_rows d))"
    "\<And>i. pk (f i) = pk i" "\<And>i. inv_version (f i) \<noteq> inv_version ir"
  shows "respects_versions d d'" "map pk (inventory_rows d') = map pk (inventory_rows d)"
proof -
  let ?p = "\<lambda>i. pk i = pk ir \<and> inv_version i = inv_version ir"
  have d': "inventory_rows d' = update_where ?p f (inventory_rows d)"
    using assms(1) by (auto simp: versioned_update_def Let_def)
  show "map pk (inventory_rows d') = map pk (inventory_rows d)" by (simp add: d' assms(3))
  show "respects_versions d d'"
    unfolding respects_versions_def
  proof (intro ballI impI)
    fix i j assume i: "i \<in> set (inventory_rows d)" and j: "j \<in> set (inventory_rows d')"
      and same: "pk j = pk i \<and> inv_version j = inv_version i"
    from j obtain x where x: "x \<in> set (inventory_rows d)" "j = (if ?p x then f x else x)" by (auto simp: d' set_update_where)
    then have "pk x = pk i" using same assms(3) by (auto split: if_splits)
    with i x(1) assms(2) have "x = i" by (metis distinct_map inj_onD)
    with x(2) same assms(4) show "inv_quantity j = inv_quantity i" by (auto split: if_splits)
  qed
qed

lemma deduction_attempt_respects:
  assumes "adjust_attempt env (\<lambda>x. x) data w l s d = Inr (Written d' ir)" "aj_quantity data \<le> 0"
    "distinct (map pk (inventory_rows d))"
  shows "respects_versions d d' \<and> map pk (inventory_rows d') = map pk (inventory_rows d)"
proof -
  from assms(1,2) obtain i0 g d1 n where u: "versioned_update i0 g d = (d1, n)"
    and g: "g = (\<lambda>i. i\<lparr>inv_quantity := inv_quantity i0 + aj_quantity data, updated_at := now env, inv_version := inv_version i0 + 1\<rparr>)"
    and d': "d' = add_adjust_movement env w l s (aj_quantity data) d1"
    by (auto simp: adjust_attempt_def Let_def split: prod.splits if_splits)
  have "respects_versions d d1" "map pk (inventory_rows d1) = map pk (inventory_rows d)"
    using versioned_update_respects[OF u assms(3)] by (simp_all add: g)
  then show ?thesis by (simp add: d' respects_versions_def)
qed

lemma respects_rows: "inventory_rows a = inventory_rows b \<Longrightarrow> respects_versions a c = respects_versions b c"
  by (simp add: respects_versions_def)

lemma deduction_loop_respects:
  assumes "adjust_loop env (\<lambda>_ x. x) (\<lambda>_. None) reload data w l s k n b d = Inr (d', ir)" "aj_quantity data \<le> 0"
    "distinct (map pk (inventory_rows x))" "inventory_rows b = inventory_rows x" "inventory_rows d = inventory_rows x"
  shows "respects_versions x d' \<and> map pk (inventory_rows d') = map pk (inventory_rows x)"
  using assms(1,5)
proof (induction n arbitrary: k d)
  case (Suc n)
  have same: "respects_versions x b" by (rule respects_same[OF assms(3,4)])
  from Suc.prems obtain out where o': "adjust_attempt env (\<lambda>x. x) data w l s d = Inr out" by auto
  show ?case
  proof (cases out)
    case (Written d1 i1)
    with o' Suc.prems have "d' = d1" by simp
    with deduction_attempt_respects[OF o'[unfolded Written] assms(2)] Suc.prems(2) assms(3) respects_rows[OF Suc.prems(2)]
    show ?thesis by simp
  next
    case (Conflict i1)
    with o' Suc.prems(1) have "d' = b \<or> adjust_loop env (\<lambda>_ x. x) (\<lambda>_. None) reload data w l s (Suc k) n b b = Inr (d', ir)"
      by (auto split: if_splits option.splits)
    then show ?thesis using Suc.IH[of "Suc k" b] same assms(4) by auto
  qed
qed simp

lemma rival_respects:
  assumes "distinct (map pk (inventory_rows x))" "aj_quantity data \<le> 0"
  shows "respects_versions x (rival env data x)" "distinct (map pk (inventory_rows (rival env data x)))"
proof -
  have "respects_versions x (rival env data x) \<and> map pk (inventory_rows (rival env data x)) = map pk (inventory_rows x)"
  proof (cases "adjust_inventory env (\<lambda>_ x. x) (\<lambda>_. None) None data x")
    case (Inl e)
    then show ?thesis using respects_itself[OF assms(1)] by (simp add: rival_def)
  next
    case (Inr p)
    obtain x' v where p: "p = (x', v)" by force
    with Inr obtain w l d0 so ir where g: "get_or_create_sku env (aj_sku data) x = Inr (d0, so)"
      and loop: "adjust_loop env (\<lambda>_ x. x) (\<lambda>_. None) None data w l (pk so) 0 3 x d0 = Inr (x', ir)"
      by (auto simp: adjust_inventory_def simp del: adjust_loop.simps split: option.splits)
    from deduction_loop_respects[OF loop assms(2,1) refl inv_rows_goc[OF g]] Inr p show ?thesis by (simp add: rival_def)
  qed
  then show "respects_versions x (rival env data x)" "distinct (map pk (inventory_rows (rival env data x)))"
    using assms(1) by simp_all
qed

lemma after_nobody_from: "(\<And>j x. k \<le> j \<Longrightarrow> others j x = x) \<Longrightarrow> after_others others k n d = d"
  by (induction n arbitrary: k d) simp_all

text \<open>
  A stock count is no such transaction: it sets quantities and leaves the versions. An adjustment that
  has read before the count and writes after it therefore meets the version it expects.
\<close>

definition keeps_versions :: "'a wms_db_scheme \<Rightarrow> 'a wms_db_scheme \<Rightarrow> bool" where
  "keeps_versions d d' \<longleftrightarrow>
     (\<forall>k i. db_get k (inventory_rows d) = Some i \<longrightarrow>
        (\<exists>j. db_get k (inventory_rows d') = Some j \<and> inv_version j = inv_version i))"

lemma keeps_versions_trans: "keeps_versions a b \<Longrightarrow> keeps_versions b c \<Longrightarrow> keeps_versions a c"
  unfolding keeps_versions_def by metis

lemma keeps_versions_rows: "inventory_rows d' = inventory_rows d \<Longrightarrow> keeps_versions d d'"
  by (simp add: keeps_versions_def)

lemma db_get_update_where:
  assumes "\<And>x. pk (f x) = pk x"
  shows "db_get k (update_where p f t) = map_option (\<lambda>x. if p x then f x else x) (db_get k t)"
  using assms by (induction t) (auto simp: db_get_def update_where_def)

lemma count_step_keeps_versions:
  assumes "count_step env w l item (d, bad) = Inr (d', bad')"
  shows "keeps_versions d d'"
  using assms
proof (rule count_stepE)
  fix q d1 so found d2
  assume g: "get_or_create_sku env (ci_sku item) d = Inr (d1, so)"
  have rows: "inventory_rows d1 = inventory_rows d" by (rule inv_rows_goc[OF g])
  assume "(case found of None \<Rightarrow> \<bar>q\<bar> < 1/1000 | Some i \<Rightarrow> \<bar>q - inv_quantity i\<bar> < 1/1000) \<and> d' = d1 \<or>
     (\<exists>r. found = None \<and> pk r = uuid4 env (drawn d1) \<and> at_place w l so r \<and> inv_quantity r = q \<and>
        d2 = (tick d1)\<lparr>inventory_rows := inventory_rows d1 @ [r]\<rparr>) \<and> inventory_rows d' = inventory_rows d2 \<and>
        skus d' = skus d2 \<and> drawn d2 \<le> drawn d' \<or>
     (\<exists>i. found = Some i \<and> d2 = d1\<lparr>inventory_rows := update_where (\<lambda>x. pk x = pk i)
        (\<lambda>x. x\<lparr>inv_quantity := q, updated_at := now env\<rparr>) (inventory_rows d1)\<rparr>) \<and>
        inventory_rows d' = inventory_rows d2 \<and> skus d' = skus d2 \<and> drawn d2 \<le> drawn d'"
  then show ?thesis
  proof (elim disjE)
    assume "(case found of None \<Rightarrow> \<bar>q\<bar> < 1/1000 | Some i \<Rightarrow> \<bar>q - inv_quantity i\<bar> < 1/1000) \<and> d' = d1"
    then show ?thesis using rows by (intro keeps_versions_rows) simp
  next
    assume "(\<exists>r. found = None \<and> pk r = uuid4 env (drawn d1) \<and> at_place w l so r \<and> inv_quantity r = q \<and>
        d2 = (tick d1)\<lparr>inventory_rows := inventory_rows d1 @ [r]\<rparr>) \<and> inventory_rows d' = inventory_rows d2 \<and>
        skus d' = skus d2 \<and> drawn d2 \<le> drawn d'"
    then obtain r where "inventory_rows d' = inventory_rows d @ [r]" using rows by auto
    then show ?thesis by (simp add: keeps_versions_def db_get_append)
  next
    assume "(\<exists>i. found = Some i \<and> d2 = d1\<lparr>inventory_rows := update_where (\<lambda>x. pk x = pk i)
        (\<lambda>x. x\<lparr>inv_quantity := q, updated_at := now env\<rparr>) (inventory_rows d1)\<rparr>) \<and>
        inventory_rows d' = inventory_rows d2 \<and> skus d' = skus d2 \<and> drawn d2 \<le> drawn d'"
    then obtain i where "found = Some i" "d2 = d1\<lparr>inventory_rows := update_where (\<lambda>x. pk x = pk i)
        (\<lambda>x. x\<lparr>inv_quantity := q, updated_at := now env\<rparr>) (inventory_rows d1)\<rparr>" "inventory_rows d' = inventory_rows d2" by blast
    then have i: "inventory_rows d' = update_where (\<lambda>x. pk x = pk i)
        (\<lambda>x. x\<lparr>inv_quantity := q, updated_at := now env\<rparr>) (inventory_rows d)" using rows by simp
    show ?thesis unfolding keeps_versions_def i by (auto simp: db_get_update_where)
  qed
qed

lemma count_loop_keeps_versions:
  "foldE (count_step env w l) items (d, bad) = Inr (d', bad') \<Longrightarrow> keeps_versions d d'"
proof (induction items arbitrary: d bad)
  case Nil
  then show ?case by (simp add: keeps_versions_rows)
next
  case (Cons item items)
  then obtain d1 bad1 where s: "count_step env w l item (d, bad) = Inr (d1, bad1)"
    and r: "foldE (count_step env w l) items (d1, bad1) = Inr (d', bad')" by auto
  show ?case by (rule keeps_versions_trans[OF count_step_keeps_versions[OF s] Cons.IH[OF r]])
qed

lemma stock_count_keeps_versions:
  assumes "adjust_stock_count env data d = Inr (d', m)"
  shows "keeps_versions d d'"
proof -
  from assms obtain w l bad where "foldE (count_step env w l) (cq_count_results data) (d, False) = Inr (d', bad)"
    by (auto simp: adjust_stock_count_def Let_def)
  then show ?thesis by (rule count_loop_keeps_versions)
qed

lemma deduction_overwrites:
  assumes "keeps_versions d (others 0 d)" "aj_quantity data < 0"
    "pick_batches (Some w) (Some l) s (get_default ''fefo'' (aj_picking_strategy data)) d = (ir, a) # rest"
    "- aj_quantity data \<le> a + sum_list (map snd rest)" "- aj_quantity data \<le> inv_quantity ir"
    "db_get (pk ir) (inventory_rows d) = Some ir"
  shows "\<exists>d' row. adjust_loop env others (\<lambda>_. None) reload data w l s 0 3 d d = Inr (d', ir) \<and>
    db_get (pk ir) (inventory_rows d') = Some row \<and> inv_quantity row = inv_quantity ir + aj_quantity data"
proof -
  let ?q = "aj_quantity data"
  let ?f = "\<lambda>i. i\<lparr>inv_quantity := inv_quantity ir + ?q, updated_at := now env, inv_version := inv_version ir + 1\<rparr>"
  let ?p = "\<lambda>i. pk i = pk ir \<and> inv_version i = inv_version ir"
  from assms(1,6) obtain j where j: "db_get (pk ir) (inventory_rows (others 0 d)) = Some j" "inv_version j = inv_version ir"
    unfolding keeps_versions_def by blast
  note jm = db_get_SomeD[OF j(1)]
  obtain d1 n where u: "versioned_update ir ?f (others 0 d) = (d1, n)" by force
  then have d1: "inventory_rows d1 = update_where ?p ?f (inventory_rows (others 0 d))" and "n = row_count ?p (inventory_rows (others 0 d))"
    by (auto simp: versioned_update_def Let_def)
  with jm j(2) have "n \<noteq> 0" by (auto simp: row_count_def filter_empty_conv)
  with assms(2-5) u have "adjust_attempt env (others 0) data w l s d = Inr (Written (add_adjust_movement env w l s ?q d1) ir)"
    by (simp add: adjust_attempt_def Let_def)
  then have "adjust_loop env others (\<lambda>_. None) reload data w l s 0 3 d d = Inr (add_adjust_movement env w l s ?q d1, ir)"
    by (simp add: numeral_3_eq_3)
  moreover have "db_get (pk ir) (inventory_rows d1) = Some (?f j)"
    using j jm by (simp add: d1 db_get_update_where)
  ultimately show ?thesis by simp
qed

end
