(* ===== verification/Wms_Picking.thy ===== *)
theory Wms_Picking
  imports Wms_Inventory
begin

text \<open>
  Picking: \<open>src/wms/services/picking_service.py\<close> (first-expired-first-out picking, pick tasks,
  replenishment), and the waves, packing records and shipments of \<open>src/wms/service.py\<close>.
\<close>

section \<open>First expired, first out\<close>

record picked_batch =
  pb_batch_no :: string
  pb_sku_name :: string
  pb_expiry_date :: "date option"
  pb_qty :: int

text \<open>
  The loop over the batches in order. Reading \<open>inv.sku.name\<close> loads the product lazily: \<open>load_name\<close> is
  what SQLAlchemy does then (\<open>Inr\<close> the name, or \<open>Inl MissingGreenlet\<close> under asyncio unless the row is
  already in the session). \<open>min\<close> and \<open>int\<close> are Python's; the quantities are decimals.
\<close>

fun pick_loop ::
  "env \<Rightarrow> (uuid \<Rightarrow> string result) \<Rightarrow> inventory list \<Rightarrow> int \<Rightarrow> 'a wms_db_scheme \<Rightarrow>
   ('a wms_db_scheme \<times> picked_batch list \<times> int) result" where
  "pick_loop env load_name [] remaining d = Inr (d, [], remaining)"
| "pick_loop env load_name (ir # batches) remaining d =
     (if remaining \<le> 0 then Inr (d, [], remaining)
      else
        let pick_int = \<lfloor>min (of_int remaining) (max 0 (available ir))\<rfloor>
        in if pick_int \<le> 0 then pick_loop env load_name batches remaining d
           else
             let new_quantity = inv_quantity ir - of_int pick_int;
                 d1 = (tick d)\<lparr>inventory_rows := update_where (\<lambda>i. pk i = pk ir)
                        (\<lambda>i. i\<lparr>inv_quantity := new_quantity, inv_version := inv_version ir + 1, updated_at := now env\<rparr>)
                        (inventory_rows d),
                      inventory_logs := insert_row
                        \<lparr>pk = new_uuid env d, created_at = now env, updated_at = now env, is_deleted = False,
                         deleted_at = None, il_inventory_id = pk ir, il_change_type = OUTBOUND,
                         il_quantity_change = - of_int pick_int,
                         il_quantity_before = new_quantity + of_int pick_int, il_quantity_after = new_quantity,
                         il_reference_type = Some ''picking'', il_reference_id = None, il_operator_id = None,
                         il_remark = None\<rparr> (inventory_logs d)\<rparr>
             in bindE (load_name (inv_sku_id ir)) (\<lambda>name.
                bindE (pick_loop env load_name batches (remaining - pick_int) d1) (\<lambda>(d2, picked, rest).
                Inr (d2, \<lparr>pb_batch_no = inv_batch_no ir, pb_sku_name = name,
                          pb_expiry_date = inv_expiry_date ir, pb_qty = pick_int\<rparr> # picked, rest))))"

definition stock_batches :: "uuid \<Rightarrow> string \<Rightarrow> 'a wms_db_scheme \<Rightarrow> inventory list" where
  "stock_batches w sku_str d =
     order_by (\<lambda>i. (nulls_last (inv_expiry_date i), inv_batch_no i))
       (select_where (\<lambda>i. inv_warehouse_id i = Some w \<and>
                         (case db_get (inv_sku_id i) (skus d) of None \<Rightarrow> False | Some s \<Rightarrow> sku_code s = sku_str) \<and>
                         \<not> is_deleted i) (inventory_rows d))"

definition pick_from_stock ::
  "env \<Rightarrow> (uuid \<Rightarrow> string result) \<Rightarrow> string \<Rightarrow> string \<Rightarrow> int \<Rightarrow> 'a wms_db_scheme \<Rightarrow>
   ('a wms_db_scheme \<times> picked_batch list \<times> int) result" where
  "pick_from_stock env load_name warehouse_id sku_str quantity d =
     bindE (to_uuid warehouse_id) (\<lambda>w.
     let batches = stock_batches w sku_str d in
     bindE (raise_if (batches = [])
              (NotFoundException (''No inventory found for SKU '' @ sku_str @ '' at warehouse '' @ warehouse_id))) (\<lambda>_.
     pick_loop env load_name batches quantity d))"

section \<open>Pick tasks and replenishment\<close>

text \<open>\<open>stamp\<close> is the clock rendered by \<open>%Y%m%d%H%M%S\<close>.\<close>

definition new_wave ::
  "env \<Rightarrow> uuid \<Rightarrow> uuid \<Rightarrow> string \<Rightarrow> picking_wave_type \<Rightarrow> picking_wave_priority \<Rightarrow> picking_wave" where
  "new_wave env u w wave_code ty pr =
     \<lparr>pk = u, created_at = now env, updated_at = now env, is_deleted = False, deleted_at = None,
      pw_warehouse_id = Some w, pw_code = wave_code, pw_status = ''pending'', pw_wave_type = ty,
      pw_priority = pr, pw_total_items = 0, pw_completed_items = 0, pw_assignee_id = None\<rparr>"

text \<open>\<open>locs.get(sid)\<close> looks the raw text up among printed identifiers.\<close>

definition check_stop :: "'a wms_db_scheme \<Rightarrow> uuid list \<Rightarrow> string \<Rightarrow> unit result" where
  "check_stop d loc_uuids sid =
     (let locs = select_where (\<lambda>l. pk l \<in> set loc_uuids) (locations d) in
      case find (\<lambda>l. show_uuid (pk l) = sid) (rev locs) of
        None \<Rightarrow> Inl (validation (''Location '' @ sid @ '' is invalid''))
      | Some loc \<Rightarrow> raise_if (loc_status loc \<noteq> LocationStatus_ACTIVE) (validation (''Location '' @ sid @ '' is invalid'')))"

definition assign_pick_task ::
  "env \<Rightarrow> string \<Rightarrow> string \<Rightarrow> string list \<Rightarrow> 'a wms_db_scheme \<Rightarrow> ('a wms_db_scheme \<times> picking_wave) result" where
  "assign_pick_task env stamp warehouse_id stop_ids d =
     bindE (to_uuid warehouse_id) (\<lambda>w.
     bindE (foldE (\<lambda>sid us. bindE (to_uuid sid) (\<lambda>u. Inr (us @ [u]))) stop_ids []) (\<lambda>loc_uuids.
     bindE (foldE (\<lambda>sid (_ :: unit). check_stop d loc_uuids sid) stop_ids ()) (\<lambda>_.
     let wave = new_wave env (new_uuid env d) w (''PW-'' @ stamp) ORDER_BASED PickingWavePriority_HIGH
     in bindE (insert_unique pw_code wave (picking_waves d)) (\<lambda>t.
        Inr ((tick d)\<lparr>picking_waves := t\<rparr>, wave)))))"

definition complete_pick ::
  "env \<Rightarrow> string \<Rightarrow> int option \<Rightarrow> 'a wms_db_scheme \<Rightarrow> ('a wms_db_scheme \<times> picking_wave) result" where
  "complete_pick env pick_task_id actual_quantity d =
     bindE (to_uuid pick_task_id) (\<lambda>u.
     bindE (find_or_raise (NotFoundException (''Picking wave '' @ pick_task_id @ '' not found''))
              (\<lambda>w. pk w = u) (picking_waves d)) (\<lambda>wave.
     let f = (\<lambda>w. w\<lparr>pw_status := ''completed'',
                    pw_completed_items := (case actual_quantity of
                       Some q \<Rightarrow> if q \<noteq> 0 then q else pw_total_items w
                     | None \<Rightarrow> pw_total_items w), updated_at := now env\<rparr>)
     in Inr (d\<lparr>picking_waves := update_where (\<lambda>w. pk w = u) f (picking_waves d)\<rparr>, f wave)))"

text \<open>\<open>threshold_pct\<close> as the exact value of \<open>Decimal(str(1 - threshold_pct))\<close>'s complement.\<close>

definition replenish_needed :: "decimal \<Rightarrow> inventory \<Rightarrow> int option" where
  "replenish_needed keep_pct ir =
     (if inv_max_qty ir = 0 \<or> inv_min_qty ir \<le> inv_quantity ir then None
      else let diff = inv_max_qty ir * keep_pct - inv_quantity ir;
               needed = (if 0 \<le> diff then \<lfloor>diff\<rfloor> else \<lceil>diff\<rceil>)
           in if needed \<le> 0 then None else Some needed)"

definition replenish_step ::
  "env \<Rightarrow> uuid \<Rightarrow> decimal \<Rightarrow> inventory \<Rightarrow> 'a wms_db_scheme \<times> stock_movement list \<Rightarrow>
   'a wms_db_scheme \<times> stock_movement list" where
  "replenish_step env w keep_pct ir = (\<lambda>(d, replenishments).
     case replenish_needed keep_pct ir of
       None \<Rightarrow> (d, replenishments)
     | Some needed \<Rightarrow>
         let movement = \<lparr>pk = new_uuid env d, created_at = now env, updated_at = now env, is_deleted = False,
               deleted_at = None, sm_source_warehouse_id = Some w, sm_target_warehouse_id = None,
               sm_source_location_id = None, sm_target_location_id = None, sm_sku_id = inv_sku_id ir,
               sm_gtin = inv_gtin ir, sm_quantity = of_int needed,
               sm_movement_type = StockMovementType_REPLENISHMENT, sm_status = ''pending''\<rparr>
         in ((tick d)\<lparr>stock_movements := insert_row movement (stock_movements d)\<rparr>, replenishments @ [movement]))"

definition auto_replenish ::
  "env \<Rightarrow> string \<Rightarrow> decimal \<Rightarrow> 'a wms_db_scheme \<Rightarrow> ('a wms_db_scheme \<times> nat \<times> stock_movement list) result" where
  "auto_replenish env warehouse_id threshold_pct d =
     bindE (to_uuid warehouse_id) (\<lambda>w.
     let (d1, replenishments) =
           fold (replenish_step env w (1 - threshold_pct))
             (select_where (\<lambda>i. inv_warehouse_id i = Some w \<and> \<not> is_deleted i) (inventory_rows d)) (d, [])
     in Inr (d1, length replenishments, replenishments))"

section \<open>Picking waves\<close>

record wave_view =
  wvw_row :: picking_wave
  wvw_order_ids :: "string list"

definition create_picking_wave ::
  "env \<Rightarrow> string \<Rightarrow> string list \<Rightarrow> 'a wms_db_scheme \<Rightarrow> ('a wms_db_scheme \<times> wave_view) result" where
  "create_picking_wave env warehouse_id order_ids d =
     bindE (to_uuid warehouse_id) (\<lambda>w.
     bindE (find_or_raise (NotFoundException (''Warehouse '' @ show_uuid w @ '' not found''))
              (\<lambda>x. pk x = w) (warehouses d)) (\<lambda>_.
     bindE (raise_if (order_ids = []) (validation ''At least one order required'')) (\<lambda>_.
     let d1 = tick d;
         wave = new_wave env (new_uuid env d) w (''WAVE-'' @ upper (take 8 (uuid_hex (new_uuid env d1))))
                  MIXED PickingWavePriority_MEDIUM
     in bindE (insert_unique pw_code wave (picking_waves d1)) (\<lambda>t.
        Inr ((tick d1)\<lparr>picking_waves := t\<rparr>, \<lparr>wvw_row = wave, wvw_order_ids = order_ids\<rparr>)))))"

definition list_picking_waves :: "string option \<Rightarrow> 'a wms_db_scheme \<Rightarrow> wave_view list result" where
  "list_picking_waves wh_id d =
     bindE (uuid_if_truthy wh_id) (\<lambda>w.
     Inr (map (\<lambda>p. \<lparr>wvw_row = p, wvw_order_ids = []\<rparr>)
            (order_by_desc created_at
               (select_where (\<lambda>p. case w of None \<Rightarrow> True | Some u \<Rightarrow> pw_warehouse_id p = Some u) (picking_waves d)))))"

definition find_wave :: "string \<Rightarrow> 'a wms_db_scheme \<Rightarrow> picking_wave result" where
  "find_wave wave_id d =
     bindE (to_uuid wave_id) (\<lambda>u.
     find_or_raise (NotFoundException (''Picking wave '' @ wave_id @ '' not found'')) (\<lambda>w. pk w = u) (picking_waves d))"

text \<open>The guards of the two operations, with the status they move to.\<close>

definition start_status :: "string \<Rightarrow> string result" where
  "start_status s =
     bindE (raise_if (s \<noteq> ''pending'') (validation (''Wave is already '' @ s))) (\<lambda>_. Inr ''in_progress'')"

definition complete_status :: "string \<Rightarrow> string result" where
  "complete_status s =
     bindE (raise_if (s \<noteq> ''in_progress'') (validation (''Cannot complete wave in '' @ quoted s @ '' status''))) (\<lambda>_.
     Inr ''completed'')"

definition start_picking ::
  "env \<Rightarrow> string \<Rightarrow> string \<Rightarrow> 'a wms_db_scheme \<Rightarrow> ('a wms_db_scheme \<times> picking_wave) result" where
  "start_picking env wave_id assignee d =
     bindE (find_wave wave_id d) (\<lambda>wave.
     bindE (start_status (pw_status wave)) (\<lambda>st.
     let f = (\<lambda>w. w\<lparr>pw_status := st,
                    pw_assignee_id := (if assignee \<noteq> [] then safe_uuid assignee else None),
                    updated_at := now env\<rparr>)
     in Inr (d\<lparr>picking_waves := update_where (\<lambda>w. pk w = pk wave) f (picking_waves d)\<rparr>, f wave)))"

definition complete_picking ::
  "env \<Rightarrow> string \<Rightarrow> 'a wms_db_scheme \<Rightarrow> ('a wms_db_scheme \<times> picking_wave) result" where
  "complete_picking env wave_id d =
     bindE (find_wave wave_id d) (\<lambda>wave.
     bindE (complete_status (pw_status wave)) (\<lambda>st.
     let f = (\<lambda>w. w\<lparr>pw_status := st, pw_completed_items := pw_total_items w, updated_at := now env\<rparr>)
     in Inr (d\<lparr>picking_waves := update_where (\<lambda>w. pk w = pk wave) f (picking_waves d)\<rparr>, f wave)))"

section \<open>Packing and shipping\<close>

record packing_req =
  pq_picking_wave_id :: string
  pq_packed_by :: "string option"
  pq_box_count :: "int option"
  pq_notes :: "string option"

definition create_packing ::
  "env \<Rightarrow> packing_req \<Rightarrow> 'a wms_db_scheme \<Rightarrow> ('a wms_db_scheme \<times> packing_record) result" where
  "create_packing env data d =
     bindE (find_wave (pq_picking_wave_id data) d) (\<lambda>wave.
     bindE (raise_if (pw_status wave \<noteq> ''completed'') (validation ''Only completed waves can be packed'')) (\<lambda>_.
     let record' = \<lparr>pk = new_uuid env d, created_at = now env, updated_at = now env,
                    pr_picking_wave_id = pk wave, pr_packed_by = get_default [] (pq_packed_by data),
                    pr_box_count = get_default 1 (pq_box_count data), pr_notes = get_default [] (pq_notes data)\<rparr>
     in Inr ((tick d)\<lparr>packing_records := insert_row record' (packing_records d)\<rparr>, record')))"

record shipment_req =
  sq_order_id :: string
  sq_warehouse_id :: string
  sq_packing_record_id :: "string option"
  sq_tracking_number :: "string option"
  sq_carrier :: "string option"

definition create_shipment ::
  "env \<Rightarrow> shipment_req \<Rightarrow> 'a wms_db_scheme \<Rightarrow> ('a wms_db_scheme \<times> shipment) result" where
  "create_shipment env data d =
     bindE (to_uuid (sq_warehouse_id data)) (\<lambda>w.
     bindE (find_or_raise (NotFoundException (''Warehouse '' @ sq_warehouse_id data @ '' not found''))
              (\<lambda>x. pk x = w) (warehouses d)) (\<lambda>_.
     bindE (to_uuid (sq_order_id data)) (\<lambda>oid.
     bindE (to_uuid_opt (sq_packing_record_id data)) (\<lambda>rid.
     let shipment = \<lparr>pk = new_uuid env d, created_at = now env, updated_at = now env, sh_order_id = oid,
           sh_warehouse_id = w, sh_packing_record_id = rid,
           sh_tracking_number = get_default [] (sq_tracking_number data),
           sh_carrier = get_default [] (sq_carrier data),
           sh_status = (if truthy (sq_packing_record_id data) then ShipmentStatus_PACKED else ShipmentStatus_PICKED),
           sh_shipped_at = None, sh_delivered_at = None, sh_notes = []\<rparr>
     in Inr ((tick d)\<lparr>shipments := insert_row shipment (shipments d)\<rparr>, shipment)))))"

definition mark_shipped ::
  "env \<Rightarrow> string \<Rightarrow> string \<Rightarrow> string \<Rightarrow> 'a wms_db_scheme \<Rightarrow> ('a wms_db_scheme \<times> shipment) result" where
  "mark_shipped env shipment_id tracking_number carrier d =
     bindE (to_uuid shipment_id) (\<lambda>u.
     bindE (find_or_raise (NotFoundException (''Shipment '' @ shipment_id @ '' not found''))
              (\<lambda>s. pk s = u) (shipments d)) (\<lambda>shipment.
     let f = (\<lambda>s. s\<lparr>sh_status := ShipmentStatus_SHIPPED,
                    sh_tracking_number := (if tracking_number \<noteq> [] then tracking_number else sh_tracking_number s),
                    sh_carrier := (if carrier \<noteq> [] then carrier else sh_carrier s),
                    sh_shipped_at := Some (now env), updated_at := now env\<rparr>)
     in Inr (d\<lparr>shipments := update_where (\<lambda>s. pk s = u) f (shipments d)\<rparr>, f shipment)))"

definition list_shipments :: "string option \<Rightarrow> 'a wms_db_scheme \<Rightarrow> shipment list result" where
  "list_shipments warehouse_id d =
     bindE (uuid_if_truthy warehouse_id) (\<lambda>w.
     Inr (order_by_desc created_at
            (select_where (\<lambda>s. case w of None \<Rightarrow> True | Some u \<Rightarrow> sh_warehouse_id s = u) (shipments d))))"

section \<open>What a pick takes\<close>

text \<open>Whole units a batch can give, and the amounts taken from batches in order.\<close>

definition whole_units :: "inventory \<Rightarrow> int" where
  "whole_units i = \<lfloor>max 0 (available i)\<rfloor>"

fun greedy :: "int \<Rightarrow> int list \<Rightarrow> int list" where
  "greedy q [] = []"
| "greedy q (u # us) = (let t = min (max 0 q) u in t # greedy (q - t) us)"

lemma whole_units_nonneg [simp]: "0 \<le> whole_units i"
  by (simp add: whole_units_def)

lemma length_greedy [simp]: "length (greedy q us) = length us"
  by (induction q us rule: greedy.induct) (simp_all add: Let_def)

lemma greedy_none: "q \<le> 0 \<Longrightarrow> \<forall>u\<in>set us. 0 \<le> u \<Longrightarrow> greedy q us = replicate (length us) 0"
  by (induction us) (simp_all add: Let_def)

lemma greedy_nonneg: "\<forall>u\<in>set us. 0 \<le> u \<Longrightarrow> t \<in> set (greedy q us) \<Longrightarrow> 0 \<le> t"
  by (induction q us rule: greedy.induct) (auto simp: Let_def)

text \<open>The closed form: batch \<open>j\<close> gives what the batches before it left open.\<close>

lemma greedy_nth:
  assumes "j < length us" "\<forall>u\<in>set us. 0 \<le> u"
  shows "greedy q us ! j = min (us ! j) (max 0 (q - sum_list (take j us)))"
  using assms
proof (induction q us arbitrary: j rule: greedy.induct)
  case (2 q u us)
  show ?case
  proof (cases j)
    case (Suc i)
    let ?t = "min (max 0 q) u"
    have nn: "0 \<le> sum_list (take i us)"
      using "2.prems"(2) by (intro sum_list_nonneg) (auto dest: in_set_takeD)
    have "greedy q (u # us) ! j = min (us ! i) (max 0 (q - ?t - sum_list (take i us)))"
      using "2.IH"[OF refl, of i] "2.prems" Suc by (simp add: Let_def)
    also have "max 0 (q - ?t - sum_list (take i us)) = max 0 (q - u - sum_list (take i us))"
      using nn "2.prems"(2) by (auto simp: min_def max_def)
    finally show ?thesis using Suc by (simp add: algebra_simps)
  qed (simp add: Let_def min.commute)
qed simp

lemma sum_greedy:
  assumes "\<forall>u\<in>set us. 0 \<le> u"
  shows "sum_list (greedy q us) = min (max 0 q) (sum_list us)"
  using assms
proof (induction q us rule: greedy.induct)
  case (2 q u us)
  have "0 \<le> sum_list us" using "2.prems" by (intro sum_list_nonneg) auto
  with 2 show ?case by (auto simp: Let_def min_def max_def)
qed simp

lemma floor_min_int: "\<lfloor>min (of_int r) x\<rfloor> = min r \<lfloor>x :: rat\<rfloor>"
proof (cases "of_int r \<le> x")
  case True
  then have "r \<le> \<lfloor>x\<rfloor>" by (simp add: le_floor_iff)
  with True show ?thesis by simp
next
  case False
  then have "\<lfloor>x\<rfloor> \<le> r" by (simp add: floor_le_iff)
  with False show ?thesis by (simp add: min_def)
qed

text \<open>
  The loop takes \<open>greedy\<close> amounts. \<open>planned\<close> pairs each batch with its amount.
\<close>

definition planned :: "inventory list \<Rightarrow> int \<Rightarrow> (inventory \<times> int) list" where
  "planned batches q = zip batches (greedy q (map whole_units batches))"

definition row_taken :: "(inventory \<times> int) \<Rightarrow> 'a wms_db_scheme \<Rightarrow> bool" where
  "row_taken = (\<lambda>(b, t) d. \<exists>r\<in>set (inventory_rows d). pk r = pk b \<and>
     inv_quantity r = inv_quantity b - of_int t \<and> inv_locked_qty r = inv_locked_qty b)"

lemma planned_Cons:
  "planned (b # bs) q = (b, min (max 0 q) (whole_units b)) # planned bs (q - min (max 0 q) (whole_units b))"
  by (simp add: planned_def Let_def)

lemma map_snd_planned: "map snd (planned bs q) = greedy q (map whole_units bs)"
  by (simp add: planned_def)

lemma sum_units: "0 \<le> sum_list (map whole_units bs)"
  by (intro sum_list_nonneg) auto

lemma planned_done: "q \<le> 0 \<Longrightarrow> (b, t) \<in> set (planned bs q) \<Longrightarrow> t = 0 \<and> b \<in> set bs"
  using greedy_none[of q "map whole_units bs"] by (auto simp: planned_def dest: set_zip_leftD set_zip_rightD)

lemma row_taken_update:
  assumes "row_taken (b, t) d" "pk b \<noteq> pk ir"
  shows "row_taken (b, t) (d\<lparr>inventory_rows := update_where (\<lambda>i. pk i = pk ir) f (inventory_rows d)\<rparr>)"
proof -
  from assms(1) obtain r where r: "r \<in> set (inventory_rows d)" "pk r = pk b"
    "inv_quantity r = inv_quantity b - of_int t" "inv_locked_qty r = inv_locked_qty b" by (auto simp: row_taken_def)
  then have "r \<in> set (update_where (\<lambda>i. pk i = pk ir) f (inventory_rows d))"
    using assms(2) by (force simp: update_where_def)
  with r show ?thesis by (auto simp: row_taken_def)
qed

lemma pick_loop_effect:
  assumes "pick_loop env load batches q d = Inr (d', picked, rest)"
    "distinct (map pk (inventory_rows d))" "distinct (map pk batches)" "set batches \<subseteq> set (inventory_rows d)"
  shows "map (\<lambda>p. (pb_batch_no p, pb_qty p)) picked =
      map (\<lambda>(b, t). (inv_batch_no b, t)) (filter (\<lambda>(b, t). 0 < t) (planned batches q)) \<and>
    rest = q - sum_list (map snd (planned batches q)) \<and>
    total_stock d' = total_stock d - of_int (sum_list (map pb_qty picked)) \<and>
    (\<forall>bt\<in>set (planned batches q). row_taken bt d') \<and>
    (\<forall>b t. pk b \<notin> pk ` set batches \<longrightarrow> row_taken (b, t) d \<longrightarrow> row_taken (b, t) d') \<and>
    map pk (inventory_rows d') = map pk (inventory_rows d)"
  using assms
proof (induction batches arbitrary: q d d' picked rest)
  case Nil
  then show ?case by (simp add: planned_def)
next
  case (Cons ir batches)
  let ?t = "min (max 0 q) (whole_units ir)"
  have here: "ir \<in> set (inventory_rows d)" using Cons.prems(4) by simp
  then have zero: "row_taken (ir, 0) d" by (auto simp: row_taken_def)
  have all0: "row_taken (b, 0) d" if "b \<in> set batches" for b
    using that Cons.prems(4) by (auto simp: row_taken_def)
  show ?case
  proof (cases "q \<le> 0")
    case True
    then have d': "d' = d" "picked = []" "rest = q" using Cons.prems(1) by auto
    have z: "t = 0 \<and> b \<in> set (ir # batches)" if "(b, t) \<in> set (planned (ir # batches) q)" for b t
      using planned_done[OF True that] .
    then have "filter (\<lambda>(b, t). 0 < t) (planned (ir # batches) q) = []" by (fastforce simp: filter_empty_conv)
    moreover have "sum_list (map snd (planned (ir # batches) q)) = 0"
      using sum_greedy[of "map whole_units (ir # batches)" q] sum_units[of "ir # batches"] True by (simp add: map_snd_planned del: list.map greedy.simps)
    moreover have "row_taken bt d" if "bt \<in> set (planned (ir # batches) q)" for bt
      using z[of "fst bt" "snd bt"] that zero all0 by (cases bt) auto
    ultimately show ?thesis by (simp add: d')
  next
    case False
    have pint: "\<lfloor>min (of_int q) (max 0 (available ir))\<rfloor> = ?t"
      using False by (simp add: floor_min_int whole_units_def)
    show ?thesis
    proof (cases "?t \<le> 0")
      case True
      then have t0: "?t = 0" using whole_units_nonneg[of ir] by linarith
      have l: "pick_loop env load batches q d = Inr (d', picked, rest)"
        using Cons.prems(1) unfolding pick_loop.simps(2) pint Let_def by (simp only: False True if_False if_True)
      have "distinct (map pk batches)" "set batches \<subseteq> set (inventory_rows d)" using Cons.prems by auto
      note ih = Cons.IH[OF l Cons.prems(2) this]
      have "row_taken (ir, 0) d'"
        using ih zero Cons.prems(3) by auto
      then show ?thesis using ih t0 by (simp add: planned_Cons)
    next
      case False2: False
      let ?d1 = "(tick d)\<lparr>inventory_rows := update_where (\<lambda>i. pk i = pk ir)
                        (\<lambda>i. i\<lparr>inv_quantity := inv_quantity ir - of_int ?t, inv_version := inv_version ir + 1, updated_at := now env\<rparr>)
                        (inventory_rows d),
                      inventory_logs := insert_row
                        \<lparr>pk = new_uuid env d, created_at = now env, updated_at = now env, is_deleted = False,
                         deleted_at = None, il_inventory_id = pk ir, il_change_type = OUTBOUND,
                         il_quantity_change = - of_int ?t,
                         il_quantity_before = inv_quantity ir - of_int ?t + of_int ?t, il_quantity_after = inv_quantity ir - of_int ?t,
                         il_reference_type = Some ''picking'', il_reference_id = None, il_operator_id = None,
                         il_remark = None\<rparr> (inventory_logs d)\<rparr>"
      from Cons.prems(1) False False2 obtain name picked2 where
        l: "pick_loop env load batches (q - ?t) ?d1 = Inr (d', picked2, rest)"
        and p: "picked = \<lparr>pb_batch_no = inv_batch_no ir, pb_sku_name = name,
                          pb_expiry_date = inv_expiry_date ir, pb_qty = ?t\<rparr> # picked2"
        unfolding pick_loop.simps pint Let_def by auto
      let ?f = "\<lambda>i. i\<lparr>inv_quantity := inv_quantity ir - of_int ?t, inv_version := inv_version ir + 1, updated_at := now env\<rparr> :: inventory"
      have rows: "inventory_rows ?d1 = update_where (\<lambda>i. pk i = pk ir) ?f (inventory_rows d)" by simp
      have pks: "map pk (inventory_rows ?d1) = map pk (inventory_rows d)" unfolding rows by simp
      have sub: "set batches \<subseteq> set (inventory_rows ?d1)"
      proof
        fix b assume b: "b \<in> set batches"
        then have "b \<in> set (inventory_rows d)" "pk b \<noteq> pk ir" using Cons.prems(3,4) by (auto simp: rev_image_eqI)
        then show "b \<in> set (inventory_rows ?d1)" unfolding rows by (force simp: update_where_def)
      qed
      have dist: "distinct (map pk batches)" using Cons.prems(3) by simp
      note ih = Cons.IH[OF l _ dist sub, unfolded pks, OF Cons.prems(2)]
      have one: "filter (\<lambda>i. pk i = pk ir) (inventory_rows d) = [ir]"
        by (rule filter_unique_key[OF Cons.prems(2) here])
      have tot: "total_stock ?d1 = total_stock d - of_int ?t"
        unfolding total_stock_def rows sum_list_update_where one by simp
      have "row_taken (ir, ?t) ?d1"
      proof -
        have "?f ir \<in> set (inventory_rows ?d1)" unfolding rows using here by (force simp: update_where_def)
        then show ?thesis unfolding row_taken_def prod.case by (intro bexI [of _ "?f ir"]) simp_all
      qed
      then have ir: "row_taken (ir, ?t) d'" using ih Cons.prems(3) by auto
      have other: "row_taken (b, t) d'" if "pk b \<notin> pk ` set (ir # batches)" "row_taken (b, t) d" for b t
      proof -
        have "row_taken (b, t) (d\<lparr>inventory_rows := inventory_rows ?d1\<rparr>)"
          unfolding rows using that by (intro row_taken_update) auto
        then have "row_taken (b, t) ?d1" by (simp add: row_taken_def)
        then show ?thesis using ih that(1) by auto
      qed
      have pos: "0 < ?t" using False2 by linarith
      show ?thesis
        using ih tot ir other pos by (simp add: planned_Cons p algebra_simps del: min_less_iff_conj)
    qed
  qed
qed

lemma pick_loop_missing:
  assumes "\<And>u. load u = Inl e" "filter (\<lambda>(b, t). 0 < t) (planned batches q) \<noteq> []"
  shows "pick_loop env load batches q d = Inl e"
  using assms(2)
proof (induction batches arbitrary: q)
  case (Cons ir batches)
  let ?t = "min (max 0 q) (whole_units ir)"
  show ?case
  proof (cases "q \<le> 0")
    case True
    then have "filter (\<lambda>(b, t). 0 < t) (planned (ir # batches) q) = []"
      using planned_done[OF True] by (fastforce simp: filter_empty_conv)
    with Cons.prems show ?thesis by simp
  next
    case False
    have pint: "\<lfloor>min (of_int q) (max 0 (available ir))\<rfloor> = ?t"
      using False by (simp add: floor_min_int whole_units_def)
    show ?thesis
    proof (cases "?t \<le> 0")
      case True
      then have "?t = 0" using whole_units_nonneg[of ir] by linarith
      with Cons.prems have "filter (\<lambda>(b, t). 0 < t) (planned batches q) \<noteq> []" by (simp add: planned_Cons)
      with Cons.IH show ?thesis unfolding pick_loop.simps(2) pint Let_def by (simp only: False True if_False if_True)
    next
      case False2: False
      with False assms(1) show ?thesis unfolding pick_loop.simps pint Let_def by auto
    qed
  qed
qed (simp add: planned_def)

lemma stock_batches_rows: "set (stock_batches w s d) \<subseteq> set (inventory_rows d)"
  by (auto simp: stock_batches_def)

lemma stock_batches_distinct:
  assumes "distinct (map pk (inventory_rows d))"
  shows "distinct (map pk (stock_batches w s d))"
proof -
  have "distinct (map pk (order_by k (select_where p (inventory_rows d))))" for k :: "inventory \<Rightarrow> 'k::linorder" and p
  proof -
    have "mset (map pk (order_by k (select_where p (inventory_rows d)))) = mset (map pk (select_where p (inventory_rows d)))"
      by simp
    moreover have "distinct (map pk (select_where p (inventory_rows d)))"
      using assms by (simp add: select_where_def distinct_map_filter)
    ultimately show ?thesis by (metis mset_eq_imp_distinct_iff)
  qed
  then show ?thesis by (simp add: stock_batches_def)
qed

lemma stock_batches_fefo:
  "sorted (map (\<lambda>i. (nulls_last (inv_expiry_date i), inv_batch_no i)) (stock_batches w s d))"
  unfolding stock_batches_def by (rule sorted_order_by)

lemma pick_from_stock_effect:
  assumes "pick_from_stock env load wh s q d = Inr (d', picked, rest)" "distinct (map pk (inventory_rows d))"
  obtains w where "to_uuid wh = Inr w" "stock_batches w s d \<noteq> []"
    "map (\<lambda>p. (pb_batch_no p, pb_qty p)) picked =
       map (\<lambda>(b, t). (inv_batch_no b, t)) (filter (\<lambda>(b, t). 0 < t) (planned (stock_batches w s d) q))"
    "rest = q - sum_list (map pb_qty picked)"
    "total_stock d' = total_stock d - of_int (sum_list (map pb_qty picked))"
    "\<forall>bt\<in>set (planned (stock_batches w s d) q). row_taken bt d'"
proof -
  from assms(1) obtain w where w: "to_uuid wh = Inr w" "stock_batches w s d \<noteq> []"
    and l: "pick_loop env load (stock_batches w s d) q d = Inr (d', picked, rest)"
    by (auto simp: pick_from_stock_def Let_def)
  note e = pick_loop_effect[OF l assms(2) stock_batches_distinct[OF assms(2)] stock_batches_rows]
  have "sum_list (map snd (filter (\<lambda>(b, t). 0 < t) xs)) = sum_list (map snd xs)"
    if "\<forall>t\<in>snd ` set xs. 0 \<le> t" for xs :: "(inventory \<times> int) list"
    using that by (induction xs) auto
  moreover have "\<forall>t\<in>snd ` set (planned (stock_batches w s d) q). 0 \<le> t"
    using greedy_nonneg[of "map whole_units (stock_batches w s d)"] by (auto simp: planned_def dest!: set_zip_rightD)
  ultimately have s1: "sum_list (map snd (filter (\<lambda>(b, t). 0 < t) (planned (stock_batches w s d) q))) =
      sum_list (map snd (planned (stock_batches w s d) q))" by blast
  have "map pb_qty picked = map snd (map (\<lambda>p. (pb_batch_no p, pb_qty p)) picked)" by simp
  also have "\<dots> = map snd (filter (\<lambda>(b, t). 0 < t) (planned (stock_batches w s d) q))"
    using e by (auto simp: case_prod_unfold comp_def)
  finally have "sum_list (map pb_qty picked) = sum_list (map snd (planned (stock_batches w s d) q))" using s1 by simp
  then show thesis using e w by (intro that) auto
qed

section \<open>The life of a wave\<close>

definition wave_allowed :: "string \<Rightarrow> string list" where
  "wave_allowed s = (if s = ''pending'' then [''in_progress''] else if s = ''in_progress'' then [''completed''] else [])"

definition wave_change :: "string \<Rightarrow> string \<Rightarrow> string result" where
  "wave_change s t =
     (if t = ''in_progress'' then start_status s
      else if t = ''completed'' then complete_status s
      else Inl (validation ''no operation''))"

definition wave_rank :: "string \<Rightarrow> nat" where
  "wave_rank s = (if s = ''pending'' then 2 else if s = ''in_progress'' then 1 else 0)"

interpretation wave_lifecycle: ranked_status_machine wave_allowed wave_change wave_rank
proof unfold_locales
  fix s t :: string
  show "t \<in> set (wave_allowed s) \<Longrightarrow> wave_change s t = Inr t"
    by (auto simp: wave_allowed_def wave_change_def start_status_def complete_status_def split: if_splits)
  show "t \<notin> set (wave_allowed s) \<Longrightarrow> \<exists>e. wave_change s t = Inl e"
    by (auto simp: wave_allowed_def wave_change_def start_status_def complete_status_def raise_if_def split: if_splits)
  show "t \<in> set (wave_allowed s) \<Longrightarrow> wave_rank t < wave_rank s"
    by (auto simp: wave_allowed_def wave_rank_def split: if_splits)
qed

text \<open>The operations move the stored status exactly as the lifecycle says.\<close>

lemma find_waveE:
  assumes "find_wave wave_id d = Inr wave"
  obtains u where "to_uuid wave_id = Inr u" "find_one (\<lambda>w. pk w = u) (picking_waves d) = Inr (Some wave)" "pk wave = u"
  using assms by (auto simp: find_wave_def dest: find_one_SomeD)

lemma start_picking_wave:
  assumes "start_picking env wave_id who d = Inr (d', v)"
  obtains wave where "find_wave wave_id d = Inr wave" "find_wave wave_id d' = Inr v"
    "wave_change (pw_status wave) (pw_status v) = Inr (pw_status v)" "pw_status v = ''in_progress''"
proof -
  from assms obtain wave where f: "find_wave wave_id d = Inr wave" and s: "pw_status wave = ''pending''"
    by (auto simp: start_picking_def start_status_def)
  let ?g = "\<lambda>w. w\<lparr>pw_status := ''in_progress'', pw_assignee_id := (if who \<noteq> [] then safe_uuid who else None),
                    updated_at := now env\<rparr> :: picking_wave"
  have d': "d' = d\<lparr>picking_waves := update_where (\<lambda>w. pk w = pk wave) ?g (picking_waves d)\<rparr>" "v = ?g wave"
    using assms f s by (auto simp: start_picking_def start_status_def)
  from f obtain u where u: "to_uuid wave_id = Inr u" "find_one (\<lambda>w. pk w = u) (picking_waves d) = Inr (Some wave)" "pk wave = u"
    by (rule find_waveE)
  have "find_wave wave_id d' = Inr v"
    using wave_rows.lookup_updated[OF u(2), of ?g] u by (simp add: find_wave_def d')
  moreover have "wave_change (pw_status wave) (pw_status v) = Inr (pw_status v)"
    using s by (simp add: wave_change_def start_status_def d')
  ultimately show thesis using that f by (simp add: d')
qed

lemma complete_picking_wave:
  assumes "complete_picking env wave_id d = Inr (d', v)"
  obtains wave where "find_wave wave_id d = Inr wave" "find_wave wave_id d' = Inr v"
    "wave_change (pw_status wave) (pw_status v) = Inr (pw_status v)" "pw_status v = ''completed''"
    "pw_completed_items v = pw_total_items v"
proof -
  from assms obtain wave where f: "find_wave wave_id d = Inr wave" and s: "pw_status wave = ''in_progress''"
    by (auto simp: complete_picking_def complete_status_def)
  let ?g = "\<lambda>w. w\<lparr>pw_status := ''completed'', pw_completed_items := pw_total_items w, updated_at := now env\<rparr> :: picking_wave"
  have d': "d' = d\<lparr>picking_waves := update_where (\<lambda>w. pk w = pk wave) ?g (picking_waves d)\<rparr>" "v = ?g wave"
    using assms f s by (auto simp: complete_picking_def complete_status_def)
  from f obtain u where u: "to_uuid wave_id = Inr u" "find_one (\<lambda>w. pk w = u) (picking_waves d) = Inr (Some wave)" "pk wave = u"
    by (rule find_waveE)
  have "find_wave wave_id d' = Inr v"
    using wave_rows.lookup_updated[OF u(2), of ?g] u by (simp add: find_wave_def d')
  moreover have "wave_change (pw_status wave) (pw_status v) = Inr (pw_status v)"
    using s by (simp add: wave_change_def complete_status_def d')
  ultimately show thesis using that f by (simp add: d')
qed


end
