(* ===== verification/Wms_Stock.thy ===== *)
theory Wms_Stock
  imports Wms_Picking
begin

text \<open>
  Transfer orders, the stock-in and stock-out functions (\<open>src/wms/service.py\<close>), and the stock documents
  of \<open>src/routes/stock.py\<close>.
\<close>

section \<open>Transfer orders\<close>

record transfer_item_req =
  ti_sku :: string
  ti_quantity :: decimal

record transfer_req =
  tq_source_location :: "string option"
  tq_destination_warehouse_id :: "string option"
  tq_target_warehouse_id :: "string option"
  tq_source_warehouse_id :: "string option"
  tq_items :: "transfer_item_req list"

definition transfer_target :: "transfer_req \<Rightarrow> 'a wms_db_scheme \<Rightarrow> uuid result" where
  "transfer_target data d =
     (let raw = or_str (or_str (tq_destination_warehouse_id data) (tq_target_warehouse_id data))
                  (tq_source_warehouse_id data);
          t = get_default [] raw
      in bindE (raise_if (\<not> truthy raw) (validation ''destination_warehouse_id or target_warehouse_id required'')) (\<lambda>_.
         if length t = 36 then to_uuid t
         else bindE (find_or_raise (NotFoundException (''Warehouse '' @ t @ '' not found''))
                       (\<lambda>w. wh_code w = t) (warehouses d)) (\<lambda>w. Inr (pk w))))"

definition add_transfer_line ::
  "env \<Rightarrow> uuid \<Rightarrow> uuid option \<Rightarrow> transfer_item_req \<Rightarrow> 'a wms_db_scheme \<Rightarrow> 'a wms_db_scheme result" where
  "add_transfer_line env tid src it d =
     bindE (get_or_create_sku env (ti_sku it) d) (\<lambda>(d1, s).
     Inr ((tick d1)\<lparr>transfer_order_lines := insert_row
        \<lparr>tol_id = new_uuid env d1, tol_transfer_order_id = tid, tol_item_type = None, tol_sku_id = Some (pk s),
         tol_location_from_id = src, tol_location_to_id = None, tol_warehouse_id = None,
         tol_quantity = ti_quantity it, tol_available_qty = 0, tol_picked_qty = 0, tol_shipped_qty = 0,
         tol_received_qty = 0\<rparr> (transfer_order_lines d1)\<rparr>))"

definition create_transfer_order ::
  "env \<Rightarrow> transfer_req \<Rightarrow> 'a wms_db_scheme \<Rightarrow> ('a wms_db_scheme \<times> transfer_order) result" where
  "create_transfer_order env data d =
     bindE (uuid_if_truthy (tq_source_location data)) (\<lambda>src_wh.
     bindE (transfer_target data d) (\<lambda>target_wh_id.
     let to_code' = ''TO-'' @ ymd env @ ''-'' @ upper (take 6 (uuid_hex (new_uuid env d)));
         d1 = tick d;
         transfer = \<lparr>pk = new_uuid env d1, created_at = now env, updated_at = now env, is_deleted = False,
           deleted_at = None, to_code = to_code',
           to_source_warehouse_id = (if src_wh = None then Some target_wh_id else None),
           to_target_warehouse_id = target_wh_id, to_type = TransferItemType_SKU,
           to_status = TransferStatus_DRAFT, to_total_weight_kg = 0, to_total_volume_m3 = 0,
           to_total_pieces = 0, to_ref_no = None, to_ref_type = None, to_remarks = None\<rparr>
     in bindE (insert_unique to_code transfer (transfer_orders d1)) (\<lambda>t.
        bindE (foldE (add_transfer_line env (pk transfer) src_wh) (tq_items data)
                 ((tick d1)\<lparr>transfer_orders := t\<rparr>)) (\<lambda>d2.
        Inr (d2, transfer)))))"

record transfer_view =
  tv_row :: transfer_order
  tv_lines :: "transfer_order_line list"

definition list_transfers :: "string option \<Rightarrow> 'a wms_db_scheme \<Rightarrow> transfer_view list result" where
  "list_transfers wh_id d =
     bindE (uuid_if_truthy wh_id) (\<lambda>w.
     Inr (map (\<lambda>t. \<lparr>tv_row = t,
                    tv_lines = select_where (\<lambda>l. tol_transfer_order_id l = pk t) (transfer_order_lines d)\<rparr>)
            (order_by_desc created_at
               (select_where (\<lambda>t. case w of None \<Rightarrow> True
                                  | Some u \<Rightarrow> to_source_warehouse_id t = Some u \<or> to_target_warehouse_id t = u)
                  (transfer_orders d)))))"

section \<open>Stock in and stock out\<close>

record stock_req =
  st_sku :: string
  st_quantity :: decimal
  st_batch_no :: "string option"
  st_expiry_date :: "date option"
  st_manufacturing_date :: "date option"
  st_picking_strategy :: "string option"
  st_remark :: "string option"

text \<open>
  \<open>wh.status != WarehouseStatus.ACTIVE.value\<close> compares a member of the plain \<open>Enum\<close> with a string;
  the two are never equal, so the guard is true for every status.
\<close>

definition status_differs_from_value :: "warehouse_status \<Rightarrow> string \<Rightarrow> bool" where
  "status_differs_from_value st v = True"

definition check_active :: "string \<Rightarrow> 'a wms_db_scheme \<Rightarrow> warehouse result" where
  "check_active warehouse_id d =
     bindE (to_uuid warehouse_id) (\<lambda>w.
     bindE (find_or_raise (NotFoundException (''Warehouse '' @ show_uuid w @ '' not found''))
              (\<lambda>x. pk x = w) (warehouses d)) (\<lambda>wh.
     bindE (raise_if (status_differs_from_value (wh_status wh) ''active'')
              (validation (''Warehouse '' @ wh_code wh @ '' is inactive''))) (\<lambda>_.
     Inr wh)))"

text \<open>
  The body of \<open>stock_in\<close> after the guard. \<open>float(inv.quantity) - qty\<close> subtracts a \<open>Decimal\<close> from a
  \<open>float\<close>, which raises \<open>TypeError\<close> on both branches before anything is committed.
\<close>

definition stock_in_body ::
  "env \<Rightarrow> uuid \<Rightarrow> stock_req \<Rightarrow> 'a wms_db_scheme \<Rightarrow> ('a wms_db_scheme \<times> inventory_view) result" where
  "stock_in_body env w data d =
     bindE (get_or_create_sku env (st_sku data) d) (\<lambda>(d1, s).
     bindE (find_one (\<lambda>i. inv_warehouse_id i = Some w \<and> inv_sku_id i = pk s \<and>
                          inv_batch_no i = get_default ''DEFAULT'' (st_batch_no data)) (inventory_rows d1)) (\<lambda>found.
     if 0 < st_quantity data then Inl TypeError
     else
       let batches = pick_batches (Some w) (case found of None \<Rightarrow> None | Some i \<Rightarrow> inv_location_id i) (pk s)
                       (get_default ''fefo'' (st_picking_strategy data)) d1
       in bindE (raise_if (batches = [] \<or> sum_list (map snd batches) < \<bar>st_quantity data\<bar>)
                   (validation ''Insufficient stock'')) (\<lambda>_. Inl TypeError)))"

definition stock_in ::
  "env \<Rightarrow> string \<Rightarrow> stock_req \<Rightarrow> 'a wms_db_scheme \<Rightarrow> ('a wms_db_scheme \<times> inventory_view) result" where
  "stock_in env warehouse_id data d =
     bindE (check_active warehouse_id d) (\<lambda>wh. stock_in_body env (pk wh) data d)"

text \<open>The orders of \<open>stock_out\<close>: an absent expiry is \<open>date.max\<close>, an absent receipt the oldest.\<close>

definition sort_out_batches :: "string \<Rightarrow> inventory list \<Rightarrow> inventory list" where
  "sort_out_batches strategy rows =
     (if strategy = ''fefo'' then
        sort_key (\<lambda>i. (nulls_last (inv_expiry_date i),
                       (case inv_received_at i of None \<Rightarrow> (False, 0) | Some t \<Rightarrow> (True, t)))) rows
      else if strategy = ''fifo'' then
        sort_key (\<lambda>i. ((case inv_received_at i of None \<Rightarrow> (False, 0) | Some t \<Rightarrow> (True, t)), inv_batch_no i)) rows
      else rev (sort_key inv_batch_no (rev rows)))"

text \<open>The deduction loop of \<open>stock_out\<close>, batch by batch.\<close>

fun deduct :: "env \<Rightarrow> inventory list \<Rightarrow> decimal \<Rightarrow> inventory list" where
  "deduct env [] remaining = []"
| "deduct env (b # bs) remaining =
     (let taken = min remaining (available b) in
      if 0 < taken
      then b\<lparr>inv_quantity := inv_quantity b - taken, updated_at := now env\<rparr> # deduct env bs (remaining - taken)
      else b # deduct env bs remaining)"

definition stock_out_body ::
  "env \<Rightarrow> uuid \<Rightarrow> stock_req \<Rightarrow> 'a wms_db_scheme \<Rightarrow> ('a wms_db_scheme \<times> inventory_view) result" where
  "stock_out_body env w data d =
     bindE (get_or_create_sku env (st_sku data) d) (\<lambda>(d1, s).
     let rows = select_where (\<lambda>i. inv_warehouse_id i = Some w \<and> inv_sku_id i = pk s \<and> 0 < inv_quantity i) (inventory_rows d1)
     in bindE (raise_if (rows = []) (validation ''No stock available for this SKU in this warehouse'')) (\<lambda>_.
        let batches = sort_out_batches (get_default ''fefo'' (st_picking_strategy data))
                        (filter (\<lambda>i. 0 < available i) rows)
        in bindE (raise_if (sum_list (map available batches) < st_quantity data) (validation ''Insufficient stock'')) (\<lambda>_.
           if deduct env batches (st_quantity data) = [] then Inl IndexError else Inl TypeError)))"

definition stock_out ::
  "env \<Rightarrow> string \<Rightarrow> stock_req \<Rightarrow> 'a wms_db_scheme \<Rightarrow> ('a wms_db_scheme \<times> inventory_view) result" where
  "stock_out env warehouse_id data d =
     bindE (check_active warehouse_id d) (\<lambda>wh. stock_out_body env (pk wh) data d)"

section \<open>Stock documents\<close>

record doc_line_req =
  dl_sku :: "string option"
  dl_qty :: "decimal option"
  dl_batch_no :: "string option"
  dl_lot_no :: "string option"
  dl_expiry_date :: "datetime option"

record doc_req =
  dq_warehouse_id :: "string option"
  dq_supplier_id :: "string option"
  dq_type :: "string option"
  dq_ref_no :: "string option"
  dq_reference_type :: "string option"
  dq_lines :: "doc_line_req list"

text \<open>\<open>Decimal.quantize(Decimal("0.0001"))\<close> rounds half to even.\<close>

definition round_half_even :: "rat \<Rightarrow> int" where
  "round_half_even x =
     (let f = \<lfloor>x\<rfloor>; r = x - of_int f in
      if r < 1/2 then f else if 1/2 < r then f + 1 else if even f then f else f + 1)"

definition quantize4 :: "decimal \<Rightarrow> decimal" where
  "quantize4 x = of_int (round_half_even (x * 10000)) / 10000"

text \<open>\<open>Decimal(str(ln.get("qty")))\<close>: an absent quantity is not a number.\<close>

definition line_qty :: "doc_line_req \<Rightarrow> decimal result" where
  "line_qty l = of_option InvalidOperation (dl_qty l)"

definition doc_total :: "doc_line_req list \<Rightarrow> decimal result" where
  "doc_total ls = bindE (foldE (\<lambda>l acc. bindE (line_qty l) (\<lambda>q. Inr (acc + q))) ls 0) (\<lambda>t. Inr (quantize4 t))"

definition doc_line :: "env \<Rightarrow> uuid \<Rightarrow> nat \<Rightarrow> doc_line_req \<Rightarrow> stock_doc_line" where
  "doc_line env doc_id i l =
     \<lparr>sdl_id = uuid4 env i, sdl_doc_id = doc_id, sdl_sku = dl_sku l, sdl_qty = get_default 0 (dl_qty l),
      sdl_batch_no = dl_batch_no l, sdl_lot_no = dl_lot_no l, sdl_expiry_date = dl_expiry_date l\<rparr>"

definition doc_lines :: "env \<Rightarrow> uuid \<Rightarrow> nat \<Rightarrow> doc_line_req list \<Rightarrow> stock_doc_line list" where
  "doc_lines env doc_id n ls = map (\<lambda>(i, l). doc_line env doc_id i l) (enumerate n ls)"

text \<open>\<open>data["warehouse_id"]\<close> and the check that the warehouse exists.\<close>

definition doc_warehouse :: "doc_req \<Rightarrow> 'a wms_db_scheme \<Rightarrow> warehouse result" where
  "doc_warehouse data d =
     bindE (of_option (KeyError ''warehouse_id'') (dq_warehouse_id data)) (\<lambda>ws.
     bindE (to_uuid ws) (\<lambda>w.
     find_or_raise (NotFoundException (''warehouse '' @ ws)) (\<lambda>x. pk x = w) (warehouses d)))"

definition new_doc :: "env \<Rightarrow> uuid \<Rightarrow> uuid \<Rightarrow> string \<Rightarrow> uuid option \<Rightarrow> decimal \<Rightarrow> doc_req \<Rightarrow> stock_doc" where
  "new_doc env u w default_type supplier tot data =
     \<lparr>sd_id = u, sd_warehouse_id = w, sd_type = get_default default_type (dq_type data),
      sd_reference_type = dq_reference_type data, sd_ref_no = dq_ref_no data, sd_supplier_id = supplier,
      sd_total_qty = tot, sd_status = ''DRAFT'', sd_created_at = now env\<rparr>"

definition create_stock_in :: "env \<Rightarrow> doc_req \<Rightarrow> 'a wms_db_scheme \<Rightarrow> ('a wms_db_scheme \<times> stock_doc) result" where
  "create_stock_in env data d =
     bindE (doc_warehouse data d) (\<lambda>wh.
     bindE (if truthy (dq_supplier_id data)
            then let ss = get_default [] (dq_supplier_id data) in
                 bindE (to_uuid ss) (\<lambda>s.
                 bindE (find_or_raise (NotFoundException (''vendor '' @ ss)) (\<lambda>v. pk v = s) (vendors d)) (\<lambda>_. Inr (Some s)))
            else Inr None) (\<lambda>supplier.
     bindE (doc_total (dq_lines data)) (\<lambda>t.
     let u = new_uuid env d; obj = new_doc env u (pk wh) ''PURCHASE'' supplier t data
     in Inr (d\<lparr>drawn := drawn d + 1 + length (dq_lines data), stock_ins := insert_row obj (stock_ins d),
               stock_in_lines := stock_in_lines d @ doc_lines env u (drawn d + 1) (dq_lines data)\<rparr>, obj))))"

definition create_stock_out :: "env \<Rightarrow> doc_req \<Rightarrow> 'a wms_db_scheme \<Rightarrow> ('a wms_db_scheme \<times> stock_doc) result" where
  "create_stock_out env data d =
     bindE (doc_warehouse data d) (\<lambda>wh.
     bindE (doc_total (dq_lines data)) (\<lambda>t.
     let u = new_uuid env d; obj = new_doc env u (pk wh) ''SALE'' None t data
     in Inr (d\<lparr>drawn := drawn d + 1 + length (dq_lines data), stock_outs := insert_row obj (stock_outs d),
               stock_out_lines := stock_out_lines d @ doc_lines env u (drawn d + 1) (dq_lines data)\<rparr>, obj)))"

definition find_doc :: "string \<Rightarrow> string \<Rightarrow> stock_doc list \<Rightarrow> stock_doc result" where
  "find_doc kind id' docs =
     bindE (to_uuid id') (\<lambda>u.
     of_option (NotFoundException (kind @ '' '' @ id')) (find (\<lambda>x. sd_id x = u) docs))"

definition get_stock_in :: "string \<Rightarrow> 'a wms_db_scheme \<Rightarrow> (stock_doc \<times> stock_doc_line list) result" where
  "get_stock_in id' d =
     bindE (find_doc ''stock-in'' id' (stock_ins d)) (\<lambda>obj.
     Inr (obj, select_where (\<lambda>l. sdl_doc_id l = sd_id obj) (stock_in_lines d)))"

definition get_stock_out :: "string \<Rightarrow> 'a wms_db_scheme \<Rightarrow> (stock_doc \<times> stock_doc_line list) result" where
  "get_stock_out id' d =
     bindE (find_doc ''stock-out'' id' (stock_outs d)) (\<lambda>obj.
     Inr (obj, select_where (\<lambda>l. sdl_doc_id l = sd_id obj) (stock_out_lines d)))"

definition list_docs :: "string option \<Rightarrow> stock_doc list \<Rightarrow> stock_doc list result" where
  "list_docs warehouse_id docs =
     bindE (uuid_if_truthy warehouse_id) (\<lambda>w.
     Inr (order_by_desc sd_created_at
            (select_where (\<lambda>x. sd_status x \<noteq> ''CANCELLED'' \<and>
                               (case w of None \<Rightarrow> True | Some u \<Rightarrow> sd_warehouse_id x = u)) docs)))"

definition list_stock_in :: "string option \<Rightarrow> 'a wms_db_scheme \<Rightarrow> stock_doc list result" where
  "list_stock_in warehouse_id d = list_docs warehouse_id (stock_ins d)"

definition list_stock_out :: "string option \<Rightarrow> 'a wms_db_scheme \<Rightarrow> stock_doc list result" where
  "list_stock_out warehouse_id d = list_docs warehouse_id (stock_outs d)"

text \<open>The transition tables of the two update routes.\<close>

definition stock_in_transitions :: "string \<Rightarrow> string list" where
  "stock_in_transitions s =
     (if s = ''DRAFT'' then [''CONFIRMED''] else if s = ''CONFIRMED'' then [''RECEIVED''] else [])"

definition stock_out_transitions :: "string \<Rightarrow> string list" where
  "stock_out_transitions s =
     (if s = ''DRAFT'' then [''CONFIRMED''] else if s = ''CONFIRMED'' then [''SHIPPED''] else [])"

definition check_doc_status :: "(string \<Rightarrow> string list) \<Rightarrow> string \<Rightarrow> string \<Rightarrow> string result" where
  "check_doc_status tr current target =
     bindE (raise_if (target \<notin> set (tr current))
              (HTTPException 400 (''Invalid status transition '' @ current @ '' -> '' @ target))) (\<lambda>_. Inr target)"

text \<open>The request: a status, if named, and assignments to other columns.\<close>

definition update_doc ::
  "(string \<Rightarrow> string list) \<Rightarrow> string option \<Rightarrow> (stock_doc \<Rightarrow> stock_doc) \<Rightarrow> stock_doc \<Rightarrow> stock_doc result" where
  "update_doc tr status set_others obj =
     (case status of
        None \<Rightarrow> Inr (set_others obj)
      | Some s \<Rightarrow>
          if s = sd_status obj then Inr (set_others obj)
          else bindE (check_doc_status tr (sd_status obj) s) (\<lambda>s'. Inr ((set_others obj)\<lparr>sd_status := s'\<rparr>)))"

definition update_stock_in ::
  "string \<Rightarrow> string option \<Rightarrow> (stock_doc \<Rightarrow> stock_doc) \<Rightarrow> 'a wms_db_scheme \<Rightarrow> ('a wms_db_scheme \<times> stock_doc) result" where
  "update_stock_in id' status set_others d =
     bindE (find_doc ''stock-in'' id' (stock_ins d)) (\<lambda>obj.
     bindE (update_doc stock_in_transitions status set_others obj) (\<lambda>obj'.
     Inr (d\<lparr>stock_ins := update_where (\<lambda>x. sd_id x = sd_id obj) (\<lambda>_. obj') (stock_ins d)\<rparr>, obj')))"

definition update_stock_out ::
  "string \<Rightarrow> string option \<Rightarrow> (stock_doc \<Rightarrow> stock_doc) \<Rightarrow> 'a wms_db_scheme \<Rightarrow> ('a wms_db_scheme \<times> stock_doc) result" where
  "update_stock_out id' status set_others d =
     bindE (find_doc ''stock-out'' id' (stock_outs d)) (\<lambda>obj.
     bindE (update_doc stock_out_transitions status set_others obj) (\<lambda>obj'.
     Inr (d\<lparr>stock_outs := update_where (\<lambda>x. sd_id x = sd_id obj) (\<lambda>_. obj') (stock_outs d)\<rparr>, obj')))"

section \<open>The stock log and bulk adjustment\<close>

definition get_inventory_log :: "string \<Rightarrow> 'a wms_db_scheme \<Rightarrow> stock_inventory_log result" where
  "get_inventory_log id' d =
     bindE (to_uuid id') (\<lambda>u.
     of_option (NotFoundException (''inventory-log '' @ id')) (find (\<lambda>x. sil_id x = u) (stock_inventory_logs d)))"

definition list_inventory_log :: "string option \<Rightarrow> 'a wms_db_scheme \<Rightarrow> stock_inventory_log list result" where
  "list_inventory_log warehouse_id d =
     bindE (uuid_if_truthy warehouse_id) (\<lambda>w.
     Inr (order_by_desc sil_created_at
            (select_where (\<lambda>x. case w of None \<Rightarrow> True | Some u \<Rightarrow> sil_warehouse_id x = u) (stock_inventory_logs d))))"

definition adjust_stock ::
  "env \<Rightarrow> string \<Rightarrow> string \<Rightarrow> decimal \<Rightarrow> uuid option \<Rightarrow> string option \<Rightarrow> string option \<Rightarrow> 'a wms_db_scheme \<Rightarrow>
   ('a wms_db_scheme \<times> decimal \<times> string) result" where
  "adjust_stock env sku_id warehouse_id qty operator_id reason remark d =
     bindE (to_uuid sku_id) (\<lambda>s.
     bindE (to_uuid warehouse_id) (\<lambda>w.
     bindE (raise_if (qty = 0) (HTTPException 400 ''Quantity must be non-zero'')) (\<lambda>_.
     let adj_type = (if 0 < qty then ''ADJUSTMENT_IN'' else ''ADJUSTMENT_OUT'');
         log_entry = \<lparr>sil_id = new_uuid env d, sil_warehouse_id = w, sil_sku = show_uuid s, sil_type = adj_type,
           sil_reference_type = Some ''adjust_stock'', sil_reference_id = None, sil_quantity_change = \<bar>qty\<bar>,
           sil_operator_id = operator_id, sil_reason = reason, sil_remark = remark, sil_created_at = now env\<rparr>
     in Inr ((tick d)\<lparr>stock_inventory_logs := insert_row log_entry (stock_inventory_logs d)\<rparr>, \<bar>qty\<bar>, adj_type))))"

section \<open>Facts\<close>

text \<open>No call of the two stock functions succeeds.\<close>

lemma check_active_refuses: "\<exists>e. check_active w d = Inl e"
proof (cases "check_active w d")
  case (Inr x)
  then show ?thesis by (auto simp: check_active_def status_differs_from_value_def)
qed simp

lemma stock_in_refuses: "\<exists>e. stock_in env w data d = Inl e"
  using check_active_refuses[of w d] by (auto simp: stock_in_def)

lemma stock_out_refuses: "\<exists>e. stock_out env w data d = Inl e"
  using check_active_refuses[of w d] by (auto simp: stock_out_def)

lemma stock_in_active:
  assumes "to_uuid w = Inr u" "find_one (\<lambda>x. pk x = u) (warehouses d) = Inr (Some wh)"
  shows "stock_in env w data d = Inl (validation (''Warehouse '' @ wh_code wh @ '' is inactive''))"
    "stock_out env w data d = Inl (validation (''Warehouse '' @ wh_code wh @ '' is inactive''))"
  using assms by (simp_all add: stock_in_def stock_out_def check_active_def status_differs_from_value_def find_or_raise_def)

text \<open>The deduction loop by itself conserves stock and leaves the locked part alone.\<close>

lemma deduct_total:
  assumes "\<forall>b\<in>set bs. 0 \<le> available b" "0 \<le> q" "q \<le> sum_list (map available bs)"
  shows "sum_list (map inv_quantity (deduct env bs q)) = sum_list (map inv_quantity bs) - q"
  using assms
proof (induction bs arbitrary: q)
  case (Cons b bs)
  show ?case
  proof (cases "0 < min q (available b)")
    case True
    have "q - min q (available b) \<le> sum_list (map available bs)"
    proof (cases "q \<le> available b")
      case True
      have "0 \<le> sum_list (map available bs)" using Cons.prems(1) by (intro sum_list_nonneg) auto
      with True show ?thesis by simp
    qed (use Cons.prems(3) in simp)
    with Cons.IH[of "q - min q (available b)"] Cons.prems True show ?thesis by (simp add: Let_def)
  next
    case False
    have "q \<le> sum_list (map available bs)"
    proof (cases "q \<le> available b")
      case True
      with False Cons.prems(2) have "q = 0" by (simp add: min_def split: if_splits)
      moreover have "0 \<le> sum_list (map available bs)" using Cons.prems(1) by (intro sum_list_nonneg) auto
      ultimately show ?thesis by simp
    next
      case le: False
      with False have "available b \<le> 0" by (simp add: min_def)
      with Cons.prems(1,3) show ?thesis by simp
    qed
    then have "sum_list (map inv_quantity (deduct env bs q)) = sum_list (map inv_quantity bs) - q"
      using Cons.IH[of q] Cons.prems by simp
    then show ?thesis unfolding deduct.simps Let_def using False by (simp only: if_False) simp
  qed
qed simp

lemma deduct_keeps_locked:
  assumes "\<forall>b\<in>set bs. 0 \<le> available b" "b' \<in> set (deduct env bs q)"
  shows "0 \<le> available b'"
  using assms
proof (induction bs arbitrary: q)
  case (Cons b bs)
  then show ?case
    by (cases "0 < min q (available b)") (auto simp: Let_def available_def)
qed simp

text \<open>The document lifecycles.\<close>

definition doc_rank :: "string \<Rightarrow> nat" where
  "doc_rank s = (if s = ''DRAFT'' then 2 else if s = ''CONFIRMED'' then 1 else 0)"

lemma check_doc_status_iff: "check_doc_status tr s t = Inr u \<longleftrightarrow> t \<in> set (tr s) \<and> u = t"
  by (auto simp: check_doc_status_def)

interpretation stock_in_lifecycle: ranked_status_machine stock_in_transitions "check_doc_status stock_in_transitions" doc_rank
  by unfold_locales
    (auto simp: check_doc_status_def stock_in_transitions_def doc_rank_def split: if_splits)

interpretation stock_out_lifecycle: ranked_status_machine stock_out_transitions "check_doc_status stock_out_transitions" doc_rank
  by unfold_locales
    (auto simp: check_doc_status_def stock_out_transitions_def doc_rank_def split: if_splits)

lemma update_doc_status:
  assumes "update_doc tr status f obj = Inr obj'" "\<And>x. sd_status (f x) = sd_status x"
  shows "sd_status obj' = sd_status obj \<or> sd_status obj' \<in> set (tr (sd_status obj))"
  using assms by (auto simp: update_doc_def check_doc_status_iff split: option.splits if_splits)

text \<open>Creating a document and reading it back gives its lines.\<close>

lemma doc_total_eq:
  assumes "doc_total ls = Inr t"
  shows "t = quantize4 (sum_list (map (\<lambda>l. get_default 0 (dl_qty l)) ls))"
proof -
  have "foldE (\<lambda>l acc. bindE (line_qty l) (\<lambda>q. Inr (acc + q))) ls a = Inr s \<Longrightarrow>
      s = a + sum_list (map (\<lambda>l. get_default 0 (dl_qty l)) ls)" for a s
  proof (induction ls arbitrary: a)
    case (Cons l ls)
    then obtain q where "dl_qty l = Some q" "foldE (\<lambda>l acc. bindE (line_qty l) (\<lambda>q. Inr (acc + q))) ls (a + q) = Inr s"
      by (auto simp: line_qty_def)
    with Cons.IH[of "a + q"] show ?case by simp
  qed simp
  with assms show ?thesis by (fastforce simp: doc_total_def)
qed

lemma find_last_new: "\<forall>x\<in>set xs. \<not> P x \<Longrightarrow> P y \<Longrightarrow> find P (xs @ [y]) = Some y"
  by (induction xs) auto

lemma create_stock_in_get:
  assumes "create_stock_in env data d = Inr (d', obj)" "new_uuid env d \<notin> sd_id ` set (stock_ins d)"
    "new_uuid env d \<notin> sdl_doc_id ` set (stock_in_lines d)"
  shows "get_stock_in (show_uuid (sd_id obj)) d' =
      Inr (obj, doc_lines env (sd_id obj) (drawn d + 1) (dq_lines data))"
    "sd_status obj = ''DRAFT''" "sd_total_qty obj = quantize4 (sum_list (map (\<lambda>l. get_default 0 (dl_qty l)) (dq_lines data)))"
proof -
  from assms(1) obtain wh :: warehouse and sup t where t: "doc_total (dq_lines data) = Inr t"
    and obj0: "obj = new_doc env (new_uuid env d) (pk wh) ''PURCHASE'' sup t data \<and>
      d' = d\<lparr>drawn := drawn d + 1 + length (dq_lines data), stock_ins := stock_ins d @ [obj],
               stock_in_lines := stock_in_lines d @ doc_lines env (new_uuid env d) (drawn d + 1) (dq_lines data)\<rparr>"
    by (auto simp: create_stock_in_def Let_def insert_row_def)
  then have obj: "obj = new_doc env (new_uuid env d) (pk wh) ''PURCHASE'' sup t data"
    and d': "stock_ins d' = stock_ins d @ [obj]" "stock_in_lines d' = stock_in_lines d @ doc_lines env (new_uuid env d) (drawn d + 1) (dq_lines data)"
    by simp_all
  have id': "sd_id obj = new_uuid env d" by (simp add: obj new_doc_def)
  have "find (\<lambda>x. sd_id x = sd_id obj) (stock_ins d') = Some obj"
  proof -
    have "\<forall>x\<in>set (stock_ins d). \<not> sd_id x = new_uuid env d" using assms(2) by (metis imageI)
    then have "find (\<lambda>x. sd_id x = new_uuid env d) (stock_ins d @ [obj]) = Some obj"
      by (rule find_last_new) (rule id')
    then have "find (\<lambda>x. sd_id x = sd_id obj) (stock_ins d @ [obj]) = Some obj" by (simp only: id')
    then show ?thesis by (simp add: d')
  qed
  moreover have "filter (\<lambda>l. sdl_doc_id l = sd_id obj) (stock_in_lines d') = doc_lines env (sd_id obj) (drawn d + 1) (dq_lines data)"
  proof -
    have "\<forall>l\<in>set (doc_lines env (new_uuid env d) (drawn d + 1) (dq_lines data)). sdl_doc_id l = new_uuid env d"
      by (auto simp: doc_lines_def doc_line_def)
    moreover have "\<forall>l\<in>set (stock_in_lines d). sdl_doc_id l \<noteq> new_uuid env d" using assms(3) by (metis imageI)
    ultimately show ?thesis by (simp add: d' id' filter_empty_conv filter_id_conv)
  qed
  ultimately show "get_stock_in (show_uuid (sd_id obj)) d' =
      Inr (obj, doc_lines env (sd_id obj) (drawn d + 1) (dq_lines data))"
    by (simp add: get_stock_in_def find_doc_def select_where_def)
  show "sd_status obj = ''DRAFT''" by (simp add: obj new_doc_def)
  show "sd_total_qty obj = quantize4 (sum_list (map (\<lambda>l. get_default 0 (dl_qty l)) (dq_lines data)))"
    using doc_total_eq[OF t] by (simp add: obj new_doc_def)
qed

end
