(* ===== verification/Tms_Enums.thy ===== *)
theory Tms_Enums
  imports Exceptions
begin

text \<open>
  The enumerations of \<open>src/tms/models.py\<close>. Each is a \<open>StrEnum\<close>: a datatype with the source's members,
  the value of each member, and the list of members in declaration order. \<open>enum_of\<close> is the call
  \<open>Cls(value)\<close>; \<open>enum_column\<close> is a string given for a column of the enumeration: the value of a
  member is stored as its name, any other string is sent as it is and PostgreSQL rejects it when it is
  no member's name; in these enumerations the name is the value in capitals. The locale \<open>str_enum\<close> states that the members are complete and
  have distinct values and derives the round trip; every enumeration interprets it.
\<close>

definition enum_find :: "('a \<Rightarrow> string) \<Rightarrow> 'a list \<Rightarrow> string \<Rightarrow> 'a option" where
  "enum_find val ms s = find (\<lambda>m. val m = s) ms"

definition enum_of :: "('a \<Rightarrow> string) \<Rightarrow> 'a list \<Rightarrow> string \<Rightarrow> 'a result" where
  "enum_of val ms s = of_option ValueError (enum_find val ms s)"

definition enum_column :: "('a \<Rightarrow> string) \<Rightarrow> 'a list \<Rightarrow> string \<Rightarrow> 'a result" where
  "enum_column val ms s =
     of_option DataError (case enum_find val ms s of Some m \<Rightarrow> Some m | None \<Rightarrow> enum_find (\<lambda>m. upper (val m)) ms s)"

text \<open>\<open>Cls(v) if v else None\<close>\<close>

definition enum_if_truthy :: "('a \<Rightarrow> string) \<Rightarrow> 'a list \<Rightarrow> string option \<Rightarrow> 'a option result" where
  "enum_if_truthy val ms v =
     (if truthy v then bindE (enum_of val ms (get_default [] v)) (\<lambda>m. Inr (Some m)) else Inr None)"

locale str_enum =
  fixes val :: "'a \<Rightarrow> string"
    and members :: "'a list"
  assumes complete: "x \<in> set members"
    and values_distinct: "distinct (map val members)"
begin

lemma value_inj: "val x = val y \<longleftrightarrow> x = y"
proof -
  have "inj_on val (set members)" using values_distinct by (simp add: distinct_map)
  then show ?thesis using complete by (auto dest: inj_onD)
qed

lemma find_value: "enum_find val members (val x) = Some x"
proof -
  have "find (\<lambda>m. val m = val x) members \<noteq> None" using complete[of x] by (auto simp: find_None_iff)
  then show ?thesis by (auto simp: enum_find_def find_Some_iff value_inj)
qed

lemma find_SomeD: "enum_find val members s = Some x \<Longrightarrow> val x = s"
  by (auto simp: enum_find_def find_Some_iff)

lemma find_iff: "enum_find val members s = Some x \<longleftrightarrow> val x = s"
  using find_value[of x] find_SomeD[of s x] by auto

lemma of_value: "enum_of val members (val x) = Inr x"
  by (simp add: enum_of_def find_value)

lemma column_value: "enum_column val members (val x) = Inr x"
  by (simp add: enum_column_def find_value)

lemma of_eq_Inr: "enum_of val members s = Inr x \<longleftrightarrow> val x = s"
  by (simp add: enum_of_def find_iff)

lemma of_eq_Inl: "enum_of val members s = Inl e \<longleftrightarrow> e = ValueError \<and> (\<forall>x. val x \<noteq> s)"
  using complete by (auto simp: enum_of_def enum_find_def find_None_iff)

end

datatype carrier_code = CarrierCode_SF_EXPRESS | CarrierCode_ZTO | CarrierCode_YUNDA | CarrierCode_JD_LOGISTICS | CarrierCode_EMS

fun carrier_code_value :: "carrier_code \<Rightarrow> string" where
  "carrier_code_value CarrierCode_SF_EXPRESS = ''sf_express''"
| "carrier_code_value CarrierCode_ZTO = ''zto''"
| "carrier_code_value CarrierCode_YUNDA = ''yunda''"
| "carrier_code_value CarrierCode_JD_LOGISTICS = ''jd_logistics''"
| "carrier_code_value CarrierCode_EMS = ''ems''"

definition carrier_codes :: "carrier_code list" where
  "carrier_codes = [CarrierCode_SF_EXPRESS, CarrierCode_ZTO, CarrierCode_YUNDA, CarrierCode_JD_LOGISTICS, CarrierCode_EMS]"

interpretation carrier_code_enum: str_enum carrier_code_value carrier_codes
proof
  show "x \<in> set carrier_codes" for x by (cases x) (simp_all add: carrier_codes_def)
  show "distinct (map carrier_code_value carrier_codes)" by (simp add: carrier_codes_def)
qed

datatype transport_status = TransportStatus_DRAFT | TransportStatus_DISPATCHED | TransportStatus_PICKUP_COMPLETED | TransportStatus_IN_TRANSIT | TransportStatus_OUT_FOR_DELIVERY | TransportStatus_DELIVERED | TransportStatus_EXCEPTION | TransportStatus_CANCELLED

fun transport_status_value :: "transport_status \<Rightarrow> string" where
  "transport_status_value TransportStatus_DRAFT = ''draft''"
| "transport_status_value TransportStatus_DISPATCHED = ''dispatched''"
| "transport_status_value TransportStatus_PICKUP_COMPLETED = ''pickup_completed''"
| "transport_status_value TransportStatus_IN_TRANSIT = ''in_transit''"
| "transport_status_value TransportStatus_OUT_FOR_DELIVERY = ''out_for_delivery''"
| "transport_status_value TransportStatus_DELIVERED = ''delivered''"
| "transport_status_value TransportStatus_EXCEPTION = ''exception''"
| "transport_status_value TransportStatus_CANCELLED = ''cancelled''"

definition transport_statuss :: "transport_status list" where
  "transport_statuss = [TransportStatus_DRAFT, TransportStatus_DISPATCHED, TransportStatus_PICKUP_COMPLETED, TransportStatus_IN_TRANSIT, TransportStatus_OUT_FOR_DELIVERY, TransportStatus_DELIVERED, TransportStatus_EXCEPTION, TransportStatus_CANCELLED]"

interpretation transport_status_enum: str_enum transport_status_value transport_statuss
proof
  show "x \<in> set transport_statuss" for x by (cases x) (simp_all add: transport_statuss_def)
  show "distinct (map transport_status_value transport_statuss)" by (simp add: transport_statuss_def)
qed

datatype carrier_service_type = CarrierServiceType_STANDARD | CarrierServiceType_EXPRESS | CarrierServiceType_OVERNIGHT | CarrierServiceType_FREIGHT

fun carrier_service_type_value :: "carrier_service_type \<Rightarrow> string" where
  "carrier_service_type_value CarrierServiceType_STANDARD = ''standard''"
| "carrier_service_type_value CarrierServiceType_EXPRESS = ''express''"
| "carrier_service_type_value CarrierServiceType_OVERNIGHT = ''overnight''"
| "carrier_service_type_value CarrierServiceType_FREIGHT = ''freight''"

definition carrier_service_types :: "carrier_service_type list" where
  "carrier_service_types = [CarrierServiceType_STANDARD, CarrierServiceType_EXPRESS, CarrierServiceType_OVERNIGHT, CarrierServiceType_FREIGHT]"

interpretation carrier_service_type_enum: str_enum carrier_service_type_value carrier_service_types
proof
  show "x \<in> set carrier_service_types" for x by (cases x) (simp_all add: carrier_service_types_def)
  show "distinct (map carrier_service_type_value carrier_service_types)" by (simp add: carrier_service_types_def)
qed

datatype transport_type = TransportType_SELF_DELIVERY | TransportType_CARRIER_PICKUP | TransportType_DROP_OFF

fun transport_type_value :: "transport_type \<Rightarrow> string" where
  "transport_type_value TransportType_SELF_DELIVERY = ''self_delivery''"
| "transport_type_value TransportType_CARRIER_PICKUP = ''carrier_pickup''"
| "transport_type_value TransportType_DROP_OFF = ''drop_off''"

definition transport_types :: "transport_type list" where
  "transport_types = [TransportType_SELF_DELIVERY, TransportType_CARRIER_PICKUP, TransportType_DROP_OFF]"

interpretation transport_type_enum: str_enum transport_type_value transport_types
proof
  show "x \<in> set transport_types" for x by (cases x) (simp_all add: transport_types_def)
  show "distinct (map transport_type_value transport_types)" by (simp add: transport_types_def)
qed

datatype tracking_event_type = TrackingEventType_CREATED | TrackingEventType_DISPATCHED | TrackingEventType_PICKUP_COMPLETED | TrackingEventType_IN_TRANSIT | TrackingEventType_ARRIVED_HUB | TrackingEventType_SORTING_CENTER | TrackingEventType_OUT_FOR_DELIVERY | TrackingEventType_DELIVERED | TrackingEventType_EXCEPTION_DELAY | TrackingEventType_EXCEPTION_DAMAGED | TrackingEventType_CANCELLED

fun tracking_event_type_value :: "tracking_event_type \<Rightarrow> string" where
  "tracking_event_type_value TrackingEventType_CREATED = ''created''"
| "tracking_event_type_value TrackingEventType_DISPATCHED = ''dispatched''"
| "tracking_event_type_value TrackingEventType_PICKUP_COMPLETED = ''pickup_completed''"
| "tracking_event_type_value TrackingEventType_IN_TRANSIT = ''in_transit''"
| "tracking_event_type_value TrackingEventType_ARRIVED_HUB = ''arrived_hub''"
| "tracking_event_type_value TrackingEventType_SORTING_CENTER = ''sorting_center''"
| "tracking_event_type_value TrackingEventType_OUT_FOR_DELIVERY = ''out_for_delivery''"
| "tracking_event_type_value TrackingEventType_DELIVERED = ''delivered''"
| "tracking_event_type_value TrackingEventType_EXCEPTION_DELAY = ''exception_delay''"
| "tracking_event_type_value TrackingEventType_EXCEPTION_DAMAGED = ''exception_damaged''"
| "tracking_event_type_value TrackingEventType_CANCELLED = ''cancelled''"

definition tracking_event_types :: "tracking_event_type list" where
  "tracking_event_types = [TrackingEventType_CREATED, TrackingEventType_DISPATCHED, TrackingEventType_PICKUP_COMPLETED, TrackingEventType_IN_TRANSIT, TrackingEventType_ARRIVED_HUB, TrackingEventType_SORTING_CENTER, TrackingEventType_OUT_FOR_DELIVERY, TrackingEventType_DELIVERED, TrackingEventType_EXCEPTION_DELAY, TrackingEventType_EXCEPTION_DAMAGED, TrackingEventType_CANCELLED]"

interpretation tracking_event_type_enum: str_enum tracking_event_type_value tracking_event_types
proof
  show "x \<in> set tracking_event_types" for x by (cases x) (simp_all add: tracking_event_types_def)
  show "distinct (map tracking_event_type_value tracking_event_types)" by (simp add: tracking_event_types_def)
qed

datatype pod_signature = PODSignature_PHYSICAL | PODSignature_DIGITAL

fun pod_signature_value :: "pod_signature \<Rightarrow> string" where
  "pod_signature_value PODSignature_PHYSICAL = ''physical''"
| "pod_signature_value PODSignature_DIGITAL = ''digital''"

definition pod_signatures :: "pod_signature list" where
  "pod_signatures = [PODSignature_PHYSICAL, PODSignature_DIGITAL]"

interpretation pod_signature_enum: str_enum pod_signature_value pod_signatures
proof
  show "x \<in> set pod_signatures" for x by (cases x) (simp_all add: pod_signatures_def)
  show "distinct (map pod_signature_value pod_signatures)" by (simp add: pod_signatures_def)
qed

datatype transfer_hub_type = TransferHubType_PRIMARY | TransferHubType_SECONDARY | TransferHubType_CARGO_STATION

fun transfer_hub_type_value :: "transfer_hub_type \<Rightarrow> string" where
  "transfer_hub_type_value TransferHubType_PRIMARY = ''primary''"
| "transfer_hub_type_value TransferHubType_SECONDARY = ''secondary''"
| "transfer_hub_type_value TransferHubType_CARGO_STATION = ''cargo_station''"

definition transfer_hub_types :: "transfer_hub_type list" where
  "transfer_hub_types = [TransferHubType_PRIMARY, TransferHubType_SECONDARY, TransferHubType_CARGO_STATION]"

interpretation transfer_hub_type_enum: str_enum transfer_hub_type_value transfer_hub_types
proof
  show "x \<in> set transfer_hub_types" for x by (cases x) (simp_all add: transfer_hub_types_def)
  show "distinct (map transfer_hub_type_value transfer_hub_types)" by (simp add: transfer_hub_types_def)
qed

datatype hub_status = HubStatus_OPEN | HubStatus_MAINTENANCE | HubStatus_CLOSED

fun hub_status_value :: "hub_status \<Rightarrow> string" where
  "hub_status_value HubStatus_OPEN = ''open''"
| "hub_status_value HubStatus_MAINTENANCE = ''maintenance''"
| "hub_status_value HubStatus_CLOSED = ''closed''"

definition hub_statuss :: "hub_status list" where
  "hub_statuss = [HubStatus_OPEN, HubStatus_MAINTENANCE, HubStatus_CLOSED]"

interpretation hub_status_enum: str_enum hub_status_value hub_statuss
proof
  show "x \<in> set hub_statuss" for x by (cases x) (simp_all add: hub_statuss_def)
  show "distinct (map hub_status_value hub_statuss)" by (simp add: hub_statuss_def)
qed

datatype segment_status = TransportSegmentStatus_DRAFT | TransportSegmentStatus_DISPATCHED | TransportSegmentStatus_PICKUP | TransportSegmentStatus_IN_TRANSIT | TransportSegmentStatus_TRANSIT_HUB_ARRIVED | TransportSegmentStatus_SORTING_CENTER | TransportSegmentStatus_OUT_FOR_DELIVERY | TransportSegmentStatus_COMPLETED | TransportSegmentStatus_EXCEPTION | TransportSegmentStatus_CANCELLED

fun segment_status_value :: "segment_status \<Rightarrow> string" where
  "segment_status_value TransportSegmentStatus_DRAFT = ''draft''"
| "segment_status_value TransportSegmentStatus_DISPATCHED = ''dispatched''"
| "segment_status_value TransportSegmentStatus_PICKUP = ''pickup''"
| "segment_status_value TransportSegmentStatus_IN_TRANSIT = ''in_transit''"
| "segment_status_value TransportSegmentStatus_TRANSIT_HUB_ARRIVED = ''transit_hub_arrived''"
| "segment_status_value TransportSegmentStatus_SORTING_CENTER = ''sorting_center''"
| "segment_status_value TransportSegmentStatus_OUT_FOR_DELIVERY = ''out_for_delivery''"
| "segment_status_value TransportSegmentStatus_COMPLETED = ''completed''"
| "segment_status_value TransportSegmentStatus_EXCEPTION = ''exception''"
| "segment_status_value TransportSegmentStatus_CANCELLED = ''cancelled''"

definition segment_statuss :: "segment_status list" where
  "segment_statuss = [TransportSegmentStatus_DRAFT, TransportSegmentStatus_DISPATCHED, TransportSegmentStatus_PICKUP, TransportSegmentStatus_IN_TRANSIT, TransportSegmentStatus_TRANSIT_HUB_ARRIVED, TransportSegmentStatus_SORTING_CENTER, TransportSegmentStatus_OUT_FOR_DELIVERY, TransportSegmentStatus_COMPLETED, TransportSegmentStatus_EXCEPTION, TransportSegmentStatus_CANCELLED]"

interpretation segment_status_enum: str_enum segment_status_value segment_statuss
proof
  show "x \<in> set segment_statuss" for x by (cases x) (simp_all add: segment_statuss_def)
  show "distinct (map segment_status_value segment_statuss)" by (simp add: segment_statuss_def)
qed

datatype route_plan_type = RoutePlanType_AUTO_GEN | RoutePlanType_MANUAL

fun route_plan_type_value :: "route_plan_type \<Rightarrow> string" where
  "route_plan_type_value RoutePlanType_AUTO_GEN = ''auto_gen''"
| "route_plan_type_value RoutePlanType_MANUAL = ''manual''"

definition route_plan_types :: "route_plan_type list" where
  "route_plan_types = [RoutePlanType_AUTO_GEN, RoutePlanType_MANUAL]"

interpretation route_plan_type_enum: str_enum route_plan_type_value route_plan_types
proof
  show "x \<in> set route_plan_types" for x by (cases x) (simp_all add: route_plan_types_def)
  show "distinct (map route_plan_type_value route_plan_types)" by (simp add: route_plan_types_def)
qed

datatype route_plan_status = RoutePlanStatus_ROUTE_ACTIVE | RoutePlanStatus_IN_PROGRESS | RoutePlanStatus_COMPLETED | RoutePlanStatus_CANCELLED

fun route_plan_status_value :: "route_plan_status \<Rightarrow> string" where
  "route_plan_status_value RoutePlanStatus_ROUTE_ACTIVE = ''route_active''"
| "route_plan_status_value RoutePlanStatus_IN_PROGRESS = ''in_progress''"
| "route_plan_status_value RoutePlanStatus_COMPLETED = ''completed''"
| "route_plan_status_value RoutePlanStatus_CANCELLED = ''cancelled''"

definition route_plan_statuss :: "route_plan_status list" where
  "route_plan_statuss = [RoutePlanStatus_ROUTE_ACTIVE, RoutePlanStatus_IN_PROGRESS, RoutePlanStatus_COMPLETED, RoutePlanStatus_CANCELLED]"

interpretation route_plan_status_enum: str_enum route_plan_status_value route_plan_statuss
proof
  show "x \<in> set route_plan_statuss" for x by (cases x) (simp_all add: route_plan_statuss_def)
  show "distinct (map route_plan_status_value route_plan_statuss)" by (simp add: route_plan_statuss_def)
qed

datatype return_reason = ReturnReason_DAMAGED | ReturnReason_WRONG_ITEM | ReturnReason_QUALITY_ISSUE | ReturnReason_CUSTOMER_RETRIEVAL | ReturnReason_ADDRESS_ERROR | ReturnReason_DUPLICATE_ORDER

fun return_reason_value :: "return_reason \<Rightarrow> string" where
  "return_reason_value ReturnReason_DAMAGED = ''damaged''"
| "return_reason_value ReturnReason_WRONG_ITEM = ''wrong_item''"
| "return_reason_value ReturnReason_QUALITY_ISSUE = ''quality_issue''"
| "return_reason_value ReturnReason_CUSTOMER_RETRIEVAL = ''customer_retrieval''"
| "return_reason_value ReturnReason_ADDRESS_ERROR = ''address_error''"
| "return_reason_value ReturnReason_DUPLICATE_ORDER = ''duplicate_order''"

definition return_reasons :: "return_reason list" where
  "return_reasons = [ReturnReason_DAMAGED, ReturnReason_WRONG_ITEM, ReturnReason_QUALITY_ISSUE, ReturnReason_CUSTOMER_RETRIEVAL, ReturnReason_ADDRESS_ERROR, ReturnReason_DUPLICATE_ORDER]"

interpretation return_reason_enum: str_enum return_reason_value return_reasons
proof
  show "x \<in> set return_reasons" for x by (cases x) (simp_all add: return_reasons_def)
  show "distinct (map return_reason_value return_reasons)" by (simp add: return_reasons_def)
qed

datatype return_status = ReturnStatus_REQUESTED | ReturnStatus_PICKUP_SCHEDULED | ReturnStatus_IN_TRANSIT_RETURN | ReturnStatus_RETURNED_TO_WAREHOUSE | ReturnStatus_REFUNDED | ReturnStatus_CLOSED

fun return_status_value :: "return_status \<Rightarrow> string" where
  "return_status_value ReturnStatus_REQUESTED = ''requested''"
| "return_status_value ReturnStatus_PICKUP_SCHEDULED = ''pickup_scheduled''"
| "return_status_value ReturnStatus_IN_TRANSIT_RETURN = ''in_transit_return''"
| "return_status_value ReturnStatus_RETURNED_TO_WAREHOUSE = ''returned_to_warehouse''"
| "return_status_value ReturnStatus_REFUNDED = ''refunded''"
| "return_status_value ReturnStatus_CLOSED = ''closed''"

definition return_statuss :: "return_status list" where
  "return_statuss = [ReturnStatus_REQUESTED, ReturnStatus_PICKUP_SCHEDULED, ReturnStatus_IN_TRANSIT_RETURN, ReturnStatus_RETURNED_TO_WAREHOUSE, ReturnStatus_REFUNDED, ReturnStatus_CLOSED]"

interpretation return_status_enum: str_enum return_status_value return_statuss
proof
  show "x \<in> set return_statuss" for x by (cases x) (simp_all add: return_statuss_def)
  show "distinct (map return_status_value return_statuss)" by (simp add: return_statuss_def)
qed

datatype return_shipment_status = ReturnShipmentStatus_PENDING | ReturnShipmentStatus_PICKUP_SCHEDULED | ReturnShipmentStatus_IN_TRANSIT_RETURN | ReturnShipmentStatus_RECEIVED_BY_CARRIER | ReturnShipmentStatus_RETURNED_TO_WAREHOUSE

fun return_shipment_status_value :: "return_shipment_status \<Rightarrow> string" where
  "return_shipment_status_value ReturnShipmentStatus_PENDING = ''pending''"
| "return_shipment_status_value ReturnShipmentStatus_PICKUP_SCHEDULED = ''pickup_scheduled''"
| "return_shipment_status_value ReturnShipmentStatus_IN_TRANSIT_RETURN = ''in_transit_return''"
| "return_shipment_status_value ReturnShipmentStatus_RECEIVED_BY_CARRIER = ''received_by_carrier''"
| "return_shipment_status_value ReturnShipmentStatus_RETURNED_TO_WAREHOUSE = ''returned_to_warehouse''"

definition return_shipment_statuss :: "return_shipment_status list" where
  "return_shipment_statuss = [ReturnShipmentStatus_PENDING, ReturnShipmentStatus_PICKUP_SCHEDULED, ReturnShipmentStatus_IN_TRANSIT_RETURN, ReturnShipmentStatus_RECEIVED_BY_CARRIER, ReturnShipmentStatus_RETURNED_TO_WAREHOUSE]"

interpretation return_shipment_status_enum: str_enum return_shipment_status_value return_shipment_statuss
proof
  show "x \<in> set return_shipment_statuss" for x by (cases x) (simp_all add: return_shipment_statuss_def)
  show "distinct (map return_shipment_status_value return_shipment_statuss)" by (simp add: return_shipment_statuss_def)
qed

datatype exception_type = ExceptionType_DELAYED | ExceptionType_DAMAGED_IN_TRANSIT | ExceptionType_LOST | ExceptionType_ADDRESS_ISSUE | ExceptionType_CUSTOMER_UNAVAILABLE | ExceptionType_WEATHER

fun exception_type_value :: "exception_type \<Rightarrow> string" where
  "exception_type_value ExceptionType_DELAYED = ''delayed''"
| "exception_type_value ExceptionType_DAMAGED_IN_TRANSIT = ''damaged_in_transit''"
| "exception_type_value ExceptionType_LOST = ''lost''"
| "exception_type_value ExceptionType_ADDRESS_ISSUE = ''address_issue''"
| "exception_type_value ExceptionType_CUSTOMER_UNAVAILABLE = ''customer_unavailable''"
| "exception_type_value ExceptionType_WEATHER = ''weather''"

definition exception_types :: "exception_type list" where
  "exception_types = [ExceptionType_DELAYED, ExceptionType_DAMAGED_IN_TRANSIT, ExceptionType_LOST, ExceptionType_ADDRESS_ISSUE, ExceptionType_CUSTOMER_UNAVAILABLE, ExceptionType_WEATHER]"

interpretation exception_type_enum: str_enum exception_type_value exception_types
proof
  show "x \<in> set exception_types" for x by (cases x) (simp_all add: exception_types_def)
  show "distinct (map exception_type_value exception_types)" by (simp add: exception_types_def)
qed

datatype exception_status = ExceptionStatus_OPEN | ExceptionStatus_RESOLVED | ExceptionStatus_ESCALATED

fun exception_status_value :: "exception_status \<Rightarrow> string" where
  "exception_status_value ExceptionStatus_OPEN = ''open''"
| "exception_status_value ExceptionStatus_RESOLVED = ''resolved''"
| "exception_status_value ExceptionStatus_ESCALATED = ''escalated''"

definition exception_statuss :: "exception_status list" where
  "exception_statuss = [ExceptionStatus_OPEN, ExceptionStatus_RESOLVED, ExceptionStatus_ESCALATED]"

interpretation exception_status_enum: str_enum exception_status_value exception_statuss
proof
  show "x \<in> set exception_statuss" for x by (cases x) (simp_all add: exception_statuss_def)
  show "distinct (map exception_status_value exception_statuss)" by (simp add: exception_statuss_def)
qed

datatype freight_rule = FreightRule_WEIGHT_TIERED | FreightRule_DISTANCE_TIERED | FreightRule_FLAT_RATE | FreightRule_VOLUME_BASED

fun freight_rule_value :: "freight_rule \<Rightarrow> string" where
  "freight_rule_value FreightRule_WEIGHT_TIERED = ''weight_tiered''"
| "freight_rule_value FreightRule_DISTANCE_TIERED = ''distance_tiered''"
| "freight_rule_value FreightRule_FLAT_RATE = ''flat_rate''"
| "freight_rule_value FreightRule_VOLUME_BASED = ''volume_based''"

definition freight_rules :: "freight_rule list" where
  "freight_rules = [FreightRule_WEIGHT_TIERED, FreightRule_DISTANCE_TIERED, FreightRule_FLAT_RATE, FreightRule_VOLUME_BASED]"

interpretation freight_rule_enum: str_enum freight_rule_value freight_rules
proof
  show "x \<in> set freight_rules" for x by (cases x) (simp_all add: freight_rules_def)
  show "distinct (map freight_rule_value freight_rules)" by (simp add: freight_rules_def)
qed

datatype terminal_device_type = TerminalDeviceType_PDA | TerminalDeviceType_PHONE | TerminalDeviceType_SCANNER | TerminalDeviceType_PRINTER

fun terminal_device_type_value :: "terminal_device_type \<Rightarrow> string" where
  "terminal_device_type_value TerminalDeviceType_PDA = ''pda''"
| "terminal_device_type_value TerminalDeviceType_PHONE = ''phone''"
| "terminal_device_type_value TerminalDeviceType_SCANNER = ''scanner''"
| "terminal_device_type_value TerminalDeviceType_PRINTER = ''printer''"

definition terminal_device_types :: "terminal_device_type list" where
  "terminal_device_types = [TerminalDeviceType_PDA, TerminalDeviceType_PHONE, TerminalDeviceType_SCANNER, TerminalDeviceType_PRINTER]"

interpretation terminal_device_type_enum: str_enum terminal_device_type_value terminal_device_types
proof
  show "x \<in> set terminal_device_types" for x by (cases x) (simp_all add: terminal_device_types_def)
  show "distinct (map terminal_device_type_value terminal_device_types)" by (simp add: terminal_device_types_def)
qed

datatype platform_type = PlatformType_ANDROID | PlatformType_IOS | PlatformType_DESKTOP

fun platform_type_value :: "platform_type \<Rightarrow> string" where
  "platform_type_value PlatformType_ANDROID = ''android''"
| "platform_type_value PlatformType_IOS = ''ios''"
| "platform_type_value PlatformType_DESKTOP = ''desktop''"

definition platform_types :: "platform_type list" where
  "platform_types = [PlatformType_ANDROID, PlatformType_IOS, PlatformType_DESKTOP]"

interpretation platform_type_enum: str_enum platform_type_value platform_types
proof
  show "x \<in> set platform_types" for x by (cases x) (simp_all add: platform_types_def)
  show "distinct (map platform_type_value platform_types)" by (simp add: platform_types_def)
qed

datatype device_status = DeviceStatus_ONLINE | DeviceStatus_OFFLINE | DeviceStatus_DISABLED

fun device_status_value :: "device_status \<Rightarrow> string" where
  "device_status_value DeviceStatus_ONLINE = ''online''"
| "device_status_value DeviceStatus_OFFLINE = ''offline''"
| "device_status_value DeviceStatus_DISABLED = ''disabled''"

definition device_statuss :: "device_status list" where
  "device_statuss = [DeviceStatus_ONLINE, DeviceStatus_OFFLINE, DeviceStatus_DISABLED]"

interpretation device_status_enum: str_enum device_status_value device_statuss
proof
  show "x \<in> set device_statuss" for x by (cases x) (simp_all add: device_statuss_def)
  show "distinct (map device_status_value device_statuss)" by (simp add: device_statuss_def)
qed

datatype sync_log_type = SyncLogType_UPLOAD | SyncLogType_DOWNLOAD

fun sync_log_type_value :: "sync_log_type \<Rightarrow> string" where
  "sync_log_type_value SyncLogType_UPLOAD = ''upload''"
| "sync_log_type_value SyncLogType_DOWNLOAD = ''download''"

definition sync_log_types :: "sync_log_type list" where
  "sync_log_types = [SyncLogType_UPLOAD, SyncLogType_DOWNLOAD]"

interpretation sync_log_type_enum: str_enum sync_log_type_value sync_log_types
proof
  show "x \<in> set sync_log_types" for x by (cases x) (simp_all add: sync_log_types_def)
  show "distinct (map sync_log_type_value sync_log_types)" by (simp add: sync_log_types_def)
qed

datatype session_status = SessionStatus_ACTIVE | SessionStatus_ENDED

fun session_status_value :: "session_status \<Rightarrow> string" where
  "session_status_value SessionStatus_ACTIVE = ''active''"
| "session_status_value SessionStatus_ENDED = ''ended''"

definition session_statuss :: "session_status list" where
  "session_statuss = [SessionStatus_ACTIVE, SessionStatus_ENDED]"

interpretation session_status_enum: str_enum session_status_value session_statuss
proof
  show "x \<in> set session_statuss" for x by (cases x) (simp_all add: session_statuss_def)
  show "distinct (map session_status_value session_statuss)" by (simp add: session_statuss_def)
qed

datatype sync_log_status = SyncLogStatus_PENDING | SyncLogStatus_RUNNING | SyncLogStatus_COMPLETED | SyncLogStatus_FAILED | SyncLogStatus_PARTIAL

fun sync_log_status_value :: "sync_log_status \<Rightarrow> string" where
  "sync_log_status_value SyncLogStatus_PENDING = ''pending''"
| "sync_log_status_value SyncLogStatus_RUNNING = ''running''"
| "sync_log_status_value SyncLogStatus_COMPLETED = ''completed''"
| "sync_log_status_value SyncLogStatus_FAILED = ''failed''"
| "sync_log_status_value SyncLogStatus_PARTIAL = ''partial''"

definition sync_log_statuss :: "sync_log_status list" where
  "sync_log_statuss = [SyncLogStatus_PENDING, SyncLogStatus_RUNNING, SyncLogStatus_COMPLETED, SyncLogStatus_FAILED, SyncLogStatus_PARTIAL]"

interpretation sync_log_status_enum: str_enum sync_log_status_value sync_log_statuss
proof
  show "x \<in> set sync_log_statuss" for x by (cases x) (simp_all add: sync_log_statuss_def)
  show "distinct (map sync_log_status_value sync_log_statuss)" by (simp add: sync_log_statuss_def)
qed
end
