(* ===== verification/Tms_Model.thy ===== *)
theory Tms_Model
  imports Tms_Enums Wms_Procure Wms_Stock
begin

text \<open>
  The tables of transport management (\<open>src/tms/models.py\<close>), added to the database of the warehouse.
  A plain class attribute such as \<open>is_active: bool = True\<close> is no column and has no field.
\<close>

section \<open>Transport orders and what is attached to them\<close>

record address_payload =
  ap_province :: "string option"
  ap_city :: "string option"
  ap_district :: "string option"
  ap_street :: "string option"
  ap_detail :: string

record transport_order = base_row +
  tr_transport_no :: string
  tr_status :: transport_status
  tr_carrier_code :: "carrier_code option"
  tr_pickup_warehouse_id :: "uuid option"
  tr_pickup_address :: "address_payload option"
  tr_delivery_name :: string
  tr_delivery_phone :: "string option"
  tr_delivery_address :: "address_payload option"
  tr_shipment_id :: "uuid option"
  tr_packing_record_id :: "uuid option"
  tr_package_count :: int
  tr_total_weight_kg :: decimal
  tr_total_volume_m3 :: decimal
  tr_tracking_number :: "string option"
  tr_service_type :: carrier_service_type
  tr_transport_type :: transport_type
  tr_actual_pickup_time :: "datetime option"
  tr_actual_delivery_time :: "datetime option"
  tr_driver_name :: "string option"
  tr_driver_phone :: "string option"
  tr_freight_amount :: decimal
  tr_settlement_status :: string
  tr_notes :: "string option"

record tracking_event = base_row +
  te_transport_order_id :: uuid
  te_event_type :: tracking_event_type
  te_location_code :: "string option"
  te_location_name :: "string option"
  te_latitude :: "decimal option"
  te_longitude :: "decimal option"
  te_operator_id :: "uuid option"
  te_remark :: "string option"

record proof_of_delivery = base_row +
  pod_transport_order_id :: uuid
  pod_signed_by :: "string option"
  pod_signature_type :: pod_signature
  pod_signature_image_url :: "string option"
  pod_delivery_photo_urls :: "json list"
  pod_delivered_to_address :: json
  pod_notes :: "string option"

record transport_exception = base_row +
  tx_transport_order_id :: "uuid option"
  tx_type :: exception_type
  tx_status :: exception_status
  tx_severity :: string
  tx_description :: "string option"
  tx_resolution_notes :: "string option"

section \<open>The hub network\<close>

record transfer_hub = base_row +
  th_code :: string
  th_name :: string
  th_hub_type :: transfer_hub_type
  th_city :: string
  th_address :: "json option"
  th_capacity_weight_kg :: decimal
  th_contact_name :: "string option"
  th_contact_phone :: "string option"
  th_status :: hub_status

record carrier_route = base_row +
  cr_carrier_code :: carrier_code
  cr_origin_city :: string
  cr_dest_city :: string
  cr_distance_km :: decimal
  cr_transit_hours :: decimal
  cr_base_price_per_kg :: decimal
  cr_express_surcharge :: decimal
  cr_min_charge_weight :: decimal

record transport_segment = base_row +
  sg_transport_order_id :: uuid
  sg_segment_no :: int
  sg_origin_hub_code :: "string option"
  sg_dest_hub_code :: "string option"
  sg_carrier_code :: "carrier_code option"
  sg_status :: segment_status
  sg_tracking_number :: "string option"
  sg_estimated_departure_time :: "datetime option"
  sg_actual_departure_time :: "datetime option"
  sg_expected_arrival_time :: "datetime option"
  sg_actual_arrival_time :: "datetime option"
  sg_weight_kg :: decimal
  sg_cost_amount :: decimal
  sg_notes :: "string option"

record hub_connection = base_row +
  hc_from_hub_code :: string
  hc_to_hub_code :: string
  hc_distance_km :: decimal
  hc_transit_hours :: decimal

text \<open>The dictionary that the route search returns; \<open>plan_json\<close> stores it.\<close>

record route_segment =
  rs_segment_no :: nat
  rs_from_hub :: string
  rs_to_hub :: string
  rs_distance_km :: decimal
  rs_transit_hours :: decimal

record route =
  ro_origin_city :: string
  ro_destination_city :: string
  ro_total_distance_km :: decimal
  ro_estimated_transit_hours :: decimal
  ro_total_cost_amount :: decimal
  ro_segments :: "route_segment list"

record route_plan = base_row +
  rp_transport_order_id :: uuid
  rp_type :: route_plan_type
  rp_status :: route_plan_status
  rp_origin_city :: string
  rp_destination_city :: string
  rp_total_distance_km :: decimal
  rp_total_cost_amount :: decimal
  rp_estimated_transit_hours :: decimal
  rp_plan_json :: route

section \<open>Returns and freight\<close>

record return_order = base_row +
  rt_return_no :: string
  rt_status :: return_status
  rt_shipment_status :: return_shipment_status
  rt_reason :: return_reason
  rt_reason_detail :: "string option"
  rt_transport_order_id :: "uuid option"
  rt_carrier_code :: "carrier_code option"
  rt_return_tracking_number :: "string option"
  rt_pickup_address :: json
  rt_destination_warehouse_id :: "uuid option"
  rt_refund_amount :: decimal

record freight_tier = base_row +
  ft_carrier_code :: carrier_code
  ft_rule_type :: freight_rule
  ft_min_value :: decimal
  ft_max_value :: "decimal option"
  ft_price_per_unit :: decimal
  ft_surcharge_express :: decimal

section \<open>Terminal devices\<close>

record terminal_device = soft_row +
  dv_code :: string
  dv_name :: "string option"
  dv_device_type :: terminal_device_type
  dv_platform :: platform_type
  dv_os_version :: "string option"
  dv_app_version :: "string option"
  dv_status :: device_status
  dv_warehouse_id :: "uuid option"
  dv_last_sync_at :: "datetime option"
  dv_last_heartbeat_at :: "datetime option"
  dv_config :: "json option"
  dv_push_token :: "string option"

record device_session = soft_row +
  ds_device_id :: uuid
  ds_token :: "string option"
  ds_login_at :: datetime
  ds_status :: session_status
  ds_logout_at :: "datetime option"
  ds_ip_address :: "string option"

record sync_log = soft_row +
  sl_device_id :: uuid
  sl_sync_type :: sync_log_type
  sl_status :: sync_log_status
  sl_records_count :: int
  sl_error_message :: "string option"
  sl_started_at :: datetime
  sl_completed_at :: "datetime option"

section \<open>The database\<close>

record tms_db = wms_db +
  transport_orders :: "transport_order list"
  tracking_events :: "tracking_event list"
  pod_records :: "proof_of_delivery list"
  transport_exceptions :: "transport_exception list"
  transfer_hubs :: "transfer_hub list"
  carrier_routes :: "carrier_route list"
  transport_segments :: "transport_segment list"
  hub_connections :: "hub_connection list"
  route_plans :: "route_plan list"
  return_orders :: "return_order list"
  freight_tiers :: "freight_tier list"
  terminal_devices :: "terminal_device list"
  device_sessions :: "device_session list"
  sync_logs :: "sync_log list"

interpretation transport_rows: repository transport_orders "\<lambda>t d. d\<lparr>transport_orders := t\<rparr>" pk
  by unfold_locales simp_all

interpretation hub_rows: repository transfer_hubs "\<lambda>t d. d\<lparr>transfer_hubs := t\<rparr>" pk
  by unfold_locales simp_all

interpretation segment_rows: repository transport_segments "\<lambda>t d. d\<lparr>transport_segments := t\<rparr>" pk
  by unfold_locales simp_all

interpretation return_rows: repository return_orders "\<lambda>t d. d\<lparr>return_orders := t\<rparr>" pk
  by unfold_locales simp_all

interpretation exception_rows: repository transport_exceptions "\<lambda>t d. d\<lparr>transport_exceptions := t\<rparr>" pk
  by unfold_locales simp_all

interpretation device_rows: repository terminal_devices "\<lambda>t d. d\<lparr>terminal_devices := t\<rparr>" pk
  by unfold_locales simp_all

interpretation session_rows: repository device_sessions "\<lambda>t d. d\<lparr>device_sessions := t\<rparr>" pk
  by unfold_locales simp_all

end
