(* ===== verification/Tms_Transport.thy ===== *)
theory Tms_Transport
  imports Tms_Model Lifecycle
begin

text \<open>
  Transport orders of \<open>src/tms/service.py\<close>: creation with the best-effort tracking event, the status
  table and the change of status, tracking events, proof of delivery and transport exceptions.
  \<open>transport_ok\<close> relates the status of an order to its pickup and delivery times.
\<close>

section \<open>Lookup by the identifier of a request\<close>

text \<open>
  \<open>_safe_uuid(id)\<close> with its \<open>None\<close> guard, the query by primary key, and the guard on its result; both
  guards raise the same exception.
\<close>

definition not_found :: "string \<Rightarrow> string \<Rightarrow> exn" where
  "not_found what i = NotFoundException (what @ '' '' @ i @ '' not found'')"

definition find_by_id :: "string \<Rightarrow> string \<Rightarrow> 'r base_row_scheme list \<Rightarrow> 'r base_row_scheme result" where
  "find_by_id what i t =
     (case safe_uuid i of None \<Rightarrow> Inl (not_found what i)
      | Some u \<Rightarrow> find_or_raise (not_found what i) (\<lambda>r. pk r = u) t)"

lemma find_by_id_InrD:
  assumes "find_by_id what i t = Inr r"
  shows "safe_uuid i = Some (pk r)" "r \<in> set t" "find_one (\<lambda>x. pk x = pk r) t = Inr (Some r)"
proof -
  from assms obtain u where u: "safe_uuid i = Some u" "find_one (\<lambda>x. pk x = u) t = Inr (Some r)"
    by (auto simp: find_by_id_def split: option.splits)
  have "pk r = u" using find_one_SomeD(2)[OF u(2)] .
  with u show "safe_uuid i = Some (pk r)" "find_one (\<lambda>x. pk x = pk r) t = Inr (Some r)" by simp_all
  show "r \<in> set t" using find_one_SomeD(1)[OF u(2)] .
qed

lemma find_by_id_show:
  "find_by_id what (show_uuid u) t = find_or_raise (not_found what (show_uuid u)) (\<lambda>r. pk r = u) t"
  by (simp add: find_by_id_def)

lemma find_by_id_pk:
  assumes "distinct (map pk t)" "r \<in> set t"
  shows "find_by_id what (show_uuid (pk r)) t = Inr r"
proof -
  have "find_one (\<lambda>x. pk x = pk r) t = Inr (Some r)" by (rule find_one_pk[OF assms]) simp
  then show ?thesis by (simp add: find_by_id_show)
qed

lemma find_by_id_absent:
  assumes "\<And>u. safe_uuid i = Some u \<Longrightarrow> u \<notin> pk ` set t"
  shows "find_by_id what i t = Inl (not_found what i)"
  using assms by (auto simp: find_by_id_def intro!: find_or_raise_None split: option.splits)

section \<open>Creating and reading transport orders\<close>

record transport_req =
  tq_carrier_code :: "string option"
  tq_pickup_warehouse_id :: "string option"
  tq_pickup_address :: "address_payload option"
  tq_delivery_name :: "string option"
  tq_delivery_phone :: "string option"
  tq_delivery_address :: "address_payload option"
  tq_shipment_id :: "string option"
  tq_packing_record_id :: "string option"
  tq_package_count :: int
  tq_total_weight_kg :: decimal
  tq_total_volume_m3 :: decimal
  tq_service_type :: string
  tq_transport_type :: string
  tq_driver_name :: "string option"
  tq_driver_phone :: "string option"
  tq_notes :: "string option"

text \<open>The field constraints of \<open>TransportOrderCreate\<close>.\<close>

definition transport_req_schema_ok :: "transport_req \<Rightarrow> bool" where
  "transport_req_schema_ok q =
     ((case tq_carrier_code q of None \<Rightarrow> True | Some c \<Rightarrow> enum_find carrier_code_value carrier_codes c \<noteq> None) \<and>
      enum_find carrier_service_type_value carrier_service_types (tq_service_type q) \<noteq> None \<and>
      enum_find transport_type_value transport_types (tq_transport_type q) \<noteq> None \<and>
      (case tq_pickup_warehouse_id q of None \<Rightarrow> True | Some w \<Rightarrow> 1 \<le> length w) \<and>
      1 \<le> tq_package_count q \<and> 0 \<le> tq_total_weight_kg q \<and> 0 \<le> tq_total_volume_m3 q)"

text \<open>\<open>address.get("city")\<close>; the address may be \<open>None\<close>, which has no \<open>get\<close>.\<close>

definition addr_city :: "address_payload option \<Rightarrow> string option result" where
  "addr_city a = (case a of None \<Rightarrow> Inl AttributeError | Some p \<Rightarrow> Inr (ap_city p))"

definition transport_no :: "env \<Rightarrow> uuid \<Rightarrow> string" where
  "transport_no env u = ''TPL-'' @ ymd env @ ''-'' @ upper (take 4 (uuid_hex u))"

definition new_transport :: "env \<Rightarrow> transport_req \<Rightarrow> 'a tms_db_scheme \<Rightarrow> transport_order result" where
  "new_transport env data d =
     bindE (enum_if_truthy carrier_code_value carrier_codes (tq_carrier_code data)) (\<lambda>carrier.
     bindE (uuid_if_truthy (tq_pickup_warehouse_id data)) (\<lambda>wh.
     bindE (uuid_if_truthy (tq_shipment_id data)) (\<lambda>sh.
     bindE (uuid_if_truthy (tq_packing_record_id data)) (\<lambda>pr.
     bindE (enum_of carrier_service_type_value carrier_service_types (tq_service_type data)) (\<lambda>st.
     bindE (enum_of transport_type_value transport_types (tq_transport_type data)) (\<lambda>tt.
     bindE (of_option IntegrityError (tq_delivery_name data)) (\<lambda>dn.
     Inr \<lparr>pk = new_uuid env d, created_at = now env, updated_at = now env,
          tr_transport_no = transport_no env (new_uuid env (tick d)), tr_status = TransportStatus_DRAFT,
          tr_carrier_code = carrier, tr_pickup_warehouse_id = wh, tr_pickup_address = tq_pickup_address data,
          tr_delivery_name = dn, tr_delivery_phone = tq_delivery_phone data,
          tr_delivery_address = tq_delivery_address data, tr_shipment_id = sh, tr_packing_record_id = pr,
          tr_package_count = tq_package_count data, tr_total_weight_kg = tq_total_weight_kg data,
          tr_total_volume_m3 = tq_total_volume_m3 data, tr_tracking_number = None, tr_service_type = st,
          tr_transport_type = tt, tr_actual_pickup_time = None, tr_actual_delivery_time = None,
          tr_driver_name = tq_driver_name data, tr_driver_phone = tq_driver_phone data,
          tr_freight_amount = 0, tr_settlement_status = ''pending'', tr_notes = tq_notes data\<rparr>)))))))"

text \<open>The second transaction: an exception while the event is built is swallowed.\<close>

definition created_event :: "env \<Rightarrow> transport_req \<Rightarrow> transport_order \<Rightarrow> 'a tms_db_scheme \<Rightarrow> 'a tms_db_scheme" where
  "created_event env data ord d =
     (case addr_city (tq_pickup_address data) of
        Inl e \<Rightarrow> tick d
      | Inr city \<Rightarrow> (tick d)\<lparr>tracking_events := insert_row
          \<lparr>pk = new_uuid env d, created_at = now env, updated_at = now env, te_transport_order_id = pk ord,
           te_event_type = TrackingEventType_CREATED, te_location_code = None,
           te_location_name = or_str city (Some ''Warehouse''), te_latitude = None, te_longitude = None,
           te_operator_id = None, te_remark = None\<rparr> (tracking_events d)\<rparr>)"

definition create_transport_order ::
  "env \<Rightarrow> transport_req \<Rightarrow> 'a tms_db_scheme \<Rightarrow> ('a tms_db_scheme \<times> transport_order) result" where
  "create_transport_order env data d =
     bindE (new_transport env data d) (\<lambda>ord.
     bindE (insert_unique tr_transport_no ord (transport_orders d)) (\<lambda>t.
     Inr (created_event env data ord ((tick (tick d))\<lparr>transport_orders := t\<rparr>), ord)))"

definition find_transport :: "string \<Rightarrow> 'a tms_db_scheme \<Rightarrow> transport_order result" where
  "find_transport order_id d = find_by_id ''TransportOrder'' order_id (transport_orders d)"

definition get_transport_order :: "string \<Rightarrow> 'a tms_db_scheme \<Rightarrow> transport_order result" where
  "get_transport_order order_id d = find_transport order_id d"

definition list_transport_orders ::
  "int \<Rightarrow> int \<Rightarrow> string option \<Rightarrow> string option \<Rightarrow> 'a tms_db_scheme \<Rightarrow> (transport_order list \<times> nat) result" where
  "list_transport_orders page page_size status carrier d =
     bindE (enum_if_truthy transport_status_value transport_statuss status) (\<lambda>st.
     bindE (enum_if_truthy carrier_code_value carrier_codes carrier) (\<lambda>cc.
     let keep = (\<lambda>o'. (st = None \<or> st = Some (tr_status o')) \<and> (cc = None \<or> cc = tr_carrier_code o'))
     in Inr (offset_limit ((page - 1) * page_size) page_size
               (order_by_desc created_at (select_where keep (transport_orders d))),
             row_count keep (transport_orders d))))"

section \<open>The status of a transport order\<close>

fun transport_allowed :: "transport_status \<Rightarrow> transport_status list" where
  "transport_allowed TransportStatus_DRAFT =
     [TransportStatus_DISPATCHED, TransportStatus_IN_TRANSIT, TransportStatus_CANCELLED]"
| "transport_allowed TransportStatus_DISPATCHED =
     [TransportStatus_PICKUP_COMPLETED, TransportStatus_IN_TRANSIT, TransportStatus_CANCELLED]"
| "transport_allowed TransportStatus_PICKUP_COMPLETED = [TransportStatus_IN_TRANSIT, TransportStatus_EXCEPTION]"
| "transport_allowed TransportStatus_IN_TRANSIT = [TransportStatus_OUT_FOR_DELIVERY, TransportStatus_EXCEPTION]"
| "transport_allowed TransportStatus_OUT_FOR_DELIVERY = [TransportStatus_DELIVERED, TransportStatus_EXCEPTION]"
| "transport_allowed TransportStatus_DELIVERED = []"
| "transport_allowed TransportStatus_EXCEPTION =
     [TransportStatus_DISPATCHED, TransportStatus_DELIVERED, TransportStatus_CANCELLED]"
| "transport_allowed TransportStatus_CANCELLED = []"

definition transport_change :: "transport_status \<Rightarrow> transport_status \<Rightarrow> transport_status result" where
  "transport_change s t =
     bindE (raise_if (t \<notin> set (transport_allowed s))
        (validation (''Cannot transition transport order from '' @ transport_status_value s @ '' to '' @
                     transport_status_value t))) (\<lambda>_. Inr t)"

definition set_transport_status :: "env \<Rightarrow> transport_status \<Rightarrow> transport_order \<Rightarrow> transport_order" where
  "set_transport_status env target o' =
     (let o1 = o'\<lparr>tr_status := target, updated_at := now env\<rparr>
      in if target = TransportStatus_IN_TRANSIT \<and> tr_actual_pickup_time o' = None
         then o1\<lparr>tr_actual_pickup_time := Some (now env)\<rparr>
         else if target = TransportStatus_DELIVERED then o1\<lparr>tr_actual_delivery_time := Some (now env)\<rparr>
         else o1)"

definition change_transport_status ::
  "env \<Rightarrow> string \<Rightarrow> string \<Rightarrow> 'a tms_db_scheme \<Rightarrow> ('a tms_db_scheme \<times> transport_order) result" where
  "change_transport_status env order_id new_status d =
     bindE (find_transport order_id d) (\<lambda>ord.
     bindE (enum_of transport_status_value transport_statuss new_status) (\<lambda>target.
     bindE (transport_change (tr_status ord) target) (\<lambda>t.
     Inr (d\<lparr>transport_orders := update_where (\<lambda>x. pk x = pk ord) (set_transport_status env t) (transport_orders d)\<rparr>,
          set_transport_status env t ord))))"

section \<open>Tracking events\<close>

record tracking_req =
  kq_transport_order_id :: string
  kq_event_type :: string
  kq_location_code :: "string option"
  kq_location_name :: "string option"
  kq_latitude :: "decimal option"
  kq_longitude :: "decimal option"
  kq_operator_id :: "string option"
  kq_remark :: "string option"

text \<open>A malformed identifier becomes \<open>id IS NULL\<close>, which no order satisfies.\<close>

definition new_tracking_event :: "env \<Rightarrow> tracking_req \<Rightarrow> uuid \<Rightarrow> 'a tms_db_scheme \<Rightarrow> tracking_event result" where
  "new_tracking_event env data oid d =
     bindE (enum_of tracking_event_type_value tracking_event_types (kq_event_type data)) (\<lambda>et.
     bindE (uuid_if_truthy (kq_operator_id data)) (\<lambda>op.
     Inr \<lparr>pk = new_uuid env d, created_at = now env, updated_at = now env, te_transport_order_id = oid,
          te_event_type = et, te_location_code = kq_location_code data,
          te_location_name = kq_location_name data, te_latitude = kq_latitude data,
          te_longitude = kq_longitude data, te_operator_id = op, te_remark = kq_remark data\<rparr>))"

definition note_delivery :: "env \<Rightarrow> string \<Rightarrow> transport_order \<Rightarrow> 'a tms_db_scheme \<Rightarrow> 'a tms_db_scheme" where
  "note_delivery env kind ord d =
     (if kind = ''delivered'' \<and> tr_actual_delivery_time ord = None
      then d\<lparr>transport_orders := update_where (\<lambda>x. pk x = pk ord)
                (\<lambda>x. x\<lparr>tr_actual_delivery_time := Some (now env), updated_at := now env\<rparr>) (transport_orders d)\<rparr>
      else d)"

definition create_tracking_event ::
  "env \<Rightarrow> tracking_req \<Rightarrow> 'a tms_db_scheme \<Rightarrow> ('a tms_db_scheme \<times> tracking_event) result" where
  "create_tracking_event env data d =
     bindE (find_or_raise (not_found ''TransportOrder'' (kq_transport_order_id data))
              (\<lambda>o'. Some (pk o') = safe_uuid (kq_transport_order_id data)) (transport_orders d)) (\<lambda>ord.
     bindE (to_uuid (kq_transport_order_id data)) (\<lambda>oid.
     bindE (new_tracking_event env data oid d) (\<lambda>ev.
     Inr (note_delivery env (kq_event_type data) ord
            ((tick d)\<lparr>tracking_events := insert_row ev (tracking_events d)\<rparr>), ev))))"

definition list_tracking_events :: "string \<Rightarrow> 'a tms_db_scheme \<Rightarrow> tracking_event list result" where
  "list_tracking_events order_id d =
     bindE (of_option (not_found ''TransportOrder'' order_id) (safe_uuid order_id)) (\<lambda>u.
     Inr (order_by created_at (select_where (\<lambda>e. te_transport_order_id e = u) (tracking_events d))))"

section \<open>Proof of delivery\<close>

text \<open>\<open>pq_json\<close> is the request dictionary as a JSON value.\<close>

record pod_req =
  pq_transport_order_id :: "string option"
  pq_signed_by :: "string option"
  pq_signature_type :: "string option"
  pq_signature_image_url :: "string option"
  pq_delivery_photo_urls :: "json list option"
  pq_delivered_to_address :: "json option"
  pq_notes :: "string option"
  pq_json :: json

text \<open>The two ways to call \<open>create_pod\<close>: \<open>create_pod(db, order_id, data)\<close> and \<open>create_pod(db, data)\<close>.\<close>

datatype pod_call = PodByOrderId string "pod_req option" | PodByDict pod_req

fun pod_order_id :: "pod_call \<Rightarrow> string result" where
  "pod_order_id (PodByOrderId i None) = Inr i"
| "pod_order_id (PodByOrderId i (Some q)) = Inr (get_default i (pq_transport_order_id q))"
| "pod_order_id (PodByDict q) = of_option (KeyError ''transport_order_id'') (pq_transport_order_id q)"

fun pod_data :: "pod_call \<Rightarrow> pod_req option" where
  "pod_data (PodByOrderId i m) = m"
| "pod_data (PodByDict q) = None"

fun pod_real_data :: "pod_call \<Rightarrow> pod_req option" where
  "pod_real_data (PodByOrderId i m) = m"
| "pod_real_data (PodByDict q) = Some q"

fun pod_image_url :: "pod_call \<Rightarrow> string option" where
  "pod_image_url (PodByOrderId i m) = Some i"
| "pod_image_url (PodByDict q) = None"

fun pod_address :: "pod_call \<Rightarrow> json" where
  "pod_address (PodByOrderId i None) = JStr i"
| "pod_address (PodByOrderId i (Some q)) = get_default JNull (pq_delivered_to_address q)"
| "pod_address (PodByDict q) = pq_json q"

definition new_pod :: "env \<Rightarrow> pod_call \<Rightarrow> uuid \<Rightarrow> 'a tms_db_scheme \<Rightarrow> proof_of_delivery result" where
  "new_pod env call oid d =
     (let from_data = (\<lambda>sel. case pod_data call of None \<Rightarrow> None | Some q \<Rightarrow> sel q)
      in bindE (enum_column pod_signature_value pod_signatures
                  (get_default ''physical'' (from_data pq_signature_type))) (\<lambda>sig.
         Inr \<lparr>pk = new_uuid env d, created_at = now env, updated_at = now env, pod_transport_order_id = oid,
              pod_signed_by = Some (get_default ''unknown'' (from_data pq_signed_by)),
              pod_signature_type = sig, pod_signature_image_url = pod_image_url call,
              pod_delivery_photo_urls = (case pod_data call of None \<Rightarrow> []
                                         | Some q \<Rightarrow> get_default [] (pq_delivery_photo_urls q)),
              pod_delivered_to_address = pod_address call,
              pod_notes = (case pod_real_data call of None \<Rightarrow> None | Some q \<Rightarrow> pq_notes q)\<rparr>))"

definition create_pod ::
  "env \<Rightarrow> pod_call \<Rightarrow> 'a tms_db_scheme \<Rightarrow> ('a tms_db_scheme \<times> proof_of_delivery) result" where
  "create_pod env call d =
     bindE (pod_order_id call) (\<lambda>i.
     bindE (of_option (not_found ''TransportOrder'' i) (safe_uuid i)) (\<lambda>u.
     bindE (find_one (\<lambda>p. pod_transport_order_id p = u) (pod_records d)) (\<lambda>found.
     case found of
       Some pod \<Rightarrow> Inr (d, pod)
     | None \<Rightarrow> bindE (new_pod env call u d) (\<lambda>pod.
               Inr ((tick d)\<lparr>pod_records := insert_row pod (pod_records d)\<rparr>, pod)))))"

definition get_pod :: "string \<Rightarrow> 'a tms_db_scheme \<Rightarrow> proof_of_delivery option result" where
  "get_pod order_id d =
     (case safe_uuid order_id of None \<Rightarrow> Inr None
      | Some u \<Rightarrow> find_one (\<lambda>p. pod_transport_order_id p = u) (pod_records d))"

definition apply_pod_update :: "env \<Rightarrow> pod_req \<Rightarrow> proof_of_delivery \<Rightarrow> proof_of_delivery" where
  "apply_pod_update env data p =
     p\<lparr>pod_signed_by := (case pq_signed_by data of None \<Rightarrow> pod_signed_by p | Some v \<Rightarrow> Some v),
       pod_signature_image_url := (case pq_signature_image_url data of None \<Rightarrow> pod_signature_image_url p | Some v \<Rightarrow> Some v),
       pod_delivery_photo_urls := get_default (pod_delivery_photo_urls p) (pq_delivery_photo_urls data),
       pod_delivered_to_address := get_default (pod_delivered_to_address p) (pq_delivered_to_address data),
       pod_notes := (case pq_notes data of None \<Rightarrow> pod_notes p | Some v \<Rightarrow> Some v),
       updated_at := now env\<rparr>"

definition update_pod ::
  "env \<Rightarrow> string \<Rightarrow> pod_req \<Rightarrow> 'a tms_db_scheme \<Rightarrow> ('a tms_db_scheme \<times> proof_of_delivery) result" where
  "update_pod env order_id data d =
     bindE (of_option (NotFoundException ''POD not found'') (safe_uuid order_id)) (\<lambda>u.
     bindE (find_or_raise (NotFoundException ''POD not found'') (\<lambda>p. pod_transport_order_id p = u) (pod_records d)) (\<lambda>pod.
     Inr (d\<lparr>pod_records := update_where (\<lambda>p. pk p = pk pod) (apply_pod_update env data) (pod_records d)\<rparr>,
          apply_pod_update env data pod)))"

section \<open>Transport exceptions\<close>

record exception_req =
  eq_transport_order_id :: "string option"
  eq_type :: string
  eq_severity :: "string option"
  eq_description :: "string option"
  eq_resolution_notes :: "string option"

definition create_exception ::
  "env \<Rightarrow> exception_req \<Rightarrow> 'a tms_db_scheme \<Rightarrow> ('a tms_db_scheme \<times> transport_exception) result" where
  "create_exception env data d =
     bindE (if truthy (eq_transport_order_id data)
            then bindE (find_transport (get_default [] (eq_transport_order_id data)) d) (\<lambda>ord. Inr ())
            else Inr ()) (\<lambda>_.
     bindE (uuid_if_truthy (eq_transport_order_id data)) (\<lambda>oid.
     bindE (enum_of exception_type_value exception_types (eq_type data)) (\<lambda>ty.
     let exc = \<lparr>pk = new_uuid env d, created_at = now env, updated_at = now env, tx_transport_order_id = oid,
                 tx_type = ty, tx_status = ExceptionStatus_OPEN,
                 tx_severity = get_default ''normal'' (eq_severity data),
                 tx_description = eq_description data, tx_resolution_notes = eq_resolution_notes data\<rparr>
     in Inr ((tick d)\<lparr>transport_exceptions := insert_row exc (transport_exceptions d)\<rparr>, exc))))"

definition list_exceptions ::
  "string option \<Rightarrow> string \<Rightarrow> 'a tms_db_scheme \<Rightarrow> transport_exception list result" where
  "list_exceptions order_id status d =
     (if truthy order_id \<and> safe_uuid (get_default [] order_id) = None then Inr []
      else bindE (enum_column exception_status_value exception_statuss status) (\<lambda>st.
           Inr (order_by_desc created_at
             (select_where (\<lambda>e. tx_status e = st \<and>
                 (truthy order_id \<longrightarrow> tx_transport_order_id e = safe_uuid (get_default [] order_id)))
                (transport_exceptions d)))))"

definition resolve_exception ::
  "env \<Rightarrow> string \<Rightarrow> string option \<Rightarrow> 'a tms_db_scheme \<Rightarrow> ('a tms_db_scheme \<times> transport_exception) result" where
  "resolve_exception env exc_id resolution_notes d =
     bindE (find_by_id ''TransportException'' exc_id (transport_exceptions d)) (\<lambda>exc.
     let f = (\<lambda>x. x\<lparr>tx_status := ExceptionStatus_RESOLVED,
                     tx_resolution_notes := or_str resolution_notes (tx_resolution_notes x),
                     updated_at := now env\<rparr>)
     in Inr (d\<lparr>transport_exceptions := update_where (\<lambda>x. pk x = pk exc) f (transport_exceptions d)\<rparr>, f exc))"

section \<open>The lifecycle of a transport order\<close>

interpretation transport_lifecycle: status_machine transport_allowed transport_change
  by unfold_locales (auto simp: transport_change_def)

lemma set_transport_status_fields [simp]:
  "pk (set_transport_status env t o') = pk o'"
  "tr_status (set_transport_status env t o') = t"
  "tr_transport_no (set_transport_status env t o') = tr_transport_no o'"
  by (simp_all add: set_transport_status_def Let_def)

lemma change_transport_statusE:
  assumes "change_transport_status env i s d = Inr (d', o')"
  obtains ord where "find_transport i d = Inr ord" "s = transport_status_value (tr_status o')"
    "tr_status o' \<in> set (transport_allowed (tr_status ord))" "o' = set_transport_status env (tr_status o') ord"
    "d' = d\<lparr>transport_orders := update_where (\<lambda>x. pk x = pk ord) (set_transport_status env (tr_status o')) (transport_orders d)\<rparr>"
proof -
  from assms obtain ord target t where *: "find_transport i d = Inr ord"
    "enum_of transport_status_value transport_statuss s = Inr target" "transport_change (tr_status ord) target = Inr t"
    "o' = set_transport_status env t ord"
    "d' = d\<lparr>transport_orders := update_where (\<lambda>x. pk x = pk ord) (set_transport_status env t) (transport_orders d)\<rparr>"
    by (auto simp: change_transport_status_def)
  from *(3) have "target \<in> set (transport_allowed (tr_status ord))" "t = target"
    by (auto simp: transport_lifecycle.change_eq_Inr)
  with * show thesis by (intro that[of ord]) (simp_all add: transport_status_enum.of_eq_Inr)
qed

text \<open>A refused change is a not-found, an unknown status name, or a change outside the table.\<close>

lemma change_transport_status_refused:
  assumes "find_transport i d = Inr ord" "\<forall>t\<in>set (transport_allowed (tr_status ord)). s \<noteq> transport_status_value t"
  shows "\<exists>e. change_transport_status env i s d = Inl e \<and> (e = ValueError \<or> is_validation e)"
proof (cases "enum_of transport_status_value transport_statuss s")
  case (Inr t)
  with assms(2) have "t \<notin> set (transport_allowed (tr_status ord))" by (auto simp: transport_status_enum.of_eq_Inr)
  with assms(1) Inr show ?thesis by (simp add: change_transport_status_def transport_change_def)
next
  case (Inl e)
  then have "e = ValueError" by (simp add: transport_status_enum.of_eq_Inl)
  with assms(1) Inl show ?thesis by (simp add: change_transport_status_def)
qed

text \<open>
  Requests one after the other, each in its own transaction: a refused request changes nothing. The
  status of the order is that of the abstract machine run on the requests that name a status.
\<close>

fun request_statuses :: "(env \<times> string) list \<Rightarrow> string \<Rightarrow> 'a tms_db_scheme \<Rightarrow> 'a tms_db_scheme" where
  "request_statuses [] i d = d"
| "request_statuses ((env, s) # rs) i d =
     (case change_transport_status env i s d of
        Inl e \<Rightarrow> request_statuses rs i d
      | Inr (d', o') \<Rightarrow> request_statuses rs i d')"

definition named_statuses :: "(env \<times> string) list \<Rightarrow> transport_status list" where
  "named_statuses rs = List.map_filter (\<lambda>(env, s). enum_find transport_status_value transport_statuss s) rs"

lemma named_statuses_simps [simp]:
  "named_statuses [] = []"
  "named_statuses ((env, s) # rs) = (case enum_find transport_status_value transport_statuss s of
     None \<Rightarrow> named_statuses rs | Some t \<Rightarrow> t # named_statuses rs)"
  by (simp_all add: named_statuses_def split: option.splits)

lemma find_transport_changed:
  assumes "find_transport i d = Inr ord"
    "d' = d\<lparr>transport_orders := update_where (\<lambda>x. pk x = pk ord) (set_transport_status env t) (transport_orders d)\<rparr>"
  shows "find_transport i d' = Inr (set_transport_status env t ord)"
proof -
  from find_by_id_InrD[OF assms(1)[unfolded find_transport_def]]
  have *: "safe_uuid i = Some (pk ord)" "find_one (\<lambda>x. pk x = pk ord) (transport_orders d) = Inr (Some ord)" by auto
  have "find_one (\<lambda>x. pk x = pk ord) (update_where (\<lambda>x. pk x = pk ord) (set_transport_status env t) (transport_orders d)) =
      Inr (Some (set_transport_status env t ord))"
    by (rule find_one_update_where[OF *(2)]) simp
  with *(1) show ?thesis by (simp add: find_transport_def find_by_id_def assms(2))
qed

lemma request_statuses_refine:
  assumes "find_transport i d = Inr ord"
  shows "\<exists>ord'. find_transport i (request_statuses rs i d) = Inr ord' \<and> pk ord' = pk ord \<and>
    tr_status ord' = request_all transport_change (tr_status ord) (named_statuses rs)"
  using assms
proof (induction rs arbitrary: d ord)
  case (Cons r rs)
  obtain env s where r: "r = (env, s)" by (cases r)
  show ?case
  proof (cases "enum_find transport_status_value transport_statuss s")
    case None
    then have "change_transport_status env i s d = Inl ValueError"
      using Cons.prems by (simp add: change_transport_status_def enum_of_def)
    with Cons.IH[OF Cons.prems] None r show ?thesis by simp
  next
    case (Some t)
    then have of': "enum_of transport_status_value transport_statuss s = Inr t" by (simp add: enum_of_def)
    show ?thesis
    proof (cases "transport_change (tr_status ord) t")
      case (Inl e)
      with of' Cons.prems have "change_transport_status env i s d = Inl e" by (simp add: change_transport_status_def)
      with Cons.IH[OF Cons.prems] Some Inl r show ?thesis by simp
    next
      case (Inr u)
      then have u: "u = t" by (simp add: transport_lifecycle.change_eq_Inr)
      define d' where "d' = d\<lparr>transport_orders := update_where (\<lambda>x. pk x = pk ord) (set_transport_status env t) (transport_orders d)\<rparr>"
      have ch: "change_transport_status env i s d = Inr (d', set_transport_status env t ord)"
        using of' Cons.prems Inr u by (simp add: change_transport_status_def d'_def)
      have "find_transport i d' = Inr (set_transport_status env t ord)"
        using find_transport_changed[OF Cons.prems d'_def] .
      from Cons.IH[OF this] ch Some Inr u r show ?thesis by simp
    qed
  qed
qed simp

lemma transport_terminal:
  assumes "transport_allowed s = []"
  shows "s = TransportStatus_DELIVERED \<or> s = TransportStatus_CANCELLED"
  using assms by (cases s) auto

text \<open>A delivery is preceded by the last mile or by an exception, and takes at least three changes.\<close>

lemma delivered_source: "TransportStatus_DELIVERED \<in> set (transport_allowed s) \<longleftrightarrow>
    s = TransportStatus_OUT_FOR_DELIVERY \<or> s = TransportStatus_EXCEPTION"
  by (cases s) auto

lemma delivered_path:
  assumes "allowed_path transport_allowed s ts" "TransportStatus_DELIVERED \<in> set ts"
    "s \<noteq> TransportStatus_OUT_FOR_DELIVERY" "s \<noteq> TransportStatus_EXCEPTION"
  shows "TransportStatus_OUT_FOR_DELIVERY \<in> set ts \<or> TransportStatus_EXCEPTION \<in> set ts"
  using assms
proof (induction ts arbitrary: s)
  case (Cons t ts)
  then show ?case
    by (cases "t = TransportStatus_OUT_FOR_DELIVERY \<or> t = TransportStatus_EXCEPTION")
      (auto simp: delivered_source)
qed simp

section \<open>Status and times agree\<close>

definition transport_ok :: "transport_order \<Rightarrow> bool" where
  "transport_ok o' =
     ((tr_status o' = TransportStatus_DELIVERED \<longrightarrow> tr_actual_delivery_time o' \<noteq> None) \<and>
      (tr_status o' = TransportStatus_IN_TRANSIT \<or> tr_status o' = TransportStatus_OUT_FOR_DELIVERY \<longrightarrow>
         tr_actual_pickup_time o' \<noteq> None) \<and>
      (tr_status o' = TransportStatus_DRAFT \<longrightarrow> tr_actual_pickup_time o' = None))"

lemma set_transport_status_ok:
  assumes "transport_ok o'" "t \<in> set (transport_allowed (tr_status o'))"
  shows "transport_ok (set_transport_status env t o')"
  using assms by (cases "tr_status o'") (auto simp: transport_ok_def set_transport_status_def Let_def)

definition transports_inv :: "'a tms_db_scheme \<Rightarrow> bool" where
  "transports_inv d =
     ((\<forall>o'\<in>set (transport_orders d). transport_ok o') \<and>
      distinct (map tr_transport_no (transport_orders d)) \<and>
      distinct (map pod_transport_order_id (pod_records d)))"

lemma new_transport_ok: "new_transport env data d = Inr o' \<Longrightarrow> transport_ok o'"
  by (auto simp: new_transport_def transport_ok_def)

lemma created_event_frame [simp]:
  "transport_orders (created_event env data o' d) = transport_orders d"
  "pod_records (created_event env data o' d) = pod_records d"
  by (simp_all add: created_event_def tick_def split: sum.splits)

lemma create_transport_order_inv:
  assumes "create_transport_order env data d = Inr (d', o')" "transports_inv d"
  shows "transports_inv d'"
proof -
  from assms(1) have n: "new_transport env data d = Inr o'" "tr_transport_no o' \<notin> tr_transport_no ` set (transport_orders d)"
    and d': "transport_orders d' = transport_orders d @ [o']" "pod_records d' = pod_records d"
    by (auto simp: create_transport_order_def insert_row_def tick_def)
  from n(1) have "transport_ok o'" by (rule new_transport_ok)
  with assms(2) n(2) show ?thesis by (auto simp: transports_inv_def d')
qed

lemma change_transport_status_inv:
  assumes "change_transport_status env i s d = Inr (d', o')" "transports_inv d"
    "distinct (map pk (transport_orders d))"
  shows "transports_inv d'"
proof -
  from change_transport_statusE[OF assms(1)] obtain ord where
    f: "find_transport i d = Inr ord" and al: "tr_status o' \<in> set (transport_allowed (tr_status ord))" and
    d': "d' = d\<lparr>transport_orders := update_where (\<lambda>x. pk x = pk ord) (set_transport_status env (tr_status o')) (transport_orders d)\<rparr>"
    by metis
  have uniq: "x = ord" if "x \<in> set (transport_orders d)" "pk x = pk ord" for x
    using find_one_SomeD(3)[OF find_by_id_InrD(3)[OF f[unfolded find_transport_def]] that(1)] that(2) by simp
  have "\<forall>x\<in>set (transport_orders d'). transport_ok x"
  proof (rule all_updated)
    show "transport_orders d' = update_where (\<lambda>x. pk x = pk ord) (set_transport_status env (tr_status o')) (transport_orders d)"
      by (simp add: d')
    show "transport_ok (set_transport_status env (tr_status o') x)" if "x \<in> set (transport_orders d)" "pk x = pk ord" for x
      using that uniq[OF that] al assms(2) by (intro set_transport_status_ok) (auto simp: transports_inv_def)
    show "transport_ok x" if "x \<in> set (transport_orders d)" for x using that assms(2) by (auto simp: transports_inv_def)
  qed
  with assms(2) show ?thesis by (simp add: transports_inv_def d')
qed

lemma create_tracking_event_transports:
  assumes "create_tracking_event env data d = Inr (d', e)"
  obtains ord :: transport_order where "pod_records d' = pod_records d"
    "transport_orders d' = transport_orders d \<or>
     transport_orders d' = update_where (\<lambda>x. pk x = pk ord)
       (\<lambda>x. x\<lparr>tr_actual_delivery_time := Some (now env), updated_at := now env\<rparr>) (transport_orders d)"
proof -
  from assms obtain ord where
    "d' = note_delivery env (kq_event_type data) ord ((tick d)\<lparr>tracking_events := insert_row e (tracking_events d)\<rparr>)"
    by (auto simp: create_tracking_event_def)
  then show thesis by (intro that[of ord]) (simp_all add: note_delivery_def tick_def)
qed

lemma create_tracking_event_inv:
  assumes "create_tracking_event env data d = Inr (d', e)" "transports_inv d"
  shows "transports_inv d'"
proof -
  from create_tracking_event_transports[OF assms(1)] obtain ord :: transport_order where
    d': "transport_orders d' = transport_orders d \<or>
         transport_orders d' = update_where (\<lambda>x. pk x = pk ord)
           (\<lambda>x. x\<lparr>tr_actual_delivery_time := Some (now env), updated_at := now env\<rparr>) (transport_orders d)"
    and p: "pod_records d' = pod_records d"
    by metis
  have "\<forall>x\<in>set (update_where (\<lambda>x. pk x = pk ord)
          (\<lambda>x. x\<lparr>tr_actual_delivery_time := Some (now env), updated_at := now env\<rparr>) (transport_orders d)). transport_ok x"
    by (rule update_where_all) (use assms(2) in \<open>auto simp: transports_inv_def transport_ok_def\<close>)
  with d' assms(2) show ?thesis by (auto simp: transports_inv_def p)
qed

lemma create_pod_cases:
  assumes "create_pod env call d = Inr (d', p)"
  obtains i u where "pod_order_id call = Inr i" "safe_uuid i = Some u"
    "find_one (\<lambda>x. pod_transport_order_id x = u) (pod_records d) = Inr (Some p)" "d' = d"
  | i u where "pod_order_id call = Inr i" "safe_uuid i = Some u" "pod_transport_order_id p = u"
    "find_one (\<lambda>x. pod_transport_order_id x = u) (pod_records d) = Inr None" "new_pod env call u d = Inr p"
    "d' = (tick d)\<lparr>pod_records := insert_row p (pod_records d)\<rparr>"
proof -
  from assms obtain i u found where *: "pod_order_id call = Inr i" "safe_uuid i = Some u"
    "find_one (\<lambda>x. pod_transport_order_id x = u) (pod_records d) = Inr found"
    "(case found of Some pod \<Rightarrow> Inr (d, pod)
      | None \<Rightarrow> bindE (new_pod env call u d) (\<lambda>pod.
                Inr ((tick d)\<lparr>pod_records := insert_row pod (pod_records d)\<rparr>, pod))) = Inr (d', p)"
    unfolding create_pod_def bindE_eq_Inr of_option_eq_Inr by blast
  show thesis
  proof (cases found)
    case None
    with *(4) have n: "new_pod env call u d = Inr p" "d' = (tick d)\<lparr>pod_records := insert_row p (pod_records d)\<rparr>"
      by simp_all
    from n(1) have "pod_transport_order_id p = u" by (auto simp: new_pod_def Let_def)
    with * None n show thesis by (intro that(2)) simp_all
  next
    case (Some pod)
    with *(4) have "d' = d" "pod = p" by simp_all
    with * Some show thesis by (intro that(1)) simp_all
  qed
qed

lemma create_pod_inv:
  assumes "create_pod env call d = Inr (d', p)" "transports_inv d"
  shows "transports_inv d'"
  using assms(1)
proof (cases rule: create_pod_cases)
  case (2 i u)
  from 2(4) have "\<forall>x\<in>set (pod_records d). pod_transport_order_id x \<noteq> u" by (simp add: find_one_None)
  then have "u \<notin> pod_transport_order_id ` set (pod_records d)" by (metis imageE)
  moreover have "pod_records d' = pod_records d @ [p]" "transport_orders d' = transport_orders d"
    by (simp_all add: 2(6) tick_def insert_row_def)
  ultimately show ?thesis using assms(2) 2(3) by (simp add: transports_inv_def)
qed (use assms(2) in simp)

lemma update_podE:
  assumes "update_pod env i data d = Inr (d', p)"
  obtains q :: proof_of_delivery where
    "d' = d\<lparr>pod_records := update_where (\<lambda>x. pk x = pk q) (apply_pod_update env data) (pod_records d)\<rparr>"
  using assms by (auto simp: update_pod_def)

lemma update_pod_inv:
  assumes "update_pod env i data d = Inr (d', p)" "transports_inv d"
  shows "transports_inv d'"
proof -
  from update_podE[OF assms(1)] obtain q :: proof_of_delivery where
    d': "d' = d\<lparr>pod_records := update_where (\<lambda>x. pk x = pk q) (apply_pod_update env data) (pod_records d)\<rparr>"
    by metis
  have "map pod_transport_order_id (pod_records d') = map pod_transport_order_id (pod_records d)"
    by (simp add: d' apply_pod_update_def)
  with assms(2) show ?thesis by (simp add: transports_inv_def d')
qed

text \<open>Recording a proof of delivery again returns the first record and changes nothing.\<close>

lemma create_pod_again:
  assumes "create_pod env call d = Inr (d1, p)" "pod_order_id call' = pod_order_id call"
  shows "create_pod env' call' d1 = Inr (d1, p)"
  using assms(1)
proof (cases rule: create_pod_cases)
  case (1 i u)
  then show ?thesis using assms(2) by (simp add: create_pod_def)
next
  case (2 i u)
  have "find_one (\<lambda>x. pod_transport_order_id x = u) (pod_records d1) = Inr (Some p)"
    using 2(3,4) by (simp add: 2(6) find_one_Some_iff insert_row_def find_one_None filter_empty_conv)
  with 2(1,2) assms(2) show ?thesis by (simp add: create_pod_def)
qed

inductive transport_step :: "'a tms_db_scheme \<Rightarrow> 'a tms_db_scheme \<Rightarrow> bool" where
  created: "create_transport_order env data d = Inr (d', o') \<Longrightarrow> pk o' \<notin> pk ` set (transport_orders d) \<Longrightarrow>
     transport_step d d'"
| status_changed: "change_transport_status env i s d = Inr (d', o') \<Longrightarrow> transport_step d d'"
| tracked: "create_tracking_event env kdata d = Inr (d', e) \<Longrightarrow> transport_step d d'"
| pod_created: "create_pod env call d = Inr (d', p) \<Longrightarrow> transport_step d d'"
| pod_updated: "update_pod env i pdata d = Inr (d', p) \<Longrightarrow> transport_step d d'"

inductive transport_reachable :: "'a tms_db_scheme \<Rightarrow> bool" where
  start: "transport_orders d = [] \<Longrightarrow> pod_records d = [] \<Longrightarrow> transport_reachable d"
| step: "transport_reachable d \<Longrightarrow> transport_step d d' \<Longrightarrow> transport_reachable d'"

lemma transport_step_pks:
  assumes "transport_step d d'" "distinct (map pk (transport_orders d))"
  shows "distinct (map pk (transport_orders d'))"
  using assms(1)
proof (cases rule: transport_step.cases)
  case (created env data o')
  then have "transport_orders d' = transport_orders d @ [o']"
    by (auto simp: create_transport_order_def insert_row_def tick_def)
  with created(2) assms(2) show ?thesis by auto
next
  case (status_changed env i s o')
  then have "map pk (transport_orders d') = map pk (transport_orders d)"
    by (rule change_transport_statusE) simp
  with assms(2) show ?thesis by simp
next
  case (tracked env kdata e)
  from create_tracking_event_transports[OF this] obtain ord :: transport_order where
    "transport_orders d' = transport_orders d \<or>
     transport_orders d' = update_where (\<lambda>x. pk x = pk ord)
       (\<lambda>x. x\<lparr>tr_actual_delivery_time := Some (now env), updated_at := now env\<rparr>) (transport_orders d)"
    by metis
  then have "map pk (transport_orders d') = map pk (transport_orders d)" by auto
  with assms(2) show ?thesis by simp
next
  case (pod_created env call p)
  then show ?thesis using assms(2) by (cases rule: create_pod_cases) (auto simp: tick_def)
next
  case (pod_updated env i pdata p)
  then have "transport_orders d' = transport_orders d" by (rule update_podE) simp
  with assms(2) show ?thesis by simp
qed

lemma transport_reachable_inv:
  assumes "transport_reachable d"
  shows "transports_inv d \<and> distinct (map pk (transport_orders d))"
  using assms
proof induction
  case (start d)
  then show ?case by (simp add: transports_inv_def)
next
  case (step d d')
  have "transports_inv d'"
    using step.hyps(2)
  proof (cases rule: transport_step.cases)
    case created
    then show ?thesis using step.IH create_transport_order_inv by blast
  next
    case status_changed
    then show ?thesis using step.IH change_transport_status_inv by blast
  next
    case tracked
    then show ?thesis using step.IH create_tracking_event_inv by blast
  next
    case pod_created
    then show ?thesis using step.IH create_pod_inv by blast
  next
    case pod_updated
    then show ?thesis using step.IH update_pod_inv by blast
  qed
  with transport_step_pks[OF step.hyps(2)] step.IH show ?case by blast
qed

end
