(* ===== verification/Tms_Network.thy ===== *)
theory Tms_Network
  imports Tms_Transport
begin

text \<open>
  The hub network of \<open>src/tms/service.py\<close>: transfer hubs, carrier routes, hub connections, and the
  transport segments with their status table.
\<close>

section \<open>Transfer hubs\<close>

record hub_req =
  hq_code :: string
  hq_name :: string
  hq_type :: "string option"
  hq_city :: string
  hq_address :: "json option"
  hq_capacity_weight_kg :: "decimal option"
  hq_contact_name :: "string option"
  hq_contact_phone :: "string option"

definition hub_req_schema_ok :: "hub_req \<Rightarrow> bool" where
  "hub_req_schema_ok q =
     (1 \<le> length (hq_code q) \<and> length (hq_code q) \<le> 50 \<and> 1 \<le> length (hq_name q) \<and> length (hq_name q) \<le> 200 \<and>
      enum_find transfer_hub_type_value transfer_hub_types (get_default ''primary'' (hq_type q)) \<noteq> None \<and>
      1 \<le> length (hq_city q) \<and> length (hq_city q) \<le> 100)"

definition create_hub :: "env \<Rightarrow> hub_req \<Rightarrow> 'a tms_db_scheme \<Rightarrow> ('a tms_db_scheme \<times> transfer_hub) result" where
  "create_hub env data d =
     bindE (find_one (\<lambda>h. th_code h = hq_code data) (transfer_hubs d)) (\<lambda>existing.
     bindE (raise_if (existing \<noteq> None) (validation (''Hub code '' @ hq_code data @ '' already exists''))) (\<lambda>_.
     bindE (enum_of transfer_hub_type_value transfer_hub_types (get_default ''primary'' (hq_type data))) (\<lambda>ty.
     let hub = \<lparr>pk = new_uuid env d, created_at = now env, updated_at = now env, th_code = hq_code data,
                 th_name = hq_name data, th_hub_type = ty, th_city = hq_city data, th_address = hq_address data,
                 th_capacity_weight_kg = get_default 0 (hq_capacity_weight_kg data),
                 th_contact_name = hq_contact_name data, th_contact_phone = hq_contact_phone data,
                 th_status = HubStatus_OPEN\<rparr>
     in bindE (insert_unique th_code hub (transfer_hubs d)) (\<lambda>t.
        Inr ((tick d)\<lparr>transfer_hubs := t\<rparr>, hub)))))"

definition get_hub :: "string \<Rightarrow> 'a tms_db_scheme \<Rightarrow> transfer_hub result" where
  "get_hub hub_id d = find_by_id ''Hub'' hub_id (transfer_hubs d)"

definition list_hubs :: "string option \<Rightarrow> string option \<Rightarrow> 'a tms_db_scheme \<Rightarrow> transfer_hub list result" where
  "list_hubs city hub_type d =
     bindE (enum_if_truthy transfer_hub_type_value transfer_hub_types hub_type) (\<lambda>ty.
     Inr (order_by_desc created_at
       (select_where (\<lambda>h. (truthy city \<longrightarrow> city = Some (th_city h)) \<and> (ty = None \<or> ty = Some (th_hub_type h)))
          (transfer_hubs d))))"

text \<open>Only the keys with a value are written; the enumerated ones are converted first.\<close>

record hub_update =
  hu_name :: "string option"
  hu_hub_type :: "string option"
  hu_city :: "string option"
  hu_address :: "json option"
  hu_capacity_weight_kg :: "decimal option"
  hu_contact_name :: "string option"
  hu_contact_phone :: "string option"
  hu_status :: "string option"

definition apply_hub_update :: "env \<Rightarrow> hub_update \<Rightarrow> transfer_hub \<Rightarrow> transfer_hub result" where
  "apply_hub_update env data h =
     bindE (case hu_hub_type data of None \<Rightarrow> Inr (th_hub_type h)
            | Some s \<Rightarrow> enum_of transfer_hub_type_value transfer_hub_types s) (\<lambda>ty.
     bindE (case hu_status data of None \<Rightarrow> Inr (th_status h)
            | Some s \<Rightarrow> enum_of hub_status_value hub_statuss s) (\<lambda>st.
     Inr (h\<lparr>th_name := get_default (th_name h) (hu_name data), th_hub_type := ty,
            th_city := get_default (th_city h) (hu_city data),
            th_address := (case hu_address data of None \<Rightarrow> th_address h | Some a \<Rightarrow> Some a),
            th_capacity_weight_kg := get_default (th_capacity_weight_kg h) (hu_capacity_weight_kg data),
            th_contact_name := (case hu_contact_name data of None \<Rightarrow> th_contact_name h | Some v \<Rightarrow> Some v),
            th_contact_phone := (case hu_contact_phone data of None \<Rightarrow> th_contact_phone h | Some v \<Rightarrow> Some v),
            th_status := st, updated_at := now env\<rparr>)))"

definition update_hub ::
  "env \<Rightarrow> string \<Rightarrow> hub_update \<Rightarrow> 'a tms_db_scheme \<Rightarrow> ('a tms_db_scheme \<times> transfer_hub) result" where
  "update_hub env hub_id data d =
     bindE (find_by_id ''Hub'' hub_id (transfer_hubs d)) (\<lambda>hub.
     bindE (apply_hub_update env data hub) (\<lambda>hub'.
     Inr (d\<lparr>transfer_hubs := update_where (\<lambda>x. pk x = pk hub) (\<lambda>_. hub') (transfer_hubs d)\<rparr>, hub')))"

section \<open>Carrier routes\<close>

record carrier_route_req =
  rq_carrier_code :: string
  rq_origin_city :: string
  rq_dest_city :: string
  rq_distance_km :: decimal
  rq_transit_hours :: decimal
  rq_base_price_per_kg :: decimal
  rq_express_surcharge :: "decimal option"
  rq_min_charge_weight :: "decimal option"

definition carrier_route_schema_ok :: "carrier_route_req \<Rightarrow> bool" where
  "carrier_route_schema_ok q =
     (enum_find carrier_code_value carrier_codes (rq_carrier_code q) \<noteq> None \<and>
      1 \<le> length (rq_origin_city q) \<and> length (rq_origin_city q) \<le> 100 \<and>
      1 \<le> length (rq_dest_city q) \<and> length (rq_dest_city q) \<le> 100 \<and>
      0 < rq_distance_km q \<and> 0 < rq_transit_hours q \<and> 0 \<le> rq_base_price_per_kg q \<and>
      0 \<le> get_default 0 (rq_express_surcharge q) \<and> 0 \<le> get_default 1 (rq_min_charge_weight q))"

definition add_carrier_route ::
  "env \<Rightarrow> carrier_route_req \<Rightarrow> 'a tms_db_scheme \<Rightarrow> ('a tms_db_scheme \<times> carrier_route) result" where
  "add_carrier_route env data d =
     bindE (enum_of carrier_code_value carrier_codes (rq_carrier_code data)) (\<lambda>cc.
     let r = \<lparr>pk = new_uuid env d, created_at = now env, updated_at = now env, cr_carrier_code = cc,
               cr_origin_city = rq_origin_city data, cr_dest_city = rq_dest_city data,
               cr_distance_km = rq_distance_km data, cr_transit_hours = rq_transit_hours data,
               cr_base_price_per_kg = rq_base_price_per_kg data,
               cr_express_surcharge = get_default 0 (rq_express_surcharge data),
               cr_min_charge_weight = get_default 1 (rq_min_charge_weight data)\<rparr>
     in Inr ((tick d)\<lparr>carrier_routes := insert_row r (carrier_routes d)\<rparr>, r))"

definition list_carrier_routes ::
  "string option \<Rightarrow> string option \<Rightarrow> string option \<Rightarrow> 'a tms_db_scheme \<Rightarrow> carrier_route list result" where
  "list_carrier_routes origin dest carrier d =
     bindE (enum_if_truthy carrier_code_value carrier_codes carrier) (\<lambda>cc.
     Inr (order_by_desc created_at
       (select_where (\<lambda>r. (truthy origin \<longrightarrow> origin = Some (cr_origin_city r)) \<and>
                          (truthy dest \<longrightarrow> dest = Some (cr_dest_city r)) \<and>
                          (cc = None \<or> cc = Some (cr_carrier_code r))) (carrier_routes d))))"

section \<open>Hub connections\<close>

record hub_connection_req =
  nq_from_hub_code :: string
  nq_to_hub_code :: string
  nq_distance_km :: decimal
  nq_transit_hours :: decimal

definition hub_connection_schema_ok :: "hub_connection_req \<Rightarrow> bool" where
  "hub_connection_schema_ok q =
     (1 \<le> length (nq_from_hub_code q) \<and> 1 \<le> length (nq_to_hub_code q) \<and> 0 < nq_distance_km q \<and> 0 < nq_transit_hours q)"

definition add_hub_connection ::
  "env \<Rightarrow> hub_connection_req \<Rightarrow> 'a tms_db_scheme \<Rightarrow> ('a tms_db_scheme \<times> hub_connection) result" where
  "add_hub_connection env data d =
     bindE (find_one (\<lambda>c. hc_from_hub_code c = nq_from_hub_code data \<and> hc_to_hub_code c = nq_to_hub_code data)
              (hub_connections d)) (\<lambda>existing.
     bindE (raise_if (existing \<noteq> None)
              (validation (''Connection '' @ nq_from_hub_code data @ ''->'' @ nq_to_hub_code data @ '' already exists''))) (\<lambda>_.
     let c = \<lparr>pk = new_uuid env d, created_at = now env, updated_at = now env,
               hc_from_hub_code = nq_from_hub_code data, hc_to_hub_code = nq_to_hub_code data,
               hc_distance_km = nq_distance_km data, hc_transit_hours = nq_transit_hours data\<rparr>
     in bindE (insert_unique (\<lambda>c. (hc_from_hub_code c, hc_to_hub_code c)) c (hub_connections d)) (\<lambda>t.
        Inr ((tick d)\<lparr>hub_connections := t\<rparr>, c))))"

definition list_hub_connections :: "string option \<Rightarrow> 'a tms_db_scheme \<Rightarrow> hub_connection list" where
  "list_hub_connections hub_code d =
     order_by_desc created_at
       (select_where (\<lambda>c. truthy hub_code \<longrightarrow> hub_code = Some (hc_from_hub_code c) \<or> hub_code = Some (hc_to_hub_code c))
          (hub_connections d))"

section \<open>Transport segments\<close>

record segment_req =
  gq_transport_order_id :: string
  gq_segment_no :: "int option"
  gq_origin_hub_code :: "string option"
  gq_dest_hub_code :: "string option"
  gq_carrier_code :: "string option"
  gq_weight_kg :: "decimal option"
  gq_cost_amount :: "decimal option"
  gq_estimated_departure_time :: "datetime option"
  gq_expected_arrival_time :: "datetime option"
  gq_notes :: "string option"

definition segment_schema_ok :: "segment_req \<Rightarrow> bool" where
  "segment_schema_ok q =
     (0 \<le> get_default 0 (gq_segment_no q) \<and> 0 \<le> get_default 0 (gq_weight_kg q) \<and>
      (case gq_carrier_code q of None \<Rightarrow> True | Some c \<Rightarrow> enum_find carrier_code_value carrier_codes c \<noteq> None))"

definition create_segment ::
  "env \<Rightarrow> segment_req \<Rightarrow> 'a tms_db_scheme \<Rightarrow> ('a tms_db_scheme \<times> transport_segment) result" where
  "create_segment env data d =
     bindE (to_uuid (gq_transport_order_id data)) (\<lambda>oid.
     bindE (enum_if_truthy carrier_code_value carrier_codes (gq_carrier_code data)) (\<lambda>cc.
     let seg = \<lparr>pk = new_uuid env d, created_at = now env, updated_at = now env, sg_transport_order_id = oid,
                 sg_segment_no = get_default 0 (gq_segment_no data), sg_origin_hub_code = gq_origin_hub_code data,
                 sg_dest_hub_code = gq_dest_hub_code data, sg_carrier_code = cc,
                 sg_status = TransportSegmentStatus_DRAFT, sg_tracking_number = None,
                 sg_estimated_departure_time = gq_estimated_departure_time data, sg_actual_departure_time = None,
                 sg_expected_arrival_time = gq_expected_arrival_time data, sg_actual_arrival_time = None,
                 sg_weight_kg = get_default 0 (gq_weight_kg data), sg_cost_amount = get_default 0 (gq_cost_amount data),
                 sg_notes = gq_notes data\<rparr>
     in Inr ((tick d)\<lparr>transport_segments := insert_row seg (transport_segments d)\<rparr>, seg)))"

fun segment_allowed :: "segment_status \<Rightarrow> segment_status list" where
  "segment_allowed TransportSegmentStatus_DRAFT = [TransportSegmentStatus_DISPATCHED, TransportSegmentStatus_CANCELLED]"
| "segment_allowed TransportSegmentStatus_DISPATCHED = [TransportSegmentStatus_PICKUP, TransportSegmentStatus_CANCELLED]"
| "segment_allowed TransportSegmentStatus_PICKUP = [TransportSegmentStatus_IN_TRANSIT, TransportSegmentStatus_EXCEPTION]"
| "segment_allowed TransportSegmentStatus_IN_TRANSIT =
     [TransportSegmentStatus_TRANSIT_HUB_ARRIVED, TransportSegmentStatus_OUT_FOR_DELIVERY, TransportSegmentStatus_EXCEPTION]"
| "segment_allowed TransportSegmentStatus_TRANSIT_HUB_ARRIVED =
     [TransportSegmentStatus_SORTING_CENTER, TransportSegmentStatus_IN_TRANSIT, TransportSegmentStatus_EXCEPTION]"
| "segment_allowed TransportSegmentStatus_SORTING_CENTER =
     [TransportSegmentStatus_IN_TRANSIT, TransportSegmentStatus_EXCEPTION]"
| "segment_allowed TransportSegmentStatus_OUT_FOR_DELIVERY =
     [TransportSegmentStatus_COMPLETED, TransportSegmentStatus_EXCEPTION]"
| "segment_allowed TransportSegmentStatus_COMPLETED = []"
| "segment_allowed TransportSegmentStatus_EXCEPTION = [TransportSegmentStatus_CANCELLED]"
| "segment_allowed TransportSegmentStatus_CANCELLED = []"

definition segment_change :: "segment_status \<Rightarrow> segment_status \<Rightarrow> segment_status result" where
  "segment_change s t =
     bindE (raise_if (t \<notin> set (segment_allowed s))
        (validation (''Cannot transition segment from '' @ segment_status_value s @ '' to '' @
                     segment_status_value t))) (\<lambda>_. Inr t)"

definition set_segment_status :: "env \<Rightarrow> segment_status \<Rightarrow> transport_segment \<Rightarrow> transport_segment" where
  "set_segment_status env t s =
     (let s1 = s\<lparr>sg_status := t, updated_at := now env\<rparr>
      in if t = TransportSegmentStatus_DISPATCHED then s1\<lparr>sg_actual_departure_time := Some (now env)\<rparr>
         else if t = TransportSegmentStatus_COMPLETED then s1\<lparr>sg_actual_arrival_time := Some (now env)\<rparr>
         else s1)"

definition find_segment :: "string \<Rightarrow> 'a tms_db_scheme \<Rightarrow> transport_segment result" where
  "find_segment seg_id d = find_by_id ''Segment'' seg_id (transport_segments d)"

definition update_segment_status ::
  "env \<Rightarrow> string \<Rightarrow> string \<Rightarrow> 'a tms_db_scheme \<Rightarrow> ('a tms_db_scheme \<times> transport_segment) result" where
  "update_segment_status env seg_id status d =
     bindE (find_segment seg_id d) (\<lambda>seg.
     bindE (enum_of segment_status_value segment_statuss status) (\<lambda>new_status.
     bindE (segment_change (sg_status seg) new_status) (\<lambda>t.
     Inr (d\<lparr>transport_segments := update_where (\<lambda>x. pk x = pk seg) (set_segment_status env t) (transport_segments d)\<rparr>,
          set_segment_status env t seg))))"

definition get_segment :: "string \<Rightarrow> 'a tms_db_scheme \<Rightarrow> transport_segment result" where
  "get_segment seg_id d = find_segment seg_id d"

definition segments_of :: "uuid \<Rightarrow> 'a tms_db_scheme \<Rightarrow> transport_segment list" where
  "segments_of u d = order_by sg_segment_no (select_where (\<lambda>s. sg_transport_order_id s = u) (transport_segments d))"

definition list_segments :: "string \<Rightarrow> 'a tms_db_scheme \<Rightarrow> transport_segment list result" where
  "list_segments order_id d =
     bindE (of_option (not_found ''TransportOrder'' order_id) (safe_uuid order_id)) (\<lambda>u. Inr (segments_of u d))"

section \<open>Facts about the network\<close>

interpretation segment_lifecycle: status_machine segment_allowed segment_change
  by unfold_locales (auto simp: segment_change_def)

text \<open>Two hubs never share a code, and a directed edge is stored once.\<close>

definition network_inv :: "'a tms_db_scheme \<Rightarrow> bool" where
  "network_inv d =
     (distinct (map th_code (transfer_hubs d)) \<and>
      distinct (map (\<lambda>c. (hc_from_hub_code c, hc_to_hub_code c)) (hub_connections d)))"

lemma create_hub_inv:
  assumes "create_hub env data d = Inr (d', h)" "network_inv d"
  shows "network_inv d'"
  using assms by (auto simp: create_hub_def network_inv_def Let_def tick_def insert_row_def)

lemma update_hub_inv:
  assumes "update_hub env i data d = Inr (d', h)" "network_inv d" "distinct (map pk (transfer_hubs d))"
  shows "network_inv d'"
proof -
  from assms(1) obtain hub where h: "find_by_id ''Hub'' i (transfer_hubs d) = Inr hub"
    "apply_hub_update env data hub = Inr h"
    and d': "d' = d\<lparr>transfer_hubs := update_where (\<lambda>x. pk x = pk hub) (\<lambda>_. h) (transfer_hubs d)\<rparr>"
    by (auto simp: update_hub_def)
  from h(2) have code: "th_code h = th_code hub" by (auto simp: apply_hub_update_def)
  have uniq: "x = hub" if "x \<in> set (transfer_hubs d)" "pk x = pk hub" for x
    using find_one_SomeD(3)[OF find_by_id_InrD(3)[OF h(1)] that(1)] that(2) by simp
  have "map th_code (transfer_hubs d') = map th_code (transfer_hubs d)"
    unfolding d' using uniq code by (auto simp: update_where_def)
  with assms(2) show ?thesis by (simp add: network_inv_def d')
qed

lemma add_hub_connection_inv:
  assumes "add_hub_connection env data d = Inr (d', c)" "network_inv d"
  shows "network_inv d'"
  using assms by (auto simp: add_hub_connection_def network_inv_def Let_def tick_def insert_row_def)

lemma create_hub_get:
  assumes "create_hub env data d = Inr (d', h)" "new_uuid env d \<notin> pk ` set (transfer_hubs d)"
  shows "get_hub (show_uuid (pk h)) d' = Inr h" "th_code h = hq_code data" "th_status h = HubStatus_OPEN"
proof -
  from assms(1) have pkh: "pk h = new_uuid env d" and d': "transfer_hubs d' = transfer_hubs d @ [h]"
    and *: "th_code h = hq_code data" "th_status h = HubStatus_OPEN"
    by (auto simp: create_hub_def Let_def tick_def insert_row_def)
  have "\<forall>x\<in>set (transfer_hubs d). pk x \<noteq> pk h" using assms(2) pkh by (metis imageI)
  then have "filter (\<lambda>x. pk x = pk h) (transfer_hubs d') = [h]" by (simp add: d' filter_empty_conv)
  then show "get_hub (show_uuid (pk h)) d' = Inr h"
    by (simp add: get_hub_def find_by_id_show find_one_Some_iff)
  show "th_code h = hq_code data" "th_status h = HubStatus_OPEN" using * by simp_all
qed

text \<open>A second hub with the same code is refused.\<close>

lemma create_hub_duplicate:
  assumes "h \<in> set (transfer_hubs d)" "th_code h = hq_code data" "network_inv d"
  shows "create_hub env data d = Inl (validation (''Hub code '' @ hq_code data @ '' already exists''))"
proof -
  have "find_one (\<lambda>x. th_code x = hq_code data) (transfer_hubs d) = Inr (Some h)"
    using assms by (intro find_one_pk[where k = th_code]) (simp_all add: network_inv_def)
  then show ?thesis by (simp add: create_hub_def)
qed

text \<open>
  A segment in transit may visit any number of hubs; it is finished exactly when it is completed or
  cancelled, and an exception can only be cancelled.
\<close>

lemma segment_terminal: "segment_allowed s = [] \<longleftrightarrow>
    s = TransportSegmentStatus_COMPLETED \<or> s = TransportSegmentStatus_CANCELLED"
  by (cases s) auto

lemma segment_exception_sinks:
  assumes "allowed_path segment_allowed TransportSegmentStatus_EXCEPTION ts"
  shows "ts = [] \<or> ts = [TransportSegmentStatus_CANCELLED]"
  using assms by (cases ts; cases "tl ts") auto

lemma segment_completed_path:
  assumes "allowed_path segment_allowed s ts" "TransportSegmentStatus_COMPLETED \<in> set ts"
    "s \<noteq> TransportSegmentStatus_OUT_FOR_DELIVERY"
  shows "TransportSegmentStatus_OUT_FOR_DELIVERY \<in> set ts \<and> TransportSegmentStatus_EXCEPTION \<notin> set ts"
proof -
  have src: "TransportSegmentStatus_COMPLETED \<in> set (segment_allowed s) \<longleftrightarrow> s = TransportSegmentStatus_OUT_FOR_DELIVERY" for s
    by (cases s) auto
  have out: "TransportSegmentStatus_OUT_FOR_DELIVERY \<in> set ts"
    using assms
  proof (induction ts arbitrary: s)
    case (Cons t ts)
    then show ?case by (cases "t = TransportSegmentStatus_OUT_FOR_DELIVERY") (auto simp: src)
  qed simp
  moreover have "TransportSegmentStatus_EXCEPTION \<notin> set ts"
    using assms(1,2)
  proof (induction ts arbitrary: s)
    case (Cons t ts)
    show ?case
    proof (cases "t = TransportSegmentStatus_EXCEPTION \<or> t = TransportSegmentStatus_COMPLETED")
      case True
      with Cons.prems show ?thesis
        using segment_exception_sinks[of ts] by (cases ts) auto
    next
      case False
      with Cons show ?thesis by auto
    qed
  qed simp
  ultimately show ?thesis by blast
qed

text \<open>A departure time is recorded when a segment leaves the draft, an arrival time when it completes.\<close>

definition segment_ok :: "transport_segment \<Rightarrow> bool" where
  "segment_ok s =
     ((sg_actual_departure_time s = None \<longrightarrow>
         sg_status s = TransportSegmentStatus_DRAFT \<or> sg_status s = TransportSegmentStatus_CANCELLED) \<and>
      (sg_actual_arrival_time s \<noteq> None \<longleftrightarrow> sg_status s = TransportSegmentStatus_COMPLETED) \<and>
      (sg_status s = TransportSegmentStatus_DRAFT \<longrightarrow> sg_actual_departure_time s = None))"

lemma set_segment_status_ok:
  assumes "segment_ok s" "t \<in> set (segment_allowed (sg_status s))"
  shows "segment_ok (set_segment_status env t s)"
  using assms by (cases "sg_status s") (auto simp: segment_ok_def set_segment_status_def Let_def)

lemma create_segment_ok: "create_segment env data d = Inr (d', s) \<Longrightarrow> segment_ok s"
  by (auto simp: create_segment_def segment_ok_def Let_def)

lemma update_segment_statusE:
  assumes "update_segment_status env i st d = Inr (d', s')"
  obtains seg where "find_segment i d = Inr seg" "st = segment_status_value (sg_status s')"
    "sg_status s' \<in> set (segment_allowed (sg_status seg))" "s' = set_segment_status env (sg_status s') seg"
    "d' = d\<lparr>transport_segments := update_where (\<lambda>x. pk x = pk seg) (set_segment_status env (sg_status s')) (transport_segments d)\<rparr>"
proof -
  from assms obtain seg t u where *: "find_segment i d = Inr seg"
    "enum_of segment_status_value segment_statuss st = Inr t" "segment_change (sg_status seg) t = Inr u"
    "s' = set_segment_status env u seg"
    "d' = d\<lparr>transport_segments := update_where (\<lambda>x. pk x = pk seg) (set_segment_status env u) (transport_segments d)\<rparr>"
    by (auto simp: update_segment_status_def)
  from *(3) have "t \<in> set (segment_allowed (sg_status seg))" "u = t"
    by (auto simp: segment_lifecycle.change_eq_Inr)
  moreover have "sg_status s' = u" by (simp add: *(4) set_segment_status_def Let_def)
  ultimately show thesis using * by (intro that[of seg]) (simp_all add: segment_status_enum.of_eq_Inr)
qed

lemma update_segment_status_ok:
  assumes "update_segment_status env i st d = Inr (d', s')" "\<forall>s\<in>set (transport_segments d). segment_ok s"
  shows "\<forall>s\<in>set (transport_segments d'). segment_ok s"
  using assms(1)
proof (rule update_segment_statusE)
  fix seg
  assume f: "find_segment i d = Inr seg" and al: "sg_status s' \<in> set (segment_allowed (sg_status seg))"
    and d': "d' = d\<lparr>transport_segments := update_where (\<lambda>x. pk x = pk seg) (set_segment_status env (sg_status s')) (transport_segments d)\<rparr>"
  have uniq: "x = seg" if "x \<in> set (transport_segments d)" "pk x = pk seg" for x
    using find_one_SomeD(3)[OF find_by_id_InrD(3)[OF f[unfolded find_segment_def]] that(1)] that(2) by simp
  show ?thesis
  proof (rule all_updated)
    show "transport_segments d' = update_where (\<lambda>x. pk x = pk seg) (set_segment_status env (sg_status s')) (transport_segments d)"
      by (simp add: d')
    show "segment_ok (set_segment_status env (sg_status s') x)" if "x \<in> set (transport_segments d)" "pk x = pk seg" for x
      using that uniq[OF that] al assms(2) by (intro set_segment_status_ok) auto
  qed (use assms(2) in blast)
qed

end
