(* ===== verification/Heapq.thy ===== *)
theory Heapq
  imports Prelude
begin

text \<open>
  The binary heap of Python's \<open>heapq\<close> on a list, as \<open>_dijkstra\<close> uses it. An item is compared by a key
  only (the dataclass \<open>_PriorityNode\<close> compares \<open>priority\<close> and nothing else), so the order in which
  equal keys leave the heap is decided by the positions in the list and is modelled as it is. The
  locale \<open>priority_queue\<close> is the interface the route search relies on.
\<close>

section \<open>The interface\<close>

locale priority_queue =
  fixes is_queue :: "('a \<Rightarrow> 'k::linorder) \<Rightarrow> 'a list \<Rightarrow> bool"
    and push :: "('a \<Rightarrow> 'k) \<Rightarrow> 'a \<Rightarrow> 'a list \<Rightarrow> 'a list"
    and pop :: "('a \<Rightarrow> 'k) \<Rightarrow> 'a list \<Rightarrow> 'a \<times> 'a list"
  assumes queue_single: "is_queue key [x]"
    and push_queue: "is_queue key h \<Longrightarrow> is_queue key (push key x h)"
    and push_mset: "mset (push key x h) = add_mset x (mset h)"
    and pop_queue: "is_queue key h \<Longrightarrow> h \<noteq> [] \<Longrightarrow> pop key h = (x, h') \<Longrightarrow> is_queue key h'"
    and pop_mset: "h \<noteq> [] \<Longrightarrow> pop key h = (x, h') \<Longrightarrow> mset h = add_mset x (mset h')"
    and pop_least: "is_queue key h \<Longrightarrow> h \<noteq> [] \<Longrightarrow> pop key h = (x, h') \<Longrightarrow> y \<in> set h \<Longrightarrow> key x \<le> key y"
begin

lemma push_set: "set (push key x h) = insert x (set h)"
  using push_mset[of key x h] by (metis set_mset_add_mset_insert set_mset_mset)

lemma push_length: "length (push key x h) = Suc (length h)"
  using push_mset[of key x h] by (metis size_add_mset size_mset)

lemma pop_set: "h \<noteq> [] \<Longrightarrow> pop key h = (x, h') \<Longrightarrow> set h = insert x (set h')"
  using pop_mset[of h key x h'] by (metis set_mset_add_mset_insert set_mset_mset)

lemma pop_length: "h \<noteq> [] \<Longrightarrow> pop key h = (x, h') \<Longrightarrow> length h = Suc (length h')"
  using pop_mset[of h key x h'] by (metis size_add_mset size_mset)

text \<open>Taking every item out lists the items in order of their keys.\<close>

fun drain :: "('a \<Rightarrow> 'k) \<Rightarrow> nat \<Rightarrow> 'a list \<Rightarrow> 'a list" where
  "drain key 0 h = []"
| "drain key (Suc n) h = (if h = [] then [] else let (x, h') = pop key h in x # drain key n h')"

lemma drain_mset: "length h \<le> n \<Longrightarrow> mset (drain key n h) = mset h"
proof (induction n arbitrary: h)
  case (Suc n)
  show ?case
  proof (cases "h = []")
    case False
    obtain x h' where p: "pop key h = (x, h')" by fastforce
    with False Suc.prems have "length h' \<le> n" using pop_length[of h key x h'] by simp
    with Suc.IH pop_mset[OF False p] p False show ?thesis by simp
  qed simp
qed simp

lemma drain_sorted: "is_queue key h \<Longrightarrow> length h \<le> n \<Longrightarrow> sorted (map key (drain key n h))"
proof (induction n arbitrary: h)
  case (Suc n)
  show ?case
  proof (cases "h = []")
    case False
    obtain x h' where p: "pop key h = (x, h')" by fastforce
    have len: "length h' \<le> n" using False Suc.prems(2) pop_length[OF False p] by simp
    have "sorted (map key (drain key n h'))" using Suc.IH[OF pop_queue[OF Suc.prems(1) False p] len] .
    moreover have "key x \<le> key y" if "y \<in> set (drain key n h')" for y
    proof -
      have "y \<in> set h'" using that drain_mset[OF len] by (metis set_mset_mset)
      then show ?thesis using pop_least[OF Suc.prems(1) False p] pop_set[OF False p] by simp
    qed
    ultimately show ?thesis using p False by simp
  qed simp
qed simp

end

section \<open>The functions of the module\<close>

definition swap :: "nat \<Rightarrow> nat \<Rightarrow> 'a list \<Rightarrow> 'a list" where
  "swap i j xs = xs[i := xs ! j, j := xs ! i]"

text \<open>
  \<open>_siftdown(heap, 0, pos)\<close> moves the item at \<open>pos\<close> towards the root; \<open>_siftup(heap, pos)\<close> moves the hole
  at \<open>pos\<close> down to a leaf along the smaller children (the right one on a tie), and then calls the
  former. The item carried along is written at every position it passes, which leaves the same list
  as writing it once at the end.
\<close>

function siftdown :: "('a \<Rightarrow> 'k::linorder) \<Rightarrow> nat \<Rightarrow> 'a list \<Rightarrow> 'a list" where
  "siftdown key pos h =
     (if 0 < pos \<and> key (h ! pos) < key (h ! ((pos - 1) div 2))
      then siftdown key ((pos - 1) div 2) (swap pos ((pos - 1) div 2) h) else h)"
  by pat_completeness auto
termination by (relation "measure (\<lambda>(key, pos, h). pos)") auto

declare siftdown.simps [simp del]

definition small_child :: "('a \<Rightarrow> 'k::linorder) \<Rightarrow> nat \<Rightarrow> 'a list \<Rightarrow> nat" where
  "small_child key pos h =
     (if 2 * pos + 2 < length h \<and> \<not> key (h ! (2 * pos + 1)) < key (h ! (2 * pos + 2))
      then 2 * pos + 2 else 2 * pos + 1)"

lemma swap_length [simp]: "length (swap i j xs) = length xs"
  by (simp add: swap_def)

function siftup :: "('a \<Rightarrow> 'k::linorder) \<Rightarrow> nat \<Rightarrow> 'a list \<Rightarrow> 'a list" where
  "siftup key pos h =
     (if 2 * pos + 1 < length h
      then siftup key (small_child key pos h) (swap pos (small_child key pos h) h)
      else siftdown key pos h)"
  by pat_completeness auto
termination
  by (relation "measure (\<lambda>(key, pos, h). length h - pos)") (auto simp: small_child_def split: if_splits)

declare siftup.simps [simp del]

definition heappush :: "('a \<Rightarrow> 'k::linorder) \<Rightarrow> 'a \<Rightarrow> 'a list \<Rightarrow> 'a list" where
  "heappush key x h = siftdown key (length h) (h @ [x])"

text \<open>\<open>heappop\<close> of a heap that is not empty.\<close>

definition heappop :: "('a \<Rightarrow> 'k::linorder) \<Rightarrow> 'a list \<Rightarrow> 'a \<times> 'a list" where
  "heappop key h =
     (if butlast h = [] then (last h, [])
      else (hd h, siftup key 0 ((butlast h)[0 := last h])))"

section \<open>The heap order\<close>

definition parent :: "nat \<Rightarrow> nat" where
  "parent i = (i - 1) div 2"

definition is_heap :: "('a \<Rightarrow> 'k::linorder) \<Rightarrow> 'a list \<Rightarrow> bool" where
  "is_heap key h = (\<forall>i. 0 < i \<and> i < length h \<longrightarrow> key (h ! parent i) \<le> key (h ! i))"

text \<open>
  The order holds except above \<open>p\<close> (\<open>heap_above\<close>), or except above and below \<open>p\<close> (\<open>heap_around\<close>); the
  parent of \<open>p\<close> is below the children of \<open>p\<close> in both.
\<close>

definition heap_above :: "('a \<Rightarrow> 'k::linorder) \<Rightarrow> nat \<Rightarrow> 'a list \<Rightarrow> bool" where
  "heap_above key p h =
     ((\<forall>i. 0 < i \<and> i < length h \<and> i \<noteq> p \<longrightarrow> key (h ! parent i) \<le> key (h ! i)) \<and>
      (0 < p \<longrightarrow> (\<forall>i. 0 < i \<and> i < length h \<and> parent i = p \<longrightarrow> key (h ! parent p) \<le> key (h ! i))))"

definition heap_around :: "('a \<Rightarrow> 'k::linorder) \<Rightarrow> nat \<Rightarrow> 'a list \<Rightarrow> bool" where
  "heap_around key p h =
     ((\<forall>i. 0 < i \<and> i < length h \<and> i \<noteq> p \<and> parent i \<noteq> p \<longrightarrow> key (h ! parent i) \<le> key (h ! i)) \<and>
      (0 < p \<longrightarrow> (\<forall>i. 0 < i \<and> i < length h \<and> parent i = p \<longrightarrow> key (h ! parent p) \<le> key (h ! i))))"

lemma parent_less: "0 < i \<Longrightarrow> parent i < i"
  by (simp add: parent_def)

lemma parent_cases: "0 < i \<Longrightarrow> parent i = p \<longleftrightarrow> i = 2 * p + 1 \<or> i = 2 * p + 2"
  unfolding parent_def by presburger

lemma swap_mset:
  assumes "i < length xs" "j < length xs"
  shows "mset (swap i j xs) = mset xs"
  using mset_swap[OF assms(2,1)] by (simp add: swap_def)

lemma swap_nth:
  assumes "i < length xs" "j < length xs" "k < length xs"
  shows "swap i j xs ! k = (if k = i then xs ! j else if k = j then xs ! i else xs ! k)"
  using assms by (auto simp: swap_def nth_list_update)

lemma heap_root_least:
  assumes "is_heap key h" "i < length h"
  shows "key (h ! 0) \<le> key (h ! i)"
  using assms(2)
proof (induction i rule: less_induct)
  case (less i)
  show ?case
  proof (cases "i = 0")
    case False
    then have "key (h ! parent i) \<le> key (h ! i)" using assms(1) less.prems by (simp add: is_heap_def)
    moreover have "key (h ! 0) \<le> key (h ! parent i)" using less False parent_less[of i] by simp
    ultimately show ?thesis by simp
  qed simp
qed

lemma heap_above_done:
  assumes "heap_above key p h" "p = 0 \<or> key (h ! parent p) \<le> key (h ! p)"
  shows "is_heap key h"
  using assms by (auto simp: is_heap_def heap_above_def)

lemma heap_above_swap:
  assumes "heap_above key p h" "0 < p" "p < length h" "key (h ! p) < key (h ! parent p)"
  shows "heap_above key (parent p) (swap p (parent p) h)"
proof -
  let ?q = "parent p" and ?g = "swap p (parent p) h"
  have q: "?q < p" "?q < length h" using assms parent_less[of p] by auto
  have g: "?g ! k = (if k = p then h ! ?q else if k = ?q then h ! p else h ! k)" if "k < length h" for k
    using swap_nth[OF assms(3) q(2) that] .
  have old: "key (h ! parent i) \<le> key (h ! i)" if "0 < i" "i < length h" "i \<noteq> p" for i
    using assms(1) that by (simp add: heap_above_def)
  have grand: "key (h ! ?q) \<le> key (h ! i)" if "0 < i" "i < length h" "parent i = p" for i
    using assms(1,2) that by (simp add: heap_above_def)
  have pl: "parent i < length h" if "0 < i" "i < length h" for i
    using that parent_less[of i] by simp
  show ?thesis
    unfolding heap_above_def swap_length
  proof (intro conjI allI impI; elim conjE)
    fix i assume i: "0 < i" "i < length h" "i \<noteq> ?q"
    show "key (?g ! parent i) \<le> key (?g ! i)"
    proof (cases "i = p")
      case True
      then show ?thesis using assms(3,4) q g by auto
    next
      case False
      consider "parent i = p" | "parent i = ?q" | "parent i \<noteq> p" "parent i \<noteq> ?q" by blast
      then show ?thesis
      proof cases
        case 1
        then show ?thesis using i False grand[OF i(1,2)] g[OF i(2)] g[OF assms(3)] by simp
      next
        case 2
        then have "key (h ! ?q) \<le> key (h ! i)" using old[OF i(1,2) False] by simp
        with 2 False i q assms(4) show ?thesis using g[OF i(2)] g[OF q(2)] by auto
      next
        case 3
        with False i show ?thesis using old[OF i(1,2) False] g[OF i(2)] g[OF pl[OF i(1,2)]] by simp
      qed
    qed
  next
    fix i assume qpos: "0 < ?q" and i: "0 < i" "i < length h" "parent i = ?q"
    have pq: "parent ?q < length h" "parent ?q \<noteq> p" "parent ?q \<noteq> ?q"
      using qpos q parent_less[of ?q] by auto
    have up: "key (h ! parent ?q) \<le> key (h ! ?q)" using old[OF qpos q(2)] q by simp
    have "key (h ! parent ?q) \<le> key (?g ! i)"
    proof (cases "i = p")
      case True
      with up g[OF assms(3)] show ?thesis by simp
    next
      case False
      then have "key (h ! ?q) \<le> key (h ! i)" using old[OF i(1,2) False] i(3) by simp
      moreover have "i \<noteq> ?q" using i(1,3) parent_less[of i] by auto
      ultimately show ?thesis using up False g[OF i(2)] by simp
    qed
    then show "key (?g ! parent ?q) \<le> key (?g ! i)" using g[OF pq(1)] pq by simp
  qed
qed

lemma siftdown_mset: "pos < length h \<Longrightarrow> mset (siftdown key pos h) = mset h"
proof (induction key pos h rule: siftdown.induct)
  case (1 key pos h)
  show ?case
  proof (cases "0 < pos \<and> key (h ! pos) < key (h ! ((pos - 1) div 2))")
    case True
    then have "(pos - 1) div 2 < length h" using 1(2) by simp
    with 1 True show ?thesis by (subst siftdown.simps) (simp add: swap_mset)
  next
    case False
    show ?thesis by (subst siftdown.simps) (simp only: if_not_P[OF False])
  qed
qed

lemma siftdown_heap: "pos < length h \<Longrightarrow> heap_above key pos h \<Longrightarrow> is_heap key (siftdown key pos h)"
proof (induction key pos h rule: siftdown.induct)
  case (1 key pos h)
  show ?case
  proof (cases "0 < pos \<and> key (h ! pos) < key (h ! ((pos - 1) div 2))")
    case True
    then have "heap_above key ((pos - 1) div 2) (swap pos ((pos - 1) div 2) h)"
      using heap_above_swap[OF 1(3) _ 1(2)] by (simp add: parent_def)
    with 1(1)[OF True] True 1(2) show ?thesis by (subst siftdown.simps) simp
  next
    case False
    then have "is_heap key h" using heap_above_done[OF 1(3)] by (auto simp: parent_def not_less)
    then show ?thesis by (subst siftdown.simps) (simp only: if_not_P[OF False])
  qed
qed

lemma small_child_facts:
  assumes "2 * pos + 1 < length h"
  shows "small_child key pos h < length h" "pos < small_child key pos h" "parent (small_child key pos h) = pos"
    "\<And>i. 0 < i \<Longrightarrow> i < length h \<Longrightarrow> parent i = pos \<Longrightarrow> key (h ! small_child key pos h) \<le> key (h ! i)"
proof -
  show "small_child key pos h < length h" "pos < small_child key pos h" "parent (small_child key pos h) = pos"
    using assms by (auto simp: small_child_def parent_def)
  show "key (h ! small_child key pos h) \<le> key (h ! i)" if "0 < i" "i < length h" "parent i = pos" for i
    using that(2) parent_cases[OF that(1), of pos] that(3) by (auto simp: small_child_def not_less)
qed

lemma heap_around_swap:
  assumes "heap_around key p h" "2 * p + 1 < length h"
  shows "heap_around key (small_child key p h) (swap p (small_child key p h) h)"
proof -
  let ?c = "small_child key p h" and ?g = "swap p (small_child key p h) h"
  note c = small_child_facts[OF assms(2), where key = key]
  have p: "p < length h" using assms(2) by simp
  have g: "?g ! k = (if k = p then h ! ?c else if k = ?c then h ! p else h ! k)" if "k < length h" for k
    using swap_nth[OF p c(1) that] .
  have old: "key (h ! parent i) \<le> key (h ! i)" if "0 < i" "i < length h" "i \<noteq> p" "parent i \<noteq> p" for i
    using assms(1) that by (simp add: heap_around_def)
  have pl: "parent i < length h" if "0 < i" "i < length h" for i
    using that parent_less[of i] by simp
  show ?thesis
    unfolding heap_around_def swap_length
  proof (intro conjI allI impI; elim conjE)
    fix i assume i: "0 < i" "i < length h" "i \<noteq> ?c" "parent i \<noteq> ?c"
    consider "i = p" | "i \<noteq> p" "parent i = p" | "i \<noteq> p" "parent i \<noteq> p" by blast
    then show "key (?g ! parent i) \<le> key (?g ! i)"
    proof cases
      case 1
      then have "parent p \<noteq> p" "parent p < length h" using i parent_less[of p] pl by auto
      moreover have "key (h ! parent p) \<le> key (h ! ?c)"
        using assms(1) 1 i(1) c by (simp add: heap_around_def)
      ultimately show ?thesis using 1 i(4) g[OF p] g[of "parent p"] by simp
    next
      case 2
      then show ?thesis using c(4)[OF i(1,2)] i g[OF i(2)] g[OF p] by simp
    next
      case 3
      then show ?thesis using old[OF i(1,2)] i g[OF i(2)] g[OF pl[OF i(1,2)]] by simp
    qed
  next
    fix i assume i: "0 < i" "i < length h" "parent i = ?c"
    have ne: "i \<noteq> p" "i \<noteq> ?c" "?c \<noteq> p" using i c(2) parent_less[of i] by auto
    have "key (h ! ?c) \<le> key (h ! i)" using old[OF i(1,2) ne(1)] i(3) ne(3) by simp
    then show "key (?g ! parent ?c) \<le> key (?g ! i)" using c(3) ne g[OF i(2)] g[OF p] by simp
  qed
qed

lemma heap_around_leaf:
  assumes "heap_around key p h" "\<not> 2 * p + 1 < length h"
  shows "heap_above key p h"
proof -
  have "parent i \<noteq> p" if "0 < i" "i < length h" for i
    using that assms(2) by (auto simp: parent_cases)
  then show ?thesis using assms(1) by (auto simp: heap_above_def heap_around_def)
qed

lemma siftup_mset: "pos < length h \<Longrightarrow> mset (siftup key pos h) = mset h"
proof (induction key pos h rule: siftup.induct)
  case (1 key pos h)
  show ?case
  proof (cases "2 * pos + 1 < length h")
    case True
    with 1 small_child_facts[OF True, where key = key] show ?thesis by (subst siftup.simps) (simp add: swap_mset)
  next
    case False
    with 1(2) show ?thesis by (subst siftup.simps) (simp add: siftdown_mset)
  qed
qed

lemma siftup_heap: "pos < length h \<Longrightarrow> heap_around key pos h \<Longrightarrow> is_heap key (siftup key pos h)"
proof (induction key pos h rule: siftup.induct)
  case (1 key pos h)
  show ?case
  proof (cases "2 * pos + 1 < length h")
    case True
    with 1 small_child_facts[OF True, where key = key] heap_around_swap[OF "1.prems"(2) True]
    show ?thesis by (subst siftup.simps) simp
  next
    case False
    with 1(2) heap_around_leaf[OF 1(3) False] show ?thesis by (subst siftup.simps) (simp add: siftdown_heap)
  qed
qed

interpretation heapq: priority_queue is_heap heappush heappop
proof
  fix key :: "'a \<Rightarrow> 'b::linorder" and h h' :: "'a list" and x y :: 'a
  show "is_heap key [x]" by (simp add: is_heap_def)
  show "mset (heappush key x h) = add_mset x (mset h)" by (simp add: heappush_def siftdown_mset)
  show "is_heap key (heappush key x h)" if "is_heap key h"
  proof -
    have "heap_above key (length h) (h @ [x])"
      unfolding heap_above_def
    proof (intro conjI allI impI; elim conjE)
      fix i assume i: "0 < i" "i < length (h @ [x])" "i \<noteq> length h"
      then have "i < length h" "parent i < length h" using parent_less[of i] by auto
      with that i(1) show "key ((h @ [x]) ! parent i) \<le> key ((h @ [x]) ! i)" by (simp add: is_heap_def nth_append)
    next
      fix i assume "0 < i" "i < length (h @ [x])" "parent i = length h"
      then show "key ((h @ [x]) ! parent (length h)) \<le> key ((h @ [x]) ! i)" using parent_less[of i] by simp
    qed
    then show ?thesis by (simp add: heappush_def siftdown_heap)
  qed
  assume ne: "h \<noteq> []" and p: "heappop key h = (x, h')"
  have split: "h = butlast h @ [last h]" using ne by simp
  show m: "mset h = add_mset x (mset h')"
  proof (cases "butlast h = []")
    case True
    with p split show ?thesis by (auto simp: heappop_def)
  next
    case False
    then obtain b bs where b: "butlast h = b # bs" by (cases "butlast h") auto
    with split have h: "h = b # bs @ [last h]" by simp
    then have "hd h = b" by (metis list.sel(1))
    with b p have "x = b" "h' = siftup key 0 (last h # bs)" by (auto simp: heappop_def)
    moreover have "mset h = add_mset b (mset (last h # bs))" by (subst h) simp
    moreover have "mset (siftup key 0 (last h # bs)) = mset (last h # bs)" by (rule siftup_mset) simp
    ultimately show ?thesis by simp
  qed
  assume hp: "is_heap key h"
  have hd: "x = h ! 0"
  proof (cases "butlast h = []")
    case True
    then have "h ! 0 = last h" using split by (metis append_Nil nth_Cons_0)
    with True p show ?thesis by (simp add: heappop_def)
  next
    case False
    with p ne show ?thesis by (simp add: heappop_def hd_conv_nth)
  qed
  show "is_heap key h'"
  proof (cases "butlast h = []")
    case True
    with p show ?thesis by (simp add: heappop_def is_heap_def)
  next
    case False
    let ?g = "(butlast h)[0 := last h]"
    have "heap_around key 0 ?g"
      unfolding heap_around_def
    proof (intro conjI allI impI; elim conjE)
      fix i assume i: "0 < i" "i < length ?g" "i \<noteq> 0" "parent i \<noteq> 0"
      then have "parent i < length (butlast h)" using parent_less[of i] by simp
      with i hp show "key (?g ! parent i) \<le> key (?g ! i)" by (auto simp: is_heap_def nth_butlast)
    qed simp
    moreover have "0 < length ?g" using False by (metis length_greater_0_conv length_list_update)
    ultimately have "is_heap key (siftup key 0 ?g)" by (intro siftup_heap)
    with p False show ?thesis by (simp add: heappop_def)
  qed
  show "key x \<le> key y" if "y \<in> set h"
    using that heap_root_least[OF hp] hd by (auto simp: in_set_conv_nth)
qed

end
