(* ===== verification/Tms_Routing.thy ===== *)
theory Tms_Routing
  imports Tms_Network Heapq "HOL-Library.While_Combinator" "HOL-Library.AList"
begin

text \<open>
  The route planner of \<open>src/tms/service.py\<close>: the graph and the price table built from the database,
  \<open>_dijkstra\<close> as the loop it is (with lazy deletion on a \<open>heapq\<close> heap; \<open>while_option\<close> is the
  \<open>while heap:\<close> loop, \<open>None\<close> when it does not end), the choice of the best pair of hubs, the cached
  entry point, and the plan that is stored. Proved of the search: with costs that are not negative
  it ends, the cost it reports is the least cost of a walk, and it reports no route exactly when
  there is none; and of the path it reports: unless it is the fallback \<open>[origin, destination]\<close>, its
  cost is above the cost reported.
\<close>

section \<open>The graph\<close>

type_synonym edge = "string \<times> decimal \<times> decimal"
type_synonym graph = "(string \<times> edge list) list"
type_synonym price_map = "((string \<times> string \<times> carrier_code) \<times> decimal) list"

definition edges :: "graph \<Rightarrow> string \<Rightarrow> edge list" where
  "edges g u = get_default [] (map_of g u)"

text \<open>\<open>graph.setdefault(c["from_hub_code"], []).append(...)\<close>\<close>

definition add_edge :: "graph \<Rightarrow> hub_connection \<Rightarrow> graph" where
  "add_edge g c = AList.update (hc_from_hub_code c)
     (edges g (hc_from_hub_code c) @ [(hc_to_hub_code c, hc_distance_km c, hc_transit_hours c)]) g"

definition build_graph :: "hub_connection list \<Rightarrow> graph" where
  "build_graph cs = foldl add_edge [] cs"

definition build_prices :: "carrier_route list \<Rightarrow> price_map" where
  "build_prices rs = foldl (\<lambda>m r. AList.update (cr_origin_city r, cr_dest_city r, cr_carrier_code r)
     (cr_base_price_per_kg r) m) [] rs"

definition cheaper :: "string \<Rightarrow> string \<Rightarrow> decimal option \<Rightarrow> (string \<times> string \<times> carrier_code) \<times> decimal \<Rightarrow> decimal option" where
  "cheaper oc dc best entry =
     (case entry of ((oc', dc', cc), price) \<Rightarrow>
        if oc' = oc \<and> dc' = dc \<and> (case best of None \<Rightarrow> True | Some b \<Rightarrow> price < b) then Some price else best)"

definition best_price :: "price_map \<Rightarrow> string \<Rightarrow> string \<Rightarrow> decimal option" where
  "best_price pm oc dc = foldl (cheaper oc dc) None pm"

definition seg_cost :: "price_map \<Rightarrow> string \<Rightarrow> string \<Rightarrow> decimal \<Rightarrow> edge \<Rightarrow> decimal" where
  "seg_cost pm oc dc weight e =
     (case best_price pm oc dc of None \<Rightarrow> fst (snd e) * (1 / 2) | Some p \<Rightarrow> weight * p)"

section \<open>The search\<close>

record priority_node =
  nd_priority :: decimal
  nd_hub_code :: string
  nd_path :: "string list"
  nd_total_distance :: decimal
  nd_total_hours :: decimal

type_synonym frontier = "priority_node list \<times> (string \<Rightarrow> decimal option)"

definition relax :: "(edge \<Rightarrow> decimal) \<Rightarrow> priority_node \<Rightarrow> frontier \<Rightarrow> edge \<Rightarrow> frontier" where
  "relax cost node s e =
     (case s of (heap, best) \<Rightarrow>
        let next_hub = fst e; new_cost = nd_priority node + cost e
        in if (case best next_hub of None \<Rightarrow> True | Some b \<Rightarrow> new_cost < b)
           then (heappush nd_priority
                   \<lparr>nd_priority = new_cost, nd_hub_code = next_hub, nd_path = nd_path node @ [next_hub],
                    nd_total_distance = nd_total_distance node + fst (snd e),
                    nd_total_hours = nd_total_hours node + snd (snd e)\<rparr> heap,
                 best(next_hub \<mapsto> new_cost))
           else (heap, best))"

type_synonym search_state = "priority_node list \<times> (string \<Rightarrow> decimal option) \<times> bool"

definition search_step :: "graph \<Rightarrow> (edge \<Rightarrow> decimal) \<Rightarrow> string \<Rightarrow> search_state \<Rightarrow> search_state" where
  "search_step g cost dest s =
     (case s of (heap, best, found) \<Rightarrow>
        let (node, heap') = heappop nd_priority heap
        in if nd_hub_code node = dest then (heap', best, True)
           else if (case best (nd_hub_code node) of None \<Rightarrow> False | Some b \<Rightarrow> b < nd_priority node)
           then (heap', best, False)
           else let (heap2, best2) = foldl (relax cost node) (heap', best) (edges g (nd_hub_code node))
                in (heap2, best2, False))"

definition search_start :: "string \<Rightarrow> search_state" where
  "search_start org =
     ([\<lparr>nd_priority = 0, nd_hub_code = org, nd_path = [org], nd_total_distance = 0, nd_total_hours = 0\<rparr>],
      [org \<mapsto> 0], False)"

definition search_loop :: "graph \<Rightarrow> (edge \<Rightarrow> decimal) \<Rightarrow> string \<Rightarrow> string \<Rightarrow> search_state option" where
  "search_loop g cost org dest =
     while_option (\<lambda>(heap, best, found). heap \<noteq> [] \<and> \<not> found) (search_step g cost dest) (search_start org)"

record search_result =
  dr_path :: "string list"
  dr_total_distance :: decimal
  dr_total_hours :: decimal
  dr_total_cost :: decimal
  dr_seg_distances :: "decimal list"
  dr_seg_hours :: "decimal list"

text \<open>The two comprehensions over the edges between consecutive hubs of a path.\<close>

definition seg_values :: "(edge \<Rightarrow> decimal) \<Rightarrow> graph \<Rightarrow> string list \<Rightarrow> decimal list" where
  "seg_values f g path =
     concat (map (\<lambda>i. map f (filter (\<lambda>e. fst e = path ! (i + 1)) (edges g (path ! i)))) [0..<length path - 1])"

definition direct_sum :: "(edge \<Rightarrow> decimal) \<Rightarrow> graph \<Rightarrow> string \<Rightarrow> string \<Rightarrow> decimal" where
  "direct_sum f g org dest = sum_list (map f (filter (\<lambda>e. fst e = dest) (edges g org)))"

definition search_result_of :: "graph \<Rightarrow> string \<Rightarrow> string \<Rightarrow> search_state \<Rightarrow> search_result option" where
  "search_result_of g org dest s =
     (case s of (heap, best, found) \<Rightarrow>
        case best dest of
          None \<Rightarrow> None
        | Some c \<Rightarrow>
            (case find (\<lambda>n. nd_hub_code n = dest) heap of
               Some item \<Rightarrow> Some \<lparr>dr_path = nd_path item, dr_total_distance = nd_total_distance item,
                 dr_total_hours = nd_total_hours item, dr_total_cost = c,
                 dr_seg_distances = seg_values (\<lambda>e. fst (snd e)) g (nd_path item),
                 dr_seg_hours = seg_values (\<lambda>e. snd (snd e)) g (nd_path item)\<rparr>
             | None \<Rightarrow> Some \<lparr>dr_path = [org, dest], dr_total_distance = direct_sum (\<lambda>e. fst (snd e)) g org dest,
                 dr_total_hours = direct_sum (\<lambda>e. snd (snd e)) g org dest, dr_total_cost = c,
                 dr_seg_distances = [direct_sum (\<lambda>e. fst (snd e)) g org dest],
                 dr_seg_hours = [direct_sum (\<lambda>e. snd (snd e)) g org dest]\<rparr>))"

definition dijkstra ::
  "string \<Rightarrow> string \<Rightarrow> graph \<Rightarrow> price_map \<Rightarrow> string \<Rightarrow> string \<Rightarrow> decimal \<Rightarrow> search_result option option" where
  "dijkstra org dest g pm origin_city dest_city weight =
     map_option (search_result_of g org dest)
       (search_loop g (seg_cost pm origin_city dest_city weight) org dest)"

section \<open>What the search computes\<close>

text \<open>The walks of the graph that start at the origin, with their costs.\<close>

inductive walk :: "graph \<Rightarrow> (edge \<Rightarrow> decimal) \<Rightarrow> string \<Rightarrow> string list \<Rightarrow> decimal \<Rightarrow> bool"
  for g cost org where
  start: "walk g cost org [org] 0"
| step: "walk g cost org p c \<Longrightarrow> e \<in> set (edges g (last p)) \<Longrightarrow> walk g cost org (p @ [fst e]) (c + cost e)"

definition nonneg_costs :: "graph \<Rightarrow> (edge \<Rightarrow> decimal) \<Rightarrow> bool" where
  "nonneg_costs g cost = (\<forall>es\<in>set (map snd g). \<forall>e\<in>set es. 0 \<le> cost e)"

lemma nonneg_edges: "nonneg_costs g cost \<Longrightarrow> e \<in> set (edges g u) \<Longrightarrow> 0 \<le> cost e"
proof (cases "map_of g u")
  case (Some es)
  assume "nonneg_costs g cost" "e \<in> set (edges g u)"
  moreover have "es \<in> set (map snd g)" using map_of_SomeD[OF Some] by force
  ultimately show ?thesis using Some by (auto simp: nonneg_costs_def edges_def)
qed (simp add: edges_def)

lemma walk_not_Nil: "walk g cost org p c \<Longrightarrow> p \<noteq> []"
  by (induction rule: walk.induct) simp_all

text \<open>
  The invariant of the search: \<open>K\<close> holds the hubs whose edges are relaxed (for each the edges in \<open>F\<close>),
  \<open>B\<close> is the priority of the last node taken out. Every known hub outside \<open>K\<close> has exactly one node in
  the heap with its best cost.
\<close>

definition entries_at :: "string \<Rightarrow> decimal \<Rightarrow> priority_node list \<Rightarrow> nat" where
  "entries_at u b heap = size (filter_mset (\<lambda>n. nd_hub_code n = u \<and> nd_priority n = b) (mset heap))"

definition node_ok :: "graph \<Rightarrow> (edge \<Rightarrow> decimal) \<Rightarrow> string \<Rightarrow> (string \<Rightarrow> decimal option) \<Rightarrow> priority_node \<Rightarrow> bool" where
  "node_ok g cost org best n =
     (walk g cost org (nd_path n) (nd_priority n) \<and> last (nd_path n) = nd_hub_code n \<and>
      (\<exists>b. best (nd_hub_code n) = Some b \<and> b \<le> nd_priority n))"

definition closed_ok ::
  "(edge \<Rightarrow> decimal) \<Rightarrow> (string \<Rightarrow> edge set) \<Rightarrow> decimal \<Rightarrow> priority_node list \<Rightarrow> (string \<Rightarrow> decimal option) \<Rightarrow> string \<Rightarrow> bool" where
  "closed_ok cost F B heap best u =
     (\<exists>b. best u = Some b \<and> b \<le> B \<and> (\<forall>e\<in>F u. \<exists>b'. best (fst e) = Some b' \<and> b' \<le> b + cost e) \<and>
          (\<forall>n\<in>set heap. nd_hub_code n = u \<longrightarrow> nd_priority n \<noteq> b))"

lemma closed_ok_mono:
  assumes "closed_ok cost F B heap best u" "B \<le> B'" "set heap' \<subseteq> set heap" "F' u \<subseteq> F u"
  shows "closed_ok cost F' B' heap' best u"
proof -
  from assms(1) obtain b where "best u = Some b" "b \<le> B"
    "\<forall>e\<in>F u. \<exists>b'. best (fst e) = Some b' \<and> b' \<le> b + cost e" "\<forall>n\<in>set heap. nd_hub_code n = u \<longrightarrow> nd_priority n \<noteq> b"
    unfolding closed_ok_def by blast
  with assms(2-4) show ?thesis unfolding closed_ok_def by (intro exI[of _ b]) (auto intro: order_trans)
qed

definition search_inv ::
  "graph \<Rightarrow> (edge \<Rightarrow> decimal) \<Rightarrow> string \<Rightarrow> string set \<Rightarrow> (string \<Rightarrow> edge set) \<Rightarrow> decimal \<Rightarrow>
   priority_node list \<Rightarrow> (string \<Rightarrow> decimal option) \<Rightarrow> bool" where
  "search_inv g cost org K F B heap best =
     (is_heap nd_priority heap \<and> (\<forall>n\<in>set heap. node_ok g cost org best n \<and> B \<le> nd_priority n) \<and>
      (\<forall>u b. best u = Some b \<longrightarrow> (\<exists>p. walk g cost org p b \<and> last p = u)) \<and>
      best org = Some 0 \<and> 0 \<le> B \<and> (\<forall>u\<in>K. closed_ok cost F B heap best u) \<and>
      (\<forall>u b. best u = Some b \<and> u \<notin> K \<longrightarrow> entries_at u b heap = 1))"

lemma entries_at_pos: "entries_at u b heap = Suc k \<Longrightarrow> \<exists>n\<in>set heap. nd_hub_code n = u \<and> nd_priority n = b"
proof (rule ccontr)
  assume "entries_at u b heap = Suc k" "\<not> (\<exists>n\<in>set heap. nd_hub_code n = u \<and> nd_priority n = b)"
  then have "filter_mset (\<lambda>n. nd_hub_code n = u \<and> nd_priority n = b) (mset heap) = {#}" by auto
  with \<open>entries_at u b heap = Suc k\<close> show False by (simp add: entries_at_def)
qed

lemma entries_at_none: "entries_at u b heap = 0 \<longleftrightarrow> (\<forall>n\<in>set heap. nd_hub_code n = u \<longrightarrow> nd_priority n \<noteq> b)"
  by (auto simp: entries_at_def)

lemma entries_at_push:
  "entries_at u b (heappush nd_priority n heap) =
     (if nd_hub_code n = u \<and> nd_priority n = b then Suc (entries_at u b heap) else entries_at u b heap)"
  by (simp add: entries_at_def heapq.push_mset)

lemma entries_at_pop:
  assumes "heap \<noteq> []" "heappop nd_priority heap = (n, heap')"
  shows "entries_at u b heap =
     (if nd_hub_code n = u \<and> nd_priority n = b then Suc (entries_at u b heap') else entries_at u b heap')"
  by (simp add: entries_at_def heapq.pop_mset[OF assms])

lemma search_inv_start:
  assumes "search_start org = (heap, best, found)"
  shows "search_inv g cost org {} F 0 heap best"
proof -
  have "\<exists>p. walk g cost org p 0 \<and> last p = org" using walk.start[of g cost org] by force
  with assms show ?thesis
    by (auto simp: search_start_def search_inv_def heapq.queue_single node_ok_def entries_at_def walk.start
        split: if_splits)
qed

text \<open>One edge.\<close>

lemma relax_inv:
  assumes inv: "search_inv g cost org K F B heap best" and u: "nd_hub_code node \<in> K" "best (nd_hub_code node) = Some B"
    and node: "nd_priority node = B" "walk g cost org (nd_path node) B" "last (nd_path node) = nd_hub_code node"
    and e: "e \<in> set (edges g (nd_hub_code node))" "0 \<le> cost e"
    and r: "relax cost node (heap, best) e = (heap', best')"
  shows "search_inv g cost org K (F(nd_hub_code node := insert e (F (nd_hub_code node)))) B heap' best' \<and>
    best' (nd_hub_code node) = Some B \<and> length heap' \<le> Suc (length heap)"
proof (cases "\<exists>b. best (fst e) = Some b \<and> b \<le> B + cost e")
  case True
  then have "heap' = heap" "best' = best" using r node(1) by (auto simp: relax_def Let_def split: if_splits)
  moreover have "closed_ok cost (F(nd_hub_code node := insert e (F (nd_hub_code node)))) B heap best x" if "x \<in> K" for x
  proof -
    have c: "closed_ok cost F B heap best x" using inv that by (simp add: search_inv_def)
    show ?thesis
    proof (cases "x = nd_hub_code node")
      case eq: True
      with c u(2) True show ?thesis by (auto simp: closed_ok_def)
    qed (use c in \<open>auto simp: closed_ok_def\<close>)
  qed
  ultimately show ?thesis using inv u(2) by (auto simp: search_inv_def)
next
  case False
  define v where "v = fst e"
  define new where "new = B + cost e"
  define nn where "nn = \<lparr>nd_priority = new, nd_hub_code = v, nd_path = nd_path node @ [v],
      nd_total_distance = nd_total_distance node + fst (snd e), nd_total_hours = nd_total_hours node + snd (snd e)\<rparr>"
  have r': "heap' = heappush nd_priority nn heap" "best' = best(v \<mapsto> new)"
    using r False node(1) by (auto simp: relax_def Let_def v_def new_def nn_def not_le split: option.splits if_splits)
  have less: "best v = Some b \<Longrightarrow> new < b" for b using False by (force simp: v_def new_def not_le)
  have Bnew: "B \<le> new" using e(2) by (simp add: new_def)
  have B0: "0 \<le> B" using inv by (simp add: search_inv_def)
  have closed: "closed_ok cost F B heap best x" if "x \<in> K" for x using inv that by (simp add: search_inv_def)
  have vK: "v \<notin> K" using closed[of v] less Bnew by (fastforce simp: closed_ok_def)
  have vorg: "v \<noteq> org" using inv less[of 0] Bnew B0 by (auto simp: search_inv_def)
  have hset: "set heap' = insert nn (set heap)" by (simp add: r' heapq.push_set)
  have nodes: "node_ok g cost org best n \<and> B \<le> nd_priority n" if "n \<in> set heap" for n
    using inv that by (simp add: search_inv_def)
  have wnew: "walk g cost org (nd_path node @ [v]) new"
    using walk.step[OF node(2), of e] e(1) node(3) by (simp add: v_def new_def)
  have "is_heap nd_priority heap'" using inv by (simp add: r' search_inv_def heapq.push_queue)
  moreover have "node_ok g cost org best' n \<and> B \<le> nd_priority n" if "n \<in> set heap'" for n
  proof (cases "n \<in> set heap")
    case True
    from nodes[OF True] obtain b where "best (nd_hub_code n) = Some b" "b \<le> nd_priority n" by (auto simp: node_ok_def)
    with nodes[OF True] less[of b] show ?thesis by (auto simp: node_ok_def r' intro: order.trans less_imp_le)
  next
    case False
    with that hset have "n = nn" by simp
    with wnew Bnew show ?thesis by (auto simp: node_ok_def nn_def r')
  qed
  moreover have "\<exists>p. walk g cost org p b \<and> last p = x" if "best' x = Some b" for x b
  proof (cases "x = v")
    case True
    with that wnew show ?thesis by (auto simp: r' intro!: exI[of _ "nd_path node @ [v]"])
  next
    case False
    with that inv show ?thesis by (auto simp: r' search_inv_def)
  qed
  moreover have "best' org = Some 0" using inv vorg by (simp add: r' search_inv_def)
  moreover have "closed_ok cost (F(nd_hub_code node := insert e (F (nd_hub_code node)))) B heap' best' x" if x: "x \<in> K" for x
  proof -
    from closed[OF x] obtain b where b: "best x = Some b" "b \<le> B"
      "\<forall>e\<in>F x. \<exists>b'. best (fst e) = Some b' \<and> b' \<le> b + cost e"
      "\<forall>n\<in>set heap. nd_hub_code n = x \<longrightarrow> nd_priority n \<noteq> b"
      by (auto simp: closed_ok_def)
    have xv: "x \<noteq> v" using x vK by blast
    have old: "\<exists>b'. best' (fst e') = Some b' \<and> b' \<le> b + cost e'" if "e' \<in> F x" for e'
      using b(3) that less by (fastforce simp: r')
    have self: "\<exists>b'. best' (fst e) = Some b' \<and> b' \<le> b + cost e" if "x = nd_hub_code node"
      using that u(2) b(1) by (simp add: r' v_def new_def)
    show ?thesis
      unfolding closed_ok_def
    proof (rule exI[of _ b], intro conjI ballI impI)
      show "best' x = Some b" using b(1) xv by (simp add: r')
      show "b \<le> B" by (rule b(2))
      show "\<exists>b'. best' (fst e') = Some b' \<and> b' \<le> b + cost e'"
        if "e' \<in> (F(nd_hub_code node := insert e (F (nd_hub_code node)))) x" for e'
      proof (cases "e' \<in> F x")
        case False
        with that have "x = nd_hub_code node" "e' = e" by (auto split: if_splits)
        with self show ?thesis by simp
      next
        case True
        then show ?thesis by (rule old)
      qed
      show "nd_priority n \<noteq> b" if "n \<in> set heap'" "nd_hub_code n = x" for n
        using that b(4) xv by (auto simp: hset nn_def)
    qed
  qed
  moreover have "entries_at x b heap' = 1" if xb: "best' x = Some b" "x \<notin> K" for x b
  proof (cases "x = v")
    case True
    then have "b = new" using xb by (simp add: r')
    have "entries_at v new heap = 0"
      unfolding entries_at_none
    proof (intro ballI impI)
      fix n assume n: "n \<in> set heap" "nd_hub_code n = v"
      from nodes[OF n(1)] n(2) obtain b where "best v = Some b" "b \<le> nd_priority n" by (auto simp: node_ok_def)
      with less[of b] show "nd_priority n \<noteq> new" by auto
    qed
    with True \<open>b = new\<close> show ?thesis by (simp add: r' entries_at_push nn_def)
  next
    case False
    with xb inv have "entries_at x b heap = 1" by (auto simp: r' search_inv_def)
    with False show ?thesis by (simp add: r' entries_at_push nn_def)
  qed
  moreover have "best' (nd_hub_code node) = Some B" using u vK by (auto simp: r')
  moreover have "length heap' \<le> Suc (length heap)" by (simp add: r' heapq.push_length)
  ultimately show ?thesis using B0 unfolding search_inv_def by blast
qed

lemma relax_all_inv:
  assumes "search_inv g cost org K F B heap best" "nd_hub_code node \<in> K" "best (nd_hub_code node) = Some B"
    "nd_priority node = B" "walk g cost org (nd_path node) B" "last (nd_path node) = nd_hub_code node"
    "set es \<subseteq> set (edges g (nd_hub_code node))" "nonneg_costs g cost"
    "foldl (relax cost node) (heap, best) es = (heap', best')"
  shows "search_inv g cost org K (F(nd_hub_code node := F (nd_hub_code node) \<union> set es)) B heap' best' \<and>
    length heap' \<le> length heap + length es"
  using assms
proof (induction es arbitrary: heap best F)
  case (Cons e es)
  obtain h1 b1 where r: "relax cost node (heap, best) e = (h1, b1)" by fastforce
  have e: "e \<in> set (edges g (nd_hub_code node))" using Cons.prems(7) by simp
  from relax_inv[OF Cons.prems(1-6) e nonneg_edges[OF Cons.prems(8) e] r]
  have s: "search_inv g cost org K (F(nd_hub_code node := insert e (F (nd_hub_code node)))) B h1 b1"
    "b1 (nd_hub_code node) = Some B" "length h1 \<le> Suc (length heap)" by auto
  have "foldl (relax cost node) (h1, b1) es = (heap', best')" using Cons.prems(9) r by simp
  note ih = Cons.IH[OF s(1) Cons.prems(2) s(2) Cons.prems(4-6) _ Cons.prems(8) this]
  have upd: "(F(u := A))(u := (F(u := A)) u \<union> C) = F(u := A \<union> C)" for u :: string and A C :: "edge set"
    by simp
  have "set es \<subseteq> set (edges g (nd_hub_code node))" using Cons.prems(7) by simp
  from ih[OF this] have "search_inv g cost org K (F(nd_hub_code node := insert e (F (nd_hub_code node)) \<union> set es)) B heap' best' \<and>
      length heap' \<le> length h1 + length es" unfolding upd .
  moreover have "F (nd_hub_code node) \<union> set (e # es) = insert e (F (nd_hub_code node)) \<union> set es" by auto
  ultimately show ?case using s(3) by (simp only:) simp
qed simp

text \<open>Taking out the least node.\<close>

lemma pop_stale_inv:
  assumes inv: "search_inv g cost org K F B heap best" and p: "heap \<noteq> []" "heappop nd_priority heap = (n, heap')"
    and s: "best (nd_hub_code n) = Some b" "b < nd_priority n"
  shows "search_inv g cost org K F (nd_priority n) heap' best"
proof -
  have hs: "set heap = insert n (set heap')" using heapq.pop_set[OF p] .
  have hp: "is_heap nd_priority heap" using inv by (simp add: search_inv_def)
  have Bn: "B \<le> nd_priority n" "0 \<le> B" using inv hs by (auto simp: search_inv_def)
  have "closed_ok cost F (nd_priority n) heap' best u" if "u \<in> K" for u
  proof -
    have "closed_ok cost F B heap best u" using inv that by (simp add: search_inv_def)
    then show ?thesis by (rule closed_ok_mono) (use Bn hs in auto)
  qed
  moreover have "entries_at u c heap' = 1" if "best u = Some c" "u \<notin> K" for u c
  proof -
    have "entries_at u c heap = 1" using inv that by (simp add: search_inv_def)
    with s that(1) show ?thesis using entries_at_pop[OF p, of u c] by (auto split: if_splits)
  qed
  ultimately show ?thesis
    using inv hs Bn heapq.pop_queue[OF hp p] heapq.pop_least[OF hp p] by (simp add: search_inv_def)
qed

lemma pop_current_inv:
  assumes inv: "search_inv g cost org K F B heap best" and p: "heap \<noteq> []" "heappop nd_priority heap = (n, heap')"
    and s: "best (nd_hub_code n) = Some (nd_priority n)"
  shows "nd_hub_code n \<notin> K \<and>
    search_inv g cost org (insert (nd_hub_code n) K) (F(nd_hub_code n := {})) (nd_priority n) heap' best"
proof -
  let ?u = "nd_hub_code n" and ?F = "F(nd_hub_code n := {})"
  have hs: "set heap = insert n (set heap')" using heapq.pop_set[OF p] .
  have hp: "is_heap nd_priority heap" using inv by (simp add: search_inv_def)
  have Bn: "B \<le> nd_priority n" "0 \<le> B" using inv hs by (auto simp: search_inv_def)
  have closed: "closed_ok cost F B heap best x" if "x \<in> K" for x using inv that by (simp add: search_inv_def)
  have nK: "?u \<notin> K"
  proof
    assume "?u \<in> K"
    with closed[OF this] s hs show False by (auto simp: closed_ok_def)
  qed
  have zero: "entries_at ?u (nd_priority n) heap' = 0"
    using inv s nK entries_at_pop[OF p, of ?u "nd_priority n"] by (auto simp: search_inv_def)
  have "closed_ok cost ?F (nd_priority n) heap' best x" if "x \<in> insert ?u K" for x
  proof (cases "x = ?u")
    case True
    with s zero show ?thesis by (simp add: closed_ok_def entries_at_none)
  next
    case False
    with that have "closed_ok cost F B heap best x" by (simp add: closed)
    then show ?thesis by (rule closed_ok_mono) (use False Bn hs in auto)
  qed
  moreover have "entries_at u c heap' = 1" if "best u = Some c" "u \<notin> insert ?u K" for u c
    using inv that entries_at_pop[OF p, of u c] by (auto simp: search_inv_def split: if_splits)
  ultimately show ?thesis
    using inv nK hs Bn heapq.pop_queue[OF hp p] heapq.pop_least[OF hp p] by (simp add: search_inv_def)
qed

text \<open>Every walk has been overtaken by a best cost or waits behind a node of the heap.\<close>

lemma frontier:
  assumes "walk g cost org p c" "search_inv g cost org K (\<lambda>u. set (edges g u)) B heap best" "nonneg_costs g cost"
  shows "(\<exists>b. best (last p) = Some b \<and> b \<le> c) \<or> (\<exists>n\<in>set heap. nd_priority n \<le> c)"
  using assms(1)
proof induction
  case start
  then show ?case using assms(2) by (simp add: search_inv_def)
next
  case (step p c e)
  have pos: "0 \<le> cost e" using nonneg_edges[OF assms(3) step.hyps(2)] .
  from step.IH show ?case
  proof
    assume "\<exists>n\<in>set heap. nd_priority n \<le> c"
    with pos show ?thesis by (meson add_increasing2 order.trans order_refl)
  next
    assume "\<exists>b. best (last p) = Some b \<and> b \<le> c"
    then obtain b where b: "best (last p) = Some b" "b \<le> c" by blast
    show ?thesis
    proof (cases "last p \<in> K")
      case True
      then have "closed_ok cost (\<lambda>u. set (edges g u)) B heap best (last p)" using assms(2) by (simp add: search_inv_def)
      with b(1) step.hyps(2) obtain b' where "best (fst e) = Some b'" "b' \<le> b + cost e" by (auto simp: closed_ok_def)
      with b(2) have "best (fst e) = Some b' \<and> b' \<le> c + cost e" by simp
      then show ?thesis by auto
    next
      case False
      with b(1) assms(2) have "entries_at (last p) b heap = Suc 0" by (simp add: search_inv_def)
      then obtain n where "n \<in> set heap" "nd_priority n = b" using entries_at_pos by blast
      with b(2) pos show ?thesis by (intro disjI2 bexI[of _ n]) simp_all
    qed
  qed
qed

definition least_cost :: "graph \<Rightarrow> (edge \<Rightarrow> decimal) \<Rightarrow> string \<Rightarrow> string \<Rightarrow> decimal \<Rightarrow> bool" where
  "least_cost g cost org dest b =
     ((\<exists>p. walk g cost org p b \<and> last p = dest) \<and> (\<forall>p c. walk g cost org p c \<and> last p = dest \<longrightarrow> b \<le> c))"

definition search_good :: "graph \<Rightarrow> (edge \<Rightarrow> decimal) \<Rightarrow> string \<Rightarrow> string \<Rightarrow> search_state \<Rightarrow> bool" where
  "search_good g cost org dest s =
     (case s of (heap, best, found) \<Rightarrow>
        if found
        then \<exists>b. best dest = Some b \<and> least_cost g cost org dest b \<and>
             (\<forall>n\<in>set heap. walk g cost org (nd_path n) (nd_priority n) \<and> last (nd_path n) = nd_hub_code n \<and>
                            (nd_hub_code n = dest \<longrightarrow> b < nd_priority n))
        else \<exists>K B. dest \<notin> K \<and> search_inv g cost org K (\<lambda>u. set (edges g u)) B heap best)"

text \<open>A bound on the steps left: the nodes in the heap and the edges of the hubs not yet closed.\<close>

definition closed_hubs :: "priority_node list \<Rightarrow> (string \<Rightarrow> decimal option) \<Rightarrow> string set" where
  "closed_hubs heap best = {u. \<exists>b. best u = Some b \<and> entries_at u b heap = 0}"

definition search_work :: "graph \<Rightarrow> search_state \<Rightarrow> nat" where
  "search_work g s =
     (case s of (heap, best, found) \<Rightarrow>
        if found then 0
        else Suc (length heap + (\<Sum>u\<in>set (map fst g) - closed_hubs heap best. length (edges g u))))"

lemma search_inv_closed:
  assumes "search_inv g cost org K F B heap best"
  shows "closed_hubs heap best = K"
proof
  show "closed_hubs heap best \<subseteq> K"
  proof
    fix u assume "u \<in> closed_hubs heap best"
    then obtain b where "best u = Some b" "entries_at u b heap = 0" by (auto simp: closed_hubs_def)
    with assms show "u \<in> K" unfolding search_inv_def by (metis zero_neq_one)
  qed
  show "K \<subseteq> closed_hubs heap best"
    using assms by (auto simp: search_inv_def closed_ok_def closed_hubs_def entries_at_none)
qed

lemma found_destination:
  assumes inv: "search_inv g cost org K (\<lambda>u. set (edges g u)) B heap best" and c: "nonneg_costs g cost" "dest \<notin> K"
    and p: "heap \<noteq> []" "heappop nd_priority heap = (n, heap')" and d: "nd_hub_code n = dest"
  shows "search_good g cost org dest (heap', best, True)"
proof -
  have hp: "is_heap nd_priority heap" using inv by (simp add: search_inv_def)
  have hs: "set heap = insert n (set heap')" using heapq.pop_set[OF p] .
  have ok: "node_ok g cost org best m" if "m \<in> set heap" for m using inv that by (simp add: search_inv_def)
  obtain b where b: "best dest = Some b" "b \<le> nd_priority n" using ok[of n] hs d by (auto simp: node_ok_def)
  have one: "entries_at dest b heap = Suc 0" using inv b(1) c(2) by (simp add: search_inv_def)
  then obtain m where m: "m \<in> set heap" "nd_priority m = b" using entries_at_pos by blast
  then have nb: "nd_priority n = b" using heapq.pop_least[OF hp p m(1)] b(2) by simp
  with one d have "entries_at dest b heap' = 0" using entries_at_pop[OF p, of dest b] by simp
  then have rest: "nd_priority x \<noteq> b" if "x \<in> set heap'" "nd_hub_code x = dest" for x
    using that by (auto simp: entries_at_none)
  have "b \<le> c'" if w: "walk g cost org q c'" "last q = dest" for q c'
    using frontier[OF w(1) inv c(1)]
  proof
    assume "\<exists>b. best (last q) = Some b \<and> b \<le> c'"
    with w(2) b(1) show ?thesis by auto
  next
    assume "\<exists>x\<in>set heap. nd_priority x \<le> c'"
    with heapq.pop_least[OF hp p] nb show ?thesis by (auto intro: order.trans)
  qed
  then have "least_cost g cost org dest b" using inv b(1) by (auto simp: search_inv_def least_cost_def)
  moreover have "b < nd_priority x" if "x \<in> set heap'" "nd_hub_code x = dest" for x
    using rest[OF that] heapq.pop_least[OF hp p, of x] hs that(1) nb by (simp add: order.strict_iff_order)
  moreover have "walk g cost org (nd_path x) (nd_priority x)" "last (nd_path x) = nd_hub_code x" if "x \<in> set heap'" for x
    using ok[of x] hs that by (auto simp: node_ok_def)
  ultimately show ?thesis using b(1) by (simp add: search_good_def)
qed

lemma search_step_good:
  assumes good: "search_good g cost org dest s" and c: "nonneg_costs g cost"
    and run: "s = (heap, best, False)" "heap \<noteq> []"
  shows "search_good g cost org dest (search_step g cost dest s) \<and>
    search_work g (search_step g cost dest s) < search_work g s"
proof -
  from good run obtain K B where K: "dest \<notin> K" and inv: "search_inv g cost org K (\<lambda>u. set (edges g u)) B heap best"
    by (auto simp: search_good_def)
  obtain n heap' where p: "heappop nd_priority heap = (n, heap')" by fastforce
  have len: "length heap = Suc (length heap')" using heapq.pop_length[OF run(2) p] .
  have cl: "closed_hubs heap best = K" by (rule search_inv_closed[OF inv])
  obtain b where b: "best (nd_hub_code n) = Some b" "b \<le> nd_priority n"
      "walk g cost org (nd_path n) (nd_priority n)" "last (nd_path n) = nd_hub_code n"
    using inv heapq.pop_set[OF run(2) p] by (auto simp: search_inv_def node_ok_def)
  consider "nd_hub_code n = dest" | "nd_hub_code n \<noteq> dest" "b < nd_priority n" | "nd_hub_code n \<noteq> dest" "b = nd_priority n"
    using b(2) by fastforce
  then show ?thesis
  proof cases
    case 1
    then have "search_step g cost dest s = (heap', best, True)" by (simp add: search_step_def run p)
    with found_destination[OF inv c K run(2) p 1] show ?thesis by (simp add: search_work_def run)
  next
    case 2
    then have st: "search_step g cost dest s = (heap', best, False)" using b(1) by (simp add: search_step_def run p)
    have inv': "search_inv g cost org K (\<lambda>u. set (edges g u)) (nd_priority n) heap' best"
      by (rule pop_stale_inv[OF inv run(2) p b(1) 2(2)])
    then have "search_good g cost org dest (heap', best, False)" using K by (auto simp: search_good_def)
    then show ?thesis using cl search_inv_closed[OF inv'] len unfolding st by (simp add: search_work_def run)
  next
    case 3
    let ?u = "nd_hub_code n"
    obtain heap2 best2 where f: "foldl (relax cost n) (heap', best) (edges g ?u) = (heap2, best2)" by fastforce
    have st: "search_step g cost dest s = (heap2, best2, False)" using 3 b(1) f by (simp add: search_step_def run p)
    have bu: "best ?u = Some (nd_priority n)" using b(1) 3(2) by simp
    from pop_current_inv[OF inv run(2) p bu] have uK: "?u \<notin> K"
      and pinv: "search_inv g cost org (insert ?u K) ((\<lambda>u. set (edges g u))(?u := {})) (nd_priority n) heap' best" by auto
    have upd: "((\<lambda>u. set (edges g u))(?u := {}))(?u := ((\<lambda>u. set (edges g u))(?u := {})) ?u \<union> set (edges g ?u)) =
        (\<lambda>u. set (edges g u))" by auto
    from relax_all_inv[OF pinv _ bu refl b(3,4) _ c f] have
      inv2: "search_inv g cost org (insert ?u K) (\<lambda>u. set (edges g u)) (nd_priority n) heap2 best2"
      and len2: "length heap2 \<le> length heap' + length (edges g ?u)" unfolding upd by simp_all
    have good2: "search_good g cost org dest (heap2, best2, False)" using inv2 K 3(1) by (auto simp: search_good_def)
    have cl2: "closed_hubs heap2 best2 = insert ?u K" by (rule search_inv_closed[OF inv2])
    let ?S = "set (map fst g)"
    have "length (edges g ?u) + (\<Sum>u\<in>?S - insert ?u K. length (edges g u)) = (\<Sum>u\<in>?S - K. length (edges g u))"
    proof (cases "?u \<in> ?S")
      case True
      then have "?u \<in> ?S - K" using uK by blast
      then have "(\<Sum>u\<in>?S - K. length (edges g u)) = length (edges g ?u) + (\<Sum>u\<in>?S - K - {?u}. length (edges g u))"
        by (intro sum.remove) (rule finite_Diff, rule finite_set)
      moreover have "?S - K - {?u} = ?S - insert ?u K" by blast
      ultimately show ?thesis by (simp only:)
    next
      case False
      then have "map_of g ?u = None" by (simp add: map_of_eq_None_iff)
      moreover have "?S - insert ?u K = ?S - K" using False by auto
      ultimately show ?thesis by (simp add: edges_def)
    qed
    with len len2 have "search_work g (heap2, best2, False) < search_work g (heap, best, False)"
      by (simp add: search_work_def cl cl2 del: set_map)
    with good2 st run show ?thesis by simp
  qed
qed

lemma search_good_start: "search_good g cost org dest (search_start org)"
proof -
  obtain heap best found where s: "search_start org = (heap, best, found)" by (cases "search_start org")
  then have "\<not> found" by (simp add: search_start_def)
  moreover have "search_inv g cost org {} (\<lambda>u. set (edges g u)) 0 heap best" by (rule search_inv_start[OF s])
  then have "\<exists>K B. dest \<notin> K \<and> search_inv g cost org K (\<lambda>u. set (edges g u)) B heap best" by blast
  ultimately show ?thesis by (simp add: s search_good_def)
qed

lemma search_loop_total:
  assumes "nonneg_costs g cost"
  shows "\<exists>s. search_loop g cost org dest = Some s"
  unfolding search_loop_def
proof (rule measure_while_option_Some[where P = "search_good g cost org dest" and f = "search_work g"])
  fix s
  assume "search_good g cost org dest s" "case s of (heap, best, found) \<Rightarrow> heap \<noteq> [] \<and> \<not> found"
  moreover obtain heap best found where "s = (heap, best, found)" by (cases s)
  ultimately show "search_good g cost org dest (search_step g cost dest s) \<and>
      search_work g (search_step g cost dest s) < search_work g s"
    using search_step_good[OF _ assms] by simp
qed (rule search_good_start)

lemma search_loop_good:
  assumes "search_loop g cost org dest = Some s" "nonneg_costs g cost"
  shows "search_good g cost org dest s" "\<not> (case s of (heap, best, found) \<Rightarrow> heap \<noteq> [] \<and> \<not> found)"
proof -
  show "search_good g cost org dest s"
  proof (rule while_option_rule[where P = "search_good g cost org dest", OF _ assms(1)[unfolded search_loop_def] search_good_start])
    fix s
    assume "search_good g cost org dest s" "case s of (heap, best, found) \<Rightarrow> heap \<noteq> [] \<and> \<not> found"
    moreover obtain heap best found where "s = (heap, best, found)" by (cases s)
    ultimately show "search_good g cost org dest (search_step g cost dest s)"
      using search_step_good[OF _ assms(2)] by simp
  qed
  show "\<not> (case s of (heap, best, found) \<Rightarrow> heap \<noteq> [] \<and> \<not> found)"
    using while_option_stop[OF assms(1)[unfolded search_loop_def]] .
qed

text \<open>The result of the search, for costs that are not negative.\<close>

lemma search_spec:
  assumes "search_loop g cost org dest = Some s" "nonneg_costs g cost"
  shows "case search_result_of g org dest s of
      None \<Rightarrow> \<forall>p c. walk g cost org p c \<longrightarrow> last p \<noteq> dest
    | Some r \<Rightarrow> least_cost g cost org dest (dr_total_cost r) \<and>
        (dr_path r = [org, dest] \<or>
         (\<exists>c. walk g cost org (dr_path r) c \<and> last (dr_path r) = dest \<and> dr_total_cost r < c))"
proof -
  obtain heap best found where s: "s = (heap, best, found)" by (cases s)
  note good = search_loop_good[OF assms]
  show ?thesis
  proof (cases found)
    case True
    from good(1) True obtain b where b: "best dest = Some b" "least_cost g cost org dest b"
      "\<forall>n\<in>set heap. walk g cost org (nd_path n) (nd_priority n) \<and> last (nd_path n) = nd_hub_code n \<and>
          (nd_hub_code n = dest \<longrightarrow> b < nd_priority n)"
      by (auto simp: s search_good_def)
    show ?thesis
    proof (cases "find (\<lambda>n. nd_hub_code n = dest) heap")
      case None
      with b show ?thesis by (simp add: search_result_of_def s)
    next
      case (Some item)
      then have "item \<in> set heap" "nd_hub_code item = dest" by (auto simp: find_Some_iff)
      with b Some show ?thesis by (auto simp: search_result_of_def s)
    qed
  next
    case False
    with good(1) obtain K B where K: "dest \<notin> K" and inv: "search_inv g cost org K (\<lambda>u. set (edges g u)) B heap best"
      by (auto simp: s search_good_def)
    have "heap = []" using good(2) False by (simp add: s)
    have none: "best dest = None"
    proof (rule ccontr)
      assume "best dest \<noteq> None"
      then obtain b where "best dest = Some b" by blast
      with K inv have "entries_at dest b heap = 1" by (simp add: search_inv_def)
      with \<open>heap = []\<close> show False by (simp add: entries_at_def)
    qed
    have "last p \<noteq> dest" if "walk g cost org p c" for p c
      using frontier[OF that inv assms(2)] none \<open>heap = []\<close> by auto
    with none show ?thesis by (simp add: search_result_of_def s)
  qed
qed

end
