(* ===== verification/Tms_Plans.thy ===== *)
theory Tms_Plans
  imports Tms_Routing
begin

text \<open>
  Route plans of \<open>src/tms/service.py\<close>: \<open>_find_best_route_plan_impl\<close> over the hubs of the two cities, the
  entry point \<open>find_best_route_plan\<close> with its Redis cache (a map that is passed along; \<open>up\<close> says
  whether Redis answers), and \<open>generate_route_plan\<close>. The outer option is \<open>None\<close> when the search does not end.
  The reported cost is shown to be the least cost over all pairs of hubs.
\<close>

section \<open>Choosing the pair of hubs\<close>

definition better :: "search_result option \<Rightarrow> search_result option \<Rightarrow> search_result option" where
  "better r best =
     (case r of None \<Rightarrow> best
      | Some x \<Rightarrow> (case best of None \<Rightarrow> r | Some b \<Rightarrow> if dr_total_cost x < dr_total_cost b then r else best))"

fun best_pair :: "(string \<Rightarrow> string \<Rightarrow> search_result option option) \<Rightarrow> (string \<times> string) list \<Rightarrow>
    search_result option \<Rightarrow> search_result option option" where
  "best_pair search [] best = Some best"
| "best_pair search ((o', d') # ps) best =
     (case search o' d' of None \<Rightarrow> None | Some r \<Rightarrow> best_pair search ps (better r best))"

definition hub_pairs :: "transfer_hub list \<Rightarrow> transfer_hub list \<Rightarrow> (string \<times> string) list" where
  "hub_pairs os ds = concat (map (\<lambda>o'. map (\<lambda>d'. (th_code o', th_code d')) ds) os)"

text \<open>
  \<open>for i, (path, dist, hours) in enumerate(zip(path, dists, hours))\<close> rebinds \<open>path\<close> to one hub code, so
  \<open>path[i]\<close> and \<open>path[i + 1]\<close> are characters of it, and the second one may not exist.
\<close>

fun route_segments :: "nat \<Rightarrow> (string \<times> decimal \<times> decimal) list \<Rightarrow> route_segment list result" where
  "route_segments i [] = Inr []"
| "route_segments i ((path, km, hours) # rest) =
     (if i + 1 < length path
      then bindE (route_segments (i + 1) rest) (\<lambda>segs.
             Inr (\<lparr>rs_segment_no = i, rs_from_hub = [path ! i], rs_to_hub = [path ! (i + 1)],
                   rs_distance_km = km, rs_transit_hours = hours\<rparr> # segs))
      else Inl IndexError)"

definition route_of :: "string \<Rightarrow> string \<Rightarrow> search_result \<Rightarrow> route result" where
  "route_of pickup delivery r =
     bindE (route_segments 0 (zip (dr_path r) (zip (dr_seg_distances r) (dr_seg_hours r)))) (\<lambda>segs.
     Inr \<lparr>ro_origin_city = pickup, ro_destination_city = delivery, ro_total_distance_km = dr_total_distance r,
          ro_estimated_transit_hours = dr_total_hours r, ro_total_cost_amount = dr_total_cost r,
          ro_segments = segs\<rparr>)"

definition route_cities :: "transport_order \<Rightarrow> (string \<times> string) result" where
  "route_cities ord =
     bindE (addr_city (tr_pickup_address ord)) (\<lambda>p.
     bindE (addr_city (tr_delivery_address ord)) (\<lambda>q.
     bindE (raise_if (\<not> truthy p \<or> \<not> truthy q) (validation ''Transport order missing pickup/delivery city'')) (\<lambda>_.
     Inr (get_default [] p, get_default [] q))))"

definition route_hubs ::
  "string \<Rightarrow> string \<Rightarrow> 'a tms_db_scheme \<Rightarrow> (transfer_hub list \<times> transfer_hub list) result" where
  "route_hubs p q d =
     bindE (list_hubs (Some p) None d) (\<lambda>os.
     bindE (list_hubs (Some q) None d) (\<lambda>ds.
     bindE (raise_if (os = []) (NotFoundException (''No transfer hub found in origin city '' @ p))) (\<lambda>_.
     bindE (raise_if (ds = []) (NotFoundException (''No transfer hub found in destination city '' @ q))) (\<lambda>_.
     Inr (os, ds)))))"

definition db_graph :: "'a tms_db_scheme \<Rightarrow> graph" where
  "db_graph d = build_graph (list_hub_connections None d)"

definition db_prices :: "'a tms_db_scheme \<Rightarrow> price_map" where
  "db_prices d = (case list_carrier_routes None None None d of Inl e \<Rightarrow> [] | Inr rs \<Rightarrow> build_prices rs)"

definition find_best_route_plan_impl :: "string \<Rightarrow> 'a tms_db_scheme \<Rightarrow> route result option" where
  "find_best_route_plan_impl order_id d =
     (case bindE (to_uuid order_id) (\<lambda>u.
           bindE (find_or_raise (not_found ''TransportOrder'' order_id) (\<lambda>o'. pk o' = u) (transport_orders d)) (\<lambda>ord.
           bindE (route_cities ord) (\<lambda>(p, q).
           bindE (route_hubs p q d) (\<lambda>(os, ds). Inr (ord, p, q, os, ds))))) of
        Inl e \<Rightarrow> Some (Inl e)
      | Inr (ord, p, q, os, ds) \<Rightarrow>
          (case best_pair (\<lambda>o' d'. dijkstra o' d' (db_graph d) (db_prices d) p q (tr_total_weight_kg ord))
                  (hub_pairs os ds) None of
             None \<Rightarrow> None
           | Some None \<Rightarrow> Some (Inl (NotFoundException (''No route found from '' @ p @ '' to '' @ q)))
           | Some (Some r) \<Rightarrow> Some (route_of p q r)))"

section \<open>The cached entry point\<close>

type_synonym route_cache = "string \<times> decimal option \<Rightarrow> route option"

text \<open>\<open>f"route:{pickup_city}:{delivery_city}:{weight_kg}"\<close>; a weight of zero is rendered as \<open>1\<close>, and a city
  that is \<open>None\<close> as \<open>None\<close>.\<close>

definition cache_city :: "address_payload option \<Rightarrow> string" where
  "cache_city a = (case a of None \<Rightarrow> [] | Some p \<Rightarrow> get_default ''None'' (ap_city p))"

definition route_key :: "transport_order \<Rightarrow> string \<times> decimal option" where
  "route_key ord =
     (''route:'' @ cache_city (tr_pickup_address ord) @ '':'' @ cache_city (tr_delivery_address ord) @ '':'',
      if tr_total_weight_kg ord = 0 then None else Some (tr_total_weight_kg ord))"

definition cache_order :: "uuid \<Rightarrow> 'a tms_db_scheme \<Rightarrow> transport_order option" where
  "cache_order u d = (case find_one (\<lambda>o'. pk o' = u) (transport_orders d) of Inl e \<Rightarrow> None | Inr m \<Rightarrow> m)"

definition find_best_route_plan ::
  "bool \<Rightarrow> route_cache \<Rightarrow> string \<Rightarrow> 'a tms_db_scheme \<Rightarrow> (route_cache \<times> route) result option" where
  "find_best_route_plan up rc order_id d =
     (case safe_uuid order_id of
        None \<Rightarrow> Some (Inl (not_found ''TransportOrder'' order_id))
      | Some u \<Rightarrow>
          let ord = (if up then cache_order u d else None);
              hit = (case ord of None \<Rightarrow> None | Some x \<Rightarrow> rc (route_key x))
          in case hit of
               Some r \<Rightarrow> Some (Inr (rc, r))
             | None \<Rightarrow>
                 (case find_best_route_plan_impl order_id d of
                    None \<Rightarrow> None
                  | Some (Inl e) \<Rightarrow> Some (Inl e)
                  | Some (Inr r) \<Rightarrow> Some (Inr (case ord of None \<Rightarrow> rc | Some x \<Rightarrow> rc(route_key x \<mapsto> r), r))))"

section \<open>Storing a plan\<close>

definition plan_segment :: "env \<Rightarrow> uuid \<Rightarrow> route_segment \<Rightarrow> 'a tms_db_scheme \<Rightarrow> transport_segment" where
  "plan_segment env oid s d =
     \<lparr>pk = new_uuid env d, created_at = now env, updated_at = now env, sg_transport_order_id = oid,
      sg_segment_no = int (rs_segment_no s), sg_origin_hub_code = Some (rs_from_hub s),
      sg_dest_hub_code = Some (rs_to_hub s), sg_carrier_code = None, sg_status = TransportSegmentStatus_DRAFT,
      sg_tracking_number = None, sg_estimated_departure_time = None, sg_actual_departure_time = None,
      sg_expected_arrival_time = None, sg_actual_arrival_time = None, sg_weight_kg = 0, sg_cost_amount = 0,
      sg_notes = None\<rparr>"

fun add_plan_segments ::
  "env \<Rightarrow> uuid \<Rightarrow> route_segment list \<Rightarrow> 'a tms_db_scheme \<Rightarrow> 'a tms_db_scheme \<times> transport_segment list" where
  "add_plan_segments env oid [] d = (d, [])"
| "add_plan_segments env oid (s # ss) d =
     (let seg = plan_segment env oid s d;
          (d', segs) = add_plan_segments env oid ss
             ((tick d)\<lparr>transport_segments := insert_row seg (transport_segments d)\<rparr>)
      in (d', seg # segs))"

record plan_view =
  pv_plan :: route_plan
  pv_segments :: "transport_segment list"

definition new_plan :: "env \<Rightarrow> uuid \<Rightarrow> route_plan_type \<Rightarrow> route \<Rightarrow> 'a tms_db_scheme \<Rightarrow> route_plan" where
  "new_plan env oid ty r d =
     \<lparr>pk = new_uuid env d, created_at = now env, updated_at = now env, rp_transport_order_id = oid,
      rp_type = ty, rp_status = RoutePlanStatus_ROUTE_ACTIVE, rp_origin_city = ro_origin_city r,
      rp_destination_city = ro_destination_city r, rp_total_distance_km = ro_total_distance_km r,
      rp_total_cost_amount = ro_total_cost_amount r,
      rp_estimated_transit_hours = ro_estimated_transit_hours r, rp_plan_json = r\<rparr>"

definition store_plan ::
  "env \<Rightarrow> uuid \<Rightarrow> string \<Rightarrow> route \<Rightarrow> 'a tms_db_scheme \<Rightarrow> ('a tms_db_scheme \<times> plan_view) result" where
  "store_plan env oid plan_type r d =
     bindE (enum_of route_plan_type_value route_plan_types plan_type) (\<lambda>ty.
     bindE (insert_unique rp_transport_order_id (new_plan env oid ty r d) (route_plans d)) (\<lambda>t.
     let (d', segs) = add_plan_segments env oid (ro_segments r) ((tick d)\<lparr>route_plans := t\<rparr>)
     in Inr (d', \<lparr>pv_plan = new_plan env oid ty r d, pv_segments = segs\<rparr>)))"

definition generate_route_plan ::
  "env \<Rightarrow> bool \<Rightarrow> string \<Rightarrow> string \<Rightarrow> route_cache \<Rightarrow> 'a tms_db_scheme \<Rightarrow>
   (route_cache \<times> 'a tms_db_scheme \<times> plan_view) result option" where
  "generate_route_plan env up order_id plan_type rc d =
     (case safe_uuid order_id of
        None \<Rightarrow> Some (Inl (not_found ''TransportOrder'' order_id))
      | Some oid \<Rightarrow>
          (case find_best_route_plan up rc order_id d of
             None \<Rightarrow> None
           | Some (Inl e) \<Rightarrow> Some (Inl e)
           | Some (Inr (rc', r)) \<Rightarrow>
               Some (bindE (store_plan env oid plan_type r d) (\<lambda>(d', v). Inr (rc', d', v)))))"

definition get_route_plan :: "string \<Rightarrow> 'a tms_db_scheme \<Rightarrow> plan_view result" where
  "get_route_plan plan_id d =
     bindE (find_by_id ''RoutePlan'' plan_id (route_plans d)) (\<lambda>plan.
     Inr \<lparr>pv_plan = plan, pv_segments = segments_of (rp_transport_order_id plan) d\<rparr>)"

section \<open>Costs are not negative\<close>

text \<open>What the request schemas guarantee of the rows that the planner reads.\<close>

definition costs_ok :: "'a tms_db_scheme \<Rightarrow> bool" where
  "costs_ok d =
     ((\<forall>c\<in>set (hub_connections d). 0 \<le> hc_distance_km c) \<and>
      (\<forall>r\<in>set (carrier_routes d). 0 \<le> cr_base_price_per_kg r) \<and>
      (\<forall>o'\<in>set (transport_orders d). 0 \<le> tr_total_weight_kg o'))"

lemma set_alist_update: "set (AList.update k v al) \<subseteq> insert (k, v) (set al)"
  by (induction al) auto

lemma edges_add_edge:
  "edges (add_edge g c) u =
     (if hc_from_hub_code c = u then edges g u @ [(hc_to_hub_code c, hc_distance_km c, hc_transit_hours c)] else edges g u)"
  by (auto simp: edges_def add_edge_def update_conv')

text \<open>The edges out of a hub are its connections, in order.\<close>

lemma edges_build_graph:
  "edges (build_graph cs) u =
     map (\<lambda>c. (hc_to_hub_code c, hc_distance_km c, hc_transit_hours c)) (filter (\<lambda>c. hc_from_hub_code c = u) cs)"
proof (induction cs rule: rev_induct)
  case Nil
  show ?case by (simp add: build_graph_def edges_def)
next
  case (snoc c cs)
  then show ?case by (simp add: build_graph_def edges_add_edge)
qed

lemma add_edge_nonneg:
  assumes "\<forall>es\<in>set (map snd g). \<forall>e\<in>set es. 0 \<le> fst (snd e)" "0 \<le> hc_distance_km c"
  shows "\<forall>es\<in>set (map snd (add_edge g c)). \<forall>e\<in>set es. 0 \<le> fst (snd e)"
proof
  fix es assume "es \<in> set (map snd (add_edge g c))"
  then have "es = edges g (hc_from_hub_code c) @ [(hc_to_hub_code c, hc_distance_km c, hc_transit_hours c)] \<or>
      es \<in> set (map snd g)"
    using set_alist_update unfolding add_edge_def by fastforce
  moreover have "\<forall>e\<in>set (edges g (hc_from_hub_code c)). 0 \<le> fst (snd e)"
  proof (cases "map_of g (hc_from_hub_code c)")
    case (Some es)
    then have "es \<in> set (map snd g)" by (force dest: map_of_SomeD)
    with assms(1) have "\<forall>e\<in>set es. 0 \<le> fst (snd e)" by blast
    with Some show ?thesis by (simp add: edges_def)
  qed (simp add: edges_def)
  ultimately show "\<forall>e\<in>set es. 0 \<le> fst (snd e)" using assms by auto
qed

lemma build_graph_nonneg:
  assumes "\<forall>c\<in>set cs. 0 \<le> hc_distance_km c"
  shows "\<forall>es\<in>set (map snd (build_graph cs)). \<forall>e\<in>set es. 0 \<le> fst (snd e)"
  using assms
proof (induction cs rule: rev_induct)
  case Nil
  show ?case by (simp add: build_graph_def)
next
  case (snoc c cs)
  then have "\<forall>es\<in>set (map snd (build_graph cs)). \<forall>e\<in>set es. 0 \<le> fst (snd e)" "0 \<le> hc_distance_km c" by simp_all
  from add_edge_nonneg[OF this] show ?case by (simp add: build_graph_def)
qed

lemma build_prices_nonneg:
  assumes "\<forall>r\<in>set rs. 0 \<le> cr_base_price_per_kg r"
  shows "\<forall>e\<in>set (build_prices rs). 0 \<le> snd e"
  using assms
proof (induction rs rule: rev_induct)
  case Nil
  show ?case by (simp add: build_prices_def)
next
  case (snoc r rs)
  then have ih: "\<forall>e\<in>set (build_prices rs). 0 \<le> snd e" "0 \<le> cr_base_price_per_kg r" by simp_all
  have "build_prices (rs @ [r]) = AList.update (cr_origin_city r, cr_dest_city r, cr_carrier_code r)
      (cr_base_price_per_kg r) (build_prices rs)"
    by (simp add: build_prices_def)
  then have "set (build_prices (rs @ [r])) \<subseteq>
      insert ((cr_origin_city r, cr_dest_city r, cr_carrier_code r), cr_base_price_per_kg r) (set (build_prices rs))"
    using set_alist_update by metis
  with ih show ?case by fastforce
qed

text \<open>The price the search uses is the least price among the entries of the two cities.\<close>

lemma best_price_append:
  "best_price (pm @ [x]) oc dc = cheaper oc dc (best_price pm oc dc) x"
  by (simp add: best_price_def)

lemma best_price_spec:
  "case best_price pm oc dc of
      None \<Rightarrow> \<forall>cc p. ((oc, dc, cc), p) \<notin> set pm
    | Some b \<Rightarrow> (\<exists>cc. ((oc, dc, cc), b) \<in> set pm) \<and> (\<forall>cc p. ((oc, dc, cc), p) \<in> set pm \<longrightarrow> b \<le> p)"
proof (induction pm rule: rev_induct)
  case Nil
  show ?case by (simp add: best_price_def)
next
  case (snoc x pm)
  obtain oc' dc' cc' p where x: "x = ((oc', dc', cc'), p)" by (metis surj_pair)
  show ?case
  proof (cases "best_price pm oc dc")
    case None
    with snoc show ?thesis by (auto simp: best_price_append x cheaper_def)
  next
    case (Some b)
    with snoc show ?thesis by (fastforce simp: best_price_append x cheaper_def)
  qed
qed

lemma seg_cost_nonneg:
  assumes "\<forall>es\<in>set (map snd g). \<forall>e\<in>set es. 0 \<le> fst (snd e)" "\<forall>e\<in>set pm. 0 \<le> snd e" "0 \<le> w"
  shows "nonneg_costs g (seg_cost pm oc dc w)"
proof -
  have "0 \<le> b" if "best_price pm oc dc = Some b" for b
    using best_price_spec[where pm = pm and oc = oc and dc = dc] assms(2) that by force
  with assms show ?thesis by (auto simp: nonneg_costs_def seg_cost_def split: option.splits)
qed

lemma db_costs_nonneg:
  assumes "costs_ok d" "ord \<in> set (transport_orders d)"
  shows "nonneg_costs (db_graph d) (seg_cost (db_prices d) p q (tr_total_weight_kg ord))"
proof (rule seg_cost_nonneg)
  show "\<forall>es\<in>set (map snd (db_graph d)). \<forall>e\<in>set es. 0 \<le> fst (snd e)"
    unfolding db_graph_def
    by (rule build_graph_nonneg) (use assms(1) in \<open>simp add: costs_ok_def list_hub_connections_def\<close>)
  have "db_prices d = build_prices (order_by_desc created_at (carrier_routes d))"
    by (simp add: db_prices_def list_carrier_routes_def enum_if_truthy_def select_where_def)
  then show "\<forall>e\<in>set (db_prices d). 0 \<le> snd e"
    using build_prices_nonneg[of "order_by_desc created_at (carrier_routes d)"] assms(1) by (simp add: costs_ok_def)
  show "0 \<le> tr_total_weight_kg ord" using assms by (simp add: costs_ok_def)
qed

section \<open>The least cost over all pairs\<close>

lemma dijkstra_total:
  assumes "nonneg_costs g (seg_cost pm p q w)"
  shows "\<exists>r. dijkstra o' d' g pm p q w = Some r"
  using search_loop_total[OF assms] by (fastforce simp: dijkstra_def)

lemma dijkstra_spec:
  assumes "dijkstra o' d' g pm p q w = Some r" "nonneg_costs g (seg_cost pm p q w)"
  shows "case r of
      None \<Rightarrow> \<forall>pt c. walk g (seg_cost pm p q w) o' pt c \<longrightarrow> last pt \<noteq> d'
    | Some x \<Rightarrow> least_cost g (seg_cost pm p q w) o' d' (dr_total_cost x)"
proof -
  from assms(1) obtain s where s: "search_loop g (seg_cost pm p q w) o' d' = Some s" "search_result_of g o' d' s = r"
    by (auto simp: dijkstra_def)
  from search_spec[OF s(1) assms(2)] show ?thesis unfolding s(2) by (auto split: option.splits)
qed

definition pair_of :: "(string \<Rightarrow> string \<Rightarrow> search_result option option) \<Rightarrow> (string \<times> string) list \<Rightarrow> search_result \<Rightarrow> bool" where
  "pair_of search ps r = (\<exists>(o', d')\<in>set ps. search o' d' = Some (Some r))"

lemma best_pair_total:
  assumes "\<And>o' d'. \<exists>r. search o' d' = Some r"
  shows "\<exists>r. best_pair search ps best = Some r"
proof (induction ps arbitrary: best)
  case (Cons x ps)
  obtain o' d' where x: "x = (o', d')" by (cases x)
  obtain r where "search o' d' = Some r" using assms by blast
  with Cons x show ?case by simp
qed simp

lemma best_pair_spec:
  assumes "best_pair search ps best = Some res"
  shows "(res = best \<or> (\<exists>r. res = Some r \<and> pair_of search ps r)) \<and>
    (\<forall>b. best = Some b \<longrightarrow> (\<exists>r. res = Some r \<and> dr_total_cost r \<le> dr_total_cost b)) \<and>
    (\<forall>(o', d')\<in>set ps. \<forall>x. search o' d' = Some (Some x) \<longrightarrow> (\<exists>r. res = Some r \<and> dr_total_cost r \<le> dr_total_cost x))"
  using assms
proof (induction ps arbitrary: best)
  case (Cons y ps)
  obtain o' d' where y: "y = (o', d')" by (cases y)
  from Cons.prems y obtain m where m: "search o' d' = Some m" "best_pair search ps (better m best) = Some res"
    by (auto split: option.splits)
  note ih = Cons.IH[OF m(2)]
  show ?case
  proof (cases m)
    case None
    then have "better m best = best" by (simp add: better_def)
    with ih m(1) None y show ?thesis by (auto simp: pair_of_def)
  next
    case (Some x)
    have b: "\<exists>z. better m best = Some z \<and> dr_total_cost z \<le> dr_total_cost x \<and>
        (\<forall>b. best = Some b \<longrightarrow> dr_total_cost z \<le> dr_total_cost b) \<and> (z = x \<or> best = Some z)"
      by (auto simp: better_def Some split: option.splits)
    then obtain z where z: "better m best = Some z" "dr_total_cost z \<le> dr_total_cost x"
      "\<And>b. best = Some b \<Longrightarrow> dr_total_cost z \<le> dr_total_cost b" "z = x \<or> best = Some z" by blast
    from ih z(1) obtain r where r: "res = Some r" "dr_total_cost r \<le> dr_total_cost z" by auto
    have "res = best \<or> (\<exists>r. res = Some r \<and> pair_of search (y # ps) r)"
      using ih z(1,4) r(1) m(1) Some y by (auto simp: pair_of_def)
    moreover have "\<exists>r. res = Some r \<and> dr_total_cost r \<le> dr_total_cost b" if "best = Some b" for b
      using r z(3)[OF that] by auto
    moreover have "\<exists>r. res = Some r \<and> dr_total_cost r \<le> dr_total_cost x'"
      if "(a, c) \<in> set (y # ps)" "search a c = Some (Some x')" for a c x'
      using that ih r z(2) m(1) Some y by (cases "(a, c) = y") auto
    ultimately show ?thesis by blast
  qed
qed simp

lemma hub_pairs_mem: "(a, b) \<in> set (hub_pairs os ds) \<longleftrightarrow> a \<in> th_code ` set os \<and> b \<in> th_code ` set ds"
  by (auto simp: hub_pairs_def)

text \<open>A success of the planner, taken apart.\<close>

lemma find_best_route_plan_implE:
  assumes "find_best_route_plan_impl order_id d = Some (Inr rt)"
  obtains u ord p q os ds r where "to_uuid order_id = Inr u" "find_one (\<lambda>o'. pk o' = u) (transport_orders d) = Inr (Some ord)"
    "route_cities ord = Inr (p, q)" "route_hubs p q d = Inr (os, ds)"
    "best_pair (\<lambda>o' d'. dijkstra o' d' (db_graph d) (db_prices d) p q (tr_total_weight_kg ord)) (hub_pairs os ds) None = Some (Some r)"
    "route_of p q r = Inr rt"
proof -
  let ?start = "bindE (to_uuid order_id) (\<lambda>u.
           bindE (find_or_raise (not_found ''TransportOrder'' order_id) (\<lambda>o'. pk o' = u) (transport_orders d)) (\<lambda>ord.
           bindE (route_cities ord) (\<lambda>(p, q).
           bindE (route_hubs p q d) (\<lambda>(os, ds). Inr (ord, p, q, os, ds)))))"
  from assms obtain ord p q os ds r where s: "?start = Inr (ord, p, q, os, ds)" and
    r: "best_pair (\<lambda>o' d'. dijkstra o' d' (db_graph d) (db_prices d) p q (tr_total_weight_kg ord)) (hub_pairs os ds) None = Some (Some r)"
      "route_of p q r = Inr rt"
    unfolding find_best_route_plan_impl_def by (auto split: sum.splits option.splits prod.splits)
  from s obtain u where "to_uuid order_id = Inr u" "find_one (\<lambda>o'. pk o' = u) (transport_orders d) = Inr (Some ord)"
    "route_cities ord = Inr (p, q)" "route_hubs p q d = Inr (os, ds)" by (auto split: prod.splits)
  with r that show thesis by blast
qed

lemma route_of_cost: "route_of p q r = Inr rt \<Longrightarrow> ro_total_cost_amount rt = dr_total_cost r"
  by (auto simp: route_of_def)

lemma list_hubs_city:
  "c \<noteq> [] \<Longrightarrow> list_hubs (Some c) None d = Inr hs \<Longrightarrow> set hs = {h \<in> set (transfer_hubs d). th_city h = c}"
  by (cases c) (auto simp: list_hubs_def enum_if_truthy_def)

lemma route_plan_least_cost:
  assumes "find_best_route_plan_impl (show_uuid (pk ord)) d = Some (Inr rt)"
    and "find_one (\<lambda>o'. pk o' = pk ord) (transport_orders d) = Inr (Some ord)" "costs_ok d"
    and "tr_pickup_address ord = Some pa" "ap_city pa = Some p" "tr_delivery_address ord = Some da" "ap_city da = Some q"
  defines "cost \<equiv> seg_cost (db_prices d) p q (tr_total_weight_kg ord)"
  shows "(\<exists>a\<in>set (transfer_hubs d). \<exists>b\<in>set (transfer_hubs d). th_city a = p \<and> th_city b = q \<and>
            least_cost (db_graph d) cost (th_code a) (th_code b) (ro_total_cost_amount rt)) \<and>
    (\<forall>a\<in>set (transfer_hubs d). \<forall>b\<in>set (transfer_hubs d). \<forall>pt c. th_city a = p \<and> th_city b = q \<and>
        walk (db_graph d) cost (th_code a) pt c \<and> last pt = th_code b \<longrightarrow> ro_total_cost_amount rt \<le> c)"
proof -
  from find_best_route_plan_implE[OF assms(1)] obtain u ord' p' q' os ds r where
    u: "to_uuid (show_uuid (pk ord)) = Inr u" "find_one (\<lambda>o'. pk o' = u) (transport_orders d) = Inr (Some ord')"
    and c: "route_cities ord' = Inr (p', q')" and h: "route_hubs p' q' d = Inr (os, ds)"
    and best: "best_pair (\<lambda>o' d'. dijkstra o' d' (db_graph d) (db_prices d) p' q' (tr_total_weight_kg ord')) (hub_pairs os ds) None = Some (Some r)"
    and rt: "route_of p' q' r = Inr rt" by metis
  have ord': "ord' = ord" using u assms(2) by simp
  have pq: "p' = p" "q' = q" "p \<noteq> []" "q \<noteq> []"
    using c assms(4-7) by (auto simp: ord' route_cities_def addr_city_def truthy_def)
  have cost: "ro_total_cost_amount rt = dr_total_cost r" by (rule route_of_cost[OF rt])
  have mem: "ord \<in> set (transport_orders d)" using find_one_SomeD(1)[OF assms(2)] .
  have nn: "nonneg_costs (db_graph d) cost" unfolding cost_def by (rule db_costs_nonneg[OF assms(3) mem])
  have os: "set os = {h \<in> set (transfer_hubs d). th_city h = p}" "set ds = {h \<in> set (transfer_hubs d). th_city h = q}"
    using h pq list_hubs_city by (auto simp: route_hubs_def)
  note spec = best_pair_spec[OF best]
  from spec obtain o' d' where od: "(o', d') \<in> set (hub_pairs os ds)"
    "dijkstra o' d' (db_graph d) (db_prices d) p q (tr_total_weight_kg ord) = Some (Some r)"
    by (auto simp: pair_of_def ord' pq)
  from dijkstra_spec[OF od(2) nn[unfolded cost_def]] have lc: "least_cost (db_graph d) cost o' d' (dr_total_cost r)"
    by (simp add: cost_def)
  from od(1) os obtain a b where "a \<in> set (transfer_hubs d)" "th_city a = p" "b \<in> set (transfer_hubs d)" "th_city b = q"
    "o' = th_code a" "d' = th_code b" by (auto simp: hub_pairs_mem)
  with lc cost have "\<exists>a\<in>set (transfer_hubs d). \<exists>b\<in>set (transfer_hubs d). th_city a = p \<and> th_city b = q \<and>
      least_cost (db_graph d) cost (th_code a) (th_code b) (ro_total_cost_amount rt)" by auto
  moreover have "ro_total_cost_amount rt \<le> c"
    if ab: "a \<in> set (transfer_hubs d)" "b \<in> set (transfer_hubs d)" "th_city a = p" "th_city b = q"
      and w: "walk (db_graph d) cost (th_code a) pt c" "last pt = th_code b" for a b pt c
  proof -
    have pr: "(th_code a, th_code b) \<in> set (hub_pairs os ds)" using ab os by (auto simp: hub_pairs_mem)
    obtain res where res: "dijkstra (th_code a) (th_code b) (db_graph d) (db_prices d) p q (tr_total_weight_kg ord) = Some res"
      using dijkstra_total[OF nn[unfolded cost_def]] by blast
    from dijkstra_spec[OF res nn[unfolded cost_def]] w obtain x where
      x: "res = Some x" "dr_total_cost x \<le> c"
      by (auto simp: least_cost_def cost_def split: option.splits)
    from spec pr res x(1) have "dr_total_cost r \<le> dr_total_cost x" by (auto simp: ord' pq)
    with x(2) cost show ?thesis by simp
  qed
  ultimately show ?thesis by blast
qed

text \<open>With costs that are not negative the planner always returns or raises.\<close>

lemma find_best_route_plan_impl_total:
  assumes "costs_ok d"
  shows "find_best_route_plan_impl order_id d \<noteq> None"
proof -
  have total: "best_pair (\<lambda>o' d'. dijkstra o' d' (db_graph d) (db_prices d) p q (tr_total_weight_kg ord)) ps None \<noteq> None"
    if "ord \<in> set (transport_orders d)" for ord p q ps
    using best_pair_total[of "\<lambda>o' d'. dijkstra o' d' (db_graph d) (db_prices d) p q (tr_total_weight_kg ord)"]
      dijkstra_total[OF db_costs_nonneg[OF assms that]] by blast
  then show ?thesis
    unfolding find_best_route_plan_impl_def
    by (auto split: sum.splits option.splits prod.splits dest!: find_one_SomeD(1) simp: total)
qed

section \<open>The segments of a plan\<close>

text \<open>Every stored hub code is one character.\<close>

lemma route_segments_chars:
  "route_segments i xs = Inr segs \<Longrightarrow> s \<in> set segs \<Longrightarrow> length (rs_from_hub s) = 1 \<and> length (rs_to_hub s) = 1"
  by (induction i xs arbitrary: segs rule: route_segments.induct) (auto split: if_splits)

lemma route_hub_codes:
  assumes "find_best_route_plan_impl order_id d = Some (Inr rt)" "s \<in> set (ro_segments rt)"
  shows "length (rs_from_hub s) = 1" "length (rs_to_hub s) = 1"
proof -
  from assms(1) obtain p q r where "route_of p q r = Inr rt" by (rule find_best_route_plan_implE)
  then have "route_segments 0 (zip (dr_path r) (zip (dr_seg_distances r) (dr_seg_hours r))) = Inr (ro_segments rt)"
    by (auto simp: route_of_def)
  from route_segments_chars[OF this assms(2)] show "length (rs_from_hub s) = 1" "length (rs_to_hub s) = 1" by auto
qed

lemma add_plan_segments_frame:
  "add_plan_segments env oid ss d = (d', segs) \<Longrightarrow>
     transport_segments d' = transport_segments d @ segs \<and> length segs = length ss \<and> route_plans d' = route_plans d \<and>
     (\<forall>s\<in>set segs. sg_transport_order_id s = oid \<and> sg_status s = TransportSegmentStatus_DRAFT)"
proof (induction env oid ss d arbitrary: d' segs rule: add_plan_segments.induct)
  case (2 env oid s ss d)
  let ?seg = "plan_segment env oid s d"
  let ?d1 = "(tick d)\<lparr>transport_segments := insert_row ?seg (transport_segments d)\<rparr>"
  obtain d2 segs2 where e: "add_plan_segments env oid ss ?d1 = (d2, segs2)" by fastforce
  with "2.prems" have eq: "d' = d2" "segs = ?seg # segs2" by (simp_all add: Let_def)
  from "2.IH"[OF refl e] show ?case
    by (simp add: eq insert_row_def tick_def plan_segment_def)
qed simp

text \<open>A second plan for the same transport order violates the unique column, and nothing is stored.\<close>

lemma new_plan_fields [simp]:
  "rp_transport_order_id (new_plan env oid ty r d) = oid" "rp_plan_json (new_plan env oid ty r d) = r"
  by (simp_all add: new_plan_def)

lemma store_plan_once:
  assumes "store_plan env oid ty r d = Inr (d', v)"
  shows "oid \<notin> rp_transport_order_id ` set (route_plans d)" "route_plans d' = route_plans d @ [pv_plan v]"
    "rp_transport_order_id (pv_plan v) = oid" "rp_plan_json (pv_plan v) = r"
    "transport_segments d' = transport_segments d @ pv_segments v" "length (pv_segments v) = length (ro_segments r)"
proof -
  from assms obtain t where t: "oid \<notin> rp_transport_order_id ` set (route_plans d)"
    "(let (d', segs) = add_plan_segments env oid (ro_segments r)
         ((tick d)\<lparr>route_plans := insert_row (new_plan env oid t r d) (route_plans d)\<rparr>)
      in Inr (d', \<lparr>pv_plan = new_plan env oid t r d, pv_segments = segs\<rparr>)) = (Inr (d', v) :: _ result)"
    by (auto simp: store_plan_def)
  obtain d1 segs where a: "add_plan_segments env oid (ro_segments r)
         ((tick d)\<lparr>route_plans := insert_row (new_plan env oid t r d) (route_plans d)\<rparr>) = (d1, segs)" by fastforce
  from t(2) a have v: "d' = d1" "v = \<lparr>pv_plan = new_plan env oid t r d, pv_segments = segs\<rparr>" by simp_all
  from t(1) show "oid \<notin> rp_transport_order_id ` set (route_plans d)" .
  from add_plan_segments_frame[OF a] show "route_plans d' = route_plans d @ [pv_plan v]"
    "transport_segments d' = transport_segments d @ pv_segments v" "length (pv_segments v) = length (ro_segments r)"
    by (simp_all add: v insert_row_def tick_def)
  show "rp_transport_order_id (pv_plan v) = oid" "rp_plan_json (pv_plan v) = r" by (simp_all add: v)
qed

lemma store_plan_refused:
  assumes "oid \<in> rp_transport_order_id ` set (route_plans d)"
  shows "\<exists>e. store_plan env oid ty r d = Inl e"
  using store_plan_once(1)[of env oid ty r d] assms by (cases "store_plan env oid ty r d") auto

text \<open>A cached route is returned whatever the network is now.\<close>

lemma find_best_route_plan_cached:
  assumes "find_one (\<lambda>o'. pk o' = pk ord) (transport_orders d) = Inr (Some ord)" "rc (route_key ord) = Some r"
  shows "find_best_route_plan True rc (show_uuid (pk ord)) d = Some (Inr (rc, r))"
  using assms by (simp add: find_best_route_plan_def cache_order_def)

lemma find_best_route_plan_fills:
  assumes "find_one (\<lambda>o'. pk o' = pk ord) (transport_orders d) = Inr (Some ord)" "rc (route_key ord) = None"
    "find_best_route_plan_impl (show_uuid (pk ord)) d = Some (Inr r)"
  shows "find_best_route_plan True rc (show_uuid (pk ord)) d = Some (Inr (rc(route_key ord \<mapsto> r), r))"
  using assms by (simp add: find_best_route_plan_def cache_order_def)

section \<open>Every history of validated requests\<close>

text \<open>
  The network and the orders grow by requests that passed their schemas, and plans are generated in
  between. The costs that the search reads are then never negative.
\<close>

inductive planner_step :: "'a tms_db_scheme \<Rightarrow> 'a tms_db_scheme \<Rightarrow> bool" where
  hub_created: "create_hub env hq d = Inr (d', h) \<Longrightarrow> hub_req_schema_ok hq \<Longrightarrow> pk h \<notin> pk ` set (transfer_hubs d) \<Longrightarrow>
    planner_step d d'"
| hub_updated: "update_hub env i hu d = Inr (d', h) \<Longrightarrow> planner_step d d'"
| route_added: "add_carrier_route env rq d = Inr (d', r) \<Longrightarrow> carrier_route_schema_ok rq \<Longrightarrow> planner_step d d'"
| connection_added: "add_hub_connection env cq d = Inr (d', c) \<Longrightarrow> hub_connection_schema_ok cq \<Longrightarrow> planner_step d d'"
| order_created: "create_transport_order env tq d = Inr (d', o') \<Longrightarrow> transport_req_schema_ok tq \<Longrightarrow> planner_step d d'"
| status_changed: "change_transport_status env i s d = Inr (d', o') \<Longrightarrow> planner_step d d'"
| plan_generated: "generate_route_plan env up i ty rc d = Some (Inr (rc', d', v)) \<Longrightarrow> planner_step d d'"

inductive planner_reachable :: "'a tms_db_scheme \<Rightarrow> bool" where
  start: "transfer_hubs d = [] \<Longrightarrow> hub_connections d = [] \<Longrightarrow> carrier_routes d = [] \<Longrightarrow> transport_orders d = [] \<Longrightarrow>
    planner_reachable d"
| step: "planner_reachable d \<Longrightarrow> planner_step d d' \<Longrightarrow> planner_reachable d'"

definition planner_inv :: "'a tms_db_scheme \<Rightarrow> bool" where
  "planner_inv d \<longleftrightarrow> costs_ok d \<and> network_inv d \<and> distinct (map pk (transfer_hubs d))"

lemma planner_inv_cong:
  assumes "transfer_hubs d' = transfer_hubs d" "hub_connections d' = hub_connections d"
    "carrier_routes d' = carrier_routes d" "transport_orders d' = transport_orders d" "planner_inv d"
  shows "planner_inv d'"
  using assms by (simp add: planner_inv_def costs_ok_def network_inv_def)

lemma add_plan_segments_tables:
  "add_plan_segments env oid ss d = (d', segs) \<Longrightarrow>
     transfer_hubs d' = transfer_hubs d \<and> hub_connections d' = hub_connections d \<and>
     carrier_routes d' = carrier_routes d \<and> transport_orders d' = transport_orders d"
  by (induction ss arbitrary: d d' segs) (auto simp: Let_def tick_def split: prod.splits dest!: meta_spec)

lemma planner_step_inv:
  assumes "planner_step d d'" "planner_inv d"
  shows "planner_inv d'"
  using assms
proof (cases rule: planner_step.cases)
  case (hub_created env hq h)
  then show ?thesis
    using create_hub_inv[OF hub_created(1)] assms(2)
    by (auto simp: planner_inv_def create_hub_def costs_ok_def Let_def tick_def insert_row_def)
next
  case (hub_updated env i hu h)
  from hub_updated obtain hub where h: "find_by_id ''Hub'' i (transfer_hubs d) = Inr hub"
    "apply_hub_update env hu hub = Inr h"
    and d': "d' = d\<lparr>transfer_hubs := update_where (\<lambda>x. pk x = pk hub) (\<lambda>_. h) (transfer_hubs d)\<rparr>"
    by (auto simp: update_hub_def)
  from h(2) have "pk h = pk hub" by (auto simp: apply_hub_update_def)
  then have "map pk (update_where (\<lambda>x. pk x = pk hub) (\<lambda>_. h) (transfer_hubs d)) = map pk (transfer_hubs d)"
    by (auto simp: update_where_def)
  then have "map pk (transfer_hubs d') = map pk (transfer_hubs d)" by (simp add: d')
  then show ?thesis
    using update_hub_inv[OF hub_updated] assms(2) by (simp add: planner_inv_def costs_ok_def d')
next
  case (route_added env rq r)
  then show ?thesis
    using assms(2) by (auto simp: planner_inv_def add_carrier_route_def costs_ok_def network_inv_def Let_def tick_def
        carrier_route_schema_ok_def)
next
  case (connection_added env cq c)
  then show ?thesis
    using add_hub_connection_inv[OF connection_added(1)] assms(2)
    by (auto simp: planner_inv_def add_hub_connection_def costs_ok_def hub_connection_schema_ok_def Let_def tick_def)
next
  case (order_created env tq o')
  from order_created(1) have n: "new_transport env tq d = Inr o'"
    and t: "transport_orders d' = transport_orders d @ [o']" "transfer_hubs d' = transfer_hubs d"
      "hub_connections d' = hub_connections d" "carrier_routes d' = carrier_routes d"
    by (auto simp: create_transport_order_def created_event_def Let_def tick_def insert_row_def split: sum.splits)
  from n have "tr_total_weight_kg o' = tq_total_weight_kg tq" by (auto simp: new_transport_def)
  with order_created(2) have "0 \<le> tr_total_weight_kg o'" by (simp add: transport_req_schema_ok_def)
  with assms(2) t show ?thesis by (simp add: planner_inv_def costs_ok_def network_inv_def)
next
  case (status_changed env i s o')
  obtain ord :: transport_order where d': "d' = d\<lparr>transport_orders := update_where (\<lambda>x. pk x = pk ord)
      (set_transport_status env (tr_status o')) (transport_orders d)\<rparr>"
    by (rule change_transport_statusE[OF status_changed]) rule
  have "\<forall>x\<in>set (update_where (\<lambda>x. pk x = pk ord) (set_transport_status env (tr_status o')) (transport_orders d)).
      0 \<le> tr_total_weight_kg x"
    by (rule update_where_all)
      (use assms(2) in \<open>auto simp: planner_inv_def costs_ok_def set_transport_status_def Let_def\<close>)
  with assms(2) show ?thesis by (simp add: planner_inv_def costs_ok_def network_inv_def d')
next
  case (plan_generated env up i ty rc rc' v)
  then obtain oid r where "store_plan env oid ty r d = Inr (d', v)"
    by (auto simp: generate_route_plan_def split: option.splits sum.splits)
  then obtain ty' where "d' = fst (add_plan_segments env oid (ro_segments r)
      ((tick d)\<lparr>route_plans := insert_row (new_plan env oid ty' r d) (route_plans d)\<rparr>))"
    by (auto simp: store_plan_def case_prod_beta Let_def)
  then obtain segs where "add_plan_segments env oid (ro_segments r)
      ((tick d)\<lparr>route_plans := insert_row (new_plan env oid ty' r d) (route_plans d)\<rparr>) = (d', segs)"
    by (metis prod.collapse)
  from add_plan_segments_tables[OF this] assms(2) show ?thesis
    by (intro planner_inv_cong[of d' d]) (simp_all add: tick_def)
qed

lemma planner_reachable_inv: "planner_reachable d \<Longrightarrow> planner_inv d"
  by (induction rule: planner_reachable.induct)
    (simp add: planner_inv_def costs_ok_def network_inv_def, blast intro: planner_step_inv)

end
