(* ===== verification/Tms_Returns.thy ===== *)
theory Tms_Returns
  imports Tms_Transport
begin

text \<open>
  Reverse logistics of \<open>src/tms/service.py\<close>: a return order has a commercial status and a physical
  shipment status. \<open>set_repr\<close> is \<open>str()\<close> of a Python set, whose order is not specified.
\<close>

section \<open>Creating and reading\<close>

record return_req =
  eq_return_reason :: string
  eq_reason_detail :: "string option"
  eq_return_order_id :: "string option"
  eq_return_carrier_code :: "string option"
  eq_return_tracking_number :: "string option"
  eq_pickup_address :: "json option"
  eq_destination_warehouse_id :: "string option"
  eq_refund_amount :: "decimal option"

definition return_req_schema_ok :: "return_req \<Rightarrow> bool" where
  "return_req_schema_ok q =
     (enum_find return_reason_value return_reasons (eq_return_reason q) \<noteq> None \<and>
      (case eq_return_carrier_code q of None \<Rightarrow> True
       | Some c \<Rightarrow> c = [] \<or> enum_find carrier_code_value carrier_codes c \<noteq> None) \<and>
      0 \<le> get_default 0 (eq_refund_amount q))"

definition return_no :: "env \<Rightarrow> nat \<Rightarrow> string" where
  "return_no env n = ''RTN-'' @ ymd env @ ''-'' @ zero_pad 4 (show_nat n)"

text \<open>The warehouse identifier is written to its UUID column as text; the driver rejects a malformed one.\<close>

definition uuid_column :: "string option \<Rightarrow> uuid option result" where
  "uuid_column v = (case v of None \<Rightarrow> Inr None
     | Some s \<Rightarrow> bindE (of_option DataError (parse_uuid s)) (\<lambda>u. Inr (Some u)))"

definition create_return_order ::
  "env \<Rightarrow> return_req \<Rightarrow> 'a tms_db_scheme \<Rightarrow> ('a tms_db_scheme \<times> return_order) result" where
  "create_return_order env data d =
     bindE (enum_of return_reason_value return_reasons (eq_return_reason data)) (\<lambda>reason.
     bindE (uuid_if_truthy (eq_return_order_id data)) (\<lambda>oid.
     bindE (enum_if_truthy carrier_code_value carrier_codes (eq_return_carrier_code data)) (\<lambda>cc.
     bindE (uuid_column (eq_destination_warehouse_id data)) (\<lambda>wh.
     let ret = \<lparr>pk = new_uuid env d, created_at = now env, updated_at = now env,
                 rt_return_no = return_no env (length (return_orders d) + 1), rt_status = ReturnStatus_REQUESTED,
                 rt_shipment_status = ReturnShipmentStatus_PENDING, rt_reason = reason,
                 rt_reason_detail = eq_reason_detail data, rt_transport_order_id = oid, rt_carrier_code = cc,
                 rt_return_tracking_number = eq_return_tracking_number data,
                 rt_pickup_address = get_default (JObj []) (eq_pickup_address data),
                 rt_destination_warehouse_id = wh, rt_refund_amount = get_default 0 (eq_refund_amount data)\<rparr>
     in bindE (insert_unique rt_return_no ret (return_orders d)) (\<lambda>t.
        Inr ((tick d)\<lparr>return_orders := t\<rparr>, ret))))))"

definition list_return_orders :: "string option \<Rightarrow> 'a tms_db_scheme \<Rightarrow> (return_order list \<times> nat) result" where
  "list_return_orders status d =
     bindE (if truthy status
            then bindE (enum_column return_status_value return_statuss (get_default [] status)) (\<lambda>s. Inr (Some s))
            else Inr None) (\<lambda>st.
     let keep = (\<lambda>r. st = None \<or> st = Some (rt_status r))
     in Inr (order_by_desc created_at (select_where keep (return_orders d)), row_count keep (return_orders d)))"

definition find_return :: "string \<Rightarrow> 'a tms_db_scheme \<Rightarrow> return_order result" where
  "find_return return_id d = find_by_id ''ReturnOrder'' return_id (return_orders d)"

definition get_return_order :: "string \<Rightarrow> 'a tms_db_scheme \<Rightarrow> return_order result" where
  "get_return_order return_id d = find_return return_id d"

section \<open>Changes of status\<close>

definition set_return :: "env \<Rightarrow> return_status \<Rightarrow> return_shipment_status \<Rightarrow> return_order \<Rightarrow> return_order" where
  "set_return env st sh r = r\<lparr>rt_status := st, rt_shipment_status := sh, updated_at := now env\<rparr>"

definition put_return ::
  "env \<Rightarrow> return_order \<Rightarrow> return_status \<Rightarrow> return_shipment_status \<Rightarrow> 'a tms_db_scheme \<Rightarrow> 'a tms_db_scheme \<times> return_order" where
  "put_return env ret st sh d =
     (d\<lparr>return_orders := update_where (\<lambda>x. pk x = pk ret) (set_return env st sh) (return_orders d)\<rparr>,
      set_return env st sh ret)"

text \<open>The table of \<open>update_return_status\<close> has values, and \<open>cancelled\<close> is the value of no status.\<close>

fun return_targets :: "return_status \<Rightarrow> string list option" where
  "return_targets ReturnStatus_REQUESTED = Some [''pickup_scheduled'', ''cancelled'']"
| "return_targets ReturnStatus_PICKUP_SCHEDULED = Some [''in_transit_return'', ''cancelled'']"
| "return_targets ReturnStatus_IN_TRANSIT_RETURN = Some [''returned_to_warehouse'', ''cancelled'']"
| "return_targets ReturnStatus_RETURNED_TO_WAREHOUSE = Some [''refunded'', ''closed'']"
| "return_targets _ = None"

definition return_step :: "(string list \<Rightarrow> string) \<Rightarrow> return_status \<Rightarrow> string \<Rightarrow> return_status result" where
  "return_step set_repr s target =
     bindE (raise_if (target \<notin> set (get_default [] (return_targets s)))
        (ValidationException
           (''Cannot transition return from '' @ return_status_value s @ '' to '' @ target)
           (Some (''Allowed: '' @ (case return_targets s of None \<Rightarrow> ''None'' | Some ts \<Rightarrow> set_repr ts))))) (\<lambda>_.
     enum_column return_status_value return_statuss target)"

definition update_return_status ::
  "(string list \<Rightarrow> string) \<Rightarrow> env \<Rightarrow> string \<Rightarrow> string \<Rightarrow> 'a tms_db_scheme \<Rightarrow> ('a tms_db_scheme \<times> return_order) result" where
  "update_return_status set_repr env return_id target d =
     bindE (find_return return_id d) (\<lambda>ret.
     bindE (return_step set_repr (rt_status ret) target) (\<lambda>st.
     Inr (put_return env ret st (rt_shipment_status ret) d)))"

fun shipment_targets :: "return_shipment_status \<Rightarrow> return_shipment_status list option" where
  "shipment_targets ReturnShipmentStatus_PENDING = Some [ReturnShipmentStatus_IN_TRANSIT_RETURN]"
| "shipment_targets ReturnShipmentStatus_IN_TRANSIT_RETURN = Some [ReturnShipmentStatus_RECEIVED_BY_CARRIER]"
| "shipment_targets _ = None"

definition mark_shipment_received ::
  "env \<Rightarrow> string \<Rightarrow> 'a tms_db_scheme \<Rightarrow> ('a tms_db_scheme \<times> return_order) result" where
  "mark_shipment_received env return_id d =
     bindE (find_return return_id d) (\<lambda>ret.
     case shipment_targets (rt_shipment_status ret) of
       None \<Rightarrow> Inl (validation (''Cannot transition shipment from '' @ return_shipment_status_value (rt_shipment_status ret)))
     | Some ts \<Rightarrow>
         bindE (raise_if (ReturnShipmentStatus_RECEIVED_BY_CARRIER \<notin> set ts)
                  (validation ''Cannot move to RECEIVED_BY_CARRIER'')) (\<lambda>_.
         Inr (put_return env ret ReturnStatus_IN_TRANSIT_RETURN ReturnShipmentStatus_RECEIVED_BY_CARRIER d)))"

definition mark_return_inspected ::
  "env \<Rightarrow> string \<Rightarrow> bool \<Rightarrow> 'a tms_db_scheme \<Rightarrow> ('a tms_db_scheme \<times> return_order) result" where
  "mark_return_inspected env return_id accept d =
     bindE (find_return return_id d) (\<lambda>ret.
     bindE (raise_if (rt_status ret \<notin> {ReturnStatus_RETURNED_TO_WAREHOUSE, ReturnStatus_IN_TRANSIT_RETURN})
        (validation (''Cannot inspect return in status '' @ return_status_value (rt_status ret)))) (\<lambda>_.
     Inr (put_return env ret (if accept then ReturnStatus_REFUNDED else ReturnStatus_CLOSED)
            ReturnShipmentStatus_RETURNED_TO_WAREHOUSE d)))"

definition cancel_return_order ::
  "env \<Rightarrow> string \<Rightarrow> 'a tms_db_scheme \<Rightarrow> ('a tms_db_scheme \<times> return_order) result" where
  "cancel_return_order env return_id d =
     bindE (find_return return_id d) (\<lambda>ret.
     bindE (raise_if (rt_status ret \<notin> {ReturnStatus_REQUESTED, ReturnStatus_PICKUP_SCHEDULED})
        (validation (''Cannot cancel return in status '' @ return_status_value (rt_status ret)))) (\<lambda>_.
     Inr (put_return env ret ReturnStatus_CLOSED ReturnShipmentStatus_RETURNED_TO_WAREHOUSE d)))"

section \<open>The lifecycle of a return\<close>

text \<open>The statuses reachable in one step by any of the operations, and a rank they decrease.\<close>

fun return_rank :: "return_status \<Rightarrow> nat" where
  "return_rank ReturnStatus_REQUESTED = 4"
| "return_rank ReturnStatus_PICKUP_SCHEDULED = 3"
| "return_rank ReturnStatus_IN_TRANSIT_RETURN = 2"
| "return_rank ReturnStatus_RETURNED_TO_WAREHOUSE = 1"
| "return_rank _ = 0"

definition return_allowed :: "return_status \<Rightarrow> return_status list" where
  "return_allowed s = filter (\<lambda>t. return_status_value t \<in> set (get_default [] (return_targets s))) return_statuss"

definition return_change :: "return_status \<Rightarrow> return_status \<Rightarrow> return_status result" where
  "return_change s t = return_step (join '', '') s (return_status_value t)"

lemma return_allowed_mem: "t \<in> set (return_allowed s) \<longleftrightarrow> return_status_value t \<in> set (get_default [] (return_targets s))"
  using return_status_enum.complete by (simp add: return_allowed_def)

interpretation return_lifecycle: ranked_status_machine return_allowed return_change return_rank
proof
  fix s t
  show "return_change s t = Inr t" if "t \<in> set (return_allowed s)"
    using that by (simp add: return_change_def return_step_def return_allowed_mem return_status_enum.column_value)
  show "\<exists>e. return_change s t = Inl e" if "t \<notin> set (return_allowed s)"
    using that by (simp add: return_change_def return_step_def return_allowed_mem)
  show "return_rank t < return_rank s" if "t \<in> set (return_allowed s)"
    using that[unfolded return_allowed_mem] by (cases s; cases t) simp_all
qed

lemma no_return_status_cancelled: "enum_column return_status_value return_statuss ''cancelled'' = Inl DataError"
  by code_simp

lemma return_target_cases:
  assumes "target \<in> set (get_default [] (return_targets s))"
  obtains "target = ''cancelled''" | t where "target = return_status_value t"
  using assms by (cases s) (auto intro: that return_status_value.simps[symmetric])

lemma return_step_ok:
  assumes "return_step sr s target = Inr t"
  shows "target = return_status_value t" "t \<in> set (return_allowed s)" "return_rank t < return_rank s"
proof -
  from assms have a: "target \<in> set (get_default [] (return_targets s))" "enum_column return_status_value return_statuss target = Inr t"
    by (auto simp: return_step_def)
  from a(1) show t: "target = return_status_value t"
  proof (cases rule: return_target_cases)
    case (2 u)
    with a(2) show ?thesis by (simp add: return_status_enum.column_value)
  qed (use a(2) in \<open>simp add: no_return_status_cancelled\<close>)
  with a(1) show "t \<in> set (return_allowed s)" by (simp add: return_allowed_mem)
  then show "return_rank t < return_rank s" using return_lifecycle.rank_decreases by blast
qed

text \<open>Asking for \<open>cancelled\<close>, which the table allows, ends in a database error.\<close>

lemma return_step_cancelled:
  assumes "s \<in> {ReturnStatus_REQUESTED, ReturnStatus_PICKUP_SCHEDULED, ReturnStatus_IN_TRANSIT_RETURN}"
  shows "return_step sr s ''cancelled'' = Inl DataError"
  using assms by (auto simp: return_step_def no_return_status_cancelled)

lemma put_return_rows:
  assumes "put_return env ret st sh d = (d', r)"
  shows "return_orders d' = update_where (\<lambda>x. pk x = pk ret) (set_return env st sh) (return_orders d)"
    "rt_status r = st" "rt_shipment_status r = sh" "pk r = pk ret" "rt_return_no r = rt_return_no ret"
  using assms by (auto simp: put_return_def set_return_def)

text \<open>
  No operation sets the shipment status to \<open>in_transit_return\<close>. It is therefore \<open>pending\<close> until the
  return is inspected or cancelled, and marking it as received always fails.
\<close>

definition return_ok :: "return_order \<Rightarrow> bool" where
  "return_ok r =
     ((rt_shipment_status r = ReturnShipmentStatus_PENDING \<or>
       rt_shipment_status r = ReturnShipmentStatus_RETURNED_TO_WAREHOUSE \<and>
         (rt_status r = ReturnStatus_REFUNDED \<or> rt_status r = ReturnStatus_CLOSED)))"

definition returns_inv :: "'a tms_db_scheme \<Rightarrow> bool" where
  "returns_inv d = ((\<forall>r\<in>set (return_orders d). return_ok r) \<and> distinct (map rt_return_no (return_orders d)))"

inductive return_db_step :: "'a tms_db_scheme \<Rightarrow> 'a tms_db_scheme \<Rightarrow> bool" where
  created: "create_return_order env data d = Inr (d', r) \<Longrightarrow> return_db_step d d'"
| updated: "update_return_status sr env i t d = Inr (d', r) \<Longrightarrow> return_db_step d d'"
| received: "mark_shipment_received env i d = Inr (d', r) \<Longrightarrow> return_db_step d d'"
| inspected: "mark_return_inspected env i b d = Inr (d', r) \<Longrightarrow> return_db_step d d'"
| cancelled: "cancel_return_order env i d = Inr (d', r) \<Longrightarrow> return_db_step d d'"
| other: "return_orders d' = return_orders d \<Longrightarrow> return_db_step d d'"

inductive returns_reachable :: "'a tms_db_scheme \<Rightarrow> bool" where
  start: "return_orders d = [] \<Longrightarrow> returns_reachable d"
| step: "returns_reachable d \<Longrightarrow> return_db_step d d' \<Longrightarrow> returns_reachable d'"

lemma find_return_ok:
  assumes "find_return i d = Inr ret" "returns_inv d"
  shows "return_ok ret" "ret \<in> set (return_orders d)"
  using find_by_id_InrD(2)[OF assms(1)[unfolded find_return_def]] assms(2) by (auto simp: returns_inv_def)

lemma mark_shipment_received_fails:
  assumes "find_return i d = Inr ret" "return_ok ret"
  shows "\<exists>e. mark_shipment_received env i d = Inl e \<and> is_validation e"
  using assms by (auto simp: mark_shipment_received_def return_ok_def)

lemma put_return_inv:
  assumes "put_return env ret st sh d = (d', r)" "returns_inv d" "find_return i d = Inr ret"
    and "return_ok (set_return env st sh ret)"
  shows "returns_inv d'"
proof -
  have d': "return_orders d' = update_where (\<lambda>x. pk x = pk ret) (set_return env st sh) (return_orders d)"
    using put_return_rows(1)[OF assms(1)] .
  have "return_ok (set_return env st sh x)" for x
    using assms(4) by (simp add: return_ok_def set_return_def)
  with assms(2) have "\<forall>x\<in>set (return_orders d'). return_ok x"
    unfolding d' by (intro update_where_all) (auto simp: returns_inv_def)
  moreover have "map rt_return_no (return_orders d') = map rt_return_no (return_orders d)"
    by (simp add: d' set_return_def)
  ultimately show ?thesis using assms(2) by (simp add: returns_inv_def)
qed

lemma return_db_step_inv:
  assumes "return_db_step d d'" "returns_inv d"
  shows "returns_inv d'"
  using assms(1)
proof (cases rule: return_db_step.cases)
  case (created env data r)
  then have d': "return_orders d' = return_orders d @ [r]" and r: "return_ok r" "rt_return_no r \<notin> rt_return_no ` set (return_orders d)"
    by (auto simp: create_return_order_def Let_def tick_def insert_row_def return_ok_def)
  with assms(2) show ?thesis by (auto simp: returns_inv_def)
next
  case (updated sr env i t r)
  then obtain ret st where f: "find_return i d = Inr ret" and s: "return_step sr (rt_status ret) t = Inr st"
    and p: "put_return env ret st (rt_shipment_status ret) d = (d', r)" by (auto simp: update_return_status_def)
  have "return_rank st < return_rank (rt_status ret)" using return_step_ok(3)[OF s] .
  with find_return_ok(1)[OF f assms(2)] have "return_ok (set_return env st (rt_shipment_status ret) ret)"
    by (auto simp: return_ok_def set_return_def)
  from put_return_inv[OF p assms(2) f this] show ?thesis .
next
  case (received env i r)
  then obtain ret where f: "find_return i d = Inr ret" by (auto simp: mark_shipment_received_def)
  from mark_shipment_received_fails[OF f find_return_ok(1)[OF f assms(2)], of env] received show ?thesis by simp
next
  case (inspected env i b r)
  then obtain ret where f: "find_return i d = Inr ret"
    and p: "put_return env ret (if b then ReturnStatus_REFUNDED else ReturnStatus_CLOSED)
              ReturnShipmentStatus_RETURNED_TO_WAREHOUSE d = (d', r)" by (auto simp: mark_return_inspected_def)
  show ?thesis by (rule put_return_inv[OF p assms(2) f]) (simp add: return_ok_def set_return_def)
next
  case (cancelled env i r)
  then obtain ret where f: "find_return i d = Inr ret"
    and p: "put_return env ret ReturnStatus_CLOSED ReturnShipmentStatus_RETURNED_TO_WAREHOUSE d = (d', r)"
    by (auto simp: cancel_return_order_def)
  show ?thesis by (rule put_return_inv[OF p assms(2) f]) (simp add: return_ok_def set_return_def)
next
  case other
  with assms(2) show ?thesis by (simp add: returns_inv_def)
qed

lemma returns_reachable_inv: "returns_reachable d \<Longrightarrow> returns_inv d"
proof (induction rule: returns_reachable.induct)
  case (start d)
  then show ?case by (simp add: returns_inv_def)
next
  case (step d d')
  then show ?case using return_db_step_inv by blast
qed

text \<open>Every operation that changes a return brings it closer to its end.\<close>

lemma update_return_status_rank:
  assumes "update_return_status sr env i t d = Inr (d', r)" "find_return i d = Inr ret"
  shows "return_rank (rt_status r) < return_rank (rt_status ret)" "return_status_value (rt_status r) = t"
proof -
  from assms obtain st where s: "return_step sr (rt_status ret) t = Inr st"
    and p: "put_return env ret st (rt_shipment_status ret) d = (d', r)" by (auto simp: update_return_status_def)
  from return_step_ok[OF s] put_return_rows(2)[OF p]
  show "return_rank (rt_status r) < return_rank (rt_status ret)" "return_status_value (rt_status r) = t" by auto
qed

lemma mark_return_inspected_rank:
  assumes "mark_return_inspected env i b d = Inr (d', r)" "find_return i d = Inr ret"
  shows "return_rank (rt_status r) < return_rank (rt_status ret)"
    "rt_status r = (if b then ReturnStatus_REFUNDED else ReturnStatus_CLOSED)"
proof -
  from assms have g: "rt_status ret \<in> {ReturnStatus_RETURNED_TO_WAREHOUSE, ReturnStatus_IN_TRANSIT_RETURN}"
    and p: "put_return env ret (if b then ReturnStatus_REFUNDED else ReturnStatus_CLOSED)
              ReturnShipmentStatus_RETURNED_TO_WAREHOUSE d = (d', r)"
    by (auto simp: mark_return_inspected_def)
  show st: "rt_status r = (if b then ReturnStatus_REFUNDED else ReturnStatus_CLOSED)" using put_return_rows(2)[OF p] .
  show "return_rank (rt_status r) < return_rank (rt_status ret)" using g by (auto simp: st)
qed

lemma cancel_return_order_rank:
  assumes "cancel_return_order env i d = Inr (d', r)" "find_return i d = Inr ret"
  shows "return_rank (rt_status r) < return_rank (rt_status ret)" "rt_status r = ReturnStatus_CLOSED"
proof -
  from assms have g: "rt_status ret \<in> {ReturnStatus_REQUESTED, ReturnStatus_PICKUP_SCHEDULED}"
    and p: "put_return env ret ReturnStatus_CLOSED ReturnShipmentStatus_RETURNED_TO_WAREHOUSE d = (d', r)"
    by (auto simp: cancel_return_order_def)
  show st: "rt_status r = ReturnStatus_CLOSED" using put_return_rows(2)[OF p] .
  show "return_rank (rt_status r) < return_rank (rt_status ret)" using g by (auto simp: st)
qed

section \<open>Runs of requests on returns\<close>

datatype return_request = UpdateReturn "string list \<Rightarrow> string" string | ReceiveReturn | InspectReturn bool | CancelReturn

fun serve_return ::
  "env \<Rightarrow> string \<Rightarrow> return_request \<Rightarrow> 'a tms_db_scheme \<Rightarrow> ('a tms_db_scheme \<times> return_order) result" where
  "serve_return env i (UpdateReturn set_repr target) d = update_return_status set_repr env i target d"
| "serve_return env i ReceiveReturn d = mark_shipment_received env i d"
| "serve_return env i (InspectReturn accept) d = mark_return_inspected env i accept d"
| "serve_return env i CancelReturn d = cancel_return_order env i d"

text \<open>Requests on any returns, one after the other, with the keys of the returns that were changed.\<close>

fun serve_returns ::
  "(env \<times> string \<times> return_request) list \<Rightarrow> 'a tms_db_scheme \<Rightarrow> 'a tms_db_scheme \<times> uuid list" where
  "serve_returns [] d = (d, [])"
| "serve_returns ((env, i, q) # qs) d =
     (case serve_return env i q d of
        Inl e \<Rightarrow> serve_returns qs d
      | Inr (d1, r) \<Rightarrow> (case serve_returns qs d1 of (d', changed) \<Rightarrow> (d', pk r # changed)))"

lemma return_rank_bound: "return_rank s \<le> 4"
  by (cases s) simp_all

lemma scheduled_column: "enum_column return_status_value return_statuss ''pickup_scheduled'' = Inr ReturnStatus_PICKUP_SCHEDULED"
  by code_simp

lemma serve_returnE:
  assumes "serve_return env i q d = Inr (d', r)" "returns_inv d"
  obtains ret st sh where "find_return i d = Inr ret" "put_return env ret st sh d = (d', r)"
    "return_rank st < return_rank (rt_status ret)"
proof (cases q)
  case (UpdateReturn sr t)
  with assms obtain ret st where f: "find_return i d = Inr ret" and p: "put_return env ret st (rt_shipment_status ret) d = (d', r)"
    by (auto simp: update_return_status_def)
  from assms(1) UpdateReturn have "update_return_status sr env i t d = Inr (d', r)" by simp
  from update_return_status_rank(1)[OF this f] put_return_rows(2)[OF p] that[OF f p] show thesis by simp
next
  case ReceiveReturn
  with assms obtain ret where f: "find_return i d = Inr ret" by (auto simp: mark_shipment_received_def)
  from mark_shipment_received_fails[OF f find_return_ok(1)[OF f assms(2)], of env] ReceiveReturn assms(1)
  show thesis by simp
next
  case (InspectReturn b)
  with assms obtain ret where f: "find_return i d = Inr ret"
    and p: "put_return env ret (if b then ReturnStatus_REFUNDED else ReturnStatus_CLOSED)
              ReturnShipmentStatus_RETURNED_TO_WAREHOUSE d = (d', r)" by (auto simp: mark_return_inspected_def)
  from assms(1) InspectReturn have "mark_return_inspected env i b d = Inr (d', r)" by simp
  from mark_return_inspected_rank(1)[OF this f] put_return_rows(2)[OF p] that[OF f p] show thesis by simp
next
  case CancelReturn
  with assms obtain ret where f: "find_return i d = Inr ret"
    and p: "put_return env ret ReturnStatus_CLOSED ReturnShipmentStatus_RETURNED_TO_WAREHOUSE d = (d', r)"
    by (auto simp: cancel_return_order_def)
  from assms(1) CancelReturn have "cancel_return_order env i d = Inr (d', r)" by simp
  from cancel_return_order_rank(1)[OF this f] put_return_rows(2)[OF p] that[OF f p] show thesis by simp
qed

lemma serve_return_step: "serve_return env i q d = Inr (d', r) \<Longrightarrow> return_db_step d d'"
  by (cases q) (auto intro: return_db_step.intros)

lemma set_return_pk [simp]: "pk (set_return env st sh r) = pk r" "rt_status (set_return env st sh r) = st"
  by (simp_all add: set_return_def)

text \<open>What a change of one return leaves to be found.\<close>

lemma find_return_put:
  assumes "find_return i d = Inr ret" "put_return env ret2 st sh d = (d', r)"
  shows "find_return i d' = Inr (if pk ret2 = pk ret then set_return env st sh ret else ret)"
proof -
  from find_by_id_InrD[OF assms(1)[unfolded find_return_def]]
  have f: "safe_uuid i = Some (pk ret)" "find_one (\<lambda>x. pk x = pk ret) (return_orders d) = Inr (Some ret)" by auto
  let ?t = "update_where (\<lambda>x. pk x = pk ret2) (set_return env st sh) (return_orders d)"
  have "find_one (\<lambda>x. pk x = pk ret) ?t = Inr (Some (if pk ret2 = pk ret then set_return env st sh ret else ret))"
  proof (cases "pk ret2 = pk ret")
    case True
    with find_one_update_where[OF f(2), of "set_return env st sh"] show ?thesis by simp
  next
    case False
    then have "filter (\<lambda>x. pk x = pk ret) ?t = filter (\<lambda>x. pk x = pk ret) (return_orders d)"
      by (intro filter_update_where_other) auto
    with f(2) False show ?thesis by (simp add: find_one_Some_iff)
  qed
  with f(1) put_return_rows(1)[OF assms(2)] show ?thesis by (simp add: find_return_def find_by_id_def)
qed

lemma find_return_same:
  assumes "find_return i d = Inr ret" "find_return j d = Inr ret2" "pk ret2 = pk ret"
  shows "ret2 = ret"
  using find_by_id_InrD(3)[OF assms(1)[unfolded find_return_def]] find_by_id_InrD(3)[OF assms(2)[unfolded find_return_def]]
    assms(3) by simp

lemma serve_returns_rank:
  assumes "returns_inv d" "find_return i d = Inr ret" "serve_returns qs d = (d', changed)"
  shows "\<exists>ret'. find_return i d' = Inr ret' \<and> pk ret' = pk ret \<and>
    count_list changed (pk ret) + return_rank (rt_status ret') \<le> return_rank (rt_status ret)"
  using assms
proof (induction qs arbitrary: d ret changed)
  case (Cons x qs)
  obtain env j q where x: "x = (env, j, q)" by (cases x) auto
  show ?case
  proof (cases "serve_return env j q d")
    case (Inl e)
    with Cons x show ?thesis by simp
  next
    case (Inr p)
    obtain d1 r where p: "p = (d1, r)" by force
    with Inr have s: "serve_return env j q d = Inr (d1, r)" by simp
    from serve_returnE[OF s Cons.prems(1)] obtain ret2 st sh where
      f2: "find_return j d = Inr ret2" and put: "put_return env ret2 st sh d = (d1, r)"
      and rank: "return_rank st < return_rank (rt_status ret2)" .
    from Cons.prems(3) x s obtain c where c: "serve_returns qs d1 = (d', c)" "changed = pk r # c"
      by (auto split: prod.splits)
    have inv: "returns_inv d1" using return_db_step_inv[OF serve_return_step[OF s] Cons.prems(1)] .
    note f1 = find_return_put[OF Cons.prems(2) put]
    have r: "pk r = pk ret2" using put_return_rows(4)[OF put] .
    show ?thesis
    proof (cases "pk ret2 = pk ret")
      case True
      then have same: "ret2 = ret" using find_return_same[OF Cons.prems(2) f2] by simp
      from Cons.IH[OF inv _ c(1), of "set_return env st sh ret"] f1 True obtain ret' where
        "find_return i d' = Inr ret'" "pk ret' = pk ret" "count_list c (pk ret) + return_rank (rt_status ret') \<le> return_rank st"
        by auto
      with rank same c(2) r show ?thesis by auto
    next
      case False
      with Cons.IH[OF inv _ c(1), of ret] f1 c(2) r show ?thesis by auto
    qed
  qed
qed simp

end
