(* ===== verification/Float64.thy ===== *)
theory Float64
  imports Prelude
begin

text \<open>
  Python's \<open>float\<close>: IEEE 754 binary64 with round to nearest, ties to even, over exact rationals.
  \<open>round64 x\<close> is the double nearest to \<open>x\<close>; subnormal numbers and overflow are outside the range of
  the prices and weights of the program and are not modelled. \<open>round_dec\<close> is the correctly rounded
  conversion to a number of decimals that both \<open>f"{x:.2f}"\<close> and \<open>round(x, n)\<close> perform.
\<close>

section \<open>Rounding to an integer, ties to even\<close>

definition round_even :: "rat \<Rightarrow> int" where
  "round_even x =
     (let f = \<lfloor>x\<rfloor>; r = x - of_int f
      in if r < 1 / 2 then f else if 1 / 2 < r then f + 1 else if even f then f else f + 1)"

lemma round_even_error: "\<bar>of_int (round_even x) - x\<bar> \<le> 1 / 2"
proof -
  have "of_int \<lfloor>x\<rfloor> \<le> x" "x < of_int \<lfloor>x\<rfloor> + 1" by linarith+
  then show ?thesis unfolding round_even_def Let_def abs_le_iff by (auto split: if_splits) linarith+
qed

lemma round_even_int [simp]: "round_even (of_int n) = n"
  by (simp add: round_even_def)

lemma round_even_mono:
  assumes "x \<le> y"
  shows "round_even x \<le> round_even y"
proof (cases "\<lfloor>x\<rfloor> = \<lfloor>y\<rfloor>")
  case True
  with assms show ?thesis by (auto simp: round_even_def Let_def)
next
  case False
  with floor_mono[OF assms] have "\<lfloor>x\<rfloor> + 1 \<le> \<lfloor>y\<rfloor>" by linarith
  moreover have "round_even x \<le> \<lfloor>x\<rfloor> + 1" "\<lfloor>y\<rfloor> \<le> round_even y" by (auto simp: round_even_def Let_def)
  ultimately show ?thesis by linarith
qed

section \<open>Decimals\<close>

definition round_dec :: "nat \<Rightarrow> rat \<Rightarrow> rat" where
  "round_dec n x = of_int (round_even (x * 10 ^ n)) / 10 ^ n"

lemma round_dec_error: "\<bar>round_dec n x - x\<bar> \<le> 1 / (2 * 10 ^ n)"
proof -
  have "(round_dec n x - x) * 10 ^ n = of_int (round_even (x * 10 ^ n)) - x * 10 ^ n"
    by (simp add: round_dec_def left_diff_distrib)
  then have "\<bar>round_dec n x - x\<bar> * 10 ^ n = \<bar>of_int (round_even (x * 10 ^ n)) - x * 10 ^ n\<bar>"
    by (metis abs_mult abs_of_nonneg zero_le_numeral zero_le_power)
  also have "\<dots> \<le> 1 / 2" by (rule round_even_error)
  finally show ?thesis by (simp add: field_simps)
qed

lemma round_dec_mono: "x \<le> y \<Longrightarrow> round_dec n x \<le> round_dec n y"
  by (simp add: round_dec_def divide_right_mono round_even_mono mult_right_mono)

section \<open>Doubles\<close>

text \<open>The binary exponent of a positive rational: the \<open>e\<close> with \<open>2 ^ e \<le> x < 2 ^ (e + 1)\<close>.\<close>

definition pow2 :: "int \<Rightarrow> rat" where
  "pow2 e = (if 0 \<le> e then 2 ^ nat e else 1 / 2 ^ nat (- e))"

function log2_up :: "nat \<Rightarrow> rat \<Rightarrow> int" where
  "log2_up e x = (if 2 ^ Suc e \<le> x then log2_up (Suc e) x else int e)"
  by pat_completeness auto
termination
proof (relation "measure (\<lambda>(e, x). nat \<lfloor>x\<rfloor> - e)")
  fix e and x :: rat
  assume "2 ^ Suc e \<le> x"
  moreover have "rat_of_nat (Suc e) \<le> 2 ^ Suc e"
    using less_exp[of "Suc e"] by (metis less_imp_le of_nat_le_iff of_nat_numeral of_nat_power)
  ultimately have "of_nat (Suc e) \<le> x" by linarith
  then have "int (Suc e) \<le> \<lfloor>x\<rfloor>" by (simp add: le_floor_iff)
  then show "((Suc e, x), (e, x)) \<in> measure (\<lambda>(e, x). nat \<lfloor>x\<rfloor> - e)" by auto
qed simp

declare log2_up.simps [simp del]

lemma log2_up_spec: "2 ^ e \<le> x \<Longrightarrow> pow2 (log2_up e x) \<le> x \<and> x < 2 * pow2 (log2_up e x)"
proof (induction e x rule: log2_up.induct)
  case (1 e x)
  show ?case
  proof (cases "2 ^ Suc e \<le> x")
    case True
    with 1 show ?thesis by (subst (1 2) log2_up.simps) simp
  next
    case False
    with 1(2) show ?thesis by (subst (1 2) log2_up.simps) (simp add: pow2_def)
  qed
qed

text \<open>For \<open>x < 1\<close> the exponent is that of the reciprocal, negated.\<close>

definition exponent2 :: "rat \<Rightarrow> int" where
  "exponent2 x =
     (if 1 \<le> x then log2_up 0 x
      else let k = log2_up 0 (1 / x) in if pow2 k = 1 / x then - k else - k - 1)"

lemma pow2_pos [simp]: "0 < pow2 e"
  by (simp add: pow2_def)

lemma pow2_add: "pow2 (a + b) = pow2 a * pow2 b"
proof -
  have "pow2 e = (2::rat) powi e" for e by (simp add: pow2_def power_int_def field_simps)
  then show ?thesis by (simp add: power_int_add)
qed

lemma pow2_minus: "pow2 (- e) = 1 / pow2 e"
  by (simp add: pow2_def)

lemma pow2_1 [simp]: "pow2 1 = 2"
  by (simp add: pow2_def)

lemma exponent2_spec:
  assumes "0 < x"
  shows "pow2 (exponent2 x) \<le> x \<and> x < 2 * pow2 (exponent2 x)"
proof (cases "1 \<le> x")
  case True
  then show ?thesis using log2_up_spec[of 0 x] by (simp add: exponent2_def)
next
  case False
  define k where "k = log2_up 0 (1 / x)"
  have k: "pow2 k \<le> 1 / x" "1 / x < 2 * pow2 k"
    using log2_up_spec[of 0 "1 / x"] assms False by (auto simp: k_def field_simps)
  show ?thesis
  proof (cases "pow2 k = 1 / x")
    case True
    then have "pow2 (- k) = x" by (simp add: pow2_minus)
    with True False assms show ?thesis by (simp add: exponent2_def k_def[symmetric])
  next
    case ne: False
    with k(1) have lt: "pow2 k < 1 / x" by simp
    have "pow2 (- k - 1) = 1 / (2 * pow2 k)"
      using pow2_add[of "- k" "- 1"] pow2_minus[of 1] by (simp add: pow2_minus)
    moreover have "1 / (2 * pow2 k) \<le> x" using k(2) assms by (simp add: field_simps)
    moreover have "x < 1 / pow2 k" using lt assms by (simp add: field_simps)
    ultimately show ?thesis using ne False by (simp add: exponent2_def Let_def k_def[symmetric])
  qed
qed

text \<open>One unit in the last of the 53 binary places of \<open>x\<close>.\<close>

definition ulp :: "rat \<Rightarrow> rat" where
  "ulp x = pow2 (exponent2 \<bar>x\<bar> - 52)"

definition round64 :: "rat \<Rightarrow> rat" where
  "round64 x = (if x = 0 then 0 else of_int (round_even (x / ulp x)) * ulp x)"

lemma ulp_pos [simp]: "0 < ulp x"
  by (simp add: ulp_def)

lemma ulp_bound:
  assumes "x \<noteq> 0"
  shows "ulp x \<le> \<bar>x\<bar> / 2 ^ 52"
proof -
  have "pow2 (exponent2 \<bar>x\<bar>) = ulp x * 2 ^ 52"
    using pow2_add[of "exponent2 \<bar>x\<bar> - 52" 52] by (simp add: ulp_def pow2_def)
  moreover have "pow2 (exponent2 \<bar>x\<bar>) \<le> \<bar>x\<bar>" using exponent2_spec[of "\<bar>x\<bar>"] assms by simp
  ultimately show ?thesis by (simp add: field_simps)
qed

text \<open>The relative error of one operation is at most \<open>2 ^ -53\<close>.\<close>

lemma round64_error: "\<bar>round64 x - x\<bar> \<le> \<bar>x\<bar> / 2 ^ 53"
proof (cases "x = 0")
  case False
  have "\<bar>round64 x - x\<bar> = \<bar>of_int (round_even (x / ulp x)) - x / ulp x\<bar> * ulp x"
  proof -
    have "(of_int (round_even (x / ulp x)) - x / ulp x) * ulp x = round64 x - x"
      using False less_imp_neq[OF ulp_pos[of x]] by (simp add: round64_def left_diff_distrib)
    then show ?thesis by (metis abs_mult abs_of_pos ulp_pos)
  qed
  also have "\<dots> \<le> 1 / 2 * ulp x" by (intro mult_right_mono round_even_error less_imp_le ulp_pos)
  also have "\<dots> \<le> \<bar>x\<bar> / 2 ^ 53" using ulp_bound[OF False] by (simp add: field_simps)
  finally show ?thesis .
qed (simp add: round64_def)

lemma round64_0 [simp]: "round64 0 = 0"
  by (simp add: round64_def)

lemma round64_nonneg: "0 \<le> x \<Longrightarrow> 0 \<le> round64 x"
proof -
  assume x: "0 \<le> x"
  then have "\<bar>round64 x - x\<bar> \<le> x" using round64_error[of x] by (simp add: field_simps)
  then show ?thesis by simp
qed

text \<open>A rational that needs at most 53 binary places is a double.\<close>

lemma round64_exact:
  assumes "x = of_int m * ulp x"
  shows "round64 x = x"
proof (cases "x = 0")
  case False
  have "x / ulp x = of_int m" using assms ulp_pos[of x] by (metis less_irrefl nonzero_mult_div_cancel_right)
  then have "round64 x = of_int m * ulp x" using False by (simp add: round64_def)
  with assms show ?thesis by simp
qed simp

definition fmul :: "rat \<Rightarrow> rat \<Rightarrow> rat" where
  "fmul a b = round64 (a * b)"

definition fadd :: "rat \<Rightarrow> rat \<Rightarrow> rat" where
  "fadd a b = round64 (a + b)"

definition fdiv :: "rat \<Rightarrow> rat \<Rightarrow> rat" where
  "fdiv a b = round64 (a / b)"

text \<open>\<open>round(x, n)\<close> gives the double nearest to the decimal.\<close>

definition fround :: "nat \<Rightarrow> rat \<Rightarrow> rat" where
  "fround n x = round64 (round_dec n x)"

text \<open>The error of \<open>float(a) * float(b)\<close> against the exact product, for factors that are not negative.\<close>

lemma fmul_float_error:
  assumes "0 \<le> a" "0 \<le> b"
  shows "\<bar>fmul (round64 a) (round64 b) - a * b\<bar> \<le> a * b / 2 ^ 51"
proof -
  define u where "u = (1 / 2 ^ 53 :: rat)"
  define a' b' where "a' = round64 a" and "b' = round64 b"
  have u: "0 < u" "u \<le> 1 / 16" by (simp_all add: u_def)
  have a': "\<bar>a' - a\<bar> \<le> a * u" "\<bar>b' - b\<bar> \<le> b * u" "0 \<le> a'" "0 \<le> b'"
    using round64_error[of a] round64_error[of b] round64_nonneg assms by (simp_all add: a'_def b'_def u_def)
  have up: "a' \<le> a * (1 + u)" "b' \<le> b * (1 + u)" "a * (1 - u) \<le> a'" "b * (1 - u) \<le> b'"
    using a'(1,2) by (auto simp: abs_le_iff algebra_simps)
  have hi: "a' * b' \<le> (a * b) * ((1 + u) * (1 + u))"
    using mult_mono[OF up(1,2)] a' assms u by (simp add: algebra_simps)
  have lo: "(a * b) * ((1 - u) * (1 - u)) \<le> a' * b'"
  proof -
    have "(a * (1 - u)) * (b * (1 - u)) \<le> a' * b'" using mult_mono[OF up(3,4)] a' assms u by simp
    then show ?thesis by (simp only: ac_simps)
  qed
  have r: "\<bar>fmul a' b' - a' * b'\<bar> \<le> (a' * b') * u"
    using round64_error[of "a' * b'"] a'(3,4) by (simp add: fmul_def u_def)
  have ab: "0 \<le> a * b" using assms by simp
  have "fmul a' b' \<le> (a' * b') * (1 + u)" using r by (simp add: abs_le_iff algebra_simps)
  also have "\<dots> \<le> (a * b) * ((1 + u) * (1 + u)) * (1 + u)" using hi u by (intro mult_right_mono) simp_all
  also have "\<dots> = (a * b) * ((1 + u) * (1 + u) * (1 + u))" by (simp add: mult.assoc)
  also have "\<dots> \<le> (a * b) * (1 + 4 * u)"
  proof (rule mult_left_mono[OF _ ab])
    have "3 * u * u + u * u * u \<le> u"
    proof -
      have "u * u \<le> u * (1 / 16)" using u by (intro mult_left_mono) simp_all
      moreover have "u * u * u \<le> u * (1 / 16) * 1" using u calculation by (intro mult_mono) simp_all
      ultimately show ?thesis using u by linarith
    qed
    then show "(1 + u) * (1 + u) * (1 + u) \<le> 1 + 4 * u" by (simp add: algebra_simps)
  qed
  finally have top: "fmul a' b' \<le> a * b + a * b * (4 * u)" by (simp add: algebra_simps)
  have "(a * b) * (1 - 4 * u) \<le> (a * b) * ((1 - u) * (1 - u) * (1 - u))"
  proof (rule mult_left_mono[OF _ ab])
    have "u * u * u \<le> 3 * u * u + u" using u by (simp add: mult_left_le_one_le mult_le_one add_increasing)
    then show "1 - 4 * u \<le> (1 - u) * (1 - u) * (1 - u)" by (simp add: algebra_simps)
  qed
  also have "\<dots> \<le> (a' * b') * (1 - u)" using lo u by (simp add: mult.assoc[symmetric] mult_right_mono)
  also have "\<dots> \<le> fmul a' b'" using r by (simp add: abs_le_iff algebra_simps)
  finally have bot: "a * b - a * b * (4 * u) \<le> fmul a' b'" by (simp add: algebra_simps)
  have "4 * u = 1 / 2 ^ 51" by (simp add: u_def)
  with top bot have "fmul a' b' - a * b \<le> a * b / 2 ^ 51" "- (fmul a' b' - a * b) \<le> a * b / 2 ^ 51"
    by simp_all
  then show ?thesis unfolding abs_le_iff a'_def b'_def by blast
qed

section \<open>Rounding is monotone and idempotent\<close>

lemma pow2_less_iff: "pow2 a < pow2 b \<longleftrightarrow> a < b"
proof -
  have lt: "pow2 a < pow2 b" if "a < b" for a b
  proof -
    have "1 < pow2 (b - a)" using that by (simp add: pow2_def one_less_power)
    then have "pow2 a * 1 < pow2 a * pow2 (b - a)" by (intro mult_strict_left_mono) simp_all
    then show ?thesis using pow2_add[of a "b - a"] by simp
  qed
  then show ?thesis by (metis less_asym linorder_neqE less_irrefl)
qed

lemma pow2_le_iff: "pow2 a \<le> pow2 b \<longleftrightarrow> a \<le> b"
  using pow2_less_iff[of b a] by (simp add: not_less[symmetric])

lemma exponent2_unique:
  assumes "pow2 e \<le> x" "x < 2 * pow2 e"
  shows "exponent2 x = e"
proof -
  have "0 < x" using assms(1) pow2_pos[of e] by linarith
  from exponent2_spec[OF this] assms have "pow2 e < pow2 (exponent2 x + 1)" "pow2 (exponent2 x) < pow2 (e + 1)"
    by (simp_all add: pow2_add)
  then show ?thesis by (simp add: pow2_less_iff)
qed

lemma ulp_scale: "pow2 (exponent2 \<bar>x\<bar>) = 2 ^ 52 * ulp x"
  using pow2_add[of "exponent2 \<bar>x\<bar> - 52" 52] by (simp add: ulp_def pow2_def)

text \<open>The significand of a positive number lies between \<open>2 ^ 52\<close> and \<open>2 ^ 53\<close>.\<close>

lemma significand:
  assumes "0 < x"
  shows "2 ^ 52 \<le> round_even (x / ulp x)" "round_even (x / ulp x) \<le> 2 ^ 53"
proof -
  have "of_int (2 ^ 52) \<le> x / ulp x" "x / ulp x \<le> of_int (2 ^ 53)"
    using exponent2_spec[OF assms] ulp_scale[of x] assms by (simp_all add: field_simps)
  from round_even_mono[OF this(1)] round_even_mono[OF this(2)]
  show "2 ^ 52 \<le> round_even (x / ulp x)" "round_even (x / ulp x) \<le> 2 ^ 53" by (simp_all only: round_even_int)
qed

lemma round64_between:
  assumes "0 < x"
  shows "pow2 (exponent2 x) \<le> round64 x" "round64 x \<le> 2 * pow2 (exponent2 x)"
proof -
  have "of_int (2 ^ 52) * ulp x \<le> of_int (round_even (x / ulp x)) * ulp x"
    "of_int (round_even (x / ulp x)) * ulp x \<le> of_int (2 ^ 53) * ulp x"
    using significand[OF assms] by (intro mult_right_mono less_imp_le[OF ulp_pos]; simp only: of_int_le_iff)+
  then show "pow2 (exponent2 x) \<le> round64 x" "round64 x \<le> 2 * pow2 (exponent2 x)"
    using assms ulp_scale[of x] by (simp_all add: round64_def)
qed

lemma round64_pos: "0 < x \<Longrightarrow> 0 < round64 x"
  using round64_between(1)[of x] pow2_pos[of "exponent2 x"] by linarith

lemma round64_mono:
  assumes "0 \<le> x" "x \<le> y"
  shows "round64 x \<le> round64 y"
proof (cases "x = 0")
  case True
  then show ?thesis using assms round64_nonneg by simp
next
  case False
  with assms have x: "0 < x" and y: "0 < y" by simp_all
  have "pow2 (exponent2 x) < pow2 (exponent2 y + 1)"
    using exponent2_spec[OF x] exponent2_spec[OF y] assms(2) by (simp add: pow2_add)
  then have le: "exponent2 x \<le> exponent2 y" by (simp add: pow2_less_iff)
  show ?thesis
  proof (cases "exponent2 x = exponent2 y")
    case True
    then have u: "ulp x = ulp y" using x y by (simp add: ulp_def)
    have "x / ulp y \<le> y / ulp y" using assms(2) by (simp add: divide_right_mono less_imp_le)
    then have "of_int (round_even (x / ulp y)) * ulp y \<le> of_int (round_even (y / ulp y)) * ulp y"
      by (intro mult_right_mono less_imp_le[OF ulp_pos]) (simp only: of_int_le_iff round_even_mono)
    then show ?thesis using x y u by (simp add: round64_def)
  next
    case False
    with le have "pow2 (exponent2 x + 1) \<le> pow2 (exponent2 y)" by (simp only: pow2_le_iff)
    then show ?thesis using round64_between(2)[OF x] round64_between(1)[OF y] by (simp add: pow2_add)
  qed
qed

lemma round64_idem:
  assumes "0 \<le> x"
  shows "round64 (round64 x) = round64 x"
proof (cases "x = 0")
  case False
  with assms have x: "0 < x" by simp
  define m where "m = round_even (x / ulp x)"
  have r: "round64 x = of_int m * ulp x" using x by (simp add: round64_def m_def)
  have m: "2 ^ 52 \<le> m" "m \<le> 2 ^ 53" using significand[OF x] by (simp_all add: m_def)
  show ?thesis
  proof (cases "m = 2 ^ 53")
    case True
    then have "round64 x = 2 * pow2 (exponent2 x)" using r ulp_scale[of x] x by simp
    then have eq: "round64 x = pow2 (exponent2 x + 1)" by (simp add: pow2_add)
    then have "exponent2 (round64 x) = exponent2 x + 1" using pow2_pos[of "exponent2 x"]
      by (intro exponent2_unique) (simp_all add: pow2_add)
    then have "ulp (round64 x) * 2 ^ 52 = round64 x" using eq ulp_scale[of "round64 x"] round64_pos[OF x] by simp
    then show ?thesis by (intro round64_exact[of _ "2 ^ 52"]) (simp add: mult.commute)
  next
    case False
    with m have "m < 2 ^ 53" by simp
    then have "of_int m * ulp x < of_int (2 ^ 53) * ulp x" by (intro mult_strict_right_mono) (simp_all only: of_int_less_iff ulp_pos)
    then have "round64 x < 2 * pow2 (exponent2 x)" using r ulp_scale[of x] x by simp
    then have "exponent2 (round64 x) = exponent2 x" using round64_between(1)[OF x] by (intro exponent2_unique) simp_all
    then have "ulp (round64 x) = ulp x" using x round64_pos[OF x] by (simp add: ulp_def)
    then show ?thesis using r by (intro round64_exact[of _ m]) simp
  qed
qed simp

lemma round_even_minus: "round_even (- x) = - round_even x"
proof (cases "x = of_int \<lfloor>x\<rfloor>")
  case True
  then have "round_even x = \<lfloor>x\<rfloor>" "round_even (- x) = - \<lfloor>x\<rfloor>"
    by (metis round_even_int, metis of_int_minus round_even_int)
  then show ?thesis by simp
next
  case False
  define f r where "f = \<lfloor>x\<rfloor>" and "r = x - of_int f"
  have x: "x = of_int f + r" "0 < r" "r < 1" using False by (simp_all add: f_def r_def) linarith+
  have fl: "\<lfloor>- x\<rfloor> = - f - 1" using x by (intro floor_unique) simp_all
  have fr: "- x - of_int (- f - 1) = 1 - r" using x(1) by simp
  have "round_even (- x) = (if 1 - r < 1 / 2 then - f - 1 else if 1 / 2 < 1 - r then - f - 1 + 1
      else if even (- f - 1) then - f - 1 else - f - 1 + 1)"
    unfolding round_even_def Let_def fl fr ..
  moreover have "round_even x = (if r < 1 / 2 then f else if 1 / 2 < r then f + 1 else if even f then f else f + 1)"
    by (simp add: round_even_def Let_def f_def r_def)
  ultimately show ?thesis by auto
qed

lemma round64_minus: "round64 (- x) = - round64 x"
  by (simp add: round64_def ulp_def round_even_minus)

lemma round64_abs: "\<bar>round64 x\<bar> = round64 \<bar>x\<bar>"
  using round64_nonneg[of x] round64_nonneg[of "- x"] by (cases "0 \<le> x") (simp_all add: round64_minus abs_if)

end
