(* ===== verification/Tms_Freight.thy ===== *)
theory Tms_Freight
  imports Tms_Transport Float64
begin

text \<open>
  Freight tiers and prices of \<open>src/tms/service.py\<close> and the demand forecast of \<open>src/tms/ml/forecast.py\<close>.
  The prices go through Python floats; they are computed with the rounding of \<open>Float64\<close> and compared
  with the exact price. \<open>a ** b\<close> on floats is the C library's \<open>pow\<close> and is a parameter.
\<close>

section \<open>Tiers\<close>

record freight_tier_req =
  fq_carrier_code :: string
  fq_rule_type :: string
  fq_min_value :: "decimal option"
  fq_max_value :: "decimal option"
  fq_price_per_unit :: decimal
  fq_surcharge_express :: "decimal option"

definition create_freight_tier ::
  "env \<Rightarrow> freight_tier_req \<Rightarrow> 'a tms_db_scheme \<Rightarrow> ('a tms_db_scheme \<times> freight_tier) result" where
  "create_freight_tier env data d =
     bindE (enum_of carrier_code_value carrier_codes (fq_carrier_code data)) (\<lambda>cc.
     bindE (enum_column freight_rule_value freight_rules (fq_rule_type data)) (\<lambda>rule.
     let tier = \<lparr>pk = new_uuid env d, created_at = now env, updated_at = now env, ft_carrier_code = cc,
                  ft_rule_type = rule, ft_min_value = get_default 0 (fq_min_value data),
                  ft_max_value = (if fq_max_value data = Some 0 then None else fq_max_value data),
                  ft_price_per_unit = fq_price_per_unit data,
                  ft_surcharge_express = get_default 0 (fq_surcharge_express data)\<rparr>
     in Inr ((tick d)\<lparr>freight_tiers := insert_row tier (freight_tiers d)\<rparr>, tier)))"

section \<open>The price of a shipment\<close>

record freight_query =
  gq_carrier :: string
  gq_weight :: "decimal option"
  gq_express :: bool

record freight_view =
  fv_carrier_code :: carrier_code
  fv_weight_kg :: decimal
  fv_total_freight_yuan :: decimal
  fv_rule_type :: freight_rule
  fv_tier_min_value :: decimal
  fv_tier_max_value :: "decimal option"

definition tier_covers :: "decimal \<Rightarrow> freight_tier \<Rightarrow> bool" where
  "tier_covers w t = (ft_min_value t \<le> w \<and> (case ft_max_value t of None \<Rightarrow> True | Some m \<Rightarrow> w \<le> m))"

definition tier_price :: "freight_tier \<Rightarrow> decimal \<Rightarrow> bool \<Rightarrow> decimal" where
  "tier_price t w express =
     (let base = fmul (round64 (ft_price_per_unit t)) (round64 w)
      in round_dec 2 (if express then fadd base (round64 (ft_surcharge_express t)) else base))"

definition calculate_freight :: "freight_query \<Rightarrow> 'a tms_db_scheme \<Rightarrow> freight_view result" where
  "calculate_freight q d =
     bindE (enum_of carrier_code_value carrier_codes (gq_carrier q)) (\<lambda>cc.
     let w = get_default 1 (gq_weight q)
     in bindE (of_option (validation ''No matching freight tier found'')
          (find (tier_covers w) (select_where (\<lambda>t. ft_carrier_code t = cc) (freight_tiers d)))) (\<lambda>t.
        Inr \<lparr>fv_carrier_code = cc, fv_weight_kg = w, fv_total_freight_yuan = tier_price t w (gq_express q),
             fv_rule_type = ft_rule_type t, fv_tier_min_value = ft_min_value t,
             fv_tier_max_value = (if ft_max_value t = Some 0 then None else ft_max_value t)\<rparr>))"

definition base_rate :: "string \<Rightarrow> rat" where
  "base_rate carrier =
     (if carrier = ''sf_express'' then 17 / 2 else if carrier = ''yunda'' then 6
      else if carrier = ''zto'' then 7 else if carrier = ''ems'' then 9 else 7)"

definition service_multiplier :: "string \<Rightarrow> rat" where
  "service_multiplier st =
     (if st = ''express'' then round64 (13 / 10) else if st = ''overnight'' then 2
      else if st = ''freight'' then 3 / 2 else 1)"

record freight_estimate =
  fe_carrier_code :: string
  fe_estimated_cost :: rat

definition estimate_freight_sync :: "string option \<Rightarrow> string \<Rightarrow> rat \<Rightarrow> rat \<Rightarrow> freight_estimate" where
  "estimate_freight_sync carrier service_type distance_km weight_kg =
     \<lparr>fe_carrier_code = get_default [] carrier,
      fe_estimated_cost = fround 2 (fadd (fmul (base_rate (get_default [] carrier)) (fdiv distance_km 100))
                                         (fmul (fmul weight_kg (1 / 2)) (service_multiplier service_type)))\<rparr>"

record freight_estimate_days = freight_estimate +
  fe_transit_days :: int

definition estimate_freight :: "string option \<Rightarrow> string \<Rightarrow> rat \<Rightarrow> rat \<Rightarrow> freight_estimate_days" where
  "estimate_freight carrier service_type distance_km weight_kg =
     freight_estimate.extend (estimate_freight_sync carrier service_type distance_km weight_kg)
       (freight_estimate_days.fields 2)"

section \<open>Facts about prices\<close>

lemma fadd_float_error:
  assumes "0 \<le> x" "0 \<le> s" "0 \<le> e" "\<bar>x - e\<bar> \<le> e / 2 ^ 51"
  shows "\<bar>fadd x (round64 s) - (e + s)\<bar> \<le> (e + s) / 2 ^ 50"
proof -
  define u where "u = (1 / 2 ^ 53 :: rat)"
  have u: "0 < u" "u \<le> 1 / 16" "4 * u = 1 / 2 ^ 51" "8 * u = 1 / 2 ^ 50" by (simp_all add: u_def)
  define y where "y = round64 s"
  have y: "\<bar>y - s\<bar> \<le> s * u" "0 \<le> y"
    using round64_error[of s] assms(2) round64_nonneg[of s] by (simp_all add: y_def u_def)
  have r: "\<bar>fadd x y - (x + y)\<bar> \<le> (x + y) * u"
    using round64_error[of "x + y"] assms(1) y(2) by (simp add: fadd_def u_def)
  have x: "\<bar>x - e\<bar> \<le> e * (4 * u)" using assms(4) by (simp add: u(3))
  have "x + y \<le> 2 * (e + s)"
  proof -
    have "e * (4 * u) \<le> e * 1" using assms(3) u(2) by (intro mult_left_mono) linarith+
    moreover have "s * u \<le> s * 1" using assms(2) u(2) by (intro mult_left_mono) linarith+
    moreover note x y(1)
    ultimately have "x + y \<le> e + e + s + s" unfolding abs_le_iff by linarith
    then show ?thesis by simp
  qed
  then have "(x + y) * u \<le> 2 * (e + s) * u" using u(1) by (intro mult_right_mono) simp_all
  moreover have "s * u \<le> s * (4 * u)" using assms(2) u(1) by (intro mult_left_mono) simp_all
  ultimately have "\<bar>fadd x y - (e + s)\<bar> \<le> e * (4 * u) + s * (4 * u) + 2 * (e + s) * u"
    using r x y(1) by linarith
  also have "\<dots> \<le> (e + s) * (8 * u)" using assms(2,3) u(1) by (simp add: algebra_simps)
  finally show ?thesis by (simp add: y_def u(4))
qed

definition exact_price :: "freight_tier \<Rightarrow> decimal \<Rightarrow> bool \<Rightarrow> decimal" where
  "exact_price t w express = ft_price_per_unit t * w + (if express then ft_surcharge_express t else 0)"

lemma tier_price_error:
  assumes "0 \<le> ft_price_per_unit t" "0 \<le> w" "0 \<le> ft_surcharge_express t"
  shows "\<bar>tier_price t w express - exact_price t w express\<bar> \<le> 1 / 200 + exact_price t w express / 2 ^ 50"
proof -
  let ?e = "ft_price_per_unit t * w" and ?s = "ft_surcharge_express t"
  let ?b = "fmul (round64 (ft_price_per_unit t)) (round64 w)"
  have b: "\<bar>?b - ?e\<bar> \<le> ?e / 2 ^ 51" by (rule fmul_float_error[OF assms(1,2)])
  have e0: "0 \<le> ?e" using assms by simp
  have b0: "0 \<le> ?b" using assms by (simp add: fmul_def round64_nonneg)
  let ?v = "if express then fadd ?b (round64 ?s) else ?b"
  have "\<bar>?v - exact_price t w express\<bar> \<le> exact_price t w express / 2 ^ 50"
  proof (cases express)
    case True
    then show ?thesis using fadd_float_error[OF b0 assms(3) e0 b] by (simp add: exact_price_def)
  next
    case False
    have "?e / 2 ^ 51 \<le> ?e / 2 ^ 50" using e0 by (intro divide_left_mono) simp_all
    then have "\<bar>?b - ?e\<bar> \<le> ?e / 2 ^ 50" by (rule order.trans[OF b])
    with False show ?thesis by (simp only: exact_price_def if_False add_0_right)
  qed
  moreover have "\<bar>round_dec 2 ?v - ?v\<bar> \<le> 1 / 200" using round_dec_error[of 2 ?v] by simp
  ultimately show ?thesis unfolding tier_price_def Let_def abs_le_iff by linarith
qed

lemma calculate_freightE:
  assumes "calculate_freight q d = Inr v"
  obtains t where "t \<in> set (freight_tiers d)" "carrier_code_value (ft_carrier_code t) = gq_carrier q"
    "tier_covers (get_default 1 (gq_weight q)) t" "fv_carrier_code v = ft_carrier_code t"
    "fv_total_freight_yuan v = tier_price t (get_default 1 (gq_weight q)) (gq_express q)"
    "fv_rule_type v = ft_rule_type t"
proof -
  from assms obtain cc t where "enum_of carrier_code_value carrier_codes (gq_carrier q) = Inr cc"
    "find (tier_covers (get_default 1 (gq_weight q))) (select_where (\<lambda>t. ft_carrier_code t = cc) (freight_tiers d)) = Some t"
    "v = \<lparr>fv_carrier_code = cc, fv_weight_kg = get_default 1 (gq_weight q),
          fv_total_freight_yuan = tier_price t (get_default 1 (gq_weight q)) (gq_express q),
          fv_rule_type = ft_rule_type t, fv_tier_min_value = ft_min_value t,
          fv_tier_max_value = (if ft_max_value t = Some 0 then None else ft_max_value t)\<rparr>"
    by (auto simp: calculate_freight_def Let_def)
  then show thesis
    by (intro that[of t]) (auto simp: carrier_code_enum.of_eq_Inr find_Some_iff select_where_def nth_mem dest!: nth_mem[of _ "filter _ _"])
qed

text \<open>A query is refused with the validation error exactly when no tier of the carrier covers the weight.\<close>

lemma calculate_freight_refused:
  assumes "enum_of carrier_code_value carrier_codes (gq_carrier q) = Inr cc"
  shows "calculate_freight q d = Inl (validation ''No matching freight tier found'') \<longleftrightarrow>
    (\<forall>t\<in>set (freight_tiers d). ft_carrier_code t = cc \<longrightarrow> \<not> tier_covers (get_default 1 (gq_weight q)) t)"
  using assms by (auto simp: calculate_freight_def Let_def bindE_eq_Inl find_None_iff)

section \<open>Demand forecast\<close>

text \<open>The history of the forecaster keeps the last \<open>window\<close> observations of a key.\<close>

type_synonym history = "string \<Rightarrow> rat list"

definition window_size :: nat where
  "window_size = 14"

definition add_observation :: "string \<Rightarrow> rat \<Rightarrow> history \<Rightarrow> history" where
  "add_observation key n h =
     (let hist = h key @ [n]
      in h(key := if window_size < length hist then drop (length hist - window_size) hist else hist))"

record forecast_point =
  fp_day :: int
  fp_predicted_orders :: rat
  fp_confidence_lower :: "rat option"
  fp_confidence_upper :: "rat option"

definition alpha :: rat where
  "alpha = round64 (3 / 10)"

text \<open>
  Two operations are parameters: \<open>fpow\<close>, the float power (\<open>alpha ** i\<close>, \<open>(x - mean) ** 2\<close>,
  \<open>variance ** 0.5\<close>), and \<open>fsum\<close>, the built-in \<open>sum\<close> on floats, which is plain or compensated depending on
  the version of Python.
\<close>

definition ema :: "(rat list \<Rightarrow> rat) \<Rightarrow> (rat \<Rightarrow> rat \<Rightarrow> rat) \<Rightarrow> rat list \<Rightarrow> rat" where
  "ema fsum fpow hist = fsum (map (\<lambda>(i, h). fmul h (fpow alpha (of_nat i))) (enumerate 0 (rev hist)))"

definition mean_of :: "(rat list \<Rightarrow> rat) \<Rightarrow> rat list \<Rightarrow> rat" where
  "mean_of fsum hist = fdiv (fsum hist) (of_nat (length hist))"

definition std_dev :: "(rat list \<Rightarrow> rat) \<Rightarrow> (rat \<Rightarrow> rat \<Rightarrow> rat) \<Rightarrow> rat list \<Rightarrow> rat" where
  "std_dev fsum fpow hist =
     fpow (fdiv (fsum (map (\<lambda>x. fpow (fadd x (- mean_of fsum hist)) 2) hist)) (of_nat (length hist))) (1 / 2)"

definition trend_of :: "rat list \<Rightarrow> rat" where
  "trend_of hist = fdiv (fadd (last hist) (- hd hist)) (of_nat (length hist))"

definition forecast_point :: "(rat list \<Rightarrow> rat) \<Rightarrow> (rat \<Rightarrow> rat \<Rightarrow> rat) \<Rightarrow> int \<Rightarrow> rat list \<Rightarrow> nat \<Rightarrow> forecast_point" where
  "forecast_point fsum fpow today hist i =
     (let e = ema fsum fpow hist; sd = std_dev fsum fpow hist;
          raw = fadd (if e = 0 then mean_of fsum hist else e) (fmul (trend_of hist) (of_nat i));
          pred = fround 1 (if 0 \<le> raw then raw else 0);
          margin = fmul (round64 (196 / 100)) sd
      in \<lparr>fp_day = today + int i, fp_predicted_orders = pred,
          fp_confidence_lower = (if sd = 0 then None else Some (fround 1 (fadd pred (- margin)))),
          fp_confidence_upper = (if sd = 0 then None else Some (fround 1 (fadd pred margin)))\<rparr>)"

definition forecast :: "(rat list \<Rightarrow> rat) \<Rightarrow> (rat \<Rightarrow> rat \<Rightarrow> rat) \<Rightarrow> int \<Rightarrow> history \<Rightarrow> string \<Rightarrow> nat \<Rightarrow> forecast_point list" where
  "forecast fsum fpow today h key days =
     (if length (h key) < 2
      then map (\<lambda>i. \<lparr>fp_day = today + int i, fp_predicted_orders = 0, fp_confidence_lower = None,
                     fp_confidence_upper = None\<rparr>) [1..<days + 1]
      else map (forecast_point fsum fpow today (h key)) [1..<days + 1])"

record forecast_req =
  oq_origin_city :: "string option"
  oq_destination_city :: "string option"
  oq_count :: rat
  oq_days :: "nat option"

definition forecast_key :: "forecast_req \<Rightarrow> string" where
  "forecast_key q = get_default [] (oq_origin_city q) @ ''-'' @ get_default [] (oq_destination_city q)"

definition record_forecast_observation :: "forecast_req \<Rightarrow> history \<Rightarrow> history \<times> string" where
  "record_forecast_observation q h = (add_observation (forecast_key q) (oq_count q) h, forecast_key q)"

definition get_forecast :: "(rat list \<Rightarrow> rat) \<Rightarrow> (rat \<Rightarrow> rat \<Rightarrow> rat) \<Rightarrow> int \<Rightarrow> forecast_req \<Rightarrow> history \<Rightarrow> forecast_point list" where
  "get_forecast fsum fpow today q h = forecast fsum fpow today h (forecast_key q) (get_default 7 (oq_days q))"

text \<open>\<open>train_forecast\<close>: the grouped counts of the transport orders since the cut-off (the grouping is the
  database's and is a parameter \<open>rows\<close> of city pairs with counts).\<close>

fun train_rows :: "(string option \<times> string option \<times> rat) list \<Rightarrow> history \<Rightarrow> history \<times> nat" where
  "train_rows [] h = (h, 0)"
| "train_rows ((o', d', n) # rows) h =
     (let (h', k) = train_rows rows (add_observation (get_default [] o' @ ''-'' @ get_default [] d') n h)
      in (h', Suc k))"

text \<open>The history of a key is the last fourteen of its observations, whatever the order of the keys.\<close>

lemma add_observation_suffix:
  assumes "h key = drop (length xs - window_size) xs"
  shows "add_observation key c h key = drop (length (xs @ [c]) - window_size) (xs @ [c])"
proof (cases "length xs < window_size")
  case True
  with assms show ?thesis by (simp add: add_observation_def Let_def)
next
  case False
  then have "length (h key) = window_size" using assms by simp
  then have "add_observation key c h key = drop 1 (h key @ [c])" by (simp add: add_observation_def Let_def)
  also have "\<dots> = drop 1 (h key) @ [c]" using \<open>length (h key) = window_size\<close> by (simp add: window_size_def)
  also have "\<dots> = drop (length (xs @ [c]) - window_size) (xs @ [c])"
  proof -
    have "Suc (length xs - window_size) = length (xs @ [c]) - window_size" using False by simp
    moreover have "drop 1 (drop (length xs - window_size) xs) = drop (Suc (length xs - window_size)) xs" by simp
    moreover have "length (xs @ [c]) - window_size - length xs = 0" by (simp add: window_size_def)
    ultimately show ?thesis using assms by simp
  qed
  finally show ?thesis .
qed

lemma observations_window:
  "foldl (\<lambda>h (k, c). add_observation k c h) (\<lambda>_. []) obs key =
     (let xs = map snd (filter (\<lambda>x. fst x = key) obs) in drop (length xs - window_size) xs)"
proof (induction obs rule: rev_induct)
  case (snoc x obs)
  obtain k c where x: "x = (k, c)" by (cases x)
  let ?xs = "map snd (filter (\<lambda>x. fst x = key) obs)"
  define h where "h = foldl (\<lambda>h (k, c). add_observation k c h) (\<lambda>_. []) obs"
  from snoc have ih: "h key = drop (length ?xs - window_size) ?xs" by (simp add: Let_def h_def)
  show ?case
  proof (cases "k = key")
    case True
    with add_observation_suffix[where h = h and key = key and xs = ?xs and c = c, OF ih] show ?thesis
      by (simp add: x Let_def h_def)
  next
    case False
    then have "add_observation k c h key = h key" by (simp add: add_observation_def Let_def)
    with ih False show ?thesis by (simp add: x Let_def h_def[symmetric])
  qed
qed simp

lemma fround_nonneg: "0 \<le> x \<Longrightarrow> 0 \<le> fround n x"
proof -
  assume "0 \<le> x"
  then have "round_dec n 0 \<le> round_dec n x" by (rule round_dec_mono)
  moreover have "round_dec n 0 = 0" by (simp add: round_dec_def round_even_def)
  ultimately show ?thesis by (simp add: fround_def round64_nonneg)
qed

lemma forecast_nonneg: "p \<in> set (forecast fsum fpow today h key days) \<Longrightarrow> 0 \<le> fp_predicted_orders p"
  by (auto simp: forecast_def forecast_point_def Let_def fround_nonneg split: if_splits)

lemma forecast_days: "map fp_day (forecast fsum fpow today h key days) = map (\<lambda>i. today + int i) [1..<days + 1]"
  by (simp add: forecast_def forecast_point_def Let_def comp_def)

end
