(* ===== verification/Tms_Device.thy ===== *)
theory Tms_Device
  imports Tms_Transport
begin

text \<open>
  Terminal devices of \<open>src/tms/service.py\<close>: registration, updates, heartbeats, synchronisation logs and
  sessions.
\<close>

section \<open>Devices\<close>

record device_req =
  vq_code :: string
  vq_name :: "string option"
  vq_device_type :: "string option"
  vq_platform :: "string option"
  vq_os_version :: "string option"
  vq_app_version :: "string option"
  vq_warehouse_id :: "string option"
  vq_config :: "json option"
  vq_push_token :: "string option"

definition device_req_schema_ok :: "device_req \<Rightarrow> bool" where
  "device_req_schema_ok q =
     (1 \<le> length (vq_code q) \<and> length (vq_code q) \<le> 50 \<and> length (get_default [] (vq_name q)) \<le> 200 \<and>
      enum_find terminal_device_type_value terminal_device_types (get_default ''pda'' (vq_device_type q)) \<noteq> None \<and>
      enum_find platform_type_value platform_types (get_default ''android'' (vq_platform q)) \<noteq> None \<and>
      length (get_default [] (vq_os_version q)) \<le> 50 \<and> length (get_default [] (vq_app_version q)) \<le> 20)"

definition register_device ::
  "env \<Rightarrow> device_req \<Rightarrow> 'a tms_db_scheme \<Rightarrow> ('a tms_db_scheme \<times> terminal_device) result" where
  "register_device env data d =
     bindE (find_one (\<lambda>x. dv_code x = vq_code data) (terminal_devices d)) (\<lambda>existing.
     bindE (raise_if (existing \<noteq> None) (validation (''Device code '' @ vq_code data @ '' already exists''))) (\<lambda>_.
     bindE (enum_of terminal_device_type_value terminal_device_types (get_default ''pda'' (vq_device_type data))) (\<lambda>ty.
     bindE (enum_of platform_type_value platform_types (get_default ''android'' (vq_platform data))) (\<lambda>pf.
     bindE (to_uuid_opt (vq_warehouse_id data)) (\<lambda>wh.
     let dev = \<lparr>pk = new_uuid env d, created_at = now env, updated_at = now env, is_deleted = False,
                 deleted_at = None, dv_code = vq_code data, dv_name = Some (get_default [] (vq_name data)),
                 dv_device_type = ty, dv_platform = pf, dv_os_version = Some (get_default [] (vq_os_version data)),
                 dv_app_version = Some (get_default [] (vq_app_version data)), dv_status = DeviceStatus_OFFLINE,
                 dv_warehouse_id = wh, dv_last_sync_at = None, dv_last_heartbeat_at = None,
                 dv_config = vq_config data, dv_push_token = vq_push_token data\<rparr>
     in bindE (insert_unique dv_code dev (terminal_devices d)) (\<lambda>t.
        Inr ((tick d)\<lparr>terminal_devices := t\<rparr>, dev)))))))"

definition find_device :: "string \<Rightarrow> 'a tms_db_scheme \<Rightarrow> terminal_device result" where
  "find_device dev_id d = find_by_id ''Device'' dev_id (terminal_devices d)"

definition get_device :: "string \<Rightarrow> 'a tms_db_scheme \<Rightarrow> terminal_device result" where
  "get_device dev_id d = find_device dev_id d"

definition list_devices ::
  "string option \<Rightarrow> string option \<Rightarrow> string option \<Rightarrow> 'a tms_db_scheme \<Rightarrow> terminal_device list result" where
  "list_devices warehouse_id status device_type d =
     (if truthy warehouse_id \<and> safe_uuid (get_default [] warehouse_id) = None then Inr []
      else bindE (enum_if_truthy device_status_value device_statuss status) (\<lambda>st.
           bindE (enum_if_truthy terminal_device_type_value terminal_device_types device_type) (\<lambda>ty.
           Inr (order_by_desc created_at
             (select_where (\<lambda>x. (truthy warehouse_id \<longrightarrow> dv_warehouse_id x = safe_uuid (get_default [] warehouse_id)) \<and>
                                (st = None \<or> st = Some (dv_status x)) \<and> (ty = None \<or> ty = Some (dv_device_type x)))
                (terminal_devices d))))))"

record device_update =
  vu_name :: "string option"
  vu_os_version :: "string option"
  vu_app_version :: "string option"
  vu_warehouse_id :: "string option"
  vu_config :: "json option"
  vu_push_token :: "string option"
  vu_status :: "string option"

definition keep_some :: "'v option \<Rightarrow> 'v option \<Rightarrow> 'v option" where
  "keep_some new old = (case new of None \<Rightarrow> old | Some v \<Rightarrow> Some v)"

definition apply_device_update :: "env \<Rightarrow> device_update \<Rightarrow> terminal_device \<Rightarrow> terminal_device result" where
  "apply_device_update env data x =
     bindE (case vu_status data of None \<Rightarrow> Inr (dv_status x)
            | Some s \<Rightarrow> enum_of device_status_value device_statuss s) (\<lambda>st.
     bindE (case vu_warehouse_id data of None \<Rightarrow> Inr (dv_warehouse_id x)
            | Some s \<Rightarrow> uuid_if_truthy (Some s)) (\<lambda>wh.
     Inr (x\<lparr>dv_name := keep_some (vu_name data) (dv_name x), dv_os_version := keep_some (vu_os_version data) (dv_os_version x),
            dv_app_version := keep_some (vu_app_version data) (dv_app_version x), dv_warehouse_id := wh,
            dv_config := keep_some (vu_config data) (dv_config x),
            dv_push_token := keep_some (vu_push_token data) (dv_push_token x), dv_status := st,
            updated_at := now env\<rparr>)))"

definition put_device :: "terminal_device \<Rightarrow> terminal_device \<Rightarrow> 'a tms_db_scheme \<Rightarrow> 'a tms_db_scheme" where
  "put_device dev dev' d = d\<lparr>terminal_devices := update_where (\<lambda>x. pk x = pk dev) (\<lambda>_. dev') (terminal_devices d)\<rparr>"

definition update_device ::
  "env \<Rightarrow> string \<Rightarrow> device_update \<Rightarrow> 'a tms_db_scheme \<Rightarrow> ('a tms_db_scheme \<times> terminal_device) result" where
  "update_device env dev_id data d =
     bindE (find_device dev_id d) (\<lambda>dev.
     bindE (apply_device_update env data dev) (\<lambda>dev'. Inr (put_device dev dev' d, dev')))"

record heartbeat_view =
  hb_id :: string
  hb_status :: string
  hb_last_heartbeat_at :: datetime
  hb_message :: string

definition record_heartbeat ::
  "env \<Rightarrow> string \<Rightarrow> 'a tms_db_scheme \<Rightarrow> ('a tms_db_scheme \<times> heartbeat_view) result" where
  "record_heartbeat env dev_id d =
     bindE (find_device dev_id d) (\<lambda>dev.
     Inr (put_device dev (dev\<lparr>dv_last_heartbeat_at := Some (now env), dv_status := DeviceStatus_ONLINE,
                              updated_at := now env\<rparr>) d,
          \<lparr>hb_id = dev_id, hb_status = ''online'', hb_last_heartbeat_at = now env,
           hb_message = ''Heartbeat received''\<rparr>))"

section \<open>Synchronisation\<close>

record sync_req =
  yq_sync_type :: "string option"
  yq_status :: "string option"
  yq_records_count :: "int option"
  yq_error_message :: "string option"

definition sync_req_schema_ok :: "sync_req \<Rightarrow> bool" where
  "sync_req_schema_ok q =
     (enum_find sync_log_type_value sync_log_types (get_default ''download'' (yq_sync_type q)) \<noteq> None \<and>
      enum_find sync_log_status_value sync_log_statuss (get_default ''pending'' (yq_status q)) \<noteq> None \<and>
      0 \<le> get_default 0 (yq_records_count q))"

definition new_sync_log :: "env \<Rightarrow> uuid \<Rightarrow> sync_req \<Rightarrow> 'a tms_db_scheme \<Rightarrow> sync_log result" where
  "new_sync_log env dev data d =
     bindE (enum_of sync_log_type_value sync_log_types (get_default ''download'' (yq_sync_type data))) (\<lambda>ty.
     bindE (enum_of sync_log_status_value sync_log_statuss (get_default ''pending'' (yq_status data))) (\<lambda>st.
     Inr \<lparr>pk = new_uuid env d, created_at = now env, updated_at = now env, is_deleted = False, deleted_at = None,
          sl_device_id = dev, sl_sync_type = ty, sl_status = st,
          sl_records_count = get_default 0 (yq_records_count data), sl_error_message = yq_error_message data,
          sl_started_at = now env,
          sl_completed_at = (if yq_status data = Some ''completed'' \<or> yq_status data = Some ''failed''
                             then Some (now env) else None)\<rparr>))"

definition record_sync ::
  "env \<Rightarrow> string \<Rightarrow> sync_req \<Rightarrow> 'a tms_db_scheme \<Rightarrow> ('a tms_db_scheme \<times> sync_log) result" where
  "record_sync env dev_id data d =
     bindE (find_device dev_id d) (\<lambda>dev.
     bindE (new_sync_log env (pk dev) data d) (\<lambda>l.
     Inr (put_device dev (dev\<lparr>dv_last_sync_at := Some (now env), dv_status := DeviceStatus_ONLINE, updated_at := now env\<rparr>)
            ((tick d)\<lparr>sync_logs := insert_row l (sync_logs d)\<rparr>), l)))"

definition list_sync_logs :: "string \<Rightarrow> 'a tms_db_scheme \<Rightarrow> sync_log list result" where
  "list_sync_logs dev_id d =
     bindE (find_device dev_id d) (\<lambda>dev.
     Inr (order_by_desc sl_started_at (select_where (\<lambda>l. sl_device_id l = pk dev) (sync_logs d))))"

section \<open>Sessions\<close>

text \<open>The constructor call sets no token, so the column is null.\<close>

definition create_session ::
  "env \<Rightarrow> string \<Rightarrow> string option \<Rightarrow> 'a tms_db_scheme \<Rightarrow> ('a tms_db_scheme \<times> device_session) result" where
  "create_session env dev_id ip_address d =
     bindE (find_device dev_id d) (\<lambda>dev.
     let sess = \<lparr>pk = new_uuid env d, created_at = now env, updated_at = now env, is_deleted = False,
                  deleted_at = None, ds_device_id = pk dev, ds_token = None, ds_login_at = now env,
                  ds_status = SessionStatus_ACTIVE, ds_logout_at = None, ds_ip_address = ip_address\<rparr>
     in Inr (put_device dev (dev\<lparr>dv_status := DeviceStatus_ONLINE, updated_at := now env\<rparr>)
               ((tick d)\<lparr>device_sessions := insert_row sess (device_sessions d)\<rparr>), sess))"

definition end_session ::
  "env \<Rightarrow> string \<Rightarrow> string \<Rightarrow> 'a tms_db_scheme \<Rightarrow> ('a tms_db_scheme \<times> device_session) result" where
  "end_session env dev_id sess_id d =
     (let missing = NotFoundException (''Session '' @ sess_id @ '' not found for device '' @ dev_id)
      in bindE (of_option missing (safe_uuid dev_id)) (\<lambda>dev.
         bindE (of_option missing (safe_uuid sess_id)) (\<lambda>sid.
         bindE (find_or_raise missing (\<lambda>s. pk s = sid \<and> ds_device_id s = dev) (device_sessions d)) (\<lambda>sess.
         let f = (\<lambda>s. s\<lparr>ds_logout_at := Some (now env), ds_status := SessionStatus_ENDED, updated_at := now env\<rparr>)
         in Inr (d\<lparr>device_sessions := update_where (\<lambda>s. pk s = pk sess) f (device_sessions d)\<rparr>, f sess)))))"

definition list_sessions :: "string \<Rightarrow> 'a tms_db_scheme \<Rightarrow> device_session list result" where
  "list_sessions dev_id d =
     bindE (find_device dev_id d) (\<lambda>dev.
     Inr (order_by_desc ds_login_at (select_where (\<lambda>s. ds_device_id s = pk dev) (device_sessions d))))"

section \<open>Facts about devices\<close>

lemma find_device_show:
  "find_device (show_uuid u) d = find_or_raise (not_found ''Device'' (show_uuid u)) (\<lambda>x. pk x = u) (terminal_devices d)"
  by (simp add: find_device_def find_by_id_show)

lemma put_device_found:
  assumes "find_device i d = Inr dev" "pk dev' = pk dev"
  shows "find_device i (put_device dev dev' d) = Inr dev'"
proof -
  from find_by_id_InrD[OF assms(1)[unfolded find_device_def]]
  have i: "safe_uuid i = Some (pk dev)" and f: "find_one (\<lambda>x. pk x = pk dev) (terminal_devices d) = Inr (Some dev)" by auto
  have "find_one (\<lambda>x. pk x = pk dev) (update_where (\<lambda>x. pk x = pk dev) (\<lambda>_. dev') (terminal_devices d)) = Inr (Some dev')"
  proof -
    have "filter (\<lambda>x. pk x = pk dev) (update_where (\<lambda>x. pk x = pk dev) (\<lambda>_. dev') t) =
        map (\<lambda>_. dev') (filter (\<lambda>x. pk x = pk dev) t)" for t :: "terminal_device list"
      using assms(2) by (induction t) (auto simp: update_where_def)
    with f show ?thesis by (simp add: find_one_Some_iff)
  qed
  with i show ?thesis by (simp add: find_device_def find_by_id_def put_device_def)
qed

text \<open>After a heartbeat the device is online, with the time of the heartbeat.\<close>

lemma heartbeat_online:
  assumes "record_heartbeat env i d = Inr (d', v)"
  obtains dev where "find_device i d = Inr dev"
    "get_device i d' = Inr (dev\<lparr>dv_last_heartbeat_at := Some (now env), dv_status := DeviceStatus_ONLINE, updated_at := now env\<rparr>)"
proof -
  from assms obtain dev where f: "find_device i d = Inr dev" and
    d': "d' = put_device dev (dev\<lparr>dv_last_heartbeat_at := Some (now env), dv_status := DeviceStatus_ONLINE, updated_at := now env\<rparr>) d"
    by (auto simp: record_heartbeat_def)
  show thesis by (rule that[OF f]) (simp add: d' get_device_def put_device_found[OF f])
qed

text \<open>A registered code is taken until the end.\<close>

definition devices_inv :: "'a tms_db_scheme \<Rightarrow> bool" where
  "devices_inv d = (distinct (map dv_code (terminal_devices d)) \<and>
     (\<forall>s\<in>set (device_sessions d). ds_status s = SessionStatus_ENDED \<longleftrightarrow> ds_logout_at s \<noteq> None) \<and>
     (\<forall>l\<in>set (sync_logs d). sl_completed_at l \<noteq> None \<longleftrightarrow>
        sl_status l = SyncLogStatus_COMPLETED \<or> sl_status l = SyncLogStatus_FAILED))"

lemma register_device_inv:
  assumes "register_device env data d = Inr (d', dev)" "devices_inv d"
  shows "devices_inv d'"
proof -
  from assms(1) have "terminal_devices d' = terminal_devices d @ [dev]" "dv_code dev \<notin> dv_code ` set (terminal_devices d)"
    "device_sessions d' = device_sessions d" "sync_logs d' = sync_logs d"
    by (auto simp: register_device_def Let_def tick_def insert_row_def)
  with assms(2) show ?thesis by (simp add: devices_inv_def)
qed

lemma register_device_taken:
  assumes "dev \<in> set (terminal_devices d)" "dv_code dev = vq_code data" "devices_inv d"
  shows "register_device env data d = Inl (validation (''Device code '' @ vq_code data @ '' already exists''))"
proof -
  have "find_one (\<lambda>x. dv_code x = vq_code data) (terminal_devices d) = Inr (Some dev)"
    using assms by (intro find_one_pk[where k = dv_code]) (simp_all add: devices_inv_def)
  then show ?thesis by (simp add: register_device_def)
qed

lemma put_device_codes:
  assumes "find_device i d = Inr dev" "dv_code dev' = dv_code dev"
  shows "map dv_code (terminal_devices (put_device dev dev' d)) = map dv_code (terminal_devices d)"
proof -
  have "x = dev" if "x \<in> set (terminal_devices d)" "pk x = pk dev" for x
    using find_one_SomeD(3)[OF find_by_id_InrD(3)[OF assms(1)[unfolded find_device_def]] that(1)] that(2) by simp
  with assms(2) show ?thesis by (auto simp: put_device_def update_where_def)
qed

lemma put_device_frame [simp]:
  "device_sessions (put_device dev dev' d) = device_sessions d"
  "sync_logs (put_device dev dev' d) = sync_logs d"
  by (simp_all add: put_device_def)

lemma put_device_inv:
  assumes "find_device i d = Inr dev" "dv_code dev' = dv_code dev" "devices_inv d"
  shows "devices_inv (put_device dev dev' d)"
  using assms(3) put_device_codes[OF assms(1,2)] by (simp add: devices_inv_def)

lemma update_device_inv:
  assumes "update_device env i data d = Inr (d', dev')" "devices_inv d"
  shows "devices_inv d'"
proof -
  from assms(1) obtain dev where f: "find_device i d = Inr dev" "apply_device_update env data dev = Inr dev'"
    "d' = put_device dev dev' d" by (auto simp: update_device_def)
  from f(2) have "dv_code dev' = dv_code dev" by (auto simp: apply_device_update_def)
  from put_device_inv[OF f(1) this assms(2)] f(3) show ?thesis by simp
qed

lemma new_sync_log_completed:
  assumes "new_sync_log env dev data d = Inr l"
  shows "sl_completed_at l \<noteq> None \<longleftrightarrow> sl_status l = SyncLogStatus_COMPLETED \<or> sl_status l = SyncLogStatus_FAILED"
proof -
  from assms have st: "sync_log_status_value (sl_status l) = get_default ''pending'' (yq_status data)"
    and c: "sl_completed_at l \<noteq> None \<longleftrightarrow> yq_status data = Some ''completed'' \<or> yq_status data = Some ''failed''"
    by (auto simp: new_sync_log_def sync_log_status_enum.of_eq_Inr split: if_splits)
  show ?thesis using st unfolding c by (cases "sl_status l"; cases "yq_status data") auto
qed

lemma record_sync_inv:
  assumes "record_sync env i data d = Inr (d', l)" "devices_inv d"
  shows "devices_inv d'"
proof -
  from assms(1) obtain dev where f: "find_device i d = Inr dev" and n: "new_sync_log env (pk dev) data d = Inr l"
    and d': "d' = put_device dev (dev\<lparr>dv_last_sync_at := Some (now env), dv_status := DeviceStatus_ONLINE, updated_at := now env\<rparr>)
            ((tick d)\<lparr>sync_logs := insert_row l (sync_logs d)\<rparr>)"
    by (auto simp: record_sync_def)
  let ?d1 = "(tick d)\<lparr>sync_logs := insert_row l (sync_logs d)\<rparr>"
  have "devices_inv ?d1" using assms(2) new_sync_log_completed[OF n] by (simp add: devices_inv_def tick_def)
  moreover have "find_device i ?d1 = Inr dev" using f by (simp add: find_device_def tick_def)
  ultimately show ?thesis unfolding d' by (intro put_device_inv) simp_all
qed

lemma create_session_inv:
  assumes "create_session env i ip d = Inr (d', s)" "devices_inv d"
  shows "devices_inv d'"
proof -
  from assms(1) obtain dev where f: "find_device i d = Inr dev"
    and d': "d' = put_device dev (dev\<lparr>dv_status := DeviceStatus_ONLINE, updated_at := now env\<rparr>)
               ((tick d)\<lparr>device_sessions := insert_row s (device_sessions d)\<rparr>)"
    and s: "ds_status s = SessionStatus_ACTIVE" "ds_logout_at s = None"
    by (auto simp: create_session_def Let_def)
  let ?d1 = "(tick d)\<lparr>device_sessions := insert_row s (device_sessions d)\<rparr>"
  have "devices_inv ?d1" using assms(2) s by (simp add: devices_inv_def tick_def)
  moreover have "find_device i ?d1 = Inr dev" using f by (simp add: find_device_def tick_def)
  ultimately show ?thesis unfolding d' by (intro put_device_inv) simp_all
qed

lemma end_session_inv:
  assumes "end_session env i si d = Inr (d', s)" "devices_inv d"
  shows "devices_inv d'" "ds_status s = SessionStatus_ENDED" "ds_logout_at s = Some (now env)"
proof -
  define f where "f = (\<lambda>s::device_session. s\<lparr>ds_logout_at := Some (now env), ds_status := SessionStatus_ENDED, updated_at := now env\<rparr>)"
  from assms(1) obtain sess where
    d': "d' = d\<lparr>device_sessions := update_where (\<lambda>s. pk s = pk sess) f (device_sessions d)\<rparr>" and s: "s = f sess"
    unfolding end_session_def Let_def f_def[symmetric] bindE_eq_Inr by auto
  have "\<forall>x\<in>set (update_where (\<lambda>s. pk s = pk sess) f (device_sessions d)).
      ds_status x = SessionStatus_ENDED \<longleftrightarrow> ds_logout_at x \<noteq> None"
    by (rule update_where_all) (use assms(2) in \<open>auto simp: devices_inv_def f_def\<close>)
  with assms(2) show "devices_inv d'" by (simp add: d' devices_inv_def)
  show "ds_status s = SessionStatus_ENDED" "ds_logout_at s = Some (now env)" by (simp_all add: s f_def)
qed

lemma record_heartbeat_inv:
  assumes "record_heartbeat env i d = Inr (d', v)" "devices_inv d"
  shows "devices_inv d'"
  using assms by (auto simp: record_heartbeat_def intro!: put_device_inv)

section \<open>Every history of calls\<close>

inductive device_step :: "'a tms_db_scheme \<Rightarrow> 'a tms_db_scheme \<Rightarrow> bool" where
  registered: "register_device env data d = Inr (d', dev) \<Longrightarrow> device_step d d'"
| updated: "update_device env i udata d = Inr (d', dev) \<Longrightarrow> device_step d d'"
| beat: "record_heartbeat env i d = Inr (d', v) \<Longrightarrow> device_step d d'"
| synced: "record_sync env i ydata d = Inr (d', l) \<Longrightarrow> device_step d d'"
| opened: "create_session env i ip d = Inr (d', s) \<Longrightarrow> device_step d d'"
| ended: "end_session env i si d = Inr (d', s) \<Longrightarrow> device_step d d'"

inductive devices_reachable :: "'a tms_db_scheme \<Rightarrow> bool" where
  start: "terminal_devices d = [] \<Longrightarrow> device_sessions d = [] \<Longrightarrow> sync_logs d = [] \<Longrightarrow> devices_reachable d"
| step: "devices_reachable d \<Longrightarrow> device_step d d' \<Longrightarrow> devices_reachable d'"

lemma device_step_inv: "device_step d d' \<Longrightarrow> devices_inv d \<Longrightarrow> devices_inv d'"
  by (induction rule: device_step.induct)
    (blast intro: register_device_inv update_device_inv record_heartbeat_inv record_sync_inv create_session_inv
      end_session_inv(1))+

lemma devices_reachable_inv: "devices_reachable d \<Longrightarrow> devices_inv d"
  by (induction rule: devices_reachable.induct) (simp add: devices_inv_def, blast intro: device_step_inv)

end
