(* ===== verification/Samples.thy ===== *)
theory Samples
  imports Wms_Procure Wms_Stock Tms_Plans Tms_Returns Tms_Freight Tms_Device
begin

text \<open>
  Concrete states on which the properties are evaluated: an environment whose identifiers are
  numbered, an empty database, and rows in it. Nothing here models code. The collection
  \<open>sample_eval\<close> holds the definitions that the evaluation of an operation unfolds; identifiers are
  left printed (\<open>show_uuid\<close> is not unfolded), which keeps the terms small.
\<close>

lemmas [sample_eval] = find_one_def find_or_raise_def select_where_def scalar_one_or_none_def Let_def
  insert_unique_def insert_row_def update_where_def tick_def new_uuid_def raise_if_def bindE_def of_option_def
  get_default_def truthy_def

section \<open>Environment\<close>

definition env0 :: env where
  "env0 = \<lparr>now = 1000, ymd = ''20240102'', uuid4 = (\<lambda>n. word_of_nat (Suc n))\<rparr>"

lemma env0_simps [simp]: "now env0 = 1000" "ymd env0 = ''20240102''" "uuid4 env0 n = word_of_nat (Suc n)"
  by (simp_all add: env0_def)

lemma env0_inj: "inj_on (uuid4 env0) {..<100}"
proof (rule inj_onI)
  fix x y :: nat
  assume "x \<in> {..<100}" "y \<in> {..<100}" "uuid4 env0 x = uuid4 env0 y"
  then have "unat (word_of_nat (Suc x) :: uuid) = unat (word_of_nat (Suc y) :: uuid)" "x < 100" "y < 100" by simp_all
  then show "x = y" by (simp add: unat_of_nat del: of_nat_Suc)
qed

lemma env0_unused:
  assumes "20 \<le> n" "n < 100"
  shows "word_of_nat (Suc n) \<noteq> (7 :: uuid)" "word_of_nat (Suc n) \<noteq> (8 :: uuid)" "uuid4 env0 n \<noteq> 7" "uuid4 env0 n \<noteq> 8"
    "1 + word_of_nat n \<noteq> (7 :: uuid)" "1 + word_of_nat n \<noteq> (8 :: uuid)"
proof -
  have "uuid4 env0 n \<noteq> uuid4 env0 6" "uuid4 env0 n \<noteq> uuid4 env0 7"
    using inj_onD[OF env0_inj, of n 6] inj_onD[OF env0_inj, of n 7] assms by auto
  then show "word_of_nat (Suc n) \<noteq> (7 :: uuid)" "word_of_nat (Suc n) \<noteq> (8 :: uuid)" "uuid4 env0 n \<noteq> 7" "uuid4 env0 n \<noteq> 8"
    "1 + word_of_nat n \<noteq> (7 :: uuid)" "1 + word_of_nat n \<noteq> (8 :: uuid)" by auto
qed

lemma show_uuid_not_Nil [simp]: "show_uuid u \<noteq> []" "[] \<noteq> show_uuid u"
  by (simp_all add: show_uuid_def Let_def)

lemma env0_big:
  assumes "20 \<le> n" "n < 100"
  shows "word_of_nat n \<noteq> (2 :: uuid)" "word_of_nat n \<noteq> (3 :: uuid)" "word_of_nat n \<noteq> (4 :: uuid)"
proof -
  have "unat (word_of_nat n :: uuid) = n" using assms by (simp add: unat_of_nat)
  then show "word_of_nat n \<noteq> (2 :: uuid)" "word_of_nat n \<noteq> (3 :: uuid)" "word_of_nat n \<noteq> (4 :: uuid)"
    using assms by auto
qed

section \<open>The empty database\<close>

definition empty_db :: tms_db where
  "empty_db = \<lparr>drawn = 0, skus = [], outbox_events = [], webhook_targets = [], webhook_delivery_logs = [],
     notifications = [], notification_preferences = [],
     customers = [], orders = [], order_items = [], order_status_logs = [], merge_groups = [],
     split_child_orders = [],
     warehouses = [], locations = [], inventory_rows = [], inventory_logs = [], stock_movements = [],
     picking_waves = [], packing_records = [], shipments = [], vendors = [], addresses = [],
     purchase_orders = [], purchase_order_lines = [], invoices = [], invoice_lines = [], credit_memos = [],
     credit_memo_lines = [], transfer_orders = [], transfer_order_lines = [], stock_ins = [], stock_in_lines = [],
     stock_outs = [], stock_out_lines = [], stock_inventory_logs = [],
     transport_orders = [], tracking_events = [], pod_records = [], transport_exceptions = [],
     transfer_hubs = [], carrier_routes = [], transport_segments = [], hub_connections = [], route_plans = [],
     return_orders = [], freight_tiers = [], terminal_devices = [], device_sessions = [], sync_logs = []\<rparr>"

lemma empty_db_simps [simp]:
  "drawn empty_db = 0" "skus empty_db = []" "outbox_events empty_db = []" "webhook_targets empty_db = []"
  "notification_preferences empty_db = []"
  "customers empty_db = []" "orders empty_db = []" "order_items empty_db = []" "order_status_logs empty_db = []"
  "merge_groups empty_db = []" "split_child_orders empty_db = []"
  "warehouses empty_db = []" "locations empty_db = []" "inventory_rows empty_db = []" "stock_movements empty_db = []"
  "picking_waves empty_db = []" "purchase_orders empty_db = []" "purchase_order_lines empty_db = []"
  "invoices empty_db = []" "invoice_lines empty_db = []" "credit_memos empty_db = []" "credit_memo_lines empty_db = []"
  "stock_ins empty_db = []" "stock_in_lines empty_db = []" "stock_outs empty_db = []" "stock_out_lines empty_db = []"
  "transport_orders empty_db = []" "tracking_events empty_db = []" "pod_records empty_db = []"
  "transport_exceptions empty_db = []" "transfer_hubs empty_db = []" "carrier_routes empty_db = []"
  "transport_segments empty_db = []" "hub_connections empty_db = []" "route_plans empty_db = []"
  "return_orders empty_db = []" "freight_tiers empty_db = []" "terminal_devices empty_db = []"
  "device_sessions empty_db = []" "sync_logs empty_db = []"
  by (simp_all add: empty_db_def)

section \<open>An order\<close>

definition order_data :: order_create where
  "order_data = \<lparr>rq_customer_id = ''C1'',
     rq_items = [\<lparr>rq_gtin = Some ''00000001'', rq_sku = Some ''A'', rq_product_name = None, rq_quantity = Some 3,
                  rq_unit_price = Some (5 / 2)\<rparr>], rq_priority = None, rq_notes = None\<rparr>"

lemmas [sample_eval] = create_order_def get_or_create_customer_def add_order_item_def get_or_create_sku_def
  add_status_log_def append_event_def new_sku_def new_customer_def new_order_item_def order_data_def

lemma sample_oms_inv: "oms_inv env0 100 empty_db"
  using env0_inj by (simp add: oms_inv_def oms_ok_def skus_ok_def history_ok_def fresh_ids_def)

lemma sample_order:
  obtains d v where "create_order env0 order_data empty_db = Inr (d, v)" "drawn d = 7"
proof -
  have "\<exists>d v. create_order env0 order_data empty_db = Inr (d, v) \<and> drawn d = 7"
    by (simp add: sample_eval)
  with that show thesis by blast
qed

definition order7 :: order where
  "order7 = \<lparr>pk = 7, created_at = 10, updated_at = 10, is_deleted = False, deleted_at = None,
     ord_order_no = ''ORD-7'', ord_status = OrderStatus_PENDING, ord_customer_id = 1, ord_warehouse_id = None,
     ord_items = JObj [], ord_total_amount = 15 / 2, ord_priority = OrderPriority_MEDIUM, ord_version = 0,
     ord_notes = []\<rparr>"

definition order8 :: order where
  "order8 = order7\<lparr>pk := 8, ord_order_no := ''ORD-8'', ord_total_amount := 5\<rparr>"

lemma order_pks [simp]: "pk order7 = 7" "pk order8 = 8"
  by (simp_all add: order7_def order8_def)

definition order_db :: tms_db where
  "order_db = empty_db\<lparr>orders := [order7, order8], drawn := 20\<rparr>"

definition split_data :: split_req where
  "split_data = \<lparr>sp_items = [\<lparr>sr_sku = Some ''A'', sr_quantity = Some 2, sr_product_name = None\<rparr>], sp_note = None\<rparr>"

section \<open>Outbox events\<close>

definition event1 :: outbox_event where
  "event1 = \<lparr>ob_id = 1, ob_aggregate_type = ''Order'', ob_aggregate_id = 7, ob_event_type = ''order.created'',
     ob_payload = JObj [], ob_status = OutboxEventStatus_PENDING, ob_retry_count = 0, ob_error_message = None,
     ob_scheduled_at = None, ob_dispatched_at = None, ob_created_at = 5\<rparr>"

section \<open>A warehouse with two batches\<close>

definition wh1 :: warehouse where
  "wh1 = \<lparr>pk = 1, created_at = 1, updated_at = 1, is_deleted = False, deleted_at = None, wh_code = ''W1'',
     wh_name = ''Main'', wh_warehouse_type = WarehouseType_CENTER, wh_status = WarehouseStatus_ACTIVE,
     wh_address = JStr [], wh_contact = None, wh_phone = None, wh_config = None\<rparr>"

definition loc2 :: location where
  "loc2 = \<lparr>pk = 2, created_at = 1, updated_at = 1, is_deleted = False, deleted_at = None, loc_warehouse_id = Some 1,
     loc_code = ''0000-A-1-1'', loc_zone = ''A'', loc_aisle = ''1'', loc_shelf = [], loc_level = ''1'', loc_position = ''1'',
     loc_location_type = LocationType_STORAGE, loc_status = LocationStatus_ACTIVE\<rparr>"

definition batch4 :: inventory where
  "batch4 = \<lparr>pk = 4, created_at = 1, updated_at = 1, is_deleted = False, deleted_at = None, inv_warehouse_id = Some 1,
     inv_location_id = Some 2, inv_sku_id = 3, inv_gtin = [], inv_batch_no = ''B4'', inv_quantity = 4,
     inv_locked_qty = 0, inv_min_qty = 0, inv_max_qty = 0, inv_version = 0, inv_expiry_date = Some 10,
     inv_manufacturing_date = None, inv_received_at = Some 1\<rparr>"

definition batch5 :: inventory where
  "batch5 = batch4\<lparr>pk := 5, inv_batch_no := ''B5'', inv_quantity := 6, inv_expiry_date := Some 20\<rparr>"

definition stock_db :: tms_db where
  "stock_db = empty_db\<lparr>drawn := 20, skus := [new_sku env0 3 ''A''], warehouses := [wh1], locations := [loc2],
     inventory_rows := [batch5, batch4]\<rparr>"

lemma stock_pks [simp]: "pk wh1 = 1" "pk loc2 = 2" "pk batch4 = 4" "pk batch5 = 5"
  by (simp_all add: wh1_def loc2_def batch4_def batch5_def)

lemma stock_db_simps [simp]:
  "skus stock_db = [new_sku env0 3 ''A'']" "warehouses stock_db = [wh1]" "locations stock_db = [loc2]"
  "inventory_rows stock_db = [batch5, batch4]" "drawn stock_db = 20"
  by (simp_all add: stock_db_def)

lemma sample_batches: "stock_batches 1 ''A'' stock_db = [batch4, batch5]"
  by (simp add: stock_batches_def order_by_def select_where_def db_get_def batch4_def batch5_def nulls_last_def)

lemma sample_pick_batches: "pick_batches (Some 1) (Some 2) 3 ''fefo'' stock_db = [(batch4, 4), (batch5, 6)]"
  by (simp add: pick_batches_def order_batches_def order_by_def select_where_def batch4_def batch5_def nulls_last_def
      available_def)

definition adjust_data :: "decimal \<Rightarrow> adjust_req" where
  "adjust_data q = \<lparr>aj_warehouse_id = show_uuid 1, aj_location_id = show_uuid 2, aj_sku = ''A'', aj_quantity = q,
     aj_batch_no = None, aj_expiry_date = None, aj_manufacturing_date = None, aj_picking_strategy = None\<rparr>"

definition count_data :: count_req where
  "count_data = \<lparr>cq_warehouse_id = Some (show_uuid 1), cq_source_warehouse_code = None,
     cq_location_id = Some (show_uuid 2), cq_target_location_id = None,
     cq_count_results = [\<lparr>ci_sku = ''C'', ci_actual_qty = Some 9, ci_actual_qty_count = None\<rparr>]\<rparr>"

section \<open>Documents\<close>

definition wave_db :: tms_db where
  "wave_db = empty_db\<lparr>picking_waves := [\<lparr>pk = 6, created_at = 1, updated_at = 1, is_deleted = False, deleted_at = None,
     pw_warehouse_id = None, pw_code = ''PW'', pw_status = ''in_progress'', pw_wave_type = ORDER_BASED,
     pw_priority = PickingWavePriority_LOW, pw_total_items = 3, pw_completed_items = 0, pw_assignee_id = None\<rparr>]\<rparr>"

definition po_db :: tms_db where
  "po_db = empty_db\<lparr>purchase_orders := [\<lparr>pk = 6, created_at = 1, updated_at = 1, is_deleted = False, deleted_at = None,
     po_po_number = ''PO1'', po_vendor_id = None, po_status = ''approved'', po_expected_date = None, po_notes = None,
     po_total_amount = 10\<rparr>]\<rparr>"

definition doc_data :: doc_req where
  "doc_data = \<lparr>dq_warehouse_id = Some (show_uuid 1), dq_supplier_id = None, dq_type = None, dq_ref_no = None,
     dq_reference_type = None, dq_lines = [\<lparr>dl_sku = Some ''A'', dl_qty = Some (5 / 2), dl_batch_no = None,
       dl_lot_no = None, dl_expiry_date = None\<rparr>]\<rparr>"

definition loc_data :: "string \<Rightarrow> location_data" where
  "loc_data shelf = \<lparr>ld_zone = Some ''B'', ld_aisle = Some ''1'', ld_shelf = Some shelf, ld_bin = Some ''3'',
     ld_level = None, ld_type = None\<rparr>"

definition lines_sample :: "line_req list" where
  "lines_sample = [\<lparr>lr_sku_id = None, lr_description = None, lr_quantity = Some 2, lr_unit_price = Some (3 / 2)\<rparr>,
     \<lparr>lr_sku_id = None, lr_description = None, lr_quantity = None, lr_unit_price = Some 5\<rparr>]"

definition po_sample :: po_req where
  "po_sample = \<lparr>por_po_number = ''PO9'', por_vendor_id = None, por_expected_date = None, por_notes = None,
     por_lines = lines_sample\<rparr>"

definition invoice_sample :: invoice_req where
  "invoice_sample = \<lparr>iq_invoice_number = ''I9'', iq_entity_type = ''customer'', iq_entity_id = None, iq_issue_date = None,
     iq_due_date = None, iq_notes = None, iq_lines = lines_sample\<rparr>"

definition memo_sample :: memo_req where
  "memo_sample = \<lparr>mq_credit_memo_number = ''C9'', mq_invoice_id = None, mq_entity_type = ''customer'',
     mq_entity_id = None, mq_issue_date = None, mq_reason = None, mq_notes = None, mq_lines = lines_sample\<rparr>"

section \<open>A network of three hubs\<close>

definition city_address :: "string \<Rightarrow> address_payload" where
  "city_address c = \<lparr>ap_province = None, ap_city = Some c, ap_district = None, ap_street = None, ap_detail = []\<rparr>"

definition parcel :: transport_order where
  "parcel = \<lparr>pk = 7, created_at = 1, updated_at = 1, tr_transport_no = ''TPL-1'', tr_status = TransportStatus_DRAFT,
     tr_carrier_code = None, tr_pickup_warehouse_id = None, tr_pickup_address = Some (city_address ''P''),
     tr_delivery_name = ''N'', tr_delivery_phone = None, tr_delivery_address = Some (city_address ''Q''),
     tr_shipment_id = None, tr_packing_record_id = None, tr_package_count = 1, tr_total_weight_kg = 2,
     tr_total_volume_m3 = 0, tr_tracking_number = None, tr_service_type = CarrierServiceType_STANDARD,
     tr_transport_type = TransportType_CARRIER_PICKUP, tr_actual_pickup_time = None, tr_actual_delivery_time = None,
     tr_driver_name = None, tr_driver_phone = None, tr_freight_amount = 0, tr_settlement_status = ''unsettled'',
     tr_notes = None\<rparr>"

definition hub :: "uuid \<Rightarrow> string \<Rightarrow> string \<Rightarrow> transfer_hub" where
  "hub u c t = \<lparr>pk = u, created_at = 1, updated_at = 1, th_code = c, th_name = c, th_hub_type = TransferHubType_PRIMARY,
     th_city = t, th_address = None, th_capacity_weight_kg = 0, th_contact_name = None, th_contact_phone = None,
     th_status = HubStatus_OPEN\<rparr>"

definition conn :: "uuid \<Rightarrow> string \<Rightarrow> string \<Rightarrow> decimal \<Rightarrow> hub_connection" where
  "conn u a b km = \<lparr>pk = u, created_at = 1, updated_at = 1, hc_from_hub_code = a, hc_to_hub_code = b,
     hc_distance_km = km, hc_transit_hours = 1\<rparr>"

definition plan_db :: tms_db where
  "plan_db = empty_db\<lparr>drawn := 20, transport_orders := [parcel],
     transfer_hubs := [hub 11 ''H1'' ''P'', hub 12 ''H2'' ''M'', hub 13 ''H3'' ''Q''],
     hub_connections := [conn 14 ''H1'' ''H2'' 10, conn 15 ''H2'' ''H3'' 10, conn 16 ''H1'' ''H3'' 50]\<rparr>"

lemma plan_db_simps [simp]:
  "transport_orders plan_db = [parcel]"
  "transfer_hubs plan_db = [hub 11 ''H1'' ''P'', hub 12 ''H2'' ''M'', hub 13 ''H3'' ''Q'']"
  "hub_connections plan_db = [conn 14 ''H1'' ''H2'' 10, conn 15 ''H2'' ''H3'' 10, conn 16 ''H1'' ''H3'' 50]"
  "carrier_routes plan_db = []" "route_plans plan_db = []" "pk parcel = 7"
  by (simp_all add: plan_db_def parcel_def)

definition transport_data :: transport_req where
  "transport_data = \<lparr>tq_carrier_code = None, tq_pickup_warehouse_id = None, tq_pickup_address = Some (city_address ''P''),
     tq_delivery_name = Some ''N'', tq_delivery_phone = None, tq_delivery_address = Some (city_address ''Q''),
     tq_shipment_id = None, tq_packing_record_id = None, tq_package_count = 1, tq_total_weight_kg = 2,
     tq_total_volume_m3 = 0, tq_service_type = ''standard'', tq_transport_type = ''carrier_pickup'',
     tq_driver_name = None, tq_driver_phone = None, tq_notes = None\<rparr>"

definition pod_sample :: pod_req where
  "pod_sample = \<lparr>pq_transport_order_id = None, pq_signed_by = Some ''Li'', pq_signature_type = None,
     pq_signature_image_url = None, pq_delivery_photo_urls = None, pq_delivered_to_address = None, pq_notes = None,
     pq_json = JNull\<rparr>"

section \<open>Returns, tiers and devices\<close>

definition return_data :: return_req where
  "return_data = \<lparr>eq_return_reason = ''damaged'', eq_reason_detail = None, eq_return_order_id = None, eq_return_carrier_code = None,
     eq_return_tracking_number = None, eq_pickup_address = None, eq_destination_warehouse_id = None, eq_refund_amount = None\<rparr>"

definition return9 :: return_order where
  "return9 = \<lparr>pk = 9, created_at = 1, updated_at = 1, rt_return_no = ''RTN-1'', rt_status = ReturnStatus_REQUESTED,
     rt_shipment_status = ReturnShipmentStatus_PENDING, rt_reason = ReturnReason_DAMAGED, rt_reason_detail = None,
     rt_transport_order_id = None, rt_carrier_code = None, rt_return_tracking_number = None, rt_pickup_address = JObj [],
     rt_destination_warehouse_id = None, rt_refund_amount = 0\<rparr>"

definition return_db :: tms_db where
  "return_db = empty_db\<lparr>return_orders := [return9]\<rparr>"

definition tier_db :: tms_db where
  "tier_db = empty_db\<lparr>freight_tiers := [\<lparr>pk = 9, created_at = 1, updated_at = 1, ft_carrier_code = CarrierCode_ZTO,
     ft_rule_type = FreightRule_WEIGHT_TIERED, ft_min_value = 0, ft_max_value = Some 10, ft_price_per_unit = 7 / 2,
     ft_surcharge_express = 5\<rparr>]\<rparr>"

definition forecast_query :: forecast_req where
  "forecast_query = \<lparr>oq_origin_city = None, oq_destination_city = None, oq_count = 0, oq_days = Some 2\<rparr>"

definition device_data :: device_req where
  "device_data = \<lparr>vq_code = ''PDA-1'', vq_name = None, vq_device_type = None, vq_platform = None, vq_os_version = None,
     vq_app_version = None, vq_warehouse_id = None, vq_config = None, vq_push_token = None\<rparr>"

end
