(* ===== verification/Core_Properties.thy ===== *)
theory Core_Properties
  imports Samples
begin

text \<open>
  The properties of the shared core: identifiers, pages and the product catalogue, stated
  over \<open>Uuid\<close> and \<open>Catalog\<close>.
\<close>

section \<open>Identifiers\<close>

theorem identifier_round_trip:
  "to_uuid (show_uuid u) = Inr u \<and> safe_uuid (show_uuid u) = Some u \<and> to_uuid_opt (Some (show_uuid u)) = Inr (Some u) \<and>
   (show_uuid u = show_uuid v \<longleftrightarrow> u = v)"
  by (simp add: show_uuid_inj)

section \<open>Pages\<close>

text \<open>
  The pages that the pagination announces for a positive page size, one after the other, are
  the rows of the query, each exactly once and in order, the total is the number of rows and no
  announced page is empty.
\<close>

theorem pages_partition_the_rows:
  assumes "0 < n" "paginate t p n = Inr r"
  shows "concat (map (\<lambda>i. page_items t (int i + 1) n) [0..<nat (pr_total_pages r)]) = t \<and>
    pr_total r = int (length t) \<and> (pr_total_pages r - 1) * n < int (length t)"
proof (cases "t = []")
  case True
  with assms show ?thesis by (auto simp: paginate_def Let_def)
next
  case False
  have r: "pr_total r = int (length t)"
    "pr_total_pages r = \<lceil>(of_nat (length t) :: rat) / of_int n\<rceil>"
    using assms False by (auto simp: paginate_def Let_def)
  have "of_int (pr_total_pages r - 1) < (of_nat (length t) :: rat) / of_int n"
    unfolding r(2) by linarith
  then have "of_int ((pr_total_pages r - 1) * n) < (of_int (int (length t)) :: rat)"
    using assms(1) by (simp add: field_simps)
  then have "(pr_total_pages r - 1) * n < int (length t)" by (simp only: of_int_less_iff)
  moreover have "concat (map (\<lambda>i. page_items t (int i + 1) n) [0..<nat (pr_total_pages r)]) = t"
    using concat_pages[OF assms(1), of t "nat (pr_total_pages r)"] total_pages_cover[OF assms] by simp
  ultimately show ?thesis using r(1) by blast
qed

theorem pages_partition_the_rows_witness:
  "case paginate [10, 20, 30 :: int] 1 2 of
     Inl e \<Rightarrow> False
   | Inr r \<Rightarrow> concat (map (\<lambda>i. page_items [10, 20, 30 :: int] (int i + 1) 2) [0..<nat (pr_total_pages r)]) = [10, 20, 30]"
proof -
  have "\<exists>r. paginate [10, 20, 30 :: int] 1 2 = Inr r" by (simp add: paginate_def Let_def)
  then obtain r where r: "paginate [10, 20, 30 :: int] 1 2 = Inr r" by blast
  have n: "(0::int) < 2" by simp
  from pages_partition_the_rows[OF n r] show ?thesis by (simp add: r)
qed

section \<open>The catalogue\<close>

theorem product_lookup_is_idempotent:
  assumes "get_or_create_sku env s d = Inr (d', r)"
  shows "get_or_create_sku env' s d' = Inr (d', r) \<and> sku_code r = s \<and> (\<exists>rs. skus d' = skus d @ rs)"
  using sku_goc.goc_again[OF assms] sku_goc.goc_name[OF assms] sku_goc.goc_extends[OF assms] by simp

theorem product_lookup_is_idempotent_witness:
  "case get_or_create_sku env0 ''A'' empty_db of
     Inl e \<Rightarrow> False
   | Inr (d', r) \<Rightarrow> get_or_create_sku env0 ''A'' d' = Inr (d', r) \<and> length (skus d') = 1"
proof -
  have "\<exists>d' r. get_or_create_sku env0 ''A'' empty_db = Inr (d', r) \<and> length (skus d') = 1"
    by (simp add: sample_eval)
  then obtain d' r where g: "get_or_create_sku env0 ''A'' empty_db = Inr (d', r)" "length (skus d') = 1" by blast
  from product_lookup_is_idempotent[OF g(1)] g show ?thesis by simp
qed

end
