(* ===== verification/Oms_Properties.thy ===== *)
theory Oms_Properties
  imports Samples
begin

text \<open>
  The properties of the order service, stated over the definitions of \<open>Oms_Service\<close> and
  \<open>Oms_Merge\<close>, each with a concrete instance where it has a hypothesis.
\<close>

section \<open>Creating and reading an order\<close>

text \<open>
  C6: An order just created is returned by its identifier as it was answered, with one line per
  requested item, in the requested order, the requested total and the status draft.
\<close>

theorem created_order_reads_back:
  assumes "create_order env data d = Inr (d', v)" "oms_ok env cap d" "drawn d' \<le> cap"
  shows "get_order (ov_id v) d' = Inr v \<and> ov_items v = map requested_view (rq_items data) \<and>
    ov_customer_id v = rq_customer_id data \<and> ov_total_amount v = req_total (rq_items data) \<and> ov_status v = ''draft''"
proof -
  from create_order_effect(2)[OF assms] obtain order where
    "v = order_to_dict d' order None" "ord_status order = OrderStatus_PENDING"
    "ord_total_amount order = req_total (rq_items data)" by blast
  then show ?thesis
    using create_order_get[OF assms] create_order_effect(3,4)[OF assms] by simp
qed

theorem created_order_reads_back_witness:
  "case create_order env0 order_data empty_db of
     Inl e \<Rightarrow> False
   | Inr (d', v) \<Rightarrow> get_order (ov_id v) d' = Inr v \<and> ov_total_amount v = 15 / 2"
proof -
  obtain d v where c: "create_order env0 order_data empty_db = Inr (d, v)" "drawn d = 7" by (rule sample_order)
  have "oms_ok env0 100 empty_db" using sample_oms_inv by (simp add: oms_inv_def)
  from created_order_reads_back[OF c(1) this] c(2)
  have "get_order (ov_id v) d = Inr v" "ov_total_amount v = req_total (rq_items order_data)" by simp_all
  moreover have "req_total (rq_items order_data) = 15 / 2" by (simp add: order_data_def req_total_def)
  ultimately show ?thesis by (simp add: c)
qed

section \<open>The status history\<close>

text \<open>
  In every reachable state of the order tables, the status log of each order is a run of the
  order state machine from draft that ends in the stored status of the order; no status occurs twice
  in it and it has at most four steps.
\<close>

theorem order_history_is_a_run:
  assumes "oms_reachable (uuid4 env) cap d0 d" "oms_inv env cap d0" "o' \<in> set (orders d)"
  shows "allowed_path order_states ''draft'' (transitions d (pk o')) \<and>
    status_reverse (ord_status o') = last (''draft'' # transitions d (pk o')) \<and>
    length (transitions d (pk o')) \<le> 4 \<and> distinct (''draft'' # transitions d (pk o'))"
proof -
  have "oms_inv env cap d" by (rule oms_reachable_inv[OF assms(1,2) refl])
  with assms(3) have p: "allowed_path order_states ''draft'' (transitions d (pk o'))"
    "status_reverse (ord_status o') = last (''draft'' # transitions d (pk o'))"
    by (simp_all add: oms_inv_def history_ok_def)
  then show ?thesis
    using order_lifecycle.path_length[OF p(1)] order_lifecycle.path_distinct[OF p(1)] by (simp add: order_rank_def)
qed

theorem order_history_is_a_run_witness:
  "\<exists>d v. create_order env0 order_data empty_db = Inr (d, v) \<and>
     (\<exists>o'. o' \<in> set (orders d) \<and> allowed_path order_states ''draft'' (transitions d (pk o')) \<and>
        length (transitions d (pk o')) \<le> 4)"
proof -
  obtain d v where c: "create_order env0 order_data empty_db = Inr (d, v)" "drawn d = 7" by (rule sample_order)
  have "oms_step (uuid4 env0) 100 empty_db d" by (rule step_create[OF c(1) refl]) (simp add: c)
  then have r: "oms_reachable (uuid4 env0) 100 empty_db d" using reach_step reach_refl by blast
  have "oms_ok env0 100 empty_db" using sample_oms_inv by (simp add: oms_inv_def)
  from create_order_effect(2)[OF c(1) this] c(2) obtain o' where o': "o' \<in> set (orders d)" by auto
  with c(1) order_history_is_a_run[OF r sample_oms_inv o'] show ?thesis by blast
qed

lemma update_order_status_accepted:
  assumes "to_uuid order_id = Inr oid" "find_one (\<lambda>o'. pk o' = oid) (orders d) = Inr (Some order)"
    "target \<in> set (order_states (status_reverse (ord_status order)))"
  shows "\<exists>r. update_order_status env http order_id target operator d = Inr r"
proof -
  have "validate_transition (status_reverse (ord_status order)) target = Inr ()" using assms(3) by simp
  then show ?thesis by (simp add: update_order_status_def find_or_raise_def assms(1,2) Let_def)
qed

lemma reached_status:
  assumes "t \<in> set (order_states s)"
  shows "status_reverse (get_default OrderStatus_PENDING (status_map t)) = t"
  using order_states_mapped[OF assms] by (auto simp: status_reverse_map)

text \<open>
  C12: A status update of an existing order succeeds exactly for the targets that the order state
  machine allows, is refused with a validation error otherwise, and a success stores and logs the
  target and leaves customers and items alone.
\<close>

theorem order_status_update_is_guarded:
  assumes "to_uuid order_id = Inr oid" "find_one (\<lambda>o'. pk o' = oid) (orders d) = Inr (Some order)"
  shows "case update_order_status env http order_id target operator d of
      Inl e \<Rightarrow> target \<notin> set (order_states (status_reverse (ord_status order))) \<and> is_validation e
    | Inr (d', v) \<Rightarrow> target \<in> set (order_states (status_reverse (ord_status order))) \<and> ov_status v = target \<and>
        order_items d' = order_items d \<and> customers d' = customers d \<and>
        transitions d' oid = transitions d oid @ [target]"
proof (cases "update_order_status env http order_id target operator d")
  case (Inl e)
  then show ?thesis
    using update_order_status_refused[OF assms, of target env http operator]
      update_order_status_accepted[OF assms, of target env http operator]
    by (cases "target \<in> set (order_states (status_reverse (ord_status order)))") auto
next
  case (Inr r)
  obtain d' v where r: "r = (d', v)" by (cases r)
  have n: "status_reverse s \<noteq> []" for s by (cases s) auto
  from Inr r assms n show ?thesis
    by (auto simp: transitions_def reached_status elim!: update_order_statusE)
qed

theorem order_status_update_is_guarded_witness:
  "(case update_order_status env0 (\<lambda>u p. None) (show_uuid 7) ''confirmed'' ''ops'' order_db of
      Inl e \<Rightarrow> False | Inr (d', v) \<Rightarrow> ov_status v = ''confirmed'' \<and> transitions d' 7 = [''confirmed'']) \<and>
   (case update_order_status env0 (\<lambda>u p. None) (show_uuid 7) ''completed'' ''ops'' order_db of
      Inl e \<Rightarrow> is_validation e | Inr r \<Rightarrow> False)"
proof -
  have f: "to_uuid (show_uuid 7) = Inr 7" "find_one (\<lambda>o'. pk o' = 7) (orders order_db) = Inr (Some order7)"
    by (simp_all add: order_db_def find_one_Some_iff)
  have m: "''confirmed'' \<in> set (order_states (status_reverse (ord_status order7)))"
    "''completed'' \<notin> set (order_states (status_reverse (ord_status order7)))" "transitions order_db 7 = []"
    by (simp_all add: order7_def order_states_def order_db_def transitions_def)
  note g = order_status_update_is_guarded[OF f, where env = env0 and http = "\<lambda>u p. None" and operator = "''ops''"]
  from g[where target = "''confirmed''"] g[where target = "''completed''"] m show ?thesis by (auto split: sum.splits)
qed

theorem deleted_order_is_hidden:
  assumes "delete_order env order_id d = Inr (d', u)"
  shows "get_order order_id d' = Inl (NotFoundException (''Order '' @ order_id @ '' not found'')) \<and>
    length (orders d') = length (orders d) \<and> order_status_logs d' = order_status_logs d"
  using deleted_order_hidden[OF assms] assms by (elim delete_orderE) (simp add: update_where_def)

theorem deleted_order_is_hidden_witness:
  "case delete_order env0 (show_uuid 7) order_db of
     Inl e \<Rightarrow> False
   | Inr (d', u) \<Rightarrow> get_order (show_uuid 7) d' = Inl (NotFoundException (''Order '' @ show_uuid 7 @ '' not found'')) \<and>
       length (orders d') = 2"
proof -
  have "\<exists>d' u. delete_order env0 (show_uuid 7) order_db = Inr (d', u)"
    by (simp add: delete_order_def order_db_def order7_def sample_eval)
  then obtain d' u where d: "delete_order env0 (show_uuid 7) order_db = Inr (d', u)" by blast
  from deleted_order_is_hidden[OF d] show ?thesis by (simp add: d) (simp add: order_db_def)
qed

section \<open>Merging and splitting\<close>

lemma collect_orderE:
  assumes "collect_order d i (os, a, n) = Inr s"
  obtains o' where "to_uuid i = Inr (pk o')" "o' \<in> set (orders d)" "\<not> terminal_order o'"
    "s = (os @ [o'], a + ord_total_amount o', n + int (row_count (\<lambda>oi. oi_order_id oi = pk o') (order_items d)))"
proof -
  from assms obtain u o' where o': "to_uuid i = Inr u" "find_one (\<lambda>o'. pk o' = u) (orders d) = Inr (Some o')"
    "\<not> terminal_order o'"
    "s = (os @ [o'], a + ord_total_amount o', n + int (row_count (\<lambda>oi. oi_order_id oi = u) (order_items d)))"
    unfolding collect_order_def by auto
  with find_one_SomeD(1,2)[OF o'(2)] that show thesis by auto
qed

lemma collect_orders:
  assumes "foldE (collect_order d) ids (os, a, n) = Inr (os', a', n')"
  shows "\<exists>rows. os' = os @ rows \<and> list_all2 (\<lambda>i o'. to_uuid i = Inr (pk o')) ids rows \<and>
     set rows \<subseteq> {o' \<in> set (orders d). \<not> terminal_order o'} \<and>
     a' = a + sum_list (map ord_total_amount rows) \<and>
     n' = n + sum_list (map (\<lambda>o'. int (row_count (\<lambda>oi. oi_order_id oi = pk o') (order_items d))) rows)"
  using assms
proof (induction ids arbitrary: os a n)
  case Nil
  then show ?case by simp
next
  case (Cons i ids)
  then obtain s where s: "collect_order d i (os, a, n) = Inr s" "foldE (collect_order d) ids s = Inr (os', a', n')"
    by auto
  from s(1) obtain o' where o': "to_uuid i = Inr (pk o')" "o' \<in> set (orders d)" "\<not> terminal_order o'"
    "s = (os @ [o'], a + ord_total_amount o', n + int (row_count (\<lambda>oi. oi_order_id oi = pk o') (order_items d)))"
    by (rule collect_orderE)
  from Cons.IH[OF s(2)[unfolded o'(4)]] obtain rows where "os' = (os @ [o']) @ rows"
    "list_all2 (\<lambda>i o'. to_uuid i = Inr (pk o')) ids rows"
    "set rows \<subseteq> {o' \<in> set (orders d). \<not> terminal_order o'}"
    "a' = a + ord_total_amount o' + sum_list (map ord_total_amount rows)"
    "n' = n + int (row_count (\<lambda>oi. oi_order_id oi = pk o') (order_items d)) +
       sum_list (map (\<lambda>o'. int (row_count (\<lambda>oi. oi_order_id oi = pk o') (order_items d))) rows)" by blast
  with o' show ?case by (intro exI[of _ "o' # rows"]) simp
qed

lemma merge_attempts_group:
  assumes "merge_attempts env af wid nt ti ta n mc d = Inr (d', g)"
  shows "mg_total_items g = ti \<and> mg_total_amount g = ta \<and> mg_code g \<notin> mg_code ` set (merge_groups d) \<and>
    merge_groups d' = merge_groups d @ [g]"
  using assms
proof (induction env af wid nt ti ta n mc d rule: merge_attempts.induct)
  case (2 env af wid nt ti ta n mc d)
  then show ?case
    by (auto simp: Let_def insert_row_def tick_def insert_unique_def split: sum.splits if_splits option.splits)
qed simp

text \<open>
  C11: Merging orders succeeds only for at least two identifiers of existing orders, none of them
  finished or cancelled; the group has their sum of amounts and their number of lines, and a group
  code that was not in use, and the orders themselves do not change.
\<close>

theorem merged_group_totals:
  assumes "merge_orders env af ids given_code wid nt d = Inr (d', v)"
  shows "\<exists>rows. list_all2 (\<lambda>i o'. to_uuid i = Inr (pk o')) ids rows \<and>
      set rows \<subseteq> {o' \<in> set (orders d). \<not> terminal_order o'} \<and> 2 \<le> length rows \<and>
      mv_order_ids v = map (\<lambda>o'. show_uuid (pk o')) rows \<and>
      mv_total_amount v = sum_list (map ord_total_amount rows) \<and>
      mv_total_items v = sum_list (map (\<lambda>o'. int (row_count (\<lambda>oi. oi_order_id oi = pk o') (order_items d))) rows) \<and>
      mv_code v \<notin> mg_code ` set (merge_groups d) \<and> orders d' = orders d"
proof -
  from assms obtain os ta ti code d1 g where l: "2 \<le> length ids"
    and c: "foldE (collect_order d) ids ([], 0, 0) = Inr (os, ta, ti)"
    and m: "merge_attempts env af wid nt ti ta 3 code d = Inr (d1, g)"
    and r: "d' = fold (add_merge_link env (pk g)) os d1" "v = group_to_dict g (map pk os)"
    unfolding merge_orders_def Let_def by auto
  from collect_orders[OF c] obtain rows where "os = rows" "list_all2 (\<lambda>i o'. to_uuid i = Inr (pk o')) ids rows"
    "set rows \<subseteq> {o' \<in> set (orders d). \<not> terminal_order o'}" "ta = sum_list (map ord_total_amount rows)"
    "ti = sum_list (map (\<lambda>o'. int (row_count (\<lambda>oi. oi_order_id oi = pk o') (order_items d))) rows)" by auto
  moreover have "orders d1 = orders d"
    using arg_cong[OF conjunct1[OF merge_attempts_frame[OF m]], of orders] by simp
  moreover have "orders d' = orders d1"
    using arg_cong[OF conjunct1[OF add_merge_links_frame[of env "pk g" os d1]], of orders] by (simp add: r(1))
  ultimately show ?thesis
    using merge_attempts_group[OF m] l by (auto simp: r(2) group_to_dict_def list_all2_lengthD intro!: exI[of _ rows])
qed

theorem merged_group_totals_witness:
  "case merge_orders env0 None [show_uuid 7, show_uuid 8] None None [] order_db of
     Inl e \<Rightarrow> False | Inr (d', v) \<Rightarrow> 2 \<le> length (mv_order_ids v) \<and> orders d' = orders order_db"
proof -
  have "\<exists>d' v. merge_orders env0 None [show_uuid 7, show_uuid 8] None None [] order_db = Inr (d', v)"
    by (simp add: merge_orders_def collect_order_def terminal_order_def order_db_def order7_def order8_def sample_eval
        uuid_if_truthy_def numeral_3_eq_3)
  then obtain d' v where m: "merge_orders env0 None [show_uuid 7, show_uuid 8] None None [] order_db = Inr (d', v)" by blast
  from merged_group_totals[OF m] show ?thesis by (auto simp: m)
qed

lemma sum_order_by: "sum_list (map f (order_by k t)) = (sum_list (map f t) :: 'n::comm_monoid_add)"
  unfolding order_by_def by (metis mset_map mset_sort sum_mset_sum_list)

definition view_total_ok :: "order_view \<Rightarrow> bool" where
  "view_total_ok v \<longleftrightarrow> ov_total_amount v = sum_list (map iv_subtotal (ov_items v)) \<and> ov_status v = ''draft''"

lemma split_child_total:
  assumes "split_child env par il reason (i, sp) (d, vs) = Inr (d', vs')" "oms_inv env cap d" "drawn d' \<le> cap"
  shows "\<exists>v. vs' = vs @ [v] \<and> view_total_ok v \<and> length (ov_items v) = length (sp_items sp)"
  using assms(1)
proof (rule split_childE)
  fix n rows child link total
  assume c: "pk child = uuid4 env (drawn d)" "ord_status child = OrderStatus_PENDING" "Suc (drawn d) \<le> n"
    and d': "d' = d\<lparr>drawn := Suc n, order_items := order_items d @ rows,
        split_child_orders := split_child_orders d @ [link],
        orders := update_where (\<lambda>o'. pk o' = pk child)
           (\<lambda>o'. o'\<lparr>ord_total_amount := total, updated_at := now env\<rparr>) (orders d @ [child])\<rparr>"
    and r: "\<forall>r\<in>set rows. oi_order_id r = pk child" "length rows = length (sp_items sp)"
      "total = sum_list (map (\<lambda>r. oi_unit_price r * of_int (oi_quantity r)) rows)"
    and vs: "vs' = vs @ [order_to_dict d' (child\<lparr>ord_total_amount := total\<rparr>) None]"
  have ok: "oms_ok env cap d" using assms(2) by (simp add: oms_inv_def)
  have "fresh_ids env cap (drawn d) (pk ` set (orders d))" using ok by (simp add: oms_ok_def)
  from fresh_ids_notin[OF this] have "pk child \<notin> pk ` set (orders d)" using c assms(3) d' by simp
  then have "\<forall>r\<in>set (order_items d). oi_order_id r \<noteq> pk child" using ok unfolding oms_ok_def by (metis imageI subsetD)
  then have "select_where (\<lambda>oi. oi_order_id oi = pk child) (order_items d') = rows"
    using r(1) d' by (simp add: select_where_def filter_empty_conv)
  then have "view_total_ok (order_to_dict d' (child\<lparr>ord_total_amount := total\<rparr>) None) \<and>
      length (ov_items (order_to_dict d' (child\<lparr>ord_total_amount := total\<rparr>) None)) = length (sp_items sp)"
    using c(2) r(2,3) by (simp add: view_total_ok_def order_to_dict_def item_to_dict_def Let_def o_def
        sum_order_by[unfolded order_by_def] order_by_def)
  with vs show ?thesis by blast
qed

lemma split_children_totals:
  assumes "foldE (split_child env par il reason) xs (d, vs) = Inr (d', vs')" "oms_inv env cap d" "drawn d' \<le> cap"
  shows "\<exists>ws. vs' = vs @ ws \<and> list_all2 (\<lambda>x v. view_total_ok v \<and> length (ov_items v) = length (sp_items (snd x))) xs ws"
  using assms
proof (induction xs arbitrary: d vs)
  case (Cons x xs)
  obtain i sp where x: "x = (i, sp)" by (cases x)
  from Cons.prems(1) obtain s where s: "split_child env par il reason x (d, vs) = Inr s"
    "foldE (split_child env par il reason) xs s = Inr (d', vs')" by auto
  obtain d1 vs1 where s1: "s = (d1, vs1)" by (cases s)
  have le: "drawn d1 \<le> cap" using split_children_drawn[OF s(2)[unfolded s1]] Cons.prems(3) by simp
  note step = s(1)[unfolded x s1]
  from split_child_total[OF step Cons.prems(2) le] obtain v where v: "vs1 = vs @ [v]" "view_total_ok v"
    "length (ov_items v) = length (sp_items sp)" by blast
  from Cons.IH[OF s(2)[unfolded s1] split_child_inv(1)[OF step Cons.prems(2) le] Cons.prems(3)] obtain ws
    where "vs' = vs1 @ ws" "list_all2 (\<lambda>x v. view_total_ok v \<and> length (ov_items v) = length (sp_items (snd x))) xs ws"
    by blast
  with v show ?case by (intro exI[of _ "v # ws"]) (simp add: x)
qed simp

text \<open>
  C10: Splitting an order gives one child for each requested part, in order, each in status draft
  with one line per requested item and a total that is the sum of its lines.
\<close>

theorem split_orders_carry_their_items:
  assumes "split_order env order_id splits reason d = Inr (d', vs)" "oms_inv env cap d" "drawn d' \<le> cap"
  shows "list_all2 (\<lambda>sp v. ov_total_amount v = sum_list (map iv_subtotal (ov_items v)) \<and>
      ov_status v = ''draft'' \<and> length (ov_items v) = length (sp_items sp)) splits vs"
proof -
  from assms(1) obtain order il where
    "foldE (split_child env order il reason) (enumerate 0 splits) (d, []) = Inr (d', vs)"
    unfolding split_order_def by auto
  from split_children_totals[OF this assms(2,3)] show ?thesis
    by (auto simp: list_all2_conv_all_nth view_total_ok_def nth_enumerate_eq)
qed

theorem split_orders_carry_their_items_witness:
  "case split_order env0 (show_uuid 7) [split_data] [] order_db of
     Inl e \<Rightarrow> False
   | Inr (d', vs) \<Rightarrow> map (\<lambda>v. (ov_status v, length (ov_items v))) vs = [(''draft'', 1)]"
proof -
  have i: "oms_inv env0 100 order_db"
    using env0_inj by (simp add: oms_inv_def oms_ok_def skus_ok_def history_ok_def fresh_ids_def transitions_def
        order_db_def env0_unused order7_def order8_def)
  have "\<exists>d' vs. split_order env0 (show_uuid 7) [split_data] [] order_db = Inr (d', vs) \<and> drawn d' = 23"
    by (simp add: split_order_def split_child_def split_item_def order_db_def order7_def order8_def split_data_def
        sample_eval)
  then obtain d' vs where s: "split_order env0 (show_uuid 7) [split_data] [] order_db = Inr (d', vs)" "drawn d' = 23"
    by blast
  from split_orders_carry_their_items[OF s(1) i] s(2) show ?thesis
    unfolding s(1) by (auto simp: list_all2_Cons1 split_data_def)
qed

end
