(* ===== verification/Wms_Properties.thy ===== *)
theory Wms_Properties
  imports Samples
begin

text \<open>
  The properties of the warehouse services, stated over \<open>Wms_Warehouse\<close>, \<open>Wms_Inventory\<close>,
  \<open>Wms_Picking\<close>, \<open>Wms_Procure\<close> and \<open>Wms_Stock\<close>.
\<close>

section \<open>Adjusting stock\<close>



definition batch4_after :: inventory where
  "batch4_after = batch4\<lparr>inv_quantity := 2, updated_at := 1000, inv_version := 1\<rparr>"

lemma batch_fields:
  "inv_quantity batch4 = 4" "inv_version batch4 = 0" "inv_quantity batch5 = 6" "inv_version batch5 = 0"
  "pk batch4_after = 4" "inv_quantity batch4_after = 2" "inv_version batch4_after = 1"
  by (simp_all add: batch4_after_def batch4_def batch5_def)

lemma adjust_data_fields:
  "aj_quantity (adjust_data q) = q" "aj_picking_strategy (adjust_data q) = None" "aj_sku (adjust_data q) = ''A''"
  "to_uuid (aj_warehouse_id (adjust_data q)) = Inr 1" "to_uuid (aj_location_id (adjust_data q)) = Inr 2"
  by (simp_all add: adjust_data_def)

lemma sample_places: "find_one (\<lambda>w. pk w = 1) [wh1] = Inr (Some wh1)" "find_one (\<lambda>l. pk l = 2) [loc2] = Inr (Some loc2)"
  by (simp_all add: find_one_Some_iff)

lemma sku_pk_new: "pk (new_sku env0 3 ''A'') = 3"
  by (simp add: new_sku_def)







text \<open>
  C31: A deduction larger than the quantity on hand in the first batch, locked units included, that
  the unlocked quantities of all batches of the location cover together is never made, although the
  warehouse, the location and the product exist and no other transaction interferes: the loop uses
  up its attempts, the tables stay as they are, and the call answers with the unchanged first batch,
  or with the error of the lazy load where the row was expired, but never with the conflict its
  docstring announces.
\<close>

theorem short_first_batch_blocks_the_deduction:
  assumes "to_uuid (aj_warehouse_id data) = Inr w" "to_uuid (aj_location_id data) = Inr l"
    and "find_one (\<lambda>x. pk x = w) (warehouses d) = Inr (Some wh)" "find_one (\<lambda>x. pk x = l) (locations d) = Inr (Some loc)"
    and "find_one (\<lambda>r. sku_code r = aj_sku data) (skus d) = Inr (Some s)"
    and "aj_quantity data < 0" "distinct (map pk (inventory_rows d))"
    and "pick_batches (Some w) (Some l) (pk s) (get_default ''fefo'' (aj_picking_strategy data)) d = (ir, a) # rest"
    and "- aj_quantity data \<le> a + sum_list (map snd rest)" "inv_quantity ir < - aj_quantity data"
  shows "adjust_inventory env (\<lambda>_ x. x) committing None data d = Inr (d, inv_to_dict ir (aj_sku data)) \<and>
    adjust_inventory env (\<lambda>_ x. x) committing (Some MissingGreenlet) data d = Inl MissingGreenlet"
proof -
  have "(ir, a) \<in> set (pick_batches (Some w) (Some l) (pk s) (get_default ''fefo'' (aj_picking_strategy data)) d)"
    by (simp add: assms(8))
  then have "ir \<in> set (inventory_rows d)" by (simp only: pick_batches_members)
  then have row: "db_get (pk ir) (inventory_rows d) = Some ir" by (rule db_get_pk[OF assms(7)])
  have g: "get_or_create_sku env (aj_sku data) d = Inr (d, s)" by (simp add: get_or_create_sku_def assms(5))
  note short = adjust_first_batch_short[OF assms(6,8-10)]
  show ?thesis
    by (simp add: adjust_inventory_def find_or_raise_def assms(1-4) g short row del: adjust_loop.simps)
qed

theorem short_first_batch_blocks_the_deduction_witness:
  "adjust_inventory env0 (\<lambda>_ x. x) (\<lambda>_. None) None (adjust_data (-7)) stock_db = Inr (stock_db, inv_to_dict batch4 ''A'') \<and>
   adjust_inventory env0 (\<lambda>_ x. x) (\<lambda>_. None) (Some MissingGreenlet) (adjust_data (-7)) stock_db = Inl MissingGreenlet"
proof -
  have "adjust_inventory env0 (\<lambda>_ x. x) (\<lambda>_. None) None (adjust_data (-7)) stock_db =
      Inr (stock_db, inv_to_dict batch4 (aj_sku (adjust_data (-7)))) \<and>
    adjust_inventory env0 (\<lambda>_ x. x) (\<lambda>_. None) (Some MissingGreenlet) (adjust_data (-7)) stock_db = Inl MissingGreenlet"
    by (rule short_first_batch_blocks_the_deduction[where w = 1 and l = 2 and wh = wh1 and loc = loc2 and
          s = "new_sku env0 3 ''A''" and a = 4 and rest = "[(batch5, 6)]"])
      (simp_all add: adjust_data_def find_one_Some_iff sample_pick_batches, simp add: batch4_def)
  then show ?thesis by (simp add: adjust_data_def)
qed

text \<open>
  C36: A stock count that commits between the read and the write of a deduction is overwritten: the
  count sets quantities and leaves the versions of the rows, so the deduction meets the version it
  expects and stores what it read less its own quantity, whatever was counted. The deduction is one
  that its first batch covers, of a product, a warehouse and a location that exist.
\<close>

theorem count_is_overwritten:
  assumes "adjust_stock_count env2 counts d = Inr (dc, msg)" "others 0 d = dc"
    and "to_uuid (aj_warehouse_id data) = Inr w" "to_uuid (aj_location_id data) = Inr l"
    and "find_one (\<lambda>x. pk x = w) (warehouses d) = Inr (Some wh)" "find_one (\<lambda>x. pk x = l) (locations d) = Inr (Some loc)"
    and "find_one (\<lambda>r. sku_code r = aj_sku data) (skus d) = Inr (Some s)"
    and "aj_quantity data < 0" "distinct (map pk (inventory_rows d))"
    and "pick_batches (Some w) (Some l) (pk s) (get_default ''fefo'' (aj_picking_strategy data)) d = (ir, a) # rest"
    and "- aj_quantity data \<le> a + sum_list (map snd rest)" "- aj_quantity data \<le> inv_quantity ir"
  shows "\<exists>d' row. adjust_inventory env others (\<lambda>_. None) reload data d = Inr (d', inv_to_dict row (aj_sku data)) \<and>
    db_get (pk ir) (inventory_rows d') = Some row \<and> inv_quantity row = inv_quantity ir + aj_quantity data"
proof -
  have "(ir, a) \<in> set (pick_batches (Some w) (Some l) (pk s) (get_default ''fefo'' (aj_picking_strategy data)) d)"
    by (simp add: assms(10))
  then have "ir \<in> set (inventory_rows d)" by (simp only: pick_batches_members)
  then have row: "db_get (pk ir) (inventory_rows d) = Some ir" by (rule db_get_pk[OF assms(9)])
  have g: "get_or_create_sku env (aj_sku data) d = Inr (d, s)" by (simp add: get_or_create_sku_def assms(7))
  have "keeps_versions d (others 0 d)" using stock_count_keeps_versions[OF assms(1)] assms(2) by simp
  from deduction_overwrites[where others = others and d = d, OF this assms(8,10-12) row]
  obtain d' row where "adjust_loop env others (\<lambda>_. None) reload data w l (pk s) 0 3 d d = Inr (d', ir)"
    "db_get (pk ir) (inventory_rows d') = Some row" "inv_quantity row = inv_quantity ir + aj_quantity data" by blast
  then show ?thesis
    by (intro exI[of _ d'] exI[of _ row]) (simp add: adjust_inventory_def find_or_raise_def assms(3-6) g del: adjust_loop.simps)
qed

text \<open>Of four units in stock the count finds nine; a deduction of three leaves one.\<close>

definition one_batch_db :: tms_db where
  "one_batch_db = stock_db\<lparr>inventory_rows := [batch4]\<rparr>"

definition recount :: count_req where
  "recount = count_data\<lparr>cq_count_results := [\<lparr>ci_sku = ''A'', ci_actual_qty = Some 9, ci_actual_qty_count = None\<rparr>]\<rparr>"

lemma one_batch_simps [simp]:
  "warehouses one_batch_db = [wh1]" "locations one_batch_db = [loc2]" "skus one_batch_db = [new_sku env0 3 ''A'']"
  "inventory_rows one_batch_db = [batch4]"
  by (simp_all add: one_batch_db_def)

theorem count_is_overwritten_witness:
  "\<exists>dc msg d' v row. adjust_stock_count env0 recount one_batch_db = Inr (dc, msg) \<and> total_stock dc = 9 \<and>
     adjust_inventory env0 (\<lambda>_ _. dc) (\<lambda>_. None) None (adjust_data (-3)) one_batch_db = Inr (d', v) \<and>
     db_get 4 (inventory_rows d') = Some row \<and> inv_quantity row = 1"
proof -
  have "\<exists>dc msg. adjust_stock_count env0 recount one_batch_db = Inr (dc, msg) \<and> total_stock dc = 9"
    by (simp add: adjust_stock_count_def count_step_def recount_def count_data_def resolve_count_warehouse_def actual_qty_raw_def
        sample_eval or_str_def one_batch_db_def update_where_def total_stock_def) (simp add: batch4_def)
  then obtain dc msg where c: "adjust_stock_count env0 recount one_batch_db = Inr (dc, msg)" "total_stock dc = 9" by blast
  have pick: "pick_batches (Some 1) (Some 2) 3 ''fefo'' one_batch_db = [(batch4, 4)]"
    by (simp add: pick_batches_def order_batches_def order_by_def select_where_def batch4_def nulls_last_def available_def)
  have "\<exists>d' row. adjust_inventory env0 (\<lambda>_ _. dc) (\<lambda>_. None) None (adjust_data (-3)) one_batch_db =
        Inr (d', inv_to_dict row (aj_sku (adjust_data (-3)))) \<and>
      db_get (pk batch4) (inventory_rows d') = Some row \<and> inv_quantity row = inv_quantity batch4 + aj_quantity (adjust_data (-3))"
    by (rule count_is_overwritten[OF c(1), where w = 1 and l = 2 and wh = wh1 and loc = loc2 and
          s = "new_sku env0 3 ''A''" and a = 4 and rest = "[]"])
      (simp_all add: adjust_data_fields sample_places pick sku_pk_new batch_fields find_one_Some_iff)
  with c show ?thesis by (simp add: adjust_data_fields batch_fields) blast
qed

section \<open>Counting and picking\<close>

text \<open>
  After a stock count each counted product has exactly the counted quantity stored, up to the
  rounding to three decimals, at the counted warehouse and location, whether it had stock there
  before or not.
\<close>

theorem counts_are_stored:
  assumes "adjust_stock_count env data d = Inr (d', m)" "count_inv env cap d" "drawn d' \<le> cap"
    and "distinct (map ci_sku (cq_count_results data))" "resolve_count_warehouse data d = Inr w"
    and "item \<in> set (cq_count_results data)"
  shows "\<exists>l q so s. to_uuid (get_default [] (or_str (cq_location_id data) (Some (get_default [] (cq_target_location_id data))))) = Inr l \<and>
    so \<in> set (skus d') \<and> sku_code so = ci_sku item \<and> actual_qty_raw item = Some q \<and>
    stored_qty w l so d' = Inr s \<and> \<bar>q - s\<bar> < 1 / 1000"
  using adjust_stock_count_post[OF assms(1-5)] assms(6) unfolding counted_def by blast

theorem counts_are_stored_witness:
  "case adjust_stock_count env0 count_data stock_db of
     Inl e \<Rightarrow> False
   | Inr (d', m) \<Rightarrow> \<exists>so s. so \<in> set (skus d') \<and> sku_code so = ''C'' \<and> stored_qty (Some 1) 2 so d' = Inr s \<and> \<bar>9 - s\<bar> < 1 / 1000"
proof -
  have "\<exists>d' m. adjust_stock_count env0 count_data stock_db = Inr (d', m) \<and> drawn d' = 23"
    by (simp add: adjust_stock_count_def count_step_def count_data_def resolve_count_warehouse_def actual_qty_raw_def
        sample_eval or_str_def batch4_def batch5_def)
  then obtain d' m where c: "adjust_stock_count env0 count_data stock_db = Inr (d', m)" "drawn d' = 23" by blast
  have i: "count_inv env0 100 stock_db"
    using env0_inj by (simp add: count_inv_def skus_ok_def fresh_ids_def env0_unused env0_big)
  have "\<exists>l q so s. to_uuid (get_default [] (or_str (cq_location_id count_data) (Some (get_default [] (cq_target_location_id count_data))))) = Inr l \<and>
    so \<in> set (skus d') \<and> sku_code so = ci_sku (hd (cq_count_results count_data)) \<and>
    actual_qty_raw (hd (cq_count_results count_data)) = Some q \<and>
    stored_qty (Some 1) l so d' = Inr s \<and> \<bar>q - s\<bar> < 1 / 1000"
    by (rule counts_are_stored[OF c(1) i]) (simp_all add: c(2) count_data_def resolve_count_warehouse_def sample_eval)
  then show ?thesis
    unfolding c(1) by (simp add: count_data_def sample_eval or_str_def actual_qty_raw_def)
qed

lemma sum_positive_part:
  assumes "\<And>t. t \<in> set (map snd xs) \<Longrightarrow> 0 \<le> t"
  shows "sum_list (map snd (filter (\<lambda>(b, t). 0 < t) xs)) = (sum_list (map snd xs) :: int)"
  using assms by (induction xs) (force+)

text \<open>
  C8: Picking a product takes the whole units of its batches greedily in the order of their expiry
  dates and batch numbers: each batch gives what the batches before it left to pick, the total is
  the smaller of the request and the stock, the remainder is reported and the stock falls by the
  amount picked.
\<close>

theorem pick_takes_first_expired_first:
  assumes "pick_from_stock env load wh s q d = Inr (d', picked, rest)" "distinct (map pk (inventory_rows d))"
    and "to_uuid wh = Inr w"
  shows "sum_list (map pb_qty picked) = min (max 0 q) (sum_list (map whole_units (stock_batches w s d))) \<and>
    rest = q - sum_list (map pb_qty picked) \<and>
    total_stock d' = total_stock d - of_int (sum_list (map pb_qty picked)) \<and>
    sorted (map (\<lambda>i. (nulls_last (inv_expiry_date i), inv_batch_no i)) (stock_batches w s d)) \<and>
    (\<forall>j<length (stock_batches w s d). row_taken (stock_batches w s d ! j,
        min (whole_units (stock_batches w s d ! j))
            (max 0 (q - sum_list (take j (map whole_units (stock_batches w s d)))))) d')"
proof -
  let ?bs = "stock_batches w s d"
  have nn: "\<forall>u\<in>set (map whole_units ?bs). 0 \<le> u" by simp
  from assms(1,2) obtain w' where w': "to_uuid wh = Inr w'"
    and p: "map (\<lambda>p. (pb_batch_no p, pb_qty p)) picked =
       map (\<lambda>(b, t). (inv_batch_no b, t)) (filter (\<lambda>(b, t). 0 < t) (planned (stock_batches w' s d) q))"
    and r: "rest = q - sum_list (map pb_qty picked)"
      "total_stock d' = total_stock d - of_int (sum_list (map pb_qty picked))"
    and t: "\<forall>bt\<in>set (planned (stock_batches w' s d) q). row_taken bt d'"
    by (rule pick_from_stock_effect)
  with assms(3) have [simp]: "w' = w" by simp
  have "map pb_qty picked = map snd (filter (\<lambda>(b, t). 0 < t) (planned ?bs q))"
    using arg_cong[OF p, of "map snd"] by (simp add: comp_def split_def)
  also have "sum_list \<dots> = sum_list (map snd (planned ?bs q))"
    by (rule sum_positive_part) (use greedy_nonneg[OF nn] in \<open>auto simp: map_snd_planned\<close>)
  finally have "sum_list (map pb_qty picked) = min (max 0 q) (sum_list (map whole_units ?bs))"
    by (simp add: map_snd_planned sum_greedy[OF nn])
  moreover have "row_taken (?bs ! j, min (whole_units (?bs ! j)) (max 0 (q - sum_list (take j (map whole_units ?bs))))) d'"
    if "j < length ?bs" for j
  proof -
    have "planned ?bs q ! j = (?bs ! j, min (whole_units (?bs ! j)) (max 0 (q - sum_list (take j (map whole_units ?bs)))))"
      using greedy_nth[of j "map whole_units ?bs" q] that nn by (simp add: planned_def)
    moreover have "planned ?bs q ! j \<in> set (planned ?bs q)" using that by (intro nth_mem) (simp add: planned_def)
    ultimately show ?thesis using t by auto
  qed
  ultimately show ?thesis using r stock_batches_fefo[of w s d] by auto
qed

theorem pick_takes_first_expired_first_witness:
  "case pick_from_stock env0 (\<lambda>u. Inr ''Product'') (show_uuid 1) ''A'' 5 stock_db of
     Inl e \<Rightarrow> False | Inr (d', picked, rest) \<Rightarrow> sum_list (map pb_qty picked) = 5 \<and> rest = 0 \<and> total_stock d' = 5"
proof -
  have "\<exists>d' picked rest. pick_from_stock env0 (\<lambda>u. Inr ''Product'') (show_uuid 1) ''A'' 5 stock_db = Inr (d', picked, rest)"
    by (simp add: pick_from_stock_def sample_batches sample_eval whole_units_def available_def batch4_def batch5_def)
  then obtain d' picked rest where p: "pick_from_stock env0 (\<lambda>u. Inr ''Product'') (show_uuid 1) ''A'' 5 stock_db =
    Inr (d', picked, rest)" by blast
  have k: "distinct (map pk (inventory_rows stock_db))" "to_uuid (show_uuid 1) = Inr 1" by simp_all
  have "whole_units batch4 = 4" "whole_units batch5 = 6" "total_stock stock_db = 10"
    by (simp_all add: whole_units_def available_def total_stock_def batch4_def batch5_def)
  with pick_takes_first_expired_first[OF p k] show ?thesis by (simp add: p sample_batches)
qed

theorem pick_needs_loaded_products:
  assumes "to_uuid wh = Inr w" "0 < q" "b \<in> set (stock_batches w s d)" "1 \<le> available b"
  shows "pick_from_stock env (\<lambda>u. Inl MissingGreenlet) wh s q d = Inl MissingGreenlet"
proof -
  let ?bs = "stock_batches w s d"
  have nn: "\<forall>u\<in>set (map whole_units ?bs). 0 \<le> u" by simp
  have "1 \<le> whole_units b" using assms(4) by (simp add: whole_units_def le_floor_iff)
  moreover have "whole_units b \<le> sum_list (map whole_units ?bs)"
    using assms(3) by (intro member_le_sum_list) auto
  ultimately have "0 < sum_list (map snd (planned ?bs q))"
    using assms(2) by (simp add: map_snd_planned sum_greedy[OF nn])
  moreover have "0 \<le> t" if "t \<in> set (map snd (planned ?bs q))" for t
    using that greedy_nonneg[OF nn] unfolding map_snd_planned by blast
  ultimately have "filter (\<lambda>(b, t). 0 < t) (planned ?bs q) \<noteq> []"
    using sum_positive_part[of "planned ?bs q"] by auto
  then show ?thesis
    using assms(1,3) by (auto simp: pick_from_stock_def Let_def raise_if_def intro!: pick_loop_missing)
qed

theorem pick_needs_loaded_products_witness:
  "pick_from_stock env0 (\<lambda>u. Inl MissingGreenlet) (show_uuid 1) ''A'' 5 stock_db = Inl MissingGreenlet"
  by (rule pick_needs_loaded_products[where w = 1 and b = batch4])
    (simp_all add: sample_batches available_def, simp add: batch4_def)

section \<open>Waves, documents and warehouses\<close>

theorem completed_wave_stays_completed:
  assumes "complete_picking env wave_id d = Inr (d', v)"
  shows "pw_status v = ''completed'' \<and> pw_completed_items v = pw_total_items v \<and> find_wave wave_id d' = Inr v \<and>
    start_picking env2 wave_id who d' = Inl (validation ''Wave is already completed'') \<and>
    complete_picking env2 wave_id d' = Inl (validation (''Cannot complete wave in '' @ quoted ''completed'' @ '' status''))"
proof -
  from assms obtain wave where w: "find_wave wave_id d' = Inr v" "pw_status v = ''completed''"
    "pw_completed_items v = pw_total_items v" by (rule complete_picking_wave)
  then show ?thesis
    by (simp add: start_picking_def complete_picking_def start_status_def complete_status_def raise_if_def)
qed

theorem completed_wave_stays_completed_witness:
  "case complete_picking env0 (show_uuid 6) wave_db of
     Inl e \<Rightarrow> False
   | Inr (d', v) \<Rightarrow> pw_completed_items v = 3 \<and>
       start_picking env0 (show_uuid 6) [] d' = Inl (validation ''Wave is already completed'')"
proof -
  have "\<exists>d' v. complete_picking env0 (show_uuid 6) wave_db = Inr (d', v) \<and> pw_total_items v = 3"
    by (simp add: complete_picking_def complete_status_def find_wave_def wave_db_def sample_eval)
  then obtain d' v where w: "complete_picking env0 (show_uuid 6) wave_db = Inr (d', v)" "pw_total_items v = 3" by blast
  from completed_wave_stays_completed[OF w(1)] w(2) show ?thesis by (simp add: w(1))
qed

text \<open>
  The total stored with a new purchase order, invoice or credit memo is the sum of quantity
  times price of the lines stored for it, and a purchase order has one line per requested line.
\<close>

theorem document_totals_are_the_lines:
  assumes "create_purchase_order parse_iso env po_data d = Inr (d1, po)" "po_ready env d d1"
    and "create_invoice parse_iso env iv_data d = Inr (d2, iv)" "inv_ready env d d2"
    and "create_credit_memo parse_iso env cm_data d = Inr (d3, cm)" "memo_ready env d d3"
  shows "po_total_amount po = sum_list (map (\<lambda>(q, p). q * p) (po_lines po d1)) \<and>
    iv_total_amount iv = sum_list (map (\<lambda>(q, p). q * p) (inv_lines iv d2)) \<and>
    cm_total_amount cm = sum_list (map (\<lambda>(q, p). q * p) (memo_lines cm d3)) \<and>
    length (po_lines po d1) = length (por_lines po_data)"
  using po_document.total_is_sum_of_lines[OF assms(1,2)] invoice_document.total_is_sum_of_lines[OF assms(3,4)]
    memo_document.total_is_sum_of_lines[OF assms(5,6)] po_document.stored_lines[OF assms(1,2)] by simp

theorem document_totals_are_the_lines_witness:
  "case (create_purchase_order (\<lambda>_. None) env0 po_sample empty_db, create_invoice (\<lambda>_. None) env0 invoice_sample empty_db,
         create_credit_memo (\<lambda>_. None) env0 memo_sample empty_db) of
     (Inr (d1, po), Inr (d2, iv), Inr (d3, cm)) \<Rightarrow>
       po_total_amount po = sum_list (map (\<lambda>(q, p). q * p) (po_lines po d1)) \<and> length (po_lines po d1) = 2 \<and>
       iv_total_amount iv = sum_list (map (\<lambda>(q, p). q * p) (inv_lines iv d2)) \<and>
       cm_total_amount cm = sum_list (map (\<lambda>(q, p). q * p) (memo_lines cm d3))
   | _ \<Rightarrow> False"
proof -
  have "\<exists>d1 po. create_purchase_order (\<lambda>_. None) env0 po_sample empty_db = Inr (d1, po)"
    "\<exists>d2 iv. create_invoice (\<lambda>_. None) env0 invoice_sample empty_db = Inr (d2, iv)"
    "\<exists>d3 cm. create_credit_memo (\<lambda>_. None) env0 memo_sample empty_db = Inr (d3, cm)"
    by (simp_all add: create_purchase_order_def create_invoice_def create_credit_memo_def po_sample_def
        invoice_sample_def memo_sample_def lines_sample_def uuid_if_truthy_def iso_date_def sample_eval)
  then obtain d1 po d2 iv d3 cm where
    w: "create_purchase_order (\<lambda>_. None) env0 po_sample empty_db = Inr (d1, po)"
    "create_invoice (\<lambda>_. None) env0 invoice_sample empty_db = Inr (d2, iv)"
    "create_credit_memo (\<lambda>_. None) env0 memo_sample empty_db = Inr (d3, cm)" by blast
  have r: "po_ready env0 empty_db d1" "inv_ready env0 empty_db d2" "memo_ready env0 empty_db d3"
    by (simp_all add: po_ready_def inv_ready_def memo_ready_def)
  have "length (por_lines po_sample) = 2" by (simp add: po_sample_def lines_sample_def)
  with document_totals_are_the_lines[OF w(1) r(1) w(2) r(2) w(3) r(3)] show ?thesis by (simp add: w)
qed

theorem goods_are_received_once:
  assumes "receive_goods env po_id d = Inr (d', po')"
  shows "po_status po' = ''received'' \<and>
    receive_goods env2 po_id d' = Inl (validation (''Cannot receive goods for PO in '' @ quoted ''received'' @ '' state''))"
  using assms receive_goods_once[OF assms] by (elim receive_goodsE) simp

theorem goods_are_received_once_witness:
  "case receive_goods env0 (show_uuid 6) po_db of
     Inl e \<Rightarrow> False
   | Inr (d', po') \<Rightarrow>
       receive_goods env0 (show_uuid 6) d' = Inl (validation (''Cannot receive goods for PO in '' @ quoted ''received'' @ '' state''))"
proof -
  have "\<exists>d' po'. receive_goods env0 (show_uuid 6) po_db = Inr (d', po')"
    by (simp add: receive_goods_def receive_status_def find_po_def set_po_status_def po_db_def sample_eval)
  then obtain d' po' where w: "receive_goods env0 (show_uuid 6) po_db = Inr (d', po')" by blast
  from goods_are_received_once[OF w] show ?thesis by (simp add: w)
qed

theorem stock_in_document_reads_back:
  assumes "create_stock_in env data d = Inr (d', obj)" "new_uuid env d \<notin> sd_id ` set (stock_ins d)"
    and "new_uuid env d \<notin> sdl_doc_id ` set (stock_in_lines d)"
  shows "\<exists>ls. get_stock_in (show_uuid (sd_id obj)) d' = Inr (obj, ls) \<and>
    map sdl_sku ls = map dl_sku (dq_lines data) \<and> map sdl_qty ls = map (\<lambda>l. get_default 0 (dl_qty l)) (dq_lines data) \<and>
    sd_status obj = ''DRAFT'' \<and> sd_total_qty obj = quantize4 (sum_list (map sdl_qty ls))"
proof -
  let ?ls = "doc_lines env (sd_id obj) (drawn d + 1) (dq_lines data)"
  have "map sdl_sku ?ls = map dl_sku (dq_lines data)" "map sdl_qty ?ls = map (\<lambda>l. get_default 0 (dl_qty l)) (dq_lines data)"
    by (simp_all add: doc_lines_def doc_line_def list_eq_iff_nth_eq nth_enumerate_eq)
  with create_stock_in_get[OF assms] show ?thesis by (intro exI[of _ ?ls]) simp
qed

theorem stock_in_document_reads_back_witness:
  "case create_stock_in env0 doc_data stock_db of
     Inl e \<Rightarrow> False | Inr (d', obj) \<Rightarrow> \<exists>ls. get_stock_in (show_uuid (sd_id obj)) d' = Inr (obj, ls) \<and> map sdl_qty ls = [5 / 2]"
proof -
  have "\<exists>d' obj. create_stock_in env0 doc_data stock_db = Inr (d', obj)"
    by (simp add: create_stock_in_def doc_warehouse_def doc_data_def doc_total_def line_qty_def sample_eval)
  then obtain d' obj where w: "create_stock_in env0 doc_data stock_db = Inr (d', obj)" by blast
  have "stock_ins stock_db = []" "stock_in_lines stock_db = []" by (simp_all add: stock_db_def)
  with stock_in_document_reads_back[OF w] obtain ls where "get_stock_in (show_uuid (sd_id obj)) d' = Inr (obj, ls)"
    "map sdl_qty ls = map (\<lambda>l. get_default 0 (dl_qty l)) (dq_lines doc_data)" by auto
  moreover have "map (\<lambda>l. get_default 0 (dl_qty l)) (dq_lines doc_data) = [5 / 2]"
    by (simp add: doc_data_def get_default_def)
  ultimately show ?thesis unfolding w by auto
qed

text \<open>
  The stock receipt and the stock issue of the warehouse service never succeed, on any input
  and in any state: the guard compares a member of a plain enumeration with a string.
\<close>

theorem stock_in_always_refuses:
  "(\<exists>e. stock_in env wh data d = Inl e) \<and> (\<exists>e. stock_out env wh data d = Inl e)"
  by (simp add: stock_in_refuses stock_out_refuses)

theorem deleted_warehouse_leaves_no_reference:
  assumes "delete_warehouse env wh_id d = Inr (d', v)" "to_uuid wh_id = Inr w"
  shows "(\<forall>x\<in>set (warehouses d'). pk x \<noteq> w) \<and> (\<forall>l\<in>set (locations d'). loc_warehouse_id l \<noteq> Some w) \<and>
    (\<forall>i\<in>set (inventory_rows d'). inv_warehouse_id i \<noteq> Some w) \<and>
    (\<forall>m\<in>set (stock_movements d'). sm_source_warehouse_id m \<noteq> Some w) \<and>
    (\<forall>p\<in>set (picking_waves d'). pw_warehouse_id p \<noteq> Some w) \<and>
    get_warehouse wh_id d' = Inl (NotFoundException (''Warehouse '' @ wh_id @ '' not found''))"
  using delete_warehouse_clean[OF assms] by blast

theorem deleted_warehouse_leaves_no_reference_witness:
  "case delete_warehouse env0 (show_uuid 1) stock_db of
     Inl e \<Rightarrow> False
   | Inr (d', v) \<Rightarrow> get_warehouse (show_uuid 1) d' = Inl (NotFoundException (''Warehouse '' @ show_uuid 1 @ '' not found''))"
proof -
  have "\<exists>d' v. delete_warehouse env0 (show_uuid 1) stock_db = Inr (d', v)"
    by (simp add: delete_warehouse_def sample_eval)
  then obtain d' v where w: "delete_warehouse env0 (show_uuid 1) stock_db = Inr (d', v)" by blast
  from deleted_warehouse_leaves_no_reference[OF w] show ?thesis by (simp add: w)
qed

theorem location_codes_collide:
  assumes "create_location env wh_id data d = Inr (d', loc)" "take 4 wh_id2 = take 4 wh_id"
    and "get_default [] (ld_zone data2) = get_default [] (ld_zone data)"
    and "get_default [] (ld_aisle data2) = get_default [] (ld_aisle data)"
    and "get_default [] (ld_bin data2) = get_default [] (ld_bin data)"
    and "to_uuid wh_id2 = Inr w2" "find_one (\<lambda>w. pk w = w2) (warehouses d') = Inr (Some wh2)"
    and "to_location_type (get_default ''storage'' (ld_type data2)) = Inr ty2"
  shows "create_location env2 wh_id2 data2 d' = Inl IntegrityError"
  by (rule create_location_collision[OF assms(1) _ assms(6-8)]) (simp add: location_code_def assms(2-5))

theorem location_codes_collide_witness:
  "case create_location env0 (show_uuid 1) (loc_data ''S1'') (stock_db\<lparr>locations := []\<rparr>) of
     Inl e \<Rightarrow> False | Inr (d', loc) \<Rightarrow> create_location env0 (show_uuid 1) (loc_data ''S2'') d' = Inl IntegrityError"
proof -
  have t: "to_location_type ''storage'' = Inr LocationType_STORAGE"
    by (simp add: to_location_type_def location_type_of_def)
  have f: "find_or_raise e (\<lambda>w. pk w = 1) [wh1] = Inr wh1" for e
    by (simp add: find_one_Some_iff)
  have "\<exists>d' loc. create_location env0 (show_uuid 1) (loc_data ''S1'') (stock_db\<lparr>locations := []\<rparr>) = Inr (d', loc) \<and> warehouses d' = [wh1]"
    unfolding create_location_def Let_def by (simp add: f t insert_unique_def tick_def loc_data_def get_default_def)
  then obtain d' loc where w: "create_location env0 (show_uuid 1) (loc_data ''S1'') (stock_db\<lparr>locations := []\<rparr>) = Inr (d', loc)"
    "warehouses d' = [wh1]" by blast
  have "create_location env0 (show_uuid 1) (loc_data ''S2'') d' = Inl IntegrityError"
    by (rule location_codes_collide[OF w(1), where ?w2.0 = 1 and ?wh2.0 = wh1 and ?ty2.0 = LocationType_STORAGE])
      (simp_all add: loc_data_def w(2) find_one_Some_iff t get_default_def)
  with w show ?thesis by simp
qed

end
