(* ===== verification/Transport_Spec.thy ===== *)
theory Transport_Spec
  imports Tms_Transport
begin

text \<open>
  What a transport order promises, written down without the table and the operation of
  \<open>src/tms/service.py\<close>: a parcel goes through numbered stages one by one, may go straight into transit
  as long as it was not picked up, may be called off until then, may run into an exception between
  pick-up and delivery, and an exception ends with a new dispatch, with the delivery or with the
  parcel called off. The journey of an order is the list of the moves it made, with their times; status
  and times of the stored order are read off the journey.
\<close>

section \<open>The specification\<close>

fun stage :: "transport_status \<Rightarrow> nat option" where
  "stage TransportStatus_DRAFT = Some 0"
| "stage TransportStatus_DISPATCHED = Some 1"
| "stage TransportStatus_PICKUP_COMPLETED = Some 2"
| "stage TransportStatus_IN_TRANSIT = Some 3"
| "stage TransportStatus_OUT_FOR_DELIVERY = Some 4"
| "stage TransportStatus_DELIVERED = Some 5"
| "stage TransportStatus_EXCEPTION = None"
| "stage TransportStatus_CANCELLED = None"

definition may_move :: "transport_status \<Rightarrow> transport_status \<Rightarrow> bool" where
  "may_move s t \<longleftrightarrow>
     (case (stage s, stage t) of
        (Some m, Some n) \<Rightarrow> n = Suc m \<or> m < 2 \<and> n = 3
      | (Some m, None) \<Rightarrow> (if t = TransportStatus_CANCELLED then m < 2 else 2 \<le> m \<and> m < 5)
      | (None, Some n) \<Rightarrow> s = TransportStatus_EXCEPTION \<and> (n = 1 \<or> n = 5)
      | (None, None) \<Rightarrow> s = TransportStatus_EXCEPTION \<and> t = TransportStatus_CANCELLED)"

text \<open>The moves that a list of requests, each with its time, makes from a status.\<close>

fun journey :: "transport_status \<Rightarrow> (datetime \<times> transport_status) list \<Rightarrow> (datetime \<times> transport_status) list" where
  "journey s [] = []"
| "journey s ((time, t) # rs) = (if may_move s t then (time, t) # journey t rs else journey s rs)"

definition arrival :: "transport_status \<Rightarrow> (datetime \<times> transport_status) list \<Rightarrow> datetime option" where
  "arrival t moves = map_option fst (find (\<lambda>(time, u). u = t) moves)"

text \<open>
  The order after a journey: the last status, the first time in transit as its pick-up, the time of the
  delivery, and nothing else changed.
\<close>

definition after_journey :: "(datetime \<times> transport_status) list \<Rightarrow> transport_order \<Rightarrow> transport_order" where
  "after_journey moves ord =
     ord\<lparr>tr_status := last (tr_status ord # map snd moves),
         updated_at := last (updated_at ord # map fst moves),
         tr_actual_pickup_time :=
           (case tr_actual_pickup_time ord of Some time \<Rightarrow> Some time | None \<Rightarrow> arrival TransportStatus_IN_TRANSIT moves),
         tr_actual_delivery_time :=
           (case arrival TransportStatus_DELIVERED moves of Some time \<Rightarrow> Some time | None \<Rightarrow> tr_actual_delivery_time ord)\<rparr>"

text \<open>The requests that name a status, with their times.\<close>

definition named_requests :: "(env \<times> string) list \<Rightarrow> (datetime \<times> transport_status) list" where
  "named_requests rs =
     List.map_filter (\<lambda>(env, s). map_option (Pair (now env)) (find (\<lambda>t. transport_status_value t = s) transport_statuss)) rs"

section \<open>The requests make the journey\<close>

lemma named_requests_simps [simp]:
  "named_requests [] = []"
  "named_requests ((env, s) # rs) = (case enum_find transport_status_value transport_statuss s of
     None \<Rightarrow> named_requests rs | Some t \<Rightarrow> (now env, t) # named_requests rs)"
  by (simp_all add: named_requests_def enum_find_def split: option.splits)

lemma may_move_iff: "may_move s t \<longleftrightarrow> t \<in> set (transport_allowed s)"
  by (cases s; cases t) (simp_all add: may_move_def)

lemma journey_delivered [simp]: "journey TransportStatus_DELIVERED rs = []"
  by (induction rs) (auto simp: may_move_iff)

lemma arrival_simps [simp]:
  "arrival t [] = None"
  "arrival t ((time, u) # moves) = (if u = t then Some time else arrival t moves)"
  by (simp_all add: arrival_def)

lemma after_journey_Nil [simp]: "after_journey [] ord = ord"
  by (simp add: after_journey_def split: option.splits)

lemma after_journey_step:
  assumes "may_move (tr_status ord) t"
  shows "after_journey (journey (tr_status ord) ((now env, t) # rs)) ord =
    after_journey (journey t rs) (set_transport_status env t ord)"
  using assms
  by (cases "t = TransportStatus_DELIVERED")
    (auto simp: after_journey_def set_transport_status_def Let_def split: option.splits)

lemma change_transport_status_spec:
  assumes "find_transport i d = Inr ord" "enum_find transport_status_value transport_statuss s = Some t"
  shows "may_move (tr_status ord) t \<Longrightarrow> change_transport_status env i s d =
      Inr (d\<lparr>transport_orders := update_where (\<lambda>x. pk x = pk ord) (set_transport_status env t) (transport_orders d)\<rparr>,
           set_transport_status env t ord)"
    and "\<not> may_move (tr_status ord) t \<Longrightarrow> \<exists>e. change_transport_status env i s d = Inl e"
  using assms by (simp_all add: change_transport_status_def enum_of_def may_move_iff transport_change_def)

lemma update_where_others:
  assumes "\<And>x. pk (f x) = pk x" "pk y \<noteq> i"
  shows "y \<in> set (update_where (\<lambda>x. pk x = i) f t) \<longleftrightarrow> y \<in> set t"
  using assms by (auto simp: update_where_def image_iff)

lemma request_statuses_make_the_journey:
  assumes "find_transport i d = Inr ord"
  shows "find_transport i (request_statuses rs i d) = Inr (after_journey (journey (tr_status ord) (named_requests rs)) ord) \<and>
    (\<forall>x. pk x \<noteq> pk ord \<longrightarrow> (x \<in> set (transport_orders (request_statuses rs i d)) \<longleftrightarrow> x \<in> set (transport_orders d)))"
  using assms
proof (induction rs arbitrary: d ord)
  case (Cons r rs)
  obtain env s where r: "r = (env, s)" by (cases r)
  show ?case
  proof (cases "enum_find transport_status_value transport_statuss s")
    case None
    then have "change_transport_status env i s d = Inl ValueError"
      using Cons.prems by (simp add: change_transport_status_def enum_of_def)
    with Cons.IH[OF Cons.prems] None r show ?thesis by simp
  next
    case (Some t)
    show ?thesis
    proof (cases "may_move (tr_status ord) t")
      case True
      note ch = change_transport_status_spec(1)[OF Cons.prems Some True, of env]
      define d' where "d' = d\<lparr>transport_orders := update_where (\<lambda>x. pk x = pk ord) (set_transport_status env t) (transport_orders d)\<rparr>"
      have f: "find_transport i d' = Inr (set_transport_status env t ord)"
        using find_transport_changed[OF Cons.prems d'_def] .
      have other: "x \<in> set (transport_orders d') \<longleftrightarrow> x \<in> set (transport_orders d)" if "pk x \<noteq> pk ord" for x
        using update_where_others[of "set_transport_status env t" x "pk ord"] that by (simp add: d'_def)
      from Cons.IH[OF f] ch other after_journey_step[OF True, of env "named_requests rs"] Some r show ?thesis
        by (simp add: d'_def[symmetric])
    next
      case False
      obtain e where "change_transport_status env i s d = Inl e"
        using change_transport_status_spec(2)[OF Cons.prems Some False] by blast
      with Cons.IH[OF Cons.prems] Some r False show ?thesis by simp
    qed
  qed
qed simp

end
