(* ===== verification/Tms_Properties.thy ===== *)
theory Tms_Properties
  imports Samples Transport_Spec
begin

text \<open>
  The properties of the transport services: route planning, the life of transport orders and segments,
  proofs of delivery, returns, freight prices, the forecast and terminal devices.
\<close>

section \<open>Route planning\<close>

text \<open>
  C1: When route planning answers for a transport order whose addresses name the cities p and q, its
  cost is the least cost of a walk in the network of hub connections from a hub of p to a hub of q,
  priced with the carrier routes: some pair of hubs attains it as the minimum over all walks, and no
  walk between any such pair is cheaper. Every connection and carrier price is assumed nonnegative,
  which planner_reachable_inv proves of every stored network.
\<close>

theorem planned_route_is_cheapest:
  assumes "find_best_route_plan_impl (show_uuid (pk ord)) d = Some (Inr rt)"
    and "find_one (\<lambda>o'. pk o' = pk ord) (transport_orders d) = Inr (Some ord)" "costs_ok d"
    and "tr_pickup_address ord = Some pa" "ap_city pa = Some p" "tr_delivery_address ord = Some da" "ap_city da = Some q"
  shows "(\<exists>a\<in>set (transfer_hubs d). \<exists>b\<in>set (transfer_hubs d). th_city a = p \<and> th_city b = q \<and>
            least_cost (db_graph d) (seg_cost (db_prices d) p q (tr_total_weight_kg ord)) (th_code a) (th_code b)
              (ro_total_cost_amount rt)) \<and>
    (\<forall>a\<in>set (transfer_hubs d). \<forall>b\<in>set (transfer_hubs d). \<forall>pt c. th_city a = p \<and> th_city b = q \<and>
        walk (db_graph d) (seg_cost (db_prices d) p q (tr_total_weight_kg ord)) (th_code a) pt c \<and> last pt = th_code b \<longrightarrow>
        ro_total_cost_amount rt \<le> c)"
  by (rule route_plan_least_cost[OF assms])

lemma sample_costs: "costs_ok plan_db"
  by (simp add: costs_ok_def conn_def parcel_def)

lemma sample_parcel: "find_one (\<lambda>o'. pk o' = pk parcel) (transport_orders plan_db) = Inr (Some parcel)"
  by (simp add: find_one_Some_iff)

lemma sample_parcel_cities:
  "tr_pickup_address parcel = Some (city_address ''P'')" "ap_city (city_address ''P'') = Some ''P''"
  "tr_delivery_address parcel = Some (city_address ''Q'')" "ap_city (city_address ''Q'') = Some ''Q''"
  by (simp_all add: parcel_def city_address_def)

lemma sample_route:
  "case find_best_route_plan_impl (show_uuid 7) plan_db of Some (Inr rt) \<Rightarrow> ro_total_cost_amount rt = 10 | _ \<Rightarrow> False"
  by code_simp

lemma sample_routeE:
  obtains rt where "find_best_route_plan_impl (show_uuid 7) plan_db = Some (Inr rt)" "ro_total_cost_amount rt = 10"
  using sample_route by (auto split: option.splits sum.splits)

theorem planned_route_is_cheapest_witness:
  "case find_best_route_plan_impl (show_uuid 7) plan_db of
     Some (Inr rt) \<Rightarrow> ro_total_cost_amount rt = 10 \<and>
       least_cost (db_graph plan_db) (seg_cost (db_prices plan_db) ''P'' ''Q'' 2) ''H1'' ''H3'' 10
   | _ \<Rightarrow> False"
proof -
  obtain rt where r: "find_best_route_plan_impl (show_uuid 7) plan_db = Some (Inr rt)" "ro_total_cost_amount rt = 10"
    by (rule sample_routeE)
  have "find_best_route_plan_impl (show_uuid (pk parcel)) plan_db = Some (Inr rt)" by (simp add: r)
  from planned_route_is_cheapest[OF this sample_parcel sample_costs sample_parcel_cities]
  show ?thesis by (simp add: r hub_def) (simp add: parcel_def)
qed

text \<open>
  C2: In every state that creating hubs, routes, connections, transport orders and plans can reach,
  the search loop of route planning ends: neither the planner, with or without the cache, nor the
  generation of a plan fails to return.
\<close>

theorem planning_terminates:
  assumes "planner_reachable d"
  shows "find_best_route_plan up rc order_id d \<noteq> None \<and> generate_route_plan env up order_id plan_type rc d \<noteq> None"
proof -
  have "costs_ok d" using planner_reachable_inv[OF assms] by (simp add: planner_inv_def)
  then have i: "find_best_route_plan_impl order_id d \<noteq> None" by (rule find_best_route_plan_impl_total)
  then have "find_best_route_plan up rc order_id d \<noteq> None"
    by (auto simp: find_best_route_plan_def Let_def split: option.splits sum.splits)
  then show ?thesis by (auto simp: generate_route_plan_def split: option.splits sum.splits)
qed

theorem planning_terminates_witness:
  "find_best_route_plan False (\<lambda>_. None) (show_uuid 7) empty_db \<noteq> None"
  using planning_terminates[of empty_db] planner_reachable.start[of empty_db] by simp

lemma add_plan_segments_codes:
  "add_plan_segments env oid ss d = (d', segs) \<Longrightarrow> g \<in> set segs \<Longrightarrow>
     \<exists>s\<in>set ss. sg_origin_hub_code g = Some (rs_from_hub s) \<and> sg_dest_hub_code g = Some (rs_to_hub s)"
proof (induction ss arbitrary: d segs)
  case (Cons s ss)
  then show ?case
    by (cases "add_plan_segments env oid ss ((tick d)\<lparr>transport_segments := insert_row (plan_segment env oid s d) (transport_segments d)\<rparr>)")
      (fastforce simp: Let_def plan_segment_def)
qed simp

lemma store_plan_codes:
  assumes "store_plan env oid ty r d = Inr (d', v)" "g \<in> set (pv_segments v)"
  shows "\<exists>s\<in>set (ro_segments r). sg_origin_hub_code g = Some (rs_from_hub s) \<and> sg_dest_hub_code g = Some (rs_to_hub s)"
proof -
  from assms(1) obtain ty' where "pv_segments v = snd (add_plan_segments env oid (ro_segments r)
      ((tick d)\<lparr>route_plans := insert_row (new_plan env oid ty' r d) (route_plans d)\<rparr>))"
    by (auto simp: store_plan_def case_prod_beta Let_def)
  with assms(2) show ?thesis using add_plan_segments_codes prod.collapse by metis
qed

text \<open>
  C32: Planning stores no hub codes in the segments of a plan: because the search path is rebound to
  the concatenated code string, each stored segment names one letter as origin and one as
  destination.
\<close>

theorem stored_segments_hold_letters:
  assumes "generate_route_plan env False order_id plan_type rc d = Some (Inr (rc', d', v))"
    and "s \<in> set (pv_segments v)"
  shows "\<exists>a b. sg_origin_hub_code s = Some [a] \<and> sg_dest_hub_code s = Some [b]"
proof -
  from assms(1) obtain oid r where i: "find_best_route_plan_impl order_id d = Some (Inr r)"
    and st: "store_plan env oid plan_type r d = Inr (d', v)"
    by (auto simp: generate_route_plan_def find_best_route_plan_def Let_def split: option.splits sum.splits)
  from store_plan_codes[OF st assms(2)] obtain x where x: "x \<in> set (ro_segments r)"
    "sg_origin_hub_code s = Some (rs_from_hub x)" "sg_dest_hub_code s = Some (rs_to_hub x)" by blast
  with route_hub_codes[OF i x(1)] show ?thesis by (auto simp: length_Suc_conv)
qed

lemma sample_plan:
  "case generate_route_plan env0 False (show_uuid 7) ''auto_gen'' (\<lambda>_. None) plan_db of
     Some (Inr (rc, d', v)) \<Rightarrow> length (pv_segments v) = 1 | _ \<Rightarrow> False"
  by code_simp

lemma sample_planE:
  obtains rc d' v where "generate_route_plan env0 False (show_uuid 7) ''auto_gen'' (\<lambda>_. None) plan_db = Some (Inr (rc, d', v))"
    "length (pv_segments v) = 1"
  using sample_plan by (auto split: option.splits sum.splits)

theorem stored_segments_hold_letters_witness:
  "case generate_route_plan env0 False (show_uuid 7) ''auto_gen'' (\<lambda>_. None) plan_db of
     Some (Inr (rc, d', v)) \<Rightarrow> \<exists>a b. sg_origin_hub_code (hd (pv_segments v)) = Some [a] \<and> sg_dest_hub_code (hd (pv_segments v)) = Some [b]
   | _ \<Rightarrow> False"
proof -
  obtain rc d' v where g: "generate_route_plan env0 False (show_uuid 7) ''auto_gen'' (\<lambda>_. None) plan_db = Some (Inr (rc, d', v))"
    "length (pv_segments v) = 1" by (rule sample_planE)
  then have "hd (pv_segments v) \<in> set (pv_segments v)" by (intro hd_in_set) auto
  from stored_segments_hold_letters[OF g(1) this] show ?thesis by (simp add: g)
qed

theorem plans_are_stored_once:
  assumes "generate_route_plan env up order_id plan_type rc d = Some (Inr (rc', d', v))"
  shows "route_plans d' = route_plans d @ [pv_plan v] \<and> transport_segments d' = transport_segments d @ pv_segments v \<and>
    length (pv_segments v) = length (ro_segments (rp_plan_json (pv_plan v))) \<and>
    (\<nexists>r. generate_route_plan env2 up2 order_id plan_type2 rc2 d' = Some (Inr r))"
proof -
  from assms obtain oid r where o': "safe_uuid order_id = Some oid" and s: "store_plan env oid plan_type r d = Inr (d', v)"
    by (auto simp: generate_route_plan_def split: option.splits sum.splits)
  note once = store_plan_once[OF s]
  have "oid \<in> rp_transport_order_id ` set (route_plans d')" using once(2,3) by simp
  then have "\<exists>e. store_plan env2 oid plan_type2 r2 d' = Inl e" for r2 by (rule store_plan_refused)
  then have "\<nexists>r. generate_route_plan env2 up2 order_id plan_type2 rc2 d' = Some (Inr r)"
    by (auto simp: generate_route_plan_def o' split: option.splits sum.splits) (metis sum.distinct(1))
  then show ?thesis using once by simp
qed

theorem plans_are_stored_once_witness:
  "case generate_route_plan env0 False (show_uuid 7) ''auto_gen'' (\<lambda>_. None) plan_db of
     Some (Inr (rc, d', v)) \<Rightarrow> length (route_plans d') = 1 \<and>
       (\<nexists>r. generate_route_plan env0 False (show_uuid 7) ''manual'' (\<lambda>_. None) d' = Some (Inr r))
   | _ \<Rightarrow> False"
proof -
  obtain rc d' v where g: "generate_route_plan env0 False (show_uuid 7) ''auto_gen'' (\<lambda>_. None) plan_db = Some (Inr (rc, d', v))"
    by (rule sample_planE)
  from plans_are_stored_once[OF g] show ?thesis by (simp add: g)
qed

text \<open>
  A route that went into the cache is answered again for every order with the same cities and
  weight whatever happened to the network in between: nothing of the code invalidates the cache.
\<close>

theorem cached_route_survives_changes:
  assumes "find_best_route_plan True rc order_id d = Some (Inr (rc', r))" "safe_uuid order_id = Some u"
    and "cache_order u d = Some ord" "cache_order u d2 = Some ord2" "route_key ord2 = route_key ord"
  shows "find_best_route_plan True rc' order_id d2 = Some (Inr (rc', r))"
proof -
  have "rc' (route_key ord) = Some r"
    using assms(1-3) by (auto simp: find_best_route_plan_def Let_def split: option.splits sum.splits)
  then show ?thesis by (simp add: find_best_route_plan_def assms(2,4,5) Let_def)
qed

theorem cached_route_survives_changes_witness:
  "case find_best_route_plan True (\<lambda>_. None) (show_uuid 7) plan_db of
     Some (Inr (rc, r)) \<Rightarrow> find_best_route_plan True rc (show_uuid 7) (plan_db\<lparr>hub_connections := []\<rparr>) = Some (Inr (rc, r))
   | _ \<Rightarrow> False"
proof -
  obtain rt where r: "find_best_route_plan_impl (show_uuid 7) plan_db = Some (Inr rt)" by (rule sample_routeE)
  have c: "cache_order 7 plan_db = Some parcel" "cache_order 7 (plan_db\<lparr>hub_connections := []\<rparr>) = Some parcel"
    by (simp_all add: cache_order_def find_one_def scalar_one_or_none_def select_where_def)
  have "\<exists>rc r. find_best_route_plan True (\<lambda>_. None) (show_uuid 7) plan_db = Some (Inr (rc, r))"
    by (simp add: find_best_route_plan_def c r Let_def)
  then obtain rc r where f: "find_best_route_plan True (\<lambda>_. None) (show_uuid 7) plan_db = Some (Inr (rc, r))" by blast
  from cached_route_survives_changes[OF f _ c refl] show ?thesis by (simp add: f)
qed

section \<open>Transport orders\<close>

text \<open>
  In every reachable state of the transport tables a delivered order has its delivery time, an
  order under way has its pickup time, a draft has none, the keys and transport numbers are unique,
  and an order has at most one proof of delivery.
\<close>

theorem transports_stay_consistent:
  assumes "transport_reachable d" "o' \<in> set (transport_orders d)"
  shows "(tr_status o' = TransportStatus_DELIVERED \<longrightarrow> tr_actual_delivery_time o' \<noteq> None) \<and>
    (tr_status o' = TransportStatus_IN_TRANSIT \<or> tr_status o' = TransportStatus_OUT_FOR_DELIVERY \<longrightarrow>
       tr_actual_pickup_time o' \<noteq> None) \<and>
    (tr_status o' = TransportStatus_DRAFT \<longrightarrow> tr_actual_pickup_time o' = None) \<and>
    distinct (map pk (transport_orders d)) \<and> distinct (map tr_transport_no (transport_orders d)) \<and>
    distinct (map pod_transport_order_id (pod_records d))"
  using transport_reachable_inv[OF assms(1)] assms(2) by (auto simp: transports_inv_def transport_ok_def)

theorem transports_stay_consistent_witness:
  "case create_transport_order env0 transport_data empty_db of
     Inl e \<Rightarrow> False | Inr (d', o') \<Rightarrow> tr_status o' = TransportStatus_DRAFT \<and> tr_actual_pickup_time o' = None"
proof -
  have "\<exists>d' o'. create_transport_order env0 transport_data empty_db = Inr (d', o') \<and> tr_status o' = TransportStatus_DRAFT \<and>
      transport_orders d' = [o']"
    by (simp add: create_transport_order_def new_transport_def created_event_def transport_data_def enum_if_truthy_def
        uuid_if_truthy_def enum_of_def enum_find_def carrier_service_types_def transport_types_def addr_city_def
        sample_eval)
  then obtain d' o' where c: "create_transport_order env0 transport_data empty_db = Inr (d', o')"
    "tr_status o' = TransportStatus_DRAFT" "transport_orders d' = [o']" by blast
  have "transport_reachable d'"
    by (rule transport_reachable.step[OF transport_reachable.start transport_step.created[OF c(1)]]) simp_all
  from transports_stay_consistent[OF this, of o'] c show ?thesis by simp
qed

text \<open>
  C4: Any sequence of status requests for an order, refused ones and names that are no status
  included, leaves the order as the journey does that the named statuses make under the rules of the
  stages, which are stated apart from the table of the code: its status is the last move, its pick-
  up the first move into transit, its delivery the move to delivered, nothing else of it changes but
  the time of the update, and no other order changes.
\<close>

theorem requests_run_the_status_machine:
  assumes "find_transport i d = Inr ord"
  shows "find_transport i (request_statuses rs i d) = Inr (after_journey (journey (tr_status ord) (named_requests rs)) ord) \<and>
    (\<forall>x. pk x \<noteq> pk ord \<longrightarrow> (x \<in> set (transport_orders (request_statuses rs i d)) \<longleftrightarrow> x \<in> set (transport_orders d)))"
  by (rule request_statuses_make_the_journey[OF assms])

theorem requests_run_the_status_machine_witness:
  "\<exists>ord'. find_transport (show_uuid 7)
       (request_statuses [(env0, ''delivered''), (env0, ''nonsense''), (env0, ''in_transit''), (env0, ''cancelled'')]
         (show_uuid 7) plan_db) = Inr ord' \<and>
     tr_status ord' = TransportStatus_IN_TRANSIT \<and> tr_actual_pickup_time ord' = Some 1000 \<and> tr_actual_delivery_time ord' = None"
proof -
  let ?rs = "[(env0, ''delivered''), (env0, ''nonsense''), (env0, ''in_transit''), (env0, ''cancelled'')]"
  have f: "find_transport (show_uuid 7) plan_db = Inr parcel"
    by (simp add: find_transport_def find_by_id_show find_one_Some_iff)
  have "journey (tr_status parcel) (named_requests ?rs) = [(1000, TransportStatus_IN_TRANSIT)]" by code_simp
  moreover have "tr_actual_pickup_time parcel = None" "tr_actual_delivery_time parcel = None" by (simp_all add: parcel_def)
  ultimately show ?thesis using requests_run_the_status_machine[OF f, of ?rs] by (simp add: after_journey_def)
qed

text \<open>
  C34: From every status but cancelled the three requests in_transit, out_for_delivery and delivered
  bring an order to delivered: no open order gets stuck.
\<close>

theorem open_transports_can_be_delivered:
  assumes "find_transport i d = Inr ord" "tr_status ord \<noteq> TransportStatus_CANCELLED"
  shows "\<exists>ord'. find_transport i (request_statuses [(e1, ''in_transit''), (e2, ''out_for_delivery''), (e3, ''delivered'')] i d) =
      Inr ord' \<and> pk ord' = pk ord \<and> tr_status ord' = TransportStatus_DELIVERED"
proof -
  have n: "named_statuses [(e1, ''in_transit''), (e2, ''out_for_delivery''), (e3, ''delivered'')] =
      [TransportStatus_IN_TRANSIT, TransportStatus_OUT_FOR_DELIVERY, TransportStatus_DELIVERED]"
    by (simp add: enum_find_def transport_statuss_def)
  have "request_all transport_change (tr_status ord)
      [TransportStatus_IN_TRANSIT, TransportStatus_OUT_FOR_DELIVERY, TransportStatus_DELIVERED] = TransportStatus_DELIVERED"
    using assms(2) by (cases "tr_status ord") (simp_all add: transport_change_def raise_if_def)
  with request_statuses_refine[OF assms(1), of "[(e1, ''in_transit''), (e2, ''out_for_delivery''), (e3, ''delivered'')]"] n
  show ?thesis by simp
qed

theorem open_transports_can_be_delivered_witness:
  "\<exists>ord'. find_transport (show_uuid 7)
       (request_statuses [(env0, ''in_transit''), (env0, ''out_for_delivery''), (env0, ''delivered'')] (show_uuid 7) plan_db) =
     Inr ord' \<and> tr_status ord' = TransportStatus_DELIVERED"
proof -
  have f: "find_transport (show_uuid 7) plan_db = Inr parcel"
    by (simp add: find_transport_def find_by_id_show find_one_Some_iff)
  have "tr_status parcel \<noteq> TransportStatus_CANCELLED" by (simp add: parcel_def)
  from open_transports_can_be_delivered[OF f this] show ?thesis by blast
qed

text \<open>
  C33: A status request for an existing order raises a ValueError exactly for a name that is no
  transport status, a validation error exactly for a status that is not allowed next, and otherwise
  stores the named status under the same key.
\<close>

theorem status_requests_are_typed:
  assumes "find_transport i d = Inr ord"
  shows "case change_transport_status env i s d of
      Inl e \<Rightarrow> e = ValueError \<and> (\<forall>t. transport_status_value t \<noteq> s) \<or>
        is_validation e \<and> (\<exists>t. transport_status_value t = s \<and> t \<notin> set (transport_allowed (tr_status ord)))
    | Inr (d', o') \<Rightarrow> transport_status_value (tr_status o') = s \<and> tr_status o' \<in> set (transport_allowed (tr_status ord)) \<and>
        pk o' = pk ord \<and> find_transport i d' = Inr o'"
proof (cases "change_transport_status env i s d")
  case (Inl e)
  show ?thesis
  proof (cases "enum_of transport_status_value transport_statuss s")
    case (Inl e')
    with \<open>change_transport_status env i s d = Inl e\<close> assms have "e = e'" by (simp add: change_transport_status_def)
    with Inl \<open>change_transport_status env i s d = Inl e\<close> show ?thesis by (auto simp: transport_status_enum.of_eq_Inl)
  next
    case (Inr t)
    with \<open>change_transport_status env i s d = Inl e\<close> assms have "transport_change (tr_status ord) t = Inl e"
      by (auto simp: change_transport_status_def bindE_def split: sum.splits)
    then have "t \<notin> set (transport_allowed (tr_status ord))" "is_validation e"
      by (auto simp: transport_change_def raise_if_def split: if_splits)
    with Inr \<open>change_transport_status env i s d = Inl e\<close> show ?thesis
      by (auto simp: transport_status_enum.of_eq_Inr)
  qed
next
  case (Inr r)
  obtain d' o' where r: "r = (d', o')" by (cases r)
  from Inr[unfolded r] obtain ord2 where c: "find_transport i d = Inr ord2" "s = transport_status_value (tr_status o')"
    "tr_status o' \<in> set (transport_allowed (tr_status ord2))" "o' = set_transport_status env (tr_status o') ord2"
    "d' = d\<lparr>transport_orders := update_where (\<lambda>x. pk x = pk ord2) (set_transport_status env (tr_status o')) (transport_orders d)\<rparr>"
    by (rule change_transport_statusE)
  with assms have [simp]: "ord2 = ord" by simp
  have "find_transport i d' = Inr o'" using find_transport_changed[OF c(1,5)] c(4) by simp
  moreover have "pk o' = pk ord" using arg_cong[OF c(4), of pk] by simp
  ultimately show ?thesis unfolding Inr r using c(2,3) by simp
qed

theorem status_requests_are_typed_witness:
  "(case change_transport_status env0 (show_uuid 7) ''nonsense'' plan_db of Inl e \<Rightarrow> e = ValueError | Inr r \<Rightarrow> False) \<and>
   (case change_transport_status env0 (show_uuid 7) ''in_transit'' plan_db of
      Inl e \<Rightarrow> False | Inr (d', o') \<Rightarrow> transport_status_value (tr_status o') = ''in_transit'')"
proof -
  have f: "find_transport (show_uuid 7) plan_db = Inr parcel"
    by (simp add: find_transport_def find_by_id_show find_one_Some_iff)
  have n: "transport_status_value t \<noteq> ''nonsense''" for t by (cases t) simp_all
  have a: "transport_status_value t = ''in_transit'' \<Longrightarrow> t \<in> set (transport_allowed (tr_status parcel))" for t
    by (cases t) (simp_all add: parcel_def)
  have i: "\<not> (\<forall>t. transport_status_value t \<noteq> ''in_transit'')"
    using transport_status_value.simps(4) by blast
  have "case change_transport_status env0 (show_uuid 7) ''nonsense'' plan_db of Inl e \<Rightarrow> e = ValueError | Inr r \<Rightarrow> False"
    using status_requests_are_typed[OF f, where env = env0 and s = "''nonsense''"] n
    by (cases "change_transport_status env0 (show_uuid 7) ''nonsense'' plan_db") auto
  moreover have "case change_transport_status env0 (show_uuid 7) ''in_transit'' plan_db of
      Inl e \<Rightarrow> False | Inr (d', o') \<Rightarrow> transport_status_value (tr_status o') = ''in_transit''"
    using status_requests_are_typed[OF f, where env = env0 and s = "''in_transit''"] i a
    by (cases "change_transport_status env0 (show_uuid 7) ''in_transit'' plan_db") auto
  ultimately show ?thesis ..
qed

theorem proof_of_delivery_is_written_once:
  assumes "create_pod env call d = Inr (d1, p)" "pod_order_id call' = pod_order_id call"
  shows "create_pod env' call' d1 = Inr (d1, p)"
  by (rule create_pod_again[OF assms])

theorem proof_of_delivery_is_written_once_witness:
  "case create_pod env0 (PodByOrderId (show_uuid 7) None) plan_db of
     Inl e \<Rightarrow> False | Inr (d1, p) \<Rightarrow> create_pod env0 (PodByOrderId (show_uuid 7) (Some pod_sample)) d1 = Inr (d1, p)"
proof -
  have "\<exists>d1 p. create_pod env0 (PodByOrderId (show_uuid 7) None) plan_db = Inr (d1, p)"
    by (simp add: create_pod_def new_pod_def enum_column_def enum_find_def pod_signatures_def plan_db_def sample_eval)
  then obtain d1 p where c: "create_pod env0 (PodByOrderId (show_uuid 7) None) plan_db = Inr (d1, p)" by blast
  from proof_of_delivery_is_written_once[OF c, of "PodByOrderId (show_uuid 7) (Some pod_sample)" env0]
  show ?thesis by (simp add: c pod_sample_def get_default_def)
qed

theorem completed_segments_were_carried:
  assumes "allowed_path segment_allowed TransportSegmentStatus_DRAFT ts" "TransportSegmentStatus_COMPLETED \<in> set ts"
  shows "TransportSegmentStatus_OUT_FOR_DELIVERY \<in> set ts \<and> TransportSegmentStatus_EXCEPTION \<notin> set ts"
  by (rule segment_completed_path[OF assms]) simp

theorem completed_segments_were_carried_witness:
  "TransportSegmentStatus_OUT_FOR_DELIVERY \<in> set [TransportSegmentStatus_DISPATCHED, TransportSegmentStatus_PICKUP,
      TransportSegmentStatus_IN_TRANSIT, TransportSegmentStatus_OUT_FOR_DELIVERY, TransportSegmentStatus_COMPLETED]"
proof -
  have "allowed_path segment_allowed TransportSegmentStatus_DRAFT [TransportSegmentStatus_DISPATCHED,
      TransportSegmentStatus_PICKUP, TransportSegmentStatus_IN_TRANSIT, TransportSegmentStatus_OUT_FOR_DELIVERY,
      TransportSegmentStatus_COMPLETED]" by simp
  from completed_segments_were_carried[OF this] show ?thesis by simp
qed

section \<open>Returns\<close>

text \<open>
  In every reachable state, marking a return shipment as received is refused, because no
  operation ever brings a shipment into a status from which it may be received.
\<close>

theorem carrier_receipt_is_unreachable:
  assumes "returns_reachable d"
  shows "\<exists>e. mark_shipment_received env i d = Inl e"
proof (cases "find_return i d")
  case (Inl e)
  then show ?thesis by (simp add: mark_shipment_received_def)
next
  case (Inr ret)
  from mark_shipment_received_fails[OF this find_return_ok(1)[OF this returns_reachable_inv[OF assms]]]
  show ?thesis by blast
qed

theorem carrier_receipt_is_unreachable_witness:
  "case create_return_order env0 return_data empty_db of
     Inl e \<Rightarrow> False | Inr (d', r) \<Rightarrow> \<exists>e. mark_shipment_received env0 (show_uuid (pk r)) d' = Inl e"
proof -
  have "\<exists>d' r. create_return_order env0 return_data empty_db = Inr (d', r)"
    by (simp add: create_return_order_def return_data_def uuid_if_truthy_def enum_if_truthy_def uuid_column_def
        enum_of_def enum_find_def return_reasons_def sample_eval)
  then obtain d' r where c: "create_return_order env0 return_data empty_db = Inr (d', r)" by blast
  have "returns_reachable d'"
    by (rule returns_reachable.step[OF returns_reachable.start return_db_step.created[OF c]]) simp
  from carrier_receipt_is_unreachable[OF this] show ?thesis unfolding c by simp
qed

text \<open>
  C40: Whatever requests for status updates, receipts, inspections and cancellations are served, on
  a return and on others, every request that succeeds on the return strictly lowers the rank of its
  stored status: the successes on a return and the rank that is left add up to at most the rank it
  started with, which is at most four.
\<close>

theorem return_statuses_only_advance:
  assumes "returns_reachable d" "find_return i d = Inr ret" "serve_returns qs d = (d', changed)"
  shows "\<exists>ret'. find_return i d' = Inr ret' \<and> pk ret' = pk ret \<and>
    count_list changed (pk ret) + return_rank (rt_status ret') \<le> return_rank (rt_status ret) \<and>
    return_rank (rt_status ret) \<le> 4"
  using serve_returns_rank[OF returns_reachable_inv[OF assms(1)] assms(2,3)] return_rank_bound by blast

lemma sample_return:
  "\<exists>d' r. create_return_order env0 return_data empty_db = Inr (d', r) \<and> rt_status r = ReturnStatus_REQUESTED \<and> return_orders d' = [r]"
  by (simp add: create_return_order_def return_data_def uuid_if_truthy_def enum_if_truthy_def uuid_column_def
      enum_of_def enum_find_def return_reasons_def sample_eval)

theorem return_statuses_only_advance_witness:
  "\<exists>d i ret. create_return_order env0 return_data empty_db = Inr (d, ret) \<and> rt_status ret = ReturnStatus_REQUESTED \<and>
     snd (serve_returns [(env0, i, UpdateReturn concat ''pickup_scheduled''), (env0, i, ReceiveReturn), (env0, i, CancelReturn)] d) =
       [pk ret, pk ret] \<and>
     (\<exists>ret'. find_return i (fst (serve_returns [(env0, i, UpdateReturn concat ''pickup_scheduled''), (env0, i, ReceiveReturn),
         (env0, i, CancelReturn)] d)) = Inr ret' \<and> 2 + return_rank (rt_status ret') \<le> 4)"
proof -
  obtain d ret where c: "create_return_order env0 return_data empty_db = Inr (d, ret)"
    and st: "rt_status ret = ReturnStatus_REQUESTED" and t: "return_orders d = [ret]"
    using sample_return by blast
  have reach: "returns_reachable d"
    by (rule returns_reachable.step[OF returns_reachable.start return_db_step.created[OF c]]) simp
  let ?i = "show_uuid (pk ret)"
  have f: "find_return ?i d = Inr ret" by (simp add: find_return_def find_by_id_show find_one_Some_iff t)
  let ?qs = "[(env0, ?i, UpdateReturn concat ''pickup_scheduled''), (env0, ?i, ReceiveReturn), (env0, ?i, CancelReturn)]"
  obtain r1 where r1: "put_return env0 ret ReturnStatus_PICKUP_SCHEDULED (rt_shipment_status ret) d = r1" by blast
  obtain d1 x1 where r1': "r1 = (d1, x1)" by force
  have u: "serve_return env0 ?i (UpdateReturn concat ''pickup_scheduled'') d = Inr (d1, x1)"
    using r1 r1' by (simp add: update_return_status_def f return_step_def st scheduled_column)
  have f1: "find_return ?i d1 = Inr (set_return env0 ReturnStatus_PICKUP_SCHEDULED (rt_shipment_status ret) ret)"
    using find_return_put[OF f r1[unfolded r1']] by simp
  have "returns_reachable d1" by (rule returns_reachable.step[OF reach serve_return_step[OF u]])
  from mark_shipment_received_fails[OF f1 find_return_ok(1)[OF f1 returns_reachable_inv[OF this]]]
  obtain e where e: "serve_return env0 ?i ReceiveReturn d1 = Inl e" by auto
  obtain d2 x2 where c2: "serve_return env0 ?i CancelReturn d1 = Inr (d2, x2)" "pk x2 = pk ret"
    by (simp add: cancel_return_order_def f1 put_return_def raise_if_def)
  have run: "serve_returns ?qs d = (d2, [pk ret, pk ret])"
    using u e c2 put_return_rows(4)[OF r1[unfolded r1']] by simp
  from return_statuses_only_advance[OF reach f run] c st run show ?thesis by (intro exI[of _ d] exI[of _ ?i] exI[of _ ret]) auto
qed

theorem cancelled_returns_are_refused_by_the_database:
  assumes "find_return i d = Inr ret"
    and "rt_status ret \<in> {ReturnStatus_REQUESTED, ReturnStatus_PICKUP_SCHEDULED, ReturnStatus_IN_TRANSIT_RETURN}"
  shows "update_return_status sr env i ''cancelled'' d = Inl DataError"
  using assms return_step_cancelled[OF assms(2), of sr] by (simp add: update_return_status_def)

theorem cancelled_returns_are_refused_by_the_database_witness:
  "update_return_status concat env0 (show_uuid 9) ''cancelled'' return_db = Inl DataError"
proof -
  have "find_return (show_uuid 9) return_db = Inr return9"
    by (simp add: find_return_def find_by_id_show find_one_Some_iff return_db_def return9_def)
  moreover have "rt_status return9 \<in> {ReturnStatus_REQUESTED, ReturnStatus_PICKUP_SCHEDULED, ReturnStatus_IN_TRANSIT_RETURN}"
    by (simp add: return9_def)
  ultimately show ?thesis by (rule cancelled_returns_are_refused_by_the_database)
qed

section \<open>Freight and forecast\<close>

text \<open>
  C9: The freight that the binary floating point computation of the code returns for nonnegative
  tiers and weight differs from the exact price of a stored tier of that carrier that covers the
  weight by at most half a cent and one part in 2^50.
\<close>

theorem freight_price_is_accurate:
  assumes "calculate_freight q d = Inr v"
    and "\<forall>t\<in>set (freight_tiers d). 0 \<le> ft_price_per_unit t \<and> 0 \<le> ft_surcharge_express t"
    and "0 \<le> get_default 1 (gq_weight q)"
  shows "\<exists>t\<in>set (freight_tiers d). carrier_code_value (ft_carrier_code t) = gq_carrier q \<and>
    tier_covers (get_default 1 (gq_weight q)) t \<and>
    \<bar>fv_total_freight_yuan v - exact_price t (get_default 1 (gq_weight q)) (gq_express q)\<bar> \<le>
      1 / 200 + exact_price t (get_default 1 (gq_weight q)) (gq_express q) / 2 ^ 50"
proof -
  from assms(1) obtain t where t: "t \<in> set (freight_tiers d)" "carrier_code_value (ft_carrier_code t) = gq_carrier q"
    "tier_covers (get_default 1 (gq_weight q)) t"
    "fv_total_freight_yuan v = tier_price t (get_default 1 (gq_weight q)) (gq_express q)" by (rule calculate_freightE)
  with assms(2,3) tier_price_error[of t "get_default 1 (gq_weight q)" "gq_express q"] show ?thesis by auto
qed

theorem freight_price_is_accurate_witness:
  "case calculate_freight \<lparr>gq_carrier = ''zto'', gq_weight = Some 2, gq_express = False\<rparr> tier_db of
     Inl e \<Rightarrow> False | Inr v \<Rightarrow> \<bar>fv_total_freight_yuan v - 7\<bar> \<le> 1 / 200 + 7 / 2 ^ 50"
proof -
  let ?q = "\<lparr>gq_carrier = ''zto'', gq_weight = Some 2, gq_express = False\<rparr>"
  have "\<exists>v. calculate_freight ?q tier_db = Inr v"
    by (simp add: calculate_freight_def enum_of_def enum_find_def carrier_codes_def tier_db_def tier_covers_def sample_eval)
  then obtain v where v: "calculate_freight ?q tier_db = Inr v" by blast
  have t: "\<forall>t\<in>set (freight_tiers tier_db). 0 \<le> ft_price_per_unit t \<and> 0 \<le> ft_surcharge_express t"
    by (simp add: tier_db_def)
  have "\<exists>t\<in>set (freight_tiers tier_db). carrier_code_value (ft_carrier_code t) = gq_carrier ?q \<and>
    tier_covers (get_default 1 (gq_weight ?q)) t \<and>
    \<bar>fv_total_freight_yuan v - exact_price t (get_default 1 (gq_weight ?q)) (gq_express ?q)\<bar> \<le>
      1 / 200 + exact_price t (get_default 1 (gq_weight ?q)) (gq_express ?q) / 2 ^ 50"
    by (rule freight_price_is_accurate[OF v t]) (simp add: get_default_def)
  then show ?thesis unfolding v by (simp add: tier_db_def exact_price_def get_default_def)
qed

theorem freight_without_tier_is_refused:
  assumes "carrier_code_value cc = gq_carrier q"
  shows "calculate_freight q d = Inl (validation ''No matching freight tier found'') \<longleftrightarrow>
    (\<forall>t\<in>set (freight_tiers d). ft_carrier_code t = cc \<longrightarrow> \<not> tier_covers (get_default 1 (gq_weight q)) t)"
  by (rule calculate_freight_refused) (simp add: carrier_code_enum.of_eq_Inr assms)

theorem freight_without_tier_is_refused_witness:
  "calculate_freight \<lparr>gq_carrier = ''zto'', gq_weight = Some 50, gq_express = False\<rparr> tier_db =
     Inl (validation ''No matching freight tier found'')"
proof -
  have "carrier_code_value CarrierCode_ZTO = gq_carrier \<lparr>gq_carrier = ''zto'', gq_weight = Some 50, gq_express = False\<rparr>" by simp
  from freight_without_tier_is_refused[OF this, of tier_db] show ?thesis
    by (simp add: tier_db_def tier_covers_def get_default_def)
qed

text \<open>
  After any sequence of recorded observations, the window kept for a pair of cities holds
  exactly the last fourteen of the observations recorded for that pair, in order.
\<close>

theorem forecast_uses_the_last_fourteen:
  "foldl (\<lambda>h q. fst (record_forecast_observation q h)) (\<lambda>_. []) qs key =
     (let xs = map oq_count (filter (\<lambda>q. forecast_key q = key) qs) in drop (length xs - 14) xs)"
proof -
  have "foldl (\<lambda>h q. fst (record_forecast_observation q h)) h qs =
      foldl (\<lambda>h (k, c). add_observation k c h) h (map (\<lambda>q. (forecast_key q, oq_count q)) qs)" for h
    by (induction qs arbitrary: h) (simp_all add: record_forecast_observation_def)
  then show ?thesis
    using observations_window[of "map (\<lambda>q. (forecast_key q, oq_count q)) qs" key]
    by (simp add: Let_def filter_map comp_def window_size_def)
qed

text \<open>
  Every point of a forecast predicts a nonnegative number of orders for a day after today and
  within the requested horizon, whatever the history and whatever the summation and power of the
  float library return.
\<close>

theorem forecasts_are_not_negative:
  assumes "p \<in> set (get_forecast fsum fpow today q h)"
  shows "0 \<le> fp_predicted_orders p \<and> today < fp_day p \<and> fp_day p \<le> today + int (get_default 7 (oq_days q))"
proof -
  note p = assms[unfolded get_forecast_def]
  have "fp_day p \<in> set (map fp_day (forecast fsum fpow today h (forecast_key q) (get_default 7 (oq_days q))))"
    using p by simp
  then have "today < fp_day p" "fp_day p \<le> today + int (get_default 7 (oq_days q))"
    unfolding forecast_days by auto
  with forecast_nonneg[OF p] show ?thesis by simp
qed

theorem forecasts_are_not_negative_witness:
  "0 \<le> fp_predicted_orders (hd (get_forecast sum_list (\<lambda>x y. x) 100 forecast_query (\<lambda>_. [3, 5])))"
proof -
  have "map fp_day (get_forecast sum_list (\<lambda>x y. x) 100 forecast_query (\<lambda>_. [3, 5])) = [101, 102]"
    by (simp only: get_forecast_def forecast_days) (simp add: forecast_query_def get_default_def upt_rec)
  then have "hd (get_forecast sum_list (\<lambda>x y. x) 100 forecast_query (\<lambda>_. [3, 5])) \<in>
      set (get_forecast sum_list (\<lambda>x y. x) 100 forecast_query (\<lambda>_. [3, 5]))"
    by (intro hd_in_set) auto
  from forecasts_are_not_negative[OF this] show ?thesis by simp
qed

section \<open>Devices\<close>

theorem devices_stay_consistent:
  assumes "devices_reachable d"
  shows "distinct (map dv_code (terminal_devices d)) \<and>
    (\<forall>s\<in>set (device_sessions d). ds_status s = SessionStatus_ENDED \<longleftrightarrow> ds_logout_at s \<noteq> None) \<and>
    (\<forall>l\<in>set (sync_logs d). sl_completed_at l \<noteq> None \<longleftrightarrow>
       sl_status l = SyncLogStatus_COMPLETED \<or> sl_status l = SyncLogStatus_FAILED)"
  using devices_reachable_inv[OF assms] unfolding devices_inv_def .

theorem devices_stay_consistent_witness:
  "case register_device env0 device_data empty_db of
     Inl e \<Rightarrow> False
   | Inr (d', dev) \<Rightarrow> distinct (map dv_code (terminal_devices d')) \<and> dev \<in> set (terminal_devices d')"
proof -
  have "\<exists>d' dev. register_device env0 device_data empty_db = Inr (d', dev) \<and> terminal_devices d' = [dev]"
    by (simp add: register_device_def device_data_def enum_of_def enum_find_def terminal_device_types_def platform_types_def
        sample_eval)
  then obtain d' dev where c: "register_device env0 device_data empty_db = Inr (d', dev)" "terminal_devices d' = [dev]"
    by blast
  have "devices_reachable d'"
    by (rule devices_reachable.step[OF devices_reachable.start device_step.registered[OF c(1)]]) simp_all
  from devices_stay_consistent[OF this] c show ?thesis by simp
qed

end
