(* ===== verification/Barcode.thy ===== *)
theory Barcode
  imports Catalog
begin

text \<open>
  \<open>src/barcode/service.py\<close>: the check digit of article numbers, generation and validation of a GTIN,
  the records of generated and scanned codes, and label templates. The lemmas reduce the loop over the
  digits to a weighted sum and show that a valid number has a weighted sum divisible by ten, so that
  a wrong digit and most exchanges of neighbours are noticed.
\<close>

section \<open>Digits\<close>

text \<open>
  \<open>str.isdigit\<close> on code points below 256: the decimal digits and the superscripts one, two and three;
  \<open>int(ch)\<close> raises \<open>ValueError\<close> on the superscripts.
\<close>

definition is_digit_char :: "char \<Rightarrow> bool" where
  "is_digit_char ch = (let c = of_char ch :: nat in (48 \<le> c \<and> c \<le> 57) \<or> c = 178 \<or> c = 179 \<or> c = 185)"

definition int_char :: "char \<Rightarrow> int result" where
  "int_char ch = (let c = of_char ch :: nat in if 48 \<le> c \<and> c \<le> 57 then Inr (int c - 48) else Inl ValueError)"

definition only_digits :: "string \<Rightarrow> string" where
  "only_digits s = filter is_digit_char s"

section \<open>The check digit\<close>

definition weight_at :: "nat \<Rightarrow> int" where
  "weight_at i = (if i mod 2 = 0 then 1 else 3)"

definition add_digit :: "nat \<times> char \<Rightarrow> int \<Rightarrow> int result" where
  "add_digit p acc = (case p of (i, ch) \<Rightarrow> bindE (int_char ch) (\<lambda>v. Inr (acc + v * weight_at i)))"

definition calc_check_digit :: "string \<Rightarrow> int result" where
  "calc_check_digit digits =
     bindE (foldE add_digit (enumerate 0 digits) 0) (\<lambda>acc. Inr ((10 - acc mod 10) mod 10))"

definition ljust :: "nat \<Rightarrow> char \<Rightarrow> string \<Rightarrow> string" where
  "ljust w c s = s @ replicate (w - length s) c"

definition generate_gtin :: "string \<Rightarrow> string result" where
  "generate_gtin prefix =
     (let cleaned = only_digits prefix in
      bindE (raise_if (length cleaned < 7 \<or> 12 < length cleaned)
               (validation (''GTIN prefix must be 7-12 digits, got '' @ show_nat (length cleaned)))) (\<lambda>_.
      let padded = ljust 12 (CHR ''0'') cleaned in
      bindE (calc_check_digit padded) (\<lambda>check. Inr (padded @ show_nat (nat check)))))"

text \<open>The dictionary that \<open>validate_gtin\<close> returns.\<close>

datatype gtin_check = GtinValid string string | GtinInvalid string

definition check_last_digit :: "string \<Rightarrow> string option result" where
  "check_last_digit cleaned =
     bindE (calc_check_digit (take 12 cleaned)) (\<lambda>expected_check.
     bindE (int_char (cleaned ! 12)) (\<lambda>actual_check.
     Inr (if actual_check \<noteq> expected_check
          then Some (''Check digit mismatch: expected '' @ show_nat (nat expected_check) @ '', got '' @
                     show_nat (nat actual_check))
          else None)))"

definition validate_gtin :: "string \<Rightarrow> gtin_check result" where
  "validate_gtin gtin =
     (let cleaned = only_digits gtin in
      if length cleaned \<notin> {8, 12, 13, 14}
      then Inr (GtinInvalid (''Invalid length: '' @ show_nat (length cleaned) @ '' (expected 8, 12, 13, or 14)''))
      else bindE (if length cleaned = 13 then check_last_digit cleaned else Inr None) (\<lambda>reason.
        Inr (case reason of
               Some r \<Rightarrow> GtinInvalid r
             | None \<Rightarrow> GtinValid cleaned (if length cleaned = 13 then ''ean13'' else ''other''))))"

section \<open>Records\<close>

record barcode_record = base_row +
  bc_gtin :: string
  bc_entity_type :: string
  bc_entity_id :: uuid
  bc_format :: string
  bc_image_url :: "string option"
  bc_raw_data :: "string option"

record label_template = base_row +
  lt_name :: string
  lt_code :: string
  lt_format :: string
  lt_width_mm :: rat
  lt_height_mm :: rat
  lt_content :: json
  lt_is_default :: bool

record barcode_db = core_db +
  barcode_records :: "barcode_record list"
  label_templates :: "label_template list"

record barcode_req =
  bq_gtin_prefix :: string
  bq_entity_type :: string
  bq_entity_id :: string
  bq_format :: "string option"

record template_req =
  lq_name :: string
  lq_code :: string
  lq_format :: "string option"
  lq_width_mm :: "rat option"
  lq_height_mm :: "rat option"
  lq_content :: "json option"
  lq_is_default :: "bool option"

interpretation barcode_rows: repository barcode_records "\<lambda>t d. d\<lparr>barcode_records := t\<rparr>" pk
  by unfold_locales simp_all

interpretation template_rows: repository label_templates "\<lambda>t d. d\<lparr>label_templates := t\<rparr>" pk
  by unfold_locales simp_all

definition generate_barcode ::
  "env \<Rightarrow> barcode_req \<Rightarrow> 'a barcode_db_scheme \<Rightarrow> ('a barcode_db_scheme \<times> barcode_record) result" where
  "generate_barcode env data d =
     bindE (generate_gtin (bq_gtin_prefix data)) (\<lambda>gtin.
     bindE (to_uuid (bq_entity_id data)) (\<lambda>eid.
     let r = \<lparr>pk = new_uuid env d, created_at = now env, updated_at = now env, bc_gtin = gtin,
              bc_entity_type = bq_entity_type data, bc_entity_id = eid,
              bc_format = get_default ''ean13'' (bq_format data), bc_image_url = None, bc_raw_data = Some gtin\<rparr>
     in Inr ((tick d)\<lparr>barcode_records := insert_row r (barcode_records d)\<rparr>, r)))"

text \<open>A scan draws two identifiers: the key of its row and a fresh entity.\<close>

definition record_scan ::
  "env \<Rightarrow> string \<Rightarrow> 'a barcode_db_scheme \<Rightarrow> 'a barcode_db_scheme \<times> barcode_record" where
  "record_scan env raw d =
     (let r = \<lparr>pk = new_uuid env d, created_at = now env, updated_at = now env, bc_gtin = strip_by py_space raw,
               bc_entity_type = ''scan'', bc_entity_id = new_uuid env (tick d), bc_format = ''code128'',
               bc_image_url = None, bc_raw_data = Some raw\<rparr>
      in ((tick (tick d))\<lparr>barcode_records := insert_row r (barcode_records d)\<rparr>, r))"

definition get_by_gtin :: "string \<Rightarrow> 'a barcode_db_scheme \<Rightarrow> barcode_record list" where
  "get_by_gtin gtin d = select_where (\<lambda>r. bc_gtin r = gtin) (barcode_records d)"

definition create_template ::
  "env \<Rightarrow> template_req \<Rightarrow> 'a barcode_db_scheme \<Rightarrow> ('a barcode_db_scheme \<times> label_template) result" where
  "create_template env data d =
     bindE (find_one (\<lambda>t. lt_code t = lq_code data) (label_templates d)) (\<lambda>existing.
     bindE (raise_if (existing \<noteq> None)
              (validation (''Template code '' @ quoted (lq_code data) @ '' already exists''))) (\<lambda>_.
     let tpl = \<lparr>pk = new_uuid env d, created_at = now env, updated_at = now env, lt_name = lq_name data,
                lt_code = lq_code data, lt_format = get_default ''zpl'' (lq_format data),
                lt_width_mm = get_default 50 (lq_width_mm data), lt_height_mm = get_default 30 (lq_height_mm data),
                lt_content = get_default (JObj []) (lq_content data),
                lt_is_default = get_default False (lq_is_default data)\<rparr>
     in bindE (insert_unique lt_code tpl (label_templates d)) (\<lambda>t.
        Inr ((tick d)\<lparr>label_templates := t\<rparr>, tpl))))"

definition list_templates :: "'a barcode_db_scheme \<Rightarrow> label_template list" where
  "list_templates d = order_by_desc created_at (label_templates d)"

section \<open>The weighted sum\<close>

definition ascii_digit :: "char \<Rightarrow> bool" where
  "ascii_digit ch = (let c = of_char ch :: nat in 48 \<le> c \<and> c \<le> 57)"

definition digit_of :: "char \<Rightarrow> int" where
  "digit_of ch = int (of_char ch :: nat) - 48"

fun weighted_sum :: "nat \<Rightarrow> string \<Rightarrow> int" where
  "weighted_sum i [] = 0"
| "weighted_sum i (c # cs) = digit_of c * weight_at i + weighted_sum (Suc i) cs"

lemma int_char_eq_Inr: "int_char c = Inr v \<longleftrightarrow> ascii_digit c \<and> v = digit_of c"
  by (auto simp: int_char_def ascii_digit_def digit_of_def Let_def)

lemma int_char_ascii [simp]: "ascii_digit c \<Longrightarrow> int_char c = Inr (digit_of c)"
  by (simp add: int_char_eq_Inr)

lemma ascii_is_digit [simp]: "ascii_digit c \<Longrightarrow> is_digit_char c"
  by (simp add: ascii_digit_def is_digit_char_def Let_def)

lemma digit_of_range: "ascii_digit c \<Longrightarrow> 0 \<le> digit_of c \<and> digit_of c < 10"
  by (auto simp: ascii_digit_def digit_of_def Let_def)

lemma digit_of_inj: "digit_of a = digit_of b \<Longrightarrow> a = b"
  by (auto simp: digit_of_def)

lemma only_digits_ascii [simp]: "\<forall>c\<in>set s. ascii_digit c \<Longrightarrow> only_digits s = s"
  by (simp add: only_digits_def)

lemma add_digits: "foldE add_digit (enumerate i s) n = Inr m \<longleftrightarrow> (\<forall>c\<in>set s. ascii_digit c) \<and> m = n + weighted_sum i s"
proof (induction s arbitrary: i n)
  case (Cons c s)
  show ?case
  proof (cases "ascii_digit c")
    case True
    with Cons show ?thesis by (auto simp: add_digit_def)
  next
    case False
    then have "\<nexists>v. int_char c = Inr v" by (simp add: int_char_eq_Inr)
    with False show ?thesis by (auto simp: add_digit_def)
  qed
qed auto

lemma calc_check_digit_eq_Inr:
  "calc_check_digit s = Inr k \<longleftrightarrow> (\<forall>c\<in>set s. ascii_digit c) \<and> k = (10 - weighted_sum 0 s mod 10) mod 10"
  by (auto simp: calc_check_digit_def add_digits)

lemma weighted_sum_append: "weighted_sum i (s @ t) = weighted_sum i s + weighted_sum (i + length s) t"
  by (induction s arbitrary: i) auto

lemma weighted_sum_update:
  assumes "i < length s"
  shows "weighted_sum j (s[i := c]) = weighted_sum j s + (digit_of c - digit_of (s ! i)) * weight_at (j + i)"
  using assms
proof (induction s arbitrary: i j)
  case (Cons a s)
  show ?case
  proof (cases i)
    case (Suc k)
    with Cons.prems have "k < length s" by simp
    from Cons.IH[OF this, of "Suc j"] Suc show ?thesis by simp
  qed (simp add: algebra_simps)
qed simp

lemma split_last_digit:
  assumes "length g = 13"
  shows "g = take 12 g @ [g ! 12]"
  using take_Suc_conv_app_nth[of 12 g] assms by simp

lemma mod_10_below_20:
  assumes "0 \<le> (x::int)" "x < 20"
  shows "x mod 10 = (if x < 10 then x else x - 10)"
proof (cases "x < 10")
  case False
  have "x mod 10 = (x - 10) mod 10" by (rule minus_mod_self2[symmetric])
  also have "\<dots> = x - 10" using False assms by (intro mod_pos_pos_trivial) auto
  finally show ?thesis using False by simp
qed (use assms in simp)

lemma check_digit_complements:
  assumes "0 \<le> (a::int)" "a < 10"
  shows "a = (10 - w mod 10) mod 10 \<longleftrightarrow> (w + a) mod 10 = 0"
proof -
  define m where "m = w mod 10"
  have m: "0 \<le> m" "m < 10" by (simp_all add: m_def)
  have "(10 - m) mod 10 = (if m = 0 then 0 else 10 - m)"
    using m mod_pos_pos_trivial[of "10 - m" 10] by (cases "m = 0") (simp_all del: mod_pos_pos_trivial)
  moreover have "(m + a) mod 10 = (if m + a < 10 then m + a else m + a - 10)"
    using m assms by (intro mod_10_below_20) auto
  moreover have "(w + a) mod 10 = (m + a) mod 10" by (simp add: m_def mod_add_left_eq)
  ultimately show ?thesis using assms m by (auto simp: m_def[symmetric])
qed

section \<open>Valid numbers\<close>

lemma validate_ean13:
  assumes "\<forall>c\<in>set g. ascii_digit c" "length g = 13"
  shows "validate_gtin g = Inr (GtinValid g ''ean13'') \<longleftrightarrow> weighted_sum 0 g mod 10 = 0"
    and "weighted_sum 0 g mod 10 \<noteq> 0 \<Longrightarrow> \<exists>r. validate_gtin g = Inr (GtinInvalid r)"
proof -
  let ?a = "g ! 12" and ?p = "take 12 g"
  have split: "g = ?p @ [?a]"
    using assms(2) by (rule split_last_digit)
  have a: "ascii_digit ?a" using assms by simp
  have p: "\<forall>c\<in>set ?p. ascii_digit c" using assms(1) by (meson in_set_takeD)
  have len: "length ?p = 12" using assms(2) by simp
  have "weighted_sum 0 g = weighted_sum 0 ?p + digit_of ?a"
    using weighted_sum_append[of 0 ?p "[?a]"] split len by (simp add: weight_at_def)
  then have ws: "weighted_sum 0 g mod 10 = 0 \<longleftrightarrow> digit_of ?a = (10 - weighted_sum 0 ?p mod 10) mod 10"
    using check_digit_complements[of "digit_of ?a"] digit_of_range[OF a] by simp
  have calc: "calc_check_digit ?p = Inr ((10 - weighted_sum 0 ?p mod 10) mod 10)"
    using p by (simp add: calc_check_digit_eq_Inr)
  have "check_last_digit g = Inr None \<longleftrightarrow> weighted_sum 0 g mod 10 = 0"
    and "weighted_sum 0 g mod 10 \<noteq> 0 \<Longrightarrow> \<exists>r. check_last_digit g = Inr (Some r)"
    using ws by (simp_all add: check_last_digit_def calc int_char_ascii[OF a])
  moreover have "validate_gtin g = bindE (check_last_digit g) (\<lambda>reason.
      Inr (case reason of Some r \<Rightarrow> GtinInvalid r | None \<Rightarrow> GtinValid g ''ean13''))"
    using assms by (simp add: validate_gtin_def)
  ultimately show "validate_gtin g = Inr (GtinValid g ''ean13'') \<longleftrightarrow> weighted_sum 0 g mod 10 = 0"
    "weighted_sum 0 g mod 10 \<noteq> 0 \<Longrightarrow> \<exists>r. validate_gtin g = Inr (GtinInvalid r)"
    by (auto 4 4 split: option.splits)
qed

lemma valid_ean13E:
  assumes "validate_gtin g = Inr (GtinValid c ''ean13'')"
  obtains "c = only_digits g" "length c = 13" "\<forall>x\<in>set c. ascii_digit x"
proof -
  from assms have len: "length (only_digits g) = 13" and c: "c = only_digits g"
    by (auto simp: validate_gtin_def Let_def split: if_splits option.splits)
  from assms len have "\<exists>k. calc_check_digit (take 12 c) = Inr k" "\<exists>v. int_char (c ! 12) = Inr v"
    by (auto simp: validate_gtin_def check_last_digit_def Let_def c)
  then have "\<forall>x\<in>set (take 12 c). ascii_digit x" "ascii_digit (c ! 12)"
    by (auto simp: calc_check_digit_eq_Inr int_char_eq_Inr)
  moreover have "c = take 12 c @ [c ! 12]"
    using len c by (simp add: split_last_digit)
  ultimately have "\<forall>x\<in>set c. ascii_digit x" by (metis Un_iff empty_iff empty_set list.set(2) insert_iff set_append)
  with that c len show thesis by blast
qed

lemma generate_gtinE:
  assumes "generate_gtin p = Inr g"
  obtains k where "7 \<le> length (only_digits p)" "length (only_digits p) \<le> 12" "0 \<le> k" "k < 10"
    "\<forall>c\<in>set (ljust 12 (CHR ''0'') (only_digits p)). ascii_digit c"
    "k = (10 - weighted_sum 0 (ljust 12 (CHR ''0'') (only_digits p)) mod 10) mod 10"
    "g = ljust 12 (CHR ''0'') (only_digits p) @ [char_of (48 + nat k)]"
proof -
  from assms obtain k where k: "calc_check_digit (ljust 12 (CHR ''0'') (only_digits p)) = Inr k"
    "g = ljust 12 (CHR ''0'') (only_digits p) @ show_nat (nat k)" "7 \<le> length (only_digits p)" "length (only_digits p) \<le> 12"
    by (auto simp: generate_gtin_def Let_def not_less)
  from k(1) have r: "0 \<le> k" "k < 10" by (auto simp: calc_check_digit_eq_Inr)
  then have "show_nat (nat k) = [char_of (48 + nat k)]" by (subst show_nat_def, subst digits_of.simps) (simp add: nat_less_iff)
  with k(2) have g: "g = ljust 12 (CHR ''0'') (only_digits p) @ [char_of (48 + nat k)]" by simp
  from k(1)[unfolded calc_check_digit_eq_Inr] show thesis by (elim conjE) (rule that[OF k(3,4) r _ _ g])
qed

lemma length_ljust: "length s \<le> w \<Longrightarrow> length (ljust w c s) = w"
  by (simp add: ljust_def)

lemma ljust_append:
  assumes "length s < w"
  shows "ljust w c (s @ [c]) = ljust w c s"
proof -
  have "replicate (w - length s) c = c # replicate (w - Suc (length s)) c"
    using assms by (metis Suc_diff_Suc replicate_Suc)
  then show ?thesis by (simp add: ljust_def)
qed

text \<open>The lengths 8, 12 and 14 are accepted whatever their last digit is.\<close>

lemma unchecked_lengths:
  "length (only_digits g) \<in> {8, 12, 14} \<Longrightarrow> validate_gtin g = Inr (GtinValid (only_digits g) ''other'')"
  by (auto simp: validate_gtin_def Let_def)

lemma superscript_raises:
  assumes "of_char c = (178::nat)" "only_digits p = c # s" "6 \<le> length s" "length s \<le> 11"
  shows "generate_gtin p = Inl ValueError"
proof -
  have "int_char c = Inl ValueError" by (simp only: int_char_def assms(1) Let_def) simp
  then have "add_digit (0, c) 0 = Inl ValueError" by (simp add: add_digit_def)
  then have "calc_check_digit (c # t) = Inl ValueError" for t by (simp add: calc_check_digit_def)
  then have "calc_check_digit (ljust 12 (CHR ''0'') (c # s)) = Inl ValueError" by (simp add: ljust_def)
  with assms(2,3,4) show ?thesis by (simp add: generate_gtin_def)
qed

section \<open>Well-formed tables\<close>

lemma create_template_codes:
  assumes "create_template env data d = Inr (d', t)" "distinct (map lt_code (label_templates d))"
  shows "distinct (map lt_code (label_templates d'))" "label_templates d' = label_templates d @ [t]"
    "lt_code t = lq_code data"
  using assms by (auto simp: create_template_def Let_def insert_row_def tick_def)

lemma create_template_twice:
  assumes "create_template env data d = Inr (d', t)"
  shows "create_template env' data d' =
    Inl (validation (''Template code '' @ quoted (lq_code data) @ '' already exists''))"
proof -
  from assms have new: "find_one (\<lambda>t. lt_code t = lq_code data) (label_templates d) = Inr None"
    and d': "label_templates d' = label_templates d @ [t]" "lt_code t = lq_code data"
    by (auto simp: create_template_def Let_def insert_row_def tick_def)
  from new have "filter (\<lambda>t. lt_code t = lq_code data) (label_templates d) = []"
    by (simp add: find_one_None filter_empty_conv)
  with d' have "find_one (\<lambda>t. lt_code t = lq_code data) (label_templates d') = Inr (Some t)"
    by (simp add: find_one_Some_iff)
  then show ?thesis by (simp add: create_template_def)
qed

lemma generated_is_found:
  assumes "generate_barcode env data d = Inr (d', r)"
  shows "r \<in> set (get_by_gtin (bc_gtin r) d')" "generate_gtin (bq_gtin_prefix data) = Inr (bc_gtin r)"
  using assms by (auto simp: generate_barcode_def get_by_gtin_def Let_def tick_def)

end
