(* ===== verification/Auth.thy ===== *)
theory Auth
  imports Catalog
begin

text \<open>
  \<open>src/auth/service.py\<close> and \<open>src/auth/models.py\<close>: accounts, roles, permissions and the two assignment
  tables, with the permission check of \<open>src/core/dependencies.py\<close>. The hash functions of \<open>bcrypt\<close> are
  parameters. The locale \<open>assignment\<close> is the contract that the user-role and the role-permission
  assignments share. Every insert checks the unique constraints of its table, the primary key included.
\<close>

section \<open>Tables\<close>

record user = base_row +
  us_username :: string
  us_email :: string
  us_hashed_password :: string
  us_is_active :: bool

record role = base_row +
  rl_name :: string
  rl_code :: string
  rl_description :: "string option"
  rl_is_system :: bool

record permission = base_row +
  pm_name :: string
  pm_code :: string
  pm_resource :: string
  pm_action :: string
  pm_description :: "string option"

record user_role =
  ur_user_id :: uuid
  ur_role_id :: uuid

record role_permission =
  gp_role_id :: uuid
  gp_permission_id :: uuid

text \<open>\<open>admin_seeded\<close> is the module variable \<open>_admin_seeded\<close>.\<close>

record auth_db = core_db +
  users :: "user list"
  roles :: "role list"
  permissions :: "permission list"
  user_roles :: "user_role list"
  role_permissions :: "role_permission list"
  admin_seeded :: bool

interpretation user_rows: repository users "\<lambda>t d. d\<lparr>users := t\<rparr>" pk
  by unfold_locales simp_all

interpretation role_rows: repository roles "\<lambda>t d. d\<lparr>roles := t\<rparr>" pk
  by unfold_locales simp_all

interpretation permission_rows: repository permissions "\<lambda>t d. d\<lparr>permissions := t\<rparr>" pk
  by unfold_locales simp_all

record user_create =
  uq_username :: string
  uq_email :: string
  uq_password :: string

record role_create =
  kq_name :: string
  kq_code :: string
  kq_description :: "string option"

record role_update =
  ku_name :: "string option"
  ku_description :: "string option"

record permission_create =
  nq_name :: string
  nq_code :: string
  nq_resource :: string
  nq_action :: string
  nq_description :: "string option"

section \<open>Accounts\<close>

text \<open>\<open>bcrypt.checkpw\<close> may raise on a malformed hash; two of its exceptions count as a wrong password.\<close>

definition verify_password :: "(string \<Rightarrow> string \<Rightarrow> bool result) \<Rightarrow> string \<Rightarrow> string \<Rightarrow> bool result" where
  "verify_password checkpw plain hashed =
     (case checkpw plain hashed of
        Inl e \<Rightarrow> if e = ValueError \<or> e = TypeError then Inr False else Inl e
      | Inr b \<Rightarrow> Inr b)"

definition ensure_admin :: "'a auth_db_scheme \<Rightarrow> 'a auth_db_scheme" where
  "ensure_admin d = (if admin_seeded d then d else d\<lparr>admin_seeded := True\<rparr>)"

definition register_user ::
  "env \<Rightarrow> (string \<Rightarrow> string result) \<Rightarrow> user_create \<Rightarrow> 'a auth_db_scheme \<Rightarrow> ('a auth_db_scheme \<times> user) result" where
  "register_user env hashpw data d =
     bindE (find_one (\<lambda>u. us_username u = uq_username data \<or> us_email u = uq_email data) (users d)) (\<lambda>existing.
     bindE (raise_if (existing \<noteq> None) (validation ''Username or email already exists'')) (\<lambda>_.
     bindE (hashpw (uq_password data)) (\<lambda>hashed.
     let u = \<lparr>pk = new_uuid env d, created_at = now env, updated_at = now env, us_username = uq_username data,
              us_email = uq_email data, us_hashed_password = hashed, us_is_active = True\<rparr>
     in bindE (insert_unique pk u (users d)) (\<lambda>_.
        bindE (insert_unique us_username u (users d)) (\<lambda>_.
        bindE (insert_unique us_email u (users d)) (\<lambda>t.
        Inr (ensure_admin ((tick d)\<lparr>users := t\<rparr>), u)))))))"

definition authenticate_user ::
  "(string \<Rightarrow> string \<Rightarrow> bool result) \<Rightarrow> string \<Rightarrow> string \<Rightarrow> 'a auth_db_scheme \<Rightarrow> user option result" where
  "authenticate_user checkpw username password d =
     bindE (find_one (\<lambda>u. us_username u = username) (users d)) (\<lambda>found.
     case found of
       None \<Rightarrow> Inr None
     | Some u \<Rightarrow>
         bindE (verify_password checkpw password (us_hashed_password u)) (\<lambda>ok.
         Inr (if \<not> ok then None else if \<not> us_is_active u then None else Some u)))"

definition get_user_by_id :: "string \<Rightarrow> 'a auth_db_scheme \<Rightarrow> user result" where
  "get_user_by_id user_id d =
     bindE (to_uuid user_id) (\<lambda>i. find_or_raise (NotFoundException ''User not found'') (\<lambda>u. pk u = i) (users d))"

definition get_user_by_username :: "string \<Rightarrow> 'a auth_db_scheme \<Rightarrow> user option result" where
  "get_user_by_username username d = find_one (\<lambda>u. us_username u = username) (users d)"

definition list_users :: "'a auth_db_scheme \<Rightarrow> user list" where
  "list_users d = order_by_desc created_at (users d)"

section \<open>Roles and permissions\<close>

definition create_role ::
  "env \<Rightarrow> role_create \<Rightarrow> 'a auth_db_scheme \<Rightarrow> ('a auth_db_scheme \<times> role) result" where
  "create_role env data d =
     bindE (find_one (\<lambda>r. rl_code r = kq_code data) (roles d)) (\<lambda>existing.
     bindE (raise_if (existing \<noteq> None)
              (validation (''Role code '' @ quoted (kq_code data) @ '' already exists''))) (\<lambda>_.
     let r = \<lparr>pk = new_uuid env d, created_at = now env, updated_at = now env, rl_name = kq_name data,
              rl_code = kq_code data, rl_description = kq_description data, rl_is_system = False\<rparr>
     in bindE (insert_unique pk r (roles d)) (\<lambda>_.
        bindE (insert_unique rl_code r (roles d)) (\<lambda>t.
        Inr ((tick d)\<lparr>roles := t\<rparr>, r)))))"

definition list_roles :: "'a auth_db_scheme \<Rightarrow> role list" where
  "list_roles d = order_by_desc created_at (roles d)"

text \<open>An \<open>UPDATE\<close>, and with it a new \<open>updated_at\<close>, is issued only when a column changes.\<close>

definition apply_role_update :: "env \<Rightarrow> role_update \<Rightarrow> role \<Rightarrow> role" where
  "apply_role_update env data r =
     (let r1 = r\<lparr>rl_name := get_default (rl_name r) (ku_name data),
                 rl_description := (case ku_description data of None \<Rightarrow> rl_description r | Some v \<Rightarrow> Some v)\<rparr>
      in if r1 = r then r else r1\<lparr>updated_at := now env\<rparr>)"

definition find_role :: "string \<Rightarrow> 'a auth_db_scheme \<Rightarrow> role result" where
  "find_role role_id d =
     bindE (to_uuid role_id) (\<lambda>i.
     find_or_raise (NotFoundException (''Role '' @ role_id @ '' not found'')) (\<lambda>r. pk r = i) (roles d))"

definition update_role ::
  "env \<Rightarrow> string \<Rightarrow> role_update \<Rightarrow> 'a auth_db_scheme \<Rightarrow> ('a auth_db_scheme \<times> role) result" where
  "update_role env role_id data d =
     bindE (find_role role_id d) (\<lambda>r.
     Inr (d\<lparr>roles := update_where (\<lambda>x. pk x = pk r) (apply_role_update env data) (roles d)\<rparr>,
          apply_role_update env data r))"

text \<open>Deleting a role deletes its rows in the two assignment tables.\<close>

definition delete_role :: "string \<Rightarrow> 'a auth_db_scheme \<Rightarrow> ('a auth_db_scheme \<times> unit) result" where
  "delete_role role_id d =
     bindE (find_role role_id d) (\<lambda>r.
     bindE (raise_if (rl_is_system r) (validation ''Cannot delete system role'')) (\<lambda>_.
     Inr (d\<lparr>roles := delete_where (\<lambda>x. pk x = pk r) (roles d),
            user_roles := delete_where (\<lambda>l. ur_role_id l = pk r) (user_roles d),
            role_permissions := delete_where (\<lambda>l. gp_role_id l = pk r) (role_permissions d)\<rparr>, ())))"

definition list_permissions :: "'a auth_db_scheme \<Rightarrow> permission list" where
  "list_permissions d = order_by_desc created_at (permissions d)"

definition create_permission ::
  "env \<Rightarrow> permission_create \<Rightarrow> 'a auth_db_scheme \<Rightarrow> ('a auth_db_scheme \<times> permission) result" where
  "create_permission env data d =
     bindE (find_one (\<lambda>p. pm_code p = nq_code data) (permissions d)) (\<lambda>existing.
     bindE (raise_if (existing \<noteq> None)
              (validation (''Permission code '' @ quoted (nq_code data) @ '' already exists''))) (\<lambda>_.
     let p = \<lparr>pk = new_uuid env d, created_at = now env, updated_at = now env, pm_name = nq_name data,
              pm_code = nq_code data, pm_resource = nq_resource data, pm_action = nq_action data,
              pm_description = nq_description data\<rparr>
     in bindE (insert_unique pk p (permissions d)) (\<lambda>_.
        bindE (insert_unique pm_code p (permissions d)) (\<lambda>t.
        Inr ((tick d)\<lparr>permissions := t\<rparr>, p)))))"

section \<open>Assignments\<close>

definition assign_role_to_user ::
  "string \<Rightarrow> string \<Rightarrow> 'a auth_db_scheme \<Rightarrow> ('a auth_db_scheme \<times> string \<times> string) result" where
  "assign_role_to_user user_id role_id d =
     bindE (to_uuid user_id) (\<lambda>u.
     bindE (find_or_raise (NotFoundException (''User '' @ user_id @ '' not found'')) (\<lambda>x. pk x = u) (users d)) (\<lambda>_.
     bindE (to_uuid role_id) (\<lambda>r.
     bindE (find_or_raise (NotFoundException (''Role '' @ role_id @ '' not found'')) (\<lambda>x. pk x = r) (roles d)) (\<lambda>_.
     bindE (find_one (\<lambda>l. ur_user_id l = u \<and> ur_role_id l = r) (user_roles d)) (\<lambda>existing.
     bindE (raise_if (existing \<noteq> None) (validation ''User already has this role'')) (\<lambda>_.
     bindE (insert_unique (\<lambda>l. (ur_user_id l, ur_role_id l)) \<lparr>ur_user_id = u, ur_role_id = r\<rparr> (user_roles d)) (\<lambda>t.
     Inr (d\<lparr>user_roles := t\<rparr>, user_id, role_id))))))))"

definition remove_role_from_user ::
  "string \<Rightarrow> string \<Rightarrow> 'a auth_db_scheme \<Rightarrow> ('a auth_db_scheme \<times> unit) result" where
  "remove_role_from_user user_id role_id d =
     bindE (to_uuid user_id) (\<lambda>u.
     bindE (to_uuid role_id) (\<lambda>r.
     bindE (find_or_raise (NotFoundException ''User does not have this role'')
              (\<lambda>l. ur_user_id l = u \<and> ur_role_id l = r) (user_roles d)) (\<lambda>l.
     Inr (d\<lparr>user_roles := delete_where (\<lambda>x. ur_user_id x = ur_user_id l \<and> ur_role_id x = ur_role_id l) (user_roles d)\<rparr>, ()))))"

definition assign_permission_to_role ::
  "string \<Rightarrow> string \<Rightarrow> 'a auth_db_scheme \<Rightarrow> ('a auth_db_scheme \<times> string \<times> string) result" where
  "assign_permission_to_role role_id permission_id d =
     bindE (to_uuid role_id) (\<lambda>r.
     bindE (find_or_raise (NotFoundException (''Role '' @ role_id @ '' not found'')) (\<lambda>x. pk x = r) (roles d)) (\<lambda>_.
     bindE (to_uuid permission_id) (\<lambda>p.
     bindE (find_or_raise (NotFoundException (''Permission '' @ permission_id @ '' not found''))
              (\<lambda>x. pk x = p) (permissions d)) (\<lambda>_.
     bindE (find_one (\<lambda>l. gp_role_id l = r \<and> gp_permission_id l = p) (role_permissions d)) (\<lambda>existing.
     bindE (raise_if (existing \<noteq> None) (validation ''Role already has this permission'')) (\<lambda>_.
     bindE (insert_unique (\<lambda>l. (gp_role_id l, gp_permission_id l)) \<lparr>gp_role_id = r, gp_permission_id = p\<rparr>
              (role_permissions d)) (\<lambda>t.
     Inr (d\<lparr>role_permissions := t\<rparr>, role_id, permission_id))))))))"

definition remove_permission_from_role ::
  "string \<Rightarrow> string \<Rightarrow> 'a auth_db_scheme \<Rightarrow> ('a auth_db_scheme \<times> unit) result" where
  "remove_permission_from_role role_id permission_id d =
     bindE (to_uuid role_id) (\<lambda>r.
     bindE (to_uuid permission_id) (\<lambda>p.
     bindE (find_or_raise (NotFoundException ''Role does not have this permission'')
              (\<lambda>l. gp_role_id l = r \<and> gp_permission_id l = p) (role_permissions d)) (\<lambda>l.
     Inr (d\<lparr>role_permissions :=
              delete_where (\<lambda>x. gp_role_id x = gp_role_id l \<and> gp_permission_id x = gp_permission_id l) (role_permissions d)\<rparr>, ()))))"

section \<open>Activity and deletion\<close>

text \<open>
  The queries that \<open>src/auth/router.py\<close> and \<open>src/admin/router.py\<close> run themselves. A deletion takes the
  assignments of the account with it; the tracking events, status logs and stock logs that name an
  account as their operator keep it from being deleted, \<open>operators\<close> are the accounts they name.
\<close>

definition toggle_user_active :: "env \<Rightarrow> string \<Rightarrow> 'a auth_db_scheme \<Rightarrow> ('a auth_db_scheme \<times> bool) result" where
  "toggle_user_active env user_id d =
     bindE (to_uuid user_id) (\<lambda>i.
     bindE (find_or_raise (HTTPException 404 ''User not found'') (\<lambda>u. pk u = i) (users d)) (\<lambda>u.
     Inr (d\<lparr>users := update_where (\<lambda>x. pk x = pk u) (\<lambda>x. x\<lparr>us_is_active := \<not> us_is_active x, updated_at := now env\<rparr>) (users d)\<rparr>,
          \<not> us_is_active u)))"

definition delete_user :: "uuid list \<Rightarrow> string \<Rightarrow> 'a auth_db_scheme \<Rightarrow> 'a auth_db_scheme result" where
  "delete_user operators user_id d =
     bindE (to_uuid user_id) (\<lambda>i.
     bindE (raise_if (i \<in> pk ` set (users d) \<and> i \<in> set operators) IntegrityError) (\<lambda>_.
     Inr (d\<lparr>users := delete_where (\<lambda>u. pk u = i) (users d),
            user_roles := delete_where (\<lambda>l. ur_user_id l = i) (user_roles d)\<rparr>)))"

section \<open>The permission check\<close>

definition user_role_list :: "user \<Rightarrow> 'a auth_db_scheme \<Rightarrow> role list" where
  "user_role_list u d =
     filter (\<lambda>r. \<exists>l\<in>set (user_roles d). ur_user_id l = pk u \<and> ur_role_id l = pk r) (roles d)"

definition role_permission_list :: "role \<Rightarrow> 'a auth_db_scheme \<Rightarrow> permission list" where
  "role_permission_list r d =
     filter (\<lambda>p. \<exists>l\<in>set (role_permissions d). gp_role_id l = pk r \<and> gp_permission_id l = pk p) (permissions d)"

definition get_user_permissions :: "string \<Rightarrow> 'a auth_db_scheme \<Rightarrow> string set result" where
  "get_user_permissions username d =
     bindE (find_one (\<lambda>u. us_username u = username) (users d)) (\<lambda>found.
     Inr (case found of
            None \<Rightarrow> {}
          | Some u \<Rightarrow> set (concat (map (\<lambda>r. map pm_code (role_permission_list r d)) (user_role_list u d)))))"

fun check_required :: "string list \<Rightarrow> string set \<Rightarrow> unit result" where
  "check_required [] user_perms = Inr ()"
| "check_required (perm # required) user_perms =
     (if perm \<notin> user_perms then Inl (HTTPException 403 (''Permission '' @ quoted perm @ '' required''))
      else check_required required user_perms)"

text \<open>
  \<open>async with get_db() as db_session\<close>: \<open>get_db\<close> is an asynchronous generator function without the
  context manager decorator, so entering the block raises \<open>TypeError\<close>.
\<close>

definition enter_get_db :: "'a auth_db_scheme \<Rightarrow> 'a auth_db_scheme result" where
  "enter_get_db d = Inl TypeError"

definition require_permission :: "string list \<Rightarrow> string option \<Rightarrow> 'a auth_db_scheme \<Rightarrow> unit result" where
  "require_permission required sub d =
     (if required = [] then Inr ()
      else
        let username = get_default [] sub in
        bindE (raise_if (username = []) (HTTPException 403 ''User identity not found'')) (\<lambda>_.
        bindE (enter_get_db d) (\<lambda>db_session.
        bindE (get_user_permissions username db_session) (check_required required))))"

section \<open>Assignments undo each other\<close>

text \<open>The contract of the two assignment tables, a set of pairs of keys.\<close>

locale assignment =
  fixes links :: "'db \<Rightarrow> (uuid \<times> uuid) list"
    and assign :: "string \<Rightarrow> string \<Rightarrow> 'db \<Rightarrow> ('db \<times> string \<times> string) result"
    and unassign :: "string \<Rightarrow> string \<Rightarrow> 'db \<Rightarrow> ('db \<times> unit) result"
  assumes assigned: "assign a b d = Inr (d', v) \<Longrightarrow>
      \<exists>x y. to_uuid a = Inr x \<and> to_uuid b = Inr y \<and> (x, y) \<notin> set (links d) \<and> links d' = links d @ [(x, y)]"
    and unassigned: "unassign a b d = Inr (d', u) \<Longrightarrow>
      \<exists>x y. to_uuid a = Inr x \<and> to_uuid b = Inr y \<and> (x, y) \<in> set (links d) \<and> links d' = filter (\<lambda>l. l \<noteq> (x, y)) (links d)"
    and unassign_present: "to_uuid a = Inr x \<Longrightarrow> to_uuid b = Inr y \<Longrightarrow> distinct (links d) \<Longrightarrow>
      (x, y) \<in> set (links d) \<Longrightarrow> \<exists>d' u. unassign a b d = Inr (d', u)"
begin

lemma assign_distinct: "assign a b d = Inr (d', v) \<Longrightarrow> distinct (links d) \<Longrightarrow> distinct (links d')"
  using assigned[of a b d d' v] by auto

lemma unassign_distinct: "unassign a b d = Inr (d', v) \<Longrightarrow> distinct (links d) \<Longrightarrow> distinct (links d')"
  using unassigned[of a b d d' v] by auto

lemma assign_twice:
  assumes "assign a b d = Inr (d', v)"
  shows "assign a b d' \<noteq> Inr r"
proof
  assume "assign a b d' = Inr r"
  then show False using assigned[OF assms] assigned[of a b d' "fst r" "snd r"] by auto
qed

lemma assign_then_unassign:
  assumes "assign a b d = Inr (d', v)" "distinct (links d)"
  obtains d'' u where "unassign a b d' = Inr (d'', u)" "links d'' = links d"
proof -
  from assigned[OF assms(1)] obtain x y where xy: "to_uuid a = Inr x" "to_uuid b = Inr y" "(x, y) \<notin> set (links d)"
    "links d' = links d @ [(x, y)]" by blast
  with assign_distinct[OF assms] obtain d'' u where u: "unassign a b d' = Inr (d'', u)"
    using unassign_present[OF xy(1,2), of d'] by auto
  have "filter (\<lambda>l. l \<noteq> (x, y)) (links d) = links d" using xy(3) by (auto simp: filter_id_conv)
  with unassigned[OF u] xy have "links d'' = links d" by auto
  with u that show thesis by blast
qed

end

definition user_role_links :: "'a auth_db_scheme \<Rightarrow> (uuid \<times> uuid) list" where
  "user_role_links d = map (\<lambda>l. (ur_user_id l, ur_role_id l)) (user_roles d)"

definition role_permission_links :: "'a auth_db_scheme \<Rightarrow> (uuid \<times> uuid) list" where
  "role_permission_links d = map (\<lambda>l. (gp_role_id l, gp_permission_id l)) (role_permissions d)"

text \<open>What the four operations do to their table and to nothing else.\<close>

lemma assign_role_to_userE:
  assumes "assign_role_to_user a b d = Inr (d', v)"
  obtains x y where "to_uuid a = Inr x" "to_uuid b = Inr y" "x \<in> pk ` set (users d)" "y \<in> pk ` set (roles d)"
    "(x, y) \<notin> set (user_role_links d)" "d' = d\<lparr>user_roles := user_roles d @ [\<lparr>ur_user_id = x, ur_role_id = y\<rparr>]\<rparr>"
proof -
  from assms obtain x y u r where o: "to_uuid a = Inr x" "to_uuid b = Inr y"
    "find_one (\<lambda>z. pk z = x) (users d) = Inr (Some u)" "find_one (\<lambda>z. pk z = y) (roles d) = Inr (Some r)"
    "(x, y) \<notin> (\<lambda>l. (ur_user_id l, ur_role_id l)) ` set (user_roles d)"
    "d' = d\<lparr>user_roles := user_roles d @ [\<lparr>ur_user_id = x, ur_role_id = y\<rparr>]\<rparr>"
    by (auto simp: assign_role_to_user_def insert_row_def)
  with find_one_SomeD(1,2)[OF o(3)] find_one_SomeD(1,2)[OF o(4)] that[of x y] show thesis
    by (auto simp: user_role_links_def)
qed

lemma assign_permission_to_roleE:
  assumes "assign_permission_to_role a b d = Inr (d', v)"
  obtains x y where "to_uuid a = Inr x" "to_uuid b = Inr y" "x \<in> pk ` set (roles d)" "y \<in> pk ` set (permissions d)"
    "(x, y) \<notin> set (role_permission_links d)"
    "d' = d\<lparr>role_permissions := role_permissions d @ [\<lparr>gp_role_id = x, gp_permission_id = y\<rparr>]\<rparr>"
proof -
  from assms obtain x y r p where o: "to_uuid a = Inr x" "to_uuid b = Inr y"
    "find_one (\<lambda>z. pk z = x) (roles d) = Inr (Some r)" "find_one (\<lambda>z. pk z = y) (permissions d) = Inr (Some p)"
    "(x, y) \<notin> (\<lambda>l. (gp_role_id l, gp_permission_id l)) ` set (role_permissions d)"
    "d' = d\<lparr>role_permissions := role_permissions d @ [\<lparr>gp_role_id = x, gp_permission_id = y\<rparr>]\<rparr>"
    by (auto simp: assign_permission_to_role_def insert_row_def)
  with find_one_SomeD(1,2)[OF o(3)] find_one_SomeD(1,2)[OF o(4)] that[of x y] show thesis
    by (auto simp: role_permission_links_def)
qed

lemma remove_role_from_userE:
  assumes "remove_role_from_user a b d = Inr (d', v)"
  obtains x y where "to_uuid a = Inr x" "to_uuid b = Inr y" "(x, y) \<in> set (user_role_links d)"
    "d' = d\<lparr>user_roles := filter (\<lambda>l. (ur_user_id l, ur_role_id l) \<noteq> (x, y)) (user_roles d)\<rparr>"
proof -
  from assms obtain x y l where o: "to_uuid a = Inr x" "to_uuid b = Inr y"
    "find_one (\<lambda>l. ur_user_id l = x \<and> ur_role_id l = y) (user_roles d) = Inr (Some l)"
    "d' = d\<lparr>user_roles := delete_where (\<lambda>z. ur_user_id z = ur_user_id l \<and> ur_role_id z = ur_role_id l) (user_roles d)\<rparr>"
    by (auto simp: remove_role_from_user_def)
  with find_one_SomeD(1,2)[OF o(3)] that[of x y] show thesis by (auto simp: user_role_links_def delete_where_def)
qed

lemma remove_permission_from_roleE:
  assumes "remove_permission_from_role a b d = Inr (d', v)"
  obtains x y where "to_uuid a = Inr x" "to_uuid b = Inr y" "(x, y) \<in> set (role_permission_links d)"
    "d' = d\<lparr>role_permissions := filter (\<lambda>l. (gp_role_id l, gp_permission_id l) \<noteq> (x, y)) (role_permissions d)\<rparr>"
proof -
  from assms obtain x y l where o: "to_uuid a = Inr x" "to_uuid b = Inr y"
    "find_one (\<lambda>l. gp_role_id l = x \<and> gp_permission_id l = y) (role_permissions d) = Inr (Some l)"
    "d' = d\<lparr>role_permissions :=
              delete_where (\<lambda>z. gp_role_id z = gp_role_id l \<and> gp_permission_id z = gp_permission_id l) (role_permissions d)\<rparr>"
    by (auto simp: remove_permission_from_role_def)
  with find_one_SomeD(1,2)[OF o(3)] that[of x y] show thesis by (auto simp: role_permission_links_def delete_where_def)
qed

lemma find_link:
  assumes "distinct (map (\<lambda>l. (f l, g l)) t)" "(x, y) \<in> set (map (\<lambda>l. (f l, g l)) t)"
  shows "\<exists>l. find_one (\<lambda>l. f l = x \<and> g l = y) t = Inr (Some l)"
proof -
  from assms(2) obtain l where l: "l \<in> set t" "f l = x" "g l = y" by auto
  have "find_one (\<lambda>l. f l = x \<and> g l = y) t = Inr (Some l)"
    by (rule find_one_pk[OF assms(1) l(1)]) (auto simp: l)
  then show ?thesis by blast
qed

interpretation user_role_table: assignment user_role_links assign_role_to_user remove_role_from_user
proof unfold_locales
  fix a b :: string and d d' :: "'a auth_db_scheme" and v u x y
  show "assign_role_to_user a b d = Inr (d', v) \<Longrightarrow> \<exists>x y. to_uuid a = Inr x \<and> to_uuid b = Inr y \<and>
      (x, y) \<notin> set (user_role_links d) \<and> user_role_links d' = user_role_links d @ [(x, y)]"
    by (elim assign_role_to_userE) (auto simp: user_role_links_def)
  show "remove_role_from_user a b d = Inr (d', u) \<Longrightarrow> \<exists>x y. to_uuid a = Inr x \<and> to_uuid b = Inr y \<and>
      (x, y) \<in> set (user_role_links d) \<and> user_role_links d' = filter (\<lambda>l. l \<noteq> (x, y)) (user_role_links d)"
    by (elim remove_role_from_userE) (auto simp: user_role_links_def filter_map comp_def)
  show "to_uuid a = Inr x \<Longrightarrow> to_uuid b = Inr y \<Longrightarrow> distinct (user_role_links d) \<Longrightarrow>
      (x, y) \<in> set (user_role_links d) \<Longrightarrow> \<exists>d' u. remove_role_from_user a b d = Inr (d', u)"
    unfolding user_role_links_def by (drule (1) find_link) (auto simp: remove_role_from_user_def)
qed

interpretation role_permission_table: assignment role_permission_links assign_permission_to_role remove_permission_from_role
proof unfold_locales
  fix a b :: string and d d' :: "'a auth_db_scheme" and v u x y
  show "assign_permission_to_role a b d = Inr (d', v) \<Longrightarrow> \<exists>x y. to_uuid a = Inr x \<and> to_uuid b = Inr y \<and>
      (x, y) \<notin> set (role_permission_links d) \<and> role_permission_links d' = role_permission_links d @ [(x, y)]"
    by (elim assign_permission_to_roleE) (auto simp: role_permission_links_def)
  show "remove_permission_from_role a b d = Inr (d', u) \<Longrightarrow> \<exists>x y. to_uuid a = Inr x \<and> to_uuid b = Inr y \<and>
      (x, y) \<in> set (role_permission_links d) \<and> role_permission_links d' = filter (\<lambda>l. l \<noteq> (x, y)) (role_permission_links d)"
    by (elim remove_permission_from_roleE) (auto simp: role_permission_links_def filter_map comp_def)
  show "to_uuid a = Inr x \<Longrightarrow> to_uuid b = Inr y \<Longrightarrow> distinct (role_permission_links d) \<Longrightarrow>
      (x, y) \<in> set (role_permission_links d) \<Longrightarrow> \<exists>d' u. remove_permission_from_role a b d = Inr (d', u)"
    unfolding role_permission_links_def by (drule (1) find_link) (auto simp: remove_permission_from_role_def)
qed

section \<open>The invariant of the tables\<close>

definition auth_keys :: "'a auth_db_scheme \<Rightarrow> bool" where
  "auth_keys d =
     (distinct (map pk (users d)) \<and> distinct (map us_username (users d)) \<and> distinct (map us_email (users d)) \<and>
      distinct (map pk (roles d)) \<and> distinct (map rl_code (roles d)) \<and>
      distinct (map pk (permissions d)) \<and> distinct (map pm_code (permissions d)) \<and>
      distinct (user_role_links d) \<and> distinct (role_permission_links d))"

definition auth_refs :: "'a auth_db_scheme \<Rightarrow> bool" where
  "auth_refs d =
     ((\<forall>(u, r)\<in>set (user_role_links d). u \<in> pk ` set (users d) \<and> r \<in> pk ` set (roles d)) \<and>
      (\<forall>(r, p)\<in>set (role_permission_links d). r \<in> pk ` set (roles d) \<and> p \<in> pk ` set (permissions d)))"

inductive auth_step :: "'a auth_db_scheme \<Rightarrow> 'a auth_db_scheme \<Rightarrow> bool" where
  registered: "register_user env hashpw uq d = Inr (d', u) \<Longrightarrow> auth_step d d'"
| role_created: "create_role env kq d = Inr (d', r) \<Longrightarrow> auth_step d d'"
| role_updated: "update_role env i ku d = Inr (d', r) \<Longrightarrow> auth_step d d'"
| role_deleted: "delete_role i d = Inr (d', x) \<Longrightarrow> auth_step d d'"
| permission_created: "create_permission env nq d = Inr (d', p) \<Longrightarrow> auth_step d d'"
| role_assigned: "assign_role_to_user i j d = Inr (d', v) \<Longrightarrow> auth_step d d'"
| role_removed: "remove_role_from_user i j d = Inr (d', x) \<Longrightarrow> auth_step d d'"
| permission_assigned: "assign_permission_to_role i j d = Inr (d', v) \<Longrightarrow> auth_step d d'"
| permission_removed: "remove_permission_from_role i j d = Inr (d', x) \<Longrightarrow> auth_step d d'"
| user_toggled: "toggle_user_active env i d = Inr (d', a) \<Longrightarrow> auth_step d d'"
| user_deleted: "delete_user operators i d = Inr d' \<Longrightarrow> auth_step d d'"

inductive auth_reachable :: "'a auth_db_scheme \<Rightarrow> bool" where
  start: "users d = [] \<Longrightarrow> roles d = [] \<Longrightarrow> permissions d = [] \<Longrightarrow> user_roles d = [] \<Longrightarrow> role_permissions d = [] \<Longrightarrow>
    auth_reachable d"
| step: "auth_reachable d \<Longrightarrow> auth_step d d' \<Longrightarrow> auth_reachable d'"

lemma register_userE:
  assumes "register_user env hashpw data d = Inr (d', u)"
  obtains "pk u \<notin> pk ` set (users d)" "us_username u \<notin> us_username ` set (users d)" "us_email u \<notin> us_email ` set (users d)"
    "users d' = users d @ [u]" "roles d' = roles d" "permissions d' = permissions d" "user_roles d' = user_roles d"
    "role_permissions d' = role_permissions d" "us_username u = uq_username data" "us_email u = uq_email data"
    "us_is_active u" "hashpw (uq_password data) = Inr (us_hashed_password u)"
  using assms by (auto simp: register_user_def Let_def insert_row_def ensure_admin_def tick_def)

lemma create_roleE:
  assumes "create_role env data d = Inr (d', r)"
  obtains n where "pk r \<notin> pk ` set (roles d)" "rl_code r \<notin> rl_code ` set (roles d)" "d' = d\<lparr>drawn := n, roles := roles d @ [r]\<rparr>"
  using assms by (auto simp: create_role_def Let_def insert_row_def tick_def)

lemma create_permissionE:
  assumes "create_permission env data d = Inr (d', p)"
  obtains n where "pk p \<notin> pk ` set (permissions d)" "pm_code p \<notin> pm_code ` set (permissions d)"
    "d' = d\<lparr>drawn := n, permissions := permissions d @ [p]\<rparr>"
  using assms by (auto simp: create_permission_def Let_def insert_row_def tick_def)

lemma apply_role_update_keys [simp]:
  "pk (apply_role_update env ku r) = pk r" "rl_code (apply_role_update env ku r) = rl_code r"
  by (simp_all add: apply_role_update_def Let_def)

lemma delete_roleE:
  assumes "delete_role i d = Inr (d', x)"
  obtains r where "to_uuid i = Inr r"
    "d' = d\<lparr>roles := filter (\<lambda>q. pk q \<noteq> r) (roles d), user_roles := filter (\<lambda>l. ur_role_id l \<noteq> r) (user_roles d),
            role_permissions := filter (\<lambda>l. gp_role_id l \<noteq> r) (role_permissions d)\<rparr>"
  using assms by (fastforce simp: delete_role_def find_role_def delete_where_def dest!: find_one_SomeD(1,2))

lemma toggle_user_activeE:
  assumes "toggle_user_active env i d = Inr (d', a)"
  obtains u where "to_uuid i = Inr (pk u)" "u \<in> set (users d)" "a \<longleftrightarrow> \<not> us_is_active u"
    "d' = d\<lparr>users := update_where (\<lambda>x. pk x = pk u) (\<lambda>x. x\<lparr>us_is_active := \<not> us_is_active x, updated_at := now env\<rparr>) (users d)\<rparr>"
proof -
  from assms obtain k u where o: "to_uuid i = Inr k" "find_one (\<lambda>u. pk u = k) (users d) = Inr (Some u)" "a \<longleftrightarrow> \<not> us_is_active u"
    "d' = d\<lparr>users := update_where (\<lambda>x. pk x = pk u) (\<lambda>x. x\<lparr>us_is_active := \<not> us_is_active x, updated_at := now env\<rparr>) (users d)\<rparr>"
    by (auto simp: toggle_user_active_def)
  with find_one_SomeD(1,2)[OF o(2)] that[of u] show thesis by simp
qed

lemma delete_userE:
  assumes "delete_user operators i d = Inr d'"
  obtains k where "to_uuid i = Inr k" "k \<in> set operators \<Longrightarrow> k \<notin> pk ` set (users d)"
    "d' = d\<lparr>users := filter (\<lambda>u. pk u \<noteq> k) (users d), user_roles := filter (\<lambda>l. ur_user_id l \<noteq> k) (user_roles d)\<rparr>"
  using assms by (auto simp: delete_user_def delete_where_def split: if_splits)

lemma auth_step_keys: "auth_step d d' \<Longrightarrow> auth_keys d \<Longrightarrow> auth_keys d'"
proof (induction rule: auth_step.induct)
  case (registered env hashpw uq d d' u)
  from registered(1) show ?case
    by (rule register_userE) (use registered(2) in \<open>simp add: auth_keys_def user_role_links_def role_permission_links_def\<close>)
next
  case (role_created env kq d d' r)
  from role_created(1) show ?case
    by (rule create_roleE) (use role_created(2) in \<open>simp add: auth_keys_def user_role_links_def role_permission_links_def\<close>)
next
  case (role_updated env i ku d d' r)
  then show ?case by (auto simp: update_role_def auth_keys_def user_role_links_def role_permission_links_def)
next
  case (role_deleted i d d' x)
  from role_deleted(1) show ?case
    by (rule delete_roleE)
      (use role_deleted(2) in \<open>simp add: auth_keys_def user_role_links_def role_permission_links_def distinct_map_filter\<close>)
next
  case (permission_created env nq d d' p)
  from permission_created(1) show ?case
    by (rule create_permissionE)
      (use permission_created(2) in \<open>simp add: auth_keys_def user_role_links_def role_permission_links_def\<close>)
next
  case (role_assigned i j d d' v)
  from role_assigned(1) show ?case
    by (rule assign_role_to_userE) (use role_assigned(2) in \<open>simp add: auth_keys_def user_role_links_def role_permission_links_def\<close>)
next
  case (role_removed i j d d' x)
  from role_removed(1) show ?case
    by (rule remove_role_from_userE)
      (use role_removed(2) in \<open>simp add: auth_keys_def user_role_links_def role_permission_links_def distinct_map_filter\<close>)
next
  case (permission_assigned i j d d' v)
  from permission_assigned(1) show ?case
    by (rule assign_permission_to_roleE)
      (use permission_assigned(2) in \<open>simp add: auth_keys_def user_role_links_def role_permission_links_def\<close>)
next
  case (permission_removed i j d d' x)
  from permission_removed(1) show ?case
    by (rule remove_permission_from_roleE)
      (use permission_removed(2) in \<open>simp add: auth_keys_def user_role_links_def role_permission_links_def distinct_map_filter\<close>)
next
  case (user_toggled env i d d' x)
  from user_toggled(1) show ?case
    by (rule toggle_user_activeE) (use user_toggled(2) in \<open>simp add: auth_keys_def user_role_links_def role_permission_links_def\<close>)
next
  case (user_deleted operators i d d')
  from user_deleted(1) show ?case
    by (rule delete_userE)
      (use user_deleted(2) in \<open>simp add: auth_keys_def user_role_links_def role_permission_links_def distinct_map_filter\<close>)
qed

lemma auth_step_refs: "auth_step d d' \<Longrightarrow> auth_refs d \<Longrightarrow> auth_refs d'"
proof (induction rule: auth_step.induct)
  case (registered env hashpw uq d d' u)
  from registered(1) show ?case
    by (rule register_userE) (use registered(2) in \<open>auto simp: auth_refs_def user_role_links_def role_permission_links_def\<close>)
next
  case (role_created env kq d d' r)
  from role_created(1) show ?case
    by (rule create_roleE) (use role_created(2) in \<open>auto simp: auth_refs_def user_role_links_def role_permission_links_def\<close>)
next
  case (role_updated env i ku d d' r)
  have "pk ` set (roles d') = pk ` set (roles d)"
    using role_updated(1) by (auto simp: update_role_def simp flip: set_map)
  with role_updated show ?case by (auto simp: update_role_def auth_refs_def user_role_links_def role_permission_links_def)
next
  case (role_deleted i d d' x)
  from role_deleted(1) show ?case
    by (rule delete_roleE) (use role_deleted(2) in \<open>fastforce simp: auth_refs_def user_role_links_def role_permission_links_def\<close>)
next
  case (permission_created env nq d d' p)
  from permission_created(1) show ?case
    by (rule create_permissionE)
      (use permission_created(2) in \<open>auto simp: auth_refs_def user_role_links_def role_permission_links_def\<close>)
next
  case (role_assigned i j d d' v)
  from role_assigned(1) show ?case
    by (rule assign_role_to_userE) (use role_assigned(2) in \<open>auto simp: auth_refs_def user_role_links_def role_permission_links_def\<close>)
next
  case (role_removed i j d d' x)
  from role_removed(1) show ?case
    by (rule remove_role_from_userE) (use role_removed(2) in \<open>auto simp: auth_refs_def user_role_links_def role_permission_links_def\<close>)
next
  case (permission_assigned i j d d' v)
  from permission_assigned(1) show ?case
    by (rule assign_permission_to_roleE)
      (use permission_assigned(2) in \<open>auto simp: auth_refs_def user_role_links_def role_permission_links_def\<close>)
next
  case (permission_removed i j d d' x)
  from permission_removed(1) show ?case
    by (rule remove_permission_from_roleE)
      (use permission_removed(2) in \<open>auto simp: auth_refs_def user_role_links_def role_permission_links_def\<close>)
next
  case (user_toggled env i d d' x)
  from user_toggled(1) obtain u :: user where "d' = d\<lparr>users := update_where (\<lambda>x. pk x = pk u)
      (\<lambda>x. x\<lparr>us_is_active := \<not> us_is_active x, updated_at := now env\<rparr>) (users d)\<rparr>"
    by (rule toggle_user_activeE) blast
  moreover from this have "pk ` set (users d') = pk ` set (users d)" by (simp flip: set_map)
  ultimately show ?case using user_toggled(2) by (auto simp: auth_refs_def user_role_links_def role_permission_links_def)
next
  case (user_deleted operators i d d')
  from user_deleted(1) show ?case
    by (rule delete_userE) (use user_deleted(2) in \<open>fastforce simp: auth_refs_def user_role_links_def role_permission_links_def\<close>)
qed

lemma auth_reachable_inv: "auth_reachable d \<Longrightarrow> auth_keys d \<and> auth_refs d"
proof (induction rule: auth_reachable.induct)
  case (start d)
  then show ?case by (simp add: auth_keys_def auth_refs_def user_role_links_def role_permission_links_def)
next
  case (step d d')
  then show ?case using auth_step_keys auth_step_refs by blast
qed

end
