(* ===== verification/Tokens.thy ===== *)
theory Tokens
  imports Exceptions Uuid "HOL-Library.AList"
begin

text \<open>
  Sessions: the token store of \<open>src/auth/token_store.py\<close> with its fallback to memory, the tokens of
  \<open>src/core/security.py\<close>, their issue and rotation in \<open>src/auth/service.py\<close> and the request dependencies of
  \<open>src/core/dependencies.py\<close>. Redis is a parameter, the operations \<open>redis_ops\<close> on a state of any type with
  \<open>redis_contract\<close> as what they promise; \<open>jose\<close> is the pair of functions of \<open>jwt_contract\<close>. Times are
  microseconds, the expiry of a token is in whole seconds.
\<close>

section \<open>Redis\<close>

text \<open>A reply is a byte string, or a text when the client decodes; \<open>None\<close> where a call raises.\<close>

datatype redis_val = RBytes string | RText string

record 'r redis_ops =
  r_set :: "string \<Rightarrow> string \<Rightarrow> int \<Rightarrow> 'r \<Rightarrow> 'r \<times> bool"
  r_get :: "string \<Rightarrow> 'r \<Rightarrow> 'r \<times> redis_val option option"
  r_del :: "string \<Rightarrow> 'r \<Rightarrow> 'r \<times> bool"

text \<open>
  What Redis promises about the keys it holds: a call that succeeds has its effect, one that raises may
  have had it or not, and keys may expire at any time.
\<close>

definition redis_contract :: "'r redis_ops \<Rightarrow> ('r \<Rightarrow> string \<Rightarrow> redis_val option) \<Rightarrow> (string \<Rightarrow> redis_val) \<Rightarrow> bool" where
  "redis_contract ops content enc =
     ((\<forall>k v ttl r r' ok. r_set ops k v ttl r = (r', ok) \<longrightarrow>
         content r' \<subseteq>\<^sub>m (content r)(k \<mapsto> enc v) \<or> \<not> ok \<and> content r' \<subseteq>\<^sub>m content r) \<and>
      (\<forall>k r r' v. r_get ops k r = (r', v) \<longrightarrow> content r' \<subseteq>\<^sub>m content r \<and> (\<forall>x. v = Some x \<longrightarrow> x = content r k)) \<and>
      (\<forall>k r r' ok. r_del ops k r = (r', ok) \<longrightarrow>
         content r' \<subseteq>\<^sub>m content r \<and> (ok \<longrightarrow> content r' k = None)))"

text \<open>The script of \<open>pop\<close>: \<open>GET\<close>, and \<open>DEL\<close> when there is a value.\<close>

definition pop_script :: "'r redis_ops \<Rightarrow> string \<Rightarrow> 'r \<Rightarrow> 'r \<times> redis_val option option" where
  "pop_script ops k r =
     (let (r1, v) = r_get ops k r
      in case v of
           None \<Rightarrow> (r1, None)
         | Some None \<Rightarrow> (r1, Some None)
         | Some (Some x) \<Rightarrow> (let (r2, ok) = r_del ops k r1 in (r2, if ok then Some (Some x) else None)))"

section \<open>Texts\<close>

text \<open>\<open>str\<close> of a reply: of a byte string it is its literal, with the prefix \<open>b\<close>, quotes and escapes.\<close>

definition byte_repr :: "char \<Rightarrow> char \<Rightarrow> string" where
  "byte_repr quote ch =
     (let c = of_char ch :: nat in
      if ch = quote \<or> c = 92 then [CHR 0x5C, ch]
      else if c = 9 then [CHR 0x5C, CHR ''t'']
      else if c = 10 then [CHR 0x5C, CHR ''n'']
      else if c = 13 then [CHR 0x5C, CHR ''r'']
      else if c < 32 \<or> 127 \<le> c then [CHR 0x5C, CHR ''x'', hex_char (c div 16), hex_char (c mod 16)]
      else [ch])"

definition bytes_repr :: "string \<Rightarrow> string" where
  "bytes_repr s =
     (let quote = (if CHR 0x27 \<in> set s \<and> CHR 0x22 \<notin> set s then CHR 0x22 else CHR 0x27)
      in CHR ''b'' # quote # concat (map (byte_repr quote) s) @ [quote])"

definition py_str :: "redis_val \<Rightarrow> string" where
  "py_str v = (case v of RBytes s \<Rightarrow> bytes_repr s | RText s \<Rightarrow> s)"

section \<open>The store\<close>

record 'r token_store =
  ts_memory :: "(string \<times> string) list"
  ts_redis_ok :: bool
  ts_redis :: 'r

definition refresh_token_ttl :: int where
  "refresh_token_ttl = 7 * 24 * 3600"

text \<open>\<open>_key\<close> hashes the token; the hash is a parameter.\<close>

definition token_key :: "(string \<Rightarrow> string) \<Rightarrow> string \<Rightarrow> string" where
  "token_key sha256 token = ''rt:'' @ take 16 (sha256 token)"

definition store_token ::
  "'r redis_ops \<Rightarrow> (string \<Rightarrow> string) \<Rightarrow> string \<Rightarrow> string \<Rightarrow> 'r token_store \<Rightarrow> 'r token_store" where
  "store_token ops sha refresh_token username st =
     (let (r, ok) = (if ts_redis_ok st then r_set ops (token_key sha refresh_token) username refresh_token_ttl (ts_redis st)
                     else (ts_redis st, False))
      in if ok then st\<lparr>ts_redis := r\<rparr>
         else st\<lparr>ts_redis := r, ts_redis_ok := False, ts_memory := AList.update refresh_token username (ts_memory st)\<rparr>)"

definition revoke_token :: "'r redis_ops \<Rightarrow> (string \<Rightarrow> string) \<Rightarrow> string \<Rightarrow> 'r token_store \<Rightarrow> 'r token_store" where
  "revoke_token ops sha refresh_token st =
     (let (r, ok) = (if ts_redis_ok st then r_del ops (token_key sha refresh_token) (ts_redis st)
                     else (ts_redis st, False))
      in st\<lparr>ts_redis := r, ts_redis_ok := ok, ts_memory := AList.delete refresh_token (ts_memory st)\<rparr>)"

definition lookup_token ::
  "'r redis_ops \<Rightarrow> (string \<Rightarrow> string) \<Rightarrow> (string \<Rightarrow> string) \<Rightarrow> string \<Rightarrow> 'r token_store \<Rightarrow> 'r token_store \<times> string option" where
  "lookup_token ops sha utf8 refresh_token st =
     (if \<not> ts_redis_ok st then (st, map_of (ts_memory st) refresh_token)
      else
        let (r, v) = r_get ops (token_key sha refresh_token) (ts_redis st)
        in case v of
             None \<Rightarrow> (st\<lparr>ts_redis := r, ts_redis_ok := False\<rparr>, map_of (ts_memory st) refresh_token)
           | Some None \<Rightarrow> (st\<lparr>ts_redis := r\<rparr>, map_of (ts_memory st) refresh_token)
           | Some (Some x) \<Rightarrow> (st\<lparr>ts_redis := r\<rparr>, Some (case x of RBytes b \<Rightarrow> utf8 b | RText s \<Rightarrow> s)))"

definition pop_memory :: "string \<Rightarrow> 'r token_store \<Rightarrow> 'r token_store \<times> string option" where
  "pop_memory refresh_token st =
     (st\<lparr>ts_memory := AList.delete refresh_token (ts_memory st)\<rparr>, map_of (ts_memory st) refresh_token)"

definition pop_token ::
  "'r redis_ops \<Rightarrow> (string \<Rightarrow> string) \<Rightarrow> string \<Rightarrow> 'r token_store \<Rightarrow> 'r token_store \<times> string option" where
  "pop_token ops sha refresh_token st =
     (if \<not> ts_redis_ok st then pop_memory refresh_token st
      else
        let (r, v) = pop_script ops (token_key sha refresh_token) (ts_redis st)
        in case v of
             None \<Rightarrow> pop_memory refresh_token (st\<lparr>ts_redis := r, ts_redis_ok := False\<rparr>)
           | Some None \<Rightarrow> (st\<lparr>ts_redis := r\<rparr>, None)
           | Some (Some raw) \<Rightarrow> (st\<lparr>ts_redis := r\<rparr>, Some (py_str raw)))"

text \<open>The hourly task of \<open>src/tasks/maintenance.py\<close>.\<close>

definition cleanup_expired_tokens :: "'r token_store \<Rightarrow> 'r token_store \<times> nat" where
  "cleanup_expired_tokens st = (st\<lparr>ts_memory := []\<rparr>, length (ts_memory st))"

section \<open>Tokens\<close>

record claims =
  cl_sub :: "string option"
  cl_uid :: "string option"
  cl_exp :: int

datatype jwt_error = ExpiredSignatureError | JWTError

datatype token_error = TokenExpired | TokenInvalid

record jwt_lib =
  jwt_encode :: "claims \<Rightarrow> string"
  jwt_decode :: "int \<Rightarrow> string \<Rightarrow> jwt_error + claims"

text \<open>A token decodes to its claims until the second of its expiry has passed.\<close>

definition jwt_contract :: "jwt_lib \<Rightarrow> bool" where
  "jwt_contract jwt = (\<forall>c t. jwt_decode jwt t (jwt_encode jwt c) = (if cl_exp c < t then Inl ExpiredSignatureError else Inr c))"

definition seconds :: "datetime \<Rightarrow> int" where
  "seconds t = t div 1000000"

definition create_access_token :: "jwt_lib \<Rightarrow> datetime \<Rightarrow> string option \<Rightarrow> string option \<Rightarrow> string" where
  "create_access_token jwt t sub uid =
     jwt_encode jwt \<lparr>cl_sub = sub, cl_uid = uid, cl_exp = seconds (t + 60 * 60 * 1000000)\<rparr>"

definition create_refresh_token :: "jwt_lib \<Rightarrow> datetime \<Rightarrow> string option \<Rightarrow> string option \<Rightarrow> string" where
  "create_refresh_token jwt t sub uid =
     jwt_encode jwt \<lparr>cl_sub = sub, cl_uid = uid, cl_exp = seconds (t + 7 * 24 * 3600 * 1000000)\<rparr>"

definition decode_token :: "jwt_lib \<Rightarrow> datetime \<Rightarrow> string \<Rightarrow> token_error + claims" where
  "decode_token jwt t token =
     (case jwt_decode jwt (seconds t) token of
        Inr c \<Rightarrow> Inr c
      | Inl ExpiredSignatureError \<Rightarrow> Inl TokenExpired
      | Inl JWTError \<Rightarrow> Inl TokenInvalid)"

record token_pair =
  tp_access_token :: string
  tp_refresh_token :: string

definition create_tokens ::
  "jwt_lib \<Rightarrow> 'r redis_ops \<Rightarrow> (string \<Rightarrow> string) \<Rightarrow> datetime \<Rightarrow> string \<Rightarrow> string \<Rightarrow> 'r token_store \<Rightarrow>
   'r token_store \<times> token_pair" where
  "create_tokens jwt ops sha t username uid st =
     (let access_token = create_access_token jwt t (Some username) (Some uid);
          refresh_token = create_refresh_token jwt t (Some username) (Some uid)
      in (store_token ops sha refresh_token username st,
          \<lparr>tp_access_token = access_token, tp_refresh_token = refresh_token\<rparr>))"

definition refresh_tokens ::
  "jwt_lib \<Rightarrow> 'r redis_ops \<Rightarrow> (string \<Rightarrow> string) \<Rightarrow> datetime \<Rightarrow> string \<Rightarrow> 'r token_store \<Rightarrow>
   'r token_store \<times> token_pair option" where
  "refresh_tokens jwt ops sha t refresh_token st =
     (case decode_token jwt t refresh_token of
        Inl e \<Rightarrow> (st, None)
      | Inr payload \<Rightarrow>
          (let (st1, username) = pop_token ops sha refresh_token st
           in if \<not> truthy username then (st1, None)
              else
                let new_access = create_access_token jwt t username (cl_uid payload);
                    new_refresh = create_refresh_token jwt t username (cl_uid payload)
                in (store_token ops sha new_refresh (the username) st1,
                    Some \<lparr>tp_access_token = new_access, tp_refresh_token = new_refresh\<rparr>)))"

definition revoke_refresh_token :: "'r redis_ops \<Rightarrow> (string \<Rightarrow> string) \<Rightarrow> string \<Rightarrow> 'r token_store \<Rightarrow> 'r token_store" where
  "revoke_refresh_token ops sha refresh_token st = revoke_token ops sha refresh_token st"

section \<open>Request dependencies\<close>

definition get_current_user :: "jwt_lib \<Rightarrow> datetime \<Rightarrow> string option \<Rightarrow> claims result" where
  "get_current_user jwt t credentials =
     bindE (raise_if (\<not> truthy credentials) (HTTPException 401 ''Invalid authentication credentials'')) (\<lambda>_.
     case decode_token jwt t (the credentials) of
       Inl e \<Rightarrow> Inl (HTTPException 401 ''Invalid or expired token'')
     | Inr payload \<Rightarrow>
         bindE (raise_if (cl_sub payload = None) (HTTPException 401 ''Invalid token payload'')) (\<lambda>_. Inr payload))"

text \<open>\<open>{}\<close> is \<open>None\<close>.\<close>

definition get_optional_current_user :: "jwt_lib \<Rightarrow> datetime \<Rightarrow> string option \<Rightarrow> claims option" where
  "get_optional_current_user jwt t credentials =
     (if \<not> truthy credentials then None
      else case decode_token jwt t (the credentials) of
             Inl e \<Rightarrow> None
           | Inr payload \<Rightarrow> if cl_sub payload = None then None else Some payload)"

lemma optional_user: "get_optional_current_user jwt t cr = (case get_current_user jwt t cr of Inl e \<Rightarrow> None | Inr p \<Rightarrow> Some p)"
  by (auto simp: get_optional_current_user_def get_current_user_def split: sum.splits)

section \<open>A used token is dead\<close>

datatype token_op = StoreToken string string | PopToken string | RevokeToken string | LookupToken string | CleanupTokens

fun run_op ::
  "'r redis_ops \<Rightarrow> (string \<Rightarrow> string) \<Rightarrow> (string \<Rightarrow> string) \<Rightarrow> token_op \<Rightarrow> 'r token_store \<Rightarrow> 'r token_store" where
  "run_op ops sha utf8 (StoreToken t u) st = store_token ops sha t u st"
| "run_op ops sha utf8 (PopToken t) st = fst (pop_token ops sha t st)"
| "run_op ops sha utf8 (RevokeToken t) st = revoke_token ops sha t st"
| "run_op ops sha utf8 (LookupToken t) st = fst (lookup_token ops sha utf8 t st)"
| "run_op ops sha utf8 CleanupTokens st = fst (cleanup_expired_tokens st)"

definition run_ops ::
  "'r redis_ops \<Rightarrow> (string \<Rightarrow> string) \<Rightarrow> (string \<Rightarrow> string) \<Rightarrow> token_op list \<Rightarrow> 'r token_store \<Rightarrow> 'r token_store" where
  "run_ops ops sha utf8 xs st = foldl (\<lambda>s x. run_op ops sha utf8 x s) st xs"

text \<open>As long as Redis answers, nothing is in memory; a dead token is in neither place that is read.\<close>

definition memory_unused :: "'r token_store \<Rightarrow> bool" where
  "memory_unused st \<longleftrightarrow> (ts_redis_ok st \<longrightarrow> ts_memory st = [])"

definition dead :: "('r \<Rightarrow> string \<Rightarrow> redis_val option) \<Rightarrow> (string \<Rightarrow> string) \<Rightarrow> string \<Rightarrow> 'r token_store \<Rightarrow> bool" where
  "dead content sha tok st \<longleftrightarrow> map_of (ts_memory st) tok = None \<and>
     (ts_redis_ok st \<longrightarrow> content (ts_redis st) (token_key sha tok) = None)"

lemma map_le_None: "f \<subseteq>\<^sub>m g \<Longrightarrow> g k = None \<Longrightarrow> f k = None"
  by (metis domIff map_le_def)

lemma set_keeps_absent:
  assumes "redis_contract ops content enc" "r_set ops k v ttl r = (r', ok)" "content r k' = None" "k' \<noteq> k"
  shows "content r' k' = None"
proof -
  have "content r' \<subseteq>\<^sub>m (content r)(k \<mapsto> enc v) \<or> content r' \<subseteq>\<^sub>m content r"
    using assms(1,2) unfolding redis_contract_def by blast
  then show ?thesis using assms(3,4) map_le_None[of "content r'" _ k'] by auto
qed

lemma get_keeps_absent:
  assumes "redis_contract ops content enc" "r_get ops k r = (r', v)"
  shows "content r k' = None \<Longrightarrow> content r' k' = None" "v = Some x \<Longrightarrow> x = content r k"
  using assms map_le_None[of "content r'" "content r" k'] unfolding redis_contract_def by blast+

lemma del_keeps_absent:
  assumes "redis_contract ops content enc" "r_del ops k r = (r', ok)"
  shows "content r k' = None \<Longrightarrow> content r' k' = None" "ok \<Longrightarrow> content r' k = None"
  using assms map_le_None[of "content r'" "content r" k'] unfolding redis_contract_def by blast+

lemma script_keeps_absent:
  assumes "redis_contract ops content enc" "pop_script ops k r = (r', v)"
  shows "content r k' = None \<Longrightarrow> content r' k' = None" "v = Some x \<Longrightarrow> content r' k = None"
    "v = Some x \<Longrightarrow> x = content r k"
proof -
  obtain r1 v1 where g: "r_get ops k r = (r1, v1)" by fastforce
  note g' = get_keeps_absent[OF assms(1) g]
  show "content r k' = None \<Longrightarrow> content r' k' = None" "v = Some x \<Longrightarrow> content r' k = None" "v = Some x \<Longrightarrow> x = content r k"
    using assms(2) g g' del_keeps_absent[OF assms(1), of k r1]
    by (auto simp: pop_script_def split: option.splits prod.splits if_splits)
qed

lemma pop_token_dead:
  assumes "redis_contract ops content enc" "pop_token ops sha tok st = (st', v)" "memory_unused st"
  shows "dead content sha tok st'"
proof (cases "ts_redis_ok st")
  case True
  obtain r w where s: "pop_script ops (token_key sha tok) (ts_redis st) = (r, w)" by fastforce
  with True assms script_keeps_absent(2)[OF assms(1) s] show ?thesis
    by (auto simp: pop_token_def pop_memory_def dead_def memory_unused_def delete_conv' split: option.splits)
next
  case False
  with assms show ?thesis by (auto simp: pop_token_def pop_memory_def dead_def delete_conv')
qed

lemma revoke_token_dead:
  assumes "redis_contract ops content enc"
  shows "dead content sha tok (revoke_token ops sha tok st)"
  using del_keeps_absent(2)[OF assms, of "token_key sha tok" "ts_redis st"]
  by (auto simp: revoke_token_def dead_def delete_conv' split: prod.splits if_splits)

lemma dead_pop:
  assumes "redis_contract ops content enc" "dead content sha tok st"
  shows "snd (pop_token ops sha tok st) = None"
proof (cases "ts_redis_ok st")
  case True
  obtain r w where s: "pop_script ops (token_key sha tok) (ts_redis st) = (r, w)" by fastforce
  with True assms script_keeps_absent(3)[OF assms(1) s] show ?thesis
    by (auto simp: pop_token_def pop_memory_def dead_def split: option.splits)
next
  case False
  with assms show ?thesis by (auto simp: pop_token_def pop_memory_def dead_def)
qed

lemma run_op_memory_unused: "memory_unused st \<Longrightarrow> memory_unused (run_op ops sha utf8 x st)"
  by (cases x) (auto simp: memory_unused_def store_token_def pop_token_def pop_memory_def revoke_token_def lookup_token_def
      cleanup_expired_tokens_def split: prod.splits option.splits if_splits)

lemma run_op_dead:
  assumes "redis_contract ops content enc" "dead content sha tok st"
    and "\<And>t u. x = StoreToken t u \<Longrightarrow> token_key sha t \<noteq> token_key sha tok"
  shows "dead content sha tok (run_op ops sha utf8 x st)"
proof (cases x)
  case (StoreToken t u)
  with assms(3) have k: "token_key sha tok \<noteq> token_key sha t" "t \<noteq> tok" by metis+
  with StoreToken assms(2) set_keeps_absent[OF assms(1), of "token_key sha t" u refresh_token_ttl "ts_redis st"] show ?thesis
    by (auto simp: dead_def store_token_def update_conv' split: prod.splits if_splits)
next
  case (PopToken t)
  obtain r w where s: "pop_script ops (token_key sha t) (ts_redis st) = (r, w)" by fastforce
  from PopToken assms(2) s script_keeps_absent(1)[OF assms(1) s, of "token_key sha tok"] show ?thesis
    by (auto simp: dead_def pop_token_def pop_memory_def delete_conv' split: option.splits)
next
  case (RevokeToken t)
  with assms(2) del_keeps_absent(1)[OF assms(1), of "token_key sha t" "ts_redis st" _ _ "token_key sha tok"] show ?thesis
    by (auto simp: dead_def revoke_token_def delete_conv' split: prod.splits if_splits)
next
  case (LookupToken t)
  obtain r w where s: "r_get ops (token_key sha t) (ts_redis st) = (r, w)" by fastforce
  from LookupToken assms(2) s get_keeps_absent(1)[OF assms(1) s, of "token_key sha tok"] show ?thesis
    by (auto simp: dead_def lookup_token_def split: option.splits)
qed (use assms(2) in \<open>simp add: dead_def cleanup_expired_tokens_def\<close>)

lemma run_ops_Cons: "run_ops ops sha utf8 (x # xs) st = run_ops ops sha utf8 xs (run_op ops sha utf8 x st)"
  by (simp add: run_ops_def)

lemma run_ops_dead:
  assumes "redis_contract ops content enc" "dead content sha tok st"
    and "\<forall>t u. StoreToken t u \<in> set xs \<longrightarrow> token_key sha t \<noteq> token_key sha tok"
  shows "dead content sha tok (run_ops ops sha utf8 xs st)"
  using assms(2,3)
proof (induction xs arbitrary: st)
  case (Cons x xs)
  have "dead content sha tok (run_op ops sha utf8 x st)" using Cons.prems by (intro run_op_dead[OF assms(1)]) auto
  moreover have "\<forall>t u. StoreToken t u \<in> set xs \<longrightarrow> token_key sha t \<noteq> token_key sha tok" using Cons.prems(2) by simp
  ultimately show ?case unfolding run_ops_Cons by (rule Cons.IH)
qed (simp add: run_ops_def)

lemma run_ops_memory_unused: "memory_unused st \<Longrightarrow> memory_unused (run_ops ops sha utf8 xs st)"
  unfolding run_ops_def by (induction xs arbitrary: st) (simp_all add: run_op_memory_unused)

section \<open>Tokens of one second\<close>

lemma decode_encoded:
  assumes "jwt_contract jwt"
  shows "decode_token jwt t (jwt_encode jwt c) = (if cl_exp c < seconds t then Inl TokenExpired else Inr c)"
  using assms by (simp add: decode_token_def jwt_contract_def)

lemma seconds_shift: "seconds (t + k * 1000000) = seconds t + k"
  unfolding seconds_def by simp

lemma refresh_token_of_second:
  "seconds t = seconds t' \<Longrightarrow> create_refresh_token jwt t sub uid = create_refresh_token jwt t' sub uid"
  using seconds_shift[of t "7 * 24 * 3600"] seconds_shift[of t' "7 * 24 * 3600"] by (simp add: create_refresh_token_def)

lemma decode_refresh_token:
  assumes "jwt_contract jwt" "seconds t' \<le> seconds t + 7 * 24 * 3600"
  shows "decode_token jwt t' (create_refresh_token jwt t sub uid) =
    Inr \<lparr>cl_sub = sub, cl_uid = uid, cl_exp = seconds t + 7 * 24 * 3600\<rparr>"
  using assms seconds_shift[of t "7 * 24 * 3600"] by (simp add: create_refresh_token_def decode_encoded)

lemma length_bytes_repr: "length s < length (bytes_repr s)"
proof -
  have "length s \<le> length (concat (map (byte_repr q) s))" for q
    by (induction s) (auto simp: byte_repr_def Let_def)
  then have "length s \<le> length (concat (map (byte_repr (if CHR 0x27 \<in> set s \<and> CHR 0x22 \<notin> set s then CHR 0x22 else CHR 0x27)) s))" .
  then show ?thesis by (simp add: bytes_repr_def Let_def)
qed

lemma bytes_repr_differs: "bytes_repr s \<noteq> s" "bytes_repr s \<noteq> []"
  using length_bytes_repr[of s] by auto

end
