(* ===== verification/Offline.thy ===== *)
theory Offline
  imports Tables
begin

text \<open>
  The offline queue of the hand-held devices: \<open>SyncQueueService\<close> of \<open>src/core/offline.py\<close> on its local
  SQLite table and the task of \<open>src/tasks/sync.py\<close> that pushes it upstream. The push of one item, the
  parsing of its payload included, is a parameter: the error it ends with, or \<open>None\<close>.
\<close>

section \<open>The queue\<close>

record sync_item =
  sq_id :: int
  sq_entity_type :: string
  sq_entity_id :: string
  sq_operation :: string
  sq_payload :: "string option"
  sq_status :: string
  sq_failed_at :: "datetime option"
  sq_error_message :: "string option"

text \<open>An \<open>INTEGER PRIMARY KEY\<close> that is not given is one more than the largest of the table.\<close>

definition next_id :: "sync_item list \<Rightarrow> int" where
  "next_id q = foldl max 0 (map sq_id q) + 1"

definition initial_item :: "int \<Rightarrow> sync_item" where
  "initial_item i =
     \<lparr>sq_id = i, sq_entity_type = ''Order'', sq_entity_id = ''ORD-INIT'', sq_operation = ''create'', sq_payload = Some ''{}'',
      sq_status = ''pending'', sq_failed_at = None, sq_error_message = None\<rparr>"

text \<open>
  The constructor. The insert names no key, so nothing of it can be in conflict and \<open>OR IGNORE\<close> never
  ignores it.
\<close>

definition open_queue :: "sync_item list \<Rightarrow> sync_item list" where
  "open_queue q = insert_row (initial_item (next_id q)) q"

definition get_pending :: "nat \<Rightarrow> sync_item list \<Rightarrow> sync_item list" where
  "get_pending n q = take n (order_by sq_id (select_where (\<lambda>r. sq_status r = ''pending'') q))"

definition mark_synced :: "int list \<Rightarrow> sync_item list \<Rightarrow> sync_item list \<times> nat" where
  "mark_synced ids q =
     (update_where (\<lambda>r. sq_id r \<in> set ids) (\<lambda>r. r\<lparr>sq_status := ''synced''\<rparr>) q, row_count (\<lambda>r. sq_id r \<in> set ids) q)"

definition mark_sync_failed :: "datetime \<Rightarrow> int \<Rightarrow> string \<Rightarrow> sync_item list \<Rightarrow> sync_item list" where
  "mark_sync_failed t i err q =
     update_where (\<lambda>r. sq_id r = i)
       (\<lambda>r. r\<lparr>sq_status := ''failed'', sq_error_message := Some err, sq_failed_at := Some t\<rparr>) q"

section \<open>Pushing\<close>

fun push_loop ::
  "datetime \<Rightarrow> (sync_item \<Rightarrow> string option) \<Rightarrow> sync_item list \<Rightarrow> sync_item list \<Rightarrow> sync_item list \<times> int list \<times> nat" where
  "push_loop t push [] q = (q, [], 0)"
| "push_loop t push (r # rs) q =
     (case push r of
        None \<Rightarrow> (case push_loop t push rs q of (q', pushed, failed) \<Rightarrow> (q', sq_id r # pushed, failed))
      | Some err \<Rightarrow> (case push_loop t push rs (mark_sync_failed t (sq_id r) err q) of (q', pushed, failed) \<Rightarrow> (q', pushed, Suc failed)))"

definition process_sync_queue ::
  "datetime \<Rightarrow> (sync_item \<Rightarrow> string option) \<Rightarrow> sync_item list \<Rightarrow> sync_item list \<times> nat \<times> nat" where
  "process_sync_queue t push q =
     (let q0 = open_queue q; items = get_pending 50 q0
      in if items = [] then (q0, 0, 0)
         else case push_loop t push items q0 of
                (q1, pushed, failed) \<Rightarrow> ((if pushed \<noteq> [] then fst (mark_synced pushed q1) else q1), length pushed, failed))"

section \<open>Keys\<close>

definition queue_ok :: "sync_item list \<Rightarrow> bool" where
  "queue_ok q \<longleftrightarrow> distinct (map sq_id q) \<and> (\<forall>r\<in>set q. 0 < sq_id r)"

lemma foldl_max_ge: "(a::int) \<le> foldl max a xs"
  by (induction xs arbitrary: a) (auto intro: order_trans[OF max.cobounded1])

lemma foldl_max_mem: "x \<in> set xs \<Longrightarrow> (x::int) \<le> foldl max a xs"
proof (induction xs arbitrary: a)
  case (Cons y ys)
  show ?case
  proof (cases "x = y")
    case True
    then have "x \<le> max a y" by simp
    also have "\<dots> \<le> foldl max (max a y) ys" by (rule foldl_max_ge)
    finally show ?thesis by simp
  qed (use Cons in auto)
qed simp

lemma next_id_fresh: "r \<in> set q \<Longrightarrow> sq_id r < next_id q"
  using foldl_max_mem[of "sq_id r" "map sq_id q" 0] by (simp add: next_id_def)

lemma open_queue_ok:
  assumes "queue_ok q"
  shows "queue_ok (open_queue q)"
proof -
  have "next_id q \<notin> sq_id ` set q" using next_id_fresh by force
  moreover have "0 < next_id q" using foldl_max_ge[of 0 "map sq_id q"] by (simp add: next_id_def)
  ultimately show ?thesis using assms by (auto simp: queue_ok_def open_queue_def insert_row_def initial_item_def)
qed

section \<open>The effect of a push\<close>

definition failed_item :: "datetime \<Rightarrow> string \<Rightarrow> sync_item \<Rightarrow> sync_item" where
  "failed_item t err r = r\<lparr>sq_status := ''failed'', sq_error_message := Some err, sq_failed_at := Some t\<rparr>"

definition pushed_item :: "datetime \<Rightarrow> (sync_item \<Rightarrow> string option) \<Rightarrow> sync_item \<Rightarrow> sync_item" where
  "pushed_item t push r = (case push r of None \<Rightarrow> r\<lparr>sq_status := ''synced''\<rparr> | Some err \<Rightarrow> failed_item t err r)"

lemma failed_item_id [simp]: "sq_id (failed_item t err r) = sq_id r"
  by (simp add: failed_item_def)

lemma mark_sync_failed_eq:
  "mark_sync_failed t i err q = map (\<lambda>r. if sq_id r = i then failed_item t err r else r) q"
  by (simp add: mark_sync_failed_def update_where_def failed_item_def)

lemma push_loop_ids:
  "push_loop t push rs q = (q', pushed, failed) \<Longrightarrow>
     pushed = map sq_id (filter (\<lambda>r. push r = None) rs) \<and> failed = length (filter (\<lambda>r. push r \<noteq> None) rs)"
  by (induction rs arbitrary: q q' pushed failed) (auto split: option.splits prod.splits)

lemma push_loop_queue:
  assumes "push_loop t push rs q = (q', pushed, failed)" "distinct (map sq_id q)" "set rs \<subseteq> set q" "distinct (map sq_id rs)"
  shows "q' = map (\<lambda>r. if r \<in> set rs then (case push r of None \<Rightarrow> r | Some err \<Rightarrow> failed_item t err r) else r) q"
  using assms
proof (induction rs arbitrary: q q' pushed failed)
  case (Cons r rs)
  have rin: "r \<in> set q" and new: "\<forall>x\<in>set rs. sq_id x \<noteq> sq_id r" using Cons.prems(3,4) by (auto simp: image_iff)
  have same: "x = r" if "x \<in> set q" "sq_id x = sq_id r" for x
    using that rin Cons.prems(2) by (metis inj_on_eq_iff distinct_map)
  show ?case
  proof (cases "push r")
    case None
    with Cons.prems(1) obtain p' where "push_loop t push rs q = (q', p', failed)" by (auto split: prod.splits)
    from Cons.IH[OF this Cons.prems(2)] Cons.prems(3,4) have
      "q' = map (\<lambda>r. if r \<in> set rs then (case push r of None \<Rightarrow> r | Some err \<Rightarrow> failed_item t err r) else r) q" by simp
    with None show ?thesis by auto
  next
    case (Some err)
    let ?q = "mark_sync_failed t (sq_id r) err q"
    from Some Cons.prems(1) obtain f' where l: "push_loop t push rs ?q = (q', pushed, f')" by (auto split: prod.splits)
    have "map sq_id ?q = map sq_id q" by (simp add: mark_sync_failed_eq)
    moreover have "set rs \<subseteq> set ?q" using Cons.prems(3) new by (force simp: mark_sync_failed_eq)
    ultimately have "q' = map (\<lambda>r. if r \<in> set rs then (case push r of None \<Rightarrow> r | Some err \<Rightarrow> failed_item t err r) else r) ?q"
      using Cons.IH[OF l] Cons.prems(2,4) by simp
    moreover have "failed_item t err r \<notin> set rs" using new by auto
    ultimately show ?thesis using Some same new by (auto simp: mark_sync_failed_eq)
  qed
qed simp

lemma get_pending_facts:
  assumes "queue_ok q"
  shows "set (get_pending n q) \<subseteq> set q" "distinct (map sq_id (get_pending n q))"
    "r \<in> set (get_pending n q) \<Longrightarrow> sq_status r = ''pending''"
proof -
  show sub: "set (get_pending n q) \<subseteq> set q"
    by (auto simp: get_pending_def dest!: in_set_takeD)
  have "mset (map sq_id (order_by sq_id (select_where (\<lambda>r. sq_status r = ''pending'') q))) =
      mset (map sq_id (select_where (\<lambda>r. sq_status r = ''pending'') q))" by (simp only: mset_map mset_order_by)
  from mset_eq_imp_distinct_iff[OF this] assms
  have "distinct (map sq_id (order_by sq_id (select_where (\<lambda>r. sq_status r = ''pending'') q)))"
    by (simp add: queue_ok_def select_where_def distinct_map_filter)
  then show "distinct (map sq_id (get_pending n q))"
    by (simp only: get_pending_def take_map[symmetric] distinct_take)
  show "r \<in> set (get_pending n q) \<Longrightarrow> sq_status r = ''pending''"
    by (auto simp: get_pending_def dest!: in_set_takeD)
qed

text \<open>Exactly the items that were taken are marked, each by the outcome of its push.\<close>

lemma process_sync_queue_effect:
  assumes "queue_ok q" "process_sync_queue t push q = (q', n, m)"
  shows "q' = map (\<lambda>r. if r \<in> set (get_pending 50 (open_queue q)) then pushed_item t push r else r) (open_queue q)"
    "n + m = length (get_pending 50 (open_queue q))"
proof -
  let ?q = "open_queue q" and ?rs = "get_pending 50 (open_queue q)"
  obtain q1 pushed failed where l: "push_loop t push ?rs ?q = (q1, pushed, failed)" by (metis prod_cases3)
  note ok = open_queue_ok[OF assms(1)]
  note g = get_pending_facts[OF ok, where n = 50] and ids = push_loop_ids[OF l]
  have dist: "distinct (map sq_id ?q)" using ok by (simp add: queue_ok_def)
  note q1 = push_loop_queue[OF l dist g(1) g(2)]
  have inj: "x = y" if "x \<in> set ?q" "y \<in> set ?q" "sq_id x = sq_id y" for x y
    using that dist by (metis inj_on_eq_iff distinct_map)
  have mem: "sq_id x \<in> set pushed \<longleftrightarrow> x \<in> set ?rs \<and> push x = None" if "x \<in> set ?q" for x
    using that inj g(1) by (auto simp: ids)
  have "(if pushed \<noteq> [] then fst (mark_synced pushed q1) else q1) =
      map (\<lambda>r. if sq_id r \<in> set pushed then r\<lparr>sq_status := ''synced''\<rparr> else r) q1"
    by (cases pushed) (simp_all add: mark_synced_def update_where_def)
  also have "\<dots> = map (\<lambda>r. if r \<in> set ?rs then pushed_item t push r else r) ?q"
    unfolding q1 using mem by (auto simp: pushed_item_def split: option.splits)
  finally have eq: "(if pushed \<noteq> [] then fst (mark_synced pushed q1) else q1) =
      map (\<lambda>r. if r \<in> set ?rs then pushed_item t push r else r) ?q" .
  have len: "length pushed + failed = length ?rs" using sum_length_filter_compl[of "\<lambda>r. push r = None" ?rs] ids by simp
  show "q' = map (\<lambda>r. if r \<in> set ?rs then pushed_item t push r else r) ?q" "n + m = length ?rs"
    using assms(2) eq len l by (auto simp: process_sync_queue_def Let_def split: if_splits)
qed

lemma process_sync_queue_ok:
  assumes "queue_ok q" "process_sync_queue t push q = (q', n, m)"
  shows "queue_ok q'"
proof -
  have "map sq_id q' = map sq_id (open_queue q)"
    unfolding process_sync_queue_effect(1)[OF assms]
    by (simp add: pushed_item_def failed_item_def split: option.splits)
  moreover have "set (map sq_id q') = sq_id ` set q'" "set (map sq_id (open_queue q)) = sq_id ` set (open_queue q)" by simp_all
  ultimately show ?thesis using open_queue_ok[OF assms(1)] unfolding queue_ok_def by (metis image_iff)
qed

end
