(* ===== verification/Support_Properties.thy ===== *)
theory Support_Properties
  imports Barcode Auth Tokens Offline
begin

text \<open>
  The properties of the supporting services: article numbers (\<open>Barcode\<close>), accounts and roles
  (\<open>Auth\<close>), sessions (\<open>Tokens\<close>) and the queue of the hand-held devices (\<open>Offline\<close>).
\<close>

section \<open>Sample states\<close>

definition env1 :: env where
  "env1 = \<lparr>now = 1000, ymd = ''20240102'', uuid4 = (\<lambda>n. word_of_nat (Suc n))\<rparr>"

definition user7 :: user where
  "user7 = \<lparr>pk = 7, created_at = 1, updated_at = 1, us_username = ''ann'', us_email = ''a@x'',
     us_hashed_password = ''h'', us_is_active = True\<rparr>"

definition role8 :: role where
  "role8 = \<lparr>pk = 8, created_at = 1, updated_at = 1, rl_name = ''Ops'', rl_code = ''ops'', rl_description = None,
     rl_is_system = False\<rparr>"

definition perm9 :: permission where
  "perm9 = \<lparr>pk = 9, created_at = 1, updated_at = 1, pm_name = ''Read'', pm_code = ''order:read'', pm_resource = ''order'',
     pm_action = ''read'', pm_description = None\<rparr>"

lemma auth_samples [simp]: "pk user7 = 7" "pk role8 = 8" "pk perm9 = 9" "us_username user7 = ''ann''"
  "pm_code perm9 = ''order:read''" "rl_is_system role8 = False" "rl_code role8 = ''ops''" "us_email user7 = ''a@x''"
  by (simp_all add: user7_def role8_def perm9_def)

definition auth_sample :: auth_db where
  "auth_sample = \<lparr>drawn = 20, skus = [], outbox_events = [], webhook_targets = [], webhook_delivery_logs = [],
     notifications = [], notification_preferences = [], users = [user7], roles = [role8], permissions = [perm9],
     user_roles = [\<lparr>ur_user_id = 7, ur_role_id = 8\<rparr>], role_permissions = [\<lparr>gp_role_id = 8, gp_permission_id = 9\<rparr>],
     admin_seeded = True\<rparr>"

lemma auth_sample_inv: "auth_keys auth_sample" "auth_refs auth_sample"
  by (simp_all add: auth_keys_def auth_refs_def auth_sample_def user_role_links_def role_permission_links_def)

text \<open>A Redis that always answers, and a signature that keeps the claims readable.\<close>

definition map_redis :: "(string \<Rightarrow> redis_val option) redis_ops" where
  "map_redis = \<lparr>r_set = (\<lambda>k v ttl r. (r(k \<mapsto> RBytes v), True)), r_get = (\<lambda>k r. (r, Some (r k))),
     r_del = (\<lambda>k r. (r(k := None), True))\<rparr>"

lemma map_redis_simps [simp]:
  "r_set map_redis k v ttl r = (r(k \<mapsto> RBytes v), True)" "r_get map_redis k r = (r, Some (r k))"
  "r_del map_redis k r = (r(k := None), True)"
  by (simp_all add: map_redis_def)

lemma map_redis_contract: "redis_contract map_redis (\<lambda>r. r) RBytes"
  by (auto simp: redis_contract_def map_le_def)

fun put_text :: "string \<Rightarrow> string" where
  "put_text [] = '';''"
| "put_text (c # s) = CHR ''.'' # c # put_text s"

fun get_text :: "string \<Rightarrow> (string \<times> string) option" where
  "get_text [] = None"
| "get_text [c] = (if c = CHR '';'' then Some ([], []) else None)"
| "get_text (c # e # s) =
     (if c = CHR '';'' then Some ([], e # s) else map_option (\<lambda>(t, r). (e # t, r)) (get_text s))"

lemma get_put_text: "get_text (put_text t @ r) = Some (t, r)"
proof (induction t)
  case Nil
  then show ?case by (cases r) simp_all
qed simp

fun put_option :: "string option \<Rightarrow> string" where
  "put_option None = ''n''"
| "put_option (Some t) = CHR ''s'' # put_text t"

definition get_option :: "string \<Rightarrow> (string option \<times> string) option" where
  "get_option s =
     (case s of [] \<Rightarrow> None
      | c # r \<Rightarrow> if c = CHR ''n'' then Some (None, r) else map_option (\<lambda>(t, q). (Some t, q)) (get_text r))"

lemma get_put_option: "get_option (put_option t @ r) = Some (t, r)"
  by (cases t) (simp_all add: get_option_def get_put_text)

definition put_claims :: "claims \<Rightarrow> string" where
  "put_claims c = put_option (cl_sub c) @ put_option (cl_uid c) @
     (if 0 \<le> cl_exp c then CHR ''p'' # replicate (nat (cl_exp c)) (CHR ''1'')
      else CHR ''m'' # replicate (nat (- cl_exp c)) (CHR ''1''))"

definition get_claims :: "string \<Rightarrow> claims option" where
  "get_claims s =
     (case get_option s of None \<Rightarrow> None
      | Some (sub, r) \<Rightarrow>
          (case get_option r of None \<Rightarrow> None
           | Some (uid, q) \<Rightarrow>
               (case q of [] \<Rightarrow> None
                | x # n \<Rightarrow> Some \<lparr>cl_sub = sub, cl_uid = uid,
                    cl_exp = (if x = CHR ''p'' then int (length n) else - int (length n))\<rparr>)))"

lemma get_put_claims: "get_claims (put_claims c) = Some c"
  by (cases c) (simp add: put_claims_def get_claims_def get_put_option)

definition plain_jwt :: jwt_lib where
  "plain_jwt = \<lparr>jwt_encode = put_claims,
     jwt_decode = (\<lambda>t s. case get_claims s of None \<Rightarrow> Inl JWTError
       | Some c \<Rightarrow> if cl_exp c < t then Inl ExpiredSignatureError else Inr c)\<rparr>"

lemma plain_jwt_contract: "jwt_contract plain_jwt" "jwt_encode plain_jwt c \<noteq> []"
  by (simp_all add: jwt_contract_def plain_jwt_def get_put_claims) (simp add: put_claims_def)

definition fresh_store :: "'r \<Rightarrow> 'r token_store" where
  "fresh_store r = \<lparr>ts_memory = [], ts_redis_ok = True, ts_redis = r\<rparr>"

section \<open>Article numbers\<close>

text \<open>
  A generated article number is valid, has thirteen digits and starts with the digits of its
  prefix.
\<close>

theorem gtin_round_trip:
  assumes "generate_gtin p = Inr g"
  shows "validate_gtin g = Inr (GtinValid g ''ean13'') \<and> length g = 13 \<and> take (length (only_digits p)) g = only_digits p"
  using assms
proof (rule generate_gtinE)
  fix k
  let ?l = "ljust 12 (CHR ''0'') (only_digits p)"
  assume a: "length (only_digits p) \<le> 12" "0 \<le> k" "k < 10" "\<forall>c\<in>set ?l. ascii_digit c"
    "k = (10 - weighted_sum 0 ?l mod 10) mod 10" "g = ?l @ [char_of (48 + nat k)]"
  have len: "length ?l = 12" using a(1) by (rule length_ljust)
  have c: "ascii_digit (char_of (48 + nat k))" "digit_of (char_of (48 + nat k)) = k"
    using a(2,3) by (simp_all add: ascii_digit_def digit_of_def Let_def nat_less_iff)
  have "weighted_sum 0 g = weighted_sum 0 ?l + k"
    by (simp add: a(6) weighted_sum_append len c(2) weight_at_def)
  then have "weighted_sum 0 g mod 10 = 0"
    using check_digit_complements[OF a(2,3), of "weighted_sum 0 ?l"] a(5) by simp
  moreover have "\<forall>x\<in>set g. ascii_digit x" "length g = 13" using a(4,6) c(1) len by auto
  moreover have "take (length (only_digits p)) g = only_digits p" by (simp add: a(6) ljust_def)
  ultimately show ?thesis using validate_ean13(1)[of g] by simp
qed

theorem gtin_round_trip_witness:
  "\<exists>g. generate_gtin ''690-1234-56789'' = Inr g \<and> validate_gtin g = Inr (GtinValid g ''ean13'')"
proof -
  have "generate_gtin ''690-1234-56789'' = Inr ''6901234567892''" by code_simp
  then show ?thesis using gtin_round_trip by blast
qed

lemma not_divisible:
  assumes "(s::int) mod 10 = 0" "\<not> 10 dvd x"
  shows "(s + x) mod 10 \<noteq> 0"
  using assms by (simp add: dvd_eq_mod_eq_0[symmetric] dvd_add_right_iff)

lemma one_digit_sum:
  assumes "ascii_digit a" "ascii_digit b" "a \<noteq> b"
  shows "\<not> 10 dvd (digit_of a - digit_of b) * weight_at i"
proof -
  have d: "digit_of a - digit_of b \<noteq> 0" "\<bar>digit_of a - digit_of b\<bar> < 10"
    using digit_of_inj[of a b] digit_of_range[OF assms(1)] digit_of_range[OF assms(2)] assms(3) by auto
  have "coprime (10::int) 3" by code_simp
  then have "coprime 10 (weight_at i)" by (simp add: weight_at_def)
  then have "10 dvd (digit_of a - digit_of b) * weight_at i \<longleftrightarrow> 10 dvd digit_of a - digit_of b"
    by (simp add: coprime_dvd_mult_left_iff)
  with d show ?thesis using zdvd_not_zless[of "\<bar>digit_of a - digit_of b\<bar>" 10] by auto
qed

text \<open>
  C21: Changing any one digit of a valid article number of thirteen digits makes it invalid, and
  exchanging two neighbouring digits makes it invalid unless they differ by a multiple of five.
\<close>

theorem misread_numbers_are_noticed:
  assumes "validate_gtin g = Inr (GtinValid c ''ean13'')"
  shows "(\<forall>i<13. \<forall>x. ascii_digit x \<and> x \<noteq> c ! i \<longrightarrow> (\<exists>r. validate_gtin (c[i := x]) = Inr (GtinInvalid r))) \<and>
    (\<forall>i<12. validate_gtin (c[i := c ! Suc i, Suc i := c ! i]) =
        Inr (GtinValid (c[i := c ! Suc i, Suc i := c ! i]) ''ean13'') \<longleftrightarrow> 5 dvd digit_of (c ! i) - digit_of (c ! Suc i))"
  using assms
proof (rule valid_ean13E)
  assume c: "c = only_digits g" "length c = 13" "\<forall>x\<in>set c. ascii_digit x"
  have "validate_gtin c = Inr (GtinValid c ''ean13'')"
    using assms c by (simp add: validate_gtin_def Let_def)
  then have s: "weighted_sum 0 c mod 10 = 0" using validate_ean13(1)[OF c(3,2)] by blast
  have "\<exists>r. validate_gtin (c[i := x]) = Inr (GtinInvalid r)" if "i < 13" "ascii_digit x" "x \<noteq> c ! i" for i x
  proof (rule validate_ean13(2))
    have "ascii_digit (c ! i)" using c that by simp
    from not_divisible[OF s one_digit_sum[OF that(2) this that(3)]]
    show "weighted_sum 0 (c[i := x]) mod 10 \<noteq> 0" using that(1) c(2) by (simp add: weighted_sum_update)
    show "\<forall>y\<in>set (c[i := x]). ascii_digit y" using c(3) that(2) set_update_subset_insert[of c i x] by blast
  qed (use c(2) in simp)
  moreover have "validate_gtin (c[i := c ! Suc i, Suc i := c ! i]) =
      Inr (GtinValid (c[i := c ! Suc i, Suc i := c ! i]) ''ean13'') \<longleftrightarrow> 5 dvd digit_of (c ! i) - digit_of (c ! Suc i)"
    if "i < 12" for i
  proof -
    let ?c = "c[i := c ! Suc i, Suc i := c ! i]" and ?d = "digit_of (c ! i) - digit_of (c ! Suc i)"
    have ok: "\<forall>x\<in>set ?c. ascii_digit x" "length ?c = 13"
      using c that by (auto simp: set_swap)
    have "weighted_sum 0 ?c = weighted_sum 0 c + ?d * (weight_at (Suc i) - weight_at i)"
      using that c(2) by (simp add: weighted_sum_update algebra_simps)
    moreover have "10 dvd ?d * (weight_at (Suc i) - weight_at i) \<longleftrightarrow> 5 dvd ?d"
      by (cases "even i") (simp_all add: weight_at_def even_iff_mod_2_eq_zero mod_Suc, presburger+)
    ultimately have "weighted_sum 0 ?c mod 10 = 0 \<longleftrightarrow> 5 dvd ?d"
      using s by (simp add: dvd_eq_mod_eq_0[symmetric] dvd_add_right_iff)
    with validate_ean13(1)[OF ok] show ?thesis by simp
  qed
  ultimately show ?thesis by blast
qed

theorem misread_numbers_are_noticed_witness:
  "\<exists>r. validate_gtin (''6901234567892''[3 := CHR ''7'']) = Inr (GtinInvalid r)"
proof -
  have v: "validate_gtin ''6901234567892'' = Inr (GtinValid ''6901234567892'' ''ean13'')" by code_simp
  have "ascii_digit (CHR ''7'')" "CHR ''7'' \<noteq> ''6901234567892'' ! 3" by code_simp+
  then show ?thesis using misread_numbers_are_noticed[OF v, THEN conjunct1, rule_format, of 3 "CHR ''7''"] by simp
qed

text \<open>Prefixes shorter than twelve digits are padded on the right, so two of them can name one number.\<close>

theorem short_prefixes_collide:
  assumes "generate_gtin p = Inr g" "length (only_digits p) < 12"
  shows "generate_gtin (p @ ''0'') = Inr g"
proof -
  have z: "only_digits (p @ ''0'') = only_digits p @ [CHR ''0'']" by (simp add: only_digits_def is_digit_char_def)
  have "ljust 12 (CHR ''0'') (only_digits p @ [CHR ''0'']) = ljust 12 (CHR ''0'') (only_digits p)"
    using assms(2) by (rule ljust_append)
  with assms show ?thesis unfolding generate_gtin_def Let_def z by (auto simp: not_less)
qed

theorem short_prefixes_collide_witness:
  "generate_gtin ''6901234'' = generate_gtin ''69012340''"
proof -
  have g: "generate_gtin ''6901234'' = Inr ''6901234000009''" by code_simp
  have "length (only_digits ''6901234'') < 12" by code_simp
  from short_prefixes_collide[OF g this] g show ?thesis by simp
qed

section \<open>Accounts\<close>

text \<open>
  In every state that the account operations can reach, user names, mail addresses, role codes
  and permission codes are unique, no assignment is stored twice, and every assignment refers to an
  existing account, role and permission.
\<close>

theorem auth_tables_stay_consistent:
  assumes "auth_reachable d"
  shows "distinct (map pk (users d)) \<and> distinct (map us_username (users d)) \<and> distinct (map us_email (users d)) \<and>
    distinct (map rl_code (roles d)) \<and> distinct (map pm_code (permissions d)) \<and>
    distinct (user_roles d) \<and> distinct (role_permissions d) \<and>
    (\<forall>l\<in>set (user_roles d). ur_user_id l \<in> pk ` set (users d) \<and> ur_role_id l \<in> pk ` set (roles d)) \<and>
    (\<forall>l\<in>set (role_permissions d). gp_role_id l \<in> pk ` set (roles d) \<and> gp_permission_id l \<in> pk ` set (permissions d))"
  using auth_reachable_inv[OF assms]
  by (auto simp: auth_keys_def auth_refs_def user_role_links_def role_permission_links_def distinct_map)

lemma empty_auth_reachable:
  "auth_reachable (auth_sample\<lparr>users := [], roles := [], permissions := [], user_roles := [], role_permissions := []\<rparr>)"
  by (rule auth_reachable.start) simp_all

definition no_auth :: auth_db where
  "no_auth = auth_sample\<lparr>users := [], roles := [], permissions := [], user_roles := [], role_permissions := []\<rparr>"

definition ann :: user_create where
  "ann = \<lparr>uq_username = ''ann'', uq_email = ''a@x'', uq_password = ''p''\<rparr>"

theorem auth_tables_stay_consistent_witness:
  "\<exists>d u. register_user env1 Inr ann no_auth = Inr (d, u) \<and> distinct (map us_username (users d)) \<and> users d = [u]"
proof -
  have "\<exists>d u. register_user env1 Inr ann no_auth = Inr (d, u) \<and> users d = [u]"
    by (simp add: register_user_def no_auth_def auth_sample_def find_one_def select_where_def scalar_one_or_none_def
        raise_if_def Let_def ensure_admin_def tick_def insert_unique_def insert_row_def)
  then obtain d u where r: "register_user env1 Inr ann no_auth = Inr (d, u)" "users d = [u]" by blast
  have "auth_reachable d"
    using auth_reachable.step[OF empty_auth_reachable[folded no_auth_def] auth_step.registered[OF r(1)]] .
  from auth_tables_stay_consistent[OF this] r show ?thesis by blast
qed

text \<open>The permissions of an account are the composition of the two assignment relations.\<close>

lemma links:
  "(a, b) \<in> set (user_role_links d) \<longleftrightarrow> (\<exists>l\<in>set (user_roles d). ur_user_id l = a \<and> ur_role_id l = b)"
  "(a, b) \<in> set (role_permission_links d) \<longleftrightarrow> (\<exists>l\<in>set (role_permissions d). gp_role_id l = a \<and> gp_permission_id l = b)"
  by (auto simp: user_role_links_def role_permission_links_def)

lemma user_permissions_eq:
  assumes "auth_keys d" "auth_refs d"
  shows "get_user_permissions n d = Inr {pm_code p | u r p. u \<in> set (users d) \<and> us_username u = n \<and> p \<in> set (permissions d) \<and>
    (pk u, r) \<in> set (user_role_links d) \<and> (r, pk p) \<in> set (role_permission_links d)}"
proof -
  have dist: "distinct (map us_username (users d))" using assms(1) by (simp add: auth_keys_def)
  have role: "(\<exists>q\<in>set (roles d). pk q = r)" if "(u, r) \<in> set (user_role_links d)" for u r
    using assms(2) that by (auto simp: auth_refs_def)
  have perms: "set (concat (map (\<lambda>r. map pm_code (role_permission_list r d)) (user_role_list u d))) =
      {pm_code p | r p. p \<in> set (permissions d) \<and> (pk u, r) \<in> set (user_role_links d) \<and> (r, pk p) \<in> set (role_permission_links d)}"
    (is "?A = ?B") for u
  proof (rule set_eqI)
    fix x
    have "x \<in> ?A \<longleftrightarrow> (\<exists>q\<in>set (roles d). \<exists>p\<in>set (permissions d). x = pm_code p \<and>
        (pk u, pk q) \<in> set (user_role_links d) \<and> (pk q, pk p) \<in> set (role_permission_links d))"
      unfolding links by (auto simp: user_role_list_def role_permission_list_def)
    also have "\<dots> \<longleftrightarrow> x \<in> ?B" using role by fastforce
    finally show "x \<in> ?A \<longleftrightarrow> x \<in> ?B" .
  qed
  show ?thesis
  proof (cases "\<exists>u\<in>set (users d). us_username u = n")
    case True
    then obtain u where u: "u \<in> set (users d)" "us_username u = n" by blast
    have one: "find_one (\<lambda>x. us_username x = n) (users d) = Inr (Some u)"
      by (rule find_one_pk[OF dist u(1)]) (use u in auto)
    have same: "x = u" if "x \<in> set (users d)" "us_username x = n" for x
      using that u dist by (metis inj_on_eq_iff distinct_map)
    have "{pm_code p | u r p. u \<in> set (users d) \<and> us_username u = n \<and> p \<in> set (permissions d) \<and>
        (pk u, r) \<in> set (user_role_links d) \<and> (r, pk p) \<in> set (role_permission_links d)} =
      {pm_code p | r p. p \<in> set (permissions d) \<and> (pk u, r) \<in> set (user_role_links d) \<and> (r, pk p) \<in> set (role_permission_links d)}"
      by (rule Collect_cong) (use u same in blast)
    then show ?thesis using perms[of u] by (simp add: get_user_permissions_def one)
  next
    case False
    then have "find_one (\<lambda>x. us_username x = n) (users d) = Inr None" by (auto simp: find_one_None)
    with False show ?thesis by (auto simp: get_user_permissions_def)
  qed
qed

lemma delete_role_step: "delete_role i d = Inr (d', x) \<Longrightarrow> auth_keys d \<and> auth_refs d \<Longrightarrow> auth_keys d' \<and> auth_refs d'"
  using auth_step.role_deleted auth_step_keys auth_step_refs by blast

text \<open>
  C19: After the deletion of a role in a reachable state, the permissions of an account are exactly
  the codes it has through its other roles.
\<close>

theorem deleted_role_grants_nothing:
  assumes "auth_reachable d" "delete_role i d = Inr (d', x)" "to_uuid i = Inr q"
  shows "get_user_permissions n d' = Inr {pm_code p | u r p. u \<in> set (users d) \<and> us_username u = n \<and> p \<in> set (permissions d) \<and>
    r \<noteq> q \<and> (pk u, r) \<in> set (user_role_links d) \<and> (r, pk p) \<in> set (role_permission_links d)}"
proof -
  have inv: "auth_keys d'" "auth_refs d'"
    using delete_role_step[OF assms(2) auth_reachable_inv[OF assms(1)]] by blast+
  from assms(2) show ?thesis
  proof (rule delete_roleE)
    fix r
    assume r: "to_uuid i = Inr r" "d' = d\<lparr>roles := filter (\<lambda>q. pk q \<noteq> r) (roles d),
      user_roles := filter (\<lambda>l. ur_role_id l \<noteq> r) (user_roles d), role_permissions := filter (\<lambda>l. gp_role_id l \<noteq> r) (role_permissions d)\<rparr>"
    then have "r = q" using assms(3) by simp
    then have l: "(a, b) \<in> set (user_role_links d') \<longleftrightarrow> b \<noteq> q \<and> (a, b) \<in> set (user_role_links d)"
      "(a, b) \<in> set (role_permission_links d') \<longleftrightarrow> a \<noteq> q \<and> (a, b) \<in> set (role_permission_links d)" for a b
      using r(2) by (auto simp: user_role_links_def role_permission_links_def)
    have "users d' = users d" "permissions d' = permissions d" using r(2) by simp_all
    then show ?thesis unfolding user_permissions_eq[OF inv] l by auto
  qed
qed

text \<open>An account with one role loses its permissions with the role.\<close>

definition role_db :: auth_db where
  "role_db = no_auth\<lparr>users := [user7]\<rparr>"

definition ops_role :: role_create where
  "ops_role = \<lparr>kq_name = ''Ops'', kq_code = ''ops'', kq_description = None\<rparr>"

theorem deleted_role_grants_nothing_witness:
  "\<exists>d r d' x. create_role env1 ops_role no_auth = Inr (d, r) \<and> delete_role (show_uuid (pk r)) d = Inr (d', x) \<and>
     get_user_permissions ''ann'' d' = Inr {}"
proof -
  have "\<exists>d r. create_role env1 ops_role no_auth = Inr (d, r) \<and> roles d = [r] \<and> \<not> rl_is_system r \<and> users d = []"
    by (simp add: create_role_def no_auth_def auth_sample_def find_one_def select_where_def scalar_one_or_none_def
        raise_if_def Let_def tick_def insert_unique_def insert_row_def)
  then obtain d r where c: "create_role env1 ops_role no_auth = Inr (d, r)" "roles d = [r]" "\<not> rl_is_system r" "users d = []"
    by blast
  have "find_one (\<lambda>x. pk x = pk r) [r] = Inr (Some r)" by (simp add: find_one_Some_iff)
  then have "\<exists>d' x. delete_role (show_uuid (pk r)) d = Inr (d', x)"
    using c(2,3) by (simp add: delete_role_def find_role_def find_or_raise_def)
  then obtain d' x where del: "delete_role (show_uuid (pk r)) d = Inr (d', x)" by blast
  have "auth_reachable d"
    using auth_reachable.step[OF empty_auth_reachable[folded no_auth_def] auth_step.role_created[OF c(1)]] .
  from deleted_role_grants_nothing[OF this del, where q = "pk r" and n = "''ann''"] c del show ?thesis by simp
qed

text \<open>
  In every reachable state, assigning a role to an account or a permission to a role and
  removing it again gives back the very same tables, and a second assignment of the same pair is
  refused.
\<close>

theorem assignments_can_be_taken_back:
  assumes "auth_reachable d"
  shows "(assign_role_to_user a b d = Inr (d', v) \<longrightarrow> remove_role_from_user a b d' = Inr (d, ())) \<and>
    (assign_permission_to_role a b d = Inr (d', v) \<longrightarrow> remove_permission_from_role a b d' = Inr (d, ())) \<and>
    (assign_role_to_user a b d = Inr (d', v) \<longrightarrow> assign_role_to_user a b d' \<noteq> Inr w) \<and>
    (assign_permission_to_role a b d = Inr (d', v) \<longrightarrow> assign_permission_to_role a b d' \<noteq> Inr w)"
proof (intro conjI impI)
  have dist: "distinct (user_role_links d)" "distinct (role_permission_links d)"
    using auth_reachable_inv[OF assms] by (simp_all add: auth_keys_def)
  show "assign_role_to_user a b d' \<noteq> Inr w" if "assign_role_to_user a b d = Inr (d', v)"
    using that by (rule user_role_table.assign_twice)
  show "assign_permission_to_role a b d' \<noteq> Inr w" if "assign_permission_to_role a b d = Inr (d', v)"
    using that by (rule role_permission_table.assign_twice)
  show "remove_role_from_user a b d' = Inr (d, ())" if as: "assign_role_to_user a b d = Inr (d', v)"
  proof -
    from user_role_table.assign_then_unassign[OF as dist(1)] obtain d2 where
      u: "remove_role_from_user a b d' = Inr (d2, ())" "user_role_links d2 = user_role_links d" by force
    have "user_roles d2 = user_roles d"
      using u(2) unfolding user_role_links_def by (rule map_injective) (auto intro!: injI)
    moreover have "\<exists>t. d2 = d\<lparr>user_roles := t\<rparr>"
      using as u(1) by (auto elim!: assign_role_to_userE remove_role_from_userE)
    ultimately have "d2 = d" by auto
    with u show ?thesis by simp
  qed
  show "remove_permission_from_role a b d' = Inr (d, ())" if as: "assign_permission_to_role a b d = Inr (d', v)"
  proof -
    from role_permission_table.assign_then_unassign[OF as dist(2)] obtain d2 where
      u: "remove_permission_from_role a b d' = Inr (d2, ())" "role_permission_links d2 = role_permission_links d" by force
    have "role_permissions d2 = role_permissions d"
      using u(2) unfolding role_permission_links_def by (rule map_injective) (auto intro!: injI)
    moreover have "\<exists>t. d2 = d\<lparr>role_permissions := t\<rparr>"
      using as u(1) by (auto elim!: assign_permission_to_roleE remove_permission_from_roleE)
    ultimately have "d2 = d" by auto
    with u show ?thesis by simp
  qed
qed

theorem assignments_can_be_taken_back_witness:
  "\<exists>d u d1 r d2 v. register_user env1 Inr ann no_auth = Inr (d, u) \<and> create_role env1 ops_role d = Inr (d1, r) \<and>
     assign_role_to_user (show_uuid (pk u)) (show_uuid (pk r)) d1 = Inr (d2, v) \<and>
     remove_role_from_user (show_uuid (pk u)) (show_uuid (pk r)) d2 = Inr (d1, ())"
proof -
  have "\<exists>d u d1 r. register_user env1 Inr ann no_auth = Inr (d, u) \<and> create_role env1 ops_role d = Inr (d1, r) \<and>
      users d1 = [u] \<and> roles d1 = [r] \<and> user_roles d1 = []"
    by (simp add: register_user_def create_role_def no_auth_def auth_sample_def find_one_def select_where_def
        scalar_one_or_none_def raise_if_def Let_def ensure_admin_def tick_def insert_unique_def insert_row_def)
  then obtain d u d1 r where c: "register_user env1 Inr ann no_auth = Inr (d, u)" "create_role env1 ops_role d = Inr (d1, r)"
    "users d1 = [u]" "roles d1 = [r]" "user_roles d1 = []" by blast
  have "\<exists>d2 v. assign_role_to_user (show_uuid (pk u)) (show_uuid (pk r)) d1 = Inr (d2, v)"
    by (simp add: assign_role_to_user_def c(3,4,5) find_or_raise_def find_one_def select_where_def scalar_one_or_none_def
        raise_if_def insert_unique_def)
  then obtain d2 v where a: "assign_role_to_user (show_uuid (pk u)) (show_uuid (pk r)) d1 = Inr (d2, v)" by blast
  have "auth_reachable d1"
    using auth_reachable.step[OF auth_reachable.step[OF empty_auth_reachable[folded no_auth_def]
          auth_step.registered[OF c(1)]] auth_step.role_created[OF c(2)]] .
  from assignments_can_be_taken_back[OF this] a c show ?thesis by blast
qed

text \<open>
  An account that takes the user name of one account and the mail address of another is refused, but not
  with the validation error: the lookup finds two rows and raises.
\<close>

theorem crossed_registration_raises:
  assumes "auth_reachable d" "u \<in> set (users d)" "v \<in> set (users d)" "u \<noteq> v"
    and "us_username u = uq_username data" "us_email v = uq_email data"
  shows "register_user env hashpw data d = Inl MultipleResultsFound"
proof -
  have "distinct (map pk (users d))" using auth_reachable_inv[OF assms(1)] by (simp add: auth_keys_def)
  then have "distinct (users d)" by (simp add: distinct_map)
  then have "distinct (filter (\<lambda>x. us_username x = uq_username data \<or> us_email x = uq_email data) (users d))" by simp
  moreover have "{u, v} \<subseteq> set (filter (\<lambda>x. us_username x = uq_username data \<or> us_email x = uq_email data) (users d))"
    using assms(2,3,5,6) by auto
  ultimately have "2 \<le> length (filter (\<lambda>x. us_username x = uq_username data \<or> us_email x = uq_email data) (users d))"
    using card_mono[of "set (filter (\<lambda>x. us_username x = uq_username data \<or> us_email x = uq_email data) (users d))" "{u, v}"]
      assms(4) by (simp add: distinct_card[symmetric])
  then obtain a b t where "filter (\<lambda>x. us_username x = uq_username data \<or> us_email x = uq_email data) (users d) = a # b # t"
    by (metis (no_types, lifting) Suc_le_length_iff numeral_2_eq_2)
  then have "find_one (\<lambda>x. us_username x = uq_username data \<or> us_email x = uq_email data) (users d) = Inl MultipleResultsFound"
    by (simp add: find_one_def select_where_def scalar_one_or_none_def)
  then show ?thesis by (simp add: register_user_def)
qed

theorem crossed_registration_raises_witness:
  "\<exists>d u v. users d = [u, v] \<and> auth_reachable (d :: auth_db) \<and>
     register_user env1 Inr (ann\<lparr>uq_email := ''b@x''\<rparr>) d = Inl MultipleResultsFound"
proof -
  let ?bob = "ann\<lparr>uq_username := ''bob'', uq_email := ''b@x''\<rparr>"
  have "\<exists>d u d1 v. register_user env1 Inr ann no_auth = Inr (d, u) \<and> register_user env1 Inr ?bob d = Inr (d1, v) \<and>
      users d1 = [u, v] \<and> us_username u = ''ann'' \<and> us_email v = ''b@x'' \<and> us_username v = ''bob''"
    by (simp add: register_user_def ann_def env1_def no_auth_def auth_sample_def find_one_def select_where_def new_uuid_def
        scalar_one_or_none_def raise_if_def Let_def ensure_admin_def tick_def insert_unique_def insert_row_def)
  then obtain d u d1 v where c: "register_user env1 Inr ann no_auth = Inr (d, u)" "register_user env1 Inr ?bob d = Inr (d1, v)"
    "users d1 = [u, v]" "us_username u = ''ann''" "us_email v = ''b@x''" "us_username v = ''bob''" by blast
  have r: "auth_reachable d1"
    using auth_reachable.step[OF auth_reachable.step[OF empty_auth_reachable[folded no_auth_def]
          auth_step.registered[OF c(1)]] auth_step.registered[OF c(2)]] .
  have "u \<noteq> v" using c(4,6) by auto
  from crossed_registration_raises[OF r _ _ this, where data = "ann\<lparr>uq_email := ''b@x''\<rparr>" and env = env1 and hashpw = Inr] c r
  show ?thesis by (auto simp: ann_def)
qed

section \<open>Sessions\<close>

text \<open>
  C13: A refresh token that was used once is never accepted again: whatever other tokens are stored,
  used, revoked or looked up afterwards, and whenever Redis fails, neither the store nor the
  rotation answers for it, as long as no token with the same key is stored again. Redis is assumed
  to keep redis_contract.
\<close>

theorem used_token_is_dead:
  assumes "redis_contract ops content enc"
    and "pop_token ops sha tok (run_ops ops sha utf8 before (fresh_store r)) = (st, v)"
    and "\<forall>t u. StoreToken t u \<in> set after \<longrightarrow> token_key sha t \<noteq> token_key sha tok"
  shows "snd (pop_token ops sha tok (run_ops ops sha utf8 after st)) = None \<and>
    snd (refresh_tokens jwt ops sha t tok (run_ops ops sha utf8 after st)) = None"
proof -
  have "memory_unused (run_ops ops sha utf8 before (fresh_store r))"
    by (rule run_ops_memory_unused) (simp add: fresh_store_def memory_unused_def)
  from pop_token_dead[OF assms(1,2) this] have "dead content sha tok st" .
  from dead_pop[OF assms(1) run_ops_dead[OF assms(1) this assms(3)]]
  have p: "snd (pop_token ops sha tok (run_ops ops sha utf8 after st)) = None" .
  then show ?thesis
    by (auto simp: refresh_tokens_def Let_def truthy_def split: sum.splits prod.splits)
qed

theorem used_token_is_dead_witness:
  "snd (pop_token map_redis (\<lambda>s. s) ''tok'' (run_ops map_redis (\<lambda>s. s) (\<lambda>s. s) [StoreToken ''other'' ''bob'', LookupToken ''tok'']
     (fst (pop_token map_redis (\<lambda>s. s) ''tok'' (run_ops map_redis (\<lambda>s. s) (\<lambda>s. s) [StoreToken ''tok'' ''ann''] (fresh_store (\<lambda>_. None))))))) = None \<and>
   snd (pop_token map_redis (\<lambda>s. s) ''tok'' (run_ops map_redis (\<lambda>s. s) (\<lambda>s. s) [StoreToken ''tok'' ''ann''] (fresh_store (\<lambda>_. None)))) \<noteq> None"
proof -
  let ?st = "run_ops map_redis (\<lambda>s. s) (\<lambda>s. s) [StoreToken ''tok'' ''ann''] (fresh_store (\<lambda>_. None))"
  have "\<forall>t u. StoreToken t u \<in> set [StoreToken ''other'' ''bob'', LookupToken ''tok''] \<longrightarrow>
      token_key (\<lambda>s. s) t \<noteq> token_key (\<lambda>s. s) ''tok''"
    by (simp add: token_key_def)
  from used_token_is_dead[OF map_redis_contract surjective_pairing this] have
    "snd (pop_token map_redis (\<lambda>s. s) ''tok'' (run_ops map_redis (\<lambda>s. s) (\<lambda>s. s) [StoreToken ''other'' ''bob'', LookupToken ''tok'']
      (fst (pop_token map_redis (\<lambda>s. s) ''tok'' ?st)))) = None" by blast
  moreover have "snd (pop_token map_redis (\<lambda>s. s) ''tok'' ?st) \<noteq> None"
    by (simp add: run_ops_def fresh_store_def store_token_def pop_token_def pop_script_def token_key_def)
  ultimately show ?thesis by blast
qed

text \<open>What a rotation through Redis answers when the client does not decode: the name in the literal form of a byte string.\<close>

text \<open>
  When Redis answers the rotation of a refresh token with the stored bytes, the new tokens do
  not name the user but the Python literal of the byte string, because the store converts the reply
  with str.
\<close>

theorem redis_refresh_renames_the_user:
  assumes "jwt_contract jwt" "redis_contract ops content enc"
    and "decode_token jwt t tok = Inr payload" "ts_redis_ok st"
    and "pop_script ops (token_key sha tok) (ts_redis st) = (r, Some (Some (RBytes name)))"
  shows "\<exists>st' p c. refresh_tokens jwt ops sha t tok st = (st', Some p) \<and> content (ts_redis st) (token_key sha tok) = Some (RBytes name) \<and>
    decode_token jwt t (tp_access_token p) = Inr c \<and> cl_sub c = Some (bytes_repr name) \<and> cl_sub c \<noteq> Some name"
proof -
  have "content (ts_redis st) (token_key sha tok) = Some (RBytes name)"
    using script_keeps_absent(3)[OF assms(2,5) refl] by simp
  moreover have "pop_token ops sha tok st = (st\<lparr>ts_redis := r\<rparr>, Some (bytes_repr name))"
    using assms(4,5) by (simp add: pop_token_def py_str_def)
  moreover have "truthy (Some (bytes_repr name))" using bytes_repr_differs(2) by (simp add: truthy_def)
  ultimately show ?thesis
    using assms(1,3) bytes_repr_differs(1)[of name] seconds_shift[of t "60 * 60"]
    by (simp add: refresh_tokens_def create_access_token_def decode_encoded Let_def)
qed

theorem redis_refresh_renames_the_user_witness:
  "\<exists>tok st p c. create_tokens plain_jwt map_redis (\<lambda>s. s) 0 ''ann'' ''7'' (fresh_store (\<lambda>_. None)) = (st, tok) \<and>
     snd (refresh_tokens plain_jwt map_redis (\<lambda>s. s) 0 (tp_refresh_token tok) st) = Some p \<and>
     decode_token plain_jwt 0 (tp_access_token p) = Inr c \<and>
     cl_sub c = Some ([CHR ''b'', CHR 0x27] @ ''ann'' @ [CHR 0x27])"
proof -
  let ?tok = "create_refresh_token plain_jwt 0 (Some ''ann'') (Some ''7'')"
  let ?st = "store_token map_redis (\<lambda>s. s) ?tok ''ann'' (fresh_store (\<lambda>_. None))"
  have d: "decode_token plain_jwt 0 ?tok = Inr \<lparr>cl_sub = Some ''ann'', cl_uid = Some ''7'', cl_exp = seconds 0 + 7 * 24 * 3600\<rparr>"
    by (rule decode_refresh_token[OF plain_jwt_contract(1)]) simp
  have st: "ts_redis_ok ?st" "ts_redis ?st (token_key (\<lambda>s. s) ?tok) = Some (RBytes ''ann'')"
    by (simp_all add: store_token_def fresh_store_def)
  have "pop_script map_redis (token_key (\<lambda>s. s) ?tok) (ts_redis ?st) =
      ((ts_redis ?st)(token_key (\<lambda>s. s) ?tok := None), Some (Some (RBytes ''ann'')))"
    by (simp add: pop_script_def st(2))
  from redis_refresh_renames_the_user[OF plain_jwt_contract(1) map_redis_contract d st(1) this]
  obtain st' p c where "refresh_tokens plain_jwt map_redis (\<lambda>s. s) 0 ?tok ?st = (st', Some p)"
    "decode_token plain_jwt 0 (tp_access_token p) = Inr c" "cl_sub c = Some (bytes_repr ''ann'')" by blast
  moreover have "bytes_repr ''ann'' = [CHR ''b'', CHR 0x27] @ ''ann'' @ [CHR 0x27]" by code_simp
  ultimately show ?thesis by (simp add: create_tokens_def Let_def)
qed

text \<open>
  A refresh token that was revoked is refused by the rotation, but the request dependency still
  accepts it as an access token until it expires after seven days.
\<close>

theorem revoked_refresh_token_authenticates:
  assumes "jwt_contract jwt" "redis_contract ops content enc" "\<And>c. jwt_encode jwt c \<noteq> []"
    and "create_tokens jwt ops sha t name uid st = (st1, p)" "seconds t' \<le> seconds t + 7 * 24 * 3600"
  shows "snd (refresh_tokens jwt ops sha t' (tp_refresh_token p) (revoke_refresh_token ops sha (tp_refresh_token p) st1)) = None \<and>
    get_current_user jwt t' (Some (tp_refresh_token p)) =
      Inr \<lparr>cl_sub = Some name, cl_uid = Some uid, cl_exp = seconds t + 7 * 24 * 3600\<rparr>"
proof
  have p: "tp_refresh_token p = create_refresh_token jwt t (Some name) (Some uid)"
    using assms(4) by (auto simp: create_tokens_def Let_def)
  have "dead content sha (tp_refresh_token p) (revoke_refresh_token ops sha (tp_refresh_token p) st1)"
    unfolding revoke_refresh_token_def by (rule revoke_token_dead[OF assms(2)])
  from dead_pop[OF assms(2) this]
  show "snd (refresh_tokens jwt ops sha t' (tp_refresh_token p) (revoke_refresh_token ops sha (tp_refresh_token p) st1)) = None"
    by (auto simp: refresh_tokens_def Let_def truthy_def split: sum.splits prod.splits)
  have "tp_refresh_token p \<noteq> []" using assms(3) by (simp add: p create_refresh_token_def)
  then show "get_current_user jwt t' (Some (tp_refresh_token p)) =
      Inr \<lparr>cl_sub = Some name, cl_uid = Some uid, cl_exp = seconds t + 7 * 24 * 3600\<rparr>"
    using decode_refresh_token[OF assms(1,5), of "Some name" "Some uid"]
    by (simp add: get_current_user_def truthy_def p)
qed

theorem revoked_refresh_token_authenticates_witness:
  "\<exists>st p c. create_tokens plain_jwt map_redis (\<lambda>s. s) 0 ''ann'' ''7'' (fresh_store (\<lambda>_. None)) = (st, p) \<and>
     get_current_user plain_jwt 1000000 (Some (tp_refresh_token p)) = Inr c \<and> cl_sub c = Some ''ann''"
proof -
  obtain st p where c: "create_tokens plain_jwt map_redis (\<lambda>s. s) 0 ''ann'' ''7'' (fresh_store (\<lambda>_. None)) = (st, p)" by fastforce
  have "seconds 1000000 \<le> seconds 0 + 7 * 24 * 3600" by (simp add: seconds_def)
  from revoked_refresh_token_authenticates[OF plain_jwt_contract(1) map_redis_contract plain_jwt_contract(2) c this] c
  show ?thesis by auto
qed

section \<open>The queue of the devices\<close>

lemma processed_queue:
  assumes "queue_ok q"
  shows "queue_ok (fst (process_sync_queue t push q))" "length (fst (process_sync_queue t push q)) = Suc (length q)"
    "r \<in> set q \<Longrightarrow> sq_status r \<noteq> ''pending'' \<Longrightarrow> r \<in> set (fst (process_sync_queue t push q))"
proof -
  obtain q' n m where p: "process_sync_queue t push q = (q', n, m)" by (metis prod_cases3)
  note eff = process_sync_queue_effect(1)[OF assms p]
  show "queue_ok (fst (process_sync_queue t push q))" using process_sync_queue_ok[OF assms p] p by simp
  show "length (fst (process_sync_queue t push q)) = Suc (length q)"
    using p eff by (simp add: open_queue_def insert_row_def)
  assume r: "r \<in> set q" "sq_status r \<noteq> ''pending''"
  then have "r \<in> set (open_queue q)" "r \<notin> set (get_pending 50 (open_queue q))"
    using get_pending_facts(3)[OF open_queue_ok[OF assms]] by (auto simp: open_queue_def insert_row_def)
  then show "r \<in> set (fst (process_sync_queue t push q))" using p eff by (force simp: image_iff)
qed

text \<open>
  An item of the device queue whose push failed stays in the queue as failed through every
  later run of the task, and every run adds one more row, because opening the queue inserts an order
  that nobody made.
\<close>

theorem failed_items_are_never_retried:
  assumes "queue_ok q" "r \<in> set q" "sq_status r = ''failed''"
  shows "r \<in> set (fold (\<lambda>(t, push) q. fst (process_sync_queue t push q)) runs q) \<and>
    length (fold (\<lambda>(t, push) q. fst (process_sync_queue t push q)) runs q) = length q + length runs"
  using assms(1,2)
proof (induction runs arbitrary: q)
  case (Cons p runs)
  obtain t push where p: "p = (t, push)" by fastforce
  have "r \<in> set (fst (process_sync_queue t push q))"
    using processed_queue(3)[OF Cons.prems] assms(3) by simp
  from Cons.IH[OF processed_queue(1)[OF Cons.prems(1)] this] processed_queue(2)[OF Cons.prems(1), of t push]
  show ?case by (simp add: p)
qed simp

definition failed_sample :: sync_item where
  "failed_sample = \<lparr>sq_id = 1, sq_entity_type = ''Order'', sq_entity_id = ''O1'', sq_operation = ''create'', sq_payload = Some ''{}'',
     sq_status = ''failed'', sq_failed_at = Some 5, sq_error_message = Some ''timeout''\<rparr>"

theorem failed_items_are_never_retried_witness:
  "failed_sample \<in> set (fst (process_sync_queue 9 (\<lambda>r. None) (fst (process_sync_queue 8 (\<lambda>r. None) [failed_sample])))) \<and>
   length (fst (process_sync_queue 9 (\<lambda>r. None) (fst (process_sync_queue 8 (\<lambda>r. None) [failed_sample])))) = 3"
proof -
  have "queue_ok [failed_sample]" "failed_sample \<in> set [failed_sample]" "sq_status failed_sample = ''failed''"
    by (simp_all add: queue_ok_def failed_sample_def)
  from failed_items_are_never_retried[OF this, where runs = "[(8, \<lambda>r. None), (9, \<lambda>r. None)]"] show ?thesis by simp
qed

theorem pushed_items_are_marked:
  assumes "queue_ok q" "process_sync_queue t push q = (q', n, m)"
  shows "q' = map (\<lambda>r. if r \<in> set (get_pending 50 (open_queue q)) then pushed_item t push r else r) (open_queue q) \<and>
    n = length (filter (\<lambda>r. push r = None) (get_pending 50 (open_queue q))) \<and>
    m = length (filter (\<lambda>r. push r \<noteq> None) (get_pending 50 (open_queue q))) \<and> queue_ok q'"
proof -
  obtain q1 pushed failed where l: "push_loop t push (get_pending 50 (open_queue q)) (open_queue q) = (q1, pushed, failed)"
    by (metis prod_cases3)
  have "n = length pushed \<and> m = failed"
    using assms(2) l by (auto simp: process_sync_queue_def Let_def split: if_splits)
  with push_loop_ids[OF l] process_sync_queue_effect(1)[OF assms] process_sync_queue_ok[OF assms] show ?thesis by simp
qed

theorem pushed_items_are_marked_witness:
  "\<exists>q'. process_sync_queue 9 (\<lambda>r. None) [] = (q', 1, 0) \<and> queue_ok q'"
proof -
  have "queue_ok []" by (simp add: queue_ok_def)
  moreover have "\<exists>q'. process_sync_queue 9 (\<lambda>r. None) [] = (q', 1, 0)"
    by (simp add: process_sync_queue_def open_queue_def next_id_def insert_row_def initial_item_def get_pending_def
        select_where_def order_by_def)
  ultimately show ?thesis using pushed_items_are_marked by blast
qed

end
