(* ===== verification/Tasks.thy ===== *)
theory Tasks
  imports Wms_Inventory
begin

text \<open>
  The periodic tasks of \<open>src/tasks/orders.py\<close> and \<open>src/tasks/inventory.py\<close> that change orders and stock
  behind the services' back. Each task is the body of its coroutine on the committed state. The lemmas
  separate the tasks that log the status they set, which keep the invariant of the order tables, from
  those that do not.
\<close>

section \<open>Orders\<close>

text \<open>\<open>order.status.value\<close>\<close>

fun order_status_value :: "order_status \<Rightarrow> string" where
  "order_status_value OrderStatus_PENDING = ''pending''"
| "order_status_value OrderStatus_CONFIRMED = ''confirmed''"
| "order_status_value OrderStatus_PROCESSING = ''processing''"
| "order_status_value OrderStatus_PICKING = ''picking''"
| "order_status_value OrderStatus_COMPLETED = ''completed''"
| "order_status_value OrderStatus_CANCELLED = ''cancelled''"
| "order_status_value OrderStatus_FAILED = ''failed''"

text \<open>A day in microseconds; midnight is the start of the day of a time.\<close>

definition day_us :: int where
  "day_us = 24 * 3600 * 1000000"

definition midnight :: "datetime \<Rightarrow> datetime" where
  "midnight t = t div day_us * day_us"

definition flag_stale :: "env \<Rightarrow> (datetime \<Rightarrow> string) \<Rightarrow> order \<Rightarrow> 'a oms_db_scheme \<Rightarrow> 'a oms_db_scheme" where
  "flag_stale env isoformat ord d =
     add_status_log env (pk ord) (order_status_value (ord_status ord)) ''flagged_stale''
       (''Auto-flagged: stuck in '' @ quoted (order_status_value (ord_status ord)) @ '' since '' @ isoformat (updated_at ord)) d"

definition is_stale :: "env \<Rightarrow> order \<Rightarrow> bool" where
  "is_stale env ord \<longleftrightarrow>
     (ord_status ord = OrderStatus_PROCESSING \<or> ord_status ord = OrderStatus_PICKING) \<and> updated_at ord < midnight (now env)"

definition process_stale_orders ::
  "env \<Rightarrow> (datetime \<Rightarrow> string) \<Rightarrow> 'a oms_db_scheme \<Rightarrow> 'a oms_db_scheme \<times> nat" where
  "process_stale_orders env isoformat d =
     (let stale = select_where (is_stale env) (orders d)
      in (fold (flag_stale env isoformat) stale d, length stale))"

text \<open>Set the status of one loaded order and log it.\<close>

definition task_change ::
  "env \<Rightarrow> order_status \<Rightarrow> string \<Rightarrow> string \<Rightarrow> string \<Rightarrow> order \<Rightarrow> 'a oms_db_scheme \<Rightarrow> 'a oms_db_scheme" where
  "task_change env st frm tgt remark ord d =
     add_status_log env (pk ord) frm tgt remark
       (d\<lparr>orders := update_where (\<lambda>x. pk x = pk ord) (\<lambda>x. x\<lparr>ord_status := st, updated_at := now env\<rparr>) (orders d)\<rparr>)"

definition auto_complete_picked_orders :: "env \<Rightarrow> 'a oms_db_scheme \<Rightarrow> 'a oms_db_scheme \<times> nat" where
  "auto_complete_picked_orders env d =
     (let cutoff = now env - 2 * day_us;
          found = select_where (\<lambda>x. ord_status x = OrderStatus_PICKING \<and> updated_at x < cutoff) (orders d)
      in (fold (task_change env OrderStatus_COMPLETED ''picking'' ''completed''
                 ''Auto-completed: order in picking state for 48+ hours'') found d, length found))"

definition cancel_abandoned_drafts :: "env \<Rightarrow> 'a oms_db_scheme \<Rightarrow> 'a oms_db_scheme \<times> nat" where
  "cancel_abandoned_drafts env d =
     (let cutoff = now env - 7 * day_us;
          found = select_where (\<lambda>x. ord_status x = OrderStatus_PENDING \<and> created_at x < cutoff) (orders d)
      in (fold (task_change env OrderStatus_CANCELLED ''pending'' ''cancelled''
                 ''Auto-cancelled: draft order older than 7 days'') found d, length found))"

text \<open>The two tasks of \<open>src/tasks/inventory.py\<close> on orders: \<open>timedelta.days\<close> is the floor of the difference.\<close>

definition age_days :: "env \<Rightarrow> order \<Rightarrow> int" where
  "age_days env ord = (now env - created_at ord) div day_us"

definition set_pending :: "env \<Rightarrow> (order \<Rightarrow> bool) \<Rightarrow> order_status \<Rightarrow> 'a oms_db_scheme \<Rightarrow> 'a oms_db_scheme \<times> nat" where
  "set_pending env due st d =
     (let p = (\<lambda>x. ord_status x = OrderStatus_PENDING \<and> due x)
      in (d\<lparr>orders := update_where p (\<lambda>x. x\<lparr>ord_status := st, updated_at := now env\<rparr>) (orders d)\<rparr>,
          row_count p (orders d)))"

definition cancel_expired_orders :: "env \<Rightarrow> 'a oms_db_scheme \<Rightarrow> 'a oms_db_scheme \<times> nat" where
  "cancel_expired_orders env d = set_pending env (\<lambda>x. 7 < age_days env x) OrderStatus_CANCELLED d"

definition process_pending_orders :: "env \<Rightarrow> 'a oms_db_scheme \<Rightarrow> 'a oms_db_scheme \<times> nat" where
  "process_pending_orders env d = set_pending env (\<lambda>x. 1 \<le> age_days env x) OrderStatus_CONFIRMED d"

section \<open>Inventory\<close>

definition release_row :: "env \<Rightarrow> inventory \<Rightarrow> inventory" where
  "release_row env i =
     i\<lparr>inv_quantity := inv_quantity i + inv_locked_qty i, inv_locked_qty := 0, updated_at := now env\<rparr>"

definition release_locked_inventory ::
  "env \<Rightarrow> 'a wms_db_scheme \<Rightarrow> 'a wms_db_scheme \<times> nat" where
  "release_locked_inventory env d =
     (if select_where (\<lambda>x. ord_status x = OrderStatus_CANCELLED) (orders d) = [] then (d, 0)
      else (d\<lparr>inventory_rows := update_where (\<lambda>i. 0 < inv_locked_qty i) (release_row env) (inventory_rows d)\<rparr>,
            row_count (\<lambda>i. 0 < inv_locked_qty i) (inventory_rows d)))"

definition snapshot_inventory :: "'a wms_db_scheme \<Rightarrow> nat" where
  "snapshot_inventory d = length (inventory_rows d)"

section \<open>Tasks that log\<close>

lemma task_change_simps:
  "orders (task_change env st a b r ord d) =
     update_where (\<lambda>x. pk x = pk ord) (\<lambda>x. x\<lparr>ord_status := st, updated_at := now env\<rparr>) (orders d)"
  "order_items (task_change env st a b r ord d) = order_items d"
  "customers (task_change env st a b r ord d) = customers d"
  "skus (task_change env st a b r ord d) = skus d"
  "drawn (task_change env st a b r ord d) = Suc (drawn d)"
  "\<exists>l. order_status_logs (task_change env st a b r ord d) = order_status_logs d @ [l] \<and> osl_order_id l = pk ord \<and>
     osl_to_status l = b \<and> osl_from_status l = a"
  by (simp_all add: task_change_def add_status_log_def tick_def insert_row_def)

lemma task_change_inv:
  assumes "oms_inv env cap d" "find_one (\<lambda>x. pk x = pk ord) (orders d) = Inr (Some ord)"
    and "b \<in> set (order_states (status_reverse (ord_status ord)))" "status_reverse st = b" "a \<noteq> []"
  shows "oms_inv env cap (task_change env' st a b r ord d)"
proof -
  from task_change_simps(6)[of env' st a b r ord d] obtain l where
    l: "order_status_logs (task_change env' st a b r ord d) = order_status_logs d @ [l]" "osl_order_id l = pk ord"
      "osl_to_status l = b" "osl_from_status l \<noteq> []" using assms(5) by blast
  show ?thesis
    by (rule oms_inv_change[OF assms(2,3) task_change_simps(1) assms(4) l task_change_simps(2,3,4) _ assms(1)])
      (simp add: task_change_simps(5))
qed

lemma find_other_order:
  assumes "find_one (\<lambda>x. pk x = u) t = Inr (Some r)" "u \<noteq> v" "\<And>x. pk (f x) = pk x"
  shows "find_one (\<lambda>x. pk x = u) (update_where (\<lambda>x. pk x = v) f t) = Inr (Some r)"
  using assms filter_update_where_other[of "\<lambda>x. pk x = v" "\<lambda>x. pk x = u" f t] by (simp add: find_one_Some_iff)

lemma task_changes_inv:
  assumes "oms_inv env cap d" "distinct (map pk os)"
    and "\<forall>ord\<in>set os. find_one (\<lambda>x. pk x = pk ord) (orders d) = Inr (Some ord) \<and>
      b \<in> set (order_states (status_reverse (ord_status ord)))" "status_reverse st = b" "a \<noteq> []"
  shows "oms_inv env cap (fold (task_change env' st a b r) os d)"
  using assms(1,2,3)
proof (induction os arbitrary: d)
  case (Cons ord os)
  let ?d = "task_change env' st a b r ord d"
  have "oms_inv env cap ?d" using Cons.prems assms(4,5) by (intro task_change_inv) auto
  moreover have "distinct (map pk os)" using Cons.prems(2) by simp
  moreover have "\<forall>q\<in>set os. find_one (\<lambda>x. pk x = pk q) (orders ?d) = Inr (Some q) \<and>
      b \<in> set (order_states (status_reverse (ord_status q)))"
  proof
    fix q assume q: "q \<in> set os"
    then have "pk q \<noteq> pk ord" using Cons.prems(2) by (auto simp: image_iff)
    with q Cons.prems(3) show "find_one (\<lambda>x. pk x = pk q) (orders ?d) = Inr (Some q) \<and>
      b \<in> set (order_states (status_reverse (ord_status q)))"
      by (simp add: task_change_simps(1) find_other_order)
  qed
  ultimately show ?case using Cons.IH[of ?d] by simp
qed simp

lemma selected_orders:
  assumes "oms_inv env cap d"
  shows "distinct (map pk (select_where p (orders d)))"
    and "ord \<in> set (select_where p (orders d)) \<Longrightarrow> find_one (\<lambda>x. pk x = pk ord) (orders d) = Inr (Some ord)"
proof -
  have dist: "distinct (map pk (orders d))" using assms by (simp add: oms_inv_def oms_ok_def)
  then show "distinct (map pk (select_where p (orders d)))" by (simp add: select_where_def distinct_map_filter)
  assume "ord \<in> set (select_where p (orders d))"
  with dist show "find_one (\<lambda>x. pk x = pk ord) (orders d) = Inr (Some ord)" by (intro find_one_pk[where k = pk]) auto
qed

lemma auto_complete_inv:
  assumes "oms_inv env cap d"
  shows "oms_inv env cap (fst (auto_complete_picked_orders env' d))"
  unfolding auto_complete_picked_orders_def Let_def fst_conv
  using selected_orders[OF assms] by (intro task_changes_inv[OF assms]) (auto simp: order_states_def)

lemma cancel_abandoned_inv:
  assumes "oms_inv env cap d"
  shows "oms_inv env cap (fst (cancel_abandoned_drafts env' d))"
  unfolding cancel_abandoned_drafts_def Let_def fst_conv
  using selected_orders[OF assms] by (intro task_changes_inv[OF assms]) (auto simp: order_states_def)

section \<open>Tasks that do not\<close>

lemma set_pending_logs:
  "transitions (fst (set_pending env due st d)) = transitions d"
  "order_status_logs (fst (set_pending env due st d)) = order_status_logs d"
  by (simp_all add: set_pending_def Let_def transitions_def fun_eq_iff)

lemma set_pending_row:
  assumes "x \<in> set (orders d)" "ord_status x = OrderStatus_PENDING" "due x"
  shows "x\<lparr>ord_status := st, updated_at := now env\<rparr> \<in> set (orders (fst (set_pending env due st d)))"
  using assms by (force simp: set_pending_def Let_def set_update_where)

text \<open>A draft whose log was a run has a log that does not reach its status any more.\<close>

lemma set_pending_breaks:
  assumes "history_ok d" "x \<in> set (orders d)" "ord_status x = OrderStatus_PENDING" "due x" "st \<noteq> OrderStatus_PENDING"
  shows "\<not> history_ok (fst (set_pending env due st d))"
proof
  let ?d = "fst (set_pending env due st d)"
  assume "history_ok ?d"
  then have "status_reverse st = last (''draft'' # transitions ?d (pk x))"
    using set_pending_row[where x = x and d = d and due = due and st = st and env = env, OF assms(2-4)] by (fastforce simp: history_ok_def)
  moreover have "''draft'' = last (''draft'' # transitions d (pk x))"
    using assms(1-3) by (fastforce simp: history_ok_def)
  ultimately have "status_reverse st = ''draft''" by (simp add: set_pending_logs)
  with assms(5) show False by (cases st) auto
qed

lemma flag_stale_simps:
  "orders (flag_stale env isoformat ord d) = orders d"
  "transitions (flag_stale env isoformat ord d) i = transitions d i @ (if i = pk ord then [''flagged_stale''] else [])"
proof -
  have "order_status_value (ord_status ord) \<noteq> []" by (cases "ord_status ord") auto
  then show "orders (flag_stale env isoformat ord d) = orders d"
    "transitions (flag_stale env isoformat ord d) i = transitions d i @ (if i = pk ord then [''flagged_stale''] else [])"
    by (auto simp: flag_stale_def add_status_log_def tick_def transitions_def insert_row_def)
qed

lemma flags:
  "orders (fold (flag_stale env isoformat) os d) = orders d"
  "transitions (fold (flag_stale env isoformat) os d) i =
     transitions d i @ replicate (length (filter (\<lambda>x. pk x = i) os)) ''flagged_stale''"
  by (induction os arbitrary: d) (auto simp: flag_stale_simps)

lemma no_flag_allowed: "''flagged_stale'' \<notin> set (order_states s)"
  by (simp add: order_states_def)

section \<open>Reserved stock\<close>

definition reserved_total :: "'a wms_db_scheme \<Rightarrow> decimal" where
  "reserved_total d = sum_list (map inv_locked_qty (inventory_rows d))"

lemma release_totals:
  "total_stock (fst (release_locked_inventory env d)) + reserved_total (fst (release_locked_inventory env d)) =
     total_stock d + reserved_total d"
proof -
  have "sum_list (map inv_quantity (update_where (\<lambda>i. 0 < inv_locked_qty i) (release_row env) t)) +
      sum_list (map inv_locked_qty (update_where (\<lambda>i. 0 < inv_locked_qty i) (release_row env) t)) =
      sum_list (map inv_quantity t) + sum_list (map inv_locked_qty t)" for t
    by (induction t) (auto simp: update_where_def release_row_def)
  then show ?thesis by (simp add: release_locked_inventory_def total_stock_def reserved_total_def)
qed

end
