(* ===== verification/Abc_Xyz.thy ===== *)
theory Abc_Xyz
  imports Wms_Picking Float64
begin

text \<open>
  \<open>src/wms/analysis.py\<close>: the ABC classification of products by their share of the outbound quantity, the
  XYZ classification by the variation of their monthly demand, and the matrix of both. The shares are
  Python floats. Parameters: \<open>fsum\<close>, \<open>fpow\<close>, \<open>fsqrt\<close> (the built-in sum, power and square root on floats)
  and \<open>month\<close> (the \<open>date_trunc\<close> of the database). SQL leaves the order of groups with equal sums open; the
  model keeps the order of the groups.
\<close>

section \<open>Categories\<close>

definition limit_a :: rat where
  "limit_a = fadd (round64 (80 / 100)) (round64 (1 / 10 ^ 10))"

definition limit_b :: rat where
  "limit_b = fadd (round64 (95 / 100)) (round64 (1 / 10 ^ 10))"

definition abc_category :: "rat \<Rightarrow> string" where
  "abc_category cumul_ratio = (if cumul_ratio \<le> limit_a then ''A'' else if cumul_ratio \<le> limit_b then ''B'' else ''C'')"

definition cv_category :: "rat \<Rightarrow> string" where
  "cv_category cv = (if cv < 1 / 2 then ''X'' else if cv < 1 then ''Y'' else ''Z'')"

section \<open>The classification by quantity\<close>

definition out_movements :: "datetime \<Rightarrow> 'a wms_db_scheme \<Rightarrow> stock_movement list" where
  "out_movements cutoff d = select_where (\<lambda>m. cutoff \<le> created_at m \<and> sm_quantity m < 0) (stock_movements d)"

definition group_sums :: "(stock_movement \<Rightarrow> 'k) \<Rightarrow> stock_movement list \<Rightarrow> ('k \<times> decimal) list" where
  "group_sums key ms = map (\<lambda>k. (k, sum_list (map sm_quantity (filter (\<lambda>m. key m = k) ms)))) (remdups (map key ms))"

definition limit_rows :: "nat option \<Rightarrow> 'r list \<Rightarrow> 'r list" where
  "limit_rows top_n rs = (case top_n of None \<Rightarrow> rs | Some n \<Rightarrow> if n = 0 then rs else take n rs)"

definition months_cutoff :: "env \<Rightarrow> int \<Rightarrow> datetime" where
  "months_cutoff env months = now env - 30 * months * (24 * 3600 * 1000000)"

record abc_view =
  av_rank :: nat
  av_sku_id :: uuid
  av_sku_code :: string
  av_sku_name :: "string option"
  av_total_qty :: rat
  av_share_pct :: rat
  av_cumul_pct :: rat
  av_abc_category :: string

definition code_and_name :: "uuid \<Rightarrow> 'a core_db_scheme \<Rightarrow> string \<times> string option" where
  "code_and_name u d = (case db_get u (skus d) of None \<Rightarrow> ([], Some []) | Some s \<Rightarrow> (sku_code s, sku_name s))"

fun abc_loop ::
  "(uuid \<Rightarrow> string \<times> string option) \<Rightarrow> decimal \<Rightarrow> nat \<Rightarrow> rat \<Rightarrow> (uuid \<times> decimal) list \<Rightarrow> abc_view list" where
  "abc_loop names total_value rank cumulative [] = []"
| "abc_loop names total_value rank cumulative ((sku_id, total_qty) # rs) =
     (let qty = \<bar>round64 total_qty\<bar>;
          share = fdiv qty (round64 total_value);
          cumulative' = fadd cumulative share
      in \<lparr>av_rank = rank, av_sku_id = sku_id, av_sku_code = fst (names sku_id), av_sku_name = snd (names sku_id),
          av_total_qty = qty, av_share_pct = fround 2 (fmul share 100), av_cumul_pct = fround 2 (fmul cumulative' 100),
          av_abc_category = abc_category cumulative'\<rparr> # abc_loop names total_value (Suc rank) cumulative' rs)"

definition abc_rows :: "env \<Rightarrow> int \<Rightarrow> nat option \<Rightarrow> 'a wms_db_scheme \<Rightarrow> (uuid \<times> decimal) list" where
  "abc_rows env months top_n d =
     limit_rows top_n (order_by snd (group_sums sm_sku_id (out_movements (months_cutoff env months) d)))"

definition total_value_of :: "(uuid \<times> decimal) list \<Rightarrow> decimal" where
  "total_value_of rs = (let s = \<bar>sum_list (map snd rs)\<bar> in if s = 0 then 1 else s)"

definition compute_abc_analysis :: "env \<Rightarrow> int \<Rightarrow> nat option \<Rightarrow> 'a wms_db_scheme \<Rightarrow> abc_view list" where
  "compute_abc_analysis env months top_n d =
     (let rs = abc_rows env months top_n d
      in abc_loop (\<lambda>u. code_and_name u d) (total_value_of rs) 1 0 rs)"

section \<open>The classification by variation\<close>

record xyz_view =
  xv_sku_id :: uuid
  xv_sku_code :: string
  xv_sku_name :: "string option"
  xv_monthly_values :: "rat list"
  xv_mean :: rat
  xv_std_dev :: rat
  xv_cv :: rat
  xv_xyz_category :: string

definition monthly_quantities :: "((uuid \<times> int) \<times> decimal) list \<Rightarrow> uuid \<Rightarrow> rat list" where
  "monthly_quantities rs u = map (\<lambda>(k, q). \<bar>round64 q\<bar>) (filter (\<lambda>(k, q). fst k = u) rs)"

definition xyz_item ::
  "(rat list \<Rightarrow> rat) \<Rightarrow> (rat \<Rightarrow> rat \<Rightarrow> rat) \<Rightarrow> (rat \<Rightarrow> rat) \<Rightarrow> (uuid \<Rightarrow> string \<times> string option) \<Rightarrow> uuid \<Rightarrow> rat list \<Rightarrow> xyz_view" where
  "xyz_item fsum fpow fsqrt names u qs =
     (let n = rat_of_nat (length qs);
          mean = fdiv (fsum qs) n;
          variance = fdiv (fsum (map (\<lambda>v. fpow (fadd v (- mean)) 2) qs)) (n - 1);
          std_dev = fsqrt variance;
          cv = (if 0 < mean then fdiv std_dev mean else 0)
      in \<lparr>xv_sku_id = u, xv_sku_code = fst (names u), xv_sku_name = snd (names u), xv_monthly_values = qs,
          xv_mean = fround 2 mean, xv_std_dev = fround 2 std_dev, xv_cv = fround 4 cv,
          xv_xyz_category = cv_category cv\<rparr>)"

definition xyz_rows ::
  "(datetime \<Rightarrow> int) \<Rightarrow> env \<Rightarrow> int \<Rightarrow> nat option \<Rightarrow> 'a wms_db_scheme \<Rightarrow> ((uuid \<times> int) \<times> decimal) list" where
  "xyz_rows month env months top_n d =
     limit_rows top_n (group_sums (\<lambda>m. (sm_sku_id m, month (created_at m))) (out_movements (months_cutoff env months) d))"

definition compute_xyz_analysis ::
  "(rat list \<Rightarrow> rat) \<Rightarrow> (rat \<Rightarrow> rat \<Rightarrow> rat) \<Rightarrow> (rat \<Rightarrow> rat) \<Rightarrow> (datetime \<Rightarrow> int) \<Rightarrow> env \<Rightarrow> int \<Rightarrow> nat option \<Rightarrow>
   'a wms_db_scheme \<Rightarrow> xyz_view list" where
  "compute_xyz_analysis fsum fpow fsqrt month env months top_n d =
     (let rs = xyz_rows month env months top_n d;
          sku_ids = rev (remdups (rev (map (fst \<circ> fst) rs)));
          counted = filter (\<lambda>u. 2 \<le> length (monthly_quantities rs u)) sku_ids
      in order_by xv_cv (map (\<lambda>u. xyz_item fsum fpow fsqrt (\<lambda>v. code_and_name v d) u (monthly_quantities rs u)) counted))"

section \<open>The matrix\<close>

record cell_item =
  ci_abc_view :: abc_view
  ci_cv :: rat
  ci_xyz :: string

definition matrix_item :: "xyz_view list \<Rightarrow> abc_view \<Rightarrow> cell_item" where
  "matrix_item xyz item =
     (case find (\<lambda>x. xv_sku_id x = av_sku_id item) xyz of
        None \<Rightarrow> \<lparr>ci_abc_view = item, ci_cv = 0, ci_xyz = ''X''\<rparr>
      | Some x \<Rightarrow> \<lparr>ci_abc_view = item, ci_cv = xv_cv x, ci_xyz = xv_xyz_category x\<rparr>)"

definition cell_of :: "cell_item \<Rightarrow> string" where
  "cell_of i = av_abc_category (ci_abc_view i) @ ci_xyz i"

definition matrix_cells :: "string list" where
  "matrix_cells = [''AX'', ''AY'', ''AZ'', ''BX'', ''BY'', ''BZ'', ''CX'', ''CY'', ''CZ'']"

definition compute_abc_xyz_matrix ::
  "(rat list \<Rightarrow> rat) \<Rightarrow> (rat \<Rightarrow> rat \<Rightarrow> rat) \<Rightarrow> (rat \<Rightarrow> rat) \<Rightarrow> (datetime \<Rightarrow> int) \<Rightarrow> env \<Rightarrow> int \<Rightarrow>
   'a wms_db_scheme \<Rightarrow> (string \<times> cell_item list) list" where
  "compute_abc_xyz_matrix fsum fpow fsqrt month env months d =
     (let items = map (matrix_item (compute_xyz_analysis fsum fpow fsqrt month env months None d))
                    (compute_abc_analysis env months None d)
      in map (\<lambda>c. (c, filter (\<lambda>i. cell_of i = c) items)) matrix_cells)"

section \<open>The matrix has every product once\<close>

lemma abc_category_cases: "abc_category x \<in> {''A'', ''B'', ''C''}"
  by (simp add: abc_category_def)

lemma cv_category_cases: "cv_category x \<in> {''X'', ''Y'', ''Z''}"
  by (simp add: cv_category_def)

lemma abc_loop_categories: "v \<in> set (abc_loop names tot r c rs) \<Longrightarrow> av_abc_category v \<in> {''A'', ''B'', ''C''}"
proof (induction names tot r c rs rule: abc_loop.induct)
  case (2 names tot r c u q rs)
  then show ?case
    using abc_category_cases[of "fadd c (fdiv \<bar>round64 q\<bar> (round64 tot))"] by (auto simp: Let_def simp del: insert_iff)
qed simp

lemma xyz_categories:
  "x \<in> set (compute_xyz_analysis fsum fpow fsqrt month env months top_n d) \<Longrightarrow> xv_xyz_category x \<in> {''X'', ''Y'', ''Z''}"
proof -
  have "xv_xyz_category (xyz_item fsum fpow fsqrt names u qs) \<in> {''X'', ''Y'', ''Z''}" for names u qs
    unfolding xyz_item_def Let_def using cv_category_cases by simp
  then show "x \<in> set (compute_xyz_analysis fsum fpow fsqrt month env months top_n d) \<Longrightarrow> ?thesis"
    unfolding compute_xyz_analysis_def Let_def set_order_by set_map by blast
qed

lemma matrix_item_cell:
  assumes "\<forall>x\<in>set xyz. xv_xyz_category x \<in> {''X'', ''Y'', ''Z''}" "av_abc_category v \<in> {''A'', ''B'', ''C''}"
  shows "cell_of (matrix_item xyz v) \<in> set matrix_cells" "ci_abc_view (matrix_item xyz v) = v"
proof -
  show "ci_abc_view (matrix_item xyz v) = v" by (simp add: matrix_item_def split: option.splits)
  moreover have "ci_xyz (matrix_item xyz v) \<in> {''X'', ''Y'', ''Z''}"
    using assms(1) by (auto simp: matrix_item_def find_Some_iff split: option.splits) 
  ultimately show "cell_of (matrix_item xyz v) \<in> set matrix_cells"
    using assms(2) by (auto simp: cell_of_def matrix_cells_def)
qed

lemma mset_of_cells:
  assumes "\<forall>i\<in>set xs. f i \<in> set cs" "distinct cs"
  shows "mset (concat (map (\<lambda>c. filter (\<lambda>i. f i = c) xs) cs)) = mset xs"
  using assms
proof (induction cs arbitrary: xs)
  case (Cons c cs)
  let ?ys = "filter (\<lambda>i. f i \<noteq> c) xs"
  have eq: "map (\<lambda>e. filter (\<lambda>i. f i = e) xs) cs = map (\<lambda>e. filter (\<lambda>i. f i = e) ?ys) cs"
    using Cons.prems(2) by (auto simp: filter_filter intro!: filter_cong)
  then have "mset (concat (map (\<lambda>e. filter (\<lambda>i. f i = e) xs) (c # cs))) =
      mset (filter (\<lambda>i. f i = c) xs) + mset (concat (map (\<lambda>e. filter (\<lambda>i. f i = e) ?ys) cs))"
    by (simp only: list.map concat.simps mset_append eq)
  also have "\<dots> = mset (filter (\<lambda>i. f i = c) xs) + mset ?ys" using Cons.prems by (subst Cons.IH) auto
  also have "\<dots> = mset xs" by (simp add: multiset_partition[of "mset xs" "\<lambda>i. f i = c", symmetric])
  finally show ?case .
qed simp

section \<open>Outbound movements\<close>

definition movements_positive :: "'a wms_db_scheme \<Rightarrow> bool" where
  "movements_positive d \<longleftrightarrow> (\<forall>m\<in>set (stock_movements d). 0 \<le> sm_quantity m)"

lemma no_out_movements: "movements_positive d \<Longrightarrow> out_movements c d = []"
  by (auto simp: movements_positive_def out_movements_def select_where_def filter_empty_conv not_less)

lemma no_analysis:
  assumes "movements_positive d"
  shows "compute_abc_analysis env months top_n d = []"
    "compute_xyz_analysis fsum fpow fsqrt month env months top_n d = []"
  using no_out_movements[OF assms]
  by (simp_all add: compute_abc_analysis_def compute_xyz_analysis_def abc_rows_def xyz_rows_def group_sums_def
      limit_rows_def order_by_def total_value_of_def Let_def split: option.splits)

lemma add_adjust_movement_positive:
  "movements_positive d \<Longrightarrow> movements_positive (add_adjust_movement env w l s q d)"
  by (auto simp: movements_positive_def add_adjust_movement_def tick_def)

lemma movements_positive_cong: "stock_movements d' = stock_movements d \<Longrightarrow> movements_positive d' = movements_positive d"
  by (simp add: movements_positive_def)

lemma versioned_update_movements: "stock_movements (fst (versioned_update ir f d)) = stock_movements d"
  by (simp add: versioned_update_def Let_def)

lemma adjust_attempt_positive:
  assumes "adjust_attempt env other data w l s d = Inr (Written d1 ir)" "movements_positive (other d)"
  shows "movements_positive d1"
proof -
  from assms(1) obtain d0 where "d1 = add_adjust_movement env w l s (aj_quantity data) d0" "stock_movements d0 = stock_movements (other d)"
    by (auto simp: adjust_attempt_def Let_def tick_def versioned_update_def split: if_splits option.splits)
  with assms(2) show ?thesis using add_adjust_movement_positive movements_positive_cong by blast
qed

lemma adjust_loop_positive:
  assumes "adjust_loop env others com rel data w l s k n base d = Inr (d', ir)"
    and "\<And>k x. movements_positive x \<Longrightarrow> movements_positive (others k x)" "movements_positive base" "movements_positive d"
  shows "movements_positive d'"
  using assms(1,3,4)
proof (induction n arbitrary: k base d)
  case (Suc n)
  from Suc.prems(1) obtain oc where oc: "adjust_attempt env (others k) data w l s d = Inr oc" by auto
  note base = assms(2)[OF Suc.prems(2), of k]
  show ?case
  proof (cases oc)
    case (Conflict r)
    with Suc.prems(1) oc base Suc.IH[OF _ base base] show ?thesis
      by (auto simp: Let_def split: if_splits option.splits)
  next
    case (Written d1 r)
    have "movements_positive d1" using adjust_attempt_positive[OF oc[unfolded Written] assms(2)[OF Suc.prems(3)]] .
    with Written Suc.prems(1) oc base Suc.IH[OF _ base base] show ?thesis
      by (auto simp: Let_def split: if_splits option.splits)
  qed
qed simp

lemma get_or_create_sku_movements:
  "get_or_create_sku env s d = Inr (d', r) \<Longrightarrow> stock_movements d' = stock_movements (d :: 'a wms_db_scheme)"
  by (auto simp: get_or_create_sku_def Let_def tick_def split: option.splits)

lemma adjust_inventory_positive:
  assumes "adjust_inventory env others com rel data d = Inr (d', v)"
    and "\<And>k x. movements_positive x \<Longrightarrow> movements_positive (others k x)" "movements_positive d"
  shows "movements_positive d'"
proof -
  from assms(1) obtain w l d0 so ir where
    g: "get_or_create_sku env (aj_sku data) d = Inr (d0, so)" and
    lp: "adjust_loop env others com (if drawn d0 = drawn d then rel else None) data w l (pk so) 0 3 d d0 = Inr (d', ir)"
    by (auto simp: adjust_inventory_def simp del: adjust_loop.simps split: option.splits prod.splits)
  have "movements_positive d0"
    using get_or_create_sku_movements[OF g] movements_positive_cong assms(3) by blast
  with adjust_loop_positive[OF lp assms(2) assms(3)] show ?thesis by blast
qed

lemma replenish_step_positive:
  assumes "movements_positive (fst p)"
  shows "movements_positive (fst (replenish_step env w kp ir p))"
proof (cases "replenish_needed kp ir")
  case (Some n)
  then have "0 < n" by (auto simp: replenish_needed_def Let_def split: if_splits)
  with Some assms show ?thesis
    by (auto simp: replenish_step_def movements_positive_def tick_def Let_def split: prod.splits)
qed (use assms in \<open>simp add: replenish_step_def split: prod.splits\<close>)

lemma auto_replenish_positive:
  assumes "auto_replenish env wid th d = Inr (d', n, rs)" "movements_positive d"
  shows "movements_positive d'"
proof -
  have "movements_positive (fst (fold (replenish_step env w kp) is p))" if "movements_positive (fst p)"
    for w kp "is" and p :: "'a wms_db_scheme \<times> stock_movement list"
    using that
  proof (induction "is" arbitrary: p)
    case (Cons ir "is")
    from Cons.IH[OF replenish_step_positive[OF Cons.prems]] show ?case by simp
  qed simp
  then have pos: "movements_positive (fst (fold (replenish_step env w kp) is (d, [])))" for w kp "is"
    using assms(2) by simp
  define sel where "sel = (\<lambda>w. select_where (\<lambda>i. inv_warehouse_id i = Some w \<and> \<not> is_deleted i) (inventory_rows d))"
  from assms(1) obtain w where w: "(let (d1, r1) = fold (replenish_step env w (1 - th)) (sel w) (d, []) in
      Inr (d1, length r1, r1)) = (Inr (d', n, rs) :: _ result)" unfolding auto_replenish_def sel_def by auto
  obtain a b where ab: "fold (replenish_step env w (1 - th)) (sel w) (d, []) = (a, b)" by fastforce
  with w pos[of w "1 - th" "sel w"] show ?thesis by simp
qed

lemma delete_warehouse_positive:
  assumes "delete_warehouse env i d = Inr (d', v)" "movements_positive d"
  shows "movements_positive d'"
  using assms by (auto simp: delete_warehouse_def Let_def movements_positive_def set_update_where split: if_splits)

text \<open>Every write of the table in the service code, and any change that leaves the table alone.\<close>

inductive movement_step :: "'a wms_db_scheme \<Rightarrow> 'a wms_db_scheme \<Rightarrow> bool" where
  adjusted: "adjust_inventory env others com rel data d = Inr (d', v) \<Longrightarrow>
    (\<And>k x. movements_positive x \<Longrightarrow> movements_positive (others k x)) \<Longrightarrow> movement_step d d'"
| replenished: "auto_replenish env wid th d = Inr (d', n, rs) \<Longrightarrow> movement_step d d'"
| warehouse_deleted: "delete_warehouse env i d = Inr (d', v) \<Longrightarrow> movement_step d d'"
| elsewhere: "stock_movements d' = stock_movements d \<Longrightarrow> movement_step d d'"

inductive movements_reachable :: "'a wms_db_scheme \<Rightarrow> bool" where
  start: "stock_movements d = [] \<Longrightarrow> movements_reachable d"
| step: "movements_reachable d \<Longrightarrow> movement_step d d' \<Longrightarrow> movements_reachable d'"

lemma movements_reachable_positive: "movements_reachable d \<Longrightarrow> movements_positive d"
proof (induction rule: movements_reachable.induct)
  case (step d d')
  from step(2) show ?case
  proof cases
    case (adjusted env others com rel data v)
    then show ?thesis using adjust_inventory_positive step(3) by blast
  next
    case (replenished env wid th n rs)
    then show ?thesis using auto_replenish_positive step(3) by blast
  next
    case (warehouse_deleted env i v)
    then show ?thesis using delete_warehouse_positive step(3) by blast
  next
    case elsewhere
    then show ?thesis using movements_positive_cong step(3) by blast
  qed
qed (simp add: movements_positive_def)

section \<open>Classes follow the rank\<close>

definition class_rank :: "string \<Rightarrow> nat" where
  "class_rank c = (if c = ''A'' then 0 else if c = ''B'' then 1 else 2)"

lemma abc_category_mono: "x \<le> y \<Longrightarrow> class_rank (abc_category x) \<le> class_rank (abc_category y)"
  by (auto simp: abc_category_def class_rank_def)

lemma total_value_pos: "0 < total_value_of rs"
  by (simp add: total_value_of_def Let_def)

text \<open>The cumulated share is a double, and adding a share never lowers it.\<close>

lemma cumulated_grows:
  assumes "0 \<le> c" "round64 c = c" "0 \<le> s"
  shows "c \<le> fadd c s" "0 \<le> fadd c s" "round64 (fadd c s) = fadd c s"
  using assms round64_mono[of c "c + s"] round64_nonneg[of "c + s"] round64_idem[of "c + s"] by (simp_all add: fadd_def)

lemma abc_loop_classes:
  assumes "0 < tot" "0 \<le> c" "round64 c = c"
  shows "sorted (map (class_rank \<circ> av_abc_category) (abc_loop names tot r c rs))"
    "\<forall>v\<in>set (abc_loop names tot r c rs). class_rank (abc_category c) \<le> class_rank (av_abc_category v)"
proof -
  have "sorted (map (class_rank \<circ> av_abc_category) (abc_loop names tot r c rs)) \<and>
    (\<forall>v\<in>set (abc_loop names tot r c rs). class_rank (abc_category c) \<le> class_rank (av_abc_category v))"
    using assms(2,3)
  proof (induction rs arbitrary: r c)
    case (Cons x rs)
    obtain u q where x: "x = (u, q)" by force
    define c' where "c' = fadd c (fdiv \<bar>round64 q\<bar> (round64 tot))"
    have "0 \<le> fdiv \<bar>round64 q\<bar> (round64 tot)"
      using round64_pos[OF assms(1)] by (simp add: fdiv_def round64_nonneg)
    note g = cumulated_grows[OF Cons.prems this, folded c'_def]
    from Cons.IH[OF g(2,3), of "Suc r"] abc_category_mono[OF g(1)] show ?case
      by (auto simp: x Let_def c'_def[symmetric] intro: order_trans)
  qed simp
  then show "sorted (map (class_rank \<circ> av_abc_category) (abc_loop names tot r c rs))"
    "\<forall>v\<in>set (abc_loop names tot r c rs). class_rank (abc_category c) \<le> class_rank (av_abc_category v)" by blast+
qed

lemma abc_loop_columns:
  "map av_rank (abc_loop names tot r c rs) = [r..<r + length rs]"
  "map av_sku_id (abc_loop names tot r c rs) = map fst rs"
  "map av_total_qty (abc_loop names tot r c rs) = map (\<lambda>x. \<bar>round64 (snd x)\<bar>) rs"
proof (induction rs arbitrary: r c)
  case (Cons x rs)
  case 1
  show ?case using Cons(1)[of "Suc r"] by (cases x) (simp add: Let_def upt_conv_Cons del: upt_Suc)
  case 2
  show ?case using Cons(2) by (cases x) (simp add: Let_def)
  case 3
  show ?case using Cons(3) by (cases x) (simp add: Let_def)
qed simp_all

lemma group_sums_negative:
  assumes "\<forall>m\<in>set ms. sm_quantity m < 0" "x \<in> set (group_sums key ms)"
  shows "snd x < 0"
proof -
  have k: "fst x \<in> key ` set ms" "snd x = sum_list (map sm_quantity (filter (\<lambda>m. key m = fst x) ms))"
    using assms(2) by (auto simp: group_sums_def)
  then have "filter (\<lambda>m. key m = fst x) ms \<noteq> []" by (auto simp: filter_empty_conv)
  moreover have "\<forall>m\<in>set (filter (\<lambda>m. key m = fst x) ms). sm_quantity m < 0" using assms(1) by simp
  moreover have "sum_list (map sm_quantity ys) < 0" if "ys \<noteq> []" "\<forall>m\<in>set ys. sm_quantity m < 0" for ys :: "stock_movement list"
    using that
  proof (induction ys)
    case (Cons y ys)
    then show ?case by (cases "ys = []") (auto intro: add_neg_neg)
  qed simp
  ultimately show ?thesis using k(2) by simp
qed

lemma abc_rows_sorted: "sorted (map snd (abc_rows env months top_n d))"
proof -
  have "sorted (map snd (order_by snd t))" for t :: "(uuid \<times> decimal) list" by (rule sorted_order_by)
  then show ?thesis by (auto simp: abc_rows_def limit_rows_def take_map[symmetric] intro: sorted_wrt_take split: option.splits)
qed

lemma abc_rows_negative: "x \<in> set (abc_rows env months top_n d) \<Longrightarrow> snd x < 0"
  by (rule group_sums_negative[where ms = "out_movements (months_cutoff env months) d" and key = sm_sku_id])
    (auto simp: abc_rows_def limit_rows_def out_movements_def dest: in_set_takeD split: option.splits if_splits)

lemma quantities_descend:
  assumes "sorted (map snd rs)" "\<forall>x\<in>set rs. snd x < 0"
  shows "sorted_wrt (\<ge>) (map (\<lambda>x. \<bar>round64 (snd x)\<bar>) rs)"
  using assms
proof (induction rs)
  case (Cons x rs)
  have "\<bar>round64 (snd y)\<bar> \<le> \<bar>round64 (snd x)\<bar>" if "y \<in> set rs" for y
  proof -
    have "snd x \<le> snd y" "snd y < 0" using Cons.prems that by auto
    then show ?thesis by (simp add: round64_abs round64_mono)
  qed
  with Cons show ?case by simp
qed simp

text \<open>A product that is the only one has the whole share and class C.\<close>

lemma limits_below_1: "limit_a < 1" "limit_b < 1"
proof -
  have r: "round64 x \<le> x + 1 / 2 ^ 10" if "0 \<le> x" "x \<le> 1" for x
    using abs_le_D1[OF round64_error[of x]] that by (simp add: field_simps)
  define e where "e = round64 (1 / 10 ^ 10)"
  have e: "0 \<le> e" "e \<le> 1 / 10 ^ 9"
    using abs_le_D1[OF round64_error[of "1 / 10 ^ 10"]] round64_nonneg[of "1 / 10 ^ 10"]
    by (simp_all add: e_def field_simps)
  have "fadd x e < 1" if "0 \<le> x" "x \<le> 97 / 100" for x
  proof -
    have "x + e \<le> 1 / 10 ^ 9 + 97 / 100" using e(2) that(2) by linarith
    with r[of "x + e"] e(1) that(1) show ?thesis by (simp add: fadd_def)
  qed
  moreover have "round64 (80 / 100) \<le> 97 / 100" "round64 (95 / 100) \<le> 97 / 100"
    using r[of "80 / 100"] r[of "95 / 100"] by simp_all
  ultimately show "limit_a < 1" "limit_b < 1"
    unfolding limit_a_def limit_b_def e_def[symmetric] by (simp_all add: round64_nonneg)
qed

lemma round64_1: "round64 1 = 1"
proof (rule round64_exact)
  have "exponent2 1 = 0" by (simp add: exponent2_def log2_up.simps)
  then show "1 = of_int (2 ^ 52) * ulp 1" by (simp add: ulp_def pow2_def)
qed

lemma single_row_class:
  assumes "q < 0"
  shows "map av_abc_category (abc_loop names (total_value_of [(u, q)]) 1 0 [(u, q)]) = [''C'']"
proof -
  have t: "total_value_of [(u, q)] = \<bar>q\<bar>" using assms by (simp add: total_value_of_def)
  have "0 < round64 \<bar>q\<bar>" using assms by (intro round64_pos) simp
  then have "fdiv \<bar>round64 q\<bar> (round64 \<bar>q\<bar>) = 1" by (simp add: fdiv_def round64_abs round64_1)
  then have "fadd 0 (fdiv \<bar>round64 q\<bar> (round64 \<bar>q\<bar>)) = 1" by (simp add: fadd_def round64_1)
  with limits_below_1 show ?thesis by (simp add: t abc_category_def Let_def)
qed

end
