(* ===== verification/Task_Properties.thy ===== *)
theory Task_Properties
  imports Samples Tasks Abc_Xyz
begin

text \<open>
  The properties of the periodic tasks (\<open>Tasks\<close>) and of the stock analysis (\<open>Abc_Xyz\<close>).
\<close>

section \<open>Tasks on orders\<close>

lemma task_change_orders:
  assumes "distinct (map pk os)"
  shows "orders (fold (task_change env st a b r) os d) =
    map (\<lambda>x. if pk x \<in> pk ` set os then x\<lparr>ord_status := st, updated_at := now env\<rparr> else x) (orders d)"
  using assms
proof (induction os arbitrary: d)
  case (Cons ord os)
  then have "pk ord \<notin> pk ` set os" "distinct (map pk os)" by auto
  with Cons.IH[of "task_change env st a b r ord d"] show ?case
    by (auto simp: task_change_simps(1) update_where_def)
qed simp

lemma task_selected_orders:
  assumes "distinct (map pk (orders d))"
  shows "orders (fold (task_change env st a b r) (select_where p (orders d)) d) =
    update_where p (\<lambda>x. x\<lparr>ord_status := st, updated_at := now env\<rparr>) (orders d)"
proof -
  have "pk x \<in> pk ` set (select_where p (orders d)) \<longleftrightarrow> p x" if "x \<in> set (orders d)" for x
    using assms that by (auto simp: distinct_map inj_on_eq_iff)
  moreover have "distinct (map pk (select_where p (orders d)))"
    using assms by (simp add: select_where_def distinct_map_filter)
  ultimately show ?thesis by (simp add: task_change_orders update_where_def)
qed

text \<open>
  C20: In every reachable state of the order tables the tasks that complete orders picked for two
  days and cancel drafts older than seven days change exactly those orders, and the status log of
  each order stays a run of the state machine that ends in its status.
\<close>

theorem logged_tasks_keep_history:
  assumes "oms_reachable (uuid4 env) cap d0 d" "oms_inv env cap d0"
  shows "(let d1 = fst (auto_complete_picked_orders env' d) in history_ok d1 \<and>
      orders d1 = update_where (\<lambda>x. ord_status x = OrderStatus_PICKING \<and> updated_at x < now env' - 2 * day_us)
        (\<lambda>x. x\<lparr>ord_status := OrderStatus_COMPLETED, updated_at := now env'\<rparr>) (orders d)) \<and>
    (let d2 = fst (cancel_abandoned_drafts env' d) in history_ok d2 \<and>
      orders d2 = update_where (\<lambda>x. ord_status x = OrderStatus_PENDING \<and> created_at x < now env' - 7 * day_us)
        (\<lambda>x. x\<lparr>ord_status := OrderStatus_CANCELLED, updated_at := now env'\<rparr>) (orders d))"
proof -
  have i: "oms_inv env cap d" by (rule oms_reachable_inv[OF assms refl])
  then have "distinct (map pk (orders d))" by (simp add: oms_inv_def oms_ok_def)
  note o' = task_selected_orders[OF this]
  show ?thesis
    using auto_complete_inv[OF i, of env'] cancel_abandoned_inv[OF i, of env']
    by (simp add: oms_inv_def auto_complete_picked_orders_def cancel_abandoned_drafts_def Let_def o')
qed

definition late :: env where
  "late = env0\<lparr>now := 10 * day_us\<rparr>"

theorem logged_tasks_keep_history_witness:
  "\<exists>d v. create_order env0 order_data empty_db = Inr (d, v) \<and> history_ok (fst (cancel_abandoned_drafts late d)) \<and>
     (\<forall>x\<in>set (orders (fst (cancel_abandoned_drafts late d))). ord_status x = OrderStatus_CANCELLED)"
proof -
  obtain d v where c: "create_order env0 order_data empty_db = Inr (d, v)" "drawn d = 7" by (rule sample_order)
  have "oms_step (uuid4 env0) 100 empty_db d" by (rule step_create[OF c(1) refl]) (simp add: c)
  then have r: "oms_reachable (uuid4 env0) 100 empty_db d" using reach_step reach_refl by blast
  have "\<forall>x\<in>set (orders d). ord_status x = OrderStatus_PENDING \<and> created_at x < now late - 7 * day_us"
    using c(1) by (auto simp: sample_eval late_def day_us_def)
  with logged_tasks_keep_history[OF r sample_oms_inv, of late] c(1) show ?thesis
    by (auto simp: Let_def set_update_where)
qed

text \<open>
  The tasks that confirm drafts older than a day and cancel drafts older than seven days write
  no log, so as soon as one draft is due the status log does not end in the stored status any more;
  and after the confirmation no draft is left for either of the two tasks that cancel old drafts.
\<close>

theorem unlogged_tasks_break_the_history:
  assumes "history_ok d" "x \<in> set (orders d)" "ord_status x = OrderStatus_PENDING" "day_us \<le> now env - created_at x"
  shows "\<not> history_ok (fst (process_pending_orders env d)) \<and>
    transitions (fst (process_pending_orders env d)) = transitions d \<and>
    (8 * day_us \<le> now env - created_at x \<longrightarrow>
       \<not> history_ok (fst (cancel_expired_orders env d)) \<and> transitions (fst (cancel_expired_orders env d)) = transitions d) \<and>
    snd (cancel_expired_orders env (fst (process_pending_orders env d))) = 0 \<and>
    snd (cancel_abandoned_drafts env (fst (process_pending_orders env d))) = 0"
proof -
  have age: "k \<le> age_days env y \<longleftrightarrow> k * day_us \<le> now env - created_at y" for k y
  proof -
    define z where "z = now env - created_at y"
    have "z = day_us * (z div day_us) + z mod day_us" "0 \<le> z mod day_us" "z mod day_us < day_us" by (simp_all add: day_us_def)
    then have "k \<le> z div day_us \<longleftrightarrow> k * day_us \<le> z" unfolding day_us_def by linarith
    then show ?thesis by (simp add: age_days_def z_def)
  qed
  have "1 \<le> age_days env x" using assms(4) age[of 1] by simp
  then have 1: "\<not> history_ok (fst (process_pending_orders env d))"
    unfolding process_pending_orders_def by (intro set_pending_breaks[OF assms(1-3)]) simp_all
  have 2: "\<not> history_ok (fst (cancel_expired_orders env d))" if "8 * day_us \<le> now env - created_at x"
    unfolding cancel_expired_orders_def
    by (rule set_pending_breaks[OF assms(1-3)]) (use age[of 8 x] that in simp_all)
  have young: "age_days env y < 1" if "y \<in> set (orders (fst (process_pending_orders env d)))" "ord_status y = OrderStatus_PENDING" for y
    using that by (auto simp: process_pending_orders_def set_pending_def Let_def set_update_where)
  then have "\<not> 7 < age_days env y" if "y \<in> set (orders (fst (process_pending_orders env d)))" "ord_status y = OrderStatus_PENDING" for y
    using that by fastforce
  then have 3: "snd (cancel_expired_orders env (fst (process_pending_orders env d))) = 0"
    unfolding cancel_expired_orders_def set_pending_def[where due = "\<lambda>x. 7 < age_days env x"] Let_def snd_conv row_count_def
    by (auto simp: filter_empty_conv)
  have "\<not> created_at y < now env - 7 * day_us" if "y \<in> set (orders (fst (process_pending_orders env d)))" "ord_status y = OrderStatus_PENDING" for y
    using young[OF that] age[of 1 y] by (simp add: day_us_def)
  then have 4: "snd (cancel_abandoned_drafts env (fst (process_pending_orders env d))) = 0"
    unfolding cancel_abandoned_drafts_def Let_def snd_conv by (auto simp: select_where_def filter_empty_conv)
  from 1 2 3 4 show ?thesis
    by (simp add: process_pending_orders_def cancel_expired_orders_def set_pending_logs)
qed

theorem unlogged_tasks_break_the_history_witness:
  "\<exists>d v. create_order env0 order_data empty_db = Inr (d, v) \<and> history_ok d \<and>
     \<not> history_ok (fst (process_pending_orders late d))"
proof -
  obtain d v where c: "create_order env0 order_data empty_db = Inr (d, v)" "drawn d = 7" by (rule sample_order)
  have "oms_step (uuid4 env0) 100 empty_db d" by (rule step_create[OF c(1) refl]) (simp add: c)
  then have "oms_reachable (uuid4 env0) 100 empty_db d" using reach_step reach_refl by blast
  then have h: "history_ok d" using oms_reachable_inv[OF _ sample_oms_inv refl] by (simp add: oms_inv_def)
  have "\<exists>x. x \<in> set (orders d) \<and> ord_status x = OrderStatus_PENDING \<and> day_us \<le> now late - created_at x"
    using c(1) by (auto simp: sample_eval late_def day_us_def)
  with unlogged_tasks_break_the_history[OF h] h c(1) show ?thesis by blast
qed

section \<open>Reserved stock\<close>

theorem one_cancelled_order_releases_everything:
  assumes "x \<in> set (orders d)" "ord_status x = OrderStatus_CANCELLED"
  shows "(\<forall>i\<in>set (inventory_rows (fst (release_locked_inventory env d))). inv_locked_qty i \<le> 0) \<and>
    total_stock (fst (release_locked_inventory env d)) + reserved_total (fst (release_locked_inventory env d)) =
      total_stock d + reserved_total d \<and>
    snd (release_locked_inventory env d) = length (filter (\<lambda>i. 0 < inv_locked_qty i) (inventory_rows d))"
proof -
  have "select_where (\<lambda>x. ord_status x = OrderStatus_CANCELLED) (orders d) \<noteq> []"
    using assms by (auto simp: select_where_def filter_empty_conv)
  then have "release_locked_inventory env d =
      (d\<lparr>inventory_rows := update_where (\<lambda>i. 0 < inv_locked_qty i) (release_row env) (inventory_rows d)\<rparr>,
       row_count (\<lambda>i. 0 < inv_locked_qty i) (inventory_rows d))" by (simp add: release_locked_inventory_def)
  with release_totals[of env d] show ?thesis
    by (auto simp: set_update_where release_row_def row_count_def)
qed

theorem one_cancelled_order_releases_everything_witness:
  "\<forall>i\<in>set (inventory_rows (fst (release_locked_inventory env0 (stock_db\<lparr>orders := [order7\<lparr>ord_status := OrderStatus_CANCELLED\<rparr>],
       inventory_rows := [batch4\<lparr>inv_locked_qty := 3\<rparr>]\<rparr>)))). inv_locked_qty i \<le> 0"
  using one_cancelled_order_releases_everything[where x = "order7\<lparr>ord_status := OrderStatus_CANCELLED\<rparr>" and env = env0 and
      d = "stock_db\<lparr>orders := [order7\<lparr>ord_status := OrderStatus_CANCELLED\<rparr>], inventory_rows := [batch4\<lparr>inv_locked_qty := 3\<rparr>]\<rparr>"]
  by simp

section \<open>Analysis\<close>

text \<open>
  If there were movements with a negative quantity, the ABC analysis would list each of their products
  once, ranked from one with descending quantities, and its classes would never improve from a rank to
  the next, in spite of the rounding of the shares.
\<close>

theorem abc_analysis_ranks_by_quantity:
  "let vs = compute_abc_analysis env months top_n d in
     map av_rank vs = [1..<1 + length vs] \<and> distinct (map av_sku_id vs) \<and>
     sorted_wrt (\<ge>) (map av_total_qty vs) \<and> sorted (map (class_rank \<circ> av_abc_category) vs) \<and>
     (top_n = None \<longrightarrow> set (map av_sku_id vs) = sm_sku_id ` set (out_movements (months_cutoff env months) d))"
proof -
  let ?rs = "abc_rows env months top_n d"
  let ?vs = "compute_abc_analysis env months top_n d"
  have vs: "?vs = abc_loop (\<lambda>u. code_and_name u d) (total_value_of ?rs) 1 0 ?rs"
    by (simp add: compute_abc_analysis_def Let_def)
  have len: "length ?vs = length ?rs"
    using arg_cong[OF abc_loop_columns(2), of length] by (simp add: vs)
  have keys: "map fst (group_sums sm_sku_id ms) = remdups (map sm_sku_id ms)" for ms
    by (simp add: group_sums_def comp_def)
  have "mset (map fst (order_by snd t)) = mset (map fst t)" for t :: "(uuid \<times> decimal) list" by (simp only: mset_map mset_order_by)
  from mset_eq_imp_distinct_iff[OF this] have "distinct (map fst (order_by snd (group_sums sm_sku_id ms)))" for ms
    by (simp add: keys)
  then have d: "distinct (map fst ?rs)"
    by (auto simp: abc_rows_def limit_rows_def take_map[symmetric] split: option.splits)
  have s: "set (map fst ?rs) = sm_sku_id ` set (out_movements (months_cutoff env months) d)" if "top_n = None"
  proof -
    have "set (map fst (order_by snd t)) = set (map fst t)" for t :: "(uuid \<times> decimal) list" by simp
    then show ?thesis using that keys by (simp add: abc_rows_def limit_rows_def del: set_map) simp
  qed
  have q: "sorted_wrt (\<ge>) (map av_total_qty ?vs)"
    unfolding vs abc_loop_columns(3) using abc_rows_negative by (intro quantities_descend abc_rows_sorted) blast
  have c: "sorted (map (class_rank \<circ> av_abc_category) ?vs)"
    unfolding vs by (rule abc_loop_classes(1)) (simp_all add: total_value_pos)
  have ids: "map av_sku_id ?vs = map fst ?rs" by (simp only: vs abc_loop_columns(2))
  have "map av_rank ?vs = [1..<1 + length ?rs]" by (simp only: vs abc_loop_columns(1))
  with d s q c show ?thesis unfolding Let_def ids len by blast
qed

lemma distinct_singleton_set: "set xs = {x} \<Longrightarrow> distinct xs \<Longrightarrow> xs = [x]"
  by (cases xs; cases "tl xs") auto

definition outbound :: stock_movement where
  "outbound = \<lparr>pk = 30, created_at = 1, updated_at = 1, is_deleted = False, deleted_at = None, sm_source_warehouse_id = None,
     sm_target_warehouse_id = None, sm_source_location_id = None, sm_target_location_id = None, sm_sku_id = 3, sm_gtin = [],
     sm_quantity = -5, sm_movement_type = StockMovementType_TRANSFER, sm_status = ''completed''\<rparr>"

theorem abc_analysis_ranks_by_quantity_witness:
  "map av_sku_id (compute_abc_analysis env0 3 None (stock_db\<lparr>stock_movements := [outbound, outbound\<lparr>pk := 31\<rparr>]\<rparr>)) = [3]"
proof -
  let ?d = "stock_db\<lparr>stock_movements := [outbound, outbound\<lparr>pk := 31\<rparr>]\<rparr>"
  have "out_movements (months_cutoff env0 3) ?d = [outbound, outbound\<lparr>pk := 31\<rparr>]"
    by (simp add: out_movements_def select_where_def months_cutoff_def outbound_def)
  then have "set (map av_sku_id (compute_abc_analysis env0 3 None ?d)) = {3}"
    and "distinct (map av_sku_id (compute_abc_analysis env0 3 None ?d))"
    using abc_analysis_ranks_by_quantity[of env0 3 None ?d] by (simp_all add: Let_def outbound_def)
  then show ?thesis by (rule distinct_singleton_set)
qed

text \<open>
  C39: In every state that the writers of stock movements can reach, the ABC analysis, the XYZ
  analysis and every cell of their matrix are empty, whatever was taken out of stock: the analyses
  select negative quantities and every writer stores the magnitude.
\<close>

theorem analysis_is_always_empty:
  assumes "movements_reachable d"
  shows "compute_abc_analysis env months top_n d = [] \<and> compute_xyz_analysis fsum fpow fsqrt month env months top_n d = [] \<and>
    (\<forall>c\<in>set (compute_abc_xyz_matrix fsum fpow fsqrt month env months d). snd c = [])"
proof -
  from no_analysis[OF movements_reachable_positive[OF assms]]
  show ?thesis by (simp add: compute_abc_xyz_matrix_def)
qed

theorem analysis_is_always_empty_witness:
  "\<exists>d v. adjust_inventory env0 (\<lambda>_ x. x) (\<lambda>_. None) None (adjust_data (-3)) stock_db = Inr (d, v) \<and>
     stock_movements d \<noteq> [] \<and> compute_abc_analysis env0 3 None d = []"
proof -
  have "\<exists>d v. adjust_inventory env0 (\<lambda>_ x. x) (\<lambda>_. None) None (adjust_data (-3)) stock_db = Inr (d, v) \<and>
      stock_movements d \<noteq> []"
    by (simp add: adjust_inventory_def adjust_attempt_def versioned_update_def add_adjust_movement_def row_count_def
        numeral_3_eq_3 sample_pick_batches adjust_data_def sample_eval inv_to_dict_def db_get_def batch4_def batch5_def)
  then obtain d v where a: "adjust_inventory env0 (\<lambda>_ x. x) (\<lambda>_. None) None (adjust_data (-3)) stock_db = Inr (d, v)"
    "stock_movements d \<noteq> []" by blast
  have "movements_reachable stock_db" by (rule movements_reachable.start) (simp add: stock_db_def)
  moreover have "movement_step stock_db d" by (rule movement_step.adjusted[OF a(1)])
  ultimately have "movements_reachable d" by (rule movements_reachable.step)
  from analysis_is_always_empty[OF this] a show ?thesis by blast
qed

theorem matrix_has_every_product_once:
  "mset (map ci_abc_view (concat (map snd (compute_abc_xyz_matrix fsum fpow fsqrt month env months d)))) =
     mset (compute_abc_analysis env months None d) \<and>
   map fst (compute_abc_xyz_matrix fsum fpow fsqrt month env months d) = matrix_cells"
proof -
  let ?xyz = "compute_xyz_analysis fsum fpow fsqrt month env months None d"
  let ?abc = "compute_abc_analysis env months None d"
  let ?items = "map (matrix_item ?xyz) ?abc"
  have x: "\<forall>x\<in>set ?xyz. xv_xyz_category x \<in> {''X'', ''Y'', ''Z''}" using xyz_categories by blast
  have a: "\<forall>v\<in>set ?abc. av_abc_category v \<in> {''A'', ''B'', ''C''}"
    using abc_loop_categories by (simp add: compute_abc_analysis_def Let_def)
  have "\<forall>i\<in>set ?items. cell_of i \<in> set matrix_cells" using matrix_item_cell(1)[OF x] a by auto
  moreover have "distinct matrix_cells" by (simp add: matrix_cells_def)
  ultimately have "mset (concat (map (\<lambda>c. filter (\<lambda>i. cell_of i = c) ?items) matrix_cells)) = mset ?items"
    by (rule mset_of_cells)
  moreover have "map snd (compute_abc_xyz_matrix fsum fpow fsqrt month env months d) =
      map (\<lambda>c. filter (\<lambda>i. cell_of i = c) ?items) matrix_cells" by (simp add: compute_abc_xyz_matrix_def Let_def comp_def)
  ultimately have "mset (map ci_abc_view (concat (map snd (compute_abc_xyz_matrix fsum fpow fsqrt month env months d)))) =
      mset (map ci_abc_view ?items)" by (simp only: mset_map)
  moreover have "map ci_abc_view ?items = ?abc" using matrix_item_cell(2)[OF x] a by (auto intro: map_idI)
  moreover have "map fst (compute_abc_xyz_matrix fsum fpow fsqrt month env months d) = matrix_cells"
    by (simp add: compute_abc_xyz_matrix_def Let_def comp_def)
  ultimately show ?thesis by (simp only: simp_thms)
qed

theorem single_product_is_class_c:
  assumes "abc_rows env months top_n d = [(u, q)]"
  shows "map av_abc_category (compute_abc_analysis env months top_n d) = [''C'']"
proof -
  have "q < 0" using abc_rows_negative[of "(u, q)" env months top_n d] assms by simp
  from single_row_class[OF this] show ?thesis by (simp add: compute_abc_analysis_def Let_def assms)
qed

theorem single_product_is_class_c_witness:
  "map av_abc_category (compute_abc_analysis env0 3 None (stock_db\<lparr>stock_movements := [outbound]\<rparr>)) = [''C'']"
proof -
  have "abc_rows env0 3 None (stock_db\<lparr>stock_movements := [outbound]\<rparr>) = [(3, -5)]"
    by (simp add: abc_rows_def limit_rows_def order_by_def group_sums_def out_movements_def select_where_def months_cutoff_def
        outbound_def)
  then show ?thesis by (rule single_product_is_class_c)
qed

end
