(* ===== verification/Rate_Limit.thy ===== *)
theory Rate_Limit
  imports Exceptions
begin

text \<open>
  The rate limiter of \<open>src/core/rate_limiter.py\<close>: one sorted set of Redis per key that holds the times of
  the requests of the last window. Redis is a parameter, with \<open>zset_contract\<close> as what the pipeline of the
  limiter does to it: \<open>ZADD\<close>, \<open>ZREMRANGEBYSCORE\<close> up to the start of the window, \<open>ZCARD\<close> and \<open>EXPIRE\<close> as
  one transaction. Times are microseconds, windows are seconds.
\<close>

section \<open>Redis\<close>

type_synonym zset = "string \<rightharpoonup> int"

text \<open>
  \<open>z_pipe k m s c ttl\<close> runs the pipeline for the key \<open>k\<close>, the member \<open>m\<close> with score \<open>s\<close> and the cutoff \<open>c\<close>, and
  answers the cardinality, or nothing when it raises; \<open>z_count k a b\<close> is \<open>ZCOUNT\<close>.
\<close>

record 'r zset_ops =
  z_pipe :: "string \<Rightarrow> string \<Rightarrow> int \<Rightarrow> int \<Rightarrow> int \<Rightarrow> 'r \<Rightarrow> 'r \<times> nat option"
  z_count :: "string \<Rightarrow> int \<Rightarrow> int \<Rightarrow> 'r \<Rightarrow> nat option"

text \<open>A stored set has a deadline; once it has passed the key is gone.\<close>

definition live :: "int \<Rightarrow> zset \<times> int \<Rightarrow> zset" where
  "live t p = (if snd p \<le> t then Map.empty else fst p)"

definition piped :: "string \<Rightarrow> int \<Rightarrow> int \<Rightarrow> zset \<Rightarrow> zset" where
  "piped m s c z = (\<lambda>k. case (z(m \<mapsto> s)) k of None \<Rightarrow> None | Some x \<Rightarrow> if c < x then Some x else None)"

definition zset_contract :: "'r zset_ops \<Rightarrow> ('r \<Rightarrow> string \<Rightarrow> zset \<times> int) \<Rightarrow> bool" where
  "zset_contract ops content =
     ((\<forall>r k. finite (dom (fst (content r k)))) \<and>
      (\<forall>k m s c ttl r r' v. z_pipe ops k m s c ttl r = (r', v) \<longrightarrow>
         (\<forall>k'. k' \<noteq> k \<longrightarrow> content r' k' = content r k') \<and>
         (v = None \<and> content r' k = content r k \<or>
          content r' k = (piped m s c (live s (content r k)), s + ttl * 1000000) \<and>
          (\<forall>n. v = Some n \<longrightarrow> n = card (dom (piped m s c (live s (content r k))))))))"

section \<open>The limiter\<close>

record limits =
  rate_limit_requests :: nat
  rate_limit_window :: int
  testing :: bool

definition default_nat :: "nat \<Rightarrow> nat option \<Rightarrow> nat" where
  "default_nat n v = (case v of None \<Rightarrow> n | Some x \<Rightarrow> if x = 0 then n else x)"

definition default_int :: "int \<Rightarrow> int option \<Rightarrow> int" where
  "default_int n v = (case v of None \<Rightarrow> n | Some x \<Rightarrow> if x = 0 then n else x)"

text \<open>\<open>member\<close> is the text of the time and a random suffix.\<close>

definition check_rate_limit ::
  "'r zset_ops \<Rightarrow> limits \<Rightarrow> bool \<Rightarrow> string \<Rightarrow> nat option \<Rightarrow> int option \<Rightarrow> int \<Rightarrow> string \<Rightarrow> 'r \<Rightarrow> 'r \<times> bool" where
  "check_rate_limit ops settings is_connected key requests window t member r =
     (let requests = default_nat (rate_limit_requests settings) requests;
          window = default_int (rate_limit_window settings) window
      in if testing settings then (r, True)
         else if \<not> is_connected then (r, False)
         else
           let bucket_key = ''rate_limit:'' @ key;
               window_start = t - window * 1000000;
               (r', result) = z_pipe ops bucket_key member t window_start window r
           in case result of None \<Rightarrow> (r', False) | Some n \<Rightarrow> (r', n \<le> requests))"

record rate_headers =
  rh_limit :: nat
  rh_remaining :: nat
  rh_window :: int
  rh_reset :: int

text \<open>\<open>{}\<close> is \<open>None\<close>. The numbers are those of the settings, not those of the decorated route.\<close>

definition get_rate_limit_headers ::
  "'r zset_ops \<Rightarrow> limits \<Rightarrow> bool \<Rightarrow> string \<Rightarrow> int \<Rightarrow> 'r \<Rightarrow> rate_headers option" where
  "get_rate_limit_headers ops settings is_connected key t r =
     (if \<not> is_connected then None
      else
        case z_count ops (''rate_limit:'' @ key) (t - rate_limit_window settings * 1000000) t r of
          None \<Rightarrow> None
        | Some n \<Rightarrow> Some \<lparr>rh_limit = rate_limit_requests settings, rh_remaining = rate_limit_requests settings - n,
            rh_window = rate_limit_window settings,
            rh_reset = (t + rate_limit_window settings * 1000000) div 1000000\<rparr>)"

definition rate_limit_key :: "string option \<Rightarrow> string" where
  "rate_limit_key client_host = ''ip:'' @ get_default ''unknown'' client_host"

text \<open>The decorator: the route runs only when the check allows it.\<close>

definition rate_limited ::
  "'r zset_ops \<Rightarrow> limits \<Rightarrow> bool \<Rightarrow> nat option \<Rightarrow> int option \<Rightarrow> string option \<Rightarrow> int \<Rightarrow> string \<Rightarrow>
   ('d \<Rightarrow> ('d \<times> 'v) result) \<Rightarrow> 'r \<Rightarrow> 'd \<Rightarrow> 'r \<times> ('d \<times> 'v) result" where
  "rate_limited ops settings is_connected requests window client_host t member func r d =
     (let (r', allowed) = check_rate_limit ops settings is_connected (rate_limit_key client_host)
            (Some (default_nat (rate_limit_requests settings) requests))
            (Some (default_int (rate_limit_window settings) window)) t member r
      in (r', if allowed then func d else Inl (HTTPException 429 ''Rate limit exceeded'')))"

section \<open>A sequence of requests\<close>

text \<open>The requests of one client at one route, each with its time and member.\<close>

fun run_requests ::
  "'r zset_ops \<Rightarrow> limits \<Rightarrow> string \<Rightarrow> nat option \<Rightarrow> int option \<Rightarrow> (int \<times> string) list \<Rightarrow> 'r \<Rightarrow> 'r \<times> bool list" where
  "run_requests ops settings key requests window [] r = (r, [])"
| "run_requests ops settings key requests window ((t, m) # ts) r =
     (let (r1, a) = check_rate_limit ops settings True key requests window t m r;
          (r2, as) = run_requests ops settings key requests window ts r1
      in (r2, a # as))"

text \<open>
  The key names the client only, so routes with limits and windows of their own count in the same set:
  each check has its time, its member, its limit and its window.
\<close>

type_synonym rate_check = "int \<times> string \<times> nat option \<times> int option"

fun run_checks ::
  "'r zset_ops \<Rightarrow> limits \<Rightarrow> string \<Rightarrow> rate_check list \<Rightarrow> 'r \<Rightarrow> 'r \<times> bool list" where
  "run_checks ops settings key [] r = (r, [])"
| "run_checks ops settings key ((t, m, requests, window) # cs) r =
     (let (r1, a) = check_rate_limit ops settings True key requests window t m r;
          (r2, as) = run_checks ops settings key cs r1
      in (r2, a # as))"

definition stamp :: "rate_check \<Rightarrow> int \<times> string" where
  "stamp c = (fst c, fst (snd c))"

definition served_by :: "rate_check list \<Rightarrow> bool list \<Rightarrow> (int \<times> string) set" where
  "served_by cs as = {stamp c | c. (c, True) \<in> set (zip cs as)}"

text \<open>The reference: a request is allowed when the requests of its window, itself included, are within the limit.\<close>

fun sliding_log :: "int \<Rightarrow> nat \<Rightarrow> int list \<Rightarrow> int list \<Rightarrow> bool list" where
  "sliding_log w n seen [] = []"
| "sliding_log w n seen (t # ts) =
     (length (filter (\<lambda>x. t - w < x) (t # seen)) \<le> n) # sliding_log w n (t # seen) ts"

definition windows_ok :: "nat \<Rightarrow> int \<Rightarrow> (int \<times> string) set \<Rightarrow> bool" where
  "windows_ok n w served \<longleftrightarrow> (\<forall>t. card {p \<in> served. t - w < fst p \<and> fst p \<le> t} \<le> n)"

section \<open>No window holds more than the limit\<close>

text \<open>What the set of the key holds after some requests of which \<open>served\<close> were allowed.\<close>

definition bucket_inv :: "int \<Rightarrow> int \<Rightarrow> (int \<times> string) set \<Rightarrow> zset \<times> int \<Rightarrow> bool" where
  "bucket_inv w newest served p \<longleftrightarrow>
     (\<forall>t m. (t, m) \<in> served \<longrightarrow> t \<le> newest \<and> (newest - w < t \<longrightarrow> fst p m = Some t)) \<and>
     (\<forall>m t. fst p m = Some t \<longrightarrow> t \<le> newest \<and> t + w \<le> snd p)"

lemma piped_keeps:
  assumes "z k = Some x" "k \<noteq> m" "c < x"
  shows "piped m s c z k = Some x"
  using assms by (simp add: piped_def)

lemma piped_new: "c < s \<Longrightarrow> piped m s c z m = Some s"
  by (simp add: piped_def)

lemma piped_SomeD: "piped m s c z k = Some x \<Longrightarrow> c < x \<and> (k = m \<and> x = s \<or> k \<noteq> m \<and> z k = Some x)"
  by (auto simp: piped_def split: option.splits if_splits)

lemma finite_piped: "finite (dom z) \<Longrightarrow> finite (dom (piped m s c z))"
  by (rule finite_subset[of _ "insert m (dom z)"]) (auto dest: piped_SomeD)

lemma bucket_inv_later:
  assumes "bucket_inv w newest served p" "newest \<le> t"
  shows "bucket_inv w t served p"
  using assms by (fastforce simp: bucket_inv_def)

lemma live_in_window:
  assumes "bucket_inv w newest served p" "(t', m') \<in> served" "t - w < t'" "newest \<le> t"
  shows "live t p m' = Some t'"
  using assms by (fastforce simp: bucket_inv_def live_def)

lemma bucket_inv_piped:
  assumes "bucket_inv w newest served p" "newest \<le> t" "m \<notin> snd ` served" "0 < w" "w \<le> v"
    and "p' = (piped m t (t - v) (live t p), t + v)"
  shows "bucket_inv w t served p'" "bucket_inv w t (insert (t, m) served) p'"
proof -
  have old: "t' \<le> t \<and> (t - w < t' \<longrightarrow> fst p' m' = Some t')" if "(t', m') \<in> served" for t' m'
  proof -
    have "m' \<noteq> m" using that assms(3) by force
    moreover have "t' \<le> t" using assms(1,2) that by (fastforce simp: bucket_inv_def)
    ultimately show ?thesis
      using live_in_window[OF assms(1) that _ assms(2)] assms(5,6) by (auto intro: piped_keeps)
  qed
  have new: "fst p' m = Some t" using assms(4,5,6) by (simp add: piped_new)
  have bound: "x \<le> t \<and> x + w \<le> snd p'" if "fst p' k = Some x" for k x
  proof -
    from that assms(6) have "x = t \<or> live t p k = Some x" by (auto dest!: piped_SomeD)
    then have "x = t \<or> fst p k = Some x" by (auto simp: live_def split: if_splits)
    then have "x \<le> t" using assms(1,2) by (fastforce simp: bucket_inv_def)
    then show ?thesis using assms(5,6) by simp
  qed
  show "bucket_inv w t served p'" "bucket_inv w t (insert (t, m) served) p'"
    unfolding bucket_inv_def using old new bound by auto
qed

text \<open>The requests served in the window that ends now are all in the set, so its size bounds their number.\<close>

lemma served_in_window:
  assumes "bucket_inv w t served p'" "finite (dom (fst p'))" "card (dom (fst p')) \<le> n" "inj_on snd served"
  shows "card {p \<in> served. t - w < fst p} \<le> n"
proof -
  let ?S = "{p \<in> served. t - w < fst p}"
  have sub: "snd ` ?S \<subseteq> dom (fst p')" using assms(1) by (auto simp: bucket_inv_def)
  have "inj_on snd ?S" using assms(4) by (rule inj_on_subset) auto
  then have "card ?S = card (snd ` ?S)" by (simp add: card_image)
  also have "\<dots> \<le> card (dom (fst p'))" by (rule card_mono[OF assms(2) sub])
  finally show ?thesis using assms(3) by simp
qed

lemma windows_ok_insert:
  assumes "windows_ok n w served" "\<forall>p\<in>served. fst p \<le> t" "finite served"
    and "card {p \<in> insert (t, m) served. t - w < fst p} \<le> n"
  shows "windows_ok n w (insert (t, m) served)"
  unfolding windows_ok_def
proof
  fix u
  show "card {p \<in> insert (t, m) served. u - w < fst p \<and> fst p \<le> u} \<le> n"
  proof (cases "t \<le> u \<and> u - w < t")
    case True
    have "card {p \<in> insert (t, m) served. u - w < fst p \<and> fst p \<le> u} \<le> card {p \<in> insert (t, m) served. t - w < fst p}"
      using assms(3) True by (intro card_mono) auto
    with assms(4) show ?thesis by linarith
  next
    case False
    then have "{p \<in> insert (t, m) served. u - w < fst p \<and> fst p \<le> u} = {p \<in> served. u - w < fst p \<and> fst p \<le> u}" by auto
    with assms(1) show ?thesis by (simp add: windows_ok_def)
  qed
qed

lemma check_rate_limit_cases:
  assumes "zset_contract ops content" "check_rate_limit ops settings True key requests window t m r = (r', a)"
    and "\<not> testing settings"
  defines "n \<equiv> default_nat (rate_limit_requests settings) requests"
    and "w \<equiv> default_int (rate_limit_window settings) window * 1000000"
    and "k \<equiv> ''rate_limit:'' @ key"
  shows "\<not> a \<and> content r' k = content r k \<or>
    content r' k = (piped m t (t - w) (live t (content r k)), t + w) \<and>
    (a \<longrightarrow> card (dom (fst (content r' k))) \<le> n)"
proof -
  obtain v where v: "z_pipe ops k m t (t - w) (default_int (rate_limit_window settings) window) r = (r', v)"
    and a: "a = (case v of None \<Rightarrow> False | Some c \<Rightarrow> c \<le> n)"
    using assms(2,3) by (auto simp: check_rate_limit_def Let_def n_def w_def k_def split: prod.splits option.splits)
  have "v = None \<and> content r' k = content r k \<or>
      content r' k = (piped m t (t - w) (live t (content r k)), t + w) \<and>
      (\<forall>c. v = Some c \<longrightarrow> c = card (dom (piped m t (t - w) (live t (content r k)))))"
    using assms(1) v unfolding zset_contract_def w_def by blast
  with a show ?thesis by (auto split: option.splits)
qed

lemma served_by_Cons: "served_by (c # cs) (a # as) = (if a then {stamp c} else {}) \<union> served_by cs as"
proof -
  have "served_by cs as = stamp ` {c. (c, True) \<in> set (zip cs as)}" for cs as by (auto simp: served_by_def)
  moreover have "{c'. (c', True) \<in> set (zip (c # cs) (a # as))} = (if a then {c} else {}) \<union> {c'. (c', True) \<in> set (zip cs as)}"
    by (cases a) auto
  ultimately show ?thesis by simp
qed

lemma run_checks_windows:
  assumes "zset_contract ops content" "\<not> testing settings"
    and "run_checks ops settings key cs r = (r', as)"
    and "sorted (map fst cs)" "distinct (map (snd \<circ> stamp) cs)" "\<forall>c\<in>set cs. newest \<le> fst c"
    and "\<forall>(t, m, requests, window)\<in>set cs. default_nat (rate_limit_requests settings) requests \<le> n \<and>
      w \<le> default_int (rate_limit_window settings) window * 1000000"
    and "bucket_inv w newest served (content r (''rate_limit:'' @ key))" "windows_ok n w served"
    and "finite served" "inj_on snd served" "snd ` served \<inter> (snd \<circ> stamp) ` set cs = {}" "0 < w"
  shows "windows_ok n w (served \<union> served_by cs as)"
  using assms(3-12)
proof (induction cs arbitrary: r newest served as)
  case Nil
  then show ?case by (simp add: served_by_def)
next
  case (Cons c cs)
  obtain t m rq wd where c: "c = (t, m, rq, wd)" by (cases c)
  let ?k = "''rate_limit:'' @ key"
  let ?v = "default_int (rate_limit_window settings) wd * 1000000"
  from Cons.prems(1) c obtain r1 a bs where
    ch: "check_rate_limit ops settings True key rq wd t m r = (r1, a)" and
    run: "run_checks ops settings key cs r1 = (r', bs)" and as: "as = a # bs"
    by (auto split: prod.splits)
  have le: "newest \<le> t" and m: "m \<notin> snd ` served" using Cons.prems(4,10) c by (auto simp: stamp_def)
  have v: "w \<le> ?v" and nn: "default_nat (rate_limit_requests settings) rq \<le> n" using Cons.prems(5) c by auto
  note step = check_rate_limit_cases[OF assms(1) ch assms(2)]
  have fin: "finite (dom (fst (content r1 ?k)))" using assms(1) by (simp add: zset_contract_def)
  define served' where "served' = (if a then insert (t, m) served else served)"
  have inv: "bucket_inv w t served' (content r1 ?k)"
    using step bucket_inv_later[OF Cons.prems(6) le] bucket_inv_piped[OF Cons.prems(6) le m assms(13) v]
    unfolding served'_def by auto
  have inj: "inj_on snd served'" "finite served'" "snd ` served' \<inter> (snd \<circ> stamp) ` set cs = {}"
    using Cons.prems(3,8,9,10) m c by (auto simp: served'_def inj_on_insert stamp_def)
  have "windows_ok n w served'"
  proof (cases a)
    case True
    with step nn have n: "card (dom (fst (content r1 ?k))) \<le> n" by auto
    have "\<forall>q\<in>served. fst q \<le> t" using Cons.prems(6) le by (fastforce simp: bucket_inv_def)
    from windows_ok_insert[OF Cons.prems(7) this Cons.prems(8), of m] served_in_window[OF inv fin n inj(1)] True
    show ?thesis by (simp add: served'_def)
  qed (use Cons.prems(7) in \<open>simp add: served'_def\<close>)
  from Cons.IH[OF run _ _ _ _ inv this inj(2,1,3)] Cons.prems(2,3,5) c
  have "windows_ok n w (served' \<union> served_by cs bs)" by auto
  moreover have "served' \<union> served_by cs bs = served \<union> served_by (c # cs) as"
    by (auto simp: served'_def as c served_by_Cons stamp_def)
  ultimately show ?case by simp
qed

section \<open>The limiter is the sliding log\<close>

text \<open>While Redis answers, the part of the set that lies in the window is exactly the part of the log that does.\<close>

definition log_inv :: "int \<Rightarrow> int \<Rightarrow> (int \<times> string) list \<Rightarrow> zset \<times> int \<Rightarrow> bool" where
  "log_inv w newest hist p \<longleftrightarrow>
     (\<forall>m t. newest - w < t \<longrightarrow> fst p m = Some t \<longleftrightarrow> (t, m) \<in> set hist) \<and>
     (\<forall>m t. fst p m = Some t \<longrightarrow> t \<le> newest \<and> t + w \<le> snd p)"

lemma piped_log:
  assumes "log_inv w newest hist p" "newest \<le> t" "0 < w" "m \<notin> snd ` set hist"
  shows "piped m t (t - w) (live t p) k = Some x \<longleftrightarrow> t - w < x \<and> (x, k) \<in> set ((t, m) # hist)"
proof (cases "k = m")
  case True
  with assms(4) have "(x, k) \<notin> set hist" by force
  with True assms(3) show ?thesis by (auto simp: piped_def)
next
  case False
  have "live t p k = Some x \<longleftrightarrow> (x, k) \<in> set hist" if "t - w < x"
  proof -
    have l: "newest - w < x" using that assms(2) by simp
    then have f: "fst p k = Some x \<longleftrightarrow> (x, k) \<in> set hist" using assms(1) by (simp add: log_inv_def)
    moreover have "\<not> snd p \<le> t" if "fst p k = Some x"
      using that assms(1) \<open>t - w < x\<close> by (fastforce simp: log_inv_def)
    ultimately show ?thesis by (auto simp: live_def)
  qed
  with False show ?thesis by (auto simp: piped_def split: option.splits)
qed

lemma log_inv_piped:
  assumes "log_inv w newest hist p" "newest \<le> t" "0 < w" "m \<notin> snd ` set hist"
  shows "log_inv w t ((t, m) # hist) (piped m t (t - w) (live t p), t + w)"
proof -
  have "x \<le> t" if "piped m t (t - w) (live t p) k = Some x" for k x
  proof -
    from that have "x = t \<or> live t p k = Some x" by (auto dest!: piped_SomeD)
    then have "x = t \<or> fst p k = Some x" by (auto simp: live_def split: if_splits)
    then show ?thesis using assms(1,2) by (fastforce simp: log_inv_def)
  qed
  with piped_log[OF assms] show ?thesis unfolding log_inv_def fst_conv snd_conv by auto
qed

lemma card_piped_log:
  assumes "log_inv w newest hist p" "newest \<le> t" "0 < w" "distinct (map snd ((t, m) # hist))"
  shows "card (dom (piped m t (t - w) (live t p))) = length (filter (\<lambda>x. t - w < x) (t # map fst hist))"
proof -
  let ?h = "(t, m) # hist"
  have "m \<notin> snd ` set hist" using assms(4) by auto
  note pl = piped_log[OF assms(1-3) this]
  have "dom (piped m t (t - w) (live t p)) = {k. \<exists>x. t - w < x \<and> (x, k) \<in> set ?h}"
    unfolding dom_def using pl by auto
  also have "\<dots> = set (map snd (filter (\<lambda>q. t - w < fst q) ?h))" by force
  also have "card \<dots> = length (filter (\<lambda>q. t - w < fst q) ?h)"
    by (subst distinct_card) (simp_all only: distinct_map_filter[OF assms(4)] length_map)
  also have "\<dots> = length (filter (\<lambda>x. t - w < x) (map fst ?h))" by (simp add: filter_map comp_def)
  finally show ?thesis by simp
qed

lemma run_requests_log:
  assumes "zset_contract ops content" "\<And>k m s c ttl r. snd (z_pipe ops k m s c ttl r) \<noteq> None" "\<not> testing settings"
    and "run_requests ops settings key requests window ts r = (r', as)"
    and "sorted (map fst ts)" "distinct (map snd (hist @ ts))" "\<forall>p\<in>set ts. newest \<le> fst p"
    and "log_inv (default_int (rate_limit_window settings) window * 1000000) newest hist (content r (''rate_limit:'' @ key))"
    and "0 < default_int (rate_limit_window settings) window"
  shows "as = sliding_log (default_int (rate_limit_window settings) window * 1000000)
    (default_nat (rate_limit_requests settings) requests) (map fst hist) (map fst ts)"
  using assms(4-8)
proof (induction ts arbitrary: r newest hist as)
  case (Cons p ts)
  obtain t m where p: "p = (t, m)" by force
  let ?n = "default_nat (rate_limit_requests settings) requests"
  let ?w = "default_int (rate_limit_window settings) window * 1000000"
  let ?k = "''rate_limit:'' @ key"
  have le: "newest \<le> t" and w0: "0 < ?w" and dist: "distinct (map snd ((t, m) # hist))"
    using Cons.prems(3,4) assms(9) p by auto
  then have m: "m \<notin> snd ` set hist" by auto
  from assms(2) obtain r1 c where z: "z_pipe ops ?k m t (t - ?w) (default_int (rate_limit_window settings) window) r = (r1, Some c)"
    by (metis prod.collapse option.exhaust)
  from assms(1) z have c: "c = card (dom (piped m t (t - ?w) (live t (content r ?k))))"
    and r1: "content r1 ?k = (piped m t (t - ?w) (live t (content r ?k)), t + ?w)"
    unfolding zset_contract_def by blast+
  from Cons.prems(1) p z assms(3) obtain bs where
    run: "run_requests ops settings key requests window ts r1 = (r', bs)" and as: "as = (c \<le> ?n) # bs"
    by (auto simp: check_rate_limit_def Let_def split: prod.splits)
  note cd = card_piped_log[OF Cons.prems(5) le w0 dist]
  have "bs = sliding_log ?w ?n (map fst ((t, m) # hist)) (map fst ts)"
  proof (rule Cons.IH[OF run])
    show "log_inv ?w t ((t, m) # hist) (content r1 ?k)" unfolding r1 by (rule log_inv_piped[OF Cons.prems(5) le w0 m])
  qed (use Cons.prems(2,3) p in auto)
  then show ?case unfolding as c cd by (simp add: p)
qed simp

text \<open>Both relations hold before the first request of a client.\<close>

lemma fresh_bucket:
  assumes "fst p = Map.empty"
  obtains newest where "\<forall>q\<in>set (ts :: (int \<times> 'a) list). newest \<le> fst q" "bucket_inv w newest {} p" "log_inv w newest [] p"
proof
  show "\<forall>q\<in>set ts. Min (insert 0 (fst ` set ts)) \<le> fst q" by simp
qed (use assms in \<open>simp_all add: bucket_inv_def log_inv_def\<close>)

section \<open>Refused requests count\<close>

lemma sliding_log_length: "length (sliding_log w n seen ts) = length ts"
  by (induction ts arbitrary: seen) simp_all

lemma sliding_log_nth:
  assumes "i < length ts"
  shows "sliding_log w n seen ts ! i \<longleftrightarrow>
    length (filter (\<lambda>x. ts ! i - w < x) (rev (take (Suc i) ts) @ seen)) \<le> n"
  using assms
proof (induction ts arbitrary: i seen)
  case (Cons t ts)
  then show ?case by (cases i) simp_all
qed simp

text \<open>A request that is the last of more than \<open>n\<close> within one window is refused, whatever happened to the others.\<close>

lemma crowded_refused:
  assumes "i < length ts" "n \<le> i" "sorted ts" "ts ! i - w < ts ! (i - n)"
  shows "\<not> sliding_log w n seen ts ! i"
proof -
  let ?P = "\<lambda>x. ts ! i - w < x"
  have "?P x" if "x \<in> set (drop (i - n) (take (Suc i) ts))" for x
  proof -
    from that obtain j where j: "j < Suc i - (i - n)" "x = ts ! (i - n + j)"
      using assms(1,2) by (auto simp: in_set_conv_nth)
    then have "ts ! (i - n) \<le> x" using assms(1-3) by (auto intro!: sorted_nth_mono)
    with assms(4) show ?thesis by simp
  qed
  then have "filter ?P (drop (i - n) (take (Suc i) ts)) = drop (i - n) (take (Suc i) ts)" by (simp add: filter_id_conv)
  then have "Suc n = length (filter ?P (drop (i - n) (take (Suc i) ts)))" using assms(1,2) by simp
  also have "\<dots> \<le> length (filter ?P (take (Suc i) ts))"
    by (subst (2) append_take_drop_id[of "i - n" "take (Suc i) ts", symmetric]) (simp only: filter_append length_append le_add2)
  also have "\<dots> \<le> length (filter ?P (rev (take (Suc i) ts) @ seen))" by (simp add: rev_filter[symmetric])
  finally show ?thesis using sliding_log_nth[OF assms(1), of w n seen] by linarith
qed

section \<open>Routes that share a client\<close>

text \<open>
  The key names the client only, so a check with a short window removes what a route with a longer
  window has counted.
\<close>

lemma short_window_forgets:
  assumes "zset_contract ops content" "\<not> testing settings"
    and "z_pipe ops (''rate_limit:'' @ key) m t (t - 60 * 1000000) 60 r = (r1, Some c)"
    and "\<forall>k x. fst (content r (''rate_limit:'' @ key)) k = Some x \<longrightarrow> x \<le> t - 60 * 1000000"
  shows "content r1 (''rate_limit:'' @ key) = ([m \<mapsto> t], t + 60 * 1000000)"
proof -
  have "live t (content r (''rate_limit:'' @ key)) k = Some x \<Longrightarrow> x \<le> t - 60 * 1000000" for k x
    using assms(4) by (auto simp: live_def split: if_splits)
  then have "piped m t (t - 60 * 1000000) (live t (content r (''rate_limit:'' @ key))) = [m \<mapsto> t]"
    by (fastforce simp: piped_def fun_eq_iff split: option.splits)
  with assms(1,3) show ?thesis unfolding zset_contract_def by fastforce
qed

end
