(* ===== verification/Cache.thy ===== *)
theory Cache
  imports Exceptions
begin

text \<open>
  The in-memory cache of \<open>src/cache/redis_client.py\<close> and the decorators \<open>cached\<close> and \<open>distributed_lock\<close> of
  \<open>src/cache/decorators.py\<close>. The cache is the ordered dictionary of the code, the least recently used
  entry first. The decorators run a coroutine on a world \<open>'w\<close> whose changes survive an exception; the
  calls of Redis are parameters that answer or raise.
\<close>

section \<open>The memory cache\<close>

record 'v entry =
  en_key :: string
  en_value :: 'v
  en_expire :: rat

record 'v memory_cache =
  mc_cache :: "'v entry list"
  mc_maxsize :: nat

definition find_entry :: "string \<Rightarrow> 'v memory_cache \<Rightarrow> 'v entry option" where
  "find_entry k c = find (\<lambda>e. en_key e = k) (mc_cache c)"

definition cache_exists :: "string \<Rightarrow> 'v memory_cache \<Rightarrow> bool" where
  "cache_exists k c = (\<exists>e\<in>set (mc_cache c). en_key e = k)"

definition without_key :: "string \<Rightarrow> 'v entry list \<Rightarrow> 'v entry list" where
  "without_key k es = filter (\<lambda>e. en_key e \<noteq> k) es"

definition cache_get :: "string \<Rightarrow> 'v memory_cache \<Rightarrow> 'v memory_cache \<times> 'v option" where
  "cache_get k c =
     (case find_entry k c of
        None \<Rightarrow> (c, None)
      | Some e \<Rightarrow> (c\<lparr>mc_cache := without_key k (mc_cache c) @ [e]\<rparr>, Some (en_value e)))"

definition cache_set :: "string \<Rightarrow> 'v \<Rightarrow> rat option \<Rightarrow> 'v memory_cache \<Rightarrow> 'v memory_cache" where
  "cache_set k v expire c =
     (let es = (if cache_exists k c then without_key k (mc_cache c)
                else if mc_maxsize c \<le> length (mc_cache c) then tl (mc_cache c)
                else mc_cache c)
      in c\<lparr>mc_cache := es @ [\<lparr>en_key = k, en_value = v, en_expire = get_default 0 expire\<rparr>]\<rparr>)"

definition cache_delete :: "string \<Rightarrow> 'v memory_cache \<Rightarrow> 'v memory_cache \<times> bool" where
  "cache_delete k c = (c\<lparr>mc_cache := without_key k (mc_cache c)\<rparr>, cache_exists k c)"

text \<open>Assigning to a key that is there keeps its place.\<close>

definition replace_entry :: "string \<Rightarrow> ('v entry \<Rightarrow> 'v entry) \<Rightarrow> 'v memory_cache \<Rightarrow> 'v memory_cache" where
  "replace_entry k f c = c\<lparr>mc_cache := map (\<lambda>e. if en_key e = k then f e else e) (mc_cache c)\<rparr>"

text \<open>
  \<open>incr\<close> and \<open>decr\<close> store a zero for a key that is not there and then assign to it; \<open>f\<close> is the addition
  or the subtraction.
\<close>

definition value_at :: "string \<Rightarrow> 'v \<Rightarrow> 'v memory_cache \<Rightarrow> 'v" where
  "value_at k zero c = (case find_entry k c of None \<Rightarrow> zero | Some e \<Rightarrow> en_value e)"

definition bump_entry :: "string \<Rightarrow> 'v \<Rightarrow> ('v \<Rightarrow> 'v) \<Rightarrow> 'v memory_cache \<Rightarrow> 'v memory_cache \<times> 'v" where
  "bump_entry k zero f c =
     (let c1 = (if cache_exists k c then c else cache_set k zero None c); v = f (value_at k zero c1)
      in (replace_entry k (\<lambda>e. e\<lparr>en_value := v\<rparr>) c1, v))"

definition cache_incr :: "string \<Rightarrow> int \<Rightarrow> int memory_cache \<Rightarrow> int memory_cache \<times> int" where
  "cache_incr k delta c = bump_entry k 0 (\<lambda>v. v + delta) c"

definition cache_decr :: "string \<Rightarrow> int \<Rightarrow> int memory_cache \<Rightarrow> int memory_cache \<times> int" where
  "cache_decr k delta c = (case bump_entry k 0 (\<lambda>v. v - delta) c of (c', v) \<Rightarrow> (c', max 0 v))"

definition cache_expire :: "string \<Rightarrow> rat \<Rightarrow> 'v memory_cache \<Rightarrow> 'v memory_cache \<times> bool" where
  "cache_expire k seconds c =
     (if \<not> cache_exists k c then (c, False)
      else (replace_entry k (\<lambda>e. e\<lparr>en_expire := min (en_expire e + seconds) (86400 * 30)\<rparr>) c, True))"

definition cache_ttl :: "string \<Rightarrow> 'v memory_cache \<Rightarrow> rat" where
  "cache_ttl k c = (case find_entry k c of None \<Rightarrow> -1 | Some e \<Rightarrow> max 0 (en_expire e))"

definition cache_flushall :: "'v memory_cache \<Rightarrow> 'v memory_cache" where
  "cache_flushall c = c\<lparr>mc_cache := []\<rparr>"

section \<open>Decorators\<close>

text \<open>The coroutine: a change of the world, and a value or an exception.\<close>

type_synonym ('w, 'v) coroutine = "'w \<Rightarrow> 'w \<times> 'v result"

record ('r, 'v) cache_ops =
  k_get :: "string \<Rightarrow> 'r \<Rightarrow> 'r \<times> 'v option option"
  k_set :: "string \<Rightarrow> 'v \<Rightarrow> int \<Rightarrow> 'r \<Rightarrow> 'r \<times> bool"

text \<open>\<open>@cached\<close>: every exception below the \<open>try\<close>, that of the coroutine included, runs the coroutine again.\<close>

definition cached ::
  "('r, 'v) cache_ops \<Rightarrow> int \<Rightarrow> string \<Rightarrow> ('w, 'v) coroutine \<Rightarrow> 'r \<Rightarrow> 'w \<Rightarrow> 'r \<times> 'w \<times> 'v result" where
  "cached ops ttl key func r w =
     (case k_get ops key r of
        (r1, None) \<Rightarrow> (r1, func w)
      | (r1, Some (Some v)) \<Rightarrow> (r1, w, Inr v)
      | (r1, Some None) \<Rightarrow>
          (case func w of
             (w1, Inl e) \<Rightarrow> (r1, func w1)
           | (w1, Inr v) \<Rightarrow>
               (case k_set ops key v ttl r1 of
                  (r2, True) \<Rightarrow> (r2, w1, Inr v)
                | (r2, False) \<Rightarrow> (r2, func w1))))"

record 'r lock_ops =
  l_setnx :: "string \<Rightarrow> string \<Rightarrow> int \<Rightarrow> 'r \<Rightarrow> 'r \<times> bool option"
  l_delete :: "string \<Rightarrow> 'r \<Rightarrow> 'r \<times> bool"

definition some_result :: "'v result \<Rightarrow> 'v option result" where
  "some_result x = (case x of Inl e \<Rightarrow> Inl e | Inr v \<Rightarrow> Inr (Some v))"

text \<open>\<open>@distributed_lock\<close>: \<open>None\<close> when the lock is held.\<close>

definition distributed_lock ::
  "'r lock_ops \<Rightarrow> string \<Rightarrow> int \<Rightarrow> ('w, 'v) coroutine \<Rightarrow> 'r \<Rightarrow> 'w \<Rightarrow> 'r \<times> 'w \<times> 'v option result" where
  "distributed_lock ops key timeout func r w =
     (let lock_key = ''lock:'' @ key;
          unlocked = (\<lambda>w. case func w of (w', x) \<Rightarrow> (w', some_result x))
      in case l_setnx ops lock_key ''locked'' timeout r of
           (r1, None) \<Rightarrow> (r1, unlocked w)
         | (r1, Some False) \<Rightarrow> (r1, w, Inr None)
         | (r1, Some True) \<Rightarrow>
             (case func w of (w1, x) \<Rightarrow>
                (case l_delete ops lock_key r1 of (r2, ok) \<Rightarrow>
                   (case (x, ok) of
                      (Inr v, True) \<Rightarrow> (r2, w1, Inr (Some v))
                    | _ \<Rightarrow> (r2, unlocked w1)))))"

section \<open>The cache keeps what was used last\<close>

definition cache_ok :: "'v memory_cache \<Rightarrow> bool" where
  "cache_ok c \<longleftrightarrow> distinct (map en_key (mc_cache c)) \<and> length (mc_cache c) \<le> mc_maxsize c \<and> 0 < mc_maxsize c"

text \<open>\<open>Bump\<close> stands for \<open>incr\<close> and \<open>decr\<close>, with the zero and the change of the value.\<close>

datatype 'v cache_op = Get string | Set string 'v "rat option" | Delete string | Expire string rat | Exists string
  | Bump string 'v "'v \<Rightarrow> 'v" | Flush

fun run_cache :: "'v cache_op \<Rightarrow> 'v memory_cache \<Rightarrow> 'v memory_cache" where
  "run_cache (Get k) c = fst (cache_get k c)"
| "run_cache (Set k v x) c = cache_set k v x c"
| "run_cache (Delete k) c = fst (cache_delete k c)"
| "run_cache (Expire k x) c = fst (cache_expire k x c)"
| "run_cache (Exists k) c = c"
| "run_cache (Bump k z f) c = fst (bump_entry k z f c)"
| "run_cache Flush c = cache_flushall c"

lemma run_cache_incr: "run_cache (Bump k 0 (\<lambda>v. v + delta)) c = fst (cache_incr k delta c)"
  by (simp add: cache_incr_def)

lemma run_cache_decr: "run_cache (Bump k 0 (\<lambda>v. v - delta)) c = fst (cache_decr k delta c)"
  by (simp add: cache_decr_def split: prod.splits)

text \<open>The key that an operation reads or writes.\<close>

fun used_key :: "'v cache_op \<Rightarrow> string set" where
  "used_key (Get k) = {k}"
| "used_key (Set k v x) = {k}"
| "used_key (Bump k z f) = {k}"
| "used_key _ = {}"

fun drops_key :: "string \<Rightarrow> 'v cache_op \<Rightarrow> bool" where
  "drops_key k (Set k' v x) = (k' = k)"
| "drops_key k (Delete k') = (k' = k)"
| "drops_key k (Bump k' z f) = (k' = k)"
| "drops_key k Flush = True"
| "drops_key k _ = False"

lemma cache_exists_iff: "cache_exists k c \<longleftrightarrow> k \<in> en_key ` set (mc_cache c)"
  by (auto simp: cache_exists_def)

lemma find_entry_None: "find_entry k c = None \<longleftrightarrow> \<not> cache_exists k c"
  by (auto simp: find_entry_def cache_exists_def find_None_iff)

lemma find_entry_SomeD: "find_entry k c = Some e \<Longrightarrow> e \<in> set (mc_cache c) \<and> en_key e = k"
  by (auto simp: find_entry_def find_Some_iff)

lemma find_entry_iff:
  assumes "distinct (map en_key (mc_cache c))"
  shows "find_entry k c = Some e \<longleftrightarrow> e \<in> set (mc_cache c) \<and> en_key e = k"
proof
  assume e: "e \<in> set (mc_cache c) \<and> en_key e = k"
  then have "cache_exists k c" by (auto simp: cache_exists_def)
  then obtain e' where e': "find_entry k c = Some e'" using find_entry_None by fastforce
  with e find_entry_SomeD[OF e'] assms have "e' = e" by (metis distinct_map inj_onD)
  with e' show "find_entry k c = Some e" by simp
qed (rule find_entry_SomeD)

lemma length_without_key:
  assumes "distinct (map en_key es)" "k \<in> en_key ` set es"
  shows "Suc (length (without_key k es)) = length es"
proof -
  from assms(2) obtain e where e: "e \<in> set es" "en_key e = k" by auto
  have "filter (\<lambda>x. en_key x = k) es = [e]"
    using assms(1) e
  proof (induction es)
    case (Cons a es)
    then show ?case by (cases "a = e") (auto simp: filter_empty_conv image_iff)
  qed simp
  moreover have "length es = length (filter (\<lambda>x. en_key x = k) es) + length (without_key k es)"
    unfolding without_key_def by (rule sum_length_filter_compl[symmetric])
  ultimately show ?thesis by simp
qed

lemma distinct_without_key: "distinct (map en_key es) \<Longrightarrow> distinct (map en_key (without_key k es))"
  by (simp add: without_key_def distinct_map_filter)

lemma set_without_key [simp]: "set (without_key k es) = {e \<in> set es. en_key e \<noteq> k}"
  by (simp add: without_key_def)

lemma map_replace:
  assumes "\<And>e. en_key (f e) = en_key e"
  shows "map en_key (mc_cache (replace_entry k f c)) = map en_key (mc_cache c)"
  using assms by (simp add: replace_entry_def)

lemma cache_set_ok:
  assumes "cache_ok c"
  shows "cache_ok (cache_set k v x c)"
proof -
  let ?es = "mc_cache c"
  have "distinct (map en_key (tl ?es))" "set (tl ?es) \<subseteq> set ?es"
    using assms by (auto simp: cache_ok_def map_tl distinct_tl dest: list.set_sel(2)[rotated])
       (metis list.sel(2) list.set_sel(2))
  then show ?thesis
    using assms length_without_key[of ?es k] distinct_without_key[of ?es k]
    by (auto simp: cache_ok_def cache_set_def Let_def cache_exists_iff)
qed

lemma replace_entry_ok:
  assumes "cache_ok c" "\<And>e. en_key (f e) = en_key e"
  shows "cache_ok (replace_entry k f c)" "mc_maxsize (replace_entry k f c) = mc_maxsize c"
proof -
  have m: "map en_key (mc_cache (replace_entry k f c)) = map en_key (mc_cache c)" by (rule map_replace) (rule assms(2))
  show "cache_ok (replace_entry k f c)" unfolding cache_ok_def m using assms(1) by (simp add: cache_ok_def replace_entry_def)
qed (simp add: replace_entry_def)

lemma run_cache_ok:
  assumes "cache_ok c"
  shows "cache_ok (run_cache x c) \<and> mc_maxsize (run_cache x c) = mc_maxsize c"
proof (cases x)
  case (Get k)
  show ?thesis
  proof (cases "find_entry k c")
    case (Some e)
    from find_entry_SomeD[OF this] have "k \<in> en_key ` set (mc_cache c)" "en_key e = k" by auto
    with Get Some assms length_without_key[of "mc_cache c" k] distinct_without_key[of "mc_cache c" k] show ?thesis
      by (auto simp: cache_ok_def cache_get_def)
  qed (use Get assms in \<open>simp add: cache_get_def\<close>)
next
  case (Set k v t)
  with cache_set_ok[OF assms] show ?thesis by (simp add: cache_set_def Let_def)
next
  case (Delete k)
  have "length (without_key k (mc_cache c)) \<le> length (mc_cache c)" by (simp add: without_key_def)
  with Delete assms distinct_without_key[of "mc_cache c" k] show ?thesis by (simp add: cache_ok_def cache_delete_def)
next
  case (Expire k t)
  with assms replace_entry_ok[OF assms] show ?thesis by (simp add: cache_expire_def)
next
  case (Bump k z f)
  define c1 where "c1 = (if cache_exists k c then c else cache_set k z None c)"
  have c1: "cache_ok c1" using assms cache_set_ok[OF assms] by (simp add: c1_def)
  have m: "mc_maxsize c1 = mc_maxsize c" by (simp add: c1_def cache_set_def Let_def)
  have "run_cache x c = replace_entry k (\<lambda>e. e\<lparr>en_value := f (value_at k z c1)\<rparr>) c1"
    by (simp add: Bump bump_entry_def Let_def c1_def)
  with replace_entry_ok[OF c1] m show ?thesis by simp
qed (use assms in \<open>simp_all add: cache_ok_def cache_flushall_def\<close>)

text \<open>The entries behind an entry of the cache are those that were used after it.\<close>

definition behind :: "string \<Rightarrow> 'v \<Rightarrow> string set \<Rightarrow> 'v memory_cache \<Rightarrow> bool" where
  "behind k v used c \<longleftrightarrow>
     (\<exists>xs e ys. mc_cache c = xs @ e # ys \<and> en_key e = k \<and> en_value e = v \<and> en_key ` set ys \<subseteq> used)"

lemma behind_found:
  assumes "behind k v used c" "cache_ok c"
  shows "snd (cache_get k c) = Some v"
proof -
  from assms(1) obtain xs e ys where "mc_cache c = xs @ e # ys" "en_key e = k" "en_value e = v" by (auto simp: behind_def)
  then have "e \<in> set (mc_cache c)" "en_key e = k" "en_value e = v" by simp_all
  with assms(2) find_entry_iff[of c k e] show ?thesis by (simp add: cache_get_def cache_ok_def)
qed

lemma behindI: "mc_cache c = xs @ e # ys \<Longrightarrow> en_key e = k \<Longrightarrow> en_value e = v \<Longrightarrow> en_key ` set ys \<subseteq> used \<Longrightarrow> behind k v used c"
  by (auto simp: behind_def)

lemma behind_set_self: "behind k v used (cache_set k v x c)"
  unfolding cache_set_def Let_def 
  by (rule behindI[where ys = "[]" and e = "\<lparr>en_key = k, en_value = v, en_expire = get_default 0 x\<rparr>"]) simp_all

lemma behind_moved:
  assumes "behind k v used c" "k' \<noteq> k" "mc_cache c' = without_key k' (mc_cache c) @ [e']" "en_key e' = k'"
  shows "behind k v (insert k' used) c'"
proof -
  from assms(1) obtain xs e ys where c: "mc_cache c = xs @ e # ys" "en_key e = k" "en_value e = v" "en_key ` set ys \<subseteq> used"
    by (auto simp: behind_def)
  show ?thesis
  proof (rule behindI)
    show "mc_cache c' = without_key k' xs @ e # (without_key k' ys @ [e'])"
      using assms(2,3) c(1,2) by (simp add: without_key_def)
  qed (use c assms(4) in auto)
qed

lemma behind_get:
  assumes "behind k v used c" "cache_ok c"
  shows "behind k v (used \<union> ({k'} - {k})) (fst (cache_get k' c))"
proof (cases "find_entry k' c")
  case None
  from assms(1) obtain xs e ys where "mc_cache c = xs @ e # ys" "en_key e = k" "en_value e = v" "en_key ` set ys \<subseteq> used"
    by (auto simp: behind_def)
  with None show ?thesis by (intro behindI[of _ xs e ys]) (auto simp: cache_get_def)
next
  case (Some e')
  note e' = find_entry_SomeD[OF Some]
  show ?thesis
  proof (cases "k' = k")
    case True
    have "snd (cache_get k c) = Some v" by (rule behind_found[OF assms])
    with True Some e' show ?thesis
      by (intro behindI[where ys = "[]" and e = e' and xs = "without_key k (mc_cache c)"]) (auto simp: cache_get_def)
  next
    case False
    with behind_moved[OF assms(1) False, of "fst (cache_get k' c)" e'] Some e' show ?thesis by (simp add: cache_get_def)
  qed
qed

lemma behind_set:
  assumes "behind k v used c" "cache_ok c" "k' \<noteq> k" "finite used" "card (insert k' used) < mc_maxsize c"
  shows "behind k v (insert k' used) (cache_set k' v' x c)"
proof (cases "cache_exists k' c")
  case True
  then show ?thesis
    by (intro behind_moved[OF assms(1,3), where e' = "\<lparr>en_key = k', en_value = v', en_expire = get_default 0 x\<rparr>"])
      (simp_all add: cache_set_def)
next
  case False
  let ?new = "\<lparr>en_key = k', en_value = v', en_expire = get_default 0 x\<rparr>"
  from assms(1) obtain xs e ys where c: "mc_cache c = xs @ e # ys" "en_key e = k" "en_value e = v" "en_key ` set ys \<subseteq> used"
    by (auto simp: behind_def)
  have nonempty: "xs \<noteq> []" if "mc_maxsize c \<le> length (mc_cache c)"
  proof
    assume "xs = []"
    have d: "distinct (map en_key ys)" "k' \<notin> set (map en_key ys)"
      using assms(2) False c(1) by (auto simp: cache_ok_def cache_exists_def)
    have "mc_maxsize c \<le> Suc (length ys)" using that c(1) \<open>xs = []\<close> by simp
    also have "\<dots> = card (insert k' (set (map en_key ys)))" using d distinct_card[OF d(1)] by simp
    also have "\<dots> \<le> card (insert k' used)" using c(4) assms(4) by (intro card_mono) auto
    finally show False using assms(5) by simp
  qed
  show ?thesis
  proof (rule behindI)
    show "mc_cache (cache_set k' v' x c) = (if mc_maxsize c \<le> length (mc_cache c) then tl xs else xs) @ e # (ys @ [?new])"
      using False c(1) nonempty by (cases xs) (auto simp: cache_set_def)
  qed (use c in auto)
qed

lemma behind_replace:
  assumes "behind k v used c" "\<And>e. en_key (f e) = en_key e" "k' \<noteq> k \<or> (\<forall>e. en_value (f e) = en_value e)"
  shows "behind k v used (replace_entry k' f c)"
proof -
  let ?f = "\<lambda>e. if en_key e = k' then f e else e"
  from assms(1) obtain xs e ys where c: "mc_cache c = xs @ e # ys" "en_key e = k" "en_value e = v" "en_key ` set ys \<subseteq> used"
    by (auto simp: behind_def)
  show ?thesis
  proof (rule behindI)
    show "mc_cache (replace_entry k' f c) = map ?f xs @ ?f e # map ?f ys" using c(1) by (simp add: replace_entry_def)
  qed (use c assms(2,3) in auto)
qed

lemma behind_mono: "behind k v used c \<Longrightarrow> used \<subseteq> used' \<Longrightarrow> behind k v used' c"
  unfolding behind_def by blast

lemma behind_run:
  assumes "behind k v used c" "cache_ok c" "finite used" "\<not> drops_key k x" "card (used \<union> (used_key x - {k})) < mc_maxsize c"
  shows "behind k v (used \<union> (used_key x - {k})) (run_cache x c)"
proof (cases x)
  case (Get k')
  with behind_get[OF assms(1,2)] show ?thesis by simp
next
  case (Set k' v' t)
  with behind_set[OF assms(1,2) _ assms(3), of k' v' t] assms(4,5) show ?thesis by (simp add: insert_Diff_if)
next
  case (Delete k')
  from assms(1) obtain xs e ys where c: "mc_cache c = xs @ e # ys" "en_key e = k" "en_value e = v" "en_key ` set ys \<subseteq> used"
    by (auto simp: behind_def)
  show ?thesis
  proof (rule behindI)
    show "mc_cache (run_cache x c) = without_key k' xs @ e # without_key k' ys"
      using Delete assms(4) c(1,2) by (auto simp: cache_delete_def without_key_def)
  qed (use c in auto)
next
  case (Expire k' t)
  with behind_replace[OF assms(1), of _ k'] assms(1) show ?thesis by (simp add: cache_expire_def)
next
  case (Bump k' z f)
  then have k': "k' \<noteq> k" using assms(4) by simp
  define c1 where "c1 = (if cache_exists k' c then c else cache_set k' z None c)"
  have "behind k v (insert k' used) c1"
    using behind_set[OF assms(1,2) k' assms(3), of z None] behind_mono[OF assms(1), of "insert k' used"] assms(5) Bump k'
    by (auto simp: c1_def insert_Diff_if)
  moreover have "run_cache x c = replace_entry k' (\<lambda>e. e\<lparr>en_value := f (value_at k' z c1)\<rparr>) c1"
    by (simp add: Bump bump_entry_def Let_def c1_def)
  ultimately show ?thesis using behind_replace[of k v "insert k' used" c1 "\<lambda>e. e\<lparr>en_value := f (value_at k' z c1)\<rparr>" k'] k' Bump
    by (simp add: insert_Diff_if)
qed (use assms(1,4) in simp_all)

lemma behind_runs:
  assumes "behind k v used c" "cache_ok c" "finite used" "\<forall>x\<in>set xs. \<not> drops_key k x"
    and "card (used \<union> (\<Union>(used_key ` set xs) - {k})) < mc_maxsize c"
  shows "behind k v (used \<union> (\<Union>(used_key ` set xs) - {k})) (fold run_cache xs c) \<and> cache_ok (fold run_cache xs c)"
  using assms
proof (induction xs arbitrary: c used)
  case (Cons x xs)
  let ?u = "used \<union> (used_key x - {k})"
  have fin: "finite (used_key y)" for y :: "'a cache_op" by (cases y) simp_all
  have eq: "?u \<union> (\<Union>(used_key ` set xs) - {k}) = used \<union> (\<Union>(used_key ` set (x # xs)) - {k})" by auto
  have "card ?u \<le> card (used \<union> (\<Union>(used_key ` set (x # xs)) - {k}))"
    using Cons.prems(3) fin by (intro card_mono) auto
  with Cons.prems(5) have "card ?u < mc_maxsize c" by linarith
  with behind_run[OF Cons.prems(1,2,3), of x] Cons.prems(4) have "behind k v ?u (run_cache x c)" by simp
  moreover have "cache_ok (run_cache x c)" "mc_maxsize (run_cache x c) = mc_maxsize c"
    using run_cache_ok[OF Cons.prems(2)] by blast+
  ultimately show ?case using Cons.IH[of ?u "run_cache x c"] Cons.prems(3,4,5) fin by (simp add: eq)
qed simp

section \<open>The lock\<close>

text \<open>A section that fails, or whose lock cannot be released, is run a second time on what the first run left.\<close>

lemma failed_section_runs_twice:
  assumes "l_setnx ops (''lock:'' @ key) ''locked'' timeout r = (r1, Some True)" "l_delete ops (''lock:'' @ key) r1 = (r2, ok)"
    and "func w = (w1, x)" "\<not> ok \<or> (\<exists>e. x = Inl e)" "func w1 = (w2, y)"
  shows "distributed_lock ops key timeout func r w = (r2, w2, some_result y)"
  using assms by (cases x; cases ok) (auto simp: distributed_lock_def)

text \<open>
  The lock among several callers: the stored deadline, the callers that run with the time they
  started, and the clock. Releasing deletes the key whoever set it.
\<close>

record lock_state =
  ls_lock :: "int option"
  ls_running :: "(nat \<times> int) list"
  ls_clock :: int

inductive lock_step :: "int \<Rightarrow> lock_state \<Rightarrow> lock_state \<Rightarrow> bool" for timeout where
  acquire: "(\<forall>t. ls_lock s = Some t \<longrightarrow> t \<le> ls_clock s) \<Longrightarrow> p \<notin> fst ` set (ls_running s) \<Longrightarrow>
    lock_step timeout s (s\<lparr>ls_lock := Some (ls_clock s + timeout), ls_running := (p, ls_clock s) # ls_running s\<rparr>)"
| release: "(p, t) \<in> set (ls_running s) \<Longrightarrow>
    lock_step timeout s (s\<lparr>ls_lock := None, ls_running := filter (\<lambda>q. fst q \<noteq> p) (ls_running s)\<rparr>)"
| wait: "0 \<le> n \<Longrightarrow> lock_step timeout s (s\<lparr>ls_clock := ls_clock s + n\<rparr>)"

inductive lock_reachable :: "int \<Rightarrow> lock_state \<Rightarrow> bool" for timeout where
  start: "ls_lock s = None \<Longrightarrow> ls_running s = [] \<Longrightarrow> lock_reachable timeout s"
| step: "lock_reachable timeout s \<Longrightarrow> lock_step timeout s s' \<Longrightarrow> lock_reachable timeout s'"

text \<open>The states in which no section has outlived its lock.\<close>

definition in_time :: "int \<Rightarrow> lock_state \<Rightarrow> bool" where
  "in_time timeout s \<longleftrightarrow> (\<forall>(p, t)\<in>set (ls_running s). ls_clock s < t + timeout)"

inductive lock_timely :: "int \<Rightarrow> lock_state \<Rightarrow> bool" for timeout where
  start: "ls_lock s = None \<Longrightarrow> ls_running s = [] \<Longrightarrow> lock_timely timeout s"
| step: "lock_timely timeout s \<Longrightarrow> lock_step timeout s s' \<Longrightarrow> in_time timeout s' \<Longrightarrow> lock_timely timeout s'"

lemma lock_timely_exclusive:
  "lock_timely timeout s \<Longrightarrow> in_time timeout s \<and>
     (ls_running s = [] \<or> (\<exists>p t. ls_running s = [(p, t)] \<and> ls_lock s = Some (t + timeout)))"
proof (induction rule: lock_timely.induct)
  case (start s)
  then show ?case by (simp add: in_time_def)
next
  case (step s s')
  from step.hyps(2) show ?case
  proof cases
    case (acquire p)
    then have "ls_running s = []" using step.IH by (auto simp: in_time_def)
    with acquire step.hyps(3) show ?thesis by simp
  next
    case (release p t)
    then show ?thesis using step.IH step.hyps(3) by auto
  next
    case (wait n)
    then show ?thesis using step.IH step.hyps(3) by auto
  qed
qed

end
