(* ===== verification/Waybills.thy ===== *)
theory Waybills
  imports Notification Float64 "HOL-Library.Sublist"
begin

text \<open>
  Electronic waybills: \<open>src/logistics/carriers.py\<close>, \<open>src/logistics/kdniao.py\<close> and \<open>src/logistics/service.py\<close>.
  Carriers are their codes (\<open>CarrierCode\<close> is a \<open>StrEnum\<close>). The MD5 digest and the HTTP calls of the carrier
  interfaces are parameters.
\<close>

section \<open>Carriers\<close>

definition valid_carriers :: "string list" where
  "valid_carriers = [''sf'', ''zto'', ''yto'', ''sto'', ''yunda'', ''ems'', ''jd'']"

definition waybill_carrier_names :: "(string \<times> string) list" where
  "waybill_carrier_names =
    [(''sf'', utf8 [233,161,186,228,184,176,233,128,159,232,191,144]),
     (''zto'', utf8 [228,184,173,233,128,154,229,191,171,233,128,146]),
     (''yto'', utf8 [229,156,134,233,128,154,233,128,159,233,128,146]),
     (''sto'', utf8 [231,148,179,233,128,154,229,191,171,233,128,146]),
     (''yunda'', utf8 [233,159,181,232,190,190,229,191,171,233,128,146]),
     (''ems'', utf8 [69,77,83,233,130,174,230,148,191]),
     (''jd'', utf8 [228,186,172,228,184,156,231,137,169,230,181,129])]"

definition carrier_tracking_urls :: "(string \<times> string) list" where
  "carrier_tracking_urls =
    [(''sf'', ''https://www.sf-express.com/we/ow/chn/sc/waybill/waybill-detail/''),
     (''zto'', ''https://track.zto.com/?nu={tracking}''),
     (''yto'', ''https://www.yto.net.cn/tracking/{tracking}''),
     (''sto'', ''https://www.sto.cn/track?waybillNo={tracking}''),
     (''yunda'', ''https://www.yundaex.com/track/{tracking}''),
     (''ems'', ''https://www.ems.com.cn/track?trackNum={tracking}''),
     (''jd'', ''https://www.jdl.com/tracking?waybill={tracking}'')]"

text \<open>\<open>str.lower\<close> and \<open>str.upper\<close> on code points below 256, of which \<open>upper\<close> is used on hexadecimal digits only.\<close>

definition lower_char :: "char \<Rightarrow> char" where
  "lower_char ch =
     (let c = of_char ch :: nat in
      if (65 \<le> c \<and> c \<le> 90) \<or> (192 \<le> c \<and> c \<le> 222 \<and> c \<noteq> 215) then char_of (c + 32) else ch)"

definition upper_char :: "char \<Rightarrow> char" where
  "upper_char ch = (let c = of_char ch :: nat in if 97 \<le> c \<and> c \<le> 122 then char_of (c - 32) else ch)"

definition validate_carrier :: "string \<Rightarrow> string option" where
  "validate_carrier carrier = (let c = map lower_char carrier in if c \<in> set valid_carriers then Some c else None)"

definition carrier_prefixes :: "(string \<times> string) list" where
  "carrier_prefixes = [(''sf'', ''SF''), (''zto'', ''ZT''), (''yto'', ''YT''), (''sto'', ''ST''), (''yunda'', ''YD''),
     (''ems'', ''EM''), (''jd'', ''JD'')]"

text \<open>\<open>dict.get(key, default)\<close>\<close>

definition get_or :: "string \<Rightarrow> (string \<times> string) list \<Rightarrow> string \<Rightarrow> string" where
  "get_or dflt m k = get_default dflt (map_of m k)"

text \<open>The date is \<open>%y%m%d\<close>, the other date of the environment without the century.\<close>

definition generate_tracking_number :: "env \<Rightarrow> (string \<Rightarrow> string) \<Rightarrow> string \<Rightarrow> string \<Rightarrow> 'a core_db_scheme \<Rightarrow> 'a core_db_scheme \<times> string" where
  "generate_tracking_number env md5 carrier order_id d =
     (let prefix = get_or ''XX'' carrier_prefixes carrier; today = drop 2 (ymd env)
      in if order_id \<noteq> [] then (d, prefix @ today @ map upper_char (take 8 (md5 order_id)))
         else (tick d, prefix @ today @ map upper_char (take 8 (uuid_hex (new_uuid env d)))))"

text \<open>\<open>str.replace\<close> and the test \<open>"..." in s\<close> for a text that is not empty.\<close>

fun str_prefix :: "string \<Rightarrow> string \<Rightarrow> bool" where
  "str_prefix [] s = True"
| "str_prefix (p # ps) [] = False"
| "str_prefix (p # ps) (c # s) = (p = c \<and> str_prefix ps s)"

fun str_contains :: "string \<Rightarrow> string \<Rightarrow> bool" where
  "str_contains p [] = str_prefix p []"
| "str_contains p (c # s) = (str_prefix p (c # s) \<or> str_contains p s)"

function str_replace :: "string \<Rightarrow> string \<Rightarrow> string \<Rightarrow> string" where
  "str_replace old new s =
     (if old = [] \<or> s = [] then s
      else if str_prefix old s then new @ str_replace old new (drop (length old) s)
      else hd s # str_replace old new (tl s))"
  by pat_completeness auto
termination
proof (relation "measure (\<lambda>(old, new, s). length s)", goal_cases)
  case (2 old new s)
  then show ?case by (cases old; cases s) auto
next
  case (3 old new s)
  then show ?case by (cases s) auto
qed simp

declare str_replace.simps [simp del]

definition get_tracking_url :: "string \<Rightarrow> string \<Rightarrow> string" where
  "get_tracking_url carrier tracking_number =
     (let template = get_or [] carrier_tracking_urls carrier in
      if template = [] then []
      else if str_contains ''{tracking}'' template then str_replace ''{tracking}'' tracking_number template
      else template @ tracking_number)"

definition callback_prefixes :: "(string \<times> string) list" where
  "callback_prefixes = [(''sf'', ''sf''), (''zt'', ''zto''), (''yt'', ''yto''), (''st'', ''sto''), (''yd'', ''yunda''),
     (''em'', ''ems''), (''jd'', ''jd'')]"

definition print_callback_url :: "string \<Rightarrow> string" where
  "print_callback_url tracking_number =
     (let prefix = (if 2 \<le> length tracking_number then map lower_char (take 2 tracking_number) else ''xx'')
      in get_tracking_url (get_or ''zto'' callback_prefixes prefix) tracking_number)"

section \<open>Tracking and estimates\<close>

definition mock_status :: "string \<Rightarrow> string \<times> string" where
  "mock_status tracking_number =
     (let hash_val = sum_list (map of_char tracking_number) mod (100::nat) in
      if hash_val < 20 then (''picked_up'', utf8 [229,183,178,230,143,189,230,148,182])
      else if hash_val < 50 then (''in_transit'', utf8 [232,191,144,232,190,147,228,184,173,32,226,128,148,32,229,136,176,232,190,190,228,184,173,232,189,172,231,171,153])
      else if hash_val < 80 then (''out_for_delivery'', utf8 [230,180,190,233,128,129,228,184,173])
      else if hash_val < 95 then (''delivered'', utf8 [229,183,178,231,173,190,230,148,182])
      else (''pending'', utf8 [231,173,137,229,190,133,230,143,189,230,148,182]))"

record tracking_view =
  tv_carrier :: string
  tv_carrier_name :: string
  tv_tracking_number :: string
  tv_status :: string
  tv_status_detail :: string
  tv_estimated_delivery :: string
  tv_tracking_url :: string
  tv_events :: "(string \<times> string \<times> string) list"

text \<open>\<open>isoformat\<close> is the text of the current time.\<close>

definition mock_tracking :: "string \<Rightarrow> string \<Rightarrow> string \<Rightarrow> tracking_view" where
  "mock_tracking isoformat carrier tracking_number =
     (case mock_status tracking_number of (status, detail) \<Rightarrow>
        \<lparr>tv_carrier = carrier, tv_carrier_name = get_or [] waybill_carrier_names carrier,
         tv_tracking_number = tracking_number, tv_status = status, tv_status_detail = detail,
         tv_estimated_delivery = take 10 isoformat, tv_tracking_url = get_tracking_url carrier tracking_number,
         tv_events = [(isoformat, utf8 [228,184,138,230,181,183,232,189,172,232,191,144,228,184,173,229,191,131], detail)]\<rparr>)"

text \<open>The answer of a carrier interface, of which every field may be missing.\<close>

record tracking_data =
  td_status :: "string option"
  td_detail :: "string option"
  td_estimated_delivery :: "string option"
  td_events :: "(string \<times> string \<times> string) list option"

definition query_tracking ::
  "(string \<Rightarrow> string option) \<Rightarrow> (string \<Rightarrow> string \<Rightarrow> tracking_data option) \<Rightarrow> string \<Rightarrow> string \<Rightarrow> string \<Rightarrow> tracking_view" where
  "query_tracking endpoints fetch isoformat carrier tracking_number =
     (let api_url = get_default [] (endpoints carrier) in
      case (if api_url = [] then None else fetch api_url tracking_number) of
        None \<Rightarrow> mock_tracking isoformat carrier tracking_number
      | Some data \<Rightarrow>
          \<lparr>tv_carrier = carrier, tv_carrier_name = get_or [] waybill_carrier_names carrier,
           tv_tracking_number = tracking_number, tv_status = get_default ''unknown'' (td_status data),
           tv_status_detail = get_default [] (td_detail data),
           tv_estimated_delivery = get_default [] (td_estimated_delivery data),
           tv_tracking_url = get_tracking_url carrier tracking_number, tv_events = get_default [] (td_events data)\<rparr>)"

record estimate_view =
  ev_carrier :: string
  ev_carrier_name :: string
  ev_estimated_cost_yuan :: rat
  ev_estimated_days :: int
  ev_weight_kg :: rat

definition base_rates :: "(string \<times> rat \<times> int) list" where
  "base_rates = [(''sf'', 18, 2), (''zto'', 8, 3), (''yto'', 8, 3), (''sto'', 8, 4), (''yunda'', 8, 3), (''ems'', 15, 3), (''jd'', 12, 2)]"

definition mock_estimate :: "string \<Rightarrow> rat \<Rightarrow> estimate_view" where
  "mock_estimate carrier weight_kg =
     (let (base_cost, days) = get_default (10, 4) (map_of base_rates carrier);
          cost = fadd base_cost (fmul (max 0 (fadd weight_kg (-1))) 5)
      in \<lparr>ev_carrier = carrier, ev_carrier_name = get_or [] waybill_carrier_names carrier,
          ev_estimated_cost_yuan = fround 2 cost, ev_estimated_days = days, ev_weight_kg = weight_kg\<rparr>)"

definition estimate_shipping ::
  "(string \<Rightarrow> string option) \<Rightarrow> (string \<Rightarrow> rat \<Rightarrow> (rat option \<times> int option) option) \<Rightarrow> string \<Rightarrow> rat \<Rightarrow> estimate_view" where
  "estimate_shipping endpoints post carrier weight_kg =
     (let api_url = get_default [] (endpoints carrier) in
      case (if api_url = [] then None else post api_url weight_kg) of
        None \<Rightarrow> mock_estimate carrier weight_kg
      | Some (cost, days) \<Rightarrow>
          \<lparr>ev_carrier = carrier, ev_carrier_name = get_or [] waybill_carrier_names carrier,
           ev_estimated_cost_yuan = get_default 0 cost, ev_estimated_days = get_default 3 days, ev_weight_kg = weight_kg\<rparr>)"

text \<open>
  The second client, of \<open>src/logistics/kdniao.py\<close>, answers from its own tables; without an order the
  number ends in the digest of the local time.
\<close>

definition kdniao_generate_tracking_number :: "env \<Rightarrow> (string \<Rightarrow> string) \<Rightarrow> (string \<Rightarrow> string) \<Rightarrow> string \<Rightarrow> string \<Rightarrow> string \<Rightarrow> string" where
  "kdniao_generate_tracking_number env md5 sha1 str_now carrier order_id =
     (let prefix = get_or ''XX'' carrier_prefixes carrier; today = drop 2 (ymd env);
          suffix = (if order_id \<noteq> [] then map upper_char (take 8 (md5 order_id))
            else concat (map (\<lambda>i. map upper_char (take 4 (drop (4 * i) (sha1 str_now)))) [0..<8]))
      in prefix @ today @ suffix)"

definition kdniao_carrier_names :: "(string \<times> string) list" where
  "kdniao_carrier_names = map (\<lambda>(c, n). (c, if c = ''ems'' then utf8 [69,77,83,32,233,130,174,230,148,191] else n)) waybill_carrier_names"

record kdniao_order_view =
  kv_tracking_number :: string
  kv_carrier :: string
  kv_carrier_name :: string
  kv_print_callback_url :: string
  kv_status :: string

definition kdniao_create_waybill :: "env \<Rightarrow> (string \<Rightarrow> string) \<Rightarrow> (string \<Rightarrow> string) \<Rightarrow> string \<Rightarrow> string \<Rightarrow> string \<Rightarrow> kdniao_order_view" where
  "kdniao_create_waybill env md5 sha1 str_now order_id carrier_code =
     (let tracking = kdniao_generate_tracking_number env md5 sha1 str_now carrier_code order_id;
          url = get_tracking_url carrier_code tracking
      in \<lparr>kv_tracking_number = tracking, kv_carrier = carrier_code, kv_carrier_name = get_or [] kdniao_carrier_names carrier_code,
          kv_print_callback_url = url @ ''?callback=1'', kv_status = ''success''\<rparr>)"

record kdniao_tracking_view =
  kt_carrier :: string
  kt_tracking_number :: string
  kt_status :: string
  kt_status_detail :: string
  kt_estimated_delivery :: string
  kt_events :: "(string \<times> string \<times> string) list"

definition kdniao_query_tracking :: "string \<Rightarrow> string \<Rightarrow> kdniao_tracking_view" where
  "kdniao_query_tracking isoformat tracking_number =
     (case mock_status tracking_number of (status, detail) \<Rightarrow>
        \<lparr>kt_carrier = take 2 tracking_number, kt_tracking_number = tracking_number, kt_status = status, kt_status_detail = detail,
         kt_estimated_delivery = take 10 isoformat,
         kt_events = [(isoformat, utf8 [228,184,138,230,181,183,232,189,172,232,191,144,228,184,173,229,191,131], detail)]\<rparr>)"

section \<open>Waybills\<close>

record waybill = soft_row +
  wb_tracking_number :: string
  wb_order_id :: string
  wb_carrier_code :: string
  wb_carrier_name :: string
  wb_recipient_name :: string
  wb_recipient_phone :: string
  wb_recipient_address :: string
  wb_items :: json
  wb_status :: string
  wb_print_count :: int
  wb_last_printed_at :: "datetime option"
  wb_label_url :: "string option"

record waybill_db = core_db +
  waybills :: "waybill list"

interpretation waybill_rows: repository waybills "\<lambda>t d. d\<lparr>waybills := t\<rparr>" pk
  by unfold_locales simp_all

record waybill_req =
  yq_order_id :: string
  yq_recipient_name :: string
  yq_recipient_phone :: string
  yq_recipient_address :: string
  yq_items :: json
  yq_carrier_code :: string

definition carrier_of :: "waybill_req \<Rightarrow> string" where
  "carrier_of req = get_default ''zto'' (validate_carrier (yq_carrier_code req))"

definition create_waybill ::
  "env \<Rightarrow> (string \<Rightarrow> string) \<Rightarrow> waybill_req \<Rightarrow> 'a waybill_db_scheme \<Rightarrow> ('a waybill_db_scheme \<times> waybill) result" where
  "create_waybill env md5 req d =
     (let code = carrier_of req;
          (d1, tracking) = generate_tracking_number env md5 code (yq_order_id req) d;
          wb = \<lparr>pk = new_uuid env d1, created_at = now env, updated_at = now env, is_deleted = False, deleted_at = None,
                wb_tracking_number = tracking, wb_order_id = yq_order_id req, wb_carrier_code = code,
                wb_carrier_name = get_or [] waybill_carrier_names code, wb_recipient_name = yq_recipient_name req,
                wb_recipient_phone = yq_recipient_phone req, wb_recipient_address = yq_recipient_address req,
                wb_items = yq_items req, wb_status = ''created'', wb_print_count = 0, wb_last_printed_at = None,
                wb_label_url = Some (get_tracking_url code tracking)\<rparr>
      in bindE (insert_unique pk wb (waybills d1)) (\<lambda>_.
         bindE (insert_unique wb_tracking_number wb (waybills d1)) (\<lambda>t.
         Inr ((tick d1)\<lparr>waybills := t\<rparr>, wb))))"

definition find_waybill :: "string \<Rightarrow> 'a waybill_db_scheme \<Rightarrow> waybill result" where
  "find_waybill tracking d =
     find_or_raise (NotFoundException (utf8 [232,191,144,229,141,149,32] @ tracking @ utf8 [32,228,184,141,229,173,152,229,156,168]))
       (\<lambda>w. wb_tracking_number w = tracking \<and> \<not> is_deleted w) (waybills d)"

definition get_waybill :: "string \<Rightarrow> 'a waybill_db_scheme \<Rightarrow> waybill result" where
  "get_waybill tracking d = find_waybill tracking d"

definition put_waybill :: "waybill \<Rightarrow> 'a waybill_db_scheme \<Rightarrow> 'a waybill_db_scheme" where
  "put_waybill w d = d\<lparr>waybills := update_where (\<lambda>x. pk x = pk w) (\<lambda>_. w) (waybills d)\<rparr>"

definition void_waybill :: "env \<Rightarrow> string \<Rightarrow> 'a waybill_db_scheme \<Rightarrow> ('a waybill_db_scheme \<times> waybill) result" where
  "void_waybill env tracking d =
     bindE (find_waybill tracking d) (\<lambda>w.
     bindE (raise_if (wb_status w = ''voided'') (validation (utf8 [232,191,144,229,141,149,32] @ tracking @ utf8 [32,229,183,178,228,189,156,229,186,159]))) (\<lambda>_.
     let w' = w\<lparr>wb_status := ''voided'', updated_at := now env\<rparr> in Inr (put_waybill w' d, w')))"

definition mark_printed :: "env \<Rightarrow> string \<Rightarrow> 'a waybill_db_scheme \<Rightarrow> ('a waybill_db_scheme \<times> waybill) result" where
  "mark_printed env tracking d =
     bindE (find_waybill tracking d) (\<lambda>w.
     let w' = w\<lparr>wb_print_count := wb_print_count w + 1, wb_last_printed_at := Some (now env), updated_at := now env\<rparr>
     in Inr (put_waybill w' d, w'))"

text \<open>The print route marks the waybill and answers the address whether there is such a waybill or not.\<close>

definition print_waybill_endpoint :: "env \<Rightarrow> string \<Rightarrow> 'a waybill_db_scheme \<Rightarrow> 'a waybill_db_scheme \<times> string" where
  "print_waybill_endpoint env tracking d =
     (case mark_printed env tracking d of
        Inl e \<Rightarrow> (d, print_callback_url tracking)
      | Inr (d', w) \<Rightarrow> (d', print_callback_url tracking))"

text \<open>
  The create route means to answer a failure as a bad gateway, but its handler reads a logger from the
  state of the application that nothing puts there.
\<close>

definition create_waybill_endpoint ::
  "env \<Rightarrow> (string \<Rightarrow> string) \<Rightarrow> waybill_req \<Rightarrow> 'a waybill_db_scheme \<Rightarrow> ('a waybill_db_scheme \<times> waybill) result" where
  "create_waybill_endpoint env md5 req d =
     (case create_waybill env md5 req d of Inl e \<Rightarrow> Inl AttributeError | Inr r \<Rightarrow> Inr r)"

text \<open>\<open>LIKE\<close> with its wildcards and the escape character; \<open>ILIKE\<close> compares in lower case.\<close>

fun sql_like :: "string \<Rightarrow> string \<Rightarrow> bool" where
  "sql_like [] s = (s = [])"
| "sql_like (p # ps) s =
     (if p = CHR ''%'' then list_ex (sql_like ps) (suffixes s)
      else if p = CHR ''_'' then (case s of [] \<Rightarrow> False | c # t \<Rightarrow> sql_like ps t)
      else if p = CHR 0x5C then
        (case ps of [] \<Rightarrow> False | q # qs \<Rightarrow> (case s of [] \<Rightarrow> False | c # t \<Rightarrow> c = q \<and> sql_like qs t))
      else (case s of [] \<Rightarrow> False | c # t \<Rightarrow> c = p \<and> sql_like ps t))"

definition ilike :: "string \<Rightarrow> string \<Rightarrow> bool" where
  "ilike pattern s = sql_like (map lower_char pattern) (map lower_char s)"

definition waybill_filter :: "string option \<Rightarrow> string option \<Rightarrow> string option \<Rightarrow> waybill \<Rightarrow> bool" where
  "waybill_filter status carrier q w \<longleftrightarrow> \<not> is_deleted w \<and>
     (truthy status \<longrightarrow> wb_status w = the status) \<and>
     (truthy carrier \<longrightarrow> wb_carrier_code w = the carrier) \<and>
     (truthy q \<longrightarrow> (let like = ''%'' @ the q @ ''%'' in
        ilike like (wb_tracking_number w) \<or> ilike like (wb_order_id w) \<or> ilike like (wb_recipient_name w)))"

definition list_waybills ::
  "int \<Rightarrow> int \<Rightarrow> string option \<Rightarrow> string option \<Rightarrow> string option \<Rightarrow> 'a waybill_db_scheme \<Rightarrow> waybill list \<times> nat" where
  "list_waybills page page_size status carrier q d =
     (let p = waybill_filter status carrier q
      in (offset_limit ((page - 1) * page_size) page_size (order_by_desc created_at (select_where p (waybills d))),
          length (select_where p (waybills d))))"

section \<open>Searching\<close>

definition plain :: "string \<Rightarrow> bool" where
  "plain q \<longleftrightarrow> CHR ''%'' \<notin> set q \<and> CHR ''_'' \<notin> set q \<and> CHR 0x5C \<notin> set q"

lemma like_any: "sql_like ''%'' s"
proof -
  have "[] \<in> set (suffixes s)" by (simp add: suffix_def)
  then show ?thesis by (auto simp: list_ex_iff)
qed

lemma like_prefix: "plain q \<Longrightarrow> sql_like (q @ ''%'') s \<longleftrightarrow> prefix q s"
proof (induction q arbitrary: s)
  case Nil
  then show ?case using like_any by simp
next
  case (Cons c q)
  then have "c \<noteq> CHR ''%''" "c \<noteq> CHR ''_''" "c \<noteq> CHR 0x5C" "plain q" by (auto simp: plain_def)
  with Cons.IH show ?case by (cases s) auto
qed

text \<open>A search text without wildcards is found exactly where it occurs.\<close>

lemma like_sublist:
  assumes "plain q"
  shows "sql_like (''%'' @ q @ ''%'') s \<longleftrightarrow> sublist q s"
proof -
  have "sql_like (''%'' @ q @ ''%'') s \<longleftrightarrow> (\<exists>t\<in>set (suffixes s). sql_like (q @ ''%'') t)" by (simp add: list_ex_iff)
  also have "\<dots> \<longleftrightarrow> (\<exists>t. suffix t s \<and> prefix q t)" using like_prefix[OF assms] by auto
  also have "\<dots> \<longleftrightarrow> sublist q s" by (auto simp: sublist_def prefix_def suffix_def)
  finally show ?thesis .
qed

lemma of_char_lower:
  "of_char (lower_char c) = (let n = of_char c :: nat in
     if (65 \<le> n \<and> n \<le> 90) \<or> (192 \<le> n \<and> n \<le> 222 \<and> n \<noteq> 215) then n + 32 else n)"
  by (simp add: lower_char_def Let_def)

lemma lower_char_fixed:
  assumes "of_char d = (k :: nat)" "k < 65 \<or> 90 < k \<and> k < 97"
  shows "lower_char c = d \<longleftrightarrow> c = d"
proof -
  have "lower_char c = d \<longleftrightarrow> of_char (lower_char c) = k" "c = d \<longleftrightarrow> of_char c = k"
    using assms(1) of_char_eq_iff[of "lower_char c" d, where ?'a = nat] of_char_eq_iff[of c d, where ?'a = nat] by auto
  with assms(2) show ?thesis by (auto simp: of_char_lower Let_def split: if_splits)
qed

lemma lower_char_absent:
  assumes "of_char d = (k :: nat)" "k < 65 \<or> 90 < k \<and> k < 97" "d \<notin> set q"
  shows "d \<notin> lower_char ` set q"
  using lower_char_fixed[OF assms(1, 2)] assms(3) by (metis imageE)

lemma lower_plain:
  assumes "plain q"
  shows "plain (map lower_char q)"
proof -
  have "CHR ''%'' \<notin> lower_char ` set q" using assms by (intro lower_char_absent[of _ "37"]) (simp_all add: plain_def)
  moreover have "CHR ''_'' \<notin> lower_char ` set q" using assms by (intro lower_char_absent[of _ "95"]) (simp_all add: plain_def)
  moreover have "CHR 0x5C \<notin> lower_char ` set q" using assms by (intro lower_char_absent[of _ "92"]) (simp_all add: plain_def)
  ultimately show ?thesis by (simp only: plain_def set_map) blast
qed

section \<open>Numbers and addresses\<close>

text \<open>The address that the print route derives from the number is the one stored with the waybill.\<close>

lemma carrier_of_valid: "carrier_of req \<in> set valid_carriers"
  by (auto simp: carrier_of_def validate_carrier_def Let_def valid_carriers_def)

lemma tracking_number_form:
  "\<exists>t. snd (generate_tracking_number env md5 c oid d) = get_or ''XX'' carrier_prefixes c @ t"
  by (simp add: generate_tracking_number_def Let_def)

lemma prefixes_invert:
  "list_all (\<lambda>c. length (get_or ''XX'' carrier_prefixes c) = 2 \<and>
     get_or ''zto'' callback_prefixes (map lower_char (get_or ''XX'' carrier_prefixes c)) = c) valid_carriers"
  by code_simp

lemma callback_of_number:
  assumes "c \<in> set valid_carriers"
  shows "print_callback_url (get_or ''XX'' carrier_prefixes c @ t) = get_tracking_url c (get_or ''XX'' carrier_prefixes c @ t)"
proof -
  have "length (get_or ''XX'' carrier_prefixes c) = 2"
    "get_or ''zto'' callback_prefixes (map lower_char (get_or ''XX'' carrier_prefixes c)) = c"
    using prefixes_invert assms by (simp_all add: list_all_iff)
  then show ?thesis by (simp add: print_callback_url_def Let_def)
qed

section \<open>Reachable tables\<close>

definition waybill_ok :: "waybill \<Rightarrow> bool" where
  "waybill_ok w \<longleftrightarrow> wb_status w \<in> {''created'', ''voided''} \<and> 0 \<le> wb_print_count w \<and>
     (0 < wb_print_count w \<longleftrightarrow> wb_last_printed_at w \<noteq> None) \<and> \<not> is_deleted w \<and>
     wb_carrier_code w \<in> set valid_carriers \<and>
     wb_label_url w = Some (get_tracking_url (wb_carrier_code w) (wb_tracking_number w)) \<and>
     get_tracking_url (wb_carrier_code w) (wb_tracking_number w) = print_callback_url (wb_tracking_number w)"

definition waybills_ok :: "'a waybill_db_scheme \<Rightarrow> bool" where
  "waybills_ok d \<longleftrightarrow> distinct (map pk (waybills d)) \<and> distinct (map wb_tracking_number (waybills d)) \<and>
     (\<forall>w\<in>set (waybills d). waybill_ok w)"

inductive waybill_step :: "'a waybill_db_scheme \<Rightarrow> 'a waybill_db_scheme \<Rightarrow> bool" where
  created: "create_waybill env md5 req d = Inr (d', w) \<Longrightarrow> waybill_step d d'"
| voided: "void_waybill env n d = Inr (d', w) \<Longrightarrow> waybill_step d d'"
| printed: "print_waybill_endpoint env n d = (d', url) \<Longrightarrow> waybill_step d d'"

inductive_cases waybill_stepE: "waybill_step d d'"

abbreviation waybill_steps :: "'a waybill_db_scheme \<Rightarrow> 'a waybill_db_scheme \<Rightarrow> bool" where
  "waybill_steps \<equiv> waybill_step\<^sup>*\<^sup>*"

lemma create_waybillE:
  assumes "create_waybill env md5 req d = Inr (d', w)"
  obtains "waybills d' = waybills d @ [w]" "pk w \<notin> pk ` set (waybills d)"
    "wb_tracking_number w \<notin> wb_tracking_number ` set (waybills d)" "waybill_ok w"
    "wb_tracking_number w = snd (generate_tracking_number env md5 (carrier_of req) (yq_order_id req) d)"
    "wb_order_id w = yq_order_id req" "wb_carrier_code w = carrier_of req" "wb_status w = ''created''"
proof -
  obtain d1 t where g: "generate_tracking_number env md5 (carrier_of req) (yq_order_id req) d = (d1, t)" by force
  have same: "waybills d1 = waybills d"
    using g by (auto simp: generate_tracking_number_def Let_def tick_def split: if_splits)
  obtain u where t: "t = get_or ''XX'' carrier_prefixes (carrier_of req) @ u"
    using tracking_number_form[of env md5 "carrier_of req" "yq_order_id req" d] g by auto
  have "waybill_ok w"
    using assms g carrier_of_valid[of req] callback_of_number[OF carrier_of_valid, of req u]
    by (auto simp: create_waybill_def Let_def waybill_ok_def t insert_row_def tick_def)
  then show thesis using that assms g same by (auto simp: create_waybill_def Let_def insert_row_def tick_def)
qed

lemma find_waybill_InrD:
  "find_waybill n d = Inr w \<Longrightarrow> w \<in> set (waybills d) \<and> wb_tracking_number w = n \<and> \<not> is_deleted w"
  unfolding find_waybill_def find_or_raise_eq_Inr by (auto dest: find_one_SomeD(1,2))

lemma put_waybill_ok:
  assumes "waybills_ok d" "w \<in> set (waybills d)" "pk w' = pk w" "wb_tracking_number w' = wb_tracking_number w" "waybill_ok w'"
  shows "waybills_ok (put_waybill w' d)"
    "map wb_tracking_number (waybills (put_waybill w' d)) = map wb_tracking_number (waybills d)"
proof -
  have "x = w" if "x \<in> set (waybills d)" "pk x = pk w" for x
    using that assms(1,2) by (metis waybills_ok_def distinct_map inj_onD)
  then have m: "map pk (waybills (put_waybill w' d)) = map pk (waybills d)"
    "map wb_tracking_number (waybills (put_waybill w' d)) = map wb_tracking_number (waybills d)"
    using assms(3,4) by (auto simp: put_waybill_def update_where_def)
  then show "map wb_tracking_number (waybills (put_waybill w' d)) = map wb_tracking_number (waybills d)" by simp
  show "waybills_ok (put_waybill w' d)"
    using assms(1,5) unfolding waybills_ok_def m by (auto simp: put_waybill_def set_update_where)
qed

lemma void_waybill_ok:
  assumes "void_waybill env n d = Inr (d', w)" "waybills_ok d"
  shows "waybills_ok d'" "map wb_tracking_number (waybills d') = map wb_tracking_number (waybills d)"
proof -
  from assms(1) obtain v where v: "find_waybill n d = Inr v" "d' = put_waybill (v\<lparr>wb_status := ''voided'', updated_at := now env\<rparr>) d"
    by (auto simp: void_waybill_def Let_def)
  note f = find_waybill_InrD[OF v(1)]
  have "waybill_ok v" using f assms(2) by (simp add: waybills_ok_def)
  then have "waybill_ok (v\<lparr>wb_status := ''voided'', updated_at := now env\<rparr>)" by (simp add: waybill_ok_def)
  with put_waybill_ok[OF assms(2), of v] f v(2) show "waybills_ok d'"
    "map wb_tracking_number (waybills d') = map wb_tracking_number (waybills d)" by auto
qed

lemma mark_printed_ok:
  assumes "mark_printed env n d = Inr (d', w)" "waybills_ok d"
  shows "waybills_ok d'" "map wb_tracking_number (waybills d') = map wb_tracking_number (waybills d)"
proof -
  let ?w = "\<lambda>v. v\<lparr>wb_print_count := wb_print_count v + 1, wb_last_printed_at := Some (now env), updated_at := now env\<rparr>"
  from assms(1) obtain v where v: "find_waybill n d = Inr v" "d' = put_waybill (?w v) d"
    by (auto simp: mark_printed_def Let_def)
  note f = find_waybill_InrD[OF v(1)]
  have "waybill_ok v" using f assms(2) by (simp add: waybills_ok_def)
  then have "waybill_ok (?w v)" by (simp add: waybill_ok_def)
  with put_waybill_ok[OF assms(2), of v] f v(2) show "waybills_ok d'"
    "map wb_tracking_number (waybills d') = map wb_tracking_number (waybills d)" by auto
qed

lemma waybill_step_ok:
  assumes "waybill_step d d'" "waybills_ok d"
  shows "waybills_ok d'" "wb_tracking_number ` set (waybills d) \<subseteq> wb_tracking_number ` set (waybills d')"
proof -
  have "waybills_ok d' \<and> wb_tracking_number ` set (waybills d) \<subseteq> wb_tracking_number ` set (waybills d')"
    using assms(1)
  proof cases
    case (created env md5 req w)
    then show ?thesis using assms(2) by (elim create_waybillE) (auto simp: waybills_ok_def)
  next
    case (voided env n w)
    from void_waybill_ok[OF this assms(2)] show ?thesis by (metis order_refl set_map)
  next
    case (printed env n url)
    show ?thesis
    proof (cases "mark_printed env n d")
      case (Inr r)
      obtain d1 w where "r = (d1, w)" by force
      with Inr printed mark_printed_ok[of env n d d1 w] assms(2) show ?thesis
        by (auto simp: print_waybill_endpoint_def) (metis imageI set_map)
    qed (use printed assms(2) in \<open>simp add: print_waybill_endpoint_def\<close>)
  qed
  then show "waybills_ok d'" "wb_tracking_number ` set (waybills d) \<subseteq> wb_tracking_number ` set (waybills d')" by blast+
qed

lemma waybill_steps_ok:
  assumes "waybill_steps d d'" "waybills_ok d"
  shows "waybills_ok d' \<and> wb_tracking_number ` set (waybills d) \<subseteq> wb_tracking_number ` set (waybills d')"
  using assms
proof (induction rule: rtranclp_induct)
  case (step y z)
  then show ?case using waybill_step_ok[OF step.hyps(2)] by blast
qed simp

end
