(* ===== verification/Edge_Properties.thy ===== *)
theory Edge_Properties
  imports Samples Rate_Limit Cache Waybills "HOL-Library.AList"
begin

text \<open>
  Properties of the rate limiter, the memory cache, the decorators and the electronic waybills, with
  their witnesses.
\<close>

section \<open>Rate limits\<close>

text \<open>A Redis for the witnesses: sorted sets are association lists.\<close>

type_synonym list_redis = "string \<Rightarrow> (string \<times> int) list \<times> int"

definition list_pipe :: "string \<Rightarrow> string \<Rightarrow> int \<Rightarrow> int \<Rightarrow> int \<Rightarrow> list_redis \<Rightarrow> list_redis \<times> nat option" where
  "list_pipe k m s c ttl r =
     (let z = filter (\<lambda>p. c < snd p) (AList.clearjunk (AList.update m s (if snd (r k) \<le> s then [] else fst (r k))))
      in (r(k := (z, s + ttl * 1000000)), Some (length z)))"

definition list_redis :: "list_redis zset_ops" where
  "list_redis = \<lparr>z_pipe = list_pipe,
     z_count = (\<lambda>k a b r. Some (length (filter (\<lambda>p. a \<le> snd p \<and> snd p \<le> b) (AList.clearjunk (fst (r k))))))\<rparr>"

definition list_content :: "list_redis \<Rightarrow> string \<Rightarrow> zset \<times> int" where
  "list_content r k = (map_of (fst (r k)), snd (r k))"

lemma same_Some: "(\<And>x. a = Some x \<longleftrightarrow> b = Some x) \<Longrightarrow> a = b"
  by (metis not_None_eq)

lemma map_of_filter_clearjunk:
  "map_of (filter (\<lambda>p. c < snd p) (AList.clearjunk al)) = (\<lambda>k. case map_of al k of None \<Rightarrow> None | Some x \<Rightarrow> if c < x then Some x else None)"
proof
  fix k
  let ?z = "AList.clearjunk al"
  have d: "distinct (map fst ?z)" "distinct (map fst (filter (\<lambda>p. c < snd p) ?z))"
    by (simp_all add: distinct_map_filter)
  have m: "map_of al k = map_of ?z k" by (simp add: map_of_clearjunk)
  have "map_of (filter (\<lambda>p. c < snd p) ?z) k = Some x \<longleftrightarrow> map_of al k = Some x \<and> c < x" for x
    using map_of_eq_Some_iff[OF d(1), of k x] map_of_eq_Some_iff[OF d(2), of k x] m by auto
  then show "map_of (filter (\<lambda>p. c < snd p) ?z) k = (case map_of al k of None \<Rightarrow> None | Some x \<Rightarrow> if c < x then Some x else None)"
    by (intro same_Some) (auto simp del: map_of_eq_Some_iff split: option.splits)
qed

lemma list_redis_contract: "zset_contract list_redis list_content"
proof -
  have "finite (dom (fst (list_content r k)))" for r k by (simp add: list_content_def finite_dom_map_of)
  moreover have "(\<forall>k'. k' \<noteq> k \<longrightarrow> list_content r' k' = list_content r k') \<and>
      list_content r' k = (piped m s c (live s (list_content r k)), s + ttl * 1000000) \<and>
      (\<forall>n. v = Some n \<longrightarrow> n = card (dom (piped m s c (live s (list_content r k)))))"
    if "list_pipe k m s c ttl r = (r', v)" for k m s c ttl r r' v
  proof -
    define z where "z = filter (\<lambda>p. c < snd p) (AList.clearjunk (AList.update m s (if snd (r k) \<le> s then [] else fst (r k))))"
    have "map_of z = piped m s c (live s (list_content r k))"
      unfolding z_def map_of_filter_clearjunk by (auto simp: piped_def live_def list_content_def update_conv' fun_eq_iff)
    moreover have "length z = card (dom (map_of z))"
    proof -
      have "distinct (map fst z)" by (simp add: z_def distinct_map_filter)
      from distinct_card[OF this] show ?thesis by (simp only: dom_map_of_conv_image_fst set_map length_map)
    qed
    moreover have "r' = r(k := (z, s + ttl * 1000000))" "v = Some (length z)"
      using that by (auto simp: list_pipe_def z_def Let_def)
    ultimately show ?thesis by (simp add: list_content_def)
  qed
  ultimately show ?thesis unfolding zset_contract_def list_redis_def by simp
qed

definition limits0 :: limits where
  "limits0 = \<lparr>rate_limit_requests = 100, rate_limit_window = 60, testing = False\<rparr>"

text \<open>
  C23: However the checks of several routes share the key of a client, each with its own limit and
  window, no window of the shortest length used holds more allowed requests than the largest limit
  used. Redis may refuse a pipeline or lose its answer, which never lets more through; it is assumed
  to keep zset_contract, so it loses no data. The times of the checks do not go back, their members
  are distinct and the key is fresh at the start. With one limit and window for all checks this is
  the bound of a single route; a longer window is only guarded as far as no shorter one is checked
  in between.
\<close>

theorem windows_hold_at_most_the_limit:
  assumes "zset_contract ops content" "\<not> testing settings" "0 < w"
    and "sorted (map fst cs)" "distinct (map (snd \<circ> stamp) cs)" "fst (content r (''rate_limit:'' @ key)) = Map.empty"
    and "\<forall>(t, m, requests, window)\<in>set cs. default_nat (rate_limit_requests settings) requests \<le> n \<and>
      w \<le> default_int (rate_limit_window settings) window * 1000000"
    and "run_checks ops settings key cs r = (r', as)"
  shows "windows_ok n w (served_by cs as)"
proof -
  obtain newest where n: "\<forall>c\<in>set cs. newest \<le> fst c" "bucket_inv w newest {} (content r (''rate_limit:'' @ key))"
    using fresh_bucket[OF assms(6), of cs] by blast
  have "windows_ok n w ({} \<union> served_by cs as)"
    by (rule run_checks_windows[where content = content and r = r and newest = newest])
      (fact assms n | simp add: windows_ok_def)+
  then show ?thesis by simp
qed

text \<open>The checks of the registration (3 in an hour) and of the login (5 in a minute) of one client.\<close>

definition checks0 :: "rate_check list" where
  "checks0 = [(1, ''a'', Some 3, Some 3600), (2, ''b'', Some 5, Some 60), (3, ''c'', Some 3, Some 3600), (4, ''d'', Some 3, Some 3600),
     (5, ''e'', Some 5, Some 60), (6, ''f'', Some 5, Some 60)]"

theorem windows_hold_at_most_the_limit_witness:
  "snd (run_checks list_redis limits0 ''ip:h'' checks0 (\<lambda>_. ([], 0))) = [True, True, True, False, True, False] \<and>
   windows_ok 5 60000000 (served_by checks0 [True, True, True, False, True, False])"
proof -
  have r: "snd (run_checks list_redis limits0 ''ip:h'' checks0 (\<lambda>_. ([], 0))) = [True, True, True, False, True, False]" by code_simp
  moreover have "windows_ok 5 60000000 (served_by checks0 (snd (run_checks list_redis limits0 ''ip:h'' checks0 (\<lambda>_. ([], 0)))))"
    by (rule windows_hold_at_most_the_limit[OF list_redis_contract, where settings = limits0 and key = "''ip:h''" and cs = checks0 and
        r = "\<lambda>_. ([], 0)", OF _ _ _ _ _ _ prod.collapse[symmetric]])
      (simp_all add: limits0_def checks0_def stamp_def list_content_def default_nat_def default_int_def)
  ultimately show ?thesis by (simp only:)
qed

text \<open>
  C22: While Redis answers, any sequence of requests of a client under one limit and window, at
  times that do not go back, is decided exactly as the reference sliding log over all its requests,
  refused ones included, decides it. Redis is assumed to keep zset_contract, the effect of the
  pipeline on a sorted set.
\<close>

theorem limiter_is_the_sliding_log:
  assumes "zset_contract ops content" "\<And>k m s c ttl r. snd (z_pipe ops k m s c ttl r) \<noteq> None" "\<not> testing settings"
    and "0 < default_int (rate_limit_window settings) window" "sorted (map fst ts)" "distinct (map snd ts)"
    and "fst (content r (''rate_limit:'' @ key)) = Map.empty"
    and "run_requests ops settings key requests window ts r = (r', as)"
  shows "as = sliding_log (default_int (rate_limit_window settings) window * 1000000)
    (default_nat (rate_limit_requests settings) requests) [] (map fst ts)"
proof -
  let ?w = "default_int (rate_limit_window settings) window * 1000000"
  obtain newest where n: "\<forall>p\<in>set ts. newest \<le> fst p" "log_inv ?w newest [] (content r (''rate_limit:'' @ key))"
    using fresh_bucket[OF assms(7)] by blast
  from run_requests_log[OF assms(1), OF assms(2,3,8,5) _ n assms(4)] assms(6) show ?thesis by simp
qed

lemma list_redis_answers: "snd (z_pipe list_redis k m s c ttl r) \<noteq> None"
  by (simp add: list_redis_def list_pipe_def Let_def)

theorem limiter_is_the_sliding_log_witness:
  "snd (run_requests list_redis limits0 ''ip:h'' (Some 2) None [(1, ''a''), (2, ''b''), (3, ''c''), (70000000, ''d'')] (\<lambda>_. ([], 0))) =
     [True, True, False, True]"
  using limiter_is_the_sliding_log[OF list_redis_contract list_redis_answers, where settings = limits0 and window = None and
      key = "''ip:h''" and requests = "Some 2" and ts = "[(1, ''a''), (2, ''b''), (3, ''c''), (70000000, ''d'')]" and
      r = "\<lambda>_. ([], 0)", OF _ _ _ _ _ prod.collapse[symmetric]]
  by (simp add: limits0_def default_int_def default_nat_def list_content_def)

text \<open>
  A client that keeps more than the limit in every window is served its first requests and then
  never again, because a refused request counts like a served one.
\<close>

theorem crowding_client_starves:
  assumes "zset_contract ops content" "\<And>k m s c ttl r. snd (z_pipe ops k m s c ttl r) \<noteq> None" "\<not> testing settings"
    and "0 < default_int (rate_limit_window settings) window" "sorted (map fst ts)" "distinct (map snd ts)"
    and "fst (content r (''rate_limit:'' @ key)) = Map.empty"
    and "n = default_nat (rate_limit_requests settings) requests" "w = default_int (rate_limit_window settings) window * 1000000"
    and "\<forall>i<length ts. n \<le> i \<longrightarrow> fst (ts ! i) - w < fst (ts ! (i - n))"
  shows "snd (run_requests ops settings key requests window ts r) =
    replicate (min n (length ts)) True @ replicate (length ts - n) False"
proof -
  let ?ts = "map fst ts"
  obtain newest where b: "\<forall>p\<in>set ts. newest \<le> fst p" "log_inv w newest [] (content r (''rate_limit:'' @ key))"
    using fresh_bucket[OF assms(7)] by blast
  from run_requests_log[OF assms(1), OF assms(2,3) prod.collapse[symmetric] assms(5) _ b(1) b(2)[unfolded assms(9)] assms(4)] assms(6)
  have "snd (run_requests ops settings key requests window ts r) = sliding_log w n [] ?ts" by (simp add: assms(8,9))
  moreover have "sliding_log w n [] ?ts = replicate (min n (length ts)) True @ replicate (length ts - n) False"
  proof (rule nth_equalityI)
    fix i assume "i < length (sliding_log w n [] ?ts)"
    then have i: "i < length ?ts" by (simp add: sliding_log_length)
    show "sliding_log w n [] ?ts ! i = (replicate (min n (length ts)) True @ replicate (length ts - n) False) ! i"
    proof (cases "i < n")
      case True
      have "length (filter (\<lambda>x. ?ts ! i - w < x) (rev (take (Suc i) ?ts) @ [])) \<le> length (rev (take (Suc i) ?ts) @ [])"
        by (rule length_filter_le)
      also have "\<dots> \<le> n" using True i by simp
      finally have "sliding_log w n [] ?ts ! i" unfolding sliding_log_nth[OF i] .
      with True i show ?thesis by (simp add: nth_append)
    next
      case False
      with crowded_refused[OF i, of n w "[]"] assms(5,10) i show ?thesis by (simp add: nth_append)
    qed
  qed (simp add: sliding_log_length)
  ultimately show ?thesis by (rule trans)
qed

theorem crowding_client_starves_witness:
  "snd (run_requests list_redis limits0 ''ip:h'' (Some 1) None [(1, ''a''), (50000000, ''b''), (100000000, ''c''), (150000000, ''d'')]
     (\<lambda>_. ([], 0))) = [True, False, False, False]"
proof -
  let ?ts = "[(1, ''a''), (50000000, ''b''), (100000000, ''c''), (150000000, ''d'')] :: (int \<times> string) list"
  have "\<forall>i<length ?ts. 1 \<le> i \<longrightarrow> fst (?ts ! i) - 60000000 < fst (?ts ! (i - 1))"
    by (simp add: less_Suc_eq numeral_eq_Suc all_conj_distrib imp_disjL) 
  with crowding_client_starves[OF list_redis_contract list_redis_answers, where settings = limits0 and window = None and
      key = "''ip:h''" and requests = "Some 1" and ts = ?ts and r = "\<lambda>_. ([], 0)" and n = 1 and w = 60000000]
  show ?thesis by (simp add: limits0_def default_int_def default_nat_def list_content_def numeral_eq_Suc)
qed

text \<open>
  A login within its short window removes the registrations that the longer window of the
  registration counts, so the client may register again right away, however often it has done so.
\<close>

theorem login_forgets_registrations:
  assumes "zset_contract ops content" "\<And>k m s c ttl r. snd (z_pipe ops k m s c ttl r) \<noteq> None" "\<not> testing settings"
    and "\<forall>m x. fst (content r (''rate_limit:'' @ key)) m = Some x \<longrightarrow> x \<le> t - 60 * 1000000"
    and "check_rate_limit ops settings True key (Some 5) (Some 60) t m r = (r1, a)" "t \<le> t'"
  shows "snd (check_rate_limit ops settings True key (Some 3) (Some 3600) t' m' r1)"
proof -
  let ?k = "''rate_limit:'' @ key"
  from assms(2) obtain r2 c where z: "z_pipe ops ?k m t (t - 60 * 1000000) 60 r = (r2, Some c)"
    by (metis prod.collapse option.exhaust)
  with assms(3,5) have r1: "r1 = r2" by (simp add: check_rate_limit_def Let_def default_int_def)
  from short_window_forgets[OF assms(1), OF assms(3) z assms(4)] have k: "content r1 ?k = ([m \<mapsto> t], t + 60 * 1000000)" unfolding r1 .
  from assms(2) obtain r3 n where z3: "z_pipe ops ?k m' t' (t' - 3600 * 1000000) 3600 r1 = (r3, Some n)"
    by (metis prod.collapse option.exhaust)
  with assms(1) have "n = card (dom (piped m' t' (t' - 3600 * 1000000) (live t' (content r1 ?k))))"
    unfolding zset_contract_def by blast
  also have "\<dots> \<le> card {m, m'}"
    unfolding k by (intro card_mono) (auto simp: piped_def live_def split: if_splits)
  also have "\<dots> \<le> 3" by (simp add: card_insert_if)
  finally have "n \<le> 3" .
  with assms(3) z3 show ?thesis by (simp add: check_rate_limit_def Let_def default_int_def default_nat_def)
qed

theorem login_forgets_registrations_witness:
  "\<exists>r r1. list_content r ''rate_limit:ip:h'' = ([''a'' \<mapsto> 1, ''b'' \<mapsto> 2, ''c'' \<mapsto> 3], 3600000000) \<and>
     \<not> snd (check_rate_limit list_redis limits0 True ''ip:h'' (Some 3) (Some 3600) 70000000 ''d'' r) \<and>
     r1 = fst (check_rate_limit list_redis limits0 True ''ip:h'' (Some 5) (Some 60) 70000000 ''e'' r) \<and>
     snd (check_rate_limit list_redis limits0 True ''ip:h'' (Some 3) (Some 3600) 70000001 ''f'' r1)"
proof -
  let ?r = "\<lambda>k. ([(''a'', 1), (''b'', 2), (''c'', 3)], 3600000000)"
  have c: "list_content ?r ''rate_limit:ip:h'' = ([''a'' \<mapsto> 1, ''b'' \<mapsto> 2, ''c'' \<mapsto> 3], 3600000000)"
    by (auto simp: list_content_def fun_eq_iff)
  have "snd (check_rate_limit list_redis limits0 True ''ip:h'' (Some 3) (Some 3600) 70000001 ''f''
      (fst (check_rate_limit list_redis limits0 True ''ip:h'' (Some 5) (Some 60) 70000000 ''e'' ?r)))"
    using login_forgets_registrations[OF list_redis_contract list_redis_answers, where settings = limits0 and key = "''ip:h''" and
        r = ?r and t = 70000000 and t' = 70000001 and m = "''e''" and m' = "''f''", OF _ _ prod.collapse[symmetric]]
    by (simp add: limits0_def c split: if_splits)
  moreover have "\<not> snd (check_rate_limit list_redis limits0 True ''ip:h'' (Some 3) (Some 3600) 70000000 ''d'' ?r)" by code_simp
  ultimately show ?thesis using c by blast
qed

section \<open>Cache and locks\<close>

text \<open>
  C24: An entry just stored in the memory cache is still found with its value after any operations
  on other keys and any reads and writes in between, however many entries were evicted, as long as
  fewer other keys than the size of the cache were read or written, increments and decrements
  counted as writes, and the key itself was not deleted, overwritten or incremented.
\<close>

theorem recently_used_entry_survives:
  assumes "cache_ok c" "\<forall>x\<in>set xs. \<not> drops_key k x" "card (\<Union>(used_key ` set xs) - {k}) < mc_maxsize c"
  shows "snd (cache_get k (fold run_cache xs (cache_set k v expire c))) = Some v"
proof -
  let ?c = "cache_set k v expire c"
  have "behind k v {} ?c" by (rule behind_set_self)
  moreover have "mc_maxsize ?c = mc_maxsize c" by (simp add: cache_set_def Let_def)
  ultimately have "behind k v ({} \<union> (\<Union>(used_key ` set xs) - {k})) (fold run_cache xs ?c) \<and> cache_ok (fold run_cache xs ?c)"
    using cache_set_ok[OF assms(1)] assms(2,3) by (intro behind_runs) simp_all
  then show ?thesis by (blast intro: behind_found)
qed

definition cache2 :: "int memory_cache" where
  "cache2 = \<lparr>mc_cache = [\<lparr>en_key = ''x'', en_value = 1, en_expire = 0\<rparr>, \<lparr>en_key = ''y'', en_value = 2, en_expire = 0\<rparr>], mc_maxsize = 2\<rparr>"

theorem recently_used_entry_survives_witness:
  "snd (cache_get ''k'' (fold run_cache [Get ''x'', Set ''z'' 9 None, Get ''k'', Set ''z'' 8 None] (cache_set ''k'' 5 None cache2))) = Some 5 \<and>
   snd (cache_get ''x'' (cache_set ''z'' 9 None (cache_set ''k'' 5 None cache2))) = None"
proof -
  have "snd (cache_get ''k'' (fold run_cache [Set ''z'' 9 None, Get ''k'', Set ''z'' 8 None] (cache_set ''k'' 5 None cache2))) = Some 5"
    by (rule recently_used_entry_survives) (simp_all add: cache_ok_def cache2_def card_insert_if)
  moreover have "fst (cache_get ''x'' (cache_set ''k'' 5 None cache2)) = cache_set ''k'' 5 None cache2" by code_simp
  moreover have "snd (cache_get ''x'' (cache_set ''z'' 9 None (cache_set ''k'' 5 None cache2))) = None" by code_simp
  ultimately show ?thesis by simp
qed

theorem lock_excludes_timely_sections:
  assumes "lock_timely timeout s"
  shows "length (ls_running s) \<le> 1"
  using lock_timely_exclusive[OF assms] by auto

theorem lock_excludes_timely_sections_witness:
  "\<exists>s. lock_timely 30 s \<and> ls_running s = [(7, 0)] \<and> length (ls_running s) \<le> 1"
proof -
  let ?s = "\<lparr>ls_lock = None, ls_running = [], ls_clock = 0\<rparr>"
  have "lock_timely 30 ?s" by (rule lock_timely.start) simp_all
  moreover have "lock_step 30 ?s \<lparr>ls_lock = Some 30, ls_running = [(7, 0)], ls_clock = 0\<rparr>"
    using lock_step.acquire[of ?s 7 30] by simp
  ultimately have "lock_timely 30 \<lparr>ls_lock = Some 30, ls_running = [(7, 0)], ls_clock = 0\<rparr>"
    by (rule lock_timely.step) (simp add: in_time_def)
  from lock_excludes_timely_sections[OF this] this show ?thesis by force
qed

text \<open>
  A section that outlives its lock releases the lock of the next one, so two later sections run
  at once although both are within their time.
\<close>

theorem late_release_admits_two:
  assumes "0 < timeout"
  shows "\<exists>s. lock_reachable timeout s \<and> in_time timeout s \<and> length (ls_running s) = 2"
proof -
  let ?st = "\<lambda>l rs t. \<lparr>ls_lock = l, ls_running = rs, ls_clock = t\<rparr>"
  have "lock_reachable timeout (?st None [] 0)" by (rule lock_reachable.start) simp_all
  moreover have "lock_step timeout (?st None [] 0) (?st (Some timeout) [(1, 0)] 0)"
    using lock_step.acquire[of "?st None [] 0" 1 timeout] by simp
  moreover have "lock_step timeout (?st (Some timeout) [(1, 0)] 0) (?st (Some timeout) [(1, 0)] timeout)"
    using lock_step.wait[of timeout timeout "?st (Some timeout) [(1, 0)] 0"] assms by simp
  moreover have "lock_step timeout (?st (Some timeout) [(1, 0)] timeout)
      (?st (Some (timeout + timeout)) [(2, timeout), (1, 0)] timeout)"
    using lock_step.acquire[of "?st (Some timeout) [(1, 0)] timeout" 2 timeout] by simp
  moreover have "lock_step timeout (?st (Some (timeout + timeout)) [(2, timeout), (1, 0)] timeout)
      (?st None [(2, timeout)] timeout)"
    using lock_step.release[of 1 0 "?st (Some (timeout + timeout)) [(2, timeout), (1, 0)] timeout" timeout] by simp
  moreover have "lock_step timeout (?st None [(2, timeout)] timeout)
      (?st (Some (timeout + timeout)) [(3, timeout), (2, timeout)] timeout)"
    using lock_step.acquire[of "?st None [(2, timeout)] timeout" 3 timeout] by simp
  ultimately have "lock_reachable timeout (?st (Some (timeout + timeout)) [(3, timeout), (2, timeout)] timeout)"
    by (meson lock_reachable.step)
  moreover have "in_time timeout (?st (Some (timeout + timeout)) [(3, timeout), (2, timeout)] timeout)"
    using assms by (simp add: in_time_def)
  ultimately show ?thesis by force
qed

theorem late_release_admits_two_witness:
  "\<exists>s. lock_reachable 30 s \<and> in_time 30 s \<and> length (ls_running s) = 2"
  by (rule late_release_admits_two) simp

text \<open>
  A section under the lock that raises is run a second time, without the lock, on what its first
  run left behind, and the answer is that of the second run.
\<close>

theorem failing_section_runs_again:
  assumes "l_setnx ops (''lock:'' @ key) ''locked'' timeout r = (r1, Some True)" "snd (func w) = Inl e"
  shows "snd (distributed_lock ops key timeout func r w) =
    (fst (func (fst (func w))), some_result (snd (func (fst (func w)))))"
proof -
  obtain r2 ok where d: "l_delete ops (''lock:'' @ key) r1 = (r2, ok)" by force
  from failed_section_runs_twice[OF assms(1) d prod.collapse[symmetric] _ prod.collapse[symmetric], of func w] assms(2)
  show ?thesis by simp
qed

theorem failing_section_runs_again_witness:
  "snd (distributed_lock \<lparr>l_setnx = (\<lambda>k v t r. (Some k, Some (r = None))), l_delete = (\<lambda>k r. (None, True))\<rparr> ''k'' 30
     (\<lambda>n. (n + 1, if n = 0 then Inl ValueError else Inr n)) None (0 :: int)) = (2, Inr (Some 1))"
  using failing_section_runs_again[where ops = "\<lparr>l_setnx = (\<lambda>k v t r. (Some k, Some (r = None))), l_delete = (\<lambda>k r. (None, True))\<rparr>" and
      key = "''k''" and timeout = 30 and func = "\<lambda>n. (n + 1, if n = 0 then Inl ValueError else Inr n)" and r = None and w = "0 :: int"]
  by (simp add: some_result_def)

section \<open>Waybills\<close>

text \<open>
  In every state that creating, voiding and printing can reach, waybill numbers are unique and
  the address that the print route derives from the number is the one stored as the label; a waybill
  has a time of printing exactly when it was printed.
\<close>

theorem stored_labels_match_the_print_route:
  assumes "waybill_steps d0 d" "waybills d0 = []" "w \<in> set (waybills d)"
  shows "find_waybill (wb_tracking_number w) d = Inr w \<and>
    wb_label_url w = Some (print_callback_url (wb_tracking_number w)) \<and>
    snd (print_waybill_endpoint env (wb_tracking_number w) d) = the (wb_label_url w) \<and>
    wb_label_url w = Some (get_tracking_url (wb_carrier_code w) (wb_tracking_number w)) \<and>
    (0 < wb_print_count w) = (wb_last_printed_at w \<noteq> None)"
proof -
  have ok: "waybills_ok d" using waybill_steps_ok[OF assms(1)] assms(2) by (simp add: waybills_ok_def)
  with assms(3) have w: "waybill_ok w" "\<not> is_deleted w" by (auto simp: waybills_ok_def waybill_ok_def)
  have only: "x = w" if "x \<in> set (waybills d)" "wb_tracking_number x = wb_tracking_number w" for x
    using that ok assms(3) by (metis waybills_ok_def distinct_map inj_onD)
  have "find_one (\<lambda>x. wb_tracking_number x = wb_tracking_number w \<and> \<not> is_deleted x) (waybills d) = Inr (Some w)"
  proof (rule find_one_distinct_total[of wb_tracking_number "waybills d"])
    fix r assume "find_one (\<lambda>x. wb_tracking_number x = wb_tracking_number w \<and> \<not> is_deleted x) (waybills d) = Inr (Some r)"
      "r \<in> set (waybills d)" "wb_tracking_number r = wb_tracking_number w \<and> \<not> is_deleted r"
    with only[of r] show ?thesis by simp
  next
    assume "find_one (\<lambda>x. wb_tracking_number x = wb_tracking_number w \<and> \<not> is_deleted x) (waybills d) = Inr None"
    with assms(3) w(2) show ?thesis by (auto simp: find_one_None)
  qed (use ok in \<open>simp_all add: waybills_ok_def\<close>)
  then have "find_waybill (wb_tracking_number w) d = Inr w" by (simp add: find_waybill_def find_or_raise_def)
  moreover have "snd (print_waybill_endpoint env n d) = print_callback_url n" for n
    by (simp add: print_waybill_endpoint_def split: sum.splits prod.splits)
  ultimately show ?thesis using w(1) by (auto simp: waybill_ok_def)
qed

text \<open>
  Once a waybill was created for an order, no second one can be created for the same order and
  carrier on the same day, whatever happens in between; a voided waybill cannot be replaced.
\<close>

theorem waybill_cannot_be_reissued:
  assumes "waybills_ok d" "create_waybill env md5 req d = Inr (d1, w)" "waybill_steps d1 d2"
    and "yq_order_id req' = yq_order_id req" "yq_order_id req \<noteq> []" "carrier_of req' = carrier_of req" "ymd env' = ymd env"
  shows "create_waybill env' md5 req' d2 = Inl IntegrityError"
proof -
  have step: "waybill_step d d1" by (rule waybill_step.created[OF assms(2)])
  have w: "waybills d1 = waybills d @ [w]"
    "wb_tracking_number w = snd (generate_tracking_number env md5 (carrier_of req) (yq_order_id req) d)"
    using assms(2) by (auto elim: create_waybillE)
  have "wb_tracking_number w \<in> wb_tracking_number ` set (waybills d2)"
    using waybill_steps_ok[OF assms(3) waybill_step_ok(1)[OF step assms(1)]] w(1) by auto
  moreover note w(2)
  then have "generate_tracking_number env' md5 (carrier_of req') (yq_order_id req') d2 = (d2, wb_tracking_number w)"
    unfolding generate_tracking_number_def Let_def assms(4,6,7) using assms(5) by simp
  ultimately show ?thesis unfolding create_waybill_def by (simp add: Let_def insert_unique_def)
qed

definition waybill_req0 :: waybill_req where
  "waybill_req0 = \<lparr>yq_order_id = ''ORD-7'', yq_recipient_name = ''Li'', yq_recipient_phone = ''139'', yq_recipient_address = ''Hangzhou'',
     yq_items = JObj [], yq_carrier_code = ''SF''\<rparr>"

definition waybill_db0 :: waybill_db where
  "waybill_db0 = \<lparr>drawn = 3, skus = [], outbox_events = [], webhook_targets = [], webhook_delivery_logs = [],
     notifications = [], notification_preferences = [], waybills = []\<rparr>"

lemma sample_waybill:
  obtains d w where "create_waybill env0 (\<lambda>_. ''a1b2c3d4e5'') waybill_req0 waybill_db0 = Inr (d, w)" "waybills d = [w]"
    "wb_tracking_number w = ''SF240102A1B2C3D4''"
proof -
  have c: "carrier_of waybill_req0 = ''sf''"
    by (simp add: carrier_of_def validate_carrier_def valid_carriers_def waybill_req0_def lower_char_def char_of_def bit_0)
  have u: "upper_char (CHR ''a'') = CHR ''A''" "upper_char (CHR ''b'') = CHR ''B''" "upper_char (CHR ''c'') = CHR ''C''"
    "upper_char (CHR ''d'') = CHR ''D''" "upper_char (CHR ''1'') = CHR ''1''" "upper_char (CHR ''2'') = CHR ''2''"
    "upper_char (CHR ''3'') = CHR ''3''" "upper_char (CHR ''4'') = CHR ''4''"
    by (simp_all add: upper_char_def char_of_def bit_0)
  have n: "generate_tracking_number env0 (\<lambda>_. ''a1b2c3d4e5'') ''sf'' (yq_order_id waybill_req0) waybill_db0 = (waybill_db0, ''SF240102A1B2C3D4'')"
    by (simp add: generate_tracking_number_def Let_def get_or_def carrier_prefixes_def get_default_def waybill_req0_def u)
  have "\<exists>d w. create_waybill env0 (\<lambda>_. ''a1b2c3d4e5'') waybill_req0 waybill_db0 = Inr (d, w) \<and> waybills d = [w] \<and>
      wb_tracking_number w = ''SF240102A1B2C3D4''"
    unfolding create_waybill_def Let_def c n prod.case by (simp add: waybill_db0_def insert_row_def insert_unique_def)
  with that show thesis by blast
qed

theorem stored_labels_match_the_print_route_witness:
  "\<exists>d w. create_waybill env0 (\<lambda>_. ''a1b2c3d4e5'') waybill_req0 waybill_db0 = Inr (d, w) \<and>
     wb_label_url w = Some (print_callback_url ''SF240102A1B2C3D4'')"
proof -
  from sample_waybill obtain d w where d: "create_waybill env0 (\<lambda>_. ''a1b2c3d4e5'') waybill_req0 waybill_db0 = Inr (d, w)"
    "waybills d = [w]" "wb_tracking_number w = ''SF240102A1B2C3D4''" by blast
  from waybill_step.created[OF d(1)] have "waybill_steps waybill_db0 d" by (rule r_into_rtranclp)
  from stored_labels_match_the_print_route[OF this, of w env0] d show ?thesis by (auto simp: waybill_db0_def)
qed

theorem waybill_cannot_be_reissued_witness:
  "\<exists>d w d'. create_waybill env0 (\<lambda>_. ''a1b2c3d4e5'') waybill_req0 waybill_db0 = Inr (d, w) \<and>
     void_waybill env0 ''SF240102A1B2C3D4'' d = Inr (d', w\<lparr>wb_status := ''voided'', updated_at := 1000\<rparr>) \<and>
     create_waybill env0 (\<lambda>_. ''a1b2c3d4e5'') waybill_req0 d' = Inl IntegrityError"
proof -
  from sample_waybill obtain d w where d: "create_waybill env0 (\<lambda>_. ''a1b2c3d4e5'') waybill_req0 waybill_db0 = Inr (d, w)"
    "waybills d = [w]" "wb_tracking_number w = ''SF240102A1B2C3D4''" by blast
  have "waybills_ok waybill_db0" by (simp add: waybills_ok_def waybill_db0_def)
  note ok = this
  have "\<not> is_deleted w" "wb_status w = ''created''"
    using create_waybillE[OF d(1)] by (auto simp: waybill_ok_def)
  then obtain d' where v: "void_waybill env0 ''SF240102A1B2C3D4'' d = Inr (d', w\<lparr>wb_status := ''voided'', updated_at := 1000\<rparr>)"
    using d(2,3) by (simp add: void_waybill_def find_waybill_def find_or_raise_def find_one_def select_where_def
        scalar_one_or_none_def Let_def)
  from waybill_step.voided[OF v] have "waybill_steps d d'" by (rule r_into_rtranclp)
  from waybill_cannot_be_reissued[OF ok d(1) this, of waybill_req0 env0] d(1) v show ?thesis
    by (auto simp: waybill_req0_def)
qed

text \<open>
  For a search text without the wildcards of LIKE the list of waybills reports the number of
  the waybills that are not deleted and contain the text, up to the case of letters, in the tracking
  number, the order or the name of the recipient.
\<close>

theorem waybill_search_finds_substrings:
  assumes "plain q" "q \<noteq> []"
  shows "snd (list_waybills page page_size None None (Some q) d) =
    row_count (\<lambda>w. \<not> is_deleted w \<and> (\<exists>s\<in>{wb_tracking_number w, wb_order_id w, wb_recipient_name w}.
      sublist (map lower_char q) (map lower_char s))) (waybills d)"
proof -
  have low: "map lower_char ''%'' = ''%''" by (simp add: lower_char_def)
  have "ilike (''%'' @ q @ ''%'') s \<longleftrightarrow> sublist (map lower_char q) (map lower_char s)" for s
    unfolding ilike_def map_append low by (rule like_sublist[OF lower_plain[OF assms(1)]])
  moreover have "truthy (Some q)" "\<not> truthy None" using assms(2) by (simp_all add: truthy_def)
  ultimately have "waybill_filter None None (Some q) = (\<lambda>w. \<not> is_deleted w \<and>
      (\<exists>s\<in>{wb_tracking_number w, wb_order_id w, wb_recipient_name w}. sublist (map lower_char q) (map lower_char s)))"
    unfolding waybill_filter_def Let_def by auto
  then show ?thesis by (simp add: list_waybills_def row_count_def select_where_def Let_def)
qed

definition waybill1 :: waybill where
  "waybill1 = \<lparr>pk = 1, created_at = 1, updated_at = 1, is_deleted = False, deleted_at = None, wb_tracking_number = ''SF1'',
     wb_order_id = ''ORD-7'', wb_carrier_code = ''sf'', wb_carrier_name = ''SF'', wb_recipient_name = ''Zhao Li'',
     wb_recipient_phone = [], wb_recipient_address = [], wb_items = JNull, wb_status = ''created'', wb_print_count = 0,
     wb_last_printed_at = None, wb_label_url = None\<rparr>"

theorem waybill_search_finds_substrings_witness:
  "snd (list_waybills 1 10 None None (Some ''LI'')
     (waybill_db0\<lparr>waybills := [waybill1, waybill1\<lparr>wb_recipient_name := ''Wu''\<rparr>, waybill1\<lparr>is_deleted := True\<rparr>]\<rparr>)) = 1"
proof -
  have l: "map lower_char ''LI'' = ''li''" "map lower_char ''SF1'' = ''sf1''" "map lower_char ''ORD-7'' = ''ord-7''"
    "map lower_char ''Zhao Li'' = ''zhao li''" "map lower_char ''Wu'' = ''wu''" by (simp_all add: lower_char_def char_of_def bit_0)
  have s: "sublist ''li'' ''zhao li''" "\<not> sublist ''li'' ''sf1''" "\<not> sublist ''li'' ''ord-7''" "\<not> sublist ''li'' ''wu''"
    by code_simp+
  have "plain ''LI''" by code_simp
  from waybill_search_finds_substrings[OF this, of 1 10
      "waybill_db0\<lparr>waybills := [waybill1, waybill1\<lparr>wb_recipient_name := ''Wu''\<rparr>, waybill1\<lparr>is_deleted := True\<rparr>]\<rparr>"]
  show ?thesis by (simp add: row_count_def waybill1_def l s del: list.map)
qed

end
