(* ===== verification/Csv.thy ===== *)
theory Csv
  imports Uuid
begin

text \<open>
  CSV text as the standard library reads and writes it in its default dialect, which
  \<open>src/core/export.py\<close> and the imports of \<open>src/core/_import\<close> and \<open>src/core/import_utils.py\<close> use: the
  automaton of \<open>csv.reader\<close>, \<open>csv.DictReader\<close> on top of it, and \<open>csv.DictWriter\<close>. The limit on the size
  of a field is left out.
\<close>

section \<open>Reading\<close>

datatype csv_state = START_RECORD | START_FIELD | IN_FIELD | IN_QUOTED_FIELD | QUOTE_IN_QUOTED_FIELD | EAT_CRNL

record csv_parser =
  cp_state :: csv_state
  cp_field :: string
  cp_fields :: "string list"

definition fresh_parser :: csv_parser where
  "fresh_parser = \<lparr>cp_state = START_RECORD, cp_field = [], cp_fields = []\<rparr>"

definition newline_char :: "char \<Rightarrow> bool" where
  "newline_char c \<longleftrightarrow> c = CHR 0x0A \<or> c = CHR 0x0D"

definition add_char :: "char \<Rightarrow> csv_state \<Rightarrow> csv_parser \<Rightarrow> csv_parser" where
  "add_char c st p = p\<lparr>cp_field := cp_field p @ [c], cp_state := st\<rparr>"

definition save_field :: "csv_state \<Rightarrow> csv_parser \<Rightarrow> csv_parser" where
  "save_field st p = p\<lparr>cp_fields := cp_fields p @ [cp_field p], cp_field := [], cp_state := st\<rparr>"

text \<open>One character; \<open>None\<close> is \<open>csv.Error\<close>.\<close>

definition start_field :: "char \<Rightarrow> csv_parser \<Rightarrow> csv_parser" where
  "start_field c p =
     (if newline_char c then save_field EAT_CRNL p
      else if c = CHR 0x22 then p\<lparr>cp_state := IN_QUOTED_FIELD\<rparr>
      else if c = CHR '','' then save_field START_FIELD p
      else add_char c IN_FIELD p)"

definition csv_char :: "char \<Rightarrow> csv_parser \<Rightarrow> csv_parser option" where
  "csv_char c p =
     (case cp_state p of
        START_RECORD \<Rightarrow> Some (if newline_char c then p\<lparr>cp_state := EAT_CRNL\<rparr> else start_field c p)
      | START_FIELD \<Rightarrow> Some (start_field c p)
      | IN_FIELD \<Rightarrow> Some (if newline_char c then save_field EAT_CRNL p
          else if c = CHR '','' then save_field START_FIELD p else add_char c IN_FIELD p)
      | IN_QUOTED_FIELD \<Rightarrow> Some (if c = CHR 0x22 then p\<lparr>cp_state := QUOTE_IN_QUOTED_FIELD\<rparr> else add_char c IN_QUOTED_FIELD p)
      | QUOTE_IN_QUOTED_FIELD \<Rightarrow> Some (if c = CHR 0x22 then add_char c IN_QUOTED_FIELD p
          else if c = CHR '','' then save_field START_FIELD p
          else if newline_char c then save_field EAT_CRNL p else add_char c IN_FIELD p)
      | EAT_CRNL \<Rightarrow> if newline_char c then Some p else None)"

text \<open>The end of a line.\<close>

definition csv_eol :: "csv_parser \<Rightarrow> csv_parser" where
  "csv_eol p =
     (if cp_state p = IN_QUOTED_FIELD \<or> cp_state p = START_RECORD then p
      else if cp_state p = EAT_CRNL then p\<lparr>cp_state := START_RECORD\<rparr>
      else save_field START_RECORD p)"

text \<open>
  The rows of a text and whether reading ended with an error. The text is taken line by line: the end
  of the line follows each line feed and the end of the text. A record left open at the end of the
  text is a row.
\<close>

fun csv_read :: "string \<Rightarrow> csv_parser \<Rightarrow> string list list \<times> bool" where
  "csv_read [] p =
     (if cp_field p \<noteq> [] \<or> cp_state p = IN_QUOTED_FIELD then ([cp_fields p @ [cp_field p]], False) else ([], False))"
| "csv_read (c # s) p =
     (case csv_char c p of
        None \<Rightarrow> ([], True)
      | Some p1 \<Rightarrow>
          if c = CHR 0x0A \<or> s = [] then
            (let p2 = csv_eol p1 in
             if cp_state p2 = START_RECORD then (case csv_read s fresh_parser of (rs, e) \<Rightarrow> (cp_fields p2 # rs, e))
             else csv_read s p2)
          else csv_read s p1)"

type_synonym csv_row = "(string \<times> string option) list"

text \<open>\<open>DictReader\<close>: short rows are filled with \<open>None\<close>, the surplus of long ones is kept under the key \<open>None\<close>.\<close>

definition dict_row :: "string list \<Rightarrow> string list \<Rightarrow> csv_row" where
  "dict_row names row = zip names (map Some row) @ map (\<lambda>k. (k, None)) (drop (length row) names)"

definition dict_rows :: "string \<Rightarrow> csv_row list \<times> bool" where
  "dict_rows s =
     (case csv_read s fresh_parser of
        ([], e) \<Rightarrow> ([], e)
      | (names # rows, e) \<Rightarrow> (map (dict_row names) (filter (\<lambda>r. r \<noteq> []) rows), e))"

text \<open>\<open>row.get(key, default)\<close>; of equal keys the last one counts.\<close>

definition row_get :: "string \<Rightarrow> string option \<Rightarrow> csv_row \<Rightarrow> string option" where
  "row_get k dflt row = (case map_of (rev row) k of None \<Rightarrow> dflt | Some v \<Rightarrow> v)"

section \<open>Writing\<close>

definition needs_quotes :: "string \<Rightarrow> bool" where
  "needs_quotes f = list_ex (\<lambda>c. c = CHR '','' \<or> c = CHR 0x22 \<or> newline_char c) f"

definition escape_quotes :: "string \<Rightarrow> string" where
  "escape_quotes f = concat (map (\<lambda>c. if c = CHR 0x22 then [c, c] else [c]) f)"

definition quote_field :: "string \<Rightarrow> string" where
  "quote_field f = CHR 0x22 # escape_quotes f @ [CHR 0x22]"

definition write_field :: "string \<Rightarrow> string" where
  "write_field f = (if needs_quotes f then quote_field f else f)"

fun write_fields :: "string list \<Rightarrow> string" where
  "write_fields [] = []"
| "write_fields [f] = write_field f"
| "write_fields (f # fs) = write_field f @ '','' @ write_fields fs"

text \<open>A row of one empty field is quoted.\<close>

definition write_row :: "string list \<Rightarrow> string" where
  "write_row fs = (if fs = [[]] then quote_field [] else write_fields fs) @ [CHR 0x0D, CHR 0x0A]"

section \<open>Reading back\<close>

abbreviation parser_at :: "csv_state \<Rightarrow> string \<Rightarrow> string list \<Rightarrow> csv_parser" where
  "parser_at st f fs \<equiv> \<lparr>cp_state = st, cp_field = f, cp_fields = fs\<rparr>"

lemmas csv_steps = csv_char_def start_field_def save_field_def add_char_def csv_eol_def newline_char_def

text \<open>Characters of a plain field are added to it.\<close>

lemma read_plain_rest:
  assumes "\<not> needs_quotes f" "s \<noteq> []"
  shows "csv_read (f @ s) (parser_at IN_FIELD g fs) = csv_read s (parser_at IN_FIELD (g @ f) fs)"
  using assms
proof (induction f arbitrary: g)
  case (Cons c f)
  then have c: "c \<noteq> CHR '',''" "\<not> newline_char c" "\<not> needs_quotes f" by (simp_all add: needs_quotes_def)
  then have "c \<noteq> CHR 0x0A" by (simp add: newline_char_def)
  moreover have "csv_char c (parser_at IN_FIELD g fs) = Some (parser_at IN_FIELD (g @ [c]) fs)"
    using c by (simp add: csv_char_def add_char_def)
  ultimately show ?case using Cons.IH[OF c(3) Cons.prems(2), of "g @ [c]"] Cons.prems(2) by simp
qed simp

lemma read_quoted_rest:
  assumes "s \<noteq> []"
  shows "csv_read (escape_quotes f @ CHR 0x22 # s) (parser_at IN_QUOTED_FIELD g fs) =
    csv_read s (parser_at QUOTE_IN_QUOTED_FIELD (g @ f) fs)"
proof (induction f arbitrary: g)
  case Nil
  show ?case using assms by (simp add: escape_quotes_def csv_char_def)
next
  case (Cons c f)
  show ?case
  proof (cases "c = CHR 0x22")
    case True
    then have "csv_read (escape_quotes (c # f) @ CHR 0x22 # s) (parser_at IN_QUOTED_FIELD g fs) =
        csv_read (escape_quotes f @ CHR 0x22 # s) (parser_at IN_QUOTED_FIELD (g @ [c]) fs)"
      by (simp add: escape_quotes_def csv_char_def add_char_def)
    with Cons.IH[of "g @ [c]"] show ?thesis by simp
  next
    case False
    then have "csv_read (escape_quotes (c # f) @ CHR 0x22 # s) (parser_at IN_QUOTED_FIELD g fs) =
        csv_read (escape_quotes f @ CHR 0x22 # s) (parser_at IN_QUOTED_FIELD (g @ [c]) fs)"
      by (simp add: escape_quotes_def csv_char_def add_char_def csv_eol_def)
    with Cons.IH[of "g @ [c]"] show ?thesis by simp
  qed
qed

text \<open>What follows a field closes it in the same way, however it was written.\<close>

definition field_end :: "string \<Rightarrow> bool" where
  "field_end s \<longleftrightarrow> (\<exists>t. s = CHR '','' # t \<or> s = CHR 0x0D # CHR 0x0A # t)"

lemma read_field:
  assumes "field_end s" "st = START_FIELD \<or> st = START_RECORD \<and> (write_field f = [] \<longrightarrow> hd s = CHR '','')"
  shows "csv_read (write_field f @ s) (parser_at st [] fs) = csv_read s (parser_at IN_FIELD f fs)"
proof -
  from assms(1) have s: "s \<noteq> []" by (auto simp: field_end_def)
  show ?thesis
  proof (cases "needs_quotes f")
    case True
    have "csv_read (write_field f @ s) (parser_at st [] fs) = csv_read (escape_quotes f @ CHR 0x22 # s) (parser_at IN_QUOTED_FIELD [] fs)"
      using True assms(2) by (auto simp: write_field_def quote_field_def csv_steps)
    also have "\<dots> = csv_read s (parser_at QUOTE_IN_QUOTED_FIELD f fs)" using read_quoted_rest[OF s, of f "[]" fs] by simp
    also have "\<dots> = csv_read s (parser_at IN_FIELD f fs)" using assms(1) by (auto simp: field_end_def csv_steps)
    finally show ?thesis .
  next
    case plain: False
    show ?thesis
    proof (cases f)
      case Nil
      with assms show ?thesis by (auto simp: write_field_def needs_quotes_def field_end_def csv_steps)
    next
      case (Cons c g)
      with plain have c: "c \<noteq> CHR '',''" "c \<noteq> CHR 0x22" "\<not> newline_char c" "\<not> needs_quotes g" by (simp_all add: needs_quotes_def)
      then have n: "c \<noteq> CHR 0x0A" by (simp add: newline_char_def)
      have "csv_char c (parser_at st [] fs) = Some (parser_at IN_FIELD [c] fs)"
        using c assms(2) by (auto simp: csv_char_def start_field_def add_char_def)
      then have "csv_read (write_field f @ s) (parser_at st [] fs) = csv_read (g @ s) (parser_at IN_FIELD [c] fs)"
        using Cons plain n s by (simp add: write_field_def)
      with read_plain_rest[OF c(4) s] Cons show ?thesis by simp
    qed
  qed
qed

lemma read_comma: "t \<noteq> [] \<Longrightarrow> csv_read (CHR '','' # t) (parser_at IN_FIELD f fs) = csv_read t (parser_at START_FIELD [] (fs @ [f]))"
  by (simp add: csv_steps)

lemma read_crlf:
  "csv_read (CHR 0x0D # CHR 0x0A # t) (parser_at IN_FIELD f fs) =
     (case csv_read t fresh_parser of (rs, e) \<Rightarrow> ((fs @ [f]) # rs, e))"
  by (simp add: csv_steps)

lemma read_fields:
  assumes "row \<noteq> []" "st = START_FIELD \<or> st = START_RECORD \<and> row \<noteq> [[]]"
  shows "csv_read (write_fields row @ CHR 0x0D # CHR 0x0A # t) (parser_at st [] fs) =
     (case csv_read t fresh_parser of (rs, e) \<Rightarrow> ((fs @ row) # rs, e))"
  using assms
proof (induction row arbitrary: st fs rule: write_fields.induct)
  case (2 f)
  have "csv_read (write_fields [f] @ CHR 0x0D # CHR 0x0A # t) (parser_at st [] fs) =
      csv_read (CHR 0x0D # CHR 0x0A # t) (parser_at IN_FIELD f fs)"
    unfolding write_fields.simps using "2.prems" 
    by (intro read_field) (auto simp: field_end_def write_field_def quote_field_def split: if_splits)
  then show ?case by (simp only: read_crlf)
next
  case (3 f f' row)
  let ?t = "write_fields (f' # row) @ CHR 0x0D # CHR 0x0A # t"
  have "csv_read (write_fields (f # f' # row) @ CHR 0x0D # CHR 0x0A # t) (parser_at st [] fs) =
      csv_read (CHR '','' # ?t) (parser_at IN_FIELD f fs)"
    using read_field[of "CHR '','' # ?t" st f fs] "3.prems" by (auto simp: field_end_def)
  also have "\<dots> = csv_read ?t (parser_at START_FIELD [] (fs @ [f]))" by (rule read_comma) simp
  also have "\<dots> = (case csv_read t fresh_parser of (rs, e) \<Rightarrow> ((fs @ f # f' # row) # rs, e))"
    using "3.IH"[of START_FIELD "fs @ [f]"] by simp
  finally show ?case .
qed simp

lemma read_row:
  assumes "row \<noteq> []"
  shows "csv_read (write_row row @ t) fresh_parser = (case csv_read t fresh_parser of (rs, e) \<Rightarrow> (row # rs, e))"
proof (cases "row = [[]]")
  case True
  then have "csv_read (write_row row @ t) fresh_parser = csv_read (CHR 0x0D # CHR 0x0A # t) (parser_at QUOTE_IN_QUOTED_FIELD [] [])"
    by (simp add: write_row_def quote_field_def escape_quotes_def fresh_parser_def csv_steps)
  also have "\<dots> = (case csv_read t fresh_parser of (rs, e) \<Rightarrow> (row # rs, e))" using True by (simp add: csv_steps)
  finally show ?thesis .
next
  case False
  with read_fields[OF assms, of START_RECORD t "[]"] show ?thesis by (simp add: write_row_def fresh_parser_def)
qed

lemma read_rows:
  assumes "[] \<notin> set rows"
  shows "csv_read (concat (map write_row rows)) fresh_parser = (rows, False)"
  using assms
proof (induction rows)
  case (Cons row rows)
  then have "row \<noteq> []" "csv_read (concat (map write_row rows)) fresh_parser = (rows, False)" by auto
  then show ?case by (simp add: read_row)
qed (simp add: fresh_parser_def)

section \<open>Dictionaries\<close>

text \<open>\<open>DictWriter.writerow({col: row.get(col, "") for col in columns})\<close>\<close>

definition dict_writerow :: "string list \<Rightarrow> (string \<times> string) list \<Rightarrow> string" where
  "dict_writerow columns row = write_row (map (\<lambda>c. get_default [] (map_of row c)) columns)"

definition header_row :: "string list \<Rightarrow> string" where
  "header_row columns = write_row columns"

lemma row_get_dict_row:
  assumes "distinct names" "i < length names" "length row = length names"
  shows "row_get (names ! i) dflt (dict_row names row) = Some (row ! i)"
proof -
  have "map fst (dict_row names row) = names" using assms(3) by (simp add: dict_row_def)
  with assms(1) have d: "distinct (map fst (rev (dict_row names row)))" by (simp add: rev_map[symmetric])
  have "(names ! i, Some (row ! i)) \<in> set (zip names (map Some row))"
    using assms(2,3) by (auto simp: in_set_zip)
  then have "(names ! i, Some (row ! i)) \<in> set (rev (dict_row names row))" by (simp add: dict_row_def)
  with d have "map_of (rev (dict_row names row)) (names ! i) = Some (Some (row ! i))" by simp
  then show ?thesis by (simp add: row_get_def)
qed

lemma row_get_absent: "k \<notin> set names \<Longrightarrow> row_get k dflt (dict_row names row) = dflt"
proof -
  assume k: "k \<notin> set names"
  have "fst ` set (dict_row names row) \<subseteq> set names"
    by (auto simp: dict_row_def dest: set_zip_leftD in_set_dropD)
  with k have "map_of (rev (dict_row names row)) k = None" by (auto simp: map_of_eq_None_iff)
  then show ?thesis by (simp add: row_get_def)
qed

section \<open>Numbers\<close>

text \<open>\<open>int(text)\<close>\<close>

definition dec_val :: "char \<Rightarrow> nat option" where
  "dec_val ch = (let c = of_char ch :: nat in if 48 \<le> c \<and> c \<le> 57 then Some (c - 48) else None)"

fun dec_value :: "bool \<Rightarrow> nat \<Rightarrow> string \<Rightarrow> nat option" where
  "dec_value prev acc [] = (if prev then Some acc else None)"
| "dec_value prev acc (c # cs) =
     (if c = CHR ''_'' then (if prev then dec_value False acc cs else None)
      else case dec_val c of None \<Rightarrow> None | Some d \<Rightarrow> dec_value True (10 * acc + d) cs)"

definition py_int :: "string \<Rightarrow> int option" where
  "py_int s =
     (case strip_by py_space s of
        [] \<Rightarrow> None
      | c # r \<Rightarrow>
          if c = CHR ''-'' then map_option (\<lambda>n. - int n) (dec_value False 0 r)
          else if c = CHR ''+'' then map_option int (dec_value False 0 r)
          else map_option int (dec_value False 0 (c # r)))"

text \<open>The text of a stored numeric with \<open>p\<close> decimal places.\<close>

definition show_numeric :: "nat \<Rightarrow> decimal \<Rightarrow> string" where
  "show_numeric p q =
     (let n = nat \<lfloor>\<bar>q\<bar> * 10 ^ p\<rfloor>
      in (if q < 0 then ''-'' else []) @ show_nat (n div 10 ^ p) @ ''.'' @ zero_pad p (show_nat (n mod 10 ^ p)))"

lemma dec_value_point: "CHR ''.'' \<in> set s \<Longrightarrow> dec_value prev acc s = None"
proof (induction s arbitrary: prev acc)
  case (Cons c s)
  then show ?case by (auto simp: dec_val_def split: option.splits)
qed simp

lemma strip_by_keeps:
  assumes "c \<in> set s" "\<not> p c"
  shows "c \<in> set (strip_by p s)"
proof -
  have "c \<in> set (dropWhile p t)" if "c \<in> set t" for t
  proof -
    have "c \<notin> set (takeWhile p t)" using assms(2) by (auto dest: set_takeWhileD)
    with that show ?thesis using takeWhile_dropWhile_id[of p t] by (metis Un_iff set_append)
  qed
  with assms(1) show ?thesis by (simp add: strip_by_def)
qed

lemma py_int_point:
  assumes "CHR ''.'' \<in> set s"
  shows "py_int s = None"
proof -
  have p: "CHR ''.'' \<in> set (strip_by py_space s)"
    using assms by (rule strip_by_keeps) (simp add: py_space_def)
  then obtain c r where s: "strip_by py_space s = c # r" by (cases "strip_by py_space s") auto
  with p have r: "CHR ''.'' \<in> set r" if "c = CHR ''-'' \<or> c = CHR ''+''" using that by auto
  have "dec_value False 0 (c # r) = None" by (rule dec_value_point) (use p s in simp)
  moreover have "dec_value False 0 r = None" if "c = CHR ''-'' \<or> c = CHR ''+''" using r[OF that] by (rule dec_value_point)
  ultimately show ?thesis unfolding py_int_def s list.case by (simp del: dec_value.simps)
qed

text \<open>\<open>int(str(n))\<close> is the number.\<close>

lemma dec_value_digits:
  assumes "\<forall>k\<in>set ks. k < 10"
  shows "dec_value True acc (map (\<lambda>k. char_of (48 + k)) ks) = Some (foldl (\<lambda>a k. 10 * a + k) acc ks)"
  using assms
proof (induction ks arbitrary: acc)
  case (Cons k ks)
  then have k: "k < 10" by simp
  then have c: "of_char (char_of (48 + k) :: char) = (48 + k :: nat)" by simp
  have "(char_of (48 + k) :: char) \<noteq> CHR ''_''"
  proof
    assume "(char_of (48 + k) :: char) = CHR ''_''"
    then have "of_char (char_of (48 + k) :: char) = (of_char (CHR ''_'') :: nat)" by (rule arg_cong)
    with c k show False by simp
  qed
  moreover have "dec_val (char_of (48 + k)) = Some k" using k c by (simp add: dec_val_def)
  ultimately show ?case using Cons by simp
qed simp

end
