(* ===== verification/Csv_Stock.thy ===== *)
theory Csv_Stock
  imports Csv Wms_Inventory
begin

text \<open>
  The CSV export of orders and stock (\<open>src/core/export.py\<close>) and the import of stock from CSV
  (\<open>src/core/_import/import_inventory.py\<close> behind \<open>src/core/_import/__init__.py\<close>). Bytes are characters
  below 256, so decoding is the identity. The text of a time is a parameter.
\<close>

section \<open>Export\<close>

definition utf8_bom :: string where
  "utf8_bom = utf8 [239, 187, 191]"

definition stream_csv :: "(string \<times> string) list list \<Rightarrow> string list \<Rightarrow> string list" where
  "stream_csv rows columns = (utf8_bom @ header_row columns) # map (dict_writerow columns) rows"

definition inventory_columns :: "string list" where
  "inventory_columns = [''sku_id'', ''warehouse_id'', ''quantity'', ''locked_qty'', ''min_qty'', ''updated_at'']"

definition order_columns :: "string list" where
  "order_columns = [''order_no'', ''status'', ''customer_id'', ''total_amount'', ''created_at'', ''updated_at'']"

text \<open>Stored numerics of stock have four decimal places, those of orders two. \<open>str(None)\<close> is \<open>None\<close>.\<close>

definition export_inventory :: "(datetime \<Rightarrow> string) \<Rightarrow> 'a wms_db_scheme \<Rightarrow> (string \<times> string) list list" where
  "export_inventory isoformat d =
     map (\<lambda>i. [(''sku_id'', show_uuid (inv_sku_id i)),
       (''warehouse_id'', case inv_warehouse_id i of None \<Rightarrow> ''None'' | Some w \<Rightarrow> show_uuid w),
       (''quantity'', show_numeric 4 (inv_quantity i)), (''locked_qty'', show_numeric 4 (inv_locked_qty i)),
       (''min_qty'', show_numeric 4 (inv_min_qty i)), (''updated_at'', isoformat (updated_at i))]) (inventory_rows d)"

definition export_orders :: "(datetime \<Rightarrow> string) \<Rightarrow> 'a oms_db_scheme \<Rightarrow> (string \<times> string) list list" where
  "export_orders isoformat d =
     map (\<lambda>x. [(''order_no'', ord_order_no x), (''status'', status_reverse (ord_status x)),
       (''customer_id'', show_uuid (ord_customer_id x)),
       (''total_amount'', if ord_total_amount x = 0 then ''0'' else show_numeric 2 (ord_total_amount x)),
       (''created_at'', isoformat (created_at x)), (''updated_at'', isoformat (updated_at x))])
       (order_by_desc created_at (orders d))"

definition export_inventory_csv :: "(datetime \<Rightarrow> string) \<Rightarrow> 'a wms_db_scheme \<Rightarrow> string" where
  "export_inventory_csv isoformat d = concat (stream_csv (export_inventory isoformat d) inventory_columns)"

definition export_orders_csv :: "(datetime \<Rightarrow> string) \<Rightarrow> 'a oms_db_scheme \<Rightarrow> string" where
  "export_orders_csv isoformat d = concat (stream_csv (export_orders isoformat d) order_columns)"

section \<open>Import\<close>

record import_result =
  im_success :: nat
  im_errors :: "(nat \<times> exn) list"

text \<open>\<open>row.get(key, "").strip()\<close>; a cell that a short row lacks is \<open>None\<close>.\<close>

definition cell_text :: "string \<Rightarrow> csv_row \<Rightarrow> string result" where
  "cell_text k row = (case row_get k (Some []) row of None \<Rightarrow> Inl AttributeError | Some s \<Rightarrow> Inr (strip_by py_space s))"

text \<open>\<open>int(row.get("quantity", 0))\<close> and \<open>int(row.get("min_qty", 0) or 0)\<close>; \<open>int(0)\<close> is \<open>int("0")\<close>.\<close>

definition quantity_cell :: "csv_row \<Rightarrow> int result" where
  "quantity_cell row =
     (case row_get ''quantity'' (Some ''0'') row of None \<Rightarrow> Inl TypeError | Some s \<Rightarrow> of_option ValueError (py_int s))"

definition min_qty_cell :: "csv_row \<Rightarrow> int result" where
  "min_qty_cell row =
     (case row_get ''min_qty'' None row of
        None \<Rightarrow> Inr 0
      | Some s \<Rightarrow> if s = [] then Inr 0 else of_option ValueError (py_int s))"

text \<open>The values of a row: product, warehouse, quantity and safety stock.\<close>

definition row_values :: "csv_row \<Rightarrow> (uuid \<times> uuid \<times> decimal \<times> decimal) result" where
  "row_values row =
     bindE (cell_text ''sku_id'' row) (\<lambda>sku_id_str.
     bindE (cell_text ''warehouse_id'' row) (\<lambda>warehouse_id_str.
     bindE (raise_if (sku_id_str = [] \<or> warehouse_id_str = []) ValueError) (\<lambda>_.
     bindE (to_uuid sku_id_str) (\<lambda>sku_id.
     bindE (to_uuid warehouse_id_str) (\<lambda>warehouse_id.
     bindE (quantity_cell row) (\<lambda>quantity.
     bindE (min_qty_cell row) (\<lambda>min_qty.
     Inr (sku_id, warehouse_id, of_int quantity, of_int min_qty))))))))"

definition stock_at :: "uuid \<Rightarrow> uuid \<Rightarrow> inventory \<Rightarrow> bool" where
  "stock_at sku_id warehouse_id i \<longleftrightarrow> inv_warehouse_id i = Some warehouse_id \<and> inv_sku_id i = sku_id"

definition set_stock :: "env \<Rightarrow> decimal \<Rightarrow> decimal \<Rightarrow> inventory \<Rightarrow> inventory" where
  "set_stock env quantity min_qty i =
     (if inv_quantity i = quantity \<and> inv_min_qty i = min_qty then i
      else i\<lparr>inv_quantity := quantity, inv_min_qty := min_qty, updated_at := now env\<rparr>)"

definition import_row :: "env \<Rightarrow> csv_row \<Rightarrow> 'a wms_db_scheme \<Rightarrow> 'a wms_db_scheme result" where
  "import_row env row d =
     bindE (row_values row) (\<lambda>(sku_id, warehouse_id, quantity, min_qty).
     bindE (find_or_raise ValueError (\<lambda>w. pk w = warehouse_id) (warehouses d)) (\<lambda>_.
     bindE (find_or_raise ValueError (\<lambda>s. pk s = sku_id) (skus d)) (\<lambda>_.
     bindE (find_one (stock_at sku_id warehouse_id) (inventory_rows d)) (\<lambda>inv.
     case inv of
       Some i \<Rightarrow> Inr (d\<lparr>inventory_rows := update_where (\<lambda>x. pk x = pk i) (set_stock env quantity min_qty) (inventory_rows d)\<rparr>)
     | None \<Rightarrow> Inr ((tick d)\<lparr>inventory_rows := insert_row
         \<lparr>pk = new_uuid env d, created_at = now env, updated_at = now env, is_deleted = False, deleted_at = None,
          inv_warehouse_id = Some warehouse_id, inv_location_id = None, inv_sku_id = sku_id, inv_gtin = [],
          inv_batch_no = ''IMPORT'', inv_quantity = quantity, inv_locked_qty = 0, inv_min_qty = min_qty,
          inv_max_qty = 0, inv_version = 0, inv_expiry_date = None, inv_manufacturing_date = None,
          inv_received_at = None\<rparr> (inventory_rows d)\<rparr>)))))"

text \<open>Rows are numbered from two; a row that fails is recorded and changes nothing.\<close>

fun import_rows :: "env \<Rightarrow> nat \<Rightarrow> csv_row list \<Rightarrow> 'a wms_db_scheme \<Rightarrow> 'a wms_db_scheme \<times> import_result" where
  "import_rows env row_num [] d = (d, \<lparr>im_success = 0, im_errors = []\<rparr>)"
| "import_rows env row_num (row # rows) d =
     (case import_row env row d of
        Inr d' \<Rightarrow> (case import_rows env (Suc row_num) rows d' of (d'', r) \<Rightarrow> (d'', r\<lparr>im_success := Suc (im_success r)\<rparr>))
      | Inl e \<Rightarrow> (case import_rows env (Suc row_num) rows d of (d'', r) \<Rightarrow> (d'', r\<lparr>im_errors := (row_num, e) # im_errors r\<rparr>)))"

text \<open>An error of the reader escapes and nothing is committed: \<open>None\<close>.\<close>

definition handle_inventory_import :: "env \<Rightarrow> string \<Rightarrow> 'a wms_db_scheme \<Rightarrow> ('a wms_db_scheme \<times> import_result) option" where
  "handle_inventory_import env csv_text d =
     (case dict_rows csv_text of (rows, failed) \<Rightarrow> if failed then None else Some (import_rows env 2 rows d))"

text \<open>
  The wrapper of the imports: bytes are decoded (\<open>decode\<close>, \<open>None\<close> is a decoding error, which is answered
  as the error of row one), a text is stripped.
\<close>

datatype content = Bytes string | Text string

definition import_csv_handler ::
  "(string \<Rightarrow> string option) \<Rightarrow> content \<Rightarrow> (string \<Rightarrow> 'd \<Rightarrow> ('d \<times> import_result) option) \<Rightarrow> 'd \<Rightarrow> ('d \<times> import_result) option" where
  "import_csv_handler decode content handler d =
     (case (case content of Bytes b \<Rightarrow> decode b | Text t \<Rightarrow> Some (strip_by py_space t)) of
        None \<Rightarrow> Some (d, \<lparr>im_success = 0, im_errors = [(1, ValueError)]\<rparr>)
      | Some csv_text \<Rightarrow> handler csv_text d)"

definition import_inventory_endpoint ::
  "env \<Rightarrow> (string \<Rightarrow> string option) \<Rightarrow> string \<Rightarrow> 'a wms_db_scheme \<Rightarrow> ('a wms_db_scheme \<times> import_result) option" where
  "import_inventory_endpoint env decode file d = import_csv_handler decode (Bytes file) (handle_inventory_import env) d"

section \<open>One row\<close>

lemma import_rowE:
  assumes "import_row env row d = Inr d'" "distinct (map pk (inventory_rows d))"
  obtains s w q m i where "row_values row = Inr (s, w, q, m)"
    "filter (stock_at s w) (inventory_rows d') = [i]" "inv_quantity i = q" "inv_min_qty i = m"
    "filter (\<lambda>x. \<not> stock_at s w x) (inventory_rows d') = filter (\<lambda>x. \<not> stock_at s w x) (inventory_rows d)"
proof -
  from assms(1) obtain s w q m inv where v: "row_values row = Inr (s, w, q, m)"
    and f: "find_one (stock_at s w) (inventory_rows d) = Inr inv" by (auto simp: import_row_def split: prod.splits)
  show thesis
  proof (cases inv)
    case None
    with f have none: "filter (stock_at s w) (inventory_rows d) = []" by (simp add: find_one_None filter_empty_conv)
    with assms(1) v f None show thesis
      by (intro that[OF v]) (auto simp: import_row_def insert_row_def tick_def stock_at_def)
  next
    case (Some i)
    let ?g = "\<lambda>x. if pk x = pk i then set_stock env q m x else x"
    from f Some have i: "filter (stock_at s w) (inventory_rows d) = [i]" by (simp add: find_one_Some_iff)
    then have "set (filter (stock_at s w) (inventory_rows d)) = {i}" by simp
    then have mem: "i \<in> set (inventory_rows d)" "stock_at s w i" by auto
    have d': "inventory_rows d' = map ?g (inventory_rows d)"
      using assms(1) v f Some by (auto simp: import_row_def update_where_def)
    have keep: "stock_at s w (?g x) = stock_at s w x" for x by (simp add: stock_at_def set_stock_def)
    have "filter (stock_at s w) (inventory_rows d') = map ?g (filter (stock_at s w) (inventory_rows d))"
      unfolding d' filter_map comp_def keep ..
    then have "filter (stock_at s w) (inventory_rows d') = [set_stock env q m i]" using i by simp
    moreover have "filter (\<lambda>x. \<not> stock_at s w x) (inventory_rows d') = map ?g (filter (\<lambda>x. \<not> stock_at s w x) (inventory_rows d))"
      unfolding d' filter_map comp_def keep ..
    moreover have "?g x = x" if "x \<in> set (inventory_rows d)" "\<not> stock_at s w x" for x
      using that mem assms(2) by (auto dest: inj_onD simp: distinct_map)
    ultimately show thesis by (intro that[OF v]) (auto simp: set_stock_def intro!: map_idI)
  qed
qed

text \<open>Stock rows have unique identifiers, and those still to be drawn are unused.\<close>

definition stock_ids :: "env \<Rightarrow> nat \<Rightarrow> 'a wms_db_scheme \<Rightarrow> bool" where
  "stock_ids env cap d \<longleftrightarrow> distinct (map pk (inventory_rows d)) \<and> fresh_ids env cap (drawn d) (pk ` set (inventory_rows d))"

lemma import_row_ids:
  assumes "import_row env row d = Inr d'" "stock_ids env cap d" "drawn d' \<le> cap"
  shows "stock_ids env cap d'"
proof -
  from assms(1) obtain s w q m inv where v: "row_values row = Inr (s, w, q, m)"
    and f: "find_one (stock_at s w) (inventory_rows d) = Inr inv" by (auto simp: import_row_def split: prod.splits)
  show ?thesis
  proof (cases inv)
    case None
    have "drawn d' = Suc (drawn d)" using assms(1) v f None by (auto simp: import_row_def tick_def)
    with assms(2,3) have "fresh_ids env cap (drawn d) (pk ` set (inventory_rows d))" "drawn d < cap" "drawn d < drawn d'"
      by (simp_all add: stock_ids_def)
    then have "uuid4 env (drawn d) \<notin> pk ` set (inventory_rows d)"
      "fresh_ids env cap (drawn d') (insert (uuid4 env (drawn d)) (pk ` set (inventory_rows d)))"
      by (simp_all only: fresh_ids_notin[OF _ order_refl] fresh_ids_draw not_False_eq_True)
    with assms(1,2) v f None show ?thesis
      by (auto simp: import_row_def stock_ids_def insert_row_def tick_def new_uuid_def)
  next
    case (Some i)
    have p: "pk (set_stock env q m x) = pk x" for x by (simp add: set_stock_def)
    have "inventory_rows d' = update_where (\<lambda>x. pk x = pk i) (set_stock env q m) (inventory_rows d)" "drawn d' = drawn d"
      using assms(1) v f Some by (auto simp: import_row_def)
    moreover have "map pk (update_where (\<lambda>x. pk x = pk i) (set_stock env q m) (inventory_rows d)) = map pk (inventory_rows d)"
      by (rule map_update_where) (rule p)
    ultimately have ids: "map pk (inventory_rows d') = map pk (inventory_rows d)" "drawn d' = drawn d" by simp_all
    have "pk ` set (inventory_rows d') = pk ` set (inventory_rows d)"
      using arg_cong[OF ids(1), of set] by simp
    with ids assms(2) show ?thesis by (simp add: stock_ids_def)
  qed
qed

lemma import_row_drawn: "import_row env row d = Inr d' \<Longrightarrow> drawn d \<le> drawn d'"
  by (auto simp: import_row_def tick_def split: prod.splits option.splits)

lemma import_rows_drawn: "import_rows env n rows d = (d', r) \<Longrightarrow> drawn d \<le> drawn d'"
proof (induction rows arbitrary: n d r)
  case (Cons row rows)
  then show ?case
    by (auto split: sum.splits prod.splits dest: import_row_drawn) (meson import_row_drawn order_trans)
qed simp

section \<open>A whole file\<close>

lemma import_rows_count: "import_rows env n rows d = (d', r) \<Longrightarrow> im_success r + length (im_errors r) = length rows"
  by (induction rows arbitrary: n d r) (fastforce split: sum.splits prod.splits)+

lemma import_rows_all_fail:
  assumes "\<And>x. x \<in> set rows \<Longrightarrow> import_row env x d = Inl e"
  shows "import_rows env n rows d = (d, \<lparr>im_success = 0, im_errors = map (\<lambda>k. (k, e)) [n..<n + length rows]\<rparr>)"
  using assms
proof (induction rows arbitrary: n)
  case (Cons row rows)
  then have "import_row env row d = Inl e"
    "import_rows env (Suc n) rows d = (d, \<lparr>im_success = 0, im_errors = map (\<lambda>k. (k, e)) [Suc n..<Suc n + length rows]\<rparr>)" by auto
  moreover have "[n..<n + length (row # rows)] = n # [Suc n..<Suc n + length rows]"
    using upt_conv_Cons[of n "n + length (row # rows)"] by simp
  ultimately show ?case by simp
qed simp

text \<open>Stock at a place that no row names is left alone.\<close>

lemma import_rows_frame:
  assumes "import_rows env n rows d = (d', r)" "stock_ids env cap d" "drawn d' \<le> cap"
    and "\<And>y s w q m x. y \<in> set rows \<Longrightarrow> row_values y = Inr (s, w, q, m) \<Longrightarrow> P x \<Longrightarrow> \<not> stock_at s w x"
  shows "filter P (inventory_rows d') = filter P (inventory_rows d)"
  using assms
proof (induction rows arbitrary: n d r)
  case (Cons row rows)
  show ?case
  proof (cases "import_row env row d")
    case (Inl e)
    with Cons.prems(1) obtain r' where "import_rows env (Suc n) rows d = (d', r')" by (auto split: prod.splits)
    then show ?thesis by (rule Cons.IH[OF _ Cons.prems(2,3)]) (metis Cons.prems(4) list.set_intros(2))
  next
    case (Inr d1)
    with Cons.prems(1) obtain r' where run: "import_rows env (Suc n) rows d1 = (d', r')" by (auto split: prod.splits)
    from import_rows_drawn[OF run] Cons.prems(3) have "drawn d1 \<le> cap" by simp
    from import_row_ids[OF Inr Cons.prems(2) this] have ids: "stock_ids env cap d1" .
    have "distinct (map pk (inventory_rows d))" using Cons.prems(2) by (simp add: stock_ids_def)
    from import_rowE[OF Inr this] obtain s w q m where v: "row_values row = Inr (s, w, q, m)"
      and eq: "filter (\<lambda>x. \<not> stock_at s w x) (inventory_rows d1) = filter (\<lambda>x. \<not> stock_at s w x) (inventory_rows d)" by metis
    have "filter P xs = filter P (filter (\<lambda>x. \<not> stock_at s w x) xs)" for xs
      using Cons.prems(4)[OF _ v] by (auto intro!: filter_cong)
    with eq have "filter P (inventory_rows d1) = filter P (inventory_rows d)" by metis
    moreover have "filter P (inventory_rows d') = filter P (inventory_rows d1)"
      by (rule Cons.IH[OF run ids Cons.prems(3)]) (metis Cons.prems(4) list.set_intros(2))
    ultimately show ?thesis by simp
  qed
qed simp

lemma import_rows_last:
  assumes "import_rows env n (xs @ row # ys) d = (d', r)" "im_errors r = []" "stock_ids env cap d" "drawn d' \<le> cap"
    and "row_values row = Inr (s, w, q, m)" "\<And>y q m. y \<in> set ys \<Longrightarrow> row_values y \<noteq> Inr (s, w, q, m)"
  obtains i where "filter (stock_at s w) (inventory_rows d') = [i]" "inv_quantity i = q" "inv_min_qty i = m"
proof -
  have "\<exists>i. filter (stock_at s w) (inventory_rows d') = [i] \<and> inv_quantity i = q \<and> inv_min_qty i = m"
    using assms(1-4)
  proof (induction xs arbitrary: n d r)
    case Nil
    then obtain d1 r' where one: "import_row env row d = Inr d1" and run: "import_rows env (Suc n) ys d1 = (d', r')"
      by (auto split: sum.splits prod.splits)
    from import_rows_drawn[OF run] Nil.prems(4) have le: "drawn d1 \<le> cap" by simp
    have "distinct (map pk (inventory_rows d))" using Nil.prems(3) by (simp add: stock_ids_def)
    from import_rowE[OF one this] assms(5) obtain i where
      i: "filter (stock_at s w) (inventory_rows d1) = [i]" "inv_quantity i = q" "inv_min_qty i = m" by (metis Inr_inject prod.inject)
    have "filter (stock_at s w) (inventory_rows d') = filter (stock_at s w) (inventory_rows d1)"
      using assms(6) by (intro import_rows_frame[OF run import_row_ids[OF one Nil.prems(3) le] Nil.prems(4)])
         (auto simp: stock_at_def)
    with i show ?case by simp
  next
    case (Cons x xs)
    then obtain d1 r' where one: "import_row env x d = Inr d1" and run: "import_rows env (Suc n) (xs @ row # ys) d1 = (d', r')"
      "im_errors r' = []"
      by (auto split: sum.splits prod.splits)
    from import_rows_drawn[OF run(1)] Cons.prems(4) have le: "drawn d1 \<le> cap" by simp
    from Cons.IH[OF run import_row_ids[OF one Cons.prems(3) le] Cons.prems(4)] show ?case .
  qed
  with that show thesis by blast
qed

section \<open>Exported files\<close>

text \<open>The mark in front of the header becomes a part of the name of the first column.\<close>

lemma bom_plain: "list_all (\<lambda>c. c \<noteq> CHR '','' \<and> c \<noteq> CHR 0x22 \<and> \<not> newline_char c) utf8_bom"
  by code_simp

lemma write_marked:
  assumes "\<not> needs_quotes f" "f \<noteq> []"
  shows "utf8_bom @ write_row (f # fs) = write_row ((utf8_bom @ f) # fs)"
proof -
  have "\<not> needs_quotes (utf8_bom @ f)"
    using bom_plain assms(1) by (auto simp: needs_quotes_def list_all_iff list_ex_iff)
  with assms show ?thesis by (cases fs) (simp_all add: write_row_def write_field_def)
qed

lemma stream_csv_rows:
  assumes "columns = f # fs" "\<not> needs_quotes f" "f \<noteq> []"
  shows "csv_read (concat (stream_csv rows columns)) fresh_parser =
    (((utf8_bom @ f) # fs) # map (\<lambda>row. map (\<lambda>c. get_default [] (map_of row c)) columns) rows, False)"
proof -
  have "dict_writerow columns = (\<lambda>row. write_row (map (\<lambda>c. get_default [] (map_of row c)) columns))"
    by (simp add: dict_writerow_def fun_eq_iff)
  then have "concat (stream_csv rows columns) =
      concat (map write_row (((utf8_bom @ f) # fs) # map (\<lambda>row. map (\<lambda>c. get_default [] (map_of row c)) columns) rows))"
    by (simp add: stream_csv_def header_row_def assms(1) write_marked[OF assms(2,3), symmetric] comp_def)
  also have "csv_read \<dots> fresh_parser =
      (((utf8_bom @ f) # fs) # map (\<lambda>row. map (\<lambda>c. get_default [] (map_of row c)) columns) rows, False)"
    by (rule read_rows) (auto simp: assms(1))
  finally show ?thesis .
qed

end
