(* ===== verification/Responses.thy ===== *)
theory Responses
  imports Catalog
begin

text \<open>
  The response envelopes of \<open>src/core/response.py\<close> and the exception handlers of \<open>src/main.py\<close> that use
  them. A response is its status and its JSON content.
\<close>

section \<open>Successful responses\<close>

record api_response =
  ar_success :: bool
  ar_data :: json
  ar_message :: "string option"
  ar_meta :: "(string \<times> json) list option"

definition api_response_init :: "json \<Rightarrow> string option \<Rightarrow> (string \<times> json) list option \<Rightarrow> api_response" where
  "api_response_init data message meta = \<lparr>ar_success = True, ar_data = data, ar_message = message, ar_meta = meta\<rparr>"

definition api_response_to_dict :: "api_response \<Rightarrow> (string \<times> json) list" where
  "api_response_to_dict r =
     [(''success'', JBool (ar_success r)), (''data'', ar_data r)] @
     (case ar_message r of None \<Rightarrow> [] | Some m \<Rightarrow> [(''message'', JStr m)]) @
     (case ar_meta r of None \<Rightarrow> [] | Some m \<Rightarrow> [(''meta'', JObj m)])"

record json_response =
  jr_status_code :: nat
  jr_content :: "(string \<times> json) list"

definition api_response_to_response :: "api_response \<Rightarrow> json_response" where
  "api_response_to_response r = \<lparr>jr_status_code = 200, jr_content = api_response_to_dict r\<rparr>"

definition success_response :: "json \<Rightarrow> string option \<Rightarrow> (string \<times> json) list option \<Rightarrow> api_response" where
  "success_response data message meta = api_response_init data message meta"

text \<open>\<open>None\<close> is the \<open>ZeroDivisionError\<close> of a page size of zero; \<open>div\<close> rounds down like \<open>//\<close>.\<close>

definition total_pages :: "int \<Rightarrow> int \<Rightarrow> int" where
  "total_pages total_count per_page = (total_count + per_page - 1) div per_page"

definition paginated_api_response :: "json list \<Rightarrow> int \<Rightarrow> int \<Rightarrow> int \<Rightarrow> api_response option" where
  "paginated_api_response data total_count page per_page =
     (if per_page = 0 then None
      else
        let meta = [(''pagination'', JObj
              [(''page'', JNum (of_int page)), (''per_page'', JNum (of_int per_page)),
               (''total_count'', JNum (of_int total_count)), (''total_pages'', JNum (of_int (total_pages total_count per_page))),
               (''has_next'', JBool (page * per_page < total_count)), (''has_prev'', JBool (1 < page))])]
        in Some (api_response_init (JList data) None (Some meta)))"

definition list_response :: "json list \<Rightarrow> string option \<Rightarrow> api_response" where
  "list_response data message = api_response_init (JList data) message None"

definition detail_response :: "json \<Rightarrow> string option \<Rightarrow> api_response" where
  "detail_response data message = api_response_init data message None"

definition delete_response :: "string option \<Rightarrow> api_response" where
  "delete_response message = api_response_init JNull (Some (get_default ''Resource deleted successfully'' message)) None"

definition create_response :: "json \<Rightarrow> string option \<Rightarrow> api_response" where
  "create_response data message = api_response_init data message None"

definition update_response :: "json \<Rightarrow> string option \<Rightarrow> api_response" where
  "update_response data message = api_response_init data message None"

definition health_check_response :: api_response where
  "health_check_response =
     success_response (JObj [(''status'', JStr ''ok''), (''service'', JStr ''oms-wms-tms'')]) (Some ''Service is healthy'') None"

definition readiness_check_response :: api_response where
  "readiness_check_response =
     success_response (JObj [(''status'', JStr ''ready''), (''service'', JStr ''oms-wms-tms'')])
       (Some ''Service is ready to accept requests'') None"

section \<open>Errors\<close>

definition error_response :: "nat \<Rightarrow> string \<Rightarrow> string \<Rightarrow> (string \<times> json) list list option \<Rightarrow> json_response" where
  "error_response status_code code message errors =
     \<lparr>jr_status_code = status_code,
      jr_content = [(''success'', JBool False), (''error'', JObj [(''code'', JStr code), (''message'', JStr message)])] @
        (case errors of None \<Rightarrow> [] | Some es \<Rightarrow> [(''errors'', JList (map JObj es))])\<rparr>"

definition validate_error_response :: "(string \<times> json) list list \<Rightarrow> nat option \<Rightarrow> json_response" where
  "validate_error_response errors status_code =
     error_response (get_default 422 status_code) ''VALIDATION_ERROR'' ''Validation failed'' (Some errors)"

definition not_found_response :: "string option \<Rightarrow> json_response" where
  "not_found_response message = error_response 404 ''NOT_FOUND'' (get_default ''Resource not found'' message) None"

definition unauthorized_response :: "string option \<Rightarrow> json_response" where
  "unauthorized_response message = error_response 401 ''UNAUTHORIZED'' (get_default ''Authentication required'' message) None"

definition forbidden_response :: "string option \<Rightarrow> json_response" where
  "forbidden_response message = error_response 403 ''FORBIDDEN'' (get_default ''Permission denied'' message) None"

definition rate_limit_exceeded_response :: json_response where
  "rate_limit_exceeded_response = error_response 429 ''RATE_LIMIT_EXCEEDED'' ''Rate limit exceeded'' None"

definition server_error_response :: "string option \<Rightarrow> json_response" where
  "server_error_response message = error_response 500 ''INTERNAL_ERROR'' (get_default ''Internal server error'' message) None"

definition bad_request_response :: "string option \<Rightarrow> json_response" where
  "bad_request_response message = error_response 400 ''BAD_REQUEST'' (get_default ''Bad request'' message) None"

definition method_not_allowed_response :: "string option \<Rightarrow> json_response" where
  "method_not_allowed_response message = error_response 405 ''METHOD_NOT_ALLOWED'' (get_default ''Method not allowed'' message) None"

definition not_implemented_response :: "string option \<Rightarrow> json_response" where
  "not_implemented_response message = error_response 501 ''NOT_IMPLEMENTED'' (get_default ''Not implemented'' message) None"

definition conflict_response :: "string option \<Rightarrow> json_response" where
  "conflict_response message = error_response 409 ''CONFLICT'' (get_default ''Resource already exists'' message) None"

definition bad_gateway_response :: "string option \<Rightarrow> json_response" where
  "bad_gateway_response message = error_response 502 ''BAD_GATEWAY'' (get_default ''Bad gateway request'' message) None"

definition service_unavailable_response :: "string option \<Rightarrow> json_response" where
  "service_unavailable_response message =
     error_response 503 ''SERVICE_UNAVAILABLE'' (get_default ''Service temporarily unavailable'' message) None"

definition internal_error_response :: "string option \<Rightarrow> json_response" where
  "internal_error_response message = error_response 500 ''INTERNAL_ERROR'' (get_default ''Internal server error'' message) None"

definition unknown_error_response :: "string option \<Rightarrow> json_response" where
  "unknown_error_response message = error_response 500 ''UNKNOWN_ERROR'' (get_default ''An unexpected error occurred'' message) None"

section \<open>Handlers\<close>

text \<open>The handler that \<open>src/main.py\<close> registers for each class of exceptions.\<close>

definition handle_app_exception :: "exn \<Rightarrow> json_response" where
  "handle_app_exception e =
     error_response (get_default 400 (exn_status_code e)) (get_default [] (exn_code e)) (exn_message e) None"

fun handle_exception :: "exn \<Rightarrow> json_response" where
  "handle_exception (NotFoundException m) = handle_app_exception (NotFoundException m)"
| "handle_exception (ValidationException m f) = handle_app_exception (ValidationException m f)"
| "handle_exception (AuthException m) = handle_app_exception (AuthException m)"
| "handle_exception (PermissionDeniedException m) = handle_app_exception (PermissionDeniedException m)"
| "handle_exception (RateLimitException m) = handle_app_exception (RateLimitException m)"
| "handle_exception (HTTPException c m) = error_response c ''HTTP_ERROR'' m None"
| "handle_exception e = error_response 500 ''INTERNAL_ERROR'' ''An unexpected error occurred'' None"

section \<open>Pages\<close>

lemma total_pages_bounds:
  assumes "0 < per_page" "0 \<le> total_count"
  shows "(total_pages total_count per_page - 1) * per_page < total_count \<or> total_pages total_count per_page = 0"
    "total_count \<le> total_pages total_count per_page * per_page" "0 \<le> total_pages total_count per_page"
proof -
  let ?n = "total_count + per_page - 1"
  let ?q = "total_pages total_count per_page"
  have d: "?n = ?q * per_page + ?n mod per_page" by (simp add: total_pages_def)
  have m: "0 \<le> ?n mod per_page" "?n mod per_page < per_page" using assms(1) by simp_all
  show "total_count \<le> ?q * per_page" using d m by linarith
  show "0 \<le> ?q" using assms by (simp add: total_pages_def pos_imp_zdiv_nonneg_iff)
  have "(?q - 1) * per_page = ?q * per_page - per_page" by (simp add: left_diff_distrib)
  then show "(?q - 1) * per_page < total_count \<or> ?q = 0" using d m by linarith
qed

lemma has_next_iff:
  assumes "0 < per_page" "0 \<le> total_count"
  shows "page * per_page < total_count \<longleftrightarrow> page < total_pages total_count per_page"
proof -
  let ?q = "total_pages total_count per_page"
  note b = total_pages_bounds[OF assms]
  show ?thesis
  proof
    assume "page * per_page < total_count"
    then have "page * per_page < ?q * per_page" using b(2) by linarith
    then show "page < ?q" using assms(1) by simp
  next
    assume l: "page < ?q"
    show "page * per_page < total_count"
    proof (cases "?q = 0")
      case True
      with l have "page < 0" by simp
      with assms show ?thesis using mult_neg_pos[of page per_page] by linarith
    next
      case False
      from l assms(1) have "page * per_page \<le> (?q - 1) * per_page" by (intro mult_right_mono) auto
      with b(1) False show ?thesis by linarith
    qed
  qed
qed

end
