(* ===== verification/Pda.thy ===== *)
theory Pda
  imports Outbox "HOL-Library.AList"
begin

text \<open>
  Terminal devices on the line: the queue of mutations of \<open>src/pda/service.py\<close>, which hands each
  mutation to the outbox, the push and pull routes of \<open>src/api/v1/mobile.py\<close>, and the websocket
  registries of \<open>src/pda/ws.py\<close> and \<open>src/notification/ws.py\<close>. The writing and reading of JSON text and
  whether a socket takes a message are parameters.
\<close>

section \<open>Connections\<close>

text \<open>The open sockets of each device or user, in the order of the dictionary.\<close>

type_synonym 'w registry = "(string \<times> 'w list) list"

definition conns_of :: "string \<Rightarrow> 'w registry \<Rightarrow> 'w list" where
  "conns_of k a = get_default [] (map_of a k)"

text \<open>The list of a key is changed in place; an empty one is popped.\<close>

definition put_conns :: "string \<Rightarrow> 'w list \<Rightarrow> 'w registry \<Rightarrow> 'w registry" where
  "put_conns k c a = (if c = [] then AList.delete k a else AList.update k c a)"

definition pda_connect :: "string \<Rightarrow> 'w \<Rightarrow> 'w registry \<Rightarrow> 'w registry" where
  "pda_connect device_id ws a = AList.update device_id (conns_of device_id a @ [ws]) a"

definition pda_disconnect :: "string \<Rightarrow> 'w \<Rightarrow> 'w registry \<Rightarrow> 'w registry" where
  "pda_disconnect device_id ws a = put_conns device_id (remove1 ws (conns_of device_id a)) a"

text \<open>\<open>ok ws\<close>: the socket takes the message.\<close>

definition send_to_device :: "('w \<Rightarrow> bool) \<Rightarrow> string \<Rightarrow> 'w registry \<Rightarrow> 'w registry \<times> bool" where
  "send_to_device ok device_id a =
     (let conns = conns_of device_id a in
      if conns = [] then (a, False)
      else let stale = filter (\<lambda>w. \<not> ok w) conns;
               a' = fold (pda_disconnect device_id) stale a
           in (a', filter (\<lambda>w. w \<notin> set stale) (conns_of device_id a') \<noteq> []))"

fun broadcast_to :: "('w \<Rightarrow> bool) \<Rightarrow> string list \<Rightarrow> 'w registry \<Rightarrow> 'w registry \<times> nat" where
  "broadcast_to ok [] a = (a, 0)"
| "broadcast_to ok (k # ks) a =
     (let (a1, delivered) = send_to_device ok k a; (a2, n) = broadcast_to ok ks a1
      in (a2, if delivered then Suc n else n))"

definition pda_broadcast :: "('w \<Rightarrow> bool) \<Rightarrow> 'w registry \<Rightarrow> 'w registry \<times> nat" where
  "pda_broadcast ok a = broadcast_to ok (map fst a) a"

definition active_count :: "'w registry \<Rightarrow> nat" where
  "active_count a = sum_list (map (length \<circ> snd) a)"

text \<open>The registry of the notifications keeps at most three sockets of a user, the oldest go first.\<close>

definition user_connect :: "string \<Rightarrow> 'w \<Rightarrow> 'w registry \<Rightarrow> 'w registry" where
  "user_connect user_id ws a =
     (let conns = drop (length (conns_of user_id a) - 2) (conns_of user_id a);
          a1 = (if map_of a user_id = None then a else AList.update user_id conns a)
      in if ws \<in> set conns then a1 else AList.update user_id (conns_of user_id a1 @ [ws]) a1)"

definition user_disconnect :: "string \<Rightarrow> 'w \<Rightarrow> 'w registry \<Rightarrow> 'w registry" where
  "user_disconnect user_id ws a = put_conns user_id (removeAll ws (conns_of user_id a)) a"

definition send_to_user :: "('w \<Rightarrow> bool) \<Rightarrow> string \<Rightarrow> 'w registry \<Rightarrow> 'w registry" where
  "send_to_user ok user_id a = fold (user_disconnect user_id) (filter (\<lambda>w. \<not> ok w) (conns_of user_id a)) a"

definition user_broadcast :: "('w \<Rightarrow> bool) \<Rightarrow> 'w registry \<Rightarrow> 'w registry" where
  "user_broadcast ok a = fold (send_to_user ok) (map fst a) a"

section \<open>Mutations\<close>

datatype sync_operation = SyncOperation_CREATE | SyncOperation_UPDATE | SyncOperation_DELETE

fun sync_operation_value :: "sync_operation \<Rightarrow> string" where
  "sync_operation_value SyncOperation_CREATE = ''create''"
| "sync_operation_value SyncOperation_UPDATE = ''update''"
| "sync_operation_value SyncOperation_DELETE = ''delete''"

record pending_mutation =
  pm_id :: int
  pm_device_id :: string
  pm_entity_type :: string
  pm_entity_id :: string
  pm_operation :: string
  pm_payload :: string
  pm_created_at :: datetime
  pm_synced_at :: "datetime option"
  pm_retry_count :: int

text \<open>The identifiers of the table count up.\<close>

record pda_db = core_db +
  pending_mutations :: "pending_mutation list"
  mutation_seq :: int

definition new_mutation ::
  "env \<Rightarrow> (json \<Rightarrow> string) \<Rightarrow> string \<Rightarrow> string \<Rightarrow> string \<Rightarrow> sync_operation \<Rightarrow> json \<Rightarrow> 'a pda_db_scheme \<Rightarrow> pending_mutation" where
  "new_mutation env dumps device_id entity_type entity_id operation payload d =
     \<lparr>pm_id = mutation_seq d, pm_device_id = device_id, pm_entity_type = entity_type, pm_entity_id = entity_id,
      pm_operation = sync_operation_value operation, pm_payload = dumps payload, pm_created_at = now env,
      pm_synced_at = None, pm_retry_count = 0\<rparr>"

text \<open>
  The row is committed before the broadcast; its creation time knows its zone and the column does not.
\<close>

definition enqueue_mutation ::
  "env \<Rightarrow> (json \<Rightarrow> string) \<Rightarrow> ('w \<Rightarrow> bool) \<Rightarrow> string \<Rightarrow> string \<Rightarrow> string \<Rightarrow> sync_operation \<Rightarrow> json \<Rightarrow>
   'a pda_db_scheme \<times> 'w registry \<Rightarrow> (('a pda_db_scheme \<times> 'w registry) \<times> pending_mutation) result" where
  "enqueue_mutation env dumps ok device_id entity_type entity_id operation payload s =
     (case s of (d, a) \<Rightarrow>
        let m = new_mutation env dumps device_id entity_type entity_id operation payload d
        in bindE (bind_aware mutation_created_at) (\<lambda>_.
           Inr ((d\<lparr>pending_mutations := insert_row m (pending_mutations d), mutation_seq := mutation_seq d + 1\<rparr>,
                 fst (pda_broadcast ok a)), m)))"

definition mutation_payload :: "pending_mutation \<Rightarrow> json \<Rightarrow> json" where
  "mutation_payload m data =
     JObj [(''entity_id'', JStr (pm_entity_id m)), (''operation'', JStr (pm_operation m)), (''data'', data)]"

definition change_mutation :: "pending_mutation \<Rightarrow> (pending_mutation \<Rightarrow> pending_mutation) \<Rightarrow> 'a pda_db_scheme \<Rightarrow> 'a pda_db_scheme" where
  "change_mutation m f d = d\<lparr>pending_mutations := update_where (\<lambda>x. pm_id x = pm_id m) f (pending_mutations d)\<rparr>"

text \<open>
  \<open>bind_uuid i\<close> is the identifier that the column type \<open>UUID\<close> of the outbox makes of an integer, if it
  accepts one. A refusal raises in the flush, and the handler of the exception then reads a row of the
  rolled back session, which raises again and leaves the function; a flush that meets a \<open>synced_at\<close>
  written for an earlier row (\<open>dirty\<close>) is refused in the same way, and so is the final commit. A text
  that is no JSON raises before anything is written.
\<close>

definition flush_synced :: "bool \<Rightarrow> unit result" where
  "flush_synced dirty = (if dirty then bind_aware mutation_synced_at else Inr ())"

fun process_loop ::
  "env \<Rightarrow> (string \<Rightarrow> json option) \<Rightarrow> (int \<Rightarrow> uuid option) \<Rightarrow> bool \<Rightarrow> pending_mutation list \<Rightarrow> 'a pda_db_scheme \<Rightarrow>
   ('a pda_db_scheme \<times> nat \<times> nat) result" where
  "process_loop env loads bind_uuid dirty [] d = bindE (flush_synced dirty) (\<lambda>_. Inr (d, 0, 0))"
| "process_loop env loads bind_uuid dirty (m # ms) d =
     (case loads (pm_payload m) of
        None \<Rightarrow>
          bindE (process_loop env loads bind_uuid dirty ms (change_mutation m (\<lambda>x. x\<lparr>pm_retry_count := pm_retry_count x + 1\<rparr>) d))
            (\<lambda>(d', accepted, failed). Inr (d', accepted, Suc failed))
      | Some data \<Rightarrow>
          (case (flush_synced dirty, bind_uuid (pm_id m)) of
             (Inr _, Some u) \<Rightarrow>
               (let d1 = append_event env (pm_entity_type m) u (pm_entity_type m @ ''.'' @ pm_operation m) (mutation_payload m data) d
                in bindE (process_loop env loads bind_uuid True ms (change_mutation m (\<lambda>x. x\<lparr>pm_synced_at := Some (now env)\<rparr>) d1))
                     (\<lambda>(d', accepted, failed). Inr (d', Suc accepted, failed)))
           | _ \<Rightarrow> Inl PendingRollbackError))"

definition process_pending_mutations ::
  "env \<Rightarrow> (string \<Rightarrow> json option) \<Rightarrow> (int \<Rightarrow> uuid option) \<Rightarrow> nat \<Rightarrow> 'a pda_db_scheme \<Rightarrow> ('a pda_db_scheme \<times> nat \<times> nat) result" where
  "process_pending_mutations env loads bind_uuid batch_size d =
     process_loop env loads bind_uuid False
       (take batch_size (order_by pm_created_at (select_where (\<lambda>m. pm_synced_at m = None) (pending_mutations d)))) d"

text \<open>The routes of the queue: a run takes 50 mutations, the list shows the newest 100.\<close>

definition sync_mutations ::
  "env \<Rightarrow> (string \<Rightarrow> json option) \<Rightarrow> (int \<Rightarrow> uuid option) \<Rightarrow> 'a pda_db_scheme \<Rightarrow> ('a pda_db_scheme \<times> nat \<times> nat) result" where
  "sync_mutations env loads bind_uuid d = process_pending_mutations env loads bind_uuid 50 d"

record mutation_view =
  mv_id :: int
  mv_device_id :: string
  mv_entity_type :: string
  mv_entity_id :: string
  mv_operation :: string
  mv_created_at :: datetime
  mv_synced_at :: "datetime option"
  mv_retry_count :: int

definition mutation_to_view :: "pending_mutation \<Rightarrow> mutation_view" where
  "mutation_to_view m =
     \<lparr>mv_id = pm_id m, mv_device_id = pm_device_id m, mv_entity_type = pm_entity_type m, mv_entity_id = pm_entity_id m,
      mv_operation = pm_operation m, mv_created_at = pm_created_at m, mv_synced_at = pm_synced_at m,
      mv_retry_count = pm_retry_count m\<rparr>"

definition list_mutations :: "'a pda_db_scheme \<Rightarrow> mutation_view list" where
  "list_mutations d = map mutation_to_view (take 100 (order_by_desc pm_created_at (pending_mutations d)))"

section \<open>Push and pull\<close>

record sync_push_item =
  sp_entity_type :: string
  sp_entity_id :: string
  sp_operation :: string
  sp_payload :: json
  sp_client_timestamp :: "string option"

text \<open>\<open>uuid5\<close> is the identifier derived from a name.\<close>

definition push_item :: "env \<Rightarrow> (string \<Rightarrow> uuid) \<Rightarrow> sync_push_item \<Rightarrow> 'a core_db_scheme \<Rightarrow> 'a core_db_scheme" where
  "push_item env uuid5 it d =
     append_event env (sp_entity_type it) (uuid5 (sp_entity_id it)) (sp_entity_type it @ ''.'' @ sp_operation it)
       (JObj [(''entity_id'', JStr (sp_entity_id it)), (''operation'', JStr (sp_operation it)), (''data'', sp_payload it),
              (''client_timestamp'', case sp_client_timestamp it of None \<Rightarrow> JNull | Some t \<Rightarrow> JStr t)]) d"

definition sync_push :: "env \<Rightarrow> (string \<Rightarrow> uuid) \<Rightarrow> sync_push_item list \<Rightarrow> 'a core_db_scheme \<Rightarrow> 'a core_db_scheme \<times> nat" where
  "sync_push env uuid5 batch d = (fold (push_item env uuid5) batch d, length batch)"

record change_view =
  cv_event_id :: string
  cv_entity_type :: string
  cv_entity_id :: string
  cv_event_type :: string
  cv_payload :: json
  cv_created_at :: datetime

definition event_view :: "outbox_event \<Rightarrow> change_view" where
  "event_view e =
     \<lparr>cv_event_id = show_uuid (ob_id e), cv_entity_type = ob_aggregate_type e, cv_entity_id = show_uuid (ob_aggregate_id e),
      cv_event_type = ob_event_type e, cv_payload = ob_payload e, cv_created_at = ob_created_at e\<rparr>"

text \<open>A \<open>since\<close> that is no date is ignored.\<close>

definition pull_filter :: "(string \<Rightarrow> datetime option) \<Rightarrow> string option \<Rightarrow> string option \<Rightarrow> outbox_event \<Rightarrow> bool" where
  "pull_filter fromisoformat entity_type since e \<longleftrightarrow>
     ob_status e = OutboxEventStatus_DISPATCHED \<and>
     (truthy entity_type \<longrightarrow> ob_aggregate_type e = the entity_type) \<and>
     (if truthy since then (case fromisoformat (the since) of None \<Rightarrow> True | Some t \<Rightarrow> t \<le> ob_created_at e) else True)"

definition sync_pull ::
  "(string \<Rightarrow> datetime option) \<Rightarrow> string option \<Rightarrow> string option \<Rightarrow> nat \<Rightarrow> 'a core_db_scheme \<Rightarrow> change_view list \<times> bool" where
  "sync_pull fromisoformat entity_type since limit d =
     (let events = take limit (order_by_desc ob_created_at (select_where (pull_filter fromisoformat entity_type since) (outbox_events d)))
      in (map event_view events, limit \<le> length events))"

section \<open>What a broadcast leaves\<close>

text \<open>Every key is there once and has a socket.\<close>

definition registry_ok :: "'w registry \<Rightarrow> bool" where
  "registry_ok a \<longleftrightarrow> distinct (map fst a) \<and> [] \<notin> snd ` set a"

lemma conns_of_put [simp]: "conns_of k' (put_conns k c a) = (if k' = k then c else conns_of k' a)"
  by (simp add: conns_of_def put_conns_def AList.delete_conv' AList.update_conv')

lemma conns_of_update [simp]: "conns_of k' (AList.update k c a) = (if k' = k then c else conns_of k' a)"
  by (simp add: conns_of_def AList.update_conv')

lemma set_update_values: "(k', c') \<in> set (AList.update k c a) \<Longrightarrow> c' = c \<or> (k', c') \<in> set a"
  by (induction a) (auto split: if_splits)

lemma registry_ok_update: "registry_ok a \<Longrightarrow> c \<noteq> [] \<Longrightarrow> registry_ok (AList.update k c a)"
  by (auto simp: registry_ok_def distinct_update dest: set_update_values)

lemma registry_ok_put: "registry_ok a \<Longrightarrow> registry_ok (put_conns k c a)"
proof (cases "c = []")
  case True
  assume "registry_ok a"
  then show ?thesis using True
    by (auto simp: put_conns_def registry_ok_def AList.delete_eq distinct_map_filter)
qed (simp add: put_conns_def registry_ok_update)

lemma conns_in_registry: "registry_ok a \<Longrightarrow> k \<in> fst ` set a \<longleftrightarrow> conns_of k a \<noteq> []"
proof
  assume "registry_ok a" "k \<in> fst ` set a"
  then obtain c where "map_of a k = Some c" by (metis map_of_eq_None_iff not_None_eq)
  with \<open>registry_ok a\<close> show "conns_of k a \<noteq> []" by (force simp: conns_of_def registry_ok_def dest: map_of_SomeD)
next
  assume "conns_of k a \<noteq> []"
  then obtain c where "map_of a k = Some c" by (cases "map_of a k") (auto simp: conns_of_def)
  then show "k \<in> fst ` set a" by (metis fst_conv image_eqI map_of_SomeD)
qed

lemma fold_remove1_other: "a \<notin> set s \<Longrightarrow> fold remove1 s (a # c) = a # fold remove1 s c"
  by (induction s arbitrary: c) auto

lemma fold_remove1_filter: "fold remove1 (filter (\<lambda>w. \<not> ok w) c) c = filter ok c"
  by (induction c) (auto simp: fold_remove1_other)

lemma fold_removeAll_filter: "fold removeAll (filter (\<lambda>w. \<not> ok w) c) c = filter ok c"
proof -
  have "fold removeAll s c' = filter (\<lambda>w. w \<notin> set s) c'" for s c' :: "'a list"
    by (induction s arbitrary: c') (auto simp: removeAll_filter_not_eq intro: filter_cong)
  then show ?thesis by (auto intro: filter_cong)
qed

lemma fold_disconnect:
  "conns_of k' (fold (pda_disconnect k) s a) = (if k' = k then fold remove1 s (conns_of k a) else conns_of k' a)"
  "conns_of k' (fold (user_disconnect k) s a) = (if k' = k then fold removeAll s (conns_of k a) else conns_of k' a)"
  by (induction s arbitrary: a) (auto simp: pda_disconnect_def user_disconnect_def)

lemma fold_disconnect_ok:
  assumes "registry_ok a"
  shows "registry_ok (fold (pda_disconnect k) s a)" "registry_ok (fold (user_disconnect k) s a)"
  using assms by (induction s arbitrary: a) (auto simp: pda_disconnect_def user_disconnect_def registry_ok_put)

lemma send_to_device_effect:
  "conns_of k' (fst (send_to_device ok k a)) = (if k' = k then filter ok (conns_of k a) else conns_of k' a)"
  "snd (send_to_device ok k a) \<longleftrightarrow> filter ok (conns_of k a) \<noteq> []"
  by (auto simp: send_to_device_def Let_def fold_disconnect fold_remove1_filter filter_empty_conv)

lemma send_to_device_ok: "registry_ok a \<Longrightarrow> registry_ok (fst (send_to_device ok k a))"
  by (simp add: send_to_device_def Let_def fold_disconnect_ok)

lemma send_to_user_effect:
  "conns_of k' (send_to_user ok k a) = (if k' = k then filter ok (conns_of k a) else conns_of k' a)"
  by (simp add: send_to_user_def fold_disconnect fold_removeAll_filter)

lemma broadcast_to_effect:
  assumes "distinct ks" "registry_ok a"
  shows "conns_of k (fst (broadcast_to ok ks a)) = (if k \<in> set ks then filter ok (conns_of k a) else conns_of k a)"
    "snd (broadcast_to ok ks a) = length (filter (\<lambda>k. filter ok (conns_of k a) \<noteq> []) ks)"
    "registry_ok (fst (broadcast_to ok ks a))"
proof -
  have "conns_of k (fst (broadcast_to ok ks a)) = (if k \<in> set ks then filter ok (conns_of k a) else conns_of k a) \<and>
      snd (broadcast_to ok ks a) = length (filter (\<lambda>k. filter ok (conns_of k a) \<noteq> []) ks) \<and>
      registry_ok (fst (broadcast_to ok ks a))"
    using assms
  proof (induction ks arbitrary: a)
    case (Cons x ks)
    obtain a1 b where s: "send_to_device ok x a = (a1, b)" by force
    obtain a2 n where r: "broadcast_to ok ks a1 = (a2, n)" by force
    have e: "conns_of y a1 = (if y = x then filter ok (conns_of x a) else conns_of y a)" for y
      using send_to_device_effect(1)[of y ok x a] s by simp
    have b: "b \<longleftrightarrow> filter ok (conns_of x a) \<noteq> []" using send_to_device_effect(2)[of ok x a] s by simp
    have "registry_ok a1" using send_to_device_ok[OF Cons.prems(2), of ok x] s by simp
    with Cons.IH[of a1] Cons.prems(1) r
    have "conns_of k a2 = (if k \<in> set ks then filter ok (conns_of k a1) else conns_of k a1)"
      "n = length (filter (\<lambda>k. filter ok (conns_of k a1) \<noteq> []) ks)" "registry_ok a2" by auto
    moreover have "filter (\<lambda>k. filter ok (conns_of k a1) \<noteq> []) ks = filter (\<lambda>k. filter ok (conns_of k a) \<noteq> []) ks"
      using Cons.prems(1) by (intro filter_cong) (auto simp: e)
    ultimately show ?case using Cons.prems(1) b s r by (auto simp: e)
  qed simp
  then show "conns_of k (fst (broadcast_to ok ks a)) = (if k \<in> set ks then filter ok (conns_of k a) else conns_of k a)"
    "snd (broadcast_to ok ks a) = length (filter (\<lambda>k. filter ok (conns_of k a) \<noteq> []) ks)"
    "registry_ok (fst (broadcast_to ok ks a))" by blast+
qed

section \<open>Sockets of a user\<close>

definition few_conns :: "'w registry \<Rightarrow> bool" where
  "few_conns a \<longleftrightarrow> (\<forall>k. length (conns_of k a) \<le> 3 \<and> distinct (conns_of k a))"

lemma user_connect_few: "few_conns a \<Longrightarrow> few_conns (user_connect k w a)"
  by (auto simp: few_conns_def user_connect_def Let_def conns_of_def[of k a] AList.update_conv' conns_of_def)

lemma user_connect_there: "w \<in> set (conns_of k (user_connect k w a))"
  by (cases "map_of a k") (auto simp: user_connect_def Let_def conns_of_def[of k a])

lemma user_disconnect_few: "few_conns a \<Longrightarrow> few_conns (user_disconnect k w a)"
proof -
  assume f: "few_conns a"
  have "length (removeAll w c) \<le> length c" for c :: "'a list" by (rule length_removeAll_less_eq)
  then have "length (removeAll w c) \<le> 3" if "length c \<le> 3" for c :: "'a list" using that le_trans by blast
  with f show ?thesis by (simp add: few_conns_def user_disconnect_def distinct_removeAll)
qed

lemma send_to_user_few: "few_conns a \<Longrightarrow> few_conns (send_to_user ok k a)"
  by (auto simp: few_conns_def send_to_user_effect intro: le_trans[OF length_filter_le])

section \<open>Mutations never reach the outbox\<close>

inductive pda_step ::
  "(json \<Rightarrow> string) \<Rightarrow> (string \<Rightarrow> json option) \<Rightarrow> (int \<Rightarrow> uuid option) \<Rightarrow> pda_db \<Rightarrow> pda_db \<Rightarrow> bool"
  for dumps loads bind_uuid where
  queued: "enqueue_mutation env dumps (ok :: string \<Rightarrow> bool) dev ty i operation payload (d, a) = Inr ((d', a'), m) \<Longrightarrow> pda_step dumps loads bind_uuid d d'"
| processed: "process_pending_mutations env loads bind_uuid n d = Inr (d', acc, failed) \<Longrightarrow> pda_step dumps loads bind_uuid d d'"

inductive pda_reachable ::
  "(json \<Rightarrow> string) \<Rightarrow> (string \<Rightarrow> json option) \<Rightarrow> (int \<Rightarrow> uuid option) \<Rightarrow> pda_db \<Rightarrow> bool"
  for dumps loads bind_uuid where
  start: "pending_mutations d = [] \<Longrightarrow> pda_reachable dumps loads bind_uuid d"
| step: "pda_reachable dumps loads bind_uuid d \<Longrightarrow> pda_step dumps loads bind_uuid d d' \<Longrightarrow> pda_reachable dumps loads bind_uuid d'"

lemma enqueue_mutation_fails [simp]: "enqueue_mutation env dumps ok dev ty i operation payload s = Inl DataError"
  by (simp add: enqueue_mutation_def Let_def split: prod.splits)

text \<open>A run that returns found only texts that are no JSON, and wrote no event.\<close>

lemma process_loop_hands_over_nothing:
  assumes "process_loop env loads bind_uuid dirty ms d = Inr (d', accepted, failed)"
  shows "\<not> dirty \<and> accepted = 0 \<and> failed = length ms \<and> (\<forall>m\<in>set ms. loads (pm_payload m) = None) \<and>
    outbox_events d' = outbox_events d"
  using assms
proof (induction ms arbitrary: dirty d accepted failed)
  case Nil
  then show ?case by (simp add: flush_synced_def split: if_splits)
next
  case (Cons m ms)
  show ?case
  proof (cases "loads (pm_payload m)")
    case None
    with Cons.prems obtain f where r: "process_loop env loads bind_uuid dirty ms
        (change_mutation m (\<lambda>x. x\<lparr>pm_retry_count := pm_retry_count x + 1\<rparr>) d) = Inr (d', accepted, f)" "failed = Suc f"
      by auto
    from Cons.IH[OF r(1)] r(2) None show ?thesis by (simp add: change_mutation_def)
  next
    case (Some data)
    with Cons.prems Cons.IH show ?thesis
      by (auto simp: Let_def split: option.splits sum.splits dest!: Cons.IH)
  qed
qed

lemma pda_reachable_empty:
  assumes "pda_reachable dumps loads bind_uuid d"
  shows "pending_mutations d = []"
  using assms
proof induction
  case (step d d')
  from step.hyps(2) step.IH show ?case
    by cases (auto simp: process_pending_mutations_def select_where_def order_by_def flush_synced_def)
qed

section \<open>Pulling\<close>

lemma newest_rows:
  assumes "e \<in> set (take n (order_by_desc k t))" "distinct t"
  shows "length (filter (\<lambda>x. k e < k x) t) < n"
proof -
  let ?s = "order_by_desc k t"
  from assms(1) obtain i where i: "i < length ?s" "i < n" "?s ! i = e" by (auto simp: in_set_conv_nth)
  have newer: "j < i" if "j < length ?s" "k e < k (?s ! j)" for j
  proof (rule ccontr)
    assume "\<not> j < i"
    then have "- k (?s ! i) \<le> - k (?s ! j)"
      using sorted_nth_mono[OF sorted_order_by_desc[of k t], of i j] that(1) by simp
    with that(2) i(3) show False by simp
  qed
  have "length (filter (\<lambda>x. k e < k x) ?s) = card {j. j < length ?s \<and> k e < k (?s ! j)}" by (rule length_filter_conv_card)
  also have "\<dots> \<le> card {..<i}" using newer by (intro card_mono) auto
  finally have "length (filter (\<lambda>x. k e < k x) ?s) < n" using i(2) by simp
  moreover have "mset (filter (\<lambda>x. k e < k x) ?s) = mset (filter (\<lambda>x. k e < k x) t)" by simp
  ultimately show ?thesis by (metis size_mset)
qed

lemma row_count_mono: "(\<And>x. p x \<Longrightarrow> q x) \<Longrightarrow> row_count p t \<le> row_count q t"
  by (induction t) (auto simp: row_count_def)

end
