(* ===== verification/Gateway.thy ===== *)
theory Gateway
  imports Csv Tokens
begin

text \<open>
  The middleware of \<open>src/core/middleware.py\<close> and the CSRF protection of \<open>src/core/csrf.py\<close>. A message of
  the server is its body; the keyed digest and random tokens are parameters.
\<close>

section \<open>Trace and request identifiers\<close>

fun split_on :: "char \<Rightarrow> string \<Rightarrow> string list" where
  "split_on c [] = [[]]"
| "split_on c (x # s) = (if x = c then [] # split_on c s else (case split_on c s of [] \<Rightarrow> [[x]] | p # ps \<Rightarrow> (x # p) # ps))"

definition last_chars :: "nat \<Rightarrow> string \<Rightarrow> string" where
  "last_chars n s = drop (length s - n) s"

record trace_scope =
  sc_trace_id :: string
  sc_span_id :: string

definition trace_context :: "string option \<Rightarrow> string option \<Rightarrow> trace_scope" where
  "trace_context traceparent_header span_header =
     (let traceparent = get_default [] traceparent_header;
          span_id = get_default [] span_header;
          trace_parts = split_on (CHR ''-'') traceparent;
          trace_id = (if 2 \<le> length trace_parts then trace_parts ! 1 else last_chars 32 traceparent)
      in \<lparr>sc_trace_id = (if 32 \<le> length trace_id then last_chars 32 trace_id else replicate 32 (CHR ''0'')),
          sc_span_id = (if 16 \<le> length span_id then take 16 span_id else replicate 16 (CHR ''0''))\<rparr>)"

type_synonym headers = "(string \<times> string) list"

definition trace_headers :: "trace_scope \<Rightarrow> headers \<Rightarrow> headers" where
  "trace_headers sc hs = (''x-trace-id'', sc_trace_id sc) # hs"

definition request_id_of :: "string option \<Rightarrow> string \<Rightarrow> string" where
  "request_id_of header fresh = (case header of None \<Rightarrow> fresh | Some h \<Rightarrow> if h = [] then fresh else h)"

definition request_id_headers :: "string \<Rightarrow> headers \<Rightarrow> headers" where
  "request_id_headers request_id hs = (''x-request-id'', request_id) # hs"

section \<open>Reading a body twice\<close>

text \<open>
  What the server still has to deliver, as the bodies of its messages; a message without a body (the
  end of the request or a disconnect) is the empty text. After the last message the server does not
  answer.
\<close>

record body_buffer =
  bb_receive :: "string list"
  bb_chunks :: "string list"
  bb_byte_offset :: nat
  bb_done :: bool

definition new_buffer :: "string list \<Rightarrow> body_buffer" where
  "new_buffer messages = \<lparr>bb_receive = messages, bb_chunks = [], bb_byte_offset = 0, bb_done = False\<rparr>"

text \<open>\<open>None\<close> is a call that waits for a message that does not come.\<close>

fun read_loop :: "string list \<Rightarrow> (string list \<times> string list) option" where
  "read_loop [] = None"
| "read_loop (b # ms) =
     (if b = [] then Some ([], ms)
      else case read_loop ms of None \<Rightarrow> None | Some (cs, rest) \<Rightarrow> Some (b # cs, rest))"

definition read_all :: "body_buffer \<Rightarrow> (body_buffer \<times> string) option" where
  "read_all b =
     (if bb_chunks b = [] \<and> \<not> bb_done b then
        (case read_loop (bb_receive b) of
           None \<Rightarrow> None
         | Some (cs, rest) \<Rightarrow> Some (b\<lparr>bb_receive := rest, bb_chunks := cs, bb_done := True\<rparr>, concat cs))
      else Some (b, concat (bb_chunks b)))"

text \<open>A replayed message; none of them carries \<open>more_body\<close>.\<close>

datatype replayed = HttpRequest string | HttpDisconnect

definition buffer_call :: "body_buffer \<Rightarrow> (body_buffer \<times> replayed) option" where
  "buffer_call b0 =
     (case (if bb_done b0 then Some (b0, []) else read_all b0) of
        None \<Rightarrow> None
      | Some (b, _) \<Rightarrow>
          (let flat = concat (bb_chunks b); total_len = length flat in
           if bb_chunks b = [] then Some (b, HttpDisconnect)
           else if bb_byte_offset b < total_len then
             (let chunk_size = min 8192 (total_len - bb_byte_offset b)
              in Some (b\<lparr>bb_byte_offset := bb_byte_offset b + chunk_size\<rparr>,
                   HttpRequest (take chunk_size (drop (bb_byte_offset b) flat))))
           else Some (b, HttpDisconnect)))"

text \<open>The audit log reads the body of a write first, then the application gets the same buffer.\<close>

definition audited :: "string \<Rightarrow> bool" where
  "audited method = (method \<in> {''POST'', ''PUT'', ''DELETE'', ''PATCH''})"

definition audit_buffer :: "string \<Rightarrow> string list \<Rightarrow> body_buffer option" where
  "audit_buffer method messages =
     (if audited method then map_option fst (read_all (new_buffer messages)) else Some (new_buffer messages))"

definition audit_user :: "jwt_lib \<Rightarrow> datetime \<Rightarrow> string option \<Rightarrow> string" where
  "audit_user lib t authorization =
     (case authorization of
        None \<Rightarrow> ''anonymous''
      | Some h \<Rightarrow>
          if take 7 h = ''Bearer '' then
            (case decode_token lib t (drop 7 h) of
               Inl e \<Rightarrow> ''anonymous''
             | Inr p \<Rightarrow> (case cl_sub p of None \<Rightarrow> ''anonymous'' | Some s \<Rightarrow> s))
          else ''anonymous'')"

text \<open>
  Reading a request as ASGI defines it: a message without \<open>more_body\<close> is the last one. \<open>None\<close> is a
  disconnect or a message that does not come.
\<close>

definition asgi_body :: "body_buffer \<Rightarrow> string option" where
  "asgi_body b = (case buffer_call b of Some (b', HttpRequest s) \<Rightarrow> Some s | _ \<Rightarrow> None)"

text \<open>Reading on until the disconnect, at most \<open>n\<close> messages.\<close>

fun replay :: "nat \<Rightarrow> body_buffer \<Rightarrow> string option" where
  "replay 0 b = None"
| "replay (Suc n) b =
     (case buffer_call b of
        None \<Rightarrow> None
      | Some (b', HttpDisconnect) \<Rightarrow> Some []
      | Some (b', HttpRequest s) \<Rightarrow> map_option ((@) s) (replay n b'))"

section \<open>CSRF tokens\<close>

text \<open>\<open>hmac\<close> is the hexadecimal digest with the secret key of the settings, \<open>seed\<close> a random hexadecimal text.\<close>

definition generate_csrf_token :: "(string \<Rightarrow> string) \<Rightarrow> string \<Rightarrow> string" where
  "generate_csrf_token hmac seed = seed @ '':'' @ hmac (''csrf:'' @ seed)"

text \<open>\<open>text.split(":", 1)\<close> into two parts.\<close>

definition split_colon :: "string \<Rightarrow> (string \<times> string) option" where
  "split_colon s =
     (case dropWhile (\<lambda>c. c \<noteq> CHR '':'') s of [] \<Rightarrow> None | c # r \<Rightarrow> Some (takeWhile (\<lambda>c. c \<noteq> CHR '':'') s, r))"

text \<open>\<open>hmac.compare_digest\<close> refuses text that is not ASCII with a \<open>TypeError\<close>.\<close>

definition ascii :: "string \<Rightarrow> bool" where
  "ascii s = list_all (\<lambda>c. (of_char c :: nat) < 128) s"

definition compare_digest :: "string \<Rightarrow> string \<Rightarrow> bool result" where
  "compare_digest a b = (if ascii a \<and> ascii b then Inr (a = b) else Inl TypeError)"

definition verify_csrf_token :: "(string \<Rightarrow> string) \<Rightarrow> string \<Rightarrow> string \<Rightarrow> bool result" where
  "verify_csrf_token hmac token cookie_token =
     (case split_colon token of
        None \<Rightarrow> Inr False
      | Some (seed, sig) \<Rightarrow>
          bindE (compare_digest sig (hmac (''csrf:'' @ seed))) (\<lambda>same. Inr (same \<and> token = cookie_token)))"

section \<open>Signed extension requests\<close>

record web_request =
  wr_method :: string
  wr_path :: string
  wr_headers :: headers
  wr_csrf_cookie :: "string option"
  wr_form_token :: "string option"
  wr_client :: "string option"

definition header_of :: "string \<Rightarrow> web_request \<Rightarrow> string" where
  "header_of k q = get_default [] (map_of (wr_headers q) k)"

definition starts_with :: "string \<Rightarrow> string \<Rightarrow> bool" where
  "starts_with p s = (take (length p) s = p)"

fun contains_text :: "string \<Rightarrow> string \<Rightarrow> bool" where
  "contains_text p [] = (p = [])"
| "contains_text p (c # s) = (starts_with p (c # s) \<or> contains_text p s)"

text \<open>The time is in whole seconds.\<close>

definition verify_extend_signature :: "(string \<Rightarrow> string) \<Rightarrow> int \<Rightarrow> web_request \<Rightarrow> bool result" where
  "verify_extend_signature hmac t q =
     (let path = wr_path q; actual_sig = header_of ''X-Extend-Signature'' q; timestamp_str = header_of ''X-Extend-Timestamp'' q in
      if \<not> starts_with ''/api/v1/extend'' path then Inr True
      else if actual_sig = [] then Inr False
      else if timestamp_str = [] then Inr False
      else case py_int timestamp_str of
             None \<Rightarrow> Inr False
           | Some ts \<Rightarrow>
               if 300 < \<bar>t - ts\<bar> then Inr False
               else compare_digest actual_sig
                      (hmac (path @ '':'' @ timestamp_str @ '':'' @ get_default ''unknown'' (wr_client q))))"

text \<open>
  What the middleware does with a request: hand it on, hand it on with a new token in the scope and
  in the cookie, or answer 403 with a text.
\<close>

datatype csrf_decision = Passed | PassedWithToken string | Refused string

definition mutating :: "string \<Rightarrow> bool" where
  "mutating method = (method \<in> {''POST'', ''PUT'', ''DELETE'', ''PATCH''})"

definition csrf_dispatch :: "(string \<Rightarrow> string) \<Rightarrow> string \<Rightarrow> int \<Rightarrow> web_request \<Rightarrow> csrf_decision result" where
  "csrf_dispatch hmac seed t q =
     (let path = wr_path q; method = wr_method q; refused = Refused ''CSRF validation failed'' in
      if (method = ''GET'' \<or> method = ''HEAD'') \<and> starts_with ''/admin/'' path
      then Inr (PassedWithToken (generate_csrf_token hmac seed))
      else if mutating method \<and> starts_with ''/admin/'' path then
        (let cookie_token = get_default [] (wr_csrf_cookie q); header_token = header_of ''X-CSRF-Token'' q in
         if cookie_token = [] then Inr refused
         else if header_token \<noteq> [] then
           bindE (verify_csrf_token hmac header_token cookie_token) (\<lambda>ok. Inr (if ok then Passed else refused))
         else
           (let ct = header_of ''content-type'' q in
            if contains_text ''application/x-www-form-urlencoded'' ct \<or> contains_text ''multipart/form-data'' ct then
              (let form_token = get_default [] (wr_form_token q) in
               if form_token = [] then Inr refused
               else bindE (verify_csrf_token hmac form_token cookie_token) (\<lambda>ok. Inr (if ok then Passed else refused)))
            else Inr refused))
      else if mutating method \<and> starts_with ''/api/v1/extend'' path then
        bindE (verify_extend_signature hmac t q) (\<lambda>ok. Inr (if ok then Passed else Refused ''Extension API authentication failed''))
      else Inr Passed)"

section \<open>Replaying a body\<close>

lemma read_loop_ends:
  assumes "[] \<notin> set cs"
  shows "read_loop (cs @ [] # rest) = Some (cs, rest)"
  using assms by (induction cs) auto

lemma read_loop_waits: "[] \<notin> set ms \<Longrightarrow> read_loop ms = None"
  by (induction ms) auto

lemma read_loop_None: "read_loop ms = None \<longleftrightarrow> [] \<notin> set ms"
  by (induction ms) (auto split: option.splits)

text \<open>The state of a buffer of which some bytes were replayed.\<close>

definition buffered :: "string list \<Rightarrow> nat \<Rightarrow> body_buffer \<Rightarrow> bool" where
  "buffered cs k b \<longleftrightarrow> bb_chunks b = cs \<and> bb_byte_offset b = k \<and> bb_done b"

lemma replay_rest:
  assumes "buffered cs k b" "k \<le> length (concat cs)" "length (concat cs) - k < n" "cs \<noteq> []"
  shows "replay n b = Some (drop k (concat cs))"
  using assms
proof (induction n arbitrary: k b)
  case (Suc n)
  let ?s = "concat cs"
  show ?case
  proof (cases "k < length ?s")
    case True
    let ?c = "min 8192 (length ?s - k)"
    have c: "0 < ?c" "k + ?c \<le> length ?s" using True by auto
    have "buffer_call b = Some (b\<lparr>bb_byte_offset := k + ?c\<rparr>, HttpRequest (take ?c (drop k ?s)))"
      using Suc.prems True by (simp add: buffer_call_def buffered_def Let_def)
    moreover have "replay n (b\<lparr>bb_byte_offset := k + ?c\<rparr>) = Some (drop (k + ?c) ?s)"
      using Suc.prems c by (intro Suc.IH) (auto simp: buffered_def)
    moreover have "take ?c (drop k ?s) @ drop (k + ?c) ?s = drop k ?s"
      by (metis add.commute append_take_drop_id drop_drop)
    ultimately show ?thesis by simp
  next
    case False
    with Suc.prems have "buffer_call b = Some (b, HttpDisconnect)" by (simp add: buffer_call_def buffered_def Let_def)
    with False show ?thesis by simp
  qed
qed simp

lemma audit_buffer_cases:
  assumes "[] \<notin> set cs"
  obtains b where "audit_buffer method (cs @ [] # rest) = Some b"
    "buffer_call b = buffer_call \<lparr>bb_receive = rest, bb_chunks = cs, bb_byte_offset = 0, bb_done = True\<rparr>"
proof (cases "audited method")
  case True
  with that read_loop_ends[OF assms] show thesis by (simp add: audit_buffer_def read_all_def new_buffer_def)
next
  case False
  have "buffer_call (new_buffer (cs @ [] # rest)) = buffer_call \<lparr>bb_receive = rest, bb_chunks = cs, bb_byte_offset = 0, bb_done = True\<rparr>"
    by (simp add: buffer_call_def read_all_def new_buffer_def read_loop_ends[OF assms])
  with that False show thesis by (simp add: audit_buffer_def)
qed

section \<open>Tokens\<close>

lemma split_colon_token:
  assumes "CHR '':'' \<notin> set seed"
  shows "split_colon (seed @ '':'' @ sig) = Some (seed, sig)"
proof -
  have "dropWhile (\<lambda>c. c \<noteq> CHR '':'') (seed @ '':'' @ sig) = '':'' @ sig"
    "takeWhile (\<lambda>c. c \<noteq> CHR '':'') (seed @ '':'' @ sig) = seed"
    using assms by (auto simp: dropWhile_append takeWhile_append)
  then show ?thesis by (simp add: split_colon_def)
qed

lemma split_colon_SomeD:
  assumes "split_colon s = Some (a, b)"
  shows "s = a @ '':'' @ b"
proof -
  from assms obtain c where d: "dropWhile (\<lambda>c. c \<noteq> CHR '':'') s = c # b" and a: "a = takeWhile (\<lambda>c. c \<noteq> CHR '':'') s"
    by (auto simp: split_colon_def split: list.splits)
  have "c = CHR '':''" using hd_dropWhile[of "\<lambda>c. c \<noteq> CHR '':''" s] d by simp
  moreover have "a @ c # b = s" unfolding a d[symmetric] by (rule takeWhile_dropWhile_id)
  ultimately show ?thesis by simp
qed

text \<open>An accepted token is the one of the cookie, and is signed.\<close>

lemma verify_csrf_token_True:
  assumes "verify_csrf_token hmac token cookie = Inr True"
  obtains seed where "token = generate_csrf_token hmac seed" "cookie = token"
  using assms by (auto simp: verify_csrf_token_def compare_digest_def generate_csrf_token_def
      dest!: split_colon_SomeD split: option.splits if_splits)

end
