(* ===== verification/Connectors.thy ===== *)
theory Connectors
  imports Gateway Oms_Service
begin

text \<open>
  Orders of external shops: \<open>src/connectors/shopify_webhook.py\<close>, \<open>src/connectors/amazon_sp_api.py\<close>,
  \<open>src/connectors/service.py\<close> and the routes of \<open>src/connectors/router.py\<close>. Payloads are JSON values. The
  keyed digest, the reading of JSON text, the text of JSON numbers and containers (\<open>py_repr\<close>) and the
  reading of decimals are parameters.
\<close>

section \<open>Values of a payload\<close>

type_synonym json_dict = "(string \<times> json) list"

definition dict_get :: "string \<Rightarrow> json \<Rightarrow> json_dict \<Rightarrow> json" where
  "dict_get k dflt o' = get_default dflt (map_of o' k)"

text \<open>\<open>str(value)\<close>\<close>

definition py_str_of :: "(json \<Rightarrow> string) \<Rightarrow> json \<Rightarrow> string" where
  "py_str_of py_repr j =
     (case j of JStr s \<Rightarrow> s | JNull \<Rightarrow> ''None'' | JBool b \<Rightarrow> if b then ''True'' else ''False'' | _ \<Rightarrow> py_repr j)"

definition json_falsy :: "json \<Rightarrow> bool" where
  "json_falsy j =
     (case j of JNull \<Rightarrow> True | JBool b \<Rightarrow> \<not> b | JNum q \<Rightarrow> q = 0 | JStr s \<Rightarrow> s = [] | JList l \<Rightarrow> l = [] | JObj o' \<Rightarrow> o' = [])"

text \<open>\<open>value or default\<close>\<close>

definition json_or :: "json \<Rightarrow> json \<Rightarrow> json" where
  "json_or j dflt = (if json_falsy j then dflt else j)"

definition int_of_json :: "json \<Rightarrow> int result" where
  "int_of_json j =
     (case j of
        JNum q \<Rightarrow> Inr (if 0 \<le> q then \<lfloor>q\<rfloor> else \<lceil>q\<rceil>)
      | JBool b \<Rightarrow> Inr (if b then 1 else 0)
      | JStr s \<Rightarrow> of_option ValueError (py_int s)
      | _ \<Rightarrow> Inl TypeError)"

text \<open>\<open>for x in value\<close>\<close>

definition json_iter :: "json \<Rightarrow> json list result" where
  "json_iter j =
     (case j of
        JList l \<Rightarrow> Inr l
      | JObj o' \<Rightarrow> Inr (map (\<lambda>p. JStr (fst p)) o')
      | JStr s \<Rightarrow> Inr (map (\<lambda>c. JStr [c]) s)
      | _ \<Rightarrow> Inl TypeError)"

text \<open>\<open>value.get\<close> needs a dictionary.\<close>

definition json_dict_of :: "json \<Rightarrow> json_dict result" where
  "json_dict_of j = (case j of JObj o' \<Rightarrow> Inr o' | _ \<Rightarrow> Inl AttributeError)"

definition mapE :: "('a \<Rightarrow> 'b result) \<Rightarrow> 'a list \<Rightarrow> 'b list result" where
  "mapE f xs = foldr (\<lambda>x r. bindE (f x) (\<lambda>y. bindE r (\<lambda>ys. Inr (y # ys)))) xs (Inr [])"

record erp_message =
  em_msg_type :: string
  em_sender_id :: string
  em_receiver_id :: string
  em_created_at :: datetime
  em_payload :: json_dict

section \<open>Shopify\<close>

definition verify_webhook :: "(string \<Rightarrow> string \<Rightarrow> string) \<Rightarrow> string \<Rightarrow> string \<Rightarrow> string \<Rightarrow> bool result" where
  "verify_webhook hmac body hmac_header secret = compare_digest (hmac secret body) hmac_header"

definition shopify_line :: "(json \<Rightarrow> string) \<Rightarrow> json_dict \<Rightarrow> json" where
  "shopify_line py_repr line =
     JObj [(''sku'', JStr (py_str_of py_repr (dict_get ''sku'' (JStr []) line))),
           (''product_name'', JStr (py_str_of py_repr (dict_get ''title'' (JStr []) line))),
           (''quantity'', dict_get ''quantity'' (JNum 1) line),
           (''unit_price'', JStr (py_str_of py_repr (dict_get ''price'' (JStr ''0'') line))),
           (''gtin'', JStr (py_str_of py_repr (dict_get ''barcode'' (JStr []) line)))]"

text \<open>Lines that are no dictionaries are skipped.\<close>

definition shopify_items :: "(json \<Rightarrow> string) \<Rightarrow> json list \<Rightarrow> json list" where
  "shopify_items py_repr ls = concat (map (\<lambda>l. case l of JObj o' \<Rightarrow> [shopify_line py_repr o'] | _ \<Rightarrow> []) ls)"

definition shopify_tags :: "json \<Rightarrow> json" where
  "shopify_tags j =
     (case json_or j (JList []) of
        JStr s \<Rightarrow> JList (map JStr (filter (\<lambda>t. t \<noteq> []) (map (strip_by py_space) (split_on (CHR '','') s))))
      | v \<Rightarrow> v)"

definition parse_order_create :: "env \<Rightarrow> (json \<Rightarrow> string) \<Rightarrow> json_dict \<Rightarrow> erp_message result" where
  "parse_order_create env py_repr payload =
     bindE (json_iter (dict_get ''line_items'' (JList []) payload)) (\<lambda>ls.
     let items = shopify_items py_repr ls;
         note' = json_or (dict_get ''note'' JNull payload) (JStr []);
         tags = shopify_tags (dict_get ''tags'' JNull payload);
         number = py_str_of py_repr (dict_get ''order_number'' (JStr []) payload)
     in bindE (int_of_json (json_or (dict_get ''order_number'' (JNum 0) payload) (JNum 0))) (\<lambda>order_number.
        Inr \<lparr>em_msg_type = ''ORDERS'', em_sender_id = ''shopify'', em_receiver_id = ''oms'', em_created_at = now env,
             em_payload =
               [(''source'', JStr ''shopify''),
                (''shopify_order_id'', JStr (py_str_of py_repr (dict_get ''id'' (JStr []) payload))),
                (''order_number'', JNum (of_int order_number)),
                (''customer_email'', JStr (py_str_of py_repr (json_or (dict_get ''email'' (JStr []) payload) (JStr [])))),
                (''customer_name'', JStr []),
                (''shipping_address'', json_or (dict_get ''shipping_address'' JNull payload) (JObj [])),
                (''items'', JList items),
                (''total_amount'', JStr (py_str_of py_repr (dict_get ''total_price'' (JStr ''0'') payload))),
                (''currency'', dict_get ''currency'' (JStr ''USD'') payload),
                (''notes'', JStr (''Shopify #'' @ number @ (if json_falsy note' then [] else '': '' @ py_str_of py_repr note'))),
                (''tags'', tags),
                (''fulfillment_status'', dict_get ''fulfillment_status'' (JStr []) payload),
                (''created_at'', JStr (py_str_of py_repr (dict_get ''created_at'' (JStr []) payload)))]\<rparr>))"

definition first_fulfillment :: "json_dict \<Rightarrow> json" where
  "first_fulfillment payload = (case dict_get ''fulfillments'' JNull payload of JList (x # xs) \<Rightarrow> x | _ \<Rightarrow> JObj [])"

definition parse_fulfillment :: "env \<Rightarrow> (json \<Rightarrow> string) \<Rightarrow> json_dict \<Rightarrow> erp_message result" where
  "parse_fulfillment env py_repr payload =
     bindE (json_dict_of (first_fulfillment payload)) (\<lambda>first.
     let text = (\<lambda>k. JStr (py_str_of py_repr (json_or (dict_get k JNull first) (JStr [])))) in
     Inr \<lparr>em_msg_type = ''DESADV'', em_sender_id = ''shopify'', em_receiver_id = ''oms'', em_created_at = now env,
          em_payload =
            [(''source'', JStr ''shopify''),
             (''shopify_order_id'', JStr (py_str_of py_repr (dict_get ''id'' (JStr []) payload))),
             (''fulfillment_status'', JStr ''fulfilled''), (''tracking_company'', text ''tracking_company''),
             (''tracking_number'', text ''tracking_number''), (''fulfilled_at'', text ''created_at'')]\<rparr>)"

text \<open>Any exception of a parser is logged and answered with \<open>None\<close>.\<close>

definition handle_shopify_webhook ::
  "env \<Rightarrow> (json \<Rightarrow> string) \<Rightarrow> (string \<Rightarrow> json option) \<Rightarrow> (string \<Rightarrow> string \<Rightarrow> string) \<Rightarrow>
   string \<Rightarrow> string \<Rightarrow> string \<Rightarrow> string \<Rightarrow> erp_message option result" where
  "handle_shopify_webhook env py_repr loads hmac topic body hmac_header secret =
     bindE (verify_webhook hmac body hmac_header secret) (\<lambda>ok.
     if \<not> ok then Inr None
     else case loads body of
       Some (JObj payload) \<Rightarrow>
         Inr (if topic = ''orders/create'' then (case parse_order_create env py_repr payload of Inl e \<Rightarrow> None | Inr m \<Rightarrow> Some m)
              else if topic = ''orders/fulfilled'' then (case parse_fulfillment env py_repr payload of Inl e \<Rightarrow> None | Inr m \<Rightarrow> Some m)
              else None)
     | _ \<Rightarrow> Inr None)"

section \<open>Amazon\<close>

definition amazon_line :: "(json \<Rightarrow> string) \<Rightarrow> json \<Rightarrow> json result" where
  "amazon_line py_repr l =
     bindE (json_dict_of l) (\<lambda>line.
     bindE (int_of_json (dict_get ''QuantityOrdered'' (JNum 1) line)) (\<lambda>quantity.
     bindE (json_dict_of (dict_get ''ItemPrice'' (JObj []) line)) (\<lambda>price.
     Inr (JObj [(''sku'', dict_get ''SellerSKU'' (JStr []) line), (''product_name'', dict_get ''Title'' (JStr []) line),
                (''quantity'', JNum (of_int quantity)),
                (''unit_price'', JStr (py_str_of py_repr (dict_get ''Amount'' (JStr ''0'') price))),
                (''gtin'', dict_get ''ASIN'' (JStr []) line)]))))"

definition parse_amazon_order :: "env \<Rightarrow> (json \<Rightarrow> string) \<Rightarrow> json_dict \<Rightarrow> erp_message result" where
  "parse_amazon_order env py_repr order_data =
     bindE (json_iter (dict_get ''OrderItems'' (JList []) order_data)) (\<lambda>ls.
     bindE (mapE (amazon_line py_repr) ls) (\<lambda>items.
     bindE (json_dict_of (dict_get ''ShippingAddress'' (JObj []) order_data)) (\<lambda>shipping.
     bindE (json_dict_of (dict_get ''OrderTotal'' (JObj []) order_data)) (\<lambda>total.
     let text = (\<lambda>k. dict_get k (JStr []) order_data); ship = (\<lambda>k. dict_get k (JStr []) shipping) in
     Inr \<lparr>em_msg_type = ''ORDINR'', em_sender_id = ''amazon'', em_receiver_id = ''oms'', em_created_at = now env,
          em_payload =
            [(''source'', JStr ''amazon''), (''amazon_order_id'', text ''AmazonOrderId''), (''status'', text ''OrderStatus''),
             (''customer_email'', text ''BuyerEmail''), (''customer_name'', text ''BuyerName''),
             (''shipping_address'', JObj [(''name'', ship ''Name''), (''address_line1'', ship ''AddressLine1''),
                (''city'', ship ''City''), (''state'', ship ''StateOrRegion''), (''postal_code'', ship ''PostalCode''),
                (''country'', ship ''CountryCode''), (''phone'', ship ''Phone'')]),
             (''items'', JList items),
             (''total_amount'', JStr (py_str_of py_repr (dict_get ''Amount'' (JStr ''0'') total))),
             (''currency'', dict_get ''CurrencyCode'' (JStr ''USD'') total), (''marketplace_id'', text ''MarketplaceId''),
             (''purchase_date'', text ''PurchaseDate'')]\<rparr>))))"

definition build_tracking_update :: "string \<Rightarrow> string \<Rightarrow> string \<Rightarrow> string \<Rightarrow> string \<Rightarrow> json_dict" where
  "build_tracking_update isoformat amazon_order_id carrier_code tracking_number status =
     [(''amazon_order_id'', JStr amazon_order_id), (''carrier_code'', JStr carrier_code),
      (''tracking_number'', JStr tracking_number), (''status'', JStr status), (''updated_at'', JStr isoformat)]"

section \<open>Import\<close>

text \<open>A text column takes a text or null.\<close>

definition text_value :: "json \<Rightarrow> string option result" where
  "text_value j = (case j of JStr s \<Rightarrow> Inr (Some s) | JNull \<Rightarrow> Inr None | _ \<Rightarrow> Inl DataError)"

text \<open>
  An item of the message as \<open>create_order\<close> reads it: \<open>Decimal(str(unit_price))\<close>, \<open>int(quantity)\<close>.
\<close>

definition erp_item :: "(json \<Rightarrow> string) \<Rightarrow> (string \<Rightarrow> decimal option) \<Rightarrow> json \<Rightarrow> order_item_req result" where
  "erp_item py_repr decimal_of l =
     bindE (json_dict_of l) (\<lambda>line.
     bindE (of_option InvalidOperation (decimal_of (py_str_of py_repr (dict_get ''unit_price'' (JStr ''0'') line)))) (\<lambda>price.
     bindE (int_of_json (dict_get ''quantity'' (JNum 1) line)) (\<lambda>quantity.
     bindE (text_value (dict_get ''sku'' (JStr []) line)) (\<lambda>sku'.
     bindE (text_value (dict_get ''product_name'' (JStr []) line)) (\<lambda>name'.
     bindE (text_value (dict_get ''gtin'' (JStr []) line)) (\<lambda>gtin'.
     Inr \<lparr>rq_gtin = gtin', rq_sku = sku', rq_product_name = name', rq_quantity = Some quantity, rq_unit_price = Some price\<rparr>))))))"

text \<open>The code of a customer may not be null.\<close>

definition customer_code :: "json_dict \<Rightarrow> string result" where
  "customer_code payload =
     (case dict_get ''customer_email'' (dict_get ''source'' (JStr ''unknown'') payload) payload of
        JStr s \<Rightarrow> Inr s | JNull \<Rightarrow> Inl IntegrityError | _ \<Rightarrow> Inl DataError)"

definition import_erp_order ::
  "env \<Rightarrow> (json \<Rightarrow> string) \<Rightarrow> (string \<Rightarrow> decimal option) \<Rightarrow> erp_message \<Rightarrow> 'a oms_db_scheme \<Rightarrow> ('a oms_db_scheme \<times> order_view) result" where
  "import_erp_order env py_repr decimal_of msg d =
     (let payload = em_payload msg in
      bindE (json_iter (dict_get ''items'' (JList []) payload)) (\<lambda>ls.
      bindE (customer_code payload) (\<lambda>code'.
      bindE (mapE (erp_item py_repr decimal_of) ls) (\<lambda>items.
      bindE (text_value (dict_get ''notes''
          (JStr (''Imported from '' @ py_str_of py_repr (dict_get ''source'' (JStr ''external'') payload))) payload)) (\<lambda>notes.
      create_order env \<lparr>rq_customer_id = code', rq_items = items, rq_priority = Some ''medium'', rq_notes = notes\<rparr> d)))))"

section \<open>Routes\<close>

text \<open>\<open>None\<close> is the answer \<open>skipped\<close>.\<close>

definition shopify_webhook ::
  "env \<Rightarrow> (json \<Rightarrow> string) \<Rightarrow> (string \<Rightarrow> decimal option) \<Rightarrow> (string \<Rightarrow> json option) \<Rightarrow> (string \<Rightarrow> string \<Rightarrow> string) \<Rightarrow> string \<Rightarrow>
   string \<Rightarrow> string \<Rightarrow> string \<Rightarrow> 'a oms_db_scheme \<Rightarrow> ('a oms_db_scheme \<times> string option) result" where
  "shopify_webhook env py_repr decimal_of loads hmac secret topic hmac_header body d =
     bindE (verify_webhook hmac body hmac_header secret) (\<lambda>ok.
     bindE (raise_if (\<not> ok) (HTTPException 401 ''Invalid webhook signature'')) (\<lambda>_.
     bindE (handle_shopify_webhook env py_repr loads hmac topic body hmac_header secret) (\<lambda>m.
     case m of
       None \<Rightarrow> Inr (d, None)
     | Some msg \<Rightarrow> bindE (import_erp_order env py_repr decimal_of msg d) (\<lambda>(d', v). Inr (d', Some (ov_id v))))))"

definition import_amazon_order ::
  "env \<Rightarrow> (json \<Rightarrow> string) \<Rightarrow> (string \<Rightarrow> decimal option) \<Rightarrow> json_dict \<Rightarrow> 'a oms_db_scheme \<Rightarrow> ('a oms_db_scheme \<times> string) result" where
  "import_amazon_order env py_repr decimal_of data d =
     bindE (parse_amazon_order env py_repr data) (\<lambda>msg.
     bindE (import_erp_order env py_repr decimal_of msg d) (\<lambda>(d', v). Inr (d', ov_id v)))"

text \<open>The update is built and logged, and nothing is sent.\<close>

definition update_amazon_tracking :: "string \<Rightarrow> (string \<times> string) list \<Rightarrow> string \<times> json_dict" where
  "update_amazon_tracking isoformat data =
     (let text = (\<lambda>k dflt. get_default dflt (map_of data k));
          payload = build_tracking_update isoformat (text ''amazon_order_id'' []) (text ''carrier_code'' [])
            (text ''tracking_number'' []) (text ''status'' ''Shipped'')
      in (text ''amazon_order_id'' [], payload))"

section \<open>Facts\<close>

lemma mapE_Inr: "mapE f xs = Inr ys \<longleftrightarrow> list_all2 (\<lambda>x y. f x = Inr y) xs ys"
  by (induction xs arbitrary: ys) (auto simp: mapE_def list_all2_Cons1)

text \<open>A signature that is not as long as the digest is never accepted.\<close>

lemma verify_webhook_length:
  assumes "verify_webhook hmac body header secret = Inr True"
  shows "header = hmac secret body"
  using assms by (auto simp: verify_webhook_def compare_digest_def split: if_splits)

text \<open>A fulfilment is imported as an order of its own without lines.\<close>

lemma import_fulfillment:
  assumes "parse_fulfillment env py_repr payload = Inr msg"
  shows "import_erp_order env' py_repr decimal_of msg d =
    create_order env' \<lparr>rq_customer_id = ''shopify'', rq_items = [], rq_priority = Some ''medium'', rq_notes = Some ''Imported from shopify''\<rparr> d"
  using assms
  by (auto simp: parse_fulfillment_def Let_def import_erp_order_def dict_get_def json_iter_def customer_code_def mapE_def
      text_value_def py_str_of_def)

text \<open>The lines of an imported order, for a payload whose lines are dictionaries.\<close>

lemma shopify_items_dicts: "shopify_items py_repr (map JObj os) = map (shopify_line py_repr) os"
  by (induction os) (simp_all add: shopify_items_def)

lemma erp_item_shopify:
  "erp_item py_repr decimal_of (shopify_line py_repr line) =
     bindE (of_option InvalidOperation (decimal_of (py_str_of py_repr (dict_get ''price'' (JStr ''0'') line)))) (\<lambda>price.
     bindE (int_of_json (dict_get ''quantity'' (JNum 1) line)) (\<lambda>quantity.
     Inr \<lparr>rq_gtin = Some (py_str_of py_repr (dict_get ''barcode'' (JStr []) line)),
          rq_sku = Some (py_str_of py_repr (dict_get ''sku'' (JStr []) line)),
          rq_product_name = Some (py_str_of py_repr (dict_get ''title'' (JStr []) line)),
          rq_quantity = Some quantity, rq_unit_price = Some price\<rparr>))"
  by (simp add: erp_item_def shopify_line_def json_dict_of_def dict_get_def text_value_def py_str_of_def)

lemma erp_item_shopifyD:
  assumes "erp_item py_repr decimal_of (shopify_line py_repr line) = Inr it"
  shows "rq_sku it = Some (py_str_of py_repr (dict_get ''sku'' (JStr []) line))"
  using assms unfolding erp_item_shopify by auto

text \<open>What the import of a parsed order calls.\<close>

lemma import_shopify_order:
  assumes "parse_order_create env py_repr payload = Inr msg" "dict_get ''line_items'' (JList []) payload = JList (map JObj os)"
    and "import_erp_order env' py_repr decimal_of msg d = Inr (d', v)"
  obtains items remark where "list_all2 (\<lambda>l it. erp_item py_repr decimal_of (shopify_line py_repr l) = Inr it) os items"
    "create_order env' \<lparr>rq_customer_id = py_str_of py_repr (json_or (dict_get ''email'' (JStr []) payload) (JStr [])),
       rq_items = items, rq_priority = Some ''medium'', rq_notes = remark\<rparr> d = Inr (d', v)"
proof -
  let ?mail = "py_str_of py_repr (json_or (dict_get ''email'' (JStr []) payload) (JStr []))"
  from assms(1,2) have p: "dict_get ''items'' (JList []) (em_payload msg) = JList (map (shopify_line py_repr) os)"
    "map_of (em_payload msg) ''customer_email'' = Some (JStr ?mail)"
    by (auto simp: parse_order_create_def json_iter_def Let_def shopify_items_dicts dict_get_def)
  then have c: "customer_code (em_payload msg) = Inr ?mail" by (simp add: customer_code_def dict_get_def)
  from assms(3) p(1) c obtain items remark where m: "mapE (erp_item py_repr decimal_of) (map (shopify_line py_repr) os) = Inr items"
    and o': "create_order env' \<lparr>rq_customer_id = ?mail, rq_items = items, rq_priority = Some ''medium'', rq_notes = remark\<rparr> d = Inr (d', v)"
    by (auto simp: import_erp_order_def Let_def json_iter_def)
  from m have "list_all2 (\<lambda>l it. erp_item py_repr decimal_of (shopify_line py_repr l) = Inr it) os items"
    by (simp add: mapE_Inr list.rel_map)
  with o' that show thesis by blast
qed

text \<open>What a webhook that was imported went through.\<close>

lemma shopify_webhookE:
  assumes "shopify_webhook env py_repr decimal_of loads hmac secret topic header body d = Inr (d', Some i)"
  obtains payload msg v where "header = hmac secret body" "loads body = Some (JObj payload)"
    "topic = ''orders/create'' \<and> parse_order_create env py_repr payload = Inr msg \<or>
     topic = ''orders/fulfilled'' \<and> parse_fulfillment env py_repr payload = Inr msg"
    "import_erp_order env py_repr decimal_of msg d = Inr (d', v)" "i = ov_id v"
proof -
  from assms have ok: "verify_webhook hmac body header secret = Inr True" by (auto simp: shopify_webhook_def)
  with assms obtain msg v where h: "handle_shopify_webhook env py_repr loads hmac topic body header secret = Inr (Some msg)"
    and v: "import_erp_order env py_repr decimal_of msg d = Inr (d', v)" "i = ov_id v"
    by (auto simp: shopify_webhook_def split: option.splits)
  from h ok obtain payload where "loads body = Some (JObj payload)"
    "topic = ''orders/create'' \<and> parse_order_create env py_repr payload = Inr msg \<or>
     topic = ''orders/fulfilled'' \<and> parse_fulfillment env py_repr payload = Inr msg"
    by (auto simp: handle_shopify_webhook_def split: option.splits json.splits if_splits sum.splits)
  with verify_webhook_length[OF ok] v that show thesis by blast
qed

end
