(* ===== verification/Gateway_Properties.thy ===== *)
theory Gateway_Properties
  imports Samples Csv_Stock Responses Pda Connectors
begin

text \<open>
  Properties of the CSV files, the middleware, the queue of the terminal devices and the connectors,
  with their witnesses.
\<close>

section \<open>Files\<close>

text \<open>
  C28: An exported file is read back row by row and column by column, whatever characters the cells
  hold, except that the byte order mark becomes a part of the name of the first column, under whose
  own name nothing is found.
\<close>

theorem exported_columns_read_back:
  assumes "columns = f # fs" "distinct columns" "\<not> needs_quotes f" "f \<noteq> []" "utf8_bom @ f \<notin> set columns"
  shows "\<exists>ds. dict_rows (concat (stream_csv rows columns)) = (ds, False) \<and> length ds = length rows \<and>
    (\<forall>i<length rows. row_get (utf8_bom @ f) dflt (ds ! i) = Some (get_default [] (map_of (rows ! i) f)) \<and>
       row_get f dflt (ds ! i) = dflt \<and>
       (\<forall>c\<in>set fs. row_get c dflt (ds ! i) = Some (get_default [] (map_of (rows ! i) c))))"
proof (intro exI conjI allI impI)
  let ?names = "(utf8_bom @ f) # fs"
  let ?row = "\<lambda>r. map (\<lambda>c. get_default [] (map_of r c)) columns"
  let ?ds = "map (\<lambda>r. dict_row ?names (?row r)) rows"
  have "filter (\<lambda>r. r \<noteq> []) (map ?row rows) = map ?row rows" by (simp add: filter_id_conv assms(1))
  then show "dict_rows (concat (stream_csv rows columns)) = (?ds, False)"
    unfolding dict_rows_def stream_csv_rows[OF assms(1,3,4)] by (simp add: comp_def)
  show "length ?ds = length rows" by simp
  fix i assume i: "i < length rows"
  have d: "distinct ?names" using assms(1,2,5) by auto
  have at: "row_get (?names ! j) dflt (?ds ! i) = Some (get_default [] (map_of (rows ! i) (columns ! j)))"
    if "j < length ?names" for j
  proof -
    have "length (?row (rows ! i)) = length ?names" by (simp add: assms(1))
    moreover have "?row (rows ! i) ! j = get_default [] (map_of (rows ! i) (columns ! j))"
      by (rule nth_map) (use that assms(1) in simp)
    moreover have "?ds ! i = dict_row ?names (?row (rows ! i))" using i by simp
    ultimately show ?thesis using row_get_dict_row[OF d that, of "?row (rows ! i)" dflt] by (simp only:)
  qed
  show "row_get (utf8_bom @ f) dflt (?ds ! i) = Some (get_default [] (map_of (rows ! i) f))"
    using at[of 0] by (simp add: assms(1))
  have "f \<notin> set ?names" using assms(1,2,4) by (auto simp: utf8_bom_def utf8_def)
  then show "row_get f dflt (?ds ! i) = dflt" using row_get_absent[of f ?names] i by simp
  show "\<forall>c\<in>set fs. row_get c dflt (?ds ! i) = Some (get_default [] (map_of (rows ! i) c))"
  proof
    fix c assume "c \<in> set fs"
    then obtain j where "j < length fs" "c = fs ! j" by (auto simp: in_set_conv_nth)
    with at[of "Suc j"] show "row_get c dflt (?ds ! i) = Some (get_default [] (map_of (rows ! i) c))" by (simp add: assms(1))
  qed
qed

theorem exported_columns_read_back_witness:
  "\<exists>ds. dict_rows (concat (stream_csv [[(''sku_id'', ''A''), (''note'', ''5,0'')]] [''sku_id'', ''note''])) = (ds, False) \<and>
     row_get ''note'' None (ds ! 0) = Some ''5,0'' \<and> row_get ''sku_id'' None (ds ! 0) = None"
proof -
  have q: "\<not> needs_quotes ''sku_id''" "utf8_bom @ ''sku_id'' \<notin> set [''sku_id'', ''note'']"
    by (simp_all add: needs_quotes_def newline_char_def utf8_bom_def utf8_def)
  from exported_columns_read_back[of "[''sku_id'', ''note'']" "''sku_id''" "[''note'']" "[[(''sku_id'', ''A''), (''note'', ''5,0'')]]" None] q
  show ?thesis by auto
qed

text \<open>
  The stock export can not be imported: every row of it fails, because the import does not find
  the first column, and nothing changes.
\<close>

theorem exported_stock_cannot_be_imported:
  "handle_inventory_import env (export_inventory_csv isoformat d) d' =
     Some (d', \<lparr>im_success = 0, im_errors = map (\<lambda>n. (n, ValueError)) [2..<2 + length (inventory_rows d)]\<rparr>)"
proof -
  have c: "inventory_columns = ''sku_id'' # tl inventory_columns" "\<not> needs_quotes ''sku_id''" "''sku_id'' \<noteq> ([] :: string)"
    by (simp_all add: inventory_columns_def) code_simp
  let ?row = "\<lambda>r. map (\<lambda>c. get_default [] (map_of r c)) inventory_columns"
  let ?names = "(utf8_bom @ ''sku_id'') # tl inventory_columns"
  let ?ds = "map (\<lambda>r. dict_row ?names (?row r)) (export_inventory isoformat d)"
  have "filter (\<lambda>r. r \<noteq> []) (map ?row rows) = map ?row rows" for rows :: "(string \<times> string) list list"
    by (simp add: filter_id_conv inventory_columns_def)
  then have ds: "dict_rows (export_inventory_csv isoformat d) = (?ds, False)"
    unfolding export_inventory_csv_def dict_rows_def stream_csv_rows[OF c] by (simp add: comp_def)
  have "''sku_id'' \<notin> set ?names" by (simp add: utf8_bom_def utf8_def inventory_columns_def)
  then have get: "row_get ''sku_id'' (Some []) (dict_row ?names r) = Some []" for r by (rule row_get_absent)
  have wh: "\<exists>w. cell_text ''warehouse_id'' (dict_row ?names (?row r)) = Inr w" for r
  proof -
    have "distinct ?names" by code_simp
    from row_get_dict_row[OF this, of 1 "?row r" "Some []"] show ?thesis
      by (simp add: inventory_columns_def cell_text_def)
  qed
  have "import_row env x d' = Inl ValueError" if x: "x \<in> set ?ds" for x
  proof -
    from x obtain r where x: "x = dict_row ?names (?row r)" by auto
    obtain w where "cell_text ''warehouse_id'' x = Inr w" using wh unfolding x by blast
    moreover have "cell_text ''sku_id'' x = Inr []" unfolding x cell_text_def get by (simp add: strip_by_def)
    ultimately show ?thesis by (simp add: import_row_def row_values_def)
  qed
  from import_rows_all_fail[OF this, where n = 2]
  have "import_rows env 2 ?ds d' = (d', \<lparr>im_success = 0, im_errors = map (\<lambda>k. (k, ValueError)) [2..<2 + length ?ds]\<rparr>)" .
  moreover have "length ?ds = length (inventory_rows d)" by (simp add: export_inventory_def)
  ultimately show ?thesis unfolding handle_inventory_import_def ds by (simp only: prod.case if_False)
qed

text \<open>Stock at a place that no row of a file names.\<close>

definition unnamed_stock :: "inventory \<Rightarrow> csv_row list \<Rightarrow> bool" where
  "unnamed_stock i rows = list_all (\<lambda>y. case row_values y of Inl e \<Rightarrow> True | Inr (s, w, q, m) \<Rightarrow> \<not> stock_at s w i) rows"

lemma unnamed_stockD: "unnamed_stock i rows \<Longrightarrow> y \<in> set rows \<Longrightarrow> row_values y = Inr (s, w, q, m) \<Longrightarrow> \<not> stock_at s w i"
  by (auto simp: unnamed_stock_def list_all_iff)

text \<open>
  C25: An import of stock that reports no error leaves, for every place that the file names, exactly
  one row of stock, with the quantity and the safety stock of the last line for that place; it
  counts one success for each line and touches no other stock.
\<close>

theorem import_sets_stock:
  assumes "handle_inventory_import env csv_text d = Some (d', r)" "im_errors r = []" "stock_ids env cap d" "drawn d' \<le> cap"
    and "dict_rows csv_text = (xs @ row # ys, False)" "row_values row = Inr (s, w, q, m)"
    and "\<And>y q m. y \<in> set ys \<Longrightarrow> row_values y \<noteq> Inr (s, w, q, m)"
  shows "(\<exists>i. filter (stock_at s w) (inventory_rows d') = [i] \<and> inv_quantity i = q \<and> inv_min_qty i = m) \<and>
    im_success r = length (xs @ row # ys) \<and>
    filter (\<lambda>i. unnamed_stock i (xs @ row # ys)) (inventory_rows d') = filter (\<lambda>i. unnamed_stock i (xs @ row # ys)) (inventory_rows d)"
proof -
  from assms(1,5) have run: "import_rows env 2 (xs @ row # ys) d = (d', r)" by (simp add: handle_inventory_import_def)
  from import_rows_last[OF run assms(2-4,6,7)]
  have "\<exists>i. filter (stock_at s w) (inventory_rows d') = [i] \<and> inv_quantity i = q \<and> inv_min_qty i = m" by blast
  moreover from import_rows_count[OF run] assms(2) have "im_success r = length (xs @ row # ys)" by simp
  moreover have "filter (\<lambda>i. unnamed_stock i (xs @ row # ys)) (inventory_rows d') = filter (\<lambda>i. unnamed_stock i (xs @ row # ys)) (inventory_rows d)"
    by (rule import_rows_frame[OF run assms(3,4)]) (blast dest: unnamed_stockD)
  ultimately show ?thesis by blast
qed

definition hex3 :: string where "hex3 = ''00000000000000000000000000000003''"
definition hex1 :: string where "hex1 = ''00000000000000000000000000000001''"

definition stock_file :: string where
  "stock_file = concat (map write_row [[''sku_id'', ''warehouse_id'', ''quantity''], [hex3, hex1, ''7''], [hex3, hex1, ''8'']])"

theorem import_sets_stock_witness:
  "\<exists>d' r i. handle_inventory_import env0 stock_file (stock_db\<lparr>inventory_rows := [batch4]\<rparr>) = Some (d', r) \<and>
     filter (stock_at 3 1) (inventory_rows d') = [i] \<and> inv_quantity i = 8"
proof -
  let ?names = "[''sku_id'', ''warehouse_id'', ''quantity'']"
  let ?d = "stock_db\<lparr>inventory_rows := [batch4]\<rparr>"
  let ?row = "\<lambda>q. dict_row ?names [hex3, hex1, q]"
  have "csv_read stock_file fresh_parser = ([?names, [hex3, hex1, ''7''], [hex3, hex1, ''8'']], False)"
    unfolding stock_file_def by (rule read_rows) simp
  then have rows: "dict_rows stock_file = ([?row ''7''] @ ?row ''8'' # [], False)" by (simp add: dict_rows_def)
  have v: "row_values (?row ''7'') = Inr (3, 1, 7, 0)" "row_values (?row ''8'') = Inr (3, 1, 8, 0)"
    by code_simp+
  have "\<exists>d' r. handle_inventory_import env0 stock_file ?d = Some (d', r) \<and> im_errors r = [] \<and> drawn d' = drawn ?d"
    unfolding handle_inventory_import_def rows
    by (simp add: import_row_def v sample_eval set_stock_def stock_at_def batch4_def wh1_def)
  then obtain d' r where h: "handle_inventory_import env0 stock_file ?d = Some (d', r)" "im_errors r = []" "drawn d' = drawn ?d" by blast
  have "stock_ids env0 100 ?d" using env0_inj by (simp add: stock_ids_def fresh_ids_def env0_unused env0_big batch4_def)
  from import_sets_stock[OF h(1,2) this _ rows v(2)] h show ?thesis by auto
qed

section \<open>The gateway\<close>

text \<open>
  Behind the audit log a body that ends with an empty message can be replayed completely, but a
  reader that stops at the first message without \<open>more_body\<close>, as ASGI defines, sees its first 8192
  bytes only.
\<close>

theorem audited_bodies_are_truncated:
  assumes "[] \<notin> set cs" "cs \<noteq> []" "length (concat cs) < n"
  shows "\<exists>b. audit_buffer method (cs @ [] # rest) = Some b \<and> replay n b = Some (concat cs) \<and>
    asgi_body b = Some (take 8192 (concat cs))"
proof -
  let ?b = "\<lparr>bb_receive = rest, bb_chunks = cs, bb_byte_offset = 0, bb_done = True\<rparr>"
  obtain b where b: "audit_buffer method (cs @ [] # rest) = Some b" "buffer_call b = buffer_call ?b"
    by (rule audit_buffer_cases[OF assms(1)])
  obtain k where "n = Suc k" using assms(3) by (cases n) auto
  then have "replay n b = replay n ?b" using b(2) by simp
  also have "\<dots> = Some (concat cs)" using replay_rest[of cs 0 ?b n] assms(2,3) by (simp add: buffered_def)
  finally have r: "replay n b = Some (concat cs)" .
  have "concat cs \<noteq> []" using assms(1,2) by (cases cs) auto
  then have "asgi_body b = Some (take 8192 (concat cs))"
    using assms(2) by (simp add: asgi_body_def b(2)) (simp add: buffer_call_def Let_def min_def)
  with b(1) r show ?thesis by blast
qed

theorem audited_bodies_are_truncated_witness:
  "\<exists>b. audit_buffer ''POST'' [replicate 9000 CHR ''x'', []] = Some b \<and> replay 9001 b = Some (replicate 9000 CHR ''x'') \<and>
     asgi_body b = Some (replicate 8192 CHR ''x'')"
  using audited_bodies_are_truncated[of "[replicate 9000 CHR ''x'']" 9001 "''POST''" "[]"] by (simp add: min_def)

text \<open>
  A write whose body the server delivers without a further empty message is never handed on: the
  audit log waits for a message that does not come.
\<close>

theorem audit_waits_for_an_empty_message:
  assumes "audited method" "[] \<notin> set messages"
  shows "audit_buffer method messages = None"
  using assms by (simp add: audit_buffer_def read_all_def new_buffer_def read_loop_waits)

theorem audit_waits_for_an_empty_message_witness: "audit_buffer ''POST'' [''{}''] = None"
  by (rule audit_waits_for_an_empty_message) (simp_all add: audited_def)

text \<open>
  C29: A changing request to the administration reaches its handler only with a token, in the header
  or in the form, that is the one of its cookie and carries the keyed digest of its seed.
\<close>

theorem admin_writes_need_a_signed_token:
  assumes "csrf_dispatch hmac seed t q = Inr dec" "mutating (wr_method q)" "starts_with ''/admin/'' (wr_path q)"
    and "\<forall>m. dec \<noteq> Refused m"
  shows "\<exists>seed'. wr_csrf_cookie q = Some (generate_csrf_token hmac seed') \<and>
    (header_of ''X-CSRF-Token'' q = generate_csrf_token hmac seed' \<or>
     header_of ''X-CSRF-Token'' q = [] \<and> wr_form_token q = Some (generate_csrf_token hmac seed'))"
proof -
  have tok: "generate_csrf_token hmac x \<noteq> []" for x by (simp add: generate_csrf_token_def)
  let ?ok = "\<lambda>tok. verify_csrf_token hmac tok (get_default [] (wr_csrf_cookie q)) = Inr True"
  let ?h = "header_of ''X-CSRF-Token'' q"
  let ?f = "get_default [] (wr_form_token q)"
  have "\<not> (wr_method q = ''GET'' \<or> wr_method q = ''HEAD'')" using assms(2) by (auto simp: mutating_def)
  with assms have "?h \<noteq> [] \<and> ?ok ?h \<or> ?h = [] \<and> ?ok ?f"
    by (auto simp: csrf_dispatch_def Let_def split: if_splits)
  then obtain tok where t: "?ok tok" "?h = tok \<or> ?h = [] \<and> ?f = tok" by blast
  from verify_csrf_token_True[OF t(1)] obtain seed' where
    s: "tok = generate_csrf_token hmac seed'" "get_default [] (wr_csrf_cookie q) = tok" by blast
  have some: "v = Some x" if "get_default [] v = x" "x \<noteq> []" for v :: "string option" and x using that by (cases v) auto
  from t(2) s some[OF s(2)] some[of "wr_form_token q" tok] tok show ?thesis by auto
qed

definition hmac0 :: "string \<Rightarrow> string" where
  "hmac0 s = replicate (length s) CHR ''0''"

definition post0 :: web_request where
  "post0 = \<lparr>wr_method = ''POST'', wr_path = ''/admin/users'', wr_headers = [(''X-CSRF-Token'', generate_csrf_token hmac0 ''5ee5'')],
     wr_csrf_cookie = Some (generate_csrf_token hmac0 ''5ee5''), wr_form_token = None, wr_client = None\<rparr>"

theorem admin_writes_need_a_signed_token_witness:
  "csrf_dispatch hmac0 ''5eed'' 0 post0 = Inr Passed \<and>
   (\<exists>seed'. wr_csrf_cookie post0 = Some (generate_csrf_token hmac0 seed'))"
proof -
  have "csrf_dispatch hmac0 ''5eed'' 0 post0 = Inr Passed" "mutating (wr_method post0)" "starts_with ''/admin/'' (wr_path post0)"
    by code_simp+
  from admin_writes_need_a_signed_token[OF this] this(1) show ?thesis by auto
qed

text \<open>
  The token that a page below \<open>/admin/\<close> sets is accepted in the header of the next write.
\<close>

theorem issued_tokens_are_accepted:
  assumes "csrf_dispatch hmac seed t q = Inr (PassedWithToken tok)" "CHR '':'' \<notin> set seed" "ascii (hmac (''csrf:'' @ seed))"
    and "mutating (wr_method q')" "starts_with ''/admin/'' (wr_path q')" "wr_csrf_cookie q' = Some tok" "header_of ''X-CSRF-Token'' q' = tok"
  shows "csrf_dispatch hmac seed' t' q' = Inr Passed"
proof -
  have tok: "tok = generate_csrf_token hmac seed" using assms(1) by (auto simp: csrf_dispatch_def Let_def split: if_splits sum.splits)
  have "tok \<noteq> []" by (simp add: tok generate_csrf_token_def)
  moreover have "verify_csrf_token hmac tok tok = Inr True"
    unfolding verify_csrf_token_def tok generate_csrf_token_def split_colon_token[OF assms(2)] using assms(3) by (simp add: compare_digest_def)
  moreover have "\<not> (wr_method q' = ''GET'' \<or> wr_method q' = ''HEAD'')" using assms(4) by (auto simp: mutating_def)
  ultimately show ?thesis using assms(4-7) by (simp add: csrf_dispatch_def Let_def)
qed

text \<open>
  The signature of an extension request covers neither its method nor its body and is accepted again
  for five minutes on either side of its time, so a request that was once accepted can be repeated with
  other contents.
\<close>

theorem signed_requests_can_be_repeated:
  assumes "csrf_dispatch hmac seed t q = Inr Passed" "mutating (wr_method q)" "starts_with ''/api/v1/extend'' (wr_path q)"
    and "mutating method" "py_int (header_of ''X-Extend-Timestamp'' q) = Some ts" "\<bar>t' - ts\<bar> \<le> 300"
  shows "csrf_dispatch hmac seed' t' (q\<lparr>wr_method := method, wr_form_token := form\<rparr>) = Inr Passed"
proof -
  have e: "take 14 (wr_path q) = ''/api/v1/extend''" using assms(3) by (simp add: starts_with_def numeral_eq_Suc)
  have "take 7 (wr_path q) = take 7 (take 14 (wr_path q))" by simp
  also have "\<dots> = ''/api/v1''" unfolding e by simp
  finally have p: "\<not> starts_with ''/admin/'' (wr_path q)" by (simp add: starts_with_def numeral_eq_Suc)
  have m: "\<not> (wr_method q = ''GET'' \<or> wr_method q = ''HEAD'')" "\<not> (method = ''GET'' \<or> method = ''HEAD'')"
    using assms(2,4) by (auto simp: mutating_def)
  have "verify_extend_signature hmac t q = Inr True"
    using assms(1-3) p m(1) by (auto simp: csrf_dispatch_def Let_def split: if_splits)
  then have "verify_extend_signature hmac t' (q\<lparr>wr_method := method, wr_form_token := form\<rparr>) = Inr True"
    using assms(5,6) by (auto simp: verify_extend_signature_def Let_def header_of_def split: if_splits)
  with assms(3,4) p m(2) show ?thesis by (simp add: csrf_dispatch_def Let_def)
qed

theorem issued_tokens_are_accepted_witness:
  "csrf_dispatch hmac0 ''0'' 5 post0 = Inr Passed"
proof -
  have "csrf_dispatch hmac0 ''5ee5'' 0 (post0\<lparr>wr_method := ''GET''\<rparr>) = Inr (PassedWithToken (generate_csrf_token hmac0 ''5ee5''))"
    "CHR '':'' \<notin> set ''5ee5''" "ascii (hmac0 (''csrf:'' @ ''5ee5''))" "mutating (wr_method post0)"
    "starts_with ''/admin/'' (wr_path post0)" "wr_csrf_cookie post0 = Some (generate_csrf_token hmac0 ''5ee5'')"
    "header_of ''X-CSRF-Token'' post0 = generate_csrf_token hmac0 ''5ee5''"
    by code_simp+
  then show ?thesis by (rule issued_tokens_are_accepted)
qed

definition extend0 :: web_request where
  "extend0 = \<lparr>wr_method = ''POST'', wr_path = ''/api/v1/extend/x'',
     wr_headers = [(''X-Extend-Timestamp'', ''1000''), (''X-Extend-Signature'', hmac0 ''/api/v1/extend/x:1000:unknown'')],
     wr_csrf_cookie = None, wr_form_token = None, wr_client = None\<rparr>"

theorem signed_requests_can_be_repeated_witness:
  "csrf_dispatch hmac0 [] 1290 (extend0\<lparr>wr_method := ''DELETE'', wr_form_token := None\<rparr>) = Inr Passed"
proof -
  have "csrf_dispatch hmac0 [] 1000 extend0 = Inr Passed" "mutating (wr_method extend0)"
    "starts_with ''/api/v1/extend'' (wr_path extend0)" "mutating ''DELETE''"
    "py_int (header_of ''X-Extend-Timestamp'' extend0) = Some 1000" "\<bar>1290 - 1000 :: int\<bar> \<le> 300"
    by code_simp+
  then show ?thesis by (rule signed_requests_can_be_repeated)
qed

section \<open>Responses\<close>

text \<open>
  For a positive page size and a total that is not negative the links of a page agree with the number
  of pages: there is a next page exactly before the last one, and the pages hold the total with less
  than a page to spare.
\<close>

theorem page_links_agree:
  assumes "0 < per_page" "0 \<le> total_count" "paginated_api_response data total_count page per_page = Some r"
  shows "\<exists>n. ar_meta r = Some [(''pagination'', JObj
      [(''page'', JNum (of_int page)), (''per_page'', JNum (of_int per_page)), (''total_count'', JNum (of_int total_count)),
       (''total_pages'', JNum (of_int n)), (''has_next'', JBool (page < n)), (''has_prev'', JBool (1 < page))])] \<and>
     total_count \<le> n * per_page \<and> (n = 0 \<or> (n - 1) * per_page < total_count)"
  using assms total_pages_bounds[OF assms(1,2)] has_next_iff[OF assms(1,2), of page]
  by (auto simp: paginated_api_response_def api_response_init_def)

theorem page_links_agree_witness:
  "\<exists>r. paginated_api_response [] 41 3 20 = Some r \<and> (\<exists>n. 41 \<le> n * (20 :: int) \<and> (n - 1) * 20 < 41)"
proof -
  obtain r where r: "paginated_api_response [] 41 3 20 = Some r" by (simp add: paginated_api_response_def)
  from page_links_agree[OF _ _ r] have "\<exists>n. 41 \<le> n * (20 :: int) \<and> (n = 0 \<or> (n - 1) * 20 < 41)" by auto
  with r show ?thesis by auto
qed

section \<open>Devices\<close>

text \<open>
  Whatever a device queues and however often the queue is processed, no mutation is ever stored: the
  time of its creation does not fit the column. A run of the queue that returns has handed nothing over,
  whatever rows are there.
\<close>

theorem no_mutation_is_handed_over:
  assumes "process_pending_mutations env loads bind_uuid n d = Inr (d', handed, refused)"
  shows "handed = 0 \<and> outbox_events d' = outbox_events d \<and>
    (pda_reachable dumps loads bind_uuid d \<longrightarrow> pending_mutations d = [] \<and> refused = 0)"
  using process_loop_hands_over_nothing[OF assms[unfolded process_pending_mutations_def]] pda_reachable_empty
  by (auto simp: select_where_def order_by_def)

definition pda0 :: pda_db where
  "pda0 = \<lparr>drawn = 0, skus = [], outbox_events = [], webhook_targets = [], webhook_delivery_logs = [],
     notifications = [], notification_preferences = [], pending_mutations = [], mutation_seq = 1\<rparr>"

theorem no_mutation_is_handed_over_witness:
  "process_pending_mutations env0 (\<lambda>s. Some (JObj [])) (\<lambda>i. None) 100 pda0 = Inr (pda0, 0, 0) \<and> outbox_events pda0 = []"
proof -
  have r: "process_pending_mutations env0 (\<lambda>s. Some (JObj [])) (\<lambda>i. None) 100 pda0 = Inr (pda0, 0, 0)"
    by (simp add: process_pending_mutations_def pda0_def select_where_def order_by_def flush_synced_def)
  from no_mutation_is_handed_over[OF r] r show ?thesis by (simp add: pda0_def)
qed

text \<open>
  A broadcast to the devices keeps exactly the sockets that take the message, on every device, and
  reports the number of devices that got it.
\<close>

theorem broadcast_keeps_live_sockets:
  assumes "registry_ok a" "pda_broadcast ok a = (a', n)"
  shows "conns_of k a' = filter ok (conns_of k a) \<and> registry_ok a' \<and>
    n = length (filter (\<lambda>k. filter ok (conns_of k a) \<noteq> []) (map fst a))"
proof -
  have "distinct (map fst a)" using assms(1) by (simp add: registry_ok_def)
  note b = broadcast_to_effect[OF this assms(1)]
  have "map_of a k = None" if "k \<notin> set (map fst a)" using that by (simp add: map_of_eq_None_iff)
  then have "conns_of k a = []" if "k \<notin> set (map fst a)" using that by (simp add: conns_of_def)
  then have "conns_of k a' = filter ok (conns_of k a)"
    using b(1)[of k ok] assms(2) by (cases "k \<in> set (map fst a)") (simp_all add: pda_broadcast_def)
  with b(2)[of ok] b(3)[of ok] assms(2) show ?thesis by (simp add: pda_broadcast_def)
qed

theorem broadcast_keeps_live_sockets_witness:
  "pda_broadcast (\<lambda>w. w \<noteq> 2) [(''A'', [1, 2]), (''B'', [2 :: nat])] = ([(''A'', [1])], 1) \<and> registry_ok [(''A'', [1 :: nat])]"
proof -
  have b: "pda_broadcast (\<lambda>w. w \<noteq> 2) [(''A'', [1, 2]), (''B'', [2 :: nat])] = ([(''A'', [1])], 1)" by code_simp
  have "registry_ok [(''A'', [1, 2]), (''B'', [2 :: nat])]" by (simp add: registry_ok_def)
  from broadcast_keeps_live_sockets[OF this b] b show ?thesis by blast
qed

text \<open>
  A device that pulls changes never sees an event that has as many younger delivered events of its
  type as a pull returns, whatever date it asks from.
\<close>

theorem pull_never_reaches_older_events:
  assumes "e \<in> set (outbox_events d)" "distinct (map ob_id (outbox_events d))"
    and "limit \<le> row_count (\<lambda>x. ob_status x = OutboxEventStatus_DISPATCHED \<and> (truthy ty \<longrightarrow> ob_aggregate_type x = the ty) \<and>
      ob_created_at e < ob_created_at x) (outbox_events d)"
  shows "show_uuid (ob_id e) \<notin> cv_event_id ` set (fst (sync_pull fromisoformat ty since limit d))"
proof
  let ?t = "select_where (pull_filter fromisoformat ty since) (outbox_events d)"
  assume "show_uuid (ob_id e) \<in> cv_event_id ` set (fst (sync_pull fromisoformat ty since limit d))"
  then obtain x where x: "x \<in> set (take limit (order_by_desc ob_created_at ?t))" "ob_id x = ob_id e"
    by (auto simp: sync_pull_def Let_def event_view_def show_uuid_inj)
  then have "x \<in> set ?t" by (metis in_set_takeD set_order_by(2))
  then have m: "x \<in> set (outbox_events d)" "pull_filter fromisoformat ty since x" by auto
  with x(2) assms(1,2) have "x = e" by (metis distinct_map inj_onD)
  have "distinct (outbox_events d)" using assms(2) by (simp add: distinct_map)
  then have "distinct ?t" by (simp add: select_where_def)
  from newest_rows[OF x(1) this] have lt: "length (filter (\<lambda>y. ob_created_at e < ob_created_at y) ?t) < limit"
    unfolding \<open>x = e\<close> .
  have "pull_filter fromisoformat ty since y" if "ob_status y = OutboxEventStatus_DISPATCHED"
    "truthy ty \<longrightarrow> ob_aggregate_type y = the ty" "ob_created_at e < ob_created_at y" for y
    using that m(2) unfolding \<open>x = e\<close> pull_filter_def by (auto split: option.splits)
  then have "row_count (\<lambda>y. ob_status y = OutboxEventStatus_DISPATCHED \<and> (truthy ty \<longrightarrow> ob_aggregate_type y = the ty) \<and>
      ob_created_at e < ob_created_at y) (outbox_events d) \<le>
      row_count (\<lambda>y. pull_filter fromisoformat ty since y \<and> ob_created_at e < ob_created_at y) (outbox_events d)"
    by (intro row_count_mono) blast
  also have "\<dots> = length (filter (\<lambda>y. ob_created_at e < ob_created_at y) ?t)"
    by (simp add: row_count_def select_where_def conj_commute)
  finally show False using lt assms(3) by linarith
qed

theorem pull_never_reaches_older_events_witness:
  "show_uuid 1 \<notin> cv_event_id ` set (fst (sync_pull (\<lambda>s. None) None None 1
     (pda0\<lparr>outbox_events := [event1\<lparr>ob_status := OutboxEventStatus_DISPATCHED\<rparr>,
        event1\<lparr>ob_id := 2, ob_status := OutboxEventStatus_DISPATCHED, ob_created_at := 6\<rparr>]\<rparr>)))"
  using pull_never_reaches_older_events[of "event1\<lparr>ob_status := OutboxEventStatus_DISPATCHED\<rparr>"
      "pda0\<lparr>outbox_events := [event1\<lparr>ob_status := OutboxEventStatus_DISPATCHED\<rparr>,
         event1\<lparr>ob_id := 2, ob_status := OutboxEventStatus_DISPATCHED, ob_created_at := 6\<rparr>]\<rparr>" 1 None "\<lambda>s. None" None]
  by (simp add: event1_def row_count_def)

section \<open>Connectors\<close>

text \<open>
  C30: A signed webhook for a new order whose lines are dictionaries, and that is answered as
  imported, has stored one order with a line for each line of the message, in order and each with
  the text of the value of its stock keeping unit, which is the text None for a null, for the
  customer named by the e-mail field at the top level of the message, the empty name where that is
  absent or null, and the order reads back.
\<close>

theorem shopify_orders_are_imported:
  assumes "shopify_webhook env py_repr decimal_of loads hmac secret ''orders/create'' header body d = Inr (d', Some i)"
    and "loads body = Some (JObj payload)" "dict_get ''line_items'' (JList []) payload = JList (map JObj os)"
    and "oms_ok env cap d" "drawn d' \<le> cap"
  shows "\<exists>v. get_order i d' = Inr v \<and> length (ov_items v) = length os \<and> header = hmac secret body \<and>
    map iv_sku (ov_items v) = map (\<lambda>l. py_str_of py_repr (dict_get ''sku'' (JStr []) l)) os \<and>
    ov_customer_id v = py_str_of py_repr (json_or (dict_get ''email'' (JStr []) payload) (JStr []))"
proof -
  obtain payload' msg v where h: "header = hmac secret body" "loads body = Some (JObj payload')"
    and t: "''orders/create'' = ''orders/create'' \<and> parse_order_create env py_repr payload' = Inr msg \<or>
      ''orders/create'' = ''orders/fulfilled'' \<and> parse_fulfillment env py_repr payload' = Inr msg"
    and v: "import_erp_order env py_repr decimal_of msg d = Inr (d', v)" "i = ov_id v"
    by (rule shopify_webhookE[OF assms(1)])
  from t h(2) assms(2) have p: "parse_order_create env py_repr payload = Inr msg" by simp
  from import_shopify_order[OF p assms(3) v(1)] obtain items remark where
    its: "list_all2 (\<lambda>l it. erp_item py_repr decimal_of (shopify_line py_repr l) = Inr it) os items"
    and c: "create_order env \<lparr>rq_customer_id = py_str_of py_repr (json_or (dict_get ''email'' (JStr []) payload) (JStr [])),
       rq_items = items, rq_priority = Some ''medium'', rq_notes = remark\<rparr> d = Inr (d', v)" by blast
  have "map (\<lambda>it. get_default [] (rq_sku it)) items = map (\<lambda>l. py_str_of py_repr (dict_get ''sku'' (JStr []) l)) os"
    using its by (induction rule: list_all2_induct) (simp_all add: erp_item_shopifyD)
  with create_order_effect(3,4)[OF c assms(4,5)] create_order_get[OF c assms(4,5)] h v(2) list_all2_lengthD[OF its]
  show ?thesis by (auto simp: requested_view_def comp_def)
qed

definition shop_line :: json_dict where
  "shop_line = [(''sku'', JStr ''A''), (''title'', JStr ''T''), (''quantity'', JNum 2), (''price'', JStr ''5''), (''barcode'', JNull)]"

definition shop_order :: json_dict where
  "shop_order = [(''id'', JStr ''9''), (''email'', JStr ''a@b''), (''line_items'', JList [JObj shop_line])]"

definition py_repr0 :: "json \<Rightarrow> string" where
  "py_repr0 j = ''0''"

definition hmac2 :: "string \<Rightarrow> string \<Rightarrow> string" where
  "hmac2 secret body = ''00''"

theorem shopify_orders_are_imported_witness:
  "\<exists>d i v. shopify_webhook env0 py_repr0 (\<lambda>s. Some 5) (\<lambda>s. Some (JObj shop_order)) hmac2 ''S'' ''orders/create'' ''00'' ''{}'' empty_db =
     Inr (d, Some i) \<and> get_order i d = Inr v \<and> map iv_sku (ov_items v) = [''A''] \<and> ov_customer_id v = ''a@b''"
proof -
  let ?run = "shopify_webhook env0 py_repr0 (\<lambda>s. Some 5) (\<lambda>s. Some (JObj shop_order)) hmac2 ''S'' ''orders/create'' ''00'' ''{}'' empty_db"
  note eval = dict_get_def get_default_def json_iter_def shopify_items_def shop_order_def shop_line_def Let_def
    shopify_line_def py_str_of_def json_or_def json_falsy_def int_of_json_def shopify_tags_def
  obtain msg where msg: "parse_order_create env0 py_repr0 shop_order = Inr msg"
    by (simp add: parse_order_create_def eval)
  have imp: "\<exists>d v. import_erp_order env0 py_repr0 (\<lambda>s. Some 5) msg empty_db = Inr (d, v) \<and> drawn d \<le> 100"
    using msg
    by (auto simp: parse_order_create_def eval import_erp_order_def customer_code_def mapE_def erp_item_def json_dict_of_def
        text_value_def sample_eval)
  then obtain d v where v: "import_erp_order env0 py_repr0 (\<lambda>s. Some 5) msg empty_db = Inr (d, v)" "drawn d \<le> 100" by blast
  have run: "?run = Inr (d, Some (ov_id v))"
    by (simp add: shopify_webhook_def handle_shopify_webhook_def verify_webhook_def hmac2_def compare_digest_def ascii_def msg v)
  have "dict_get ''line_items'' (JList []) shop_order = JList (map JObj [shop_line])" by (simp add: shop_order_def dict_get_def get_default_def)
  from shopify_orders_are_imported[OF run refl this _ v(2)] sample_oms_inv run show ?thesis
    by (fastforce simp: oms_inv_def shop_line_def shop_order_def dict_get_def get_default_def py_str_of_def json_or_def json_falsy_def)
qed

text \<open>
  A signed \<open>orders/fulfilled\<close> webhook creates another order: empty, of the customer \<open>shopify\<close>, in status
  draft, whatever was fulfilled.
\<close>

theorem fulfilments_create_empty_orders:
  assumes "shopify_webhook env py_repr decimal_of loads hmac secret ''orders/fulfilled'' header body d = Inr (d', Some i)"
    and "oms_ok env cap d" "drawn d' \<le> cap"
  shows "\<exists>v. get_order i d' = Inr v \<and> ov_items v = [] \<and> ov_customer_id v = ''shopify'' \<and> ov_total_amount v = 0 \<and>
    length (orders d') = Suc (length (orders d))"
proof -
  obtain payload msg v where "header = hmac secret body" "loads body = Some (JObj payload)"
    and t: "''orders/fulfilled'' = ''orders/create'' \<and> parse_order_create env py_repr payload = Inr msg \<or>
      ''orders/fulfilled'' = ''orders/fulfilled'' \<and> parse_fulfillment env py_repr payload = Inr msg"
    and v: "import_erp_order env py_repr decimal_of msg d = Inr (d', v)" "i = ov_id v"
    by (rule shopify_webhookE[OF assms(1)])
  from t have p: "parse_fulfillment env py_repr payload = Inr msg" by simp
  note c = v(1)[unfolded import_fulfillment[OF p]]
  from create_order_effect(2)[OF c assms(2,3)] obtain order where
    "orders d' = orders d @ [order]" "v = order_to_dict d' order None" "ord_total_amount order = req_total []" by auto
  with create_order_effect(3,4)[OF c assms(2,3)] create_order_get[OF c assms(2,3)] v(2) show ?thesis
    by (auto simp: req_total_def)
qed

theorem fulfilments_create_empty_orders_witness:
  "\<exists>d i v. shopify_webhook env0 py_repr0 (\<lambda>s. None) (\<lambda>s. Some (JObj [])) hmac2 ''S'' ''orders/fulfilled'' ''00'' ''{}'' empty_db =
     Inr (d, Some i) \<and> get_order i d = Inr v \<and> ov_items v = [] \<and> ov_customer_id v = ''shopify''"
proof -
  let ?run = "shopify_webhook env0 py_repr0 (\<lambda>s. None) (\<lambda>s. Some (JObj [])) hmac2 ''S'' ''orders/fulfilled'' ''00'' ''{}'' empty_db"
  obtain msg where msg: "parse_fulfillment env0 py_repr0 [] = Inr msg"
    by (simp add: parse_fulfillment_def first_fulfillment_def dict_get_def json_dict_of_def Let_def get_default_def)
  have "\<exists>d v. create_order env0 \<lparr>rq_customer_id = ''shopify'', rq_items = [], rq_priority = Some ''medium'',
      rq_notes = Some ''Imported from shopify''\<rparr> empty_db = Inr (d, v) \<and> drawn d \<le> 100"
    by (simp add: sample_eval)
  then obtain d v where v: "import_erp_order env0 py_repr0 (\<lambda>s. None) msg empty_db = Inr (d, v)" "drawn d \<le> 100"
    unfolding import_fulfillment[OF msg] by blast
  have run: "?run = Inr (d, Some (ov_id v))"
    by (simp add: shopify_webhook_def handle_shopify_webhook_def verify_webhook_def hmac2_def compare_digest_def ascii_def msg v)
  from fulfilments_create_empty_orders[OF run _ v(2)] sample_oms_inv run show ?thesis by (auto simp: oms_inv_def)
qed

end
