(* ===== verification/Edi.thy ===== *)
theory Edi
  imports Connectors Oms_Merge
begin

text \<open>
  Messages of the ERP systems: \<open>src/models/erp_connector.py\<close> and \<open>src/tms/connectors/erp.py\<close>. EDIFACT text
  is parsed and written, IDOC trees are read (\<open>xml\<close> is the tree that \<open>ElementTree\<close> makes of the text),
  acknowledgements change orders. The text of JSON values, the digest and the key that the database
  driver makes of a text are parameters.
\<close>

section \<open>Message types\<close>

definition message_types :: "string list" where
  "message_types = [''ORDERS'', ''ORDINR'', ''ORDRESP'', ''DESADV'', ''DELJRN'', ''INVOIC'', ''CUSORD'']"

text \<open>\<open>MessageType(text)\<close>, or the value that is kept when it raises.\<close>

definition message_type_or :: "string \<Rightarrow> string \<Rightarrow> string" where
  "message_type_or dflt s = (if s \<in> set message_types then s else dflt)"

datatype edi_standard = EDIStandard_EDIFACT | EDIStandard_ANSI_X12

section \<open>EDIFACT\<close>

abbreviation quote_char :: char where
  "quote_char \<equiv> CHR 0x27"

definition edi_segments :: "string \<Rightarrow> string list" where
  "edi_segments raw = filter (\<lambda>s. s \<noteq> []) (map (strip_by py_space) (split_on quote_char (strip_by py_space raw)))"

definition segment_type :: "string \<Rightarrow> string list \<Rightarrow> string" where
  "segment_type msg_type parts =
     (if hd parts = ''UNH'' then
        message_type_or msg_type (if 1 < length (tl parts) then hd (split_on (CHR '':'') (tl parts ! 1)) else ''ORDERS'')
      else msg_type)"

definition segment_json :: "string list \<Rightarrow> json" where
  "segment_json parts = JObj [(''tag'', JStr (hd parts)), (''elements'', JList (map JStr (tl parts)))]"

definition edi_parse :: "env \<Rightarrow> string option \<Rightarrow> string \<Rightarrow> erp_message" where
  "edi_parse env trading_partner_id raw =
     (let parts = map (split_on (CHR ''+'')) (edi_segments raw)
      in \<lparr>em_msg_type = fold (\<lambda>p t. segment_type t p) parts ''ORDERS'',
          em_sender_id = (if truthy trading_partner_id then the trading_partner_id else ''EDI_TRADING''),
          em_receiver_id = ''WMS'', em_created_at = now env,
          em_payload = [(''segments'', JList (map segment_json parts))]\<rparr>)"

fun join_with :: "string \<Rightarrow> string list \<Rightarrow> string" where
  "join_with sep [] = []"
| "join_with sep [s] = s"
| "join_with sep (s # ss) = s @ sep @ join_with sep ss"

definition payload_segments :: "(json \<Rightarrow> string) \<Rightarrow> json_dict \<Rightarrow> string list" where
  "payload_segments py_repr payload =
     map (\<lambda>(k, v). k @ ''+'' @ py_str_of py_repr v) (filter (\<lambda>(k, v). k \<noteq> ''segments'') payload)"

definition edi_serialize :: "(json \<Rightarrow> string) \<Rightarrow> erp_message \<Rightarrow> string" where
  "edi_serialize py_repr msg =
     join_with [quote_char]
       ([''UNB+UNOA:2+'' @ em_sender_id msg @ ''+'' @ em_receiver_id msg,
         ''UNH+1+'' @ em_msg_type msg @ '':D:2.1:UN:EDIFACT''] @
        payload_segments py_repr (em_payload msg) @ [''UNT+2+1'', ''UNZ+1+1'']) @ [quote_char]"

definition translate_order :: "(json \<Rightarrow> string) \<Rightarrow> edi_standard \<Rightarrow> erp_message \<Rightarrow> string" where
  "translate_order py_repr standard order_msg =
     (let i = py_str_of py_repr (dict_get ''id'' (JStr []) (em_payload order_msg))
      in case standard of EDIStandard_EDIFACT \<Rightarrow> ''ORDERS+'' @ i | EDIStandard_ANSI_X12 \<Rightarrow> ''ST*850*'' @ i)"

section \<open>IDOC\<close>

datatype xml = Element (x_tag: string) (x_text: "string option") (x_children: "xml list")

text \<open>\<open>root.iter()\<close>: the element and everything below it, in the order of the text.\<close>

primrec xml_iter :: "xml \<Rightarrow> xml list" where
  "xml_iter (Element t x cs) = Element t x cs # concat (map xml_iter cs)"

definition iter_tag :: "string \<Rightarrow> xml \<Rightarrow> xml list" where
  "iter_tag t e = filter (\<lambda>x. x_tag x = t) (xml_iter e)"

definition text_of :: "xml \<Rightarrow> string" where
  "text_of e = get_default [] (x_text e)"

definition findtext :: "string \<Rightarrow> string \<Rightarrow> xml \<Rightarrow> string" where
  "findtext t dflt e = (case filter (\<lambda>x. x_tag x = t) (x_children e) of [] \<Rightarrow> dflt | x # xs \<Rightarrow> text_of x)"

definition segment_data :: "xml \<Rightarrow> json_dict" where
  "segment_data s = fold (\<lambda>f. AList.update (x_tag f) (JStr (text_of f))) (x_children s) []"

definition idoc_payload :: "xml \<Rightarrow> json_dict" where
  "idoc_payload idoc = fold (\<lambda>s. AList.update (x_tag s) (JObj (segment_data s))) (iter_tag ''segment'' idoc) []"

definition parse_idoc :: "env \<Rightarrow> string \<Rightarrow> string \<Rightarrow> xml \<Rightarrow> erp_message list" where
  "parse_idoc env sender_partner idoc_xml doc =
     (let msg = (\<lambda>t p. \<lparr>em_msg_type = t, em_sender_id = sender_partner, em_receiver_id = ''SAP_ECC'', em_created_at = now env, em_payload = p\<rparr>);
          messages = map (\<lambda>idoc. msg (message_type_or ''ORDERS'' (findtext ''DOCTYPE'' ''ORDERS'' idoc)) (idoc_payload idoc)) (iter_tag ''IDOC'' doc)
      in if messages = [] then [msg ''ORDERS'' [(''raw'', JStr idoc_xml)]] else messages)"

section \<open>Synchronisation\<close>

text \<open>
  \<open>sap\<close> and \<open>edi\<close> say which connector is there. Through SAP the identifier of the message is fresh,
  whether it was delivered or not; for EDI it is a digest and nothing is sent.
\<close>

definition message_id :: "(string \<Rightarrow> string) \<Rightarrow> (json \<Rightarrow> string) \<Rightarrow> string \<Rightarrow> bool \<Rightarrow> bool \<Rightarrow> erp_message \<Rightarrow> string" where
  "message_id md5 py_repr uuid4_text sap edi msg =
     (if sap then uuid4_text else if edi then md5 (edi_serialize py_repr msg) else uuid4_text)"

definition sync_order :: "env \<Rightarrow> (string \<Rightarrow> string) \<Rightarrow> (json \<Rightarrow> string) \<Rightarrow> string \<Rightarrow> bool \<Rightarrow> bool \<Rightarrow> string \<Rightarrow> string" where
  "sync_order env md5 py_repr uuid4_text sap edi order_id =
     message_id md5 py_repr uuid4_text sap edi
       \<lparr>em_msg_type = ''ORDERS'', em_sender_id = ''WMS'', em_receiver_id = ''ERP'', em_created_at = now env,
        em_payload = [(''order_id'', JStr order_id)]\<rparr>"

definition sync_transport_order ::
  "env \<Rightarrow> (datetime \<Rightarrow> string) \<Rightarrow> (string \<Rightarrow> string) \<Rightarrow> (json \<Rightarrow> string) \<Rightarrow> string \<Rightarrow> bool \<Rightarrow> bool \<Rightarrow> string \<Rightarrow> string" where
  "sync_transport_order env isoformat md5 py_repr uuid4_text sap edi order_id =
     message_id md5 py_repr uuid4_text sap edi
       \<lparr>em_msg_type = ''DELJRN'', em_sender_id = ''TMS'', em_receiver_id = ''ERP'', em_created_at = now env,
        em_payload = [(''transport_order_id'', JStr order_id), (''synced_at'', JStr (isoformat (now env)))]\<rparr>"

definition sync_tracking_event ::
  "env \<Rightarrow> (datetime \<Rightarrow> string) \<Rightarrow> (string \<Rightarrow> string) \<Rightarrow> (json \<Rightarrow> string) \<Rightarrow> string \<Rightarrow> bool \<Rightarrow> bool \<Rightarrow>
   string \<Rightarrow> string \<Rightarrow> json_dict option \<Rightarrow> string" where
  "sync_tracking_event env isoformat md5 py_repr uuid4_text sap edi transport_order_id event_type details =
     message_id md5 py_repr uuid4_text sap edi
       \<lparr>em_msg_type = ''DESADV'', em_sender_id = ''TMS'', em_receiver_id = ''ERP'', em_created_at = now env,
        em_payload = [(''transport_order_id'', JStr transport_order_id), (''event_type'', JStr event_type),
          (''details'', JObj (get_default [] details)), (''timestamp'', JStr (isoformat (now env)))]\<rparr>"

text \<open>
  An acknowledgement confirms the order it names, whatever its status is. \<open>bind_key s\<close> is the key that
  the driver makes of a text, if it accepts it.
\<close>

definition confirm_acked :: "env \<Rightarrow> uuid \<Rightarrow> 'a oms_db_scheme \<Rightarrow> 'a oms_db_scheme" where
  "confirm_acked env oid d =
     d\<lparr>orders := update_where (\<lambda>x. pk x = oid \<and> ord_status x \<noteq> OrderStatus_CONFIRMED)
        (\<lambda>x. x\<lparr>ord_status := OrderStatus_CONFIRMED, updated_at := now env\<rparr>) (orders d)\<rparr>"

definition handle_ack :: "env \<Rightarrow> (string \<Rightarrow> uuid option) \<Rightarrow> erp_message \<Rightarrow> 'a oms_db_scheme \<Rightarrow> 'a oms_db_scheme result" where
  "handle_ack env bind_key ack d =
     (let order_id = dict_get ''order_id'' JNull (em_payload ack) in
      if json_falsy order_id then Inr d
      else case order_id of
        JStr s \<Rightarrow> bindE (of_option DataError (bind_key s)) (\<lambda>oid. Inr (confirm_acked env oid d))
      | _ \<Rightarrow> Inl DataError)"

text \<open>\<open>update_carrier_rate\<close> does not exist, so the import raises as soon as there is something to do.\<close>

definition handle_inbound_rate_update :: "erp_message \<Rightarrow> int result" where
  "handle_inbound_rate_update msg =
     (if json_falsy (dict_get ''carrier_code'' JNull (em_payload msg)) \<or> json_falsy (dict_get ''rate_data'' JNull (em_payload msg))
      then Inr 0 else Inl ImportError)"

section \<open>Dead letters\<close>

record dlq_entry =
  dq_id :: string
  dq_msg_type :: string
  dq_error_code :: string
  dq_raw_message :: string
  dq_resolved :: bool
  dq_resolved_at :: "datetime option"
  dq_created_at :: datetime

text \<open>The fields of a dumped message; \<open>json.dumps\<close> refuses a date.\<close>

datatype dumped = JsonField json | DateField datetime

definition model_dump :: "erp_message \<Rightarrow> (string \<times> dumped) list" where
  "model_dump msg =
     [(''msg_type'', JsonField (JStr (em_msg_type msg))), (''sender_id'', JsonField (JStr (em_sender_id msg))),
      (''receiver_id'', JsonField (JStr (em_receiver_id msg))), (''created_at'', DateField (em_created_at msg)),
      (''payload'', JsonField (JObj (em_payload msg)))]"

definition json_dumps :: "(json_dict \<Rightarrow> string) \<Rightarrow> (string \<times> dumped) list \<Rightarrow> string result" where
  "json_dumps text dump =
     bindE (mapE (\<lambda>(k, v). case v of JsonField j \<Rightarrow> Inr (k, j) | DateField t \<Rightarrow> Inl TypeError) dump) (\<lambda>js. Inr (text js))"

definition dlq_enqueue ::
  "env \<Rightarrow> (json_dict \<Rightarrow> string) \<Rightarrow> string \<Rightarrow> erp_message \<Rightarrow> string \<Rightarrow> dlq_entry list \<Rightarrow> (dlq_entry list \<times> dlq_entry) result" where
  "dlq_enqueue env text uuid4_text msg error_code entries =
     bindE (json_dumps text (model_dump msg)) (\<lambda>raw.
     let entry = \<lparr>dq_id = uuid4_text, dq_msg_type = em_msg_type msg, dq_error_code = error_code, dq_raw_message = raw,
                  dq_resolved = False, dq_resolved_at = None, dq_created_at = now env\<rparr>
     in Inr (entries @ [entry], entry))"

fun dlq_retry :: "env \<Rightarrow> string \<Rightarrow> dlq_entry list \<Rightarrow> dlq_entry list \<times> bool" where
  "dlq_retry env dlq_id [] = ([], False)"
| "dlq_retry env dlq_id (e # es) =
     (if dq_id e = dlq_id \<and> \<not> dq_resolved e then (e\<lparr>dq_resolved := True, dq_resolved_at := Some (now env)\<rparr> # es, True)
      else case dlq_retry env dlq_id es of (es', b) \<Rightarrow> (e # es', b))"

section \<open>Splitting what was joined\<close>

lemma split_on_Nil [simp]: "split_on c s \<noteq> []"
  by (cases s) (auto split: list.splits)

lemma split_on_append:
  "c \<notin> set a \<Longrightarrow> split_on c (a @ c # s) = a # split_on c s"
  by (induction a) auto

lemma split_on_absent: "c \<notin> set a \<Longrightarrow> split_on c a = [a]"
  by (induction a) auto

lemma split_on_join:
  assumes "\<forall>s\<in>set ss. c \<notin> set s" "ss \<noteq> []"
  shows "split_on c (join_with [c] ss) = ss"
  using assms
proof (induction "[c]" ss rule: join_with.induct)
  case (2 s)
  then show ?case by (simp add: split_on_absent)
next
  case (3 s t ss)
  then show ?case using split_on_append[of c s] by simp
qed simp

lemma join_with_snoc: "ss \<noteq> [] \<Longrightarrow> join_with [c] (ss @ [[]]) = join_with [c] ss @ [c]"
  by (induction "[c]" ss rule: join_with.induct) auto

text \<open>A text without space at its ends.\<close>

definition trimmed :: "string \<Rightarrow> bool" where
  "trimmed s \<longleftrightarrow> s \<noteq> [] \<and> \<not> py_space (hd s) \<and> \<not> py_space (last s)"

lemma strip_trimmed: "trimmed s \<Longrightarrow> strip_by py_space s = s"
proof -
  assume t: "trimmed s"
  then have "dropWhile py_space s = s" by (cases s) (auto simp: trimmed_def)
  moreover have "dropWhile py_space (rev s) = rev s"
    using t by (cases s rule: rev_cases) (auto simp: trimmed_def)
  ultimately show ?thesis by (simp add: strip_by_def)
qed

text \<open>Segments that are trimmed and hold no quote are read back as they were written.\<close>

lemma edi_segments_joined:
  assumes "\<forall>s\<in>set ss. trimmed s \<and> quote_char \<notin> set s" "ss \<noteq> []"
  shows "edi_segments (join_with [quote_char] ss @ [quote_char]) = ss"
proof -
  let ?t = "join_with [quote_char] (ss @ [[]])"
  have j: "join_with [quote_char] ss @ [quote_char] = ?t" by (simp add: join_with_snoc assms(2))
  have "hd ?t = hd (hd ss)" "?t \<noteq> []"
    using assms by (cases ss; cases "tl ss"; auto simp: trimmed_def hd_append)+
  moreover have "\<not> py_space (hd (hd ss))" using assms by (cases ss) (auto simp: trimmed_def)
  moreover have "last ?t = quote_char" unfolding j[symmetric] by simp
  moreover have "\<not> py_space quote_char" by code_simp
  ultimately have "trimmed ?t" by (simp add: trimmed_def)
  then have "strip_by py_space ?t = ?t" by (rule strip_trimmed)
  moreover have "split_on quote_char ?t = ss @ [[]]" using assms by (intro split_on_join) auto
  moreover have "map (strip_by py_space) ss = ss" using assms(1) by (simp add: map_idI strip_trimmed)
  moreover have "filter (\<lambda>s. s \<noteq> []) ss = ss" using assms(1) by (simp add: filter_id_conv trimmed_def)
  ultimately show ?thesis unfolding j edi_segments_def by (simp add: strip_by_def)
qed

text \<open>The segments of a message.\<close>

definition header_segments :: "erp_message \<Rightarrow> string list" where
  "header_segments msg = [''UNB+UNOA:2+'' @ em_sender_id msg @ ''+'' @ em_receiver_id msg,
     ''UNH+1+'' @ em_msg_type msg @ '':D:2.1:UN:EDIFACT'']"

lemma edi_serialize_segments:
  "edi_serialize py_repr msg = join_with [quote_char] (header_segments msg @ payload_segments py_repr (em_payload msg) @ [''UNT+2+1'', ''UNZ+1+1'']) @ [quote_char]"
  by (simp add: edi_serialize_def header_segments_def)

section \<open>IDOC segments\<close>

text \<open>All segments have the same tag, so the last one replaces the others.\<close>

lemma idoc_payload_last:
  "idoc_payload idoc =
     (if iter_tag ''segment'' idoc = [] then [] else [(''segment'', JObj (segment_data (last (iter_tag ''segment'' idoc))))])"
proof -
  have f: "fold (\<lambda>s. AList.update (x_tag s) (JObj (segment_data s))) ss [(''segment'', v)] =
      [(''segment'', if ss = [] then v else JObj (segment_data (last ss)))]" if "\<forall>s\<in>set ss. x_tag s = ''segment''" for ss v
    using that by (induction ss arbitrary: v) auto
  have t: "\<forall>s\<in>set (iter_tag ''segment'' idoc). x_tag s = ''segment''" by (simp add: iter_tag_def)
  show ?thesis
  proof (cases "iter_tag ''segment'' idoc")
    case (Cons s ss)
    with t have "x_tag s = ''segment''" "\<forall>s\<in>set ss. x_tag s = ''segment''" by simp_all
    with f[of ss "JObj (segment_data s)"] show ?thesis by (simp add: idoc_payload_def Cons)
  qed (simp add: idoc_payload_def)
qed

section \<open>Dead letters\<close>

lemma dlq_enqueue_raises: "dlq_enqueue env text u msg error_code entries = Inl TypeError"
  by (simp add: dlq_enqueue_def json_dumps_def model_dump_def mapE_def)

end
