(* ===== verification/Analytics.thy ===== *)
theory Analytics
  imports Tasks
begin

text \<open>
  The reports of \<open>src/analytics/service.py\<close>. The day of a time depends on the time zone of the database
  and is a parameter. The accounts are an argument, because they are in a table of their own.
\<close>

section \<open>Counting\<close>

record dashboard_stats =
  ds_order_count :: nat
  ds_user_count :: nat
  ds_inventory_count :: nat
  ds_warehouse_count :: nat

definition get_dashboard_stats :: "'u list \<Rightarrow> 'a wms_db_scheme \<Rightarrow> dashboard_stats" where
  "get_dashboard_stats user_table d =
     \<lparr>ds_order_count = length (orders d), ds_user_count = length user_table,
      ds_inventory_count = length (inventory_rows d), ds_warehouse_count = length (warehouses d)\<rparr>"

definition day_length :: int where
  "day_length = 24 * 3600 * 1000000"

definition get_order_trends :: "env \<Rightarrow> (datetime \<Rightarrow> int) \<Rightarrow> int \<Rightarrow> 'a oms_db_scheme \<Rightarrow> (int \<times> nat) list" where
  "get_order_trends env date days d =
     (let cutoff = now env - days * day_length;
          recent = select_where (\<lambda>x. cutoff \<le> created_at x) (orders d)
      in map (\<lambda>k. (k, row_count (\<lambda>x. date (created_at x) = k) recent)) (sort (remdups (map (\<lambda>x. date (created_at x)) recent))))"

definition get_status_distribution :: "'a oms_db_scheme \<Rightarrow> (string \<times> nat) list" where
  "get_status_distribution d =
     map (\<lambda>s. (order_status_value s, row_count (\<lambda>x. ord_status x = s) (orders d))) (remdups (map ord_status (orders d)))"

record low_stock_item =
  ls_sku :: string
  ls_warehouse :: string
  ls_quantity :: decimal
  ls_min_qty :: decimal

text \<open>\<open>str(None)\<close> is \<open>None\<close>.\<close>

definition get_low_stock_items :: "'a wms_db_scheme \<Rightarrow> low_stock_item list" where
  "get_low_stock_items d =
     map (\<lambda>i. \<lparr>ls_sku = show_uuid (inv_sku_id i),
               ls_warehouse = (case inv_warehouse_id i of None \<Rightarrow> ''None'' | Some w \<Rightarrow> show_uuid w),
               ls_quantity = inv_quantity i, ls_min_qty = inv_min_qty i\<rparr>)
       (take 20 (select_where (\<lambda>i. inv_quantity i \<le> inv_min_qty i) (inventory_rows d)))"

record recent_order =
  ro_id :: string
  ro_order_no :: string
  ro_status :: string
  ro_total_amount :: decimal
  ro_customer_id :: string
  ro_created_at :: datetime

definition get_recent_orders :: "nat \<Rightarrow> 'a oms_db_scheme \<Rightarrow> recent_order list" where
  "get_recent_orders limit d =
     map (\<lambda>x. \<lparr>ro_id = show_uuid (pk x), ro_order_no = ord_order_no x, ro_status = status_reverse (ord_status x),
               ro_total_amount = ord_total_amount x, ro_customer_id = show_uuid (ord_customer_id x),
               ro_created_at = created_at x\<rparr>)
       (take limit (order_by_desc created_at (orders d)))"

section \<open>Groups\<close>

text \<open>The sizes of the groups of a query add up to its rows.\<close>

lemma group_counts_total:
  assumes "distinct ks" "f ` set xs \<subseteq> set ks"
  shows "sum_list (map (\<lambda>k. row_count (\<lambda>x. f x = k) xs) ks) = length xs"
  using assms(2)
proof (induction xs)
  case (Cons x xs)
  have "row_count (\<lambda>y. f y = k) (x # xs) = (if k = f x then 1 else 0) + row_count (\<lambda>y. f y = k) xs" for k
    by (simp add: row_count_def)
  then have "sum_list (map (\<lambda>k. row_count (\<lambda>y. f y = k) (x # xs)) ks) =
      sum_list (map (\<lambda>k. if k = f x then 1 else 0) ks) + sum_list (map (\<lambda>k. row_count (\<lambda>y. f y = k) xs) ks)"
    by (simp add: sum_list_addf)
  moreover have "sum_list (map (\<lambda>k. if k = f x then 1 else 0 :: nat) ks) = 1"
    using assms(1) Cons.prems by (simp add: sum_list_distinct_conv_sum_set)
  ultimately show ?case using Cons by simp
qed (simp add: row_count_def)

lemma trends_total:
  "sum_list (map snd (get_order_trends env date days d)) = row_count (\<lambda>x. now env - days * day_length \<le> created_at x) (orders d)"
  unfolding get_order_trends_def Let_def map_map comp_def snd_conv
  by (subst group_counts_total) (auto simp: select_where_def row_count_def)

lemma trends_days: "sorted_wrt (<) (map fst (get_order_trends env date days d))"
  by (simp add: get_order_trends_def Let_def comp_def strict_sorted_iff)

lemma distribution_total: "sum_list (map snd (get_status_distribution d)) = length (orders d)"
  unfolding get_status_distribution_def map_map comp_def snd_conv
  by (subst group_counts_total) auto

end
