(* ===== verification/Push.thy ===== *)
theory Push
  imports Tms_Device
begin

text \<open>
  The push service of \<open>src/tms/push_service.py\<close>: messages for the events of a transport and the counters
  of sent and failed pushes. Firebase is a parameter: \<open>None\<close> when it is not configured, and otherwise
  whether a message is taken.
\<close>

datatype notification_priority = NotificationPriority_LOW | NotificationPriority_NORMAL | NotificationPriority_HIGH

record push_message =
  pu_title :: string
  pu_body :: string
  pu_priority :: notification_priority
  pu_data :: "(string \<times> string) list"
  pu_topic :: "string option"
  pu_android_channel_id :: "string option"

definition new_push :: "string \<Rightarrow> string \<Rightarrow> (string \<times> string) list \<Rightarrow> notification_priority \<Rightarrow> push_message" where
  "new_push title body data priority =
     \<lparr>pu_title = title, pu_body = body, pu_priority = priority, pu_data = data, pu_topic = None,
      pu_android_channel_id = Some ''tms_transport''\<rparr>"

record push_service =
  ps_sent_count :: nat
  ps_failed_count :: nat

text \<open>What Firebase makes of a message to a token or a topic.\<close>

type_synonym firebase = "(string \<Rightarrow> push_message \<Rightarrow> bool) option"

definition send_push :: "firebase \<Rightarrow> string \<Rightarrow> push_message \<Rightarrow> push_service \<Rightarrow> push_service \<times> bool" where
  "send_push fcm push_token message s =
     (case fcm of
        None \<Rightarrow> (s\<lparr>ps_sent_count := ps_sent_count s + 1\<rparr>, True)
      | Some send \<Rightarrow>
          if send push_token message then (s\<lparr>ps_sent_count := ps_sent_count s + 1\<rparr>, True)
          else (s\<lparr>ps_failed_count := ps_failed_count s + 1\<rparr>, False))"

definition send_to_topic :: "firebase \<Rightarrow> string \<Rightarrow> push_message \<Rightarrow> push_service \<Rightarrow> push_service \<times> bool" where
  "send_to_topic = send_push"

section \<open>Events of a transport\<close>

definition status_labels :: "(string \<times> string) list" where
  "status_labels =
    [(''dispatched'', utf8 [229, 183, 178, 229, 143, 145, 232, 189, 166]),
     (''in_transit'', utf8 [232, 191, 144, 232, 190, 147, 228, 184, 173]),
     (''out_for_delivery'', utf8 [230, 180, 190, 233, 128, 129, 228, 184, 173]),
     (''delivered'', utf8 [229, 183, 178, 231, 173, 190, 230, 148, 182]),
     (''exception'', utf8 [229, 188, 130, 229, 184, 184, 229, 164, 132, 231, 144, 134, 228, 184, 173])]"

definition notify_status_update :: "firebase \<Rightarrow> string \<Rightarrow> string \<Rightarrow> string \<Rightarrow> push_service \<Rightarrow> push_service \<times> bool" where
  "notify_status_update fcm device_id order_no status s =
     (let label = get_default status (map_of status_labels status)
      in send_push fcm device_id
           (new_push (utf8 [231, 137, 169, 230, 181, 129, 231, 138, 182, 230, 128, 129, 230, 155, 180, 230, 150, 176])
              (utf8 [232, 191, 144, 229, 141, 149] @ '' '' @ order_no @ '' '' @ utf8 [231, 138, 182, 230, 128, 129, 230, 155, 180, 230, 150, 176, 228, 184, 186, 239, 188, 154] @ label)
              [(''transport_order'', order_no), (''status'', status)]
              (if status = ''exception'' then NotificationPriority_HIGH else NotificationPriority_NORMAL)) s)"

definition notify_push_delivery :: "firebase \<Rightarrow> string \<Rightarrow> string \<Rightarrow> push_service \<Rightarrow> push_service \<times> bool" where
  "notify_push_delivery fcm device_id tracking_number s =
     send_push fcm device_id
       (new_push (utf8 [229, 140, 133, 232, 163, 185, 229, 183, 178, 231, 173, 190, 230, 148, 182])
          (utf8 [232, 191, 144, 229, 141, 149] @ '' '' @ tracking_number @ '' '' @ utf8 [229, 183, 178, 230, 136, 144, 229, 138, 159, 231, 173, 190, 230, 148, 182])
          [(''tracking'', tracking_number)] NotificationPriority_HIGH) s"

definition notify_push_exception :: "firebase \<Rightarrow> string \<Rightarrow> string \<Rightarrow> string \<Rightarrow> push_service \<Rightarrow> push_service \<times> bool" where
  "notify_push_exception fcm device_id number issue s =
     send_push fcm device_id
       (new_push (utf8 [232, 191, 144, 232, 190, 147, 229, 188, 130, 229, 184, 184, 233, 128, 154, 231, 159, 165])
          (utf8 [232, 191, 144, 229, 141, 149] @ '' '' @ number @ '' '' @ utf8 [229, 135, 186, 231, 142, 176, 229, 188, 130, 229, 184, 184, 239, 188, 154] @ issue)
          [(''transport_order'', number), (''exception'', issue)] NotificationPriority_HIGH) s"

section \<open>Counters\<close>

text \<open>Every push is counted once.\<close>

lemma send_push_counts:
  assumes "send_push fcm token message s = (s', ok)"
  shows "ps_sent_count s' = ps_sent_count s + (if ok then 1 else 0)"
    "ps_failed_count s' = ps_failed_count s + (if ok then 0 else 1)"
  using assms by (auto simp: send_push_def split: option.splits if_splits)

lemma send_push_unconfigured: "snd (send_push None token message s)"
  by (simp add: send_push_def)

end
