(* ===== verification/Report_Properties.thy ===== *)
theory Report_Properties
  imports Samples Edi Analytics Push
begin

text \<open>
  Properties of the ERP messages, the reports and the push service, with their witnesses.
\<close>

section \<open>EDIFACT messages\<close>

definition edi_clean :: "string \<Rightarrow> bool" where
  "edi_clean s \<longleftrightarrow> quote_char \<notin> set s \<and> CHR ''+'' \<notin> set s"

definition edi_text :: "string \<Rightarrow> bool" where
  "edi_text s \<longleftrightarrow> edi_clean s \<and> trimmed s"

lemma split_plus: "edi_clean k \<Longrightarrow> split_on (CHR ''+'') (k @ CHR ''+'' # v) = k # split_on (CHR ''+'') v"
  by (simp add: edi_clean_def split_on_append)

lemma split_clean: "edi_clean k \<Longrightarrow> split_on (CHR ''+'') k = [k]"
  by (simp add: edi_clean_def split_on_absent)

lemma trimmed_joined: "trimmed a \<Longrightarrow> trimmed b \<Longrightarrow> trimmed (a @ c # b)"
  by (simp add: trimmed_def)

lemma edi_type_clean:
  assumes "t \<in> set message_types"
  shows "edi_clean (t @ '':D:2.1:UN:EDIFACT'')" "hd (split_on (CHR '':'') (t @ '':D:2.1:UN:EDIFACT'')) = t"
    "hd (split_on (CHR '':'') t) = t" "message_type_or x t = t"
  using assms by (auto simp: message_types_def edi_clean_def message_type_or_def)

text \<open>The segments of a clean message and what they split into.\<close>

definition message_parts :: "(json \<Rightarrow> string) \<Rightarrow> erp_message \<Rightarrow> string list list" where
  "message_parts py_repr msg =
     [[''UNB'', ''UNOA:2'', em_sender_id msg, em_receiver_id msg], [''UNH'', ''1'', em_msg_type msg @ '':D:2.1:UN:EDIFACT'']] @
     map (\<lambda>(k, v). [k, py_str_of py_repr v]) (filter (\<lambda>(k, v). k \<noteq> ''segments'') (em_payload msg)) @
     [[''UNT'', ''2'', ''1''], [''UNZ'', ''1'', ''1'']]"

lemma trailer_parts:
  "trimmed ''UNT+2+1''" "trimmed ''UNZ+1+1''" "quote_char \<notin> set ''UNT+2+1''" "quote_char \<notin> set ''UNZ+1+1''"
  "split_on (CHR ''+'') ''UNT+2+1'' = [''UNT'', ''2'', ''1'']" "split_on (CHR ''+'') ''UNZ+1+1'' = [''UNZ'', ''1'', ''1'']"
  by code_simp+

lemma header_parts:
  assumes "edi_clean (em_sender_id msg)" "edi_text (em_receiver_id msg)" "em_msg_type msg \<in> set message_types"
  shows "\<forall>s\<in>set (header_segments msg). trimmed s \<and> quote_char \<notin> set s"
    "map (split_on (CHR ''+'')) (header_segments msg) =
       [[''UNB'', ''UNOA:2'', em_sender_id msg, em_receiver_id msg], [''UNH'', ''1'', em_msg_type msg @ '':D:2.1:UN:EDIFACT'']]"
proof -
  have s: "\<not> py_space (CHR ''U'')" "\<not> py_space (CHR ''T'')" by (simp_all add: py_space_def)
  show "\<forall>s\<in>set (header_segments msg). trimmed s \<and> quote_char \<notin> set s"
    using assms edi_type_clean(1)[OF assms(3)] s by (auto simp: header_segments_def trimmed_def edi_clean_def edi_text_def)
  show "map (split_on (CHR ''+'')) (header_segments msg) =
      [[''UNB'', ''UNOA:2'', em_sender_id msg, em_receiver_id msg], [''UNH'', ''1'', em_msg_type msg @ '':D:2.1:UN:EDIFACT'']]"
    using assms(1,2) split_clean[OF edi_type_clean(1)[OF assms(3)]]
    by (simp add: header_segments_def edi_text_def split_plus split_clean)
qed

lemma payload_parts:
  assumes "\<forall>(k, v)\<in>set payload. k \<noteq> ''segments'' \<longrightarrow> edi_text k \<and> edi_text (py_str_of py_repr v)"
  shows "\<forall>s\<in>set (payload_segments py_repr payload). trimmed s \<and> quote_char \<notin> set s"
    "map (split_on (CHR ''+'')) (payload_segments py_repr payload) =
       map (\<lambda>(k, v). [k, py_str_of py_repr v]) (filter (\<lambda>(k, v). k \<noteq> ''segments'') payload)"
proof -
  have p: "trimmed (k @ ''+'' @ py_str_of py_repr v) \<and> quote_char \<notin> set (k @ ''+'' @ py_str_of py_repr v) \<and>
      split_on (CHR ''+'') (k @ ''+'' @ py_str_of py_repr v) = [k, py_str_of py_repr v]"
    if "(k, v) \<in> set payload" "k \<noteq> ''segments''" for k v
  proof -
    from assms that have "edi_text k" "edi_text (py_str_of py_repr v)" by blast+
    then show ?thesis using trimmed_joined[of k "py_str_of py_repr v" "CHR ''+''"]
      by (simp add: edi_text_def split_plus split_clean) (simp add: edi_clean_def)
  qed
  show "\<forall>s\<in>set (payload_segments py_repr payload). trimmed s \<and> quote_char \<notin> set s"
    using p by (auto simp: payload_segments_def)
  show "map (split_on (CHR ''+'')) (payload_segments py_repr payload) =
      map (\<lambda>(k, v). [k, py_str_of py_repr v]) (filter (\<lambda>(k, v). k \<noteq> ''segments'') payload)"
    using p by (auto simp: payload_segments_def)
qed

text \<open>Segments that are no message header keep the type.\<close>

lemma type_kept: "\<forall>p\<in>set ps. hd p \<noteq> ''UNH'' \<Longrightarrow> fold (\<lambda>p t. segment_type t p) ps t = t"
  by (induction ps) (simp_all add: segment_type_def)

text \<open>
  C26: A message whose sender, receiver and payload are texts without quote and plus sign, with no
  space at the ends of keys, values and receiver, and that has no key UNH, is read back from its
  EDIFACT text with its type and one segment for each of its pairs, in order.
\<close>

theorem edifact_round_trip:
  assumes "edi_clean (em_sender_id msg)" "edi_text (em_receiver_id msg)" "em_msg_type msg \<in> set message_types"
    and "\<forall>(k, v)\<in>set (em_payload msg). k \<noteq> ''segments'' \<longrightarrow> edi_text k \<and> edi_text (py_str_of py_repr v) \<and> k \<noteq> ''UNH''"
  shows "em_msg_type (edi_parse env p (edi_serialize py_repr msg)) = em_msg_type msg \<and>
    em_payload (edi_parse env p (edi_serialize py_repr msg)) =
      [(''segments'', JList (map segment_json (message_parts py_repr msg)))]"
proof -
  let ?ss = "header_segments msg @ payload_segments py_repr (em_payload msg) @ [''UNT+2+1'', ''UNZ+1+1'']"
  have pl: "\<forall>(k, v)\<in>set (em_payload msg). k \<noteq> ''segments'' \<longrightarrow> edi_text k \<and> edi_text (py_str_of py_repr v)"
    using assms(4) by blast
  have "\<forall>s\<in>set ?ss. trimmed s \<and> quote_char \<notin> set s"
    using header_parts(1)[OF assms(1-3)] payload_parts(1)[OF pl] trailer_parts unfolding set_append ball_Un by simp
  then have seg: "edi_segments (edi_serialize py_repr msg) = ?ss"
    unfolding edi_serialize_segments by (intro edi_segments_joined) simp_all
  have parts: "map (split_on (CHR ''+'')) ?ss = message_parts py_repr msg"
    unfolding map_append header_parts(2)[OF assms(1-3)] payload_parts(2)[OF pl] message_parts_def
    by (simp only: list.map trailer_parts)
  have "\<forall>q\<in>set (map (\<lambda>(k, v). [k, py_str_of py_repr v]) (filter (\<lambda>(k, v). k \<noteq> ''segments'') (em_payload msg))). hd q \<noteq> ''UNH''"
    using assms(4) by auto
  note kept = type_kept[OF this]
  have "fold (\<lambda>p t. segment_type t p) (message_parts py_repr msg) ''ORDERS'' = em_msg_type msg"
    unfolding message_parts_def fold_append comp_apply kept
    by (simp add: segment_type_def edi_type_clean[OF assms(3)] kept[unfolded segment_type_def])
  then show ?thesis unfolding edi_parse_def Let_def seg parts by simp
qed

definition edi_order :: erp_message where
  "edi_order = \<lparr>em_msg_type = ''INVOIC'', em_sender_id = ''WMS'', em_receiver_id = ''ERP'', em_created_at = 0,
     em_payload = [(''order_id'', JStr ''ORD 7'')]\<rparr>"

definition no_repr :: "json \<Rightarrow> string" where
  "no_repr j = []"

theorem edifact_round_trip_witness:
  "em_msg_type (edi_parse env0 None (edi_serialize no_repr edi_order)) = ''INVOIC''"
proof -
  have t: "edi_clean ''WMS''" "edi_text ''ERP''" "''INVOIC'' \<in> set message_types" "edi_text ''order_id''" "edi_text ''ORD 7''"
    by code_simp+
  from edifact_round_trip[of edi_order no_repr env0 None] t show ?thesis by (simp add: edi_order_def py_str_of_def)
qed

text \<open>A value with a quote is written as it is, so it ends its segment.\<close>

lemma join_quoted: "join_with [c] (xs @ (a @ c # b) # ys) = join_with [c] (xs @ a # b # ys)"
proof (induction xs)
  case Nil
  show ?case by (cases ys) simp_all
next
  case (Cons x xs)
  then show ?case by (cases xs) simp_all
qed

text \<open>
  A value is written without escaping its quotes, so whoever chooses a value can add segments to the
  message, and a message header among them changes the type with which the message is read.
\<close>

theorem quoted_value_changes_the_type:
  assumes "edi_clean (em_sender_id msg)" "edi_text (em_receiver_id msg)" "em_msg_type msg \<in> set message_types"
    and "em_payload msg = [(k, JStr (a @ [quote_char] @ ''UNH+1+'' @ t))]" "edi_text k" "edi_text a" "k \<noteq> ''UNH''" "k \<noteq> ''segments''"
    and "t \<in> set message_types"
  shows "em_msg_type (edi_parse env p (edi_serialize py_repr msg)) = t"
proof -
  let ?ss = "header_segments msg @ (k @ ''+'' @ a) # (''UNH+1+'' @ t) # [''UNT+2+1'', ''UNZ+1+1'']"
  have "payload_segments py_repr (em_payload msg) = [(k @ ''+'' @ a) @ quote_char # (''UNH+1+'' @ t)]"
    using assms(8) by (simp add: payload_segments_def assms(4) py_str_of_def)
  then have ser: "edi_serialize py_repr msg = join_with [quote_char] ?ss @ [quote_char]"
    unfolding edi_serialize_segments using join_quoted[of quote_char "header_segments msg" "k @ ''+'' @ a" "''UNH+1+'' @ t"] by simp
  have t: "trimmed (''UNH+1+'' @ t)" "quote_char \<notin> set (''UNH+1+'' @ t)" "split_on (CHR ''+'') (''UNH+1+'' @ t) = [''UNH'', ''1'', t]"
    using assms(9) unfolding message_types_def list.set insert_iff empty_iff by (elim disjE; hypsubst?; (code_simp | simp))+
  have ka: "trimmed (k @ ''+'' @ a)" "quote_char \<notin> set (k @ ''+'' @ a)" "split_on (CHR ''+'') (k @ ''+'' @ a) = [k, a]"
    using assms(5,6) trimmed_joined[of k a "CHR ''+''"] by (simp_all add: edi_text_def split_plus split_clean) (simp add: edi_clean_def)
  have "\<forall>s\<in>set ?ss. trimmed s \<and> quote_char \<notin> set s"
    using header_parts(1)[OF assms(1-3)] trailer_parts t ka unfolding set_append ball_Un by simp
  then have seg: "edi_segments (edi_serialize py_repr msg) = ?ss" unfolding ser by (intro edi_segments_joined) simp_all
  show ?thesis
    unfolding edi_parse_def Let_def seg map_append header_parts(2)[OF assms(1-3)] list.map t ka trailer_parts
    using assms(7) by (simp add: segment_type_def edi_type_clean[OF assms(9)])
qed

theorem quoted_value_changes_the_type_witness:
  "em_msg_type (edi_parse env0 None (edi_serialize no_repr
     (edi_order\<lparr>em_msg_type := ''ORDERS'', em_payload := [(''note'', JStr (''x'' @ [quote_char] @ ''UNH+1+INVOIC''))]\<rparr>))) = ''INVOIC''"
proof -
  have t: "edi_clean ''WMS''" "edi_text ''ERP''" "''ORDERS'' \<in> set message_types" "''INVOIC'' \<in> set message_types"
    "edi_text ''note''" "edi_text ''x''" by code_simp+
  from quoted_value_changes_the_type[of "edi_order\<lparr>em_msg_type := ''ORDERS'', em_payload := [(''note'', JStr (''x'' @ [quote_char] @ ''UNH+1+INVOIC''))]\<rparr>"
      "''note''" "''x''" "''INVOIC''" env0 None no_repr] t
  show ?thesis by (simp add: edi_order_def)
qed

section \<open>IDOC documents\<close>

text \<open>
  Every document of an IDOC text gives one message with at most one segment in its payload: the last
  one, because the segments are stored under their common tag.
\<close>

theorem idoc_keeps_the_last_segment:
  assumes "iter_tag ''IDOC'' doc \<noteq> []"
  shows "map em_payload (parse_idoc env sender raw doc) =
    map (\<lambda>i. if iter_tag ''segment'' i = [] then []
             else [(''segment'', JObj (segment_data (last (iter_tag ''segment'' i))))]) (iter_tag ''IDOC'' doc)"
  using assms by (simp add: parse_idoc_def Let_def idoc_payload_last comp_def)

definition idoc0 :: xml where
  "idoc0 = Element ''IDOC'' None
     [Element ''DOCTYPE'' (Some ''DESADV'') [], Element ''segment'' None [Element ''MATNR'' (Some ''A'') []],
      Element ''segment'' None [Element ''MATNR'' (Some ''B'') []]]"

theorem idoc_keeps_the_last_segment_witness:
  "map em_payload (parse_idoc env0 ''WMS001'' [] idoc0) = [[(''segment'', JObj [(''MATNR'', JStr ''B'')])]]"
proof -
  have i: "iter_tag ''IDOC'' idoc0 = [idoc0]" by code_simp
  have s: "iter_tag ''segment'' idoc0 = [Element ''segment'' None [Element ''MATNR'' (Some ''A'') []],
      Element ''segment'' None [Element ''MATNR'' (Some ''B'') []]]" by code_simp
  from idoc_keeps_the_last_segment[of idoc0 env0 "''WMS001''" "[]"] show ?thesis
    by (simp add: i s segment_data_def text_of_def get_default_def)
qed

section \<open>Acknowledgements\<close>

text \<open>
  C27: An acknowledgement of an order that is not confirmed makes it confirmed without a log,
  whatever its status is, finished and cancelled orders included; afterwards the status log of the
  order does not end in its status any more.
\<close>

theorem acknowledgement_breaks_the_history:
  assumes "history_ok d" "x \<in> set (orders d)" "ord_status x \<noteq> OrderStatus_CONFIRMED"
    and "dict_get ''order_id'' JNull (em_payload ack) = JStr s" "s \<noteq> []" "bind_key s = Some (pk x)"
  shows "\<exists>d'. handle_ack env bind_key ack d = Inr d' \<and> transitions d' = transitions d \<and> \<not> history_ok d' \<and>
    x\<lparr>ord_status := OrderStatus_CONFIRMED, updated_at := now env\<rparr> \<in> set (orders d')"
proof -
  let ?d = "confirm_acked env (pk x) d"
  have tr: "transitions ?d = transitions d" by (simp add: confirm_acked_def transitions_def fun_eq_iff)
  have row: "x\<lparr>ord_status := OrderStatus_CONFIRMED, updated_at := now env\<rparr> \<in> set (orders ?d)"
    using assms(2,3) by (force simp: confirm_acked_def set_update_where)
  have "\<not> history_ok ?d"
  proof
    assume "history_ok ?d"
    with row have "''confirmed'' = last (''draft'' # transitions ?d (pk x))" by (fastforce simp: history_ok_def)
    moreover have "status_reverse (ord_status x) = last (''draft'' # transitions d (pk x))"
      using assms(1,2) by (simp add: history_ok_def)
    ultimately have "status_reverse (ord_status x) = ''confirmed''" by (simp add: tr)
    with assms(3) show False by (cases "ord_status x") auto
  qed
  with tr row show ?thesis using assms(4-6) by (simp add: handle_ack_def Let_def json_falsy_def)
qed

theorem acknowledgement_breaks_the_history_witness:
  "\<exists>d v d'. create_order env0 order_data empty_db = Inr (d, v) \<and> history_ok d \<and>
     handle_ack env0 (\<lambda>s. Some (pk (hd (orders d)))) (edi_order\<lparr>em_payload := [(''order_id'', JStr ''7'')]\<rparr>) d = Inr d' \<and>
     \<not> history_ok d'"
proof -
  obtain d v where c: "create_order env0 order_data empty_db = Inr (d, v)" "drawn d = 7" by (rule sample_order)
  have "oms_step (uuid4 env0) 100 empty_db d" by (rule step_create[OF c(1) refl]) (simp add: c)
  then have "oms_reachable (uuid4 env0) 100 empty_db d" using reach_step reach_refl by blast
  then have h: "history_ok d" using oms_reachable_inv[OF _ sample_oms_inv refl] by (simp add: oms_inv_def)
  have "orders d \<noteq> [] \<and> ord_status (hd (orders d)) = OrderStatus_PENDING" using c(1) by (auto simp: sample_eval)
  then have x: "hd (orders d) \<in> set (orders d)" "ord_status (hd (orders d)) \<noteq> OrderStatus_CONFIRMED" by simp_all
  have i: "dict_get ''order_id'' JNull (em_payload (edi_order\<lparr>em_payload := [(''order_id'', JStr ''7'')]\<rparr>)) = JStr ''7''"
    by (simp add: dict_get_def get_default_def)
  from acknowledgement_breaks_the_history[OF h x i, of "\<lambda>s. Some (pk (hd (orders d)))" env0] c(1) h show ?thesis by auto
qed

section \<open>Reports\<close>

text \<open>
  The trend counts every order of the last days exactly once, on days in ascending order, and the status
  distribution counts every order once.
\<close>

theorem reports_count_each_order_once:
  "sum_list (map snd (get_order_trends env date days d)) = row_count (\<lambda>x. now env - days * day_length \<le> created_at x) (orders d) \<and>
   sorted_wrt (<) (map fst (get_order_trends env date days d)) \<and>
   sum_list (map snd (get_status_distribution d)) = length (orders d)"
  by (simp add: trends_total trends_days distribution_total)

end
