(* ===== verification/Routes.thy ===== *)
theory Routes
  imports Tokens Catalog
begin

text \<open>
  What the HTTP routes of \<open>src/auth/router.py\<close>, \<open>src/oms/router.py\<close>, \<open>src/wms/router.py\<close> and
  \<open>src/tms/router.py\<close> share: the handlers that turn an error of a service into an answer, the token
  that a route asks for and the bounds of the query parameters.
\<close>

section \<open>Errors of the routes\<close>

text \<open>The handlers \<open>except ... as e: raise HTTPException(code, str(e))\<close>.\<close>

definition caught :: "(exn \<Rightarrow> nat option) \<Rightarrow> 'a result \<Rightarrow> 'a result" where
  "caught handler x =
     (case x of
        Inl e \<Rightarrow> Inl (case handler e of None \<Rightarrow> e | Some c \<Rightarrow> HTTPException c (app_exception_str e))
      | Inr v \<Rightarrow> Inr v)"

fun as_404 :: "exn \<Rightarrow> nat option" where
  "as_404 (NotFoundException m) = Some 404"
| "as_404 _ = None"

fun as_422 :: "exn \<Rightarrow> nat option" where
  "as_422 (ValidationException m f) = Some 422"
| "as_422 _ = None"

fun as_400 :: "exn \<Rightarrow> nat option" where
  "as_400 (ValidationException m f) = Some 400"
| "as_400 _ = None"

fun as_404_422 :: "exn \<Rightarrow> nat option" where
  "as_404_422 (NotFoundException m) = Some 404"
| "as_404_422 (ValidationException m f) = Some 422"
| "as_404_422 _ = None"

text \<open>The forms of the administration: \<open>except (ValueError, KeyError, SQLAlchemyError, ...)\<close>.\<close>

fun form_error :: "exn \<Rightarrow> bool" where
  "form_error ValueError = True"
| "form_error (KeyError k) = True"
| "form_error IntegrityError = True"
| "form_error DataError = True"
| "form_error MultipleResultsFound = True"
| "form_error MissingGreenlet = True"
| "form_error InvalidRequestError = True"
| "form_error PendingRollbackError = True"
| "form_error _ = False"

definition form_result :: "(exn \<Rightarrow> bool) \<Rightarrow> nat \<Rightarrow> string \<Rightarrow> 'a result \<Rightarrow> 'a result" where
  "form_result handled status detail x =
     (case x of Inl e \<Rightarrow> Inl (if handled e then HTTPException status detail else e) | Inr v \<Rightarrow> Inr v)"

section \<open>Parameters\<close>

text \<open>A body or query that its schema refuses is answered before the route runs.\<close>

definition checked :: "bool \<Rightarrow> 'a result \<Rightarrow> 'a result" where
  "checked ok x = (if ok then x else Inl (HTTPException 422 ''Unprocessable Entity''))"

definition page_ok :: "int \<Rightarrow> int \<Rightarrow> bool" where
  "page_ok page page_size \<longleftrightarrow> 1 \<le> page \<and> 1 \<le> page_size \<and> page_size \<le> 100"

section \<open>Tokens\<close>

text \<open>\<open>current_user: dict = Depends(get_current_user)\<close>; the token is checked before the body.\<close>

definition authenticated :: "jwt_lib \<Rightarrow> env \<Rightarrow> string option \<Rightarrow> (claims \<Rightarrow> 'a result) \<Rightarrow> 'a result" where
  "authenticated jwt env credentials route = bindE (get_current_user jwt (now env) credentials) route"

lemma caught_Inr [simp]: "caught h x = Inr v \<longleftrightarrow> x = Inr v"
  by (auto simp: caught_def split: sum.splits)

lemma form_result_Inr [simp]: "form_result h c m x = Inr v \<longleftrightarrow> x = Inr v"
  by (auto simp: form_result_def split: sum.splits)

lemma authenticated_Inr [simp]:
  "authenticated jwt env cr route = Inr v \<longleftrightarrow> (\<exists>c. get_current_user jwt (now env) cr = Inr c \<and> route c = Inr v)"
  by (auto simp: authenticated_def bindE_def split: sum.splits)

lemma checked_Inr [simp]: "checked ok x = Inr v \<longleftrightarrow> ok \<and> x = Inr v"
  by (simp add: checked_def)

end
