(* ===== verification/Account_Routes.thy ===== *)
theory Account_Routes
  imports Auth Routes Rate_Limit
begin

text \<open>
  The routes of \<open>src/auth/router.py\<close> and the account forms of \<open>src/admin/router.py\<close>: the composition of
  the accounts, the tokens and the rate limiter. A route that raises rolls the tables back, while the
  token store and the limiter keep what they were told. The field \<open>as_db\<close> holds the tables.
\<close>

section \<open>State\<close>

record ('r, 'z) account_lib =
  al_jwt :: jwt_lib
  al_redis :: "'r redis_ops"
  al_sha :: "string \<Rightarrow> string"
  al_zset :: "'z zset_ops"
  al_limits :: limits
  al_connected :: bool
  al_hashpw :: "string \<Rightarrow> string result"
  al_checkpw :: "string \<Rightarrow> string \<Rightarrow> bool result"

record ('r, 'z) account_state =
  as_db :: auth_db
  as_store :: "'r token_store"
  as_buckets :: 'z

record user_view =
  uv_id :: string
  uv_username :: string
  uv_email :: string
  uv_is_active :: bool

definition user_response :: "user \<Rightarrow> user_view" where
  "user_response u = \<lparr>uv_id = show_uuid (pk u), uv_username = us_username u, uv_email = us_email u, uv_is_active = us_is_active u\<rparr>"

text \<open>The schema of a registration; the pattern of the mail address is \<open>^[^@]+@[^@]+\.[^@]+$\<close>.\<close>

definition email_ok :: "string \<Rightarrow> bool" where
  "email_ok s =
     (let a = takeWhile (\<lambda>c. c \<noteq> CHR ''@'') s; b = tl (dropWhile (\<lambda>c. c \<noteq> CHR ''@'') s)
      in a \<noteq> [] \<and> CHR ''@'' \<in> set s \<and> CHR ''@'' \<notin> set b \<and> CHR ''.'' \<in> set (butlast (tl b)))"

definition user_create_ok :: "user_create \<Rightarrow> bool" where
  "user_create_ok data \<longleftrightarrow> 3 \<le> length (uq_username data) \<and> length (uq_username data) \<le> 100 \<and>
     length (uq_email data) \<le> 255 \<and> email_ok (uq_email data) \<and> 6 \<le> length (uq_password data) \<and> length (uq_password data) \<le> 128"

section \<open>Sessions\<close>

definition register_route ::
  "('r, 'z) account_lib \<Rightarrow> env \<Rightarrow> string option \<Rightarrow> string \<Rightarrow> user_create \<Rightarrow> ('r, 'z) account_state \<Rightarrow>
   ('r, 'z) account_state \<times> user_view result" where
  "register_route lib env client member data s =
     (if \<not> user_create_ok data then (s, Inl (HTTPException 422 ''Unprocessable Entity''))
      else
        case rate_limited (al_zset lib) (al_limits lib) (al_connected lib) (Some 3) (Some 3600) client (now env) member
               (\<lambda>d. caught as_400 (register_user env (al_hashpw lib) data d)) (as_buckets s) (as_db s) of
          (b, Inl e) \<Rightarrow> (s\<lparr>as_buckets := b\<rparr>, Inl e)
        | (b, Inr (d, u)) \<Rightarrow> (s\<lparr>as_db := d, as_buckets := b\<rparr>, Inr (user_response u)))"

definition login ::
  "('r, 'z) account_lib \<Rightarrow> env \<Rightarrow> string \<Rightarrow> string \<Rightarrow> auth_db \<times> 'r token_store \<Rightarrow> ((auth_db \<times> 'r token_store) \<times> token_pair) result" where
  "login lib env username password p =
     (case p of (d, st) \<Rightarrow>
        bindE (authenticate_user (al_checkpw lib) username password d) (\<lambda>found.
        case found of
          None \<Rightarrow> Inl (HTTPException 401 ''Invalid username or password'')
        | Some u \<Rightarrow>
            (let (st', tokens) = create_tokens (al_jwt lib) (al_redis lib) (al_sha lib) (now env) (us_username u) (show_uuid (pk u)) st
             in Inr ((d, st'), tokens))))"

definition login_route ::
  "('r, 'z) account_lib \<Rightarrow> env \<Rightarrow> string option \<Rightarrow> string \<Rightarrow> string \<Rightarrow> string \<Rightarrow> ('r, 'z) account_state \<Rightarrow>
   ('r, 'z) account_state \<times> token_pair result" where
  "login_route lib env client member username password s =
     (case rate_limited (al_zset lib) (al_limits lib) (al_connected lib) (Some 5) (Some 60) client (now env) member
             (login lib env username password) (as_buckets s) (as_db s, as_store s) of
        (b, Inl e) \<Rightarrow> (s\<lparr>as_buckets := b\<rparr>, Inl e)
      | (b, Inr ((d, st), tokens)) \<Rightarrow> (s\<lparr>as_db := d, as_store := st, as_buckets := b\<rparr>, Inr tokens))"

definition refresh_route ::
  "('r, 'z) account_lib \<Rightarrow> env \<Rightarrow> string \<Rightarrow> ('r, 'z) account_state \<Rightarrow> ('r, 'z) account_state \<times> token_pair result" where
  "refresh_route lib env refresh_token s =
     (case refresh_tokens (al_jwt lib) (al_redis lib) (al_sha lib) (now env) refresh_token (as_store s) of
        (st, None) \<Rightarrow> (s\<lparr>as_store := st\<rparr>, Inl (HTTPException 401 ''Invalid refresh token''))
      | (st, Some tokens) \<Rightarrow> (s\<lparr>as_store := st\<rparr>, Inr tokens))"

definition logout_route :: "('r, 'z) account_lib \<Rightarrow> string \<Rightarrow> ('r, 'z) account_state \<Rightarrow> ('r, 'z) account_state" where
  "logout_route lib refresh_token s = s\<lparr>as_store := revoke_refresh_token (al_redis lib) (al_sha lib) refresh_token (as_store s)\<rparr>"

section \<open>Routes that need a token\<close>

definition get_me :: "jwt_lib \<Rightarrow> env \<Rightarrow> string option \<Rightarrow> 'a auth_db_scheme \<Rightarrow> user_view result" where
  "get_me jwt env credentials d =
     authenticated jwt env credentials (\<lambda>c.
     bindE (get_user_by_username (get_default [] (cl_sub c)) d) (\<lambda>found.
     case found of None \<Rightarrow> Inl (HTTPException 404 ''User not found'') | Some u \<Rightarrow> Inr (user_response u)))"

definition list_users_route :: "jwt_lib \<Rightarrow> env \<Rightarrow> string option \<Rightarrow> 'a auth_db_scheme \<Rightarrow> user_view list result" where
  "list_users_route jwt env credentials d = authenticated jwt env credentials (\<lambda>_. Inr (map user_response (list_users d)))"

definition create_role_route :: "jwt_lib \<Rightarrow> env \<Rightarrow> string option \<Rightarrow> role_create \<Rightarrow> 'a auth_db_scheme \<Rightarrow> ('a auth_db_scheme \<times> role) result" where
  "create_role_route jwt env credentials data d =
     authenticated jwt env credentials (\<lambda>_.
     checked (length (kq_name data) \<le> 100 \<and> length (kq_code data) \<le> 50) (caught as_422 (create_role env data d)))"

definition list_roles_route :: "jwt_lib \<Rightarrow> env \<Rightarrow> string option \<Rightarrow> 'a auth_db_scheme \<Rightarrow> role list result" where
  "list_roles_route jwt env credentials d = authenticated jwt env credentials (\<lambda>_. Inr (list_roles d))"

definition list_permissions_route :: "jwt_lib \<Rightarrow> env \<Rightarrow> string option \<Rightarrow> 'a auth_db_scheme \<Rightarrow> permission list result" where
  "list_permissions_route jwt env credentials d = authenticated jwt env credentials (\<lambda>_. Inr (list_permissions d))"

definition update_role_route ::
  "jwt_lib \<Rightarrow> env \<Rightarrow> string option \<Rightarrow> string \<Rightarrow> role_update \<Rightarrow> 'a auth_db_scheme \<Rightarrow> ('a auth_db_scheme \<times> role) result" where
  "update_role_route jwt env credentials role_id data d =
     authenticated jwt env credentials (\<lambda>_. caught as_404 (update_role env role_id data d))"

definition delete_role_route ::
  "jwt_lib \<Rightarrow> env \<Rightarrow> string option \<Rightarrow> string \<Rightarrow> 'a auth_db_scheme \<Rightarrow> ('a auth_db_scheme \<times> unit) result" where
  "delete_role_route jwt env credentials role_id d =
     authenticated jwt env credentials (\<lambda>_. caught as_404_422 (delete_role role_id d))"

definition create_permission_route ::
  "jwt_lib \<Rightarrow> env \<Rightarrow> string option \<Rightarrow> permission_create \<Rightarrow> 'a auth_db_scheme \<Rightarrow> ('a auth_db_scheme \<times> permission) result" where
  "create_permission_route jwt env credentials data d =
     authenticated jwt env credentials (\<lambda>_. caught as_422 (create_permission env data d))"

text \<open>\<open>data["role_id"]\<close> raises a \<open>KeyError\<close> without the key, which no handler names.\<close>

definition assign_role_route ::
  "jwt_lib \<Rightarrow> env \<Rightarrow> string option \<Rightarrow> string \<Rightarrow> string option \<Rightarrow> 'a auth_db_scheme \<Rightarrow> ('a auth_db_scheme \<times> string \<times> string) result" where
  "assign_role_route jwt env credentials user_id role_id d =
     authenticated jwt env credentials (\<lambda>_.
     caught as_404_422 (bindE (of_option (KeyError ''role_id'') role_id) (\<lambda>r. assign_role_to_user user_id r d)))"

definition remove_role_route ::
  "jwt_lib \<Rightarrow> env \<Rightarrow> string option \<Rightarrow> string \<Rightarrow> string \<Rightarrow> 'a auth_db_scheme \<Rightarrow> ('a auth_db_scheme \<times> unit) result" where
  "remove_role_route jwt env credentials user_id role_id d =
     authenticated jwt env credentials (\<lambda>_. caught as_404 (remove_role_from_user user_id role_id d))"

definition assign_permission_route ::
  "jwt_lib \<Rightarrow> env \<Rightarrow> string option \<Rightarrow> string \<Rightarrow> string option \<Rightarrow> 'a auth_db_scheme \<Rightarrow> ('a auth_db_scheme \<times> string \<times> string) result" where
  "assign_permission_route jwt env credentials role_id permission_id d =
     authenticated jwt env credentials (\<lambda>_.
     caught as_404_422 (bindE (of_option (KeyError ''permission_id'') permission_id) (\<lambda>p. assign_permission_to_role role_id p d)))"

definition remove_permission_route ::
  "jwt_lib \<Rightarrow> env \<Rightarrow> string option \<Rightarrow> string \<Rightarrow> string \<Rightarrow> 'a auth_db_scheme \<Rightarrow> ('a auth_db_scheme \<times> unit) result" where
  "remove_permission_route jwt env credentials role_id perm_id d =
     authenticated jwt env credentials (\<lambda>_. caught as_404 (remove_permission_from_role role_id perm_id d))"

definition toggle_route ::
  "jwt_lib \<Rightarrow> env \<Rightarrow> string option \<Rightarrow> string \<Rightarrow> 'a auth_db_scheme \<Rightarrow> ('a auth_db_scheme \<times> bool) result" where
  "toggle_route jwt env credentials user_id d = authenticated jwt env credentials (\<lambda>_. toggle_user_active env user_id d)"

section \<open>Forms of the administration\<close>

text \<open>A form may leave a field out; a missing mail address is a null in a column that may not be null.\<close>

definition admin_create_user ::
  "jwt_lib \<Rightarrow> env \<Rightarrow> (string \<Rightarrow> string result) \<Rightarrow> string option \<Rightarrow> string option \<Rightarrow> string option \<Rightarrow> string option \<Rightarrow>
   'a auth_db_scheme \<Rightarrow> 'a auth_db_scheme result" where
  "admin_create_user jwt env hashpw credentials username email password d =
     authenticated jwt env credentials (\<lambda>_.
     bindE (raise_if (\<not> truthy username \<or> \<not> truthy password) (HTTPException 400 ''Username and password are required'')) (\<lambda>_.
     form_result (\<lambda>e. form_error e \<or> is_validation e) 400 ''Failed to create user''
       (case email of
          None \<Rightarrow>
            bindE (find_one (\<lambda>u. us_username u = the username) (users d)) (\<lambda>existing.
            bindE (raise_if (existing \<noteq> None) (validation ''Username or email already exists'')) (\<lambda>_.
            bindE (hashpw (the password)) (\<lambda>_. Inl IntegrityError)))
        | Some m \<Rightarrow>
            bindE (register_user env hashpw \<lparr>uq_username = the username, uq_email = m, uq_password = the password\<rparr> d)
              (\<lambda>(d', u). Inr d'))))"

definition admin_toggle_user :: "jwt_lib \<Rightarrow> env \<Rightarrow> string option \<Rightarrow> string \<Rightarrow> 'a auth_db_scheme \<Rightarrow> 'a auth_db_scheme result" where
  "admin_toggle_user jwt env credentials user_id d =
     authenticated jwt env credentials (\<lambda>_. bindE (toggle_user_active env user_id d) (\<lambda>(d', a). Inr d'))"

definition admin_delete_user :: "jwt_lib \<Rightarrow> env \<Rightarrow> uuid list \<Rightarrow> string option \<Rightarrow> string \<Rightarrow> 'a auth_db_scheme \<Rightarrow> 'a auth_db_scheme result" where
  "admin_delete_user jwt env operators credentials user_id d =
     authenticated jwt env credentials (\<lambda>_. delete_user operators user_id d)"

section \<open>Serving requests\<close>

text \<open>The requests that reach these routes, with the token they carry.\<close>

datatype account_request =
    Register "string option" string user_create
  | Login "string option" string string string
  | Refresh string
  | Logout string
  | Me "string option"
  | Users "string option"
  | NewRole "string option" role_create
  | Roles "string option"
  | Permissions "string option"
  | ChangeRole "string option" string role_update
  | DropRole "string option" string
  | NewPermission "string option" permission_create
  | GiveRole "string option" string "string option"
  | TakeRole "string option" string string
  | GivePermission "string option" string "string option"
  | TakePermission "string option" string string
  | Toggle "string option" string
  | AdminCreate "string option" "string option" "string option" "string option"
  | AdminToggle "string option" string
  | AdminDelete "uuid list" "string option" string

fun request_token :: "account_request \<Rightarrow> string option" where
  "request_token (Register client member data) = None"
| "request_token (Login client member username password) = None"
| "request_token (Refresh token) = None"
| "request_token (Logout token) = None"
| "request_token (Me cr) = cr"
| "request_token (Users cr) = cr"
| "request_token (NewRole cr data) = cr"
| "request_token (Roles cr) = cr"
| "request_token (Permissions cr) = cr"
| "request_token (ChangeRole cr i data) = cr"
| "request_token (DropRole cr i) = cr"
| "request_token (NewPermission cr data) = cr"
| "request_token (GiveRole cr i j) = cr"
| "request_token (TakeRole cr i j) = cr"
| "request_token (GivePermission cr i j) = cr"
| "request_token (TakePermission cr i j) = cr"
| "request_token (Toggle cr i) = cr"
| "request_token (AdminCreate cr username email password) = cr"
| "request_token (AdminToggle cr i) = cr"
| "request_token (AdminDelete operators cr i) = cr"

definition read_only :: "('r, 'z) account_state \<Rightarrow> 'v result \<Rightarrow> ('r, 'z) account_state \<times> exn option" where
  "read_only s x = (s, case x of Inl e \<Rightarrow> Some e | Inr v \<Rightarrow> None)"

definition committed :: "('r, 'z) account_state \<Rightarrow> (auth_db \<times> 'v) result \<Rightarrow> ('r, 'z) account_state \<times> exn option" where
  "committed s x = (case x of Inl e \<Rightarrow> (s, Some e) | Inr (d, v) \<Rightarrow> (s\<lparr>as_db := d\<rparr>, None))"

definition answered :: "('r, 'z) account_state \<times> 'v result \<Rightarrow> ('r, 'z) account_state \<times> exn option" where
  "answered p = (fst p, case snd p of Inl e \<Rightarrow> Some e | Inr v \<Rightarrow> None)"

fun serve ::
  "('r, 'z) account_lib \<Rightarrow> env \<Rightarrow> account_request \<Rightarrow> ('r, 'z) account_state \<Rightarrow> ('r, 'z) account_state \<times> exn option" where
  "serve lib env (Register client member data) s = answered (register_route lib env client member data s)"
| "serve lib env (Login client member username password) s = answered (login_route lib env client member username password s)"
| "serve lib env (Refresh token) s = answered (refresh_route lib env token s)"
| "serve lib env (Logout token) s = (logout_route lib token s, None)"
| "serve lib env (Me cr) s = read_only s (get_me (al_jwt lib) env cr (as_db s))"
| "serve lib env (Users cr) s = read_only s (list_users_route (al_jwt lib) env cr (as_db s))"
| "serve lib env (NewRole cr data) s = committed s (create_role_route (al_jwt lib) env cr data (as_db s))"
| "serve lib env (Roles cr) s = read_only s (list_roles_route (al_jwt lib) env cr (as_db s))"
| "serve lib env (Permissions cr) s = read_only s (list_permissions_route (al_jwt lib) env cr (as_db s))"
| "serve lib env (ChangeRole cr i data) s = committed s (update_role_route (al_jwt lib) env cr i data (as_db s))"
| "serve lib env (DropRole cr i) s = committed s (delete_role_route (al_jwt lib) env cr i (as_db s))"
| "serve lib env (NewPermission cr data) s = committed s (create_permission_route (al_jwt lib) env cr data (as_db s))"
| "serve lib env (GiveRole cr i j) s = committed s (assign_role_route (al_jwt lib) env cr i j (as_db s))"
| "serve lib env (TakeRole cr i j) s = committed s (remove_role_route (al_jwt lib) env cr i j (as_db s))"
| "serve lib env (GivePermission cr i j) s = committed s (assign_permission_route (al_jwt lib) env cr i j (as_db s))"
| "serve lib env (TakePermission cr i j) s = committed s (remove_permission_route (al_jwt lib) env cr i j (as_db s))"
| "serve lib env (Toggle cr i) s = committed s (toggle_route (al_jwt lib) env cr i (as_db s))"
| "serve lib env (AdminCreate cr username email password) s =
     committed s (bindE (admin_create_user (al_jwt lib) env (al_hashpw lib) cr username email password (as_db s)) (\<lambda>d. Inr (d, ())))"
| "serve lib env (AdminToggle cr i) s =
     committed s (bindE (admin_toggle_user (al_jwt lib) env cr i (as_db s)) (\<lambda>d. Inr (d, ())))"
| "serve lib env (AdminDelete operators cr i) s =
     committed s (bindE (admin_delete_user (al_jwt lib) env operators cr i (as_db s)) (\<lambda>d. Inr (d, ())))"

fun serve_all :: "('r, 'z) account_lib \<Rightarrow> (env \<times> account_request) list \<Rightarrow> ('r, 'z) account_state \<Rightarrow> ('r, 'z) account_state" where
  "serve_all lib [] s = s"
| "serve_all lib ((env, r) # rs) s = serve_all lib rs (fst (serve lib env r s))"

section \<open>What a route may do to the tables\<close>

lemma committed_step:
  assumes "\<And>d' v. x = Inr (d', v) \<Longrightarrow> auth_step (as_db s) d'"
  shows "as_db (fst (committed s x)) = as_db s \<or> auth_step (as_db s) (as_db (fst (committed s x)))"
  using assms by (auto simp: committed_def split: sum.splits prod.splits)

lemma committed_token:
  assumes "\<And>d' v. x = Inr (d', v) \<Longrightarrow> P"
  shows "as_db (fst (committed s x)) = as_db s \<or> P"
  using assms by (auto simp: committed_def split: sum.splits prod.splits)

section \<open>What a login answers\<close>

definition issued :: "('r, 'z) account_lib \<Rightarrow> env \<Rightarrow> user \<Rightarrow> 'r token_store \<Rightarrow> 'r token_store \<times> token_pair" where
  "issued lib env u st = create_tokens (al_jwt lib) (al_redis lib) (al_sha lib) (now env) (us_username u) (show_uuid (pk u)) st"

lemma login_Inr:
  "login lib env username password (d, st) = Inr ((d', st'), tokens) \<longleftrightarrow>
   (\<exists>u. authenticate_user (al_checkpw lib) username password d = Inr (Some u) \<and> d' = d \<and>
      st' = fst (issued lib env u st) \<and> tokens = snd (issued lib env u st))"
  by (auto simp: login_def Let_def issued_def case_prod_beta split: option.splits)

lemma login_route_Inr:
  "login_route lib env client member username password s = (s', Inr tokens) \<Longrightarrow>
   \<exists>u b. authenticate_user (al_checkpw lib) username password (as_db s) = Inr (Some u) \<and>
     s' = s\<lparr>as_store := fst (issued lib env u (as_store s)), as_buckets := b\<rparr> \<and> tokens = snd (issued lib env u (as_store s))"
  unfolding login_route_def rate_limited_def Let_def
  by (auto simp: login_Inr split: prod.splits sum.splits if_splits)

lemma login_route_db: "as_db (fst (login_route lib env client member username password s)) = as_db s"
  unfolding login_route_def rate_limited_def Let_def by (auto simp: login_Inr split: prod.splits sum.splits if_splits)

lemma issued_access:
  "tp_access_token (snd (issued lib env u st)) = create_access_token (al_jwt lib) (now env) (Some (us_username u)) (Some (show_uuid (pk u)))"
  "tp_refresh_token (snd (issued lib env u st)) = create_refresh_token (al_jwt lib) (now env) (Some (us_username u)) (Some (show_uuid (pk u)))"
  by (simp_all add: issued_def create_tokens_def Let_def)

lemma access_token_accepted:
  assumes "jwt_contract jwt" "\<forall>c. jwt_encode jwt c \<noteq> []" "seconds t' \<le> seconds t + 3600"
  shows "get_current_user jwt t' (Some (create_access_token jwt t (Some sub) uid)) =
    Inr \<lparr>cl_sub = Some sub, cl_uid = uid, cl_exp = seconds t + 3600\<rparr>"
  using assms seconds_shift[of t 3600] by (simp add: get_current_user_def create_access_token_def decode_encoded truthy_def)

lemma access_token_expired:
  assumes "jwt_contract jwt" "\<forall>c. jwt_encode jwt c \<noteq> []" "seconds t + 3600 < seconds t'"
  shows "get_current_user jwt t' (Some (create_access_token jwt t (Some sub) uid)) = Inl (HTTPException 401 ''Invalid or expired token'')"
  using assms seconds_shift[of t 3600] by (simp add: get_current_user_def create_access_token_def decode_encoded truthy_def)

section \<open>A client that refreshes its session\<close>

text \<open>
  The refreshes of one session. Before each the store serves other operations, and the account tables
  are in whatever state they are in by then. A session is undisturbed while it is refreshed within the
  life of its token and the operations in between leave that token alone: nobody else uses or revokes
  it and the memory is not cleared.
\<close>

type_synonym refresh_step = "token_op list \<times> env \<times> auth_db"

fun session_run ::
  "('r, 'z) account_lib \<Rightarrow> (string \<Rightarrow> string) \<Rightarrow> refresh_step list \<Rightarrow> ('r, 'z) account_state \<Rightarrow> token_pair \<Rightarrow>
   ('r, 'z) account_state \<times> token_pair result" where
  "session_run lib utf8 [] s tokens = (s, Inr tokens)"
| "session_run lib utf8 ((ops, env, d) # xs) s tokens =
     (case refresh_route lib env (tp_refresh_token tokens)
             (s\<lparr>as_db := d, as_store := run_ops (al_redis lib) (al_sha lib) utf8 ops (as_store s)\<rparr>) of
        (s', Inl e) \<Rightarrow> (s', Inl e)
      | (s', Inr tokens') \<Rightarrow> session_run lib utf8 xs s' tokens')"

fun spares :: "string \<Rightarrow> string \<Rightarrow> token_op \<Rightarrow> bool" where
  "spares tok name (StoreToken t u) = (t = tok \<longrightarrow> u = name)"
| "spares tok name (PopToken t) = (t \<noteq> tok)"
| "spares tok name (RevokeToken t) = (t \<noteq> tok)"
| "spares tok name (LookupToken t) = True"
| "spares tok name CleanupTokens = False"

fun undisturbed :: "jwt_lib \<Rightarrow> string \<Rightarrow> string option \<Rightarrow> datetime \<Rightarrow> refresh_step list \<Rightarrow> bool" where
  "undisturbed jwt name uid t [] = True"
| "undisturbed jwt name uid t ((ops, env, d) # xs) =
     (seconds (now env) \<le> seconds t + 7 * 24 * 3600 \<and>
      (\<forall>x\<in>set ops. spares (create_refresh_token jwt t (Some name) uid) name x) \<and> undisturbed jwt name uid (now env) xs)"

definition last_refresh :: "datetime \<Rightarrow> refresh_step list \<Rightarrow> datetime" where
  "last_refresh t xs = last (t # map (\<lambda>(ops, env, d). now env) xs)"

definition session_pair :: "jwt_lib \<Rightarrow> datetime \<Rightarrow> string \<Rightarrow> string option \<Rightarrow> token_pair" where
  "session_pair jwt t name uid =
     \<lparr>tp_access_token = create_access_token jwt t (Some name) uid, tp_refresh_token = create_refresh_token jwt t (Some name) uid\<rparr>"

definition holds_session :: "jwt_lib \<Rightarrow> datetime \<Rightarrow> string \<Rightarrow> string option \<Rightarrow> 'r token_store \<Rightarrow> bool" where
  "holds_session jwt t name uid st \<longleftrightarrow>
     \<not> ts_redis_ok st \<and> map_of (ts_memory st) (create_refresh_token jwt t (Some name) uid) = Some name"

lemma issued_in_memory:
  assumes "\<not> ts_redis_ok st"
  shows "snd (issued lib env u st) = session_pair (al_jwt lib) (now env) (us_username u) (Some (show_uuid (pk u)))"
    "holds_session (al_jwt lib) (now env) (us_username u) (Some (show_uuid (pk u))) (fst (issued lib env u st))"
  using assms by (auto simp: issued_def create_tokens_def Let_def session_pair_def holds_session_def store_token_def update_conv')

lemma refresh_in_memory:
  assumes "jwt_contract (al_jwt lib)" "holds_session (al_jwt lib) t name uid (as_store s)" "name \<noteq> []"
    "seconds (now env) \<le> seconds t + 7 * 24 * 3600"
  obtains s' where "refresh_route lib env (create_refresh_token (al_jwt lib) t (Some name) uid) s =
      (s', Inr (session_pair (al_jwt lib) (now env) name uid))"
    "holds_session (al_jwt lib) (now env) name uid (as_store s')"
proof -
  have "truthy (Some name)" using assms(3) by (simp add: truthy_def)
  with assms that show thesis
    by (auto simp: refresh_route_def refresh_tokens_def decode_refresh_token pop_token_def pop_memory_def holds_session_def
        session_pair_def store_token_def update_conv' Let_def)
qed

lemma spared_op_keeps:
  assumes "spares tok name x" "\<not> ts_redis_ok st" "map_of (ts_memory st) tok = Some name"
  shows "\<not> ts_redis_ok (run_op ops sha utf8 x st)" "map_of (ts_memory (run_op ops sha utf8 x st)) tok = Some name"
  using assms by (cases x; simp add: store_token_def pop_token_def pop_memory_def revoke_token_def lookup_token_def
      update_conv' delete_conv' Let_def)+

lemma spared_ops_keep:
  assumes "\<forall>x\<in>set xs. spares tok name x" "\<not> ts_redis_ok st" "map_of (ts_memory st) tok = Some name"
  shows "\<not> ts_redis_ok (run_ops ops sha utf8 xs st) \<and> map_of (ts_memory (run_ops ops sha utf8 xs st)) tok = Some name"
  using assms
proof (induction xs arbitrary: st)
  case (Cons x xs)
  from Cons.prems have "spares tok name x" by simp
  note k = spared_op_keeps[OF this Cons.prems(2,3), of ops sha utf8]
  show ?case unfolding run_ops_Cons using Cons.prems(1) by (intro Cons.IH k) simp
qed (simp add: run_ops_def)

lemma session_run_in_memory:
  assumes "jwt_contract (al_jwt lib)" "name \<noteq> []"
  shows "holds_session (al_jwt lib) t name uid (as_store s) \<Longrightarrow> undisturbed (al_jwt lib) name uid t xs \<Longrightarrow>
    \<exists>s'. session_run lib utf8 xs s (session_pair (al_jwt lib) t name uid) =
      (s', Inr (session_pair (al_jwt lib) (last_refresh t xs) name uid))"
proof (induction xs arbitrary: s t)
  case (Cons x xs)
  obtain ops env d where x: "x = (ops, env, d)" by (cases x) auto
  let ?s = "s\<lparr>as_db := d, as_store := run_ops (al_redis lib) (al_sha lib) utf8 ops (as_store s)\<rparr>"
  from Cons.prems(2) x have u: "seconds (now env) \<le> seconds t + 7 * 24 * 3600"
    "\<forall>x\<in>set ops. spares (create_refresh_token (al_jwt lib) t (Some name) uid) name x"
    "undisturbed (al_jwt lib) name uid (now env) xs" by simp_all
  have "holds_session (al_jwt lib) t name uid (as_store ?s)"
    using spared_ops_keep[OF u(2), of "as_store s" "al_redis lib" "al_sha lib" utf8] Cons.prems(1) by (simp add: holds_session_def)
  from refresh_in_memory[OF assms(1) this assms(2) u(1)] obtain s' where s':
    "refresh_route lib env (create_refresh_token (al_jwt lib) t (Some name) uid) ?s =
       (s', Inr (session_pair (al_jwt lib) (now env) name uid))"
    "holds_session (al_jwt lib) (now env) name uid (as_store s')" by blast
  from Cons.IH[OF s'(2) u(3)] s'(1) show ?case by (simp add: x session_pair_def last_refresh_def)
qed (simp add: last_refresh_def)

section \<open>Taking a role\<close>

lemma authenticate_user_Some:
  "authenticate_user checkpw name password d = Inr (Some u) \<Longrightarrow>
   u \<in> set (users d) \<and> us_username u = name \<and> us_is_active u \<and> checkpw password (us_hashed_password u) = Inr True"
proof -
  assume a: "authenticate_user checkpw name password d = Inr (Some u)"
  then obtain v ok where v: "find_one (\<lambda>u. us_username u = name) (users d) = Inr (Some v)"
    "verify_password checkpw password (us_hashed_password v) = Inr ok" "ok" "us_is_active v" "v = u"
    unfolding authenticate_user_def by (auto split: option.splits if_splits)
  moreover from v(2,3) have "checkpw password (us_hashed_password v) = Inr True"
    by (auto simp: verify_password_def split: sum.splits if_splits)
  ultimately show ?thesis using find_one_SomeD(1,2)[OF v(1)] by simp
qed

lemma assign_role_to_user_succeeds:
  assumes "auth_keys d" "u \<in> set (users d)" "r \<in> set (roles d)" "(pk u, pk r) \<notin> set (user_role_links d)"
  shows "assign_role_to_user (show_uuid (pk u)) (show_uuid (pk r)) d =
    Inr (d\<lparr>user_roles := user_roles d @ [\<lparr>ur_user_id = pk u, ur_role_id = pk r\<rparr>]\<rparr>, show_uuid (pk u), show_uuid (pk r))"
proof -
  have "find_one (\<lambda>x. pk x = pk u) (users d) = Inr (Some u)" "find_one (\<lambda>x. pk x = pk r) (roles d) = Inr (Some r)"
    using assms(1-3) by (auto intro!: find_one_pk[of pk] simp: auth_keys_def)
  moreover have "find_one (\<lambda>l. ur_user_id l = pk u \<and> ur_role_id l = pk r) (user_roles d) = Inr None"
    "(pk u, pk r) \<notin> (\<lambda>l. (ur_user_id l, ur_role_id l)) ` set (user_roles d)"
    using assms(4) by (force simp: find_one_None user_role_links_def)+
  ultimately show ?thesis by (simp add: assign_role_to_user_def to_uuid_def insert_row_def)
qed

lemma permission_through_role:
  assumes "auth_keys d" "u \<in> set (users d)" "r \<in> set (roles d)" "(pk u, pk r) \<in> set (user_role_links d)"
    "p \<in> set (role_permission_list r d)"
  obtains perms where "get_user_permissions (us_username u) d = Inr perms" "pm_code p \<in> perms"
proof -
  have "find_one (\<lambda>x. us_username x = us_username u) (users d) = Inr (Some u)"
    using assms(1,2) by (auto intro!: find_one_pk[of us_username] simp: auth_keys_def)
  moreover have "r \<in> set (user_role_list u d)" using assms(3,4) by (force simp: user_role_list_def user_role_links_def)
  ultimately show thesis using assms(5) that by (fastforce simp: get_user_permissions_def)
qed

end
