(* ===== verification/Account_Properties.thy ===== *)
theory Account_Properties
  imports Account_Routes Support_Properties
begin

text \<open>
  Properties of the account routes: what a request can change, what a login answers and how long a
  session lasts. The witnesses run on a token library that keeps its claims in the token.
\<close>

section \<open>Requests and the account operations\<close>

text \<open>Every request is one step of the account operations or leaves the tables alone.\<close>

lemma answered_db [simp]: "fst (answered p) = fst p"
  by (simp add: answered_def)

lemma read_only_db [simp]: "fst (read_only s x) = s"
  by (simp add: read_only_def)

lemma register_route_db:
  "as_db (fst (register_route lib env client member data s)) = as_db s \<or>
   (\<exists>u. register_user env (al_hashpw lib) data (as_db s) = Inr (as_db (fst (register_route lib env client member data s)), u))"
proof (cases "user_create_ok data")
  case True
  obtain b x where r: "rate_limited (al_zset lib) (al_limits lib) (al_connected lib) (Some 3) (Some 3600) client (now env) member
      (\<lambda>d. caught as_400 (register_user env (al_hashpw lib) data d)) (as_buckets s) (as_db s) = (b, x)" by fastforce
  show ?thesis
  proof (cases x)
    case (Inr p)
    with r have "register_user env (al_hashpw lib) data (as_db s) = Inr p"
      by (auto simp: rate_limited_def split: prod.splits if_splits)
    with True r Inr show ?thesis by (cases p) (auto simp: register_route_def)
  qed (use True r in \<open>simp add: register_route_def\<close>)
qed (simp add: register_route_def)

lemma refresh_route_db [simp]: "as_db (fst (refresh_route lib env token s)) = as_db s"
  by (simp add: refresh_route_def split: prod.splits option.splits)

lemma admin_create_user_Inr:
  "admin_create_user jwt env hashpw cr username email password d = Inr d' \<Longrightarrow>
   (\<exists>c. get_current_user jwt (now env) cr = Inr c) \<and> (\<exists>data u. register_user env hashpw data d = Inr (d', u))"
  by (fastforce simp: admin_create_user_def split: sum.splits option.splits)

lemma serve_step: "as_db (fst (serve lib env r s)) = as_db s \<or> auth_step (as_db s) (as_db (fst (serve lib env r s)))"
proof (cases r)
  case (Register client member data)
  with register_route_db[of lib env client member data s] auth_step.registered show ?thesis by fastforce
next
  case (AdminCreate cr username email password)
  then show ?thesis unfolding AdminCreate serve.simps
    by (intro committed_step) (auto dest!: admin_create_user_Inr intro: auth_step.registered)
qed (simp_all add: login_route_db logout_route_def,
  (rule committed_step; auto simp: create_role_route_def update_role_route_def delete_role_route_def
     create_permission_route_def assign_role_route_def remove_role_route_def assign_permission_route_def
     remove_permission_route_def toggle_route_def admin_toggle_user_def admin_delete_user_def
     intro: auth_step.intros)+)

lemma serve_token:
  "as_db (fst (serve lib env r s)) = as_db s \<or> (\<exists>client member data. r = Register client member data) \<or>
   (\<exists>c. get_current_user (al_jwt lib) (now env) (request_token r) = Inr c)"
proof (cases r)
  case (AdminCreate cr username email password)
  have "as_db (fst (serve lib env r s)) = as_db s \<or> (\<exists>c. get_current_user (al_jwt lib) (now env) (request_token r) = Inr c)"
    unfolding AdminCreate serve.simps by (intro committed_token) (auto dest!: admin_create_user_Inr)
  then show ?thesis by blast
qed (simp_all add: login_route_db logout_route_def,
  (rule committed_token; auto simp: create_role_route_def update_role_route_def delete_role_route_def
     create_permission_route_def assign_role_route_def remove_role_route_def assign_permission_route_def
     remove_permission_route_def toggle_route_def admin_toggle_user_def admin_delete_user_def)+)

section \<open>Samples\<close>

definition open_zset :: "unit zset_ops" where
  "open_zset = \<lparr>z_pipe = (\<lambda>k m s c ttl r. (r, Some 1)), z_count = (\<lambda>k a b r. Some 1)\<rparr>"

definition lib0 :: "(string \<Rightarrow> redis_val option, unit) account_lib" where
  "lib0 = \<lparr>al_jwt = plain_jwt, al_redis = map_redis, al_sha = (\<lambda>s. s), al_zset = open_zset,
     al_limits = \<lparr>rate_limit_requests = 100, rate_limit_window = 60, testing = False\<rparr>, al_connected = True,
     al_hashpw = Inr, al_checkpw = (\<lambda>p h. Inr (p = h))\<rparr>"

definition accounts0 :: "auth_db \<Rightarrow> (string \<Rightarrow> redis_val option, unit) account_state" where
  "accounts0 d = \<lparr>as_db = d, as_store = (fresh_store Map.empty)\<lparr>ts_redis_ok := False\<rparr>, as_buckets = ()\<rparr>"

lemma sample_simps [simp]: "al_jwt lib0 = plain_jwt" "as_db (accounts0 d) = d" "\<not> ts_redis_ok (as_store (accounts0 d))"
  "al_checkpw lib0 p h = Inr (p = h)" "al_hashpw lib0 = Inr" "now env1 = 1000"
  by (simp_all add: lib0_def accounts0_def fresh_store_def env1_def)

text \<open>The account of the sample logs in.\<close>

lemma sample_login:
  "\<exists>s'. login_route lib0 env1 None ''m'' ''ann'' ''h'' (accounts0 auth_sample) =
     (s', Inr (session_pair plain_jwt 1000 ''ann'' (Some (show_uuid 7))))"
proof -
  have "find_one (\<lambda>u. us_username u = ''ann'') (users auth_sample) = Inr (Some user7)"
    by (simp add: find_one_Some_iff auth_sample_def)
  then have "authenticate_user (al_checkpw lib0) ''ann'' ''h'' auth_sample = Inr (Some user7)"
    by (simp add: authenticate_user_def verify_password_def) (simp add: user7_def)
  then have "login lib0 env1 ''ann'' ''h'' (auth_sample, as_store (accounts0 auth_sample)) =
      Inr ((auth_sample, fst (issued lib0 env1 user7 (as_store (accounts0 auth_sample)))),
        session_pair plain_jwt 1000 ''ann'' (Some (show_uuid 7)))"
    using issued_in_memory(1)[of "as_store (accounts0 auth_sample)" lib0 env1 user7]
    by (simp add: login_Inr)
  then show ?thesis
    by (simp add: login_route_def rate_limited_def check_rate_limit_def Let_def lib0_def open_zset_def default_nat_def
        default_int_def)
qed

section \<open>The claims\<close>

text \<open>
  C14: Any sequence of requests to the account routes and account forms, refused ones included,
  takes the account tables only through steps of the account operations; so after it user names,
  mail addresses and codes are unique, no assignment is stored twice and every assignment refers to
  an existing account, role and permission.
\<close>

theorem account_requests_refine_steps:
  assumes "auth_reachable (as_db s)"
  shows "auth_reachable (as_db (serve_all lib rs s)) \<and>
    auth_keys (as_db (serve_all lib rs s)) \<and> auth_refs (as_db (serve_all lib rs s))"
proof -
  have "auth_reachable (as_db (serve_all lib rs s))"
    using assms
  proof (induction rs arbitrary: s)
    case (Cons x rs)
    obtain env r where x: "x = (env, r)" by fastforce
    have "auth_reachable (as_db (fst (serve lib env r s)))"
      using serve_step[of lib env r s] Cons.prems auth_reachable.step by metis
    then show ?case unfolding x by (simp add: Cons.IH)
  qed simp
  then show ?thesis using auth_reachable_inv by blast
qed

theorem account_requests_refine_steps_witness:
  "auth_keys (as_db (serve_all lib0 [(env1, AdminDelete [] None ''x''), (env1, Register None ''m'' ann)] (accounts0 no_auth)))"
  by (rule account_requests_refine_steps[THEN conjunct2, THEN conjunct1])
    (use empty_auth_reachable in \<open>simp add: no_auth_def\<close>)

text \<open>
  C15: Without a token that the server accepts at that moment, the only request to the account
  routes and forms that changes the account tables is a registration.
\<close>

theorem account_changes_need_a_token:
  assumes "as_db (fst (serve lib env r s)) \<noteq> as_db s"
  shows "(\<exists>client member data. r = Register client member data) \<or>
    (\<exists>c. get_current_user (al_jwt lib) (now env) (request_token r) = Inr c)"
  using serve_token[of lib env r s] assms by blast

theorem account_changes_need_a_token_witness:
  "\<exists>c. get_current_user plain_jwt 1000 (Some (create_access_token plain_jwt 1000 (Some ''eve'') None)) = Inr c"
proof -
  let ?cr = "Some (create_access_token plain_jwt 1000 (Some ''eve'') None)"
  have "get_current_user plain_jwt (now env1) ?cr = Inr \<lparr>cl_sub = Some ''eve'', cl_uid = None, cl_exp = seconds 1000 + 3600\<rparr>"
    by (rule access_token_accepted) (simp_all add: plain_jwt_contract)
  moreover have "delete_user [] (show_uuid 7) auth_sample = Inr (auth_sample\<lparr>users := [], user_roles := []\<rparr>)"
    by (simp add: delete_user_def to_uuid_def auth_sample_def delete_where_def)
  ultimately have "as_db (fst (serve lib0 env1 (AdminDelete [] ?cr (show_uuid 7)) (accounts0 auth_sample))) =
      auth_sample\<lparr>users := [], user_roles := []\<rparr>"
    by (simp add: admin_delete_user_def authenticated_def committed_def accounts0_def)
  moreover have "auth_sample\<lparr>users := [], user_roles := []\<rparr> \<noteq> auth_sample" by (simp add: auth_sample_def)
  ultimately show ?thesis
    using account_changes_need_a_token[of lib0 env1 "AdminDelete [] ?cr (show_uuid 7)" "accounts0 auth_sample"] by simp
qed

text \<open>
  C16: A login succeeds only for the password of an active account. The access token it gives
  answers for the next hour with the account that then has the name that logged in, as the tables
  then show it and whatever was changed in between, with 404 when there is none, and afterwards with
  401. The token library is assumed to keep jwt_contract and to encode to nonempty texts, and user
  names to be unique.
\<close>

theorem login_then_me:
  assumes "jwt_contract (al_jwt lib)" "\<forall>c. jwt_encode (al_jwt lib) c \<noteq> []"
    and "login_route lib env client member username password s = (s', Inr tokens)"
    and "distinct (map us_username (users later))"
  shows "(\<exists>u\<in>set (users (as_db s)). us_username u = username \<and> us_is_active u \<and>
      al_checkpw lib password (us_hashed_password u) = Inr True) \<and>
    get_me (al_jwt lib) env' (Some (tp_access_token tokens)) later =
      (if seconds (now env) + 3600 < seconds (now env') then Inl (HTTPException 401 ''Invalid or expired token'')
       else case find (\<lambda>u. us_username u = username) (users later) of
              None \<Rightarrow> Inl (HTTPException 404 ''User not found'')
            | Some u \<Rightarrow> Inr (user_response u))"
proof -
  from login_route_Inr[OF assms(3)] obtain u where
    a: "authenticate_user (al_checkpw lib) username password (as_db s) = Inr (Some u)"
    and t: "tokens = snd (issued lib env u (as_store s))" by blast
  note u = authenticate_user_Some[OF a]
  show ?thesis
  proof (cases "seconds (now env) + 3600 < seconds (now env')")
    case True
    from access_token_expired[OF assms(1,2) this] u show ?thesis
      by (auto simp: get_me_def authenticated_def t issued_access True)
  next
    case False
    then have "seconds (now env') \<le> seconds (now env) + 3600" by simp
    from access_token_accepted[OF assms(1,2) this] find_one_find[OF assms(4), of username] u False show ?thesis
      by (auto simp: get_me_def authenticated_def t issued_access get_user_by_username_def)
  qed
qed

theorem login_then_me_witness:
  "\<exists>s' tokens u. login_route lib0 env1 None ''m'' ''ann'' ''h'' (accounts0 auth_sample) = (s', Inr tokens) \<and>
     get_me plain_jwt env1 (Some (tp_access_token tokens)) (as_db s') = Inr (user_response u) \<and>
     get_me plain_jwt env1 (Some (tp_access_token tokens)) no_auth = Inl (HTTPException 404 ''User not found'') \<and>
     get_me plain_jwt (env1\<lparr>now := 4000000000\<rparr>) (Some (tp_access_token tokens)) (as_db s') =
       Inl (HTTPException 401 ''Invalid or expired token'')"
proof -
  obtain s' tokens where l: "login_route lib0 env1 None ''m'' ''ann'' ''h'' (accounts0 auth_sample) = (s', Inr tokens)"
    using sample_login by blast
  have db: "as_db s' = auth_sample" using login_route_db[of lib0 env1 None "''m''" "''ann''" "''h''" "accounts0 auth_sample"] l by simp
  have names: "distinct (map us_username (users auth_sample))" "distinct (map us_username (users no_auth))"
    using auth_sample_inv(1) by (simp_all add: auth_keys_def no_auth_def)
  note me = login_then_me[OF _ _ l]
  have none: "find (\<lambda>u. us_username u = ''ann'') (users no_auth) = None" by (simp add: no_auth_def)
  obtain u where "u \<in> set (users auth_sample)" "us_username u = ''ann''" using me[of no_auth env1] plain_jwt_contract names by auto
  then obtain v where some: "find (\<lambda>u. us_username u = ''ann'') (users auth_sample) = Some v"
    by (cases "find (\<lambda>u. us_username u = ''ann'') (users auth_sample)") (auto simp: find_None_iff)
  from me[of auth_sample env1] me[of no_auth env1] me[of auth_sample "env1\<lparr>now := 4000000000\<rparr>"] names some none show ?thesis
    using l db plain_jwt_contract by (auto simp: seconds_def)
qed

text \<open>
  C17: A session outlives its account: once Redis has failed and the tokens are in memory, whatever
  becomes of the accounts after the login, deactivation and deletion included, and whatever other
  tokens are stored, used and revoked, a client that refreshes at least once in seven days keeps
  getting tokens, and the last access token is accepted for its hour. Nobody else uses or revokes
  the current token of the session, and the clean-up of the memory does not run in the process. The
  token library is assumed to keep jwt_contract and to encode to nonempty texts, and the name is not
  empty.
\<close>

theorem sessions_outlive_accounts:
  assumes "jwt_contract (al_jwt lib)" "\<forall>c. jwt_encode (al_jwt lib) c \<noteq> []" "\<not> ts_redis_ok (as_store s)" "username \<noteq> []"
    and "login_route lib env client member username password s = (s1, Inr tokens)"
    and "\<forall>u\<in>set (users (as_db s)). us_username u = username \<longrightarrow>
      undisturbed (al_jwt lib) username (Some (show_uuid (pk u))) (now env) xs"
  shows "\<exists>s2 last_tokens. session_run lib utf8 xs s1 tokens = (s2, Inr last_tokens) \<and>
    (\<forall>t. seconds t \<le> seconds (last_refresh (now env) xs) + 3600 \<longrightarrow>
      (\<exists>c. get_current_user (al_jwt lib) t (Some (tp_access_token last_tokens)) = Inr c \<and> cl_sub c = Some username))"
proof -
  from login_route_Inr[OF assms(5)] obtain u b where
    a: "authenticate_user (al_checkpw lib) username password (as_db s) = Inr (Some u)"
    and s1: "s1 = s\<lparr>as_store := fst (issued lib env u (as_store s)), as_buckets := b\<rparr>"
    and t: "tokens = snd (issued lib env u (as_store s))" by blast
  from authenticate_user_Some[OF a] have u: "us_username u = username" "u \<in> set (users (as_db s))" by blast+
  note i = issued_in_memory[OF assms(3), of lib env u, unfolded u(1)]
  have "holds_session (al_jwt lib) (now env) username (Some (show_uuid (pk u))) (as_store s1)" using i(2) s1 by simp
  from session_run_in_memory[OF assms(1,4) this, of xs utf8] u assms(6) obtain s2 where
    r: "session_run lib utf8 xs s1 tokens = (s2, Inr (session_pair (al_jwt lib) (last_refresh (now env) xs) username
      (Some (show_uuid (pk u)))))" using i(1) t by auto
  with access_token_accepted[OF assms(1,2)] show ?thesis by (fastforce simp: session_pair_def)
qed

lemma plain_tokens_differ:
  "''x'' \<noteq> create_refresh_token plain_jwt t (Some n) uid" "''y'' \<noteq> create_refresh_token plain_jwt t (Some n) uid"
  by (simp_all add: create_refresh_token_def plain_jwt_def put_claims_def)

text \<open>Another client logs in and out before each of two refreshes, and all accounts are gone.\<close>

theorem sessions_outlive_accounts_witness:
  "\<exists>s1 tokens s2 last_tokens. login_route lib0 env1 None ''m'' ''ann'' ''h'' (accounts0 auth_sample) = (s1, Inr tokens) \<and>
     session_run lib0 (\<lambda>b. b) [([StoreToken ''x'' ''bob'', RevokeToken ''x''], env1\<lparr>now := 600000000000\<rparr>, no_auth),
       ([StoreToken ''y'' ''bob'', PopToken ''y''], env1\<lparr>now := 1200000000000\<rparr>, no_auth)] s1 tokens = (s2, Inr last_tokens)"
proof -
  obtain s1 tokens where l: "login_route lib0 env1 None ''m'' ''ann'' ''h'' (accounts0 auth_sample) = (s1, Inr tokens)"
    using sample_login by blast
  have "undisturbed plain_jwt ''ann'' uid (now env1) [([StoreToken ''x'' ''bob'', RevokeToken ''x''], env1\<lparr>now := 600000000000\<rparr>, no_auth),
       ([StoreToken ''y'' ''bob'', PopToken ''y''], env1\<lparr>now := 1200000000000\<rparr>, no_auth)]" for uid
    by (simp add: seconds_def plain_tokens_differ)
  then have "\<forall>u\<in>set (users (as_db (accounts0 auth_sample))). us_username u = ''ann'' \<longrightarrow>
      undisturbed (al_jwt lib0) ''ann'' (Some (show_uuid (pk u))) (now env1)
        [([StoreToken ''x'' ''bob'', RevokeToken ''x''], env1\<lparr>now := 600000000000\<rparr>, no_auth),
         ([StoreToken ''y'' ''bob'', PopToken ''y''], env1\<lparr>now := 1200000000000\<rparr>, no_auth)]"
    unfolding sample_simps by blast
  from sessions_outlive_accounts[OF _ _ _ _ l this, of "\<lambda>b. b"] plain_jwt_contract l show ?thesis
    by (simp del: session_run.simps undisturbed.simps) blast
qed

text \<open>
  C18: Any account may give any role to any account that does not have it yet: with an accepted
  token the assignment succeeds, whatever permissions the owner of the token has, and in the state
  after it the account has the permissions of the role.
\<close>

theorem any_account_gives_any_role:
  assumes "get_current_user jwt (now env) cr = Inr c" "auth_keys d" "u \<in> set (users d)" "r \<in> set (roles d)"
    and "\<lparr>ur_user_id = pk u, ur_role_id = pk r\<rparr> \<notin> set (user_roles d)" "p \<in> set (role_permission_list r d)"
  shows "\<exists>d' v perms. assign_role_route jwt env cr (show_uuid (pk u)) (Some (show_uuid (pk r))) d = Inr (d', v) \<and>
    get_user_permissions (us_username u) d' = Inr perms \<and> pm_code p \<in> perms"
proof -
  let ?d = "d\<lparr>user_roles := user_roles d @ [\<lparr>ur_user_id = pk u, ur_role_id = pk r\<rparr>]\<rparr>"
  have n: "(pk u, pk r) \<notin> set (user_role_links d)"
  proof
    assume "(pk u, pk r) \<in> set (user_role_links d)"
    then obtain l where "l \<in> set (user_roles d)" "ur_user_id l = pk u" "ur_role_id l = pk r"
      by (auto simp: user_role_links_def)
    then have "l = \<lparr>ur_user_id = pk u, ur_role_id = pk r\<rparr>" by simp
    with \<open>l \<in> _\<close> assms(5) show False by simp
  qed
  have a: "assign_role_to_user (show_uuid (pk u)) (show_uuid (pk r)) d = Inr (?d, show_uuid (pk u), show_uuid (pk r))"
    by (rule assign_role_to_user_succeeds[OF assms(2-4) n])
  have "auth_keys ?d" by (rule auth_step_keys[OF auth_step.role_assigned[OF a] assms(2)])
  from permission_through_role[OF this, of u r p] obtain perms where
    "get_user_permissions (us_username u) ?d = Inr perms" "pm_code p \<in> perms"
    using assms(3,4,6) by (auto simp: user_role_links_def role_permission_list_def)
  moreover have "assign_role_route jwt env cr (show_uuid (pk u)) (Some (show_uuid (pk r))) d =
      Inr (?d, show_uuid (pk u), show_uuid (pk r))"
    by (simp add: assign_role_route_def assms(1) a)
  ultimately show ?thesis by blast
qed

theorem any_account_gives_any_role_witness:
  "\<exists>d' v. assign_role_route plain_jwt env1 (Some (create_access_token plain_jwt 1000 (Some ''eve'') None))
     (show_uuid 7) (Some (show_uuid 8)) (auth_sample\<lparr>user_roles := []\<rparr>) = Inr (d', v)"
proof -
  let ?d = "auth_sample\<lparr>user_roles := []\<rparr>"
  have "get_current_user plain_jwt (now env1) (Some (create_access_token plain_jwt 1000 (Some ''eve'') None)) =
      Inr \<lparr>cl_sub = Some ''eve'', cl_uid = None, cl_exp = seconds 1000 + 3600\<rparr>"
    by (rule access_token_accepted) (simp_all add: plain_jwt_contract)
  moreover have "auth_keys ?d" "user7 \<in> set (users ?d)" "role8 \<in> set (roles ?d)" "perm9 \<in> set (role_permission_list role8 ?d)"
    by (simp_all add: auth_keys_def auth_sample_def user_role_links_def role_permission_links_def role_permission_list_def)
  moreover have "\<lparr>ur_user_id = pk user7, ur_role_id = pk role8\<rparr> \<notin> set (user_roles ?d)" by simp
  ultimately show ?thesis using any_account_gives_any_role[of plain_jwt env1 _ _ ?d user7 role8 perm9] auth_samples(1,2) by metis
qed

end
