(* ===== verification/Oms_Routes.thy ===== *)
theory Oms_Routes
  imports Routes Oms_Merge
begin

text \<open>
  The routes of \<open>src/oms/router.py\<close> and the order forms of \<open>src/admin/router.py\<close>, one definition for
  each handler, and the state that a sequence of their requests leaves.
\<close>

type_synonym http_outcome = "string \<Rightarrow> json \<Rightarrow> (int \<times> bool) option"

section \<open>Routes\<close>

definition create_order_route ::
  "jwt_lib \<Rightarrow> env \<Rightarrow> string option \<Rightarrow> order_create \<Rightarrow> 'a oms_db_scheme \<Rightarrow> ('a oms_db_scheme \<times> order_view) result" where
  "create_order_route jwt env cr data d =
     authenticated jwt env cr (\<lambda>_. checked (order_create_schema_ok data) (create_order env data d))"

definition list_status_ok :: "string option \<Rightarrow> bool" where
  "list_status_ok status \<longleftrightarrow>
     (case status of None \<Rightarrow> True
      | Some s \<Rightarrow> s \<in> {''draft'', ''confirmed'', ''processing'', ''picking'', ''completed'', ''cancelled'', ''failed''})"

definition list_orders_route ::
  "jwt_lib \<Rightarrow> env \<Rightarrow> string option \<Rightarrow> int \<Rightarrow> int \<Rightarrow> string option \<Rightarrow> string option \<Rightarrow> 'a oms_db_scheme \<Rightarrow>
   (order_view list \<times> int) result" where
  "list_orders_route jwt env cr page page_size status customer_id d =
     authenticated jwt env cr (\<lambda>_.
     checked (page_ok page page_size \<and> list_status_ok status) (list_orders page page_size status customer_id d))"

definition get_order_route :: "jwt_lib \<Rightarrow> env \<Rightarrow> string option \<Rightarrow> string \<Rightarrow> 'a oms_db_scheme \<Rightarrow> order_view result" where
  "get_order_route jwt env cr order_id d = authenticated jwt env cr (\<lambda>_. caught as_404 (get_order order_id d))"

definition update_order_status_route ::
  "jwt_lib \<Rightarrow> env \<Rightarrow> http_outcome \<Rightarrow> string option \<Rightarrow> string \<Rightarrow> string \<Rightarrow> 'a oms_db_scheme \<Rightarrow>
   ('a oms_db_scheme \<times> order_view) result" where
  "update_order_status_route jwt env http cr order_id status d =
     authenticated jwt env cr (\<lambda>c.
     checked (order_status_update_schema_ok status)
       (caught as_404_422 (update_order_status env http order_id status (get_default ''unknown'' (cl_sub c)) d)))"

definition delete_order_route ::
  "jwt_lib \<Rightarrow> env \<Rightarrow> string option \<Rightarrow> string \<Rightarrow> 'a oms_db_scheme \<Rightarrow> ('a oms_db_scheme \<times> unit) result" where
  "delete_order_route jwt env cr order_id d =
     authenticated jwt env cr (\<lambda>_. caught as_404_422 (delete_order env order_id d))"

definition get_order_history_route ::
  "jwt_lib \<Rightarrow> env \<Rightarrow> string option \<Rightarrow> string \<Rightarrow> 'a oms_db_scheme \<Rightarrow> history_view list result" where
  "get_order_history_route jwt env cr order_id d =
     authenticated jwt env cr (\<lambda>_. caught as_404 (get_order_history order_id d))"

definition split_order_route ::
  "jwt_lib \<Rightarrow> env \<Rightarrow> string option \<Rightarrow> string \<Rightarrow> split_req list \<Rightarrow> string \<Rightarrow> 'a oms_db_scheme \<Rightarrow>
   ('a oms_db_scheme \<times> order_view list) result" where
  "split_order_route jwt env cr order_id splits reason d =
     authenticated jwt env cr (\<lambda>_. caught as_404_422 (split_order env order_id splits reason d))"

definition merge_orders_route ::
  "jwt_lib \<Rightarrow> env \<Rightarrow> exn option \<Rightarrow> string option \<Rightarrow> string list \<Rightarrow> string option \<Rightarrow> string option \<Rightarrow> string \<Rightarrow>
   'a oms_db_scheme \<Rightarrow> ('a oms_db_scheme \<times> merge_view) result" where
  "merge_orders_route jwt env after_failed_flush cr order_ids given_code warehouse_id remark d =
     authenticated jwt env cr (\<lambda>_.
     caught as_404_422 (merge_orders env after_failed_flush order_ids given_code warehouse_id remark d))"

definition get_merge_group_route :: "jwt_lib \<Rightarrow> env \<Rightarrow> string option \<Rightarrow> string \<Rightarrow> 'a oms_db_scheme \<Rightarrow> merge_view result" where
  "get_merge_group_route jwt env cr group_id d =
     authenticated jwt env cr (\<lambda>_.
     bindE (get_merge_group group_id d) (of_option (HTTPException 404 ''Merge group not found'')))"

section \<open>Forms of the administration\<close>

text \<open>
  The form names an order number and an amount, which the service does not read, and no items. A form
  without a customer is a null in a column that may not be null.
\<close>

record order_form =
  of_order_no :: "string option"
  of_customer_id :: "string option"
  of_total_amount :: "string option"

definition admin_create_order ::
  "jwt_lib \<Rightarrow> env \<Rightarrow> string option \<Rightarrow> order_form \<Rightarrow> 'a oms_db_scheme \<Rightarrow> ('a oms_db_scheme \<times> order_view) result" where
  "admin_create_order jwt env cr form d =
     authenticated jwt env cr (\<lambda>_.
     form_result form_error 400 ''Failed to create order''
       (bindE (of_option IntegrityError (of_customer_id form)) (\<lambda>c.
        create_order env \<lparr>rq_customer_id = c, rq_items = [], rq_priority = None, rq_notes = None\<rparr> d)))"

text \<open>The tokens have no \<open>username\<close>, so the operator is \<open>admin\<close>; a missing status is no target.\<close>

definition admin_update_order_status ::
  "jwt_lib \<Rightarrow> env \<Rightarrow> http_outcome \<Rightarrow> string option \<Rightarrow> string \<Rightarrow> string option \<Rightarrow> 'a oms_db_scheme \<Rightarrow>
   ('a oms_db_scheme \<times> order_view) result" where
  "admin_update_order_status jwt env http cr order_id status d =
     authenticated jwt env cr (\<lambda>_.
     form_result (\<lambda>e. form_error e \<or> is_validation e) 400 ''Failed to update order status''
       (update_order_status env http order_id (get_default ''None'' status) ''admin'' d))"

definition admin_order_detail ::
  "jwt_lib \<Rightarrow> env \<Rightarrow> string option \<Rightarrow> string \<Rightarrow> 'a oms_db_scheme \<Rightarrow> (order_view \<times> history_view list) result" where
  "admin_order_detail jwt env cr order_id d =
     authenticated jwt env cr (\<lambda>_.
     form_result form_error 404 ''Order not found''
       (bindE (get_order order_id d) (\<lambda>v. bindE (get_order_history order_id d) (\<lambda>h. Inr (v, h)))))"

section \<open>A sequence of requests\<close>

datatype oms_request =
    PlaceOrder order_create
  | OrderStatusTo string string
  | DropOrder string
  | SplitOrder string "split_req list" string
  | MergeOrders "string list" "string option" "string option" string
  | FormOrder order_form
  | FormStatus string "string option"

text \<open>What the world contributes to a request: clock, token, outcome of the webhooks, and of a failed flush.\<close>

record oms_world =
  ow_env :: env
  ow_token :: "string option"
  ow_http :: http_outcome
  ow_failed_flush :: "exn option"

definition kept :: "'d \<Rightarrow> ('d \<times> 'v) result \<Rightarrow> 'd \<times> exn option" where
  "kept d x = (case x of Inl e \<Rightarrow> (d, Some e) | Inr (d', v) \<Rightarrow> (d', None))"

fun serve_oms :: "jwt_lib \<Rightarrow> oms_world \<Rightarrow> oms_request \<Rightarrow> 'a oms_db_scheme \<Rightarrow> 'a oms_db_scheme \<times> exn option" where
  "serve_oms jwt w (PlaceOrder data) d = kept d (create_order_route jwt (ow_env w) (ow_token w) data d)"
| "serve_oms jwt w (OrderStatusTo i s) d = kept d (update_order_status_route jwt (ow_env w) (ow_http w) (ow_token w) i s d)"
| "serve_oms jwt w (DropOrder i) d = kept d (delete_order_route jwt (ow_env w) (ow_token w) i d)"
| "serve_oms jwt w (SplitOrder i splits reason) d = kept d (split_order_route jwt (ow_env w) (ow_token w) i splits reason d)"
| "serve_oms jwt w (MergeOrders ids c wid remark) d =
     kept d (merge_orders_route jwt (ow_env w) (ow_failed_flush w) (ow_token w) ids c wid remark d)"
| "serve_oms jwt w (FormOrder form) d = kept d (admin_create_order jwt (ow_env w) (ow_token w) form d)"
| "serve_oms jwt w (FormStatus i s) d = kept d (admin_update_order_status jwt (ow_env w) (ow_http w) (ow_token w) i s d)"

fun serve_orders :: "jwt_lib \<Rightarrow> (oms_world \<times> oms_request) list \<Rightarrow> 'a oms_db_scheme \<Rightarrow> 'a oms_db_scheme" where
  "serve_orders jwt [] d = d"
| "serve_orders jwt ((w, r) # rs) d = serve_orders jwt rs (fst (serve_oms jwt w r d))"

lemma kept_step:
  assumes "\<And>d' v. x = Inr (d', v) \<Longrightarrow> drawn d' \<le> cap \<Longrightarrow> oms_step u cap d d'" "drawn (fst (kept d x)) \<le> cap"
  shows "fst (kept d x) = d \<or> oms_step u cap d (fst (kept d x))"
  using assms by (auto simp: kept_def split: sum.splits prod.splits)

lemmas oms_route_defs = create_order_route_def update_order_status_route_def delete_order_route_def
  split_order_route_def merge_orders_route_def admin_create_order_def admin_update_order_status_def

lemma serve_oms_step:
  assumes "uuid4 (ow_env w) = u" "drawn (fst (serve_oms jwt w r d)) \<le> cap"
  shows "fst (serve_oms jwt w r d) = d \<or> oms_step u cap d (fst (serve_oms jwt w r d))"
  using assms(2)
  by (cases r; simp only: serve_oms.simps; elim kept_step[rotated])
    (auto simp: oms_route_defs intro: oms_step.intros assms(1))

end
