(* ===== verification/Tms_Routes.thy ===== *)
theory Tms_Routes
  imports Routes Tms_Plans Tms_Returns Tms_Freight Tms_Device
begin

text \<open>
  The routes of \<open>src/tms/router.py\<close>, one definition for each handler, and a server that answers a
  sequence of their requests: its tables, the cache of the planner and the windows of the forecast. Only
  the routes of the terminals ask for a token.
\<close>

section \<open>Orders, tracking and proof of delivery\<close>

definition create_transport_order_route ::
  "env \<Rightarrow> transport_req \<Rightarrow> 'a tms_db_scheme \<Rightarrow> ('a tms_db_scheme \<times> transport_order) result" where
  "create_transport_order_route env data d = checked (transport_req_schema_ok data) (create_transport_order env data d)"

definition get_transport_order_route :: "string \<Rightarrow> 'a tms_db_scheme \<Rightarrow> transport_order result" where
  "get_transport_order_route order_id d = caught as_404 (get_transport_order order_id d)"

definition list_transport_orders_route ::
  "int \<Rightarrow> int \<Rightarrow> string option \<Rightarrow> string option \<Rightarrow> 'a tms_db_scheme \<Rightarrow> (transport_order list \<times> nat) result" where
  "list_transport_orders_route page page_size status carrier_code d =
     checked (page_ok page page_size) (list_transport_orders page page_size status carrier_code d)"

definition update_transport_order_status_route ::
  "env \<Rightarrow> string \<Rightarrow> string \<Rightarrow> 'a tms_db_scheme \<Rightarrow> ('a tms_db_scheme \<times> transport_order) result" where
  "update_transport_order_status_route env order_id status d = caught as_422 (change_transport_status env order_id status d)"

text \<open>\<open>TrackingEventCreate\<close>: its pattern has every event but the first, and it has no operator.\<close>

definition tracking_schema_ok :: "tracking_req \<Rightarrow> bool" where
  "tracking_schema_ok q \<longleftrightarrow>
     enum_find tracking_event_type_value tracking_event_types (kq_event_type q) \<notin> {None, Some TrackingEventType_CREATED}"

definition record_tracking_event_route ::
  "env \<Rightarrow> tracking_req \<Rightarrow> 'a tms_db_scheme \<Rightarrow> ('a tms_db_scheme \<times> tracking_event) result" where
  "record_tracking_event_route env data d =
     checked (tracking_schema_ok data) (create_tracking_event env (data\<lparr>kq_operator_id := None\<rparr>) d)"

definition get_tracking_events_route :: "string \<Rightarrow> 'a tms_db_scheme \<Rightarrow> tracking_event list result" where
  "get_tracking_events_route order_id d = list_tracking_events order_id d"

text \<open>
  \<open>{"transport_order_id": order_id, **data}\<close>: an order that the body names overrides the one of the path,
  so \<open>body_order_id\<close> is an argument of its own here and the field of \<open>data\<close> is not read.
\<close>

definition create_tracking_event_route ::
  "env \<Rightarrow> string \<Rightarrow> string option \<Rightarrow> tracking_req \<Rightarrow> 'a tms_db_scheme \<Rightarrow> ('a tms_db_scheme \<times> tracking_event) result" where
  "create_tracking_event_route env order_id body_order_id data d =
     caught as_404_422 (create_tracking_event env (data\<lparr>kq_transport_order_id := get_default order_id body_order_id\<rparr>) d)"

definition create_pod_route ::
  "env \<Rightarrow> string \<Rightarrow> pod_req \<Rightarrow> 'a tms_db_scheme \<Rightarrow> ('a tms_db_scheme \<times> proof_of_delivery) result" where
  "create_pod_route env order_id data d = create_pod env (PodByOrderId order_id (Some data)) d"

definition get_pod_route :: "string \<Rightarrow> 'a tms_db_scheme \<Rightarrow> proof_of_delivery result" where
  "get_pod_route order_id d = bindE (get_pod order_id d) (of_option (HTTPException 404 ''POD not found''))"

definition update_pod_route ::
  "env \<Rightarrow> string \<Rightarrow> pod_req \<Rightarrow> 'a tms_db_scheme \<Rightarrow> ('a tms_db_scheme \<times> proof_of_delivery) result" where
  "update_pod_route env order_id data d = caught as_404 (update_pod env order_id data d)"

section \<open>Returns\<close>

definition create_return_order_route ::
  "env \<Rightarrow> return_req \<Rightarrow> 'a tms_db_scheme \<Rightarrow> ('a tms_db_scheme \<times> return_order) result" where
  "create_return_order_route env data d = create_return_order env data d"

definition list_return_orders_route ::
  "string option \<Rightarrow> 'a tms_db_scheme \<Rightarrow> return_order list result" where
  "list_return_orders_route status d = bindE (list_return_orders status d) (\<lambda>(items, total_count). Inr items)"

definition get_return_order_route :: "string \<Rightarrow> 'a tms_db_scheme \<Rightarrow> return_order result" where
  "get_return_order_route return_id d = caught as_404 (get_return_order return_id d)"

text \<open>A body without a target asks for \<open>None\<close>.\<close>

definition update_return_status_route ::
  "(string list \<Rightarrow> string) \<Rightarrow> env \<Rightarrow> string \<Rightarrow> string option \<Rightarrow> 'a tms_db_scheme \<Rightarrow> ('a tms_db_scheme \<times> return_order) result" where
  "update_return_status_route set_repr env return_id target d =
     caught as_404_422 (update_return_status set_repr env return_id (get_default ''None'' target) d)"

section \<open>Exceptions and freight\<close>

definition create_exception_route ::
  "env \<Rightarrow> exception_req \<Rightarrow> 'a tms_db_scheme \<Rightarrow> ('a tms_db_scheme \<times> transport_exception) result" where
  "create_exception_route env data d = create_exception env data d"

definition resolve_exception_route ::
  "env \<Rightarrow> string \<Rightarrow> 'a tms_db_scheme \<Rightarrow> ('a tms_db_scheme \<times> transport_exception) result" where
  "resolve_exception_route env exception_id d = caught as_404 (resolve_exception env exception_id None d)"

definition create_order_exception_route ::
  "env \<Rightarrow> string \<Rightarrow> exception_req \<Rightarrow> 'a tms_db_scheme \<Rightarrow> ('a tms_db_scheme \<times> transport_exception) result" where
  "create_order_exception_route env order_id data d =
     caught as_404_422 (create_exception env
       (data\<lparr>eq_transport_order_id := Some (get_default order_id (eq_transport_order_id data))\<rparr>) d)"

definition list_exceptions_route ::
  "string option \<Rightarrow> string \<Rightarrow> 'a tms_db_scheme \<Rightarrow> transport_exception list result" where
  "list_exceptions_route transport_order_id status d = list_exceptions transport_order_id status d"

definition resolve_exc_route ::
  "env \<Rightarrow> string \<Rightarrow> string option \<Rightarrow> 'a tms_db_scheme \<Rightarrow> ('a tms_db_scheme \<times> transport_exception) result" where
  "resolve_exc_route env exc_id resolution_notes d = caught as_404 (resolve_exception env exc_id resolution_notes d)"

definition create_freight_tier_route ::
  "env \<Rightarrow> freight_tier_req \<Rightarrow> 'a tms_db_scheme \<Rightarrow> ('a tms_db_scheme \<times> freight_tier) result" where
  "create_freight_tier_route env data d = create_freight_tier env data d"

definition calculate_freight_route :: "freight_query \<Rightarrow> 'a tms_db_scheme \<Rightarrow> freight_view result" where
  "calculate_freight_route data d = caught as_422 (calculate_freight data d)"

definition estimate_freight_route :: "string \<Rightarrow> string \<Rightarrow> rat \<Rightarrow> rat \<Rightarrow> freight_estimate_days result" where
  "estimate_freight_route carrier_code service_type distance_km weight_kg =
     checked (0 < distance_km \<and> 0 \<le> weight_kg)
       (Inr (estimate_freight (Some carrier_code) service_type distance_km (of_int \<lfloor>weight_kg\<rfloor>)))"

section \<open>Terminals\<close>

definition register_device_route ::
  "jwt_lib \<Rightarrow> env \<Rightarrow> string option \<Rightarrow> device_req \<Rightarrow> 'a tms_db_scheme \<Rightarrow> ('a tms_db_scheme \<times> terminal_device) result" where
  "register_device_route jwt env cr data d =
     authenticated jwt env cr (\<lambda>_. caught as_422 (register_device env data d))"

definition get_device_route ::
  "jwt_lib \<Rightarrow> env \<Rightarrow> string option \<Rightarrow> string \<Rightarrow> 'a tms_db_scheme \<Rightarrow> terminal_device result" where
  "get_device_route jwt env cr dev_id d = authenticated jwt env cr (\<lambda>_. caught as_404 (get_device dev_id d))"

definition update_device_route ::
  "jwt_lib \<Rightarrow> env \<Rightarrow> string option \<Rightarrow> string \<Rightarrow> device_update \<Rightarrow> 'a tms_db_scheme \<Rightarrow> ('a tms_db_scheme \<times> terminal_device) result" where
  "update_device_route jwt env cr dev_id data d =
     authenticated jwt env cr (\<lambda>_. caught as_404_422 (update_device env dev_id data d))"

definition heartbeat_route ::
  "env \<Rightarrow> string \<Rightarrow> 'a tms_db_scheme \<Rightarrow> ('a tms_db_scheme \<times> heartbeat_view) result" where
  "heartbeat_route env dev_id d = caught as_404 (record_heartbeat env dev_id d)"

definition list_devices_route ::
  "jwt_lib \<Rightarrow> env \<Rightarrow> string option \<Rightarrow> string option \<Rightarrow> string option \<Rightarrow> string option \<Rightarrow> 'a tms_db_scheme \<Rightarrow> terminal_device list result" where
  "list_devices_route jwt env cr warehouse_id status device_type d =
     authenticated jwt env cr (\<lambda>_. list_devices warehouse_id status device_type d)"

definition create_session_route ::
  "jwt_lib \<Rightarrow> env \<Rightarrow> string option \<Rightarrow> string \<Rightarrow> 'a tms_db_scheme \<Rightarrow> ('a tms_db_scheme \<times> device_session) result" where
  "create_session_route jwt env cr dev_id d =
     authenticated jwt env cr (\<lambda>_. caught as_404 (create_session env dev_id None d))"

definition end_session_route ::
  "jwt_lib \<Rightarrow> env \<Rightarrow> string option \<Rightarrow> string \<Rightarrow> string \<Rightarrow> 'a tms_db_scheme \<Rightarrow> ('a tms_db_scheme \<times> device_session) result" where
  "end_session_route jwt env cr dev_id session_id d =
     authenticated jwt env cr (\<lambda>_. caught as_404 (end_session env dev_id session_id d))"

definition list_sessions_route ::
  "jwt_lib \<Rightarrow> env \<Rightarrow> string option \<Rightarrow> string \<Rightarrow> 'a tms_db_scheme \<Rightarrow> device_session list result" where
  "list_sessions_route jwt env cr dev_id d = authenticated jwt env cr (\<lambda>_. caught as_404 (list_sessions dev_id d))"

definition record_sync_route ::
  "env \<Rightarrow> string \<Rightarrow> sync_req \<Rightarrow> 'a tms_db_scheme \<Rightarrow> ('a tms_db_scheme \<times> sync_log) result" where
  "record_sync_route env dev_id data d = caught as_404 (record_sync env dev_id data d)"

definition list_sync_logs_route :: "string \<Rightarrow> 'a tms_db_scheme \<Rightarrow> sync_log list result" where
  "list_sync_logs_route dev_id d = caught as_404 (list_sync_logs dev_id d)"

section \<open>The network and its segments\<close>

definition create_hub_route ::
  "env \<Rightarrow> hub_req \<Rightarrow> 'a tms_db_scheme \<Rightarrow> ('a tms_db_scheme \<times> transfer_hub) result" where
  "create_hub_route env data d = checked (hub_req_schema_ok data) (caught as_422 (create_hub env data d))"

definition get_hub_route :: "string \<Rightarrow> 'a tms_db_scheme \<Rightarrow> transfer_hub result" where
  "get_hub_route hub_id d = caught as_404 (get_hub hub_id d)"

definition list_hubs_route ::
  "string option \<Rightarrow> string option \<Rightarrow> 'a tms_db_scheme \<Rightarrow> transfer_hub list result" where
  "list_hubs_route city hub_type d = list_hubs city hub_type d"

definition update_hub_route ::
  "env \<Rightarrow> string \<Rightarrow> hub_update \<Rightarrow> 'a tms_db_scheme \<Rightarrow> ('a tms_db_scheme \<times> transfer_hub) result" where
  "update_hub_route env hub_id data d = caught as_404_422 (update_hub env hub_id data d)"

definition add_carrier_route_route ::
  "env \<Rightarrow> carrier_route_req \<Rightarrow> 'a tms_db_scheme \<Rightarrow> ('a tms_db_scheme \<times> carrier_route) result" where
  "add_carrier_route_route env data d = checked (carrier_route_schema_ok data) (add_carrier_route env data d)"

definition list_carrier_routes_route ::
  "string option \<Rightarrow> string option \<Rightarrow> string option \<Rightarrow> 'a tms_db_scheme \<Rightarrow> carrier_route list result" where
  "list_carrier_routes_route origin_city dest_city carrier_code d = list_carrier_routes origin_city dest_city carrier_code d"

definition add_hub_connection_route ::
  "env \<Rightarrow> hub_connection_req \<Rightarrow> 'a tms_db_scheme \<Rightarrow> ('a tms_db_scheme \<times> hub_connection) result" where
  "add_hub_connection_route env data d =
     checked (hub_connection_schema_ok data) (caught as_422 (add_hub_connection env data d))"

definition list_hub_connections_route ::
  "string option \<Rightarrow> 'a tms_db_scheme \<Rightarrow> hub_connection list result" where
  "list_hub_connections_route hub_code d = Inr (list_hub_connections hub_code d)"

definition create_segment_route ::
  "env \<Rightarrow> segment_req \<Rightarrow> 'a tms_db_scheme \<Rightarrow> ('a tms_db_scheme \<times> transport_segment) result" where
  "create_segment_route env data d = checked (segment_schema_ok data) (create_segment env data d)"

definition get_segment_route :: "string \<Rightarrow> 'a tms_db_scheme \<Rightarrow> transport_segment result" where
  "get_segment_route seg_id d = caught as_404 (get_segment seg_id d)"

definition list_segments_route :: "string \<Rightarrow> 'a tms_db_scheme \<Rightarrow> transport_segment list result" where
  "list_segments_route transport_order_id d = list_segments transport_order_id d"

definition update_segment_status_route ::
  "env \<Rightarrow> string \<Rightarrow> string \<Rightarrow> 'a tms_db_scheme \<Rightarrow> ('a tms_db_scheme \<times> transport_segment) result" where
  "update_segment_status_route env seg_id status d = caught as_404_422 (update_segment_status env seg_id status d)"

section \<open>Planning\<close>

text \<open>The answer is \<open>None\<close> when the search of the planner does not return.\<close>

definition generate_route_plan_route ::
  "env \<Rightarrow> bool \<Rightarrow> string \<Rightarrow> string \<Rightarrow> route_cache \<Rightarrow> 'a tms_db_scheme \<Rightarrow>
   (route_cache \<times> 'a tms_db_scheme \<times> plan_view) result option" where
  "generate_route_plan_route env up order_id plan_type rc d =
     map_option (caught as_404_422) (generate_route_plan env up order_id plan_type rc d)"

definition get_route_plan_route :: "string \<Rightarrow> 'a tms_db_scheme \<Rightarrow> plan_view result" where
  "get_route_plan_route plan_id d = caught as_404 (get_route_plan plan_id d)"

section \<open>Forecasts\<close>

definition record_forecast_observation_route :: "forecast_req \<Rightarrow> history \<Rightarrow> history \<times> string" where
  "record_forecast_observation_route data h = record_forecast_observation data h"

definition get_forecast_route ::
  "(rat list \<Rightarrow> rat) \<Rightarrow> (rat \<Rightarrow> rat \<Rightarrow> rat) \<Rightarrow> int \<Rightarrow> string option \<Rightarrow> string option \<Rightarrow> int \<Rightarrow> history \<Rightarrow> forecast_point list result" where
  "get_forecast_route fsum fpow today origin_city destination_city days h =
     checked (1 \<le> days \<and> days \<le> 30)
       (Inr (get_forecast fsum fpow today
          \<lparr>oq_origin_city = or_str origin_city (Some []), oq_destination_city = or_str destination_city (Some []),
           oq_count = 0, oq_days = Some (nat days)\<rparr> h))"

text \<open>The grouped counts of the database are the argument \<open>rows\<close>.\<close>

definition train_forecast_route :: "(string option \<times> string option \<times> rat) list \<Rightarrow> history \<Rightarrow> history \<times> nat" where
  "train_forecast_route rows h = train_rows rows h"

section \<open>A server\<close>

record tms_lib =
  tl_jwt :: jwt_lib
  tl_set_repr :: "string list \<Rightarrow> string"
  tl_cache_up :: bool

record tms_server =
  sv_db :: tms_db
  sv_routes :: route_cache
  sv_history :: history

text \<open>The requests that may change something.\<close>

datatype tms_request =
    NewTransport transport_req
  | TransportStatus string string
  | Track tracking_req
  | TrackOrder string "string option" tracking_req
  | Pod string pod_req
  | ChangePod string pod_req
  | NewReturn return_req
  | ReturnStatusTo string "string option"
  | NewException exception_req
  | ResolveException string
  | OrderException string exception_req
  | ResolveExc string "string option"
  | NewTier freight_tier_req
  | NewDevice "string option" device_req
  | ChangeDevice "string option" string device_update
  | Heartbeat string
  | NewSession "string option" string
  | EndSession "string option" string string
  | Sync string sync_req
  | NewHub hub_req
  | ChangeHub string hub_update
  | NewCarrierRoute carrier_route_req
  | NewConnection hub_connection_req
  | NewSegment segment_req
  | SegmentStatusTo string string
  | Plan string string
  | Observe forecast_req
  | Train "(string option \<times> string option \<times> rat) list"

definition stored :: "tms_server \<Rightarrow> (tms_db \<times> 'v) result \<Rightarrow> tms_server \<times> exn option" where
  "stored s x = (case x of Inl e \<Rightarrow> (s, Some e) | Inr (d, v) \<Rightarrow> (s\<lparr>sv_db := d\<rparr>, None))"

fun serve_tms :: "tms_lib \<Rightarrow> env \<Rightarrow> tms_request \<Rightarrow> tms_server \<Rightarrow> (tms_server \<times> exn option) option" where
  "serve_tms lib env (NewTransport data) s = Some (stored s (create_transport_order_route env data (sv_db s)))"
| "serve_tms lib env (TransportStatus i st) s = Some (stored s (update_transport_order_status_route env i st (sv_db s)))"
| "serve_tms lib env (Track data) s = Some (stored s (record_tracking_event_route env data (sv_db s)))"
| "serve_tms lib env (TrackOrder i j data) s = Some (stored s (create_tracking_event_route env i j data (sv_db s)))"
| "serve_tms lib env (Pod i data) s = Some (stored s (create_pod_route env i data (sv_db s)))"
| "serve_tms lib env (ChangePod i data) s = Some (stored s (update_pod_route env i data (sv_db s)))"
| "serve_tms lib env (NewReturn data) s = Some (stored s (create_return_order_route env data (sv_db s)))"
| "serve_tms lib env (ReturnStatusTo i target) s = Some (stored s (update_return_status_route (tl_set_repr lib) env i target (sv_db s)))"
| "serve_tms lib env (NewException data) s = Some (stored s (create_exception_route env data (sv_db s)))"
| "serve_tms lib env (ResolveException i) s = Some (stored s (resolve_exception_route env i (sv_db s)))"
| "serve_tms lib env (OrderException i data) s = Some (stored s (create_order_exception_route env i data (sv_db s)))"
| "serve_tms lib env (ResolveExc i t) s = Some (stored s (resolve_exc_route env i t (sv_db s)))"
| "serve_tms lib env (NewTier data) s = Some (stored s (create_freight_tier_route env data (sv_db s)))"
| "serve_tms lib env (NewDevice cr data) s = Some (stored s (register_device_route (tl_jwt lib) env cr data (sv_db s)))"
| "serve_tms lib env (ChangeDevice cr i data) s = Some (stored s (update_device_route (tl_jwt lib) env cr i data (sv_db s)))"
| "serve_tms lib env (Heartbeat i) s = Some (stored s (heartbeat_route env i (sv_db s)))"
| "serve_tms lib env (NewSession cr i) s = Some (stored s (create_session_route (tl_jwt lib) env cr i (sv_db s)))"
| "serve_tms lib env (EndSession cr i j) s = Some (stored s (end_session_route (tl_jwt lib) env cr i j (sv_db s)))"
| "serve_tms lib env (Sync i data) s = Some (stored s (record_sync_route env i data (sv_db s)))"
| "serve_tms lib env (NewHub data) s = Some (stored s (create_hub_route env data (sv_db s)))"
| "serve_tms lib env (ChangeHub i data) s = Some (stored s (update_hub_route env i data (sv_db s)))"
| "serve_tms lib env (NewCarrierRoute data) s = Some (stored s (add_carrier_route_route env data (sv_db s)))"
| "serve_tms lib env (NewConnection data) s = Some (stored s (add_hub_connection_route env data (sv_db s)))"
| "serve_tms lib env (NewSegment data) s = Some (stored s (create_segment_route env data (sv_db s)))"
| "serve_tms lib env (SegmentStatusTo i st) s = Some (stored s (update_segment_status_route env i st (sv_db s)))"
| "serve_tms lib env (Plan i ty) s =
     (case generate_route_plan_route env (tl_cache_up lib) i ty (sv_routes s) (sv_db s) of
        None \<Rightarrow> None
      | Some (Inl e) \<Rightarrow> Some (s, Some e)
      | Some (Inr (rc, d, v)) \<Rightarrow> Some (s\<lparr>sv_routes := rc, sv_db := d\<rparr>, None))"
| "serve_tms lib env (Observe data) s = Some (s\<lparr>sv_history := fst (record_forecast_observation_route data (sv_history s))\<rparr>, None)"
| "serve_tms lib env (Train rows) s = Some (s\<lparr>sv_history := fst (train_forecast_route rows (sv_history s))\<rparr>, None)"

text \<open>The identifiers of new rows are those of no stored order and no stored hub.\<close>

definition unused_ids :: "env \<Rightarrow> 'a tms_db_scheme \<Rightarrow> bool" where
  "unused_ids env d \<longleftrightarrow> new_uuid env d \<notin> pk ` set (transport_orders d) \<union> pk ` set (transfer_hubs d)"

inductive tms_served :: "tms_lib \<Rightarrow> tms_server \<Rightarrow> bool" for lib where
  start: "transport_orders (sv_db s) = [] \<Longrightarrow> pod_records (sv_db s) = [] \<Longrightarrow> transfer_hubs (sv_db s) = [] \<Longrightarrow>
    hub_connections (sv_db s) = [] \<Longrightarrow> carrier_routes (sv_db s) = [] \<Longrightarrow> return_orders (sv_db s) = [] \<Longrightarrow>
    terminal_devices (sv_db s) = [] \<Longrightarrow> device_sessions (sv_db s) = [] \<Longrightarrow> sync_logs (sv_db s) = [] \<Longrightarrow> tms_served lib s"
| request: "tms_served lib s \<Longrightarrow> unused_ids env (sv_db s) \<Longrightarrow> serve_tms lib env r s = Some (s', e) \<Longrightarrow> tms_served lib s'"

section \<open>What the requests leave alone\<close>

text \<open>The tables that an invariant reads, and the operations that do not write them.\<close>

definition tms_inv :: "'a tms_db_scheme \<Rightarrow> bool" where
  "tms_inv d \<longleftrightarrow> distinct (map pk (transport_orders d)) \<and> transports_inv d \<and> planner_inv d \<and> returns_inv d \<and> devices_inv d"

lemma transports_inv_cong:
  "transport_orders d' = transport_orders d \<Longrightarrow> pod_records d' = pod_records d \<Longrightarrow> transports_inv d' = transports_inv d"
  by (simp add: transports_inv_def)

lemma returns_inv_cong: "return_orders d' = return_orders d \<Longrightarrow> returns_inv d' = returns_inv d"
  by (simp add: returns_inv_def)

lemma devices_inv_cong:
  "terminal_devices d' = terminal_devices d \<Longrightarrow> device_sessions d' = device_sessions d \<Longrightarrow> sync_logs d' = sync_logs d \<Longrightarrow>
   devices_inv d' = devices_inv d"
  by (simp add: devices_inv_def)

text \<open>One table group for each invariant.\<close>

definition transport_tables :: "'a tms_db_scheme \<Rightarrow> transport_order list \<times> proof_of_delivery list" where
  "transport_tables d = (transport_orders d, pod_records d)"

definition network_tables :: "'a tms_db_scheme \<Rightarrow> transfer_hub list \<times> hub_connection list \<times> carrier_route list" where
  "network_tables d = (transfer_hubs d, hub_connections d, carrier_routes d)"

definition device_tables :: "'a tms_db_scheme \<Rightarrow> terminal_device list \<times> device_session list \<times> sync_log list" where
  "device_tables d = (terminal_devices d, device_sessions d, sync_logs d)"

lemmas table_groups = transport_tables_def network_tables_def device_tables_def

definition same_but_transports :: "'a tms_db_scheme \<Rightarrow> 'a tms_db_scheme \<Rightarrow> bool" where
  "same_but_transports d' d \<longleftrightarrow>
     network_tables d' = network_tables d \<and> return_orders d' = return_orders d \<and> device_tables d' = device_tables d"

definition same_but_network :: "'a tms_db_scheme \<Rightarrow> 'a tms_db_scheme \<Rightarrow> bool" where
  "same_but_network d' d \<longleftrightarrow>
     transport_tables d' = transport_tables d \<and> return_orders d' = return_orders d \<and> device_tables d' = device_tables d"

definition same_but_returns :: "'a tms_db_scheme \<Rightarrow> 'a tms_db_scheme \<Rightarrow> bool" where
  "same_but_returns d' d \<longleftrightarrow>
     transport_tables d' = transport_tables d \<and> network_tables d' = network_tables d \<and> device_tables d' = device_tables d"

definition same_but_devices :: "'a tms_db_scheme \<Rightarrow> 'a tms_db_scheme \<Rightarrow> bool" where
  "same_but_devices d' d \<longleftrightarrow>
     transport_tables d' = transport_tables d \<and> network_tables d' = network_tables d \<and> return_orders d' = return_orders d"

lemmas same_defs = same_but_transports_def same_but_network_def same_but_returns_def same_but_devices_def table_groups

lemma planner_inv_network_cong:
  "network_tables d' = network_tables d \<Longrightarrow>
   (\<And>x. x \<in> set (transport_orders d') \<Longrightarrow> \<exists>y\<in>set (transport_orders d). tr_total_weight_kg x = tr_total_weight_kg y) \<Longrightarrow>
   planner_inv d \<Longrightarrow> planner_inv d'"
  unfolding planner_inv_def costs_ok_def network_inv_def network_tables_def prod.inject by metis

text \<open>Each invariant survives what leaves its tables alone.\<close>

lemma inv_rest:
  "same_but_transports d' d \<Longrightarrow> tms_inv d \<Longrightarrow> distinct (map pk (transport_orders d')) \<Longrightarrow> transports_inv d' \<Longrightarrow> planner_inv d' \<Longrightarrow>
     tms_inv d'"
  "same_but_network d' d \<Longrightarrow> tms_inv d \<Longrightarrow> planner_inv d' \<Longrightarrow> tms_inv d'"
  "same_but_returns d' d \<Longrightarrow> tms_inv d \<Longrightarrow> returns_inv d' \<Longrightarrow> tms_inv d'"
  "same_but_devices d' d \<Longrightarrow> tms_inv d \<Longrightarrow> devices_inv d' \<Longrightarrow> tms_inv d'"
  using planner_inv_network_cong[of d' d]
  by (auto simp: tms_inv_def same_defs transports_inv_cong[of d' d] returns_inv_cong[of d' d] devices_inv_cong[of d' d])

section \<open>Transport requests\<close>

lemma created_event_same [simp]:
  "network_tables (created_event env tq ord d) = network_tables d" "return_orders (created_event env tq ord d) = return_orders d"
  "device_tables (created_event env tq ord d) = device_tables d"
  by (simp_all add: created_event_def table_groups tick_def split: sum.splits)

lemma create_transport_order_same:
  assumes "create_transport_order env tq d = Inr (d', ord)"
  shows "same_but_transports d' d" "pk ord = new_uuid env d"
proof -
  from assms obtain t where n: "new_transport env tq d = Inr ord"
    and d': "d' = created_event env tq ord ((tick (tick d))\<lparr>transport_orders := t\<rparr>)"
    by (auto simp: create_transport_order_def)
  show "same_but_transports d' d" by (simp add: d' same_but_transports_def) (simp add: table_groups tick_def)
  show "pk ord = new_uuid env d" using n by (auto simp: new_transport_def)
qed

lemma change_transport_status_same:
  "change_transport_status env i st d = Inr (d', ord) \<Longrightarrow> same_but_transports d' d"
  by (erule change_transport_statusE) (simp add: same_defs)

lemma create_tracking_event_same:
  assumes "create_tracking_event env kq d = Inr (d', ev)"
  shows "same_but_transports d' d"
proof -
  from assms obtain ord where
    "d' = note_delivery env (kq_event_type kq) ord ((tick d)\<lparr>tracking_events := insert_row ev (tracking_events d)\<rparr>)"
    by (auto simp: create_tracking_event_def)
  then show ?thesis by (simp add: note_delivery_def same_defs tick_def)
qed

lemma create_pod_same:
  assumes "create_pod env call d = Inr (d', p)"
  shows "same_but_transports d' d \<and> transport_orders d' = transport_orders d"
  using assms by (cases rule: create_pod_cases) (simp_all add: same_defs tick_def)

lemma update_pod_same:
  assumes "update_pod env i pq d = Inr (d', p)"
  shows "same_but_transports d' d \<and> transport_orders d' = transport_orders d"
  using assms by (rule update_podE) (simp add: same_defs)

lemma transport_step_kept:
  assumes "transport_step d d'" "same_but_transports d' d" "tms_inv d" "planner_inv d'"
  shows "tms_inv d'"
proof (rule inv_rest(1)[OF assms(2,3) _ _ assms(4)])
  have i: "distinct (map pk (transport_orders d))" "transports_inv d" using assms(3) by (simp_all add: tms_inv_def)
  show "distinct (map pk (transport_orders d'))" by (rule transport_step_pks[OF assms(1) i(1)])
  show "transports_inv d'" using assms(1) i
    by (cases rule: transport_step.cases)
      (auto intro: create_transport_order_inv change_transport_status_inv create_tracking_event_inv create_pod_inv update_pod_inv)
qed

lemma create_transport_order_kept:
  assumes "create_transport_order env tq d = Inr (d', ord)" "transport_req_schema_ok tq" "unused_ids env d" "tms_inv d"
  shows "tms_inv d'"
proof (rule transport_step_kept)
  note c = create_transport_order_same[OF assms(1)]
  show "transport_step d d'" using assms(3) c(2) by (intro transport_step.created[OF assms(1)]) (simp add: unused_ids_def)
  show "same_but_transports d' d" by (rule c(1))
  show "planner_inv d'" using assms(4)
    by (intro planner_step_inv[OF planner_step.order_created[OF assms(1,2)]]) (simp add: tms_inv_def)
qed (rule assms(4))

lemma change_transport_status_kept:
  assumes "change_transport_status env i st d = Inr (d', ord)" "tms_inv d"
  shows "tms_inv d'"
proof (rule transport_step_kept)
  show "transport_step d d'" by (rule transport_step.status_changed[OF assms(1)])
  show "same_but_transports d' d" by (rule change_transport_status_same[OF assms(1)])
  show "planner_inv d'" using assms(2)
    by (intro planner_step_inv[OF planner_step.status_changed[OF assms(1)]]) (simp add: tms_inv_def)
qed (rule assms(2))

lemma create_tracking_event_kept:
  assumes "create_tracking_event env kq d = Inr (d', ev)" "tms_inv d"
  shows "tms_inv d'"
proof (rule transport_step_kept)
  show "transport_step d d'" by (rule transport_step.tracked[OF assms(1)])
  show s: "same_but_transports d' d" by (rule create_tracking_event_same[OF assms(1)])
  show "planner_inv d'"
  proof (rule planner_inv_network_cong)
    show "network_tables d' = network_tables d" using s by (simp add: same_but_transports_def)
    show "\<exists>y\<in>set (transport_orders d). tr_total_weight_kg x = tr_total_weight_kg y" if "x \<in> set (transport_orders d')" for x
    proof (rule create_tracking_event_transports[OF assms(1)])
      fix ord :: transport_order
      assume "transport_orders d' = transport_orders d \<or>
        transport_orders d' = update_where (\<lambda>x. pk x = pk ord)
          (\<lambda>x. x\<lparr>tr_actual_delivery_time := Some (now env), updated_at := now env\<rparr>) (transport_orders d)"
      then have "map tr_total_weight_kg (transport_orders d') = map tr_total_weight_kg (transport_orders d)"
        by (auto simp: update_where_def)
      then have "tr_total_weight_kg ` set (transport_orders d') = tr_total_weight_kg ` set (transport_orders d)"
        by (metis set_map)
      with that show ?thesis by (metis imageE imageI)
    qed
    show "planner_inv d" using assms(2) by (simp add: tms_inv_def)
  qed
qed (rule assms(2))

lemma same_orders_planner:
  assumes "same_but_transports d' d" "transport_orders d' = transport_orders d" "tms_inv d"
  shows "planner_inv d'"
  by (rule planner_inv_network_cong[of d' d]) (use assms in \<open>auto simp: same_but_transports_def tms_inv_def\<close>)

lemma create_pod_kept:
  assumes "create_pod env call d = Inr (d', p)" "tms_inv d"
  shows "tms_inv d'"
proof -
  from create_pod_same[OF assms(1)] have s: "same_but_transports d' d" "transport_orders d' = transport_orders d" by simp_all
  show ?thesis by (rule transport_step_kept[OF transport_step.pod_created[OF assms(1)] s(1) assms(2) same_orders_planner[OF s assms(2)]])
qed

lemma update_pod_kept:
  assumes "update_pod env i pq d = Inr (d', p)" "tms_inv d"
  shows "tms_inv d'"
proof -
  from update_pod_same[OF assms(1)] have s: "same_but_transports d' d" "transport_orders d' = transport_orders d" by simp_all
  show ?thesis by (rule transport_step_kept[OF transport_step.pod_updated[OF assms(1)] s(1) assms(2) same_orders_planner[OF s assms(2)]])
qed

section \<open>Network requests\<close>

lemma network_kept:
  assumes "planner_step d d'" "same_but_network d' d" "tms_inv d"
  shows "tms_inv d'"
  using inv_rest(2)[OF assms(2,3) planner_step_inv[OF assms(1)]] assms(3) by (simp add: tms_inv_def)

lemma create_hub_kept:
  assumes "create_hub env hq d = Inr (d', h)" "hub_req_schema_ok hq" "unused_ids env d" "tms_inv d"
  shows "tms_inv d'"
proof -
  from assms(1) have d': "d' = (tick d)\<lparr>transfer_hubs := transfer_hubs d @ [h]\<rparr>" and h: "pk h = new_uuid env d"
    by (auto simp: create_hub_def Let_def insert_row_def)
  have "planner_step d d'" using assms(3) h by (intro planner_step.hub_created[OF assms(1,2)]) (simp add: unused_ids_def)
  then show ?thesis by (rule network_kept) (use assms(4) in \<open>simp_all add: d' same_defs tick_def\<close>)
qed

lemma update_hub_kept:
  assumes "update_hub env i hu d = Inr (d', h)" "tms_inv d"
  shows "tms_inv d'"
proof -
  from assms(1) obtain t where d': "d' = d\<lparr>transfer_hubs := t\<rparr>" by (auto simp: update_hub_def)
  show ?thesis by (rule network_kept[OF planner_step.hub_updated[OF assms(1)]]) (use assms(2) in \<open>simp_all add: d' same_defs\<close>)
qed

lemma add_carrier_route_kept:
  assumes "add_carrier_route env rq d = Inr (d', r)" "carrier_route_schema_ok rq" "tms_inv d"
  shows "tms_inv d'"
proof -
  from assms(1) have d': "d' = (tick d)\<lparr>carrier_routes := carrier_routes d @ [r]\<rparr>"
    by (auto simp: add_carrier_route_def Let_def insert_row_def)
  show ?thesis
    by (rule network_kept[OF planner_step.route_added[OF assms(1,2)]]) (use assms(3) in \<open>simp_all add: d' same_defs tick_def\<close>)
qed

lemma add_hub_connection_kept:
  assumes "add_hub_connection env cq d = Inr (d', c)" "hub_connection_schema_ok cq" "tms_inv d"
  shows "tms_inv d'"
proof -
  from assms(1) have d': "d' = (tick d)\<lparr>hub_connections := hub_connections d @ [c]\<rparr>"
    by (auto simp: add_hub_connection_def Let_def insert_row_def)
  show ?thesis
    by (rule network_kept[OF planner_step.connection_added[OF assms(1,2)]]) (use assms(3) in \<open>simp_all add: d' same_defs tick_def\<close>)
qed

lemma add_plan_segments_same: "same_but_network (fst (add_plan_segments env oid ss d)) d"
  by (induction ss arbitrary: d) (simp_all add: Let_def case_prod_beta same_defs tick_def)

lemma generate_route_plan_kept:
  assumes "generate_route_plan env up i ty rc d = Some (Inr (rc', d', v))" "tms_inv d"
  shows "tms_inv d'"
proof (rule network_kept[OF planner_step.plan_generated[OF assms(1)] _ assms(2)])
  from assms(1) obtain oid r where "store_plan env oid ty r d = Inr (d', v)"
    by (auto simp: generate_route_plan_def split: option.splits sum.splits)
  then obtain t where "d' = fst (add_plan_segments env oid (ro_segments r) ((tick d)\<lparr>route_plans := t\<rparr>))"
    by (auto simp: store_plan_def case_prod_beta Let_def)
  with add_plan_segments_same[of env oid "ro_segments r" "(tick d)\<lparr>route_plans := t\<rparr>"] show "same_but_network d' d"
    by (simp add: same_defs tick_def)
qed

section \<open>Other requests\<close>

lemma returns_kept:
  assumes "return_db_step d d'" "same_but_returns d' d" "tms_inv d"
  shows "tms_inv d'"
  using inv_rest(3)[OF assms(2,3) return_db_step_inv[OF assms(1)]] assms(3) by (simp add: tms_inv_def)

lemma create_return_order_kept:
  assumes "create_return_order env data d = Inr (d', r)" "tms_inv d"
  shows "tms_inv d'"
proof -
  from assms(1) have d': "d' = (tick d)\<lparr>return_orders := return_orders d @ [r]\<rparr>"
    by (auto simp: create_return_order_def Let_def insert_row_def)
  show ?thesis
    by (rule returns_kept[OF return_db_step.created[OF assms(1)]]) (use assms(2) in \<open>simp_all add: d' same_defs tick_def\<close>)
qed

lemma update_return_status_kept:
  assumes "update_return_status sr env i target d = Inr (d', r)" "tms_inv d"
  shows "tms_inv d'"
proof -
  from assms(1) obtain ret st sh where "put_return env ret st sh d = (d', r)" by (auto simp: update_return_status_def)
  then have "same_but_returns d' d" by (auto simp: put_return_def same_defs)
  then show ?thesis by (rule returns_kept[OF return_db_step.updated[OF assms(1)]]) (rule assms(2))
qed

lemma devices_kept:
  assumes "device_step d d'" "same_but_devices d' d" "tms_inv d"
  shows "tms_inv d'"
  using inv_rest(4)[OF assms(2,3) device_step_inv[OF assms(1)]] assms(3) by (simp add: tms_inv_def)

lemma put_device_same [simp]: "same_but_devices (put_device dev dev' d) d2 = same_but_devices d d2"
  by (simp add: put_device_def same_defs)

lemma device_step_same: "device_step d d' \<Longrightarrow> same_but_devices d' d"
proof (induction rule: device_step.induct)
  case (registered env data d d' dev)
  then have "d' = (tick d)\<lparr>terminal_devices := terminal_devices d @ [dev]\<rparr>"
    by (auto simp: register_device_def Let_def insert_row_def)
  then show ?case by (simp add: same_defs tick_def)
next
  case (updated env i udata d d' dev)
  then obtain x where "d' = put_device x dev d" by (auto simp: update_device_def)
  then show ?case by (simp add: same_defs put_device_def)
next
  case (beat env i d d' v)
  then obtain x y where "d' = put_device x y d" by (auto simp: record_heartbeat_def)
  then show ?case by (simp add: same_defs put_device_def)
next
  case (synced env i ydata d d' l)
  then obtain x y where "d' = put_device x y ((tick d)\<lparr>sync_logs := insert_row l (sync_logs d)\<rparr>)"
    by (auto simp: record_sync_def)
  then show ?case by (simp add: same_defs tick_def put_device_def)
next
  case (opened env i ip d d' s)
  then obtain x y where "d' = put_device x y ((tick d)\<lparr>device_sessions := insert_row s (device_sessions d)\<rparr>)"
    by (auto simp: create_session_def Let_def)
  then show ?case by (simp add: same_defs tick_def put_device_def)
next
  case (ended env i si d d' s)
  then obtain t where "d' = d\<lparr>device_sessions := t\<rparr>" by (auto simp: end_session_def Let_def)
  then show ?case by (simp add: same_defs)
qed

text \<open>Exceptions, tiers and segments are in no invariant.\<close>

lemma untouched_kept: "same_but_devices d' d \<Longrightarrow> device_tables d' = device_tables d \<Longrightarrow> tms_inv d \<Longrightarrow> tms_inv d'"
  using inv_rest(4)[of d' d] devices_inv_cong[of d' d] by (simp add: tms_inv_def device_tables_def)

lemma create_exception_kept:
  assumes "create_exception env data d = Inr (d', x)" "tms_inv d"
  shows "tms_inv d'"
proof -
  from assms(1) have d': "d' = (tick d)\<lparr>transport_exceptions := insert_row x (transport_exceptions d)\<rparr>"
    by (auto simp: create_exception_def Let_def)
  show ?thesis by (rule untouched_kept[of d' d]) (use assms(2) in \<open>simp_all add: d' same_defs tick_def\<close>)
qed

lemma resolve_exception_kept:
  assumes "resolve_exception env i rn d = Inr (d', x)" "tms_inv d"
  shows "tms_inv d'"
proof -
  from assms(1) obtain t where d': "d' = d\<lparr>transport_exceptions := t\<rparr>" by (auto simp: resolve_exception_def Let_def)
  show ?thesis by (rule untouched_kept[of d' d]) (use assms(2) in \<open>simp_all add: d' same_defs\<close>)
qed

lemma create_freight_tier_kept:
  assumes "create_freight_tier env data d = Inr (d', x)" "tms_inv d"
  shows "tms_inv d'"
proof -
  from assms(1) have d': "d' = (tick d)\<lparr>freight_tiers := insert_row x (freight_tiers d)\<rparr>"
    by (auto simp: create_freight_tier_def Let_def)
  show ?thesis by (rule untouched_kept[of d' d]) (use assms(2) in \<open>simp_all add: d' same_defs tick_def\<close>)
qed

lemma create_segment_kept:
  assumes "create_segment env data d = Inr (d', x)" "tms_inv d"
  shows "tms_inv d'"
proof -
  from assms(1) have d': "d' = (tick d)\<lparr>transport_segments := insert_row x (transport_segments d)\<rparr>"
    by (auto simp: create_segment_def Let_def)
  show ?thesis by (rule untouched_kept[of d' d]) (use assms(2) in \<open>simp_all add: d' same_defs tick_def\<close>)
qed

lemma update_segment_status_kept:
  assumes "update_segment_status env i st d = Inr (d', x)" "tms_inv d"
  shows "tms_inv d'"
proof -
  from assms(1) obtain t where d': "d' = d\<lparr>transport_segments := t\<rparr>" by (auto simp: update_segment_status_def)
  show ?thesis by (rule untouched_kept[of d' d]) (use assms(2) in \<open>simp_all add: d' same_defs\<close>)
qed

section \<open>Every request\<close>

lemma stored_kept:
  assumes "\<And>d v. x = Inr (d, v) \<Longrightarrow> P d" "P (sv_db s)" "Some (stored s x) = Some (s', e)"
  shows "P (sv_db s')"
  using assms by (auto simp: stored_def split: sum.splits prod.splits)

lemmas device_request_defs = register_device_route_def update_device_route_def heartbeat_route_def create_session_route_def
  end_session_route_def record_sync_route_def

lemma device_requests_kept:
  assumes "tms_inv d"
  shows "register_device_route jwt env cr data d = Inr (d1, v1) \<Longrightarrow> tms_inv d1"
    "update_device_route jwt env cr i udata d = Inr (d2, v2) \<Longrightarrow> tms_inv d2"
    "heartbeat_route env i d = Inr (d3, v3) \<Longrightarrow> tms_inv d3"
    "create_session_route jwt env cr i d = Inr (d4, v4) \<Longrightarrow> tms_inv d4"
    "end_session_route jwt env cr i j d = Inr (d5, v5) \<Longrightarrow> tms_inv d5"
    "record_sync_route env i ydata d = Inr (d6, v6) \<Longrightarrow> tms_inv d6"
  using assms devices_kept[OF _ device_step_same] device_step.intros unfolding device_request_defs caught_Inr authenticated_Inr
  by metis+

lemma transport_requests_kept:
  assumes "tms_inv d" "unused_ids env d"
  shows "create_transport_order_route env tq d = Inr (d1, v1) \<Longrightarrow> tms_inv d1"
    "update_transport_order_status_route env i st d = Inr (d2, v1) \<Longrightarrow> tms_inv d2"
    "record_tracking_event_route env kq d = Inr (d3, v3) \<Longrightarrow> tms_inv d3"
    "create_tracking_event_route env i j kq d = Inr (d4, v3) \<Longrightarrow> tms_inv d4"
    "create_pod_route env i pq d = Inr (d5, v5) \<Longrightarrow> tms_inv d5"
    "update_pod_route env i pq d = Inr (d6, v5) \<Longrightarrow> tms_inv d6"
    "create_return_order_route env eq d = Inr (d7, v7) \<Longrightarrow> tms_inv d7"
    "update_return_status_route sr env i target d = Inr (d8, v7) \<Longrightarrow> tms_inv d8"
    "create_exception_route env xq d = Inr (d9, v9) \<Longrightarrow> tms_inv d9"
    "resolve_exception_route env i d = Inr (d10, v9) \<Longrightarrow> tms_inv d10"
    "create_order_exception_route env i xq d = Inr (d11, v9) \<Longrightarrow> tms_inv d11"
    "resolve_exc_route env i rn d = Inr (d12, v9) \<Longrightarrow> tms_inv d12"
  using assms
  unfolding create_transport_order_route_def update_transport_order_status_route_def record_tracking_event_route_def
    create_tracking_event_route_def create_pod_route_def update_pod_route_def create_return_order_route_def
    update_return_status_route_def create_exception_route_def resolve_exception_route_def create_order_exception_route_def
    resolve_exc_route_def caught_Inr checked_Inr
  by (blast intro: create_transport_order_kept change_transport_status_kept create_tracking_event_kept create_pod_kept
      update_pod_kept create_return_order_kept update_return_status_kept create_exception_kept resolve_exception_kept)+

lemma network_requests_kept:
  assumes "tms_inv d" "unused_ids env d"
  shows "create_freight_tier_route env fq d = Inr (d1, v1) \<Longrightarrow> tms_inv d1"
    "create_hub_route env hq d = Inr (d2, v2) \<Longrightarrow> tms_inv d2"
    "update_hub_route env i hu d = Inr (d3, v2) \<Longrightarrow> tms_inv d3"
    "add_carrier_route_route env rq d = Inr (d4, v4) \<Longrightarrow> tms_inv d4"
    "add_hub_connection_route env nq d = Inr (d5, v5) \<Longrightarrow> tms_inv d5"
    "create_segment_route env gq d = Inr (d6, v6) \<Longrightarrow> tms_inv d6"
    "update_segment_status_route env i st d = Inr (d7, v6) \<Longrightarrow> tms_inv d7"
  using assms
  unfolding create_freight_tier_route_def create_hub_route_def update_hub_route_def add_carrier_route_route_def
    add_hub_connection_route_def create_segment_route_def update_segment_status_route_def caught_Inr checked_Inr
  by (blast intro: create_freight_tier_kept create_hub_kept update_hub_kept add_carrier_route_kept add_hub_connection_kept
      create_segment_kept update_segment_status_kept)+

lemmas requests_kept = transport_requests_kept network_requests_kept

lemma generate_route_plan_total:
  assumes "costs_ok d"
  shows "generate_route_plan env up i ty rc d \<noteq> None"
proof -
  have "find_best_route_plan up rc i d \<noteq> None"
    using find_best_route_plan_impl_total[OF assms, of i]
    by (auto simp: find_best_route_plan_def Let_def split: option.splits sum.splits)
  then show ?thesis by (auto simp: generate_route_plan_def split: option.splits sum.splits)
qed

lemma plan_request_kept:
  "serve_tms lib env (Plan i ty) s = Some (s', e) \<Longrightarrow> tms_inv (sv_db s) \<Longrightarrow> tms_inv (sv_db s')"
  by (auto simp: generate_route_plan_route_def caught_def split: option.splits sum.splits prod.splits
      dest: generate_route_plan_kept)

lemma forecast_request_kept:
  "serve_tms lib env (Observe oq) s = Some (s', e) \<Longrightarrow> tms_inv (sv_db s) \<Longrightarrow> tms_inv (sv_db s')"
  "serve_tms lib env (Train rows) s = Some (s', e) \<Longrightarrow> tms_inv (sv_db s) \<Longrightarrow> tms_inv (sv_db s')"
  by auto

lemma serve_tms_inv:
  assumes "serve_tms lib env r s = Some (s', e)" "tms_inv (sv_db s)" "unused_ids env (sv_db s)"
  shows "tms_inv (sv_db s')"
proof -
  note k = requests_kept[OF assms(2,3)] device_requests_kept[OF assms(2)]
  note st = stored_kept[where P = tms_inv, OF _ assms(2)]
  show ?thesis
    by (insert assms(1), cases r; hypsubst; ((erule plan_request_kept forecast_request_kept, rule assms(2))
          | (simp only: serve_tms.simps, erule st[rotated], erule k)))
qed

end
