(* ===== verification/Route_Properties.thy ===== *)
theory Route_Properties
  imports Account_Properties Oms_Routes Tms_Routes Samples
begin

text \<open>
  Properties of whole sequences of requests to the order and transport routes: every request is
  answered, and what the services promise one call at a time holds of every history.
\<close>

section \<open>Orders\<close>

lemma serve_orders_take:
  "serve_orders jwt (xs @ ys) d = serve_orders jwt ys (serve_orders jwt xs d)"
  by (induction xs arbitrary: d) auto

lemma serve_orders_reach:
  assumes "\<forall>x\<in>set rs. uuid4 (ow_env (fst x)) = u" "\<forall>k\<le>length rs. drawn (serve_orders jwt (take k rs) d0) \<le> cap"
  shows "oms_reachable u cap d0 (serve_orders jwt rs d0)"
  using assms
proof (induction rs rule: rev_induct)
  case (snoc x rs)
  obtain w r where x: "x = (w, r)" by fastforce
  have "\<forall>k\<le>length rs. drawn (serve_orders jwt (take k rs) d0) \<le> cap"
  proof (intro allI impI)
    fix k assume "k \<le> length rs"
    with snoc.prems(2)[rule_format, of k] show "drawn (serve_orders jwt (take k rs) d0) \<le> cap" by simp
  qed
  with snoc have r: "oms_reachable u cap d0 (serve_orders jwt rs d0)" by simp
  let ?d = "serve_orders jwt rs d0"
  have e: "serve_orders jwt (rs @ [x]) d0 = fst (serve_oms jwt w r ?d)" by (simp add: serve_orders_take x)
  have "drawn (fst (serve_oms jwt w r ?d)) \<le> cap" using snoc.prems(2)[rule_format, of "length (rs @ [x])"] e by simp
  moreover have "uuid4 (ow_env w) = u" using snoc.prems(1) x by simp
  ultimately have "fst (serve_oms jwt w r ?d) = ?d \<or> oms_step u cap ?d (fst (serve_oms jwt w r ?d))"
    using serve_oms_step by blast
  with r show ?case unfolding e by (metis reach_step)
qed (simp add: reach_refl)

definition world0 :: oms_world where
  "world0 = \<lparr>ow_env = env0, ow_token = Some (create_access_token plain_jwt 1000 (Some ''ann'') None), ow_http = (\<lambda>_ _. None),
     ow_failed_flush = None\<rparr>"

definition form0 :: order_form where
  "form0 = \<lparr>of_order_no = Some ''PO-17'', of_customer_id = Some ''ACME'', of_total_amount = Some ''250''\<rparr>"

lemma world0_token: "get_current_user plain_jwt (now env0) (ow_token world0) =
    Inr \<lparr>cl_sub = Some ''ann'', cl_uid = None, cl_exp = seconds 1000 + 3600\<rparr>"
  unfolding world0_def by (simp, rule access_token_accepted) (simp_all add: plain_jwt_contract)

lemma form0_order:
  obtains d v where "admin_create_order plain_jwt env0 (ow_token world0) form0 empty_db = Inr (d, v)" "drawn d \<le> 10"
proof -
  have "\<exists>d v. create_order env0 \<lparr>rq_customer_id = ''ACME'', rq_items = [], rq_priority = None, rq_notes = None\<rparr> empty_db = Inr (d, v) \<and>
      drawn d \<le> 10"
    by (simp add: create_order_def get_or_create_customer_def empty_db_def sample_eval add_status_log_def append_event_def req_total_def)
  then show thesis using that world0_token by (auto simp: admin_create_order_def form0_def)
qed

text \<open>
  C5: Whatever requests reach the order routes and the order forms, and whatever tokens they carry,
  the status log of every order stays a run of the order state machine from draft that ends in its
  stored status, repeats no status and has at most four steps.
\<close>

theorem order_requests_keep_histories:
  assumes "oms_inv env cap d0" "\<forall>x\<in>set rs. uuid4 (ow_env (fst x)) = uuid4 env"
    and "\<forall>k\<le>length rs. drawn (serve_orders jwt (take k rs) d0) \<le> cap"
    and "o' \<in> set (orders (serve_orders jwt rs d0))"
  shows "allowed_path order_states ''draft'' (transitions (serve_orders jwt rs d0) (pk o')) \<and>
    status_reverse (ord_status o') = last (''draft'' # transitions (serve_orders jwt rs d0) (pk o')) \<and>
    length (transitions (serve_orders jwt rs d0) (pk o')) \<le> 4 \<and>
    distinct (''draft'' # transitions (serve_orders jwt rs d0) (pk o'))"
proof -
  have "oms_inv env cap (serve_orders jwt rs d0)"
    by (rule oms_reachable_inv[OF serve_orders_reach[OF assms(2,3)] assms(1) refl])
  with assms(4) have p: "allowed_path order_states ''draft'' (transitions (serve_orders jwt rs d0) (pk o'))"
    "status_reverse (ord_status o') = last (''draft'' # transitions (serve_orders jwt rs d0) (pk o'))"
    by (simp_all add: oms_inv_def history_ok_def)
  then show ?thesis
    using order_lifecycle.path_length[OF p(1)] order_lifecycle.path_distinct[OF p(1)] by (simp add: order_rank_def)
qed

theorem order_requests_keep_histories_witness:
  "\<exists>o'. o' \<in> set (orders (serve_orders plain_jwt [(world0, FormOrder form0)] empty_db)) \<and>
     allowed_path order_states ''draft'' (transitions (serve_orders plain_jwt [(world0, FormOrder form0)] empty_db) (pk o'))"
proof -
  let ?rs = "[(world0, FormOrder form0)]"
  obtain d v where c: "admin_create_order plain_jwt env0 (ow_token world0) form0 empty_db = Inr (d, v)" "drawn d \<le> 10"
    by (rule form0_order)
  have w: "ow_env world0 = env0" by (simp add: world0_def)
  have s: "serve_orders plain_jwt ?rs empty_db = d" by (simp add: kept_def w c)
  have ok: "oms_ok env0 100 empty_db" using sample_oms_inv by (simp add: oms_inv_def)
  from c(1) obtain data where "create_order env0 data empty_db = Inr (d, v)" by (auto simp: admin_create_order_def)
  from create_order_effect(2)[OF this ok] c(2) obtain o' where o': "o' \<in> set (orders d)" by auto
  have "\<forall>k\<le>length ?rs. drawn (serve_orders plain_jwt (take k ?rs) empty_db) \<le> 100"
  proof (intro allI impI)
    fix k assume "k \<le> length ?rs"
    then have "k = 0 \<or> k = 1" by auto
    then show "drawn (serve_orders plain_jwt (take k ?rs) empty_db) \<le> 100" using s c(2) by (auto simp: empty_db_def)
  qed
  then show ?thesis
    using order_requests_keep_histories[OF sample_oms_inv, of ?rs plain_jwt o'] o' unfolding s by (auto simp: w)
qed

text \<open>
  An order entered in the form of the administration has no line and the total zero, whatever number and
  amount the form names.
\<close>

theorem form_orders_are_empty:
  assumes "admin_create_order jwt env cr form d = Inr (d', v)" "oms_ok env cap d" "drawn d' \<le> cap"
  shows "get_order (ov_id v) d' = Inr v \<and> ov_items v = [] \<and> ov_total_amount v = 0 \<and> ov_status v = ''draft''"
proof -
  from assms(1) obtain c where c: "create_order env \<lparr>rq_customer_id = c, rq_items = [], rq_priority = None, rq_notes = None\<rparr> d = Inr (d', v)"
    by (auto simp: admin_create_order_def)
  from create_order_effect(2)[OF this assms(2,3)] obtain order where
    "v = order_to_dict d' order None" "ord_status order = OrderStatus_PENDING" "ord_total_amount order = 0"
    by (auto simp: req_total_def)
  then show ?thesis
    using create_order_get[OF c assms(2,3)] create_order_effect(3)[OF c assms(2,3)] by simp
qed

theorem form_orders_are_empty_witness:
  "\<exists>d v. admin_create_order plain_jwt env0 (ow_token world0) form0 empty_db = Inr (d, v) \<and> ov_items v = [] \<and> ov_total_amount v = 0"
proof -
  obtain d v where c: "admin_create_order plain_jwt env0 (ow_token world0) form0 empty_db = Inr (d, v)" "drawn d \<le> 10"
    by (rule form0_order)
  have "oms_ok env0 100 empty_db" using sample_oms_inv by (simp add: oms_inv_def)
  from form_orders_are_empty[OF c(1) this] c show ?thesis by auto
qed

section \<open>Transports\<close>

lemma tms_served_inv: "tms_served lib s \<Longrightarrow> tms_inv (sv_db s)"
proof (induction rule: tms_served.induct)
  case (start s)
  then show ?case
    by (simp add: tms_inv_def transports_inv_def planner_inv_def costs_ok_def network_inv_def returns_inv_def devices_inv_def)
next
  case (request s env r s' e)
  then show ?case using serve_tms_inv by blast
qed

text \<open>
  C3: After any sequence of requests to the transport routes every further request is answered, the
  search of the planner included, and the tables are consistent: status and times of the orders
  agree, numbers and codes are unique, an order has at most one proof of delivery, no cost is
  negative, and the statuses of returns, sessions and logs fit their times.
\<close>

theorem transport_requests_are_answered:
  assumes "tms_served lib s"
  shows "serve_tms lib env r s \<noteq> None \<and> transports_inv (sv_db s) \<and> planner_inv (sv_db s) \<and> returns_inv (sv_db s) \<and>
    devices_inv (sv_db s)"
proof -
  have i: "tms_inv (sv_db s)" by (rule tms_served_inv[OF assms])
  then have "costs_ok (sv_db s)" by (simp add: tms_inv_def planner_inv_def)
  then have "serve_tms lib env r s \<noteq> None"
    using generate_route_plan_total[of "sv_db s"]
    by (cases r) (auto simp: generate_route_plan_route_def split: option.splits sum.splits)
  with i show ?thesis by (simp add: tms_inv_def)
qed

definition server0 :: tms_server where
  "server0 = \<lparr>sv_db = empty_db, sv_routes = (\<lambda>_. None), sv_history = (\<lambda>_. [])\<rparr>"

theorem transport_requests_are_answered_witness:
  "serve_tms \<lparr>tl_jwt = plain_jwt, tl_set_repr = concat, tl_cache_up = False\<rparr> env0 (Plan (show_uuid 7) ''auto_gen'') server0 \<noteq> None"
proof -
  have "tms_served \<lparr>tl_jwt = plain_jwt, tl_set_repr = concat, tl_cache_up = False\<rparr> server0"
    by (rule tms_served.start) (simp_all add: server0_def)
  from transport_requests_are_answered[OF this] show ?thesis by blast
qed

end
