(* ===== verification/Inbox.thy ===== *)
theory Inbox
  imports Routes Notification Webhooks
begin

text \<open>
  The routes over the notifications of a user (\<open>src/notification/router.py\<close>) and over the targets of
  webhooks (\<open>src/webhooks/router.py\<close> and the form of \<open>src/admin/router.py\<close>). Rows of notifications are never
  deleted, so the identifier and the time that the database gave to a row are functions of its place in
  the table.
\<close>

section \<open>The inbox\<close>

record row_stamps =
  rs_id :: "nat \<Rightarrow> int"
  rs_created_at :: "nat \<Rightarrow> datetime"

fun notification_type_value :: "notification_type \<Rightarrow> string" where
  "notification_type_value ORDER_STATUS_CHANGE = ''order_status_change''"
| "notification_type_value NOTIFY_ORDER_CREATED = ''order_created''"
| "notification_type_value LOW_STOCK_ALERT = ''low_stock_alert''"
| "notification_type_value TRANSPORT_STATUS_CHANGE = ''transport_status_change''"
| "notification_type_value NOTIFY_DELIVERY_CONFIRMED = ''delivery_confirmed''"
| "notification_type_value EXCEPTION_OCCURRED = ''exception_occurred''"
| "notification_type_value SYSTEM_ALERT = ''system_alert''"

fun notification_channel_value :: "notification_channel \<Rightarrow> string" where
  "notification_channel_value EMAIL = ''email''"
| "notification_channel_value WEBSOCKET = ''websocket''"
| "notification_channel_value PUSH = ''push''"

definition notification_type_of :: "string \<Rightarrow> notification_type option" where
  "notification_type_of s =
     find (\<lambda>t. notification_type_value t = s)
       [ORDER_STATUS_CHANGE, NOTIFY_ORDER_CREATED, LOW_STOCK_ALERT, TRANSPORT_STATUS_CHANGE, NOTIFY_DELIVERY_CONFIRMED,
        EXCEPTION_OCCURRED, SYSTEM_ALERT]"

definition notification_channel_of :: "string \<Rightarrow> notification_channel option" where
  "notification_channel_of s = find (\<lambda>c. notification_channel_value c = s) [EMAIL, WEBSOCKET, PUSH]"

text \<open>
  \<open>Notification.user_id == uid\<close> with the claim \<open>uid\<close> of the token; without one it is \<open>IS NULL\<close>, which
  no row fulfils.
\<close>

definition inbox :: "string option \<Rightarrow> bool \<Rightarrow> 'a core_db_scheme \<Rightarrow> (nat \<times> notification) list" where
  "inbox uid unread_only d =
     filter (\<lambda>(i, n). Some (nt_user_id n) = uid \<and> (unread_only \<longrightarrow> \<not> nt_is_read n)) (enumerate 0 (notifications d))"

record inbox_page =
  ip_items :: "(int \<times> notification) list"
  ip_total :: nat
  ip_page :: int
  ip_page_size :: int

definition list_notifications_route ::
  "row_stamps \<Rightarrow> jwt_lib \<Rightarrow> env \<Rightarrow> string option \<Rightarrow> int \<Rightarrow> int \<Rightarrow> bool \<Rightarrow> 'a core_db_scheme \<Rightarrow> inbox_page result" where
  "list_notifications_route stamps jwt env cr page page_size unread_only d =
     authenticated jwt env cr (\<lambda>c.
     checked (page_ok page page_size)
       (let found = inbox (cl_uid c) unread_only d;
            rows = order_by_desc (\<lambda>(i, n). rs_created_at stamps i) found
        in Inr \<lparr>ip_items = map (\<lambda>(i, n). (rs_id stamps i, n)) (offset_limit ((page - 1) * page_size) page_size rows),
                ip_total = length found, ip_page = page, ip_page_size = page_size\<rparr>))"

definition mark_read_route ::
  "row_stamps \<Rightarrow> jwt_lib \<Rightarrow> env \<Rightarrow> string option \<Rightarrow> int \<Rightarrow> 'a core_db_scheme \<Rightarrow> ('a core_db_scheme \<times> unit) result" where
  "mark_read_route stamps jwt env cr notification_id d =
     authenticated jwt env cr (\<lambda>c.
     bindE (bind_aware notification_read_at) (\<lambda>_.
       Inr (d\<lparr>notifications :=
              map (\<lambda>(i, n). if rs_id stamps i = notification_id \<and> Some (nt_user_id n) = cl_uid c
                            then n\<lparr>nt_is_read := True\<rparr> else n) (enumerate 0 (notifications d))\<rparr>, ())))"

definition mark_all_read_route ::
  "jwt_lib \<Rightarrow> env \<Rightarrow> string option \<Rightarrow> 'a core_db_scheme \<Rightarrow> ('a core_db_scheme \<times> unit) result" where
  "mark_all_read_route jwt env cr d =
     authenticated jwt env cr (\<lambda>c.
     bindE (bind_aware notification_read_at) (\<lambda>_.
       Inr (d\<lparr>notifications := update_where (\<lambda>n. Some (nt_user_id n) = cl_uid c \<and> \<not> nt_is_read n)
              (\<lambda>n. n\<lparr>nt_is_read := True\<rparr>) (notifications d)\<rparr>, ())))"

section \<open>Preferences\<close>

definition get_preferences_route ::
  "jwt_lib \<Rightarrow> env \<Rightarrow> string option \<Rightarrow> 'a core_db_scheme \<Rightarrow> notification_preference list result" where
  "get_preferences_route jwt env cr d =
     authenticated jwt env cr (\<lambda>c. Inr (select_where (\<lambda>p. Some (np_user_id p) = cl_uid c) (notification_preferences d)))"

record preference_req =
  fr_type :: "string option"
  fr_channel :: "string option"
  fr_enabled :: "bool option"

text \<open>A row without a user is refused by the database when the transaction is committed.\<close>

fun add_preference ::
  "string option \<Rightarrow> preference_req \<Rightarrow> notification_preference option list \<Rightarrow> notification_preference option list result" where
  "add_preference uid pref rows =
     bindE (of_option (KeyError ''notification_type'') (fr_type pref)) (\<lambda>t.
     bindE (of_option ValueError (notification_type_of t)) (\<lambda>ty.
     bindE (of_option (KeyError ''channel'') (fr_channel pref)) (\<lambda>c.
     bindE (of_option ValueError (notification_channel_of c)) (\<lambda>ch.
     Inr (rows @ [map_option (\<lambda>u. \<lparr>np_user_id = u, np_notification_type = ty, np_channel = ch,
                                  np_enabled = get_default True (fr_enabled pref)\<rparr>) uid])))))"

definition update_preferences_route ::
  "jwt_lib \<Rightarrow> env \<Rightarrow> string option \<Rightarrow> preference_req list \<Rightarrow> 'a core_db_scheme \<Rightarrow> ('a core_db_scheme \<times> unit) result" where
  "update_preferences_route jwt env cr prefs d =
     authenticated jwt env cr (\<lambda>c.
     bindE (foldE (add_preference (cl_uid c)) prefs []) (\<lambda>rows.
     bindE (raise_if (None \<in> set rows) IntegrityError) (\<lambda>_.
     Inr (d\<lparr>notification_preferences :=
            delete_where (\<lambda>p. Some (np_user_id p) = cl_uid c) (notification_preferences d) @ map the rows\<rparr>, ()))))"

section \<open>Webhook targets\<close>

definition webhook_events :: "webhook_event list" where
  "webhook_events = [ORDER_CREATED, ORDER_STATUS_CHANGED, ORDER_CANCELLED, INVENTORY_LOW_STOCK, TRANSPORT_STATUS_CHANGED,
     DELIVERY_CONFIRMED]"

fun webhook_status_value :: "webhook_status \<Rightarrow> string" where
  "webhook_status_value WebhookStatus_ACTIVE = ''active''"
| "webhook_status_value WebhookStatus_PAUSED = ''paused''"
| "webhook_status_value WebhookStatus_DISABLED = ''disabled''"

definition webhook_status_of :: "string \<Rightarrow> webhook_status option" where
  "webhook_status_of s =
     find (\<lambda>w. webhook_status_value w = s) [WebhookStatus_ACTIVE, WebhookStatus_PAUSED, WebhookStatus_DISABLED]"

record webhook_create =
  hq_name :: string
  hq_url :: string
  hq_secret :: "string option"
  hq_events :: "string list"
  hq_status :: string

record webhook_update =
  hu_name :: "string option"
  hu_url :: "string option"
  hu_secret :: "string option"
  hu_events :: "string list option"
  hu_status :: "string option"

definition events_known :: "string list \<Rightarrow> unit result" where
  "events_known evs =
     (case filter (\<lambda>ev. ev \<notin> set (map event_value webhook_events)) evs of
        [] \<Rightarrow> Inr ()
      | ev # _ \<Rightarrow> Inl (HTTPException 422 (''Invalid event: '' @ ev)))"

definition list_targets_route :: "jwt_lib \<Rightarrow> env \<Rightarrow> (webhook_target \<Rightarrow> datetime) \<Rightarrow> string option \<Rightarrow>
  'a core_db_scheme \<Rightarrow> webhook_target list result" where
  "list_targets_route jwt env created cr d = authenticated jwt env cr (\<lambda>_. Inr (order_by_desc created (webhook_targets d)))"

text \<open>\<open>next_id\<close> is the identifier that the table gives to the new row.\<close>

definition create_target_route ::
  "jwt_lib \<Rightarrow> env \<Rightarrow> string option \<Rightarrow> int \<Rightarrow> webhook_create \<Rightarrow> 'a core_db_scheme \<Rightarrow> ('a core_db_scheme \<times> int) result" where
  "create_target_route jwt env cr next_id data d =
     authenticated jwt env cr (\<lambda>_.
     bindE (events_known (hq_events data)) (\<lambda>_.
     bindE (of_option ValueError (webhook_status_of (hq_status data))) (\<lambda>st.
     bindE (bind_aware target_created_at) (\<lambda>_.
     let target = \<lparr>wt_id = next_id, wt_name = hq_name data, wt_url = hq_url data, wt_secret = hq_secret data,
                   wt_events = Some (hq_events data), wt_status = st\<rparr>
     in Inr (d\<lparr>webhook_targets := insert_row target (webhook_targets d)\<rparr>, wt_id target)))))"

definition find_target :: "int \<Rightarrow> 'a core_db_scheme \<Rightarrow> webhook_target result" where
  "find_target target_id d =
     find_or_raise (HTTPException 404 ''Webhook target not found'') (\<lambda>t. wt_id t = target_id) (webhook_targets d)"

definition apply_target_update :: "webhook_update \<Rightarrow> webhook_status option \<Rightarrow> webhook_target \<Rightarrow> webhook_target" where
  "apply_target_update data st t =
     t\<lparr>wt_name := get_default (wt_name t) (hu_name data), wt_url := get_default (wt_url t) (hu_url data),
       wt_secret := (case hu_secret data of None \<Rightarrow> wt_secret t | Some s \<Rightarrow> Some s),
       wt_events := (case hu_events data of None \<Rightarrow> wt_events t | Some es \<Rightarrow> Some es),
       wt_status := get_default (wt_status t) st\<rparr>"

text \<open>An update that changes a column also writes \<open>updated_at\<close>; one that changes none sends nothing.\<close>

definition update_target_route ::
  "jwt_lib \<Rightarrow> env \<Rightarrow> string option \<Rightarrow> int \<Rightarrow> webhook_update \<Rightarrow> 'a core_db_scheme \<Rightarrow> ('a core_db_scheme \<times> unit) result" where
  "update_target_route jwt env cr target_id data d =
     authenticated jwt env cr (\<lambda>_.
     bindE (find_target target_id d) (\<lambda>target.
     bindE (case hu_events data of None \<Rightarrow> Inr () | Some es \<Rightarrow> events_known es) (\<lambda>_.
     bindE (case hu_status data of None \<Rightarrow> Inr None | Some s \<Rightarrow> bindE (of_option ValueError (webhook_status_of s)) (\<lambda>st. Inr (Some st))) (\<lambda>st.
     bindE (if apply_target_update data st target = target then Inr () else bind_aware target_updated_at) (\<lambda>_.
     Inr (d\<lparr>webhook_targets := update_where (\<lambda>t. wt_id t = target_id) (apply_target_update data st) (webhook_targets d)\<rparr>, ()))))))"

definition delete_target_route ::
  "jwt_lib \<Rightarrow> env \<Rightarrow> string option \<Rightarrow> int \<Rightarrow> 'a core_db_scheme \<Rightarrow> ('a core_db_scheme \<times> unit) result" where
  "delete_target_route jwt env cr target_id d =
     authenticated jwt env cr (\<lambda>_.
     bindE (find_target target_id d) (\<lambda>target.
     Inr (d\<lparr>webhook_targets := delete_where (\<lambda>t. wt_id t = target_id) (webhook_targets d)\<rparr>, ())))"

text \<open>The form takes whatever names it is sent as events.\<close>

definition admin_create_webhook ::
  "jwt_lib \<Rightarrow> env \<Rightarrow> string option \<Rightarrow> int \<Rightarrow> string option \<Rightarrow> string option \<Rightarrow> string option \<Rightarrow> string list \<Rightarrow>
   string option \<Rightarrow> 'a core_db_scheme \<Rightarrow> ('a core_db_scheme \<times> unit) result" where
  "admin_create_webhook jwt env cr next_id name url secret events status d =
     authenticated jwt env cr (\<lambda>_.
     bindE (of_option ValueError (webhook_status_of (get_default ''active'' status))) (\<lambda>st.
     bindE (bind_aware target_created_at) (\<lambda>_.
     let target = \<lparr>wt_id = next_id, wt_name = get_default [] name, wt_url = get_default [] url,
                   wt_secret = (if truthy secret then secret else None), wt_events = Some events, wt_status = st\<rparr>
     in Inr (d\<lparr>webhook_targets := insert_row target (webhook_targets d)\<rparr>, ()))))"

definition admin_delete_webhook ::
  "jwt_lib \<Rightarrow> env \<Rightarrow> string option \<Rightarrow> int \<Rightarrow> 'a core_db_scheme \<Rightarrow> ('a core_db_scheme \<times> unit) result" where
  "admin_delete_webhook jwt env cr target_id d =
     authenticated jwt env cr (\<lambda>_.
     Inr (d\<lparr>webhook_targets := delete_where (\<lambda>t. wt_id t = target_id) (webhook_targets d)\<rparr>, ()))"

section \<open>Facts about the inbox\<close>

lemma notification_type_of_value [simp]: "notification_type_of (notification_type_value t) = Some t"
  by (cases t) (simp_all add: notification_type_of_def)

lemma notification_channel_of_value [simp]: "notification_channel_of (notification_channel_value c) = Some c"
  by (cases c) (simp_all add: notification_channel_of_def)

lemma enumerate_snd: "x \<in> set (enumerate k xs) \<Longrightarrow> snd x \<in> set xs"
  by (metis map_snd_enumerate imageI set_map)

lemma filter_map_kept:
  assumes "\<And>x. P (g x) \<longleftrightarrow> P x" "\<And>x. P x \<Longrightarrow> g x = x"
  shows "filter P (map g xs) = filter P xs"
  using assms by (induction xs) auto

text \<open>A row for another user changes no inbox.\<close>

lemma inbox_append_other:
  assumes "\<forall>n\<in>set ns. Some (nt_user_id n) \<noteq> uid"
  shows "inbox uid b (d\<lparr>notifications := notifications d @ ns\<rparr>) = inbox uid b d"
proof -
  have "filter (\<lambda>(i, n). Some (nt_user_id n) = uid \<and> (b \<longrightarrow> \<not> nt_is_read n)) (enumerate (length (notifications d)) ns) = []"
    using assms by (auto simp: filter_empty_conv dest!: enumerate_snd)
  then show ?thesis by (simp add: inbox_def enumerate_append_eq)
qed

lemma inbox_cong: "notifications d' = notifications d \<Longrightarrow> inbox uid b d' = inbox uid b d"
  by (simp add: inbox_def)

text \<open>The routes that write a time of the inbox or of a target never return.\<close>

lemma writing_times_fails [simp]:
  "mark_read_route stamps jwt env cr i d \<noteq> Inr r"
  "mark_all_read_route jwt env cr d \<noteq> Inr r"
  "create_target_route jwt env cr nid data d \<noteq> Inr s"
  "admin_create_webhook jwt env cr nid name url secret events status d \<noteq> Inr r"
  by (auto simp: mark_read_route_def mark_all_read_route_def create_target_route_def admin_create_webhook_def
      authenticated_def Let_def)

section \<open>Facts about preferences\<close>

lemma add_preferences_rows:
  assumes "foldE (add_preference (Some u)) prefs rows = Inr rows'"
  shows "\<exists>ps. rows' = rows @ map Some ps \<and>
    list_all2 (\<lambda>q p. np_user_id p = u \<and> fr_type q = Some (notification_type_value (np_notification_type p)) \<and>
      fr_channel q = Some (notification_channel_value (np_channel p)) \<and> np_enabled p = get_default True (fr_enabled q)) prefs ps"
  using assms
proof (induction prefs arbitrary: rows)
  case (Cons q prefs)
  then obtain r1 where r1: "add_preference (Some u) q rows = Inr r1" "foldE (add_preference (Some u)) prefs r1 = Inr rows'"
    by (auto simp del: add_preference.simps)
  from r1(1) obtain t c ty ch where q: "fr_type q = Some t" "notification_type_of t = Some ty" "fr_channel q = Some c"
    "notification_channel_of c = Some ch"
    "r1 = rows @ [Some \<lparr>np_user_id = u, np_notification_type = ty, np_channel = ch, np_enabled = get_default True (fr_enabled q)\<rparr>]"
    by auto
  have "notification_type_value ty = t" "notification_channel_value ch = c"
    using q(2,4) by (auto simp: notification_type_of_def notification_channel_of_def split: if_splits)
  moreover from Cons.IH[OF r1(2)] obtain ps where "rows' = r1 @ map Some ps"
    "list_all2 (\<lambda>q p. np_user_id p = u \<and> fr_type q = Some (notification_type_value (np_notification_type p)) \<and>
      fr_channel q = Some (notification_channel_value (np_channel p)) \<and> np_enabled p = get_default True (fr_enabled q)) prefs ps"
    by blast
  ultimately show ?case using q
    by (intro exI[of _ "\<lparr>np_user_id = u, np_notification_type = ty, np_channel = ch,
          np_enabled = get_default True (fr_enabled q)\<rparr> # ps"]) simp
qed simp

section \<open>Facts about webhook targets\<close>

lemma events_known_Inr [simp]: "events_known evs = Inr u \<longleftrightarrow> set evs \<subseteq> event_value ` set webhook_events"
  by (auto simp: events_known_def filter_empty_conv split: list.splits dest!: filter_eq_ConsD)

lemma event_value_inj [simp]: "event_value a = event_value b \<longleftrightarrow> a = b"
  by (cases a; cases b) simp_all

lemma webhook_status_of_active [simp]: "webhook_status_of ''active'' = Some WebhookStatus_ACTIVE"
  by (simp add: webhook_status_of_def)

text \<open>What the remaining routes leave of the tables.\<close>

lemma target_routes_frame:
  "update_target_route jwt env cr i data d = Inr (d', u) \<Longrightarrow> webhook_targets d = [] \<Longrightarrow> d' = d"
  "delete_target_route jwt env cr i d = Inr (d', u) \<Longrightarrow> webhook_targets d = [] \<Longrightarrow> d' = d"
  "admin_delete_webhook jwt env cr i d = Inr (d', u) \<Longrightarrow> webhook_targets d = [] \<Longrightarrow> d' = d"
  by (auto simp: update_target_route_def delete_target_route_def admin_delete_webhook_def authenticated_def
      find_target_def update_where_def delete_where_def split: if_splits sum.splits)

end
