(* ===== verification/Maintenance.thy ===== *)
theory Maintenance
  imports Tasks Abc_Xyz Tms_Device
begin

text \<open>
  The tasks of \<open>src/tasks/maintenance.py\<close> that work on the database, in the sessions of
  \<open>get_session\<close> (\<open>src/core/database.py\<close>), which leave the commit to the caller.
\<close>

section \<open>Sessions of background tasks\<close>

text \<open>What is committed, and what the statements of the open transaction have made of it.\<close>

record 'd task_session =
  ts_committed :: 'd
  ts_working :: 'd

definition open_session :: "'d \<Rightarrow> 'd task_session" where
  "open_session d = \<lparr>ts_committed = d, ts_working = d\<rparr>"

definition execute :: "('d \<Rightarrow> 'd) \<Rightarrow> 'd task_session \<Rightarrow> 'd task_session" where
  "execute f s = s\<lparr>ts_working := f (ts_working s)\<rparr>"

definition commit :: "'d task_session \<Rightarrow> 'd task_session" where
  "commit s = s\<lparr>ts_committed := ts_working s\<rparr>"

definition close_session :: "'d task_session \<Rightarrow> 'd" where
  "close_session s = ts_committed s"

section \<open>Tasks\<close>

definition is_old_log :: "env \<Rightarrow> sync_log \<Rightarrow> bool" where
  "is_old_log env l \<longleftrightarrow> sl_started_at l < now env - 30 * day_us"

text \<open>The number of deleted rows is returned without a commit.\<close>

definition cleanup_old_sync_logs :: "env \<Rightarrow> 'a tms_db_scheme \<Rightarrow> 'a tms_db_scheme \<times> nat" where
  "cleanup_old_sync_logs env d =
     (let s = open_session d;
          deleted = row_count (is_old_log env) (sync_logs (ts_working s));
          s = execute (\<lambda>d. d\<lparr>sync_logs := delete_where (is_old_log env) (sync_logs d)\<rparr>) s
      in (close_session s, deleted))"

definition order_status_members :: "order_status list" where
  "order_status_members = [OrderStatus_PENDING, OrderStatus_CONFIRMED, OrderStatus_PROCESSING, OrderStatus_PICKING,
     OrderStatus_COMPLETED, OrderStatus_CANCELLED, OrderStatus_FAILED]"

record daily_stats =
  dy_date :: int
  dy_total_orders :: nat
  dy_orders_today :: nat
  dy_orders_by_status :: "(string \<times> nat) list"
  dy_total_inventory_items :: nat

definition daily_aggregation :: "env \<Rightarrow> 'a wms_db_scheme \<Rightarrow> daily_stats" where
  "daily_aggregation env d =
     \<lparr>dy_date = now env div day_us, dy_total_orders = length (orders d),
      dy_orders_today = row_count (\<lambda>x. midnight (now env) \<le> created_at x) (orders d),
      dy_orders_by_status =
        map (\<lambda>s. (order_status_value s, row_count (\<lambda>x. ord_status x = s) (orders d))) order_status_members,
      dy_total_inventory_items = length (inventory_rows d)\<rparr>"

text \<open>The matrix, as it is put into Redis when that answers, and the number of products in each cell.\<close>

definition compute_abc_xyz_analysis ::
  "(rat list \<Rightarrow> rat) \<Rightarrow> (rat \<Rightarrow> rat \<Rightarrow> rat) \<Rightarrow> (rat \<Rightarrow> rat) \<Rightarrow> (datetime \<Rightarrow> int) \<Rightarrow> env \<Rightarrow> bool \<Rightarrow>
   'a wms_db_scheme \<Rightarrow> (string \<times> cell_item list) list option \<times> (string \<times> nat) list" where
  "compute_abc_xyz_analysis fsum fpow fsqrt month env redis_up d =
     (let matrix = compute_abc_xyz_matrix fsum fpow fsqrt month env 6 d
      in (if redis_up then Some matrix else None, map (\<lambda>(cell, items). (cell, length items)) matrix))"

section \<open>Facts\<close>

lemma close_execute [simp]: "close_session (execute f (open_session d)) = d"
  by (simp add: close_session_def execute_def open_session_def)

lemma close_commit [simp]: "close_session (commit (execute f (open_session d))) = f d"
  by (simp add: close_session_def commit_def execute_def open_session_def)

lemma order_status_members_distinct [simp]: "distinct order_status_members" "s \<in> set order_status_members"
  by (simp_all add: order_status_members_def, cases s, simp_all)

text \<open>Rows counted by the values of a column add up to all rows.\<close>

lemma row_counts_add_up:
  assumes "distinct vs" "\<forall>x\<in>set xs. f x \<in> set vs"
  shows "sum_list (map (\<lambda>v. row_count (\<lambda>x. f x = v) xs) vs) = length xs"
proof -
  have "(\<Sum>v\<in>set vs. row_count (\<lambda>x. f x = v) xs) = length xs"
    using assms(2)
  proof (induction xs)
    case (Cons x xs)
    have "(\<Sum>v\<in>set vs. row_count (\<lambda>y. f y = v) (x # xs)) =
        (\<Sum>v\<in>set vs. row_count (\<lambda>y. f y = v) xs) + (\<Sum>v\<in>set vs. if f x = v then 1 else 0)"
      unfolding sum.distrib[symmetric] by (rule sum.cong) (simp_all add: row_count_def)
    with Cons show ?case by (simp add: sum.delta)
  qed (simp add: row_count_def)
  then show ?thesis using assms(1) by (simp add: sum_list_distinct_conv_sum_set)
qed

end
