(* ===== verification/Wms_Routes.thy ===== *)
theory Wms_Routes
  imports Routes Wms_Procure Wms_Stock
begin

text \<open>
  The routes of \<open>src/wms/router.py\<close>, one definition for each handler, with the bodies that the schemas
  of \<open>src/wms/schemas.py\<close> let through. Every route asks for a token.
\<close>

section \<open>Stock\<close>

definition adjust_schema_ok :: "adjust_req \<Rightarrow> bool" where
  "adjust_schema_ok q \<longleftrightarrow> 1 \<le> length (aj_warehouse_id q) \<and> 1 \<le> length (aj_location_id q) \<and>
     1 \<le> length (aj_sku q) \<and> length (aj_sku q) \<le> 50"

text \<open>\<open>InventoryAdjust\<close> has no batch, no dates and no strategy; its reason is not read.\<close>

definition adjust_body :: "adjust_req \<Rightarrow> adjust_req" where
  "adjust_body q = q\<lparr>aj_batch_no := None, aj_expiry_date := None, aj_manufacturing_date := None, aj_picking_strategy := None\<rparr>"

definition query_inventory_route ::
  "jwt_lib \<Rightarrow> env \<Rightarrow> string option \<Rightarrow> string option \<Rightarrow>
   string option \<Rightarrow> string option \<Rightarrow> 'a wms_db_scheme \<Rightarrow> ('a wms_db_scheme \<times> inventory_view list) result" where
  "query_inventory_route jwt env cr warehouse_id location_id sku_str d =
     authenticated jwt env cr (\<lambda>_. query_inventory env warehouse_id location_id sku_str d)"

definition adjust_inventory_route ::
  "jwt_lib \<Rightarrow> env \<Rightarrow> string option \<Rightarrow> (nat \<Rightarrow>
   'a wms_db_scheme \<Rightarrow> 'a wms_db_scheme) \<Rightarrow> (nat \<Rightarrow> exn option) \<Rightarrow> exn option \<Rightarrow> adjust_req \<Rightarrow> 'a wms_db_scheme \<Rightarrow> ('a wms_db_scheme \<times> inventory_view) result" where
  "adjust_inventory_route jwt env cr others committing reload data d =
     authenticated jwt env cr (\<lambda>_.
     checked (adjust_schema_ok data)
       (caught as_404_422 (adjust_inventory env others committing reload (adjust_body data) d)))"

definition create_transfer_order_route ::
  "jwt_lib \<Rightarrow> env \<Rightarrow> string option \<Rightarrow> transfer_req \<Rightarrow>
   'a wms_db_scheme \<Rightarrow> ('a wms_db_scheme \<times> transfer_order) result" where
  "create_transfer_order_route jwt env cr data d =
     authenticated jwt env cr (\<lambda>_. caught as_404_422 (create_transfer_order env data d))"

definition list_transfers_route ::
  "jwt_lib \<Rightarrow> env \<Rightarrow> string option \<Rightarrow> string option \<Rightarrow>
   'a wms_db_scheme \<Rightarrow> transfer_view list result" where
  "list_transfers_route jwt env cr warehouse_id d =
     authenticated jwt env cr (\<lambda>_. list_transfers warehouse_id d)"

definition submit_stock_count_route ::
  "jwt_lib \<Rightarrow> env \<Rightarrow> string option \<Rightarrow> count_req \<Rightarrow>
   'a wms_db_scheme \<Rightarrow> ('a wms_db_scheme \<times> string) result" where
  "submit_stock_count_route jwt env cr data d =
     authenticated jwt env cr (\<lambda>_. caught as_404_422 (adjust_stock_count env data d))"

definition adjust_stock_count_mobile_route ::
  "jwt_lib \<Rightarrow> env \<Rightarrow> string option \<Rightarrow> count_req \<Rightarrow>
   'a wms_db_scheme \<Rightarrow> ('a wms_db_scheme \<times> string) result" where
  "adjust_stock_count_mobile_route jwt env cr data d =
     authenticated jwt env cr (\<lambda>_. caught as_404_422 (adjust_stock_count env data d))"

text \<open>\<open>StockInItemCreate\<close> has neither a strategy nor a remark.\<close>

definition stock_in_schema_ok :: "stock_req \<Rightarrow> bool" where
  "stock_in_schema_ok q \<longleftrightarrow> 1 \<le> length (st_sku q) \<and> length (st_sku q) \<le> 50 \<and> 0 < st_quantity q \<and>
     length (get_default [] (st_batch_no q)) \<le> 30"

definition stock_in_route ::
  "jwt_lib \<Rightarrow> env \<Rightarrow> string option \<Rightarrow> string \<Rightarrow> stock_req \<Rightarrow>
   'a wms_db_scheme \<Rightarrow> ('a wms_db_scheme \<times> inventory_view) result" where
  "stock_in_route jwt env cr warehouse_id data d =
     authenticated jwt env cr (\<lambda>_.
     checked (stock_in_schema_ok data)
       (caught as_404_422 (stock_in env warehouse_id (data\<lparr>st_picking_strategy := None, st_remark := None\<rparr>) d)))"

definition list_movements_route ::
  "jwt_lib \<Rightarrow> env \<Rightarrow> string option \<Rightarrow> string option \<Rightarrow>
   'a wms_db_scheme \<Rightarrow> movement_view list result" where
  "list_movements_route jwt env cr warehouse_id d =
     authenticated jwt env cr (\<lambda>_. list_movements warehouse_id d)"

section \<open>Waves, packing and shipping\<close>

definition create_picking_wave_route ::
  "jwt_lib \<Rightarrow> env \<Rightarrow> string option \<Rightarrow> string \<Rightarrow> string list \<Rightarrow>
   'a wms_db_scheme \<Rightarrow> ('a wms_db_scheme \<times> wave_view) result" where
  "create_picking_wave_route jwt env cr warehouse_id order_ids d =
     authenticated jwt env cr (\<lambda>_.
     checked (1 \<le> length warehouse_id \<and> 1 \<le> length order_ids)
       (caught as_404_422 (create_picking_wave env warehouse_id order_ids d)))"

definition list_picking_waves_route ::
  "jwt_lib \<Rightarrow> env \<Rightarrow> string option \<Rightarrow> string option \<Rightarrow>
   'a wms_db_scheme \<Rightarrow> wave_view list result" where
  "list_picking_waves_route jwt env cr warehouse_id d =
     authenticated jwt env cr (\<lambda>_. list_picking_waves warehouse_id d)"

definition start_picking_wave_route ::
  "jwt_lib \<Rightarrow> env \<Rightarrow> string option \<Rightarrow> string \<Rightarrow>
   'a wms_db_scheme \<Rightarrow> ('a wms_db_scheme \<times> picking_wave) result" where
  "start_picking_wave_route jwt env cr wave_id d =
     authenticated jwt env cr (\<lambda>c. caught as_404_422 (start_picking env wave_id (get_default [] (cl_sub c)) d))"

definition complete_picking_wave_route ::
  "jwt_lib \<Rightarrow> env \<Rightarrow> string option \<Rightarrow> string \<Rightarrow>
   'a wms_db_scheme \<Rightarrow> ('a wms_db_scheme \<times> picking_wave) result" where
  "complete_picking_wave_route jwt env cr wave_id d =
     authenticated jwt env cr (\<lambda>_. caught as_404_422 (complete_picking env wave_id d))"

definition create_packing_route ::
  "jwt_lib \<Rightarrow> env \<Rightarrow> string option \<Rightarrow> packing_req \<Rightarrow>
   'a wms_db_scheme \<Rightarrow> ('a wms_db_scheme \<times> packing_record) result" where
  "create_packing_route jwt env cr data d =
     authenticated jwt env cr (\<lambda>_. caught as_404_422 (create_packing env data d))"

definition create_shipment_route ::
  "jwt_lib \<Rightarrow> env \<Rightarrow> string option \<Rightarrow> shipment_req \<Rightarrow>
   'a wms_db_scheme \<Rightarrow> ('a wms_db_scheme \<times> shipment) result" where
  "create_shipment_route jwt env cr data d =
     authenticated jwt env cr (\<lambda>_. caught as_404_422 (create_shipment env data d))"

definition ship_package_route ::
  "jwt_lib \<Rightarrow> env \<Rightarrow> string option \<Rightarrow> string \<Rightarrow>
   string option \<Rightarrow> string option \<Rightarrow> 'a wms_db_scheme \<Rightarrow> ('a wms_db_scheme \<times> shipment) result" where
  "ship_package_route jwt env cr shipment_id tracking_number carrier d =
     authenticated jwt env cr (\<lambda>_.
     caught as_404 (mark_shipped env shipment_id (get_default [] tracking_number) (get_default [] carrier) d))"

definition list_shipments_route ::
  "jwt_lib \<Rightarrow> env \<Rightarrow> string option \<Rightarrow> string option \<Rightarrow>
   'a wms_db_scheme \<Rightarrow> shipment list result" where
  "list_shipments_route jwt env cr warehouse_id d =
     authenticated jwt env cr (\<lambda>_. list_shipments warehouse_id d)"

section \<open>Vendors and addresses\<close>

definition wide_page_ok :: "int \<Rightarrow> int \<Rightarrow> bool" where
  "wide_page_ok page page_size \<longleftrightarrow> 1 \<le> page \<and> 1 \<le> page_size \<and> page_size \<le> 200"

definition vendor_schema_ok :: "vendor_req \<Rightarrow> bool" where
  "vendor_schema_ok q \<longleftrightarrow> 1 \<le> length (vr_code q) \<and> length (vr_code q) \<le> 50 \<and> length (get_default [] (vr_name q)) \<le> 200 \<and>
     length (get_default [] (vr_email q)) \<le> 255 \<and> length (get_default [] (vr_phone q)) \<le> 50"

definition create_vendor_route ::
  "jwt_lib \<Rightarrow> env \<Rightarrow> string option \<Rightarrow> vendor_req \<Rightarrow>
   'a wms_db_scheme \<Rightarrow> ('a wms_db_scheme \<times> vendor) result" where
  "create_vendor_route jwt env cr data d =
     authenticated jwt env cr (\<lambda>_. checked (vendor_schema_ok data) (caught as_422 (create_vendor env data d)))"

definition list_vendors_route ::
  "jwt_lib \<Rightarrow> env \<Rightarrow> string option \<Rightarrow> int \<Rightarrow> int \<Rightarrow>
   'a wms_db_scheme \<Rightarrow> ((vendor list + vendor paginated_response)) result" where
  "list_vendors_route jwt env cr page page_size d =
     authenticated jwt env cr (\<lambda>_.
     checked (wide_page_ok page page_size) (list_vendors (Some page) (Some page_size) d))"

definition get_vendor_route ::
  "jwt_lib \<Rightarrow> env \<Rightarrow> string option \<Rightarrow> string \<Rightarrow>
   'a wms_db_scheme \<Rightarrow> vendor result" where
  "get_vendor_route jwt env cr vendor_id d =
     authenticated jwt env cr (\<lambda>_. caught as_404 (get_vendor vendor_id d))"

definition create_address_route ::
  "jwt_lib \<Rightarrow> env \<Rightarrow> string option \<Rightarrow> address_req \<Rightarrow>
   'a wms_db_scheme \<Rightarrow> ('a wms_db_scheme \<times> address) result" where
  "create_address_route jwt env cr data d =
     authenticated jwt env cr (\<lambda>_.
     checked (ar_entity_type data \<noteq> None \<and> ar_address_type data \<noteq> None) (create_address env data d))"

definition list_addresses_route ::
  "jwt_lib \<Rightarrow> env \<Rightarrow> string option \<Rightarrow> string option \<Rightarrow>
   string option \<Rightarrow> 'a wms_db_scheme \<Rightarrow> address list result" where
  "list_addresses_route jwt env cr entity_type entity_id d =
     authenticated jwt env cr (\<lambda>_. list_addresses entity_type entity_id d)"

section \<open>Purchase orders, invoices and credit memos\<close>

text \<open>\<open>PurchaseOrderCreate\<close> and \<open>InvoiceCreate\<close> have no lines: what a body says about them is dropped.\<close>

definition create_purchase_order_route ::
  "jwt_lib \<Rightarrow> env \<Rightarrow> string option \<Rightarrow> (string \<Rightarrow>
   date option) \<Rightarrow> po_req \<Rightarrow> 'a wms_db_scheme \<Rightarrow> ('a wms_db_scheme \<times> purchase_order) result" where
  "create_purchase_order_route jwt env cr parse_iso data d =
     authenticated jwt env cr (\<lambda>_.
     checked (1 \<le> length (por_po_number data) \<and> length (por_po_number data) \<le> 50)
       (create_purchase_order parse_iso env (data\<lparr>por_lines := []\<rparr>) d))"

definition list_purchase_orders_route ::
  "jwt_lib \<Rightarrow> env \<Rightarrow> string option \<Rightarrow> int \<Rightarrow> int \<Rightarrow>
   'a wms_db_scheme \<Rightarrow> ((purchase_order list + purchase_order paginated_response)) result" where
  "list_purchase_orders_route jwt env cr page page_size d =
     authenticated jwt env cr (\<lambda>_.
     checked (wide_page_ok page page_size) (list_purchase_orders (Some page) (Some page_size) d))"

definition get_purchase_order_route ::
  "jwt_lib \<Rightarrow> env \<Rightarrow> string option \<Rightarrow> string \<Rightarrow>
   'a wms_db_scheme \<Rightarrow> purchase_order result" where
  "get_purchase_order_route jwt env cr po_id d =
     authenticated jwt env cr (\<lambda>_. caught as_404 (find_po po_id d))"

definition approve_purchase_order_route ::
  "jwt_lib \<Rightarrow> env \<Rightarrow> string option \<Rightarrow> string \<Rightarrow>
   'a wms_db_scheme \<Rightarrow> ('a wms_db_scheme \<times> purchase_order) result" where
  "approve_purchase_order_route jwt env cr po_id d =
     authenticated jwt env cr (\<lambda>_. caught as_404_422 (approve_purchase_order env po_id d))"

definition receive_goods_route ::
  "jwt_lib \<Rightarrow> env \<Rightarrow> string option \<Rightarrow> string \<Rightarrow>
   'a wms_db_scheme \<Rightarrow> ('a wms_db_scheme \<times> purchase_order) result" where
  "receive_goods_route jwt env cr po_id d =
     authenticated jwt env cr (\<lambda>_. caught as_404_422 (receive_goods env po_id d))"

definition create_invoice_route ::
  "jwt_lib \<Rightarrow> env \<Rightarrow> string option \<Rightarrow> (string \<Rightarrow>
   date option) \<Rightarrow> invoice_req \<Rightarrow> 'a wms_db_scheme \<Rightarrow> ('a wms_db_scheme \<times> invoice) result" where
  "create_invoice_route jwt env cr parse_iso data d =
     authenticated jwt env cr (\<lambda>_.
     checked (1 \<le> length (iq_invoice_number data) \<and> length (iq_invoice_number data) \<le> 50)
       (create_invoice parse_iso env (data\<lparr>iq_lines := []\<rparr>) d))"

definition list_invoices_route ::
  "jwt_lib \<Rightarrow> env \<Rightarrow> string option \<Rightarrow> 'a wms_db_scheme \<Rightarrow> invoice list result" where
  "list_invoices_route jwt env cr d =
     authenticated jwt env cr (\<lambda>_. Inr (list_invoices d))"

definition get_invoice_route ::
  "jwt_lib \<Rightarrow> env \<Rightarrow> string option \<Rightarrow> string \<Rightarrow>
   'a wms_db_scheme \<Rightarrow> invoice result" where
  "get_invoice_route jwt env cr invoice_id d =
     authenticated jwt env cr (\<lambda>_. caught as_404 (get_invoice invoice_id d))"

text \<open>A line of a credit memo needs its quantity and its price and has no article.\<close>

definition memo_schema_ok :: "memo_req \<Rightarrow> bool" where
  "memo_schema_ok q \<longleftrightarrow> 1 \<le> length (mq_credit_memo_number q) \<and> length (mq_credit_memo_number q) \<le> 50 \<and>
     list_all (\<lambda>l. lr_quantity l \<noteq> None \<and> lr_unit_price l \<noteq> None) (mq_lines q)"

definition create_credit_memo_route ::
  "jwt_lib \<Rightarrow> env \<Rightarrow> string option \<Rightarrow> (string \<Rightarrow>
   date option) \<Rightarrow> memo_req \<Rightarrow> 'a wms_db_scheme \<Rightarrow> ('a wms_db_scheme \<times> credit_memo) result" where
  "create_credit_memo_route jwt env cr parse_iso data d =
     authenticated jwt env cr (\<lambda>_.
     checked (memo_schema_ok data)
       (create_credit_memo parse_iso env (data\<lparr>mq_lines := map (\<lambda>l. l\<lparr>lr_sku_id := None\<rparr>) (mq_lines data)\<rparr>) d))"

definition list_credit_memos_route ::
  "jwt_lib \<Rightarrow> env \<Rightarrow> string option \<Rightarrow> 'a wms_db_scheme \<Rightarrow>
   credit_memo list result" where
  "list_credit_memos_route jwt env cr d =
     authenticated jwt env cr (\<lambda>_. Inr (list_credit_memos d))"

definition get_credit_memo_route ::
  "jwt_lib \<Rightarrow> env \<Rightarrow> string option \<Rightarrow> string \<Rightarrow>
   'a wms_db_scheme \<Rightarrow> credit_memo result" where
  "get_credit_memo_route jwt env cr cm_id d =
     authenticated jwt env cr (\<lambda>_. caught as_404 (get_credit_memo cm_id d))"

section \<open>Warehouses and locations\<close>

definition warehouse_schema_ok :: "warehouse_create \<Rightarrow> bool" where
  "warehouse_schema_ok q \<longleftrightarrow> 1 \<le> length (wc_code q) \<and> length (wc_code q) \<le> 50 \<and>
     1 \<le> length (wc_name q) \<and> length (wc_name q) \<le> 200 \<and>
     (case wc_address q of Some (JStr a) \<Rightarrow> length a \<le> 500 | None \<Rightarrow> True | _ \<Rightarrow> False)"

definition create_warehouse_route ::
  "jwt_lib \<Rightarrow> env \<Rightarrow> string option \<Rightarrow> warehouse_create \<Rightarrow>
   'a wms_db_scheme \<Rightarrow> ('a wms_db_scheme \<times> warehouse_view) result" where
  "create_warehouse_route jwt env cr data d =
     authenticated jwt env cr (\<lambda>_. checked (warehouse_schema_ok data) (caught as_422 (create_warehouse env data d)))"

definition list_warehouses_route ::
  "jwt_lib \<Rightarrow> env \<Rightarrow> string option \<Rightarrow> int \<Rightarrow> int \<Rightarrow>
   'a wms_db_scheme \<Rightarrow> ((warehouse_view list + warehouse_view paginated_response)) result" where
  "list_warehouses_route jwt env cr page page_size d =
     authenticated jwt env cr (\<lambda>_.
     checked (wide_page_ok page page_size) (list_warehouses (Some page) (Some page_size) d))"

definition get_warehouse_route ::
  "jwt_lib \<Rightarrow> env \<Rightarrow> string option \<Rightarrow> string \<Rightarrow>
   'a wms_db_scheme \<Rightarrow> warehouse_view result" where
  "get_warehouse_route jwt env cr wh_id d =
     authenticated jwt env cr (\<lambda>_. caught as_404 (get_warehouse wh_id d))"

text \<open>
  The keys of the body become attributes: \<open>type\<close> and \<open>is_active\<close> are no columns, so the kind and the
  status of a warehouse stay, while a body without an address empties it.
\<close>

definition warehouse_attributes :: "warehouse_create \<Rightarrow> (warehouse \<Rightarrow> warehouse) list" where
  "warehouse_attributes q =
     [\<lambda>w. w\<lparr>wh_code := wc_code q\<rparr>, \<lambda>w. w\<lparr>wh_name := wc_name q\<rparr>,
      \<lambda>w. w\<lparr>wh_address := get_default (JStr []) (wc_address q)\<rparr>]"

definition update_warehouse_route ::
  "jwt_lib \<Rightarrow> env \<Rightarrow> string option \<Rightarrow> string \<Rightarrow>
   warehouse_create \<Rightarrow> 'a wms_db_scheme \<Rightarrow> ('a wms_db_scheme \<times> warehouse_view) result" where
  "update_warehouse_route jwt env cr wh_id data d =
     authenticated jwt env cr (\<lambda>_.
     checked (warehouse_schema_ok data)
       (caught as_404 (bindE (update_warehouse env wh_id (warehouse_attributes data) d) (\<lambda>(d', wh). Inr (d', warehouse_to_dict wh)))))"

definition delete_warehouse_route ::
  "jwt_lib \<Rightarrow> env \<Rightarrow> string option \<Rightarrow> string \<Rightarrow>
   'a wms_db_scheme \<Rightarrow> ('a wms_db_scheme \<times> warehouse_view) result" where
  "delete_warehouse_route jwt env cr wh_id d =
     authenticated jwt env cr (\<lambda>_. caught as_404 (delete_warehouse env wh_id d))"

definition location_part_ok :: "string option \<Rightarrow> bool" where
  "location_part_ok v \<longleftrightarrow> (case v of None \<Rightarrow> True | Some s \<Rightarrow> 1 \<le> length s \<and> length s \<le> 50)"

definition location_update_schema_ok :: "location_data \<Rightarrow> bool" where
  "location_update_schema_ok q \<longleftrightarrow> location_part_ok (ld_zone q) \<and> location_part_ok (ld_aisle q) \<and> location_part_ok (ld_shelf q) \<and>
     location_part_ok (ld_bin q) \<and>
     (case ld_type q of None \<Rightarrow> True
      | Some s \<Rightarrow> s \<in> {''storage'', ''picking'', ''receiving'', ''shipping'', ''damage''})"

definition location_create_schema_ok :: "location_data \<Rightarrow> bool" where
  "location_create_schema_ok q \<longleftrightarrow> location_update_schema_ok q \<and> None \<notin> {ld_zone q, ld_aisle q, ld_shelf q, ld_bin q}"

definition create_location_route ::
  "jwt_lib \<Rightarrow> env \<Rightarrow> string option \<Rightarrow> string \<Rightarrow>
   location_data \<Rightarrow> 'a wms_db_scheme \<Rightarrow> ('a wms_db_scheme \<times> location) result" where
  "create_location_route jwt env cr wh_id data d =
     authenticated jwt env cr (\<lambda>_.
     checked (location_create_schema_ok data) (caught as_404_422 (create_location env wh_id (data\<lparr>ld_level := None\<rparr>) d)))"

definition list_locations_route ::
  "jwt_lib \<Rightarrow> env \<Rightarrow> string option \<Rightarrow> string \<Rightarrow> int \<Rightarrow>
   int \<Rightarrow> 'a wms_db_scheme \<Rightarrow> ((location list + location paginated_response)) result" where
  "list_locations_route jwt env cr wh_id page page_size d =
     authenticated jwt env cr (\<lambda>_.
     checked (wide_page_ok page page_size) (list_locations (Some wh_id) (Some page) (Some page_size) d))"

definition update_location_route ::
  "jwt_lib \<Rightarrow> env \<Rightarrow> string option \<Rightarrow> string \<Rightarrow> string \<Rightarrow>
   location_data \<Rightarrow> 'a wms_db_scheme \<Rightarrow> ('a wms_db_scheme \<times> location) result" where
  "update_location_route jwt env cr wh_id loc_id data d =
     authenticated jwt env cr (\<lambda>_.
     checked (location_update_schema_ok data) (caught as_404 (update_location env wh_id loc_id (data\<lparr>ld_level := None\<rparr>) d)))"

definition delete_location_route ::
  "jwt_lib \<Rightarrow> env \<Rightarrow> string option \<Rightarrow> string \<Rightarrow> string \<Rightarrow>
   'a wms_db_scheme \<Rightarrow> ('a wms_db_scheme \<times> unit) result" where
  "delete_location_route jwt env cr wh_id loc_id d =
     authenticated jwt env cr (\<lambda>_. caught as_404 (delete_location env wh_id loc_id d))"

end
