(* ===== verification/Admin_Pages.thy ===== *)
theory Admin_Pages
  imports Wms_Routes Tms_Routes Csv_Stock
begin

text \<open>
  The forms of the administration that write warehouses and forecasts, and its exports of transports,
  returns, exceptions and plans (\<open>src/admin/router.py\<close>). The text of a time, of a day and of a float are
  parameters. The pages that only show a list call the same functions of the services as the routes do.
\<close>

section \<open>Warehouses\<close>

text \<open>
  The form goes to the service unchecked: a missing code is noticed first, a missing name only when the
  code was free, and no handler catches either.
\<close>

definition warehouse_form :: "(string \<Rightarrow> string option) \<Rightarrow> string \<Rightarrow> string \<Rightarrow> warehouse_create" where
  "warehouse_form form wcode name =
     \<lparr>wc_code = wcode, wc_name = name, wc_address = map_option JStr (form ''address''), wc_type = form ''type''\<rparr>"

definition admin_create_warehouse ::
  "jwt_lib \<Rightarrow> env \<Rightarrow> string option \<Rightarrow> (string \<Rightarrow> string option) \<Rightarrow> 'a wms_db_scheme \<Rightarrow>
   ('a wms_db_scheme \<times> warehouse_view) result" where
  "admin_create_warehouse jwt env cr form d =
     authenticated jwt env cr (\<lambda>_.
     bindE (of_option (KeyError ''code'') (form ''code'')) (\<lambda>wcode.
     case form ''name'' of
       Some name \<Rightarrow> create_warehouse env (warehouse_form form wcode name) d
     | None \<Rightarrow> bindE (create_warehouse env (warehouse_form form wcode []) d) (\<lambda>_. Inl (KeyError ''name''))))"

definition admin_delete_warehouse ::
  "jwt_lib \<Rightarrow> env \<Rightarrow> string option \<Rightarrow> string \<Rightarrow> 'a wms_db_scheme \<Rightarrow> ('a wms_db_scheme \<times> warehouse_view) result" where
  "admin_delete_warehouse jwt env cr wh_id d = authenticated jwt env cr (\<lambda>_. delete_warehouse env wh_id d)"

text \<open>The page for editing asks for no token.\<close>

definition admin_edit_warehouse :: "string \<Rightarrow> 'a wms_db_scheme \<Rightarrow> warehouse_view result" where
  "admin_edit_warehouse wh_id d = get_warehouse wh_id d"

section \<open>Forecasts\<close>

definition admin_forecast_page ::
  "(rat list \<Rightarrow> rat) \<Rightarrow> (rat \<Rightarrow> rat \<Rightarrow> rat) \<Rightarrow> int \<Rightarrow> string option \<Rightarrow> string option \<Rightarrow> int \<Rightarrow> history \<Rightarrow> forecast_point list" where
  "admin_forecast_page fsum fpow today origin_city destination_city days h =
     forecast fsum fpow today h (get_default [] origin_city @ ''-'' @ get_default [] destination_city) (nat days)"

definition admin_train_forecast :: "string \<Rightarrow> string \<Rightarrow> int \<Rightarrow> history \<Rightarrow> history" where
  "admin_train_forecast origin_city destination_city orders_count h =
     add_observation (origin_city @ ''-'' @ destination_city) (round64 (of_int orders_count)) h"

text \<open>A number that is zero is written as an empty cell.\<close>

definition float_cell :: "(rat \<Rightarrow> string) \<Rightarrow> rat option \<Rightarrow> string" where
  "float_cell show_float v = (case v of None \<Rightarrow> [] | Some x \<Rightarrow> if x = 0 then [] else show_float x)"

definition export_forecast_csv ::
  "(rat list \<Rightarrow> rat) \<Rightarrow> (rat \<Rightarrow> rat \<Rightarrow> rat) \<Rightarrow> (rat \<Rightarrow> string) \<Rightarrow> (int \<Rightarrow> string) \<Rightarrow> int \<Rightarrow> history \<Rightarrow> string" where
  "export_forecast_csv fsum fpow show_float show_day today h =
     write_row [''Date'', ''Predicted'', ''Lower'', ''Upper''] @
     concat (map (\<lambda>p. write_row [show_day (fp_day p), float_cell show_float (Some (fp_predicted_orders p)),
         float_cell show_float (fp_confidence_lower p), float_cell show_float (fp_confidence_upper p)])
       (forecast fsum fpow today h [] 7))"

section \<open>Exports\<close>

text \<open>\<open>o.get("pickup_address", {}).get("city", "")\<close>: the key is always there, so no address raises.\<close>

definition city_cell :: "address_payload option \<Rightarrow> string result" where
  "city_cell a = (case a of None \<Rightarrow> Inl AttributeError | Some p \<Rightarrow> Inr (get_default [] (ap_city p)))"

definition transport_line :: "(datetime \<Rightarrow> string) \<Rightarrow> transport_order \<Rightarrow> string \<Rightarrow> string result" where
  "transport_line isoformat t acc =
     bindE (city_cell (tr_pickup_address t)) (\<lambda>pickup.
     bindE (city_cell (tr_delivery_address t)) (\<lambda>delivery.
     Inr (acc @ write_row [tr_transport_no t, transport_status_value (tr_status t),
       (case tr_carrier_code t of None \<Rightarrow> [] | Some c \<Rightarrow> carrier_code_value c), pickup, delivery,
       show_numeric 4 (tr_total_weight_kg t), isoformat (created_at t)])))"

definition export_transport_orders_csv :: "(datetime \<Rightarrow> string) \<Rightarrow> 'a tms_db_scheme \<Rightarrow> string result" where
  "export_transport_orders_csv isoformat d =
     bindE (list_transport_orders 1 10000 None None d) (\<lambda>(rows, total_count).
     foldE (transport_line isoformat) rows
       (write_row [''Transport No'', ''Status'', ''Carrier'', ''Pickup'', ''Delivery'', ''Weight (kg)'', ''Created'']))"

definition export_returns_csv :: "'a tms_db_scheme \<Rightarrow> string result" where
  "export_returns_csv d =
     bindE (list_return_orders None d) (\<lambda>(rows, total_count).
     Inr (write_row [''Return No'', ''Status'', ''Reason'', ''Refund Amount''] @
       concat (map (\<lambda>r. write_row [rt_return_no r, return_status_value (rt_status r), return_reason_value (rt_reason r),
           show_numeric 2 (rt_refund_amount r)]) rows)))"

text \<open>The default of the service selects the open exceptions.\<close>

definition export_exceptions_csv :: "'a tms_db_scheme \<Rightarrow> string result" where
  "export_exceptions_csv d =
     bindE (list_exceptions None ''open'' d) (\<lambda>rows.
     Inr (write_row [''ID'', ''Status'', ''Type'', ''Severity''] @
       concat (map (\<lambda>x. write_row [show_uuid (pk x), exception_status_value (tx_status x), exception_type_value (tx_type x),
           tx_severity x]) rows)))"

text \<open>A plan has no number of its own, so the first column is empty.\<close>

definition export_route_plans_csv :: "'a tms_db_scheme \<Rightarrow> string" where
  "export_route_plans_csv d =
     write_row [''No'', ''Origin'', ''Dest'', ''Distance (km)'', ''Cost''] @
     concat (map (\<lambda>p. write_row [[], rp_origin_city p, rp_destination_city p, show_numeric 4 (rp_total_distance_km p),
         show_numeric 2 (rp_total_cost_amount p)])
       (order_by_desc created_at (route_plans d)))"

section \<open>Facts\<close>

definition has_addresses :: "transport_order \<Rightarrow> bool" where
  "has_addresses t \<longleftrightarrow> tr_pickup_address t \<noteq> None \<and> tr_delivery_address t \<noteq> None"

lemma transport_line_Inr: "has_addresses t \<Longrightarrow> \<exists>l. transport_line isoformat t acc = Inr (acc @ l)"
  by (auto simp: has_addresses_def transport_line_def city_cell_def)

lemma transport_line_Inl: "\<not> has_addresses t \<Longrightarrow> transport_line isoformat t acc = Inl AttributeError"
  by (auto simp: has_addresses_def transport_line_def city_cell_def split: option.splits)

lemma transport_lines:
  "if \<forall>t\<in>set rows. has_addresses t then \<exists>l. foldE (transport_line isoformat) rows acc = Inr (acc @ l)
   else foldE (transport_line isoformat) rows acc = Inl AttributeError"
proof (induction rows arbitrary: acc)
  case (Cons t rows)
  show ?case
  proof (cases "has_addresses t")
    case True
    then obtain l where l: "transport_line isoformat t acc = Inr (acc @ l)" using transport_line_Inr by blast
    show ?thesis
    proof (cases "\<forall>t\<in>set rows. has_addresses t")
      case all: True
      then obtain l' where "foldE (transport_line isoformat) rows (acc @ l) = Inr ((acc @ l) @ l')"
        using Cons.IH[of "acc @ l"] by auto
      with l all True show ?thesis by simp
    next
      case False
      with Cons.IH[of "acc @ l"] l show ?thesis by simp
    qed
  qed (simp add: transport_line_Inl)
qed simp

lemma list_all_transports: "list_transport_orders 1 n None None d =
    Inr (offset_limit 0 n (order_by_desc created_at (transport_orders d)), length (transport_orders d))"
  by (simp add: list_transport_orders_def enum_if_truthy_def select_where_def row_count_def)

end
