(* ===== verification/Label_Routes.thy ===== *)
theory Label_Routes
  imports Barcode Waybills Routes
begin

text \<open>
  The routes of \<open>src/barcode/router.py\<close> and the reading routes of \<open>src/logistics/router.py\<close>. The file system
  is a map from paths to contents, the archive that \<open>generate_barcode_zip\<close> makes of a sheet a parameter.
\<close>

section \<open>Codes\<close>

definition barcode_generate_schema_ok :: "barcode_req \<Rightarrow> bool" where
  "barcode_generate_schema_ok q \<longleftrightarrow> 7 \<le> length (bq_gtin_prefix q) \<and> length (bq_gtin_prefix q) \<le> 12 \<and>
     bq_entity_type q \<in> {''order'', ''inventory'', ''location'', ''device''} \<and> 1 \<le> length (bq_entity_id q) \<and>
     get_default ''ean13'' (bq_format q) \<in> {''ean13'', ''code128'', ''qr'', ''datamatrix''}"

definition generate_barcode_route ::
  "jwt_lib \<Rightarrow> env \<Rightarrow> string option \<Rightarrow> barcode_req \<Rightarrow> 'a barcode_db_scheme \<Rightarrow> ('a barcode_db_scheme \<times> barcode_record) result" where
  "generate_barcode_route jwt env cr data d =
     authenticated jwt env cr (\<lambda>_.
     checked (barcode_generate_schema_ok data) (caught as_422 (generate_barcode env data d)))"

definition validate_barcode_route :: "jwt_lib \<Rightarrow> env \<Rightarrow> string option \<Rightarrow> string \<Rightarrow> gtin_check result" where
  "validate_barcode_route jwt env cr gtin =
     authenticated jwt env cr (\<lambda>_. checked (8 \<le> length gtin \<and> length gtin \<le> 14) (validate_gtin gtin))"

definition scan_barcode_route ::
  "jwt_lib \<Rightarrow> env \<Rightarrow> string option \<Rightarrow> string \<Rightarrow> 'a barcode_db_scheme \<Rightarrow> ('a barcode_db_scheme \<times> barcode_record) result" where
  "scan_barcode_route jwt env cr raw_data d =
     authenticated jwt env cr (\<lambda>_. checked (1 \<le> length raw_data) (Inr (record_scan env raw_data d)))"

definition get_by_gtin_route ::
  "jwt_lib \<Rightarrow> env \<Rightarrow> string option \<Rightarrow> string \<Rightarrow> 'a barcode_db_scheme \<Rightarrow> barcode_record list result" where
  "get_by_gtin_route jwt env cr gtin d = authenticated jwt env cr (\<lambda>_. Inr (get_by_gtin gtin d))"

section \<open>Sheets\<close>

text \<open>The archive is measured and thrown away; only its name, from a fresh identifier, is answered.\<close>

definition upload_barcode_excel ::
  "jwt_lib \<Rightarrow> env \<Rightarrow> (string \<Rightarrow> string option) \<Rightarrow> string option \<Rightarrow> string \<Rightarrow> string \<Rightarrow> uuid \<Rightarrow> (string \<times> nat) result" where
  "upload_barcode_excel jwt env make_zip cr filename content uid =
     authenticated jwt env cr (\<lambda>_.
     bindE (raise_if (\<not> suffix ''.xlsx'' filename)
              (HTTPException 422 (utf8 [228,187,133,230,148,175,230,140,129] @ '' .xlsx '' @ utf8 [230,150,135,228,187,182]))) (\<lambda>_.
     bindE (of_option (HTTPException 422 []) (make_zip content)) (\<lambda>zip_bytes.
     Inr (''barcodes_'' @ take 8 (uuid_hex uid) @ ''.zip'', length zip_bytes))))"

definition download_barcode_file ::
  "jwt_lib \<Rightarrow> env \<Rightarrow> (string \<Rightarrow> string option) \<Rightarrow> string option \<Rightarrow> string \<Rightarrow> string result" where
  "download_barcode_file jwt env files cr filename =
     authenticated jwt env cr (\<lambda>_.
     of_option (HTTPException 404 (''File not found: '' @ filename)) (files (''/tmp/barcodes/'' @ filename)))"

section \<open>Label templates\<close>

definition template_schema_ok :: "template_req \<Rightarrow> bool" where
  "template_schema_ok q \<longleftrightarrow> 1 \<le> length (lq_name q) \<and> length (lq_name q) \<le> 100 \<and> 1 \<le> length (lq_code q) \<and>
     length (lq_code q) \<le> 50 \<and> get_default ''zpl'' (lq_format q) \<in> {''zpl'', ''ezpl''} \<and>
     0 < get_default 50 (lq_width_mm q) \<and> get_default 50 (lq_width_mm q) \<le> 200 \<and>
     0 < get_default 30 (lq_height_mm q) \<and> get_default 30 (lq_height_mm q) \<le> 200"

definition create_template_route ::
  "jwt_lib \<Rightarrow> env \<Rightarrow> string option \<Rightarrow> template_req \<Rightarrow> 'a barcode_db_scheme \<Rightarrow> ('a barcode_db_scheme \<times> label_template) result" where
  "create_template_route jwt env cr data d =
     authenticated jwt env cr (\<lambda>_. checked (template_schema_ok data) (caught as_422 (create_template env data d)))"

definition list_templates_route ::
  "jwt_lib \<Rightarrow> env \<Rightarrow> string option \<Rightarrow> 'a barcode_db_scheme \<Rightarrow> label_template list result" where
  "list_templates_route jwt env cr d = authenticated jwt env cr (\<lambda>_. Inr (list_templates d))"

section \<open>Waybills\<close>

text \<open>These routes ask for no token.\<close>

definition list_waybill_endpoint ::
  "int \<Rightarrow> int \<Rightarrow> string option \<Rightarrow> string option \<Rightarrow> string option \<Rightarrow> 'a waybill_db_scheme \<Rightarrow> (waybill list \<times> nat) result" where
  "list_waybill_endpoint page page_size status carrier q d =
     checked (page_ok page page_size) (Inr (list_waybills page page_size status carrier q d))"

definition get_waybill_endpoint :: "string \<Rightarrow> 'a waybill_db_scheme \<Rightarrow> waybill result" where
  "get_waybill_endpoint tracking d = get_waybill tracking d"

definition void_waybill_endpoint :: "env \<Rightarrow> string \<Rightarrow> 'a waybill_db_scheme \<Rightarrow> ('a waybill_db_scheme \<times> waybill) result" where
  "void_waybill_endpoint env tracking d = void_waybill env tracking d"

definition track_waybill_endpoint :: "string \<Rightarrow> string \<Rightarrow> kdniao_tracking_view" where
  "track_waybill_endpoint isoformat tracking = kdniao_query_tracking isoformat tracking"

section \<open>Facts\<close>

text \<open>A code that was generated or scanned is found under its number.\<close>

lemma scanned_code_is_found:
  assumes "scan_barcode_route jwt env cr raw d = Inr (d', r)" "get_current_user jwt (now env2) cr2 = Inr c"
  shows "\<exists>rs. get_by_gtin_route jwt env2 cr2 (strip_by py_space raw) d' = Inr rs \<and> r \<in> set rs"
  using assms by (auto simp: scan_barcode_route_def get_by_gtin_route_def authenticated_def record_scan_def Let_def
      get_by_gtin_def)

lemma generated_code_is_valid:
  assumes "generate_barcode_route jwt env cr data d = Inr (d', r)" "get_current_user jwt (now env2) cr2 = Inr c"
  shows "\<exists>rs. generate_gtin (bq_gtin_prefix data) = Inr (bc_gtin r) \<and>
    get_by_gtin_route jwt env2 cr2 (bc_gtin r) d' = Inr rs \<and> r \<in> set rs"
  using assms by (auto simp: generate_barcode_route_def generate_barcode_def get_by_gtin_route_def authenticated_def
      Let_def get_by_gtin_def)

end
