(* ===== verification/Service_Properties.thy ===== *)
theory Service_Properties
  imports Route_Properties Inbox Maintenance Admin_Pages Label_Routes
begin

text \<open>
  Properties of the preferences, of the maintenance tasks and of the exports, each
  followed by its evaluation on a concrete state.
\<close>

section \<open>Sample credentials\<close>

lemma length_show_uuid [simp]: "length (show_uuid u) = 36"
  by (simp add: show_uuid_def Let_def uuid_hex_def)

lemma token_of [simp]:
  "get_current_user plain_jwt 1000 (Some (create_access_token plain_jwt 1000 (Some name) uid)) =
     Inr \<lparr>cl_sub = Some name, cl_uid = uid, cl_exp = seconds 1000 + 3600\<rparr>"
  by (rule access_token_accepted) (simp_all add: plain_jwt_contract)

lemma now_env0 [simp]: "now env0 = 1000"
  by (simp add: env0_def)

section \<open>Preferences\<close>

lemma matching_preference:
  assumes "list_all2 (\<lambda>q p. np_user_id p = u \<and> fr_type q = Some (notification_type_value (np_notification_type p)) \<and>
      fr_channel q = Some (notification_channel_value (np_channel p)) \<and> np_enabled p = get_default True (fr_enabled q)) prefs ps"
  shows "check_enabled ps ty ch =
    (case filter (\<lambda>q. fr_type q = Some (notification_type_value ty) \<and> fr_channel q = Some (notification_channel_value ch)) prefs of
       [] \<Rightarrow> True | q # _ \<Rightarrow> fr_enabled q \<noteq> Some False)"
  using assms
proof (induction prefs ps rule: list_all2_induct)
  case (Cons q prefs p ps)
  have "notification_type_value (np_notification_type p) = notification_type_value ty \<longleftrightarrow> np_notification_type p = ty"
    by (metis notification_type_of_value option.inject)
  moreover have "notification_channel_value (np_channel p) = notification_channel_value ch \<longleftrightarrow> np_channel p = ch"
    by (metis notification_channel_of_value option.inject)
  ultimately show ?case using Cons by (cases "fr_enabled q") (auto simp: check_enabled_def)
qed (simp add: check_enabled_def)

lemma update_preferences_rows:
  assumes "get_current_user jwt (now env) cr = Inr c" "cl_uid c = Some u" "update_preferences_route jwt env cr prefs d = Inr (d', x)"
  shows "\<exists>ps. get_preferences u d' = ps \<and> (\<forall>w. w \<noteq> u \<longrightarrow> get_preferences w d' = get_preferences w d) \<and>
    list_all2 (\<lambda>q p. np_user_id p = u \<and> fr_type q = Some (notification_type_value (np_notification_type p)) \<and>
      fr_channel q = Some (notification_channel_value (np_channel p)) \<and> np_enabled p = get_default True (fr_enabled q)) prefs ps"
proof -
  from assms obtain rows where r: "foldE (add_preference (Some u)) prefs [] = Inr rows"
    "d' = d\<lparr>notification_preferences := delete_where (\<lambda>p. np_user_id p = u) (notification_preferences d) @ map the rows\<rparr>"
    by (auto simp: update_preferences_route_def simp del: add_preference.simps)
  from add_preferences_rows[OF r(1)] obtain ps where p: "rows = map Some ps"
    "list_all2 (\<lambda>q p. np_user_id p = u \<and> fr_type q = Some (notification_type_value (np_notification_type p)) \<and>
      fr_channel q = Some (notification_channel_value (np_channel p)) \<and> np_enabled p = get_default True (fr_enabled q)) prefs ps"
    by auto
  have ps: "\<forall>p\<in>set ps. np_user_id p = u" using p(2) by (induction rule: list_all2_induct) auto
  then have "get_preferences u d' = ps" "\<forall>w. w \<noteq> u \<longrightarrow> get_preferences w d' = get_preferences w d"
    by (auto simp: get_preferences_def select_where_def delete_where_def r(2) p(1) o_def filter_id_conv filter_empty_conv
        intro!: filter_cong)
  with p(2) show ?thesis by blast
qed

text \<open>
  After an update of the preferences a notification of a type on a channel is skipped exactly when the
  first entry of the request for them disables it; every other one fails, because it cannot be stored.
  The preferences of other users are as before.
\<close>

theorem preferences_only_skip:
  assumes "get_current_user jwt (now env) cr = Inr c" "cl_uid c = Some u" "update_preferences_route jwt env cr prefs d = Inr (d', x)"
  shows "(do_send send_email u ty ch title body data email d' = Inr (d', False) \<longleftrightarrow>
      (case filter (\<lambda>q. fr_type q = Some (notification_type_value ty) \<and>
                        fr_channel q = Some (notification_channel_value ch)) prefs of
         [] \<Rightarrow> False | q # _ \<Rightarrow> fr_enabled q = Some False)) \<and>
    (\<forall>r. do_send send_email u ty ch title body data email d' = Inr r \<longrightarrow> r = (d', False)) \<and>
    (\<forall>w. w \<noteq> u \<longrightarrow> get_preferences w d' = get_preferences w d)"
proof -
  from update_preferences_rows[OF assms] obtain ps where
    p: "get_preferences u d' = ps" "\<forall>w. w \<noteq> u \<longrightarrow> get_preferences w d' = get_preferences w d"
    "list_all2 (\<lambda>q p. np_user_id p = u \<and> fr_type q = Some (notification_type_value (np_notification_type p)) \<and>
      fr_channel q = Some (notification_channel_value (np_channel p)) \<and> np_enabled p = get_default True (fr_enabled q)) prefs ps"
    by blast
  from matching_preference[OF p(3), of ty ch] p(2) show ?thesis
    by (auto simp: do_send_cases p(1) split: list.splits if_splits)
qed

definition quiet :: preference_req where
  "quiet = \<lparr>fr_type = Some ''low_stock_alert'', fr_channel = Some ''email'', fr_enabled = Some False\<rparr>"

theorem preferences_only_skip_witness:
  "\<exists>d'. update_preferences_route plain_jwt env0 (Some (create_access_token plain_jwt 1000 (Some ''ann'') (Some (show_uuid 7))))
       [quiet] empty_db = Inr (d', ()) \<and>
     do_send (\<lambda>_. True) (show_uuid 7) LOW_STOCK_ALERT EMAIL [] [] None None d' = Inr (d', False)"
proof -
  let ?cr = "Some (create_access_token plain_jwt 1000 (Some ''ann'') (Some (show_uuid 7)))"
  have "\<exists>d'. update_preferences_route plain_jwt env0 ?cr [quiet] empty_db = Inr (d', ())"
    by (simp add: update_preferences_route_def quiet_def notification_type_of_def notification_channel_of_def)
  then obtain d' where u: "update_preferences_route plain_jwt env0 ?cr [quiet] empty_db = Inr (d', ())" by blast
  have c: "get_current_user plain_jwt (now env0) ?cr = Inr \<lparr>cl_sub = Some ''ann'', cl_uid = Some (show_uuid 7), cl_exp = seconds 1000 + 3600\<rparr>"
    by simp
  from preferences_only_skip[OF c _ u, of "show_uuid 7" "\<lambda>_. True" LOW_STOCK_ALERT EMAIL "[]" "[]" None None] u show ?thesis
    by (auto simp: quiet_def)
qed

section \<open>Maintenance\<close>

text \<open>
  The clean-up of the logs of devices reports every log older than thirty days as deleted and deletes
  none, because its session is closed without a commit.
\<close>

theorem old_sync_logs_are_kept:
  shows "sync_logs (fst (cleanup_old_sync_logs env d)) = sync_logs d \<and>
    snd (cleanup_old_sync_logs env d) = length (filter (\<lambda>l. sl_started_at l < now env - 30 * day_us) (sync_logs d))"
  by (simp add: cleanup_old_sync_logs_def Let_def open_session_def row_count_def is_old_log_def[abs_def]
      close_execute[unfolded open_session_def])

text \<open>The daily numbers of orders by status add up to the number of orders.\<close>

theorem daily_counts_add_up:
  shows "sum_list (map snd (dy_orders_by_status (daily_aggregation env d))) = dy_total_orders (daily_aggregation env d) \<and>
    dy_orders_today (daily_aggregation env d) \<le> dy_total_orders (daily_aggregation env d)"
  using row_counts_add_up[of order_status_members "orders d" ord_status]
  by (simp add: daily_aggregation_def o_def row_count_def)

section \<open>Exports\<close>

theorem one_transport_breaks_the_export:
  assumes "create_transport_order_route env data d = Inr (d', t)"
    and "tq_pickup_address data = None \<or> tq_delivery_address data = None" "length (transport_orders d) < 10000"
  shows "export_transport_orders_csv isoformat d' = Inl AttributeError"
proof -
  from assms(1) have n: "new_transport env data d = Inr t" and d': "transport_orders d' = transport_orders d @ [t]"
    by (auto simp: create_transport_order_route_def create_transport_order_def created_event_def insert_row_def tick_def
        split: sum.splits)
  from n assms(2) have "\<not> has_addresses t" by (auto simp: new_transport_def has_addresses_def)
  moreover have "offset_limit 0 10000 (order_by_desc created_at (transport_orders d')) = order_by_desc created_at (transport_orders d')"
    using assms(3) by (simp add: offset_limit_def order_by_desc_def d')
  then have "t \<in> set (offset_limit 0 10000 (order_by_desc created_at (transport_orders d')))" by (simp add: d')
  ultimately have "\<not> (\<forall>t\<in>set (offset_limit 0 10000 (order_by_desc created_at (transport_orders d'))). has_addresses t)" by blast
  then show ?thesis
    using transport_lines[of "offset_limit 0 10000 (order_by_desc created_at (transport_orders d'))" isoformat]
    by (simp only: export_transport_orders_csv_def list_all_transports bindE_simps prod.case if_False)
qed

theorem one_transport_breaks_the_export_witness:
  "\<exists>d' t. create_transport_order_route env0 (transport_data\<lparr>tq_pickup_address := None\<rparr>) empty_db = Inr (d', t) \<and>
     export_transport_orders_csv (\<lambda>t. []) d' = Inl AttributeError"
proof -
  have "\<exists>d' t. create_transport_order_route env0 (transport_data\<lparr>tq_pickup_address := None\<rparr>) empty_db = Inr (d', t)"
    by (simp add: create_transport_order_route_def create_transport_order_def new_transport_def created_event_def transport_data_def
        enum_if_truthy_def uuid_if_truthy_def enum_of_def enum_find_def carrier_service_types_def transport_types_def
        addr_city_def transport_req_schema_ok_def sample_eval)
  then obtain d' t where c: "create_transport_order_route env0 (transport_data\<lparr>tq_pickup_address := None\<rparr>) empty_db = Inr (d', t)"
    by blast
  from one_transport_breaks_the_export[OF c, of "\<lambda>t. []"] c show ?thesis by (auto simp: empty_db_def)
qed

end
