(* ===== verification/System.thy ===== *)
theory System
  imports Oms_Routes Inbox Pda
begin

text \<open>
  The channels between the subsystems taken together: everything that writes the outbox, the
  notifications or the targets of webhooks is a rule of the step relation \<open>core_step\<close>, and the
  reachable states are those that such steps leave of empty channels. Each rule is the operation itself;
  the last rule stands for the rest of the program, which writes none of the three tables. The mutations
  of the terminal devices, the fourth writer of the outbox, are the relation \<open>pda_step\<close> of \<open>Pda\<close>.
\<close>

section \<open>Everything that writes a channel\<close>

inductive core_step :: "jwt_lib \<Rightarrow> 'a oms_db_scheme \<Rightarrow> 'a oms_db_scheme \<Rightarrow> bool" for jwt where
  order_request: "core_step jwt d (fst (serve_oms jwt w r d))"
| order_created: "create_order env data d = Inr (d', v) \<Longrightarrow> core_step jwt d d'"
| status_changed: "update_order_status env http i s operator d = Inr (d', v) \<Longrightarrow> core_step jwt d d'"
| pushed: "core_step jwt d (fst (sync_push env uuid5 batch d))"
| worker: "dispatch_outbox_events env post d = Inr (d', n) \<Longrightarrow> core_step jwt d d'"
| worker_read: "dispatch_pending_events env batch_size d = Inr es \<Longrightarrow> core_step jwt d d"
| worker_marked: "mark_dispatched env ids d = Inr (d', n) \<Longrightarrow> core_step jwt d d'"
| worker_failed: "mark_failed env u m d = Inr d' \<Longrightarrow> core_step jwt d d'"
| sent: "do_send mail uid ty ch title body data email d = Inr (d', b) \<Longrightarrow> core_step jwt d d'"
| alerted: "core_step jwt d (fst (notify_low_stock mail wh sku_str q body users d))"
| read: "mark_read_route stamps jwt env cr k d = Inr (d', u) \<Longrightarrow> core_step jwt d d'"
| read_all: "mark_all_read_route jwt env cr d = Inr (d', u) \<Longrightarrow> core_step jwt d d'"
| preferences: "update_preferences_route jwt env cr prefs d = Inr (d', u) \<Longrightarrow> core_step jwt d d'"
| target_created: "create_target_route jwt env cr k hook d = Inr (d', k') \<Longrightarrow> core_step jwt d d'"
| target_updated: "update_target_route jwt env cr k upd d = Inr (d', u) \<Longrightarrow> core_step jwt d d'"
| target_deleted: "delete_target_route jwt env cr k d = Inr (d', u) \<Longrightarrow> core_step jwt d d'"
| form_created: "admin_create_webhook jwt env cr k name url secret evs st d = Inr (d', u) \<Longrightarrow> core_step jwt d d'"
| form_deleted: "admin_delete_webhook jwt env cr k d = Inr (d', u) \<Longrightarrow> core_step jwt d d'"
| elsewhere: "outbox_events d' = outbox_events d \<Longrightarrow> notifications d' = notifications d \<Longrightarrow>
    webhook_targets d' = webhook_targets d \<Longrightarrow> core_step jwt d d'"

inductive core_reachable :: "jwt_lib \<Rightarrow> 'a oms_db_scheme \<Rightarrow> bool" for jwt where
  start: "outbox_events d = [] \<Longrightarrow> notifications d = [] \<Longrightarrow> webhook_targets d = [] \<Longrightarrow> core_reachable jwt d"
| step: "core_reachable jwt d \<Longrightarrow> core_step jwt d d' \<Longrightarrow> core_reachable jwt d'"

section \<open>What a step may leave\<close>

text \<open>An event as \<open>append_event\<close> stores it.\<close>

definition untouched :: "outbox_event \<Rightarrow> bool" where
  "untouched e \<longleftrightarrow> ob_status e = OutboxEventStatus_PENDING \<and> ob_retry_count e = 0 \<and> ob_error_message e = None \<and>
     ob_scheduled_at e = None \<and> ob_dispatched_at e = None"

definition appends :: "'a core_db_scheme \<Rightarrow> 'a core_db_scheme \<Rightarrow> bool" where
  "appends d d' \<longleftrightarrow> notifications d' = notifications d \<and> webhook_targets d' = webhook_targets d \<and>
     (\<exists>es. outbox_events d' = outbox_events d @ es \<and> (\<forall>e\<in>set es. untouched e))"

lemma appends_same:
  assumes "outbox_events d' = outbox_events d" "notifications d' = notifications d" "webhook_targets d' = webhook_targets d"
  shows "appends d d'"
  using assms by (simp add: appends_def)

lemma appends_refl [intro, simp]: "appends d d"
  by (simp add: appends_same)

lemma appends_trans:
  assumes "appends d d1" "appends d1 d2"
  shows "appends d d2"
proof -
  from assms obtain es es' where "outbox_events d2 = outbox_events d @ es @ es'" "\<forall>e\<in>set (es @ es'). untouched e"
    unfolding appends_def by fastforce
  with assms show ?thesis unfolding appends_def by metis
qed

lemma appends_event [simp]: "appends d (append_event env a i t p d)"
proof -
  have "\<exists>e. outbox_events (append_event env a i t p d) = outbox_events d @ [e] \<and> untouched e"
    by (simp add: append_event_def Let_def tick_def insert_row_def untouched_def)
  moreover have "notifications (append_event env a i t p d) = notifications d"
    by (simp add: append_event_def Let_def tick_def)
  ultimately show ?thesis by (auto simp: appends_def)
qed

lemma foldE_appends:
  assumes "foldE f xs d = Inr d'" "\<And>x u v. f x u = Inr v \<Longrightarrow> appends u v"
  shows "appends d d'"
  using foldE_invariant[OF assms(1), of "appends d"] assms(2) appends_trans by blast

lemma fold_appends:
  assumes "\<And>x u. appends u (f x u)"
  shows "appends d (fold f xs d)"
proof (induction xs arbitrary: d)
  case (Cons x xs)
  from assms[of d x] Cons[of "f x d"] show ?case by (simp add: appends_trans[of d "f x d"])
qed simp

section \<open>The orders\<close>

lemma get_or_create_customer_appends:
  assumes "get_or_create_customer env s d = Inr (d', c)"
  shows "appends d d'"
  using assms by (auto simp: get_or_create_customer_def Let_def tick_def intro!: appends_same split: option.splits)

lemma add_order_item_appends:
  assumes "add_order_item env oid it d = Inr d'"
  shows "appends d d'"
proof -
  from assms obtain d1 sid where d1: "(if get_default [] (rq_sku it) \<noteq> []
      then bindE (get_or_create_sku env (get_default [] (rq_sku it)) d) (\<lambda>(d1, s). Inr (d1, Some (pk s)))
      else Inr (d, None)) = Inr (d1, sid)"
    and d': "d' = (tick d1)\<lparr>order_items := insert_row (new_order_item env (new_uuid env d1) oid sid it) (order_items d1)\<rparr>"
    by (auto simp: add_order_item_def Let_def)
  have "\<exists>n t. d1 = d\<lparr>drawn := n, skus := t\<rparr> \<or> d1 = d"
    using d1 by (auto split: if_splits dest!: get_or_create_sku_frame)
  then have "appends d d1" by (auto intro: appends_same)
  moreover have "appends d1 d'" by (simp add: d' tick_def appends_same)
  ultimately show ?thesis by (rule appends_trans)
qed

lemma create_order_appends:
  assumes "create_order env data d = Inr (d', v)"
  shows "appends d d'"
  using assms
proof (rule create_orderE)
  fix d1 customer order d3
  assume c: "get_or_create_customer env (rq_customer_id data) d = Inr (d1, customer)"
    and items: "foldE (add_order_item env (pk order)) (rq_items data)
       (d1\<lparr>drawn := Suc (Suc (drawn d1)), orders := insert_row order (orders d1)\<rparr>) = Inr d3"
    and d': "d' = append_event env ''Order'' (pk order) ''order.created''
           (JObj [(''order_id'', JStr (show_uuid (pk order))), (''order_no'', JStr (ord_order_no order)),
                  (''total_amount'', JNum (ord_total_amount order)), (''customer_id'', JStr (rq_customer_id data))])
           (add_status_log env (pk order) [] ''pending'' ''Order created'' d3)"
  note get_or_create_customer_appends[OF c]
  also have "appends d1 (d1\<lparr>drawn := Suc (Suc (drawn d1)), orders := insert_row order (orders d1)\<rparr>)"
    by (simp add: appends_same)
  also (appends_trans) have "appends \<dots> d3" by (rule foldE_appends[OF items add_order_item_appends])
  also (appends_trans) have "appends d3 (add_status_log env (pk order) [] ''pending'' ''Order created'' d3)"
    by (simp add: add_status_log_def tick_def appends_same)
  also (appends_trans) have "appends \<dots> d'" unfolding d' by (rule appends_event)
  finally (appends_trans) show ?thesis .
qed

text \<open>Without a target the change of a status sends nothing at all.\<close>

lemma update_order_status_appends:
  assumes "update_order_status env http i s operator d = Inr (d', v)" "webhook_targets d = []"
  shows "appends d d'"
  using assms by (auto simp: update_order_status_def Let_def dispatch_event_no_targets add_status_log_def tick_def intro!: appends_same)

lemma delete_order_appends:
  assumes "delete_order env i d = Inr (d', u)"
  shows "appends d d'"
  using assms by (rule delete_orderE) (simp add: appends_same)

lemma split_order_appends:
  assumes "split_order env i splits reason d = Inr (d', vs)"
  shows "appends d d'"
proof -
  from assms obtain oid order where "foldE (split_child env order (select_where (\<lambda>oi. oi_order_id oi = oid) (order_items d)) reason)
       (enumerate 0 splits) (d, []) = Inr (d', vs)"
    unfolding split_order_def by auto
  from foldE_invariant[OF this, of "\<lambda>(u, _). appends d u"] show ?thesis
  proof (simp, elim meta_mp)
    fix x u v assume u: "case u of (u, _) \<Rightarrow> appends d u" and s: "split_child env order
      (select_where (\<lambda>oi. oi_order_id oi = oid) (order_items d)) reason x u = Inr v"
    obtain k sp d1 vs1 d2 vs2 where x: "x = (k, sp)" "u = (d1, vs1)" "v = (d2, vs2)" by (metis prod.exhaust)
    have "appends d1 d2" using s unfolding x by (rule split_childE) (simp add: appends_same)
    with u show "case v of (u, _) \<Rightarrow> appends d u" unfolding x by (auto intro: appends_trans)
  qed
qed

lemma merge_orders_appends:
  assumes "merge_orders env ff ids c wid nt d = Inr (d', v)"
  shows "appends d d'"
proof -
  from assms obtain ti ta os mc d1 g where
    m: "merge_attempts env ff wid nt ti ta 3 mc d = Inr (d1, g)" and d': "d' = fold (add_merge_link env (pk g)) os d1"
    unfolding merge_orders_def Let_def by (auto simp del: merge_attempts.simps)
  have "d1 = d\<lparr>drawn := drawn d1, merge_groups := merge_groups d1\<rparr>" using merge_attempts_frame[OF m] ..
  then have "appends d d1"
    by (intro appends_same) (drule arg_cong[where f = outbox_events] arg_cong[where f = notifications]
        arg_cong[where f = webhook_targets], simp)+
  moreover have "appends d1 d'" unfolding d' by (rule fold_appends) (simp add: add_merge_link_def tick_def appends_same)
  ultimately show ?thesis by (rule appends_trans)
qed

lemma serve_oms_appends:
  assumes "webhook_targets d = []"
  shows "appends d (fst (serve_oms jwt w r d))"
proof -
  have k: "appends d (fst (kept d x))" if "\<And>d' v. x = Inr (d', v) \<Longrightarrow> appends d d'" for x :: "('a oms_db_scheme \<times> 'v) result"
    using that by (auto simp: kept_def split: sum.splits prod.splits)
  note ops = create_order_appends update_order_status_appends[OF _ assms] delete_order_appends split_order_appends
    merge_orders_appends
  show ?thesis
    by (cases r; simp only: serve_oms.simps; rule k) (auto simp: oms_route_defs intro: ops)
qed

section \<open>The invariant of the channels\<close>

definition nothing_sent :: "'a core_db_scheme \<Rightarrow> bool" where
  "nothing_sent d \<longleftrightarrow> notifications d = [] \<and> webhook_targets d = [] \<and> (\<forall>e\<in>set (outbox_events d). untouched e)"

lemma nothing_sent_appends: "nothing_sent d \<Longrightarrow> appends d d' \<Longrightarrow> nothing_sent d'"
  by (auto simp: nothing_sent_def appends_def)

lemma core_step_appends:
  assumes "core_step jwt d d'" "nothing_sent d"
  shows "appends d d'"
proof -
  have nt: "webhook_targets d = []" using assms(2) by (simp add: nothing_sent_def)
  from assms(1) show ?thesis
  proof cases
    case (pushed env uuid5 batch)
    have "appends d (fold (push_item env uuid5) batch d)" by (rule fold_appends) (simp add: push_item_def)
    with pushed show ?thesis by (simp add: sync_push_def)
  next
    case (sent mail uid ty ch title body data email b)
    then show ?thesis by (auto simp: do_send_cases split: if_splits)
  next
    case (preferences env cr prefs u)
    then show ?thesis by (auto simp: update_preferences_route_def authenticated_def intro!: appends_same split: sum.splits)
  qed (auto simp: serve_oms_appends nt mark_dispatched_def mark_failed_def intro: appends_same create_order_appends update_order_status_appends
      dest: target_routes_frame[OF _ nt])
qed

lemma core_reachable_nothing_sent: "core_reachable jwt d \<Longrightarrow> nothing_sent d"
proof (induction rule: core_reachable.induct)
  case (step d d')
  then show ?case using core_step_appends nothing_sent_appends by blast
qed (simp add: nothing_sent_def)

lemma core_steps_append:
  assumes "(core_step jwt)\<^sup>*\<^sup>* d d'" "nothing_sent d"
  shows "appends d d'" "nothing_sent d'"
proof -
  have "appends d d' \<and> nothing_sent d'" using assms
    by (induction rule: rtranclp_induct) (auto intro: appends_trans nothing_sent_appends core_step_appends)
  then show "appends d d'" "nothing_sent d'" by blast+
qed

text \<open>While nothing was sent no inbox shows anything and no change is pulled.\<close>

lemma nothing_sent_inbox: "nothing_sent d \<Longrightarrow> inbox uid b d = []"
  by (simp add: nothing_sent_def inbox_def)

lemma nothing_sent_pull:
  assumes "nothing_sent d"
  shows "sync_pull fromisoformat ty since limit d = ([], limit = 0)"
proof -
  have "select_where (pull_filter fromisoformat ty since) (outbox_events d) = []"
    using assms by (auto simp: nothing_sent_def untouched_def pull_filter_def select_where_def filter_empty_conv)
  then show ?thesis by (simp add: sync_pull_def order_by_desc_def)
qed

end
