(* ===== verification/System_Properties.thy ===== *)
theory System_Properties
  imports System Service_Properties
begin

text \<open>
  What the channels between the subsystems carry in the end, in every state that the steps of \<open>System\<close>
  can reach.
\<close>

section \<open>Notifications\<close>

text \<open>
  C35: In every state that orders, devices, the outbox worker, notifications and the routes over
  inboxes and webhooks can reach from empty tables, the inbox of every user is empty, whatever was
  notified: the creation time of a notification knows its zone and its column does not, so the
  insert of every notification is refused, and the routes answer no row and mark none.
\<close>

theorem every_inbox_stays_empty:
  assumes "core_reachable jwt d"
  shows "inbox uid unread d = [] \<and>
    do_send mail user ty ch title body data email d \<noteq> Inr (d', True) \<and>
    mark_read_route stamps jwt env cr k d \<noteq> Inr r \<and>
    list_notifications_route stamps jwt env cr page n unread d =
      authenticated jwt env cr (\<lambda>_. checked (page_ok page n)
        (Inr \<lparr>ip_items = [], ip_total = 0, ip_page = page, ip_page_size = n\<rparr>))"
proof -
  have e: "inbox u unread d = []" for u by (rule nothing_sent_inbox[OF core_reachable_nothing_sent[OF assms]])
  then have "list_notifications_route stamps jwt env cr page n unread d =
      authenticated jwt env cr (\<lambda>_. checked (page_ok page n)
        (Inr \<lparr>ip_items = [], ip_total = 0, ip_page = page, ip_page_size = n\<rparr>))"
    by (simp add: list_notifications_route_def order_by_desc_def offset_limit_def)
  with e show ?thesis by (simp add: do_send_cases)
qed

lemma order_db_reachable: "core_reachable jwt order_db"
  by (rule core_reachable.start) (simp_all add: order_db_def empty_db_def)

text \<open>The user who has just changed the status of an order is shown nothing.\<close>

theorem every_inbox_stays_empty_witness:
  "\<exists>d v. update_order_status env0 (\<lambda>_ _. None) (show_uuid 7) ''confirmed'' ''ann'' order_db = Inr (d, v) \<and>
     ov_status v = ''confirmed'' \<and>
     list_notifications_route \<lparr>rs_id = int, rs_created_at = int\<rparr> plain_jwt env0
       (Some (create_access_token plain_jwt 1000 (Some ''ann'') (Some ''ann''))) 1 20 False d =
     Inr \<lparr>ip_items = [], ip_total = 0, ip_page = 1, ip_page_size = 20\<rparr>"
proof -
  have "\<exists>d v. update_order_status env0 (\<lambda>_ _. None) (show_uuid 7) ''confirmed'' ''ann'' order_db = Inr (d, v) \<and> ov_status v = ''confirmed''"
    by (simp add: update_order_status_def Let_def order_db_def find_or_raise_def find_one_Some_iff validate_transition_def
        order_states_def raise_if_def order7_def order8_def status_map_def)
  then obtain d v where u: "update_order_status env0 (\<lambda>_ _. None) (show_uuid 7) ''confirmed'' ''ann'' order_db = Inr (d, v)"
    "ov_status v = ''confirmed''" by blast
  have "core_reachable plain_jwt d"
    by (rule core_reachable.step[OF order_db_reachable core_step.status_changed[OF u(1)]])
  from every_inbox_stays_empty[OF this, of _ False] u show ?thesis
    by (simp add: authenticated_def page_ok_def)
qed

section \<open>The outbox\<close>

text \<open>
  C37: In every state that orders, devices, the outbox worker, notifications and the routes over
  inboxes and webhooks can reach from empty tables, the outbox is only ever appended to: an event
  once stored stays where it is, pending, never tried and never dispatched, however often the worker
  runs, because the worker opens no session; and so a pull of a device answers no change, whatever
  it asks for.
\<close>

theorem no_change_is_ever_pulled:
  assumes "core_reachable jwt d" "(core_step jwt)\<^sup>*\<^sup>* d d'"
  shows "(\<exists>es. outbox_events d' = outbox_events d @ es) \<and>
    (\<forall>e. e \<in> set (outbox_events d') \<longrightarrow> ob_status e = OutboxEventStatus_PENDING \<and> ob_retry_count e = 0 \<and> ob_dispatched_at e = None) \<and>
    sync_pull fromisoformat ty since limit d' = ([], limit = 0)"
proof -
  note s = core_steps_append[OF assms(2) core_reachable_nothing_sent[OF assms(1)]]
  with nothing_sent_pull[OF s(2)] show ?thesis by (auto simp: appends_def nothing_sent_def untouched_def)
qed

definition pushed0 :: sync_push_item where
  "pushed0 = \<lparr>sp_entity_type = ''Stock'', sp_entity_id = ''9'', sp_operation = ''update'', sp_payload = JNull, sp_client_timestamp = None\<rparr>"

text \<open>An order is created and a device pushes a change: both events stay, and the device pulls nothing.\<close>

theorem no_change_is_ever_pulled_witness:
  "\<exists>d v. create_order env0 order_data empty_db = Inr (d, v) \<and>
     length (outbox_events (fst (sync_push env0 (\<lambda>_. 9) [pushed0] d))) = 2 \<and>
     sync_pull (\<lambda>_. None) None None 100 (fst (sync_push env0 (\<lambda>_. 9) [pushed0] d)) = ([], False)"
proof -
  have "\<exists>d v. create_order env0 order_data empty_db = Inr (d, v) \<and> length (outbox_events d) = 1"
    by (simp add: sample_eval insert_row_def)
  then obtain d v where c: "create_order env0 order_data empty_db = Inr (d, v)" "length (outbox_events d) = 1" by blast
  let ?d = "fst (sync_push env0 (\<lambda>_. 9) [pushed0] d)"
  have "core_reachable plain_jwt empty_db" by (rule core_reachable.start) (simp_all add: empty_db_def)
  then have r: "core_reachable plain_jwt d" by (rule core_reachable.step[OF _ core_step.order_created[OF c(1)]])
  have "(core_step plain_jwt)\<^sup>*\<^sup>* d ?d" by (rule r_into_rtranclp) (rule core_step.pushed)
  from no_change_is_ever_pulled[OF r this, of "\<lambda>_. None" None None 100] c show ?thesis
    by (simp add: sync_push_def push_item_def append_event_def Let_def tick_def insert_row_def)
qed

end
