(* ===== verification/File_Imports.thy ===== *)
theory File_Imports
  imports Csv_Stock Routes Waybills Connectors
begin

text \<open>
  The imports that work in one session of the database for the whole file: orders from the
  administration (\<open>src/core/import_utils.py\<close>) and from \<open>src/core/_import/import_orders.py\<close>, and stock from the
  administration. An error of a row is recorded and the session goes on: what the row had flushed
  stays and is committed later, and after a failed flush the session refuses every statement. The text
  of a JSON array of items (\<open>loads\<close>) and of a decimal (\<open>parse\<close>) are parameters.
\<close>

section \<open>The session of an import\<close>

record 'd import_session =
  ms_committed :: 'd
  ms_working :: 'd
  ms_broken :: bool

definition begin_import :: "'d \<Rightarrow> 'd import_session" where
  "begin_import d = \<lparr>ms_committed = d, ms_working = d, ms_broken = False\<rparr>"

text \<open>
  The end of the request: \<open>get_db\<close> commits what is left. \<open>None\<close> is an internal error, after which the
  committed tables remain.
\<close>

definition end_import :: "'d import_session \<Rightarrow> bool \<Rightarrow> import_result \<Rightarrow> 'd \<times> import_result option" where
  "end_import s raised r =
     (if raised \<or> ms_broken s then (ms_committed s, None) else (ms_working s, Some r))"

section \<open>Items of a file\<close>

record import_item =
  ii_sku :: "string option"
  ii_gtin :: "string option"
  ii_product_name :: "string option"
  ii_quantity :: "json option"
  ii_unit_price :: "json option"

text \<open>\<open>Decimal(str(v))\<close> of a JSON value; \<open>int(v)\<close> is \<open>int_of_json\<close>.\<close>

fun decimal_of_json :: "(string \<Rightarrow> decimal option) \<Rightarrow> json \<Rightarrow> decimal result" where
  "decimal_of_json parse (JNum q) = Inr q"
| "decimal_of_json parse (JStr s) = of_option InvalidOperation (parse s)"
| "decimal_of_json parse _ = Inl InvalidOperation"

definition convert_item :: "(string \<Rightarrow> decimal option) \<Rightarrow> import_item \<Rightarrow> order_item_req list \<Rightarrow> order_item_req list result" where
  "convert_item parse it acc =
     bindE (decimal_of_json parse (get_default (JNum 0) (ii_unit_price it))) (\<lambda>price.
     bindE (int_of_json (get_default (JNum 0) (ii_quantity it))) (\<lambda>qty.
     Inr (acc @ [\<lparr>rq_gtin = ii_gtin it, rq_sku = ii_sku it, rq_product_name = ii_product_name it,
                  rq_quantity = Some qty, rq_unit_price = Some price\<rparr>])))"

section \<open>Orders\<close>

record file_order =
  fo_customer_id :: string
  fo_items :: "import_item list"
  fo_priority :: string
  fo_notes :: string

text \<open>
  \<open>create_order\<close> in the session. The customer is flushed and the number of the order drawn before the
  items are converted; afterwards only a flush can fail.
\<close>

definition session_create_order ::
  "env \<Rightarrow> (string \<Rightarrow> decimal option) \<Rightarrow> file_order \<Rightarrow> 'a oms_db_scheme import_session \<Rightarrow>
   'a oms_db_scheme import_session \<times> order_view result" where
  "session_create_order env parse ord s =
     (if ms_broken s then (s, Inl PendingRollbackError)
      else case get_or_create_customer env (fo_customer_id ord) (ms_working s) of
             Inl e \<Rightarrow> (s\<lparr>ms_broken := (e = IntegrityError)\<rparr>, Inl e)
           | Inr (d1, customer) \<Rightarrow>
               (case foldE (convert_item parse) (fo_items ord) [] of
                  Inl e \<Rightarrow> (s\<lparr>ms_working := tick d1\<rparr>, Inl e)
                | Inr items \<Rightarrow>
                    (case create_order env \<lparr>rq_customer_id = fo_customer_id ord, rq_items = items,
                            rq_priority = Some (fo_priority ord), rq_notes = Some (fo_notes ord)\<rparr> (ms_working s) of
                       Inl e \<Rightarrow> (s\<lparr>ms_broken := True\<rparr>, Inl e)
                     | Inr (d2, v) \<Rightarrow> (s\<lparr>ms_committed := d2, ms_working := d2\<rparr>, Inr v))))"

text \<open>The two imports differ in the error of a missing customer and in the text of the priority.\<close>

definition text_cell :: "string \<Rightarrow> string \<Rightarrow> csv_row \<Rightarrow> string result" where
  "text_cell k dflt row = (case row_get k (Some dflt) row of None \<Rightarrow> Inl AttributeError | Some s \<Rightarrow> Inr (strip_by py_space s))"

definition read_order_row ::
  "exn \<Rightarrow> (string \<Rightarrow> string) \<Rightarrow> (string \<Rightarrow> import_item list option) \<Rightarrow> csv_row \<Rightarrow> file_order result" where
  "read_order_row missing prio loads row =
     bindE (text_cell ''customer_id'' [] row) (\<lambda>customer_id.
     bindE (raise_if (customer_id = []) missing) (\<lambda>_.
     bindE (text_cell ''items'' ''[]'' row) (\<lambda>items_raw.
     bindE (if items_raw = [] then Inr [] else of_option ValueError (loads items_raw)) (\<lambda>items.
     bindE (text_cell ''priority'' ''medium'' row) (\<lambda>priority.
     bindE (text_cell ''notes'' [] row) (\<lambda>notes.
     Inr \<lparr>fo_customer_id = customer_id, fo_items = items, fo_priority = prio priority, fo_notes = notes\<rparr>))))))"

fun import_order_rows ::
  "env \<Rightarrow> (string \<Rightarrow> decimal option) \<Rightarrow> (csv_row \<Rightarrow> file_order result) \<Rightarrow> nat \<Rightarrow> csv_row list \<Rightarrow>
   'a oms_db_scheme import_session \<Rightarrow> 'a oms_db_scheme import_session \<times> import_result" where
  "import_order_rows env parse read n [] s = (s, \<lparr>im_success = 0, im_errors = []\<rparr>)"
| "import_order_rows env parse read n (row # rows) s =
     (case (case read row of Inl e \<Rightarrow> (s, Inl e) | Inr ord \<Rightarrow> session_create_order env parse ord s) of
        (s1, Inr v) \<Rightarrow> (case import_order_rows env parse read (Suc n) rows s1 of (s2, r) \<Rightarrow> (s2, r\<lparr>im_success := Suc (im_success r)\<rparr>))
      | (s1, Inl e) \<Rightarrow> (case import_order_rows env parse read (Suc n) rows s1 of (s2, r) \<Rightarrow> (s2, r\<lparr>im_errors := (n, e) # im_errors r\<rparr>)))"

definition import_order_file ::
  "env \<Rightarrow> (string \<Rightarrow> decimal option) \<Rightarrow> (csv_row \<Rightarrow> file_order result) \<Rightarrow> string \<Rightarrow> 'a oms_db_scheme \<Rightarrow>
   'a oms_db_scheme \<times> import_result option" where
  "import_order_file env parse read csv_text d =
     (case dict_rows csv_text of (rows, failed) \<Rightarrow>
        case import_order_rows env parse read 2 rows (begin_import d) of (s, r) \<Rightarrow> end_import s failed r)"

definition import_orders_from_csv ::
  "env \<Rightarrow> (string \<Rightarrow> decimal option) \<Rightarrow> (string \<Rightarrow> import_item list option) \<Rightarrow> string \<Rightarrow> 'a oms_db_scheme \<Rightarrow>
   'a oms_db_scheme \<times> import_result option" where
  "import_orders_from_csv env parse loads content d =
     import_order_file env parse (read_order_row (validation ''customer_id is required'') (\<lambda>p. p) loads) content d"

definition lower_priority :: "string \<Rightarrow> string" where
  "lower_priority p = (let q = map lower_char p in if q = [] then ''medium'' else q)"

definition handle_orders_import ::
  "env \<Rightarrow> (string \<Rightarrow> decimal option) \<Rightarrow> (string \<Rightarrow> import_item list option) \<Rightarrow> string \<Rightarrow> 'a oms_db_scheme \<Rightarrow>
   'a oms_db_scheme \<times> import_result option" where
  "handle_orders_import env parse loads csv_text d =
     import_order_file env parse (read_order_row ValueError lower_priority loads) csv_text d"

text \<open>The endpoint, which asks for no token; \<open>import_csv_handler\<close> answers bytes that do not decode.\<close>

definition import_orders_endpoint ::
  "env \<Rightarrow> (string \<Rightarrow> decimal option) \<Rightarrow> (string \<Rightarrow> import_item list option) \<Rightarrow> (string \<Rightarrow> string option) \<Rightarrow> string \<Rightarrow>
   'a oms_db_scheme \<Rightarrow> 'a oms_db_scheme \<times> import_result option" where
  "import_orders_endpoint env parse loads decode file d =
     (case decode file of None \<Rightarrow> (d, Some \<lparr>im_success = 0, im_errors = [(1, ValueError)]\<rparr>)
      | Some csv_text \<Rightarrow> handle_orders_import env parse loads csv_text d)"

section \<open>Stock\<close>

text \<open>\<open>int(row.get(k, 0))\<close>\<close>

definition number_cell :: "string \<Rightarrow> csv_row \<Rightarrow> int result" where
  "number_cell k row = (case row_get k (Some ''0'') row of None \<Rightarrow> Inl TypeError | Some s \<Rightarrow> of_option ValueError (py_int s))"

definition read_stock_row :: "csv_row \<Rightarrow> (uuid \<times> uuid \<times> int \<times> int) result" where
  "read_stock_row row =
     bindE (text_cell ''sku_id'' [] row) (\<lambda>sku_str.
     bindE (text_cell ''warehouse_id'' [] row) (\<lambda>wh_str.
     bindE (number_cell ''quantity'' row) (\<lambda>quantity.
     bindE (number_cell ''min_qty'' row) (\<lambda>min_qty.
     bindE (to_uuid sku_str) (\<lambda>sku_id.
     bindE (to_uuid wh_str) (\<lambda>warehouse_id.
     Inr (sku_id, warehouse_id, quantity, min_qty)))))))"

text \<open>The keys of the database: the product and the warehouse of a stored row exist.\<close>

definition stock_refs_ok :: "'a wms_db_scheme \<Rightarrow> inventory \<Rightarrow> bool" where
  "stock_refs_ok d i \<longleftrightarrow> inv_sku_id i \<in> pk ` set (skus d) \<and>
     (case inv_warehouse_id i of None \<Rightarrow> True | Some w \<Rightarrow> w \<in> pk ` set (warehouses d))"

definition file_stock :: "env \<Rightarrow> uuid \<Rightarrow> uuid \<Rightarrow> uuid \<Rightarrow> int \<Rightarrow> int \<Rightarrow> inventory" where
  "file_stock env u sku_id warehouse_id quantity min_qty =
     \<lparr>pk = u, created_at = now env, updated_at = now env, is_deleted = False, deleted_at = None,
      inv_warehouse_id = Some warehouse_id, inv_location_id = None, inv_sku_id = sku_id, inv_gtin = [],
      inv_batch_no = [], inv_quantity = of_int quantity, inv_locked_qty = 0, inv_min_qty = of_int min_qty,
      inv_max_qty = 0, inv_version = 0, inv_expiry_date = None, inv_manufacturing_date = None,
      inv_received_at = None\<rparr>"

text \<open>
  The rows are added without a flush; the query for the next row flushes them first. A row that names an
  unknown product or warehouse was already counted as a success when that flush refuses it.
\<close>

definition import_stock_row ::
  "env \<Rightarrow> csv_row \<Rightarrow> 'a wms_db_scheme import_session \<Rightarrow> 'a wms_db_scheme import_session \<times> unit result" where
  "import_stock_row env row s =
     (case read_stock_row row of
        Inl e \<Rightarrow> (s, Inl e)
      | Inr (sku_id, warehouse_id, quantity, min_qty) \<Rightarrow>
          if ms_broken s then (s, Inl PendingRollbackError)
          else let d = ms_working s in
            if \<not> list_all (stock_refs_ok d) (inventory_rows d) then (s\<lparr>ms_broken := True\<rparr>, Inl IntegrityError)
            else case find_one (stock_at sku_id warehouse_id) (inventory_rows d) of
                   Inl e \<Rightarrow> (s, Inl e)
                 | Inr (Some i) \<Rightarrow>
                     (s\<lparr>ms_working := d\<lparr>inventory_rows := update_where (\<lambda>x. pk x = pk i)
                          (set_stock env (of_int quantity) (of_int min_qty)) (inventory_rows d)\<rparr>\<rparr>, Inr ())
                 | Inr None \<Rightarrow>
                     (s\<lparr>ms_working := (tick d)\<lparr>inventory_rows := insert_row
                          (file_stock env (new_uuid env d) sku_id warehouse_id quantity min_qty) (inventory_rows d)\<rparr>\<rparr>, Inr ()))"

fun import_stock_rows ::
  "env \<Rightarrow> nat \<Rightarrow> csv_row list \<Rightarrow> 'a wms_db_scheme import_session \<Rightarrow> 'a wms_db_scheme import_session \<times> import_result" where
  "import_stock_rows env n [] s = (s, \<lparr>im_success = 0, im_errors = []\<rparr>)"
| "import_stock_rows env n (row # rows) s =
     (case import_stock_row env row s of
        (s1, Inr _) \<Rightarrow> (case import_stock_rows env (Suc n) rows s1 of (s2, r) \<Rightarrow> (s2, r\<lparr>im_success := Suc (im_success r)\<rparr>))
      | (s1, Inl e) \<Rightarrow> (case import_stock_rows env (Suc n) rows s1 of (s2, r) \<Rightarrow> (s2, r\<lparr>im_errors := (n, e) # im_errors r\<rparr>)))"

text \<open>The commit at the end flushes what is left.\<close>

definition import_inventory_from_csv ::
  "env \<Rightarrow> string \<Rightarrow> 'a wms_db_scheme \<Rightarrow> 'a wms_db_scheme \<times> import_result option" where
  "import_inventory_from_csv env content d =
     (case dict_rows content of (rows, failed) \<Rightarrow>
        case import_stock_rows env 2 rows (begin_import d) of (s, r) \<Rightarrow>
          end_import s (failed \<or> \<not> list_all (stock_refs_ok (ms_working s)) (inventory_rows (ms_working s))) r)"

section \<open>The pages of the administration\<close>

text \<open>An upload is its name and its bytes. The message counts the rows; \<open>None\<close> is an internal error.\<close>

definition import_flash :: "string \<Rightarrow> import_result \<Rightarrow> string" where
  "import_flash what r = ''/admin/import?flash_success=Imported '' @ show_nat (im_success r) @ what @
     (if im_errors r = [] then [] else '', '' @ show_nat (length (im_errors r)) @ '' errors'')"

definition admin_upload ::
  "(string \<Rightarrow> string option) \<Rightarrow> (string \<Rightarrow> 'd \<Rightarrow> 'd \<times> import_result option) \<Rightarrow> string \<Rightarrow> (string \<times> string) option \<Rightarrow> 'd \<Rightarrow>
   'd \<times> string option" where
  "admin_upload decode imports what file d =
     (case file of
        None \<Rightarrow> (d, Some ''/admin/import?flash_error=No file uploaded'')
      | Some (filename, bytes) \<Rightarrow>
          if filename = [] then (d, Some ''/admin/import?flash_error=No file uploaded'')
          else case decode bytes of None \<Rightarrow> (d, None)
               | Some content \<Rightarrow> (case imports content d of (d', r) \<Rightarrow> (d', map_option (import_flash what) r)))"

definition admin_import_orders ::
  "jwt_lib \<Rightarrow> env \<Rightarrow> (string \<Rightarrow> decimal option) \<Rightarrow> (string \<Rightarrow> import_item list option) \<Rightarrow> (string \<Rightarrow> string option) \<Rightarrow>
   string option \<Rightarrow> (string \<times> string) option \<Rightarrow> 'a oms_db_scheme \<Rightarrow> ('a oms_db_scheme \<times> string option) result" where
  "admin_import_orders jwt env parse loads decode cr file d =
     authenticated jwt env cr (\<lambda>_. Inr (admin_upload decode (import_orders_from_csv env parse loads) '' orders'' file d))"

definition admin_import_inventory ::
  "jwt_lib \<Rightarrow> env \<Rightarrow> (string \<Rightarrow> string option) \<Rightarrow> string option \<Rightarrow> (string \<times> string) option \<Rightarrow> 'a wms_db_scheme \<Rightarrow>
   ('a wms_db_scheme \<times> string option) result" where
  "admin_import_inventory jwt env decode cr file d =
     authenticated jwt env cr (\<lambda>_. Inr (admin_upload decode (import_inventory_from_csv env) '' inventory items'' file d))"

section \<open>Facts about orders\<close>

lemma begin_import_simps [simp]: "ms_committed (begin_import d) = d" "ms_working (begin_import d) = d" "\<not> ms_broken (begin_import d)"
  by (simp_all add: begin_import_def)

lemma convert_item_quantity:
  assumes "convert_item parse it acc = Inr reqs"
  obtains r where "reqs = acc @ [r]" "ii_quantity it = None \<longrightarrow> rq_quantity r = Some 0"
  using assms by (cases "ii_quantity it") (auto simp: convert_item_def int_of_json_def)

lemma convert_items_quantities:
  assumes "foldE (convert_item parse) its acc = Inr reqs" "\<forall>it\<in>set its. ii_quantity it = None"
    "\<forall>r\<in>set acc. get_default 0 (rq_quantity r) = 0"
  shows "\<forall>r\<in>set reqs. get_default 0 (rq_quantity r) = 0"
  using assms
proof (induction its arbitrary: acc)
  case (Cons it its)
  then obtain a1 where a1: "convert_item parse it acc = Inr a1" "foldE (convert_item parse) its a1 = Inr reqs" by auto
  from a1(1) obtain r where "a1 = acc @ [r]" "ii_quantity it = None \<longrightarrow> rq_quantity r = Some 0"
    by (rule convert_item_quantity)
  with Cons.prems(2,3) show ?case by (intro Cons.IH[OF a1(2)]) auto
qed simp

text \<open>What a successful creation adds.\<close>

lemma add_order_item_adds:
  assumes "add_order_item env oid it d = Inr d'"
  shows "customers d' = customers d" "orders d' = orders d" "drawn d \<le> drawn d'"
    "\<exists>r. order_items d' = order_items d @ [r] \<and> oi_quantity r = get_default 0 (rq_quantity it)"
  using assms add_order_item_drawn[OF assms] by (auto elim!: add_order_item_cases simp: tick_def insert_row_def new_order_item_def)

lemma add_order_items_adds:
  assumes "foldE (add_order_item env oid) its d = Inr d'"
  shows "customers d' = customers d \<and> orders d' = orders d \<and> drawn d \<le> drawn d' \<and> (\<exists>rows. order_items d' = order_items d @ rows \<and>
    map oi_quantity rows = map (\<lambda>it. get_default 0 (rq_quantity it)) its)"
  using assms
proof (induction its arbitrary: d)
  case (Cons it its)
  then obtain d1 where s: "add_order_item env oid it d = Inr d1" "foldE (add_order_item env oid) its d1 = Inr d'" by auto
  from add_order_item_adds[OF s(1)] obtain r where "customers d1 = customers d" "orders d1 = orders d" "drawn d \<le> drawn d1"
    "order_items d1 = order_items d @ [r]"
    "oi_quantity r = get_default 0 (rq_quantity it)" by blast
  with Cons.IH[OF s(2)] show ?case by (auto intro: exI[of _ "r # _"])
qed simp

lemma customer_known:
  assumes "get_or_create_customer env c d = Inr (d1, cu)"
  shows "cu_code ` set (customers d1) = insert c (cu_code ` set (customers d))" "drawn d \<le> drawn d1"
    "order_items d1 = order_items d" "orders d1 = orders d"
proof -
  have fr: "d1 = d \<or> d1 = d\<lparr>drawn := Suc (drawn d), customers := customers d1\<rparr>"
    by (rule get_or_create_customer_frame[OF assms])
  then show "drawn d \<le> drawn d1" "order_items d1 = order_items d" "orders d1 = orders d"
    by (auto dest: arg_cong[where f = drawn] arg_cong[where f = order_items] arg_cong[where f = orders])
  show "cu_code ` set (customers d1) = insert c (cu_code ` set (customers d))"
    using assms
  proof (cases rule: customer_goc.goc_cases)
    case found
    then have "cu \<in> set (customers d)" "cu_code cu = c" by (auto dest: find_one_SomeD)
    then show ?thesis using found(1) by (auto intro: image_eqI[of c])
  next
    case new
    then show ?thesis by (auto simp: insert_row_def)
  qed
qed

lemma created_order_adds:
  assumes "create_order env data d = Inr (d', v)"
  obtains order rows where "orders d' = orders d @ [order]" "ord_total_amount order = req_total (rq_items data)"
    "order_items d' = order_items d @ rows" "map oi_quantity rows = map (\<lambda>it. get_default 0 (rq_quantity it)) (rq_items data)"
    "cu_code ` set (customers d') = insert (rq_customer_id data) (cu_code ` set (customers d))" "drawn d \<le> drawn d'"
  using assms
proof (rule create_orderE)
  fix d1 customer order d3
  assume c: "get_or_create_customer env (rq_customer_id data) d = Inr (d1, customer)"
    and o': "order = \<lparr>pk = uuid4 env (Suc (drawn d1)), created_at = now env, updated_at = now env,
       is_deleted = False, deleted_at = None,
       ord_order_no = ''ORD-'' @ ymd env @ ''-'' @ upper (take 8 (uuid_hex (uuid4 env (drawn d1)))),
       ord_status = OrderStatus_PENDING, ord_customer_id = pk customer, ord_warehouse_id = None,
       ord_items = JObj [], ord_total_amount = req_total (rq_items data),
       ord_priority = get_default OrderPriority_MEDIUM (priority_map (get_default ''medium'' (rq_priority data))),
       ord_version = 0, ord_notes = get_default [] (rq_notes data)\<rparr>"
    and loop: "foldE (add_order_item env (pk order)) (rq_items data)
       (d1\<lparr>drawn := Suc (Suc (drawn d1)), orders := insert_row order (orders d1)\<rparr>) = Inr d3"
    and d': "d' = append_event env ''Order'' (pk order) ''order.created''
           (JObj [(''order_id'', JStr (show_uuid (pk order))), (''order_no'', JStr (ord_order_no order)),
                  (''total_amount'', JNum (ord_total_amount order)), (''customer_id'', JStr (rq_customer_id data))])
           (add_status_log env (pk order) [] ''pending'' ''Order created'' d3)"
  note k = customer_known[OF c]
  from add_order_items_adds[OF loop] obtain rows where
    a: "customers d3 = customers d1" "orders d3 = insert_row order (orders d1)" "Suc (Suc (drawn d1)) \<le> drawn d3"
    "order_items d3 = order_items d1 @ rows" "map oi_quantity rows = map (\<lambda>it. get_default 0 (rq_quantity it)) (rq_items data)"
    by auto
  show thesis
    by (rule that[of order rows]) (use a k in \<open>simp_all add: d' add_status_log_def tick_def insert_row_def o'\<close>)
qed

text \<open>
  What a session can hold, as far as identifiers reach: tables that satisfy the invariant of the orders.
\<close>

definition session_ok :: "env \<Rightarrow> nat \<Rightarrow> 'a oms_db_scheme import_session \<Rightarrow> bool" where
  "session_ok env cap s \<longleftrightarrow> drawn (ms_committed s) \<le> drawn (ms_working s) \<and>
     (drawn (ms_committed s) \<le> cap \<longrightarrow> oms_inv env cap (ms_committed s)) \<and>
     (drawn (ms_working s) \<le> cap \<longrightarrow> oms_inv env cap (ms_working s))"

lemma oms_inv_customer:
  assumes "get_or_create_customer env c d = Inr (d1, cu)" "oms_inv env cap d" "Suc (drawn d1) \<le> cap"
  shows "oms_inv env cap (tick d1)"
proof -
  have d: "oms_ok env cap d" "drawn d1 \<le> cap" using assms by (simp_all add: oms_inv_def)
  note k = get_or_create_customer_ok[OF assms(1) d]
  have "oms_ok env cap (tick d1)"
    using k(1) by (auto simp: oms_ok_def skus_ok_def tick_def intro: fresh_ids_mono)
  moreover have "transitions (tick d1) = transitions d" using k(9) by (auto simp: transitions_def tick_def fun_eq_iff)
  then have "history_ok (tick d1)" using assms(2) k(5) by (simp add: oms_inv_def history_ok_def tick_def)
  ultimately show ?thesis using assms(2) k(5,9) by (simp add: oms_inv_def tick_def)
qed

text \<open>The ways a row can end in a session.\<close>

lemma session_create_order_cases:
  assumes "session_create_order env parse ord s = (s', x)"
  obtains (refused) b e where "s' = s\<lparr>ms_broken := b\<rparr>" "x = Inl e"
      "b \<or> \<not> ms_broken s \<and> find_one (\<lambda>r. cu_code r = fo_customer_id ord) (customers (ms_working s)) = Inl e"
  | (items) d1 cu e where "\<not> ms_broken s" "get_or_create_customer env (fo_customer_id ord) (ms_working s) = Inr (d1, cu)"
      "foldE (convert_item parse) (fo_items ord) [] = Inl e" "s' = s\<lparr>ms_working := tick d1\<rparr>" "x = Inl e"
  | (created) reqs d2 v where "\<not> ms_broken s" "foldE (convert_item parse) (fo_items ord) [] = Inr reqs"
      "create_order env \<lparr>rq_customer_id = fo_customer_id ord, rq_items = reqs,
         rq_priority = Some (fo_priority ord), rq_notes = Some (fo_notes ord)\<rparr> (ms_working s) = Inr (d2, v)"
      "s' = s\<lparr>ms_committed := d2, ms_working := d2\<rparr>" "x = Inr v"
proof (cases "ms_broken s")
  case True
  then have "s' = s\<lparr>ms_broken := True\<rparr>" "x = Inl PendingRollbackError" using assms by (simp_all add: session_create_order_def)
  then show thesis using refused by blast
next
  case ok: False
  show thesis
  proof (cases "get_or_create_customer env (fo_customer_id ord) (ms_working s)")
    case (Inl e)
    then have "e = IntegrityError \<or> find_one (\<lambda>r. cu_code r = fo_customer_id ord) (customers (ms_working s)) = Inl e"
      by (cases "find_one (\<lambda>r. cu_code r = fo_customer_id ord) (customers (ms_working s))")
        (auto simp: get_or_create_customer_def Let_def insert_unique_def split: option.splits if_splits)
    with Inl ok assms show thesis by (intro refused[of "e = IntegrityError" e]) (simp_all add: session_create_order_def)
  next
    case (Inr p)
    obtain d1 cu where p: "p = (d1, cu)" by force
    show thesis
    proof (cases "foldE (convert_item parse) (fo_items ord) []")
      case (Inl e)
      with items[OF ok Inr[unfolded p]] ok assms Inr p show thesis by (simp add: session_create_order_def)
    next
      case reqs: (Inr reqs)
      let ?r = "create_order env \<lparr>rq_customer_id = fo_customer_id ord, rq_items = reqs,
         rq_priority = Some (fo_priority ord), rq_notes = Some (fo_notes ord)\<rparr> (ms_working s)"
      show thesis
      proof (cases ?r)
        case (Inl e)
        with reqs ok assms Inr p show thesis by (intro refused[of True e]) (simp_all add: session_create_order_def)
      next
        case made: (Inr q)
        obtain d2 v where q: "q = (d2, v)" by force
        with created[OF ok reqs, of d2 v] made reqs ok assms Inr p show thesis by (simp add: session_create_order_def)
      qed
    qed
  qed
qed

text \<open>A property of the session that every order of a file keeps, and the rows counted as orders.\<close>

lemma import_order_rows_inv:
  assumes "import_order_rows env parse read n rows s = (s', r)" "I k s"
    and "\<And>row ord k s s' x. row \<in> set rows \<Longrightarrow> read row = Inr ord \<Longrightarrow>
      session_create_order env parse ord s = (s', x) \<Longrightarrow> I k s \<Longrightarrow> I (if isl x then k else Suc k) s'"
  shows "I (k + im_success r) s'"
  using assms
proof (induction rows arbitrary: n s r k)
  case (Cons row rows)
  obtain s1 x where one: "(case read row of Inl e \<Rightarrow> (s, Inl e) | Inr ord \<Rightarrow> session_create_order env parse ord s) = (s1, x)"
    by force
  have i: "I (if isl x then k else Suc k) s1"
  proof (cases "read row")
    case (Inr ord)
    with one have "session_create_order env parse ord s = (s1, x)" by simp
    from Cons.prems(3)[OF _ Inr this Cons.prems(2)] show ?thesis by simp
  qed (use one Cons.prems(2) in auto)
  from one Cons.prems(1) obtain r1 where r1: "import_order_rows env parse read (Suc n) rows s1 = (s', r1)"
    "im_success r = (if isl x then im_success r1 else Suc (im_success r1))"
    by (cases x) (auto split: prod.splits)
  have "I ((if isl x then k else Suc k) + im_success r1) s'"
    by (rule Cons.IH[OF r1(1) i]) (rule Cons.prems(3), auto)
  with r1(2) show ?case by (simp split: if_splits)
qed simp

text \<open>What one row brings about and all others keep.\<close>

lemma import_order_rows_stay:
  assumes "import_order_rows env parse read n rows s = (s', r)" "row \<in> set rows" "read row = Inr ord"
    and "\<And>s s' x. session_create_order env parse ord s = (s', x) \<Longrightarrow> J s'"
    and "\<And>o' s s' x. session_create_order env parse o' s = (s', x) \<Longrightarrow> J s \<Longrightarrow> J s'"
  shows "J s'"
  using assms(1,2)
proof (induction rows arbitrary: n s r)
  case (Cons y rows)
  obtain s1 x where one: "(case read y of Inl e \<Rightarrow> (s, Inl e) | Inr ord \<Rightarrow> session_create_order env parse ord s) = (s1, x)"
    by force
  from one Cons.prems(1) obtain r1 where r1: "import_order_rows env parse read (Suc n) rows s1 = (s', r1)"
    by (cases x) (auto split: prod.splits)
  show ?case
  proof (cases "y = row")
    case True
    with one assms(3,4) have "J s1" by auto
    with r1 show ?thesis
      by (rule import_order_rows_inv[where I = "\<lambda>_. J" and k = 0]) (auto intro: assms(5))
  next
    case False
    with Cons.prems(2) show ?thesis by (intro Cons.IH[OF r1]) simp
  qed
qed simp

lemma session_create_order_ok:
  assumes "session_create_order env parse ord s = (s', x)" "session_ok env cap s"
  shows "session_ok env cap s'"
  using assms(1)
proof (cases rule: session_create_order_cases)
  case refused
  with assms(2) show ?thesis by (simp add: session_ok_def)
next
  case (items d1 cu e)
  have "oms_inv env cap (tick d1)" if "drawn (tick d1) \<le> cap"
    using that assms(2) customer_known(2)[OF items(2)] oms_inv_customer[OF items(2)]
    by (simp add: session_ok_def tick_def)
  with assms(2) customer_known(2)[OF items(2)] show ?thesis by (auto simp: items session_ok_def tick_def)
next
  case (created reqs d2 v)
  from created_order_adds[OF created(3)] have "drawn (ms_working s) \<le> drawn d2" by metis
  with oms_inv_create[OF created(3)] assms(2) show ?thesis by (auto simp: created session_ok_def)
qed

lemma session_keeps_customers:
  assumes "session_create_order env parse ord s = (s', x)" "ms_broken s \<or> c \<in> cu_code ` set (customers (ms_working s))"
  shows "ms_broken s' \<or> c \<in> cu_code ` set (customers (ms_working s'))"
  using assms(1)
proof (cases rule: session_create_order_cases)
  case (items d1 cu e)
  with assms(2) customer_known(1)[OF items(2)] show ?thesis by (simp add: tick_def)
next
  case (created reqs d2 v)
  from created_order_adds[OF created(3)]
  have "cu_code ` set (customers d2) = insert (fo_customer_id ord) (cu_code ` set (customers (ms_working s)))" by auto
  with assms(2) created show ?thesis by simp
qed (use assms(2) in auto)

lemma session_leaves_customer:
  assumes "session_create_order env parse ord s = (s', x)"
  shows "ms_broken s' \<or> fo_customer_id ord \<in> cu_code ` set (customers (ms_working s'))"
  using assms(1)
proof (cases rule: session_create_order_cases)
  case (refused b e)
  have "fo_customer_id ord \<in> cu_code ` set (customers (ms_working s))"
    if "find_one (\<lambda>r. cu_code r = fo_customer_id ord) (customers (ms_working s)) = Inl e"
  proof (rule ccontr)
    assume "\<not> ?thesis"
    then have "find_one (\<lambda>r. cu_code r = fo_customer_id ord) (customers (ms_working s)) = Inr None"
      by (auto simp: find_one_None image_iff)
    with that show False by simp
  qed
  with refused(1,3) show ?thesis by auto
next
  case (items d1 cu e)
  with customer_known(1)[OF items(2)] show ?thesis by (simp add: tick_def)
next
  case (created reqs d2 v)
  from created_order_adds[OF created(3)]
  have "cu_code ` set (customers d2) = insert (fo_customer_id ord) (cu_code ` set (customers (ms_working s)))" by auto
  with created show ?thesis by simp
qed

text \<open>New orders of items without a quantity.\<close>

definition empty_orders :: "'a oms_db_scheme \<Rightarrow> nat \<Rightarrow> 'a oms_db_scheme \<Rightarrow> bool" where
  "empty_orders d k d' \<longleftrightarrow> (\<exists>news. orders d' = orders d @ news \<and> length news = k \<and> (\<forall>x\<in>set news. ord_total_amount x = 0)) \<and>
     (\<exists>rows. order_items d' = order_items d @ rows \<and> (\<forall>x\<in>set rows. oi_quantity x = 0))"

lemma session_empty_order:
  assumes "session_create_order env parse ord s = (s', x)" "\<forall>it\<in>set (fo_items ord). ii_quantity it = None"
    and "empty_orders d k (ms_working s)"
  shows "empty_orders d (if isl x then k else Suc k) (ms_working s')"
  using assms(1)
proof (cases rule: session_create_order_cases)
  case (items d1 cu e)
  with assms(3) customer_known(3,4)[OF items(2)] show ?thesis by (simp add: tick_def empty_orders_def)
next
  case (created reqs d2 v)
  have q: "\<forall>r\<in>set reqs. get_default 0 (rq_quantity r) = 0"
    using convert_items_quantities[OF created(2) assms(2)] by simp
  from created_order_adds[OF created(3)] obtain order rows where o':
    "orders d2 = orders (ms_working s) @ [order]" "ord_total_amount order = req_total reqs"
    "order_items d2 = order_items (ms_working s) @ rows" "map oi_quantity rows = map (\<lambda>it. get_default 0 (rq_quantity it)) reqs"
    by (metis order_create.select_convs(2))
  have "req_total reqs = (\<Sum>it\<leftarrow>reqs. 0)"
    unfolding req_total_def using q by (intro arg_cong[where f = sum_list] map_cong) auto
  then have "ord_total_amount order = 0" using o'(2) by simp
  moreover have "oi_quantity ` set rows = (\<lambda>it. get_default 0 (rq_quantity it)) ` set reqs"
    using arg_cong[OF o'(4), of set] by simp
  then have "\<forall>x\<in>set rows. oi_quantity x = 0" using q by (metis (no_types, lifting) imageE imageI)
  ultimately show ?thesis using assms(3) o'(1,3) created by (fastforce simp: empty_orders_def)
qed (use assms(3) in auto)

section \<open>Facts about stock\<close>

text \<open>A row that the next flush will refuse.\<close>

definition doomed :: "'a wms_db_scheme import_session \<Rightarrow> bool" where
  "doomed s \<longleftrightarrow> ms_broken s \<or> \<not> list_all (stock_refs_ok (ms_working s)) (inventory_rows (ms_working s))"

lemma stock_refs_ok_set_stock [simp]: "stock_refs_ok d (set_stock env q m i) = stock_refs_ok d i"
  by (simp add: stock_refs_ok_def set_stock_def)

lemma import_stock_row_effect:
  assumes "import_stock_row env row s = (s', x)"
  shows "ms_committed s' = ms_committed s" "skus (ms_working s') = skus (ms_working s)"
    "warehouses (ms_working s') = warehouses (ms_working s)" "doomed s \<Longrightarrow> doomed s'"
  using assms
  by (auto simp: import_stock_row_def doomed_def Let_def tick_def split: sum.splits option.splits prod.splits if_splits)

lemma import_stock_row_unknown:
  assumes "import_stock_row env row s = (s', x)" "read_stock_row row = Inr (sku_id, w, q, m)"
    and "sku_id \<notin> pk ` set (skus (ms_working s)) \<or> w \<notin> pk ` set (warehouses (ms_working s))"
  shows "doomed s'"
proof (cases "doomed s")
  case False
  then have ok: "\<not> ms_broken s" "list_all (stock_refs_ok (ms_working s)) (inventory_rows (ms_working s))"
    by (simp_all add: doomed_def)
  have "\<not> stock_at sku_id w i" if "i \<in> set (inventory_rows (ms_working s))" for i
    using that ok(2) assms(3) by (auto simp: list_all_iff stock_refs_ok_def stock_at_def)
  then have "find_one (stock_at sku_id w) (inventory_rows (ms_working s)) = Inr None" by (simp add: find_one_None)
  then have "inventory_rows (ms_working s') = inventory_rows (ms_working s) @
      [file_stock env (new_uuid env (ms_working s)) sku_id w q m]"
    using assms(1,2) ok by (auto simp: import_stock_row_def insert_row_def Let_def)
  moreover have "\<not> stock_refs_ok (ms_working s') (file_stock env u sku_id w q m)" for u
    using assms(3) import_stock_row_effect(2,3)[OF assms(1)] by (auto simp: stock_refs_ok_def file_stock_def)
  ultimately show ?thesis by (simp add: doomed_def)
qed (use import_stock_row_effect(4)[OF assms(1)] in simp)

lemma import_stock_rows_effect:
  assumes "import_stock_rows env n rows s = (s', r)"
  shows "ms_committed s' = ms_committed s \<and> (doomed s \<longrightarrow> doomed s')"
  using assms
proof (induction rows arbitrary: n s r)
  case (Cons row rows)
  obtain s1 x where one: "import_stock_row env row s = (s1, x)" by force
  with Cons.prems obtain r1 where r1: "import_stock_rows env (Suc n) rows s1 = (s', r1)"
    by (cases x) (auto split: prod.splits)
  with import_stock_row_effect[OF one] Cons.IH[OF r1] show ?case by simp
qed simp

lemma import_stock_rows_unknown:
  assumes "import_stock_rows env n rows s = (s', r)" "row \<in> set rows" "read_stock_row row = Inr (sku_id, w, q, m)"
    and "sku_id \<notin> pk ` set (skus (ms_working s)) \<or> w \<notin> pk ` set (warehouses (ms_working s))"
  shows "doomed s'"
  using assms
proof (induction rows arbitrary: n s r)
  case (Cons y rows)
  obtain s1 x where one: "import_stock_row env y s = (s1, x)" by force
  with Cons.prems(1) obtain r1 where r1: "import_stock_rows env (Suc n) rows s1 = (s', r1)"
    by (cases x) (auto split: prod.splits)
  note e = import_stock_row_effect[OF one]
  show ?case
  proof (cases "y = row")
    case True
    with import_stock_row_unknown[OF one] Cons.prems(3,4) import_stock_rows_effect[OF r1] show ?thesis by simp
  next
    case False
    with Cons.prems(2-4) e(2,3) show ?thesis by (intro Cons.IH[OF r1]) simp_all
  qed
qed simp

end
