(* ===== verification/Address_Book.thy ===== *)
theory Address_Book
  imports Tables
begin

text \<open>
  The address book that the subsystems share (\<open>src/core/models.py\<close>). Nothing in the package writes the
  table or calls the lookup yet, so the table is an argument. Columns without \<open>nullable=False\<close> can be
  empty.
\<close>

record address_master = base_row +
  am_label :: "string option"
  am_entity_type :: string
  am_entity_id :: "uuid option"
  am_address_type :: string
  am_contact_name :: "string option"
  am_phone :: "string option"
  am_email :: "string option"
  am_address_line_1 :: "string option"
  am_address_line_2 :: "string option"
  am_city :: "string option"
  am_state :: "string option"
  am_postal_code :: "string option"
  am_country :: "string option"

record address_entry =
  ae_id :: string
  ae_label :: "string option"
  ae_address_type :: string
  ae_contact_name :: "string option"
  ae_phone :: "string option"
  ae_email :: "string option"
  ae_address_line_1 :: "string option"
  ae_address_line_2 :: "string option"
  ae_city :: "string option"
  ae_state :: "string option"
  ae_postal_code :: "string option"
  ae_country :: "string option"

definition address_entry_of :: "address_master \<Rightarrow> address_entry" where
  "address_entry_of a =
     \<lparr>ae_id = show_uuid (pk a), ae_label = am_label a, ae_address_type = am_address_type a,
      ae_contact_name = am_contact_name a, ae_phone = am_phone a, ae_email = am_email a,
      ae_address_line_1 = am_address_line_1 a, ae_address_line_2 = am_address_line_2 a, ae_city = am_city a,
      ae_state = am_state a, ae_postal_code = am_postal_code a, ae_country = am_country a\<rparr>"

text \<open>The argument \<open>entity_id\<close> is a text or an identifier; the empty text counts as none, an identifier never does.\<close>

datatype entity_ref = RefText string | RefUuid uuid

fun entity_key :: "entity_ref option \<Rightarrow> uuid option result" where
  "entity_key None = Inr None"
| "entity_key (Some (RefUuid u)) = Inr (Some u)"
| "entity_key (Some (RefText s)) = (if s = [] then Inr None else bindE (to_uuid s) (\<lambda>u. Inr (Some u)))"

definition resolve_address ::
  "string \<Rightarrow> entity_ref option \<Rightarrow> string option \<Rightarrow> address_master list \<Rightarrow> address_entry list result" where
  "resolve_address entity_type entity_id address_type book =
     bindE (entity_key entity_id) (\<lambda>eid.
     Inr (map address_entry_of (order_by_desc created_at
       (select_where (\<lambda>a. am_entity_type a = entity_type \<and>
          (case eid of None \<Rightarrow> True | Some u \<Rightarrow> am_entity_id a = Some u) \<and>
          (truthy address_type \<longrightarrow> Some (am_address_type a) = address_type)) book))))"

text \<open>Looking an entity up by the text of its identifier or by the identifier is the same.\<close>

lemma resolve_address_text:
  "resolve_address entity_type (Some (RefText (show_uuid u))) address_type book =
   resolve_address entity_type (Some (RefUuid u)) address_type book"
proof -
  have "show_uuid u \<noteq> []" by (simp add: show_uuid_def Let_def)
  then show ?thesis by (simp add: resolve_address_def)
qed

text \<open>A narrower query answers a part of the wider one, in the same order.\<close>

lemma resolve_address_narrows:
  assumes "resolve_address entity_type entity_id address_type book = Inr xs"
    and "resolve_address entity_type None None book = Inr ys"
  shows "\<exists>P. xs = map address_entry_of (filter P (order_by_desc created_at (select_where (\<lambda>a. am_entity_type a = entity_type) book)))
    \<and> ys = map address_entry_of (order_by_desc created_at (select_where (\<lambda>a. am_entity_type a = entity_type) book))"
proof -
  from assms(1) obtain eid where xs: "xs = map address_entry_of (order_by_desc created_at
      (select_where (\<lambda>a. am_entity_type a = entity_type \<and> (case eid of None \<Rightarrow> True | Some u \<Rightarrow> am_entity_id a = Some u) \<and>
         (truthy address_type \<longrightarrow> Some (am_address_type a) = address_type)) book))"
    by (auto simp: resolve_address_def)
  have "filter P (order_by_desc created_at (select_where Q book)) = order_by_desc created_at (select_where (\<lambda>a. Q a \<and> P a) book)" for P Q
    by (simp add: order_by_desc_def select_where_def filter_sort conj_commute)
  with xs assms(2) show ?thesis
    by (intro exI[of _ "\<lambda>a. (case eid of None \<Rightarrow> True | Some u \<Rightarrow> am_entity_id a = Some u) \<and>
      (truthy address_type \<longrightarrow> Some (am_address_type a) = address_type)"]) (auto simp: resolve_address_def)
qed

end
