(* ===== verification/File_Properties.thy ===== *)
theory File_Properties
  imports File_Imports Address_Book Samples
begin

text \<open>
  Properties of the imports that share one session: the orders keep their invariant whatever a file holds,
  and what a refused row leaves behind.
\<close>

section \<open>Orders\<close>

text \<open>
  Both imports of orders keep the invariant of the order tables: identifiers, and histories
  that are runs of the status table, for every file and every outcome.
\<close>

theorem imported_orders_keep_histories:
  assumes "handle_orders_import env parse loads csv_text d = (d', r) \<or> import_orders_from_csv env parse loads csv_text d = (d', r)"
    and "oms_inv env cap d" "drawn d' \<le> cap"
  shows "oms_inv env cap d'"
proof -
  from assms(1) obtain read where f: "import_order_file env parse read csv_text d = (d', r)"
    by (auto simp: handle_orders_import_def import_orders_from_csv_def)
  obtain rows failed where rows: "dict_rows csv_text = (rows, failed)" by force
  obtain s r1 where run: "import_order_rows env parse read 2 rows (begin_import d) = (s, r1)" by force
  have "session_ok env cap (begin_import d)" using assms(2) by (simp add: session_ok_def)
  with run have "session_ok env cap s"
    by (rule import_order_rows_inv[where I = "\<lambda>_. session_ok env cap" and k = 0]) (auto intro: session_create_order_ok)
  moreover have "d' = ms_committed s \<or> d' = ms_working s"
    using f by (auto simp: import_order_file_def rows run end_import_def split: if_splits)
  ultimately show ?thesis using assms(3) by (auto simp: session_ok_def)
qed

text \<open>
  When the import of a file of orders is answered, the customer of every row that could be read is in the
  tables, also of the rows that the answer lists as refused.
\<close>

text \<open>
  C38: When the import of a file of orders answers, the customer of every row that could be read is
  in the tables, also of the rows that the answer lists as refused: a row whose items cannot be read
  has flushed its customer before, and the end of the request commits it.
\<close>

theorem refused_rows_leave_customers:
  assumes "handle_orders_import env parse loads csv_text d = (d', Some r)" "dict_rows csv_text = (rows, failed)"
    and "row \<in> set rows" "read_order_row ValueError lower_priority loads row = Inr ord"
  shows "fo_customer_id ord \<in> cu_code ` set (customers d')"
proof -
  let ?read = "read_order_row ValueError lower_priority loads"
  let ?J = "\<lambda>s. ms_broken s \<or> fo_customer_id ord \<in> cu_code ` set (customers (ms_working s))"
  obtain s r1 where run: "import_order_rows env parse ?read 2 rows (begin_import d) = (s, r1)" by force
  from assms(1) have s: "d' = ms_working s" "\<not> ms_broken s"
    by (auto simp: handle_orders_import_def import_order_file_def assms(2) run end_import_def split: if_splits)
  from run assms(3,4) have "?J s"
    by (rule import_order_rows_stay[where J = ?J]) (erule session_leaves_customer, erule session_keeps_customers, assumption)
  with s show ?thesis by simp
qed

definition bad_item :: import_item where
  "bad_item = \<lparr>ii_sku = Some ''A'', ii_gtin = None, ii_product_name = None, ii_quantity = Some (JStr ''two''), ii_unit_price = None\<rparr>"

definition order_file :: string where
  "order_file = concat (map write_row [[''customer_id'', ''items''], [''C9'', ''[]'']])"

lemma order_file_rows: "dict_rows order_file = ([dict_row [''customer_id'', ''items''] [''C9'', ''[]'']], False)"
proof -
  have "csv_read order_file fresh_parser = ([[''customer_id'', ''items''], [''C9'', ''[]'']], False)"
    unfolding order_file_def by (rule read_rows) simp
  then show ?thesis by (simp add: dict_rows_def)
qed

theorem refused_rows_leave_customers_witness:
  "\<exists>d'. handle_orders_import env0 (\<lambda>_. None) (\<lambda>_. Some [bad_item]) order_file empty_db =
      (d', Some \<lparr>im_success = 0, im_errors = [(2, ValueError)]\<rparr>) \<and>
     orders d' = [] \<and> ''C9'' \<in> cu_code ` set (customers d')"
proof -
  let ?row = "dict_row [''customer_id'', ''items''] [''C9'', ''[]'']"
  let ?ord = "\<lparr>fo_customer_id = ''C9'', fo_items = [bad_item], fo_priority = ''medium'', fo_notes = []\<rparr>"
  have r: "read_order_row ValueError lower_priority (\<lambda>_. Some [bad_item]) ?row = Inr ?ord" by code_simp
  have f: "foldE (convert_item (\<lambda>_. None)) [bad_item] [] = Inl ValueError" by code_simp
  obtain d1 cu where c: "get_or_create_customer env0 ''C9'' empty_db = Inr (d1, cu)"
    by (simp add: sample_eval)
  have run: "session_create_order env0 (\<lambda>_. None) ?ord (begin_import empty_db) =
      ((begin_import empty_db)\<lparr>ms_working := tick d1\<rparr>, Inl ValueError)"
    using c f by (simp add: session_create_order_def del: foldE.simps)
  let ?d = "tick d1"
  have d': "handle_orders_import env0 (\<lambda>_. None) (\<lambda>_. Some [bad_item]) order_file empty_db =
      (?d, Some \<lparr>im_success = 0, im_errors = [(2, ValueError)]\<rparr>)" "orders ?d = []"
    using customer_known(4)[OF c] by (simp_all add: handle_orders_import_def import_order_file_def order_file_rows r run end_import_def tick_def)
  from refused_rows_leave_customers[OF d'(1) order_file_rows _ r] d' show ?thesis by auto
qed

text \<open>
  A file in the documented format, whose items have \<open>sku\<close> and \<open>qty\<close> and so no \<open>quantity\<close>, is accepted:
  every order counted as a success is stored with a total of zero, its items with the quantity zero.
\<close>

theorem documented_items_are_empty:
  assumes "handle_orders_import env parse loads csv_text d = (d', Some r)" "dict_rows csv_text = (rows, failed)"
    and "\<And>row ord. row \<in> set rows \<Longrightarrow> read_order_row ValueError lower_priority loads row = Inr ord \<Longrightarrow>
      \<forall>it\<in>set (fo_items ord). ii_quantity it = None"
  shows "empty_orders d (im_success r) d'"
proof -
  let ?read = "read_order_row ValueError lower_priority loads"
  obtain s where run: "import_order_rows env parse ?read 2 rows (begin_import d) = (s, r)" and s: "d' = ms_working s"
    using assms(1) by (auto simp: handle_orders_import_def import_order_file_def assms(2) end_import_def split: if_splits prod.splits)
  have "empty_orders d 0 (ms_working (begin_import d))" by (simp add: empty_orders_def)
  with run have "empty_orders d (0 + im_success r) (ms_working s)"
    by (rule import_order_rows_inv[where I = "\<lambda>k s. empty_orders d k (ms_working s)"])
       (use assms(3) session_empty_order in blast)
  then show ?thesis by (simp add: s)
qed

section \<open>Stock\<close>

text \<open>
  The import of stock of the administration is undone as a whole by one row that names an unknown product
  or warehouse: the request fails and the tables are those before it.
\<close>

theorem one_unknown_product_undoes_the_import:
  assumes "dict_rows csv_text = (rows, failed)" "row \<in> set rows" "read_stock_row row = Inr (sku_id, w, q, m)"
    and "sku_id \<notin> pk ` set (skus d) \<or> w \<notin> pk ` set (warehouses d)"
  shows "import_inventory_from_csv env csv_text d = (d, None)"
proof -
  obtain s r where run: "import_stock_rows env 2 rows (begin_import d) = (s, r)" by force
  from import_stock_rows_unknown[OF run assms(2,3)] assms(4) have "doomed s" by simp
  with import_stock_rows_effect[OF run] show ?thesis
    by (auto simp: import_inventory_from_csv_def assms(1) run end_import_def doomed_def)
qed

end
