(* ===== verification/Spec2Isabelle.thy ===== *)
theory Spec2Isabelle
  imports Core_Properties Oms_Properties Wms_Properties Tms_Properties Support_Properties Task_Properties Edge_Properties Gateway_Properties Report_Properties
    Account_Properties Route_Properties Service_Properties System_Properties File_Properties
begin

text \<open>
  A verification development for the order, warehouse and transport management backend (the Python
  package \<open>src/\<close> of the repository). The backend is three services over one relational database: orders
  (\<open>src/oms\<close>), warehouses (\<open>src/wms\<close>) and transport (\<open>src/tms\<close>), with a transactional outbox, webhooks
  and notifications between them. Every service function is a coroutine that reads and writes tables
  through SQLAlchemy inside one transaction and raises an application error to refuse.

  \<^bold>\<open>How the code is modelled.\<close> The database is a record of tables that grows from theory to theory
  (\<open>core_db\<close>, \<open>oms_db\<close>, \<open>wms_db\<close>, \<open>tms_db\<close>, and from \<open>core_db\<close> the branches \<open>auth_db\<close> and \<open>barcode_db\<close>); a table is the list of its rows in insertion order, a row a
  record with the columns of its class. An operation takes the parameters of the coroutine and the
  database and gives \<open>Inl e\<close> when it raises \<open>e\<close> (the transaction is rolled back) or \<open>Inr (d', value)\<close>.
  The clock and the source of fresh identifiers are the record \<open>env\<close>; identifiers are the numbers of
  \<open>128 word\<close>, and the database counts how many it drew. Request bodies are records of optional fields as
  the schema classes declare them, with the validation of the schema as a predicate \<open>\<dots>_schema_ok\<close> where
  one constrains a value. Decimals are rationals, floats are rationals with the rounding of binary64
  written out (\<open>Float64\<close>), dates are numbers of days and times numbers.

  \<^bold>\<open>The theories\<close>, in the order of their imports.
  \<^item> \<open>Prelude\<close>: results and their sequencing (\<open>bindE\<close>, \<open>foldE\<close>), text and list helpers.
  \<^item> \<open>Exceptions\<close>, \<open>Uuid\<close>, \<open>Tables\<close>: the exceptions of \<open>src/core/exceptions.py\<close>, the identifiers and
    their three parsers, queries (\<open>find_one\<close> is \<open>scalar_one_or_none\<close>) and unique inserts; the locale
    \<open>repository\<close> states the laws of a table inside the database.
  \<^item> \<open>Lifecycle\<close>: the locales \<open>status_machine\<close> and \<open>ranked_status_machine\<close>, the contract of every status
    field, interpreted for orders, waves, purchase orders, stock documents, transports, segments and returns.
  \<^item> \<open>Catalog\<close>, \<open>Notification\<close>, \<open>Outbox\<close>, \<open>Webhooks\<close>: the shared tables, \<open>_get_or_create_sku\<close> (locale
    \<open>get_or_create\<close>), pagination, \<open>src/notification/service.py\<close>, \<open>src/core/outbox.py\<close> with the worker
    \<open>src/tasks/outbox.py\<close>, \<open>src/webhooks/service.py\<close>.
  \<^item> \<open>Oms_Model\<close>, \<open>Oms_Service\<close>, \<open>Oms_Merge\<close>: the tables and schemas of orders, \<open>src/oms/service.py\<close>,
    \<open>src/oms/merge.py\<close>, the step relation \<open>oms_step\<close> with its invariant.
  \<^item> \<open>Wms_Model\<close>, \<open>Wms_Warehouse\<close>, \<open>Wms_Inventory\<close>, \<open>Wms_Picking\<close>, \<open>Wms_Procure\<close>, \<open>Wms_Stock\<close>: the
    tables of warehouses, \<open>src/wms/service.py\<close> section by section, \<open>src/wms/services/picking_service.py\<close>
    and the stock documents of \<open>src/routes/stock.py\<close>; the locale \<open>billed_document\<close> is the contract of
    purchase orders, invoices and credit memos.
  \<^item> \<open>Tms_Enums\<close>, \<open>Tms_Model\<close>, \<open>Tms_Transport\<close>, \<open>Tms_Network\<close>, \<open>Tms_Routing\<close>, \<open>Tms_Plans\<close>, \<open>Tms_Returns\<close>,
    \<open>Tms_Freight\<close>, \<open>Tms_Device\<close>: \<open>src/tms/models.py\<close> and \<open>src/tms/service.py\<close> section by section, and the
    forecast of \<open>src/tms/ml/forecast.py\<close>. \<open>Transport_Spec\<close> states the stages of a transport and the journey that a
    list of requests makes, apart from the table of the code, and shows that the status requests make it. \<open>Heapq\<close> is the binary heap of the standard library that the
    route search uses, with the locale \<open>priority_queue\<close> as its contract; \<open>Float64\<close> the float arithmetic
    that freight prices use, with its error bounds.
  \<^item> \<open>Auth\<close>: accounts, roles and permissions of \<open>src/auth/service.py\<close> with the permission check of
    \<open>src/core/dependencies.py\<close>; the locale \<open>assignment\<close> is the contract of the user-role and the
    role-permission table, \<open>auth_step\<close> the step relation of the account operations.
  \<^item> \<open>Tokens\<close>: \<open>src/auth/token_store.py\<close>, the token functions of \<open>src/core/security.py\<close> and the request
    dependencies; sequences of store operations are lists of \<open>token_op\<close>.
  \<^item> \<open>Barcode\<close>: article numbers, scans and label templates of \<open>src/barcode/service.py\<close>.
  \<^item> \<open>Tasks\<close>, \<open>Abc_Xyz\<close>: the periodic tasks of \<open>src/tasks/orders.py\<close> and \<open>src/tasks/inventory.py\<close> and
    the stock analysis of \<open>src/wms/analysis.py\<close>, with the step relation \<open>movement_step\<close> of everything that
    writes stock movements.
  \<^item> \<open>Offline\<close>: the queue of \<open>src/core/offline.py\<close> and the task \<open>src/tasks/sync.py\<close> that pushes it.
  \<^item> \<open>Rate_Limit\<close>: \<open>src/core/rate_limiter.py\<close> over a Redis given by \<open>zset_contract\<close>, related to the
    reference \<open>sliding_log\<close>.
  \<^item> \<open>Cache\<close>: the memory cache of \<open>src/cache/redis_client.py\<close>, the decorators \<open>cached\<close> and
    \<open>distributed_lock\<close> of \<open>src/cache/decorators.py\<close>, and the lock as the step relation \<open>lock_step\<close>.
  \<^item> \<open>Waybills\<close>: the waybills of \<open>src/logistics\<close> with the step relation \<open>waybill_step\<close>, and the
    search of waybills by \<open>ILIKE\<close>.
  \<^item> \<open>Csv\<close>, \<open>Csv_Stock\<close>: the reader and writer of the module csv, the exports of \<open>src/core/export.py\<close> and
    the import of stock of \<open>src/core/_import\<close>.
  \<^item> \<open>Gateway\<close>: the middleware of \<open>src/core/middleware.py\<close> and \<open>src/core/csrf.py\<close>; \<open>Responses\<close>: the
    answers of \<open>src/core/response.py\<close> and the handlers of exceptions of \<open>src/main.py\<close>.
  \<^item> \<open>Pda\<close>: the sockets and the mutations of the devices, \<open>src/pda\<close> and \<open>src/api/v1/mobile.py\<close>, with the
    step relation \<open>pda_step\<close> of the queue and the outbox.
  \<^item> \<open>Connectors\<close>: the messages of the shops of \<open>src/connectors\<close> and their import as orders.
  \<^item> \<open>Edi\<close>: EDIFACT and IDOC messages of \<open>src/models/erp_connector.py\<close> and \<open>src/tms/connectors/erp.py\<close>;
    \<open>Analytics\<close>: the reports of \<open>src/analytics/service.py\<close>; \<open>Push\<close>: \<open>src/tms/push_service.py\<close>.
  \<^item> \<open>Routes\<close>: what the routes share: the handlers of errors, the token a route asks for, the bounds of queries.
    \<open>Account_Routes\<close>, \<open>Oms_Routes\<close>, \<open>Wms_Routes\<close>, \<open>Tms_Routes\<close>: the routers of \<open>src/auth\<close>, \<open>src/oms\<close>,
    \<open>src/wms\<close> and \<open>src/tms\<close>, one definition \<open>\<dots>_route\<close> for each handler, and for accounts, orders and
    transports the datatype of their requests with the function that serves one and the sequence of many
    (\<open>serve\<close>, \<open>serve_oms\<close>, \<open>serve_tms\<close>): a request that raises leaves the tables as they were, while what it told
    the token store and the limiter stays.
  \<^item> \<open>Inbox\<close>: the routers of \<open>src/notification\<close> and \<open>src/webhooks\<close>; \<open>Label_Routes\<close>: those of \<open>src/barcode\<close> and
    \<open>src/logistics\<close>; \<open>Admin_Pages\<close>: forms and exports of \<open>src/admin/router.py\<close>; \<open>Maintenance\<close>: the tasks of
    \<open>src/tasks/maintenance.py\<close> in sessions that commit only when they are told to.
  \<^item> \<open>File_Imports\<close>: the imports of orders and stock of \<open>src/core/import_utils.py\<close> and
    \<open>src/core/_import/import_orders.py\<close> with their routes and pages, in a session that goes on after a refused
    row with what the row had flushed (\<open>import_session\<close>: the committed tables, the working tables, and whether
    a failed flush has made it unusable); \<open>Address_Book\<close>: the lookup of \<open>src/core/models.py\<close>.
  \<^item> \<open>System\<close>: everything that writes the outbox, the notifications or the webhook targets as one step
    relation \<open>core_step\<close>, with the invariant of its reachable states.
  \<^item> \<open>Samples\<close>: concrete states; \<open>Core_Properties\<close>, \<open>Oms_Properties\<close>, \<open>Wms_Properties\<close>,
    \<open>Tms_Properties\<close>, \<open>Support_Properties\<close>, \<open>Task_Properties\<close>, \<open>Edge_Properties\<close>, \<open>Gateway_Properties\<close>, \<open>Report_Properties\<close>, \<open>Account_Properties\<close>,
    \<open>Route_Properties\<close>, \<open>Service_Properties\<close>, \<open>System_Properties\<close>, \<open>File_Properties\<close>: the properties, each followed by its evaluation on a concrete state.

  \<^bold>\<open>What the lemmas show.\<close> For each table the well-formedness (unique keys and codes) and its
  preservation by every operation that writes it; for each status field that operations only follow
  its table, on every path (rule induction over \<open>oms_reachable\<close>, \<open>transport_reachable\<close>,
  \<open>returns_reachable\<close>, \<open>devices_reachable\<close>, \<open>planner_reachable\<close>, \<open>auth_reachable\<close>); for the route search the invariant of
  the loop (costs in the heap are costs of walks, popped nodes are final), its termination and the
  minimality of its cost; for adjustments that no concurrent update is lost that raises the version of
  its rows, and that a stock count, which does not raise it, is overwritten; for picking and counting
  the quantities they leave; for prices an error bound against exact arithmetic. Where the code does
  not do what its documentation says, the behaviour of the code is proved.

  \<^bold>\<open>The configured database.\<close> The settings name the driver asyncpg. It refuses a time with a zone for a column
  without one, which the SQLite database of the tests takes: \<open>bind_aware\<close> of \<open>Catalog\<close> says so, and the columns
  without a zone are the constants beside it. So no notification, no target of a webhook and no mutation of
  a device is ever stored, and \<open>do_send\<close>, the routes of \<open>Inbox\<close> that write such a time and \<open>enqueue_mutation\<close>
  fail where the code does. The three functions of the outbox worker open their session with a
  function instead of a session and fail before their bodies (\<open>get_session_source\<close>, \<open>async_with\<close>); the
  bodies are kept beside them as what they would do. \<open>System_Properties\<close> draws the conclusion: every inbox is
  empty and no device ever pulls a change. What a webhook does is described for targets that the table
  already holds.

  \<^bold>\<open>Loops and bounds.\<close> The search loop is a \<open>while_option\<close>: a loop that does not end is \<open>None\<close>, and
  \<open>planning_terminates\<close> shows that it ends in every reachable network, with the measure of unvisited
  nodes and heap entries. The retries of an adjustment and of a merge are the three of the code. The
  other loops are folds over the requested lists.

  \<^bold>\<open>Parameters.\<close> The result of an HTTP post, of a delivery and of a lazy load, the effect of other
  transactions between two statements of an adjustment, the parsing of ISO dates, \<open>math.fsum\<close> and the
  power of the forecast are arguments of the operations that use them, and so are the hash functions, the
  push of one item of the device queue, whether a socket takes a message, the keyed digests, the text of JSON
  values, Redis (\<open>redis_contract\<close>: a call that answers has its effect, one
  that fails may have had it; \<open>zset_contract\<close> for sorted sets, which keep their members
  until they expire, so a Redis that loses data is outside it) and the signed tokens (\<open>jwt_contract\<close>: a token decodes to its claims until
  it expires).

  \<^bold>\<open>Not modelled.\<close> The HTML pages that only show a list, the routers of the reports and of the health
  check and e-mail, which wrap or surround these services; the validation of answers by the response models;
  the update of a warehouse by a form, which sets whatever attributes the form names; spreadsheet files; the sites where the service functions are decorated with \<open>cached\<close> and
  \<open>distributed_lock\<close> (the decorators themselves are modelled, and the cache of routes with its function); the length limits of columns, the
  rounding of stored numerics and foreign key checks of the database, apart from the actions of a
  deletion that the code relies on; the 28 digits of the decimal context. Text is a list of
  code points below 256; constants outside that range are written as their UTF-8 bytes. Error messages keep their
  text but leave out embedded numbers, and the arrow in them is written \<open>->\<close>.
\<close>

end
